(* ===== verification/Prelude.thy ===== *)
theory Prelude
  imports
    Main
    "HOL-Library.AList"
    "HOL-Library.Multiset"
    "HOL-Library.Product_Lexorder"
    "HOL-Library.List_Lexorder"
    "HOL-Library.Char_ord"
begin

text \<open>
  Shared vocabulary of the development.

  \<^item> Exceptions: the code throws a small number of error classes. A function that may throw
    returns \<open>'a outcome\<close>, that is \<open>js_error + 'a\<close>; sequencing is \<open>bindE\<close>, a loop over an array
    that may throw is \<open>foldE\<close> (accumulator) or \<open>mapE\<close> (one result per element).
    \<open>ColumnError\<close> is the plain \<open>Error\<close> of the column codec; \<open>ConstraintViolation c\<close> is the error
    with which the database refuses a write that breaks the constraint \<open>c\<close> of the schema.
  \<^item> Lookups: a JavaScript \<open>Map\<close> that is only looked up is a HOL map; one whose insertion
    order is read is an association list (\<open>AList.update\<close> keeps the position of a present
    key and appends an absent one, exactly as \<open>Map.prototype.set\<close> does).
  \<^item> The lemma collection \<open>outcome_simps\<close> decomposes a successful sequence of steps.
\<close>

section \<open>Exceptions\<close>

datatype js_error =
    PrecisionError
  | MoneyKernelError
  | MalformedTimestampError
  | MalformedInstantError
  | InvalidTimezoneError
  | MalformedIdError
  | TypeError
  | RangeError
  | UnsupportedCurrencyError
  | BackdatedCorrectionError
  | ColumnError
  | ConstraintViolation string
  | AuthConfigError
  | PlatformConfigError

type_synonym 'a outcome = "js_error + 'a"

named_theorems outcome_simps "inversion of successful and failing steps"

definition bindE :: "'a outcome \<Rightarrow> ('a \<Rightarrow> 'b outcome) \<Rightarrow> 'b outcome" where
  "bindE m f = (case m of Inl e \<Rightarrow> Inl e | Inr x \<Rightarrow> f x)"

lemma bindE_Inl [simp]: "bindE (Inl e) f = Inl e"
  by (simp add: bindE_def)

lemma bindE_Inr [simp]: "bindE (Inr x) f = f x"
  by (simp add: bindE_def)

lemma bindE_eq_Inr [outcome_simps]:
  "bindE m f = Inr y \<longleftrightarrow> (\<exists>x. m = Inr x \<and> f x = Inr y)"
  by (cases m) auto

lemma bindE_eq_Inl [outcome_simps]:
  "bindE m f = Inl e \<longleftrightarrow> m = Inl e \<or> (\<exists>x. m = Inr x \<and> f x = Inl e)"
  by (cases m) auto

lemma bindE_cong [fundef_cong]:
  "m = m' \<Longrightarrow> (\<And>x. m' = Inr x \<Longrightarrow> f x = g x) \<Longrightarrow> bindE m f = bindE m' g"
  by (cases m') auto

fun mapE :: "('a \<Rightarrow> 'b outcome) \<Rightarrow> 'a list \<Rightarrow> 'b list outcome" where
  "mapE f [] = Inr []"
| "mapE f (x # xs) = bindE (f x) (\<lambda>y. bindE (mapE f xs) (\<lambda>ys. Inr (y # ys)))"

fun foldE :: "('s \<Rightarrow> 'a \<Rightarrow> 's outcome) \<Rightarrow> 's \<Rightarrow> 'a list \<Rightarrow> 's outcome" where
  "foldE f s [] = Inr s"
| "foldE f s (x # xs) = bindE (f s x) (\<lambda>s'. foldE f s' xs)"

lemma mapE_eq_Inr: "mapE f xs = Inr ys \<longleftrightarrow> list_all2 (\<lambda>x y. f x = Inr y) xs ys"
proof (induction xs arbitrary: ys)
  case Nil
  then show ?case by auto
next
  case (Cons x xs)
  then show ?case
    by (cases ys) (auto simp: outcome_simps)
qed

lemma mapE_all_Inr: "(\<And>x. x \<in> set xs \<Longrightarrow> f x = Inr (g x)) \<Longrightarrow> mapE f xs = Inr (map g xs)"
  by (induction xs) auto

lemma mapE_map_fst:
  assumes "mapE f xs = Inr ys" and "\<And>x y. f x = Inr y \<Longrightarrow> h y = k x"
  shows "map h ys = map k xs"
proof -
  have "list_all2 (\<lambda>x y. f x = Inr y) xs ys"
    using assms(1) by (simp add: mapE_eq_Inr)
  then show ?thesis
  proof (induction rule: list_all2_induct)
    case Nil
    then show ?case by simp
  next
    case (Cons x xs y ys)
    then show ?case using assms(2) [of x y] by simp
  qed
qed

lemma mapE_length: "mapE f xs = Inr ys \<Longrightarrow> length ys = length xs"
  by (auto simp: mapE_eq_Inr dest: list_all2_lengthD)

lemma mapE_in_set:
  assumes "mapE f xs = Inr ys" and "y \<in> set ys"
  obtains x where "x \<in> set xs" and "f x = Inr y"
proof -
  have "list_all2 (\<lambda>x y. f x = Inr y) xs ys"
    using assms(1) by (simp add: mapE_eq_Inr)
  then have "\<exists>x \<in> set xs. f x = Inr y"
    using assms(2) by (induction rule: list_all2_induct) auto
  then show ?thesis using that by blast
qed

lemma foldE_invariant:
  assumes "foldE f s xs = Inr t" and "P s"
    and step: "\<And>s x s'. P s \<Longrightarrow> x \<in> set xs \<Longrightarrow> f s x = Inr s' \<Longrightarrow> P s'"
  shows "P t"
  using assms(1,2) step
proof (induction xs arbitrary: s)
  case Nil
  then show ?case by simp
next
  case (Cons x xs)
  obtain s' where s': "f s x = Inr s'" "foldE f s' xs = Inr t"
    using Cons.prems(1) by (auto simp: bindE_eq_Inr)
  have "P s'"
    by (rule Cons.prems(3) [OF Cons.prems(2) _ s'(1)]) simp
  moreover have "\<And>s y s'. P s \<Longrightarrow> y \<in> set xs \<Longrightarrow> f s y = Inr s' \<Longrightarrow> P s'"
    by (rule Cons.prems(3)) simp_all
  ultimately show ?case
    using Cons.IH [OF s'(2)] by blast
qed

lemma foldE_append:
  "foldE f s (xs @ ys) = bindE (foldE f s xs) (\<lambda>s'. foldE f s' ys)"
proof (induction xs arbitrary: s)
  case Nil
  then show ?case by simp
next
  case (Cons x xs)
  then show ?case by (cases "f s x") auto
qed

section \<open>Sums and lookups over lists with distinct keys\<close>

lemma sum_list_distinct_keys:
  "distinct (map k xs) \<Longrightarrow> set ys \<subseteq> set (map k xs) \<Longrightarrow> distinct ys \<Longrightarrow>
   (\<Sum>x\<leftarrow>xs. if k x \<in> set ys then 1 else (0::int)) = int (length ys)"
proof -
  assume d: "distinct (map k xs)" and sub: "set ys \<subseteq> set (map k xs)" and dy: "distinct ys"
  have "(\<Sum>x\<leftarrow>xs. if k x \<in> set ys then 1 else (0::int))
      = (\<Sum>y\<leftarrow>map k xs. if y \<in> set ys then 1 else 0)"
    by (simp add: comp_def)
  also have "\<dots> = (\<Sum>y\<in>set (map k xs). if y \<in> set ys then 1 else 0)"
    using d by (rule sum_list_distinct_conv_sum_set)
  also have "\<dots> = int (card (set ys))"
    using sub by (simp add: sum.If_cases Int_absorb1)
  also have "\<dots> = int (length ys)"
    using dy by (simp add: distinct_card)
  finally show ?thesis .
qed

lemma map_of_map_pair:
  "map_of (map (\<lambda>x. (k x, v x)) xs) y = map_option v (find (\<lambda>x. k x = y) xs)"
  by (induction xs) auto

lemma map_of_keyed:
  "distinct (map k xs) \<Longrightarrow> x \<in> set xs \<Longrightarrow> map_of (map (\<lambda>x. (k x, v x)) xs) (k x) = Some (v x)"
  by (induction xs) (auto simp: image_iff)

lemma sum_list_lookup:
  assumes "distinct (map fst m)" and "map fst m = ks"
  shows "(\<Sum>k\<leftarrow>ks. the (map_of m k)) = (\<Sum>p\<leftarrow>m. snd p)"
proof -
  have "map (\<lambda>k. the (map_of m k)) (map fst m) = map snd m"
    using assms(1) by (auto simp: map_of_is_SomeI)
  then show ?thesis
    using assms(2) by (metis map_map)
qed

lemma sum_list_diff:
  "(\<Sum>x\<leftarrow>xs. f x - g x) = (\<Sum>x\<leftarrow>xs. f x) - (\<Sum>x\<leftarrow>xs. (g x :: int))"
  by (induction xs) auto

lemma sum_list_uminus:
  "(\<Sum>x\<leftarrow>xs. - f x) = - (\<Sum>x\<leftarrow>xs. (f x :: int))"
  by (induction xs) auto

lemma sum_list_mono_le:
  "(\<And>x. x \<in> set xs \<Longrightarrow> f x \<le> (g x :: int)) \<Longrightarrow> (\<Sum>x\<leftarrow>xs. f x) \<le> (\<Sum>x\<leftarrow>xs. g x)"
  by (induction xs) (auto intro!: add_mono)

lemma sum_list_nonneg_int: "(\<And>x. x \<in> set xs \<Longrightarrow> 0 \<le> (f x :: int)) \<Longrightarrow> 0 \<le> (\<Sum>x\<leftarrow>xs. f x)"
  by (induction xs) auto

lemma sum_list_const_mult: "(\<Sum>x\<leftarrow>xs. c * f x) = c * (\<Sum>x\<leftarrow>xs. (f x :: int))"
  by (induction xs) (auto simp: algebra_simps)

lemma sum_list_mset_cong: "mset xs = mset ys \<Longrightarrow> (\<Sum>x\<leftarrow>xs. f x) = (\<Sum>x\<leftarrow>ys. (f x :: int))"
  by (metis mset_map sum_mset_sum_list)

section \<open>Maps built from entries\<close>

text \<open>\<open>new Map(entries)\<close>: a later entry replaces an earlier one with the same key.\<close>

definition js_map :: "('k \<times> 'v) list \<Rightarrow> 'k \<Rightarrow> 'v option" where
  "js_map kvs = map_of (rev kvs)"

lemma js_map_keyed:
  "distinct (map k xs) \<Longrightarrow> x \<in> set xs \<Longrightarrow> js_map (map (\<lambda>x. (k x, v x)) xs) (k x) = Some (v x)"
  using map_of_keyed [of k "rev xs" x v] by (simp add: js_map_def rev_map [symmetric])

lemma js_map_None: "k \<notin> fst ` set kvs \<Longrightarrow> js_map kvs k = None"
  by (simp add: js_map_def map_of_eq_None_iff)

lemma js_map_Some: "js_map kvs k = Some v \<Longrightarrow> (k, v) \<in> set kvs"
  by (auto simp: js_map_def dest: map_of_SomeD)

text \<open>Adding to one entry of a sum over distinct keys.\<close>

lemma sum_list_update:
  assumes "distinct ks" and "k \<in> set ks" and "\<And>j. j \<noteq> k \<Longrightarrow> g j = f j"
  shows "(\<Sum>j\<leftarrow>ks. g j) = (\<Sum>j\<leftarrow>ks. f j) + (g k - (f k :: int))"
  using assms(1,2)
proof (induction ks)
  case Nil
  then show ?case by simp
next
  case (Cons a ks)
  show ?case
  proof (cases "a = k")
    case True
    then have "(\<Sum>j\<leftarrow>ks. g j) = (\<Sum>j\<leftarrow>ks. f j)"
      using Cons.prems assms(3) by (metis (no_types, lifting) distinct.simps(2) map_eq_conv)
    then show ?thesis using True by simp
  next
    case False
    then show ?thesis using Cons assms(3) by simp
  qed
qed

section \<open>Lexicographic pairs\<close>

lemma pair_less:
  fixes a c :: "'a::linorder" and b d :: "'b::linorder"
  shows "(a, b) < (c, d) \<longleftrightarrow> a < c \<or> a = c \<and> b < d"
  by (auto simp: less_prod_def)

section \<open>Sorting by an injective key\<close>

text \<open>A stable sort on keys that are pairwise different is a function of the multiset alone.\<close>

lemma sort_key_unique:
  assumes "mset xs = mset ys" and "inj_on f (set xs)"
  shows "sort_key f xs = sort_key f ys"
proof (rule properties_for_sort_key)
  show "mset (sort_key f ys) = mset xs" using assms(1) by simp
  show "sorted (map f (sort_key f ys))" by simp
next
  fix k
  assume "k \<in> set (sort_key f ys)"
  show "filter (\<lambda>x. f k = f x) (sort_key f ys) = filter (\<lambda>x. f k = f x) xs"
  proof -
    have eq: "mset (filter (\<lambda>x. f k = f x) (sort_key f ys)) = mset (filter (\<lambda>x. f k = f x) xs)"
      using assms(1) by (simp add: mset_filter)
    have k: "k \<in> set xs"
      using \<open>k \<in> set (sort_key f ys)\<close> assms(1) by (metis set_mset_mset set_sort)
    have all: "\<forall>x \<in> set (filter (\<lambda>x. f k = f x) zs). x = k" if "set zs = set xs" for zs
      using assms(2) k that by (auto dest: inj_onD)
    have rep: "filter (\<lambda>x. f k = f x) zs = replicate (length (filter (\<lambda>x. f k = f x) zs)) k"
      if "set zs = set xs" for zs
      using all [OF that] by (metis replicate_eqI length_replicate)
    have "set (sort_key f ys) = set xs"
      using assms(1) by (metis set_mset_mset set_sort)
    then show ?thesis
      using rep [of xs] rep [of "sort_key f ys"] eq by (metis size_mset)
  qed
qed

lemma inj_on_of_distinct_map: "distinct (map f xs) \<Longrightarrow> inj_on f (set xs)"
  by (simp add: distinct_map)

lemma sum_list_all_zero: "(\<And>x. x \<in> set xs \<Longrightarrow> f x = (0::int)) \<Longrightarrow> (\<Sum>x\<leftarrow>xs. f x) = 0"
  by (induction xs) auto

end
