(* ===== verification/Doubles.thy ===== *)
theory Doubles
  imports Prelude "HOL-Library.Log_Nat"
begin

text \<open>
  The two places where the code computes with JavaScript numbers that are not integers.

  A JavaScript \<open>number\<close> is an IEEE-754 double: 53 significant bits, round to nearest, ties to
  even. Integer sums and products are exact as long as they are checked with
  \<open>Number.isSafeInteger\<close>, which is how the money kernel uses them; a quotient is not an
  integer and has to be rounded. \<open>fl_ratio p q\<close> is the double nearest to \<open>p / q\<close>, as a pair
  (mantissa, exponent) that stands for \<open>m * 2 ^ e\<close>; overflow and subnormal numbers are out of
  reach of the magnitudes that occur (below \<open>2 ^ 130\<close>) and are not modelled.
  The main fact, \<open>floor_fl_ratio_exact\<close>, is that \<open>Math.floor(p / q)\<close> is the exact integer
  quotient while \<open>p\<close> is below \<open>2 ^ 53\<close>.
\<close>

section \<open>Integers as JavaScript numbers\<close>

definition MAX_SAFE_INTEGER :: int where
  "MAX_SAFE_INTEGER = 9007199254740991"

text \<open>
  A run-time number, as far as \<open>Number.isSafeInteger\<close> and \<open>Number.isFinite\<close> tell numbers
  apart: an integer (of any magnitude), negative zero, a finite value with a fraction, an
  infinity or not-a-number. The fraction itself is never read by modelled code.
\<close>

datatype js_number = JInt int | JNegZero | JFrac | JInfinite | JNaN

fun is_safe_integer :: "js_number \<Rightarrow> bool" where
  "is_safe_integer (JInt n) = (\<bar>n\<bar> \<le> MAX_SAFE_INTEGER)"
| "is_safe_integer JNegZero = True"
| "is_safe_integer _ = False"

text \<open>The integer a safe number stands for; \<open>-0\<close> and \<open>0\<close> are the same integer.\<close>

fun js_int :: "js_number \<Rightarrow> int" where
  "js_int (JInt n) = n"
| "js_int _ = 0"

abbreviation safe_int :: "int \<Rightarrow> bool" where
  "safe_int n \<equiv> is_safe_integer (JInt n)"

lemma safe_int_iff: "safe_int n \<longleftrightarrow> - 9007199254740991 \<le> n \<and> n \<le> 9007199254740991"
  by (auto simp: MAX_SAFE_INTEGER_def)

declare is_safe_integer.simps(1) [simp del]

lemma safe_int_minus [simp]: "safe_int (- n) = safe_int n"
  by (auto simp: safe_int_iff)

lemma safe_int_abs [simp]: "safe_int \<bar>n\<bar> = safe_int n"
  by (auto simp: safe_int_iff)

section \<open>Rounding to 53 bits\<close>

text \<open>The integer nearest to \<open>n / d\<close> for \<open>d > 0\<close>, a tie going to the even one.\<close>

definition round_half_even :: "int \<Rightarrow> int \<Rightarrow> int" where
  "round_half_even n d =
     (let q = n div d; r = n mod d
      in if 2 * r < d \<or> (2 * r = d \<and> even q) then q else q + 1)"

definition pow2 :: "int \<Rightarrow> int" where
  "pow2 e = 2 ^ nat e"

text \<open>\<open>n / d * 2 ^ (- e)\<close> as a fraction of integers.\<close>

definition scaled_num :: "int \<Rightarrow> int \<Rightarrow> int" where
  "scaled_num p e = (if e \<ge> 0 then p else p * pow2 (- e))"

definition scaled_den :: "int \<Rightarrow> int \<Rightarrow> int" where
  "scaled_den q e = (if e \<ge> 0 then q * pow2 e else q)"

text \<open>The exponent that leaves a 53-bit mantissa: \<open>2 ^ 52 \<le> (p / q) / 2 ^ e < 2 ^ 53\<close>.\<close>

definition fl_exponent :: "int \<Rightarrow> int \<Rightarrow> int" where
  "fl_exponent p q =
     (let e = bitlen p - bitlen q - 53
      in if scaled_num p e \<ge> pow2 53 * scaled_den q e then e + 1 else e)"

definition fl_ratio :: "int \<Rightarrow> int \<Rightarrow> int \<times> int" where
  "fl_ratio p q =
     (if p = 0 then (0, 0)
      else let e = fl_exponent \<bar>p\<bar> q
           in (round_half_even (scaled_num p e) (scaled_den q e), e))"

text \<open>\<open>Math.floor\<close> of a double.\<close>

fun floor_fl :: "int \<times> int \<Rightarrow> int" where
  "floor_fl (m, e) = (if e \<ge> 0 then m * pow2 e else m div pow2 (- e))"

text \<open>A double times an integer, and a double over a positive integer, each rounded.\<close>

fun fl_times :: "int \<times> int \<Rightarrow> int \<Rightarrow> int \<times> int" where
  "fl_times (m, e) k = (if e \<ge> 0 then fl_ratio (m * pow2 e * k) 1 else fl_ratio (m * k) (pow2 (- e)))"

fun fl_over :: "int \<times> int \<Rightarrow> int \<Rightarrow> int \<times> int" where
  "fl_over (m, e) k = (if e \<ge> 0 then fl_ratio (m * pow2 e) k else fl_ratio m (pow2 (- e) * k))"

section \<open>Facts about the rounding\<close>

lemma pow2_pos [simp]: "0 < pow2 e"
  by (simp add: pow2_def)

lemma pow2_add: "0 \<le> a \<Longrightarrow> 0 \<le> b \<Longrightarrow> pow2 (a + b) = pow2 a * pow2 b"
  by (simp add: pow2_def nat_add_distrib power_add)

lemma pow2_mono: "a \<le> b \<Longrightarrow> pow2 a \<le> pow2 b"
  by (simp add: pow2_def nat_mono)

lemma round_half_even_ge:
  assumes "0 < d" and "k * d \<le> n"
  shows "k \<le> round_half_even n d"
proof -
  have "k \<le> n div d"
    using zdiv_mono1 [OF assms(2,1)] assms(1) by simp
  then show ?thesis
    by (simp add: round_half_even_def Let_def)
qed

lemma round_half_even_upper:
  assumes "0 < d"
  shows "2 * d * round_half_even n d \<le> 2 * n + d"
proof -
  define q r where "q = n div d" and "r = n mod d"
  have n: "n = d * q + r" and r: "0 \<le> r" "r < d"
    using assms by (simp_all add: q_def r_def)
  have "round_half_even n d = (if 2 * r < d \<or> 2 * r = d \<and> even q then q else q + 1)"
    by (simp add: round_half_even_def Let_def q_def r_def)
  then show ?thesis
    using n r by (auto simp: distrib_left mult.assoc)
qed

lemma round_half_even_less:
  assumes "0 < d" and "2 * n + d < 2 * (k * d)"
  shows "round_half_even n d < k"
proof (rule ccontr)
  assume "\<not> ?thesis"
  then have "2 * d * k \<le> 2 * d * round_half_even n d"
    using assms(1) by simp
  also have "\<dots> \<le> 2 * n + d"
    using assms(1) by (rule round_half_even_upper)
  finally show False
    using assms(2) by (simp add: mult.commute mult.left_commute)
qed

lemma round_half_even_one [simp]: "round_half_even n 1 = n"
  by (simp add: round_half_even_def)

lemma bitlen_lower: "0 < p \<Longrightarrow> pow2 (bitlen p - 1) \<le> p"
  by (simp add: pow2_def bitlen_bounds)

lemma bitlen_upper: "0 < p \<Longrightarrow> p < pow2 (bitlen p)"
  by (simp add: pow2_def bitlen_bounds)

text \<open>The first guess at the exponent never leaves fewer than 53 bits.\<close>

lemma scaled_guess:
  assumes "0 < p" and "0 < q" and e: "e = bitlen p - bitlen q - 53"
  shows "pow2 52 * scaled_den q e \<le> scaled_num p e"
proof (cases "e \<ge> 0")
  case True
  have "pow2 52 * (q * pow2 e) \<le> pow2 52 * (pow2 (bitlen q) * pow2 e)"
    using bitlen_upper [OF assms(2)] by simp
  also have "\<dots> = pow2 (52 + (bitlen q + e))"
    using True by (simp add: pow2_add bitlen_nonneg)
  also have "52 + (bitlen q + e) = bitlen p - 1"
    by (simp add: e)
  also have "pow2 \<dots> \<le> p" by (rule bitlen_lower [OF assms(1)])
  finally show ?thesis
    using True by (simp add: scaled_den_def scaled_num_def)
next
  case False
  have bp: "0 \<le> bitlen p - 1"
    using assms(1) bitlen_nonneg [of p] bitlen_eq_zero_iff [of p] by linarith
  have "pow2 52 * q \<le> pow2 52 * pow2 (bitlen q)"
    using bitlen_upper [OF assms(2)] by simp
  also have "\<dots> = pow2 (52 + bitlen q)"
    by (simp add: pow2_add bitlen_nonneg)
  also have "52 + bitlen q = (bitlen p - 1) + (- e)"
    by (simp add: e)
  also have "pow2 \<dots> = pow2 (bitlen p - 1) * pow2 (- e)"
    using False bp by (intro pow2_add) auto
  also have "\<dots> \<le> p * pow2 (- e)"
    using bitlen_lower [OF assms(1)] by simp
  finally show ?thesis
    using False by (simp add: scaled_den_def scaled_num_def)
qed

lemma scaled_step:
  "scaled_num p e \<ge> pow2 53 * scaled_den q e \<Longrightarrow>
   pow2 52 * scaled_den q (e + 1) \<le> scaled_num p (e + 1)"
proof -
  assume h: "scaled_num p e \<ge> pow2 53 * scaled_den q e"
  have p53: "pow2 53 = 2 * pow2 52"
    by (simp add: pow2_def)
  consider "e \<ge> 0" | "e = -1" | "e < -1" by linarith
  then show ?thesis
  proof cases
    case 1
    then have "pow2 (e + 1) = 2 * pow2 e" by (simp add: pow2_add) (simp add: pow2_def)
    then show ?thesis using 1 h p53
      by (simp add: scaled_den_def scaled_num_def mult.left_commute)
  next
    case 2
    then show ?thesis using h p53
      by (simp add: scaled_den_def scaled_num_def pow2_def)
  next
    case 3
    have "pow2 (- e) = pow2 (1 + (- e - 1))" by simp
    also have "\<dots> = 2 * pow2 (- e - 1)"
      using 3 by (subst pow2_add) (auto simp: pow2_def)
    finally show ?thesis using 3 h p53
      by (simp add: scaled_den_def scaled_num_def)
  qed
qed

lemma fl_exponent_bits:
  assumes "0 < p" and "0 < q"
  shows "pow2 52 * scaled_den q (fl_exponent p q) \<le> scaled_num p (fl_exponent p q)"
  using scaled_guess [OF assms refl] scaled_step [of q "bitlen p - bitlen q - 53" p]
  by (simp add: fl_exponent_def Let_def)

text \<open>\<open>Math.floor(p / q)\<close> is the exact quotient for a safe numerator.\<close>

theorem floor_fl_ratio_exact:
  assumes "0 \<le> p" and "p < pow2 53" and "0 < q"
  shows "floor_fl (fl_ratio p q) = p div q"
proof (cases "p = 0")
  case True
  then show ?thesis by (simp add: fl_ratio_def)
next
  case False
  then have p: "0 < p" using assms(1) by simp
  define e where "e = fl_exponent p q"
  have bits: "pow2 52 * scaled_den q e \<le> scaled_num p e"
    unfolding e_def by (rule fl_exponent_bits [OF p assms(3)])
  have ratio: "fl_ratio p q = (round_half_even (scaled_num p e) (scaled_den q e), e)"
    using p by (simp add: fl_ratio_def e_def Let_def)
  show ?thesis
  proof (cases "e \<ge> 0")
    case True
    have "pow2 52 * (q * pow2 e) < pow2 52 * 2"
      using bits assms(2) True by (simp add: scaled_den_def scaled_num_def pow2_def)
    then have "q * pow2 e < 2" by simp
    moreover have "1 \<le> q" "1 \<le> pow2 e" using assms(3) pow2_pos [of e] by linarith+
    ultimately have "q = 1" "pow2 e = 1"
      by (smt (verit) mult_le_cancel_left1 mult_le_cancel_right1)+
    then show ?thesis
      using True by (simp add: ratio [unfolded \<open>q = 1\<close>] scaled_den_def scaled_num_def)
  next
    case False
    define K where "K = pow2 (- e)"
    define n where "n = p div q"
    define m where "m = round_half_even (p * K) q"
    have K: "0 < K" by (simp add: K_def)
    have "pow2 52 * q \<le> p * K"
      using bits False by (simp add: scaled_den_def scaled_num_def K_def)
    also have "\<dots> < pow2 53 * K"
      using assms(2) K by simp
    finally have q2: "q < 2 * K" by (simp add: pow2_def)
    have "n * q + p mod q = p" "0 \<le> p mod q" "p mod q < q"
      using assms(3) by (simp_all add: n_def)
    then have nq: "n * q \<le> p" "p + 1 \<le> (n + 1) * q"
      by (simp_all add: distrib_right)
    have lower: "n * K \<le> m"
      unfolding m_def
    proof (rule round_half_even_ge)
      show "n * K * q \<le> p * K"
        using mult_right_mono [OF nq(1), of K] K by (simp add: mult.commute mult.left_commute)
    qed (rule assms(3))
    have upper: "m < (n + 1) * K"
      unfolding m_def
    proof (rule round_half_even_less)
      have "(p + 1) * K \<le> (n + 1) * q * K"
        using mult_right_mono [OF nq(2), of K] K by simp
      then show "2 * (p * K) + q < 2 * ((n + 1) * K * q)"
        using q2 by (simp add: algebra_simps)
    qed (rule assms(3))
    have "m div K = n"
      using lower upper K
      by (intro int_div_pos_eq [where r = "m - K * n"]) (simp_all add: algebra_simps)
    then show ?thesis
      using False by (simp add: ratio scaled_den_def scaled_num_def m_def n_def K_def)
  qed
qed

lemma floor_fl_ratio_safe:
  "0 \<le> p \<Longrightarrow> safe_int p \<Longrightarrow> 0 < q \<Longrightarrow> floor_fl (fl_ratio p q) = p div q"
  by (rule floor_fl_ratio_exact) (simp_all add: pow2_def safe_int_iff)

end
