(* ===== verification/Money.thy ===== *)
theory Money
  imports Doubles
begin

text \<open>
  Money: \<open>packages/contracts/src/money.ts\<close> (the checked constructors of \<open>Minor\<close> and \<open>Bps\<close> and
  the decimal-string parser) and the arithmetic half of \<open>packages/core/src/money.ts\<close> (sums,
  differences, rounding division, basis points, clamps, VAT split). The allocator of the same
  file is in theory \<open>Allocation\<close>.

  A \<open>Minor\<close> is an \<open>int\<close>; the bound \<open>MAX_MINOR\<close> and the safe-integer checks are kept at
  every place where the code makes them, with the error it throws. A sum or product of two safe
  integers is computed exactly here and then checked: a double result is rounded only beyond
  \<open>2 ^ 53\<close>, rounding is monotone and \<open>2 ^ 53\<close> is representable, so the check has the same
  answer on the rounded value. A quotient is rounded as a double (theory \<open>Doubles\<close>).
\<close>

section \<open>The checked constructors\<close>

definition MAX_MINOR :: int where
  "MAX_MINOR = 900719925474"

definition isMinor :: "js_number \<Rightarrow> bool" where
  "isMinor v \<longleftrightarrow> is_safe_integer v \<and> js_int v \<le> MAX_MINOR \<and> js_int v \<ge> - MAX_MINOR"

definition isBps :: "js_number \<Rightarrow> bool" where
  "isBps v \<longleftrightarrow> is_safe_integer v"

definition toMinor :: "js_number \<Rightarrow> int outcome" where
  "toMinor v =
     (if \<not> is_safe_integer v then Inl PrecisionError
      else if js_int v > MAX_MINOR \<or> js_int v < - MAX_MINOR then Inl PrecisionError
      else Inr (js_int v))"

definition toBps :: "js_number \<Rightarrow> int outcome" where
  "toBps v = (if \<not> is_safe_integer v then Inl PrecisionError else Inr (js_int v))"

abbreviation to_minor :: "int \<Rightarrow> int outcome" where
  "to_minor n \<equiv> toMinor (JInt n)"

definition in_range :: "int \<Rightarrow> bool" where
  "in_range n \<longleftrightarrow> - MAX_MINOR \<le> n \<and> n \<le> MAX_MINOR"

subsection \<open>Currencies\<close>

definition CURRENCY_CODES :: "string list" where
  "CURRENCY_CODES = [''SAR'', ''AED'', ''KWD'', ''BHD'', ''USD'']"

text \<open>A property read of an object literal: nothing for a code that is not one of its keys.\<close>

definition EXPONENTS :: "(string \<times> nat) list" where
  "EXPONENTS = [(''SAR'', 2), (''AED'', 2), (''KWD'', 3), (''BHD'', 3), (''USD'', 2)]"

definition currencyExponent :: "string \<Rightarrow> nat option" where
  "currencyExponent currency = map_of EXPONENTS currency"

subsection \<open>Decimal strings\<close>

definition is_digit :: "char \<Rightarrow> bool" where
  "is_digit c \<longleftrightarrow> c \<in> set ''0123456789''"

definition digit_val :: "char \<Rightarrow> int" where
  "digit_val c = of_char c - 48"

definition digits_val :: "string \<Rightarrow> int" where
  "digits_val ds = foldl (\<lambda>n c. 10 * n + digit_val c) 0 ds"

text \<open>The whitespace of \<open>String.prototype.trim\<close> that fits in one byte.\<close>

definition is_js_space :: "char \<Rightarrow> bool" where
  "is_js_space c \<longleftrightarrow> (of_char c :: nat) \<in> {9, 10, 11, 12, 13, 32, 160}"

definition js_trim :: "string \<Rightarrow> string" where
  "js_trim s = rev (dropWhile is_js_space (rev (dropWhile is_js_space s)))"

text \<open>The match of \<open>^([+-]?)(\d+)(?:\.(\d*))?$\<close>: negative sign, whole part, fraction.\<close>

definition match_decimal :: "string \<Rightarrow> (bool \<times> string \<times> string) option" where
  "match_decimal s =
     (let neg = (s \<noteq> [] \<and> hd s = CHR ''-'');
          body = (if s \<noteq> [] \<and> (hd s = CHR ''-'' \<or> hd s = CHR ''+'') then tl s else s);
          whole = takeWhile is_digit body;
          rest = dropWhile is_digit body
      in if whole = [] then None
         else if rest = [] then Some (neg, whole, [])
         else if hd rest = CHR ''.'' \<and> list_all is_digit (tl rest) then Some (neg, whole, tl rest)
         else None)"

definition assertExponent :: "nat \<Rightarrow> unit outcome" where
  "assertExponent e = (if e \<noteq> 0 \<and> e \<noteq> 2 \<and> e \<noteq> 3 then Inl PrecisionError else Inr ())"

definition toMinorFromDecimal :: "string \<Rightarrow> nat \<Rightarrow> int outcome" where
  "toMinorFromDecimal raw e =
     bindE (assertExponent e) (\<lambda>_.
     (case match_decimal (js_trim raw) of
        None \<Rightarrow> Inl PrecisionError
      | Some (neg, whole, fraction) \<Rightarrow>
          let kept = take e fraction @ replicate (e - length (take e fraction)) CHR ''0'';
              dropped = drop e fraction
          in if list_ex (\<lambda>c. is_digit c \<and> c \<noteq> CHR ''0'') dropped then Inl PrecisionError
             else let value = digits_val (whole @ kept)
                  in if \<not> safe_int value then Inl PrecisionError
                     else to_minor (if neg then - value else value)))"

section \<open>The kernel\<close>

definition addMinor :: "int list \<Rightarrow> int outcome" where
  "addMinor values =
     bindE
       (foldE (\<lambda>total v. let t = total + v in if \<not> safe_int t then Inl MoneyKernelError else Inr t)
         0 values)
       (\<lambda>total. to_minor total)"

definition subMinor :: "int \<Rightarrow> int \<Rightarrow> int outcome" where
  "subMinor a b = to_minor (a - b)"

definition negateMinor :: "int \<Rightarrow> int outcome" where
  "negateMinor v = to_minor (if v = 0 then 0 else - v)"

definition divRoundHalfAwayFromZero :: "int \<Rightarrow> int \<Rightarrow> int outcome" where
  "divRoundHalfAwayFromZero numerator denominator =
     (if \<not> safe_int denominator \<or> denominator \<le> 0 then Inl MoneyKernelError
      else if \<not> safe_int numerator then Inl MoneyKernelError
      else
        let negative = numerator < 0;
            absolute = (if negative then - numerator else numerator);
            whole = floor_fl (fl_ratio absolute denominator);
            remainder = absolute - whole * denominator;
            rounded = (if remainder * 2 \<ge> denominator then whole + 1 else whole)
        in Inr (if negative then - rounded else rounded))"

definition divRoundHalfAway :: "int \<Rightarrow> int \<Rightarrow> int outcome" where
  "divRoundHalfAway numerator denominator = divRoundHalfAwayFromZero numerator denominator"

definition mulBps :: "int \<Rightarrow> int \<Rightarrow> int outcome" where
  "mulBps value bps =
     (if \<not> safe_int bps then Inl MoneyKernelError
      else bindE (divRoundHalfAwayFromZero (value * bps) 10000) to_minor)"

text \<open>Bounds are finite integers here, so the \<open>Number.isFinite\<close> guard of the code never fires.\<close>

definition clampMinor :: "int \<Rightarrow> int option \<Rightarrow> int option \<Rightarrow> int outcome" where
  "clampMinor value mn mx =
     (let out1 = (case mn of Some m \<Rightarrow> (if value < m then m else value) | None \<Rightarrow> value);
          out2 = (case mx of Some m \<Rightarrow> (if out1 > m then m else out1) | None \<Rightarrow> out1)
      in to_minor out2)"

definition splitVatInclusive :: "int \<Rightarrow> int \<Rightarrow> (int \<times> int) outcome" where
  "splitVatInclusive gross vatRateBps =
     (if vatRateBps < 0 then Inl MoneyKernelError
      else bindE (divRoundHalfAwayFromZero (gross * 10000) (10000 + vatRateBps)) (\<lambda>q.
           bindE (to_minor q) (\<lambda>net.
           bindE (subMinor gross net) (\<lambda>vat. Inr (net, vat)))))"

definition assertInRange :: "int \<Rightarrow> int outcome" where
  "assertInRange v =
     (if \<not> safe_int v \<or> v > MAX_MINOR \<or> v < - MAX_MINOR then Inl MoneyKernelError else to_minor v)"

section \<open>Facts about the constructors\<close>

lemma in_range_safe: "in_range n \<Longrightarrow> safe_int n"
  by (simp add: in_range_def MAX_MINOR_def safe_int_iff)

lemma in_range_iff: "in_range n \<longleftrightarrow> - 900719925474 \<le> n \<and> n \<le> 900719925474"
  by (simp add: in_range_def MAX_MINOR_def)

lemma in_range_0 [simp]: "in_range 0"
  by (simp add: in_range_iff)

lemma in_range_minus [simp]: "in_range (- n) = in_range n"
  by (auto simp: in_range_iff)

lemma to_minor_eq_Inr [outcome_simps]: "to_minor n = Inr m \<longleftrightarrow> in_range n \<and> m = n"
  by (auto simp: toMinor_def in_range_def MAX_MINOR_def safe_int_iff)

lemma to_minor_in_range [simp]: "in_range n \<Longrightarrow> to_minor n = Inr n"
  by (simp add: to_minor_eq_Inr)

lemma toMinor_error: "toMinor v = Inl e \<Longrightarrow> e = PrecisionError"
  by (auto simp: toMinor_def split: if_splits)

lemma toMinor_iff_isMinor: "(\<exists>n. toMinor v = Inr n) \<longleftrightarrow> isMinor v"
  by (auto simp: toMinor_def isMinor_def)

lemma isMinor_in_range: "isMinor v \<Longrightarrow> in_range (js_int v)"
  by (simp add: isMinor_def in_range_def)

section \<open>Facts about the kernel\<close>

lemma add_loop_sum:
  assumes "foldE (\<lambda>total v. let t = total + v in if \<not> safe_int t then Inl MoneyKernelError else Inr t)
     s vs = Inr t"
  shows "t = s + sum_list vs"
  using assms
proof (induction vs arbitrary: s)
  case Nil
  then show ?case by simp
next
  case (Cons v vs)
  then show ?case
    by (auto simp: bindE_eq_Inr Let_def split: if_splits dest!: Cons.IH [unfolded Let_def])
qed

lemma addMinor_Inr [outcome_simps]:
  assumes "addMinor vs = Inr t"
  shows "t = sum_list vs \<and> in_range t"
  using assms add_loop_sum [of 0 vs]
  unfolding addMinor_def bindE_eq_Inr to_minor_eq_Inr by auto

lemma addMinor_sum: "addMinor vs = Inr t \<Longrightarrow> t = sum_list vs"
  by (simp add: addMinor_Inr)

lemma addMinor_range: "addMinor vs = Inr t \<Longrightarrow> in_range t"
  by (simp add: addMinor_Inr)

lemma addMinor_Nil [simp]: "addMinor [] = Inr 0"
  by (simp add: addMinor_def)

lemma subMinor_eq_Inr [outcome_simps]: "subMinor a b = Inr c \<longleftrightarrow> in_range (a - b) \<and> c = a - b"
  by (simp add: subMinor_def to_minor_eq_Inr)

lemma negateMinor_eq_Inr [outcome_simps]: "negateMinor a = Inr c \<longleftrightarrow> in_range a \<and> c = - a"
  by (auto simp: negateMinor_def to_minor_eq_Inr)

lemma assertInRange_eq_Inr [outcome_simps]: "assertInRange v = Inr w \<longleftrightarrow> in_range v \<and> w = v"
  by (auto simp: assertInRange_def in_range_iff MAX_MINOR_def safe_int_iff toMinor_def)

lemma assertInRange_error: "assertInRange v = Inl e \<Longrightarrow> e = MoneyKernelError"
  by (auto simp: assertInRange_def toMinor_def split: if_splits)

text \<open>The division as exact integer arithmetic: the double quotient is never off.\<close>

definition round_half_away :: "int \<Rightarrow> int \<Rightarrow> int" where
  "round_half_away n d = sgn n * ((2 * \<bar>n\<bar> + d) div (2 * d))"

lemma round_half_up_div:
  assumes "0 \<le> a" and "0 < (d::int)"
  shows "(if (a - a div d * d) * 2 \<ge> d then a div d + 1 else a div d) = (2 * a + d) div (2 * d)"
proof -
  define q r where "q = a div d" and "r = a mod d"
  have a: "a = q * d + r" and r: "0 \<le> r" "r < d"
    using assms(2) by (simp_all add: q_def r_def)
  have "(2 * a + d) div (2 * d) = (if r * 2 \<ge> d then q + 1 else q)"
  proof (cases "r * 2 \<ge> d")
    case True
    then show ?thesis
      using a r assms(2)
      by (intro int_div_pos_eq [where r = "2 * r - d"]) (simp_all add: algebra_simps)
  next
    case False
    then show ?thesis
      using a r assms(2)
      by (intro int_div_pos_eq [where r = "2 * r + d"]) (simp_all add: algebra_simps)
  qed
  moreover have "a - a div d * d = r"
    by (simp add: r_def minus_div_mult_eq_mod)
  ultimately show ?thesis by (simp add: q_def)
qed

lemma divRound_exact:
  assumes "safe_int n" and "safe_int d" and "0 < d"
  shows "divRoundHalfAwayFromZero n d = Inr (round_half_away n d)"
proof -
  have fl: "floor_fl (fl_ratio \<bar>n\<bar> d) = \<bar>n\<bar> div d"
    by (rule floor_fl_ratio_safe) (use assms in simp_all)
  have h: "(if (\<bar>n\<bar> - \<bar>n\<bar> div d * d) * 2 \<ge> d then \<bar>n\<bar> div d + 1 else \<bar>n\<bar> div d)
      = (2 * \<bar>n\<bar> + d) div (2 * d)"
    by (rule round_half_up_div) (use assms(3) in simp_all)
  have ab: "(if n < 0 then - n else n) = \<bar>n\<bar>" by simp
  have "divRoundHalfAwayFromZero n d
      = Inr (if n < 0 then - ((2 * \<bar>n\<bar> + d) div (2 * d)) else (2 * \<bar>n\<bar> + d) div (2 * d))"
    unfolding divRoundHalfAwayFromZero_def Let_def ab fl h using assms by simp
  moreover have "n = 0 \<Longrightarrow> (2 * \<bar>n\<bar> + d) div (2 * d) = 0"
    using assms(3) by (simp add: div_pos_pos_trivial)
  ultimately show ?thesis
    by (auto simp: round_half_away_def sgn_if)
qed

lemma divRound_eq_Inr [outcome_simps]:
  "divRoundHalfAwayFromZero n d = Inr q \<longleftrightarrow> safe_int n \<and> safe_int d \<and> 0 < d \<and> q = round_half_away n d"
proof
  assume "divRoundHalfAwayFromZero n d = Inr q"
  moreover from this have "safe_int n" "safe_int d" "0 < d"
    by (auto simp: divRoundHalfAwayFromZero_def split: if_splits)
  ultimately show "safe_int n \<and> safe_int d \<and> 0 < d \<and> q = round_half_away n d"
    by (simp add: divRound_exact)
qed (simp add: divRound_exact)

lemma round_half_away_odd: "round_half_away (- n) d = - round_half_away n d"
  by (simp add: round_half_away_def sgn_if)

lemma round_half_away_nonneg: "0 \<le> n \<Longrightarrow> 0 < d \<Longrightarrow> 0 \<le> round_half_away n d"
  by (simp add: round_half_away_def sgn_if pos_imp_zdiv_nonneg_iff)

lemma round_half_away_zero [simp]: "round_half_away 0 d = 0"
  by (simp add: round_half_away_def)

lemma round_half_away_error_pos:
  assumes "0 \<le> n" and "0 < d"
  shows "2 * (d * round_half_away n d) \<le> 2 * n + d" and "2 * n < 2 * (d * round_half_away n d) + d"
proof -
  define q where "q = (2 * n + d) div (2 * d)"
  have q: "2 * d * q \<le> 2 * n + d" "2 * n + d < 2 * d * q + 2 * d"
    using assms(2) pos_mod_bound [of "2 * d" "2 * n + d"] pos_mod_sign [of "2 * d" "2 * n + d"]
      mult_div_mod_eq [of "2 * d" "2 * n + d"] unfolding q_def by linarith+
  have r: "round_half_away n d = q"
    using assms by (cases "n = 0") (simp_all add: round_half_away_def q_def div_pos_pos_trivial)
  show "2 * (d * round_half_away n d) \<le> 2 * n + d" and "2 * n < 2 * (d * round_half_away n d) + d"
    using q by (simp_all add: r mult.assoc)
qed

lemma round_half_away_error:
  assumes "0 < d"
  shows "2 * \<bar>d * round_half_away n d - n\<bar> \<le> d"
proof (cases "0 \<le> n")
  case True
  then show ?thesis
    using round_half_away_error_pos [OF True assms] by (auto simp: abs_if)
next
  case False
  then have "0 \<le> - n" by simp
  from round_half_away_error_pos [OF this assms] show ?thesis
    by (auto simp: round_half_away_odd abs_if)
qed

lemma round_half_away_mono:
  assumes "0 \<le> m" and "m \<le> n" and "0 < d"
  shows "round_half_away m d \<le> round_half_away n d"
proof -
  have "(2 * m + d) div (2 * d) \<le> (2 * n + d) div (2 * d)"
    using assms by (intro zdiv_mono1) auto
  moreover have "round_half_away k d = (2 * k + d) div (2 * d)" if "0 \<le> k" for k
    using that assms(3) by (cases "k = 0") (simp_all add: round_half_away_def div_pos_pos_trivial)
  ultimately show ?thesis using assms by simp
qed

lemma round_half_away_le:
  assumes "0 \<le> n" and "0 < d" and "n \<le> d * k"
  shows "round_half_away n d \<le> k"
proof -
  have "2 * (d * round_half_away n d) < 2 * (d * (k + 1))"
    using round_half_away_error_pos(1) [OF assms(1,2)] assms by (simp add: distrib_left)
  then show ?thesis using assms(2) by simp
qed

lemma mulBps_Inr [outcome_simps]:
  "mulBps v b = Inr r \<longleftrightarrow>
     safe_int b \<and> safe_int (v * b) \<and> r = round_half_away (v * b) 10000 \<and> in_range r"
  by (auto simp: mulBps_def bindE_eq_Inr divRound_eq_Inr to_minor_eq_Inr safe_int_iff [of 10000])

lemma clampMinor_Inr:
  "clampMinor v mn mx = Inr r \<Longrightarrow>
     in_range r \<and> (\<forall>m. mx = Some m \<longrightarrow> r \<le> m) \<and>
     (\<forall>m. mn = Some m \<longrightarrow> (\<forall>m'. mx = Some m' \<longrightarrow> m \<le> m') \<longrightarrow> m \<le> r)"
  by (auto simp: clampMinor_def Let_def to_minor_eq_Inr split: option.splits if_splits)

lemma splitVatInclusive_Inr:
  "splitVatInclusive g r = Inr (net, vat) \<Longrightarrow> net + vat = g \<and> in_range net \<and> in_range vat"
  by (auto simp: splitVatInclusive_def bindE_eq_Inr to_minor_eq_Inr subMinor_eq_Inr split: if_splits)

end
