(* ===== verification/Time.thy ===== *)
theory Time
  imports Money
begin

text \<open>
  Instants and calendar dates: \<open>packages/contracts/src/time.ts\<close> and
  \<open>packages/core/src/engine/business-date.ts\<close>.

  A timestamp is a string of the fixed shape \<open>YYYY-MM-DDTHH:mm:ss.sssZ\<close>; the regular
  expression is the test of its fixed positions, and the calendar check is the arithmetic one of
  the code. \<open>Intl.DateTimeFormat(...).formatToParts\<close>, which knows the time zones, is the
  parameter \<open>intl\<close>: for a zone and a number of milliseconds it yields the year, month and day
  parts, or nothing where its constructor throws.

  The lemmas show that \<open>daysFromCivil\<close> counts days (each month advances it by the length of
  that month, the origin is 1970-01-01) and that the order of well-formed instants as strings,
  which the rest of the code compares, is the order of the moments they denote.
\<close>

section \<open>The calendar\<close>

definition DAYS_IN_MONTH :: "int list" where
  "DAYS_IN_MONTH = [31, 28, 31, 30, 31, 30, 31, 31, 30, 31, 30, 31]"

definition isLeapYear :: "int \<Rightarrow> bool" where
  "isLeapYear year \<longleftrightarrow> (year mod 4 = 0 \<and> year mod 100 \<noteq> 0) \<or> year mod 400 = 0"

text \<open>An array read that is \<open>undefined\<close> outside the array.\<close>

definition js_at :: "'a list \<Rightarrow> int \<Rightarrow> 'a option" where
  "js_at xs i = (if 0 \<le> i \<and> i < int (length xs) then Some (xs ! nat i) else None)"

definition isRealDate :: "int \<Rightarrow> int \<Rightarrow> int \<Rightarrow> bool" where
  "isRealDate year month day =
     (if day < 1 then False
      else case js_at DAYS_IN_MONTH (month - 1) of
        None \<Rightarrow> False
      | Some base \<Rightarrow> day \<le> (if month = 2 \<and> isLeapYear year then 29 else base))"

definition substr :: "string \<Rightarrow> nat \<Rightarrow> nat \<Rightarrow> string" where
  "substr s i n = take n (drop i s)"

definition digits_at :: "string \<Rightarrow> nat \<Rightarrow> nat \<Rightarrow> bool" where
  "digits_at s i n \<longleftrightarrow> list_all is_digit (substr s i n)"

text \<open>The match of \<open>INSTANT\<close>, as the seven numbers it captures.\<close>

definition match_instant :: "string \<Rightarrow> (int \<times> int \<times> int \<times> int \<times> int \<times> int \<times> int) option" where
  "match_instant s =
     (if length s = 24 \<and> digits_at s 0 4 \<and> substr s 4 1 = ''-'' \<and> digits_at s 5 2 \<and> substr s 7 1 = ''-''
         \<and> digits_at s 8 2 \<and> substr s 10 1 = ''T'' \<and> digits_at s 11 2 \<and> substr s 13 1 = '':''
         \<and> digits_at s 14 2 \<and> substr s 16 1 = '':'' \<and> digits_at s 17 2 \<and> substr s 19 1 = ''.''
         \<and> digits_at s 20 3 \<and> substr s 23 1 = ''Z''
      then Some (digits_val (substr s 0 4), digits_val (substr s 5 2), digits_val (substr s 8 2),
                 digits_val (substr s 11 2), digits_val (substr s 14 2), digits_val (substr s 17 2),
                 digits_val (substr s 20 3))
      else None)"

text \<open>The match of \<open>LOCAL_DATE\<close>.\<close>

definition match_local_date :: "string \<Rightarrow> (int \<times> int \<times> int) option" where
  "match_local_date s =
     (if length s = 10 \<and> digits_at s 0 4 \<and> substr s 4 1 = ''-'' \<and> digits_at s 5 2 \<and> substr s 7 1 = ''-''
         \<and> digits_at s 8 2
      then Some (digits_val (substr s 0 4), digits_val (substr s 5 2), digits_val (substr s 8 2))
      else None)"

definition isInstant :: "string \<Rightarrow> bool" where
  "isInstant raw =
     (case match_instant raw of
        None \<Rightarrow> False
      | Some (y, mo, d, h, mi, s, _) \<Rightarrow>
          if \<not> isRealDate y mo d then False else h \<le> 23 \<and> mi \<le> 59 \<and> s \<le> 59)"

definition isLocalDate :: "string \<Rightarrow> bool" where
  "isLocalDate raw =
     (case match_local_date raw of None \<Rightarrow> False | Some (y, mo, d) \<Rightarrow> isRealDate y mo d)"

definition toInstant :: "string \<Rightarrow> string outcome" where
  "toInstant raw =
     (case match_instant raw of
        None \<Rightarrow> Inl MalformedTimestampError
      | Some (y, mo, d, h, mi, s, _) \<Rightarrow>
          if \<not> isRealDate y mo d then Inl MalformedTimestampError
          else if h > 23 \<or> mi > 59 \<or> s > 59 then Inl MalformedTimestampError
          else Inr raw)"

definition toLocalDate :: "string \<Rightarrow> string outcome" where
  "toLocalDate raw =
     (case match_local_date raw of
        None \<Rightarrow> Inl MalformedTimestampError
      | Some (y, mo, d) \<Rightarrow> if \<not> isRealDate y mo d then Inl MalformedTimestampError else Inr raw)"

section \<open>The business date\<close>

text \<open>\<open>Math.floor\<close> of a quotient of small integers is \<open>div\<close> (theory \<open>Doubles\<close>).\<close>

definition daysFromCivil :: "int \<Rightarrow> int \<Rightarrow> int \<Rightarrow> int" where
  "daysFromCivil year month day =
     (let y = year - (if month \<le> 2 then 1 else 0);
          era = y div 400;
          yearOfEra = y - era * 400;
          dayOfYear = (153 * (month + (if month > 2 then -3 else 9)) + 2) div 5 + day - 1;
          dayOfEra = yearOfEra * 365 + yearOfEra div 4 - yearOfEra div 100 + dayOfYear
      in era * 146097 + dayOfEra - 719468)"

definition epochMillis :: "string \<Rightarrow> int outcome" where
  "epochMillis instant =
     (case match_instant instant of
        None \<Rightarrow> Inl MalformedInstantError
      | Some (y, mo, d, h, mi, s, ms) \<Rightarrow>
          if \<not> isInstant instant then Inl MalformedInstantError
          else Inr (daysFromCivil y mo d * 86400000 + h * 3600000 + mi * 60000 + s * 1000 + ms))"

type_synonym intl = "string \<Rightarrow> int \<Rightarrow> (string \<times> string \<times> string) option"

definition padStart0 :: "nat \<Rightarrow> string \<Rightarrow> string" where
  "padStart0 n s = replicate (n - length s) CHR ''0'' @ s"

definition businessDateOf :: "intl \<Rightarrow> string \<Rightarrow> string \<Rightarrow> string outcome" where
  "businessDateOf intl instant timezone =
     (if timezone = [] then Inl InvalidTimezoneError
      else bindE (epochMillis instant) (\<lambda>millis.
        (case intl timezone millis of
           None \<Rightarrow> Inl InvalidTimezoneError
         | Some (year, month, day) \<Rightarrow>
             toLocalDate (padStart0 4 year @ ''-'' @ month @ ''-'' @ day))))"

section \<open>Facts about the checks\<close>

lemma toInstant_iff: "toInstant raw = (if isInstant raw then Inr raw else Inl MalformedTimestampError)"
  by (auto simp: toInstant_def isInstant_def not_less split: option.splits)

lemma toLocalDate_iff: "toLocalDate raw = (if isLocalDate raw then Inr raw else Inl MalformedTimestampError)"
  by (auto simp: toLocalDate_def isLocalDate_def split: option.splits)

lemma epochMillis_total: "isInstant s \<Longrightarrow> \<exists>ms. epochMillis s = Inr ms"
  by (auto simp: epochMillis_def isInstant_def split: option.splits)

lemma epochMillis_error: "\<not> isInstant s \<Longrightarrow> epochMillis s = Inl MalformedInstantError"
  by (auto simp: epochMillis_def split: option.splits)

lemma businessDateOf_Inr:
  "businessDateOf intl i z = Inr d \<Longrightarrow> isLocalDate d"
  by (auto simp: businessDateOf_def bindE_eq_Inr toLocalDate_iff split: if_splits option.splits)

definition monthLength :: "int \<Rightarrow> int \<Rightarrow> int" where
  "monthLength year month = (if month = 2 \<and> isLeapYear year then 29 else DAYS_IN_MONTH ! nat (month - 1))"

lemma isRealDate_iff:
  "isRealDate y m d \<longleftrightarrow> 1 \<le> m \<and> m \<le> 12 \<and> 1 \<le> d \<and> d \<le> monthLength y m"
  by (auto simp: isRealDate_def js_at_def monthLength_def DAYS_IN_MONTH_def)

section \<open>The day count\<close>

text \<open>Days up to the March that begins the shifted year \<open>y\<close>.\<close>

definition year_days :: "int \<Rightarrow> int" where
  "year_days y = 365 * y + y div 4 - y div 100 + y div 400 - 719468"

lemma daysFromCivil_alt:
  "daysFromCivil y m d =
     year_days (y - (if m \<le> 2 then 1 else 0))
       + (153 * (m + (if m > 2 then -3 else 9)) + 2) div 5 + d - 1"
proof -
  have "e * 146097 + ((z - e * 400) * 365 + (z - e * 400) div 4 - (z - e * 400) div 100)
      = 365 * z + z div 4 - z div 100 + z div 400" if "e = z div 400" for e z :: int
  proof -
    have "(z - e * 400) div 4 = (z + (- (e * 100)) * 4) div 4"
      and "(z - e * 400) div 100 = (z + (- (e * 4)) * 100) div 100" by simp_all
    then have "(z - e * 400) div 4 = z div 4 - e * 100" "(z - e * 400) div 100 = z div 100 - e * 4"
      by (simp_all only: div_mult_self1)
    then show ?thesis using that by simp
  qed
  then show ?thesis
    by (simp add: daysFromCivil_def year_days_def Let_def)
qed

lemma daysFromCivil_epoch: "daysFromCivil 1970 1 1 = 0"
  by (simp add: daysFromCivil_def)

lemma daysFromCivil_day: "daysFromCivil y m d = daysFromCivil y m 1 + (d - 1)"
  by (simp add: daysFromCivil_alt)

lemma div_step:
  assumes "0 < (k::int)"
  shows "y div k = (y - 1) div k + (if y mod k = 0 then 1 else 0)"
proof -
  define q r where "q = y div k" and "r = y mod k"
  have y: "y = q * k + r" and r: "0 \<le> r" "r < k"
    using assms by (simp_all add: q_def r_def)
  have "(y - 1) div k = (if r = 0 then q - 1 else q)"
  proof (cases "r = 0")
    case True
    then show ?thesis using y r assms
      by (intro int_div_pos_eq [where r = "k - 1"]) (simp_all add: algebra_simps)
  next
    case False
    then show ?thesis using y r assms
      by (intro int_div_pos_eq [where r = "r - 1"]) (simp_all add: algebra_simps)
  qed
  then show ?thesis by (simp add: q_def r_def)
qed

lemma year_days_step: "year_days y = year_days (y - 1) + (if isLeapYear y then 366 else 365)"
proof -
  define p4 p100 p400 where "p4 = (y mod 4 = 0)" and "p100 = (y mod 100 = 0)" and "p400 = (y mod 400 = 0)"
  define a b c where "a = (y - 1) div 4" and "b = (y - 1) div 100" and "c = (y - 1) div 400"
  have "p400 \<longrightarrow> p100" "p100 \<longrightarrow> p4"
    unfolding p4_def p100_def p400_def by presburger+
  moreover have "year_days y = 365 * y + (a + (if p4 then 1 else 0)) - (b + (if p100 then 1 else 0))
      + (c + (if p400 then 1 else 0)) - 719468"
    unfolding year_days_def div_step [of 4 y, simplified] div_step [of 100 y, simplified]
      div_step [of 400 y, simplified] p4_def p100_def p400_def a_def b_def c_def ..
  moreover have "year_days (y - 1) = 365 * (y - 1) + a - b + c - 719468"
    unfolding year_days_def a_def b_def c_def ..
  moreover have "isLeapYear y = ((p4 \<and> \<not> p100) \<or> p400)"
    unfolding isLeapYear_def p4_def p100_def p400_def ..
  ultimately show ?thesis by (cases p4; cases p100; cases p400) simp_all
qed

lemma month_cases:
  assumes "1 \<le> m" and "m \<le> (12::int)"
  obtains "m = 1" | "m = 2" | "m = 3" | "m = 4" | "m = 5" | "m = 6"
    | "m = 7" | "m = 8" | "m = 9" | "m = 10" | "m = 11" | "m = 12"
proof -
  have "m \<in> {1..12}" using assms by simp
  then have "m \<in> {1, 2, 3, 4, 5, 6, 7, 8, 9, 10, 11, 12}"
    by (simp add: simp_from_to del: atLeastAtMost_iff)
  then show ?thesis using that by auto
qed

lemma daysFromCivil_month:
  assumes "1 \<le> m" and "m \<le> 11"
  shows "daysFromCivil y (m + 1) 1 = daysFromCivil y m 1 + monthLength y m"
  by (rule month_cases [of m])
    (use assms year_days_step [of y] in
      \<open>simp_all add: daysFromCivil_alt monthLength_def DAYS_IN_MONTH_def\<close>)

lemma daysFromCivil_year: "daysFromCivil (y + 1) 1 1 = daysFromCivil y 12 1 + monthLength y 12"
  by (simp add: daysFromCivil_alt monthLength_def DAYS_IN_MONTH_def)

lemma monthLength_bounds: "1 \<le> m \<Longrightarrow> m \<le> 12 \<Longrightarrow> 28 \<le> monthLength y m \<and> monthLength y m \<le> 31"
  by (rule month_cases [of m]) (simp_all add: monthLength_def DAYS_IN_MONTH_def)

text \<open>The first of a later month is at least a month length away.\<close>

lemma daysFromCivil_month_less:
  assumes "1 \<le> m" and "m < m'" and "m' \<le> 12"
  shows "daysFromCivil y m 1 + monthLength y m \<le> daysFromCivil y m' 1"
proof -
  have "m' \<le> 12 \<longrightarrow> daysFromCivil y m 1 + monthLength y m \<le> daysFromCivil y m' 1"
  proof (rule int_ge_induct [of "m + 1" m'])
    show "m + 1 \<le> m'" using assms(2) by simp
    show "m + 1 \<le> 12 \<longrightarrow> daysFromCivil y m 1 + monthLength y m \<le> daysFromCivil y (m + 1) 1"
      using daysFromCivil_month [OF assms(1), of y] by simp
  next
    fix i
    assume "m + 1 \<le> i"
      and IH: "i \<le> 12 \<longrightarrow> daysFromCivil y m 1 + monthLength y m \<le> daysFromCivil y i 1"
    show "i + 1 \<le> 12 \<longrightarrow> daysFromCivil y m 1 + monthLength y m \<le> daysFromCivil y (i + 1) 1"
    proof
      assume "i + 1 \<le> 12"
      then show "daysFromCivil y m 1 + monthLength y m \<le> daysFromCivil y (i + 1) 1"
        using daysFromCivil_month [of i y] monthLength_bounds [of i y] assms(1) IH \<open>m + 1 \<le> i\<close>
        by linarith
    qed
  qed
  then show ?thesis using assms(3) by simp
qed

lemma daysFromCivil_year_less:
  assumes "y < y'"
  shows "daysFromCivil y 12 1 + 31 \<le> daysFromCivil y' 1 1"
proof (rule int_ge_induct [of "y + 1" y'])
  show "y + 1 \<le> y'" using assms by simp
  show "daysFromCivil y 12 1 + 31 \<le> daysFromCivil (y + 1) 1 1"
    using daysFromCivil_year [of y] by (simp add: monthLength_def DAYS_IN_MONTH_def)
next
  fix z
  assume "daysFromCivil y 12 1 + 31 \<le> daysFromCivil z 1 1"
  then show "daysFromCivil y 12 1 + 31 \<le> daysFromCivil (z + 1) 1 1"
    using daysFromCivil_year [of z] daysFromCivil_month_less [of 1 12 z]
      monthLength_bounds [of 1 z] monthLength_bounds [of 12 z] by simp
qed

lemma daysFromCivil_strict_mono:
  assumes "isRealDate y m d" and "isRealDate y' m' d'" and "(y, m, d) < (y', m', d')"
  shows "daysFromCivil y m d < daysFromCivil y' m' d'"
proof -
  have r: "1 \<le> m" "m \<le> 12" "d \<le> monthLength y m" "1 \<le> m'" "m' \<le> 12" "1 \<le> d'"
    using assms(1,2) by (simp_all add: isRealDate_iff)
  have len: "monthLength y 12 = 31" by (simp add: monthLength_def DAYS_IN_MONTH_def)
  have start: "daysFromCivil y m' 1 \<le> daysFromCivil y m' d'" and
    begin': "daysFromCivil y' 1 1 \<le> daysFromCivil y' m' d'"
    using daysFromCivil_day [of y m' d'] daysFromCivil_day [of y' m' d'] r
      daysFromCivil_month_less [of 1 m' y'] monthLength_bounds [of 1 y'] by (cases "m' = 1"; simp)+
  have day: "daysFromCivil y m d < daysFromCivil y m 1 + monthLength y m"
    using daysFromCivil_day [of y m d] r by simp
  have "y < y' \<or> y = y' \<and> m < m' \<or> y = y' \<and> m = m' \<and> d < d'"
    using assms(3) by (auto simp: pair_less simp del: less_prod_simp)
  then show ?thesis
  proof (elim disjE conjE)
    assume "y < y'"
    have "daysFromCivil y m 1 + monthLength y m \<le> daysFromCivil y 12 1 + 31"
      using daysFromCivil_month_less [of m 12 y] r len monthLength_bounds [of m y]
      by (cases "m = 12") auto
    then show ?thesis
      using day daysFromCivil_year_less [OF \<open>y < y'\<close>] begin' by linarith
  next
    assume "y = y'" "m < m'"
    then show ?thesis
      using day daysFromCivil_month_less [of m m' y] r start by simp
  next
    assume "y = y'" "m = m'" "d < d'"
    then show ?thesis
      using daysFromCivil_day [of y m d] daysFromCivil_day [of y m d'] by simp
  qed
qed

section \<open>The order of instants is the order of their strings\<close>

lemma append_less_append:
  fixes a b c d :: "'a::linorder list"
  assumes "length a = length b"
  shows "a @ c < b @ d \<longleftrightarrow> a < b \<or> a = b \<and> c < d"
  using assms by (induction a b rule: list_induct2) auto

lemma digit_val_less:
  "is_digit a \<Longrightarrow> is_digit b \<Longrightarrow> a < b \<longleftrightarrow> digit_val a < digit_val b"
  by (auto simp: is_digit_def digit_val_def less_char_def)

lemma digit_val_eq: "is_digit a \<Longrightarrow> is_digit b \<Longrightarrow> digit_val a = digit_val b \<Longrightarrow> a = b"
  by (auto simp: is_digit_def digit_val_def)

lemma digit_val_range: "is_digit a \<Longrightarrow> 0 \<le> digit_val a \<and> digit_val a \<le> 9"
  by (auto simp: is_digit_def digit_val_def)

lemma digits_val_Cons: "digits_val (c # ds) = digit_val c * 10 ^ length ds + digits_val ds"
proof -
  have fold: "foldl (\<lambda>n c. 10 * n + digit_val c) n ds = n * 10 ^ length ds + digits_val ds" for n ds
  proof (induction ds arbitrary: n)
    case Nil
    then show ?case by (simp add: digits_val_def)
  next
    case (Cons e es)
    have 1: "foldl (\<lambda>n c. 10 * n + digit_val c) n (e # es)
        = (10 * n + digit_val e) * 10 ^ length es + digits_val es"
      using Cons.IH [of "10 * n + digit_val e"] by simp
    have 2: "digits_val (e # es) = digit_val e * 10 ^ length es + digits_val es"
      using Cons.IH [of "digit_val e"] by (simp add: digits_val_def [of "e # es"])
    show ?case unfolding 1 2 by (simp add: algebra_simps)
  qed
  show ?thesis
    using fold [of "digit_val c" ds] by (simp add: digits_val_def [of "c # ds"])
qed

lemma digits_val_Nil [simp]: "digits_val [] = 0"
  by (simp add: digits_val_def)

lemma digits_val_bounds:
  "list_all is_digit ds \<Longrightarrow> 0 \<le> digits_val ds \<and> digits_val ds < 10 ^ length ds"
proof (induction ds)
  case Nil
  then show ?case by simp
next
  case (Cons c ds)
  define P where "P = (10::int) ^ length ds"
  have "digit_val c * P \<le> 9 * P" and "0 \<le> digit_val c * P"
    using Cons.prems digit_val_range [of c] by (auto simp: P_def intro: mult_right_mono)
  moreover have "0 \<le> digits_val ds" "digits_val ds < P"
    using Cons by (simp_all add: P_def)
  ultimately have "0 \<le> digit_val c * P + digits_val ds" "digit_val c * P + digits_val ds < 10 * P"
    by linarith+
  then show ?case by (simp add: digits_val_Cons P_def)
qed

lemma digits_val_less:
  assumes "length a = length b" and "list_all is_digit a" and "list_all is_digit b"
  shows "(a < b \<longleftrightarrow> digits_val a < digits_val b) \<and> (a = b \<longleftrightarrow> digits_val a = digits_val b)"
  using assms
proof (induction a b rule: list_induct2)
  case Nil
  then show ?case by simp
next
  case (Cons x xs y ys)
  define p where "p = (10::int) ^ length xs"
  have val: "digits_val (x # xs) = digit_val x * p + digits_val xs"
    "digits_val (y # ys) = digit_val y * p + digits_val ys"
    using Cons.hyps by (simp_all add: digits_val_Cons p_def)
  have b: "0 \<le> digits_val xs" "digits_val xs < p" "0 \<le> digits_val ys" "digits_val ys < p"
    using digits_val_bounds [of xs] digits_val_bounds [of ys] Cons.prems Cons.hyps
    by (simp_all add: p_def)
  have far: "i * p + u < j * p + v" if "i < j" "u < p" "0 \<le> v" "0 \<le> p" for i j u v :: int
  proof -
    have "(i + 1) * p \<le> j * p" using that by (intro mult_right_mono) auto
    then show ?thesis using that by (simp add: distrib_right)
  qed
  have IH: "(xs < ys) = (digits_val xs < digits_val ys)" "(xs = ys) = (digits_val xs = digits_val ys)"
    using Cons by simp_all
  have less: "(x < y) = (digit_val x < digit_val y)" and eq: "(x = y) = (digit_val x = digit_val y)"
    using Cons.prems digit_val_less [of x y] digit_val_eq [of x y] by auto
  consider "digit_val x < digit_val y" | "digit_val x = digit_val y" | "digit_val y < digit_val x"
    by linarith
  then show ?case
  proof cases
    case 1
    then show ?thesis using far [of "digit_val x" "digit_val y" "digits_val xs" "digits_val ys"] b
      by (simp add: val less eq IH)
  next
    case 2
    then show ?thesis by (simp add: val less eq IH)
  next
    case 3
    then show ?thesis using far [of "digit_val y" "digit_val x" "digits_val ys" "digits_val xs"] b
      by (simp add: val less eq IH)
  qed
qed

lemma substr_Cons: "i + n \<le> length s \<Longrightarrow> drop i s = substr s i n @ drop (i + n) s"
  by (simp add: substr_def) (metis append_take_drop_id drop_drop add.commute)

lemma instant_fields:
  assumes "length s = 24"
  shows "s = substr s 0 4 @ substr s 4 1 @ substr s 5 2 @ substr s 7 1 @ substr s 8 2 @ substr s 10 1
    @ substr s 11 2 @ substr s 13 1 @ substr s 14 2 @ substr s 16 1 @ substr s 17 2 @ substr s 19 1
    @ substr s 20 3 @ substr s 23 1"
proof -
  have "s = drop 0 s" by simp
  also have "\<dots> = substr s 0 4 @ drop 4 s" using substr_Cons [of 0 4 s] assms by simp
  also have "drop 4 s = substr s 4 1 @ drop 5 s" using substr_Cons [of 4 1 s] assms by simp
  also have "drop 5 s = substr s 5 2 @ drop 7 s" using substr_Cons [of 5 2 s] assms by simp
  also have "drop 7 s = substr s 7 1 @ drop 8 s" using substr_Cons [of 7 1 s] assms by simp
  also have "drop 8 s = substr s 8 2 @ drop 10 s" using substr_Cons [of 8 2 s] assms by simp
  also have "drop 10 s = substr s 10 1 @ drop 11 s" using substr_Cons [of 10 1 s] assms by simp
  also have "drop 11 s = substr s 11 2 @ drop 13 s" using substr_Cons [of 11 2 s] assms by simp
  also have "drop 13 s = substr s 13 1 @ drop 14 s" using substr_Cons [of 13 1 s] assms by simp
  also have "drop 14 s = substr s 14 2 @ drop 16 s" using substr_Cons [of 14 2 s] assms by simp
  also have "drop 16 s = substr s 16 1 @ drop 17 s" using substr_Cons [of 16 1 s] assms by simp
  also have "drop 17 s = substr s 17 2 @ drop 19 s" using substr_Cons [of 17 2 s] assms by simp
  also have "drop 19 s = substr s 19 1 @ drop 20 s" using substr_Cons [of 19 1 s] assms by simp
  also have "drop 20 s = substr s 20 3 @ drop 23 s" using substr_Cons [of 20 3 s] assms by simp
  also have "drop 23 s = substr s 23 1" using substr_Cons [of 23 1 s] assms by simp
  finally show ?thesis .
qed

lemma match_instant_Some:
  assumes "match_instant s = Some (y, mo, d, h, mi, sec, ms)"
  shows "s = substr s 0 4 @ ''-'' @ substr s 5 2 @ ''-'' @ substr s 8 2 @ ''T'' @ substr s 11 2 @ '':''
      @ substr s 14 2 @ '':'' @ substr s 17 2 @ ''.'' @ substr s 20 3 @ ''Z''"
    and "length s = 24"
    and "digits_at s 0 4" "digits_at s 5 2" "digits_at s 8 2" "digits_at s 11 2" "digits_at s 14 2"
      "digits_at s 17 2" "digits_at s 20 3"
    and "digits_val (substr s 0 4) = y" "digits_val (substr s 5 2) = mo" "digits_val (substr s 8 2) = d"
      "digits_val (substr s 11 2) = h" "digits_val (substr s 14 2) = mi"
      "digits_val (substr s 17 2) = sec" "digits_val (substr s 20 3) = ms"
proof -
  from assms have len: "length s = 24" and sep: "substr s 4 1 = ''-''" "substr s 7 1 = ''-''"
      "substr s 10 1 = ''T''" "substr s 13 1 = '':''" "substr s 16 1 = '':''" "substr s 19 1 = ''.''"
      "substr s 23 1 = ''Z''"
    and rest: "digits_at s 0 4 \<and> digits_at s 5 2 \<and> digits_at s 8 2 \<and> digits_at s 11 2
      \<and> digits_at s 14 2 \<and> digits_at s 17 2 \<and> digits_at s 20 3"
      "digits_val (substr s 0 4) = y \<and> digits_val (substr s 5 2) = mo \<and> digits_val (substr s 8 2) = d
      \<and> digits_val (substr s 11 2) = h \<and> digits_val (substr s 14 2) = mi
      \<and> digits_val (substr s 17 2) = sec \<and> digits_val (substr s 20 3) = ms"
    by (simp_all add: match_instant_def split: if_splits)
  show "s = substr s 0 4 @ ''-'' @ substr s 5 2 @ ''-'' @ substr s 8 2 @ ''T'' @ substr s 11 2 @ '':''
      @ substr s 14 2 @ '':'' @ substr s 17 2 @ ''.'' @ substr s 20 3 @ ''Z''"
    using instant_fields [OF len] unfolding sep .
  show "length s = 24" by (rule len)
  show "digits_at s 0 4" "digits_at s 5 2" "digits_at s 8 2" "digits_at s 11 2" "digits_at s 14 2"
      "digits_at s 17 2" "digits_at s 20 3"
    and "digits_val (substr s 0 4) = y" "digits_val (substr s 5 2) = mo" "digits_val (substr s 8 2) = d"
      "digits_val (substr s 11 2) = h" "digits_val (substr s 14 2) = mi"
      "digits_val (substr s 17 2) = sec" "digits_val (substr s 20 3) = ms"
    using rest by simp_all
qed

lemma substr_less:
  assumes "length s = 24" and "length t = 24" and "digits_at s i n" and "digits_at t i n" and "i + n \<le> 24"
  shows "(substr s i n < substr t i n) = (digits_val (substr s i n) < digits_val (substr t i n))"
    and "(substr s i n = substr t i n) = (digits_val (substr s i n) = digits_val (substr t i n))"
  using digits_val_less [of "substr s i n" "substr t i n"] assms
  by (simp_all add: digits_at_def substr_def)

lemma instant_string_order:
  assumes "match_instant s = Some a" and "match_instant t = Some b"
  shows "s < t \<longleftrightarrow> a < b"
proof -
  obtain y mo d h mi sec ms where a: "a = (y, mo, d, h, mi, sec, ms)" by (cases a) auto
  obtain y' mo' d' h' mi' sec' ms' where b: "b = (y', mo', d', h', mi', sec', ms')" by (cases b) auto
  note S = match_instant_Some [OF assms(1) [unfolded a]]
  note T = match_instant_Some [OF assms(2) [unfolded b]]
  have len: "length (substr s i n) = length (substr t i n)" for i n
    using S(2) T(2) by (simp add: substr_def)
  show ?thesis
    unfolding arg_cong2 [OF S(1) T(1), of "(<)"]
    using S(2-) T(2-) substr_less [OF S(2) T(2), of 0 4] substr_less [OF S(2) T(2), of 5 2]
      substr_less [OF S(2) T(2), of 8 2] substr_less [OF S(2) T(2), of 11 2]
      substr_less [OF S(2) T(2), of 14 2] substr_less [OF S(2) T(2), of 17 2]
      substr_less [OF S(2) T(2), of 20 3]
    by (simp add: append_less_append len a b pair_less del: less_prod_simp)
qed

definition epoch_of :: "int \<times> int \<times> int \<times> int \<times> int \<times> int \<times> int \<Rightarrow> int" where
  "epoch_of a = (case a of (y, mo, d, h, mi, s, ms) \<Rightarrow>
     daysFromCivil y mo d * 86400000 + h * 3600000 + mi * 60000 + s * 1000 + ms)"

definition real_moment :: "int \<times> int \<times> int \<times> int \<times> int \<times> int \<times> int \<Rightarrow> bool" where
  "real_moment a \<longleftrightarrow> (case a of (y, mo, d, h, mi, s, ms) \<Rightarrow>
     isRealDate y mo d \<and> 0 \<le> h \<and> h \<le> 23 \<and> 0 \<le> mi \<and> mi \<le> 59 \<and> 0 \<le> s \<and> s \<le> 59 \<and> 0 \<le> ms \<and> ms \<le> 999)"

lemma isInstant_real_moment:
  assumes "isInstant s"
  obtains a where "match_instant s = Some a" and "real_moment a" and "epochMillis s = Inr (epoch_of a)"
proof -
  obtain y mo d h mi sec ms where m: "match_instant s = Some (y, mo, d, h, mi, sec, ms)"
    using assms by (auto simp: isInstant_def split: option.splits)
  note S = match_instant_Some [OF m]
  have "real_moment (y, mo, d, h, mi, sec, ms)"
    using assms m S digits_val_bounds [of "substr s 11 2"] digits_val_bounds [of "substr s 14 2"]
      digits_val_bounds [of "substr s 17 2"] digits_val_bounds [of "substr s 20 3"]
    by (auto simp: real_moment_def isInstant_def digits_at_def substr_def split: if_splits)
  moreover have "epochMillis s = Inr (epoch_of (y, mo, d, h, mi, sec, ms))"
    using assms m by (simp add: epochMillis_def epoch_of_def)
  ultimately show ?thesis using that m by blast
qed

lemma epoch_of_strict_mono:
  assumes "real_moment a" and "real_moment b" and "a < b"
  shows "epoch_of a < epoch_of b"
proof -
  obtain y mo d h mi s ms where a: "a = (y, mo, d, h, mi, s, ms)" by (cases a) auto
  obtain y' mo' d' h' mi' s' ms' where b: "b = (y', mo', d', h', mi', s', ms')" by (cases b) auto
  note A = assms(1) [unfolded a real_moment_def prod.case]
  note B = assms(2) [unfolded b real_moment_def prod.case]
  consider "(y, mo, d) < (y', mo', d')"
    | "(y, mo, d) = (y', mo', d')" "(h, mi, s, ms) < (h', mi', s', ms')"
    using assms(3) by (auto simp: a b pair_less simp del: less_prod_simp)
  then show ?thesis
  proof cases
    case 1
    then have "daysFromCivil y mo d + 1 \<le> daysFromCivil y' mo' d'"
      using daysFromCivil_strict_mono [of y mo d y' mo' d'] A B by simp
    then show ?thesis using A B by (simp add: a b epoch_of_def)
  next
    case 2
    then have "h < h' \<or> h = h' \<and> (mi < mi' \<or> mi = mi' \<and> (s < s' \<or> s = s' \<and> ms < ms'))"
      by (simp add: pair_less del: less_prod_simp)
    then have "h * 3600000 + mi * 60000 + s * 1000 + ms < h' * 3600000 + mi' * 60000 + s' * 1000 + ms'"
      using A B by (elim disjE conjE) simp_all
    then show ?thesis using 2 by (simp add: a b epoch_of_def)
  qed
qed

lemma instant_order:
  assumes "isInstant s" and "isInstant t" and "epochMillis s = Inr m" and "epochMillis t = Inr n"
  shows "s < t \<longleftrightarrow> m < n" and "s = t \<longleftrightarrow> m = n"
proof -
  obtain a where a: "match_instant s = Some a" "real_moment a" "m = epoch_of a"
    using isInstant_real_moment [OF assms(1)] assms(3) by (metis sum.inject(2))
  obtain b where b: "match_instant t = Some b" "real_moment b" "n = epoch_of b"
    using isInstant_real_moment [OF assms(2)] assms(4) by (metis sum.inject(2))
  have mono: "s < t \<Longrightarrow> m < n" "t < s \<Longrightarrow> n < m"
    using instant_string_order [OF a(1) b(1)] instant_string_order [OF b(1) a(1)]
      epoch_of_strict_mono [OF a(2) b(2)] epoch_of_strict_mono [OF b(2) a(2)] a(3) b(3) by auto
  have "s = t \<Longrightarrow> m = n" using assms(3,4) by simp
  with mono show "s < t \<longleftrightarrow> m < n" and "s = t \<longleftrightarrow> m = n"
    by (metis less_asym less_irrefl linorder_less_linear)+
qed

end
