(* ===== verification/Diagnostics.thy ===== *)
theory Diagnostics
  imports Prelude
begin

text \<open>
  Diagnostics: \<open>packages/core/src/diagnostics.ts\<close> and
  \<open>packages/core/src/engine/diagnostics-builder.ts\<close>. A sub-computation returns its value next to
  the diagnostics it raised, in the order raised; the final list is sorted by subject and code.
\<close>

datatype diagnostic_code =
    COST_MISSING | COST_ESTIMATED | CARRIER_COST_MISSING | SHIPPING_FALLBACK_USED
  | SHIPPING_FALLBACK_MISSING | NO_OUTBOUND_SHIPMENT | FEE_RULE_MISSING | FEE_RULE_DEFAULT_USED
  | UNKNOWN_PAYMENT_INSTRUMENT | CARD_SCHEME_UNKNOWN | PAYMENT_LEGS_UNDER_TOTAL
  | COD_FEE_RULE_MISSING | RESTOCK_UNKNOWN | REVERSAL_LINES_ALLOCATED | REVERSAL_LINE_UNMATCHED
  | REVERSAL_TOTAL_MISMATCH | SHIPMENT_LOST | TOTALS_DO_NOT_RECONCILE | ORDER_HAS_NO_ITEMS
  | RECOGNITION_COST_ONLY | ORDER_EXCLUDED
  | CURRENCY_MISMATCH | ITEM_ORDER_ID_MISMATCH | REVERSAL_ORDER_ID_MISMATCH
  | NON_INTEGER_MINOR_UNITS | NEGATIVE_QUANTITY | NON_INTEGER_QUANTITY | DUPLICATE_ITEM_ID
  | DUPLICATE_RULE_KEY | FEE_RULE_INVALID | MALFORMED_INPUT | MALFORMED_TIMESTAMP
  | INVALID_TIMEZONE | INTERNAL_INVARIANT_VIOLATED | DUPLICATE_COST_KEY

fun code_name :: "diagnostic_code \<Rightarrow> string" where
  "code_name COST_MISSING = ''COST_MISSING''"
| "code_name COST_ESTIMATED = ''COST_ESTIMATED''"
| "code_name CARRIER_COST_MISSING = ''CARRIER_COST_MISSING''"
| "code_name SHIPPING_FALLBACK_USED = ''SHIPPING_FALLBACK_USED''"
| "code_name SHIPPING_FALLBACK_MISSING = ''SHIPPING_FALLBACK_MISSING''"
| "code_name NO_OUTBOUND_SHIPMENT = ''NO_OUTBOUND_SHIPMENT''"
| "code_name FEE_RULE_MISSING = ''FEE_RULE_MISSING''"
| "code_name FEE_RULE_DEFAULT_USED = ''FEE_RULE_DEFAULT_USED''"
| "code_name UNKNOWN_PAYMENT_INSTRUMENT = ''UNKNOWN_PAYMENT_INSTRUMENT''"
| "code_name CARD_SCHEME_UNKNOWN = ''CARD_SCHEME_UNKNOWN''"
| "code_name PAYMENT_LEGS_UNDER_TOTAL = ''PAYMENT_LEGS_UNDER_TOTAL''"
| "code_name COD_FEE_RULE_MISSING = ''COD_FEE_RULE_MISSING''"
| "code_name RESTOCK_UNKNOWN = ''RESTOCK_UNKNOWN''"
| "code_name REVERSAL_LINES_ALLOCATED = ''REVERSAL_LINES_ALLOCATED''"
| "code_name REVERSAL_LINE_UNMATCHED = ''REVERSAL_LINE_UNMATCHED''"
| "code_name REVERSAL_TOTAL_MISMATCH = ''REVERSAL_TOTAL_MISMATCH''"
| "code_name SHIPMENT_LOST = ''SHIPMENT_LOST''"
| "code_name TOTALS_DO_NOT_RECONCILE = ''TOTALS_DO_NOT_RECONCILE''"
| "code_name ORDER_HAS_NO_ITEMS = ''ORDER_HAS_NO_ITEMS''"
| "code_name RECOGNITION_COST_ONLY = ''RECOGNITION_COST_ONLY''"
| "code_name ORDER_EXCLUDED = ''ORDER_EXCLUDED''"
| "code_name CURRENCY_MISMATCH = ''CURRENCY_MISMATCH''"
| "code_name ITEM_ORDER_ID_MISMATCH = ''ITEM_ORDER_ID_MISMATCH''"
| "code_name REVERSAL_ORDER_ID_MISMATCH = ''REVERSAL_ORDER_ID_MISMATCH''"
| "code_name NON_INTEGER_MINOR_UNITS = ''NON_INTEGER_MINOR_UNITS''"
| "code_name NEGATIVE_QUANTITY = ''NEGATIVE_QUANTITY''"
| "code_name NON_INTEGER_QUANTITY = ''NON_INTEGER_QUANTITY''"
| "code_name DUPLICATE_ITEM_ID = ''DUPLICATE_ITEM_ID''"
| "code_name DUPLICATE_RULE_KEY = ''DUPLICATE_RULE_KEY''"
| "code_name FEE_RULE_INVALID = ''FEE_RULE_INVALID''"
| "code_name MALFORMED_INPUT = ''MALFORMED_INPUT''"
| "code_name MALFORMED_TIMESTAMP = ''MALFORMED_TIMESTAMP''"
| "code_name INVALID_TIMEZONE = ''INVALID_TIMEZONE''"
| "code_name INTERNAL_INVARIANT_VIOLATED = ''INTERNAL_INVARIANT_VIOLATED''"
| "code_name DUPLICATE_COST_KEY = ''DUPLICATE_COST_KEY''"

datatype severity = Warning | Fatal

datatype diagnostic_subject =
  OnOrder | OnLine string | OnShipment string | OnPayment nat | OnReversal string

record diagnostic =
  diag_code :: diagnostic_code
  diag_severity :: severity
  diag_subject :: diagnostic_subject

definition FATAL :: "diagnostic_code list" where
  "FATAL = [CURRENCY_MISMATCH, ITEM_ORDER_ID_MISMATCH, REVERSAL_ORDER_ID_MISMATCH,
     NON_INTEGER_MINOR_UNITS, NEGATIVE_QUANTITY, NON_INTEGER_QUANTITY, DUPLICATE_COST_KEY,
     DUPLICATE_ITEM_ID, DUPLICATE_RULE_KEY, FEE_RULE_INVALID, MALFORMED_INPUT,
     MALFORMED_TIMESTAMP, INVALID_TIMEZONE, INTERNAL_INVARIANT_VIOLATED]"

definition severityOf :: "diagnostic_code \<Rightarrow> severity" where
  "severityOf code = (if code \<in> set FATAL then Fatal else Warning)"

definition diagnostic :: "diagnostic_code \<Rightarrow> diagnostic_subject \<Rightarrow> diagnostic" where
  "diagnostic code subject =
     \<lparr> diag_code = code, diag_severity = severityOf code, diag_subject = subject \<rparr>"

definition onOrder :: "diagnostic_code \<Rightarrow> diagnostic" where
  "onOrder code = diagnostic code OnOrder"

text \<open>The \<open>kind\<close> tag of a subject, which is what the comparator compares first.\<close>

fun subject_kind :: "diagnostic_subject \<Rightarrow> string" where
  "subject_kind OnOrder = ''order''"
| "subject_kind (OnLine _) = ''line''"
| "subject_kind (OnShipment _) = ''shipment''"
| "subject_kind (OnPayment _) = ''payment''"
| "subject_kind (OnReversal _) = ''reversal''"

fun show_nat :: "nat \<Rightarrow> string" where
  "show_nat n = (if n < 10 then [char_of (48 + n)] else show_nat (n div 10) @ [char_of (48 + n mod 10)])"

declare show_nat.simps [simp del]

fun subject_key :: "diagnostic_subject \<Rightarrow> string" where
  "subject_key OnOrder = []"
| "subject_key (OnLine i) = i"
| "subject_key (OnShipment i) = i"
| "subject_key (OnPayment i) = replicate (4 - length (show_nat i)) CHR ''0'' @ show_nat i"
| "subject_key (OnReversal i) = i"

definition sortDiagnostics :: "diagnostic list \<Rightarrow> diagnostic list" where
  "sortDiagnostics ds =
     sort_key (\<lambda>d. (subject_kind (diag_subject d), subject_key (diag_subject d), code_name (diag_code d))) ds"

text \<open>A value with the diagnostics raised on the way.\<close>

type_synonym 'a computed = "'a \<times> diagnostic list"

lemma diagnostic_code_sel [simp]: "diag_code (diagnostic c s) = c"
  by (simp add: diagnostic_def)

lemma onOrder_code_sel [simp]: "diag_code (onOrder c) = c"
  by (simp add: onOrder_def)

lemma diagnostic_severity_sel [simp]: "diag_severity (diagnostic c s) = severityOf c"
  by (simp add: diagnostic_def)

lemma onOrder_severity_sel [simp]: "diag_severity (onOrder c) = severityOf c"
  by (simp add: onOrder_def)

lemma set_sortDiagnostics [simp]: "set (sortDiagnostics ds) = set ds"
  by (simp add: sortDiagnostics_def)

lemma sortDiagnostics_Nil [simp]: "sortDiagnostics [] = [] \<and> (sortDiagnostics ds = [] \<longleftrightarrow> ds = [])"
  by (metis list.set(1) set_empty set_sortDiagnostics)

definition all_warnings :: "diagnostic list \<Rightarrow> bool" where
  "all_warnings ds \<longleftrightarrow> (\<forall>d \<in> set ds. diag_severity d = Warning)"

lemma all_warnings_simps [simp]:
  "all_warnings []" "all_warnings (d # ds) \<longleftrightarrow> diag_severity d = Warning \<and> all_warnings ds"
  "all_warnings (ds @ es) \<longleftrightarrow> all_warnings ds \<and> all_warnings es"
  by (auto simp: all_warnings_def)

lemma warning_codes [simp]:
  "severityOf TOTALS_DO_NOT_RECONCILE = Warning" "severityOf ORDER_HAS_NO_ITEMS = Warning"
  "severityOf RECOGNITION_COST_ONLY = Warning" "severityOf ORDER_EXCLUDED = Warning"
  "severityOf COST_MISSING = Warning" "severityOf COST_ESTIMATED = Warning"
  "severityOf CARRIER_COST_MISSING = Warning" "severityOf SHIPPING_FALLBACK_USED = Warning"
  "severityOf SHIPPING_FALLBACK_MISSING = Warning" "severityOf NO_OUTBOUND_SHIPMENT = Warning"
  "severityOf FEE_RULE_MISSING = Warning" "severityOf FEE_RULE_DEFAULT_USED = Warning"
  "severityOf UNKNOWN_PAYMENT_INSTRUMENT = Warning" "severityOf CARD_SCHEME_UNKNOWN = Warning"
  "severityOf PAYMENT_LEGS_UNDER_TOTAL = Warning" "severityOf COD_FEE_RULE_MISSING = Warning"
  "severityOf RESTOCK_UNKNOWN = Warning" "severityOf REVERSAL_LINES_ALLOCATED = Warning"
  "severityOf REVERSAL_LINE_UNMATCHED = Warning" "severityOf REVERSAL_TOTAL_MISMATCH = Warning"
  by (simp_all add: severityOf_def FATAL_def)

lemma all_warnings_concat: "(\<And>x. x \<in> set xs \<Longrightarrow> all_warnings (f x)) \<Longrightarrow> all_warnings (concat (map f xs))"
  by (induction xs) auto

end
