(* ===== verification/Decimals.thy ===== *)
theory Decimals
  imports Time Diagnostics
begin

text \<open>
  Decimal strings as numbers and back: what the parser of \<open>packages/contracts/src/money.ts\<close>
  reads from a sign, a whole part and a fraction, and the digits that \<open>String(n)\<close> writes for a
  natural number (\<open>show_nat\<close>). The money columns, the cost import and the digits of dates rest on
  these facts.
\<close>

section \<open>Reading\<close>

lemma digits_val_append: "digits_val (a @ b) = digits_val a * 10 ^ length b + digits_val b"
  by (induction a) (simp_all add: digits_val_Cons algebra_simps power_add)

lemma digits_val_zeros [simp]: "digits_val (replicate n CHR ''0'') = 0"
  by (induction n) (simp_all add: digits_val_Cons digit_val_def)

lemma digits_not_space: "is_digit c \<Longrightarrow> \<not> is_js_space c"
  by (auto simp: is_digit_def is_js_space_def)

lemma dropWhile_none: "(\<And>c. c \<in> set s \<Longrightarrow> \<not> P c) \<Longrightarrow> dropWhile P s = s"
  by (cases s) simp_all

lemma js_trim_id: "(\<And>c. c \<in> set s \<Longrightarrow> \<not> is_js_space c) \<Longrightarrow> js_trim s = s"
  using dropWhile_none [of s is_js_space] dropWhile_none [of "rev s" is_js_space] by (simp add: js_trim_def)

text \<open>An optional sign.\<close>

definition is_sign :: "string \<Rightarrow> bool" where
  "is_sign s \<longleftrightarrow> s = [] \<or> s = ''+'' \<or> s = ''-''"

lemma match_decimal_point:
  assumes "is_sign sign" and "whole \<noteq> []" and "list_all is_digit whole" and "list_all is_digit fraction"
  shows "match_decimal (sign @ whole @ ''.'' @ fraction) = Some (sign = ''-'', whole, fraction)"
proof -
  have digits: "c \<in> set whole \<Longrightarrow> is_digit c" for c using assms(3) by (simp add: list_all_iff)
  have point: "\<not> is_digit (CHR ''.'')" by (simp add: is_digit_def)
  define body where "body = whole @ ''.'' @ fraction"
  have body: "takeWhile is_digit body = whole" "dropWhile is_digit body = CHR ''.'' # fraction"
    using digits point by (simp_all add: body_def takeWhile_append2 dropWhile_append2)
  have "hd body = hd whole" and ne: "body \<noteq> []" using assms(2) by (simp_all add: body_def)
  moreover have "is_digit (hd whole)" using digits assms(2) by simp
  ultimately have unsigned: "hd body \<noteq> CHR ''-''" "hd body \<noteq> CHR ''+''" by (auto simp: is_digit_def)
  have "match_decimal (sign @ body) = Some (sign = ''-'', whole, fraction)"
    using assms(1) unfolding is_sign_def
  proof (elim disjE)
    assume "sign = []"
    then show ?thesis using body unsigned ne assms(2,4) by (simp add: match_decimal_def)
  qed (use body assms(2,4) in \<open>simp_all add: match_decimal_def\<close>)
  then show ?thesis by (simp add: body_def)
qed

text \<open>
  A decimal string becomes money digit by digit, without ever being a double: a sign, a whole
  part and a fraction give exactly the whole part times ten to the exponent plus the fraction, zeros
  past the currency's precision are dropped, and a significant digit there, or an amount outside the
  range, is refused rather than rounded.
\<close>

lemma decimal_read_match:
  assumes m: "match_decimal s = Some (neg, whole, fraction)" and trim: "js_trim s = s"
    and "list_all is_digit whole" and "list_all is_digit fraction" and "e \<in> {0, 2, 3}"
    and v: "v = digits_val whole * 10 ^ e + digits_val (take e fraction) * 10 ^ (e - length fraction)"
  shows "toMinorFromDecimal s e =
     (if (\<exists>c \<in> set (drop e fraction). c \<noteq> CHR ''0'') \<or> MAX_MINOR < v then Inl PrecisionError
      else Inr (if neg then - v else v))"
proof -
  have pad: "e - length (take e fraction) = e - length fraction" by (cases "e \<le> length fraction") simp_all
  have worth: "digits_val (whole @ take e fraction @ replicate (e - length (take e fraction)) CHR ''0'') = v"
    unfolding v digits_val_append length_append pad by (simp add: algebra_simps min_def flip: power_add)
  have "0 \<le> digits_val whole" "0 \<le> digits_val (take e fraction)"
    using digits_val_bounds assms(3,4) by (auto simp: list_all_iff dest: in_set_takeD)
  then have nonneg: "0 \<le> v" unfolding v by simp
  have dropped: "list_ex (\<lambda>c. is_digit c \<and> c \<noteq> CHR ''0'') (drop e fraction)
      \<longleftrightarrow> (\<exists>c \<in> set (drop e fraction). c \<noteq> CHR ''0'')"
    using assms(4) by (auto simp: list_ex_iff list_all_iff dest: in_set_dropD)
  have exponent: "assertExponent e = Inr ()" using assms(5) by (auto simp: assertExponent_def)
  have money: "to_minor w = (if in_range w then Inr w else Inl PrecisionError)" for w
    by (cases "to_minor w") (auto simp: to_minor_eq_Inr dest: toMinor_error)
  have big: "MAX_MINOR < v \<longleftrightarrow> \<not> in_range v" using nonneg by (auto simp: in_range_def MAX_MINOR_def)
  show ?thesis
    unfolding toMinorFromDecimal_def exponent trim m Let_def prod.case
      option.case bindE_Inr worth dropped big money
    using in_range_safe [of v] by auto
qed

lemma decimal_trimmed:
  assumes "is_sign sign" and "list_all is_digit whole" and "list_all is_digit fraction" and "set point \<subseteq> {CHR ''.''}"
  shows "js_trim (sign @ whole @ point @ fraction) = sign @ whole @ point @ fraction"
proof (rule js_trim_id)
  fix c
  assume "c \<in> set (sign @ whole @ point @ fraction)"
  then consider "c \<in> set sign" | "is_digit c" | "c = CHR ''.''" using assms(2-4) by (auto simp: list_all_iff)
  then show "\<not> is_js_space c"
    by cases (use assms(1) digits_not_space in \<open>auto simp: is_sign_def is_js_space_def\<close>)
qed

lemma decimal_read_exactly:
  assumes "is_sign sign" and "whole \<noteq> []" and "list_all is_digit whole" and "list_all is_digit fraction"
    and "e \<in> {0, 2, 3}"
    and v: "v = digits_val whole * 10 ^ e + digits_val (take e fraction) * 10 ^ (e - length fraction)"
  shows "toMinorFromDecimal (sign @ whole @ ''.'' @ fraction) e =
     (if (\<exists>c \<in> set (drop e fraction). c \<noteq> CHR ''0'') \<or> MAX_MINOR < v then Inl PrecisionError
      else Inr (if sign = ''-'' then - v else v))"
  by (rule decimal_read_match [OF match_decimal_point [OF assms(1-4)] decimal_trimmed [OF assms(1,3,4)] assms(3-6)]) simp

lemma match_decimal_whole:
  assumes "is_sign sign" and "whole \<noteq> []" and "list_all is_digit whole"
  shows "match_decimal (sign @ whole) = Some (sign = ''-'', whole, [])"
proof -
  have digits: "c \<in> set whole \<Longrightarrow> is_digit c" for c using assms(3) by (simp add: list_all_iff)
  then have w: "takeWhile is_digit whole = whole" "dropWhile is_digit whole = []" by simp_all
  have "is_digit (hd whole)" using digits assms(2) by simp
  then have unsigned: "hd whole \<noteq> CHR ''-''" "hd whole \<noteq> CHR ''+''" by (auto simp: is_digit_def)
  show ?thesis
    using assms(1) unfolding is_sign_def
  proof (elim disjE)
    assume "sign = []"
    then show ?thesis using unsigned assms(2) by (simp add: match_decimal_def Let_def w)
  qed (use assms(2) in \<open>simp_all add: match_decimal_def Let_def w\<close>)
qed

lemma decimal_read_whole:
  assumes "is_sign sign" and "whole \<noteq> []" and "list_all is_digit whole" and "e \<in> {0, 2, 3}"
  shows "toMinorFromDecimal (sign @ whole) e =
     (if MAX_MINOR < digits_val whole * 10 ^ e then Inl PrecisionError
      else Inr (if sign = ''-'' then - (digits_val whole * 10 ^ e) else digits_val whole * 10 ^ e))"
  using decimal_read_match [OF match_decimal_whole [OF assms(1-3)] _ assms(3) _ assms(4) refl]
    decimal_trimmed [OF assms(1,3), of "[]" "[]"] by simp

section \<open>Writing\<close>

lemma digit_char_of: "n < 10 \<Longrightarrow> is_digit (char_of (48 + n :: nat)) \<and> digit_val (char_of (48 + n)) = int n"
proof -
  assume "n < 10"
  moreover have "list_all (\<lambda>k. is_digit (char_of (48 + k :: nat)) \<and> digit_val (char_of (48 + k)) = int k) [0..<10]"
    by code_simp
  ultimately show ?thesis by (simp add: list_all_iff)
qed

lemma show_nat_digits: "list_all is_digit (show_nat n) \<and> show_nat n \<noteq> []"
proof (induction n rule: show_nat.induct)
  case (1 n)
  then show ?case
    using digit_char_of [of n] digit_char_of [of "n mod 10"] by (auto simp: show_nat.simps [of n])
qed

lemma show_nat_val: "digits_val (show_nat n) = int n"
proof (induction n rule: show_nat.induct)
  case (1 n)
  have d: "digits_val [c] = digit_val c" for c by (simp add: digits_val_Cons)
  show ?case
  proof (cases "n < 10")
    case True
    then show ?thesis using digit_char_of [of n] by (simp add: show_nat.simps [of n] d)
  next
    case False
    then have "digits_val (show_nat n) = int (n div 10) * 10 + int (n mod 10)"
      using 1 digit_char_of [of "n mod 10"] by (simp add: show_nat.simps [of n] digits_val_append d)
    then show ?thesis by (metis div_mult_mod_eq of_nat_add of_nat_mult of_nat_numeral)
  qed
qed

lemma is_digit_zero [simp]: "is_digit (CHR ''0'')"
  by (simp add: is_digit_def)

lemma padStart0_digits: "list_all is_digit s \<Longrightarrow> list_all is_digit (padStart0 n s)"
  by (auto simp: padStart0_def list_all_iff)

lemma padStart0_val [simp]: "digits_val (padStart0 n s) = digits_val s"
  by (simp add: padStart0_def digits_val_append)

lemma padStart0_length: "length (padStart0 n s) = max n (length s)"
  by (simp add: padStart0_def max_def)

text \<open>Digits split at a position: the part before it counts tens, the part after it the rest.\<close>

lemma digits_val_split:
  assumes "list_all is_digit s" and "k \<le> length s"
  shows "digits_val (take (length s - k) s) = digits_val s div 10 ^ k"
    and "digits_val (drop (length s - k) s) = digits_val s mod 10 ^ k"
proof -
  let ?w = "take (length s - k) s" and ?f = "drop (length s - k) s"
  have len: "length ?f = k" using assms(2) by simp
  have "list_all is_digit ?f" using assms(1) by (auto simp: list_all_iff dest: in_set_dropD)
  then have f: "0 \<le> digits_val ?f" "digits_val ?f < 10 ^ k" using digits_val_bounds [of ?f] len by simp_all
  have "digits_val s = digits_val ?w * 10 ^ k + digits_val ?f"
    using digits_val_append [of ?w ?f] len by simp
  with f show "digits_val ?w = digits_val s div 10 ^ k" and "digits_val ?f = digits_val s mod 10 ^ k"
    by simp_all
qed

end
