(* ===== verification/Allocation.thy ===== *)
theory Allocation
  imports Money
begin

text \<open>
  The largest-remainder allocator \<open>allocateMinor\<close> of \<open>packages/core/src/money.ts\<close>, through
  which every order-level amount is pushed down onto lines.

  The rows, the hand-out loop and the final range check follow the code; \<open>BigInt\<close> division of
  non-negative integers is \<open>div\<close>. The order of the hand-out is the code's comparator
  (remainder descending, weight descending, key ascending) as a sort key. The result is the
  \<open>Map\<close> in insertion order, that is in bucket order.

  The lemmas show that the shares sum to the total exactly, that each share is within one minor
  unit of its exact quota, that a share never has the opposite sign of the total, and that the
  shares depend on the buckets as a multiset only. The locale \<open>allocator\<close> is the contract the
  profit computation relies on; its interpretation is at the end.
\<close>

record 'k allocation_bucket =
  bucket_key :: 'k
  bucket_weight :: int

record 'k alloc_row =
  row_key :: 'k
  row_base :: int
  row_remainder :: int
  row_weight :: int

definition raw_weight :: "'k allocation_bucket \<Rightarrow> int" where
  "raw_weight b = (if bucket_weight b > 0 then bucket_weight b else 0)"

definition weight_sum :: "'k allocation_bucket list \<Rightarrow> int" where
  "weight_sum bs = sum_list (map raw_weight bs)"

definition alloc_denominator :: "'k allocation_bucket list \<Rightarrow> int" where
  "alloc_denominator bs = (if weight_sum bs = 0 then int (length bs) else weight_sum bs)"

definition alloc_weight :: "'k allocation_bucket list \<Rightarrow> 'k allocation_bucket \<Rightarrow> int" where
  "alloc_weight bs b = (if weight_sum bs = 0 then 1 else raw_weight b)"

definition alloc_row :: "int \<Rightarrow> 'k allocation_bucket list \<Rightarrow> 'k allocation_bucket \<Rightarrow> 'k alloc_row" where
  "alloc_row magnitude bs b =
     (let weight = alloc_weight bs b;
          denominator = alloc_denominator bs;
          numerator = magnitude * weight;
          base = numerator div denominator
      in \<lparr> row_key = bucket_key b, row_base = base,
           row_remainder = numerator - base * denominator, row_weight = weight \<rparr>)"

definition row_order :: "'k alloc_row \<Rightarrow> int \<times> int \<times> 'k" where
  "row_order r = (- row_remainder r, - row_weight r, row_key r)"

text \<open>The loop that hands one extra unit to each row until the shortfall is spent.\<close>

fun hand_out :: "int \<Rightarrow> 'k alloc_row list \<Rightarrow> 'k list" where
  "hand_out shortfall [] = []"
| "hand_out shortfall (r # rs) =
     (if shortfall \<le> 0 then [] else row_key r # hand_out (shortfall - 1) rs)"

definition alloc_amount :: "'k list \<Rightarrow> 'k alloc_row \<Rightarrow> int" where
  "alloc_amount extra r = row_base r + (if row_key r \<in> set extra then 1 else 0)"

definition allocateMinor :: "int \<Rightarrow> ('k::linorder) allocation_bucket list \<Rightarrow> ('k \<times> int) list outcome" where
  "allocateMinor tot buckets =
     (if buckets = [] then (if tot \<noteq> 0 then Inl MoneyKernelError else Inr [])
      else if \<not> distinct (map bucket_key buckets) then Inl MoneyKernelError
      else
        let negative = tot < 0;
            magnitude = (if negative then - tot else tot);
            rows = map (alloc_row magnitude buckets) buckets;
            shortfall = magnitude - sum_list (map row_base rows);
            extra = hand_out shortfall (sort_key row_order rows)
        in mapE (\<lambda>row.
             let amount = alloc_amount extra row
             in if amount > MAX_MINOR then Inl MoneyKernelError
                else bindE (to_minor (if negative then - amount else amount))
                       (\<lambda>v. Inr (row_key row, v))) rows)"

section \<open>The rows\<close>

lemma raw_weight_nonneg [simp]: "0 \<le> raw_weight b"
  by (simp add: raw_weight_def)

lemma weight_sum_nonneg [simp]: "0 \<le> weight_sum bs"
  unfolding weight_sum_def by (rule sum_list_nonneg_int) simp

lemma alloc_weight_nonneg [simp]: "0 \<le> alloc_weight bs b"
  by (simp add: alloc_weight_def)

lemma alloc_denominator_pos: "bs \<noteq> [] \<Longrightarrow> 0 < alloc_denominator bs"
  using weight_sum_nonneg [of bs] by (auto simp: alloc_denominator_def simp del: weight_sum_nonneg)

lemma sum_alloc_weight: "(\<Sum>b\<leftarrow>bs. alloc_weight bs b) = alloc_denominator bs"
  by (simp add: alloc_weight_def alloc_denominator_def weight_sum_def sum_list_triv)

lemma alloc_row_key [simp]: "row_key (alloc_row m bs b) = bucket_key b"
  by (simp add: alloc_row_def Let_def)

lemma alloc_row_weight [simp]: "row_weight (alloc_row m bs b) = alloc_weight bs b"
  by (simp add: alloc_row_def Let_def)

lemma alloc_row_split:
  "alloc_denominator bs * row_base (alloc_row m bs b) + row_remainder (alloc_row m bs b)
     = m * alloc_weight bs b"
  by (simp add: alloc_row_def Let_def algebra_simps)

lemma alloc_row_remainder:
  assumes "bs \<noteq> []"
  shows "0 \<le> row_remainder (alloc_row m bs b)"
    and "row_remainder (alloc_row m bs b) < alloc_denominator bs"
  using alloc_denominator_pos [OF assms]
  by (simp_all add: alloc_row_def Let_def minus_div_mult_eq_mod)

lemma alloc_row_base_nonneg:
  "bs \<noteq> [] \<Longrightarrow> 0 \<le> m \<Longrightarrow> 0 \<le> row_base (alloc_row m bs b)"
  using alloc_denominator_pos [of bs]
  by (simp add: alloc_row_def Let_def pos_imp_zdiv_nonneg_iff)

definition alloc_rows :: "int \<Rightarrow> 'k allocation_bucket list \<Rightarrow> 'k alloc_row list" where
  "alloc_rows m bs = map (alloc_row m bs) bs"

definition alloc_shortfall :: "int \<Rightarrow> 'k allocation_bucket list \<Rightarrow> int" where
  "alloc_shortfall m bs = m - sum_list (map row_base (alloc_rows m bs))"

definition alloc_extra :: "int \<Rightarrow> ('k::linorder) allocation_bucket list \<Rightarrow> 'k list" where
  "alloc_extra m bs = hand_out (alloc_shortfall m bs) (sort_key row_order (alloc_rows m bs))"

definition alloc_share :: "int \<Rightarrow> ('k::linorder) allocation_bucket list \<Rightarrow> 'k allocation_bucket \<Rightarrow> int" where
  "alloc_share m bs b = alloc_amount (alloc_extra m bs) (alloc_row m bs b)"

text \<open>The remainders of the rows add up to the shortfall times the denominator.\<close>

lemma sum_remainders:
  "sum_list (map row_remainder (alloc_rows m bs)) = alloc_denominator bs * alloc_shortfall m bs"
proof -
  have "sum_list (map row_remainder (alloc_rows m bs))
      = (\<Sum>b\<leftarrow>bs. m * alloc_weight bs b - alloc_denominator bs * row_base (alloc_row m bs b))"
    by (simp add: alloc_rows_def comp_def alloc_row_split [symmetric])
  also have "\<dots> = m * (\<Sum>b\<leftarrow>bs. alloc_weight bs b)
      - alloc_denominator bs * (\<Sum>b\<leftarrow>bs. row_base (alloc_row m bs b))"
    by (simp add: sum_list_diff sum_list_const_mult)
  also have "\<dots> = alloc_denominator bs * alloc_shortfall m bs"
    by (simp add: sum_alloc_weight alloc_shortfall_def alloc_rows_def comp_def algebra_simps)
  finally show ?thesis .
qed

lemma shortfall_bounds:
  assumes "bs \<noteq> []"
  shows "0 \<le> alloc_shortfall m bs" and "alloc_shortfall m bs \<le> int (length bs)"
proof -
  let ?D = "alloc_denominator bs"
  have D: "0 < ?D" using assms by (rule alloc_denominator_pos)
  have nn: "0 \<le> sum_list (map row_remainder (alloc_rows m bs))"
    by (rule sum_list_nonneg_int) (auto simp: alloc_rows_def alloc_row_remainder assms)
  then show "0 \<le> alloc_shortfall m bs"
    using D by (simp add: sum_remainders zero_le_mult_iff)
  have "sum_list (map row_remainder (alloc_rows m bs)) \<le> (\<Sum>r\<leftarrow>alloc_rows m bs. ?D)"
    by (rule sum_list_mono_le) (auto simp: alloc_rows_def alloc_row_remainder assms intro: less_imp_le)
  also have "\<dots> = ?D * int (length bs)"
    by (simp add: alloc_rows_def comp_def sum_list_triv mult.commute)
  finally show "alloc_shortfall m bs \<le> int (length bs)"
    using D by (simp add: sum_remainders)
qed

section \<open>The hand-out\<close>

lemma hand_out_take: "hand_out s rs = map row_key (take (nat s) rs)"
proof (induction rs arbitrary: s)
  case Nil
  then show ?case by simp
next
  case (Cons r rs)
  have "nat s = Suc (nat (s - 1))" if "0 < s"
    using that by simp
  then show ?case using Cons.IH [of "s - 1"] by simp
qed

lemma alloc_keys: "map row_key (alloc_rows m bs) = map bucket_key bs"
  by (simp add: alloc_rows_def)

lemma alloc_extra_facts:
  assumes "distinct (map bucket_key bs)" and "bs \<noteq> []"
  shows "distinct (alloc_extra m bs)"
    and "set (alloc_extra m bs) \<subseteq> set (map bucket_key bs)"
    and "int (length (alloc_extra m bs)) = alloc_shortfall m bs"
proof -
  let ?rows = "sort_key row_order (alloc_rows m bs)"
  have m: "mset (map row_key ?rows) = mset (map bucket_key bs)"
    using alloc_keys [of m bs] by (metis mset_map mset_sort)
  have d: "distinct (map row_key ?rows)"
    using assms(1) m by (metis distinct_count_atmost_1 mset_eq_setD)
  have e: "alloc_extra m bs = take (nat (alloc_shortfall m bs)) (map row_key ?rows)"
    by (simp add: alloc_extra_def hand_out_take take_map)
  show "distinct (alloc_extra m bs)"
    unfolding e using d by (rule distinct_take)
  show "set (alloc_extra m bs) \<subseteq> set (map bucket_key bs)"
    unfolding e using m by (metis mset_eq_setD set_take_subset)
  have "length (map row_key ?rows) = length bs"
    by (simp add: alloc_rows_def)
  then show "int (length (alloc_extra m bs)) = alloc_shortfall m bs"
    unfolding e using shortfall_bounds [OF assms(2), of m] by simp
qed

text \<open>Exactness: the shares of the magnitude sum to the magnitude.\<close>

lemma sum_alloc_share:
  assumes "distinct (map bucket_key bs)" and "bs \<noteq> []"
  shows "(\<Sum>b\<leftarrow>bs. alloc_share m bs b) = m"
proof -
  have "(\<Sum>b\<leftarrow>bs. alloc_share m bs b)
      = (\<Sum>b\<leftarrow>bs. row_base (alloc_row m bs b))
      + (\<Sum>b\<leftarrow>bs. if bucket_key b \<in> set (alloc_extra m bs) then 1 else 0)"
    by (simp add: alloc_share_def alloc_amount_def sum_list_addf)
  also have "(\<Sum>b\<leftarrow>bs. if bucket_key b \<in> set (alloc_extra m bs) then 1 else 0)
      = alloc_shortfall m bs"
    using alloc_extra_facts [OF assms] assms(1) by (simp add: sum_list_distinct_keys)
  finally show ?thesis
    by (simp add: alloc_shortfall_def alloc_rows_def comp_def)
qed

text \<open>
  Fairness. The rows are served in descending order of remainder and fewer units are handed out
  than there are rows with a positive remainder, so every served row has one.
\<close>

lemma take_sorted_positive:
  fixes ks :: "int list"
  assumes "sorted (map uminus ks)" and "\<forall>k \<in> set ks. 0 \<le> k \<and> k < d"
    and "d * int s \<le> sum_list ks" and "i < s" and "i < length ks"
  shows "0 < ks ! i"
proof (rule ccontr)
  assume neg: "\<not> 0 < ks ! i"
  have dpos: "0 < d"
    using assms(2,5) by (metis dual_order.strict_trans2 nth_mem order_less_le_trans)
  have tail: "ks ! j \<le> 0" if "i \<le> j" "j < length ks" for j
    using sorted_nth_mono [OF assms(1), of i j] that neg by simp
  have "sum_list ks = sum_list (take i ks) + sum_list (drop i ks)"
    by (metis append_take_drop_id sum_list_append)
  moreover have "sum_list (drop i ks) \<le> 0"
  proof (rule sum_list_nonpos)
    fix x
    assume "x \<in> set (drop i ks)"
    then obtain j where "j < length ks - i" "x = ks ! (i + j)"
      using assms(5) by (auto simp: in_set_conv_nth)
    then show "x \<le> 0" using tail [of "i + j"] by simp
  qed
  moreover have "sum_list (take i ks) \<le> d * int i"
  proof -
    have "sum_list (map (\<lambda>x. x) (take i ks)) \<le> sum_list (map (\<lambda>x. d) (take i ks))"
      using assms(2) by (intro sum_list_mono_le) (auto dest!: in_set_takeD)
    then show ?thesis
      using assms(5) by (simp add: sum_list_triv mult.commute)
  qed
  moreover have "d * int i < d * int s"
    using dpos assms(4) by simp
  ultimately show False using assms(3) by linarith
qed

lemma extra_remainder_pos:
  assumes "distinct (map bucket_key bs)" and "b \<in> set bs"
    and "bucket_key b \<in> set (alloc_extra m bs)"
  shows "0 < row_remainder (alloc_row m bs b)"
proof -
  have ne: "bs \<noteq> []" using assms(2) by auto
  let ?rows = "sort_key row_order (alloc_rows m bs)"
  let ?s = "nat (alloc_shortfall m bs)"
  have setr: "set ?rows = alloc_row m bs ` set bs"
    by (simp add: alloc_rows_def)
  obtain i where i: "i < ?s" "i < length ?rows" "row_key (?rows ! i) = bucket_key b"
    using assms(3) by (auto simp: alloc_extra_def hand_out_take in_set_conv_nth)
  obtain b' where b': "b' \<in> set bs" "?rows ! i = alloc_row m bs b'"
    using nth_mem [OF i(2)] setr by auto
  then have "b' = b"
    using i(3) assms(1,2) by (auto simp: distinct_map dest: inj_onD)
  have "0 < map row_remainder ?rows ! i"
  proof (rule take_sorted_positive)
    have "sorted (map row_order ?rows)" by simp
    then have "sorted (map fst (map row_order ?rows))"
      by (rule sorted_map_mono) (auto simp: mono_on_def less_eq_prod_def)
    then show "sorted (map uminus (map row_remainder ?rows))"
      by (simp add: comp_def row_order_def)
    show "\<forall>k\<in>set (map row_remainder ?rows). 0 \<le> k \<and> k < alloc_denominator bs"
      using setr alloc_row_remainder [OF ne] by auto
    have "mset (map row_remainder ?rows) = mset (map row_remainder (alloc_rows m bs))"
      by simp
    then have "sum_list (map row_remainder ?rows) = sum_list (map row_remainder (alloc_rows m bs))"
      by (metis sum_mset_sum_list)
    then show "alloc_denominator bs * int ?s \<le> sum_list (map row_remainder ?rows)"
      using shortfall_bounds [OF ne, of m] by (simp add: sum_remainders)
    show "i < ?s" by (rule i(1))
    show "i < length (map row_remainder ?rows)" using i(2) by simp
  qed
  then show ?thesis using i(2) b'(2) \<open>b' = b\<close> by simp
qed

lemma share_within_one:
  assumes "distinct (map bucket_key bs)" and "b \<in> set bs"
  shows "\<bar>alloc_denominator bs * alloc_share m bs b - m * alloc_weight bs b\<bar> < alloc_denominator bs"
proof -
  have ne: "bs \<noteq> []" using assms(2) by auto
  have split: "alloc_denominator bs * row_base (alloc_row m bs b)
      = m * alloc_weight bs b - row_remainder (alloc_row m bs b)"
    using alloc_row_split [of bs m b] by linarith
  show ?thesis
    using alloc_row_remainder [OF ne, of m b] extra_remainder_pos [OF assms, of m]
    by (auto simp: alloc_share_def alloc_amount_def distrib_left split)
qed

lemma alloc_share_nonneg: "bs \<noteq> [] \<Longrightarrow> 0 \<le> m \<Longrightarrow> 0 \<le> alloc_share m bs b"
  using alloc_row_base_nonneg [of bs m b] by (simp add: alloc_share_def alloc_amount_def)

lemma alloc_share_zero_weight:
  assumes "distinct (map bucket_key bs)" and "b \<in> set bs" and "alloc_weight bs b = 0"
  shows "alloc_share m bs b = 0"
proof -
  have "\<bar>alloc_denominator bs * alloc_share m bs b\<bar> < alloc_denominator bs"
    using share_within_one [OF assms(1,2), of m] assms(3) by simp
  moreover have "alloc_denominator bs \<le> \<bar>alloc_denominator bs * k\<bar>" if "k \<noteq> 0" for k
    using that alloc_denominator_pos [of bs] assms(2) by (cases bs) (auto simp: abs_mult)
  ultimately show ?thesis by fastforce
qed

section \<open>The allocator as a function of its shares\<close>

definition signed_share :: "int \<Rightarrow> ('k::linorder) allocation_bucket list \<Rightarrow> 'k allocation_bucket \<Rightarrow> int" where
  "signed_share t bs b = (if t < 0 then - alloc_share (- t) bs b else alloc_share t bs b)"

lemma signed_share_bound:
  assumes "distinct (map bucket_key bs)" and "b \<in> set bs"
  shows "\<bar>signed_share t bs b\<bar> \<le> \<bar>t\<bar>"
proof -
  have ne: "bs \<noteq> []" using assms(2) by auto
  have "alloc_share m bs b \<le> m" if m: "0 \<le> m" for m
  proof -
    have nn: "0 \<le> alloc_share m bs c" for c
      using m by (rule alloc_share_nonneg [OF ne])
    have "alloc_share m bs b \<le> (\<Sum>c\<leftarrow>bs. alloc_share m bs c)"
      using assms(2) nn by (intro member_le_sum_list) auto
    then show ?thesis using sum_alloc_share [OF assms(1) ne, of m] by simp
  qed
  from this [of "\<bar>t\<bar>"] show ?thesis
    using alloc_share_nonneg [OF ne, of "\<bar>t\<bar>" b] by (auto simp: signed_share_def)
qed

lemma sum_signed_share:
  "distinct (map bucket_key bs) \<Longrightarrow> bs \<noteq> [] \<Longrightarrow> (\<Sum>b\<leftarrow>bs. signed_share t bs b) = t"
  by (cases "t < 0") (simp_all add: signed_share_def sum_alloc_share sum_list_uminus)

text \<open>Within the money range the allocator cannot fail, and its result is the list of shares.\<close>

lemma allocateMinor_nonempty:
  assumes "bs \<noteq> []"
  shows "allocateMinor t bs =
    (if \<not> distinct (map bucket_key bs) \<or> (\<exists>b \<in> set bs. MAX_MINOR < alloc_share \<bar>t\<bar> bs b)
     then Inl MoneyKernelError
     else Inr (map (\<lambda>b. (bucket_key b, signed_share t bs b)) bs))"
proof (cases "distinct (map bucket_key bs)")
  case False
  then show ?thesis using assms by (simp add: allocateMinor_def)
next
  case True
  let ?f = "\<lambda>row. let amount = alloc_amount (alloc_extra \<bar>t\<bar> bs) row
      in if amount > MAX_MINOR then Inl MoneyKernelError
         else bindE (to_minor (if t < 0 then - amount else amount)) (\<lambda>v. Inr (row_key row, v))"
  have mag: "(if t < 0 then - t else t) = \<bar>t\<bar>" by simp
  have step: "?f (alloc_row \<bar>t\<bar> bs b) = (if MAX_MINOR < alloc_share \<bar>t\<bar> bs b then Inl MoneyKernelError
      else Inr (bucket_key b, signed_share t bs b))" if "b \<in> set bs" for b
  proof -
    have "0 \<le> alloc_share \<bar>t\<bar> bs b" using alloc_share_nonneg [OF assms] by simp
    then have "to_minor (if t < 0 then - alloc_share \<bar>t\<bar> bs b else alloc_share \<bar>t\<bar> bs b)
        = Inr (signed_share t bs b)" if "alloc_share \<bar>t\<bar> bs b \<le> MAX_MINOR"
      using that by (auto simp: to_minor_eq_Inr in_range_def signed_share_def)
    then show ?thesis by (simp add: alloc_share_def [symmetric] Let_def)
  qed
  have loop: "mapE ?f (map (alloc_row \<bar>t\<bar> bs) cs)
      = (if \<exists>b \<in> set cs. MAX_MINOR < alloc_share \<bar>t\<bar> bs b then Inl MoneyKernelError
         else Inr (map (\<lambda>b. (bucket_key b, signed_share t bs b)) cs))" if "set cs \<subseteq> set bs" for cs
    using that by (induction cs) (auto simp: step simp del: is_safe_integer.simps)
  have "allocateMinor t bs = mapE ?f (map (alloc_row \<bar>t\<bar> bs) bs)"
    using True assms
    by (simp only: allocateMinor_def Let_def mag alloc_extra_def alloc_shortfall_def alloc_rows_def
        if_False not_True_eq_False)
  then show ?thesis using True loop [of bs] by simp
qed

lemma allocateMinor_total:
  assumes "bs \<noteq> []" and "distinct (map bucket_key bs)" and "in_range t"
  shows "allocateMinor t bs = Inr (map (\<lambda>b. (bucket_key b, signed_share t bs b)) bs)"
proof -
  have "alloc_share \<bar>t\<bar> bs b \<le> MAX_MINOR" if "b \<in> set bs" for b
    using signed_share_bound [OF assms(2) that, of t] assms(3)
      alloc_share_nonneg [OF assms(1), of "\<bar>t\<bar>" b]
    by (auto simp: signed_share_def in_range_def split: if_splits)
  then show ?thesis
    using assms by (auto simp: allocateMinor_nonempty not_less)
qed

lemma allocateMinor_Inr:
  assumes "allocateMinor t bs = Inr m"
  shows "distinct (map bucket_key bs)"
    and "m = map (\<lambda>b. (bucket_key b, signed_share t bs b)) bs"
    and "sum_list (map snd m) = t"
proof -
  show d: "distinct (map bucket_key bs)" and m: "m = map (\<lambda>b. (bucket_key b, signed_share t bs b)) bs"
    using assms by (cases "bs = []"; auto simp: allocateMinor_nonempty allocateMinor_def [of _ "[]"]
        split: if_splits)+
  show "sum_list (map snd m) = t"
  proof (cases "bs = []")
    case True
    then show ?thesis using assms by (auto simp: allocateMinor_def split: if_splits)
  next
    case False
    then show ?thesis using sum_signed_share [OF d False, of t] by (simp add: m comp_def)
  qed
qed

section \<open>Independence of the order of the buckets\<close>

lemma alloc_share_perm:
  assumes "mset bs = mset bs'" and "distinct (map bucket_key bs)"
  shows "alloc_share m bs = alloc_share m bs'"
proof -
  have w: "weight_sum bs = weight_sum bs'"
    unfolding weight_sum_def using assms(1) by (rule sum_list_mset_cong)
  have l: "length bs = length bs'" using assms(1) by (rule mset_eq_length)
  have row: "alloc_row m bs = alloc_row m bs'"
    by (simp add: fun_eq_iff alloc_row_def alloc_weight_def alloc_denominator_def w l)
  have rows: "mset (alloc_rows m bs) = mset (alloc_rows m bs')"
    unfolding alloc_rows_def row using assms(1) by simp
  have "inj_on row_key (set (alloc_rows m bs))"
    using assms(2) by (intro inj_on_of_distinct_map) (simp add: alloc_keys)
  then have inj: "inj_on row_order (set (alloc_rows m bs))"
    by (auto simp: inj_on_def row_order_def)
  have short: "alloc_shortfall m bs = alloc_shortfall m bs'"
    unfolding alloc_shortfall_def using sum_list_mset_cong [OF rows] by simp
  have "alloc_extra m bs = alloc_extra m bs'"
    unfolding alloc_extra_def short by (simp add: sort_key_unique [OF rows inj])
  then show ?thesis
    by (simp add: fun_eq_iff alloc_share_def row)
qed

lemma allocateMinor_perm:
  assumes "mset bs = mset bs'"
  shows "map_sum id mset (allocateMinor t bs) = map_sum id mset (allocateMinor t bs')"
proof (cases "bs = []")
  case True
  then show ?thesis using assms by simp
next
  case False
  then have ne: "bs' \<noteq> []" using assms by auto
  have d: "distinct (map bucket_key bs) = distinct (map bucket_key bs')"
    using assms by (metis mset_eq_imp_distinct_iff mset_map)
  show ?thesis
  proof (cases "distinct (map bucket_key bs)")
    case True
    have share: "alloc_share m bs = alloc_share m bs'" for m
      by (rule alloc_share_perm [OF assms True])
    then have signed: "signed_share t bs = signed_share t bs'"
      by (simp add: fun_eq_iff signed_share_def)
    have "set bs = set bs'" using assms by (rule mset_eq_setD)
    then show ?thesis
      using True d assms
      by (simp add: allocateMinor_nonempty False ne share signed)
  next
    case False
    then show ?thesis
      using d by (simp add: allocateMinor_nonempty \<open>bs \<noteq> []\<close> ne)
  qed
qed

section \<open>The contract of an allocator\<close>

text \<open>
  \<open>shareOf\<close> of \<open>engine/allocate-lines.ts\<close>: the share of a line in an allocation, zero for a
  line that has none.
\<close>

definition shareOf :: "('k \<times> int) list \<Rightarrow> 'k \<Rightarrow> int" where
  "shareOf allocation k = (case map_of allocation k of None \<Rightarrow> 0 | Some v \<Rightarrow> v)"

locale allocator =
  fixes alloc :: "int \<Rightarrow> ('k::linorder) allocation_bucket list \<Rightarrow> ('k \<times> int) list outcome"
  assumes alloc_distinct: "alloc t bs = Inr m \<Longrightarrow> distinct (map bucket_key bs)"
    and alloc_map_keys: "alloc t bs = Inr m \<Longrightarrow> map fst m = map bucket_key bs"
    and alloc_exact: "alloc t bs = Inr m \<Longrightarrow> sum_list (map snd m) = t"
    and alloc_sign: "alloc t bs = Inr m \<Longrightarrow> p \<in> set m \<Longrightarrow> 0 \<le> t \<Longrightarrow> 0 \<le> snd p"
begin

text \<open>Reading the shares back by line loses nothing: they sum to what was allocated.\<close>

lemma sum_shares:
  assumes "alloc t bs = Inr m" and "map bucket_key bs = ks"
  shows "(\<Sum>k\<leftarrow>ks. shareOf m k) = t"
proof -
  have k: "map fst m = ks" using alloc_map_keys [OF assms(1)] assms(2) by simp
  have d: "distinct (map fst m)" using alloc_distinct [OF assms(1)] alloc_map_keys [OF assms(1)] by simp
  have "shareOf m k = the (map_of m k)" if "k \<in> set ks" for k
    using that k by (cases "map_of m k") (auto simp: shareOf_def map_of_eq_None_iff)
  then have "(\<Sum>k\<leftarrow>ks. shareOf m k) = (\<Sum>k\<leftarrow>ks. the (map_of m k))"
    by (metis (no_types, lifting) map_eq_conv)
  also have "\<dots> = t"
    using sum_list_lookup [OF d k] alloc_exact [OF assms(1)] by simp
  finally show ?thesis .
qed

text \<open>The same over any duplicate-free list of lines that contains the buckets' keys.\<close>

lemma sum_shares_superset:
  assumes "alloc t bs = Inr m" and "set (map bucket_key bs) \<subseteq> set ks" and "distinct ks"
  shows "(\<Sum>k\<leftarrow>ks. shareOf m k) = t"
proof -
  let ?K = "set (map bucket_key bs)"
  have zero: "shareOf m k = 0" if "k \<notin> ?K" for k
    using that alloc_map_keys [OF assms(1)]
    by (metis list.set_map map_of_eq_None_iff option.simps(4) shareOf_def)
  have "(\<Sum>k\<leftarrow>ks. shareOf m k) = (\<Sum>k\<in>set ks. shareOf m k)"
    using assms(3) by (simp add: sum_list_distinct_conv_sum_set)
  also have "\<dots> = (\<Sum>k\<in>?K. shareOf m k)"
    using assms(2) zero by (intro sum.mono_neutral_right) auto
  also have "\<dots> = (\<Sum>k\<leftarrow>map bucket_key bs. shareOf m k)"
    by (rule sum_list_distinct_conv_sum_set [OF alloc_distinct [OF assms(1)], symmetric])
  also have "\<dots> = t" by (rule sum_shares [OF assms(1) refl])
  finally show ?thesis .
qed

lemma shareOf_outside: "alloc t bs = Inr m \<Longrightarrow> k \<notin> set (map bucket_key bs) \<Longrightarrow> shareOf m k = 0"
  using alloc_map_keys by (metis list.set_map map_of_eq_None_iff option.simps(4) shareOf_def)

lemma shareOf_nonneg: "alloc t bs = Inr m \<Longrightarrow> 0 \<le> t \<Longrightarrow> 0 \<le> shareOf m k"
  using alloc_sign by (fastforce simp: shareOf_def split: option.splits dest: map_of_SomeD)

end

interpretation largest_remainder: allocator allocateMinor
proof
  fix t bs m p
  assume a: "allocateMinor t bs = Inr m"
  show "distinct (map bucket_key bs)" and "sum_list (map snd m) = t"
    using allocateMinor_Inr [OF a] by simp_all
  show "map fst m = map bucket_key bs"
    using allocateMinor_Inr(2) [OF a] by simp
  assume "p \<in> set m" and "0 \<le> t"
  then show "0 \<le> snd p"
    using allocateMinor_Inr(2) [OF a] alloc_share_nonneg [of bs t]
    by (cases "bs = []") (auto simp: signed_share_def)
qed

end
