(* ===== verification/Ids.thy ===== *)
theory Ids
  imports Doubles
begin

text \<open>
  Identifiers: \<open>packages/contracts/src/ids.ts\<close>. Every identifier is derived from the platform's
  own identity by joining checked parts with separators, so that replaying the same event derives
  the same identifier. The lemmas show the other direction: different platform identities never
  collide onto one identifier.
\<close>

definition requireNonEmpty :: "string \<Rightarrow> string outcome" where
  "requireNonEmpty part =
     (if part = [] \<or> CHR '':'' \<in> set part \<or> CHR ''#'' \<in> set part then Inl MalformedIdError else Inr part)"

definition slug_first :: "char \<Rightarrow> bool" where
  "slug_first c \<longleftrightarrow> c \<in> set ''abcdefghijklmnopqrstuvwxyz0123456789''"

definition slug_char :: "char \<Rightarrow> bool" where
  "slug_char c \<longleftrightarrow> slug_first c \<or> c \<in> set ''_-''"

text \<open>The test of \<open>SLUG\<close>: a first character, then at most 63 more.\<close>

definition isPlatformId :: "string \<Rightarrow> bool" where
  "isPlatformId slug \<longleftrightarrow>
     (case slug of [] \<Rightarrow> False | c # cs \<Rightarrow> slug_first c \<and> list_all slug_char cs \<and> length cs \<le> 63)"

definition toPlatformId :: "string \<Rightarrow> string outcome" where
  "toPlatformId slug = (if \<not> isPlatformId slug then Inl MalformedIdError else Inr slug)"

definition toStoreId :: "string \<Rightarrow> string \<Rightarrow> string outcome" where
  "toStoreId platform platformStoreId =
     bindE (requireNonEmpty platformStoreId) (\<lambda>p. Inr (platform @ '':'' @ p))"

definition toOrderId :: "string \<Rightarrow> string \<Rightarrow> string outcome" where
  "toOrderId storeId platformOrderId =
     bindE (requireNonEmpty platformOrderId) (\<lambda>p. Inr (storeId @ '':'' @ p))"

definition toOrderItemId :: "string \<Rightarrow> string \<Rightarrow> string outcome" where
  "toOrderItemId orderId platformLineId =
     bindE (requireNonEmpty platformLineId) (\<lambda>p. Inr (orderId @ ''#'' @ p))"

definition toShipmentId :: "string \<Rightarrow> string \<Rightarrow> string outcome" where
  "toShipmentId storeId platformShipmentId =
     bindE (requireNonEmpty platformShipmentId) (\<lambda>p. Inr (storeId @ '':'' @ p))"

definition toReversalId :: "string \<Rightarrow> string \<Rightarrow> string outcome" where
  "toReversalId orderId platformReversalId =
     bindE (requireNonEmpty platformReversalId) (\<lambda>p. Inr (orderId @ ''#rev:'' @ p))"

definition idFromString :: "string \<Rightarrow> string outcome" where
  "idFromString raw = (if raw = [] then Inl MalformedIdError else Inr raw)"

definition hex_char :: "char \<Rightarrow> bool" where
  "hex_char c \<longleftrightarrow> c \<in> set ''0123456789abcdef''"

definition isCustomerRef :: "string \<Rightarrow> bool" where
  "isCustomerRef hex \<longleftrightarrow> length hex = 64 \<and> list_all hex_char hex"

definition toCustomerRef :: "string \<Rightarrow> string outcome" where
  "toCustomerRef hex = (if \<not> isCustomerRef hex then Inl MalformedIdError else Inr hex)"

definition toCalcVersion :: "js_number \<Rightarrow> int outcome" where
  "toCalcVersion version =
     (if \<not> is_safe_integer version \<or> js_int version < 1 then Inl MalformedIdError else Inr (js_int version))"

section \<open>Derived identifiers do not collide\<close>

lemma requireNonEmpty_eq_Inr:
  "requireNonEmpty p = Inr q \<longleftrightarrow> q = p \<and> p \<noteq> [] \<and> CHR '':'' \<notin> set p \<and> CHR ''#'' \<notin> set p"
  by (auto simp: requireNonEmpty_def)

text \<open>A separator that the last part does not contain marks where the last part begins.\<close>

lemma split_at_last:
  assumes "xs @ c # ys = xs' @ c # ys'" and "c \<notin> set ys" and "c \<notin> set ys'"
  shows "xs = xs' \<and> ys = ys'"
proof -
  have "rev ys @ c # rev xs = rev ys' @ c # rev xs'"
    using assms(1) by (metis append.assoc append_Cons append_Nil rev.simps(2) rev_append)
  moreover have "takeWhile (\<lambda>x. x \<noteq> c) (rev zs @ c # rev ws) = rev zs" if "c \<notin> set zs" for zs ws
    using that by (subst takeWhile_append2) auto
  ultimately have "rev ys = rev ys'"
    using assms(2,3) by metis
  then show ?thesis using assms(1) by auto
qed

lemma toOrderId_inject:
  "toOrderId s p = Inr i \<Longrightarrow> toOrderId s' p' = Inr i \<Longrightarrow> s = s' \<and> p = p'"
  using split_at_last [of s "CHR '':''" p s' p']
  by (auto simp: toOrderId_def bindE_eq_Inr requireNonEmpty_eq_Inr)

lemma toStoreId_inject:
  "toStoreId s p = Inr i \<Longrightarrow> toStoreId s' p' = Inr i \<Longrightarrow> s = s' \<and> p = p'"
  using split_at_last [of s "CHR '':''" p s' p']
  by (auto simp: toStoreId_def bindE_eq_Inr requireNonEmpty_eq_Inr)

lemma toOrderItemId_inject:
  "toOrderItemId o1 p = Inr i \<Longrightarrow> toOrderItemId o2 p' = Inr i \<Longrightarrow> o1 = o2 \<and> p = p'"
  using split_at_last [of o1 "CHR ''#''" p o2 p']
  by (auto simp: toOrderItemId_def bindE_eq_Inr requireNonEmpty_eq_Inr)

lemma toReversalId_inject:
  "toReversalId o1 p = Inr i \<Longrightarrow> toReversalId o2 p' = Inr i \<Longrightarrow> o1 = o2 \<and> p = p'"
  using split_at_last [of "o1 @ ''#rev''" "CHR '':''" p "o2 @ ''#rev''" p']
  by (auto simp: toReversalId_def bindE_eq_Inr requireNonEmpty_eq_Inr)

text \<open>A line and a reversal of any two orders never share an identifier.\<close>

lemma item_not_reversal:
  assumes "toOrderItemId o1 p = Inr i" and "toReversalId o2 q = Inr i"
  shows False
proof -
  have p: "CHR '':'' \<notin> set p" and i: "i = o1 @ CHR ''#'' # p" and "CHR ''#'' \<notin> set p"
    using assms(1) by (auto simp: toOrderItemId_def bindE_eq_Inr requireNonEmpty_eq_Inr)
  have "i = o2 @ CHR ''#'' # ''rev:'' @ q" and "CHR ''#'' \<notin> set (''rev:'' @ q)"
    using assms(2) by (auto simp: toReversalId_def bindE_eq_Inr requireNonEmpty_eq_Inr)
  with i \<open>CHR ''#'' \<notin> set p\<close> have "p = ''rev:'' @ q"
    using split_at_last by metis
  then show False using p by simp
qed

end
