(* ===== verification/IsoDates.thy ===== *)
theory IsoDates
  imports Time
begin

text \<open>
  \<open>new Date(new Date(start).getTime() + n * 86_400_000).toISOString()\<close>, which
  \<open>packages/billing/src/subscription.ts\<close> uses to move an instant by whole days: the calendar date
  advances day by day, the time of day stays. A year past 9999 is written with a sign and six
  digits, and a string that is not an instant makes an invalid date whose \<open>toISOString\<close> throws.
\<close>

definition next_day :: "int \<times> int \<times> int \<Rightarrow> int \<times> int \<times> int" where
  "next_day date = (case date of (y, m, d) \<Rightarrow>
     if d < monthLength y m then (y, m, d + 1)
     else if m < 12 then (y, m + 1, 1)
     else (y + 1, 1, 1))"

definition plus_days :: "nat \<Rightarrow> int \<times> int \<times> int \<Rightarrow> int \<times> int \<times> int" where
  "plus_days n date = (next_day ^^ n) date"

definition digit_char :: "int \<Rightarrow> char" where
  "digit_char k = ''0123456789'' ! nat (k mod 10)"

definition two_digits :: "int \<Rightarrow> string" where
  "two_digits n = [digit_char (n div 10), digit_char n]"

definition four_digits :: "int \<Rightarrow> string" where
  "four_digits n = [digit_char (n div 1000), digit_char (n div 100), digit_char (n div 10), digit_char n]"

definition iso_year :: "int \<Rightarrow> string" where
  "iso_year y = (if y \<le> 9999 then four_digits y else ''+0'' @ digit_char (y div 10000) # four_digits y)"

definition instant_plus_days :: "nat \<Rightarrow> string \<Rightarrow> string outcome" where
  "instant_plus_days n s =
     (case match_instant s of
        None \<Rightarrow> Inl RangeError
      | Some (y, mo, d, _) \<Rightarrow>
          if \<not> isInstant s then Inl RangeError
          else case plus_days n (y, mo, d) of (y', mo', d') \<Rightarrow>
            Inr (iso_year y' @ ''-'' @ two_digits mo' @ ''-'' @ two_digits d' @ drop 10 s))"

section \<open>The calendar advances by one day\<close>

definition real_date :: "int \<times> int \<times> int \<Rightarrow> bool" where
  "real_date date = (case date of (y, m, d) \<Rightarrow> isRealDate y m d)"

definition day_number :: "int \<times> int \<times> int \<Rightarrow> int" where
  "day_number date = (case date of (y, m, d) \<Rightarrow> daysFromCivil y m d)"

lemma next_day_real: "real_date date \<Longrightarrow> real_date (next_day date)"
proof -
  assume r: "real_date date"
  obtain y m d where date: "date = (y, m, d)" by (cases date)
  show ?thesis
    using r monthLength_bounds [of "m + 1" y] monthLength_bounds [of 1 "y + 1"]
    by (auto simp: date real_date_def next_day_def isRealDate_iff)
qed

lemma next_day_number:
  assumes "real_date date"
  shows "day_number (next_day date) = day_number date + 1"
proof -
  obtain y m d where date: "date = (y, m, d)" by (cases date)
  have r: "1 \<le> m" "m \<le> 12" "1 \<le> d" "d \<le> monthLength y m"
    using assms by (simp_all add: date real_date_def isRealDate_iff)
  note day = daysFromCivil_day [of y m d] daysFromCivil_day [of y m "d + 1"]
  show ?thesis
  proof (cases "d < monthLength y m")
    case True
    then show ?thesis using day by (simp add: date next_day_def day_number_def)
  next
    case last: False
    then have d: "d = monthLength y m" using r by simp
    show ?thesis
    proof (cases "m < 12")
      case True
      then show ?thesis
        using last day daysFromCivil_month [of m y] r d by (simp add: date next_day_def day_number_def)
    next
      case False
      then have "m = 12" using r by simp
      then show ?thesis
        using last day daysFromCivil_year [of y] d by (simp add: date next_day_def day_number_def)
    qed
  qed
qed

lemma plus_days_real: "real_date date \<Longrightarrow> real_date (plus_days n date)"
  by (induction n) (simp_all add: plus_days_def next_day_real)

lemma plus_days_number: "real_date date \<Longrightarrow> day_number (plus_days n date) = day_number date + int n"
proof (induction n)
  case 0
  then show ?case by (simp add: plus_days_def)
next
  case (Suc n)
  have "real_date (plus_days n date)" using Suc.prems by (rule plus_days_real)
  then have "day_number (next_day (plus_days n date)) = day_number date + int n + 1"
    using next_day_number Suc by simp
  then show ?case by (simp add: plus_days_def)
qed

lemma next_day_year: "fst date \<le> fst (next_day date) \<and> fst (next_day date) \<le> fst date + 1"
  by (simp add: next_day_def split: prod.split)

section \<open>Digits read back\<close>

lemma digit_cases:
  "k mod 10 = 0 \<or> k mod 10 = 1 \<or> k mod 10 = 2 \<or> k mod 10 = 3 \<or> k mod 10 = 4 \<or> k mod 10 = 5
   \<or> k mod 10 = 6 \<or> k mod 10 = 7 \<or> k mod 10 = 8 \<or> k mod 10 = (9::int)"
  by presburger

lemma digit_char_val [simp]: "digit_val (digit_char k) = k mod 10" "is_digit (digit_char k)"
  using digit_cases [of k] by (auto simp: digit_char_def digit_val_def is_digit_def)

lemma digits_val_two [simp]: "digits_val [a, b] = 10 * digit_val a + digit_val b"
  by (simp add: digits_val_Cons)

lemma digits_val_four [simp]:
  "digits_val [a, b, c, d] = 1000 * digit_val a + 100 * digit_val b + 10 * digit_val c + digit_val d"
  by (simp add: digits_val_Cons)

lemma two_digits_val:
  assumes "0 \<le> n" and "n < 100"
  shows "digits_val (two_digits n) = n"
proof -
  have "n div 10 mod 10 = n div 10" using assms by simp
  then show ?thesis
    unfolding two_digits_def digits_val_two digit_char_val using div_mult_mod_eq [of n 10] by linarith
qed

lemma four_digits_val:
  assumes "0 \<le> n" and "n < 10000"
  shows "digits_val (four_digits n) = n"
proof -
  have d: "n div 100 = n div 10 div 10" "n div 1000 = n div 10 div 10 div 10"
    by (simp_all add: zdiv_zmult2_eq [symmetric])
  have c: "n div 10 div 10 div 10 mod 10 = n div 10 div 10 div 10"
    using assms by simp
  show ?thesis
    unfolding four_digits_def digits_val_four digit_char_val d c
    using div_mult_mod_eq [of n 10] div_mult_mod_eq [of "n div 10" 10] div_mult_mod_eq [of "n div 10 div 10" 10]
    by linarith
qed

section \<open>Moving an instant by days\<close>

lemma real_date_bounds: "real_date (y, m, d) \<Longrightarrow> 1 \<le> m \<and> m \<le> 12 \<and> 1 \<le> d \<and> d \<le> 31"
  using monthLength_bounds [of m y] by (auto simp: real_date_def isRealDate_iff)

lemma match_rebuilt:
  assumes s: "match_instant s = Some (y, mo, d, rest)"
    and y: "0 \<le> y'" "y' < 10000" and mo: "0 \<le> mo'" "mo' < 100" and d: "0 \<le> d'" "d' < 100"
  shows "match_instant (four_digits y' @ ''-'' @ two_digits mo' @ ''-'' @ two_digits d' @ drop 10 s)
     = Some (y', mo', d', rest)"
proof -
  let ?r = "four_digits y' @ ''-'' @ two_digits mo' @ ''-'' @ two_digits d' @ drop 10 s"
  have len: "length s = 24" using s by (simp add: match_instant_def split: if_splits)
  have tail: "substr ?r i n = substr s i n" if "10 \<le> i" for i n
  proof -
    have "drop i ?r = drop (i - 10) (drop 10 s)"
      using that by (simp add: four_digits_def two_digits_def drop_Cons' )
    also have "\<dots> = drop i s" using that by simp
    finally show ?thesis by (simp add: substr_def)
  qed
  have head: "substr ?r 0 4 = four_digits y'" "substr ?r 4 1 = ''-''" "substr ?r 5 2 = two_digits mo'"
    "substr ?r 7 1 = ''-''" "substr ?r 8 2 = two_digits d'" "length ?r = 24"
    by (simp_all add: substr_def four_digits_def two_digits_def len)
  have dig: "list_all is_digit (four_digits y')" "list_all is_digit (two_digits mo')" "list_all is_digit (two_digits d')"
    by (simp_all add: four_digits_def two_digits_def)
  show ?thesis
    using s tail head dig four_digits_val [OF y] two_digits_val [OF mo] two_digits_val [OF d] len
    unfolding match_instant_def digits_at_def by (auto split: if_splits)
qed

lemma instant_plus_days_ok:
  assumes "isInstant s" and "match_instant s = Some (y, mo, d, rest)" and "fst (plus_days n (y, mo, d)) \<le> 9999"
  obtains r where "instant_plus_days n s = Inr r" and "isInstant r"
    and "\<And>ms. epochMillis s = Inr ms \<Longrightarrow> epochMillis r = Inr (ms + int n * 86400000)"
proof -
  obtain y' mo' d' where p: "plus_days n (y, mo, d) = (y', mo', d')" by (cases "plus_days n (y, mo, d)")
  have real: "real_date (y, mo, d)"
    using assms(1,2) by (cases rest) (auto simp: isInstant_def real_date_def split: if_splits)
  then have real': "real_date (y', mo', d')" using plus_days_real [of "(y, mo, d)" n] p by simp
  have "0 \<le> y" using assms(2) digits_val_bounds by (auto simp: match_instant_def digits_at_def split: if_splits)
  then have "0 \<le> y'"
  proof -
    have "fst (y, mo, d) \<le> fst (plus_days n (y, mo, d))"
    proof (induction n)
      case 0
      then show ?case by (simp add: plus_days_def)
    next
      case (Suc n)
      then show ?case using next_day_year [of "plus_days n (y, mo, d)"] by (simp add: plus_days_def)
    qed
    then show ?thesis using p \<open>0 \<le> y\<close> by simp
  qed
  moreover have "y' < 10000" using assms(3) p by simp
  moreover note b = real_date_bounds [OF real']
  ultimately have m: "match_instant (four_digits y' @ ''-'' @ two_digits mo' @ ''-'' @ two_digits d' @ drop 10 s)
      = Some (y', mo', d', rest)"
    by (intro match_rebuilt [OF assms(2)]) auto
  let ?r = "four_digits y' @ ''-'' @ two_digits mo' @ ''-'' @ two_digits d' @ drop 10 s"
  have r: "instant_plus_days n s = Inr ?r"
    using assms p by (cases rest) (simp add: instant_plus_days_def iso_year_def)
  have ok: "isInstant ?r"
    using assms(1,2) m real' by (cases rest) (auto simp: isInstant_def real_date_def split: if_splits)
  have "daysFromCivil y' mo' d' = daysFromCivil y mo d + int n"
    using plus_days_number [OF real, of n] p by (simp add: day_number_def)
  then have "epochMillis s = Inr ms \<Longrightarrow> epochMillis ?r = Inr (ms + int n * 86400000)" for ms
    using assms(1,2) m ok by (cases rest) (auto simp: epochMillis_def algebra_simps)
  then show thesis using that r ok by blast
qed

text \<open>A later day is a later string, so a window that starts here and ends there is not empty.\<close>

lemma instant_plus_days_later:
  assumes "isInstant s" and "match_instant s = Some (y, mo, d, rest)" and "fst (plus_days n (y, mo, d)) \<le> 9999"
    and "0 < n" and "instant_plus_days n s = Inr r"
  shows "s < r"
proof -
  obtain r' where r': "instant_plus_days n s = Inr r'" "isInstant r'"
    and e: "\<And>ms. epochMillis s = Inr ms \<Longrightarrow> epochMillis r' = Inr (ms + int n * 86400000)"
    using instant_plus_days_ok [OF assms(1-3)] by blast
  obtain ms where ms: "epochMillis s = Inr ms" using epochMillis_total [OF assms(1)] by blast
  have "s < r'" using instant_order(1) [OF assms(1) r'(2) ms e [OF ms]] assms(4) by simp
  then show ?thesis using r'(1) assms(5) by simp
qed

end
