(* ===== verification/MoneyProperties.thy ===== *)
theory MoneyProperties
  imports Decimals Allocation Time Ids IsoDates
begin

text \<open>
  Properties of the kernel: rounding, allocation, the parser of decimal amounts, instants, the
  calendar and identifiers (\<open>packages/core/src/money.ts\<close>, \<open>packages/contracts/src/money.ts\<close>,
  \<open>time.ts\<close>, \<open>ids.ts\<close>, \<open>packages/core/src/engine/business-date.ts\<close>).
\<close>

section \<open>Rounding\<close>

text \<open>
  C37. The kernel divides through a double quotient and its floor, and the result is nevertheless
  the exact one: for every safe numerator and every safe positive denominator it is the quotient
  rounded half away from zero, which is within half a unit, odd in its numerator and monotone; any
  other argument is refused.
\<close>

theorem division_rounds_exactly:
  "(divRoundHalfAwayFromZero n d = Inr q \<longleftrightarrow> safe_int n \<and> safe_int d \<and> 0 < d \<and> q = round_half_away n d)
   \<and> round_half_away (- n) d = - round_half_away n d
   \<and> (0 < d \<longrightarrow> 2 * \<bar>d * round_half_away n d - n\<bar> \<le> d)
   \<and> (0 < d \<longrightarrow> 0 \<le> m \<longrightarrow> m \<le> n \<longrightarrow> round_half_away m d \<le> round_half_away n d)"
  using divRound_eq_Inr [of n d q] round_half_away_odd [of n d] round_half_away_error [of d n]
    round_half_away_mono [of m n d] by blast

theorem division_rounds_exactly_witness:
  "divRoundHalfAwayFromZero 25 10 = Inr 3 \<and> divRoundHalfAwayFromZero (- 25) 10 = Inr (- 3)
   \<and> divRoundHalfAwayFromZero 9007199254740991 2 = Inr 4503599627370496"
proof -
  have "round_half_away 25 10 = 3" "round_half_away (- 25) 10 = - 3"
    "round_half_away 9007199254740991 2 = 4503599627370496"
    by (simp_all add: round_half_away_def)
  then show ?thesis
    using division_rounds_exactly [of 25 10 3 0] division_rounds_exactly [of "- 25" 10 "- 3" 0]
      division_rounds_exactly [of 9007199254740991 2 4503599627370496 0] by (simp add: safe_int_iff)
qed

text \<open>
  A rate in basis points, and VAT taken out of a gross amount: \<open>mulBps\<close> is within half a minor
  unit of the exact product and odd in the amount, and the two parts of a gross amount add up to it
  exactly, the net one within half a unit of the exact quotient.
\<close>

theorem rates_and_vat:
  "(mulBps v b = Inr r \<longrightarrow> 2 * \<bar>10000 * r - v * b\<bar> \<le> 10000 \<and> mulBps (- v) b = Inr (- r))
   \<and> (splitVatInclusive g b = Inr (net, vat) \<longrightarrow>
        net + vat = g \<and> 2 * \<bar>(10000 + b) * net - g * 10000\<bar> \<le> 10000 + b)"
proof (intro conjI impI)
  assume m: "mulBps v b = Inr r"
  then have r: "r = round_half_away (v * b) 10000" and "safe_int b" "safe_int (v * b)" "in_range r"
    by (auto simp: mulBps_Inr)
  then show "mulBps (- v) b = Inr (- r)" by (simp add: mulBps_Inr round_half_away_odd)
  show "2 * \<bar>10000 * r - v * b\<bar> \<le> 10000"
    using round_half_away_error [of 10000 "v * b"] r by simp
next
  assume s: "splitVatInclusive g b = Inr (net, vat)"
  then show "net + vat = g" using splitVatInclusive_Inr by blast
  have "0 \<le> b" and "net = round_half_away (g * 10000) (10000 + b)"
    using s by (auto simp: splitVatInclusive_def bindE_eq_Inr outcome_simps split: if_splits)
  then show "2 * \<bar>(10000 + b) * net - g * 10000\<bar> \<le> 10000 + b"
    using round_half_away_error [of "10000 + b" "g * 10000"] by simp
qed

theorem rates_and_vat_witness:
  "mulBps (- 19550) 100 = Inr (- 196)
   \<and> (\<exists>net vat. splitVatInclusive 98 1500 = Inr (net, vat) \<and> net + vat = 98)"
proof -
  have "mulBps 19550 100 = Inr 196" and "splitVatInclusive 98 1500 = Inr (85, 13)" by code_simp+
  then show ?thesis using rates_and_vat [of 19550 100 196 98 85 13] rates_and_vat [of 98 1500 85 98 85 13] by simp
qed

section \<open>Allocation\<close>

text \<open>
  C38. Largest remainder never fails on an amount in range and distinct keys, gives every bucket a
  share, in the order of the buckets, and the shares add up to the amount exactly, whatever the
  weights and the sign.
\<close>

theorem allocation_exact:
  assumes "bs \<noteq> []" and "distinct (map bucket_key bs)" and "in_range t"
  shows "\<exists>m. allocateMinor t bs = Inr m \<and> map fst m = map bucket_key bs \<and> sum_list (map snd m) = t"
  using allocateMinor_total [OF assms] allocateMinor_Inr(3) [of t bs] by (auto simp: comp_def)

text \<open>
  No share is off by a whole minor unit from the exact proportional one, none has the wrong
  sign, and a bucket without weight gets nothing (unless no bucket has any, and all count the
  same).
\<close>

theorem allocation_proportional:
  assumes "allocateMinor t bs = Inr m" and "b \<in> set bs" and "0 \<le> t"
  shows "\<bar>alloc_denominator bs * shareOf m (bucket_key b) - t * alloc_weight bs b\<bar> < alloc_denominator bs
    \<and> 0 \<le> shareOf m (bucket_key b) \<and> shareOf m (bucket_key b) \<le> t
    \<and> (alloc_weight bs b = 0 \<longrightarrow> shareOf m (bucket_key b) = 0)"
proof -
  note a = allocateMinor_Inr [OF assms(1)]
  have share: "shareOf m (bucket_key b) = alloc_share t bs b"
    using map_of_keyed [OF a(1) assms(2), of "signed_share t bs"] assms(3)
    by (simp add: shareOf_def a(2) signed_share_def)
  have "bs \<noteq> []" using assms(2) by auto
  then show ?thesis
    using share_within_one [OF a(1) assms(2), of t] alloc_share_nonneg [of bs t b]
      alloc_share_zero_weight [OF a(1) assms(2), of t] signed_share_bound [OF a(1) assms(2), of t] assms(3)
    by (simp add: share signed_share_def)
qed

definition three_buckets :: "string allocation_bucket list" where
  "three_buckets = [\<lparr> bucket_key = ''a'', bucket_weight = 5 \<rparr>, \<lparr> bucket_key = ''b'', bucket_weight = - 2 \<rparr>,
     \<lparr> bucket_key = ''c'', bucket_weight = 2 \<rparr>]"

theorem allocation_exact_witness:
  "\<exists>m. allocateMinor (- 100) three_buckets = Inr m \<and> map fst m = [''a'', ''b'', ''c''] \<and> sum_list (map snd m) = - 100"
  using allocation_exact [of three_buckets "- 100"] by (simp add: three_buckets_def in_range_iff)

theorem allocation_proportional_witness:
  "\<exists>m. allocateMinor 100 three_buckets = Inr m \<and> \<bar>7 * shareOf m ''a'' - 100 * 5\<bar> < 7 \<and> shareOf m ''b'' = 0"
proof -
  have m: "allocateMinor 100 three_buckets = Inr [(''a'', 71), (''b'', 0), (''c'', 29)]" by code_simp
  have b: "b \<in> set three_buckets" if "b \<in> {hd three_buckets, hd (tl three_buckets)}" for b
    using that by (auto simp: three_buckets_def)
  show ?thesis
    using m allocation_proportional [OF m b, of "hd three_buckets"]
      allocation_proportional [OF m b, of "hd (tl three_buckets)"]
    by (simp add: three_buckets_def alloc_weight_def alloc_denominator_def weight_sum_def raw_weight_def)
qed

text \<open>
  The shares depend on the buckets and not on the order they are listed in: the same buckets in
  another order give the same shares, or the same error.
\<close>

theorem allocation_order_irrelevant:
  assumes "mset bs = mset bs'"
  shows "map_sum id mset (allocateMinor t bs) = map_sum id mset (allocateMinor t bs')"
  by (rule allocateMinor_perm [OF assms])

theorem allocation_order_irrelevant_witness:
  "map_sum id mset (allocateMinor 100 three_buckets) = map_sum id mset (allocateMinor 100 (rev three_buckets))"
  by (rule allocation_order_irrelevant) simp

section \<open>Instants, the calendar, identifiers\<close>

text \<open>
  Instants are strings, and the code compares them as strings: on accepted instants that is the
  comparison of the moments they name, and two instants name one moment only if they are the same
  string.
\<close>

theorem instants_compare_as_strings:
  assumes "isInstant s" and "isInstant t" and "epochMillis s = Inr m" and "epochMillis t = Inr n"
  shows "(s < t \<longleftrightarrow> m < n) \<and> (s = t \<longleftrightarrow> m = n)"
  using instant_order [OF assms] by blast

theorem instants_compare_as_strings_witness:
  "''2024-12-31T23:59:59.999Z'' < (''2025-01-01T00:00:00.000Z'' :: string)"
proof -
  let ?s = "''2024-12-31T23:59:59.999Z''" and ?t = "''2025-01-01T00:00:00.000Z''"
  have "isInstant ?s" "isInstant ?t" "epochMillis ?s = Inr 1735689599999" "epochMillis ?t = Inr 1735689600000"
    by code_simp+
  from instants_compare_as_strings [OF this] show ?thesis by simp
qed

text \<open>
  \<open>daysFromCivil\<close> numbers the real dates of the calendar one by one: the first of January 1970
  is day zero, the day after a date has the next number, and a later date has a larger one, so no
  day is counted twice or left out.
\<close>

theorem calendar_days_numbered:
  "daysFromCivil 1970 1 1 = 0
   \<and> (isRealDate y m d \<longrightarrow> day_number (next_day (y, m, d)) = daysFromCivil y m d + 1)
   \<and> (isRealDate y m d \<longrightarrow> isRealDate y' m' d' \<longrightarrow> (y, m, d) < (y', m', d') \<longrightarrow>
        daysFromCivil y m d < daysFromCivil y' m' d')"
  using daysFromCivil_epoch next_day_number [of "(y, m, d)"] daysFromCivil_strict_mono [of y m d y' m' d']
  by (simp add: real_date_def day_number_def)

theorem calendar_days_numbered_witness:
  "daysFromCivil 2024 2 29 + 1 = daysFromCivil 2024 3 1"
proof -
  have "isRealDate 2024 2 29" and "next_day (2024, 2, 29) = (2024, 3, 1)" by code_simp+
  then show ?thesis using calendar_days_numbered [of 2024 2 29 2024 3 1] by (simp add: day_number_def)
qed

text \<open>
  Identifiers never collide: an order, line or reversal identifier determines the parent and
  the platform's own identifier it was made from, and no line shares an identifier with a reversal.
\<close>

theorem identifiers_injective:
  "(toOrderId a p = Inr i \<longrightarrow> toOrderId b q = Inr i \<longrightarrow> a = b \<and> p = q)
   \<and> (toOrderItemId a p = Inr i \<longrightarrow> toOrderItemId b q = Inr i \<longrightarrow> a = b \<and> p = q)
   \<and> (toReversalId a p = Inr i \<longrightarrow> toReversalId b q = Inr i \<longrightarrow> a = b \<and> p = q)
   \<and> (toOrderItemId a p = Inr i \<longrightarrow> toReversalId b q \<noteq> Inr i)"
  using toOrderId_inject [of a p i b q] toOrderItemId_inject [of a p i b q] toReversalId_inject [of a p i b q]
    item_not_reversal [of a p i b q] by blast

theorem identifiers_injective_witness:
  "toOrderItemId ''salla:1:9'' ''rev'' = Inr ''salla:1:9#rev'' \<and> toReversalId ''salla:1:9'' ''rev'' \<noteq> Inr ''salla:1:9#rev''"
proof -
  have "toOrderItemId ''salla:1:9'' ''rev'' = Inr ''salla:1:9#rev''" by code_simp
  then show ?thesis
    using identifiers_injective [of "''salla:1:9''" "''rev''" "''salla:1:9#rev''" "''salla:1:9''" "''rev''"] by blast
qed

end
