(* ===== verification/Domain.thy ===== *)
theory Domain
  imports Money
begin

text \<open>
  The data of the profit engine: the canonical types of \<open>packages/contracts/src\<close> and the input
  and configuration types of \<open>packages/core/src\<close>.

  An enumeration is a datatype whose constructors carry the source's literals behind a prefix; an
  interface is a record with all its fields (a field name is prefixed by its record), \<open>null\<close> is
  \<open>None\<close>. The numbers that \<open>normalizeAndValidate\<close> checks at run time have the type parameter
  \<open>'n\<close>: the untrusted input is built over \<open>js_number\<close>, the accepted one over \<open>int\<close>. The
  numbers that it does not check are integers as their type \<open>Minor\<close> or \<open>Bps\<close> promises.
\<close>

section \<open>Enumerations (\<open>enums.ts\<close>)\<close>

datatype order_lifecycle = OL_draft | OL_open | OL_completed | OL_cancelled

datatype payment_state =
  PS_unpaid | PS_authorized | PS_paid | PS_partially_refunded | PS_refunded | PS_voided | PS_failed

datatype fulfillment_state =
  FS_unfulfilled | FS_partially_fulfilled | FS_in_transit | FS_delivered | FS_returned | FS_rto
  | FS_not_applicable

datatype fulfillment_method = FM_carrier | FM_pickup | FM_self_delivery | FM_digital | FM_other

datatype payment_instrument =
  PI_card | PI_bnpl | PI_wallet | PI_cod | PI_bank_transfer | PI_free | PI_unknown | PI_other

datatype card_scheme =
  CS_mada | CS_visa | CS_mastercard | CS_amex | CS_unionpay | CS_other | CS_unknown

datatype payment_leg_state = PL_pending | PL_authorized | PL_captured | PL_failed | PL_refunded

datatype shipment_direction = SD_outbound | SD_return

datatype shipment_status =
  SS_created | SS_in_transit | SS_out_for_delivery | SS_delivered | SS_failed_attempt
  | SS_returned_to_origin | SS_cancelled | SS_lost | SS_unknown

datatype reversal_kind = RK_refund | RK_void | RK_chargeback

datatype reversal_reason =
  RR_customer_return | RR_damaged_or_defective | RR_wrong_item | RR_cancelled_before_dispatch
  | RR_goodwill_or_price_adjustment | RR_chargeback | RR_other | RR_unknown

datatype restock_outcome =
  RO_restocked_sellable | RO_restocked_damaged | RO_not_restocked | RO_pending_receipt
  | RO_not_applicable | RO_unknown

datatype cost_source =
  CO_merchant_manual | CO_merchant_bulk_import | CO_platform | CO_category_default | CO_none

definition EXACT_COST_SOURCES :: "cost_source list" where
  "EXACT_COST_SOURCES = [CO_merchant_manual, CO_merchant_bulk_import, CO_platform]"

datatype device = DV_desktop | DV_mobile | DV_tablet | DV_unknown

datatype subscription_status = ST_trialing | ST_active | ST_past_due | ST_canceled | ST_expired

datatype billing_interval = BI_month | BI_year

section \<open>Orders (\<open>order.ts\<close>, \<open>order-item.ts\<close>, \<open>payment.ts\<close>)\<close>

record order_destination =
  dest_countryCode :: string
  dest_region :: "string option"
  dest_city :: "string option"

datatype discount_target = DT_items | DT_shipping | DT_cod_fee

record order_discount =
  disc_code :: "string option"
  disc_target :: discount_target
  disc_reflectedInComponent :: bool
  disc_amountExVatMinor :: int

record attribution =
  attr_device :: device
  attr_referrerHost :: "string option"

record payment_breakdown =
  pay_instrument :: payment_instrument
  pay_scheme :: "card_scheme option"
  pay_wallet :: "string option"
  pay_provider :: "string option"
  pay_rawMethodLabel :: string
  pay_state :: payment_leg_state
  pay_amountGrossMinor :: int
  pay_transactionRef :: "string option"

record 'n canonical_order =
  order_id :: string
  order_storeId :: string
  order_platformOrderId :: string
  order_placedAt :: string
  order_platformUpdatedAt :: "string option"
  order_lifecycle :: order_lifecycle
  order_paymentState :: payment_state
  order_fulfillmentState :: fulfillment_state
  order_platformStatusId :: "string option"
  order_rawStatusLabel :: string
  order_isTest :: bool
  order_fulfillmentMethod :: fulfillment_method
  order_destination :: "order_destination option"
  order_currency :: string
  order_vatRateBps :: int
  order_subtotalExVatMinor :: 'n
  order_vatAmountMinor :: 'n
  order_shippingChargedExVatMinor :: 'n
  order_codFeeChargedExVatMinor :: 'n
  order_totalIncVatMinor :: 'n
  order_discounts :: "order_discount list"
  order_payments :: "payment_breakdown list"
  order_customerRef :: "string option"
  order_attribution :: "attribution option"

record 'n canonical_order_item =
  item_id :: string
  item_orderId :: string
  item_platformLineId :: string
  item_platformProductId :: string
  item_platformVariantId :: "string option"
  item_sku :: "string option"
  item_productName :: string
  item_quantity :: 'n
  item_unitPriceExVatMinor :: 'n
  item_grossLineExVatMinor :: 'n
  item_lineDiscountExVatMinor :: 'n
  item_lineTotalExVatMinor :: 'n

section \<open>Shipments and reversals (\<open>shipment.ts\<close>, \<open>reversal.ts\<close>)\<close>

record shipment_line =
  sline_orderItemId :: string
  sline_quantity :: int

record 'n canonical_shipment =
  ship_id :: string
  ship_orderId :: string
  ship_platformShipmentId :: string
  ship_direction :: shipment_direction
  ship_status :: shipment_status
  ship_carrier :: string
  ship_rawCarrierLabel :: string
  ship_carrierCostMinor :: "'n option"
  ship_lines :: "shipment_line list"
  ship_shippedAt :: "string option"
  ship_deliveredAt :: "string option"
  ship_platformUpdatedAt :: "string option"

record 'n canonical_reversal_line =
  rline_orderItemId :: string
  rline_quantity :: 'n
  rline_amountExVatMinor :: 'n
  rline_restockOutcome :: restock_outcome

record 'n canonical_reversal =
  rev_id :: string
  rev_orderId :: string
  rev_platformReversalId :: "string option"
  rev_kind :: reversal_kind
  rev_reason :: reversal_reason
  rev_rawReasonLabel :: "string option"
  rev_occurredAt :: string
  rev_amountExVatMinor :: int
  rev_shippingRefundExVatMinor :: int
  rev_codFeeRefundExVatMinor :: int
  rev_adjustmentExVatMinor :: int
  rev_vatMinor :: int
  rev_totalIncVatMinor :: int
  rev_lines :: "'n canonical_reversal_line list option"
  rev_restockOutcome :: restock_outcome
  rev_platformUpdatedAt :: "string option"

section \<open>Configuration, costs and fee rules (\<open>config.ts\<close>, \<open>cost.ts\<close>, \<open>fee-rules.ts\<close>)\<close>

record store_profit_config =
  store_storeId :: string
  store_currency :: string
  store_timezone :: string
  store_vatRegistered :: bool

record 'n resolved_cost =
  cost_platformProductId :: string
  cost_platformVariantId :: "string option"
  cost_sku :: "string option"
  cost_unitCostMinor :: 'n
  cost_source :: cost_source
  cost_costHistoryId :: string

datatype fee_source = FE_merchant_entered | FE_gateway_statement | FE_default_table

record 'n fee_formula =
  fee_percentBps :: 'n
  fee_fixedMinor :: 'n
  fee_minFeeMinor :: "'n option"
  fee_maxFeeMinor :: "'n option"
  fee_feeVatBps :: 'n
  fee_ratesIncludeVat :: bool
  fee_source :: fee_source

record 'n gateway_fee_rule = "'n fee_formula" +
  gw_instrument :: "payment_instrument option"
  gw_scheme :: "card_scheme option"
  gw_provider :: "string option"

record 'n cod_fee_rule = "'n fee_formula" +
  cod_carrier :: "string option"

text \<open>\<open>ShipmentDirection | 'any'\<close>.\<close>

datatype rule_direction = RD_outbound | RD_return | RD_any

fun direction_of :: "shipment_direction \<Rightarrow> rule_direction" where
  "direction_of SD_outbound = RD_outbound"
| "direction_of SD_return = RD_return"

record 'n shipping_fallback_rule =
  sf_countryCode :: "string option"
  sf_region :: "string option"
  sf_carrier :: "string option"
  sf_direction :: rule_direction
  sf_costMinor :: 'n

record 'n fee_rule_set =
  frs_id :: string
  frs_currency :: string
  frs_gateway :: "'n gateway_fee_rule list"
  frs_cod :: "'n cod_fee_rule list"
  frs_shippingFallback :: "'n shipping_fallback_rule list"

section \<open>The input (\<open>input.ts\<close>)\<close>

text \<open>Every part may be absent at run time; \<open>None\<close> is \<open>null\<close> or \<open>undefined\<close>.\<close>

record order_profit_input =
  in_store :: "store_profit_config option"
  in_order :: "js_number canonical_order option"
  in_items :: "js_number canonical_order_item list option"
  in_shipments :: "js_number canonical_shipment list option"
  in_reversals :: "js_number canonical_reversal list option"
  in_costs :: "js_number resolved_cost list option"
  in_feeRuleSet :: "js_number fee_rule_set option"

section \<open>Reading accepted numbers as integers\<close>

text \<open>The same objects after validation, every checked number read as the integer it is.\<close>

definition int_order :: "js_number canonical_order \<Rightarrow> int canonical_order" where
  "int_order r = \<lparr>
     order_id = order_id r, order_storeId = order_storeId r,
     order_platformOrderId = order_platformOrderId r, order_placedAt = order_placedAt r,
     order_platformUpdatedAt = order_platformUpdatedAt r, order_lifecycle = order_lifecycle r,
     order_paymentState = order_paymentState r, order_fulfillmentState = order_fulfillmentState r,
     order_platformStatusId = order_platformStatusId r, order_rawStatusLabel = order_rawStatusLabel r,
     order_isTest = order_isTest r, order_fulfillmentMethod = order_fulfillmentMethod r,
     order_destination = order_destination r, order_currency = order_currency r,
     order_vatRateBps = order_vatRateBps r,
     order_subtotalExVatMinor = js_int (order_subtotalExVatMinor r),
     order_vatAmountMinor = js_int (order_vatAmountMinor r),
     order_shippingChargedExVatMinor = js_int (order_shippingChargedExVatMinor r),
     order_codFeeChargedExVatMinor = js_int (order_codFeeChargedExVatMinor r),
     order_totalIncVatMinor = js_int (order_totalIncVatMinor r),
     order_discounts = order_discounts r, order_payments = order_payments r,
     order_customerRef = order_customerRef r, order_attribution = order_attribution r \<rparr>"

definition int_item :: "js_number canonical_order_item \<Rightarrow> int canonical_order_item" where
  "int_item r = \<lparr>
     item_id = item_id r, item_orderId = item_orderId r, item_platformLineId = item_platformLineId r,
     item_platformProductId = item_platformProductId r,
     item_platformVariantId = item_platformVariantId r, item_sku = item_sku r,
     item_productName = item_productName r, item_quantity = js_int (item_quantity r),
     item_unitPriceExVatMinor = js_int (item_unitPriceExVatMinor r),
     item_grossLineExVatMinor = js_int (item_grossLineExVatMinor r),
     item_lineDiscountExVatMinor = js_int (item_lineDiscountExVatMinor r),
     item_lineTotalExVatMinor = js_int (item_lineTotalExVatMinor r) \<rparr>"

definition int_shipment :: "js_number canonical_shipment \<Rightarrow> int canonical_shipment" where
  "int_shipment r = \<lparr>
     ship_id = ship_id r, ship_orderId = ship_orderId r,
     ship_platformShipmentId = ship_platformShipmentId r, ship_direction = ship_direction r,
     ship_status = ship_status r, ship_carrier = ship_carrier r,
     ship_rawCarrierLabel = ship_rawCarrierLabel r,
     ship_carrierCostMinor = map_option js_int (ship_carrierCostMinor r),
     ship_lines = ship_lines r, ship_shippedAt = ship_shippedAt r,
     ship_deliveredAt = ship_deliveredAt r, ship_platformUpdatedAt = ship_platformUpdatedAt r \<rparr>"

definition int_reversal_line :: "js_number canonical_reversal_line \<Rightarrow> int canonical_reversal_line" where
  "int_reversal_line r = \<lparr>
     rline_orderItemId = rline_orderItemId r, rline_quantity = js_int (rline_quantity r),
     rline_amountExVatMinor = js_int (rline_amountExVatMinor r),
     rline_restockOutcome = rline_restockOutcome r \<rparr>"

definition int_reversal :: "js_number canonical_reversal \<Rightarrow> int canonical_reversal" where
  "int_reversal r = \<lparr>
     rev_id = rev_id r, rev_orderId = rev_orderId r,
     rev_platformReversalId = rev_platformReversalId r, rev_kind = rev_kind r,
     rev_reason = rev_reason r, rev_rawReasonLabel = rev_rawReasonLabel r,
     rev_occurredAt = rev_occurredAt r, rev_amountExVatMinor = rev_amountExVatMinor r,
     rev_shippingRefundExVatMinor = rev_shippingRefundExVatMinor r,
     rev_codFeeRefundExVatMinor = rev_codFeeRefundExVatMinor r,
     rev_adjustmentExVatMinor = rev_adjustmentExVatMinor r, rev_vatMinor = rev_vatMinor r,
     rev_totalIncVatMinor = rev_totalIncVatMinor r,
     rev_lines = map_option (map int_reversal_line) (rev_lines r),
     rev_restockOutcome = rev_restockOutcome r, rev_platformUpdatedAt = rev_platformUpdatedAt r \<rparr>"

definition int_cost :: "js_number resolved_cost \<Rightarrow> int resolved_cost" where
  "int_cost r = \<lparr>
     cost_platformProductId = cost_platformProductId r,
     cost_platformVariantId = cost_platformVariantId r, cost_sku = cost_sku r,
     cost_unitCostMinor = js_int (cost_unitCostMinor r), cost_source = cost_source r,
     cost_costHistoryId = cost_costHistoryId r \<rparr>"

definition int_gateway_rule :: "js_number gateway_fee_rule \<Rightarrow> int gateway_fee_rule" where
  "int_gateway_rule r = \<lparr>
     fee_percentBps = js_int (fee_percentBps r), fee_fixedMinor = js_int (fee_fixedMinor r),
     fee_minFeeMinor = map_option js_int (fee_minFeeMinor r),
     fee_maxFeeMinor = map_option js_int (fee_maxFeeMinor r),
     fee_feeVatBps = js_int (fee_feeVatBps r), fee_ratesIncludeVat = fee_ratesIncludeVat r,
     fee_source = fee_source r, gw_instrument = gw_instrument r, gw_scheme = gw_scheme r,
     gw_provider = gw_provider r \<rparr>"

definition int_cod_rule :: "js_number cod_fee_rule \<Rightarrow> int cod_fee_rule" where
  "int_cod_rule r = \<lparr>
     fee_percentBps = js_int (fee_percentBps r), fee_fixedMinor = js_int (fee_fixedMinor r),
     fee_minFeeMinor = map_option js_int (fee_minFeeMinor r),
     fee_maxFeeMinor = map_option js_int (fee_maxFeeMinor r),
     fee_feeVatBps = js_int (fee_feeVatBps r), fee_ratesIncludeVat = fee_ratesIncludeVat r,
     fee_source = fee_source r, cod_carrier = cod_carrier r \<rparr>"

definition int_shipping_rule :: "js_number shipping_fallback_rule \<Rightarrow> int shipping_fallback_rule" where
  "int_shipping_rule r = \<lparr>
     sf_countryCode = sf_countryCode r, sf_region = sf_region r, sf_carrier = sf_carrier r,
     sf_direction = sf_direction r, sf_costMinor = js_int (sf_costMinor r) \<rparr>"

definition int_fee_rule_set :: "js_number fee_rule_set \<Rightarrow> int fee_rule_set" where
  "int_fee_rule_set r = \<lparr>
     frs_id = frs_id r, frs_currency = frs_currency r,
     frs_gateway = map int_gateway_rule (frs_gateway r), frs_cod = map int_cod_rule (frs_cod r),
     frs_shippingFallback = map int_shipping_rule (frs_shippingFallback r) \<rparr>"

end
