(* ===== verification/Normalize.thy ===== *)
theory Normalize
  imports Domain Diagnostics Time
begin

text \<open>
  The validator \<open>normalizeAndValidate\<close> of \<open>packages/core/src/engine/normalize.ts\<close>: the only path
  from untrusted input to the engine. It collects every fatal defect in the order the code finds
  them; without one it returns the input with items, shipments and reversals in a fixed order and
  the costs indexed by product key and by SKU.

  \<open>well_formed\<close> states the accepted inputs declaratively, and \<open>normalizeAndValidate_iff\<close> shows
  that the loops accept exactly these.
\<close>

section \<open>Keys\<close>

text \<open>\<open>s ?? ''\<close> in a template literal.\<close>

definition or_empty :: "string option \<Rightarrow> string" where
  "or_empty s = (case s of None \<Rightarrow> [] | Some t \<Rightarrow> t)"

definition productKeyOf :: "string \<Rightarrow> string option \<Rightarrow> string" where
  "productKeyOf platformProductId platformVariantId = platformProductId @ ''|'' @ or_empty platformVariantId"

fun instrument_name :: "payment_instrument \<Rightarrow> string" where
  "instrument_name PI_card = ''card''"
| "instrument_name PI_bnpl = ''bnpl''"
| "instrument_name PI_wallet = ''wallet''"
| "instrument_name PI_cod = ''cod''"
| "instrument_name PI_bank_transfer = ''bank_transfer''"
| "instrument_name PI_free = ''free''"
| "instrument_name PI_unknown = ''unknown''"
| "instrument_name PI_other = ''other''"

fun scheme_name :: "card_scheme \<Rightarrow> string" where
  "scheme_name CS_mada = ''mada''"
| "scheme_name CS_visa = ''visa''"
| "scheme_name CS_mastercard = ''mastercard''"
| "scheme_name CS_amex = ''amex''"
| "scheme_name CS_unionpay = ''unionpay''"
| "scheme_name CS_other = ''other''"
| "scheme_name CS_unknown = ''unknown''"

fun direction_name :: "rule_direction \<Rightarrow> string" where
  "direction_name RD_outbound = ''outbound''"
| "direction_name RD_return = ''return''"
| "direction_name RD_any = ''any''"

definition gateway_rule_key :: "'n gateway_fee_rule \<Rightarrow> string" where
  "gateway_rule_key r =
     or_empty (map_option instrument_name (gw_instrument r)) @ ''|'' @
     or_empty (map_option scheme_name (gw_scheme r)) @ ''|'' @ or_empty (gw_provider r)"

definition cod_rule_key :: "'n cod_fee_rule \<Rightarrow> string" where
  "cod_rule_key r = or_empty (cod_carrier r)"

definition shipping_rule_key :: "'n shipping_fallback_rule \<Rightarrow> string" where
  "shipping_rule_key r =
     or_empty (sf_countryCode r) @ ''|'' @ or_empty (sf_region r) @ ''|'' @ or_empty (sf_carrier r)
     @ ''|'' @ direction_name (sf_direction r)"

section \<open>Checks\<close>

definition validMinor :: "js_number \<Rightarrow> bool" where
  "validMinor v \<longleftrightarrow> is_safe_integer v \<and> js_int v \<le> MAX_MINOR \<and> js_int v \<ge> - MAX_MINOR"

definition feeFormulaIsValid :: "(js_number, 'z) fee_formula_scheme \<Rightarrow> bool" where
  "feeFormulaIsValid f =
     (if \<not> is_safe_integer (fee_percentBps f) \<or> js_int (fee_percentBps f) < 0 then False
      else if \<not> is_safe_integer (fee_feeVatBps f) \<or> js_int (fee_feeVatBps f) < 0
              \<or> js_int (fee_feeVatBps f) > 10000 then False
      else if \<not> validMinor (fee_fixedMinor f) \<or> js_int (fee_fixedMinor f) < 0 then False
      else if (case fee_minFeeMinor f of None \<Rightarrow> False | Some m \<Rightarrow> \<not> validMinor m \<or> js_int m < 0) then False
      else if (case fee_maxFeeMinor f of None \<Rightarrow> False | Some m \<Rightarrow> \<not> validMinor m \<or> js_int m < 0) then False
      else if (case (fee_minFeeMinor f, fee_maxFeeMinor f) of
                 (Some lo, Some hi) \<Rightarrow> js_int lo > js_int hi | _ \<Rightarrow> False) then False
      else True)"

text \<open>One \<open>DUPLICATE_RULE_KEY\<close> for every key that has been seen before.\<close>

fun duplicate_key_diags :: "string set \<Rightarrow> string list \<Rightarrow> diagnostic list" where
  "duplicate_key_diags seen [] = []"
| "duplicate_key_diags seen (k # ks) =
     (if k \<in> seen then [onOrder DUPLICATE_RULE_KEY] else []) @ duplicate_key_diags (insert k seen) ks"

definition validateFeeRuleSet :: "js_number fee_rule_set \<Rightarrow> diagnostic list" where
  "validateFeeRuleSet frs =
     concat (map (\<lambda>r. if \<not> feeFormulaIsValid r then [onOrder FEE_RULE_INVALID] else []) (frs_gateway frs))
     @ concat (map (\<lambda>r. if \<not> feeFormulaIsValid r then [onOrder FEE_RULE_INVALID] else []) (frs_cod frs))
     @ concat (map (\<lambda>r. if \<not> validMinor (sf_costMinor r) \<or> js_int (sf_costMinor r) < 0
                       then [onOrder FEE_RULE_INVALID] else []) (frs_shippingFallback frs))
     @ duplicate_key_diags {} (map gateway_rule_key (frs_gateway frs))
     @ duplicate_key_diags {} (map cod_rule_key (frs_cod frs))
     @ duplicate_key_diags {} (map shipping_rule_key (frs_shippingFallback frs))"

definition money_diags :: "diagnostic_subject \<Rightarrow> js_number list \<Rightarrow> diagnostic list" where
  "money_diags subject ms =
     concat (map (\<lambda>m. if \<not> validMinor m then [diagnostic NON_INTEGER_MINOR_UNITS subject] else []) ms)"

definition quantity_diags :: "diagnostic_subject \<Rightarrow> js_number \<Rightarrow> diagnostic list" where
  "quantity_diags subject q =
     (if \<not> is_safe_integer q then [diagnostic NON_INTEGER_QUANTITY subject]
      else if js_int q < 0 then [diagnostic NEGATIVE_QUANTITY subject] else [])"

fun item_diags :: "string \<Rightarrow> string set \<Rightarrow> string set \<Rightarrow> js_number canonical_order_item list \<Rightarrow> diagnostic list" where
  "item_diags oid itemIds lineIds [] = []"
| "item_diags oid itemIds lineIds (item # rest) =
     (if item_orderId item \<noteq> oid then [diagnostic ITEM_ORDER_ID_MISMATCH (OnLine (item_id item))] else [])
     @ (if item_id item \<in> itemIds then [diagnostic DUPLICATE_ITEM_ID (OnLine (item_id item))] else [])
     @ (if item_platformLineId item \<in> lineIds
        then [diagnostic DUPLICATE_ITEM_ID (OnLine (item_id item))] else [])
     @ quantity_diags (OnLine (item_id item)) (item_quantity item)
     @ money_diags (OnLine (item_id item))
         [item_unitPriceExVatMinor item, item_grossLineExVatMinor item,
          item_lineDiscountExVatMinor item, item_lineTotalExVatMinor item]
     @ item_diags oid (insert (item_id item) itemIds) (insert (item_platformLineId item) lineIds) rest"

definition reversal_line_diags :: "string \<Rightarrow> js_number canonical_reversal_line \<Rightarrow> diagnostic list" where
  "reversal_line_diags rid line =
     quantity_diags (OnReversal rid) (rline_quantity line)
     @ money_diags (OnReversal rid) [rline_amountExVatMinor line]"

fun reversal_diags :: "string \<Rightarrow> string set \<Rightarrow> js_number canonical_reversal list \<Rightarrow> diagnostic list" where
  "reversal_diags oid seen [] = []"
| "reversal_diags oid seen (r # rest) =
     (if rev_id r \<in> seen then [diagnostic DUPLICATE_ITEM_ID (OnReversal (rev_id r))] else [])
     @ (if rev_orderId r \<noteq> oid then [diagnostic REVERSAL_ORDER_ID_MISMATCH (OnReversal (rev_id r))] else [])
     @ concat (map (reversal_line_diags (rev_id r)) (case rev_lines r of None \<Rightarrow> [] | Some ls \<Rightarrow> ls))
     @ reversal_diags oid (insert (rev_id r) seen) rest"

fun shipment_diags :: "string set \<Rightarrow> js_number canonical_shipment list \<Rightarrow> diagnostic list" where
  "shipment_diags seen [] = []"
| "shipment_diags seen (s # rest) =
     (if ship_id s \<in> seen then [diagnostic DUPLICATE_ITEM_ID (OnShipment (ship_id s))] else [])
     @ (case ship_carrierCostMinor s of
          None \<Rightarrow> [] | Some c \<Rightarrow> money_diags (OnShipment (ship_id s)) [c])
     @ shipment_diags (insert (ship_id s) seen) rest"

record cost_index =
  byProductKey :: "string \<Rightarrow> int resolved_cost option"
  bySku :: "string \<Rightarrow> int resolved_cost option"

text \<open>The loop that fills the two cost maps and reports a key that is already there.\<close>

fun index_costs :: "cost_index \<Rightarrow> js_number resolved_cost list \<Rightarrow> cost_index \<times> diagnostic list" where
  "index_costs idx [] = (idx, [])"
| "index_costs idx (cost # rest) =
     (let key = productKeyOf (cost_platformProductId cost) (cost_platformVariantId cost);
          sku = or_empty (cost_sku cost);
          here = money_diags OnOrder [cost_unitCostMinor cost]
            @ (if byProductKey idx key \<noteq> None then [onOrder DUPLICATE_COST_KEY] else [])
            @ (if sku \<noteq> [] \<and> bySku idx sku \<noteq> None then [onOrder DUPLICATE_COST_KEY] else []);
          idx' = idx\<lparr> byProductKey := (byProductKey idx)(key \<mapsto> int_cost cost),
                      bySku := (if sku \<noteq> [] then (bySku idx)(sku \<mapsto> int_cost cost) else bySku idx) \<rparr>;
          (idx'', ds) = index_costs idx' rest
      in (idx'', here @ ds))"

definition empty_index :: cost_index where
  "empty_index = \<lparr> byProductKey = (\<lambda>_. None), bySku = (\<lambda>_. None) \<rparr>"

section \<open>The validator\<close>

record normalized_input =
  norm_order :: "int canonical_order"
  norm_items :: "int canonical_order_item list"
  norm_shipments :: "int canonical_shipment list"
  norm_reversals :: "int canonical_reversal list"
  norm_costs :: cost_index

definition or_nil :: "'a list option \<Rightarrow> 'a list" where
  "or_nil xs = (case xs of None \<Rightarrow> [] | Some ys \<Rightarrow> ys)"

definition header_diags ::
  "js_number canonical_order \<Rightarrow> store_profit_config \<Rightarrow> js_number fee_rule_set \<Rightarrow> diagnostic list" where
  "header_diags order store frs =
     (if store_currency store \<notin> set CURRENCY_CODES then [onOrder MALFORMED_INPUT] else [])
     @ (if order_currency order \<noteq> store_currency store then [onOrder CURRENCY_MISMATCH] else [])
     @ (if frs_currency frs \<noteq> store_currency store then [onOrder CURRENCY_MISMATCH] else [])
     @ (if store_timezone store = [] then [onOrder INVALID_TIMEZONE] else [])
     @ (if \<not> isInstant (order_placedAt order) then [onOrder MALFORMED_TIMESTAMP] else [])
     @ validateFeeRuleSet frs
     @ money_diags OnOrder
         [order_subtotalExVatMinor order, order_vatAmountMinor order,
          order_shippingChargedExVatMinor order, order_codFeeChargedExVatMinor order,
          order_totalIncVatMinor order]"

definition normalizeAndValidate ::
  "order_profit_input option \<Rightarrow> normalized_input option \<times> diagnostic list" where
  "normalizeAndValidate input =
     (case input of
        None \<Rightarrow> (None, [onOrder MALFORMED_INPUT])
      | Some inp \<Rightarrow>
         (case (in_order inp, in_store inp, in_feeRuleSet inp) of
            (Some order, Some store, Some frs) \<Rightarrow>
              (let items = or_nil (in_items inp);
                   shipments = or_nil (in_shipments inp);
                   reversals = or_nil (in_reversals inp);
                   (costs, cost_diags) = index_costs empty_index (or_nil (in_costs inp));
                   fatal = header_diags order store frs
                     @ item_diags (order_id order) {} {} items
                     @ reversal_diags (order_id order) {} reversals
                     @ shipment_diags {} shipments
                     @ cost_diags
               in if fatal \<noteq> [] then (None, fatal)
                  else (Some \<lparr> norm_order = int_order order,
                               norm_items = map int_item (sort_key item_platformLineId items),
                               norm_shipments = map int_shipment (sort_key ship_id shipments),
                               norm_reversals = map int_reversal (sort_key rev_id reversals),
                               norm_costs = costs \<rparr>, []))
          | _ \<Rightarrow> (None, [onOrder MALFORMED_INPUT])))"

section \<open>What each loop accepts\<close>

lemma money_diags_Nil: "money_diags s ms = [] \<longleftrightarrow> (\<forall>m \<in> set ms. validMinor m)"
  by (auto simp: money_diags_def split: if_splits)

lemma quantity_diags_Nil: "quantity_diags s q = [] \<longleftrightarrow> is_safe_integer q \<and> 0 \<le> js_int q"
  by (auto simp: quantity_diags_def)

lemma duplicate_key_diags_Nil:
  "duplicate_key_diags seen ks = [] \<longleftrightarrow> distinct ks \<and> set ks \<inter> seen = {}"
  by (induction ks arbitrary: seen) auto

definition item_ok :: "string \<Rightarrow> js_number canonical_order_item \<Rightarrow> bool" where
  "item_ok oid i \<longleftrightarrow> item_orderId i = oid \<and> is_safe_integer (item_quantity i) \<and> 0 \<le> js_int (item_quantity i)
     \<and> validMinor (item_unitPriceExVatMinor i) \<and> validMinor (item_grossLineExVatMinor i)
     \<and> validMinor (item_lineDiscountExVatMinor i) \<and> validMinor (item_lineTotalExVatMinor i)"

lemma item_diags_Nil:
  "item_diags oid ids lids items = [] \<longleftrightarrow>
     (\<forall>i \<in> set items. item_ok oid i) \<and> distinct (map item_id items) \<and> distinct (map item_platformLineId items)
     \<and> set (map item_id items) \<inter> ids = {} \<and> set (map item_platformLineId items) \<inter> lids = {}"
  by (induction items arbitrary: ids lids) (auto simp: quantity_diags_Nil money_diags_Nil item_ok_def)

definition reversal_line_ok :: "js_number canonical_reversal_line \<Rightarrow> bool" where
  "reversal_line_ok l \<longleftrightarrow> is_safe_integer (rline_quantity l) \<and> 0 \<le> js_int (rline_quantity l)
     \<and> validMinor (rline_amountExVatMinor l)"

definition reversal_ok :: "string \<Rightarrow> js_number canonical_reversal \<Rightarrow> bool" where
  "reversal_ok oid r \<longleftrightarrow> rev_orderId r = oid \<and> (\<forall>l \<in> set (or_nil (rev_lines r)). reversal_line_ok l)"

lemma reversal_line_diags_Nil: "reversal_line_diags rid l = [] \<longleftrightarrow> reversal_line_ok l"
  by (auto simp: reversal_line_diags_def reversal_line_ok_def quantity_diags_Nil money_diags_Nil)

lemma reversal_diags_Nil:
  "reversal_diags oid seen rs = [] \<longleftrightarrow>
     (\<forall>r \<in> set rs. reversal_ok oid r) \<and> distinct (map rev_id rs) \<and> set (map rev_id rs) \<inter> seen = {}"
  by (induction rs arbitrary: seen)
    (auto simp: reversal_line_diags_Nil reversal_ok_def or_nil_def split: option.splits)

definition shipment_ok :: "js_number canonical_shipment \<Rightarrow> bool" where
  "shipment_ok s \<longleftrightarrow> (case ship_carrierCostMinor s of None \<Rightarrow> True | Some c \<Rightarrow> validMinor c)"

lemma shipment_diags_Nil:
  "shipment_diags seen ss = [] \<longleftrightarrow>
     (\<forall>s \<in> set ss. shipment_ok s) \<and> distinct (map ship_id ss) \<and> set (map ship_id ss) \<inter> seen = {}"
  by (induction ss arbitrary: seen) (auto simp: money_diags_Nil shipment_ok_def split: option.splits)

definition cost_key :: "js_number resolved_cost \<Rightarrow> string" where
  "cost_key c = productKeyOf (cost_platformProductId c) (cost_platformVariantId c)"

definition cost_skus :: "js_number resolved_cost list \<Rightarrow> string list" where
  "cost_skus cs = filter (\<lambda>s. s \<noteq> []) (map (\<lambda>c. or_empty (cost_sku c)) cs)"

lemma index_costs_Nil:
  "snd (index_costs idx cs) = [] \<longleftrightarrow>
     (\<forall>c \<in> set cs. validMinor (cost_unitCostMinor c))
     \<and> distinct (map cost_key cs) \<and> distinct (cost_skus cs)
     \<and> (\<forall>c \<in> set cs. byProductKey idx (cost_key c) = None)
     \<and> (\<forall>s \<in> set (cost_skus cs). bySku idx s = None)"
proof (induction cs arbitrary: idx)
  case Nil
  then show ?case by (simp add: cost_skus_def)
next
  case (Cons c cs)
  show ?case
    by (auto simp: Let_def split_beta Cons.IH money_diags_Nil cost_key_def [symmetric] cost_skus_def
        split: if_splits) (metis imageI)+
qed

lemma flag_diags_Nil: "concat (map (\<lambda>x. if P x then [d] else []) xs) = [] \<longleftrightarrow> (\<forall>x \<in> set xs. \<not> P x)"
  by (induction xs) auto

definition rules_ok :: "js_number fee_rule_set \<Rightarrow> bool" where
  "rules_ok frs \<longleftrightarrow>
     (\<forall>r \<in> set (frs_gateway frs). feeFormulaIsValid r) \<and> (\<forall>r \<in> set (frs_cod frs). feeFormulaIsValid r)
     \<and> (\<forall>r \<in> set (frs_shippingFallback frs). validMinor (sf_costMinor r) \<and> 0 \<le> js_int (sf_costMinor r))
     \<and> distinct (map gateway_rule_key (frs_gateway frs)) \<and> distinct (map cod_rule_key (frs_cod frs))
     \<and> distinct (map shipping_rule_key (frs_shippingFallback frs))"

lemma validateFeeRuleSet_Nil: "validateFeeRuleSet frs = [] \<longleftrightarrow> rules_ok frs"
  unfolding validateFeeRuleSet_def rules_ok_def append_is_Nil_conv flag_diags_Nil duplicate_key_diags_Nil
  by (auto simp: not_less)

definition order_ok :: "js_number canonical_order \<Rightarrow> bool" where
  "order_ok order \<longleftrightarrow> isInstant (order_placedAt order)
     \<and> validMinor (order_subtotalExVatMinor order) \<and> validMinor (order_vatAmountMinor order)
     \<and> validMinor (order_shippingChargedExVatMinor order) \<and> validMinor (order_codFeeChargedExVatMinor order)
     \<and> validMinor (order_totalIncVatMinor order)"

definition header_ok ::
  "js_number canonical_order \<Rightarrow> store_profit_config \<Rightarrow> js_number fee_rule_set \<Rightarrow> bool" where
  "header_ok order store frs \<longleftrightarrow>
     store_currency store \<in> set CURRENCY_CODES \<and> order_currency order = store_currency store
     \<and> frs_currency frs = store_currency store \<and> store_timezone store \<noteq> [] \<and> order_ok order \<and> rules_ok frs"

lemma header_diags_Nil: "header_diags order store frs = [] \<longleftrightarrow> header_ok order store frs"
  by (auto simp: header_diags_def header_ok_def order_ok_def validateFeeRuleSet_Nil money_diags_Nil)

text \<open>The accepted inputs.\<close>

definition parts_ok ::
  "string \<Rightarrow> js_number canonical_order_item list \<Rightarrow> js_number canonical_shipment list
   \<Rightarrow> js_number canonical_reversal list \<Rightarrow> js_number resolved_cost list \<Rightarrow> bool" where
  "parts_ok oid items shipments reversals costs \<longleftrightarrow>
     (\<forall>i \<in> set items. item_ok oid i) \<and> distinct (map item_id items) \<and> distinct (map item_platformLineId items)
     \<and> (\<forall>s \<in> set shipments. shipment_ok s) \<and> distinct (map ship_id shipments)
     \<and> (\<forall>r \<in> set reversals. reversal_ok oid r) \<and> distinct (map rev_id reversals)
     \<and> (\<forall>c \<in> set costs. validMinor (cost_unitCostMinor c))
     \<and> distinct (map cost_key costs) \<and> distinct (cost_skus costs)"

definition well_formed :: "order_profit_input \<Rightarrow> bool" where
  "well_formed inp \<longleftrightarrow>
     (case (in_order inp, in_store inp, in_feeRuleSet inp) of
        (Some order, Some store, Some frs) \<Rightarrow>
          header_ok order store frs
          \<and> parts_ok (order_id order) (or_nil (in_items inp)) (or_nil (in_shipments inp))
              (or_nil (in_reversals inp)) (or_nil (in_costs inp))
      | _ \<Rightarrow> False)"

definition normalized_of :: "order_profit_input \<Rightarrow> js_number canonical_order \<Rightarrow> normalized_input" where
  "normalized_of inp order = \<lparr>
     norm_order = int_order order,
     norm_items = map int_item (sort_key item_platformLineId (or_nil (in_items inp))),
     norm_shipments = map int_shipment (sort_key ship_id (or_nil (in_shipments inp))),
     norm_reversals = map int_reversal (sort_key rev_id (or_nil (in_reversals inp))),
     norm_costs = fst (index_costs empty_index (or_nil (in_costs inp))) \<rparr>"

lemma normalizeAndValidate_accepts:
  assumes "in_order inp = Some order" and "well_formed inp"
  shows "normalizeAndValidate (Some inp) = (Some (normalized_of inp order), [])"
proof -
  obtain store frs where p: "in_store inp = Some store" "in_feeRuleSet inp = Some frs"
    using assms by (auto simp: well_formed_def split: option.splits)
  have "snd (index_costs empty_index (or_nil (in_costs inp))) = []"
    using assms p by (simp add: index_costs_Nil well_formed_def parts_ok_def empty_index_def)
  then show ?thesis
    using assms p
    by (simp add: normalizeAndValidate_def normalized_of_def Let_def split_beta well_formed_def
        parts_ok_def header_diags_Nil item_diags_Nil reversal_diags_Nil shipment_diags_Nil)
qed

lemma normalizeAndValidate_rejects:
  assumes "\<not> well_formed inp"
  shows "fst (normalizeAndValidate (Some inp)) = None"
  using assms
  by (auto simp: normalizeAndValidate_def Let_def split_beta well_formed_def parts_ok_def
      header_diags_Nil item_diags_Nil reversal_diags_Nil shipment_diags_Nil index_costs_Nil
      empty_index_def split: option.splits)

lemma normalizeAndValidate_iff:
  "fst (normalizeAndValidate input) \<noteq> None \<longleftrightarrow> (\<exists>inp. input = Some inp \<and> well_formed inp)"
proof (cases input)
  case None
  then show ?thesis by (simp add: normalizeAndValidate_def)
next
  case (Some inp)
  show ?thesis
  proof (cases "well_formed inp")
    case True
    then obtain order where "in_order inp = Some order"
      by (auto simp: well_formed_def split: option.splits)
    then show ?thesis using True Some by (simp add: normalizeAndValidate_accepts)
  next
    case False
    then show ?thesis using Some by (simp add: normalizeAndValidate_rejects)
  qed
qed

section \<open>What a rejection reports\<close>

text \<open>Every diagnostic of the validator is fatal, and a rejection has at least one.\<close>

definition all_fatal :: "diagnostic list \<Rightarrow> bool" where
  "all_fatal ds \<longleftrightarrow> (\<forall>d \<in> set ds. diag_severity d = Fatal)"

lemma all_fatal_simps [simp]:
  "all_fatal []" "all_fatal (d # ds) \<longleftrightarrow> diag_severity d = Fatal \<and> all_fatal ds"
  "all_fatal (ds @ es) \<longleftrightarrow> all_fatal ds \<and> all_fatal es"
  by (auto simp: all_fatal_def)

lemma all_fatal_concat [simp]: "all_fatal (concat (map f xs)) \<longleftrightarrow> (\<forall>x \<in> set xs. all_fatal (f x))"
  by (induction xs) auto

lemma fatal_codes [simp]:
  "severityOf CURRENCY_MISMATCH = Fatal" "severityOf ITEM_ORDER_ID_MISMATCH = Fatal"
  "severityOf REVERSAL_ORDER_ID_MISMATCH = Fatal" "severityOf NON_INTEGER_MINOR_UNITS = Fatal"
  "severityOf NEGATIVE_QUANTITY = Fatal" "severityOf NON_INTEGER_QUANTITY = Fatal"
  "severityOf DUPLICATE_COST_KEY = Fatal" "severityOf DUPLICATE_ITEM_ID = Fatal"
  "severityOf DUPLICATE_RULE_KEY = Fatal" "severityOf FEE_RULE_INVALID = Fatal"
  "severityOf MALFORMED_INPUT = Fatal" "severityOf MALFORMED_TIMESTAMP = Fatal"
  "severityOf INVALID_TIMEZONE = Fatal" "severityOf INTERNAL_INVARIANT_VIOLATED = Fatal"
  by (simp_all add: severityOf_def FATAL_def)

lemma money_diags_fatal [simp]: "all_fatal (money_diags s ms)"
  by (simp add: money_diags_def)

lemma quantity_diags_fatal [simp]: "all_fatal (quantity_diags s q)"
  by (simp add: quantity_diags_def)

lemma duplicate_key_diags_fatal [simp]: "all_fatal (duplicate_key_diags seen ks)"
  by (induction ks arbitrary: seen) auto

lemma validateFeeRuleSet_fatal [simp]: "all_fatal (validateFeeRuleSet frs)"
  by (simp add: validateFeeRuleSet_def)

lemma header_diags_fatal [simp]: "all_fatal (header_diags order store frs)"
  by (simp add: header_diags_def)

lemma item_diags_fatal [simp]: "all_fatal (item_diags oid ids lids items)"
  by (induction items arbitrary: ids lids) auto

lemma reversal_diags_fatal [simp]: "all_fatal (reversal_diags oid seen rs)"
  by (induction rs arbitrary: seen) (auto simp: reversal_line_diags_def)

lemma shipment_diags_fatal [simp]: "all_fatal (shipment_diags seen ss)"
  by (induction ss arbitrary: seen) (auto split: option.splits)

lemma index_costs_fatal [simp]: "all_fatal (snd (index_costs idx cs))"
  by (induction cs arbitrary: idx) (auto simp: Let_def split_beta)

lemma normalizeAndValidate_fatal:
  assumes "fst (normalizeAndValidate input) = None"
  shows "snd (normalizeAndValidate input) \<noteq> [] \<and> all_fatal (snd (normalizeAndValidate input))"
  using assms
  by (auto simp: normalizeAndValidate_def Let_def split_beta split: option.splits if_splits)

section \<open>Independence of the order of arrival\<close>

text \<open>
  Two inputs that differ only in the order of items, shipments and reversals are accepted together
  and normalize to the same value.
\<close>

definition same_parts :: "order_profit_input \<Rightarrow> order_profit_input \<Rightarrow> bool" where
  "same_parts a b \<longleftrightarrow>
     in_store a = in_store b \<and> in_order a = in_order b \<and> in_feeRuleSet a = in_feeRuleSet b
     \<and> in_costs a = in_costs b
     \<and> mset (or_nil (in_items a)) = mset (or_nil (in_items b))
     \<and> mset (or_nil (in_shipments a)) = mset (or_nil (in_shipments b))
     \<and> mset (or_nil (in_reversals a)) = mset (or_nil (in_reversals b))"

lemma mset_distinct_map: "mset xs = mset ys \<Longrightarrow> distinct (map f xs) = distinct (map f ys)"
  by (metis mset_eq_imp_distinct_iff mset_map)

lemma same_parts_well_formed:
  assumes "same_parts a b"
  shows "well_formed a = well_formed b"
proof -
  have "set (or_nil (in_items a)) = set (or_nil (in_items b))"
    "set (or_nil (in_shipments a)) = set (or_nil (in_shipments b))"
    "set (or_nil (in_reversals a)) = set (or_nil (in_reversals b))"
    using assms by (auto simp: same_parts_def dest: mset_eq_setD)
  moreover have "distinct (map f (or_nil (in_items a))) = distinct (map f (or_nil (in_items b)))"
    "distinct (map g (or_nil (in_shipments a))) = distinct (map g (or_nil (in_shipments b)))"
    "distinct (map h (or_nil (in_reversals a))) = distinct (map h (or_nil (in_reversals b)))"
    for f :: "js_number canonical_order_item \<Rightarrow> string" and g :: "js_number canonical_shipment \<Rightarrow> string"
      and h :: "js_number canonical_reversal \<Rightarrow> string"
    using assms unfolding same_parts_def by (metis mset_distinct_map)+
  ultimately show ?thesis
    using assms by (simp add: well_formed_def parts_ok_def same_parts_def split: option.split)
qed

lemma same_parts_normalized:
  assumes "same_parts a b" and "well_formed a"
  shows "normalized_of a order = normalized_of b order"
proof -
  have d: "distinct (map item_platformLineId (or_nil (in_items a)))"
    "distinct (map ship_id (or_nil (in_shipments a)))" "distinct (map rev_id (or_nil (in_reversals a)))"
    using assms(2) by (auto simp: well_formed_def parts_ok_def split: option.splits)
  have m: "mset (or_nil (in_items a)) = mset (or_nil (in_items b))"
    "mset (or_nil (in_shipments a)) = mset (or_nil (in_shipments b))"
    "mset (or_nil (in_reversals a)) = mset (or_nil (in_reversals b))" "in_costs a = in_costs b"
    using assms(1) by (simp_all add: same_parts_def)
  show ?thesis
    using sort_key_unique [OF m(1) inj_on_of_distinct_map [OF d(1)]]
      sort_key_unique [OF m(2) inj_on_of_distinct_map [OF d(2)]]
      sort_key_unique [OF m(3) inj_on_of_distinct_map [OF d(3)]] m(4)
    by (simp add: normalized_of_def)
qed

end
