(* ===== verification/Cogs.thy ===== *)
theory Cogs
  imports Normalize
begin

text \<open>
  Cost of goods, \<open>packages/core/src/engine/cogs.ts\<close>: each line's cost is looked up by product key
  and then by SKU; a miss costs zero and is reported.
\<close>

record line_cogs =
  lcogs_orderItemId :: string
  lcogs_unitCostMinor :: int
  lcogs_cogsMinor :: int
  lcogs_source :: cost_source
  lcogs_costHistoryId :: "string option"
  lcogs_covered :: bool

record order_cogs =
  ocogs_lines :: "line_cogs list"
  ocogs_cogsMinor :: int
  ocogs_anyMissing :: bool
  ocogs_anyEstimated :: bool

definition resolve_cost :: "cost_index \<Rightarrow> int canonical_order_item \<Rightarrow> int resolved_cost option" where
  "resolve_cost costs item =
     (let byKey = byProductKey costs (productKeyOf (item_platformProductId item) (item_platformVariantId item));
          sku = (case item_sku item of
                   None \<Rightarrow> None
                 | Some s \<Rightarrow> if s = [] then None else bySku costs s)
      in case byKey of Some c \<Rightarrow> Some c | None \<Rightarrow> sku)"

definition missing_cost_line :: "int canonical_order_item \<Rightarrow> line_cogs" where
  "missing_cost_line item =
     \<lparr> lcogs_orderItemId = item_id item, lcogs_unitCostMinor = 0, lcogs_cogsMinor = 0,
       lcogs_source = CO_none, lcogs_costHistoryId = None, lcogs_covered = False \<rparr>"

text \<open>One round of the loop: the line it pushes and the diagnostics it raises.\<close>

definition cogs_line ::
  "cost_index \<Rightarrow> int canonical_order_item \<Rightarrow> (line_cogs \<times> diagnostic list) outcome" where
  "cogs_line costs item =
     (case resolve_cost costs item of
        None \<Rightarrow> Inr (missing_cost_line item, [diagnostic COST_MISSING (OnLine (item_id item))])
      | Some resolved \<Rightarrow>
          let exact = (cost_source resolved \<in> set EXACT_COST_SOURCES)
          in bindE (assertInRange (cost_unitCostMinor resolved * item_quantity item)) (\<lambda>cogs.
             Inr (\<lparr> lcogs_orderItemId = item_id item, lcogs_unitCostMinor = cost_unitCostMinor resolved,
                    lcogs_cogsMinor = cogs, lcogs_source = cost_source resolved,
                    lcogs_costHistoryId = Some (cost_costHistoryId resolved), lcogs_covered = exact \<rparr>,
                  if exact then [] else [diagnostic COST_ESTIMATED (OnLine (item_id item))])))"

definition computeCogs ::
  "int canonical_order_item list \<Rightarrow> cost_index \<Rightarrow> order_cogs computed outcome" where
  "computeCogs items costs =
     bindE (mapE (cogs_line costs) items) (\<lambda>rows.
     bindE (addMinor (map (\<lambda>r. lcogs_cogsMinor (fst r)) rows)) (\<lambda>cogs.
     Inr (\<lparr> ocogs_lines = map fst rows, ocogs_cogsMinor = cogs,
            ocogs_anyMissing = list_ex (\<lambda>i. resolve_cost costs i = None) items,
            ocogs_anyEstimated = list_ex (\<lambda>i. case resolve_cost costs i of
                None \<Rightarrow> False | Some c \<Rightarrow> cost_source c \<notin> set EXACT_COST_SOURCES) items \<rparr>,
          concat (map snd rows))))"

section \<open>What the lines say\<close>

lemma cogs_line_id: "cogs_line costs i = Inr r \<Longrightarrow> lcogs_orderItemId (fst r) = item_id i"
  by (auto simp: cogs_line_def missing_cost_line_def Let_def bindE_eq_Inr split: option.splits)

lemma cogs_line_value:
  "cogs_line costs i = Inr r \<Longrightarrow>
     lcogs_cogsMinor (fst r)
       = (case resolve_cost costs i of None \<Rightarrow> 0 | Some c \<Rightarrow> cost_unitCostMinor c * item_quantity i)
     \<and> in_range (lcogs_cogsMinor (fst r)) \<and> all_warnings (snd r)"
  by (auto simp: cogs_line_def missing_cost_line_def Let_def bindE_eq_Inr assertInRange_eq_Inr
      split: option.splits)

lemma computeCogs_ids:
  "computeCogs items costs = Inr (cg, ds) \<Longrightarrow> map lcogs_orderItemId (ocogs_lines cg) = map item_id items"
  by (auto simp: computeCogs_def bindE_eq_Inr comp_def elim!: mapE_map_fst intro: cogs_line_id)

lemma computeCogs_sum:
  "computeCogs items costs = Inr (cg, ds) \<Longrightarrow>
     ocogs_cogsMinor cg = (\<Sum>l\<leftarrow>ocogs_lines cg. lcogs_cogsMinor l)"
  by (auto simp: computeCogs_def bindE_eq_Inr comp_def dest!: addMinor_sum)

lemma computeCogs_warnings:
  assumes "computeCogs items costs = Inr (cg, ds)"
  shows "all_warnings ds"
proof -
  obtain rows where r: "mapE (cogs_line costs) items = Inr rows" "ds = concat (map snd rows)"
    using assms by (auto simp: computeCogs_def bindE_eq_Inr)
  show ?thesis
    unfolding r(2) by (rule all_warnings_concat) (metis cogs_line_value mapE_in_set r(1))
qed

text \<open>A line's cost is its unit cost times its quantity, and no line is negative when costs are not.\<close>

definition nonneg_costs :: "cost_index \<Rightarrow> bool" where
  "nonneg_costs costs \<longleftrightarrow>
     (\<forall>k c. byProductKey costs k = Some c \<longrightarrow> 0 \<le> cost_unitCostMinor c)
     \<and> (\<forall>k c. bySku costs k = Some c \<longrightarrow> 0 \<le> cost_unitCostMinor c)"

lemma resolve_cost_nonneg:
  "nonneg_costs costs \<Longrightarrow> resolve_cost costs i = Some c \<Longrightarrow> 0 \<le> cost_unitCostMinor c"
  by (auto simp: resolve_cost_def Let_def nonneg_costs_def split: option.splits if_splits)

lemma computeCogs_nonneg:
  assumes "computeCogs items costs = Inr (cg, ds)" and "nonneg_costs costs"
    and "\<And>i. i \<in> set items \<Longrightarrow> 0 \<le> item_quantity i" and "l \<in> set (ocogs_lines cg)"
  shows "0 \<le> lcogs_cogsMinor l"
proof -
  obtain rows where r: "mapE (cogs_line costs) items = Inr rows" "ocogs_lines cg = map fst rows"
    using assms(1) by (auto simp: computeCogs_def bindE_eq_Inr)
  obtain row where row: "row \<in> set rows" "l = fst row"
    using assms(4) r(2) by auto
  obtain i where i: "i \<in> set items" "cogs_line costs i = Inr row"
    using mapE_in_set [OF r(1) row(1)] by blast
  show ?thesis
    using cogs_line_value [OF i(2)] assms(3) [OF i(1)] resolve_cost_nonneg [OF assms(2), of i]
    by (auto simp: row(2) split: option.splits)
qed

end
