(* ===== verification/Confidence.thy ===== *)
theory Confidence
  imports Domain Diagnostics
begin

text \<open>
  Whether an order's money counts, and how: \<open>packages/core/src/engine/recognition.ts\<close> and the
  type \<open>ProfitRecognition\<close> of \<open>packages/core/src/result.ts\<close>.
\<close>

datatype cost_only_reason =
    CO_rto_uncollected | CO_cancelled_after_dispatch | CO_cancelled_after_capture
  | CO_payment_not_settled | CO_goods_lost

datatype excluded_reason = EX_test_order | EX_draft | EX_cancelled_before_economic_effect

datatype profit_recognition = Recognized | CostOnly cost_only_reason | Excluded excluded_reason

definition DISPATCHED :: "fulfillment_state set" where
  "DISPATCHED = {FS_partially_fulfilled, FS_in_transit, FS_delivered, FS_returned, FS_rto}"

definition NEVER_SETTLED :: "payment_state set" where
  "NEVER_SETTLED = {PS_unpaid, PS_authorized, PS_failed, PS_voided}"

text \<open>The same set is written out in \<open>shipping.ts\<close> and \<open>cod.ts\<close>.\<close>

definition LIVE :: "shipment_status set" where
  "LIVE = {SS_created, SS_in_transit, SS_out_for_delivery, SS_delivered, SS_failed_attempt,
     SS_returned_to_origin, SS_lost, SS_unknown}"

definition computeRecognition ::
  "int canonical_order \<Rightarrow> int canonical_shipment list \<Rightarrow> profit_recognition" where
  "computeRecognition order shipments =
     (if order_isTest order then Excluded EX_test_order
      else if order_lifecycle order = OL_draft then Excluded EX_draft
      else if order_fulfillmentState order = FS_rto \<and> order_paymentState order \<in> NEVER_SETTLED
        then CostOnly CO_rto_uncollected
      else
        let live = filter (\<lambda>s. ship_direction s = SD_outbound \<and> ship_status s \<in> LIVE) shipments
        in if length live > 0 \<and> list_all (\<lambda>s. ship_status s = SS_lost) live
              \<and> order_paymentState order \<in> NEVER_SETTLED
           then CostOnly CO_goods_lost
           else if order_paymentState order = PS_voided \<or> order_paymentState order = PS_failed
           then (if order_fulfillmentState order \<in> DISPATCHED then CostOnly CO_payment_not_settled
                 else Excluded EX_cancelled_before_economic_effect)
           else if order_lifecycle order = OL_cancelled
           then (if order_paymentState order = PS_partially_refunded then Recognized
                 else if order_paymentState order = PS_paid \<or> order_paymentState order = PS_refunded
                   then CostOnly CO_cancelled_after_capture
                 else if order_fulfillmentState order \<in> DISPATCHED then CostOnly CO_cancelled_after_dispatch
                 else Excluded EX_cancelled_before_economic_effect)
           else Recognized)"

fun isCostOnly :: "profit_recognition \<Rightarrow> bool" where
  "isCostOnly (CostOnly _) = True"
| "isCostOnly _ = False"

fun isExcluded :: "profit_recognition \<Rightarrow> bool" where
  "isExcluded (Excluded _) = True"
| "isExcluded _ = False"

text \<open>
  What recognition promises: revenue is booked only for an order that is neither a test nor a
  draft, whose payment neither failed nor was voided, that was not refused at the door uncollected
  and that is not cancelled, unless part of a cancelled order's money was kept.
\<close>

lemma recognized_iff:
  "computeRecognition order shipments = Recognized \<longleftrightarrow>
     \<not> order_isTest order \<and> order_lifecycle order \<noteq> OL_draft
     \<and> order_paymentState order \<noteq> PS_voided \<and> order_paymentState order \<noteq> PS_failed
     \<and> \<not> (order_fulfillmentState order = FS_rto \<and> order_paymentState order \<in> NEVER_SETTLED)
     \<and> \<not> (order_paymentState order \<in> NEVER_SETTLED
          \<and> (\<exists>s \<in> set shipments. ship_direction s = SD_outbound \<and> ship_status s \<in> LIVE)
          \<and> (\<forall>s \<in> set shipments. ship_direction s = SD_outbound \<and> ship_status s \<in> LIVE \<longrightarrow> ship_status s = SS_lost))
     \<and> (order_lifecycle order = OL_cancelled \<longrightarrow> order_paymentState order = PS_partially_refunded)"
  by (auto simp: computeRecognition_def Let_def list_all_iff filter_empty_conv)

text \<open>A dispatched order is never excluded for want of economic effect: its freight was real.\<close>

lemma excluded_only_undispatched:
  "computeRecognition order shipments = Excluded EX_cancelled_before_economic_effect \<Longrightarrow>
     order_fulfillmentState order \<notin> DISPATCHED"
  by (auto simp: computeRecognition_def Let_def split: if_splits)

text \<open>
  Provenance of the terms: \<open>packages/core/src/confidence.ts\<close> and
  \<open>packages/core/src/engine/confidence.ts\<close>.
\<close>

datatype term_basis = TB_actual | TB_estimated | TB_missing | TB_not_applicable

datatype revenue_basis = RB_reported | RB_unreconciled

datatype reversal_basis = VB_reported | VB_allocated | VB_not_applicable

datatype confidence_level = CL_exact | CL_estimated | CL_incomplete

record profit_confidence =
  conf_revenue :: revenue_basis
  conf_cogs :: term_basis
  conf_outboundShipping :: term_basis
  conf_returnShipping :: term_basis
  conf_gatewayFee :: term_basis
  conf_codCost :: term_basis
  conf_reversal :: reversal_basis
  conf_level :: confidence_level

record term_bases =
  tb_reconciles :: bool
  tb_cogs :: term_basis
  tb_outboundShipping :: term_basis
  tb_returnShipping :: term_basis
  tb_gatewayFee :: term_basis
  tb_codCost :: term_basis
  tb_reversal :: reversal_basis

definition has_code :: "diagnostic list \<Rightarrow> diagnostic_code \<Rightarrow> bool" where
  "has_code ds c = list_ex (\<lambda>d. diag_code d = c) ds"

definition worse :: "term_basis \<Rightarrow> term_basis \<Rightarrow> term_basis" where
  "worse basis floor_basis =
     (if basis = TB_actual \<or> basis = TB_not_applicable then floor_basis else basis)"

definition deriveConfidence :: "term_bases \<Rightarrow> diagnostic list \<Rightarrow> profit_confidence" where
  "deriveConfidence terms ds =
     (let cogs = (if has_code ds RESTOCK_UNKNOWN then worse (tb_cogs terms) TB_estimated else tb_cogs terms);
          reversal = (if has_code ds REVERSAL_LINE_UNMATCHED \<or> has_code ds REVERSAL_TOTAL_MISMATCH
                      then VB_allocated else tb_reversal terms);
          bases = [cogs, tb_outboundShipping terms, tb_returnShipping terms, tb_gatewayFee terms,
                   tb_codCost terms];
          revenue = (if tb_reconciles terms \<and> \<not> has_code ds ORDER_HAS_NO_ITEMS
                     then RB_reported else RB_unreconciled);
          anyMissing = TB_missing \<in> set bases;
          allSettled = list_all (\<lambda>b. b = TB_actual \<or> b = TB_not_applicable) bases;
          level = (if anyMissing \<or> revenue = RB_unreconciled then CL_incomplete
                   else if allSettled \<and> reversal \<noteq> VB_allocated then CL_exact else CL_estimated)
      in \<lparr> conf_revenue = revenue, conf_cogs = cogs, conf_outboundShipping = tb_outboundShipping terms,
           conf_returnShipping = tb_returnShipping terms, conf_gatewayFee = tb_gatewayFee terms,
           conf_codCost = tb_codCost terms, conf_reversal = reversal, conf_level = level \<rparr>)"

definition conf_terms :: "profit_confidence \<Rightarrow> term_basis list" where
  "conf_terms c = [conf_cogs c, conf_outboundShipping c, conf_returnShipping c, conf_gatewayFee c,
     conf_codCost c]"

text \<open>The level is a function of the published terms, as the interface documents it.\<close>

lemma deriveConfidence_level:
  "conf_level (deriveConfidence terms ds) =
     (if TB_missing \<in> set (conf_terms (deriveConfidence terms ds))
         \<or> conf_revenue (deriveConfidence terms ds) = RB_unreconciled then CL_incomplete
      else if (\<forall>b \<in> set (conf_terms (deriveConfidence terms ds)). b = TB_actual \<or> b = TB_not_applicable)
         \<and> conf_reversal (deriveConfidence terms ds) \<noteq> VB_allocated then CL_exact
      else CL_estimated)"
  by (simp add: deriveConfidence_def conf_terms_def Let_def)

text \<open>No diagnostic that undermines a number coexists with the level \<open>exact\<close>.\<close>

lemma exact_excludes_doubt:
  assumes "conf_level (deriveConfidence terms ds) = CL_exact" and "d \<in> set ds"
  shows "diag_code d \<notin> {RESTOCK_UNKNOWN, REVERSAL_LINE_UNMATCHED, REVERSAL_TOTAL_MISMATCH, ORDER_HAS_NO_ITEMS}"
  using assms
  by (auto simp: deriveConfidence_def Let_def has_code_def worse_def list_ex_iff split: if_splits)

end
