(* ===== verification/Revenue.thy ===== *)
theory Revenue
  imports Allocation Confidence Diagnostics
begin

text \<open>
  Revenue: \<open>packages/core/src/engine/revenue.ts\<close>. Order-level discounts on items are allocated
  to lines by the largest-remainder allocator; an order that is not recognised yields zeros.
\<close>

record line_revenue =
  lrev_orderItemId :: string
  lrev_grossExVatMinor :: int
  lrev_allocatedOrderDiscountExVatMinor :: int
  lrev_netExVatMinor :: int

record order_revenue =
  orev_lines :: "line_revenue list"
  orev_itemsRevenueExVatMinor :: int
  orev_shippingRevenueExVatMinor :: int
  orev_codFeeRevenueExVatMinor :: int
  orev_orderDiscountExVatMinor :: int
  orev_revenueExVatMinor :: int
  orev_vatCollectedMinor :: int
  orev_shippingDiscountExVatMinor :: int
  orev_codFeeDiscountExVatMinor :: int
  orev_reconciles :: bool

definition unreflected :: "int canonical_order \<Rightarrow> discount_target \<Rightarrow> int outcome" where
  "unreflected order target =
     addMinor (map disc_amountExVatMinor
       (filter (\<lambda>d. disc_target d = target \<and> \<not> disc_reflectedInComponent d) (order_discounts order)))"

definition item_bucket :: "int canonical_order_item \<Rightarrow> string allocation_bucket" where
  "item_bucket item = \<lparr> bucket_key = item_id item, bucket_weight = item_lineTotalExVatMinor item \<rparr>"

definition computeLineRevenue ::
  "int canonical_order_item list \<Rightarrow> int \<Rightarrow> line_revenue list outcome" where
  "computeLineRevenue items itemDiscountMinor =
     (if items = [] then Inr []
      else bindE (allocateMinor itemDiscountMinor (map item_bucket items)) (\<lambda>allocation.
        mapE (\<lambda>item.
          let share = shareOf allocation (item_id item)
          in bindE (subMinor (item_lineTotalExVatMinor item) share) (\<lambda>net. Inr
               \<lparr> lrev_orderItemId = item_id item, lrev_grossExVatMinor = item_lineTotalExVatMinor item,
                 lrev_allocatedOrderDiscountExVatMinor = share, lrev_netExVatMinor = net \<rparr>)) items))"

definition zero_line_revenue :: "int canonical_order_item \<Rightarrow> line_revenue" where
  "zero_line_revenue item =
     \<lparr> lrev_orderItemId = item_id item, lrev_grossExVatMinor = 0,
       lrev_allocatedOrderDiscountExVatMinor = 0, lrev_netExVatMinor = 0 \<rparr>"

definition computeRevenue ::
  "int canonical_order \<Rightarrow> int canonical_order_item list \<Rightarrow> profit_recognition
   \<Rightarrow> order_revenue computed outcome" where
  "computeRevenue order items recognition =
     bindE (addMinor (map item_lineTotalExVatMinor items)) (\<lambda>itemsGross.
     bindE (unreflected order DT_items) (\<lambda>itemDiscount.
     bindE (unreflected order DT_shipping) (\<lambda>shippingDiscount.
     bindE (unreflected order DT_cod_fee) (\<lambda>codDiscount.
     bindE (addMinor [itemDiscount, shippingDiscount, codDiscount]) (\<lambda>orderDiscount.
     bindE (to_minor (- orderDiscount)) (\<lambda>negDiscount.
     bindE (addMinor [order_subtotalExVatMinor order, negDiscount, order_shippingChargedExVatMinor order,
              order_codFeeChargedExVatMinor order, order_vatAmountMinor order]) (\<lambda>expectedTotal.
     let subtotalMatches = (order_subtotalExVatMinor order = itemsGross);
         reconciles = (expectedTotal = order_totalIncVatMinor order \<and> subtotalMatches);
         diagnostics = (if \<not> reconciles then [onOrder TOTALS_DO_NOT_RECONCILE] else [])
           @ (if items = [] then [onOrder ORDER_HAS_NO_ITEMS] else [])
     in if recognition \<noteq> Recognized then
          Inr (\<lparr> orev_lines = map zero_line_revenue items,
                 orev_itemsRevenueExVatMinor = 0, orev_shippingRevenueExVatMinor = 0,
                 orev_codFeeRevenueExVatMinor = 0, orev_orderDiscountExVatMinor = 0,
                 orev_revenueExVatMinor = 0, orev_vatCollectedMinor = 0,
                 orev_shippingDiscountExVatMinor = 0, orev_codFeeDiscountExVatMinor = 0,
                 orev_reconciles = reconciles \<rparr>,
               diagnostics @ [onOrder (if isCostOnly recognition then RECOGNITION_COST_ONLY
                                       else ORDER_EXCLUDED)])
        else
          bindE (addMinor [itemsGross, order_shippingChargedExVatMinor order,
                   order_codFeeChargedExVatMinor order, negDiscount]) (\<lambda>revenue.
          bindE (computeLineRevenue items itemDiscount) (\<lambda>lines.
          Inr (\<lparr> orev_lines = lines,
                 orev_itemsRevenueExVatMinor = itemsGross,
                 orev_shippingRevenueExVatMinor = order_shippingChargedExVatMinor order,
                 orev_codFeeRevenueExVatMinor = order_codFeeChargedExVatMinor order,
                 orev_orderDiscountExVatMinor = orderDiscount,
                 orev_revenueExVatMinor = revenue,
                 orev_vatCollectedMinor = order_vatAmountMinor order,
                 orev_shippingDiscountExVatMinor = shippingDiscount,
                 orev_codFeeDiscountExVatMinor = codDiscount,
                 orev_reconciles = reconciles \<rparr>,
               diagnostics))))))))))"

section \<open>Lines and order tie\<close>

lemma item_bucket_sel [simp]:
  "bucket_key (item_bucket i) = item_id i" "bucket_weight (item_bucket i) = item_lineTotalExVatMinor i"
  by (simp_all add: item_bucket_def)

lemma computeLineRevenue_ids:
  "computeLineRevenue items d = Inr lines \<Longrightarrow> map lrev_orderItemId lines = map item_id items"
  by (auto simp: computeLineRevenue_def bindE_eq_Inr Let_def split: if_splits elim!: mapE_map_fst)

lemma computeLineRevenue_sum:
  assumes "computeLineRevenue items d = Inr lines" and "items \<noteq> []"
  shows "(\<Sum>l\<leftarrow>lines. lrev_netExVatMinor l) = (\<Sum>i\<leftarrow>items. item_lineTotalExVatMinor i) - d"
    and "(\<Sum>l\<leftarrow>lines. lrev_allocatedOrderDiscountExVatMinor l) = d"
proof -
  obtain al where al: "allocateMinor d (map item_bucket items) = Inr al"
    and m: "mapE (\<lambda>item. let share = shareOf al (item_id item)
          in bindE (subMinor (item_lineTotalExVatMinor item) share) (\<lambda>net. Inr
               \<lparr> lrev_orderItemId = item_id item, lrev_grossExVatMinor = item_lineTotalExVatMinor item,
                 lrev_allocatedOrderDiscountExVatMinor = share, lrev_netExVatMinor = net \<rparr>)) items = Inr lines"
    using assms by (auto simp: computeLineRevenue_def bindE_eq_Inr)
  have shares: "(\<Sum>k\<leftarrow>map item_id items. shareOf al k) = d"
    by (rule largest_remainder.sum_shares [OF al]) simp
  have net: "map lrev_netExVatMinor lines
      = map (\<lambda>i. item_lineTotalExVatMinor i - shareOf al (item_id i)) items"
    and disc: "map lrev_allocatedOrderDiscountExVatMinor lines = map (\<lambda>i. shareOf al (item_id i)) items"
    by (rule mapE_map_fst [OF m], auto simp: Let_def bindE_eq_Inr subMinor_eq_Inr)+
  show "(\<Sum>l\<leftarrow>lines. lrev_netExVatMinor l) = (\<Sum>i\<leftarrow>items. item_lineTotalExVatMinor i) - d"
    using shares by (simp add: net sum_list_diff comp_def)
  show "(\<Sum>l\<leftarrow>lines. lrev_allocatedOrderDiscountExVatMinor l) = d"
    using shares by (simp add: disc comp_def)
qed

text \<open>The facts about revenue that the rest of the engine uses.\<close>

lemma computeRevenue_ids:
  "computeRevenue order items rec = Inr (rv, ds) \<Longrightarrow> map lrev_orderItemId (orev_lines rv) = map item_id items"
  by (auto simp: computeRevenue_def bindE_eq_Inr Let_def zero_line_revenue_def comp_def
      dest: computeLineRevenue_ids split: if_splits)

lemma computeRevenue_zero:
  "computeRevenue order items rec = Inr (rv, ds) \<Longrightarrow> rec \<noteq> Recognized \<Longrightarrow>
     orev_itemsRevenueExVatMinor rv = 0 \<and> orev_shippingRevenueExVatMinor rv = 0
     \<and> orev_codFeeRevenueExVatMinor rv = 0 \<and> orev_orderDiscountExVatMinor rv = 0
     \<and> orev_revenueExVatMinor rv = 0 \<and> orev_vatCollectedMinor rv = 0
     \<and> orev_shippingDiscountExVatMinor rv = 0 \<and> orev_codFeeDiscountExVatMinor rv = 0
     \<and> (\<forall>l \<in> set (orev_lines rv). lrev_netExVatMinor l = 0)"
  by (auto simp: computeRevenue_def bindE_eq_Inr Let_def zero_line_revenue_def)

lemma computeRevenue_identity:
  assumes "computeRevenue order items rec = Inr (rv, ds)"
  shows "orev_revenueExVatMinor rv = orev_itemsRevenueExVatMinor rv + orev_shippingRevenueExVatMinor rv
      + orev_codFeeRevenueExVatMinor rv - orev_orderDiscountExVatMinor rv"
    and "in_range (orev_revenueExVatMinor rv)"
  using assms
  by (auto simp: computeRevenue_def bindE_eq_Inr Let_def to_minor_eq_Inr dest!: addMinor_Inr split: if_splits)

text \<open>Net line revenue plus what is left of shipping and COD fee is the order's revenue.\<close>

lemma computeRevenue_tie:
  assumes "computeRevenue order items rec = Inr (rv, ds)" and "items \<noteq> []"
  shows "(\<Sum>l\<leftarrow>orev_lines rv. lrev_netExVatMinor l)
      + (orev_shippingRevenueExVatMinor rv - orev_shippingDiscountExVatMinor rv)
      + (orev_codFeeRevenueExVatMinor rv - orev_codFeeDiscountExVatMinor rv) = orev_revenueExVatMinor rv"
proof (cases "rec = Recognized")
  case True
  then show ?thesis
    using assms
    by (auto simp: computeRevenue_def bindE_eq_Inr Let_def to_minor_eq_Inr
        dest!: addMinor_Inr computeLineRevenue_sum(1))
next
  case False
  have "(\<Sum>l\<leftarrow>orev_lines rv. lrev_netExVatMinor l) = 0"
    using computeRevenue_zero [OF assms(1) False] by (intro sum_list_all_zero) simp
  then show ?thesis
    using computeRevenue_zero [OF assms(1) False] by simp
qed

lemma computeRevenue_warnings: "computeRevenue order items rec = Inr (rv, ds) \<Longrightarrow> all_warnings ds"
  by (auto simp: computeRevenue_def bindE_eq_Inr Let_def split: if_splits)

end
