(* ===== verification/Reversal.thy ===== *)
theory Reversal
  imports Cogs Revenue
begin

text \<open>
  What flows back to the customer and the goods that came back with it,
  \<open>packages/core/src/engine/reversal.ts\<close>: a running tally per line of reversed revenue, returned
  quantity and recovered cost, filled reversal by reversal and capped at the end.

  The tallies are plain numbers in the code and integers here; their additions are exact doubles
  as long as fewer than nine thousand amounts meet on one line. The proration of a restock credit
  multiplies two amounts before it divides, so that one product may need more than 53 bits: it is
  rounded as the code rounds it.
\<close>

record line_reversal =
  lvr_orderItemId :: string
  lvr_reversedQuantity :: int
  lvr_reversedRevenueExVatMinor :: int
  lvr_restockedCogsMinor :: int
  lvr_impactMinor :: int

record reversal_impact =
  ri_lines :: "line_reversal list"
  ri_reversedRevenueExVatMinor :: int
  ri_restockedCogsMinor :: int
  ri_impactMinor :: int
  ri_allocated :: bool
  ri_inferredRestock :: bool

definition RECOVERS_COGS :: "restock_outcome set" where
  "RECOVERS_COGS = {RO_restocked_sellable}"

definition UNKNOWN_RESTOCK :: "restock_outcome set" where
  "UNKNOWN_RESTOCK = {RO_pending_receipt, RO_unknown}"

definition ARRIVED_BACK :: "shipment_status set" where
  "ARRIVED_BACK = {SS_returned_to_origin, SS_delivered}"

definition rtoGoodsRecovered :: "int canonical_shipment list \<Rightarrow> bool" where
  "rtoGoodsRecovered shipments =
     list_ex (\<lambda>s. ship_direction s = SD_return \<and> ship_status s \<in> ARRIVED_BACK) shipments"

type_synonym tally_map = "string \<Rightarrow> int option"

definition tally :: "tally_map \<Rightarrow> string \<Rightarrow> int" where
  "tally m i = (case m i of None \<Rightarrow> 0 | Some n \<Rightarrow> n)"

definition costOf :: "(string \<Rightarrow> line_cogs option) \<Rightarrow> string \<Rightarrow> int" where
  "costOf costs i = (case costs i of None \<Rightarrow> 0 | Some l \<Rightarrow> lcogs_cogsMinor l)"

definition unitCostOf :: "(string \<Rightarrow> line_cogs option) \<Rightarrow> string \<Rightarrow> int" where
  "unitCostOf costs i = (case costs i of None \<Rightarrow> 0 | Some l \<Rightarrow> lcogs_unitCostMinor l)"

section \<open>Spreading\<close>

definition add_share :: "tally_map \<Rightarrow> string \<times> int \<Rightarrow> tally_map" where
  "add_share into share = into(fst share \<mapsto> tally into (fst share) + snd share)"

definition spread :: "string allocation_bucket list \<Rightarrow> int \<Rightarrow> tally_map \<Rightarrow> tally_map outcome" where
  "spread buckets tot into =
     (if tot = 0 \<or> length buckets = 0 then Inr into
      else bindE (allocateMinor tot buckets) (\<lambda>shares. Inr (foldl add_share into shares)))"

text \<open>One share of the capped spread: what the line can still absorb is added and counted.\<close>

definition take_share :: "(string \<Rightarrow> int) \<Rightarrow> tally_map \<times> int \<Rightarrow> string \<times> int \<Rightarrow> tally_map \<times> int" where
  "take_share cost st share =
     (let into = fst st; absorbed = snd st; i = fst share; amount = snd share;
          headroom = cost i - tally into i;
          taken = max 0 (min amount headroom)
      in if taken = 0 then st else (into(i \<mapsto> tally into i + taken), absorbed + taken))"

definition capped_round ::
  "(string \<Rightarrow> int) \<Rightarrow> int \<Rightarrow> string allocation_bucket list \<Rightarrow> tally_map \<Rightarrow> (tally_map \<times> int) outcome" where
  "capped_round cost remaining unfilled into =
     bindE (assertInRange remaining) (\<lambda>r.
     bindE (allocateMinor r unfilled) (\<lambda>shares.
     Inr (foldl (take_share cost) (into, 0) shares)))"

lemma take_share_absorbed: "snd st \<le> snd (take_share cost st sh)"
  by (simp add: take_share_def Let_def)

lemma fold_take_absorbed: "snd st \<le> snd (foldl (take_share cost) st shares)"
proof (induction shares arbitrary: st)
  case Nil
  then show ?case by simp
next
  case (Cons s shares)
  then show ?case using take_share_absorbed order_trans by (metis foldl_Cons)
qed

lemma capped_round_absorbed:
  assumes "capped_round cost remaining unfilled into = Inr (into', a)"
  shows "0 \<le> a"
proof -
  obtain shares where "foldl (take_share cost) (into, 0) shares = (into', a)"
    using assms by (auto simp: capped_round_def bindE_eq_Inr)
  then show ?thesis using fold_take_absorbed [of "(into, 0)" cost shares] by simp
qed

function capped_loop ::
  "(string \<Rightarrow> int) \<Rightarrow> int \<Rightarrow> string allocation_bucket list \<Rightarrow> tally_map \<Rightarrow> tally_map outcome" where
  "capped_loop cost remaining unfilled into =
     (if remaining > 0 \<and> length unfilled > 0
      then case capped_round cost remaining unfilled into of
             Inl e \<Rightarrow> Inl e
           | Inr (into', absorbed) \<Rightarrow>
               if absorbed = 0 then Inr into'
               else capped_loop cost (remaining - absorbed)
                      (filter (\<lambda>b. cost (bucket_key b) - tally into' (bucket_key b) > 0) unfilled) into'
      else Inr into)"
  by pat_completeness auto

termination
proof (relation "measure (\<lambda>(cost, remaining, unfilled, into). nat remaining)", goal_cases)
  case 1
  then show ?case by simp
next
  case (2 cost remaining unfilled into r into' absorbed)
  then have "0 < absorbed" using capped_round_absorbed by fastforce
  then show ?case using 2 by simp
qed

declare capped_loop.simps [simp del]

definition spreadCappedByCogs ::
  "string allocation_bucket list \<Rightarrow> int \<Rightarrow> tally_map \<Rightarrow> (string \<Rightarrow> line_cogs option) \<Rightarrow> tally_map outcome" where
  "spreadCappedByCogs buckets tot into costs =
     capped_loop (costOf costs) tot (filter (\<lambda>b. costOf costs (bucket_key b) > 0) buckets) into"

text \<open>\<open>Math.floor((fullCogs * amount) / itemsGross)\<close> in doubles.\<close>

definition prorated :: "int \<Rightarrow> int \<Rightarrow> int \<Rightarrow> int" where
  "prorated fullCogs amount itemsGross = floor_fl (fl_over (fl_ratio (fullCogs * amount) 1) itemsGross)"

section \<open>One reversal\<close>

record reversal_tallies =
  rt_reversedRevenue :: tally_map
  rt_reversedQty :: tally_map
  rt_restocked :: tally_map
  rt_allocated :: bool
  rt_diagnostics :: "diagnostic list"

record reversal_context =
  rc_buckets :: "string allocation_bucket list"
  rc_quantities :: "string \<Rightarrow> int option"
  rc_cogsById :: "string \<Rightarrow> line_cogs option"
  rc_cogsLines :: "line_cogs list"

definition or_zero :: "int option \<Rightarrow> int" where
  "or_zero x = (case x of None \<Rightarrow> 0 | Some n \<Rightarrow> n)"

text \<open>The loop over the lines of a reversal; the accumulator is the tallies and \<open>unmatched\<close>.\<close>

definition reversal_line_step ::
  "reversal_context \<Rightarrow> string \<Rightarrow> reversal_tallies \<times> int \<Rightarrow> int canonical_reversal_line
   \<Rightarrow> reversal_tallies \<times> int" where
  "reversal_line_step ctx rid acc line =
     (let st = fst acc; unmatched = snd acc; i = rline_orderItemId line in
      if rt_reversedRevenue st i = None
      then (st\<lparr> rt_diagnostics := rt_diagnostics st @ [diagnostic REVERSAL_LINE_UNMATCHED (OnReversal rid)],
                rt_allocated := True \<rparr>, unmatched + rline_amountExVatMinor line)
      else
        let ordered = or_zero (rc_quantities ctx i);
            already = tally (rt_reversedQty st) i;
            creditable = max 0 (min (rline_quantity line) (ordered - already));
            st1 = st\<lparr> rt_reversedRevenue := (rt_reversedRevenue st)
                        (i \<mapsto> tally (rt_reversedRevenue st) i + rline_amountExVatMinor line),
                      rt_reversedQty := (rt_reversedQty st)(i \<mapsto> already + creditable) \<rparr>;
            st2 = (if rline_restockOutcome line \<in> UNKNOWN_RESTOCK
                   then st1\<lparr> rt_diagnostics := rt_diagnostics st1 @ [diagnostic RESTOCK_UNKNOWN (OnReversal rid)] \<rparr>
                   else st1);
            st3 = (if rline_restockOutcome line \<in> RECOVERS_COGS
                   then st2\<lparr> rt_restocked := (rt_restocked st2)
                          (i \<mapsto> tally (rt_restocked st2) i + unitCostOf (rc_cogsById ctx) i * creditable) \<rparr>
                   else st2)
        in (st3, unmatched))"

definition reversal_with_lines ::
  "reversal_context \<Rightarrow> int canonical_reversal \<Rightarrow> int \<Rightarrow> int canonical_reversal_line list
   \<Rightarrow> reversal_tallies \<Rightarrow> reversal_tallies outcome" where
  "reversal_with_lines ctx reversal orderLevel lines st =
     bindE (addMinor (map rline_amountExVatMinor lines)) (\<lambda>claimed.
     let st1 = (if claimed \<noteq> rev_amountExVatMinor reversal
                then st\<lparr> rt_diagnostics := rt_diagnostics st
                           @ [diagnostic REVERSAL_TOTAL_MISMATCH (OnReversal (rev_id reversal))],
                         rt_allocated := True \<rparr>
                else st);
         (st2, unmatched) = foldl (reversal_line_step ctx (rev_id reversal))
                              (st1, max 0 (rev_amountExVatMinor reversal - claimed)) lines
     in bindE (if unmatched \<noteq> 0
               then bindE (assertInRange unmatched) (\<lambda>u.
                    bindE (spread (rc_buckets ctx) u (rt_reversedRevenue st2)) (\<lambda>m.
                    Inr (st2\<lparr> rt_reversedRevenue := m \<rparr>)))
               else Inr st2) (\<lambda>st3.
        if orderLevel \<noteq> 0
        then bindE (spread (rc_buckets ctx) orderLevel (rt_reversedRevenue st3)) (\<lambda>m.
             Inr (st3\<lparr> rt_diagnostics := rt_diagnostics st3
                        @ [diagnostic REVERSAL_LINES_ALLOCATED (OnReversal (rev_id reversal))],
                      rt_allocated := True, rt_reversedRevenue := m \<rparr>))
        else Inr st3))"

definition reversal_without_lines ::
  "reversal_context \<Rightarrow> int canonical_reversal \<Rightarrow> int \<Rightarrow> reversal_tallies \<Rightarrow> reversal_tallies outcome" where
  "reversal_without_lines ctx reversal orderLevel st =
     (let st1 = st\<lparr> rt_allocated := True, rt_diagnostics := rt_diagnostics st
                  @ [diagnostic REVERSAL_LINES_ALLOCATED (OnReversal (rev_id reversal))]
                  @ (if rev_restockOutcome reversal \<in> UNKNOWN_RESTOCK
                     then [diagnostic RESTOCK_UNKNOWN (OnReversal (rev_id reversal))] else []) \<rparr>
      in bindE (addMinor [rev_amountExVatMinor reversal, orderLevel]) (\<lambda>tot.
         bindE (spread (rc_buckets ctx) tot (rt_reversedRevenue st1)) (\<lambda>m.
         let st2 = st1\<lparr> rt_reversedRevenue := m \<rparr> in
         if rev_restockOutcome reversal \<in> RECOVERS_COGS
         then bindE (addMinor (map bucket_weight (rc_buckets ctx))) (\<lambda>itemsGross.
              if rev_amountExVatMinor reversal > 0 \<and> itemsGross > 0
              then bindE (addMinor (map lcogs_cogsMinor (rc_cogsLines ctx))) (\<lambda>fullCogs.
                   bindE (assertInRange (prorated fullCogs (rev_amountExVatMinor reversal) itemsGross)) (\<lambda>share.
                   bindE (spreadCappedByCogs (rc_buckets ctx) share (rt_restocked st2) (rc_cogsById ctx)) (\<lambda>r.
                   Inr (st2\<lparr> rt_restocked := r \<rparr>))))
              else Inr st2)
         else Inr st2)))"

definition reversal_step ::
  "reversal_context \<Rightarrow> reversal_tallies \<Rightarrow> int canonical_reversal \<Rightarrow> reversal_tallies outcome" where
  "reversal_step ctx st reversal =
     bindE (addMinor [rev_shippingRefundExVatMinor reversal, rev_codFeeRefundExVatMinor reversal,
              rev_adjustmentExVatMinor reversal]) (\<lambda>orderLevel.
     case rev_lines reversal of
       Some lines \<Rightarrow> reversal_with_lines ctx reversal orderLevel lines st
     | None \<Rightarrow> reversal_without_lines ctx reversal orderLevel st)"

section \<open>The whole\<close>

definition empty_impact :: "line_revenue list \<Rightarrow> reversal_impact" where
  "empty_impact revenueLines =
     \<lparr> ri_lines = map (\<lambda>l. \<lparr> lvr_orderItemId = lrev_orderItemId l, lvr_reversedQuantity = 0,
          lvr_reversedRevenueExVatMinor = 0, lvr_restockedCogsMinor = 0, lvr_impactMinor = 0 \<rparr>) revenueLines,
       ri_reversedRevenueExVatMinor = 0, ri_restockedCogsMinor = 0, ri_impactMinor = 0,
       ri_allocated = False, ri_inferredRestock = False \<rparr>"

definition creditWholeOrder ::
  "line_revenue list \<Rightarrow> (string \<Rightarrow> line_cogs option) \<Rightarrow> (string \<Rightarrow> int option) \<Rightarrow> reversal_impact outcome" where
  "creditWholeOrder revenueLines cogsById quantities =
     (let lines = map (\<lambda>line.
            let cogsBack = costOf cogsById (lrev_orderItemId line)
            in \<lparr> lvr_orderItemId = lrev_orderItemId line,
                 lvr_reversedQuantity = or_zero (quantities (lrev_orderItemId line)),
                 lvr_reversedRevenueExVatMinor = 0, lvr_restockedCogsMinor = cogsBack,
                 lvr_impactMinor = cogsBack \<rparr>) revenueLines
      in bindE (addMinor (map lvr_restockedCogsMinor lines)) (\<lambda>restocked.
         bindE (addMinor (map lvr_impactMinor lines)) (\<lambda>impact.
         Inr \<lparr> ri_lines = lines, ri_reversedRevenueExVatMinor = 0, ri_restockedCogsMinor = restocked,
               ri_impactMinor = impact, ri_allocated = False, ri_inferredRestock = True \<rparr>)))"

definition reversal_line_result ::
  "reversal_context \<Rightarrow> profit_recognition \<Rightarrow> reversal_tallies \<Rightarrow> line_revenue \<Rightarrow> line_reversal outcome" where
  "reversal_line_result ctx recognition st line =
     (let i = lrev_orderItemId line;
          ordered = or_zero (rc_quantities ctx i);
          lineCogs = costOf (rc_cogsById ctx) i
      in bindE (if recognition = Recognized then assertInRange (tally (rt_reversedRevenue st) i) else Inr 0) (\<lambda>revenue.
         bindE (assertInRange (max 0 (min (tally (rt_restocked st) i) lineCogs))) (\<lambda>cogsBack.
         bindE (negateMinor revenue) (\<lambda>neg.
         bindE (addMinor [neg, cogsBack]) (\<lambda>impact.
         Inr \<lparr> lvr_orderItemId = i, lvr_reversedQuantity = min (tally (rt_reversedQty st) i) ordered,
               lvr_reversedRevenueExVatMinor = revenue, lvr_restockedCogsMinor = cogsBack,
               lvr_impactMinor = impact \<rparr>)))))"

fun is_undispatched_reason :: "profit_recognition \<Rightarrow> bool" where
  "is_undispatched_reason (CostOnly CO_cancelled_after_capture) = True"
| "is_undispatched_reason (CostOnly CO_cancelled_after_dispatch) = True"
| "is_undispatched_reason (CostOnly CO_payment_not_settled) = True"
| "is_undispatched_reason _ = False"

definition zero_tally :: "line_revenue list \<Rightarrow> tally_map" where
  "zero_tally revenueLines = js_map (map (\<lambda>l. (lrev_orderItemId l, 0)) revenueLines)"

definition initial_tallies :: "line_revenue list \<Rightarrow> reversal_tallies" where
  "initial_tallies revenueLines =
     \<lparr> rt_reversedRevenue = zero_tally revenueLines, rt_reversedQty = zero_tally revenueLines,
       rt_restocked = zero_tally revenueLines, rt_allocated = False, rt_diagnostics = [] \<rparr>"

definition reversal_context_of ::
  "line_revenue list \<Rightarrow> line_cogs list \<Rightarrow> (string \<Rightarrow> int option) \<Rightarrow> (string \<Rightarrow> int option) \<Rightarrow> reversal_context" where
  "reversal_context_of revenueLines cogsLines quantities weights =
     \<lparr> rc_buckets = map (\<lambda>l. \<lparr> bucket_key = lrev_orderItemId l,
                                bucket_weight = or_zero (weights (lrev_orderItemId l)) \<rparr>) revenueLines,
       rc_quantities = quantities, rc_cogsById = js_map (map (\<lambda>l. (lcogs_orderItemId l, l)) cogsLines),
       rc_cogsLines = cogsLines \<rparr>"

definition computeReversalImpact ::
  "int canonical_reversal list \<Rightarrow> line_revenue list \<Rightarrow> line_cogs list \<Rightarrow> (string \<Rightarrow> int option)
   \<Rightarrow> (string \<Rightarrow> int option) \<Rightarrow> profit_recognition \<Rightarrow> int canonical_shipment list \<Rightarrow> bool
   \<Rightarrow> reversal_impact computed outcome" where
  "computeReversalImpact reversals revenueLines cogsLines quantities weights recognition shipments dispatched =
     (let rtoRecovery = (recognition = CostOnly CO_rto_uncollected);
          undispatchedRecovery = (is_undispatched_reason recognition \<and> \<not> dispatched);
          ctx = reversal_context_of revenueLines cogsLines quantities weights
      in if undispatchedRecovery
         then bindE (creditWholeOrder revenueLines (rc_cogsById ctx) quantities) (\<lambda>v. Inr (v, []))
         else if rtoRecovery
         then (if \<not> rtoGoodsRecovered shipments
               then Inr (empty_impact revenueLines, [onOrder RESTOCK_UNKNOWN])
               else bindE (creditWholeOrder revenueLines (rc_cogsById ctx) quantities) (\<lambda>v. Inr (v, [])))
         else if reversals = [] then Inr (empty_impact revenueLines, [])
         else
           bindE (foldE (reversal_step ctx) (initial_tallies revenueLines) reversals) (\<lambda>st.
           bindE (mapE (reversal_line_result ctx recognition st) revenueLines) (\<lambda>lines.
           bindE (addMinor (map lvr_reversedRevenueExVatMinor lines)) (\<lambda>revenue.
           bindE (addMinor (map lvr_restockedCogsMinor lines)) (\<lambda>restocked.
           bindE (addMinor (map lvr_impactMinor lines)) (\<lambda>impact.
           Inr (\<lparr> ri_lines = lines, ri_reversedRevenueExVatMinor = revenue, ri_restockedCogsMinor = restocked,
                  ri_impactMinor = impact, ri_allocated = rt_allocated st, ri_inferredRestock = False \<rparr>,
                rt_diagnostics st)))))))"

section \<open>Nothing is lost in spreading\<close>

definition tsum :: "string list \<Rightarrow> tally_map \<Rightarrow> int" where
  "tsum ks m = (\<Sum>k\<leftarrow>ks. tally m k)"

lemma tally_upd [simp]: "tally (m(i \<mapsto> v)) i = v" "j \<noteq> i \<Longrightarrow> tally (m(i \<mapsto> v)) j = tally m j"
  by (simp_all add: tally_def)

lemma tsum_upd: "distinct ks \<Longrightarrow> i \<in> set ks \<Longrightarrow> tsum ks (m(i \<mapsto> v)) = tsum ks m + (v - tally m i)"
  unfolding tsum_def by (subst sum_list_update [where k = i and f = "tally m"]) simp_all

lemma add_share_tsum:
  "distinct ks \<Longrightarrow> fst s \<in> set ks \<Longrightarrow> tsum ks (add_share m s) = tsum ks m + snd s"
  unfolding add_share_def by (subst tsum_upd) simp_all

lemma add_shares_tsum:
  assumes "distinct ks" and "set (map fst shares) \<subseteq> set ks"
  shows "tsum ks (foldl add_share m shares) = tsum ks m + sum_list (map snd shares)"
  using assms(2)
proof (induction shares arbitrary: m)
  case Nil
  then show ?case by simp
next
  case (Cons s shares)
  then show ?case using add_share_tsum [OF assms(1), of s m] by simp
qed

lemma add_shares_dom: "dom (foldl add_share m shares) = dom m \<union> set (map fst shares)"
  by (induction shares arbitrary: m) (auto simp: add_share_def)

lemma spread_tsum:
  assumes "spread buckets t m = Inr m'" and "distinct (map bucket_key buckets)"
    and "dom m = set (map bucket_key buckets)"
  shows "buckets \<noteq> [] \<Longrightarrow>
      tsum (map bucket_key buckets) m' = tsum (map bucket_key buckets) m + t" and "dom m' = dom m"
proof -
  have "(buckets \<noteq> [] \<longrightarrow> tsum (map bucket_key buckets) m' = tsum (map bucket_key buckets) m + t) \<and> dom m' = dom m"
  proof (cases "t = 0 \<or> buckets = []")
    case True
    then show ?thesis using assms(1) by (auto simp: spread_def)
  next
    case False
    then obtain shares where s: "allocateMinor t buckets = Inr shares" and m': "m' = foldl add_share m shares"
      using assms(1) by (auto simp: spread_def bindE_eq_Inr)
    have k: "map fst shares = map bucket_key buckets" and t: "sum_list (map snd shares) = t"
      using allocateMinor_Inr(2,3) [OF s] by simp_all
    show ?thesis
      using add_shares_tsum [OF assms(2), of shares m] k t assms(3) unfolding m' add_shares_dom by simp
  qed
  then show "buckets \<noteq> [] \<Longrightarrow> tsum (map bucket_key buckets) m' = tsum (map bucket_key buckets) m + t"
    and "dom m' = dom m" by simp_all
qed

section \<open>The capped spread\<close>

lemma fold_take_tsum:
  assumes "distinct ks" and "set (map fst shares) \<subseteq> set ks"
  shows "tsum ks (fst (foldl (take_share cost) st shares)) - snd (foldl (take_share cost) st shares)
     = tsum ks (fst st) - snd st"
  using assms(2)
proof (induction shares arbitrary: st)
  case Nil
  then show ?case by simp
next
  case (Cons s shares)
  have "tsum ks (fst (take_share cost st s)) - snd (take_share cost st s) = tsum ks (fst st) - snd st"
    using Cons.prems assms(1) by (simp add: take_share_def Let_def tsum_upd)
  then show ?case using Cons by simp
qed

lemma fold_take_le:
  assumes "\<And>s. s \<in> set shares \<Longrightarrow> 0 \<le> snd s"
  shows "snd (foldl (take_share cost) st shares) \<le> snd st + sum_list (map snd shares)"
  using assms
proof (induction shares arbitrary: st)
  case Nil
  then show ?case by simp
next
  case (Cons s shares)
  have "snd (take_share cost st s) \<le> snd st + snd s"
    using Cons.prems [of s] by (auto simp: take_share_def Let_def)
  then show ?case using Cons.IH [of "take_share cost st s"] Cons.prems by simp
qed

lemma fold_take_capped:
  assumes "tally (fst st) i \<le> cost i"
  shows "tally (fst (foldl (take_share cost) st shares)) i \<le> cost i"
  using assms
proof (induction shares arbitrary: st)
  case Nil
  then show ?case by simp
next
  case (Cons s shares)
  have "tally (fst (take_share cost st s)) i \<le> cost i"
    using Cons.prems by (cases "fst s = i") (auto simp: take_share_def Let_def)
  then show ?case using Cons.IH by simp
qed

lemma fold_take_mono: "tally (fst st) i \<le> tally (fst (foldl (take_share cost) st shares)) i"
proof (induction shares arbitrary: st)
  case Nil
  then show ?case by simp
next
  case (Cons s shares)
  have "tally (fst st) i \<le> tally (fst (take_share cost st s)) i"
    by (cases "fst s = i") (auto simp: take_share_def Let_def)
  then show ?case using Cons.IH [of "take_share cost st s"] by simp
qed

lemma fold_take_stuck:
  assumes "snd (foldl (take_share cost) st shares) = snd st" and "s \<in> set shares"
  shows "snd s \<le> 0 \<or> cost (fst s) \<le> tally (fst st) (fst s)"
  using assms
proof (induction shares arbitrary: st)
  case Nil
  then show ?case by simp
next
  case (Cons a shares)
  have le: "snd st \<le> snd (take_share cost st a)"
    "snd (take_share cost st a) \<le> snd (foldl (take_share cost) (take_share cost st a) shares)"
    by (rule take_share_absorbed, rule fold_take_absorbed)
  then have eq: "snd (take_share cost st a) = snd st" using Cons.prems(1) by simp
  then have same: "take_share cost st a = st"
    by (cases st) (auto simp: take_share_def Let_def split: if_splits)
  have "snd a \<le> 0 \<or> cost (fst a) \<le> tally (fst st) (fst a)"
    using eq by (auto simp: take_share_def Let_def min_def max_def split: if_splits)
  then show ?case
    using Cons.IH [of st] Cons.prems same by auto
qed

text \<open>
  The contract of the capped spread when every open line still has headroom: as much is placed as
  there is to place or as there is room for, and no line exceeds its cost.
\<close>

definition room :: "(string \<Rightarrow> int) \<Rightarrow> tally_map \<Rightarrow> string allocation_bucket list \<Rightarrow> int" where
  "room cost m bs = (\<Sum>b\<leftarrow>bs. cost (bucket_key b) - tally m (bucket_key b))"

lemma room_tsum: "room cost m bs = (\<Sum>b\<leftarrow>bs. cost (bucket_key b)) - tsum (map bucket_key bs) m"
  by (simp add: room_def tsum_def sum_list_diff comp_def)

lemma room_filter:
  assumes "\<And>b. b \<in> set bs \<Longrightarrow> tally m (bucket_key b) \<le> cost (bucket_key b)"
  shows "room cost m (filter (\<lambda>b. cost (bucket_key b) - tally m (bucket_key b) > 0) bs) = room cost m bs"
  using assms by (induction bs) (auto simp: room_def not_less intro: order.antisym)

lemma capped_round_facts:
  assumes "capped_round cost remaining bs m = Inr (m', a)" and "0 < remaining"
    and "distinct ks" and "set (map bucket_key bs) \<subseteq> set ks" and "bs \<noteq> []"
  shows "tsum ks m' = tsum ks m + a" and "room cost m' bs = room cost m bs - a"
    and "0 \<le> a" and "a \<le> remaining"
    and "\<And>i. tally m i \<le> cost i \<Longrightarrow> tally m' i \<le> cost i" and "\<And>i. tally m i \<le> tally m' i"
    and "(\<And>b. b \<in> set bs \<Longrightarrow> tally m (bucket_key b) < cost (bucket_key b)) \<Longrightarrow> a \<noteq> 0"
proof -
  obtain shares where s: "allocateMinor remaining bs = Inr shares"
    and f: "foldl (take_share cost) (m, 0) shares = (m', a)"
    using assms(1) by (auto simp: capped_round_def bindE_eq_Inr assertInRange_eq_Inr)
  have k: "map fst shares = map bucket_key bs" and t: "sum_list (map snd shares) = remaining"
    and d: "distinct (map bucket_key bs)"
    using allocateMinor_Inr [OF s] by simp_all
  have nn: "0 \<le> snd x" if "x \<in> set shares" for x
    using largest_remainder.alloc_sign [OF s that] assms(2) by simp
  show "tsum ks m' = tsum ks m + a"
    using fold_take_tsum [OF assms(3), of shares cost "(m, 0)"] assms(4) f by (simp add: k [symmetric])
  have "tsum (map bucket_key bs) m' = tsum (map bucket_key bs) m + a"
    using fold_take_tsum [OF d, of shares cost "(m, 0)"] f k by simp
  then show "room cost m' bs = room cost m bs - a" by (simp add: room_tsum)
  show "0 \<le> a" using capped_round_absorbed [OF assms(1)] .
  show "a \<le> remaining" using fold_take_le [of shares cost "(m, 0)"] nn f t by simp
  show "tally m' i \<le> cost i" if "tally m i \<le> cost i" for i
    using fold_take_capped [of "(m, 0)" i cost shares] that f by simp
  show "tally m i \<le> tally m' i" for i
    using fold_take_mono [of "(m, 0)" i cost shares] f by simp
  show "a \<noteq> 0" if head: "\<And>b. b \<in> set bs \<Longrightarrow> tally m (bucket_key b) < cost (bucket_key b)"
  proof
    assume "a = 0"
    have "snd x \<le> 0" if x: "x \<in> set shares" for x
    proof -
      have "fst x \<in> set (map bucket_key bs)" using x k by (metis image_eqI list.set_map)
      then have "tally m (fst x) < cost (fst x)" using head by auto
      then show ?thesis using fold_take_stuck [of cost "(m, 0)" shares x] x f \<open>a = 0\<close> by auto
    qed
    then have "sum_list (map snd shares) \<le> (\<Sum>x\<leftarrow>shares. 0)" by (intro sum_list_mono_le) simp
    then show False using t assms(2) by simp
  qed
qed

lemma capped_loop_places:
  assumes "capped_loop cost remaining bs m = Inr m'" and "0 \<le> remaining"
    and "distinct ks" and "set (map bucket_key bs) \<subseteq> set ks"
    and "\<And>b. b \<in> set bs \<Longrightarrow> tally m (bucket_key b) < cost (bucket_key b)"
  shows "tsum ks m' = tsum ks m + min remaining (room cost m bs)"
  using assms(1,2,4,5)
proof (induction cost remaining bs m rule: capped_loop.induct)
  case (1 cost remaining bs m)
  have room_nn: "0 \<le> room cost m bs"
    unfolding room_def using "1.prems"(4) by (intro sum_list_nonneg_int) (simp add: less_imp_le)
  show ?case
  proof (cases "remaining > 0 \<and> length bs > 0")
    case False
    then have "m' = m" using "1.prems"(1) by (simp add: capped_loop.simps split: if_splits)
    moreover have "min remaining (room cost m bs) = 0"
      using False "1.prems"(2) room_nn by (auto simp: room_def)
    ultimately show ?thesis by simp
  next
    case go: True
    show ?thesis
    proof (cases "capped_round cost remaining bs m")
      case (Inl e)
      then show ?thesis using "1.prems"(1) go by (simp add: capped_loop.simps)
    next
      case (Inr res)
      obtain m1 a where res: "res = (m1, a)" by (cases res)
      note round = Inr [unfolded res]
      note facts = capped_round_facts [OF round conjunct1 [OF go] assms(3) "1.prems"(3)]
      have ne: "bs \<noteq> []" using go by auto
      have a0: "a \<noteq> 0" using facts(7) [OF ne] "1.prems"(4) by blast
      let ?bs = "filter (\<lambda>b. cost (bucket_key b) - tally m1 (bucket_key b) > 0) bs"
      have rec: "capped_loop cost (remaining - a) ?bs m1 = Inr m'"
        using "1.prems"(1) go round a0 by (subst (asm) capped_loop.simps) simp
      have le: "tally m1 (bucket_key b) \<le> cost (bucket_key b)" if "b \<in> set bs" for b
        using facts(5) [OF ne] "1.prems"(4) [OF that] by (simp add: less_imp_le)
      have ih: "tsum ks m' = tsum ks m1 + min (remaining - a) (room cost m1 ?bs)"
        by (rule "1.IH" [OF go round refl a0 rec])
          (use facts(4) [OF ne] "1.prems"(3) in auto)
      have rm: "room cost m1 ?bs = room cost m bs - a"
        using room_filter [of bs m1 cost] le facts(2) [OF ne] by simp
      show ?thesis using ih facts(1) [OF ne] unfolding rm by simp
    qed
  qed
qed

text \<open>The loop runs to its end for every amount in range: no residual ever leaves the range.\<close>

lemma capped_loop_total:
  assumes "in_range remaining" and "distinct (map bucket_key bs)"
  shows "\<exists>m'. capped_loop cost remaining bs m = Inr m'"
  using assms
proof (induction cost remaining bs m rule: capped_loop.induct)
  case (1 cost remaining bs m)
  show ?case
  proof (cases "remaining > 0 \<and> length bs > 0")
    case False
    then show ?thesis by (auto simp: capped_loop.simps)
  next
    case go: True
    then have ne: "bs \<noteq> []" by auto
    obtain shares where "allocateMinor remaining bs = Inr shares"
      using allocateMinor_total [OF ne "1.prems"(2,1)] by blast
    moreover have "assertInRange remaining = Inr remaining"
      using "1.prems"(1) by (simp add: assertInRange_eq_Inr)
    moreover obtain m1 a where "foldl (take_share cost) (m, 0) shares = (m1, a)"
      by (cases "foldl (take_share cost) (m, 0) shares")
    ultimately have round: "capped_round cost remaining bs m = Inr (m1, a)"
      by (simp add: capped_round_def)
    show ?thesis
    proof (cases "a = 0")
      case True
      then show ?thesis using go round by (subst capped_loop.simps) simp
    next
      case a0: False
      note facts = capped_round_facts [OF round conjunct1 [OF go] "1.prems"(2) order_refl ne]
      have "in_range (remaining - a)"
        using "1.prems"(1) facts(3,4) go by (auto simp: in_range_iff)
      then show ?thesis
        using "1.IH" [OF go round refl a0] "1.prems"(2) go round a0
        by (subst capped_loop.simps) (simp add: distinct_map_filter)
    qed
  qed
qed

text \<open>It never takes a line over its own cost, and never takes anything away from one.\<close>

lemma capped_round_capped:
  assumes "capped_round cost remaining bs m = Inr (m', a)"
  shows "tally m i \<le> tally m' i" and "tally m i \<le> cost i \<Longrightarrow> tally m' i \<le> cost i"
proof -
  obtain shares where "foldl (take_share cost) (m, 0) shares = (m', a)"
    using assms by (auto simp: capped_round_def bindE_eq_Inr)
  then show "tally m i \<le> tally m' i" and "tally m i \<le> cost i \<Longrightarrow> tally m' i \<le> cost i"
    using fold_take_mono [of "(m, 0)" i cost shares] fold_take_capped [of "(m, 0)" i cost shares] by auto
qed

lemma capped_loop_capped:
  assumes "capped_loop cost remaining bs m = Inr m'" and "tally m i \<le> cost i"
  shows "tally m i \<le> tally m' i \<and> tally m' i \<le> cost i"
  using assms
proof (induction cost remaining bs m rule: capped_loop.induct)
  case (1 cost remaining bs m)
  show ?case
  proof (cases "remaining > 0 \<and> length bs > 0")
    case False
    then show ?thesis using "1.prems" by (simp add: capped_loop.simps split: if_splits)
  next
    case go: True
    then obtain m1 a where round: "capped_round cost remaining bs m = Inr (m1, a)"
      using "1.prems"(1) by (auto simp: capped_loop.simps split: sum.splits)
    note facts = capped_round_capped [OF round, of i]
    show ?thesis
    proof (cases "a = 0")
      case True
      then show ?thesis using "1.prems" go round facts by (subst (asm) capped_loop.simps) simp
    next
      case a0: False
      then have "capped_loop cost (remaining - a)
          (filter (\<lambda>b. cost (bucket_key b) - tally m1 (bucket_key b) > 0) bs) m1 = Inr m'"
        using "1.prems"(1) go round by (subst (asm) capped_loop.simps) simp
      from "1.IH" [OF go round refl a0 this] show ?thesis using facts "1.prems"(2) by simp
    qed
  qed
qed

end
