(* ===== verification/ReversalBooks.thy ===== *)
theory ReversalBooks
  imports Reversal
begin

text \<open>
  What the tallies of \<open>Reversal\<close> add up to: every reversal is booked in full on the lines, no
  line returns more goods than it sold or more cost than it had, and the totals of the impact are
  the sums of its lines.
\<close>

section \<open>The books of the tallies\<close>

text \<open>
  What one reversal takes back from the order: its own amount or what its lines claim, whichever is
  larger, and the components that belong to no line.
\<close>

definition orderLevelOf :: "int canonical_reversal \<Rightarrow> int" where
  "orderLevelOf r = rev_shippingRefundExVatMinor r + rev_codFeeRefundExVatMinor r + rev_adjustmentExVatMinor r"

definition takenBack :: "int canonical_reversal \<Rightarrow> int" where
  "takenBack r =
     (case rev_lines r of
        None \<Rightarrow> rev_amountExVatMinor r
      | Some ls \<Rightarrow> max (rev_amountExVatMinor r) (\<Sum>l\<leftarrow>ls. rline_amountExVatMinor l)) + orderLevelOf r"

definition ctx_keys :: "reversal_context \<Rightarrow> string list" where
  "ctx_keys ctx = map bucket_key (rc_buckets ctx)"

text \<open>The invariant of the loop over the reversals.\<close>

definition tallies_ok :: "reversal_context \<Rightarrow> reversal_tallies \<Rightarrow> bool" where
  "tallies_ok ctx st \<longleftrightarrow> dom (rt_reversedRevenue st) = set (ctx_keys ctx) \<and> all_warnings (rt_diagnostics st)
     \<and> (\<forall>i. 0 \<le> tally (rt_reversedQty st) i
         \<and> (tally (rt_reversedQty st) i = 0 \<or> tally (rt_reversedQty st) i \<le> or_zero (rc_quantities ctx i)))"

lemma reversal_line_step_ok:
  assumes "tallies_ok ctx (fst acc)"
  shows "tallies_ok ctx (fst (reversal_line_step ctx rid acc line))"
proof (cases "rt_reversedRevenue (fst acc) (rline_orderItemId line) = None")
  case True
  then show ?thesis using assms by (simp add: reversal_line_step_def Let_def tallies_ok_def)
next
  case False
  let ?i = "rline_orderItemId line" and ?st = "fst (reversal_line_step ctx rid acc line)"
  let ?already = "tally (rt_reversedQty (fst acc)) ?i"
  let ?creditable = "max 0 (min (rline_quantity line) (or_zero (rc_quantities ctx ?i) - ?already))"
  have rev: "rt_reversedRevenue ?st = (rt_reversedRevenue (fst acc))
        (?i \<mapsto> tally (rt_reversedRevenue (fst acc)) ?i + rline_amountExVatMinor line)"
    and qty: "rt_reversedQty ?st = (rt_reversedQty (fst acc))(?i \<mapsto> ?already + ?creditable)"
    using False by (auto simp: reversal_line_step_def Let_def)
  have diags: "all_warnings (rt_diagnostics ?st)"
    using False assms by (auto simp: reversal_line_step_def Let_def tallies_ok_def)
  have "0 \<le> tally (rt_reversedQty ?st) j \<and>
      (tally (rt_reversedQty ?st) j = 0 \<or> tally (rt_reversedQty ?st) j \<le> or_zero (rc_quantities ctx j))" for j
  proof (cases "j = ?i")
    case True
    have "0 \<le> ?already" "?already = 0 \<or> ?already \<le> or_zero (rc_quantities ctx ?i)"
      using assms by (auto simp: tallies_ok_def)
    then show ?thesis unfolding qty True by (auto simp: max_def min_def)
  next
    case False
    then show ?thesis using assms unfolding qty by (simp add: tallies_ok_def)
  qed
  moreover have "dom (rt_reversedRevenue ?st) = set (ctx_keys ctx)"
    using assms False unfolding rev by (auto simp: tallies_ok_def)
  ultimately show ?thesis using diags by (simp add: tallies_ok_def)
qed

lemma reversal_line_step_sum:
  assumes "distinct (ctx_keys ctx)" and "tallies_ok ctx (fst acc)"
  shows "tsum (ctx_keys ctx) (rt_reversedRevenue (fst (reversal_line_step ctx rid acc line)))
       + snd (reversal_line_step ctx rid acc line)
     = tsum (ctx_keys ctx) (rt_reversedRevenue (fst acc)) + snd acc + rline_amountExVatMinor line"
proof (cases "rt_reversedRevenue (fst acc) (rline_orderItemId line) = None")
  case True
  then show ?thesis by (simp add: reversal_line_step_def Let_def)
next
  case False
  then have "rline_orderItemId line \<in> set (ctx_keys ctx)"
    using assms(2) unfolding tallies_ok_def by blast
  then show ?thesis
    using False assms(1) by (simp add: reversal_line_step_def Let_def tsum_upd)
qed

lemma reversal_lines_fold:
  assumes "distinct (ctx_keys ctx)" and "tallies_ok ctx (fst acc)"
  shows "tallies_ok ctx (fst (foldl (reversal_line_step ctx rid) acc lines))"
    and "tsum (ctx_keys ctx) (rt_reversedRevenue (fst (foldl (reversal_line_step ctx rid) acc lines)))
       + snd (foldl (reversal_line_step ctx rid) acc lines)
     = tsum (ctx_keys ctx) (rt_reversedRevenue (fst acc)) + snd acc + (\<Sum>l\<leftarrow>lines. rline_amountExVatMinor l)"
proof -
  show "tallies_ok ctx (fst (foldl (reversal_line_step ctx rid) acc lines))"
    using assms(2)
  proof (induction lines arbitrary: acc)
    case Nil
    then show ?case by simp
  next
    case (Cons l lines)
    then show ?case using reversal_line_step_ok [OF Cons.prems, of rid l] by simp
  qed
  show "tsum (ctx_keys ctx) (rt_reversedRevenue (fst (foldl (reversal_line_step ctx rid) acc lines)))
       + snd (foldl (reversal_line_step ctx rid) acc lines)
     = tsum (ctx_keys ctx) (rt_reversedRevenue (fst acc)) + snd acc + (\<Sum>l\<leftarrow>lines. rline_amountExVatMinor l)"
    using assms(2)
  proof (induction lines arbitrary: acc)
    case Nil
    then show ?case by simp
  next
    case (Cons l lines)
    then show ?case
      using reversal_line_step_sum [OF assms(1) Cons.prems, of rid l]
        Cons.IH [OF reversal_line_step_ok [OF Cons.prems], of rid l] by simp
  qed
qed

lemma spread_step:
  assumes "spread (rc_buckets ctx) t (rt_reversedRevenue st) = Inr m" and "tallies_ok ctx st"
    and "distinct (ctx_keys ctx)"
  shows "rc_buckets ctx \<noteq> [] \<Longrightarrow> tsum (ctx_keys ctx) m = tsum (ctx_keys ctx) (rt_reversedRevenue st) + t"
    and "tallies_ok ctx (st\<lparr> rt_reversedRevenue := m \<rparr>)"
  using spread_tsum [OF assms(1)] assms(2,3) by (simp_all add: ctx_keys_def tallies_ok_def)

lemma reversal_with_lines_books:
  assumes "reversal_with_lines ctx r orderLevel lines st = Inr st'" and "tallies_ok ctx st"
    and "distinct (ctx_keys ctx)"
  shows "tallies_ok ctx st' \<and> (rc_buckets ctx \<noteq> [] \<longrightarrow> tsum (ctx_keys ctx) (rt_reversedRevenue st')
     = tsum (ctx_keys ctx) (rt_reversedRevenue st)
       + max (rev_amountExVatMinor r) (\<Sum>l\<leftarrow>lines. rline_amountExVatMinor l) + orderLevel)"
proof -
  define claimed where "claimed = (\<Sum>l\<leftarrow>lines. rline_amountExVatMinor l)"
  define st1 where "st1 = (if claimed \<noteq> rev_amountExVatMinor r
      then st\<lparr> rt_diagnostics := rt_diagnostics st @ [diagnostic REVERSAL_TOTAL_MISMATCH (OnReversal (rev_id r))],
              rt_allocated := True \<rparr> else st)"
  obtain st2 u where f: "foldl (reversal_line_step ctx (rev_id r)) (st1, max 0 (rev_amountExVatMinor r - claimed)) lines
      = (st2, u)" by fastforce
  have ok1: "tallies_ok ctx st1" using assms(2) by (simp add: st1_def tallies_ok_def)
  have ok2: "tallies_ok ctx st2"
    and sum2: "tsum (ctx_keys ctx) (rt_reversedRevenue st2) + u
      = tsum (ctx_keys ctx) (rt_reversedRevenue st) + max 0 (rev_amountExVatMinor r - claimed) + claimed"
    using reversal_lines_fold [OF assms(3), of "(st1, max 0 (rev_amountExVatMinor r - claimed))" "rev_id r" lines]
      ok1 f by (simp_all add: claimed_def) (simp add: st1_def)
  have "addMinor (map rline_amountExVatMinor lines) = Inr claimed"
    using assms(1) by (auto simp: reversal_with_lines_def bindE_eq_Inr claimed_def dest: addMinor_sum)
  then have step: "bindE (if u \<noteq> 0
               then bindE (assertInRange u) (\<lambda>u.
                    bindE (spread (rc_buckets ctx) u (rt_reversedRevenue st2)) (\<lambda>m.
                    Inr (st2\<lparr> rt_reversedRevenue := m \<rparr>)))
               else Inr st2) (\<lambda>st3.
        if orderLevel \<noteq> 0
        then bindE (spread (rc_buckets ctx) orderLevel (rt_reversedRevenue st3)) (\<lambda>m.
             Inr (st3\<lparr> rt_diagnostics := rt_diagnostics st3
                        @ [diagnostic REVERSAL_LINES_ALLOCATED (OnReversal (rev_id r))],
                      rt_allocated := True, rt_reversedRevenue := m \<rparr>))
        else Inr st3) = Inr st'"
    using assms(1) f unfolding reversal_with_lines_def st1_def by (simp add: Let_def)
  from iffD1 [OF bindE_eq_Inr step] obtain st3
    where part: "(if u \<noteq> 0
               then bindE (assertInRange u) (\<lambda>u.
                    bindE (spread (rc_buckets ctx) u (rt_reversedRevenue st2)) (\<lambda>m.
                    Inr (st2\<lparr> rt_reversedRevenue := m \<rparr>)))
               else Inr st2) = Inr st3"
    and rest: "(if orderLevel \<noteq> 0
        then bindE (spread (rc_buckets ctx) orderLevel (rt_reversedRevenue st3)) (\<lambda>m.
             Inr (st3\<lparr> rt_diagnostics := rt_diagnostics st3
                        @ [diagnostic REVERSAL_LINES_ALLOCATED (OnReversal (rev_id r))],
                      rt_allocated := True, rt_reversedRevenue := m \<rparr>))
        else Inr st3) = Inr st'" by blast
  have ok3: "tallies_ok ctx st3"
    and sum3: "rc_buckets ctx \<noteq> [] \<Longrightarrow> tsum (ctx_keys ctx) (rt_reversedRevenue st3) = tsum (ctx_keys ctx) (rt_reversedRevenue st2) + u"
    using part ok2 spread_step [OF _ ok2 assms(3)]
    by (auto simp: bindE_eq_Inr assertInRange_eq_Inr split: if_splits)
  have "tallies_ok ctx st' \<and> (rc_buckets ctx \<noteq> [] \<longrightarrow> tsum (ctx_keys ctx) (rt_reversedRevenue st')
      = tsum (ctx_keys ctx) (rt_reversedRevenue st3) + orderLevel)"
  proof (cases "orderLevel = 0")
    case True
    then show ?thesis using rest ok3 by simp
  next
    case False
    then obtain m where m: "spread (rc_buckets ctx) orderLevel (rt_reversedRevenue st3) = Inr m"
      and st': "rt_reversedRevenue st' = m" "rt_reversedQty st' = rt_reversedQty st3"
        "rt_diagnostics st' = rt_diagnostics st3 @ [diagnostic REVERSAL_LINES_ALLOCATED (OnReversal (rev_id r))]"
      using rest by (auto simp: bindE_eq_Inr)
    show ?thesis
      using spread_step [OF m ok3 assms(3)] by (simp add: st' tallies_ok_def)
  qed
  then show ?thesis using sum3 sum2 by (simp add: claimed_def max_def split: if_splits)
qed

lemma reversal_without_lines_books:
  assumes "reversal_without_lines ctx r orderLevel st = Inr st'" and "tallies_ok ctx st"
    and "distinct (ctx_keys ctx)"
  shows "tallies_ok ctx st' \<and> (rc_buckets ctx \<noteq> [] \<longrightarrow> tsum (ctx_keys ctx) (rt_reversedRevenue st')
     = tsum (ctx_keys ctx) (rt_reversedRevenue st) + rev_amountExVatMinor r + orderLevel)"
proof -
  define st1 where "st1 = st\<lparr> rt_allocated := True, rt_diagnostics := rt_diagnostics st
                  @ [diagnostic REVERSAL_LINES_ALLOCATED (OnReversal (rev_id r))]
                  @ (if rev_restockOutcome r \<in> UNKNOWN_RESTOCK
                     then [diagnostic RESTOCK_UNKNOWN (OnReversal (rev_id r))] else []) \<rparr>"
  have ok1: "tallies_ok ctx st1" using assms(2) by (simp add: st1_def tallies_ok_def)
  obtain m where m: "spread (rc_buckets ctx) (rev_amountExVatMinor r + orderLevel) (rt_reversedRevenue st1) = Inr m"
    and st': "rt_reversedRevenue st' = m" "rt_reversedQty st' = rt_reversedQty st1"
      "rt_diagnostics st' = rt_diagnostics st1"
    using assms(1) unfolding reversal_without_lines_def st1_def [symmetric] Let_def
    by (auto simp: bindE_eq_Inr split: if_splits dest!: addMinor_sum)
  note sp = spread_step [OF m ok1 assms(3)]
  have "tallies_ok ctx st' \<and> rt_reversedRevenue st' = m"
    using st' sp(2) by (simp add: tallies_ok_def)
  then show ?thesis using sp(1) by (simp add: st1_def)
qed

lemma reversal_step_books:
  assumes "reversal_step ctx st r = Inr st'" and "tallies_ok ctx st"
    and "distinct (ctx_keys ctx)"
  shows "tallies_ok ctx st' \<and> (rc_buckets ctx \<noteq> [] \<longrightarrow> tsum (ctx_keys ctx) (rt_reversedRevenue st')
     = tsum (ctx_keys ctx) (rt_reversedRevenue st) + takenBack r)"
proof -
  obtain ol where ol: "ol = orderLevelOf r"
    and step: "(case rev_lines r of
       Some lines \<Rightarrow> reversal_with_lines ctx r ol lines st
     | None \<Rightarrow> reversal_without_lines ctx r ol st) = Inr st'"
  proof -
    obtain ol where "addMinor [rev_shippingRefundExVatMinor r, rev_codFeeRefundExVatMinor r,
              rev_adjustmentExVatMinor r] = Inr ol"
      and "(case rev_lines r of
       Some lines \<Rightarrow> reversal_with_lines ctx r ol lines st
     | None \<Rightarrow> reversal_without_lines ctx r ol st) = Inr st'"
      using assms(1) by (auto simp: reversal_step_def bindE_eq_Inr)
    moreover from this(1) have "ol = orderLevelOf r"
      using addMinor_sum by (fastforce simp: orderLevelOf_def)
    ultimately show thesis using that by blast
  qed
  show ?thesis
  proof (cases "rev_lines r")
    case None
    then show ?thesis
      using reversal_without_lines_books [OF _ assms(2,3), of r ol st'] step ol by (simp add: takenBack_def)
  next
    case (Some ls)
    then show ?thesis
      using reversal_with_lines_books [OF _ assms(2,3), of r ol ls st'] step ol by (simp add: takenBack_def)
  qed
qed

lemma reversal_loop_books:
  assumes "foldE (reversal_step ctx) st rs = Inr st'" and "tallies_ok ctx st"
    and "distinct (ctx_keys ctx)"
  shows "tallies_ok ctx st' \<and> (rc_buckets ctx \<noteq> [] \<longrightarrow> tsum (ctx_keys ctx) (rt_reversedRevenue st')
     = tsum (ctx_keys ctx) (rt_reversedRevenue st) + (\<Sum>r\<leftarrow>rs. takenBack r))"
  using assms(1,2)
proof (induction rs arbitrary: st)
  case Nil
  then show ?case by simp
next
  case (Cons r rs)
  obtain m where m: "reversal_step ctx st r = Inr m" "foldE (reversal_step ctx) m rs = Inr st'"
    using Cons.prems(1) by (auto simp: bindE_eq_Inr)
  note one = reversal_step_books [OF m(1) Cons.prems(2) assms(3)]
  then show ?case using Cons.IH [OF m(2)] by simp
qed

section \<open>The lines of the impact\<close>

lemma reversal_line_result_facts:
  assumes "reversal_line_result ctx recog st l = Inr r"
  shows "lvr_orderItemId r = lrev_orderItemId l"
    and "lvr_impactMinor r = lvr_restockedCogsMinor r - lvr_reversedRevenueExVatMinor r"
    and "lvr_restockedCogsMinor r
      = max 0 (min (tally (rt_restocked st) (lrev_orderItemId l)) (costOf (rc_cogsById ctx) (lrev_orderItemId l)))"
    and "lvr_reversedRevenueExVatMinor r
      = (if recog = Recognized then tally (rt_reversedRevenue st) (lrev_orderItemId l) else 0)"
    and "lvr_reversedQuantity r
      = min (tally (rt_reversedQty st) (lrev_orderItemId l)) (or_zero (rc_quantities ctx (lrev_orderItemId l)))"
  using assms
  by (auto simp: reversal_line_result_def Let_def bindE_eq_Inr assertInRange_eq_Inr negateMinor_eq_Inr
      split: if_splits dest!: addMinor_sum)

text \<open>What holds of an impact whichever way it was computed.\<close>

definition impact_ok :: "line_revenue list \<Rightarrow> (string \<Rightarrow> line_cogs option) \<Rightarrow> reversal_impact \<Rightarrow> bool" where
  "impact_ok revenueLines cogsById ri \<longleftrightarrow>
     map lvr_orderItemId (ri_lines ri) = map lrev_orderItemId revenueLines
     \<and> ri_impactMinor ri = (\<Sum>l\<leftarrow>ri_lines ri. lvr_impactMinor l)
     \<and> ri_restockedCogsMinor ri = (\<Sum>l\<leftarrow>ri_lines ri. lvr_restockedCogsMinor l)
     \<and> ri_reversedRevenueExVatMinor ri = (\<Sum>l\<leftarrow>ri_lines ri. lvr_reversedRevenueExVatMinor l)
     \<and> (\<forall>l \<in> set (ri_lines ri).
          lvr_impactMinor l = lvr_restockedCogsMinor l - lvr_reversedRevenueExVatMinor l
          \<and> (0 \<le> costOf cogsById (lvr_orderItemId l) \<longrightarrow>
               0 \<le> lvr_restockedCogsMinor l \<and> lvr_restockedCogsMinor l \<le> costOf cogsById (lvr_orderItemId l)))"

lemma impact_ok_split:
  assumes "impact_ok rls cogs ri"
  shows "ri_impactMinor ri = ri_restockedCogsMinor ri - ri_reversedRevenueExVatMinor ri"
proof -
  have "(\<Sum>l\<leftarrow>ri_lines ri. lvr_impactMinor l)
      = (\<Sum>l\<leftarrow>ri_lines ri. lvr_restockedCogsMinor l - lvr_reversedRevenueExVatMinor l)"
    using assms by (auto simp: impact_ok_def intro!: arg_cong [of _ _ sum_list])
  then show ?thesis using assms by (simp add: impact_ok_def sum_list_diff)
qed

lemma empty_impact_ok: "impact_ok rls cogs (empty_impact rls)"
  by (auto simp: impact_ok_def empty_impact_def comp_def sum_list_triv)

lemma creditWholeOrder_ok: "creditWholeOrder rls cogs q = Inr ri \<Longrightarrow> impact_ok rls cogs ri"
  by (auto simp: creditWholeOrder_def Let_def bindE_eq_Inr impact_ok_def comp_def sum_list_triv dest!: addMinor_sum)

definition cogs_map :: "line_cogs list \<Rightarrow> string \<Rightarrow> line_cogs option" where
  "cogs_map cogsLines = js_map (map (\<lambda>l. (lcogs_orderItemId l, l)) cogsLines)"

lemma reversal_context_of_sel [simp]:
  "rc_cogsById (reversal_context_of rls cls q w) = cogs_map cls"
  "rc_quantities (reversal_context_of rls cls q w) = q"
  "ctx_keys (reversal_context_of rls cls q w) = map lrev_orderItemId rls"
  "rc_buckets (reversal_context_of rls cls q w) = [] \<longleftrightarrow> rls = []"
  by (simp_all add: reversal_context_of_def cogs_map_def ctx_keys_def comp_def)

lemma tsum_zero_tally: "tsum (map lrev_orderItemId rls) (zero_tally rls) = 0"
proof -
  have "tally (zero_tally rls) i = 0" for i
    by (auto simp: tally_def zero_tally_def split: option.split dest: js_map_Some)
  then show ?thesis by (simp add: tsum_def comp_def)
qed

lemma initial_tallies_ok: "tallies_ok (reversal_context_of rls cls q w) (initial_tallies rls)"
proof -
  have z: "tally (zero_tally rls) i = 0" for i
    by (auto simp: tally_def zero_tally_def split: option.split dest: js_map_Some)
  have "dom (zero_tally rls) = lrev_orderItemId ` set rls"
    by (force simp: zero_tally_def js_map_def dom_map_of_conv_image_fst rev_map [symmetric])
  then show ?thesis by (simp add: tallies_ok_def initial_tallies_def z)
qed

text \<open>The three outcomes of the whole computation.\<close>

lemma computeReversalImpact_cases:
  assumes "computeReversalImpact rs rls cls q w recog ss dispatched = Inr (ri, ds)"
  obtains (none) "ri = empty_impact rls" and "all_warnings ds" and "rs = [] \<or> recog = CostOnly CO_rto_uncollected"
  | (credited) "creditWholeOrder rls (cogs_map cls) q = Inr ri" and "ds = []" and "recog \<noteq> Recognized"
  | (booked) st where "foldE (reversal_step (reversal_context_of rls cls q w)) (initial_tallies rls) rs = Inr st"
      and "mapE (reversal_line_result (reversal_context_of rls cls q w) recog st) rls = Inr (ri_lines ri)"
      and "ri_reversedRevenueExVatMinor ri = (\<Sum>l\<leftarrow>ri_lines ri. lvr_reversedRevenueExVatMinor l)"
      and "ri_restockedCogsMinor ri = (\<Sum>l\<leftarrow>ri_lines ri. lvr_restockedCogsMinor l)"
      and "ri_impactMinor ri = (\<Sum>l\<leftarrow>ri_lines ri. lvr_impactMinor l)"
      and "ri_allocated ri = rt_allocated st" and "ds = rt_diagnostics st" and "rs \<noteq> []"
proof -
  consider "is_undispatched_reason recog \<and> \<not> dispatched"
    | "\<not> (is_undispatched_reason recog \<and> \<not> dispatched)" "recog = CostOnly CO_rto_uncollected"
    | "\<not> (is_undispatched_reason recog \<and> \<not> dispatched)" "recog \<noteq> CostOnly CO_rto_uncollected" "rs = []"
    | "\<not> (is_undispatched_reason recog \<and> \<not> dispatched)" "recog \<noteq> CostOnly CO_rto_uncollected" "rs \<noteq> []"
    by blast
  then show thesis
  proof cases
    case 1
    then have "recog \<noteq> Recognized" by auto
    then show thesis
      using assms 1 by (intro credited) (auto simp: computeReversalImpact_def Let_def bindE_eq_Inr)
  next
    case 2
    then show thesis
      using assms none credited
      by (auto simp: computeReversalImpact_def Let_def bindE_eq_Inr split: if_splits)
  next
    case 3
    then show thesis using assms by (intro none) (auto simp: computeReversalImpact_def Let_def)
  next
    case 4
    then obtain st lines a b c
      where f: "foldE (reversal_step (reversal_context_of rls cls q w)) (initial_tallies rls) rs = Inr st"
      and m: "mapE (reversal_line_result (reversal_context_of rls cls q w) recog st) rls = Inr lines"
      and sums: "addMinor (map lvr_reversedRevenueExVatMinor lines) = Inr a"
        "addMinor (map lvr_restockedCogsMinor lines) = Inr b" "addMinor (map lvr_impactMinor lines) = Inr c"
      and ri: "ri = \<lparr> ri_lines = lines, ri_reversedRevenueExVatMinor = a, ri_restockedCogsMinor = b,
          ri_impactMinor = c, ri_allocated = rt_allocated st, ri_inferredRestock = False \<rparr>"
        "ds = rt_diagnostics st"
      using assms by (auto simp: computeReversalImpact_def Let_def bindE_eq_Inr split: if_splits)
    show thesis
      using f m ri 4(3) sums [THEN addMinor_sum] by (intro booked [of st]) simp_all
  qed
qed

lemma computeReversalImpact_ok:
  assumes "computeReversalImpact rs rls cls q w recog ss dispatched = Inr (ri, ds)"
  shows "impact_ok rls (cogs_map cls) ri"
  using assms
proof (cases rule: computeReversalImpact_cases)
  case none
  then show ?thesis by (simp add: empty_impact_ok)
next
  case credited
  then show ?thesis by (simp add: creditWholeOrder_ok)
next
  case (booked st)
  have "map lvr_orderItemId (ri_lines ri) = map lrev_orderItemId rls"
    by (rule mapE_map_fst [OF booked(2)]) (rule reversal_line_result_facts(1))
  moreover have "lvr_impactMinor l = lvr_restockedCogsMinor l - lvr_reversedRevenueExVatMinor l
      \<and> (0 \<le> costOf (cogs_map cls) (lvr_orderItemId l) \<longrightarrow>
           0 \<le> lvr_restockedCogsMinor l \<and> lvr_restockedCogsMinor l \<le> costOf (cogs_map cls) (lvr_orderItemId l))"
    if mem: "l \<in> set (ri_lines ri)" for l
  proof -
    obtain x where x: "reversal_line_result (reversal_context_of rls cls q w) recog st x = Inr l"
      using mapE_in_set [OF booked(2) mem] by metis
    show ?thesis
      using reversal_line_result_facts(1-3) [OF x] by auto
  qed
  ultimately show ?thesis using booked(3-5) by (simp add: impact_ok_def)
qed

lemma computeReversalImpact_warnings:
  assumes "computeReversalImpact rs rls cls q w recog ss dispatched = Inr (ri, ds)"
    and "distinct (map lrev_orderItemId rls)"
  shows "all_warnings ds"
  using assms(1)
proof (cases rule: computeReversalImpact_cases)
  case (booked st)
  then show ?thesis
    using reversal_loop_books [OF booked(1) initial_tallies_ok] assms(2) by (simp add: tallies_ok_def)
qed simp_all

text \<open>
  Every halala that flowed back is booked on some line of a recognised order: the lines' reversed
  revenue adds up to what the reversals took back.
\<close>

lemma computeReversalImpact_books:
  assumes "computeReversalImpact rs rls cls q w Recognized ss dispatched = Inr (ri, ds)"
    and "distinct (map lrev_orderItemId rls)" and "rls \<noteq> []"
  shows "ri_reversedRevenueExVatMinor ri = (\<Sum>r\<leftarrow>rs. takenBack r)"
  using assms(1)
proof (cases rule: computeReversalImpact_cases)
  case none
  then show ?thesis by (simp add: empty_impact_def)
next
  case credited
  then show ?thesis by simp
next
  case (booked st)
  have "map lvr_reversedRevenueExVatMinor (ri_lines ri)
      = map (\<lambda>l. tally (rt_reversedRevenue st) (lrev_orderItemId l)) rls"
    by (rule mapE_map_fst [OF booked(2)]) (simp add: reversal_line_result_facts(4))
  then have "ri_reversedRevenueExVatMinor ri = tsum (map lrev_orderItemId rls) (rt_reversedRevenue st)"
    using booked(3) by (simp add: tsum_def comp_def)
  also have "\<dots> = (\<Sum>r\<leftarrow>rs. takenBack r)"
    using reversal_loop_books [OF booked(1) initial_tallies_ok] assms(2,3)
    by (simp add: initial_tallies_def tsum_zero_tally)
  finally show ?thesis .
qed

text \<open>No line returns more pieces than it sold.\<close>

lemma computeReversalImpact_quantity:
  assumes "computeReversalImpact rs rls cls q w recog ss dispatched = Inr (ri, ds)"
    and "distinct (map lrev_orderItemId rls)" and "l \<in> set (ri_lines ri)"
    and "0 \<le> or_zero (q (lvr_orderItemId l))"
  shows "0 \<le> lvr_reversedQuantity l \<and> lvr_reversedQuantity l \<le> or_zero (q (lvr_orderItemId l))"
  using assms(1)
proof (cases rule: computeReversalImpact_cases)
  case none
  then show ?thesis using assms(3,4) by (auto simp: empty_impact_def)
next
  case credited
  then show ?thesis
    using assms(3,4) by (auto simp: creditWholeOrder_def Let_def bindE_eq_Inr)
next
  case (booked st)
  obtain x where x: "reversal_line_result (reversal_context_of rls cls q w) recog st x = Inr l"
    using mapE_in_set [OF booked(2) assms(3)] by blast
  have "0 \<le> tally (rt_reversedQty st) (lrev_orderItemId x)"
    using reversal_loop_books [OF booked(1) initial_tallies_ok] assms(2) by (simp add: tallies_ok_def)
  then show ?thesis
    using reversal_line_result_facts(1,5) [OF x] assms(4) by simp
qed

end
