(* ===== verification/RuleSearch.thy ===== *)
theory RuleSearch
  imports Prelude
begin

text \<open>
  The search for the most specific rule. \<open>bestRule\<close> of \<open>gateway.ts\<close>, \<open>ruleFor\<close> of
  \<open>cod.ts\<close> and \<open>pick\<close> of \<open>shipping.ts\<close> (all under \<open>packages/core/src/engine\<close>) are the
  same loop over different rules: it keeps the first rule of the highest score among those that
  match. The locale states what a search promises, and that a rule table without duplicate keys
  may then be listed in any order.
\<close>

section \<open>The loop\<close>

fun best_loop :: "('r \<Rightarrow> bool) \<Rightarrow> ('r \<Rightarrow> int) \<Rightarrow> 'r option \<Rightarrow> int \<Rightarrow> 'r list \<Rightarrow> 'r option" where
  "best_loop applies score best bestScore [] = best"
| "best_loop applies score best bestScore (rule # rules) =
     (if \<not> applies rule then best_loop applies score best bestScore rules
      else if score rule > bestScore then best_loop applies score (Some rule) (score rule) rules
      else best_loop applies score best bestScore rules)"

definition best_match :: "('r \<Rightarrow> bool) \<Rightarrow> ('r \<Rightarrow> int) \<Rightarrow> 'r list \<Rightarrow> 'r option" where
  "best_match applies score rules = best_loop applies score None (-1) rules"

lemma best_loop_started:
  assumes "best_loop P s (Some b) k rs = r" and "k = s b"
  shows "\<exists>x. r = Some x \<and> (x = b \<or> x \<in> set rs \<and> P x) \<and> s b \<le> s x \<and> (\<forall>y \<in> set rs. P y \<longrightarrow> s y \<le> s x)"
  using assms
proof (induction rs arbitrary: b k)
  case Nil
  then show ?case by auto
next
  case (Cons a rs)
  show ?case
  proof (cases "P a \<and> k < s a")
    case True
    then have "best_loop P s (Some a) (s a) rs = r" using Cons.prems(1) by simp
    from Cons.IH [OF this refl] True Cons.prems(2) show ?thesis by auto
  next
    case False
    then have "best_loop P s (Some b) k rs = r" using Cons.prems(1) by (auto split: if_splits)
    from Cons.IH [OF this Cons.prems(2)] False Cons.prems(2) show ?thesis by fastforce
  qed
qed

lemma best_match_None:
  assumes "\<And>r. 0 \<le> s r"
  shows "best_match P s rs = None \<longleftrightarrow> (\<forall>r \<in> set rs. \<not> P r)"
proof (induction rs)
  case Nil
  then show ?case by (simp add: best_match_def)
next
  case (Cons a rs)
  then show ?case
    using assms [of a] best_loop_started [OF refl refl, of P s a rs]
    by (auto simp: best_match_def)
qed

lemma best_match_Some:
  assumes "\<And>r. 0 \<le> s r" and "best_match P s rs = Some r"
  shows "r \<in> set rs \<and> P r \<and> (\<forall>y \<in> set rs. P y \<longrightarrow> s y \<le> s r)"
  using assms(2)
proof (induction rs)
  case Nil
  then show ?case by (simp add: best_match_def)
next
  case (Cons a rs)
  show ?case
  proof (cases "P a")
    case True
    then have "best_loop P s (Some a) (s a) rs = Some r"
      using Cons.prems assms(1) [of a] by (simp add: best_match_def)
    from best_loop_started [OF this refl] True show ?thesis by auto
  next
    case False
    then have "best_match P s rs = Some r" using Cons.prems by (simp add: best_match_def)
    from Cons.IH [OF this] False show ?thesis by auto
  qed
qed

section \<open>The contract of a search\<close>

locale specificity_search =
  fixes applies :: "'q \<Rightarrow> 'r \<Rightarrow> bool"
    and score :: "'r \<Rightarrow> int"
    and key :: "'r \<Rightarrow> string"
    and pick :: "'r list \<Rightarrow> 'q \<Rightarrow> 'r option"
  assumes pick_None: "pick rs q = None \<longleftrightarrow> (\<forall>r \<in> set rs. \<not> applies q r)"
    and pick_Some: "pick rs q = Some r \<Longrightarrow>
          r \<in> set rs \<and> applies q r \<and> (\<forall>y \<in> set rs. applies q y \<longrightarrow> score y \<le> score r)"
    and key_of_score: "applies q r \<Longrightarrow> applies q r' \<Longrightarrow> score r = score r' \<Longrightarrow> key r = key r'"
begin

lemma pick_mem: "pick rs q = Some r \<Longrightarrow> r \<in> set rs"
  by (simp add: pick_Some)

lemma pick_applies: "pick rs q = Some r \<Longrightarrow> applies q r"
  by (simp add: pick_Some)

lemma pick_best: "pick rs q = Some r \<Longrightarrow> y \<in> set rs \<Longrightarrow> applies q y \<Longrightarrow> score y \<le> score r"
  by (simp add: pick_Some)

text \<open>
  Without duplicate keys the winner is determined: any applicable rule that no applicable rule
  outscores is the one that is picked.
\<close>

lemma pick_unique:
  assumes "distinct (map key rs)" and "r \<in> set rs" and "applies q r"
    and "\<And>y. y \<in> set rs \<Longrightarrow> applies q y \<Longrightarrow> score y \<le> score r"
  shows "pick rs q = Some r"
proof -
  obtain p where p: "pick rs q = Some p"
    using assms(2,3) pick_None [of rs q] by fastforce
  have "score p = score r"
    using assms(4) [OF pick_mem [OF p] pick_applies [OF p]] pick_best [OF p assms(2,3)] by simp
  then have "key p = key r"
    by (rule key_of_score [OF pick_applies [OF p] assms(3)])
  then have "p = r"
    using assms(1,2) pick_mem [OF p] by (simp add: distinct_map inj_on_def)
  then show ?thesis using p by simp
qed

lemma pick_order_independent:
  assumes "distinct (map key rs)" and "mset rs = mset rs'"
  shows "pick rs q = pick rs' q"
proof (cases "pick rs q")
  case None
  then have "pick rs' q = None"
    using pick_None mset_eq_setD [OF assms(2)] by metis
  then show ?thesis using None by simp
next
  case (Some r)
  have s: "set rs' = set rs" using mset_eq_setD [OF assms(2)] by simp
  have d: "distinct (map key rs')"
    using assms by (metis mset_eq_imp_distinct_iff mset_map)
  have "pick rs' q = Some r"
    using pick_unique [OF d, of r q] pick_Some [OF Some] s by simp
  then show ?thesis using Some by simp
qed

end

end
