(* ===== verification/Shipping.thy ===== *)
theory Shipping
  imports Normalize Confidence RuleSearch
begin

text \<open>
  Courier cost, \<open>packages/core/src/engine/shipping.ts\<close>: what the carrier reported for each live
  shipment, or the merchant's fallback rule for orders that a carrier delivers.
\<close>

record shipment_cost =
  sc_shipmentId :: string
  sc_costMinor :: int
  sc_lineIds :: "string list"

record shipping_leg =
  leg_costMinor :: int
  leg_basis :: term_basis
  leg_parcels :: "shipment_cost list"

definition geographyMatches ::
  "'m canonical_order \<Rightarrow> string option \<Rightarrow> 'n shipping_fallback_rule \<Rightarrow> bool" where
  "geographyMatches order carrier rule =
     (if sf_countryCode rule \<noteq> None
         \<and> sf_countryCode rule \<noteq> map_option dest_countryCode (order_destination order) then False
      else if sf_region rule \<noteq> None
         \<and> sf_region rule \<noteq> Option.bind (order_destination order) dest_region then False
      else if sf_carrier rule \<noteq> None \<and> sf_carrier rule \<noteq> carrier then False
      else True)"

definition sf_score :: "'n shipping_fallback_rule \<Rightarrow> int" where
  "sf_score rule =
     (if sf_countryCode rule \<noteq> None then 4 else 0) + (if sf_region rule \<noteq> None then 2 else 0)
     + (if sf_carrier rule \<noteq> None then 1 else 0)"

definition pick ::
  "'m canonical_order \<Rightarrow> string option \<Rightarrow> 'n shipping_fallback_rule list \<Rightarrow> 'n shipping_fallback_rule option" where
  "pick order carrier candidates = best_match (geographyMatches order carrier) sf_score candidates"

definition matchShippingRule ::
  "'n shipping_fallback_rule list \<Rightarrow> 'm canonical_order \<Rightarrow> string option \<Rightarrow> shipment_direction
   \<Rightarrow> 'n shipping_fallback_rule option" where
  "matchShippingRule rules order carrier direction =
     (case pick order carrier (filter (\<lambda>r. sf_direction r = direction_of direction) rules) of
        Some r \<Rightarrow> Some r
      | None \<Rightarrow> pick order carrier (filter (\<lambda>r. sf_direction r = RD_any) rules))"

record shipping_loop =
  sl_parcels :: "shipment_cost list"
  sl_anyEstimated :: bool
  sl_anyMissing :: bool
  sl_diagnostics :: "diagnostic list"

definition shipping_step ::
  "int canonical_order \<Rightarrow> int shipping_fallback_rule list \<Rightarrow> shipment_direction \<Rightarrow> bool
   \<Rightarrow> shipping_loop \<Rightarrow> int canonical_shipment \<Rightarrow> shipping_loop" where
  "shipping_step order rules direction mayEstimate st shipment =
     (let lineIds = map sline_orderItemId (ship_lines shipment) in
      case ship_carrierCostMinor shipment of
        Some c \<Rightarrow> st\<lparr> sl_parcels := sl_parcels st
            @ [\<lparr> sc_shipmentId = ship_id shipment, sc_costMinor = c, sc_lineIds = lineIds \<rparr>] \<rparr>
      | None \<Rightarrow>
          let st1 = st\<lparr> sl_diagnostics := sl_diagnostics st
                @ [diagnostic CARRIER_COST_MISSING (OnShipment (ship_id shipment))] \<rparr>
          in if \<not> mayEstimate then st1\<lparr> sl_anyMissing := True \<rparr>
             else case matchShippingRule rules order (Some (ship_carrier shipment)) direction of
                    None \<Rightarrow> st1\<lparr> sl_anyMissing := True, sl_diagnostics := sl_diagnostics st1
                        @ [diagnostic SHIPPING_FALLBACK_MISSING (OnShipment (ship_id shipment))] \<rparr>
                  | Some rule \<Rightarrow> st1\<lparr> sl_anyEstimated := True, sl_diagnostics := sl_diagnostics st1
                        @ [diagnostic SHIPPING_FALLBACK_USED (OnShipment (ship_id shipment))],
                        sl_parcels := sl_parcels st1 @ [\<lparr> sc_shipmentId = ship_id shipment,
                          sc_costMinor = sf_costMinor rule, sc_lineIds = lineIds \<rparr>] \<rparr>)"

definition computeShippingCost ::
  "int canonical_order \<Rightarrow> int canonical_shipment list \<Rightarrow> int shipping_fallback_rule list
   \<Rightarrow> shipment_direction \<Rightarrow> shipping_leg computed outcome" where
  "computeShippingCost order shipments rules direction =
     (let legs = filter (\<lambda>s. ship_direction s = direction \<and> ship_status s \<in> LIVE) shipments;
          mayEstimate = (order_fulfillmentMethod order = FM_carrier)
      in if legs = []
         then
           (if direction = SD_return \<or> \<not> mayEstimate
            then Inr (\<lparr> leg_costMinor = 0, leg_basis = TB_not_applicable, leg_parcels = [] \<rparr>, [])
            else if order_lifecycle order = OL_cancelled \<and> order_fulfillmentState order \<notin> DISPATCHED
            then Inr (\<lparr> leg_costMinor = 0, leg_basis = TB_not_applicable, leg_parcels = [] \<rparr>, [])
            else case matchShippingRule rules order None direction of
                   None \<Rightarrow> Inr (\<lparr> leg_costMinor = 0, leg_basis = TB_missing, leg_parcels = [] \<rparr>,
                               [onOrder NO_OUTBOUND_SHIPMENT, onOrder SHIPPING_FALLBACK_MISSING])
                 | Some rule \<Rightarrow> Inr (\<lparr> leg_costMinor = sf_costMinor rule, leg_basis = TB_estimated, leg_parcels = [] \<rparr>,
                               [onOrder NO_OUTBOUND_SHIPMENT, onOrder SHIPPING_FALLBACK_USED]))
         else
           let st = foldl (shipping_step order rules direction mayEstimate)
                      \<lparr> sl_parcels = [], sl_anyEstimated = False, sl_anyMissing = False, sl_diagnostics = [] \<rparr> legs;
               basis = (if sl_anyMissing st then TB_missing
                        else if sl_anyEstimated st then TB_estimated else TB_actual)
           in bindE (addMinor (map sc_costMinor (sl_parcels st))) (\<lambda>cost.
              Inr (\<lparr> leg_costMinor = cost, leg_basis = basis, leg_parcels = sl_parcels st \<rparr>,
                   sl_diagnostics st)))"

section \<open>The search contract\<close>

lemma sf_score_nonneg: "0 \<le> sf_score r"
  by (simp add: sf_score_def)

text \<open>The query is the order, the carrier and the direction the rule must be written for.\<close>

definition directed_applies ::
  "'m canonical_order \<times> string option \<times> rule_direction \<Rightarrow> 'n shipping_fallback_rule \<Rightarrow> bool" where
  "directed_applies q rule \<longleftrightarrow>
     sf_direction rule = snd (snd q) \<and> geographyMatches (fst q) (fst (snd q)) rule"

definition directed_pick ::
  "'n shipping_fallback_rule list \<Rightarrow> 'm canonical_order \<times> string option \<times> rule_direction
   \<Rightarrow> 'n shipping_fallback_rule option" where
  "directed_pick rules q = pick (fst q) (fst (snd q)) (filter (\<lambda>r. sf_direction r = snd (snd q)) rules)"

lemma matchShippingRule_directed:
  "matchShippingRule rules order carrier direction =
     (case directed_pick rules (order, carrier, direction_of direction) of
        Some r \<Rightarrow> Some r | None \<Rightarrow> directed_pick rules (order, carrier, RD_any))"
  by (simp add: matchShippingRule_def directed_pick_def split: option.split)

interpretation shipping_search: specificity_search directed_applies sf_score shipping_rule_key directed_pick
proof (unfold_locales, goal_cases)
  case (1 rs q)
  then show ?case
    by (auto simp: directed_pick_def pick_def best_match_None [OF sf_score_nonneg] directed_applies_def)
next
  case (2 rs q r)
  then show ?case
    using best_match_Some [OF sf_score_nonneg]
    by (fastforce simp: directed_pick_def pick_def directed_applies_def)
next
  case (3 q r r')
  have none: "(sf_countryCode r = None) = (sf_countryCode r' = None)" "(sf_region r = None) = (sf_region r' = None)"
    "(sf_carrier r = None) = (sf_carrier r' = None)"
    using 3(3) by (auto simp: sf_score_def split: if_splits)
  have val: "sf_direction x = snd (snd q)"
    "sf_countryCode x \<noteq> None \<longrightarrow> sf_countryCode x = map_option dest_countryCode (order_destination (fst q))"
    "sf_region x \<noteq> None \<longrightarrow> sf_region x = Option.bind (order_destination (fst q)) dest_region"
    "sf_carrier x \<noteq> None \<longrightarrow> sf_carrier x = fst (snd q)"
    if "directed_applies q x" for x :: "'b shipping_fallback_rule"
    using that unfolding directed_applies_def geographyMatches_def by metis+
  have "sf_countryCode r = sf_countryCode r' \<and> sf_region r = sf_region r' \<and> sf_carrier r = sf_carrier r'
      \<and> sf_direction r = sf_direction r'"
    using none val [OF 3(1)] val [OF 3(2)] by metis
  then show ?case by (simp add: shipping_rule_key_def)
qed

lemma matchShippingRule_order_independent:
  assumes "distinct (map shipping_rule_key rules)" and "mset rules = mset rules'"
  shows "matchShippingRule rules order carrier d = matchShippingRule rules' order carrier d"
proof -
  have "directed_pick rules q = directed_pick rules' q" for q :: "'b canonical_order \<times> string option \<times> rule_direction"
    using assms by (rule shipping_search.pick_order_independent)
  then show ?thesis by (simp only: matchShippingRule_directed)
qed

text \<open>A rule for the direction beats every rule for either direction.\<close>

lemma matchShippingRule_direction_first:
  assumes "r \<in> set rules" and "sf_direction r = direction_of d" and "geographyMatches order carrier r"
  shows "\<exists>p. matchShippingRule rules order carrier d = Some p \<and> sf_direction p = direction_of d"
proof -
  have "directed_pick rules (order, carrier, direction_of d) \<noteq> None"
    using assms by (auto simp: shipping_search.pick_None directed_applies_def)
  then obtain p where p: "directed_pick rules (order, carrier, direction_of d) = Some p" by auto
  then have "sf_direction p = direction_of d"
    using shipping_search.pick_applies by (fastforce simp: directed_applies_def)
  then show ?thesis using p by (simp add: matchShippingRule_directed)
qed

section \<open>Parcels and cost\<close>

lemma shipping_step_warnings:
  "all_warnings (sl_diagnostics st) \<Longrightarrow> all_warnings (sl_diagnostics (shipping_step order rules d m st s))"
  by (auto simp: shipping_step_def Let_def split: option.splits)

lemma shipping_loop_warnings:
  "all_warnings (sl_diagnostics st) \<Longrightarrow>
     all_warnings (sl_diagnostics (foldl (shipping_step order rules d m) st legs))"
  by (induction legs arbitrary: st) (auto intro: shipping_step_warnings)

lemma computeShippingCost_warnings:
  "computeShippingCost order ss rules d = Inr (l, ds) \<Longrightarrow> all_warnings ds"
  by (auto simp: computeShippingCost_def Let_def bindE_eq_Inr shipping_loop_warnings
      split: if_splits option.splits)

text \<open>Parcels account for the whole cost, unless the order has no shipment yet.\<close>

lemma computeShippingCost_parcels:
  assumes "computeShippingCost order ss rules d = Inr (l, ds)"
  shows "leg_parcels l \<noteq> [] \<Longrightarrow> leg_costMinor l = (\<Sum>p\<leftarrow>leg_parcels l. sc_costMinor p)"
  using assms
  by (auto simp: computeShippingCost_def Let_def bindE_eq_Inr split: if_splits option.splits dest!: addMinor_sum)

text \<open>
  A reported charge is never dropped and, without licence to estimate, nothing else is charged:
  the cost is the sum of what carriers reported for the live shipments of the direction.
\<close>

definition reported_costs :: "int canonical_shipment list \<Rightarrow> shipment_direction \<Rightarrow> int list" where
  "reported_costs ss d = List.map_filter ship_carrierCostMinor
     (filter (\<lambda>s. ship_direction s = d \<and> ship_status s \<in> LIVE) ss)"

lemma shipping_loop_reported:
  "map sc_costMinor (sl_parcels (foldl (shipping_step order rules d False) st legs))
     = map sc_costMinor (sl_parcels st) @ List.map_filter ship_carrierCostMinor legs"
  by (induction legs arbitrary: st) (auto simp: shipping_step_def Let_def map_filter_simps split: option.splits)

lemma computeShippingCost_no_estimate:
  assumes "order_fulfillmentMethod order \<noteq> FM_carrier"
    and "computeShippingCost order ss rules d = Inr (l, ds)"
  shows "leg_costMinor l = sum_list (reported_costs ss d) \<and> leg_basis l \<noteq> TB_estimated"
proof (cases "filter (\<lambda>s. ship_direction s = d \<and> ship_status s \<in> LIVE) ss = []")
  case True
  then show ?thesis using assms by (auto simp: computeShippingCost_def reported_costs_def map_filter_simps)
next
  case False
  have est: "sl_anyEstimated (foldl (shipping_step order rules d False) st legs) = sl_anyEstimated st"
    for st and legs :: "int canonical_shipment list"
    by (induction legs arbitrary: st) (auto simp: shipping_step_def Let_def split: option.splits)
  show ?thesis
    using False assms
    by (auto simp: computeShippingCost_def Let_def bindE_eq_Inr reported_costs_def shipping_loop_reported est
        dest!: addMinor_sum split: if_splits)
qed

text \<open>\<open>actual\<close> means that every live shipment had a settled charge, and the cost is their sum.\<close>

lemma shipping_loop_actual:
  assumes "\<not> sl_anyEstimated (foldl (shipping_step order rules d m) st legs)"
    and "\<not> sl_anyMissing (foldl (shipping_step order rules d m) st legs)"
  shows "(\<forall>s \<in> set legs. ship_carrierCostMinor s \<noteq> None) \<and>
     map sc_costMinor (sl_parcels (foldl (shipping_step order rules d m) st legs))
       = map sc_costMinor (sl_parcels st) @ List.map_filter ship_carrierCostMinor legs"
  using assms
proof (induction legs arbitrary: st)
  case Nil
  then show ?case by (simp add: map_filter_simps)
next
  case (Cons s legs)
  have keep: "(sl_anyEstimated st \<or> sl_anyMissing st) \<Longrightarrow>
      sl_anyEstimated (foldl (shipping_step order rules d m) st ls)
      \<or> sl_anyMissing (foldl (shipping_step order rules d m) st ls)" for st ls
    by (induction ls arbitrary: st) (auto simp: shipping_step_def Let_def split: option.splits)
  have "\<not> (sl_anyEstimated (shipping_step order rules d m st s) \<or> sl_anyMissing (shipping_step order rules d m st s))"
    using keep [of "shipping_step order rules d m st s" legs] Cons.prems by auto
  then have s: "ship_carrierCostMinor s \<noteq> None"
    by (auto simp: shipping_step_def Let_def split: option.splits if_splits)
  then show ?case
    using Cons.IH [of "shipping_step order rules d m st s"] Cons.prems
    by (auto simp: shipping_step_def Let_def map_filter_simps)
qed

lemma computeShippingCost_actual:
  assumes "computeShippingCost order ss rules d = Inr (l, ds)" and "leg_basis l = TB_actual"
  shows "(\<forall>s \<in> set ss. ship_direction s = d \<and> ship_status s \<in> LIVE \<longrightarrow> ship_carrierCostMinor s \<noteq> None)
     \<and> leg_costMinor l = sum_list (reported_costs ss d)"
proof -
  let ?legs = "filter (\<lambda>s. ship_direction s = d \<and> ship_status s \<in> LIVE) ss"
  let ?m = "order_fulfillmentMethod order = FM_carrier"
  let ?st = "foldl (shipping_step order rules d ?m)
      \<lparr> sl_parcels = [], sl_anyEstimated = False, sl_anyMissing = False, sl_diagnostics = [] \<rparr> ?legs"
  have ne: "?legs \<noteq> []"
    using assms by (auto simp: computeShippingCost_def Let_def split: if_splits option.splits)
  then have st: "addMinor (map sc_costMinor (sl_parcels ?st)) = Inr (leg_costMinor l)"
    and b: "\<not> sl_anyMissing ?st" "\<not> sl_anyEstimated ?st"
    using assms by (auto simp: computeShippingCost_def Let_def bindE_eq_Inr simp del: foldl_Nil split: if_splits)
  from shipping_loop_actual [OF b(2,1)] st show ?thesis
    by (auto simp: reported_costs_def dest!: addMinor_sum)
qed

end
