(* ===== verification/Lines.thy ===== *)
theory Lines
  imports ReversalBooks Shipping
begin

text \<open>
  Order-level revenue and cost pushed down onto the lines,
  \<open>packages/core/src/engine/allocate-lines.ts\<close>, with the record \<open>OrderProfitLine\<close> of
  \<open>packages/core/src/result.ts\<close>. The theorem to reach is the exact tie between the lines and
  the order.
\<close>

record order_profit_line =
  pl_orderItemId :: string
  pl_platformProductId :: string
  pl_platformVariantId :: "string option"
  pl_sku :: "string option"
  pl_quantity :: int
  pl_allocatedOrderDiscountExVatMinor :: int
  pl_netRevenueExVatMinor :: int
  pl_allocatedShippingRevenueExVatMinor :: int
  pl_allocatedCodFeeRevenueExVatMinor :: int
  pl_unitCostMinor :: int
  pl_cogsMinor :: int
  pl_costSource :: cost_source
  pl_costHistoryId :: "string option"
  pl_allocatedOutboundShippingMinor :: int
  pl_allocatedReturnShippingMinor :: int
  pl_allocatedGatewayFeeMinor :: int
  pl_allocatedCodCostMinor :: int
  pl_reversedQuantity :: int
  pl_reversedRevenueExVatMinor :: int
  pl_restockedCogsMinor :: int
  pl_reversalImpactMinor :: int
  pl_contributionMarginMinor :: int
  pl_costCoveredRevenueExVatMinor :: int

record order_level_amounts =
  ola_shippingRevenueExVatMinor :: int
  ola_codFeeRevenueExVatMinor :: int
  ola_outboundParcels :: "shipment_cost list"
  ola_returnParcels :: "shipment_cost list"
  ola_outboundShippingCostMinor :: int
  ola_returnShippingCostMinor :: int
  ola_gatewayFeeCostMinor :: int
  ola_codCostMinor :: int

definition weightOf :: "int canonical_order_item list \<Rightarrow> string \<Rightarrow> int" where
  "weightOf items i = (case js_map (map (\<lambda>x. (item_id x, x)) items) i of
     None \<Rightarrow> 0 | Some item \<Rightarrow> item_lineTotalExVatMinor item)"

definition line_buckets ::
  "int canonical_order_item list \<Rightarrow> line_revenue list \<Rightarrow> string allocation_bucket list" where
  "line_buckets items revenue =
     map (\<lambda>l. \<lparr> bucket_key = lrev_orderItemId l, bucket_weight = weightOf items (lrev_orderItemId l) \<rparr>) revenue"

definition spread_all ::
  "int canonical_order_item list \<Rightarrow> line_revenue list \<Rightarrow> int \<Rightarrow> tally_map outcome" where
  "spread_all items revenue tot =
     bindE (allocateMinor tot (line_buckets items revenue)) (\<lambda>m. Inr (map_of m))"

definition add_checked :: "tally_map \<Rightarrow> string \<times> int \<Rightarrow> tally_map outcome" where
  "add_checked out share =
     bindE (to_minor (tally out (fst share) + snd share)) (\<lambda>v. Inr (out(fst share \<mapsto> v)))"

text \<open>The loop over the parcels; a parcel with none of the order's lines abandons the mapping.\<close>

fun parcels_loop ::
  "int canonical_order_item list \<Rightarrow> line_revenue list \<Rightarrow> int \<Rightarrow> tally_map \<Rightarrow> shipment_cost list
   \<Rightarrow> tally_map outcome" where
  "parcels_loop items revenue tot out [] = Inr out"
| "parcels_loop items revenue tot out (parcel # parcels) =
     (let inParcel = filter (\<lambda>l. lrev_orderItemId l \<in> set (sc_lineIds parcel)) revenue
      in if inParcel = [] then spread_all items revenue tot
         else bindE (allocateMinor (sc_costMinor parcel) (line_buckets items inParcel)) (\<lambda>share.
              bindE (foldE add_checked out share) (\<lambda>out'.
              parcels_loop items revenue tot out' parcels)))"

definition spreadParcels ::
  "int canonical_order_item list \<Rightarrow> line_revenue list \<Rightarrow> shipment_cost list \<Rightarrow> int \<Rightarrow> tally_map outcome" where
  "spreadParcels items revenue parcels tot =
     (let mapped = filter (\<lambda>p. length (sc_lineIds p) > 0) parcels
      in if length parcels = 0 \<or> length mapped \<noteq> length parcels then spread_all items revenue tot
         else parcels_loop items revenue tot (zero_tally revenue) parcels)"

definition returnedWeights :: "line_revenue list \<Rightarrow> line_reversal list \<Rightarrow> string allocation_bucket list" where
  "returnedWeights revenue reversals =
     map (\<lambda>l. \<lparr> bucket_key = lrev_orderItemId l,
                bucket_weight = (case find (\<lambda>r. lvr_orderItemId r = lrev_orderItemId l) reversals of
                   None \<Rightarrow> 0 | Some r \<Rightarrow> lvr_reversedRevenueExVatMinor r) \<rparr>) revenue"

record line_allocations =
  la_shippingRevenue :: tally_map
  la_codFeeRevenue :: tally_map
  la_outbound :: tally_map
  la_returned :: tally_map
  la_gateway :: tally_map
  la_cod :: tally_map

definition order_line ::
  "(string \<Rightarrow> int canonical_order_item option) \<Rightarrow> (string \<Rightarrow> line_cogs option) \<Rightarrow> (string \<Rightarrow> line_reversal option)
   \<Rightarrow> line_allocations \<Rightarrow> line_revenue \<Rightarrow> order_profit_line outcome" where
  "order_line itemById cogsById reversalById al line =
     (let i = lrev_orderItemId line;
          item = itemById i; lineCogs = cogsById i; lineReversal = reversalById i;
          shippingRevenue = tally (la_shippingRevenue al) i;
          codFeeRevenue = tally (la_codFeeRevenue al) i;
          outbound = tally (la_outbound al) i;
          returned = tally (la_returned al) i;
          gateway = tally (la_gateway al) i;
          cod = tally (la_cod al) i;
          cogs = costOf cogsById i;
          impact = (case lineReversal of None \<Rightarrow> 0 | Some r \<Rightarrow> lvr_impactMinor r)
      in bindE (addMinor [lrev_netExVatMinor line, shippingRevenue, codFeeRevenue, impact]) (\<lambda>plus.
         bindE (addMinor [cogs, outbound, returned, gateway, cod]) (\<lambda>minus.
         bindE (subMinor plus minus) (\<lambda>margin.
         Inr \<lparr> pl_orderItemId = i,
               pl_platformProductId = (case item of None \<Rightarrow> [] | Some x \<Rightarrow> item_platformProductId x),
               pl_platformVariantId = Option.bind item item_platformVariantId,
               pl_sku = Option.bind item item_sku,
               pl_quantity = (case item of None \<Rightarrow> 0 | Some x \<Rightarrow> item_quantity x),
               pl_allocatedOrderDiscountExVatMinor = lrev_allocatedOrderDiscountExVatMinor line,
               pl_netRevenueExVatMinor = lrev_netExVatMinor line,
               pl_allocatedShippingRevenueExVatMinor = shippingRevenue,
               pl_allocatedCodFeeRevenueExVatMinor = codFeeRevenue,
               pl_unitCostMinor = unitCostOf cogsById i,
               pl_cogsMinor = cogs,
               pl_costSource = (case lineCogs of None \<Rightarrow> CO_none | Some c \<Rightarrow> lcogs_source c),
               pl_costHistoryId = Option.bind lineCogs lcogs_costHistoryId,
               pl_allocatedOutboundShippingMinor = outbound,
               pl_allocatedReturnShippingMinor = returned,
               pl_allocatedGatewayFeeMinor = gateway,
               pl_allocatedCodCostMinor = cod,
               pl_reversedQuantity = (case lineReversal of None \<Rightarrow> 0 | Some r \<Rightarrow> lvr_reversedQuantity r),
               pl_reversedRevenueExVatMinor =
                 (case lineReversal of None \<Rightarrow> 0 | Some r \<Rightarrow> lvr_reversedRevenueExVatMinor r),
               pl_restockedCogsMinor =
                 (case lineReversal of None \<Rightarrow> 0 | Some r \<Rightarrow> lvr_restockedCogsMinor r),
               pl_reversalImpactMinor = impact,
               pl_contributionMarginMinor = margin,
               pl_costCoveredRevenueExVatMinor =
                 (case lineCogs of None \<Rightarrow> 0
                  | Some c \<Rightarrow> if lcogs_covered c then lrev_netExVatMinor line else 0) \<rparr>))))"

definition allocateOrderCostsToLines ::
  "int canonical_order_item list \<Rightarrow> line_revenue list \<Rightarrow> line_cogs list \<Rightarrow> line_reversal list
   \<Rightarrow> order_level_amounts \<Rightarrow> order_profit_line list outcome" where
  "allocateOrderCostsToLines items revenue cogs reversals amounts =
     (if length revenue = 0 then Inr []
      else
        let weights = returnedWeights revenue reversals;
            anyReturned = list_ex (\<lambda>w. bucket_weight w > 0) weights
        in bindE (spread_all items revenue (ola_shippingRevenueExVatMinor amounts)) (\<lambda>shippingRevenue.
           bindE (spread_all items revenue (ola_codFeeRevenueExVatMinor amounts)) (\<lambda>codFeeRevenue.
           bindE (spreadParcels items revenue (ola_outboundParcels amounts)
                    (ola_outboundShippingCostMinor amounts)) (\<lambda>outbound.
           bindE (if anyReturned
                  then bindE (allocateMinor (ola_returnShippingCostMinor amounts) weights) (\<lambda>m. Inr (map_of m))
                  else spreadParcels items revenue (ola_returnParcels amounts)
                         (ola_returnShippingCostMinor amounts)) (\<lambda>returned.
           bindE (spread_all items revenue (ola_gatewayFeeCostMinor amounts)) (\<lambda>gateway.
           bindE (spread_all items revenue (ola_codCostMinor amounts)) (\<lambda>cod.
           mapE (order_line (js_map (map (\<lambda>x. (item_id x, x)) items))
                   (js_map (map (\<lambda>c. (lcogs_orderItemId c, c)) cogs))
                   (js_map (map (\<lambda>r. (lvr_orderItemId r, r)) reversals))
                   \<lparr> la_shippingRevenue = shippingRevenue, la_codFeeRevenue = codFeeRevenue,
                     la_outbound = outbound, la_returned = returned, la_gateway = gateway, la_cod = cod \<rparr>)
             revenue)))))))"

section \<open>Every allocation is exact\<close>

lemma tally_map_of: "tally (map_of m) k = shareOf m k"
  by (simp add: tally_def shareOf_def)

lemma line_buckets_keys [simp]: "map bucket_key (line_buckets items revenue) = map lrev_orderItemId revenue"
  by (simp add: line_buckets_def comp_def)

lemma allocate_tsum:
  assumes "allocateMinor tot bs = Inr m" and "map bucket_key bs = ks"
  shows "tsum ks (map_of m) = tot"
  using largest_remainder.sum_shares [OF assms] by (simp add: tsum_def tally_map_of)

lemma spread_all_exact:
  "spread_all items revenue tot = Inr m \<Longrightarrow> tsum (map lrev_orderItemId revenue) m = tot"
  by (auto simp: spread_all_def bindE_eq_Inr intro!: allocate_tsum)

lemma add_checked_fold:
  assumes "foldE add_checked out shares = Inr out'" and "distinct ks" and "set (map fst shares) \<subseteq> set ks"
  shows "tsum ks out' = tsum ks out + sum_list (map snd shares)"
  using assms(1,3)
proof (induction shares arbitrary: out)
  case Nil
  then show ?case by simp
next
  case (Cons s shares)
  obtain o1 where o1: "add_checked out s = Inr o1" "foldE add_checked o1 shares = Inr out'"
    using Cons.prems(1) by (auto simp: bindE_eq_Inr)
  have "o1 = out(fst s \<mapsto> tally out (fst s) + snd s)"
    using o1(1) by (auto simp: add_checked_def bindE_eq_Inr to_minor_eq_Inr)
  then have "tsum ks o1 = tsum ks out + snd s"
    using tsum_upd [OF assms(2), of "fst s" out] Cons.prems(2) by simp
  then show ?case using Cons.IH [OF o1(2)] Cons.prems(2) by simp
qed

lemma parcels_loop_exact:
  assumes "parcels_loop items revenue tot out parcels = Inr m" and "distinct (map lrev_orderItemId revenue)"
    and "tsum (map lrev_orderItemId revenue) out + (\<Sum>p\<leftarrow>parcels. sc_costMinor p) = tot"
  shows "tsum (map lrev_orderItemId revenue) m = tot"
  using assms(1,3)
proof (induction parcels arbitrary: out)
  case Nil
  then show ?case by simp
next
  case (Cons p parcels)
  let ?in = "filter (\<lambda>l. lrev_orderItemId l \<in> set (sc_lineIds p)) revenue"
  show ?case
  proof (cases "?in = []")
    case True
    then show ?thesis using Cons.prems(1) spread_all_exact by (simp add: Let_def)
  next
    case False
    then obtain share o1 where s: "allocateMinor (sc_costMinor p) (line_buckets items ?in) = Inr share"
      and f: "foldE add_checked out share = Inr o1" and r: "parcels_loop items revenue tot o1 parcels = Inr m"
      using Cons.prems(1) by (auto simp: Let_def bindE_eq_Inr)
    have "map fst share = map lrev_orderItemId ?in"
      using largest_remainder.alloc_map_keys [OF s] by simp
    then have "set (map fst share) \<subseteq> set (map lrev_orderItemId revenue)"
      by (simp only: list.set_map) auto
    then have "tsum (map lrev_orderItemId revenue) o1 = tsum (map lrev_orderItemId revenue) out + sc_costMinor p"
      using add_checked_fold [OF f assms(2)] largest_remainder.alloc_exact [OF s] by simp
    then show ?thesis using Cons.IH [OF r] Cons.prems(2) by simp
  qed
qed

text \<open>What \<open>computeShippingCost\<close> guarantees of its parcels.\<close>

definition parcels_tie :: "shipment_cost list \<Rightarrow> int \<Rightarrow> bool" where
  "parcels_tie parcels tot \<longleftrightarrow> parcels \<noteq> [] \<longrightarrow> tot = (\<Sum>p\<leftarrow>parcels. sc_costMinor p)"

lemma spreadParcels_exact:
  assumes "spreadParcels items revenue parcels tot = Inr m" and "distinct (map lrev_orderItemId revenue)"
    and "parcels_tie parcels tot"
  shows "tsum (map lrev_orderItemId revenue) m = tot"
proof (cases "parcels = [] \<or> length (filter (\<lambda>p. length (sc_lineIds p) > 0) parcels) \<noteq> length parcels")
  case True
  then show ?thesis using assms(1) spread_all_exact by (auto simp: spreadParcels_def Let_def)
next
  case False
  then have "parcels_loop items revenue tot (zero_tally revenue) parcels = Inr m"
    using assms(1) by (simp add: spreadParcels_def Let_def)
  then show ?thesis
    using False assms(2,3) by (auto intro!: parcels_loop_exact simp: parcels_tie_def tsum_zero_tally)
qed

lemma returnedWeights_keys [simp]:
  "map bucket_key (returnedWeights revenue reversals) = map lrev_orderItemId revenue"
  by (simp add: returnedWeights_def comp_def)

section \<open>The lines tie to the order\<close>

lemma order_line_facts:
  assumes "order_line ibi cbi rbi al l = Inr r"
  shows "pl_orderItemId r = lrev_orderItemId l"
    and "pl_cogsMinor r = costOf cbi (lrev_orderItemId l)"
    and "pl_reversalImpactMinor r = (case rbi (lrev_orderItemId l) of None \<Rightarrow> 0 | Some x \<Rightarrow> lvr_impactMinor x)"
    and "pl_contributionMarginMinor r =
      pl_netRevenueExVatMinor r + pl_allocatedShippingRevenueExVatMinor r + pl_allocatedCodFeeRevenueExVatMinor r
      - pl_cogsMinor r - pl_allocatedOutboundShippingMinor r - pl_allocatedReturnShippingMinor r
      - pl_allocatedGatewayFeeMinor r - pl_allocatedCodCostMinor r + pl_reversalImpactMinor r"
    and "pl_netRevenueExVatMinor r = lrev_netExVatMinor l"
    and "pl_allocatedShippingRevenueExVatMinor r = tally (la_shippingRevenue al) (lrev_orderItemId l)"
    and "pl_allocatedCodFeeRevenueExVatMinor r = tally (la_codFeeRevenue al) (lrev_orderItemId l)"
    and "pl_allocatedOutboundShippingMinor r = tally (la_outbound al) (lrev_orderItemId l)"
    and "pl_allocatedReturnShippingMinor r = tally (la_returned al) (lrev_orderItemId l)"
    and "pl_allocatedGatewayFeeMinor r = tally (la_gateway al) (lrev_orderItemId l)"
    and "pl_allocatedCodCostMinor r = tally (la_cod al) (lrev_orderItemId l)"
    and "pl_restockedCogsMinor r = (case rbi (lrev_orderItemId l) of None \<Rightarrow> 0 | Some x \<Rightarrow> lvr_restockedCogsMinor x)"
proof -
  obtain plus minus where P: "addMinor [lrev_netExVatMinor l, tally (la_shippingRevenue al) (lrev_orderItemId l),
        tally (la_codFeeRevenue al) (lrev_orderItemId l),
        case rbi (lrev_orderItemId l) of None \<Rightarrow> 0 | Some r \<Rightarrow> lvr_impactMinor r] = Inr plus"
    and M: "addMinor [costOf cbi (lrev_orderItemId l), tally (la_outbound al) (lrev_orderItemId l),
        tally (la_returned al) (lrev_orderItemId l), tally (la_gateway al) (lrev_orderItemId l),
        tally (la_cod al) (lrev_orderItemId l)] = Inr minus"
    and D: "pl_contributionMarginMinor r = plus - minus"
    using assms by (auto simp: order_line_def Let_def bindE_eq_Inr subMinor_eq_Inr simp del: sum_list.Cons)
  then have m: "pl_contributionMarginMinor r
      = lrev_netExVatMinor l + tally (la_shippingRevenue al) (lrev_orderItemId l)
        + tally (la_codFeeRevenue al) (lrev_orderItemId l)
        + (case rbi (lrev_orderItemId l) of None \<Rightarrow> 0 | Some r \<Rightarrow> lvr_impactMinor r)
        - (costOf cbi (lrev_orderItemId l) + tally (la_outbound al) (lrev_orderItemId l)
           + tally (la_returned al) (lrev_orderItemId l) + tally (la_gateway al) (lrev_orderItemId l)
           + tally (la_cod al) (lrev_orderItemId l))"
    using addMinor_sum [OF P] addMinor_sum [OF M] D by simp
  show f: "pl_orderItemId r = lrev_orderItemId l" "pl_cogsMinor r = costOf cbi (lrev_orderItemId l)"
    "pl_reversalImpactMinor r = (case rbi (lrev_orderItemId l) of None \<Rightarrow> 0 | Some x \<Rightarrow> lvr_impactMinor x)"
    "pl_netRevenueExVatMinor r = lrev_netExVatMinor l"
    "pl_allocatedShippingRevenueExVatMinor r = tally (la_shippingRevenue al) (lrev_orderItemId l)"
    "pl_allocatedCodFeeRevenueExVatMinor r = tally (la_codFeeRevenue al) (lrev_orderItemId l)"
    "pl_allocatedOutboundShippingMinor r = tally (la_outbound al) (lrev_orderItemId l)"
    "pl_allocatedReturnShippingMinor r = tally (la_returned al) (lrev_orderItemId l)"
    "pl_allocatedGatewayFeeMinor r = tally (la_gateway al) (lrev_orderItemId l)"
    "pl_allocatedCodCostMinor r = tally (la_cod al) (lrev_orderItemId l)"
    "pl_restockedCogsMinor r = (case rbi (lrev_orderItemId l) of None \<Rightarrow> 0 | Some x \<Rightarrow> lvr_restockedCogsMinor x)"
    using assms by (auto simp: order_line_def Let_def bindE_eq_Inr)
  show "pl_contributionMarginMinor r =
      pl_netRevenueExVatMinor r + pl_allocatedShippingRevenueExVatMinor r + pl_allocatedCodFeeRevenueExVatMinor r
      - pl_cogsMinor r - pl_allocatedOutboundShippingMinor r - pl_allocatedReturnShippingMinor r
      - pl_allocatedGatewayFeeMinor r - pl_allocatedCodCostMinor r + pl_reversalImpactMinor r"
    unfolding m f by simp
qed

text \<open>Reading a keyed list back through its map, in the order of the keys.\<close>

lemma keyed_sum:
  assumes "distinct (map k xs)" and "map k xs = ks"
  shows "(\<Sum>i\<leftarrow>ks. case js_map (map (\<lambda>x. (k x, x)) xs) i of None \<Rightarrow> 0 | Some x \<Rightarrow> f x) = (\<Sum>x\<leftarrow>xs. (f x :: int))"
proof -
  have "map (\<lambda>i. case js_map (map (\<lambda>x. (k x, x)) xs) i of None \<Rightarrow> 0 | Some x \<Rightarrow> f x) (map k xs) = map f xs"
    using js_map_keyed [OF assms(1), where v = "\<lambda>x. x"] by simp
  then show ?thesis using assms(2) by metis
qed

lemma sum_list_plus: "(\<Sum>x\<leftarrow>xs. f x + g x) = (\<Sum>x\<leftarrow>xs. f x) + (\<Sum>x\<leftarrow>xs. (g x :: int))"
  by (induction xs) auto

text \<open>What the caller of the allocation guarantees of its arguments.\<close>

definition lines_input_ok ::
  "line_revenue list \<Rightarrow> line_cogs list \<Rightarrow> line_reversal list \<Rightarrow> order_level_amounts \<Rightarrow> bool" where
  "lines_input_ok revenue cogs reversals amounts \<longleftrightarrow>
     distinct (map lrev_orderItemId revenue)
     \<and> map lcogs_orderItemId cogs = map lrev_orderItemId revenue
     \<and> map lvr_orderItemId reversals = map lrev_orderItemId revenue
     \<and> parcels_tie (ola_outboundParcels amounts) (ola_outboundShippingCostMinor amounts)
     \<and> parcels_tie (ola_returnParcels amounts) (ola_returnShippingCostMinor amounts)"

text \<open>A column read from a tally adds up to the tally's sum.\<close>

lemma column_exact:
  assumes "mapE f revenue = Inr lines" and "\<And>x y. f x = Inr y \<Longrightarrow> h y = tally m (lrev_orderItemId x)"
    and "tsum (map lrev_orderItemId revenue) m = t"
  shows "(\<Sum>l\<leftarrow>lines. h l) = t"
proof -
  have "map h lines = map (\<lambda>x. tally m (lrev_orderItemId x)) revenue"
    by (rule mapE_map_fst [OF assms(1,2)])
  then show ?thesis using assms(3) by (simp add: tsum_def comp_def)
qed

text \<open>Each column of the lines adds up to the order-level amount it was allocated from.\<close>

lemma allocateOrderCostsToLines_columns:
  assumes "allocateOrderCostsToLines items revenue cogs reversals amounts = Inr lines"
    and "lines_input_ok revenue cogs reversals amounts" and "revenue \<noteq> []"
  shows "map pl_orderItemId lines = map lrev_orderItemId revenue"
    and "(\<Sum>l\<leftarrow>lines. pl_netRevenueExVatMinor l) = (\<Sum>l\<leftarrow>revenue. lrev_netExVatMinor l)"
    and "(\<Sum>l\<leftarrow>lines. pl_allocatedShippingRevenueExVatMinor l) = ola_shippingRevenueExVatMinor amounts"
    and "(\<Sum>l\<leftarrow>lines. pl_allocatedCodFeeRevenueExVatMinor l) = ola_codFeeRevenueExVatMinor amounts"
    and "(\<Sum>l\<leftarrow>lines. pl_cogsMinor l) = (\<Sum>c\<leftarrow>cogs. lcogs_cogsMinor c)"
    and "(\<Sum>l\<leftarrow>lines. pl_allocatedOutboundShippingMinor l) = ola_outboundShippingCostMinor amounts"
    and "(\<Sum>l\<leftarrow>lines. pl_allocatedReturnShippingMinor l) = ola_returnShippingCostMinor amounts"
    and "(\<Sum>l\<leftarrow>lines. pl_allocatedGatewayFeeMinor l) = ola_gatewayFeeCostMinor amounts"
    and "(\<Sum>l\<leftarrow>lines. pl_allocatedCodCostMinor l) = ola_codCostMinor amounts"
    and "(\<Sum>l\<leftarrow>lines. pl_reversalImpactMinor l) = (\<Sum>r\<leftarrow>reversals. lvr_impactMinor r)"
proof -
  let ?ids = "map lrev_orderItemId revenue"
  let ?weights = "returnedWeights revenue reversals"
  have d: "distinct ?ids" and kc: "map lcogs_orderItemId cogs = ?ids" and kr: "map lvr_orderItemId reversals = ?ids"
    and po: "parcels_tie (ola_outboundParcels amounts) (ola_outboundShippingCostMinor amounts)"
    and pr: "parcels_tie (ola_returnParcels amounts) (ola_returnShippingCostMinor amounts)"
    using assms(2) by (simp_all add: lines_input_ok_def)
  obtain sr cf ob rt gw cd where
    sr: "spread_all items revenue (ola_shippingRevenueExVatMinor amounts) = Inr sr"
    and cf: "spread_all items revenue (ola_codFeeRevenueExVatMinor amounts) = Inr cf"
    and ob: "spreadParcels items revenue (ola_outboundParcels amounts) (ola_outboundShippingCostMinor amounts) = Inr ob"
    and rt: "(if list_ex (\<lambda>w. bucket_weight w > 0) ?weights
              then bindE (allocateMinor (ola_returnShippingCostMinor amounts) ?weights) (\<lambda>m. Inr (map_of m))
              else spreadParcels items revenue (ola_returnParcels amounts) (ola_returnShippingCostMinor amounts)) = Inr rt"
    and gw: "spread_all items revenue (ola_gatewayFeeCostMinor amounts) = Inr gw"
    and cd: "spread_all items revenue (ola_codCostMinor amounts) = Inr cd"
    and m: "mapE (order_line (js_map (map (\<lambda>x. (item_id x, x)) items)) (js_map (map (\<lambda>c. (lcogs_orderItemId c, c)) cogs))
              (js_map (map (\<lambda>r. (lvr_orderItemId r, r)) reversals))
              \<lparr> la_shippingRevenue = sr, la_codFeeRevenue = cf, la_outbound = ob, la_returned = rt,
                la_gateway = gw, la_cod = cd \<rparr>) revenue = Inr lines"
    using assms(1,3) by (auto simp: allocateOrderCostsToLines_def Let_def bindE_eq_Inr simp del: if_split)
  note col = mapE_map_fst [OF m]
  have rt': "tsum ?ids rt = ola_returnShippingCostMinor amounts"
  proof (cases "list_ex (\<lambda>w. bucket_weight w > 0) ?weights")
    case True
    then obtain a where a: "allocateMinor (ola_returnShippingCostMinor amounts) ?weights = Inr a" "rt = map_of a"
      using rt by (auto simp: bindE_eq_Inr)
    then show ?thesis using allocate_tsum [OF a(1) returnedWeights_keys] by simp
  next
    case False
    then show ?thesis using rt spreadParcels_exact [OF _ d pr] by simp
  qed
  show "map pl_orderItemId lines = ?ids"
    by (rule col) (rule order_line_facts(1))
  have "map pl_netRevenueExVatMinor lines = map lrev_netExVatMinor revenue"
    by (rule col) (rule order_line_facts(5))
  then show "(\<Sum>l\<leftarrow>lines. pl_netRevenueExVatMinor l) = (\<Sum>l\<leftarrow>revenue. lrev_netExVatMinor l)" by simp
  show "(\<Sum>l\<leftarrow>lines. pl_allocatedShippingRevenueExVatMinor l) = ola_shippingRevenueExVatMinor amounts"
    by (rule column_exact [OF m _ spread_all_exact [OF sr]]) (simp add: order_line_facts(6))
  show "(\<Sum>l\<leftarrow>lines. pl_allocatedCodFeeRevenueExVatMinor l) = ola_codFeeRevenueExVatMinor amounts"
    by (rule column_exact [OF m _ spread_all_exact [OF cf]]) (simp add: order_line_facts(7))
  have "map pl_cogsMinor lines = map (\<lambda>i. costOf (cogs_map cogs) i) ?ids"
    unfolding map_map by (rule col) (simp add: order_line_facts(2) cogs_map_def)
  then show "(\<Sum>l\<leftarrow>lines. pl_cogsMinor l) = (\<Sum>c\<leftarrow>cogs. lcogs_cogsMinor c)"
    using keyed_sum [of lcogs_orderItemId cogs ?ids lcogs_cogsMinor] d kc
    by (simp add: costOf_def cogs_map_def)
  show "(\<Sum>l\<leftarrow>lines. pl_allocatedOutboundShippingMinor l) = ola_outboundShippingCostMinor amounts"
    by (rule column_exact [OF m _ spreadParcels_exact [OF ob d po]]) (simp add: order_line_facts(8))
  show "(\<Sum>l\<leftarrow>lines. pl_allocatedReturnShippingMinor l) = ola_returnShippingCostMinor amounts"
    by (rule column_exact [OF m _ rt']) (simp add: order_line_facts(9))
  show "(\<Sum>l\<leftarrow>lines. pl_allocatedGatewayFeeMinor l) = ola_gatewayFeeCostMinor amounts"
    by (rule column_exact [OF m _ spread_all_exact [OF gw]]) (simp add: order_line_facts(10))
  show "(\<Sum>l\<leftarrow>lines. pl_allocatedCodCostMinor l) = ola_codCostMinor amounts"
    by (rule column_exact [OF m _ spread_all_exact [OF cd]]) (simp add: order_line_facts(11))
  have "map pl_reversalImpactMinor lines
      = map (\<lambda>i. case js_map (map (\<lambda>r. (lvr_orderItemId r, r)) reversals) i of None \<Rightarrow> 0 | Some x \<Rightarrow> lvr_impactMinor x) ?ids"
    unfolding map_map by (rule col) (simp add: order_line_facts(3))
  then show "(\<Sum>l\<leftarrow>lines. pl_reversalImpactMinor l) = (\<Sum>r\<leftarrow>reversals. lvr_impactMinor r)"
    using keyed_sum [of lvr_orderItemId reversals ?ids lvr_impactMinor] d kr by simp
qed

text \<open>Hence the margins of the lines add up to the margin of the order, to the halala.\<close>

lemma allocateOrderCostsToLines_tie:
  assumes "allocateOrderCostsToLines items revenue cogs reversals amounts = Inr lines"
    and "lines_input_ok revenue cogs reversals amounts" and "revenue \<noteq> []"
  shows "(\<Sum>l\<leftarrow>lines. pl_contributionMarginMinor l) =
     (\<Sum>l\<leftarrow>revenue. lrev_netExVatMinor l) + ola_shippingRevenueExVatMinor amounts
     + ola_codFeeRevenueExVatMinor amounts - (\<Sum>c\<leftarrow>cogs. lcogs_cogsMinor c)
     - ola_outboundShippingCostMinor amounts - ola_returnShippingCostMinor amounts
     - ola_gatewayFeeCostMinor amounts - ola_codCostMinor amounts + (\<Sum>r\<leftarrow>reversals. lvr_impactMinor r)"
proof -
  have "pl_contributionMarginMinor l =
      pl_netRevenueExVatMinor l + pl_allocatedShippingRevenueExVatMinor l + pl_allocatedCodFeeRevenueExVatMinor l
      - pl_cogsMinor l - pl_allocatedOutboundShippingMinor l - pl_allocatedReturnShippingMinor l
      - pl_allocatedGatewayFeeMinor l - pl_allocatedCodCostMinor l + pl_reversalImpactMinor l"
    if mem: "l \<in> set lines" for l
  proof -
    obtain ibi cbi rbi al where "mapE (order_line ibi cbi rbi al) revenue = Inr lines"
      using assms(1,3) by (auto simp: allocateOrderCostsToLines_def Let_def bindE_eq_Inr simp del: if_split)
    from mapE_in_set [OF this mem] show ?thesis using order_line_facts(4) by metis
  qed
  then have "(\<Sum>l\<leftarrow>lines. pl_contributionMarginMinor l) = (\<Sum>l\<leftarrow>lines.
      pl_netRevenueExVatMinor l + pl_allocatedShippingRevenueExVatMinor l + pl_allocatedCodFeeRevenueExVatMinor l
      - pl_cogsMinor l - pl_allocatedOutboundShippingMinor l - pl_allocatedReturnShippingMinor l
      - pl_allocatedGatewayFeeMinor l - pl_allocatedCodCostMinor l + pl_reversalImpactMinor l)"
    by (metis (no_types, lifting) map_eq_conv)
  also have "\<dots> = (\<Sum>l\<leftarrow>revenue. lrev_netExVatMinor l) + ola_shippingRevenueExVatMinor amounts
     + ola_codFeeRevenueExVatMinor amounts - (\<Sum>c\<leftarrow>cogs. lcogs_cogsMinor c)
     - ola_outboundShippingCostMinor amounts - ola_returnShippingCostMinor amounts
     - ola_gatewayFeeCostMinor amounts - ola_codCostMinor amounts + (\<Sum>r\<leftarrow>reversals. lvr_impactMinor r)"
    unfolding sum_list_plus sum_list_diff
    by (simp only: allocateOrderCostsToLines_columns [OF assms])
  finally show ?thesis .
qed

end
