(* ===== verification/Fees.thy ===== *)
theory Fees
  imports Normalize Confidence
begin

text \<open>
  The one formula behind every fee, \<open>packages/core/src/engine/fee.ts\<close>: a percentage plus a fixed
  part, clamped, and the VAT charged on it.
\<close>

record applied_fee =
  fee_exVatMinor :: int
  fee_vatMinor :: int
  fee_costMinor :: int

definition NO_FEE :: applied_fee where
  "NO_FEE = \<lparr> fee_exVatMinor = 0, fee_vatMinor = 0, fee_costMinor = 0 \<rparr>"

definition applyFeeFormula :: "int \<Rightarrow> (int, 'z) fee_formula_scheme \<Rightarrow> bool \<Rightarrow> applied_fee outcome" where
  "applyFeeFormula base formula vatRegistered =
     bindE (mulBps base (fee_percentBps formula)) (\<lambda>part.
     bindE (addMinor [part, fee_fixedMinor formula]) (\<lambda>raw.
     bindE (clampMinor raw (fee_minFeeMinor formula) (fee_maxFeeMinor formula)) (\<lambda>clamped.
     bindE (if fee_ratesIncludeVat formula
            then bindE (splitVatInclusive clamped (fee_feeVatBps formula)) (\<lambda>s. Inr (fst s))
            else Inr clamped) (\<lambda>exVat.
     bindE (if fee_ratesIncludeVat formula then subMinor clamped exVat
            else mulBps clamped (fee_feeVatBps formula)) (\<lambda>vat.
     bindE (if vatRegistered then Inr exVat else addMinor [exVat, vat]) (\<lambda>cost.
     Inr \<lparr> fee_exVatMinor = exVat, fee_vatMinor = vat, fee_costMinor = cost \<rparr>))))))"

definition basisOfFeeSource :: "fee_source \<Rightarrow> term_basis" where
  "basisOfFeeSource source = (if source = FE_gateway_statement then TB_actual else TB_estimated)"

section \<open>The formula the validator admits\<close>

definition formula_ok :: "(int, 'z) fee_formula_scheme \<Rightarrow> bool" where
  "formula_ok f \<longleftrightarrow> 0 \<le> fee_percentBps f \<and> 0 \<le> fee_fixedMinor f
     \<and> 0 \<le> fee_feeVatBps f \<and> fee_feeVatBps f \<le> 10000
     \<and> (\<forall>lo. fee_minFeeMinor f = Some lo \<longrightarrow> 0 \<le> lo) \<and> (\<forall>hi. fee_maxFeeMinor f = Some hi \<longrightarrow> 0 \<le> hi)
     \<and> (\<forall>lo hi. fee_minFeeMinor f = Some lo \<longrightarrow> fee_maxFeeMinor f = Some hi \<longrightarrow> lo \<le> hi)"

lemma formula_ok_gateway: "feeFormulaIsValid r \<Longrightarrow> formula_ok (int_gateway_rule r)"
  by (auto simp: feeFormulaIsValid_def formula_ok_def int_gateway_rule_def split: if_splits option.splits)

lemma formula_ok_cod: "feeFormulaIsValid r \<Longrightarrow> formula_ok (int_cod_rule r)"
  by (auto simp: feeFormulaIsValid_def formula_ok_def int_cod_rule_def split: if_splits option.splits)

section \<open>What a fee is made of\<close>

text \<open>The fee before VAT is worked out: percentage plus fixed part within the formula's bounds.\<close>

definition clamp_int :: "int option \<Rightarrow> int option \<Rightarrow> int \<Rightarrow> int" where
  "clamp_int mn mx v =
     (let u = (case mn of Some m \<Rightarrow> max m v | None \<Rightarrow> v) in case mx of Some m \<Rightarrow> min m u | None \<Rightarrow> u)"

definition charged :: "int \<Rightarrow> (int, 'z) fee_formula_scheme \<Rightarrow> int" where
  "charged base f = clamp_int (fee_minFeeMinor f) (fee_maxFeeMinor f)
     (round_half_away (base * fee_percentBps f) 10000 + fee_fixedMinor f)"

lemma clampMinor_clamp_int: "clampMinor v mn mx = Inr r \<longleftrightarrow> in_range (clamp_int mn mx v) \<and> r = clamp_int mn mx v"
  by (auto simp: clampMinor_def clamp_int_def Let_def to_minor_eq_Inr max_def min_def split: option.splits)

lemma clamp_int_mono: "u \<le> v \<Longrightarrow> clamp_int mn mx u \<le> clamp_int mn mx v"
  by (auto simp: clamp_int_def Let_def split: option.splits)

lemma charged_mono: "0 \<le> a \<Longrightarrow> a \<le> b \<Longrightarrow> 0 \<le> fee_percentBps f \<Longrightarrow> charged a f \<le> charged b f"
  unfolding charged_def
  by (intro clamp_int_mono add_right_mono round_half_away_mono) (simp_all add: mult_right_mono)

lemma charged_nonneg: "formula_ok f \<Longrightarrow> 0 \<le> base \<Longrightarrow> 0 \<le> charged base f"
  using round_half_away_nonneg [of "base * fee_percentBps f" 10000]
  by (auto simp: charged_def clamp_int_def formula_ok_def Let_def split: option.splits)

lemma charged_bounds:
  assumes "formula_ok f"
  shows "fee_maxFeeMinor f = Some hi \<Longrightarrow> charged base f \<le> hi"
    and "fee_minFeeMinor f = Some lo \<Longrightarrow> lo \<le> charged base f"
  using assms by (auto simp: charged_def clamp_int_def formula_ok_def Let_def split: option.splits)

lemma applyFeeFormula_Inr:
  assumes "applyFeeFormula base f reg = Inr fee"
  shows "fee_ratesIncludeVat f \<Longrightarrow> fee_exVatMinor fee + fee_vatMinor fee = charged base f"
    and "fee_ratesIncludeVat f \<Longrightarrow>
          fee_exVatMinor fee = round_half_away (charged base f * 10000) (10000 + fee_feeVatBps f)"
    and "\<not> fee_ratesIncludeVat f \<Longrightarrow> fee_exVatMinor fee = charged base f"
    and "\<not> fee_ratesIncludeVat f \<Longrightarrow>
          fee_vatMinor fee = round_half_away (charged base f * fee_feeVatBps f) 10000"
    and "fee_costMinor fee = fee_exVatMinor fee + (if reg then 0 else fee_vatMinor fee)"
  using assms
  by (auto simp: applyFeeFormula_def bindE_eq_Inr clampMinor_clamp_int charged_def mulBps_Inr
      subMinor_eq_Inr splitVatInclusive_def to_minor_eq_Inr divRound_eq_Inr split: if_splits
      dest!: addMinor_sum)

text \<open>The cost never falls when the base grows: a larger order is never cheaper to collect.\<close>

lemma applyFeeFormula_mono:
  assumes "formula_ok f" and "0 \<le> a" and "a \<le> b"
    and A: "applyFeeFormula a f reg = Inr x" and B: "applyFeeFormula b f reg = Inr y"
  shows "fee_costMinor x \<le> fee_costMinor y"
proof -
  have p: "0 \<le> fee_percentBps f" and v: "0 \<le> fee_feeVatBps f"
    using assms(1) by (auto simp: formula_ok_def)
  have c: "charged a f \<le> charged b f" and n: "0 \<le> charged a f"
    using charged_mono [OF assms(2,3) p] charged_nonneg [OF assms(1,2)] by simp_all
  show ?thesis
  proof (cases "fee_ratesIncludeVat f")
    case True
    have "round_half_away (charged a f * 10000) (10000 + fee_feeVatBps f)
        \<le> round_half_away (charged b f * 10000) (10000 + fee_feeVatBps f)"
      using c n v by (intro round_half_away_mono) auto
    then show ?thesis
      using applyFeeFormula_Inr(1,2,5) [OF A] applyFeeFormula_Inr(1,2,5) [OF B] True c by auto
  next
    case False
    have "round_half_away (charged a f * fee_feeVatBps f) 10000
        \<le> round_half_away (charged b f * fee_feeVatBps f) 10000"
      using c n v by (intro round_half_away_mono) (auto intro: mult_right_mono)
    then show ?thesis
      using applyFeeFormula_Inr(3,4,5) [OF A] applyFeeFormula_Inr(3,4,5) [OF B] False c by auto
  qed
qed

text \<open>No part of a fee on a non-negative amount is negative, so VAT never lowers a cost.\<close>

lemma applyFeeFormula_nonneg:
  assumes "formula_ok f" and "0 \<le> base" and A: "applyFeeFormula base f reg = Inr fee"
  shows "0 \<le> fee_exVatMinor fee \<and> 0 \<le> fee_vatMinor fee \<and> fee_exVatMinor fee \<le> fee_costMinor fee"
proof -
  have v: "0 \<le> fee_feeVatBps f"
    using assms(1) by (auto simp: formula_ok_def)
  have n: "0 \<le> charged base f"
    by (rule charged_nonneg [OF assms(1,2)])
  show ?thesis
  proof (cases "fee_ratesIncludeVat f")
    case True
    have "charged base f * 10000 \<le> (10000 + fee_feeVatBps f) * charged base f"
      using n v by (simp add: distrib_right)
    then have "round_half_away (charged base f * 10000) (10000 + fee_feeVatBps f) \<le> charged base f"
      using n v by (intro round_half_away_le) auto
    moreover have "0 \<le> round_half_away (charged base f * 10000) (10000 + fee_feeVatBps f)"
      using n v by (intro round_half_away_nonneg) auto
    ultimately show ?thesis
      using applyFeeFormula_Inr(1,2,5) [OF A] True by auto
  next
    case False
    have "0 \<le> round_half_away (charged base f * fee_feeVatBps f) 10000"
      using n v by (intro round_half_away_nonneg) auto
    then show ?thesis
      using applyFeeFormula_Inr(3,4,5) [OF A] False n by auto
  qed
qed

end
