(* ===== verification/Gateway.thy ===== *)
theory Gateway
  imports Fees RuleSearch
begin

text \<open>
  Processor fees per captured leg, \<open>packages/core/src/engine/gateway.ts\<close>. A leg is priced by the
  most specific rule; when the card network is not known, by the most expensive candidate of the
  most specific tier.
\<close>

record gateway_fees =
  gf_exVatMinor :: int
  gf_vatMinor :: int
  gf_costMinor :: int
  gf_basis :: term_basis

definition CHARGEABLE :: "payment_breakdown \<Rightarrow> bool" where
  "CHARGEABLE payment \<longleftrightarrow>
     pay_state payment = PL_captured \<and> pay_instrument payment \<noteq> PI_cod \<and> pay_instrument payment \<noteq> PI_free"

definition matches :: "'n gateway_fee_rule \<Rightarrow> payment_breakdown \<Rightarrow> card_scheme option \<Rightarrow> bool" where
  "matches rule payment scheme =
     (if gw_instrument rule \<noteq> None \<and> gw_instrument rule \<noteq> Some (pay_instrument payment) then False
      else if gw_scheme rule \<noteq> None \<and> gw_scheme rule \<noteq> scheme then False
      else if gw_provider rule \<noteq> None \<and> gw_provider rule \<noteq> pay_provider payment then False
      else True)"

definition specificity :: "'n gateway_fee_rule \<Rightarrow> int" where
  "specificity rule =
     (if gw_instrument rule \<noteq> None then 4 else 0) + (if gw_scheme rule \<noteq> None then 2 else 0)
     + (if gw_provider rule \<noteq> None then 1 else 0)"

definition bestRule ::
  "'n gateway_fee_rule list \<Rightarrow> payment_breakdown \<Rightarrow> card_scheme option \<Rightarrow> 'n gateway_fee_rule option" where
  "bestRule rules payment scheme = best_match (\<lambda>rule. matches rule payment scheme) specificity rules"

definition schemeCandidates ::
  "'n gateway_fee_rule list \<Rightarrow> payment_breakdown \<Rightarrow> 'n gateway_fee_rule list" where
  "schemeCandidates rules payment =
     (let eligible = filter (\<lambda>r.
            (gw_instrument r = None \<or> gw_instrument r = Some (pay_instrument payment))
            \<and> (gw_provider r = None \<or> gw_provider r = pay_provider payment)) rules
      in if eligible = [] then []
         else let top = Max (set (map specificity eligible))
              in filter (\<lambda>r. specificity r = top) eligible)"

text \<open>One round of \<open>candidates.reduce\<close>: the candidate wins only when it costs strictly more.\<close>

definition dearer_of ::
  "int \<Rightarrow> bool \<Rightarrow> int gateway_fee_rule \<Rightarrow> int gateway_fee_rule \<Rightarrow> int gateway_fee_rule outcome" where
  "dearer_of amount vatRegistered worst candidate =
     bindE (applyFeeFormula amount candidate vatRegistered) (\<lambda>c.
     bindE (applyFeeFormula amount worst vatRegistered) (\<lambda>w.
     Inr (if fee_costMinor c > fee_costMinor w then candidate else worst)))"

definition most_expensive ::
  "int \<Rightarrow> bool \<Rightarrow> int gateway_fee_rule list \<Rightarrow> int gateway_fee_rule option outcome" where
  "most_expensive amount vatRegistered candidates =
     (case candidates of
        [] \<Rightarrow> Inr None
      | c # cs \<Rightarrow> bindE (foldE (dearer_of amount vatRegistered) c cs) (\<lambda>r. Inr (Some r)))"

definition schemeUnknown :: "payment_breakdown \<Rightarrow> bool" where
  "schemeUnknown payment \<longleftrightarrow>
     pay_instrument payment = PI_card \<and> (pay_scheme payment = None \<or> pay_scheme payment = Some CS_unknown)"

definition leg_rule ::
  "int gateway_fee_rule list \<Rightarrow> bool \<Rightarrow> payment_breakdown \<Rightarrow> int gateway_fee_rule option outcome" where
  "leg_rule rules vatRegistered payment =
     (if schemeUnknown payment
      then most_expensive (pay_amountGrossMinor payment) vatRegistered (schemeCandidates rules payment)
      else Inr (bestRule rules payment (pay_scheme payment)))"

record gateway_loop =
  gl_applied :: "applied_fee list"
  gl_anyMissing :: bool
  gl_worstBasis :: term_basis
  gl_diagnostics :: "diagnostic list"

text \<open>The body of \<open>order.payments.forEach\<close>.\<close>

definition gateway_step ::
  "int gateway_fee_rule list \<Rightarrow> bool \<Rightarrow> gateway_loop \<Rightarrow> nat \<times> payment_breakdown \<Rightarrow> gateway_loop outcome" where
  "gateway_step rules vatRegistered st leg =
     (let index = fst leg; payment = snd leg in
      if \<not> CHARGEABLE payment then Inr st
      else
        let ds1 = (if pay_instrument payment = PI_unknown \<or> pay_instrument payment = PI_other
                   then [diagnostic UNKNOWN_PAYMENT_INSTRUMENT (OnPayment index)] else []);
            ds2 = (if schemeUnknown payment then [diagnostic CARD_SCHEME_UNKNOWN (OnPayment index)] else [])
        in bindE (leg_rule rules vatRegistered payment) (\<lambda>found.
           case found of
             None \<Rightarrow> Inr (st\<lparr> gl_anyMissing := True,
                gl_diagnostics := gl_diagnostics st @ ds1 @ ds2
                  @ [diagnostic FEE_RULE_MISSING (OnPayment index)] \<rparr>)
           | Some rule \<Rightarrow>
               let ds3 = (if fee_source rule = FE_default_table
                          then [diagnostic FEE_RULE_DEFAULT_USED (OnPayment index)] else []);
                   basis = (if schemeUnknown payment then TB_estimated else basisOfFeeSource (fee_source rule));
                   worst = (if basis = TB_estimated \<and> gl_worstBasis st = TB_actual then TB_estimated
                            else gl_worstBasis st)
               in bindE (applyFeeFormula (pay_amountGrossMinor payment) rule vatRegistered) (\<lambda>fee.
                  Inr (st\<lparr> gl_applied := gl_applied st @ [fee], gl_worstBasis := worst,
                     gl_diagnostics := gl_diagnostics st @ ds1 @ ds2 @ ds3 \<rparr>))))"

definition computeGatewayFees ::
  "int canonical_order \<Rightarrow> int gateway_fee_rule list \<Rightarrow> bool \<Rightarrow> gateway_fees computed outcome" where
  "computeGatewayFees order rules vatRegistered =
     bindE (addMinor (map pay_amountGrossMinor
              (filter (\<lambda>p. pay_state p = PL_captured) (order_payments order)))) (\<lambda>captured.
     let underMapped = (order_paymentState order = PS_paid \<and> captured < order_totalIncVatMinor order);
         ds0 = (if underMapped then [onOrder PAYMENT_LEGS_UNDER_TOTAL] else [])
     in if filter CHARGEABLE (order_payments order) = []
        then Inr (\<lparr> gf_exVatMinor = 0, gf_vatMinor = 0, gf_costMinor = 0,
                    gf_basis = (if underMapped then TB_missing else TB_not_applicable) \<rparr>, ds0)
        else
          bindE (foldE (gateway_step rules vatRegistered)
                  \<lparr> gl_applied = [], gl_anyMissing = False, gl_worstBasis = TB_actual, gl_diagnostics = ds0 \<rparr>
                  (enumerate 0 (order_payments order))) (\<lambda>st.
          bindE (addMinor (map fee_exVatMinor (gl_applied st))) (\<lambda>exVat.
          bindE (addMinor (map fee_vatMinor (gl_applied st))) (\<lambda>vat.
          bindE (addMinor (map fee_costMinor (gl_applied st))) (\<lambda>cost.
          Inr (\<lparr> gf_exVatMinor = exVat, gf_vatMinor = vat, gf_costMinor = cost,
                 gf_basis = (if gl_anyMissing st \<or> underMapped then TB_missing else gl_worstBasis st) \<rparr>,
               gl_diagnostics st))))))"

section \<open>The search contract\<close>

lemma specificity_nonneg: "0 \<le> specificity r"
  by (simp add: specificity_def)

interpretation gateway_search: specificity_search
  "\<lambda>(q :: payment_breakdown \<times> card_scheme option) r. matches r (fst q) (snd q)" specificity gateway_rule_key
  "\<lambda>rs q. bestRule rs (fst q) (snd q)"
proof (unfold_locales, goal_cases)
  case (1 rs q)
  then show ?case by (simp add: bestRule_def best_match_None [OF specificity_nonneg])
next
  case (2 rs q r)
  then show ?case using best_match_Some [OF specificity_nonneg] by (fastforce simp: bestRule_def)
next
  case (3 q r r')
  have none: "(gw_instrument r = None) = (gw_instrument r' = None)" "(gw_scheme r = None) = (gw_scheme r' = None)"
    "(gw_provider r = None) = (gw_provider r' = None)"
    using 3(3) by (auto simp: specificity_def split: if_splits)
  have val: "gw_instrument x \<noteq> None \<longrightarrow> gw_instrument x = Some (pay_instrument (fst q))"
    "gw_scheme x \<noteq> None \<longrightarrow> gw_scheme x = snd q" "gw_provider x \<noteq> None \<longrightarrow> gw_provider x = pay_provider (fst q)"
    if "matches x (fst q) (snd q)" for x :: "'a gateway_fee_rule"
    using that unfolding matches_def by metis+
  have "gw_instrument r = gw_instrument r' \<and> gw_scheme r = gw_scheme r' \<and> gw_provider r = gw_provider r'"
    using none val [OF 3(1)] val [OF 3(2)] by metis
  then show ?case by (simp add: gateway_rule_key_def)
qed

section \<open>The dearest candidate\<close>

lemma dearer_of_Inr:
  "dearer_of a reg w c = Inr r \<Longrightarrow>
     (r = w \<or> r = c) \<and> (\<forall>x fx fr. (x = w \<or> x = c) \<longrightarrow> applyFeeFormula a x reg = Inr fx \<longrightarrow>
        applyFeeFormula a r reg = Inr fr \<longrightarrow> fee_costMinor fx \<le> fee_costMinor fr)
     \<and> (\<exists>fr. applyFeeFormula a r reg = Inr fr)"
  by (auto simp: dearer_of_def bindE_eq_Inr split: if_splits)

lemma dearer_fold:
  assumes "foldE (dearer_of a reg) w cs = Inr r"
  shows "r \<in> insert w (set cs) \<and>
     (\<forall>x fx fr. x \<in> insert w (set cs) \<longrightarrow> applyFeeFormula a x reg = Inr fx \<longrightarrow>
        applyFeeFormula a r reg = Inr fr \<longrightarrow> fee_costMinor fx \<le> fee_costMinor fr)"
  using assms
proof (induction cs arbitrary: w)
  case Nil
  then show ?case by auto
next
  case (Cons c cs)
  obtain m where m: "dearer_of a reg w c = Inr m" "foldE (dearer_of a reg) m cs = Inr r"
    using Cons.prems by (auto simp: bindE_eq_Inr)
  note ih = Cons.IH [OF m(2)] and step = dearer_of_Inr [OF m(1)]
  obtain fm where fm: "applyFeeFormula a m reg = Inr fm" using step by blast
  have "fee_costMinor fx \<le> fee_costMinor fr"
    if "x \<in> insert w (set (c # cs))" "applyFeeFormula a x reg = Inr fx" "applyFeeFormula a r reg = Inr fr"
    for x fx fr
  proof (cases "x = w \<or> x = c")
    case True
    then have "fee_costMinor fx \<le> fee_costMinor fm" using step that(2) fm by blast
    also have "\<dots> \<le> fee_costMinor fr" using ih fm that(3) by blast
    finally show ?thesis .
  next
    case False
    then show ?thesis using ih that by auto
  qed
  then show ?case using ih step by auto
qed

lemma most_expensive_mem:
  "most_expensive a reg cs = Inr (Some r) \<Longrightarrow> r \<in> set cs"
  using dearer_fold by (fastforce simp: most_expensive_def bindE_eq_Inr split: list.splits)

lemma most_expensive_bound:
  assumes "most_expensive a reg cs = Inr (Some r)" and "c \<in> set cs"
    and "applyFeeFormula a c reg = Inr fc" and "applyFeeFormula a r reg = Inr fr"
  shows "fee_costMinor fc \<le> fee_costMinor fr"
  using assms dearer_fold
  by (auto simp: most_expensive_def bindE_eq_Inr split: list.splits)

lemma most_expensive_None: "most_expensive a reg cs = Inr None \<longleftrightarrow> cs = []"
  by (auto simp: most_expensive_def bindE_eq_Inr split: list.splits)

text \<open>A candidate is a rule of the table that the leg matches under some scheme.\<close>

lemma schemeCandidates_matches:
  assumes "r \<in> set (schemeCandidates rules payment)"
  shows "r \<in> set rules \<and> (\<exists>s. matches r payment s)"
proof
  show "r \<in> set rules"
    using assms by (auto simp: schemeCandidates_def Let_def split: if_splits)
  have "matches r payment (gw_scheme r)"
    using assms by (auto simp: schemeCandidates_def matches_def Let_def split: if_splits)
  then show "\<exists>s. matches r payment s" by blast
qed

text \<open>
  Conversely, what would price the leg under a known scheme is a candidate when it is of the top
  tier, so the price taken bounds it.
\<close>

lemma schemeCandidates_complete:
  assumes "r \<in> set rules" and "matches r payment s"
    and top: "\<And>x t. x \<in> set rules \<Longrightarrow> matches x payment t \<Longrightarrow> specificity x \<le> specificity r"
  shows "r \<in> set (schemeCandidates rules payment)"
proof -
  let ?E = "filter (\<lambda>r. (gw_instrument r = None \<or> gw_instrument r = Some (pay_instrument payment))
      \<and> (gw_provider r = None \<or> gw_provider r = pay_provider payment)) rules"
  have r: "r \<in> set ?E" using assms(1,2) by (auto simp: matches_def split: if_splits)
  have "specificity x \<le> specificity r" if "x \<in> set ?E" for x
    using that top [of x "gw_scheme x"] by (auto simp: matches_def)
  then have "Max (set (map specificity ?E)) = specificity r"
    using r by (intro Max_eqI) auto
  moreover have "?E \<noteq> []" using r by (metis empty_iff list.set(1))
  ultimately show ?thesis using r by (simp add: schemeCandidates_def Let_def del: filter_set)
qed

section \<open>The sum over the legs\<close>

text \<open>The three ways a round ends.\<close>

lemma gateway_step_cases:
  assumes "gateway_step rules reg st leg = Inr st'"
  obtains (skipped) "\<not> CHARGEABLE (snd leg)" and "st' = st"
  | (unpriced) ws where "CHARGEABLE (snd leg)" and "leg_rule rules reg (snd leg) = Inr None"
      and "gl_anyMissing st'" and "gl_applied st' = gl_applied st" and "gl_worstBasis st' = gl_worstBasis st"
      and "gl_diagnostics st' = gl_diagnostics st @ ws" and "all_warnings ws"
  | (priced) rule fee ws where "CHARGEABLE (snd leg)" and "leg_rule rules reg (snd leg) = Inr (Some rule)"
      and "applyFeeFormula (pay_amountGrossMinor (snd leg)) rule reg = Inr fee"
      and "gl_anyMissing st' = gl_anyMissing st" and "gl_applied st' = gl_applied st @ [fee]"
      and "gl_diagnostics st' = gl_diagnostics st @ ws" and "all_warnings ws"
proof (cases "CHARGEABLE (snd leg)")
  case False
  then show thesis using assms by (intro skipped) (simp_all add: gateway_step_def Let_def)
next
  case chargeable: True
  then obtain found where found: "leg_rule rules reg (snd leg) = Inr found"
    using assms by (auto simp: gateway_step_def Let_def bindE_eq_Inr simp del: if_split)
  show thesis
  proof (cases found)
    case None
    let ?ws = "(if pay_instrument (snd leg) = PI_unknown \<or> pay_instrument (snd leg) = PI_other
          then [diagnostic UNKNOWN_PAYMENT_INSTRUMENT (OnPayment (fst leg))] else [])
        @ (if schemeUnknown (snd leg) then [diagnostic CARD_SCHEME_UNKNOWN (OnPayment (fst leg))] else [])
        @ [diagnostic FEE_RULE_MISSING (OnPayment (fst leg))]"
    have st': "st' = st\<lparr> gl_anyMissing := True, gl_diagnostics := gl_diagnostics st @ ?ws \<rparr>"
      using assms chargeable found None by (simp add: gateway_step_def Let_def del: if_split)
    have "all_warnings ?ws" by simp
    then show thesis
      using chargeable found None st' by (intro unpriced [of ?ws]) (simp_all del: if_split append.simps)
  next
    case (Some rule)
    then obtain fee where fee: "applyFeeFormula (pay_amountGrossMinor (snd leg)) rule reg = Inr fee"
      using assms chargeable found by (auto simp: gateway_step_def Let_def bindE_eq_Inr simp del: if_split)
    let ?ws = "(if pay_instrument (snd leg) = PI_unknown \<or> pay_instrument (snd leg) = PI_other
          then [diagnostic UNKNOWN_PAYMENT_INSTRUMENT (OnPayment (fst leg))] else [])
        @ (if schemeUnknown (snd leg) then [diagnostic CARD_SCHEME_UNKNOWN (OnPayment (fst leg))] else [])
        @ (if fee_source rule = FE_default_table
           then [diagnostic FEE_RULE_DEFAULT_USED (OnPayment (fst leg))] else [])"
    have st': "gl_applied st' = gl_applied st @ [fee]" "gl_diagnostics st' = gl_diagnostics st @ ?ws"
      "gl_anyMissing st' = gl_anyMissing st"
      using assms chargeable found Some fee by (auto simp: gateway_step_def Let_def simp del: if_split)
    have "all_warnings ?ws" by simp
    then show thesis
      using chargeable found Some fee st' by (intro priced [of rule fee ?ws]) (simp_all del: if_split append.simps)
  qed
qed

lemma gateway_step_warnings:
  assumes "gateway_step rules reg st leg = Inr st'" and "all_warnings (gl_diagnostics st)"
  shows "all_warnings (gl_diagnostics st')"
  using assms(1) by (cases rule: gateway_step_cases) (use assms(2) in simp_all)

lemma computeGatewayFees_warnings:
  assumes "computeGatewayFees order rules reg = Inr (g, ds)"
  shows "all_warnings ds"
proof (cases "filter CHARGEABLE (order_payments order) = []")
  case True
  then show ?thesis using assms by (auto simp: computeGatewayFees_def bindE_eq_Inr Let_def)
next
  case False
  then obtain st ds0 where st: "foldE (gateway_step rules reg)
        \<lparr> gl_applied = [], gl_anyMissing = False, gl_worstBasis = TB_actual,
          gl_diagnostics = (if ds0 then [onOrder PAYMENT_LEGS_UNDER_TOTAL] else []) \<rparr>
        (enumerate 0 (order_payments order)) = Inr st" and ds: "ds = gl_diagnostics st"
    using assms by (auto simp: computeGatewayFees_def bindE_eq_Inr Let_def simp del: enumerate_simps if_split)
  have "all_warnings (gl_diagnostics st)"
    by (rule foldE_invariant [OF st]) (auto intro: gateway_step_warnings)
  then show ?thesis using ds by simp
qed

text \<open>Every leg adds a fee or the basis is \<open>missing\<close>: no captured leg is priced at zero silently.\<close>

lemma gateway_loop_count:
  assumes "foldE (gateway_step rules reg) st legs = Inr st'"
  shows "(gl_anyMissing st \<longrightarrow> gl_anyMissing st') \<and> (\<not> gl_anyMissing st' \<longrightarrow>
     length (gl_applied st') = length (gl_applied st) + length (filter (\<lambda>l. CHARGEABLE (snd l)) legs))"
  using assms
proof (induction legs arbitrary: st)
  case Nil
  then show ?case by simp
next
  case (Cons l legs)
  obtain m where m: "gateway_step rules reg st l = Inr m" "foldE (gateway_step rules reg) m legs = Inr st'"
    using Cons.prems by (auto simp: bindE_eq_Inr)
  from m(1) Cons.IH [OF m(2)] show ?case
    by (cases rule: gateway_step_cases) simp_all
qed

text \<open>The cost is the ex-VAT fee plus the VAT, unless the store reclaims it.\<close>

definition fee_split_ok :: "bool \<Rightarrow> applied_fee \<Rightarrow> bool" where
  "fee_split_ok reg f \<longleftrightarrow> fee_costMinor f = fee_exVatMinor f + (if reg then 0 else fee_vatMinor f)"

lemma sum_fee_split:
  "\<forall>f \<in> set fs. fee_split_ok reg f \<Longrightarrow>
     (\<Sum>f\<leftarrow>fs. fee_costMinor f) = (\<Sum>f\<leftarrow>fs. fee_exVatMinor f) + (if reg then 0 else (\<Sum>f\<leftarrow>fs. fee_vatMinor f))"
  by (induction fs) (auto simp: fee_split_ok_def)

lemma gateway_step_split:
  assumes "gateway_step rules reg st leg = Inr st'" and "\<forall>f \<in> set (gl_applied st). fee_split_ok reg f"
  shows "\<forall>f \<in> set (gl_applied st'). fee_split_ok reg f"
  using assms(1)
proof (cases rule: gateway_step_cases)
  case skipped
  then show ?thesis using assms(2) by simp
next
  case (unpriced ws)
  then show ?thesis using assms(2) by simp
next
  case (priced rule fee ws)
  then show ?thesis using assms(2) applyFeeFormula_Inr(5) [OF priced(3)] by (simp add: fee_split_ok_def)
qed

lemma computeGatewayFees_split:
  assumes "computeGatewayFees order rules reg = Inr (g, ds)"
  shows "gf_costMinor g = gf_exVatMinor g + (if reg then 0 else gf_vatMinor g)"
proof (cases "filter CHARGEABLE (order_payments order) = []")
  case True
  then show ?thesis using assms by (auto simp: computeGatewayFees_def bindE_eq_Inr Let_def)
next
  case False
  then obtain st ds0 where st: "foldE (gateway_step rules reg)
        \<lparr> gl_applied = [], gl_anyMissing = False, gl_worstBasis = TB_actual, gl_diagnostics = ds0 \<rparr>
        (enumerate 0 (order_payments order)) = Inr st"
    and g: "addMinor (map fee_exVatMinor (gl_applied st)) = Inr (gf_exVatMinor g)"
      "addMinor (map fee_vatMinor (gl_applied st)) = Inr (gf_vatMinor g)"
      "addMinor (map fee_costMinor (gl_applied st)) = Inr (gf_costMinor g)"
    using assms by (auto simp: computeGatewayFees_def bindE_eq_Inr Let_def simp del: enumerate_simps)
  have "\<forall>f \<in> set (gl_applied st). fee_split_ok reg f"
    by (rule foldE_invariant [OF st]) (simp, blast dest: gateway_step_split)
  then show ?thesis
    using sum_fee_split g [THEN addMinor_sum] by simp
qed

end
