(* ===== verification/Cod.thy ===== *)
theory Cod
  imports Fees RuleSearch Allocation Confidence
begin

text \<open>
  The courier's cash-handling charge, \<open>packages/core/src/engine/cod.ts\<close>: the cash of a captured
  cash-on-delivery leg is split between the couriers of the order and each share is priced under
  that courier's rule.
\<close>

record cod_cost =
  cc_exVatMinor :: int
  cc_vatMinor :: int
  cc_costMinor :: int
  cc_basis :: term_basis

record cod_share =
  cs_exVat :: int
  cs_vat :: int
  cs_cost :: int
  cs_basis :: term_basis

definition cod_applies :: "string option \<Rightarrow> 'n cod_fee_rule \<Rightarrow> bool" where
  "cod_applies carrier rule \<longleftrightarrow> \<not> (cod_carrier rule \<noteq> None \<and> cod_carrier rule \<noteq> carrier)"

definition cod_score :: "'n cod_fee_rule \<Rightarrow> int" where
  "cod_score rule = (if cod_carrier rule \<noteq> None then 1 else 0)"

definition ruleFor :: "'n cod_fee_rule list \<Rightarrow> string option \<Rightarrow> 'n cod_fee_rule option" where
  "ruleFor rules carrier = best_match (cod_applies carrier) cod_score rules"

text \<open>\<open>[...new Set(...)].sort()\<close>.\<close>

definition cod_carriers :: "int canonical_shipment list \<Rightarrow> string list" where
  "cod_carriers shipments =
     sort (remdups (map ship_carrier
       (filter (\<lambda>s. ship_direction s = SD_outbound \<and> ship_status s \<in> LIVE) shipments)))"

definition cod_shares :: "string list \<Rightarrow> int \<Rightarrow> (string \<times> int) list outcome" where
  "cod_shares carriers amount =
     (if length carriers > 1
      then allocateMinor amount (map (\<lambda>c. \<lparr> bucket_key = c, bucket_weight = 0 \<rparr>) carriers)
      else Inr [(case carriers of [] \<Rightarrow> [] | c # _ \<Rightarrow> c, amount)])"

definition cod_share_cost ::
  "int cod_fee_rule list \<Rightarrow> bool \<Rightarrow> string list \<Rightarrow> nat \<Rightarrow> string \<times> int \<Rightarrow> (cod_share \<times> diagnostic list) outcome" where
  "cod_share_cost rules vatRegistered carriers index share =
     (case ruleFor rules (if length carriers = 0 then None else Some (fst share)) of
        None \<Rightarrow> Inr (\<lparr> cs_exVat = 0, cs_vat = 0, cs_cost = 0, cs_basis = TB_missing \<rparr>,
                     [diagnostic COD_FEE_RULE_MISSING (OnPayment index)])
      | Some rule \<Rightarrow>
          bindE (applyFeeFormula (snd share) rule vatRegistered) (\<lambda>fee.
          Inr (\<lparr> cs_exVat = fee_exVatMinor fee, cs_vat = fee_vatMinor fee, cs_cost = fee_costMinor fee,
                 cs_basis = basisOfFeeSource (fee_source rule) \<rparr>,
               if fee_source rule = FE_default_table
               then [diagnostic FEE_RULE_DEFAULT_USED (OnPayment index)] else [])))"

definition cod_leg_cost ::
  "int cod_fee_rule list \<Rightarrow> bool \<Rightarrow> string list \<Rightarrow> nat \<times> payment_breakdown
   \<Rightarrow> (cod_share \<times> diagnostic list) list outcome" where
  "cod_leg_cost rules vatRegistered carriers leg =
     bindE (cod_shares carriers (pay_amountGrossMinor (snd leg))) (\<lambda>shares.
     mapE (cod_share_cost rules vatRegistered carriers (fst leg)) shares)"

definition computeCodCost ::
  "int canonical_order \<Rightarrow> int canonical_shipment list \<Rightarrow> int cod_fee_rule list \<Rightarrow> bool
   \<Rightarrow> cod_cost computed outcome" where
  "computeCodCost order shipments rules vatRegistered =
     (let legs = filter (\<lambda>l. pay_instrument (snd l) = PI_cod \<and> pay_state (snd l) = PL_captured)
                   (enumerate 0 (order_payments order));
          carriers = cod_carriers shipments
      in if legs = []
         then Inr (\<lparr> cc_exVatMinor = 0, cc_vatMinor = 0, cc_costMinor = 0, cc_basis = TB_not_applicable \<rparr>, [])
         else
           bindE (mapE (cod_leg_cost rules vatRegistered carriers) legs) (\<lambda>rows.
           let applied = map fst (concat rows);
               basis = (if list_ex (\<lambda>a. cs_basis a = TB_missing) applied then TB_missing
                        else if list_ex (\<lambda>a. cs_basis a = TB_estimated) applied then TB_estimated
                        else TB_actual)
           in bindE (addMinor (map cs_exVat applied)) (\<lambda>exVat.
              bindE (addMinor (map cs_vat applied)) (\<lambda>vat.
              bindE (addMinor (map cs_cost applied)) (\<lambda>cost.
              Inr (\<lparr> cc_exVatMinor = exVat, cc_vatMinor = vat, cc_costMinor = cost, cc_basis = basis \<rparr>,
                   concat (map snd (concat rows))))))))"

section \<open>The search contract\<close>

lemma cod_score_nonneg: "0 \<le> cod_score r"
  by (simp add: cod_score_def)

interpretation cod_search: specificity_search cod_applies cod_score cod_rule_key ruleFor
proof (unfold_locales, goal_cases)
  case (1 rs q)
  then show ?case by (simp add: ruleFor_def best_match_None [OF cod_score_nonneg])
next
  case (2 rs q r)
  then show ?case using best_match_Some [OF cod_score_nonneg] by (fastforce simp: ruleFor_def)
next
  case (3 q r r')
  then show ?case by (auto simp: cod_applies_def cod_score_def cod_rule_key_def split: if_splits)
qed

section \<open>Splitting the cash\<close>

lemma cod_carriers_props [simp]: "distinct (cod_carriers shipments)" "sorted (cod_carriers shipments)"
  by (simp_all add: cod_carriers_def)

text \<open>The couriers, hence the split, do not depend on the order in which shipments are listed.\<close>

lemma cod_carriers_perm:
  assumes "mset ss = mset ss'"
  shows "cod_carriers ss = cod_carriers ss'"
proof (rule sorted_distinct_set_unique)
  show "set (cod_carriers ss) = set (cod_carriers ss')"
    using mset_eq_setD [OF assms] by (simp add: cod_carriers_def)
qed simp_all

text \<open>However many couriers, the shares add up to the cash collected.\<close>

lemma cod_shares_sum:
  assumes "cod_shares carriers amount = Inr shares"
  shows "sum_list (map snd shares) = amount"
  using assms allocateMinor_Inr(3) by (auto simp: cod_shares_def split: if_splits)

lemma cod_shares_total:
  assumes "distinct carriers" and "in_range amount"
  shows "\<exists>shares. cod_shares carriers amount = Inr shares"
  using allocateMinor_total [of "map (\<lambda>c. \<lparr> bucket_key = c, bucket_weight = 0 \<rparr>) carriers" amount] assms
  by (cases carriers) (auto simp: cod_shares_def comp_def)

section \<open>The sum over the shares\<close>

lemma cod_share_cost_facts:
  assumes "cod_share_cost rules reg carriers i sh = Inr r"
  shows "cs_cost (fst r) = cs_exVat (fst r) + (if reg then 0 else cs_vat (fst r)) \<and> all_warnings (snd r)"
proof (cases "ruleFor rules (if length carriers = 0 then None else Some (fst sh))")
  case None
  then show ?thesis using assms by (auto simp: cod_share_cost_def)
next
  case (Some rule)
  then obtain fee where fee: "applyFeeFormula (snd sh) rule reg = Inr fee"
    and r: "cs_cost (fst r) = fee_costMinor fee" "cs_exVat (fst r) = fee_exVatMinor fee"
      "cs_vat (fst r) = fee_vatMinor fee" "all_warnings (snd r)"
    using assms by (auto simp: cod_share_cost_def bindE_eq_Inr)
  show ?thesis using applyFeeFormula_Inr(5) [OF fee] r by simp
qed

lemma cod_rows_facts:
  assumes "mapE (cod_leg_cost rules reg carriers) legs = Inr rows" and "r \<in> set (concat rows)"
  shows "cs_cost (fst r) = cs_exVat (fst r) + (if reg then 0 else cs_vat (fst r)) \<and> all_warnings (snd r)"
proof -
  obtain row where row: "row \<in> set rows" "r \<in> set row" using assms(2) by auto
  obtain leg where leg: "cod_leg_cost rules reg carriers leg = Inr row"
    using mapE_in_set [OF assms(1) row(1)] by blast
  then obtain shares where "mapE (cod_share_cost rules reg carriers (fst leg)) shares = Inr row"
    by (auto simp: cod_leg_cost_def bindE_eq_Inr)
  from mapE_in_set [OF this row(2)] obtain share
    where "cod_share_cost rules reg carriers (fst leg) share = Inr r" by metis
  then show ?thesis by (rule cod_share_cost_facts)
qed

lemma computeCodCost_rows:
  assumes "computeCodCost order ss rules reg = Inr (c, ds)"
  obtains "cc_exVatMinor c = 0" and "cc_vatMinor c = 0" and "cc_costMinor c = 0" and "ds = []"
  | rs :: "(cod_share \<times> diagnostic list) list" where "\<And>r. r \<in> set rs \<Longrightarrow>
        cs_cost (fst r) = cs_exVat (fst r) + (if reg then 0 else cs_vat (fst r)) \<and> all_warnings (snd r)"
      and "ds = concat (map snd rs)" and "cc_exVatMinor c = (\<Sum>r\<leftarrow>rs. cs_exVat (fst r))"
      and "cc_vatMinor c = (\<Sum>r\<leftarrow>rs. cs_vat (fst r))" and "cc_costMinor c = (\<Sum>r\<leftarrow>rs. cs_cost (fst r))"
proof -
  let ?legs = "filter (\<lambda>l. pay_instrument (snd l) = PI_cod \<and> pay_state (snd l) = PL_captured)
                   (enumerate 0 (order_payments order))"
  show thesis
  proof (cases "?legs = []")
    case True
    then show thesis using assms by (intro that(1)) (auto simp: computeCodCost_def Let_def)
  next
    case False
    then obtain rows where rows: "mapE (cod_leg_cost rules reg (cod_carriers ss)) ?legs = Inr rows"
      and ds: "ds = concat (map snd (concat rows))"
      and sums: "addMinor (map cs_exVat (map fst (concat rows))) = Inr (cc_exVatMinor c)"
        "addMinor (map cs_vat (map fst (concat rows))) = Inr (cc_vatMinor c)"
        "addMinor (map cs_cost (map fst (concat rows))) = Inr (cc_costMinor c)"
      using assms by (auto simp: computeCodCost_def Let_def bindE_eq_Inr simp del: map_map)
    show thesis
      using that(2) [of "concat rows"] cod_rows_facts [OF rows] ds sums [THEN addMinor_sum]
      by (simp add: comp_def)
  qed
qed

lemma computeCodCost_warnings:
  assumes "computeCodCost order ss rules reg = Inr (c, ds)"
  shows "all_warnings ds"
  using assms
proof (cases rule: computeCodCost_rows)
  case 1
  then show ?thesis by simp
next
  case (2 rs)
  then show ?thesis unfolding 2(2) by (intro all_warnings_concat) blast
qed

lemma computeCodCost_split:
  assumes "computeCodCost order ss rules reg = Inr (c, ds)"
  shows "cc_costMinor c = cc_exVatMinor c + (if reg then 0 else cc_vatMinor c)"
  using assms
proof (cases rule: computeCodCost_rows)
  case 1
  then show ?thesis by simp
next
  case (2 rs)
  have "(\<Sum>r\<leftarrow>rs. cs_cost (fst r)) = (\<Sum>r\<leftarrow>rs. cs_exVat (fst r)) + (if reg then 0 else (\<Sum>r\<leftarrow>rs. cs_vat (fst r)))"
    using 2(1) by (induction rs) auto
  then show ?thesis using 2 by simp
qed

text \<open>Only a captured cash leg costs anything.\<close>

lemma computeCodCost_none:
  assumes "\<And>p. p \<in> set (order_payments order) \<Longrightarrow> \<not> (pay_instrument p = PI_cod \<and> pay_state p = PL_captured)"
  shows "computeCodCost order ss rules reg
     = Inr (\<lparr> cc_exVatMinor = 0, cc_vatMinor = 0, cc_costMinor = 0, cc_basis = TB_not_applicable \<rparr>, [])"
proof -
  have "filter (\<lambda>l. pay_instrument (snd l) = PI_cod \<and> pay_state (snd l) = PL_captured)
      (enumerate 0 (order_payments order)) = []"
    using assms by (auto simp: filter_empty_conv in_set_enumerate_eq)
  then show ?thesis by (simp add: computeCodCost_def Let_def)
qed

end
