(* ===== verification/Profit.thy ===== *)
theory Profit
  imports Lines Gateway Cod Time Ids
begin

text \<open>
  \<open>computeOrderProfit\<close>, \<open>packages/core/src/compute-order-profit.ts\<close>: validate, compute every term,
  push the order-level terms down onto the lines, and turn every failure into a rejected result.
  The records are those of \<open>packages/core/src/result.ts\<close>.
\<close>

record order_profit_totals =
  opt_itemsRevenueExVatMinor :: int
  opt_shippingRevenueExVatMinor :: int
  opt_codFeeRevenueExVatMinor :: int
  opt_orderDiscountExVatMinor :: int
  opt_revenueExVatMinor :: int
  opt_vatCollectedMinor :: int
  opt_cogsMinor :: int
  opt_outboundShippingCostMinor :: int
  opt_returnShippingCostMinor :: int
  opt_gatewayFeeExVatMinor :: int
  opt_gatewayFeeVatMinor :: int
  opt_gatewayFeeCostMinor :: int
  opt_codCostExVatMinor :: int
  opt_codCostVatMinor :: int
  opt_codCostMinor :: int
  opt_reversedRevenueExVatMinor :: int
  opt_restockedCogsMinor :: int
  opt_reversalImpactMinor :: int
  opt_contributionMarginMinor :: int
  opt_marginBps :: "int option"
  opt_costCoveredRevenueExVatMinor :: int

record order_profit_computed =
  opc_orderId :: string
  opc_storeId :: string
  opc_currency :: string
  opc_businessDate :: string
  opc_calcVersion :: int
  opc_feeRuleSetId :: string
  opc_recognition :: profit_recognition
  opc_totals :: order_profit_totals
  opc_lines :: "order_profit_line list"
  opc_confidence :: profit_confidence
  opc_diagnostics :: "diagnostic list"

record order_profit_rejected =
  opr_orderId :: string
  opr_storeId :: string
  opr_calcVersion :: int
  opr_diagnostics :: "diagnostic list"

datatype order_profit_result = Computed order_profit_computed | Rejected order_profit_rejected

definition CALC_VERSION :: int where
  "CALC_VERSION = 3"

lemma CALC_VERSION_ok: "toCalcVersion (JInt 3) = Inr CALC_VERSION"
  by (simp add: toCalcVersion_def CALC_VERSION_def safe_int_iff)

definition marginBpsOf :: "int \<Rightarrow> int \<Rightarrow> int option outcome" where
  "marginBpsOf margin revenue =
     (if revenue \<le> 0 then Inr None
      else bindE (divRoundHalfAway (margin * 10000) revenue) (\<lambda>q.
           bindE (toBps (JInt q)) (\<lambda>b. Inr (Some b))))"

text \<open>The seven terms of an order and the diagnostics they raised, in the order of \<open>compute\<close>.\<close>

record order_terms =
  ot_revenue :: order_revenue
  ot_cogs :: order_cogs
  ot_outbound :: shipping_leg
  ot_returned :: shipping_leg
  ot_gateway :: gateway_fees
  ot_cod :: cod_cost
  ot_reversal :: reversal_impact

definition item_quantities :: "int canonical_order_item list \<Rightarrow> string \<Rightarrow> int option" where
  "item_quantities items = js_map (map (\<lambda>i. (item_id i, item_quantity i)) items)"

definition item_weights :: "int canonical_order_item list \<Rightarrow> string \<Rightarrow> int option" where
  "item_weights items = js_map (map (\<lambda>i. (item_id i, item_lineTotalExVatMinor i)) items)"

definition compute_terms ::
  "normalized_input \<Rightarrow> store_profit_config \<Rightarrow> int fee_rule_set \<Rightarrow> profit_recognition \<Rightarrow> order_terms computed outcome" where
  "compute_terms n store feeRuleSet recognition =
     (let order = norm_order n; items = norm_items n; shipments = norm_shipments n
      in bindE (computeRevenue order items recognition) (\<lambda>(revenue, ds1).
         bindE (computeCogs items (norm_costs n)) (\<lambda>(cogs, ds2).
         bindE (computeShippingCost order shipments (frs_shippingFallback feeRuleSet) SD_outbound) (\<lambda>(outbound, ds3).
         bindE (computeShippingCost order shipments (frs_shippingFallback feeRuleSet) SD_return) (\<lambda>(returned, ds4).
         bindE (computeGatewayFees order (frs_gateway feeRuleSet) (store_vatRegistered store)) (\<lambda>(gateway, ds5).
         bindE (computeCodCost order shipments (frs_cod feeRuleSet) (store_vatRegistered store)) (\<lambda>(cod, ds6).
         bindE (computeReversalImpact (norm_reversals n) (orev_lines revenue) (ocogs_lines cogs)
                  (item_quantities items) (item_weights items) recognition shipments
                  (order_fulfillmentState order \<in> DISPATCHED)) (\<lambda>(reversal, ds7).
         Inr (\<lparr> ot_revenue = revenue, ot_cogs = cogs, ot_outbound = outbound, ot_returned = returned,
                ot_gateway = gateway, ot_cod = cod, ot_reversal = reversal \<rparr>,
              ds1 @ ds2 @ ds3 @ ds4 @ ds5 @ ds6 @ ds7)))))))))"

text \<open>\<open>excluded ? ZERO : ...\<close>: nothing of an excluded order is recognised, not even its costs.\<close>

definition unless_excluded :: "profit_recognition \<Rightarrow> int \<Rightarrow> int" where
  "unless_excluded recognition v = (if isExcluded recognition then 0 else v)"

definition level_amounts :: "order_terms \<Rightarrow> order_level_amounts outcome" where
  "level_amounts t =
     bindE (subMinor (orev_shippingRevenueExVatMinor (ot_revenue t)) (orev_shippingDiscountExVatMinor (ot_revenue t))) (\<lambda>shipping.
     bindE (subMinor (orev_codFeeRevenueExVatMinor (ot_revenue t)) (orev_codFeeDiscountExVatMinor (ot_revenue t))) (\<lambda>codFee.
     Inr \<lparr> ola_shippingRevenueExVatMinor = shipping, ola_codFeeRevenueExVatMinor = codFee,
           ola_outboundParcels = leg_parcels (ot_outbound t), ola_returnParcels = leg_parcels (ot_returned t),
           ola_outboundShippingCostMinor = leg_costMinor (ot_outbound t),
           ola_returnShippingCostMinor = leg_costMinor (ot_returned t),
           ola_gatewayFeeCostMinor = gf_costMinor (ot_gateway t), ola_codCostMinor = cc_costMinor (ot_cod t) \<rparr>))"

definition order_lines ::
  "normalized_input \<Rightarrow> profit_recognition \<Rightarrow> order_terms \<Rightarrow> order_profit_line list outcome" where
  "order_lines n recognition t =
     (if isExcluded recognition then Inr []
      else bindE (level_amounts t) (\<lambda>amounts.
           allocateOrderCostsToLines (norm_items n) (orev_lines (ot_revenue t)) (ocogs_lines (ot_cogs t))
             (ri_lines (ot_reversal t)) amounts))"

definition contribution_margin :: "profit_recognition \<Rightarrow> order_terms \<Rightarrow> int outcome" where
  "contribution_margin recognition t =
     (let x = unless_excluded recognition in
      bindE (addMinor [orev_revenueExVatMinor (ot_revenue t), x (ri_impactMinor (ot_reversal t))]) (\<lambda>earned.
      bindE (addMinor [x (ocogs_cogsMinor (ot_cogs t)), x (leg_costMinor (ot_outbound t)),
               x (leg_costMinor (ot_returned t)), x (gf_costMinor (ot_gateway t)), x (cc_costMinor (ot_cod t))]) (\<lambda>spent.
      subMinor earned spent)))"

definition order_totals ::
  "profit_recognition \<Rightarrow> order_terms \<Rightarrow> int \<Rightarrow> int option \<Rightarrow> int \<Rightarrow> order_profit_totals" where
  "order_totals recognition t margin bps covered =
     (let x = unless_excluded recognition in
      \<lparr> opt_itemsRevenueExVatMinor = orev_itemsRevenueExVatMinor (ot_revenue t),
        opt_shippingRevenueExVatMinor = orev_shippingRevenueExVatMinor (ot_revenue t),
        opt_codFeeRevenueExVatMinor = orev_codFeeRevenueExVatMinor (ot_revenue t),
        opt_orderDiscountExVatMinor = orev_orderDiscountExVatMinor (ot_revenue t),
        opt_revenueExVatMinor = orev_revenueExVatMinor (ot_revenue t),
        opt_vatCollectedMinor = orev_vatCollectedMinor (ot_revenue t),
        opt_cogsMinor = x (ocogs_cogsMinor (ot_cogs t)),
        opt_outboundShippingCostMinor = x (leg_costMinor (ot_outbound t)),
        opt_returnShippingCostMinor = x (leg_costMinor (ot_returned t)),
        opt_gatewayFeeExVatMinor = x (gf_exVatMinor (ot_gateway t)),
        opt_gatewayFeeVatMinor = x (gf_vatMinor (ot_gateway t)),
        opt_gatewayFeeCostMinor = x (gf_costMinor (ot_gateway t)),
        opt_codCostExVatMinor = x (cc_exVatMinor (ot_cod t)),
        opt_codCostVatMinor = x (cc_vatMinor (ot_cod t)),
        opt_codCostMinor = x (cc_costMinor (ot_cod t)),
        opt_reversedRevenueExVatMinor = x (ri_reversedRevenueExVatMinor (ot_reversal t)),
        opt_restockedCogsMinor = x (ri_restockedCogsMinor (ot_reversal t)),
        opt_reversalImpactMinor = x (ri_impactMinor (ot_reversal t)),
        opt_contributionMarginMinor = margin, opt_marginBps = bps,
        opt_costCoveredRevenueExVatMinor = covered \<rparr>)"

definition cogs_basis_of :: "bool \<Rightarrow> int canonical_order_item list \<Rightarrow> order_cogs \<Rightarrow> reversal_impact \<Rightarrow> term_basis" where
  "cogs_basis_of excluded items cogs reversal =
     (if excluded then TB_not_applicable
      else if length items = 0 then TB_not_applicable
      else if ocogs_anyMissing cogs then TB_missing
      else if ocogs_anyEstimated cogs \<or> ri_inferredRestock reversal then TB_estimated
      else TB_actual)"

definition order_bases :: "normalized_input \<Rightarrow> profit_recognition \<Rightarrow> order_terms \<Rightarrow> term_bases" where
  "order_bases n recognition t =
     (let excluded = isExcluded recognition in
      \<lparr> tb_reconciles = orev_reconciles (ot_revenue t),
        tb_cogs = cogs_basis_of excluded (norm_items n) (ot_cogs t) (ot_reversal t),
        tb_outboundShipping = (if excluded then TB_not_applicable else leg_basis (ot_outbound t)),
        tb_returnShipping = (if excluded then TB_not_applicable else leg_basis (ot_returned t)),
        tb_gatewayFee = (if excluded then TB_not_applicable else gf_basis (ot_gateway t)),
        tb_codCost = (if excluded then TB_not_applicable else cc_basis (ot_cod t)),
        tb_reversal = (if length (norm_reversals n) = 0 then VB_not_applicable
                       else if ri_allocated (ot_reversal t) then VB_allocated else VB_reported) \<rparr>)"

definition compute_normalized ::
  "intl \<Rightarrow> normalized_input \<Rightarrow> store_profit_config \<Rightarrow> int fee_rule_set \<Rightarrow> order_profit_computed outcome" where
  "compute_normalized intl n store feeRuleSet =
     (let order = norm_order n; recognition = computeRecognition order (norm_shipments n)
      in bindE (businessDateOf intl (order_placedAt order) (store_timezone store)) (\<lambda>businessDate.
         bindE (compute_terms n store feeRuleSet recognition) (\<lambda>(t, diagnostics).
         bindE (order_lines n recognition t) (\<lambda>lines.
         bindE (contribution_margin recognition t) (\<lambda>margin.
         bindE (marginBpsOf margin (orev_revenueExVatMinor (ot_revenue t))) (\<lambda>bps.
         bindE (addMinor (map pl_costCoveredRevenueExVatMinor lines)) (\<lambda>covered.
         Inr \<lparr> opc_orderId = order_id order, opc_storeId = store_storeId store,
               opc_currency = store_currency store, opc_businessDate = businessDate,
               opc_calcVersion = CALC_VERSION, opc_feeRuleSetId = frs_id feeRuleSet,
               opc_recognition = recognition,
               opc_totals = order_totals recognition t margin bps covered,
               opc_lines = lines,
               opc_confidence = deriveConfidence (order_bases n recognition t) diagnostics,
               opc_diagnostics = sortDiagnostics diagnostics \<rparr>)))))))"

text \<open>
  A store or a rule set that is still absent after validation would be a \<open>TypeError\<close> when it is
  read; \<open>normalizeAndValidate\<close> lets no such input through.
\<close>

definition compute ::
  "intl \<Rightarrow> order_profit_input option \<Rightarrow> string \<Rightarrow> string \<Rightarrow> order_profit_result outcome" where
  "compute intl input orderId storeId =
     (case normalizeAndValidate input of
        (None, fatal) \<Rightarrow> Inr (Rejected \<lparr> opr_orderId = orderId, opr_storeId = storeId,
            opr_calcVersion = CALC_VERSION, opr_diagnostics = sortDiagnostics fatal \<rparr>)
      | (Some normalized, _) \<Rightarrow>
          (case (Option.bind input in_store, Option.bind input in_feeRuleSet) of
             (Some store, Some feeRuleSet) \<Rightarrow>
               bindE (compute_normalized intl normalized store (int_fee_rule_set feeRuleSet)) (\<lambda>c. Inr (Computed c))
           | _ \<Rightarrow> Inl TypeError))"

fun error_code :: "js_error \<Rightarrow> diagnostic_code" where
  "error_code MalformedInstantError = MALFORMED_TIMESTAMP"
| "error_code InvalidTimezoneError = INVALID_TIMEZONE"
| "error_code _ = INTERNAL_INVARIANT_VIOLATED"

definition computeOrderProfit :: "intl \<Rightarrow> order_profit_input option \<Rightarrow> order_profit_result" where
  "computeOrderProfit intl input =
     (let orderId = or_empty (map_option order_id (Option.bind input in_order));
          storeId = or_empty (map_option store_storeId (Option.bind input in_store))
      in case compute intl input orderId storeId of
           Inr result \<Rightarrow> result
         | Inl error \<Rightarrow> Rejected \<lparr> opr_orderId = orderId, opr_storeId = storeId,
             opr_calcVersion = CALC_VERSION, opr_diagnostics = [onOrder (error_code error)] \<rparr>)"

definition isRankableForLossMaker :: "order_profit_result \<Rightarrow> bool" where
  "isRankableForLossMaker result =
     (case result of
        Computed c \<Rightarrow> conf_level (opc_confidence c) \<noteq> CL_incomplete \<and> \<not> isExcluded (opc_recognition c)
      | Rejected _ \<Rightarrow> False)"

end
