(* ===== verification/ProfitFacts.thy ===== *)
theory ProfitFacts
  imports Profit
begin

text \<open>
  What a computed result says: which terms its totals are made of, that its lines tie to them, and
  that a failure is a rejected result with a fatal diagnostic.
\<close>

section \<open>The terms behind a result\<close>

definition recognition_of :: "normalized_input \<Rightarrow> profit_recognition" where
  "recognition_of n = computeRecognition (norm_order n) (norm_shipments n)"

lemma compute_terms_cases:
  assumes "compute_terms n store frs recog = Inr (t, ds)"
  obtains d1 d2 d3 d4 d5 d6 d7 where
    "computeRevenue (norm_order n) (norm_items n) recog = Inr (ot_revenue t, d1)"
    and "computeCogs (norm_items n) (norm_costs n) = Inr (ot_cogs t, d2)"
    and "computeShippingCost (norm_order n) (norm_shipments n) (frs_shippingFallback frs) SD_outbound
         = Inr (ot_outbound t, d3)"
    and "computeShippingCost (norm_order n) (norm_shipments n) (frs_shippingFallback frs) SD_return
         = Inr (ot_returned t, d4)"
    and "computeGatewayFees (norm_order n) (frs_gateway frs) (store_vatRegistered store) = Inr (ot_gateway t, d5)"
    and "computeCodCost (norm_order n) (norm_shipments n) (frs_cod frs) (store_vatRegistered store)
         = Inr (ot_cod t, d6)"
    and "computeReversalImpact (norm_reversals n) (orev_lines (ot_revenue t)) (ocogs_lines (ot_cogs t))
         (item_quantities (norm_items n)) (item_weights (norm_items n)) recog (norm_shipments n)
         (order_fulfillmentState (norm_order n) \<in> DISPATCHED) = Inr (ot_reversal t, d7)"
    and "ds = d1 @ d2 @ d3 @ d4 @ d5 @ d6 @ d7"
  using assms by (auto simp: compute_terms_def Let_def bindE_eq_Inr split_beta)

lemma compute_normalized_cases:
  assumes "compute_normalized intl n store frs = Inr c"
  obtains t ds margin bps covered where "compute_terms n store frs (recognition_of n) = Inr (t, ds)"
    and "businessDateOf intl (order_placedAt (norm_order n)) (store_timezone store) = Inr (opc_businessDate c)"
    and "order_lines n (recognition_of n) t = Inr (opc_lines c)"
    and "contribution_margin (recognition_of n) t = Inr margin"
    and "marginBpsOf margin (orev_revenueExVatMinor (ot_revenue t)) = Inr bps"
    and "addMinor (map pl_costCoveredRevenueExVatMinor (opc_lines c)) = Inr covered"
    and "opc_recognition c = recognition_of n"
    and "opc_totals c = order_totals (recognition_of n) t margin bps covered"
    and "opc_confidence c = deriveConfidence (order_bases n (recognition_of n) t) ds"
    and "opc_diagnostics c = sortDiagnostics ds"
  using assms by (auto simp: compute_normalized_def Let_def bindE_eq_Inr recognition_of_def split_beta)

lemma order_totals_sel [simp]:
  "opt_itemsRevenueExVatMinor (order_totals r t m b v) = orev_itemsRevenueExVatMinor (ot_revenue t)"
  "opt_shippingRevenueExVatMinor (order_totals r t m b v) = orev_shippingRevenueExVatMinor (ot_revenue t)"
  "opt_codFeeRevenueExVatMinor (order_totals r t m b v) = orev_codFeeRevenueExVatMinor (ot_revenue t)"
  "opt_orderDiscountExVatMinor (order_totals r t m b v) = orev_orderDiscountExVatMinor (ot_revenue t)"
  "opt_revenueExVatMinor (order_totals r t m b v) = orev_revenueExVatMinor (ot_revenue t)"
  "opt_cogsMinor (order_totals r t m b v) = unless_excluded r (ocogs_cogsMinor (ot_cogs t))"
  "opt_outboundShippingCostMinor (order_totals r t m b v) = unless_excluded r (leg_costMinor (ot_outbound t))"
  "opt_returnShippingCostMinor (order_totals r t m b v) = unless_excluded r (leg_costMinor (ot_returned t))"
  "opt_gatewayFeeCostMinor (order_totals r t m b v) = unless_excluded r (gf_costMinor (ot_gateway t))"
  "opt_gatewayFeeExVatMinor (order_totals r t m b v) = unless_excluded r (gf_exVatMinor (ot_gateway t))"
  "opt_gatewayFeeVatMinor (order_totals r t m b v) = unless_excluded r (gf_vatMinor (ot_gateway t))"
  "opt_codCostMinor (order_totals r t m b v) = unless_excluded r (cc_costMinor (ot_cod t))"
  "opt_codCostExVatMinor (order_totals r t m b v) = unless_excluded r (cc_exVatMinor (ot_cod t))"
  "opt_codCostVatMinor (order_totals r t m b v) = unless_excluded r (cc_vatMinor (ot_cod t))"
  "opt_reversedRevenueExVatMinor (order_totals r t m b v) = unless_excluded r (ri_reversedRevenueExVatMinor (ot_reversal t))"
  "opt_restockedCogsMinor (order_totals r t m b v) = unless_excluded r (ri_restockedCogsMinor (ot_reversal t))"
  "opt_reversalImpactMinor (order_totals r t m b v) = unless_excluded r (ri_impactMinor (ot_reversal t))"
  "opt_contributionMarginMinor (order_totals r t m b v) = m"
  "opt_marginBps (order_totals r t m b v) = b" "opt_costCoveredRevenueExVatMinor (order_totals r t m b v) = v"
  by (simp_all add: order_totals_def Let_def)

text \<open>The margin is the sum the header of the source promises, within the range of \<open>Minor\<close>.\<close>

lemma contribution_margin_Inr:
  assumes "contribution_margin r t = Inr m"
  shows "m = orev_revenueExVatMinor (ot_revenue t) - unless_excluded r (ocogs_cogsMinor (ot_cogs t))
      - unless_excluded r (leg_costMinor (ot_outbound t)) - unless_excluded r (leg_costMinor (ot_returned t))
      - unless_excluded r (gf_costMinor (ot_gateway t)) - unless_excluded r (cc_costMinor (ot_cod t))
      + unless_excluded r (ri_impactMinor (ot_reversal t))"
    and "in_range m"
proof -
  obtain earned spent where e: "addMinor [orev_revenueExVatMinor (ot_revenue t), unless_excluded r (ri_impactMinor (ot_reversal t))] = Inr earned"
    and s: "addMinor [unless_excluded r (ocogs_cogsMinor (ot_cogs t)), unless_excluded r (leg_costMinor (ot_outbound t)),
        unless_excluded r (leg_costMinor (ot_returned t)), unless_excluded r (gf_costMinor (ot_gateway t)),
        unless_excluded r (cc_costMinor (ot_cod t))] = Inr spent"
    and m: "subMinor earned spent = Inr m"
    using assms by (auto simp: contribution_margin_def Let_def bindE_eq_Inr)
  show "in_range m" using m by (simp add: subMinor_eq_Inr)
  show "m = orev_revenueExVatMinor (ot_revenue t) - unless_excluded r (ocogs_cogsMinor (ot_cogs t))
      - unless_excluded r (leg_costMinor (ot_outbound t)) - unless_excluded r (leg_costMinor (ot_returned t))
      - unless_excluded r (gf_costMinor (ot_gateway t)) - unless_excluded r (cc_costMinor (ot_cod t))
      + unless_excluded r (ri_impactMinor (ot_reversal t))"
    using m addMinor_sum [OF e] addMinor_sum [OF s] by (simp add: subMinor_eq_Inr)
qed

section \<open>The input behind a result\<close>

lemma computeOrderProfit_Computed:
  assumes "computeOrderProfit intl input = Computed c"
  obtains inp order store frs where "input = Some inp" and "well_formed inp"
    and "in_order inp = Some order" and "in_store inp = Some store" and "in_feeRuleSet inp = Some frs"
    and "compute_normalized intl (normalized_of inp order) store (int_fee_rule_set frs) = Inr c"
proof -
  obtain orderId storeId where cc: "compute intl input orderId storeId = Inr (Computed c)"
    using assms by (auto simp: computeOrderProfit_def Let_def split: sum.splits)
  have "fst (normalizeAndValidate input) \<noteq> None"
  proof
    assume "fst (normalizeAndValidate input) = None"
    then show False
      using cc by (cases "normalizeAndValidate input") (simp add: compute_def)
  qed
  then obtain inp where inp: "input = Some inp" and wf: "well_formed inp"
    using normalizeAndValidate_iff by blast
  obtain order store frs where p: "in_order inp = Some order" "in_store inp = Some store" "in_feeRuleSet inp = Some frs"
    using wf by (auto simp: well_formed_def split: option.splits)
  have "compute_normalized intl (normalized_of inp order) store (int_fee_rule_set frs) = Inr c"
    using cc inp p normalizeAndValidate_accepts [OF p(1) wf] by (auto simp: compute_def bindE_eq_Inr)
  then show thesis using that inp wf p by blast
qed

lemma normalized_items:
  assumes "well_formed inp" and "in_order inp = Some order"
  shows "distinct (map item_id (norm_items (normalized_of inp order)))"
    and "i \<in> set (norm_items (normalized_of inp order)) \<Longrightarrow> 0 \<le> item_quantity i"
    and "set (norm_items (normalized_of inp order)) = int_item ` set (or_nil (in_items inp))"
proof -
  have parts: "\<forall>i \<in> set (or_nil (in_items inp)). item_ok (order_id order) i"
    "distinct (map item_id (or_nil (in_items inp)))"
    using assms by (auto simp: well_formed_def parts_ok_def split: option.splits)
  have eq: "norm_items (normalized_of inp order) = map int_item (sort_key item_platformLineId (or_nil (in_items inp)))"
    by (simp add: normalized_of_def)
  show "set (norm_items (normalized_of inp order)) = int_item ` set (or_nil (in_items inp))"
    by (simp add: eq)
  have id: "item_id (int_item i) = item_id i" for i by (simp add: int_item_def)
  have "distinct (map item_id (sort_key item_platformLineId (or_nil (in_items inp))))"
    using parts(2) by (metis mset_sort mset_eq_imp_distinct_iff mset_map)
  then show "distinct (map item_id (norm_items (normalized_of inp order)))"
    by (simp add: eq id comp_def)
  show "i \<in> set (norm_items (normalized_of inp order)) \<Longrightarrow> 0 \<le> item_quantity i"
    using parts(1) by (auto simp: eq int_item_def item_ok_def)
qed

section \<open>The lines tie to the totals\<close>

lemma shipping_parcels_tie:
  "computeShippingCost order ss rules d = Inr (l, ds) \<Longrightarrow> parcels_tie (leg_parcels l) (leg_costMinor l)"
  by (auto simp: parcels_tie_def dest: computeShippingCost_parcels)

lemma terms_ids:
  assumes "compute_terms n store frs recog = Inr (t, ds)"
  shows "map lrev_orderItemId (orev_lines (ot_revenue t)) = map item_id (norm_items n)"
    and "map lcogs_orderItemId (ocogs_lines (ot_cogs t)) = map item_id (norm_items n)"
    and "map lvr_orderItemId (ri_lines (ot_reversal t)) = map item_id (norm_items n)"
    and "impact_ok (orev_lines (ot_revenue t)) (cogs_map (ocogs_lines (ot_cogs t))) (ot_reversal t)"
    and "parcels_tie (leg_parcels (ot_outbound t)) (leg_costMinor (ot_outbound t))"
    and "parcels_tie (leg_parcels (ot_returned t)) (leg_costMinor (ot_returned t))"
  using assms
proof (atomize (full), elim compute_terms_cases, goal_cases)
  case (1 d1 d2 d3 d4 d5 d6 d7)
  have r: "map lrev_orderItemId (orev_lines (ot_revenue t)) = map item_id (norm_items n)"
    using 1(1) by (rule computeRevenue_ids)
  have ok: "impact_ok (orev_lines (ot_revenue t)) (cogs_map (ocogs_lines (ot_cogs t))) (ot_reversal t)"
    using 1(7) by (rule computeReversalImpact_ok)
  then show ?case
    using r computeCogs_ids [OF 1(2)] shipping_parcels_tie [OF 1(3)] shipping_parcels_tie [OF 1(4)]
    by (simp add: impact_ok_def)
qed

text \<open>The arguments \<open>compute\<close> passes to the line allocation are the ones it asks for.\<close>

lemma order_lines_cases:
  assumes "order_lines n recog t = Inr lines" and "compute_terms n store frs recog = Inr (t, ds)"
    and "distinct (map item_id (norm_items n))" and "lines \<noteq> []"
  obtains amounts where
    "allocateOrderCostsToLines (norm_items n) (orev_lines (ot_revenue t)) (ocogs_lines (ot_cogs t))
       (ri_lines (ot_reversal t)) amounts = Inr lines"
    and "lines_input_ok (orev_lines (ot_revenue t)) (ocogs_lines (ot_cogs t)) (ri_lines (ot_reversal t)) amounts"
    and "level_amounts t = Inr amounts" and "orev_lines (ot_revenue t) \<noteq> []" and "\<not> isExcluded recog"
proof -
  obtain amounts where a: "level_amounts t = Inr amounts"
    and l: "allocateOrderCostsToLines (norm_items n) (orev_lines (ot_revenue t)) (ocogs_lines (ot_cogs t))
       (ri_lines (ot_reversal t)) amounts = Inr lines" and x: "\<not> isExcluded recog"
    using assms(1,4) by (auto simp: order_lines_def bindE_eq_Inr split: if_splits)
  note ids = terms_ids [OF assms(2)]
  have "orev_lines (ot_revenue t) \<noteq> []"
    using l assms(4) by (auto simp: allocateOrderCostsToLines_def)
  moreover have "lines_input_ok (orev_lines (ot_revenue t)) (ocogs_lines (ot_cogs t)) (ri_lines (ot_reversal t)) amounts"
    using a ids assms(3) by (auto simp: lines_input_ok_def level_amounts_def bindE_eq_Inr)
  ultimately show thesis using that a l x by blast
qed

lemma compute_normalized_tie:
  assumes c: "compute_normalized intl n store frs = Inr c" and d: "distinct (map item_id (norm_items n))"
    and ne: "opc_lines c \<noteq> []"
  shows "(\<Sum>l\<leftarrow>opc_lines c. pl_contributionMarginMinor l) = opt_contributionMarginMinor (opc_totals c)"
    and "(\<Sum>l\<leftarrow>opc_lines c. pl_cogsMinor l) = opt_cogsMinor (opc_totals c)"
    and "(\<Sum>l\<leftarrow>opc_lines c. pl_allocatedOutboundShippingMinor l) = opt_outboundShippingCostMinor (opc_totals c)"
    and "(\<Sum>l\<leftarrow>opc_lines c. pl_allocatedReturnShippingMinor l) = opt_returnShippingCostMinor (opc_totals c)"
    and "(\<Sum>l\<leftarrow>opc_lines c. pl_allocatedGatewayFeeMinor l) = opt_gatewayFeeCostMinor (opc_totals c)"
    and "(\<Sum>l\<leftarrow>opc_lines c. pl_allocatedCodCostMinor l) = opt_codCostMinor (opc_totals c)"
    and "(\<Sum>l\<leftarrow>opc_lines c. pl_reversalImpactMinor l) = opt_reversalImpactMinor (opc_totals c)"
  using c
proof (atomize (full), elim compute_normalized_cases, goal_cases)
  case (1 t ds margin bps covered)
  obtain d1 where rv: "computeRevenue (norm_order n) (norm_items n) (recognition_of n) = Inr (ot_revenue t, d1)"
    and cg: "\<exists>d2. computeCogs (norm_items n) (norm_costs n) = Inr (ot_cogs t, d2)"
    using 1(1) by (cases rule: compute_terms_cases) blast
  obtain amounts where l: "allocateOrderCostsToLines (norm_items n) (orev_lines (ot_revenue t)) (ocogs_lines (ot_cogs t))
       (ri_lines (ot_reversal t)) amounts = Inr (opc_lines c)"
    and ok: "lines_input_ok (orev_lines (ot_revenue t)) (ocogs_lines (ot_cogs t)) (ri_lines (ot_reversal t)) amounts"
    and a: "level_amounts t = Inr amounts" and rne: "orev_lines (ot_revenue t) \<noteq> []"
    and x: "\<not> isExcluded (recognition_of n)"
    using order_lines_cases [OF 1(3) 1(1) d ne] by metis
  have u [simp]: "unless_excluded (recognition_of n) v = v" for v
    using x by (simp add: unless_excluded_def)
  have am: "ola_shippingRevenueExVatMinor amounts
        = orev_shippingRevenueExVatMinor (ot_revenue t) - orev_shippingDiscountExVatMinor (ot_revenue t)"
      "ola_codFeeRevenueExVatMinor amounts
        = orev_codFeeRevenueExVatMinor (ot_revenue t) - orev_codFeeDiscountExVatMinor (ot_revenue t)"
      "ola_outboundShippingCostMinor amounts = leg_costMinor (ot_outbound t)"
      "ola_returnShippingCostMinor amounts = leg_costMinor (ot_returned t)"
      "ola_gatewayFeeCostMinor amounts = gf_costMinor (ot_gateway t)"
      "ola_codCostMinor amounts = cc_costMinor (ot_cod t)"
    using a by (auto simp: level_amounts_def bindE_eq_Inr subMinor_eq_Inr)
  have cs: "ocogs_cogsMinor (ot_cogs t) = (\<Sum>c\<leftarrow>ocogs_lines (ot_cogs t). lcogs_cogsMinor c)"
    using cg computeCogs_sum by blast
  have im: "ri_impactMinor (ot_reversal t) = (\<Sum>r\<leftarrow>ri_lines (ot_reversal t). lvr_impactMinor r)"
    using terms_ids(4) [OF 1(1)] by (simp add: impact_ok_def)
  have "norm_items n \<noteq> []"
    using rne terms_ids(1) [OF 1(1)] by auto
  note rt = computeRevenue_tie [OF rv this]
  show ?case
    using allocateOrderCostsToLines_tie [OF l ok rne] allocateOrderCostsToLines_columns [OF l ok rne]
      contribution_margin_Inr(1) [OF 1(4)] rt cs im
    by (simp add: am 1(8))
qed

section \<open>Diagnostics and totality\<close>

lemma compute_terms_warnings:
  assumes "compute_terms n store frs recog = Inr (t, ds)" and "distinct (map item_id (norm_items n))"
  shows "all_warnings ds"
  using assms(1)
proof (cases rule: compute_terms_cases)
  case (1 d1 d2 d3 d4 d5 d6 d7)
  have "distinct (map lrev_orderItemId (orev_lines (ot_revenue t)))"
    using computeRevenue_ids [OF 1(1)] assms(2) by simp
  then show ?thesis
    using computeRevenue_warnings [OF 1(1)] computeCogs_warnings [OF 1(2)] computeShippingCost_warnings [OF 1(3)]
      computeShippingCost_warnings [OF 1(4)] computeGatewayFees_warnings [OF 1(5)] computeCodCost_warnings [OF 1(6)]
      computeReversalImpact_warnings [OF 1(7)] 1(8) by simp
qed

lemma all_warnings_sorted [simp]: "all_warnings (sortDiagnostics ds) = all_warnings ds"
  by (simp add: all_warnings_def)

lemma all_fatal_sorted [simp]: "all_fatal (sortDiagnostics ds) = all_fatal ds"
  by (simp add: all_fatal_def)

lemma computed_warnings:
  assumes "computeOrderProfit intl input = Computed c"
  shows "all_warnings (opc_diagnostics c)"
proof -
  obtain inp order store frs where wf: "well_formed inp" "in_order inp = Some order"
    and n: "compute_normalized intl (normalized_of inp order) store (int_fee_rule_set frs) = Inr c"
    using assms by (rule computeOrderProfit_Computed)
  from n show ?thesis
    by (cases rule: compute_normalized_cases)
      (simp add: compute_terms_warnings [OF _ normalized_items(1) [OF wf]])
qed

lemma error_code_fatal: "severityOf (error_code e) = Fatal"
  by (cases e) simp_all

lemma rejected_fatal:
  assumes "computeOrderProfit intl input = Rejected r"
  shows "opr_diagnostics r \<noteq> [] \<and> all_fatal (opr_diagnostics r)"
proof -
  let ?oid = "or_empty (map_option order_id (Option.bind input in_order))"
  let ?sid = "or_empty (map_option store_storeId (Option.bind input in_store))"
  show ?thesis
  proof (cases "compute intl input ?oid ?sid")
    case (Inl e)
    then show ?thesis using assms by (auto simp: computeOrderProfit_def Let_def error_code_fatal)
  next
    case (Inr res)
    then have "res = Rejected r" using assms by (simp add: computeOrderProfit_def Let_def)
    then have none: "fst (normalizeAndValidate input) = None"
      and d: "opr_diagnostics r = sortDiagnostics (snd (normalizeAndValidate input))"
      using Inr by (auto simp: compute_def bindE_eq_Inr split: prod.splits option.splits)
    show ?thesis using normalizeAndValidate_fatal [OF none] d by simp
  qed
qed

section \<open>Goods that come back\<close>

lemma index_costs_values:
  "(byProductKey (fst (index_costs idx cs)) k = Some c \<longrightarrow> byProductKey idx k = Some c \<or> c \<in> int_cost ` set cs)
   \<and> (bySku (fst (index_costs idx cs)) k' = Some c' \<longrightarrow> bySku idx k' = Some c' \<or> c' \<in> int_cost ` set cs)"
proof (induction cs arbitrary: idx)
  case Nil
  then show ?case by simp
next
  case (Cons a cs)
  let ?idx = "idx\<lparr> byProductKey := (byProductKey idx)(productKeyOf (cost_platformProductId a) (cost_platformVariantId a) \<mapsto> int_cost a),
      bySku := (if or_empty (cost_sku a) \<noteq> [] then (bySku idx)(or_empty (cost_sku a) \<mapsto> int_cost a) else bySku idx) \<rparr>"
  have "fst (index_costs idx (a # cs)) = fst (index_costs ?idx cs)"
    by (simp add: Let_def split_beta)
  then show ?case
    using Cons.IH [of ?idx] by (auto split: if_splits)
qed

definition costs_nonneg :: "order_profit_input \<Rightarrow> bool" where
  "costs_nonneg inp \<longleftrightarrow> list_all (\<lambda>c. 0 \<le> js_int (cost_unitCostMinor c)) (or_nil (in_costs inp))"

lemma normalized_costs_nonneg:
  "costs_nonneg inp \<Longrightarrow> nonneg_costs (norm_costs (normalized_of inp order))"
  using index_costs_values [of empty_index "or_nil (in_costs inp)"]
  by (fastforce simp: nonneg_costs_def normalized_of_def costs_nonneg_def list_all_iff empty_index_def int_cost_def)

lemma restocked_bounds:
  assumes t: "compute_terms n store frs recog = Inr (t, ds)" and d: "distinct (map item_id (norm_items n))"
    and q: "\<And>i. i \<in> set (norm_items n) \<Longrightarrow> 0 \<le> item_quantity i" and nn: "nonneg_costs (norm_costs n)"
  shows "0 \<le> ri_restockedCogsMinor (ot_reversal t)"
    and "ri_restockedCogsMinor (ot_reversal t) \<le> ocogs_cogsMinor (ot_cogs t)"
proof -
  let ?cl = "ocogs_lines (ot_cogs t)" and ?rl = "ri_lines (ot_reversal t)"
  obtain d2 where cg: "computeCogs (norm_items n) (norm_costs n) = Inr (ot_cogs t, d2)"
    using t by (cases rule: compute_terms_cases) blast
  note ids = terms_ids [OF t]
  have dc: "distinct (map lcogs_orderItemId ?cl)" using ids(2) d by simp
  have cost: "0 \<le> costOf (cogs_map ?cl) i" for i
    using computeCogs_nonneg [OF cg nn q]
    by (auto simp: costOf_def cogs_map_def split: option.split dest!: js_map_Some)
  have ok: "ri_restockedCogsMinor (ot_reversal t) = (\<Sum>l\<leftarrow>?rl. lvr_restockedCogsMinor l)"
    "\<And>l. l \<in> set ?rl \<Longrightarrow> 0 \<le> lvr_restockedCogsMinor l \<and> lvr_restockedCogsMinor l \<le> costOf (cogs_map ?cl) (lvr_orderItemId l)"
    using ids(4) cost by (auto simp: impact_ok_def)
  show "0 \<le> ri_restockedCogsMinor (ot_reversal t)"
    unfolding ok(1) by (rule sum_list_nonneg_int) (simp add: ok(2))
  have "(\<Sum>l\<leftarrow>?rl. lvr_restockedCogsMinor l) \<le> (\<Sum>l\<leftarrow>?rl. costOf (cogs_map ?cl) (lvr_orderItemId l))"
    by (rule sum_list_mono_le) (simp add: ok(2))
  also have "\<dots> = (\<Sum>i\<leftarrow>map item_id (norm_items n). costOf (cogs_map ?cl) i)"
    by (simp only: ids(3) [symmetric] map_map comp_def)
  also have "\<dots> = (\<Sum>c\<leftarrow>?cl. lcogs_cogsMinor c)"
    using keyed_sum [OF dc ids(2), of lcogs_cogsMinor] by (simp only: costOf_def cogs_map_def)
  also have "\<dots> = ocogs_cogsMinor (ot_cogs t)" using computeCogs_sum [OF cg] by simp
  finally show "ri_restockedCogsMinor (ot_reversal t) \<le> ocogs_cogsMinor (ot_cogs t)" unfolding ok(1) .
qed

section \<open>Independence of the order of arrival\<close>

lemma computeOrderProfit_same_parts:
  assumes "same_parts a b" and "well_formed a"
  shows "computeOrderProfit intl (Some a) = computeOrderProfit intl (Some b)"
proof -
  have wb: "well_formed b" using assms same_parts_well_formed by blast
  obtain order where o: "in_order a = Some order"
    using assms(2) by (auto simp: well_formed_def split: option.splits)
  have parts: "in_order b = Some order" "in_store b = in_store a" "in_feeRuleSet b = in_feeRuleSet a"
    using assms(1) o by (simp_all add: same_parts_def)
  have "normalizeAndValidate (Some a) = (Some (normalized_of a order), [])"
    and "normalizeAndValidate (Some b) = (Some (normalized_of a order), [])"
    using normalizeAndValidate_accepts [OF o assms(2)] normalizeAndValidate_accepts [OF parts(1) wb]
      same_parts_normalized [OF assms] by simp_all
  then show ?thesis using o parts by (simp add: computeOrderProfit_def compute_def)
qed

section \<open>Orders that do not count\<close>

lemma computed_excluded:
  assumes "computeOrderProfit intl input = Computed c" and "isExcluded (opc_recognition c)"
  shows "opc_lines c = [] \<and> opt_revenueExVatMinor (opc_totals c) = 0 \<and> opt_cogsMinor (opc_totals c) = 0
     \<and> opt_reversalImpactMinor (opc_totals c) = 0 \<and> opt_contributionMarginMinor (opc_totals c) = 0
     \<and> opt_marginBps (opc_totals c) = None"
proof -
  obtain n store frs where n: "compute_normalized intl n store frs = Inr c"
    using assms(1) by (rule computeOrderProfit_Computed)
  from n show ?thesis
  proof (cases rule: compute_normalized_cases)
    case (1 t ds margin bps covered)
    obtain d1 where rv: "computeRevenue (norm_order n) (norm_items n) (recognition_of n) = Inr (ot_revenue t, d1)"
      using 1(1) by (cases rule: compute_terms_cases) blast
    have x: "isExcluded (recognition_of n)" using assms(2) 1(7) by simp
    then have "recognition_of n \<noteq> Recognized" by (cases "recognition_of n") simp_all
    then have "orev_revenueExVatMinor (ot_revenue t) = 0"
      using computeRevenue_zero [OF rv] by blast
    then show ?thesis
      using x 1(3,5,7,8) contribution_margin_Inr(1) [OF 1(4)]
      by (simp add: order_lines_def unless_excluded_def marginBpsOf_def)
  qed
qed

text \<open>Every computed result, told through its terms.\<close>

lemma computed_terms:
  assumes "computeOrderProfit intl input = Computed c"
  obtains inp order n store frs t ds margin bps covered where "input = Some inp" and "well_formed inp"
    and "in_order inp = Some order" and "in_store inp = Some store" and "in_feeRuleSet inp = Some frs"
    and "n = normalized_of inp order"
    and "compute_terms n store (int_fee_rule_set frs) (opc_recognition c) = Inr (t, ds)"
    and "businessDateOf intl (order_placedAt order) (store_timezone store) = Inr (opc_businessDate c)"
    and "contribution_margin (opc_recognition c) t = Inr margin"
    and "marginBpsOf margin (orev_revenueExVatMinor (ot_revenue t)) = Inr bps"
    and "opc_totals c = order_totals (opc_recognition c) t margin bps covered"
    and "opc_confidence c = deriveConfidence (order_bases n (opc_recognition c) t) ds"
    and "opc_recognition c = computeRecognition (norm_order n) (norm_shipments n)"
    and "compute_normalized intl n store (int_fee_rule_set frs) = Inr c"
proof -
  from assms obtain inp order store frs where p: "input = Some inp" "well_formed inp"
    "in_order inp = Some order" "in_store inp = Some store" "in_feeRuleSet inp = Some frs"
    and n: "compute_normalized intl (normalized_of inp order) store (int_fee_rule_set frs) = Inr c"
    by (rule computeOrderProfit_Computed)
  have pl: "order_placedAt (norm_order (normalized_of inp order)) = order_placedAt order"
    by (simp add: normalized_of_def int_order_def)
  from n show thesis
  proof (cases rule: compute_normalized_cases)
    case (1 t ds margin bps covered)
    show thesis
      using that [OF p refl, of t ds margin bps covered] 1 n pl by (simp add: recognition_of_def)
  qed
qed

end
