(* ===== verification/ProfitBounds.thy ===== *)
theory ProfitBounds
  imports ProfitFacts
begin

text \<open>
  Bounds of a computed result: every money field of the totals is a safe amount, and what an
  uncosted item does to the confidence of the whole order. Each term is bounded where it is
  computed; the accepted input bounds what is only copied.
\<close>

section \<open>The terms\<close>

lemma valid_in_range: "validMinor v \<Longrightarrow> in_range (js_int v)"
  by (simp add: validMinor_def in_range_iff MAX_MINOR_def)

lemma computeRevenue_range:
  assumes "computeRevenue order items recog = Inr (rv, ds)"
    and "in_range (order_shippingChargedExVatMinor order)" and "in_range (order_codFeeChargedExVatMinor order)"
    and "in_range (order_vatAmountMinor order)"
  shows "list_all in_range [orev_itemsRevenueExVatMinor rv, orev_shippingRevenueExVatMinor rv,
      orev_codFeeRevenueExVatMinor rv, orev_orderDiscountExVatMinor rv, orev_revenueExVatMinor rv,
      orev_vatCollectedMinor rv]"
  using assms
  by (auto simp: computeRevenue_def bindE_eq_Inr Let_def split: if_splits dest: addMinor_range)

lemma computeCogs_range: "computeCogs items costs = Inr (cg, ds) \<Longrightarrow> in_range (ocogs_cogsMinor cg)"
  by (auto simp: computeCogs_def bindE_eq_Inr dest: addMinor_range)

lemma matched_rule_mem: "matchShippingRule rules order carrier d = Some r \<Longrightarrow> r \<in> set rules"
  unfolding matchShippingRule_directed
  by (auto split: option.splits dest: shipping_search.pick_mem)

lemma computeShippingCost_range:
  assumes "computeShippingCost order ss rules d = Inr (l, ds)"
    and "\<And>r. r \<in> set rules \<Longrightarrow> in_range (sf_costMinor r)"
  shows "in_range (leg_costMinor l)"
  using assms
  by (auto simp: computeShippingCost_def bindE_eq_Inr Let_def split: if_splits option.splits
      dest: addMinor_range matched_rule_mem)

lemma computeGatewayFees_range:
  "computeGatewayFees order rules reg = Inr (g, ds) \<Longrightarrow>
     list_all in_range [gf_exVatMinor g, gf_vatMinor g, gf_costMinor g]"
  by (auto simp: computeGatewayFees_def bindE_eq_Inr Let_def split: if_splits dest: addMinor_range)

lemma computeCodCost_range:
  "computeCodCost order ss rules reg = Inr (c, ds) \<Longrightarrow>
     list_all in_range [cc_exVatMinor c, cc_vatMinor c, cc_costMinor c]"
  by (auto simp: computeCodCost_def bindE_eq_Inr Let_def split: if_splits dest: addMinor_range)

lemma computeReversalImpact_range:
  "computeReversalImpact rs rls cls q w recog ss dispatched = Inr (ri, ds) \<Longrightarrow>
     list_all in_range [ri_reversedRevenueExVatMinor ri, ri_restockedCogsMinor ri, ri_impactMinor ri]"
  by (auto simp: computeReversalImpact_def creditWholeOrder_def empty_impact_def bindE_eq_Inr Let_def
      split: if_splits dest: addMinor_range)

section \<open>The totals\<close>

definition totals_money :: "order_profit_totals \<Rightarrow> int list" where
  "totals_money t =
     [opt_itemsRevenueExVatMinor t, opt_shippingRevenueExVatMinor t, opt_codFeeRevenueExVatMinor t,
      opt_orderDiscountExVatMinor t, opt_revenueExVatMinor t, opt_vatCollectedMinor t, opt_cogsMinor t,
      opt_outboundShippingCostMinor t, opt_returnShippingCostMinor t, opt_gatewayFeeExVatMinor t,
      opt_gatewayFeeVatMinor t, opt_gatewayFeeCostMinor t, opt_codCostExVatMinor t, opt_codCostVatMinor t,
      opt_codCostMinor t, opt_reversedRevenueExVatMinor t, opt_restockedCogsMinor t,
      opt_reversalImpactMinor t, opt_contributionMarginMinor t, opt_costCoveredRevenueExVatMinor t]"

lemma unless_excluded_range [simp]: "in_range v \<Longrightarrow> in_range (unless_excluded r v)"
  by (simp add: unless_excluded_def)

lemma accepted_rules_range:
  assumes "well_formed inp" and "in_feeRuleSet inp = Some frs"
    and "r \<in> set (frs_shippingFallback (int_fee_rule_set frs))"
  shows "in_range (sf_costMinor r)"
  using assms by (auto simp: well_formed_def header_ok_def rules_ok_def int_fee_rule_set_def
      int_shipping_rule_def valid_in_range split: option.splits)

lemma accepted_order_range:
  assumes "well_formed inp" and "in_order inp = Some order"
  shows "list_all in_range [order_shippingChargedExVatMinor (int_order order),
      order_codFeeChargedExVatMinor (int_order order), order_vatAmountMinor (int_order order)]"
  using assms by (auto simp: well_formed_def header_ok_def order_ok_def int_order_def valid_in_range
      split: option.splits)

lemma order_totals_money:
  assumes t: "compute_terms n store frs recog = Inr (t, ds)"
    and order: "list_all in_range [order_shippingChargedExVatMinor (norm_order n),
        order_codFeeChargedExVatMinor (norm_order n), order_vatAmountMinor (norm_order n)]"
    and rules: "\<And>r. r \<in> set (frs_shippingFallback frs) \<Longrightarrow> in_range (sf_costMinor r)"
    and m: "in_range margin" and v: "in_range covered"
  shows "list_all in_range (totals_money (order_totals recog t margin bps covered))"
proof -
  obtain d1 d2 d3 d4 d5 d6 d7 where
    parts: "computeRevenue (norm_order n) (norm_items n) recog = Inr (ot_revenue t, d1)"
    "computeCogs (norm_items n) (norm_costs n) = Inr (ot_cogs t, d2)"
    "computeShippingCost (norm_order n) (norm_shipments n) (frs_shippingFallback frs) SD_outbound
         = Inr (ot_outbound t, d3)"
    "computeShippingCost (norm_order n) (norm_shipments n) (frs_shippingFallback frs) SD_return
         = Inr (ot_returned t, d4)"
    "computeGatewayFees (norm_order n) (frs_gateway frs) (store_vatRegistered store) = Inr (ot_gateway t, d5)"
    "computeCodCost (norm_order n) (norm_shipments n) (frs_cod frs) (store_vatRegistered store)
         = Inr (ot_cod t, d6)"
    "computeReversalImpact (norm_reversals n) (orev_lines (ot_revenue t)) (ocogs_lines (ot_cogs t))
         (item_quantities (norm_items n)) (item_weights (norm_items n)) recog (norm_shipments n)
         (order_fulfillmentState (norm_order n) \<in> DISPATCHED) = Inr (ot_reversal t, d7)"
    by (rule compute_terms_cases [OF t])
  note ranges = computeCogs_range [OF parts(2)]
    computeShippingCost_range [OF parts(3) rules] computeShippingCost_range [OF parts(4) rules]
    computeGatewayFees_range [OF parts(5)] computeCodCost_range [OF parts(6)]
    computeReversalImpact_range [OF parts(7)]
  have vat: "opt_vatCollectedMinor (order_totals recog t margin bps covered) = orev_vatCollectedMinor (ot_revenue t)"
    by (simp add: order_totals_def Let_def)
  have revenue: "list_all in_range [orev_itemsRevenueExVatMinor (ot_revenue t),
      orev_shippingRevenueExVatMinor (ot_revenue t), orev_codFeeRevenueExVatMinor (ot_revenue t),
      orev_orderDiscountExVatMinor (ot_revenue t), orev_revenueExVatMinor (ot_revenue t),
      orev_vatCollectedMinor (ot_revenue t)]"
    by (rule computeRevenue_range [OF parts(1)]) (use order in simp_all)
  note facts = revenue [unfolded list.pred_inject] ranges [unfolded list.pred_inject] m v
  show ?thesis
    unfolding totals_money_def order_totals_sel vat list.pred_inject
    by (intro conjI TrueI unless_excluded_range) (use facts in blast)+
qed

lemma computed_covered:
  "compute_normalized intl n store frs = Inr c \<Longrightarrow> in_range (opt_costCoveredRevenueExVatMinor (opc_totals c))"
  by (erule compute_normalized_cases) (simp add: addMinor_range)

lemma computed_money_range:
  assumes "computeOrderProfit intl input = Computed c"
  shows "list_all in_range (totals_money (opc_totals c))"
proof -
  obtain inp order n store frs t ds margin bps covered where
    c: "well_formed inp" "in_order inp = Some order" "in_feeRuleSet inp = Some frs" "n = normalized_of inp order"
    "compute_terms n store (int_fee_rule_set frs) (opc_recognition c) = Inr (t, ds)"
    "contribution_margin (opc_recognition c) t = Inr margin"
    "opc_totals c = order_totals (opc_recognition c) t margin bps covered"
    "compute_normalized intl n store (int_fee_rule_set frs) = Inr c"
    by (rule computed_terms [OF assms]) blast
  have covered: "in_range covered" using computed_covered [OF c(8)] c(7) by simp
  have order: "norm_order n = int_order order" unfolding c(4) by (simp add: normalized_of_def)
  show ?thesis
    unfolding c(7)
    by (rule order_totals_money [OF c(5)])
      (use accepted_order_range [OF c(1,2)] accepted_rules_range [OF c(1,3)]
        contribution_margin_Inr(2) [OF c(6)] covered order in auto)
qed

section \<open>Lines and items\<close>

lemma order_lines_ids:
  assumes "order_lines n recog t = Inr lines" and "compute_terms n store frs recog = Inr (t, ds)"
    and "distinct (map item_id (norm_items n))" and "\<not> isExcluded recog"
  shows "map pl_orderItemId lines = map item_id (norm_items n)"
proof (cases "lines = []")
  case True
  have "norm_items n = []"
  proof (rule ccontr)
    assume "norm_items n \<noteq> []"
    then have "orev_lines (ot_revenue t) \<noteq> []" using terms_ids(1) [OF assms(2)] by auto
    then have "lines \<noteq> []"
      using assms(1,4) by (auto simp: order_lines_def allocateOrderCostsToLines_def bindE_eq_Inr Let_def
          dest!: mapE_length split: if_splits)
    then show False using True by simp
  qed
  then show ?thesis using True by simp
next
  case False
  obtain amounts where a: "allocateOrderCostsToLines (norm_items n) (orev_lines (ot_revenue t))
      (ocogs_lines (ot_cogs t)) (ri_lines (ot_reversal t)) amounts = Inr lines"
    "lines_input_ok (orev_lines (ot_revenue t)) (ocogs_lines (ot_cogs t)) (ri_lines (ot_reversal t)) amounts"
    "orev_lines (ot_revenue t) \<noteq> []"
    using order_lines_cases [OF assms(1,2,3) False] by metis
  show ?thesis using allocateOrderCostsToLines_columns(1) [OF a] terms_ids(1) [OF assms(2)] by simp
qed

lemma computed_line_ids:
  assumes "computeOrderProfit intl (Some inp) = Computed c" and "\<not> isExcluded (opc_recognition c)"
  shows "map pl_orderItemId (opc_lines c) = map item_id (sort_key item_platformLineId (or_nil (in_items inp)))"
proof -
  obtain inp' order store frs where i: "Some inp = Some inp'" "well_formed inp'" "in_order inp' = Some order"
    "in_store inp' = Some store" "in_feeRuleSet inp' = Some frs"
    and n: "compute_normalized intl (normalized_of inp' order) store (int_fee_rule_set frs) = Inr c"
    using computeOrderProfit_Computed [OF assms(1)] .
  let ?n = "normalized_of inp order"
  have inp: "inp' = inp" using i(1) by simp
  obtain t ds where t: "compute_terms ?n store (int_fee_rule_set frs) (recognition_of ?n) = Inr (t, ds)"
    and l: "order_lines ?n (recognition_of ?n) t = Inr (opc_lines c)" and r: "opc_recognition c = recognition_of ?n"
    using compute_normalized_cases [OF n [unfolded inp]] by metis
  have "map pl_orderItemId (opc_lines c) = map item_id (norm_items ?n)"
    using order_lines_ids [OF l t] normalized_items(1) [OF i(2,3)] assms(2) inp r by simp
  then show ?thesis by (simp add: normalized_of_def comp_def int_item_def)
qed

section \<open>An uncosted item\<close>

lemma computeCogs_anyMissing:
  "computeCogs items costs = Inr (cg, ds) \<Longrightarrow>
     ocogs_anyMissing cg = list_ex (\<lambda>i. resolve_cost costs i = None) items"
  by (auto simp: computeCogs_def bindE_eq_Inr)

text \<open>No cost row answers for the item, neither by product nor by SKU.\<close>

definition uncosted :: "js_number resolved_cost list \<Rightarrow> js_number canonical_order_item \<Rightarrow> bool" where
  "uncosted costs i \<longleftrightarrow>
     (\<forall>c \<in> set costs. cost_key c \<noteq> productKeyOf (item_platformProductId i) (item_platformVariantId i)
        \<and> (or_empty (item_sku i) = [] \<or> or_empty (cost_sku c) \<noteq> or_empty (item_sku i)))"

lemma index_costs_None:
  "byProductKey idx k = None \<Longrightarrow> (\<forall>c \<in> set cs. cost_key c \<noteq> k) \<Longrightarrow>
     byProductKey (fst (index_costs idx cs)) k = None"
  "bySku idx s = None \<Longrightarrow> (\<forall>c \<in> set cs. or_empty (cost_sku c) \<noteq> s) \<Longrightarrow>
     bySku (fst (index_costs idx cs)) s = None"
  by (induction cs arbitrary: idx) (auto simp: Let_def split_beta cost_key_def)

lemma uncosted_unresolved:
  assumes "uncosted (or_nil (in_costs inp)) i"
  shows "resolve_cost (norm_costs (normalized_of inp order)) (int_item i) = None"
  using assms index_costs_None
  by (auto simp: resolve_cost_def normalized_of_def int_item_def uncosted_def empty_index_def or_empty_def
      split: option.splits)

lemma computed_uncosted:
  assumes "computeOrderProfit intl (Some inp) = Computed c" and "i \<in> set (or_nil (in_items inp))"
    and "uncosted (or_nil (in_costs inp)) i" and "\<not> isExcluded (opc_recognition c)"
  shows "conf_cogs (opc_confidence c) = TB_missing" and "conf_level (opc_confidence c) = CL_incomplete"
proof -
  obtain inp' order n store frs t ds margin bps covered where
    c: "Some inp = Some inp'" "well_formed inp'" "in_order inp' = Some order" "n = normalized_of inp' order"
    "compute_terms n store (int_fee_rule_set frs) (opc_recognition c) = Inr (t, ds)"
    "opc_confidence c = deriveConfidence (order_bases n (opc_recognition c) t) ds"
    by (rule computed_terms [OF assms(1)]) blast
  have item: "int_item i \<in> set (norm_items n)" using normalized_items(3) [OF c(2,3)] assms(2) c(1,4) by auto
  obtain d2 where "computeCogs (norm_items n) (norm_costs n) = Inr (ot_cogs t, d2)"
    by (rule compute_terms_cases [OF c(5)]) blast
  note computeCogs_anyMissing [OF this]
  then have "ocogs_anyMissing (ot_cogs t)"
    using uncosted_unresolved [OF assms(3), of order] item c(1,4) by (auto simp: list_ex_iff)
  then have "tb_cogs (order_bases n (opc_recognition c) t) = TB_missing"
    using assms(4) item by (auto simp: order_bases_def cogs_basis_of_def Let_def)
  then show cogs: "conf_cogs (opc_confidence c) = TB_missing"
    unfolding c(6) by (simp add: deriveConfidence_def worse_def Let_def)
  show "conf_level (opc_confidence c) = CL_incomplete"
    using cogs unfolding c(6) deriveConfidence_level by (simp add: conf_terms_def)
qed

end
