(* ===== verification/Sample.thy ===== *)
theory Sample
  imports Profit
begin

text \<open>
  Concrete orders on which the properties are evaluated: a store in Riyadh, an order of two items
  paid by card with a shipment and a partial refund, and variations of it. The zone database is a
  function that knows one zone, at a fixed offset.
\<close>

definition riyadh :: intl where
  "riyadh zone millis = (if zone = ''Asia/Riyadh'' then Some (''2025'', ''03'', ''02'') else None)"

definition sample_order :: "js_number canonical_order" where
  "sample_order = \<lparr>
     order_id = ''salla:1:9'', order_storeId = ''salla:1'', order_platformOrderId = ''9'',
     order_placedAt = ''2025-03-01T22:30:00.000Z'', order_platformUpdatedAt = None,
     order_lifecycle = OL_completed, order_paymentState = PS_partially_refunded,
     order_fulfillmentState = FS_delivered, order_platformStatusId = None, order_rawStatusLabel = ''done'',
     order_isTest = False, order_fulfillmentMethod = FM_carrier,
     order_destination = Some \<lparr> dest_countryCode = ''SA'', dest_region = None, dest_city = None \<rparr>,
     order_currency = ''SAR'', order_vatRateBps = 1500,
     order_subtotalExVatMinor = JInt 15000, order_vatAmountMinor = JInt 2550,
     order_shippingChargedExVatMinor = JInt 2000, order_codFeeChargedExVatMinor = JInt 0,
     order_totalIncVatMinor = JInt 19550, order_discounts = [],
     order_payments = [\<lparr> pay_instrument = PI_card, pay_scheme = Some CS_mada, pay_wallet = None,
       pay_provider = None, pay_rawMethodLabel = ''mada'', pay_state = PL_captured,
       pay_amountGrossMinor = 19550, pay_transactionRef = None \<rparr>],
     order_customerRef = None, order_attribution = None \<rparr>"

definition sample_item :: "string \<Rightarrow> int \<Rightarrow> int \<Rightarrow> js_number canonical_order_item" where
  "sample_item n qty price = \<lparr>
     item_id = ''salla:1:9:'' @ n, item_orderId = ''salla:1:9'', item_platformLineId = n,
     item_platformProductId = ''p'' @ n, item_platformVariantId = None, item_sku = None,
     item_productName = n, item_quantity = JInt qty, item_unitPriceExVatMinor = JInt price,
     item_grossLineExVatMinor = JInt (qty * price), item_lineDiscountExVatMinor = JInt 0,
     item_lineTotalExVatMinor = JInt (qty * price) \<rparr>"

definition sample_cost :: "string \<Rightarrow> int \<Rightarrow> js_number resolved_cost" where
  "sample_cost n c = \<lparr>
     cost_platformProductId = ''p'' @ n, cost_platformVariantId = None, cost_sku = None,
     cost_unitCostMinor = JInt c, cost_source = CO_merchant_manual, cost_costHistoryId = ''h'' @ n \<rparr>"

definition sample_shipment :: "js_number canonical_shipment" where
  "sample_shipment = \<lparr>
     ship_id = ''s1'', ship_orderId = ''salla:1:9'', ship_platformShipmentId = ''s1'',
     ship_direction = SD_outbound, ship_status = SS_delivered, ship_carrier = ''smsa'',
     ship_rawCarrierLabel = ''SMSA'', ship_carrierCostMinor = Some (JInt 1800), ship_lines = [],
     ship_shippedAt = None, ship_deliveredAt = None, ship_platformUpdatedAt = None \<rparr>"

definition sample_reversal :: "js_number canonical_reversal" where
  "sample_reversal = \<lparr>
     rev_id = ''r1'', rev_orderId = ''salla:1:9'', rev_platformReversalId = None, rev_kind = RK_refund,
     rev_reason = RR_customer_return, rev_rawReasonLabel = None,
     rev_occurredAt = ''2025-03-09T10:00:00.000Z'', rev_amountExVatMinor = 5000,
     rev_shippingRefundExVatMinor = 0, rev_codFeeRefundExVatMinor = 0, rev_adjustmentExVatMinor = 0,
     rev_vatMinor = 750, rev_totalIncVatMinor = 5750,
     rev_lines = Some [\<lparr> rline_orderItemId = ''salla:1:9:a'', rline_quantity = JInt 1,
       rline_amountExVatMinor = JInt 5000, rline_restockOutcome = RO_restocked_sellable \<rparr>],
     rev_restockOutcome = RO_restocked_sellable, rev_platformUpdatedAt = None \<rparr>"

definition mada_rule :: "js_number gateway_fee_rule" where
  "mada_rule = \<lparr>
     fee_percentBps = JInt 100, fee_fixedMinor = JInt 100, fee_minFeeMinor = None, fee_maxFeeMinor = None,
     fee_feeVatBps = JInt 1500, fee_ratesIncludeVat = False, fee_source = FE_merchant_entered,
     gw_instrument = Some PI_card, gw_scheme = Some CS_mada, gw_provider = None \<rparr>"

definition sample_rules :: "js_number fee_rule_set" where
  "sample_rules = \<lparr> frs_id = ''f1'', frs_currency = ''SAR'', frs_gateway = [mada_rule], frs_cod = [],
     frs_shippingFallback = [] \<rparr>"

definition sample_store :: store_profit_config where
  "sample_store = \<lparr> store_storeId = ''salla:1'', store_currency = ''SAR'', store_timezone = ''Asia/Riyadh'',
     store_vatRegistered = True \<rparr>"

definition sample_input :: order_profit_input where
  "sample_input = \<lparr> in_store = Some sample_store, in_order = Some sample_order,
     in_items = Some [sample_item ''b'' 1 5000, sample_item ''a'' 2 5000],
     in_shipments = Some [sample_shipment], in_reversals = Some [sample_reversal],
     in_costs = Some [sample_cost ''a'' 2000, sample_cost ''b'' 3000],
     in_feeRuleSet = Some sample_rules \<rparr>"

text \<open>The same parts in another order, a test order, and an order one of whose items has no cost.\<close>

definition reordered_input :: order_profit_input where
  "reordered_input = sample_input\<lparr> in_items := Some [sample_item ''a'' 2 5000, sample_item ''b'' 1 5000] \<rparr>"

definition test_input :: order_profit_input where
  "test_input = sample_input\<lparr> in_order := Some (sample_order\<lparr> order_isTest := True \<rparr>) \<rparr>"

definition uncosted_input :: order_profit_input where
  "uncosted_input = sample_input\<lparr> in_costs := Some [sample_cost ''b'' 3000] \<rparr>"

definition foreign_input :: order_profit_input where
  "foreign_input = sample_input\<lparr> in_reversals := Some [sample_reversal\<lparr> rev_orderId := ''salla:1:8'' \<rparr>] \<rparr>"

definition computed_of :: "order_profit_input \<Rightarrow> order_profit_computed" where
  "computed_of inp = (case computeOrderProfit riyadh (Some inp) of Computed c \<Rightarrow> c | Rejected _ \<Rightarrow> undefined)"

definition sample_totals :: order_profit_totals where
  "sample_totals = \<lparr>
     opt_itemsRevenueExVatMinor = 15000, opt_shippingRevenueExVatMinor = 2000,
     opt_codFeeRevenueExVatMinor = 0, opt_orderDiscountExVatMinor = 0,
     opt_revenueExVatMinor = 17000, opt_vatCollectedMinor = 2550,
     opt_cogsMinor = 7000, opt_outboundShippingCostMinor = 1800, opt_returnShippingCostMinor = 0,
     opt_gatewayFeeExVatMinor = 296, opt_gatewayFeeVatMinor = 44, opt_gatewayFeeCostMinor = 296,
     opt_codCostExVatMinor = 0, opt_codCostVatMinor = 0, opt_codCostMinor = 0,
     opt_reversedRevenueExVatMinor = 5000, opt_restockedCogsMinor = 2000,
     opt_reversalImpactMinor = - 3000, opt_contributionMarginMinor = 4904,
     opt_marginBps = Some 2885, opt_costCoveredRevenueExVatMinor = 15000 \<rparr>"

text \<open>The result of each order, evaluated.\<close>

lemma sample_result:
  "case computeOrderProfit riyadh (Some sample_input) of
     Computed c \<Rightarrow> opc_totals c = sample_totals \<and> opc_recognition c = Recognized
       \<and> map pl_orderItemId (opc_lines c) = [''salla:1:9:a'', ''salla:1:9:b'']
       \<and> map pl_contributionMarginMinor (opc_lines c) = [2936, 1968]
       \<and> opc_businessDate c = ''2025-03-02''
   | Rejected _ \<Rightarrow> False"
  by code_simp

lemma test_result:
  "case computeOrderProfit riyadh (Some test_input) of
     Computed c \<Rightarrow> opc_recognition c = Excluded EX_test_order | Rejected _ \<Rightarrow> False"
  by code_simp

lemma uncosted_result:
  "case computeOrderProfit riyadh (Some uncosted_input) of
     Computed c \<Rightarrow> opc_recognition c = Recognized | Rejected _ \<Rightarrow> False"
  by code_simp

lemma computed_of_result:
  assumes "case computeOrderProfit riyadh (Some inp) of Computed c \<Rightarrow> P c | Rejected _ \<Rightarrow> False"
  shows "computeOrderProfit riyadh (Some inp) = Computed (computed_of inp)" and "P (computed_of inp)"
  using assms by (simp_all add: computed_of_def split: order_profit_result.splits)

lemmas sample_computed = computed_of_result(1) [OF sample_result]
lemmas test_computed = computed_of_result(1) [OF test_result]
lemmas uncosted_computed = computed_of_result(1) [OF uncosted_result]
lemmas sample_facts = computed_of_result(2) [OF sample_result]
lemmas test_recognition = computed_of_result(2) [OF test_result]
lemmas uncosted_recognition = computed_of_result(2) [OF uncosted_result]

end
