(* ===== verification/EngineProperties.thy ===== *)
theory EngineProperties
  imports ProfitBounds Sample
begin

text \<open>
  Properties of the terms of an order's profit: recognition, fees, rate card lookups, shipping,
  cash on delivery, reversals and confidence (\<open>packages/core/src/engine\<close>).
\<close>

section \<open>Recognition and confidence\<close>

text \<open>
  Exactly which orders count as revenue: not a test, not a draft, not voided or failed, not
  returned to origin unpaid, not lost on the way unpaid, and cancelled only when the payment was
  refunded in part. An order excluded as cancelled was never dispatched.
\<close>

theorem recognition_rule:
  "(computeRecognition order shipments = Recognized \<longleftrightarrow>
     \<not> order_isTest order \<and> order_lifecycle order \<noteq> OL_draft
     \<and> order_paymentState order \<noteq> PS_voided \<and> order_paymentState order \<noteq> PS_failed
     \<and> \<not> (order_fulfillmentState order = FS_rto \<and> order_paymentState order \<in> NEVER_SETTLED)
     \<and> \<not> (order_paymentState order \<in> NEVER_SETTLED
          \<and> (\<exists>s \<in> set shipments. ship_direction s = SD_outbound \<and> ship_status s \<in> LIVE)
          \<and> (\<forall>s \<in> set shipments. ship_direction s = SD_outbound \<and> ship_status s \<in> LIVE \<longrightarrow> ship_status s = SS_lost))
     \<and> (order_lifecycle order = OL_cancelled \<longrightarrow> order_paymentState order = PS_partially_refunded))
   \<and> (computeRecognition order shipments = Excluded EX_cancelled_before_economic_effect \<longrightarrow>
        order_fulfillmentState order \<notin> DISPATCHED)"
  using recognized_iff [of order shipments] excluded_only_undispatched [of order shipments] by (intro conjI impI)

theorem recognition_rule_witness:
  "computeRecognition (int_order sample_order\<lparr> order_lifecycle := OL_cancelled, order_paymentState := PS_voided,
       order_fulfillmentState := FS_unfulfilled \<rparr>) [] = Excluded EX_cancelled_before_economic_effect
   \<and> FS_unfulfilled \<notin> DISPATCHED"
proof -
  let ?o = "int_order sample_order\<lparr> order_lifecycle := OL_cancelled, order_paymentState := PS_voided,
       order_fulfillmentState := FS_unfulfilled \<rparr>"
  have "computeRecognition ?o [] = Excluded EX_cancelled_before_economic_effect" by code_simp
  then show ?thesis using recognition_rule [of ?o "[]"] by simp
qed

text \<open>
  The published confidence level is a function of the published terms: incomplete exactly when
  a term is missing or the revenue does not reconcile, exact exactly when every term is actual or
  not applicable and no reversal was allocated, estimated otherwise; and no diagnostic that doubts a
  number coexists with \<open>exact\<close>.
\<close>

theorem confidence_level:
  "conf_level (deriveConfidence terms ds) =
     (if TB_missing \<in> set (conf_terms (deriveConfidence terms ds))
         \<or> conf_revenue (deriveConfidence terms ds) = RB_unreconciled then CL_incomplete
      else if (\<forall>b \<in> set (conf_terms (deriveConfidence terms ds)). b = TB_actual \<or> b = TB_not_applicable)
         \<and> conf_reversal (deriveConfidence terms ds) \<noteq> VB_allocated then CL_exact
      else CL_estimated)
   \<and> (conf_level (deriveConfidence terms ds) = CL_exact \<longrightarrow> (\<forall>c \<in> set (map diag_code ds).
        c \<notin> {RESTOCK_UNKNOWN, REVERSAL_LINE_UNMATCHED, REVERSAL_TOTAL_MISMATCH, ORDER_HAS_NO_ITEMS}))"
  using deriveConfidence_level [of terms ds] exact_excludes_doubt [of terms ds] by auto

definition settled_terms :: term_bases where
  "settled_terms = \<lparr> tb_reconciles = True, tb_cogs = TB_actual, tb_outboundShipping = TB_actual,
     tb_returnShipping = TB_not_applicable, tb_gatewayFee = TB_actual, tb_codCost = TB_not_applicable,
     tb_reversal = VB_not_applicable \<rparr>"

theorem confidence_level_witness:
  "conf_level (deriveConfidence settled_terms []) = CL_exact
   \<and> conf_level (deriveConfidence settled_terms [onOrder RESTOCK_UNKNOWN]) \<noteq> CL_exact"
proof -
  have "conf_level (deriveConfidence settled_terms []) = CL_exact" by code_simp
  then show ?thesis using conjunct2 [OF confidence_level [of settled_terms "[onOrder RESTOCK_UNKNOWN]"]] by auto
qed

section \<open>Fees\<close>

text \<open>
  A valid formula charges an amount that is at least its floor and at most its cap, costs no
  less on a larger amount, and is never negative: the cost, the net fee and its VAT are at least
  zero on an amount that is.
\<close>

theorem fee_bounded_and_monotone:
  assumes "formula_ok f" and "0 \<le> a" and "a \<le> b"
    and "applyFeeFormula a f reg = Inr x" and "applyFeeFormula b f reg = Inr y"
  shows "fee_costMinor x \<le> fee_costMinor y \<and> 0 \<le> fee_exVatMinor x \<and> 0 \<le> fee_vatMinor x
    \<and> fee_exVatMinor x \<le> fee_costMinor x
    \<and> (\<forall>hi. fee_maxFeeMinor f = Some hi \<longrightarrow> fee_exVatMinor x \<le> hi)
    \<and> (\<forall>lo. fee_minFeeMinor f = Some lo \<longrightarrow> lo \<le> fee_exVatMinor x + fee_vatMinor x)"
proof -
  note nonneg = applyFeeFormula_nonneg [OF assms(1,2,4)]
  note fee = applyFeeFormula_Inr [OF assms(4)]
  have "fee_exVatMinor x \<le> charged a f" "charged a f \<le> fee_exVatMinor x + fee_vatMinor x"
    using fee(1,3) nonneg by (cases "fee_ratesIncludeVat f"; simp)+
  moreover have "charged a f \<le> hi" if "fee_maxFeeMinor f = Some hi" for hi
    using charged_bounds(1) [OF assms(1) that] .
  moreover have "lo \<le> charged a f" if "fee_minFeeMinor f = Some lo" for lo
    using charged_bounds(2) [OF assms(1) that] .
  ultimately show ?thesis
    using applyFeeFormula_mono [OF assms] nonneg order_trans by blast
qed

definition capped_rule :: "int gateway_fee_rule" where
  "capped_rule = int_gateway_rule (mada_rule\<lparr> fee_minFeeMinor := Some (JInt 150), fee_maxFeeMinor := Some (JInt 400) \<rparr>)"

theorem fee_bounded_and_monotone_witness:
  "\<exists>x y. applyFeeFormula 1000 capped_rule True = Inr x \<and> applyFeeFormula 90000 capped_rule True = Inr y
     \<and> fee_costMinor x \<le> fee_costMinor y \<and> 150 \<le> fee_exVatMinor x + fee_vatMinor x"
proof -
  have "formula_ok capped_rule"
    by (simp add: formula_ok_def capped_rule_def int_gateway_rule_def mada_rule_def)
  moreover have "applyFeeFormula 1000 capped_rule True
      = Inr \<lparr> fee_exVatMinor = 150, fee_vatMinor = 23, fee_costMinor = 150 \<rparr>" by code_simp
  moreover have "applyFeeFormula 90000 capped_rule True
      = Inr \<lparr> fee_exVatMinor = 400, fee_vatMinor = 60, fee_costMinor = 400 \<rparr>" by code_simp
  ultimately show ?thesis using fee_bounded_and_monotone [of capped_rule 1000 90000 True] by simp
qed

text \<open>
  VAT on fees: what an order's gateway fees and cash handling cost the merchant is the net
  amount for a registered merchant, who reclaims the VAT, and net plus VAT for any other.
\<close>

theorem fee_vat_reclaimed:
  "(computeGatewayFees order rules reg = Inr (g, ds) \<longrightarrow>
      gf_costMinor g = gf_exVatMinor g + (if reg then 0 else gf_vatMinor g))
   \<and> (computeCodCost order ss cods reg = Inr (c, es) \<longrightarrow>
      cc_costMinor c = cc_exVatMinor c + (if reg then 0 else cc_vatMinor c))"
  using computeGatewayFees_split [of order rules reg g ds] computeCodCost_split [of order ss cods reg c es] by blast

theorem fee_vat_reclaimed_witness:
  "\<exists>g ds. computeGatewayFees (int_order sample_order) [int_gateway_rule mada_rule] False = Inr (g, ds)
     \<and> gf_exVatMinor g = 296 \<and> gf_costMinor g = 296 + gf_vatMinor g"
proof -
  have "case computeGatewayFees (int_order sample_order) [int_gateway_rule mada_rule] False of
      Inl _ \<Rightarrow> False | Inr r \<Rightarrow> gf_exVatMinor (fst r) = 296" by code_simp
  then obtain g ds where "computeGatewayFees (int_order sample_order) [int_gateway_rule mada_rule] False = Inr (g, ds)"
    and "gf_exVatMinor g = 296" by (auto split: sum.splits)
  then show ?thesis
    using fee_vat_reclaimed [of "int_order sample_order" "[int_gateway_rule mada_rule]" False g ds] by simp
qed

text \<open>
  A card whose network is unknown is priced by the dearest candidate: the rule chosen for the
  leg comes from the rate card and could price the leg under some network, and no rule among the
  candidates would have cost more.
\<close>

theorem unknown_scheme_priced_dearest:
  assumes "schemeUnknown payment" and "leg_rule rules reg payment = Inr (Some r)"
    and "applyFeeFormula (pay_amountGrossMinor payment) r reg = Inr fr"
  shows "r \<in> set rules \<and> (\<exists>s. matches r payment s)
    \<and> (\<forall>c fc. c \<in> set (schemeCandidates rules payment) \<longrightarrow>
         applyFeeFormula (pay_amountGrossMinor payment) c reg = Inr fc \<longrightarrow> fee_costMinor fc \<le> fee_costMinor fr)"
proof -
  have m: "most_expensive (pay_amountGrossMinor payment) reg (schemeCandidates rules payment) = Inr (Some r)"
    using assms(1,2) by (simp add: leg_rule_def)
  show ?thesis
    using schemeCandidates_matches [OF most_expensive_mem [OF m]] most_expensive_bound [OF m _ _ assms(3)] by blast
qed

definition unknown_card :: payment_breakdown where
  "unknown_card = \<lparr> pay_instrument = PI_card, pay_scheme = None, pay_wallet = Some ''apple_pay'',
     pay_provider = None, pay_rawMethodLabel = ''Apple Pay'', pay_state = PL_captured,
     pay_amountGrossMinor = 10000, pay_transactionRef = None \<rparr>"

definition two_cards :: "int gateway_fee_rule list" where
  "two_cards = [int_gateway_rule mada_rule,
     int_gateway_rule (mada_rule\<lparr> gw_scheme := Some CS_visa, fee_percentBps := JInt 275 \<rparr>)]"

theorem unknown_scheme_priced_dearest_witness:
  "leg_rule two_cards True unknown_card = Inr (Some (hd (tl two_cards))) \<and> hd (tl two_cards) \<in> set two_cards
   \<and> fee_costMinor (projr (applyFeeFormula 10000 (hd two_cards) True)) \<le> 375"
proof -
  have s: "schemeUnknown unknown_card" by code_simp
  have l: "leg_rule two_cards True unknown_card = Inr (Some (hd (tl two_cards)))" by code_simp
  have f: "applyFeeFormula (pay_amountGrossMinor unknown_card) (hd (tl two_cards)) True
      = Inr \<lparr> fee_exVatMinor = 375, fee_vatMinor = 56, fee_costMinor = 375 \<rparr>" by code_simp
  have c: "hd two_cards \<in> set (schemeCandidates two_cards unknown_card)"
    and g: "applyFeeFormula (pay_amountGrossMinor unknown_card) (hd two_cards) True
      = Inr \<lparr> fee_exVatMinor = 200, fee_vatMinor = 30, fee_costMinor = 200 \<rparr>" by code_simp+
  have "pay_amountGrossMinor unknown_card = 10000" by (simp add: unknown_card_def)
  then show ?thesis
    using unknown_scheme_priced_dearest [OF s l f] l c g by auto
qed

text \<open>
  The order in which a rate card's rows come back from the database never decides a price: with
  no key twice, which the validator ensures, every permutation of the rows gives the same gateway
  rule, the same cash handling rule and the same shipping rule.
\<close>

theorem rule_order_irrelevant:
  "(distinct (map gateway_rule_key gs) \<longrightarrow> mset gs = mset gs' \<longrightarrow> bestRule gs p s = bestRule gs' p s)
   \<and> (distinct (map cod_rule_key cs) \<longrightarrow> mset cs = mset cs' \<longrightarrow> ruleFor cs carrier = ruleFor cs' carrier)
   \<and> (distinct (map shipping_rule_key ss) \<longrightarrow> mset ss = mset ss' \<longrightarrow>
        matchShippingRule ss order carrier d = matchShippingRule ss' order carrier d)"
  using gateway_search.pick_order_independent [of gs gs' "(p, s)"] cod_search.pick_order_independent [of cs cs' carrier]
    matchShippingRule_order_independent [of ss ss' order carrier d] by simp

theorem rule_order_irrelevant_witness:
  "bestRule two_cards unknown_card (Some CS_visa) = bestRule (rev two_cards) unknown_card (Some CS_visa)"
proof -
  have "distinct (map gateway_rule_key two_cards)" by code_simp
  then show ?thesis
    using rule_order_irrelevant [of two_cards "rev two_cards" unknown_card "Some CS_visa" "[]" "[]" None "[]" "[]"]
    by simp
qed

section \<open>Shipping and cash on delivery\<close>

text \<open>
  Shipping: a cost published as actual is the sum of what the couriers reported for the live
  parcels of that direction, all of which reported one; an order that no carrier delivers never gets
  an estimate, its cost is what was reported; and a rule written for the direction is preferred to
  one for either direction, whatever their geography.
\<close>

theorem shipping_cost_sources:
  "(computeShippingCost order ss rules d = Inr (l, ds) \<longrightarrow> leg_basis l = TB_actual \<longrightarrow>
      leg_costMinor l = sum_list (reported_costs ss d)
      \<and> (\<forall>s \<in> set ss. ship_direction s = d \<and> ship_status s \<in> LIVE \<longrightarrow> ship_carrierCostMinor s \<noteq> None))
   \<and> (computeShippingCost order ss rules d = Inr (l, ds) \<longrightarrow> order_fulfillmentMethod order \<noteq> FM_carrier \<longrightarrow>
      leg_costMinor l = sum_list (reported_costs ss d) \<and> leg_basis l \<noteq> TB_estimated)
   \<and> (r \<in> set rules \<longrightarrow> sf_direction r = direction_of d \<longrightarrow> geographyMatches order carrier r \<longrightarrow>
      (\<exists>p. matchShippingRule rules order carrier d = Some p \<and> sf_direction p = direction_of d))"
  using computeShippingCost_actual [of order ss rules d l ds] computeShippingCost_no_estimate [of order ss rules d l ds]
    matchShippingRule_direction_first [of r rules d order carrier] by blast

definition national_rate :: "int shipping_fallback_rule" where
  "national_rate = \<lparr> sf_countryCode = Some ''SA'', sf_region = None, sf_carrier = None, sf_direction = RD_any, sf_costMinor = 2500 \<rparr>"

definition return_rate :: "int shipping_fallback_rule" where
  "return_rate = \<lparr> sf_countryCode = None, sf_region = None, sf_carrier = None, sf_direction = RD_return, sf_costMinor = 3000 \<rparr>"

theorem shipping_cost_sources_witness:
  "\<exists>p. matchShippingRule [national_rate, return_rate] (int_order sample_order) None SD_return = Some p
     \<and> sf_direction p = RD_return"
proof -
  have "return_rate \<in> set [national_rate, return_rate]" by simp
  moreover have "sf_direction return_rate = direction_of SD_return"
    and "geographyMatches (int_order sample_order) None return_rate" by code_simp+
  ultimately show ?thesis
    using shipping_cost_sources [of "int_order sample_order" "[]" "[national_rate, return_rate]" SD_return _ "[]"
      return_rate None] by simp
qed

text \<open>
  The cash collected on delivery is shared among the couriers of the live outbound parcels: the
  sharing never fails on an amount in range and loses nothing, and the couriers, so the shares, do
  not depend on the order of the shipments. Without captured cash there is no charge.
\<close>

theorem cash_shared_exactly:
  "(in_range amount \<longrightarrow> (\<exists>shares. cod_shares (cod_carriers ss) amount = Inr shares \<and> sum_list (map snd shares) = amount))
   \<and> (mset ss = mset ss' \<longrightarrow> cod_shares (cod_carriers ss) amount = cod_shares (cod_carriers ss') amount)
   \<and> ((\<forall>p \<in> set (order_payments order). \<not> (pay_instrument p = PI_cod \<and> pay_state p = PL_captured)) \<longrightarrow>
        computeCodCost order ss rules reg
          = Inr (\<lparr> cc_exVatMinor = 0, cc_vatMinor = 0, cc_costMinor = 0, cc_basis = TB_not_applicable \<rparr>, []))"
proof (intro conjI impI)
  assume "in_range amount"
  then obtain shares where s: "cod_shares (cod_carriers ss) amount = Inr shares"
    using cod_shares_total [of "cod_carriers ss" amount] by auto
  then show "\<exists>shares. cod_shares (cod_carriers ss) amount = Inr shares \<and> sum_list (map snd shares) = amount"
    using cod_shares_sum by blast
next
  assume "mset ss = mset ss'"
  then show "cod_shares (cod_carriers ss) amount = cod_shares (cod_carriers ss') amount"
    using cod_carriers_perm by metis
next
  assume "\<forall>p \<in> set (order_payments order). \<not> (pay_instrument p = PI_cod \<and> pay_state p = PL_captured)"
  then show "computeCodCost order ss rules reg
      = Inr (\<lparr> cc_exVatMinor = 0, cc_vatMinor = 0, cc_costMinor = 0, cc_basis = TB_not_applicable \<rparr>, [])"
    using computeCodCost_none [of order] by blast
qed

theorem cash_shared_exactly_witness:
  "\<exists>shares. cod_shares (cod_carriers [int_shipment sample_shipment,
       int_shipment sample_shipment\<lparr> ship_carrier := ''aramex'' \<rparr>]) 10001 = Inr shares \<and> sum_list (map snd shares) = 10001"
  using cash_shared_exactly [of 10001 "[int_shipment sample_shipment,
      int_shipment sample_shipment\<lparr> ship_carrier := ''aramex'' \<rparr>]" "[]" "int_order sample_order" "[]" True]
  by (simp add: in_range_iff)

section \<open>Reversals\<close>

lemma itemless_books:
  assumes "computeReversalImpact rs [] cls q w Recognized ss dispatched = Inr (ri, ds)"
  shows "ri_lines ri = [] \<and> ri_reversedRevenueExVatMinor ri = 0 \<and> ri_restockedCogsMinor ri = 0"
proof -
  note ok = computeReversalImpact_ok [OF assms]
  from assms have "ri_lines ri = []"
  proof (cases rule: computeReversalImpact_cases)
    case (booked st)
    then show ?thesis by simp
  qed (auto simp: empty_impact_def creditWholeOrder_def bindE_eq_Inr Let_def)
  then show ?thesis using ok impact_ok_split [OF ok] by (simp add: impact_ok_def)
qed


definition two_revenue_lines :: "line_revenue list" where
  "two_revenue_lines = map (\<lambda>(i, v). \<lparr> lrev_orderItemId = i, lrev_grossExVatMinor = v,
     lrev_allocatedOrderDiscountExVatMinor = 0, lrev_netExVatMinor = v \<rparr>)
     [(''salla:1:9:a'', 10000), (''salla:1:9:b'', 5000)]"

definition two_cost_lines :: "line_cogs list" where
  "two_cost_lines = map (\<lambda>(i, u, v). \<lparr> lcogs_orderItemId = i, lcogs_unitCostMinor = u, lcogs_cogsMinor = v,
     lcogs_source = CO_merchant_manual, lcogs_costHistoryId = None, lcogs_covered = True \<rparr>)
     [(''salla:1:9:a'', 2000, 4000), (''salla:1:9:b'', 3000, 3000)]"

definition ordered_quantities :: "string \<Rightarrow> int option" where
  "ordered_quantities = js_map [(''salla:1:9:a'', 2), (''salla:1:9:b'', 1)]"

definition line_weights :: "string \<Rightarrow> int option" where
  "line_weights = js_map [(''salla:1:9:a'', 10000), (''salla:1:9:b'', 5000)]"

definition bulk_refund :: "int canonical_reversal" where
  "bulk_refund = int_reversal sample_reversal\<lparr> rev_lines := None, rev_shippingRefundExVatMinor := 700 \<rparr>"

definition refund_impact :: "reversal_impact computed outcome" where
  "refund_impact = computeReversalImpact [bulk_refund, int_reversal sample_reversal\<lparr> rev_id := ''r2'' \<rparr>]
     two_revenue_lines two_cost_lines ordered_quantities line_weights Recognized [] True"

lemma refund_impact_value:
  obtains ri ds where "refund_impact = Inr (ri, ds)"
    and "map lvr_orderItemId (ri_lines ri) = [''salla:1:9:a'', ''salla:1:9:b'']"
    and "map lvr_reversedQuantity (ri_lines ri) = [1, 0]"
proof -
  have "case refund_impact of Inl _ \<Rightarrow> False
      | Inr r \<Rightarrow> map lvr_orderItemId (ri_lines (fst r)) = [''salla:1:9:a'', ''salla:1:9:b'']
          \<and> map lvr_reversedQuantity (ri_lines (fst r)) = [1, 0]" by code_simp
  then obtain r where "refund_impact = Inr r"
    and "map lvr_orderItemId (ri_lines (fst r)) = [''salla:1:9:a'', ''salla:1:9:b'']"
    and "map lvr_reversedQuantity (ri_lines (fst r)) = [1, 0]" by (auto split: sum.splits)
  then show ?thesis using that [of "fst r" "snd r"] by simp
qed


lemma capped_loop_absorbs:
  assumes "capped_loop cost remaining bs m = Inr m'" and "0 \<le> remaining"
  shows "\<exists>a. 0 \<le> a \<and> a \<le> remaining
    \<and> (\<forall>ks. distinct ks \<longrightarrow> set (map bucket_key bs) \<subseteq> set ks \<longrightarrow> tsum ks m' = tsum ks m + a)"
  using assms
proof (induction cost remaining bs m rule: capped_loop.induct)
  case (1 cost remaining bs m)
  show ?case
  proof (cases "remaining > 0 \<and> length bs > 0")
    case False
    then show ?thesis using "1.prems" by (intro exI [of _ 0]) (simp add: capped_loop.simps split: if_splits)
  next
    case go: True
    then have ne: "bs \<noteq> []" by auto
    obtain m1 a where round: "capped_round cost remaining bs m = Inr (m1, a)"
      using "1.prems"(1) go by (auto simp: capped_loop.simps split: sum.splits)
    note facts = capped_round_facts [OF round conjunct1 [OF go] _ _ ne]
    have le: "0 \<le> a" "a \<le> remaining" using facts(3,4) [OF distinct_remdups, of "map bucket_key bs"] by auto
    have sums: "tsum ks m1 = tsum ks m + a" if "distinct ks" "set (map bucket_key bs) \<subseteq> set ks" for ks
      by (rule facts(1) [OF that])
    show ?thesis
    proof (cases "a = 0")
      case True
      then have "m' = m1" using "1.prems" go round by (subst (asm) capped_loop.simps) simp
      then show ?thesis using sums le by (intro exI [of _ a]) auto
    next
      case a0: False
      let ?bs = "filter (\<lambda>b. cost (bucket_key b) - tally m1 (bucket_key b) > 0) bs"
      have "capped_loop cost (remaining - a) ?bs m1 = Inr m'"
        using "1.prems"(1) go round a0 by (subst (asm) capped_loop.simps) simp
      from "1.IH" [OF go round refl a0 this] le obtain a' where a': "0 \<le> a'" "a' \<le> remaining - a"
        "\<And>ks. distinct ks \<Longrightarrow> set (map bucket_key ?bs) \<subseteq> set ks \<Longrightarrow> tsum ks m' = tsum ks m1 + a'" by auto
      have "tsum ks m' = tsum ks m + (a + a')" if ks: "distinct ks" "set (map bucket_key bs) \<subseteq> set ks" for ks
        proof -
        have "set (map bucket_key ?bs) \<subseteq> set ks" using ks(2) by auto
        then show ?thesis using a'(3) [OF ks(1)] sums [OF ks] by simp
      qed
      then show ?thesis using a'(1,2) le by (intro exI [of _ "a + a'"]) auto
    qed
  qed
qed

lemma take_share_full: "cost i \<le> tally (fst st) i \<Longrightarrow> tally (fst (take_share cost st sh)) i = tally (fst st) i"
  by (cases "fst sh = i") (auto simp: take_share_def Let_def)

lemma fold_take_full:
  "cost i \<le> tally (fst st) i \<Longrightarrow> tally (fst (foldl (take_share cost) st shares)) i = tally (fst st) i"
  by (induction shares arbitrary: st) (simp_all add: take_share_full)

lemma capped_loop_full:
  assumes "capped_loop cost remaining bs m = Inr m'" and "cost i \<le> tally m i"
  shows "tally m' i = tally m i"
  using assms
proof (induction cost remaining bs m rule: capped_loop.induct)
  case (1 cost remaining bs m)
  show ?case
  proof (cases "remaining > 0 \<and> length bs > 0")
    case False
    then show ?thesis using "1.prems" by (simp add: capped_loop.simps split: if_splits)
  next
    case go: True
    then obtain m1 a where round: "capped_round cost remaining bs m = Inr (m1, a)"
      using "1.prems"(1) by (auto simp: capped_loop.simps split: sum.splits)
    then obtain shares where "foldl (take_share cost) (m, 0) shares = (m1, a)"
      by (auto simp: capped_round_def bindE_eq_Inr)
    then have same: "tally m1 i = tally m i"
      using fold_take_full [of cost i "(m, 0)" shares] "1.prems"(2) by simp
    show ?thesis
    proof (cases "a = 0")
      case True
      then show ?thesis using "1.prems" go round same by (subst (asm) capped_loop.simps) simp
    next
      case a0: False
      then have "capped_loop cost (remaining - a)
          (filter (\<lambda>b. cost (bucket_key b) - tally m1 (bucket_key b) > 0) bs) m1 = Inr m'"
        using "1.prems"(1) go round by (subst (asm) capped_loop.simps) simp
      from "1.IH" [OF go round refl a0 this] show ?thesis using same "1.prems"(2) by simp
    qed
  qed
qed

text \<open>
  C29. Restocking without line detail: spreading a credit over the lines under the cap of each
  line's own cost always succeeds, takes no line over its cost and nothing from any line, and places
  no more than the credit and than the room the costed lines have. When every costed line still has
  room at the start, it places exactly the smaller of the two. When a line is full at the start it
  may place less than there is room for: the loop stops at a round in which full lines took every
  share, although the source says that happens only when every share rounded to zero.
\<close>

theorem restock_spread_places_credit:
  assumes "in_range tot" and "0 \<le> tot" and "distinct (map bucket_key buckets)"
  shows "\<exists>m'. spreadCappedByCogs buckets tot m costs = Inr m'
    \<and> (\<forall>i. tally m i \<le> tally m' i \<and> (tally m i \<le> costOf costs i \<longrightarrow> tally m' i \<le> costOf costs i))
    \<and> tsum (map bucket_key buckets) m' \<le> tsum (map bucket_key buckets) m
        + min tot (\<Sum>b\<leftarrow>filter (\<lambda>b. 0 < costOf costs (bucket_key b)) buckets. max 0 (costOf costs (bucket_key b) - tally m (bucket_key b)))
    \<and> ((\<forall>b \<in> set buckets. 0 < costOf costs (bucket_key b) \<longrightarrow> tally m (bucket_key b) < costOf costs (bucket_key b)) \<longrightarrow>
      tsum (map bucket_key buckets) m' = tsum (map bucket_key buckets) m
        + min tot (\<Sum>b\<leftarrow>filter (\<lambda>b. 0 < costOf costs (bucket_key b)) buckets. costOf costs (bucket_key b) - tally m (bucket_key b)))"
proof -
  let ?cost = "costOf costs" and ?bs = "filter (\<lambda>b. 0 < costOf costs (bucket_key b)) buckets"
  have d: "distinct (map bucket_key ?bs)" using assms(3) by (simp add: distinct_map_filter)
  obtain m' where m': "capped_loop ?cost tot ?bs m = Inr m'"
    using capped_loop_total [OF assms(1) d] by blast
  obtain a where a: "a \<le> tot" and sums: "\<And>ks. distinct ks \<Longrightarrow> set (map bucket_key ?bs) \<subseteq> set ks \<Longrightarrow> tsum ks m' = tsum ks m + a"
    using capped_loop_absorbs [OF m' assms(2)] by blast
  have step: "tally m i \<le> tally m' i" "tally m i \<le> ?cost i \<Longrightarrow> tally m' i \<le> ?cost i"
    "tally m' i - tally m i \<le> max 0 (?cost i - tally m i)" for i
    using capped_loop_capped [OF m', of i] capped_loop_full [OF m', of i] by linarith+
  have "a = (\<Sum>b\<leftarrow>?bs. tally m' (bucket_key b) - tally m (bucket_key b))"
    using sums [OF d order_refl] by (simp add: tsum_def sum_list_diff comp_def)
  also have "\<dots> \<le> (\<Sum>b\<leftarrow>?bs. max 0 (?cost (bucket_key b) - tally m (bucket_key b)))"
    by (rule sum_list_mono_le) (rule step(3))
  finally have most: "a \<le> (\<Sum>b\<leftarrow>?bs. max 0 (?cost (bucket_key b) - tally m (bucket_key b)))" .
  have total: "tsum (map bucket_key buckets) m' = tsum (map bucket_key buckets) m + a"
    by (rule sums [OF assms(3)]) auto
  have "tsum (map bucket_key buckets) m' = tsum (map bucket_key buckets) m + min tot (room ?cost m ?bs)"
    if "\<forall>b \<in> set buckets. 0 < ?cost (bucket_key b) \<longrightarrow> tally m (bucket_key b) < ?cost (bucket_key b)"
    by (rule capped_loop_places [OF m' assms(2,3)]) (use that in auto)
  then show ?thesis
    using m' step(1,2) total most a unfolding room_def by (intro exI [of _ m']) (auto simp: spreadCappedByCogs_def)
qed

theorem restock_spread_places_credit_witness:
  "\<exists>m'. spreadCappedByCogs [\<lparr> bucket_key = ''a'', bucket_weight = 9000 \<rparr>, \<lparr> bucket_key = ''b'', bucket_weight = 1000 \<rparr>]
       6000 (\<lambda>_. None) (cogs_map [\<lparr> lcogs_orderItemId = ''a'', lcogs_unitCostMinor = 2000, lcogs_cogsMinor = 2000,
         lcogs_source = CO_none, lcogs_costHistoryId = None, lcogs_covered = True \<rparr>,
         \<lparr> lcogs_orderItemId = ''b'', lcogs_unitCostMinor = 5000, lcogs_cogsMinor = 5000,
         lcogs_source = CO_none, lcogs_costHistoryId = None, lcogs_covered = True \<rparr>]) = Inr m'
     \<and> tsum [''a'', ''b''] m' = 6000"
proof -
  let ?bs = "[\<lparr> bucket_key = ''a'', bucket_weight = 9000 \<rparr>, \<lparr> bucket_key = ''b'', bucket_weight = 1000 \<rparr>]"
  let ?costs = "cogs_map [\<lparr> lcogs_orderItemId = ''a'', lcogs_unitCostMinor = 2000, lcogs_cogsMinor = 2000,
         lcogs_source = CO_none, lcogs_costHistoryId = None, lcogs_covered = True \<rparr>,
         \<lparr> lcogs_orderItemId = ''b'', lcogs_unitCostMinor = 5000, lcogs_cogsMinor = 5000,
         lcogs_source = CO_none, lcogs_costHistoryId = None, lcogs_covered = True \<rparr>]"
  have costs: "costOf ?costs ''a'' = 2000" "costOf ?costs ''b'' = 5000" by code_simp+
  show ?thesis
    using restock_spread_places_credit [of 6000 ?bs "\<lambda>_. None" ?costs] costs
    by (auto simp: in_range_iff room_def tsum_def tally_def)
qed

text \<open>
  No line returns more pieces than were ordered, however many reversals name it, and none
  returns fewer than zero.
\<close>

theorem returned_at_most_ordered:
  assumes "computeReversalImpact rs rls cls q w recog ss dispatched = Inr (ri, ds)"
    and "distinct (map lrev_orderItemId rls)" and "l \<in> set (ri_lines ri)"
    and "0 \<le> or_zero (q (lvr_orderItemId l))"
  shows "0 \<le> lvr_reversedQuantity l \<and> lvr_reversedQuantity l \<le> or_zero (q (lvr_orderItemId l))"
  by (rule computeReversalImpact_quantity [OF assms])

theorem returned_at_most_ordered_witness:
  "\<exists>ri ds. refund_impact = Inr (ri, ds) \<and> 0 \<le> lvr_reversedQuantity (hd (ri_lines ri))
     \<and> lvr_reversedQuantity (hd (ri_lines ri)) \<le> 2"
proof -
  obtain ri ds where r: "refund_impact = Inr (ri, ds)"
    and ids: "map lvr_orderItemId (ri_lines ri) = [''salla:1:9:a'', ''salla:1:9:b'']" by (rule refund_impact_value)
  then have l: "hd (ri_lines ri) \<in> set (ri_lines ri)" and "lvr_orderItemId (hd (ri_lines ri)) = ''salla:1:9:a''"
    by (cases "ri_lines ri"; simp)+
  then have q: "or_zero (ordered_quantities (lvr_orderItemId (hd (ri_lines ri)))) = 2"
    by (simp add: ordered_quantities_def js_map_def or_zero_def)
  have d: "distinct (map lrev_orderItemId two_revenue_lines)" by (simp add: two_revenue_lines_def)
  show ?thesis using returned_at_most_ordered [OF r [unfolded refund_impact_def] d l] r q by auto
qed

end
