(* ===== verification/Plans.thy ===== *)
theory Plans
  imports Domain
begin

text \<open>
  The plan table and the questions asked of it: \<open>packages/billing/src/plans.ts\<close> and
  \<open>packages/billing/src/pricing.ts\<close>. Plan codes are strings because a stored row may name a code
  this build does not know; \<open>planOf\<close> answers \<open>None\<close> for such a code.
\<close>

datatype feature = FT_core | FT_attribution | FT_ltv | FT_reports

definition FEATURES :: "feature list" where
  "FEATURES = [FT_core, FT_attribution, FT_ltv, FT_reports]"

record plan =
  plan_interval :: billing_interval
  plan_orderCap :: "int option"
  plan_features :: "feature list"
  plan_priceMinor :: int
  plan_annualPriceMinor :: int
  plan_purchasable :: bool
  plan_monthlyEquivalent :: "string option"

definition MONTHS_FREE_ON_ANNUAL :: int where
  "MONTHS_FREE_ON_ANNUAL = 2"

text \<open>The object literal, entries in source order (the order \<open>Object.entries\<close> reads).\<close>

definition PLANS :: "(string \<times> plan) list" where
  "PLANS = [
     (''starter'', \<lparr> plan_interval = BI_month, plan_orderCap = Some 300, plan_features = [FT_core],
        plan_priceMinor = 12900, plan_annualPriceMinor = 129000, plan_purchasable = True,
        plan_monthlyEquivalent = None \<rparr>),
     (''growth'', \<lparr> plan_interval = BI_month, plan_orderCap = Some 1500, plan_features = [FT_core],
        plan_priceMinor = 24900, plan_annualPriceMinor = 249000, plan_purchasable = True,
        plan_monthlyEquivalent = None \<rparr>),
     (''scale'', \<lparr> plan_interval = BI_month, plan_orderCap = None, plan_features = [FT_core],
        plan_priceMinor = 44900, plan_annualPriceMinor = 449000, plan_purchasable = True,
        plan_monthlyEquivalent = None \<rparr>),
     (''ads'', \<lparr> plan_interval = BI_month, plan_orderCap = None,
        plan_features = [FT_core, FT_attribution, FT_ltv, FT_reports],
        plan_priceMinor = 64900, plan_annualPriceMinor = 649000, plan_purchasable = False,
        plan_monthlyEquivalent = None \<rparr>),
     (''starter_annual'', \<lparr> plan_interval = BI_year, plan_orderCap = Some 3600, plan_features = [FT_core],
        plan_priceMinor = 129000, plan_annualPriceMinor = 129000, plan_purchasable = True,
        plan_monthlyEquivalent = Some ''starter'' \<rparr>),
     (''growth_annual'', \<lparr> plan_interval = BI_year, plan_orderCap = Some 18000, plan_features = [FT_core],
        plan_priceMinor = 249000, plan_annualPriceMinor = 249000, plan_purchasable = True,
        plan_monthlyEquivalent = Some ''growth'' \<rparr>),
     (''scale_annual'', \<lparr> plan_interval = BI_year, plan_orderCap = None, plan_features = [FT_core],
        plan_priceMinor = 449000, plan_annualPriceMinor = 449000, plan_purchasable = True,
        plan_monthlyEquivalent = Some ''scale'' \<rparr>),
     (''ads_annual'', \<lparr> plan_interval = BI_year, plan_orderCap = None,
        plan_features = [FT_core, FT_attribution, FT_ltv, FT_reports],
        plan_priceMinor = 649000, plan_annualPriceMinor = 649000, plan_purchasable = False,
        plan_monthlyEquivalent = Some ''ads'' \<rparr>)]"

definition TRIAL_PLAN :: string where
  "TRIAL_PLAN = ''growth''"

definition TRIAL_DAYS :: int where
  "TRIAL_DAYS = 14"

definition isPlanCode :: "string \<Rightarrow> bool" where
  "isPlanCode code \<longleftrightarrow> code \<in> set (map fst PLANS)"

definition planOf :: "string \<Rightarrow> plan option" where
  "planOf code = map_of PLANS code"

definition PLAN_CODES :: "string list" where
  "PLAN_CODES = map fst PLANS"

text \<open>
  The cap as a monthly rate. The code divides doubles; every cap of the table is a multiple of
  twelve where it is divided (\<open>monthly_caps_exact\<close>), so the exact quotient is the double.
\<close>

definition monthlyCapOf :: "plan \<Rightarrow> rat option" where
  "monthlyCapOf p =
     (case plan_orderCap p of
        None \<Rightarrow> None
      | Some c \<Rightarrow> Some (if plan_interval p = BI_year then of_int c / 12 else of_int c))"

definition isDowngrade :: "plan \<Rightarrow> plan \<Rightarrow> bool" where
  "isDowngrade from_plan to_plan =
     (if list_ex (\<lambda>f. f \<notin> set (plan_features to_plan)) (plan_features from_plan) then True
      else case monthlyCapOf from_plan of
             None \<Rightarrow> monthlyCapOf to_plan \<noteq> None
           | Some fromCap \<Rightarrow>
               (case monthlyCapOf to_plan of None \<Rightarrow> False | Some toCap \<Rightarrow> toCap < fromCap))"

definition priceOf :: "plan \<Rightarrow> int outcome" where
  "priceOf p = toMinor (JInt (plan_priceMinor p))"

definition annualPriceOf :: "plan \<Rightarrow> int outcome" where
  "annualPriceOf p = toMinor (JInt (plan_annualPriceMinor p))"

definition cheapestPlanWith :: "feature \<Rightarrow> string option" where
  "cheapestPlanWith f =
     map_option fst (find (\<lambda>(code, p). plan_purchasable p \<and> plan_interval p = BI_month \<and> f \<in> set (plan_features p)) PLANS)"

definition PURCHASABLE_PLAN_CODES :: "string list" where
  "PURCHASABLE_PLAN_CODES = map fst (filter (\<lambda>(code, p). plan_purchasable p) PLANS)"

section \<open>Pricing\<close>

definition annualisedPrice :: "plan \<Rightarrow> int outcome" where
  "annualisedPrice p =
     toMinor (JInt (if plan_interval p = BI_year then plan_priceMinor p else plan_priceMinor p * 12))"

text \<open>\<open>Math.round\<close> of a double: the nearest integer, a tie going up.\<close>

fun round_fl :: "int \<times> int \<Rightarrow> int" where
  "round_fl (m, e) = (if e \<ge> 0 then m * pow2 e else (2 * m + pow2 (- e)) div (2 * pow2 (- e)))"

definition toMonthlyRate :: "int \<Rightarrow> int" where
  "toMonthlyRate annualisedMinor = round_fl (fl_ratio annualisedMinor 12)"

section \<open>The table keeps its promises\<close>

lemma planOf_iff: "isPlanCode code \<longleftrightarrow> planOf code \<noteq> None"
  by (auto simp: isPlanCode_def planOf_def map_of_eq_None_iff image_iff)

lemma distinct_plan_codes: "distinct PLAN_CODES"
  by (simp add: PLAN_CODES_def PLANS_def)

lemma planOf_mem: "planOf code = Some p \<Longrightarrow> (code, p) \<in> set PLANS"
  by (simp add: planOf_def map_of_SomeD)

lemma monthly_caps_exact: "(code, p) \<in> set PLANS \<Longrightarrow> plan_orderCap p = Some c \<Longrightarrow> plan_interval p = BI_year \<Longrightarrow> 12 dvd c"
  by (auto simp: PLANS_def)

text \<open>An annual plan is its monthly twin for a longer term: same features, same monthly allowance.\<close>

definition same_tier :: "plan \<Rightarrow> plan \<Rightarrow> bool" where
  "same_tier a b \<longleftrightarrow> plan_features a = plan_features b \<and> monthlyCapOf a = monthlyCapOf b"

lemma annual_twin:
  assumes "planOf code = Some a" and "plan_monthlyEquivalent a = Some m"
  shows "\<exists>b. planOf m = Some b \<and> same_tier a b \<and> plan_interval b = BI_month \<and> plan_interval a = BI_year
     \<and> plan_purchasable a = plan_purchasable b \<and> plan_priceMinor a = (12 - MONTHS_FREE_ON_ANNUAL) * plan_priceMinor b"
proof -
  have "list_all (\<lambda>(_, a). case plan_monthlyEquivalent a of None \<Rightarrow> True
      | Some m \<Rightarrow> (case planOf m of None \<Rightarrow> False
          | Some b \<Rightarrow> plan_features a = plan_features b \<and> monthlyCapOf a = monthlyCapOf b
              \<and> plan_interval b = BI_month \<and> plan_interval a = BI_year \<and> plan_purchasable a = plan_purchasable b
              \<and> plan_priceMinor a = (12 - MONTHS_FREE_ON_ANNUAL) * plan_priceMinor b)) PLANS"
    by (simp add: PLANS_def planOf_def monthlyCapOf_def MONTHS_FREE_ON_ANNUAL_def)
  from bspec [OF this [unfolded list_all_iff] planOf_mem [OF assms(1)]] assms(2) show ?thesis
    by (cases "planOf m") (simp_all add: same_tier_def)
qed

lemma isDowngrade_iff:
  "isDowngrade a b \<longleftrightarrow>
     \<not> (set (plan_features a) \<subseteq> set (plan_features b)
        \<and> (case monthlyCapOf b of None \<Rightarrow> True
           | Some cb \<Rightarrow> (case monthlyCapOf a of None \<Rightarrow> False | Some ca \<Rightarrow> ca \<le> cb)))"
  by (auto simp: isDowngrade_def list_ex_iff split: option.splits)

lemma same_tier_not_downgrade: "same_tier a b \<Longrightarrow> \<not> isDowngrade a b \<and> \<not> isDowngrade b a"
  by (auto simp: isDowngrade_iff same_tier_def split: option.splits)

text \<open>What can be bought without losing anything composes.\<close>

lemma not_downgrade_trans:
  assumes "\<not> isDowngrade a b" and "\<not> isDowngrade b c"
  shows "\<not> isDowngrade a c"
  using assms by (fastforce simp: isDowngrade_iff split: option.splits)

lemma cheapestPlanWith_sound:
  assumes "cheapestPlanWith f = Some code"
  shows "\<exists>p. planOf code = Some p \<and> plan_purchasable p \<and> plan_interval p = BI_month \<and> f \<in> set (plan_features p)
     \<and> (\<forall>(d, q) \<in> set PLANS. plan_purchasable q \<longrightarrow> plan_interval q = BI_month \<longrightarrow> f \<in> set (plan_features q) \<longrightarrow>
          plan_priceMinor p \<le> plan_priceMinor q)"
  using assms by (cases f) (auto simp: cheapestPlanWith_def PLANS_def planOf_def)

lemma priceOf_table: "(code, p) \<in> set PLANS \<Longrightarrow> priceOf p = Inr (plan_priceMinor p)"
  by (auto simp: PLANS_def priceOf_def toMinor_def safe_int_iff MAX_MINOR_def)

text \<open>Annualising a monthly plan and reading the rate back gives its price.\<close>

lemma monthly_rate_round_trip:
  assumes "(code, p) \<in> set PLANS" and "plan_interval p = BI_month"
  shows "\<exists>a. annualisedPrice p = Inr a \<and> toMonthlyRate a = plan_priceMinor p"
proof -
  have "toMonthlyRate 154800 = 12900" "toMonthlyRate 298800 = 24900" "toMonthlyRate 538800 = 44900"
    "toMonthlyRate 778800 = 64900" by code_simp+
  then show ?thesis
    using assms by (auto simp: PLANS_def annualisedPrice_def toMinor_def safe_int_iff MAX_MINOR_def)
qed

end
