(* ===== verification/Subscriptions.thy ===== *)
theory Subscriptions
  imports Prelude Plans IsoDates
begin

text \<open>
  The ordering guard of the webhook path, as a contract. A state remembers the moment of the newest
  event it has applied; an event that is not newer is refused. The locale draws the consequences
  for a whole sequence of deliveries: a redelivered or late event changes nothing, the watermark
  is the newest moment seen, and only the events that raise the watermark matter.
\<close>

locale event_log =
  fixes refuses :: "'s \<Rightarrow> 'e \<Rightarrow> bool"
    and applied :: "'s \<Rightarrow> 'e \<Rightarrow> 's"
    and moment :: "'e \<Rightarrow> 't::linorder"
    and watermark :: "'s \<Rightarrow> 't option"
  assumes refuses_iff: "refuses s e \<longleftrightarrow> (\<exists>t. watermark s = Some t \<and> moment e \<le> t)"
    and watermark_applied: "\<not> refuses s e \<Longrightarrow> watermark (applied s e) = Some (moment e)"
begin

definition deliver :: "'s \<Rightarrow> 'e \<Rightarrow> 's" where
  "deliver s e = (if refuses s e then s else applied s e)"

abbreviation deliver_all :: "'s \<Rightarrow> 'e list \<Rightarrow> 's" where
  "deliver_all s es \<equiv> foldl deliver s es"

lemma deliver_refused: "refuses s e \<Longrightarrow> deliver s e = s"
  by (simp add: deliver_def)

lemma deliver_applied: "\<not> refuses s e \<Longrightarrow> deliver s e = applied s e"
  by (simp add: deliver_def)

lemma refuses_older: "watermark s = Some t \<Longrightarrow> moment e \<le> t \<Longrightarrow> refuses s e"
  using refuses_iff by blast

lemma accepts_newer: "(\<And>t. watermark s = Some t \<Longrightarrow> t < moment e) \<Longrightarrow> \<not> refuses s e"
  using refuses_iff [of s e] by (auto simp: not_le)

text \<open>One delivery leaves a watermark that is neither before the event nor before the old one.\<close>

lemma deliver_watermark:
  obtains t where "watermark (deliver s e) = Some t" and "moment e \<le> t"
    and "\<And>u. watermark s = Some u \<Longrightarrow> u \<le> t" and "t = moment e \<or> watermark s = Some t"
proof (cases "refuses s e")
  case True
  then obtain t where "watermark s = Some t" "moment e \<le> t" using refuses_iff by blast
  then show thesis using that [of t] deliver_refused [OF True] by simp
next
  case False
  then have "u \<le> moment e" if "watermark s = Some u" for u
    using refuses_iff [of s e] \<open>watermark s = Some u\<close> by (auto simp: not_le)
  then show thesis
    using that [of "moment e"] deliver_applied [OF False] watermark_applied [OF False] by simp
qed

lemma watermark_monotone:
  assumes "watermark s = Some t"
  obtains u where "watermark (deliver_all s es) = Some u" and "t \<le> u"
  using assms
proof (induction es arbitrary: s t thesis)
  case Nil
  then show ?case by simp
next
  case (Cons e es)
  obtain v where v: "watermark (deliver s e) = Some v" "t \<le> v"
    using deliver_watermark [of s e] Cons.prems(2) by metis
  obtain u where "watermark (deliver_all (deliver s e) es) = Some u" "v \<le> u"
    using Cons.IH [OF _ v(1)] by blast
  then show ?case using Cons.prems(1) [of u] v(2) by simp
qed

lemma watermark_covers:
  assumes "e \<in> set es"
  obtains t where "watermark (deliver_all s es) = Some t" and "moment e \<le> t"
proof -
  obtain xs ys where es: "es = xs @ e # ys" using assms by (metis split_list)
  obtain t where t: "watermark (deliver (deliver_all s xs) e) = Some t" "moment e \<le> t"
    using deliver_watermark [of "deliver_all s xs" e] by metis
  obtain u where "watermark (deliver_all s es) = Some u" "t \<le> u"
    using watermark_monotone [OF t(1), of ys] es by auto
  then show thesis using that [of u] t(2) by simp
qed

text \<open>Delivering again what was delivered, or anything not newer, changes nothing.\<close>

lemma late_event_ignored:
  assumes "e \<in> set es" and "moment f \<le> moment e"
  shows "deliver (deliver_all s es) f = deliver_all s es"
proof -
  obtain t where "watermark (deliver_all s es) = Some t" "moment e \<le> t"
    using watermark_covers [OF assms(1)] by metis
  then have "refuses (deliver_all s es) f" using refuses_older assms(2) by auto
  then show ?thesis by (rule deliver_refused)
qed

text \<open>The newest event always has the last word, wherever it stands in the sequence.\<close>

lemma watermark_below:
  assumes "\<And>x. x \<in> set es \<Longrightarrow> moment x < m" and "\<And>t. watermark s = Some t \<Longrightarrow> t < m"
    and "watermark (deliver_all s es) = Some t"
  shows "t < m"
  using assms
proof (induction es arbitrary: s)
  case Nil
  then show ?case by simp
next
  case (Cons x es)
  have "u < m" if u: "watermark (deliver s x) = Some u" for u
    using deliver_watermark [of s x] Cons.prems(1) [of x] Cons.prems(2) u by (metis list.set_intros(1) option.inject)
  then show ?case using Cons.IH [of "deliver s x"] Cons.prems(1,3) by simp
qed

lemma newest_applied:
  assumes "\<And>x. x \<in> set (es @ fs) \<Longrightarrow> moment x < moment e" and "\<And>t. watermark s = Some t \<Longrightarrow> t < moment e"
  shows "deliver_all s (es @ e # fs) = applied (deliver_all s es) e"
proof -
  have ok: "\<not> refuses (deliver_all s es) e"
    using watermark_below [of es "moment e" s] assms by (intro accepts_newer) auto
  have e: "deliver (deliver_all s es) e = applied (deliver_all s es) e"
    using ok by (rule deliver_applied)
  have we: "watermark (applied (deliver_all s es) e) = Some (moment e)"
    using ok by (rule watermark_applied)
  have "\<forall>f \<in> set fs. moment f \<le> moment e" using assms(1) by (auto intro: less_imp_le)
  then have "foldl deliver (applied (deliver_all s es) e) fs = applied (deliver_all s es) e"
    using deliver_refused refuses_older [OF we] by (induction fs) auto
  then show ?thesis using e by simp
qed

end

text \<open>
  The local subscription row and what changes it: \<open>packages/billing/src/subscription.ts\<close>. Instants
  are strings and are compared as strings, as the code compares them.

  \<open>applyChange\<close> (a webhook) and \<open>reconcile\<close> (the nightly pull) are the two ways the row moves; the
  interpretation of \<open>event_log\<close> carries its results about late and repeated deliveries over to
  \<open>applyChange\<close>.
\<close>

record subscription =
  sub_storeId :: string
  sub_planCode :: string
  sub_platformPlanId :: "string option"
  sub_status :: subscription_status
  sub_trialEndsAt :: "string option"
  sub_currentPeriodStart :: string
  sub_currentPeriodEnd :: string
  sub_lastEventAt :: "string option"
  sub_lastReconciledAt :: "string option"
  sub_pendingPlanCode :: "string option"
  sub_pendingPlanEffectiveAt :: "string option"

record subscription_change =
  chg_status :: subscription_status
  chg_planCode :: "string option"
  chg_platformPlanId :: "string option"
  chg_trialEndsAt :: "string option"
  chg_currentPeriodStart :: "string option"
  chg_currentPeriodEnd :: "string option"
  chg_occurredAt :: string

text \<open>\<open>ApplyOutcome\<close> and \<open>ReconcileOutcome\<close>; their reason texts are for the log only.\<close>

datatype apply_outcome = Applied subscription | Stale

datatype reconcile_outcome = Corrected subscription | Unchanged

text \<open>\<open>a ?? b\<close>.\<close>

definition or_else :: "'a option \<Rightarrow> 'a \<Rightarrow> 'a" where
  "or_else x y = (case x of None \<Rightarrow> y | Some v \<Rightarrow> v)"

definition or_opt :: "'a option \<Rightarrow> 'a option \<Rightarrow> 'a option" where
  "or_opt x y = (case x of None \<Rightarrow> y | Some v \<Rightarrow> Some v)"

definition seedSubscription :: "string \<Rightarrow> subscription_change \<Rightarrow> subscription outcome" where
  "seedSubscription storeId change =
     (let start = or_else (chg_currentPeriodStart change) (chg_occurredAt change)
      in bindE (instant_plus_days 30 start) (\<lambda>fallbackEnd. Inr
           \<lparr> sub_storeId = storeId, sub_planCode = or_else (chg_planCode change) TRIAL_PLAN,
             sub_platformPlanId = chg_platformPlanId change, sub_status = chg_status change,
             sub_trialEndsAt = chg_trialEndsAt change, sub_currentPeriodStart = start,
             sub_currentPeriodEnd = or_else (chg_currentPeriodEnd change) fallbackEnd,
             sub_lastEventAt = Some (chg_occurredAt change), sub_lastReconciledAt = None,
             sub_pendingPlanCode = None, sub_pendingPlanEffectiveAt = None \<rparr>))"

definition isStale :: "subscription \<Rightarrow> string \<Rightarrow> bool" where
  "isStale current occurredAt =
     (case sub_lastEventAt current of None \<Rightarrow> False | Some t \<Rightarrow> occurredAt \<le> t)"

definition deferUntilPeriodEnd :: "subscription \<Rightarrow> subscription_change \<Rightarrow> bool \<times> string" where
  "deferUntilPeriodEnd current change =
     (let paidThrough = sub_currentPeriodEnd current in
      case chg_planCode change of
        None \<Rightarrow> (False, paidThrough)
      | Some code \<Rightarrow>
          if code = sub_planCode current then (False, paidThrough)
          else case (planOf (sub_planCode current), planOf code) of
                 (Some from_plan, Some to_plan) \<Rightarrow>
                   (isDowngrade from_plan to_plan \<and> chg_occurredAt change < paidThrough, paidThrough)
               | _ \<Rightarrow> (False, paidThrough))"

definition applied_row :: "subscription \<Rightarrow> subscription_change \<Rightarrow> subscription" where
  "applied_row current change =
     (let (defer, effectiveAt) = deferUntilPeriodEnd current change
      in current\<lparr>
           sub_status := chg_status change,
           sub_planCode := (if defer then sub_planCode current
                            else or_else (chg_planCode change) (sub_planCode current)),
           sub_pendingPlanCode := (if defer then chg_planCode change else None),
           sub_pendingPlanEffectiveAt := (if defer then Some effectiveAt else None),
           sub_platformPlanId := or_opt (chg_platformPlanId change) (sub_platformPlanId current),
           sub_trialEndsAt := or_opt (chg_trialEndsAt change) (sub_trialEndsAt current),
           sub_currentPeriodStart := or_else (chg_currentPeriodStart change) (sub_currentPeriodStart current),
           sub_currentPeriodEnd := or_else (chg_currentPeriodEnd change) (sub_currentPeriodEnd current),
           sub_lastEventAt := Some (chg_occurredAt change) \<rparr>)"

definition applyChange :: "subscription \<Rightarrow> subscription_change \<Rightarrow> apply_outcome" where
  "applyChange current change =
     (if isStale current (chg_occurredAt change) then Stale else Applied (applied_row current change))"

definition effectivePlanCode :: "subscription \<Rightarrow> string \<Rightarrow> string" where
  "effectivePlanCode s now =
     (case (sub_pendingPlanCode s, sub_pendingPlanEffectiveAt s) of
        (Some code, Some effective_at) \<Rightarrow> if now \<ge> effective_at then code else sub_planCode s
      | _ \<Rightarrow> sub_planCode s)"

text \<open>\<open>x !== null && current !== x\<close>.\<close>

definition says_other :: "'a option \<Rightarrow> 'a option \<Rightarrow> bool" where
  "says_other told current \<longleftrightarrow> told \<noteq> None \<and> current \<noteq> told"

definition differsFrom :: "subscription \<Rightarrow> subscription_change \<Rightarrow> bool" where
  "differsFrom current truth \<longleftrightarrow>
     sub_status current \<noteq> chg_status truth
     \<or> says_other (chg_planCode truth) (Some (sub_planCode current))
     \<or> says_other (chg_platformPlanId truth) (sub_platformPlanId current)
     \<or> says_other (chg_currentPeriodStart truth) (Some (sub_currentPeriodStart current))
     \<or> says_other (chg_currentPeriodEnd truth) (Some (sub_currentPeriodEnd current))
     \<or> says_other (chg_trialEndsAt truth) (sub_trialEndsAt current)"

definition reconcile :: "subscription \<Rightarrow> subscription_change \<Rightarrow> string \<Rightarrow> reconcile_outcome" where
  "reconcile current truth pass =
     (if \<not> differsFrom current truth then Unchanged
      else Corrected (current\<lparr>
        sub_status := chg_status truth,
        sub_planCode := or_else (chg_planCode truth) (sub_planCode current),
        sub_platformPlanId := or_opt (chg_platformPlanId truth) (sub_platformPlanId current),
        sub_trialEndsAt := or_opt (chg_trialEndsAt truth) (sub_trialEndsAt current),
        sub_currentPeriodStart := or_else (chg_currentPeriodStart truth) (sub_currentPeriodStart current),
        sub_currentPeriodEnd := or_else (chg_currentPeriodEnd truth) (sub_currentPeriodEnd current),
        sub_lastReconciledAt := Some pass,
        sub_pendingPlanCode := sub_pendingPlanCode current,
        sub_pendingPlanEffectiveAt := sub_pendingPlanEffectiveAt current \<rparr>))"

section \<open>A stream of webhooks\<close>

text \<open>What a handler stores after one event, and after a sequence of events.\<close>

definition receive :: "subscription \<Rightarrow> subscription_change \<Rightarrow> subscription" where
  "receive row change = (case applyChange row change of Applied next \<Rightarrow> next | Stale \<Rightarrow> row)"

definition receive_all :: "subscription \<Rightarrow> subscription_change list \<Rightarrow> subscription" where
  "receive_all row changes = foldl receive row changes"

lemma applied_row_lastEventAt [simp]: "sub_lastEventAt (applied_row s c) = Some (chg_occurredAt c)"
  by (simp add: applied_row_def split: prod.split)

interpretation webhooks: event_log "\<lambda>s c. isStale s (chg_occurredAt c)" applied_row chg_occurredAt sub_lastEventAt
  by unfold_locales (auto simp: isStale_def split: option.splits)

lemma receive_deliver: "receive = webhooks.deliver"
  by (auto simp: fun_eq_iff receive_def applyChange_def webhooks.deliver_def)

lemma receive_late:
  assumes "e \<in> set es" and "chg_occurredAt f \<le> chg_occurredAt e"
  shows "receive (receive_all s es) f = receive_all s es"
  using webhooks.late_event_ignored [OF assms] by (simp add: receive_all_def receive_deliver)

lemma receive_newest:
  assumes "\<And>x. x \<in> set (es @ fs) \<Longrightarrow> chg_occurredAt x < chg_occurredAt e"
    and "\<And>t. sub_lastEventAt s = Some t \<Longrightarrow> t < chg_occurredAt e"
  shows "receive_all s (es @ e # fs) = applied_row (receive_all s es) e"
  using webhooks.newest_applied [OF assms] by (simp add: receive_all_def receive_deliver)

section \<open>Paid-for plans are kept\<close>

lemma deferUntilPeriodEnd_True:
  "fst (deferUntilPeriodEnd s c) \<longleftrightarrow>
     (\<exists>code a b. chg_planCode c = Some code \<and> code \<noteq> sub_planCode s \<and> planOf (sub_planCode s) = Some a
        \<and> planOf code = Some b \<and> isDowngrade a b \<and> chg_occurredAt c < sub_currentPeriodEnd s)"
  by (auto simp: deferUntilPeriodEnd_def Let_def split: option.splits)

lemma deferUntilPeriodEnd_at [simp]: "snd (deferUntilPeriodEnd s c) = sub_currentPeriodEnd s"
  by (simp add: deferUntilPeriodEnd_def Let_def split: option.splits)

text \<open>A downgrade announced inside the paid period takes effect exactly when that period ends.\<close>

lemma downgrade_deferred:
  assumes "\<not> isStale s (chg_occurredAt c)" and "chg_planCode c = Some code"
    and "planOf (sub_planCode s) = Some a" and "planOf code = Some b" and "isDowngrade a b"
    and "chg_occurredAt c < sub_currentPeriodEnd s"
  shows "effectivePlanCode (receive s c) now
     = (if now < sub_currentPeriodEnd s then sub_planCode s else code)"
proof -
  have "code \<noteq> sub_planCode s"
    using assms(3-5) same_tier_not_downgrade [of a a] by (auto simp: same_tier_def)
  then have d: "fst (deferUntilPeriodEnd s c)"
    using assms(2-6) by (auto simp: deferUntilPeriodEnd_True)
  then have "deferUntilPeriodEnd s c = (True, sub_currentPeriodEnd s)"
    using prod.collapse [of "deferUntilPeriodEnd s c"] by simp
  then show ?thesis
    using assms(1,2)
    by (auto simp: receive_def applyChange_def applied_row_def effectivePlanCode_def not_le dest: leD)
qed

text \<open>Any other change of plan is in force at once.\<close>

lemma change_immediate:
  assumes "\<not> isStale s (chg_occurredAt c)" and "\<not> fst (deferUntilPeriodEnd s c)"
  shows "effectivePlanCode (receive s c) now = or_else (chg_planCode c) (sub_planCode s)"
proof -
  obtain x where "deferUntilPeriodEnd s c = (False, x)"
    using assms(2) by (cases "deferUntilPeriodEnd s c") simp
  then show ?thesis
    using assms(1) by (simp add: receive_def applyChange_def applied_row_def effectivePlanCode_def)
qed

text \<open>
  An event that says nothing about the plan drops a pending downgrade: the merchant stays on the
  higher plan for good, until some later event names the lower one again.
\<close>

lemma silent_event_clears_pending:
  assumes "\<not> isStale s (chg_occurredAt c)" and "chg_planCode c = None"
  shows "sub_pendingPlanCode (receive s c) = None \<and> effectivePlanCode (receive s c) now = sub_planCode s"
  using assms
  by (simp add: receive_def applyChange_def applied_row_def deferUntilPeriodEnd_def effectivePlanCode_def or_else_def)

section \<open>Reconciliation\<close>

text \<open>
  A correction keeps a pending change even when its moment has passed, so the plan the platform
  reports is then not the plan in force.
\<close>

lemma reconcile_masked_by_pending:
  assumes "reconcile s truth pass = Corrected t" and "sub_pendingPlanCode s = Some p"
    and "sub_pendingPlanEffectiveAt s = Some e" and "e \<le> now"
  shows "effectivePlanCode t now = p"
  using assms by (auto simp: reconcile_def effectivePlanCode_def split: if_splits)

lemma reconcile_settles:
  assumes "reconcile s truth pass = Corrected t"
  shows "\<not> differsFrom t truth" and "reconcile t truth pass' = Unchanged"
    and "sub_lastEventAt t = sub_lastEventAt s"
proof -
  show d: "\<not> differsFrom t truth"
    using assms by (auto simp: reconcile_def differsFrom_def says_other_def or_else_def or_opt_def
        split: if_splits option.splits)
  then show "reconcile t truth pass' = Unchanged" by (simp add: reconcile_def)
  show "sub_lastEventAt t = sub_lastEventAt s" using assms by (auto simp: reconcile_def split: if_splits)
qed

text \<open>After an event has been applied at once, the platform repeating it is no correction.\<close>

lemma applied_agrees:
  assumes "\<not> isStale s (chg_occurredAt c)" and "\<not> fst (deferUntilPeriodEnd s c)"
  shows "\<not> differsFrom (receive s c) c"
proof -
  obtain x where "deferUntilPeriodEnd s c = (False, x)"
    using assms(2) by (cases "deferUntilPeriodEnd s c") simp
  then show ?thesis
    using assms(1) by (simp add: receive_def applyChange_def applied_row_def differsFrom_def says_other_def
        or_else_def or_opt_def split: option.splits)
qed

section \<open>The first row of a store\<close>

lemma seedSubscription_window:
  assumes "chg_currentPeriodEnd c = None" and "seedSubscription storeId c = Inr s"
    and "match_instant (sub_currentPeriodStart s) = Some (y, mo, d, rest)"
    and "fst (plus_days 30 (y, mo, d)) \<le> 9999"
  shows "sub_currentPeriodStart s < sub_currentPeriodEnd s"
proof -
  let ?start = "or_else (chg_currentPeriodStart c) (chg_occurredAt c)"
  obtain e where e: "instant_plus_days 30 ?start = Inr e"
    and s: "sub_currentPeriodStart s = ?start" "sub_currentPeriodEnd s = e"
    using assms(1,2) by (auto simp: seedSubscription_def Let_def bindE_eq_Inr or_else_def)
  have "isInstant ?start" using e by (auto simp: instant_plus_days_def split: option.splits if_splits)
  from instant_plus_days_later [OF this _ assms(4) _ e] assms(3) s show ?thesis by simp
qed

end
