(* ===== verification/Access.thy ===== *)
theory Access
  imports Subscriptions
begin

text \<open>
  What a store may do: \<open>packages/billing/src/access.ts\<close> and \<open>packages/billing/src/entitlements.ts\<close>.
\<close>

datatype dashboard_access = DA_full | DA_read_only | DA_locked

datatype pipeline_access = PA_running | PA_stopped

datatype export_access = EX_available | EX_unavailable

datatype access_notice =
  AN_none | AN_over_order_cap | AN_payment_past_due | AN_trial_expired | AN_subscription_canceled

record access_decision =
  acc_dashboard :: dashboard_access
  acc_ingestion :: pipeline_access
  acc_profitComputation :: pipeline_access
  acc_export :: export_access
  acc_notice :: access_notice

definition isTrialExpired :: "subscription \<Rightarrow> string \<Rightarrow> bool" where
  "isTrialExpired s now \<longleftrightarrow>
     sub_status s = ST_trialing \<and> (case sub_trialEndsAt s of None \<Rightarrow> False | Some t \<Rightarrow> now > t)"

definition isPaying :: "subscription_status \<Rightarrow> bool" where
  "isPaying status \<longleftrightarrow> status = ST_active \<or> status = ST_past_due \<or> status = ST_trialing"

definition isBilled :: "subscription_status \<Rightarrow> bool" where
  "isBilled status \<longleftrightarrow> status = ST_active \<or> status = ST_past_due"

definition decideAccess :: "subscription \<Rightarrow> string \<Rightarrow> bool \<Rightarrow> access_decision" where
  "decideAccess s now overOrderCap =
     (if sub_status s = ST_canceled then
        \<lparr> acc_dashboard = DA_locked, acc_ingestion = PA_stopped, acc_profitComputation = PA_stopped,
          acc_export = EX_available, acc_notice = AN_subscription_canceled \<rparr>
      else if sub_status s = ST_expired \<or> isTrialExpired s now then
        \<lparr> acc_dashboard = DA_read_only, acc_ingestion = PA_running, acc_profitComputation = PA_running,
          acc_export = EX_available, acc_notice = AN_trial_expired \<rparr>
      else
        let notice = (if overOrderCap then AN_over_order_cap
                      else if sub_status s = ST_past_due then AN_payment_past_due else AN_none)
        in \<lparr> acc_dashboard = DA_full, acc_ingestion = PA_running, acc_profitComputation = PA_running,
             acc_export = EX_available, acc_notice = notice \<rparr>)"

record entitlements =
  ent_planCode :: string
  ent_features :: "feature list"
  ent_orderCap :: "int option"
  ent_access :: access_decision
  ent_planUnknown :: bool

text \<open>\<open>PLANS.starter\<close>.\<close>

definition FALLBACK_PLAN :: plan where
  "FALLBACK_PLAN = snd (hd PLANS)"

definition resolveEntitlements :: "subscription \<Rightarrow> string \<Rightarrow> bool \<Rightarrow> entitlements" where
  "resolveEntitlements s now overOrderCap =
     (let code = effectivePlanCode s now; plan = planOf code; effective = or_else plan FALLBACK_PLAN
      in \<lparr> ent_planCode = code, ent_features = plan_features effective, ent_orderCap = plan_orderCap effective,
           ent_access = decideAccess s now overOrderCap, ent_planUnknown = (plan = None) \<rparr>)"

definition hasFeature :: "entitlements \<Rightarrow> feature \<Rightarrow> bool" where
  "hasFeature e f \<longleftrightarrow> f \<in> set (ent_features e)"

section \<open>The policy\<close>

lemma FALLBACK_PLAN_starter: "planOf ''starter'' = Some FALLBACK_PLAN"
  by (simp add: planOf_def PLANS_def FALLBACK_PLAN_def)

text \<open>Only a cancellation stops the pipeline, and the export survives every state.\<close>

lemma decideAccess_pipeline:
  "(acc_ingestion (decideAccess s now over) = PA_stopped \<longleftrightarrow> sub_status s = ST_canceled)
   \<and> acc_profitComputation (decideAccess s now over) = acc_ingestion (decideAccess s now over)
   \<and> acc_export (decideAccess s now over) = EX_available"
  by (simp add: decideAccess_def Let_def)

lemma decideAccess_dashboard:
  "acc_dashboard (decideAccess s now over) =
     (if sub_status s = ST_canceled then DA_locked
      else if isPaying (sub_status s) \<and> \<not> isTrialExpired s now then DA_full else DA_read_only)"
  by (cases "sub_status s") (simp_all add: decideAccess_def Let_def isPaying_def isTrialExpired_def)

text \<open>Usage never decides access: only the notice depends on the cap.\<close>

lemma decideAccess_cap_soft:
  "decideAccess s now True = (decideAccess s now False)\<lparr> acc_notice := acc_notice (decideAccess s now True) \<rparr>"
  by (simp add: decideAccess_def Let_def)

text \<open>An unknown plan code never grants more than the cheapest plan does.\<close>

lemma resolveEntitlements_unknown:
  assumes "planOf (effectivePlanCode s now) = None"
  shows "ent_planUnknown (resolveEntitlements s now over) \<and> ent_orderCap (resolveEntitlements s now over) = Some 300
     \<and> (hasFeature (resolveEntitlements s now over) f \<longleftrightarrow> f = FT_core)"
  using assms
  by (auto simp: resolveEntitlements_def Let_def or_else_def FALLBACK_PLAN_def PLANS_def hasFeature_def)

end
