(* ===== verification/Usage.thy ===== *)
theory Usage
  imports Subscriptions
begin

text \<open>
  Usage against the order cap and its cache: \<open>packages/billing/src/usage.ts\<close>. The cache contract
  is a locale; \<open>UsageCache\<close> is its interpretation.
\<close>

record usage_window =
  win_from :: string
  win_to :: string

definition usageWindow :: "subscription \<Rightarrow> usage_window" where
  "usageWindow s = \<lparr> win_from = sub_currentPeriodStart s, win_to = sub_currentPeriodEnd s \<rparr>"

record usage_status =
  us_count :: int
  us_cap :: "int option"
  us_overCap :: bool
  us_remaining :: "int option"
  us_percentUsed :: "int option"

text \<open>\<open>Math.floor((count / cap) * 100)\<close>, both operations rounded to a double.\<close>

definition percent_used :: "int \<Rightarrow> int \<Rightarrow> int" where
  "percent_used used cap =
     floor_fl (fl_times (fl_ratio (if cap < 0 then - used else used) \<bar>cap\<bar>) 100)"

definition usageStatus :: "int \<Rightarrow> int option \<Rightarrow> usage_status" where
  "usageStatus used cap =
     (case cap of
        None \<Rightarrow> \<lparr> us_count = used, us_cap = None, us_overCap = False, us_remaining = None, us_percentUsed = None \<rparr>
      | Some c \<Rightarrow> \<lparr> us_count = used, us_cap = Some c, us_overCap = (used > c),
           us_remaining = Some (max 0 (c - used)),
           us_percentUsed = (if c = 0 then None else Some (percent_used used c)) \<rparr>)"

definition usageCacheKey :: "string \<Rightarrow> usage_window \<Rightarrow> string" where
  "usageCacheKey storeId window = ''usage:'' @ storeId @ '':'' @ win_from window"

section \<open>The cache\<close>

record cache_entry =
  ce_value :: int
  ce_expiresAt :: int

record usage_cache =
  uc_entries :: "string \<Rightarrow> cache_entry option"
  uc_ttlMs :: int

definition new_UsageCache :: "int \<Rightarrow> usage_cache" where
  "new_UsageCache ttlMs = \<lparr> uc_entries = (\<lambda>_. None), uc_ttlMs = ttlMs \<rparr>"

definition cache_get :: "usage_cache \<Rightarrow> string \<Rightarrow> int \<Rightarrow> int option \<times> usage_cache" where
  "cache_get cache k now =
     (case uc_entries cache k of
        None \<Rightarrow> (None, cache)
      | Some entry \<Rightarrow>
          if ce_expiresAt entry \<le> now
          then (None, cache\<lparr> uc_entries := (uc_entries cache)(k := None) \<rparr>)
          else (Some (ce_value entry), cache))"

definition cache_set :: "usage_cache \<Rightarrow> string \<Rightarrow> int \<Rightarrow> int \<Rightarrow> usage_cache" where
  "cache_set cache k v now =
     cache\<lparr> uc_entries := (uc_entries cache)(k \<mapsto> \<lparr> ce_value = v, ce_expiresAt = now + uc_ttlMs cache \<rparr>) \<rparr>"

definition cache_invalidate :: "usage_cache \<Rightarrow> string \<Rightarrow> usage_cache" where
  "cache_invalidate cache k = cache\<lparr> uc_entries := (uc_entries cache)(k := None) \<rparr>"

section \<open>The contract of a cache with a time to live\<close>

text \<open>
  \<open>lookup\<close> is the abstract content at a moment: an operation may drop what is already dead, never
  change what is alive.
\<close>

locale ttl_cache =
  fixes lookup :: "'c \<Rightarrow> 'k \<Rightarrow> int \<Rightarrow> 'v option"
    and fetch :: "'c \<Rightarrow> 'k \<Rightarrow> int \<Rightarrow> 'v option \<times> 'c"
    and store :: "'c \<Rightarrow> 'k \<Rightarrow> 'v \<Rightarrow> int \<Rightarrow> 'c"
    and drop_key :: "'c \<Rightarrow> 'k \<Rightarrow> 'c"
    and ttl :: "'c \<Rightarrow> int"
  assumes fetch_value: "fst (fetch c k now) = lookup c k now"
    and fetch_content: "now \<le> t \<Longrightarrow> lookup (snd (fetch c k now)) j t = lookup c j t"
    and fetch_ttl: "ttl (snd (fetch c k now)) = ttl c"
    and store_content: "lookup (store c k v now) j t = (if j = k then if t < now + ttl c then Some v else None else lookup c j t)"
    and store_ttl: "ttl (store c k v now) = ttl c"
    and drop_content: "lookup (drop_key c k) j t = (if j = k then None else lookup c j t)"
    and drop_ttl: "ttl (drop_key c k) = ttl c"
begin

text \<open>Any number of later reads, at moments that do not go back, leaves a stored value readable.\<close>

definition fetch_all :: "'c \<Rightarrow> ('k \<times> int) list \<Rightarrow> 'c" where
  "fetch_all c reads = foldl (\<lambda>c r. snd (fetch c (fst r) (snd r))) c reads"

lemma fetch_all_content:
  "(\<And>r. r \<in> set reads \<Longrightarrow> snd r \<le> t) \<Longrightarrow> lookup (fetch_all c reads) j t = lookup c j t"
  by (induction reads arbitrary: c) (simp_all add: fetch_all_def fetch_content)

lemma stored_value_readable:
  assumes "\<And>r. r \<in> set reads \<Longrightarrow> snd r \<le> t" and "t < now + ttl c"
  shows "fst (fetch (fetch_all (store c k v now) reads) k t) = Some v"
  using assms by (simp add: fetch_value fetch_all_content store_content)

lemma stored_value_expires:
  assumes "\<And>r. r \<in> set reads \<Longrightarrow> snd r \<le> t" and "now + ttl c \<le> t"
  shows "fst (fetch (fetch_all (store c k v now) reads) k t) = None"
  using assms by (simp add: fetch_value fetch_all_content store_content)

lemma dropped_value_gone: "fst (fetch (drop_key c k) k t) = None"
  by (simp add: fetch_value drop_content)

end

definition cache_lookup :: "usage_cache \<Rightarrow> string \<Rightarrow> int \<Rightarrow> int option" where
  "cache_lookup cache k now =
     (case uc_entries cache k of None \<Rightarrow> None
      | Some e \<Rightarrow> if ce_expiresAt e \<le> now then None else Some (ce_value e))"

interpretation usage_cache: ttl_cache cache_lookup cache_get cache_set cache_invalidate uc_ttlMs
  by unfold_locales
    (auto simp: cache_lookup_def cache_get_def cache_set_def cache_invalidate_def split: option.splits)

definition cache_get_all :: "usage_cache \<Rightarrow> (string \<times> int) list \<Rightarrow> usage_cache" where
  "cache_get_all cache reads = foldl (\<lambda>c r. snd (cache_get c (fst r) (snd r))) cache reads"

lemma cache_get_all_fetch: "cache_get_all = usage_cache.fetch_all"
  by (simp add: fun_eq_iff cache_get_all_def usage_cache.fetch_all_def)

section \<open>Usage\<close>

lemma usageStatus_facts:
  "us_overCap (usageStatus n cap) \<longleftrightarrow> (\<exists>c. cap = Some c \<and> c < n)"
  "cap = Some c \<Longrightarrow> us_remaining (usageStatus n cap) = Some (max 0 (c - n))"
  "us_remaining (usageStatus n cap) = None \<longleftrightarrow> cap = None"
  by (auto simp: usageStatus_def split: option.splits)

text \<open>
  The double quotient is rounded before it is scaled, so the percentage can be one less than the
  percentage rounded down: 87 of 300 orders are 29 percent.
\<close>

lemma percent_used_low: "percent_used 87 300 = 28 \<and> 87 * 100 = 29 * (300 :: int)"
  by code_simp

text \<open>Instants have one length, so a key determines its store and its period.\<close>

lemma usageCacheKey_inject:
  assumes "usageCacheKey a w = usageCacheKey b v"
    and "length (win_from w) = length (win_from v)"
  shows "a = b \<and> win_from w = win_from v"
proof -
  have "(a @ '':'') @ win_from w = (b @ '':'') @ win_from v"
    using assms(1) by (simp add: usageCacheKey_def)
  then have "a @ '':'' = b @ '':'' \<and> win_from w = win_from v"
    by (subst (asm) append_eq_append_conv) (simp_all add: assms(2))
  then show ?thesis by simp
qed

end
