(* ===== verification/PlanCatalog.thy ===== *)
theory PlanCatalog
  imports Plans Diagnostics
begin

text \<open>
  The plan table against the platform's own list, \<open>packages/billing/src/plan-catalog.ts\<close>: every way
  the two can disagree, in one pass. The map from a code to its listings is an association list in
  the order of insertion, because the report follows that order.
\<close>

record plan_listing =
  pls_platformPlanId :: string
  pls_planCode :: "string option"
  pls_priceMinor :: int
  pls_interval :: billing_interval

datatype catalog_mismatch =
    MissingRemotely string
  | UnmappedRemotePlan string
  | UnknownPlanCode string string
  | PriceDiffers string int int
  | IntervalDiffers string billing_interval billing_interval
  | UnpurchasablePlanListed string string
  | DuplicateMapping string "string list"

datatype catalog_verdict = CatalogOk nat | CatalogMismatch "catalog_mismatch list"

fun add_listing :: "string \<Rightarrow> plan_listing \<Rightarrow> (string \<times> plan_listing list) list \<Rightarrow> (string \<times> plan_listing list) list" where
  "add_listing code l [] = [(code, [l])]"
| "add_listing code l ((c, ls) # rest) =
     (if c = code then (c, ls @ [l]) # rest else (c, ls) # add_listing code l rest)"

type_synonym catalog_groups = "(string \<times> plan_listing list) list"

definition group_step :: "catalog_mismatch list \<times> catalog_groups \<Rightarrow> plan_listing \<Rightarrow> catalog_mismatch list \<times> catalog_groups" where
  "group_step st l =
     (case pls_planCode l of
        None \<Rightarrow> (fst st @ [UnmappedRemotePlan (pls_platformPlanId l)], snd st)
      | Some code \<Rightarrow>
          if \<not> isPlanCode code then (fst st @ [UnknownPlanCode (pls_platformPlanId l) code], snd st)
          else (fst st, add_listing code l (snd st)))"

definition listing_mismatches :: "string \<Rightarrow> plan \<Rightarrow> plan_listing \<Rightarrow> catalog_mismatch list" where
  "listing_mismatches code p l =
     (if \<not> plan_purchasable p then [UnpurchasablePlanListed code (pls_platformPlanId l)] else [])
     @ (if pls_priceMinor l \<noteq> plan_priceMinor p
        then [PriceDiffers code (plan_priceMinor p) (pls_priceMinor l)] else [])
     @ (if pls_interval l \<noteq> plan_interval p
        then [IntervalDiffers code (plan_interval p) (pls_interval l)] else [])"

definition group_mismatches :: "string \<times> plan_listing list \<Rightarrow> catalog_mismatch list" where
  "group_mismatches g =
     (if length (snd g) > 1 then [DuplicateMapping (fst g) (map pls_platformPlanId (snd g))] else [])
     @ (case planOf (fst g) of None \<Rightarrow> []
        | Some p \<Rightarrow> concat (map (listing_mismatches (fst g) p) (snd g)))"

definition comparePlanCatalog :: "plan_listing list \<Rightarrow> catalog_verdict" where
  "comparePlanCatalog remote =
     (let (unmapped, byCode) = foldl group_step ([], []) remote;
          mismatches = unmapped @ concat (map group_mismatches byCode)
            @ concat (map (\<lambda>code. if code \<notin> set (map fst byCode) then [MissingRemotely code] else [])
                PURCHASABLE_PLAN_CODES)
      in if length mismatches = 0 then CatalogOk (length PURCHASABLE_PLAN_CODES)
         else CatalogMismatch mismatches)"

definition show_int :: "int \<Rightarrow> string" where
  "show_int n = (if n < 0 then CHR ''-'' # show_nat (nat (- n)) else show_nat (nat n))"

fun interval_name :: "billing_interval \<Rightarrow> string" where
  "interval_name BI_month = ''month''"
| "interval_name BI_year = ''year''"

fun join :: "string \<Rightarrow> string list \<Rightarrow> string" where
  "join sep [] = []"
| "join sep [x] = x"
| "join sep (x # y # xs) = x @ sep @ join sep (y # xs)"

definition quoted :: "string \<Rightarrow> string" where
  "quoted s = CHR 0x22 # s @ [CHR 0x22]"

fun describeMismatch :: "catalog_mismatch \<Rightarrow> string" where
  "describeMismatch (MissingRemotely code) =
     quoted code @ '' is sellable here but the platform has no plan mapped to it''"
| "describeMismatch (UnmappedRemotePlan i) =
     ''platform plan '' @ quoted i @ '' is published but the adapter cannot map it''"
| "describeMismatch (UnknownPlanCode i code) =
     ''platform plan '' @ quoted i @ '' maps to '' @ quoted code @ '', which this build does not know''"
| "describeMismatch (PriceDiffers code here there) =
     quoted code @ '' is '' @ show_int here @ '' here and '' @ show_int there @ '' at the platform''"
| "describeMismatch (IntervalDiffers code here there) =
     quoted code @ '' bills per '' @ interval_name here @ '' here and per '' @ interval_name there @ '' at the platform''"
| "describeMismatch (UnpurchasablePlanListed code i) =
     quoted code @ '' is not for sale yet but is published as '' @ quoted i"
| "describeMismatch (DuplicateMapping code ids) =
     quoted code @ '' is claimed by '' @ show_nat (length ids) @ '' platform plans: '' @ join '', '' ids"

section \<open>The groups\<close>

definition listings_of :: "catalog_groups \<Rightarrow> string \<Rightarrow> plan_listing list" where
  "listings_of m code = (case map_of m code of None \<Rightarrow> [] | Some ls \<Rightarrow> ls)"

definition groups_ok :: "catalog_groups \<Rightarrow> bool" where
  "groups_ok m \<longleftrightarrow> distinct (map fst m) \<and> (\<forall>g \<in> set m. snd g \<noteq> [])"

lemma add_listing_keys: "set (map fst (add_listing code l m)) = insert code (set (map fst m))"
  by (induction code l m rule: add_listing.induct) auto

lemma add_listing_ok: "groups_ok m \<Longrightarrow> groups_ok (add_listing code l m)"
proof (induction code l m rule: add_listing.induct)
  case (1 code l)
  then show ?case by (simp add: groups_ok_def)
next
  case (2 code l c ls rest)
  then show ?case
    using add_listing_keys [of code l rest] by (auto simp: groups_ok_def)
qed

lemma add_listing_listings:
  "listings_of (add_listing code l m) c = (if c = code then listings_of m c @ [l] else listings_of m c)"
  by (induction code l m rule: add_listing.induct) (auto simp: listings_of_def)

definition has_code_of :: "string \<Rightarrow> plan_listing \<Rightarrow> bool" where
  "has_code_of code l \<longleftrightarrow> pls_planCode l = Some code"

lemma group_fold:
  "groups_ok (snd st) \<Longrightarrow>
     groups_ok (snd (foldl group_step st remote))
     \<and> (isPlanCode c \<longrightarrow> listings_of (snd (foldl group_step st remote)) c = listings_of (snd st) c @ filter (has_code_of c) remote)
     \<and> (\<not> isPlanCode c \<longrightarrow> listings_of (snd (foldl group_step st remote)) c = listings_of (snd st) c)
     \<and> (fst (foldl group_step st remote) = [] \<longleftrightarrow>
          fst st = [] \<and> (\<forall>l \<in> set remote. \<exists>code. pls_planCode l = Some code \<and> isPlanCode code))"
proof (induction remote arbitrary: st)
  case Nil
  then show ?case by simp
next
  case (Cons l remote)
  have ok: "groups_ok (snd (group_step st l))"
    using Cons.prems by (auto simp: group_step_def add_listing_ok split: option.split)
  from Cons.IH [OF ok] show ?case
    by (auto simp: group_step_def add_listing_listings has_code_of_def split: option.splits if_splits)
qed

lemma listings_of_mem: "groups_ok m \<Longrightarrow> g \<in> set m \<Longrightarrow> listings_of m (fst g) = snd g"
  by (cases g) (auto simp: listings_of_def groups_ok_def)

lemma listings_of_key: "groups_ok m \<Longrightarrow> code \<in> set (map fst m) \<longleftrightarrow> listings_of m code \<noteq> []"
  by (force simp: listings_of_def groups_ok_def map_of_eq_None_iff split: option.splits dest: map_of_SomeD)

section \<open>When the catalog is in order\<close>

definition listing_ok :: "plan_listing \<Rightarrow> bool" where
  "listing_ok l \<longleftrightarrow> (\<exists>code p. pls_planCode l = Some code \<and> planOf code = Some p \<and> plan_purchasable p
     \<and> pls_priceMinor l = plan_priceMinor p \<and> pls_interval l = plan_interval p)"

definition catalog_in_order :: "plan_listing list \<Rightarrow> bool" where
  "catalog_in_order remote \<longleftrightarrow>
     (\<forall>l \<in> set remote. listing_ok l) \<and> distinct (map pls_planCode remote)
     \<and> Some ` set PURCHASABLE_PLAN_CODES \<subseteq> set (map pls_planCode remote)"

lemma listing_mismatches_Nil:
  "listing_mismatches code p l = [] \<longleftrightarrow>
     plan_purchasable p \<and> pls_priceMinor l = plan_priceMinor p \<and> pls_interval l = plan_interval p"
  by (simp add: listing_mismatches_def)

lemma filter_at_most_one:
  "distinct (map f xs) \<longleftrightarrow> (\<forall>y \<in> f ` set xs. length (filter (\<lambda>x. f x = y) xs) \<le> 1)"
proof (induction xs)
  case Nil
  then show ?case by simp
next
  case (Cons x xs)
  show ?case
  proof (cases "f x \<in> f ` set xs")
    case True
    then obtain z where z: "z \<in> set xs" "f z = f x" by (metis image_iff)
    then have "z \<in> set (filter (\<lambda>z. f z = f x) xs)" by simp
    then have "0 < length (filter (\<lambda>z. f z = f x) xs)" by (rule length_pos_if_in_set)
    then have "\<not> length (filter (\<lambda>z. f z = f x) (x # xs)) \<le> 1" by simp
    moreover have "\<not> distinct (map f (x # xs))" using True by simp
    ultimately show ?thesis by (metis image_eqI list.set_intros(1))
  next
    case False
    then have none: "filter (\<lambda>z. f z = f x) xs = []"
      by (auto simp: filter_empty_conv intro: rev_image_eqI)
    have same: "filter (\<lambda>z. f z = y) (x # xs) = filter (\<lambda>z. f z = y) xs" if "y \<in> f ` set xs" for y
      using that False by auto
    have "(\<forall>y \<in> f ` set (x # xs). length (filter (\<lambda>z. f z = y) (x # xs)) \<le> 1) \<longleftrightarrow>
        length (filter (\<lambda>z. f z = f x) (x # xs)) \<le> 1
        \<and> (\<forall>y \<in> f ` set xs. length (filter (\<lambda>z. f z = y) (x # xs)) \<le> 1)"
      by simp
    also have "\<dots> \<longleftrightarrow> (\<forall>y \<in> f ` set xs. length (filter (\<lambda>z. f z = y) xs) \<le> 1)"
      using same none by simp
    also have "\<dots> \<longleftrightarrow> distinct (map f xs)" using Cons.IH by simp
    also have "\<dots> \<longleftrightarrow> distinct (map f (x # xs))" using False by simp
    finally show ?thesis by blast
  qed
qed

lemma has_code_of_fun: "has_code_of c = (\<lambda>l. pls_planCode l = Some c)"
  by (simp add: has_code_of_def fun_eq_iff)

text \<open>What the first pass leaves for the second.\<close>

lemma first_pass:
  assumes "foldl group_step ([], []) remote = (un, byCode)"
  shows "un = [] \<longleftrightarrow> (\<forall>l \<in> set remote. \<exists>code. pls_planCode l = Some code \<and> isPlanCode code)"
    and "c \<in> set (map fst byCode) \<longleftrightarrow> isPlanCode c \<and> Some c \<in> set (map pls_planCode remote)"
    and "g \<in> set byCode \<Longrightarrow> snd g = filter (has_code_of (fst g)) remote"
proof -
  have start: "groups_ok (snd ([] :: catalog_mismatch list, [] :: catalog_groups))" by (simp add: groups_ok_def)
  note facts = group_fold [OF start, of remote, unfolded assms, simplified]
  have ok: "groups_ok byCode" using facts by blast
  show "un = [] \<longleftrightarrow> (\<forall>l \<in> set remote. \<exists>code. pls_planCode l = Some code \<and> isPlanCode code)"
    using facts by blast
  have ls: "isPlanCode c \<Longrightarrow> listings_of byCode c = filter (has_code_of c) remote"
    "\<not> isPlanCode c \<Longrightarrow> listings_of byCode c = []" for c
    using facts [of c] by (simp_all add: listings_of_def)
  show key: "c \<in> set (map fst byCode) \<longleftrightarrow> isPlanCode c \<and> Some c \<in> set (map pls_planCode remote)" for c
    unfolding listings_of_key [OF ok] using ls [of c]
    by (cases "isPlanCode c") (force simp: filter_empty_conv has_code_of_def image_iff)+
  show "snd g = filter (has_code_of (fst g)) remote" if "g \<in> set byCode"
    using listings_of_mem [OF ok that] ls(1) [of "fst g"] key [of "fst g"] that by auto
qed

lemma group_mismatches_Nil:
  assumes "isPlanCode code"
  shows "group_mismatches (code, filter (has_code_of code) remote) = [] \<longleftrightarrow>
     length (filter (has_code_of code) remote) \<le> 1 \<and> (\<forall>l \<in> set remote. has_code_of code l \<longrightarrow> listing_ok l)"
proof -
  obtain p where p: "planOf code = Some p" using assms by (auto simp: planOf_iff)
  then show ?thesis
    by (auto simp: group_mismatches_def listing_mismatches_Nil has_code_of_def listing_ok_def)
qed

lemma in_order_iff:
  assumes "\<And>l. l \<in> set remote \<Longrightarrow> \<exists>code. pls_planCode l = Some code \<and> isPlanCode code"
  shows "(\<forall>l \<in> set remote. listing_ok l) \<and> distinct (map pls_planCode remote) \<longleftrightarrow>
     (\<forall>c. isPlanCode c \<longrightarrow> Some c \<in> set (map pls_planCode remote) \<longrightarrow>
        length (filter (has_code_of c) remote) \<le> 1 \<and> (\<forall>l \<in> set remote. has_code_of c l \<longrightarrow> listing_ok l))"
    (is "?l \<longleftrightarrow> ?r")
proof
  assume l: ?l
  then have "length (filter (has_code_of c) remote) \<le> 1"
    if "Some c \<in> set (map pls_planCode remote)" for c
    using that l filter_at_most_one [of pls_planCode remote] unfolding list.set_map has_code_of_fun by blast
  then show ?r using l by blast
next
  assume r: ?r
  have at: "length (filter (has_code_of c) remote) \<le> 1 \<and> listing_ok l"
    if mem: "l \<in> set remote" and code: "pls_planCode l = Some c" for l c
  proof -
    have "isPlanCode c" using assms [OF mem] code by simp
    moreover have "Some c \<in> set (map pls_planCode remote)" using mem code by force
    ultimately show ?thesis using r mem code by (simp add: has_code_of_def)
  qed
  have "distinct (map pls_planCode remote)"
    unfolding filter_at_most_one
  proof
    fix y
    assume "y \<in> pls_planCode ` set remote"
    then obtain l where mem: "l \<in> set remote" and y: "y = pls_planCode l" by auto
    then obtain c where "pls_planCode l = Some c" using assms by blast
    then show "length (filter (\<lambda>x. pls_planCode x = y) remote) \<le> 1"
      using at [OF mem] y unfolding has_code_of_fun by simp
  qed
  then show ?l using at assms by blast
qed

lemma comparePlanCatalog_ok:
  "(\<exists>n. comparePlanCatalog remote = CatalogOk n) \<longleftrightarrow> catalog_in_order remote"
proof -
  obtain un byCode where f: "foldl group_step ([], []) remote = (un, byCode)" by fastforce
  note un = first_pass(1) [OF f] and key = first_pass(2) [OF f] and ls = first_pass(3) [OF f]
  have missing: "concat (map (\<lambda>code. if code \<notin> set (map fst byCode) then [MissingRemotely code] else []) codes) = []
      \<longleftrightarrow> set codes \<subseteq> set (map fst byCode)" for codes
    by (induction codes) auto
  have verdict: "(\<exists>n. comparePlanCatalog remote = CatalogOk n) \<longleftrightarrow>
      un = [] \<and> (\<forall>g \<in> set byCode. group_mismatches g = []) \<and> set PURCHASABLE_PLAN_CODES \<subseteq> set (map fst byCode)"
    unfolding comparePlanCatalog_def f Let_def prod.case using missing [of PURCHASABLE_PLAN_CODES] by auto
  have groups: "(\<forall>g \<in> set byCode. group_mismatches g = []) \<longleftrightarrow>
      (\<forall>c. isPlanCode c \<longrightarrow> Some c \<in> set (map pls_planCode remote) \<longrightarrow>
        length (filter (has_code_of c) remote) \<le> 1 \<and> (\<forall>l \<in> set remote. has_code_of c l \<longrightarrow> listing_ok l))"
  proof -
    have "(\<forall>g \<in> set byCode. group_mismatches g = []) \<longleftrightarrow>
        (\<forall>c \<in> set (map fst byCode). group_mismatches (c, filter (has_code_of c) remote) = [])"
      using ls by (fastforce simp: prod_eq_iff)
    then show ?thesis using key group_mismatches_Nil by blast
  qed
  have purch: "isPlanCode c" if "c \<in> set PURCHASABLE_PLAN_CODES" for c
    using that by (auto simp: PURCHASABLE_PLAN_CODES_def isPlanCode_def)
  have sold: "set PURCHASABLE_PLAN_CODES \<subseteq> set (map fst byCode) \<longleftrightarrow>
      Some ` set PURCHASABLE_PLAN_CODES \<subseteq> set (map pls_planCode remote)"
    using key purch by blast
  show ?thesis
  proof (cases "un = []")
    case True
    then have "\<And>l. l \<in> set remote \<Longrightarrow> \<exists>code. pls_planCode l = Some code \<and> isPlanCode code" using un by blast
    from in_order_iff [OF this] show ?thesis
      unfolding verdict groups sold catalog_in_order_def using True by blast
  next
    case False
    then have "\<not> (\<forall>l \<in> set remote. listing_ok l)"
      unfolding un listing_ok_def planOf_iff by blast
    then show ?thesis unfolding verdict catalog_in_order_def using False by blast
  qed
qed

end
