(* ===== verification/BillingProperties.thy ===== *)
theory BillingProperties
  imports Access Usage PlanCatalog
begin

text \<open>
  Properties of billing: the webhook stream, downgrades, the nightly reconciliation, access and
  entitlements, the plan table against the platform's catalogue, and the usage cache
  (\<open>packages/billing/src\<close>).
\<close>

definition growth_row :: subscription where
  "growth_row = \<lparr> sub_storeId = ''salla:1'', sub_planCode = ''growth'', sub_platformPlanId = None,
     sub_status = ST_active, sub_trialEndsAt = None,
     sub_currentPeriodStart = ''2025-03-01T00:00:00.000Z'', sub_currentPeriodEnd = ''2025-03-31T00:00:00.000Z'',
     sub_lastEventAt = Some ''2025-03-01T00:00:00.000Z'', sub_lastReconciledAt = None,
     sub_pendingPlanCode = None, sub_pendingPlanEffectiveAt = None \<rparr>"

definition starter_change :: "string \<Rightarrow> subscription_change" where
  "starter_change t = \<lparr> chg_status = ST_active, chg_planCode = Some ''starter'', chg_platformPlanId = None,
     chg_trialEndsAt = None, chg_currentPeriodStart = None, chg_currentPeriodEnd = None, chg_occurredAt = t \<rparr>"

section \<open>Webhooks\<close>

text \<open>
  Webhooks arrive late, twice and out of order: an event that is not newer than one already
  received changes nothing, so a repeated delivery changes nothing, and the newest event of a stream
  decides the row, whatever was delivered after it.
\<close>

theorem newest_event_wins:
  "(e \<in> set es \<longrightarrow> chg_occurredAt f \<le> chg_occurredAt e \<longrightarrow> receive (receive_all s es) f = receive_all s es)
   \<and> ((\<forall>x \<in> set (es @ fs). chg_occurredAt x < chg_occurredAt e) \<longrightarrow>
      (\<forall>t. sub_lastEventAt s = Some t \<longrightarrow> t < chg_occurredAt e) \<longrightarrow>
      receive_all s (es @ e # fs) = applied_row (receive_all s es) e)"
  using receive_late [of e es f s] receive_newest [of es fs e s] by blast

theorem newest_event_wins_witness:
  "receive (receive_all growth_row [starter_change ''2025-03-09T00:00:00.000Z'']) (starter_change ''2025-03-09T00:00:00.000Z'')
     = receive_all growth_row [starter_change ''2025-03-09T00:00:00.000Z'']"
  using newest_event_wins [of "starter_change ''2025-03-09T00:00:00.000Z''" "[starter_change ''2025-03-09T00:00:00.000Z'']"
      "starter_change ''2025-03-09T00:00:00.000Z''" growth_row "[]"] by simp

text \<open>
  A merchant keeps what was paid for: a downgrade that arrives inside the paid period takes
  effect at the end of that period and not before; any other change takes effect at once.
\<close>

theorem downgrade_waits_for_period_end:
  assumes "\<not> isStale s (chg_occurredAt c)" and "chg_planCode c = Some code"
    and "planOf (sub_planCode s) = Some a" and "planOf code = Some b"
  shows "effectivePlanCode (receive s c) now =
     (if isDowngrade a b \<and> chg_occurredAt c < sub_currentPeriodEnd s \<and> now < sub_currentPeriodEnd s
      then sub_planCode s else code)"
proof (cases "isDowngrade a b \<and> chg_occurredAt c < sub_currentPeriodEnd s")
  case True
  then show ?thesis using downgrade_deferred [OF assms] by simp
next
  case False
  then have "\<not> fst (deferUntilPeriodEnd s c)" using assms(2-4) by (auto simp: deferUntilPeriodEnd_True)
  then show ?thesis using False change_immediate [OF assms(1)] assms(2) by (auto simp: or_else_def)
qed

theorem downgrade_waits_for_period_end_witness:
  "effectivePlanCode (receive growth_row (starter_change ''2025-03-09T00:00:00.000Z'')) ''2025-03-30T00:00:00.000Z'' = ''growth''
   \<and> effectivePlanCode (receive growth_row (starter_change ''2025-03-09T00:00:00.000Z'')) ''2025-03-31T00:00:00.000Z'' = ''starter''"
proof -
  let ?c = "starter_change ''2025-03-09T00:00:00.000Z''"
  have stale: "\<not> isStale growth_row (chg_occurredAt ?c)" and code: "chg_planCode ?c = Some ''starter''" by code_simp+
  obtain a where a: "planOf (sub_planCode growth_row) = Some a" and b: "planOf ''starter'' = Some FALLBACK_PLAN"
    using FALLBACK_PLAN_starter by (auto simp: growth_row_def planOf_def PLANS_def)
  have "case planOf (sub_planCode growth_row) of None \<Rightarrow> False | Some a \<Rightarrow> isDowngrade a FALLBACK_PLAN" by code_simp
  then have "isDowngrade a FALLBACK_PLAN" using a by simp
  moreover have "chg_occurredAt ?c < sub_currentPeriodEnd growth_row"
    "''2025-03-30T00:00:00.000Z'' < sub_currentPeriodEnd growth_row"
    "\<not> ''2025-03-31T00:00:00.000Z'' < sub_currentPeriodEnd growth_row" "sub_planCode growth_row = ''growth''"
    by code_simp+
  ultimately show ?thesis using downgrade_waits_for_period_end [OF stale code a b] by simp
qed

text \<open>
  The nightly pull settles a difference in one pass: the corrected row agrees with the platform
  wherever the platform said something, a second pass over the same truth changes nothing, and the
  pull never moves the watermark of the webhooks. An event that is applied at once leaves a row that
  agrees with it, so the pull that follows has nothing to correct.
\<close>

theorem reconciliation_settles:
  "(reconcile s truth pass = Corrected t \<longrightarrow>
      \<not> differsFrom t truth \<and> reconcile t truth pass' = Unchanged \<and> sub_lastEventAt t = sub_lastEventAt s)
   \<and> (\<not> isStale s (chg_occurredAt c) \<longrightarrow> \<not> fst (deferUntilPeriodEnd s c) \<longrightarrow>
      reconcile (receive s c) c pass' = Unchanged)"
  using reconcile_settles [of s truth pass t] applied_agrees [of s c] by (simp add: reconcile_def)

theorem reconciliation_settles_witness:
  "\<exists>t. reconcile growth_row (starter_change ''2025-03-09T00:00:00.000Z'') ''2025-03-10T00:00:00.000Z'' = Corrected t
     \<and> reconcile t (starter_change ''2025-03-09T00:00:00.000Z'') ''2025-03-11T00:00:00.000Z'' = Unchanged"
proof -
  let ?truth = "starter_change ''2025-03-09T00:00:00.000Z''"
  have "differsFrom growth_row ?truth" by code_simp
  then obtain t where "reconcile growth_row ?truth ''2025-03-10T00:00:00.000Z'' = Corrected t"
    by (simp add: reconcile_def)
  then show ?thesis
    using reconciliation_settles [of growth_row ?truth "''2025-03-10T00:00:00.000Z''" t "''2025-03-11T00:00:00.000Z''"]
    by blast
qed

section \<open>Access\<close>

text \<open>
  Only a cancellation stops ingestion and profit computation; the export survives every state;
  the dashboard is locked exactly for a cancelled store and full exactly for one that pays or is
  still inside its trial; and exceeding the order cap changes nothing but the notice.
\<close>

theorem access_policy:
  "(acc_ingestion (decideAccess s now over) = PA_stopped \<longleftrightarrow> sub_status s = ST_canceled)
   \<and> acc_profitComputation (decideAccess s now over) = acc_ingestion (decideAccess s now over)
   \<and> acc_export (decideAccess s now over) = EX_available
   \<and> acc_dashboard (decideAccess s now over) =
       (if sub_status s = ST_canceled then DA_locked
        else if isPaying (sub_status s) \<and> \<not> isTrialExpired s now then DA_full else DA_read_only)
   \<and> decideAccess s now True = (decideAccess s now False)\<lparr> acc_notice := acc_notice (decideAccess s now True) \<rparr>"
  using decideAccess_pipeline [of s now over] decideAccess_dashboard [of s now over] decideAccess_cap_soft [of s now] by blast

text \<open>
  The features of a store are those of the plan in effect. A plan code this build does not know
  is reported as unknown and grants the features and the cap of the smallest plan, never more.
\<close>

theorem entitlements_follow_plan:
  "(planOf (effectivePlanCode s now) = Some p \<longrightarrow>
      \<not> ent_planUnknown (resolveEntitlements s now over)
      \<and> (hasFeature (resolveEntitlements s now over) f \<longleftrightarrow> f \<in> set (plan_features p))
      \<and> ent_orderCap (resolveEntitlements s now over) = plan_orderCap p)
   \<and> (planOf (effectivePlanCode s now) = None \<longrightarrow>
      ent_planUnknown (resolveEntitlements s now over) \<and> ent_orderCap (resolveEntitlements s now over) = Some 300
      \<and> (hasFeature (resolveEntitlements s now over) f \<longleftrightarrow> f = FT_core))"
  using resolveEntitlements_unknown [of s now over f]
  by (auto simp: resolveEntitlements_def or_else_def hasFeature_def Let_def)

theorem entitlements_follow_plan_witness:
  "hasFeature (resolveEntitlements (growth_row\<lparr> sub_planCode := ''galaxy'' \<rparr>) ''2025-03-09T00:00:00.000Z'' False) FT_core
   \<and> ent_orderCap (resolveEntitlements (growth_row\<lparr> sub_planCode := ''galaxy'' \<rparr>) ''2025-03-09T00:00:00.000Z'' False) = Some 300"
proof -
  have "planOf (effectivePlanCode (growth_row\<lparr> sub_planCode := ''galaxy'' \<rparr>) ''2025-03-09T00:00:00.000Z'') = None"
    by code_simp
  then show ?thesis
    using entitlements_follow_plan [of "growth_row\<lparr> sub_planCode := ''galaxy'' \<rparr>" "''2025-03-09T00:00:00.000Z''" _ False FT_core]
    by blast
qed

section \<open>Plans\<close>

text \<open>
  The comparison of the plan table with the platform's catalogue finds nothing exactly when
  every listing maps to a known plan that is for sale at the same price and interval, no plan is
  listed twice, and every plan that is for sale is listed.
\<close>

theorem catalog_clean_iff_in_order:
  "(\<exists>n. comparePlanCatalog remote = CatalogOk n) \<longleftrightarrow> catalog_in_order remote"
  by (rule comparePlanCatalog_ok)

text \<open>
  In the plan table an annual plan is its monthly twin: the same features and the same monthly
  allowance, at ten months' price, and moving between the two is never a downgrade; and losing
  nothing twice loses nothing, so \<open>isDowngrade\<close> orders the plans consistently.
\<close>

theorem annual_plan_is_monthly_twin:
  "(planOf code = Some a \<longrightarrow> plan_monthlyEquivalent a = Some m \<longrightarrow>
      (\<exists>b. planOf m = Some b \<and> same_tier a b \<and> plan_interval b = BI_month \<and> plan_interval a = BI_year
        \<and> plan_purchasable a = plan_purchasable b \<and> plan_priceMinor a = (12 - MONTHS_FREE_ON_ANNUAL) * plan_priceMinor b
        \<and> \<not> isDowngrade a b \<and> \<not> isDowngrade b a))
   \<and> (\<not> isDowngrade p q \<longrightarrow> \<not> isDowngrade q r \<longrightarrow> \<not> isDowngrade p r)"
  using annual_twin [of code a m] same_tier_not_downgrade not_downgrade_trans [of p q r] by blast

theorem annual_plan_is_monthly_twin_witness:
  "\<exists>a b. planOf ''growth_annual'' = Some a \<and> planOf ''growth'' = Some b \<and> \<not> isDowngrade a b
     \<and> plan_priceMinor a = (12 - MONTHS_FREE_ON_ANNUAL) * plan_priceMinor b"
proof -
  have "case planOf ''growth_annual'' of None \<Rightarrow> False | Some a \<Rightarrow> plan_monthlyEquivalent a = Some ''growth''" by code_simp
  then obtain a where "planOf ''growth_annual'' = Some a" "plan_monthlyEquivalent a = Some ''growth''"
    by (auto split: option.splits)
  then show ?thesis using annual_plan_is_monthly_twin [of "''growth_annual''" a "''growth''"] by blast
qed

section \<open>Usage\<close>

text \<open>
  A usage count that is stored can be read back until its time to live is over, however many
  reads of any key come in between, and not after; and the cap is exceeded exactly when the count is
  above it, an unlimited plan never.
\<close>

theorem usage_readable_until_expiry:
  "((\<forall>r \<in> set reads. snd r \<le> t) \<longrightarrow>
      fst (cache_get (cache_get_all (cache_set c k v now) reads) k t) = (if t < now + uc_ttlMs c then Some v else None))
   \<and> (us_overCap (usageStatus n cap) \<longleftrightarrow> (\<exists>l. cap = Some l \<and> l < n))"
  using usage_cache.stored_value_readable [of reads t now c k v] usage_cache.stored_value_expires [of reads t now c k v]
    usageStatus_facts(1) [of n cap] by (simp add: cache_get_all_fetch not_less)

theorem usage_readable_until_expiry_witness:
  "fst (cache_get (cache_get_all (cache_set (new_UsageCache 60000) ''k'' 42 1000) [(''k'', 2000), (''j'', 3000)]) ''k'' 60999) = Some 42"
  using usage_readable_until_expiry [of "[(''k'', 2000), (''j'', 3000)]" 60999 "new_UsageCache 60000" "''k''" 42 1000 0 None]
  by (simp add: new_UsageCache_def)

end
