(* ===== verification/DateCodec.thy ===== *)
theory DateCodec
  imports Decimals IsoDates
begin

text \<open>
  Dates in and out of a \<open>timestamptz\<close> column: \<open>packages/persistence/src/db/codec.ts\<close>. The driver
  hands a column over as a \<open>Date\<close>, here its number of milliseconds since the epoch. \<open>toISOString\<close>
  writes that number as a civil date and a time of day; the civil date is found by estimating the
  year from the mean length of one, correcting the estimate, and walking the months.

  The result is that writing an instant to a column and reading it back gives the same string.
\<close>

section \<open>The civil date of a day number\<close>

definition year_start :: "int \<Rightarrow> int" where
  "year_start y = daysFromCivil y 1 1"

definition year_of_day :: "int \<Rightarrow> int" where
  "year_of_day n =
     (let g = 1970 + (400 * n) div 146097
      in if year_start (g + 1) \<le> n then g + 1 else if n < year_start g then g - 1 else g)"

fun month_walk :: "int \<Rightarrow> int list \<Rightarrow> int \<Rightarrow> int \<times> int" where
  "month_walk y [] r = (12, r + 1)"
| "month_walk y (m # ms) r = (if r < monthLength y m then (m, r + 1) else month_walk y ms (r - monthLength y m))"

definition civil_of_day :: "int \<Rightarrow> int \<times> int \<times> int" where
  "civil_of_day n =
     (let y = year_of_day n in (y, month_walk y [1, 2, 3, 4, 5, 6, 7, 8, 9, 10, 11, 12] (n - year_start y)))"

section \<open>\<open>toISOString\<close>\<close>

definition three_digits :: "int \<Rightarrow> string" where
  "three_digits n = [digit_char (n div 100), digit_char (n div 10), digit_char n]"

definition iso_signed_year :: "int \<Rightarrow> string" where
  "iso_signed_year y =
     (if 0 \<le> y \<and> y \<le> 9999 then four_digits y
      else (if y < 0 then CHR ''-'' else CHR ''+'')
        # digit_char (\<bar>y\<bar> div 100000) # digit_char (\<bar>y\<bar> div 10000) # four_digits \<bar>y\<bar>)"

definition iso_time :: "int \<Rightarrow> string" where
  "iso_time t =
     two_digits (t div 3600000) @ '':'' @ two_digits (t div 60000 mod 60) @ '':''
     @ two_digits (t div 1000 mod 60) @ ''.'' @ three_digits (t mod 1000) @ ''Z''"

definition MAX_DATE :: int where
  "MAX_DATE = 8640000000000000"

definition toISOString :: "int \<Rightarrow> string outcome" where
  "toISOString ms =
     (if ms < - MAX_DATE \<or> MAX_DATE < ms then Inl RangeError
      else case civil_of_day (ms div 86400000) of (y, m, d) \<Rightarrow>
        Inr (iso_signed_year y @ ''-'' @ two_digits m @ ''-'' @ two_digits d @ ''T'' @ iso_time (ms mod 86400000)))"

section \<open>The codec\<close>

definition toInstantFromDate :: "int \<Rightarrow> string outcome" where
  "toInstantFromDate v = bindE (toISOString v) toInstant"

definition toInstantFromDateOrNull :: "int option \<Rightarrow> string option outcome" where
  "toInstantFromDateOrNull v =
     (case v of None \<Rightarrow> Inr None | Some d \<Rightarrow> bindE (toInstantFromDate d) (\<lambda>i. Inr (Some i)))"

text \<open>
  \<open>new Date(value)\<close> of a well-formed instant is the moment it denotes. An \<open>Instant\<close> is well-formed
  by construction; for any other string the model has no date.
\<close>

definition toDateFromInstant :: "string \<Rightarrow> int option" where
  "toDateFromInstant v = (case epochMillis v of Inl _ \<Rightarrow> None | Inr ms \<Rightarrow> Some ms)"

definition toLocalDateFromColumn :: "string \<Rightarrow> string outcome" where
  "toLocalDateFromColumn v = toLocalDate v"

section \<open>The year of a day\<close>

lemma year_start_bounds:
  "146097 * k - 506 \<le> 400 * year_start (1970 + k) \<and> 400 * year_start (1970 + k) \<le> 146097 * k + 589"
proof -
  define z where "z = 1969 + k"
  define q r c where "q = z div 4" and "r = z div 100" and "c = z div 400"
  have y: "year_start (1970 + k) = 365 * z + q - r + c - 719162"
    by (simp add: year_start_def daysFromCivil_alt year_days_def z_def q_def r_def c_def)
  have b: "4 * q \<le> z" "z - 3 \<le> 4 * q" "100 * r \<le> z" "z - 99 \<le> 100 * r" "400 * c \<le> z" "z - 399 \<le> 400 * c"
    unfolding q_def r_def c_def by presburger+
  show ?thesis unfolding y using b z_def by (simp add: algebra_simps)
qed

lemma year_of_day_start: "year_start (year_of_day n) \<le> n \<and> n < year_start (year_of_day n + 1)"
proof -
  define k where "k = (400 * n) div 146097"
  have k: "146097 * k \<le> 400 * n" "400 * n < 146097 * k + 146097"
    using div_mult_mod_eq [of "400 * n" 146097] pos_mod_bound [of 146097 "400 * n"]
      pos_mod_sign [of 146097 "400 * n"] unfolding k_def by linarith+
  have "1970 + k - 1 = 1970 + (k - 1)" "1970 + k + 1 + 1 = 1970 + (k + 2)" by simp_all
  then have "year_start (1970 + k - 1) \<le> n" "n < year_start (1970 + k + 1 + 1)"
    using year_start_bounds [of "k - 1"] year_start_bounds [of "k + 2"] k by simp_all
  then show ?thesis by (auto simp: year_of_day_def k_def [symmetric] Let_def)
qed

lemma year_start_real: "isRealDate y 1 1"
  by (simp add: isRealDate_iff monthLength_def DAYS_IN_MONTH_def)

lemma year_start_mono: "y < z \<Longrightarrow> year_start y < year_start z"
  using daysFromCivil_strict_mono [OF year_start_real year_start_real, of y z] by (simp add: year_start_def pair_less)

lemma real_date_year:
  assumes "isRealDate y m d"
  shows "year_start y \<le> daysFromCivil y m d \<and> daysFromCivil y m d < year_start (y + 1)"
proof -
  have r: "1 \<le> m" "1 \<le> d" using assms by (simp_all add: isRealDate_iff)
  have "(y, 1, 1) < (y, m, d) \<or> (1, 1) = (m, d)" using r by (auto simp: pair_less simp del: less_prod_simp)
  then have "year_start y \<le> daysFromCivil y m d"
    using daysFromCivil_strict_mono [OF year_start_real assms, of y] by (auto simp: year_start_def)
  moreover have "daysFromCivil y m d < year_start (y + 1)"
    using daysFromCivil_strict_mono [OF assms year_start_real, of "y + 1"] by (simp add: year_start_def pair_less)
  ultimately show ?thesis by simp
qed

lemma year_of_day_real: "isRealDate y m d \<Longrightarrow> year_of_day (daysFromCivil y m d) = y"
proof -
  let ?n = "daysFromCivil y m d" and ?z = "year_of_day (daysFromCivil y m d)"
  assume r: "isRealDate y m d"
  note z = year_of_day_start [of ?n] real_date_year [OF r]
  have mono: "a + 1 \<le> b \<Longrightarrow> year_start (a + 1) \<le> year_start b" for a b
    using year_start_mono [of "a + 1" b] by (cases "a + 1 = b") auto
  consider "?z < y" | "?z = y" | "y < ?z" by linarith
  then show ?thesis using z mono [of ?z y] mono [of y ?z] by cases auto
qed

section \<open>The month and the day\<close>

lemma month_walk_step:
  assumes "1 \<le> k" and "k < m" and "m \<le> 12"
  shows "\<not> daysFromCivil y m 1 + (d - 1) - daysFromCivil y k 1 < monthLength y k \<or> d < 1"
  using daysFromCivil_month_less [OF assms, of y] by linarith

lemma month_walk_upto:
  assumes "1 \<le> k" and "k \<le> m" and "m \<le> 12" and "1 \<le> d" and "d \<le> monthLength y m"
  shows "month_walk y [k..12] (daysFromCivil y m 1 + (d - 1) - daysFromCivil y k 1) = (m, d)"
  using assms
proof (induction "nat (m - k)" arbitrary: k)
  case 0
  then have "k = m" by simp
  then show ?case using 0 by (simp add: upto_rec1)
next
  case (Suc n)
  then have km: "k < m" by linarith
  have step: "daysFromCivil y (k + 1) 1 = daysFromCivil y k 1 + monthLength y k"
    using daysFromCivil_month [of k y] Suc.prems km by simp
  have "month_walk y [k + 1..12] (daysFromCivil y m 1 + (d - 1) - daysFromCivil y (k + 1) 1) = (m, d)"
    using Suc km by (intro Suc.hyps(1)) auto
  moreover have "\<not> daysFromCivil y m 1 + (d - 1) - daysFromCivil y k 1 < monthLength y k"
    using month_walk_step [of k m y d] Suc.prems km by simp
  ultimately show ?case
    using Suc.prems step by (simp add: upto_rec1 [of k 12] algebra_simps)
qed

lemma civil_of_day_real:
  assumes "isRealDate y m d"
  shows "civil_of_day (daysFromCivil y m d) = (y, m, d)"
proof -
  have r: "1 \<le> m" "m \<le> 12" "1 \<le> d" "d \<le> monthLength y m" using assms by (simp_all add: isRealDate_iff)
  have months: "[1, 2, 3, 4, 5, 6, 7, 8, 9, 10, 11, 12] = [1..12::int]"
    by (simp add: upto_rec1)
  show ?thesis
    using month_walk_upto [of 1 m d y] r
    by (simp add: civil_of_day_def year_of_day_real [OF assms] year_start_def Let_def months
        daysFromCivil_day [of y m d, symmetric])
qed

section \<open>Digits written back\<close>

lemma three_digits_val:
  assumes "0 \<le> n" and "n < 1000"
  shows "digits_val (three_digits n) = n"
proof -
  have d: "n div 100 = n div 10 div 10" by (simp add: zdiv_zmult2_eq [symmetric])
  have c: "n div 10 div 10 mod 10 = n div 10 div 10" using assms by simp
  have three: "digits_val [a, b, e] = 100 * digit_val a + 10 * digit_val b + digit_val e" for a b e
    by (simp add: digits_val_Cons)
  show ?thesis
    unfolding three_digits_def three digit_char_val d c
    using div_mult_mod_eq [of n 10] div_mult_mod_eq [of "n div 10" 10] by linarith
qed

lemma digits_unique:
  "list_all is_digit a \<Longrightarrow> list_all is_digit b \<Longrightarrow> length a = length b \<Longrightarrow> digits_val a = digits_val b \<Longrightarrow> a = b"
  using digits_val_less [of a b] by blast

lemma two_digits_back:
  assumes "list_all is_digit s" and "length s = 2"
  shows "two_digits (digits_val s) = s"
proof (rule digits_unique)
  show "digits_val (two_digits (digits_val s)) = digits_val s"
    using digits_val_bounds [OF assms(1)] two_digits_val [of "digits_val s"] assms by simp
qed (use assms in \<open>simp_all add: two_digits_def\<close>)

lemma three_digits_back:
  assumes "list_all is_digit s" and "length s = 3"
  shows "three_digits (digits_val s) = s"
proof (rule digits_unique)
  show "digits_val (three_digits (digits_val s)) = digits_val s"
    using digits_val_bounds [OF assms(1)] three_digits_val [of "digits_val s"] assms by simp
qed (use assms in \<open>simp_all add: three_digits_def\<close>)

lemma four_digits_back:
  assumes "list_all is_digit s" and "length s = 4"
  shows "four_digits (digits_val s) = s"
proof (rule digits_unique)
  show "digits_val (four_digits (digits_val s)) = digits_val s"
    using digits_val_bounds [OF assms(1)] four_digits_val [of "digits_val s"] assms by simp
qed (use assms in \<open>simp_all add: four_digits_def\<close>)

section \<open>The round trip\<close>

lemma iso_time_fields:
  assumes "0 \<le> h" "h \<le> 23" "0 \<le> mi" "mi \<le> 59" "0 \<le> s" "s \<le> 59" "0 \<le> ms" "ms \<le> (999::int)"
    and t: "t = h * 3600000 + mi * 60000 + s * 1000 + ms"
  shows "iso_time t = two_digits h @ '':'' @ two_digits mi @ '':'' @ two_digits s @ ''.'' @ three_digits ms @ ''Z''"
    and "0 \<le> t \<and> t < 86400000"
proof -
  have "t div 3600000 = h"
    using assms by (intro int_div_pos_eq [where r = "mi * 60000 + s * 1000 + ms"]) auto
  moreover have "t div 60000 = h * 60 + mi"
    using assms by (intro int_div_pos_eq [where r = "s * 1000 + ms"]) auto
  moreover have "t div 1000 = h * 3600 + mi * 60 + s"
    using assms by (intro int_div_pos_eq [where r = ms]) auto
  moreover have "(h * 60 + mi) mod 60 = mi" and "(h * 3600 + mi * 60 + s) mod 60 = s"
    using assms int_mod_pos_eq [of "h * 60 + mi" 60 h mi] int_mod_pos_eq [of "h * 3600 + mi * 60 + s" 60 "h * 60 + mi" s]
    by simp_all
  moreover have "t mod 1000 = ms"
    using assms by (intro int_mod_pos_eq [where q = "h * 3600 + mi * 60 + s"]) auto
  ultimately show "iso_time t = two_digits h @ '':'' @ two_digits mi @ '':'' @ two_digits s @ ''.'' @ three_digits ms @ ''Z''"
    by (simp add: iso_time_def)
  show "0 \<le> t \<and> t < 86400000" using assms by simp
qed

lemma real_date_range:
  assumes "isRealDate y m d" and "0 \<le> y" and "y \<le> 9999"
  shows "- 719528 \<le> daysFromCivil y m d \<and> daysFromCivil y m d < 2932897"
proof -
  have s: "year_start 0 = - 719528" "year_start 10000 = 2932897"
    by (simp_all add: year_start_def daysFromCivil_def)
  have "year_start 0 \<le> year_start y" using year_start_mono [of 0 y] assms(2) by (cases "y = 0") auto
  moreover have "year_start (y + 1) \<le> year_start 10000"
    using year_start_mono [of "y + 1" 10000] assms(3) by (cases "y = 9999") auto
  ultimately show ?thesis using real_date_year [OF assms(1)] s by simp
qed

lemma toISOString_epoch:
  assumes "isInstant s" and "epochMillis s = Inr n"
  shows "toISOString n = Inr s"
proof -
  obtain a where a: "match_instant s = Some a" "real_moment a" "epochMillis s = Inr (epoch_of a)"
    by (rule isInstant_real_moment [OF assms(1)])
  obtain y mo d h mi sec ms where a': "a = (y, mo, d, h, mi, sec, ms)" by (cases a) auto
  note S = match_instant_Some [OF a(1) [unfolded a']]
  note R = a(2) [unfolded a' real_moment_def prod.case]
  define t where "t = h * 3600000 + mi * 60000 + sec * 1000 + ms"
  have n: "n = daysFromCivil y mo d * 86400000 + t"
    using assms(2) a(3) by (simp add: a' epoch_of_def t_def)
  have "0 \<le> h \<and> h \<le> 23 \<and> 0 \<le> mi \<and> mi \<le> 59 \<and> 0 \<le> sec \<and> sec \<le> 59 \<and> 0 \<le> ms \<and> ms \<le> 999"
    using R by simp
  then have time: "iso_time t = two_digits h @ '':'' @ two_digits mi @ '':'' @ two_digits sec @ ''.'' @ three_digits ms @ ''Z''"
    and tb: "0 \<le> t" "t < 86400000"
    using iso_time_fields [of h mi sec ms t] by (simp_all add: t_def)
  have day: "n div 86400000 = daysFromCivil y mo d" "n mod 86400000 = t"
    using n tb int_div_pos_eq [of n 86400000 "daysFromCivil y mo d" t] int_mod_pos_eq [of n 86400000 "daysFromCivil y mo d" t]
    by simp_all
  have f: "list_all is_digit (substr s i k)" if "digits_at s i k" for i k using that by (simp add: digits_at_def)
  have len: "length (substr s i k) = k" if "i + k \<le> 24" for i k using that S(2) by (simp add: substr_def)
  have y: "0 \<le> y" "y \<le> 9999"
    using digits_val_bounds [OF f [OF S(3)]] S(10) len [of 0 4] by simp_all
  have written: "four_digits y = substr s 0 4" "two_digits mo = substr s 5 2" "two_digits d = substr s 8 2"
    "two_digits h = substr s 11 2" "two_digits mi = substr s 14 2" "two_digits sec = substr s 17 2"
    "three_digits ms = substr s 20 3"
    using four_digits_back [OF f [OF S(3)] len] two_digits_back [OF f [OF S(4)] len]
      two_digits_back [OF f [OF S(5)] len] two_digits_back [OF f [OF S(6)] len]
      two_digits_back [OF f [OF S(7)] len] two_digits_back [OF f [OF S(8)] len]
      three_digits_back [OF f [OF S(9)] len] S(10-16) by simp_all
  have "- MAX_DATE \<le> n" and "n \<le> MAX_DATE"
    using n tb real_date_range [of y mo d] R y by (simp_all add: MAX_DATE_def)
  then have "toISOString n = Inr (four_digits y @ ''-'' @ two_digits mo @ ''-'' @ two_digits d @ ''T'' @ iso_time t)"
    using y R by (simp add: toISOString_def day civil_of_day_real iso_signed_year_def not_less)
  then show ?thesis using S(1) unfolding time written by simp
qed

lemma instant_date_roundtrip:
  assumes "isInstant s"
  obtains n where "toDateFromInstant s = Some n" and "toInstantFromDate n = Inr s"
proof -
  obtain n where n: "epochMillis s = Inr n" using epochMillis_total [OF assms] by blast
  then show thesis
    using that [of n] toISOString_epoch [OF assms n] assms by (simp add: toDateFromInstant_def toInstantFromDate_def toInstant_iff)
qed

section \<open>The other way\<close>

lemma civil_of_day_day:
  obtains y m d where "civil_of_day n = (y, m, d)" and "isRealDate y m d" and "daysFromCivil y m d = n"
proof -
  let ?y = "year_of_day n" and ?k = "nat (n - year_start (year_of_day n))"
  obtain y m d where p: "plus_days ?k (?y, 1, 1) = (y, m, d)" by (cases "plus_days ?k (?y, 1, 1)")
  have one: "real_date (?y, 1, 1)" using year_start_real by (simp add: real_date_def)
  have real: "isRealDate y m d" using plus_days_real [OF one, of ?k] p by (simp add: real_date_def)
  have "daysFromCivil y m d = n"
    using plus_days_number [OF one, of ?k] p year_of_day_start [of n] by (simp add: day_number_def year_start_def)
  then show thesis using that [of y m d] real civil_of_day_real [OF real] by simp
qed

lemma time_of_day:
  "u div 3600000 * 3600000 + u div 60000 mod 60 * 60000 + u div 1000 mod 60 * 1000 + u mod 1000 = (u :: int)"
proof -
  have d: "u div 60000 = u div 1000 div 60" "u div 3600000 = u div 1000 div 60 div 60"
    by (simp_all add: zdiv_zmult2_eq [symmetric])
  show ?thesis
    unfolding d using div_mult_mod_eq [of u 1000] div_mult_mod_eq [of "u div 1000" 60]
      div_mult_mod_eq [of "u div 1000 div 60" 60] by linarith
qed

lemma match_written:
  assumes "0 \<le> y" "y < 10000" "0 \<le> m" "m < 100" "0 \<le> d" "d < 100" "0 \<le> h" "h < 100" "0 \<le> mi" "mi < 100"
    "0 \<le> sec" "sec < 100" "0 \<le> ms" "ms < 1000"
  shows "match_instant (four_digits y @ ''-'' @ two_digits m @ ''-'' @ two_digits d @ ''T'' @ two_digits h @ '':''
     @ two_digits mi @ '':'' @ two_digits sec @ ''.'' @ three_digits ms @ ''Z'') = Some (y, m, d, h, mi, sec, ms)"
proof -
  let ?s = "four_digits y @ ''-'' @ two_digits m @ ''-'' @ two_digits d @ ''T'' @ two_digits h @ '':''
     @ two_digits mi @ '':'' @ two_digits sec @ ''.'' @ three_digits ms @ ''Z''"
  have parts: "length ?s = 24" "substr ?s 0 4 = four_digits y" "substr ?s 4 1 = ''-''" "substr ?s 5 2 = two_digits m"
    "substr ?s 7 1 = ''-''" "substr ?s 8 2 = two_digits d" "substr ?s 10 1 = ''T''" "substr ?s 11 2 = two_digits h"
    "substr ?s 13 1 = '':''" "substr ?s 14 2 = two_digits mi" "substr ?s 16 1 = '':''"
    "substr ?s 17 2 = two_digits sec" "substr ?s 19 1 = ''.''" "substr ?s 20 3 = three_digits ms" "substr ?s 23 1 = ''Z''"
    by (simp_all add: substr_def four_digits_def two_digits_def three_digits_def)
  have dig: "list_all is_digit (four_digits x)" "list_all is_digit (two_digits x)" "list_all is_digit (three_digits x)" for x
    by (simp_all add: four_digits_def two_digits_def three_digits_def)
  show ?thesis
    unfolding match_instant_def digits_at_def parts
    using dig assms by (simp add: four_digits_val two_digits_val three_digits_val)
qed

lemma toISOString_read:
  assumes "toISOString v = Inr s" and "isInstant s"
  shows "epochMillis s = Inr v"
proof -
  let ?t = "v mod 86400000"
  obtain y m d where c: "civil_of_day (v div 86400000) = (y, m, d)" "isRealDate y m d"
    "daysFromCivil y m d = v div 86400000" by (rule civil_of_day_day)
  have s: "s = iso_signed_year y @ ''-'' @ two_digits m @ ''-'' @ two_digits d @ ''T'' @ iso_time ?t"
    using assms(1) c(1) by (simp add: toISOString_def split: if_splits)
  have "length s = 24" using assms(2) by (auto simp: isInstant_def match_instant_def split: option.splits if_splits)
  then have y: "0 \<le> y" "y \<le> 9999"
    unfolding s by (auto simp: iso_signed_year_def iso_time_def four_digits_def two_digits_def three_digits_def split: if_splits)
  have md: "1 \<le> m" "m \<le> 12" "1 \<le> d" "d \<le> 31" using real_date_bounds [of y m d] c(2) by (simp_all add: real_date_def)
  define h mi sec ms where "h = ?t div 3600000" and "mi = ?t div 60000 mod 60" and "sec = ?t div 1000 mod 60"
    and "ms = ?t mod 1000"
  have tb: "0 \<le> ?t" "?t < 86400000" by simp_all
  have hb: "0 \<le> h" "h < 24" using tb by (simp_all add: h_def pos_imp_zdiv_nonneg_iff)
  have b: "0 \<le> mi" "mi < 60" "0 \<le> sec" "sec < 60" "0 \<le> ms" "ms < 1000" by (simp_all add: mi_def sec_def ms_def)
  have t: "h * 3600000 + mi * 60000 + sec * 1000 + ms = ?t"
    unfolding h_def mi_def sec_def ms_def by (rule time_of_day)
  have "s = four_digits y @ ''-'' @ two_digits m @ ''-'' @ two_digits d @ ''T'' @ two_digits h @ '':''
      @ two_digits mi @ '':'' @ two_digits sec @ ''.'' @ three_digits ms @ ''Z''"
    unfolding s iso_time_def using y by (simp add: iso_signed_year_def h_def mi_def sec_def ms_def)
  then have m: "match_instant s = Some (y, m, d, h, mi, sec, ms)"
    using match_written [of y m d h mi sec ms] y md hb b by simp
  have "v div 86400000 * 86400000 + h * 3600000 + mi * 60000 + sec * 1000 + ms = v"
    using div_mult_mod_eq [of v 86400000] t by linarith
  then show ?thesis using m assms(2) c(3) by (simp add: epochMillis_def)
qed

lemma date_instant_roundtrip:
  assumes "toInstantFromDate d = Inr i"
  shows "isInstant i" and "toDateFromInstant i = Some d"
proof -
  have i: "toISOString d = Inr i" "isInstant i"
    using assms by (auto simp: toInstantFromDate_def bindE_eq_Inr toInstant_iff split: if_splits)
  then show "isInstant i" "toDateFromInstant i = Some d"
    using toISOString_read by (simp_all add: toDateFromInstant_def)
qed

end
