(* ===== verification/Columns.thy ===== *)
theory Columns
  imports DateCodec Ids Domain
begin

text \<open>
  Values of the domain in the columns of the database: \<open>packages/persistence/src/db/money.ts\<close> and the
  rest of \<open>packages/persistence/src/db/codec.ts\<close> (its dates are in \<open>DateCodec\<close>). Money is
  \<open>numeric(14, 2)\<close>, which the driver takes and gives as a string.
\<close>

section \<open>Money\<close>

definition MONEY_PRECISION :: nat where
  "MONEY_PRECISION = 14"

definition MONEY_SCALE :: nat where
  "MONEY_SCALE = 2"

definition assertStorableCurrency :: "string \<Rightarrow> unit outcome" where
  "assertStorableCurrency currency =
     (if currencyExponent currency \<noteq> Some MONEY_SCALE then Inl UnsupportedCurrencyError else Inr ())"

definition minorToNumeric :: "int \<Rightarrow> string" where
  "minorToNumeric v =
     (let negative = v < 0;
          digits = padStart0 (MONEY_SCALE + 1) (show_nat (nat (if negative then - v else v)));
          whole = take (length digits - MONEY_SCALE) digits;
          fraction = drop (length digits - MONEY_SCALE) digits
      in (if negative then ''-'' else []) @ whole @ ''.'' @ fraction)"

definition numericToMinor :: "string \<Rightarrow> int outcome" where
  "numericToMinor raw = toMinorFromDecimal raw MONEY_SCALE"

definition minorToNumericOrNull :: "int option \<Rightarrow> string option" where
  "minorToNumericOrNull v = (case v of None \<Rightarrow> None | Some m \<Rightarrow> Some (minorToNumeric m))"

definition numericToMinorOrNull :: "string option \<Rightarrow> int option outcome" where
  "numericToMinorOrNull raw =
     (case raw of None \<Rightarrow> Inr None | Some s \<Rightarrow> bindE (numericToMinor s) (\<lambda>m. Inr (Some m)))"

definition integerToMinor :: "js_number \<Rightarrow> int outcome" where
  "integerToMinor v = toMinor v"

section \<open>Identifiers, integers and enumerations\<close>

definition toIdFromColumn :: "string \<Rightarrow> string outcome" where
  "toIdFromColumn v = idFromString v"

definition toIdFromColumnOrNull :: "string option \<Rightarrow> string option outcome" where
  "toIdFromColumnOrNull v = (case v of None \<Rightarrow> Inr None | Some s \<Rightarrow> bindE (idFromString s) (\<lambda>i. Inr (Some i)))"

definition toBpsFromColumn :: "js_number \<Rightarrow> int outcome" where
  "toBpsFromColumn v = toBps v"

definition toBpsFromColumnOrNull :: "js_number option \<Rightarrow> int option outcome" where
  "toBpsFromColumnOrNull v = (case v of None \<Rightarrow> Inr None | Some n \<Rightarrow> bindE (toBps n) (\<lambda>b. Inr (Some b)))"

definition toCalcVersionFromColumn :: "js_number \<Rightarrow> int outcome" where
  "toCalcVersionFromColumn v = toCalcVersion v"

text \<open>
  A text column read as a member of an enumeration. \<open>allowed\<close> lists the members with their literals,
  in the order of the frozen tuple.
\<close>

definition toEnumFromColumn :: "string \<Rightarrow> (string \<times> 'a) list \<Rightarrow> 'a outcome" where
  "toEnumFromColumn v allowed = (case map_of allowed v of None \<Rightarrow> Inl ColumnError | Some m \<Rightarrow> Inr m)"

text \<open>The literal of a member: what the code writes to the column.\<close>

definition literal_of :: "(string \<times> 'a) list \<Rightarrow> 'a \<Rightarrow> string" where
  "literal_of allowed m = (case find (\<lambda>p. snd p = m) allowed of None \<Rightarrow> [] | Some p \<Rightarrow> fst p)"

datatype webhook_event_status = WS_pending | WS_processing | WS_processed | WS_failed | WS_skipped

definition WEBHOOK_EVENT_STATUSES :: "(string \<times> webhook_event_status) list" where
  "WEBHOOK_EVENT_STATUSES = [(''pending'', WS_pending), (''processing'', WS_processing),
     (''processed'', WS_processed), (''failed'', WS_failed), (''skipped'', WS_skipped)]"

definition COST_SOURCES :: "(string \<times> cost_source) list" where
  "COST_SOURCES = [(''merchant_manual'', CO_merchant_manual), (''merchant_bulk_import'', CO_merchant_bulk_import),
     (''platform'', CO_platform), (''category_default'', CO_category_default), (''none'', CO_none)]"

definition SUBSCRIPTION_STATUSES :: "(string \<times> subscription_status) list" where
  "SUBSCRIPTION_STATUSES = [(''trialing'', ST_trialing), (''active'', ST_active), (''past_due'', ST_past_due),
     (''canceled'', ST_canceled), (''expired'', ST_expired)]"

section \<open>Writing and reading back\<close>

lemma minorToNumeric_parts:
  obtains whole fraction where "minorToNumeric v = (if v < 0 then ''-'' else []) @ whole @ ''.'' @ fraction"
    and "whole \<noteq> []" and "length fraction = 2" and "list_all is_digit whole" and "list_all is_digit fraction"
    and "digits_val whole * 100 + digits_val fraction = \<bar>v\<bar>"
proof -
  define s where "s = padStart0 (MONEY_SCALE + 1) (show_nat (nat \<bar>v\<bar>))"
  have abs: "(if v < 0 then - v else v) = \<bar>v\<bar>" by simp
  have s: "list_all is_digit s" and len: "3 \<le> length s" and worth: "digits_val s = \<bar>v\<bar>"
    using show_nat_digits [of "nat \<bar>v\<bar>"]
    by (simp_all add: s_def padStart0_digits padStart0_length show_nat_val MONEY_SCALE_def)
  let ?w = "take (length s - 2) s" and ?f = "drop (length s - 2) s"
  have "minorToNumeric v = (if v < 0 then ''-'' else []) @ ?w @ ''.'' @ ?f"
    unfolding minorToNumeric_def abs Let_def s_def [symmetric] by (simp add: MONEY_SCALE_def)
  moreover have "?w \<noteq> []" "length ?f = 2" using len by auto
  moreover have "list_all is_digit ?w" "list_all is_digit ?f"
    using s by (auto simp: list_all_iff dest: in_set_takeD in_set_dropD)
  moreover have "digits_val ?w * 100 + digits_val ?f = \<bar>v\<bar>"
    using digits_val_split [of s 2] s len worth div_mult_mod_eq [of "\<bar>v\<bar>" 100] by simp
  ultimately show thesis using that by blast
qed

lemma minorToNumeric_read:
  assumes "in_range v"
  shows "numericToMinor (minorToNumeric v) = Inr v"
proof -
  obtain w f where m: "minorToNumeric v = (if v < 0 then ''-'' else []) @ w @ ''.'' @ f"
    and p: "w \<noteq> []" "list_all is_digit w" "list_all is_digit f" and len: "length f = 2"
    and worth: "digits_val w * 100 + digits_val f = \<bar>v\<bar>" by (rule minorToNumeric_parts)
  let ?s = "if v < 0 then ''-'' else []"
  have sign: "is_sign ?s" by (simp add: is_sign_def)
  have exact: "\<bar>v\<bar> = digits_val w * 10 ^ 2 + digits_val (take 2 f) * 10 ^ (2 - length f)"
    using worth len by simp
  have small: "\<not> MAX_MINOR < \<bar>v\<bar>" using assms by (auto simp: in_range_def)
  show ?thesis
    unfolding numericToMinor_def MONEY_SCALE_def m decimal_read_exactly [OF sign p insertI2 [OF insertI1] exact]
    using small len by auto
qed

lemma minorToNumeric_inject:
  assumes "in_range v" and "in_range w" and "minorToNumeric v = minorToNumeric w"
  shows "v = w"
  using minorToNumeric_read [OF assms(1)] minorToNumeric_read [OF assms(2)] unfolding assms(3) by simp

text \<open>An amount the kernel accepts has at most ten digits before the point: the column holds it.\<close>

definition fits_money_column :: "string \<Rightarrow> bool" where
  "fits_money_column s = (case match_decimal s of
     None \<Rightarrow> False
   | Some (_, whole, fraction) \<Rightarrow>
       digits_val whole < 10 ^ (MONEY_PRECISION - MONEY_SCALE) \<and> length fraction \<le> MONEY_SCALE)"

lemma minorToNumeric_fits:
  assumes "in_range v"
  shows "fits_money_column (minorToNumeric v)"
proof -
  obtain w f where m: "minorToNumeric v = (if v < 0 then ''-'' else []) @ w @ ''.'' @ f"
    and p: "w \<noteq> []" "list_all is_digit w" "list_all is_digit f" and len: "length f = 2"
    and worth: "digits_val w * 100 + digits_val f = \<bar>v\<bar>" by (rule minorToNumeric_parts)
  have sign: "is_sign (if v < 0 then ''-'' else [])" by (simp add: is_sign_def)
  have "0 \<le> digits_val f" using digits_val_bounds [OF p(3)] by simp
  then have "digits_val w * 100 \<le> 900719925474" using worth assms by (auto simp: in_range_iff)
  then show ?thesis
    unfolding fits_money_column_def m match_decimal_point [OF sign p]
    using len by (simp add: MONEY_PRECISION_def MONEY_SCALE_def)
qed

lemma storable_currencies:
  "assertStorableCurrency c = Inr () \<longleftrightarrow> c \<in> {''SAR'', ''AED'', ''USD''}"
  by (auto simp: assertStorableCurrency_def currencyExponent_def EXPONENTS_def MONEY_SCALE_def)

lemma webhook_status_roundtrip: "toEnumFromColumn (literal_of WEBHOOK_EVENT_STATUSES s) WEBHOOK_EVENT_STATUSES = Inr s"
  by (cases s) (simp_all add: toEnumFromColumn_def literal_of_def WEBHOOK_EVENT_STATUSES_def)

lemma cost_source_roundtrip: "toEnumFromColumn (literal_of COST_SOURCES s) COST_SOURCES = Inr s"
  by (cases s) (simp_all add: toEnumFromColumn_def literal_of_def COST_SOURCES_def)

lemma subscription_status_roundtrip: "toEnumFromColumn (literal_of SUBSCRIPTION_STATUSES s) SUBSCRIPTION_STATUSES = Inr s"
  by (cases s) (simp_all add: toEnumFromColumn_def literal_of_def SUBSCRIPTION_STATUSES_def)

end
