(* ===== verification/Tables.thy ===== *)
theory Tables
  imports Prelude
begin

text \<open>
  Tables of the database as lists of rows, with the statements the repositories of
  \<open>packages/persistence/src/repositories\<close> issue: \<open>UPDATE ... WHERE\<close>, \<open>DELETE ... WHERE\<close> and
  \<open>INSERT ... ON CONFLICT (key) DO UPDATE\<close>. A statement is one atomic step.

  The locale \<open>keyed_store\<close> is what the callers of a repository rely on when it keeps one row per
  key; each such repository interprets it.
\<close>

definition update_where :: "('r \<Rightarrow> bool) \<Rightarrow> ('r \<Rightarrow> 'r) \<Rightarrow> 'r list \<Rightarrow> 'r list" where
  "update_where P f t = map (\<lambda>r. if P r then f r else r) t"

definition delete_where :: "('r \<Rightarrow> bool) \<Rightarrow> 'r list \<Rightarrow> 'r list" where
  "delete_where P t = filter (\<lambda>r. \<not> P r) t"

text \<open>The row with a key, where the key is unique.\<close>

definition row_with :: "('r \<Rightarrow> 'k) \<Rightarrow> 'k \<Rightarrow> 'r list \<Rightarrow> 'r option" where
  "row_with key k t = find (\<lambda>r. key r = k) t"

definition upsert :: "('r \<Rightarrow> 'k) \<Rightarrow> 'r \<Rightarrow> ('r \<Rightarrow> 'r) \<Rightarrow> 'r list \<Rightarrow> 'r list" where
  "upsert key r f t =
     (if key r \<in> key ` set t then update_where (\<lambda>x. key x = key r) f t else t @ [r])"

lemma update_where_Nil [simp]: "update_where P f [] = []"
  by (simp add: update_where_def)

lemma in_update_where: "x \<in> set (update_where P f t) \<longleftrightarrow> (\<exists>r \<in> set t. x = (if P r then f r else r))"
  by (auto simp: update_where_def)

lemma update_where_length [simp]: "length (update_where P f t) = length t"
  by (simp add: update_where_def)

lemma update_where_keys: "(\<And>r. P r \<Longrightarrow> k (f r) = k r) \<Longrightarrow> map k (update_where P f t) = map k t"
  by (auto simp: update_where_def)

lemma update_where_filter_keys:
  "(\<And>r. k (f r) = k r) \<Longrightarrow> map k (filter (\<lambda>r. Q (k r)) (update_where P f t)) = map k (filter (\<lambda>r. Q (k r)) t)"
  by (induction t) (auto simp: update_where_def)

lemma update_where_id: "(\<And>r. r \<in> set t \<Longrightarrow> \<not> P r) \<Longrightarrow> update_where P f t = t"
  by (induction t) (auto simp: update_where_def)

lemma row_with_Some: "row_with key k t = Some r \<Longrightarrow> r \<in> set t \<and> key r = k"
  by (auto simp: row_with_def find_Some_iff)

lemma row_with_None: "row_with key k t = None \<longleftrightarrow> k \<notin> key ` set t"
  by (auto simp: row_with_def find_None_iff)

lemma row_with_distinct: "distinct (map key t) \<Longrightarrow> r \<in> set t \<Longrightarrow> row_with key (key r) t = Some r"
  by (induction t) (auto simp: row_with_def image_iff)

lemma row_with_update:
  assumes "\<And>r. P r \<Longrightarrow> key (f r) = key r"
  shows "row_with key k (update_where P f t) = map_option (\<lambda>r. if P r then f r else r) (row_with key k t)"
  by (induction t) (auto simp: row_with_def update_where_def assms)

lemma row_with_append:
  "row_with key k (t @ u) = (case row_with key k t of None \<Rightarrow> row_with key k u | Some r \<Rightarrow> Some r)"
  by (induction t) (auto simp: row_with_def)

lemma row_with_upsert:
  assumes "\<And>x. key x = key r \<Longrightarrow> key (f x) = key x"
  shows "row_with key k (upsert key r f t) =
     (if k = key r then Some (case row_with key (key r) t of None \<Rightarrow> r | Some x \<Rightarrow> f x) else row_with key k t)"
proof (cases "key r \<in> key ` set t")
  case True
  then obtain x where "row_with key (key r) t = Some x" by (metis not_None_eq row_with_None)
  moreover have "row_with key k t = Some y \<Longrightarrow> key y = k" for y by (auto dest: row_with_Some)
  moreover have "row_with key k (upsert key r f t)
      = map_option (\<lambda>y. if key y = key r then f y else y) (row_with key k t)"
    using True by (simp add: upsert_def row_with_update [of "\<lambda>x. key x = key r" key f] assms)
  ultimately show ?thesis by (cases "row_with key k t") auto
next
  case False
  then have "row_with key (key r) t = None" by (simp add: row_with_None)
  moreover have "row_with key k [r] = (if k = key r then Some r else None)" by (simp add: row_with_def)
  ultimately show ?thesis using False by (auto simp: upsert_def row_with_append split: option.split)
qed

lemma upsert_distinct:
  assumes "\<And>x. key x = key r \<Longrightarrow> key (f x) = key x" and "distinct (map key t)"
  shows "distinct (map key (upsert key r f t))"
  using assms by (auto simp: upsert_def update_where_keys [of "\<lambda>x. key x = key r" key f])

lemma upsert_keys:
  assumes "\<And>x. key x = key r \<Longrightarrow> key (f x) = key x"
  shows "key ` set (upsert key r f t) = insert (key r) (key ` set t)"
  using arg_cong [OF update_where_keys [of "\<lambda>x. key x = key r" key f t], of set] assms
  by (auto simp: upsert_def)

text \<open>Where every row with the key is the same row, the statement leaves the others as they were.\<close>

lemma in_upsert:
  assumes "distinct (map key t)"
  shows "x \<in> set (upsert key r f t) \<longleftrightarrow>
     (x \<in> set t \<and> key x \<noteq> key r) \<or> x = (case row_with key (key r) t of None \<Rightarrow> r | Some y \<Rightarrow> f y)"
proof (cases "row_with key (key r) t")
  case None
  then have absent: "key r \<notin> key ` set t" by (simp add: row_with_None)
  then have "key x \<noteq> key r" if "x \<in> set t" using that by (metis imageI)
  then show ?thesis using None absent by (auto simp: upsert_def)
next
  case (Some y)
  then have y: "y \<in> set t" "key y = key r" by (auto dest: row_with_Some)
  have same: "z = y" if "z \<in> set t" "key z = key r" for z
    using inj_onD [OF inj_on_of_distinct_map [OF assms]] that y by simp
  have "upsert key r f t = update_where (\<lambda>x. key x = key r) f t"
    using y by (simp add: upsert_def) (metis imageI)
  then have "x \<in> set (upsert key r f t) \<longleftrightarrow> (\<exists>z \<in> set t. x = (if key z = key r then f z else z))"
    by (simp add: in_update_where)
  also have "\<dots> \<longleftrightarrow> (x \<in> set t \<and> key x \<noteq> key r) \<or> x = f y"
  proof
    assume "\<exists>z \<in> set t. x = (if key z = key r then f z else z)"
    then show "(x \<in> set t \<and> key x \<noteq> key r) \<or> x = f y" using same by (metis (full_types))
  next
    assume "(x \<in> set t \<and> key x \<noteq> key r) \<or> x = f y"
    then show "\<exists>z \<in> set t. x = (if key z = key r then f z else z)" using y by (metis (full_types))
  qed
  finally show ?thesis using Some by simp
qed

section \<open>One row per key\<close>

locale keyed_store =
  fixes look :: "'s \<Rightarrow> 'k \<Rightarrow> 'r option"
    and put :: "'r \<Rightarrow> 's \<Rightarrow> 's"
    and key_of :: "'r \<Rightarrow> 'k"
  assumes look_put: "look (put r s) k = (if k = key_of r then Some r else look s k)"
begin

lemma look_put_same: "look (put r s) (key_of r) = Some r"
  by (simp add: look_put)

lemma put_other: "k \<noteq> key_of r \<Longrightarrow> look (put r s) k = look s k"
  by (simp add: look_put)

lemma last_put_wins: "key_of r = key_of q \<Longrightarrow> look (put r (put q s)) k = look (put r s) k"
  by (simp add: look_put)

lemma puts_commute: "key_of r \<noteq> key_of q \<Longrightarrow> look (put r (put q s)) k = look (put q (put r s)) k"
  by (simp add: look_put)

lemma look_fold_put:
  "look (fold put rs s) k = (case find (\<lambda>r. key_of r = k) (rev rs) of None \<Rightarrow> look s k | Some r \<Rightarrow> Some r)"
proof (induction rs rule: rev_induct)
  case Nil
  then show ?case by simp
next
  case (snoc r rs)
  then show ?case by (simp add: look_put)
qed

end

end
