(* ===== verification/WebhookQueue.thy ===== *)
theory WebhookQueue
  imports Columns Tables "HOL-Library.Sublist"
begin

text \<open>
  The ingestion queue: \<open>packages/persistence/src/repositories/webhook-event.repository.ts\<close> over the
  table \<open>webhook_events\<close> of \<open>packages/persistence/src/db/schema.ts\<close>.

  The table is a list of rows, an instant column its milliseconds since the epoch, and the clock
  argument of an operation the date that \<open>toDateFromInstant\<close> gives. Rows locked by another
  transaction, which \<open>FOR UPDATE SKIP LOCKED\<close> steps over, are the argument \<open>locked\<close> of \<open>claim\<close>.
  Where the source reads and writes in two statements outside a transaction (\<open>markFailed\<close>,
  \<open>reapStale\<close>) the model has the two halves, and the step relation \<open>queue_step\<close> lets any other
  operation run between them.
\<close>

section \<open>The table\<close>

record 'p webhook_event =
  we_id :: string
  we_storeId :: string
  we_platformEventId :: string
  we_eventType :: string
  we_rawEventType :: string
  we_receivedAt :: int
  we_processedAt :: "int option"
  we_status :: webhook_event_status
  we_attempts :: int
  we_nextAttemptAt :: int
  we_lockedAt :: "int option"
  we_lastError :: "string option"
  we_rawPayload :: 'p

record 'p webhook_event_record =
  wr_id :: string
  wr_storeId :: string
  wr_platformEventId :: string
  wr_eventType :: string
  wr_rawEventType :: string
  wr_receivedAt :: string
  wr_attempts :: int
  wr_rawPayload :: 'p

record 'p new_webhook_event =
  nw_id :: string
  nw_storeId :: string
  nw_platformEventId :: string
  nw_eventType :: string
  nw_rawEventType :: string
  nw_receivedAt :: string
  nw_rawPayload :: 'p

text \<open>The CHECK constraints: attempts are not negative, and a row is locked iff it is in flight.\<close>

definition webhook_events_check :: "'p webhook_event \<Rightarrow> bool" where
  "webhook_events_check r \<longleftrightarrow>
     0 \<le> we_attempts r \<and> ((we_status r = WS_processing) = (we_lockedAt r \<noteq> None))"

section \<open>Retries\<close>

record retry_policy =
  rp_baseDelayMs :: int
  rp_maxDelayMs :: int
  rp_maxAttempts :: int

definition DEFAULT_RETRY_POLICY :: retry_policy where
  "DEFAULT_RETRY_POLICY = \<lparr> rp_baseDelayMs = 10000, rp_maxDelayMs = 3600000, rp_maxAttempts = 8 \<rparr>"

definition backoffMs :: "int \<Rightarrow> retry_policy \<Rightarrow> int" where
  "backoffMs attempts policy =
     (let exponent = max 0 (attempts - 1);
          factor = 2 ^ nat (min exponent 40)
      in min (rp_baseDelayMs policy * factor) (rp_maxDelayMs policy))"

section \<open>The operations\<close>

definition event_key :: "'p webhook_event \<Rightarrow> string \<times> string" where
  "event_key r = (we_storeId r, we_platformEventId r)"

definition new_row :: "'p new_webhook_event \<Rightarrow> int \<Rightarrow> 'p webhook_event" where
  "new_row e received = \<lparr>
     we_id = nw_id e, we_storeId = nw_storeId e, we_platformEventId = nw_platformEventId e,
     we_eventType = nw_eventType e, we_rawEventType = nw_rawEventType e, we_receivedAt = received,
     we_processedAt = None, we_status = WS_pending, we_attempts = 0, we_nextAttemptAt = received,
     we_lockedAt = None, we_lastError = None, we_rawPayload = nw_rawPayload e \<rparr>"

text \<open>
  \<open>stores\<close> are the keys of the table \<open>stores\<close>, to which \<open>store_id\<close> refers. The result says whether
  the event was a duplicate.
\<close>

definition enqueue ::
  "string set \<Rightarrow> 'p new_webhook_event \<Rightarrow> 'p webhook_event list \<Rightarrow> (bool \<times> 'p webhook_event list) outcome" where
  "enqueue stores e t =
     (case toDateFromInstant (nw_receivedAt e) of
        None \<Rightarrow> Inl RangeError
      | Some received \<Rightarrow>
          if (nw_storeId e, nw_platformEventId e) \<in> event_key ` set t then Inr (True, t)
          else if nw_id e \<in> we_id ` set t then Inl (ConstraintViolation ''webhook_events_pkey'')
          else if nw_storeId e \<notin> stores then Inl (ConstraintViolation ''webhook_events_store_id_stores_id_fk'')
          else Inr (False, t @ [new_row e received]))"

definition claimable :: "string set \<Rightarrow> int \<Rightarrow> 'p webhook_event \<Rightarrow> bool" where
  "claimable locked now r \<longleftrightarrow>
     we_status r = WS_pending \<and> we_nextAttemptAt r \<le> now \<and> we_id r \<notin> locked"

definition due_order :: "'p webhook_event \<Rightarrow> int \<times> int" where
  "due_order r = (we_nextAttemptAt r, we_receivedAt r)"

definition due_rows :: "string set \<Rightarrow> nat \<Rightarrow> int \<Rightarrow> 'p webhook_event list \<Rightarrow> 'p webhook_event list" where
  "due_rows locked limit now t = take limit (sort_key due_order (filter (claimable locked now) t))"

definition take_row :: "int \<Rightarrow> 'p webhook_event \<Rightarrow> 'p webhook_event" where
  "take_row now r =
     r\<lparr> we_status := WS_processing, we_attempts := we_attempts r + 1, we_lockedAt := Some now \<rparr>"

definition event_record :: "'p webhook_event \<Rightarrow> 'p webhook_event_record outcome" where
  "event_record r =
     bindE (toIdFromColumn (we_storeId r)) (\<lambda>store.
     bindE (toInstantFromDate (we_receivedAt r)) (\<lambda>received. Inr \<lparr>
       wr_id = we_id r, wr_storeId = store, wr_platformEventId = we_platformEventId r,
       wr_eventType = we_eventType r, wr_rawEventType = we_rawEventType r, wr_receivedAt = received,
       wr_attempts = we_attempts r, wr_rawPayload = we_rawPayload r \<rparr>))"

text \<open>An exception while the claimed rows are read back rolls the transaction back.\<close>

definition claim ::
  "string set \<Rightarrow> int \<Rightarrow> int \<Rightarrow> 'p webhook_event list
   \<Rightarrow> ('p webhook_event_record list \<times> 'p webhook_event list) outcome" where
  "claim locked limit now t =
     (if limit \<le> 0 then Inr ([], t)
      else let ids = map we_id (due_rows locked (nat limit) now t)
           in if ids = [] then Inr ([], t)
              else let t' = update_where (\<lambda>r. we_id r \<in> set ids) (take_row now) t
                   in bindE (mapE event_record (filter (\<lambda>r. we_id r \<in> set ids) t')) (\<lambda>records.
                      Inr (records, t')))"

definition markProcessed :: "string \<Rightarrow> int \<Rightarrow> 'p webhook_event list \<Rightarrow> 'p webhook_event list" where
  "markProcessed i now t =
     update_where (\<lambda>r. we_id r = i)
       (\<lambda>r. r\<lparr> we_status := WS_processed, we_processedAt := Some now, we_lockedAt := None, we_lastError := None \<rparr>) t"

definition markSkipped :: "string \<Rightarrow> string \<Rightarrow> int \<Rightarrow> 'p webhook_event list \<Rightarrow> 'p webhook_event list" where
  "markSkipped i reason now t =
     update_where (\<lambda>r. we_id r = i)
       (\<lambda>r. r\<lparr> we_status := WS_skipped, we_processedAt := Some now, we_lockedAt := None, we_lastError := Some reason \<rparr>) t"

datatype fail_outcome = Retrying | DeadLettered

definition failed_read :: "string \<Rightarrow> 'p webhook_event list \<Rightarrow> int option" where
  "failed_read i t = map_option we_attempts (row_with we_id i t)"

definition release_row :: "bool \<Rightarrow> int \<Rightarrow> int \<Rightarrow> string \<Rightarrow> 'p webhook_event \<Rightarrow> 'p webhook_event" where
  "release_row exhausted now retryAt message r =
     r\<lparr> we_status := (if exhausted then WS_failed else WS_pending), we_lockedAt := None,
        we_lastError := Some message, we_nextAttemptAt := (if exhausted then now else retryAt) \<rparr>"

definition failed_write ::
  "retry_policy \<Rightarrow> string \<Rightarrow> string \<Rightarrow> int \<Rightarrow> int \<Rightarrow> 'p webhook_event list \<Rightarrow> fail_outcome \<times> 'p webhook_event list" where
  "failed_write policy i message now attempts t =
     (let exhausted = attempts \<ge> rp_maxAttempts policy
      in (if exhausted then DeadLettered else Retrying,
          update_where (\<lambda>r. we_id r = i) (release_row exhausted now (now + backoffMs attempts policy) message) t))"

definition markFailed ::
  "retry_policy \<Rightarrow> string \<Rightarrow> string \<Rightarrow> int \<Rightarrow> 'p webhook_event list \<Rightarrow> fail_outcome \<times> 'p webhook_event list" where
  "markFailed policy i message now t =
     (case failed_read i t of
        None \<Rightarrow> (DeadLettered, t)
      | Some attempts \<Rightarrow> failed_write policy i message now attempts t)"

definition is_stale :: "int \<Rightarrow> int \<Rightarrow> 'p webhook_event \<Rightarrow> bool" where
  "is_stale staleAfterMs now r \<longleftrightarrow> we_status r = WS_processing
     \<and> (case we_lockedAt r of None \<Rightarrow> False | Some l \<Rightarrow> l < now - staleAfterMs)"

definition stale_read :: "int \<Rightarrow> int \<Rightarrow> 'p webhook_event list \<Rightarrow> (string \<times> int) list" where
  "stale_read staleAfterMs now t =
     map (\<lambda>r. (we_id r, we_attempts r)) (filter (is_stale staleAfterMs now) t)"

definition reclaim_step ::
  "retry_policy \<Rightarrow> int \<Rightarrow> 'p webhook_event list \<Rightarrow> string \<times> int \<Rightarrow> 'p webhook_event list" where
  "reclaim_step policy now t s =
     update_where (\<lambda>r. we_id r = fst s)
       (release_row False now (now + backoffMs (snd s) policy) ''reclaimed after a worker stopped reporting'') t"

definition reap_write ::
  "retry_policy \<Rightarrow> int \<Rightarrow> (string \<times> int) list \<Rightarrow> 'p webhook_event list \<Rightarrow> 'p webhook_event list" where
  "reap_write policy now stale t =
     (let dead = map fst (filter (\<lambda>s. snd s \<ge> rp_maxAttempts policy) stale);
          retry = filter (\<lambda>s. snd s < rp_maxAttempts policy) stale;
          buried = update_where (\<lambda>r. we_id r \<in> set dead)
            (release_row True now now ''abandoned by a worker after exhausting its attempts'') t
      in foldl (reclaim_step policy now) buried retry)"

definition reapStale :: "retry_policy \<Rightarrow> int \<Rightarrow> int \<Rightarrow> 'p webhook_event list \<Rightarrow> nat \<times> 'p webhook_event list" where
  "reapStale policy staleAfterMs now t =
     (let stale = stale_read staleAfterMs now t in (length stale, reap_write policy now stale t))"

definition requeue :: "string \<Rightarrow> int \<Rightarrow> 'p webhook_event list \<Rightarrow> bool \<times> 'p webhook_event list" where
  "requeue i now t =
     (let P = (\<lambda>r. we_id r = i \<and> we_status r = WS_failed)
      in (\<exists>r \<in> set t. P r,
          update_where P (\<lambda>r. r\<lparr> we_status := WS_pending, we_attempts := 0, we_lockedAt := None,
            we_nextAttemptAt := now, we_processedAt := None \<rparr>) t))"

definition countByStatus :: "'p webhook_event list \<Rightarrow> webhook_event_status \<Rightarrow> nat" where
  "countByStatus t s = length (filter (\<lambda>r. we_status r = s) t)"

section \<open>Concurrent workers\<close>

text \<open>
  The state is the table and the writes whose reads have already happened. One worker's operation
  is a step; \<open>markFailed\<close> and \<open>reapStale\<close> are two.
\<close>

datatype held_write = FailWrite string string int int | ReapWrite int "(string \<times> int) list"

record 'p queue_state =
  qs_rows :: "'p webhook_event list"
  qs_held :: "held_write list"

fun do_write :: "retry_policy \<Rightarrow> held_write \<Rightarrow> 'p webhook_event list \<Rightarrow> 'p webhook_event list" where
  "do_write policy (FailWrite i message now attempts) t = snd (failed_write policy i message now attempts t)"
| "do_write policy (ReapWrite now stale) t = reap_write policy now stale t"

inductive queue_step :: "string set \<Rightarrow> retry_policy \<Rightarrow> 'p queue_state \<Rightarrow> 'p queue_state \<Rightarrow> bool"
  for stores :: "string set" and policy :: retry_policy where
  step_enqueue: "enqueue stores e (qs_rows s) = Inr (d, t) \<Longrightarrow> queue_step stores policy s (s\<lparr> qs_rows := t \<rparr>)"
| step_claim: "claim locked limit now (qs_rows s) = Inr (rs, t) \<Longrightarrow> queue_step stores policy s (s\<lparr> qs_rows := t \<rparr>)"
| step_processed: "queue_step stores policy s (s\<lparr> qs_rows := markProcessed i now (qs_rows s) \<rparr>)"
| step_skipped: "queue_step stores policy s (s\<lparr> qs_rows := markSkipped i reason now (qs_rows s) \<rparr>)"
| step_fail_read: "failed_read i (qs_rows s) = Some n \<Longrightarrow>
    queue_step stores policy s (s\<lparr> qs_held := FailWrite i message now n # qs_held s \<rparr>)"
| step_reap_read: "queue_step stores policy s
    (s\<lparr> qs_held := ReapWrite now (stale_read staleAfterMs now (qs_rows s)) # qs_held s \<rparr>)"
| step_write: "w \<in> set (qs_held s) \<Longrightarrow>
    queue_step stores policy s (s\<lparr> qs_rows := do_write policy w (qs_rows s), qs_held := remove1 w (qs_held s) \<rparr>)"
| step_requeue: "queue_step stores policy s (s\<lparr> qs_rows := snd (requeue i now (qs_rows s)) \<rparr>)"

inductive queue_run :: "string set \<Rightarrow> retry_policy \<Rightarrow> 'p queue_state \<Rightarrow> 'p queue_state \<Rightarrow> bool"
  for stores :: "string set" and policy :: retry_policy where
  run_refl: "queue_run stores policy s s"
| run_step: "queue_run stores policy s u \<Longrightarrow> queue_step stores policy u v \<Longrightarrow> queue_run stores policy s v"

definition empty_queue :: "'p queue_state" where
  "empty_queue = \<lparr> qs_rows = [], qs_held = [] \<rparr>"

inductive_cases queue_stepE: "queue_step stores policy s s'"

end
