(* ===== verification/QueueFacts.thy ===== *)
theory QueueFacts
  imports WebhookQueue
begin

text \<open>
  Results about the ingestion queue: what every operation keeps of the table, what a claim takes,
  how often an event can be attempted, and that an event whose attempts all fail, cleanly or by a
  crash of the worker, ends as a dead letter.
\<close>

section \<open>The invariant of the table\<close>

text \<open>What an event is: everything but its progress.\<close>

definition event_identity :: "'p webhook_event \<Rightarrow> string \<times> string \<times> string \<times> string \<times> string \<times> int \<times> 'p" where
  "event_identity r = (we_id r, we_storeId r, we_platformEventId r, we_eventType r, we_rawEventType r,
     we_receivedAt r, we_rawPayload r)"

definition readable :: "'p webhook_event \<Rightarrow> bool" where
  "readable r \<longleftrightarrow> we_storeId r \<noteq> [] \<and> (\<exists>i. isInstant i \<and> toDateFromInstant i = Some (we_receivedAt r))"

definition queue_ok :: "'p webhook_event list \<Rightarrow> bool" where
  "queue_ok t \<longleftrightarrow> distinct (map we_id t) \<and> distinct (map event_key t)
     \<and> (\<forall>r \<in> set t. webhook_events_check r \<and> readable r)"

lemma event_identityD:
  assumes "event_identity r = event_identity q"
  shows "we_id r = we_id q" "event_key r = event_key q" "we_storeId r = we_storeId q"
    "we_receivedAt r = we_receivedAt q" "readable r = readable q"
  using assms by (simp_all add: event_identity_def event_key_def readable_def)

lemma queue_okI:
  assumes "map event_identity t' = map event_identity t" and "queue_ok t"
    and "\<And>r. r \<in> set t' \<Longrightarrow> webhook_events_check r"
  shows "queue_ok t'"
proof -
  have i: "map we_id u = map fst (map event_identity u)"
    and k: "map event_key u = map (\<lambda>x. (fst (snd x), fst (snd (snd x)))) (map event_identity u)"
    for u :: "'a webhook_event list" by (simp_all add: event_identity_def event_key_def)
  have "map we_id t' = map we_id t" "map event_key t' = map event_key t"
    unfolding i k assms(1) by (rule refl)+
  moreover have "readable r" if "r \<in> set t'" for r
  proof -
    have "event_identity r \<in> event_identity ` set t" using that assms(1) by (metis image_eqI set_map)
    then show ?thesis using assms(2) by (auto simp: queue_ok_def dest: event_identityD(5))
  qed
  ultimately show ?thesis using assms(2,3) by (simp add: queue_ok_def)
qed

lemma update_identity:
  "(\<And>r. event_identity (f r) = event_identity r) \<Longrightarrow> map event_identity (update_where P f t) = map event_identity t"
  by (rule update_where_keys)

lemma update_queue_ok:
  assumes "queue_ok t" and "\<And>r. event_identity (f r) = event_identity r"
    and "\<And>r. r \<in> set t \<Longrightarrow> P r \<Longrightarrow> webhook_events_check r \<Longrightarrow> webhook_events_check (f r)"
  shows "queue_ok (update_where P f t)"
proof (rule queue_okI)
  show "map event_identity (update_where P f t) = map event_identity t"
    by (rule update_identity) (rule assms(2))
  show "queue_ok t" by (rule assms(1))
  show "webhook_events_check r" if "r \<in> set (update_where P f t)" for r
    using that assms(1,3) unfolding in_update_where queue_ok_def by (metis (full_types))
qed

lemma release_identity [simp]: "event_identity (release_row b now t m r) = event_identity r"
  by (simp add: release_row_def event_identity_def)

lemma release_check: "webhook_events_check r \<Longrightarrow> webhook_events_check (release_row b now t m r)"
  by (simp add: release_row_def webhook_events_check_def)

lemma take_row_identity [simp]: "event_identity (take_row now r) = event_identity r"
  by (simp add: take_row_def event_identity_def)

lemma take_row_check: "webhook_events_check r \<Longrightarrow> webhook_events_check (take_row now r)"
  by (simp add: take_row_def webhook_events_check_def)

lemma reclaim_step_ok:
  "map event_identity (reclaim_step policy now t x) = map event_identity t"
  "queue_ok t \<Longrightarrow> queue_ok (reclaim_step policy now t x)"
  unfolding reclaim_step_def by (auto intro!: update_identity update_queue_ok release_check)

lemma reclaim_fold_ok:
  "map event_identity (foldl (reclaim_step policy now) t xs) = map event_identity t
   \<and> (queue_ok t \<longrightarrow> queue_ok (foldl (reclaim_step policy now) t xs))"
  by (induction xs arbitrary: t) (simp_all add: reclaim_step_ok)

lemma reap_write_ok:
  "map event_identity (reap_write policy now stale t) = map event_identity t"
  "queue_ok t \<Longrightarrow> queue_ok (reap_write policy now stale t)"
  unfolding reap_write_def Let_def
  by (simp add: reclaim_fold_ok update_identity)
    (intro reclaim_fold_ok [THEN conjunct2, THEN mp] update_queue_ok release_check; simp)

lemma markProcessed_ok:
  "map event_identity (markProcessed i now t) = map event_identity t"
  "queue_ok t \<Longrightarrow> queue_ok (markProcessed i now t)"
  unfolding markProcessed_def
  by (auto intro!: update_identity update_queue_ok simp: event_identity_def webhook_events_check_def)

lemma markSkipped_ok:
  "map event_identity (markSkipped i m now t) = map event_identity t"
  "queue_ok t \<Longrightarrow> queue_ok (markSkipped i m now t)"
  unfolding markSkipped_def
  by (auto intro!: update_identity update_queue_ok simp: event_identity_def webhook_events_check_def)

lemma requeue_ok:
  "map event_identity (snd (requeue i now t)) = map event_identity t"
  "queue_ok t \<Longrightarrow> queue_ok (snd (requeue i now t))"
  unfolding requeue_def Let_def snd_conv
  by (auto intro!: update_identity update_queue_ok simp: event_identity_def webhook_events_check_def)

lemma failed_write_ok:
  "map event_identity (snd (failed_write policy i m now n t)) = map event_identity t"
  "queue_ok t \<Longrightarrow> queue_ok (snd (failed_write policy i m now n t))"
  unfolding failed_write_def Let_def snd_conv
  by (auto intro!: update_identity update_queue_ok release_check)

lemma do_write_ok:
  "map event_identity (do_write policy w t) = map event_identity t"
  "queue_ok t \<Longrightarrow> queue_ok (do_write policy w t)"
  by (cases w; simp add: failed_write_ok reap_write_ok)+

lemma enqueue_cases:
  assumes "enqueue stores e t = Inr (d, t')"
  obtains (duplicate) "d" and "t' = t" and "(nw_storeId e, nw_platformEventId e) \<in> event_key ` set t"
  | (stored) received where "\<not> d" and "t' = t @ [new_row e received]" and "toDateFromInstant (nw_receivedAt e) = Some received"
      and "(nw_storeId e, nw_platformEventId e) \<notin> event_key ` set t" and "nw_id e \<notin> we_id ` set t"
      and "nw_storeId e \<in> stores"
  using assms by (auto simp: enqueue_def split: option.splits if_splits)

lemma toDateFromInstant_Some: "toDateFromInstant i = Some n \<Longrightarrow> isInstant i"
  using epochMillis_error [of i] by (cases "isInstant i") (auto simp: toDateFromInstant_def)

lemma enqueue_ok:
  assumes "enqueue stores e t = Inr (d, t')" and "queue_ok t" and "[] \<notin> stores"
  shows "queue_ok t'"
  using assms(1)
proof (cases rule: enqueue_cases)
  case duplicate
  then show ?thesis using assms(2) by simp
next
  case (stored received)
  have "readable (new_row e received)"
    using stored assms(3) toDateFromInstant_Some [of "nw_receivedAt e"] by (auto simp: readable_def new_row_def)
  moreover have "webhook_events_check (new_row e received)" by (simp add: webhook_events_check_def new_row_def)
  moreover have "we_id (new_row e received) = nw_id e" "event_key (new_row e received) = (nw_storeId e, nw_platformEventId e)"
    by (simp_all add: new_row_def event_key_def)
  ultimately show ?thesis using stored assms(2) by (auto simp: queue_ok_def)
qed

section \<open>What a claim takes\<close>

lemma event_record_readable:
  assumes "readable r"
  obtains w where "event_record r = Inr w" and "wr_id w = we_id r" and "wr_attempts w = we_attempts r"
    and "wr_rawPayload w = we_rawPayload r"
proof -
  obtain i where i: "isInstant i" "toDateFromInstant i = Some (we_receivedAt r)"
    using assms by (auto simp: readable_def)
  then have "toInstantFromDate (we_receivedAt r) = Inr i"
    using instant_date_roundtrip [OF i(1)] by (metis option.inject)
  then show thesis using that assms by (auto simp: event_record_def toIdFromColumn_def idFromString_def readable_def)
qed

definition claimed_ids :: "string set \<Rightarrow> int \<Rightarrow> int \<Rightarrow> 'p webhook_event list \<Rightarrow> string list" where
  "claimed_ids locked limit now t = map we_id (due_rows locked (nat limit) now t)"

lemma claim_table:
  assumes "queue_ok t"
  obtains rs where "claim locked limit now t = Inr (rs, update_where (\<lambda>r. we_id r \<in> set (claimed_ids locked limit now t)) (take_row now) t)"
    and "map wr_id rs = map we_id (filter (\<lambda>r. we_id r \<in> set (claimed_ids locked limit now t)) t)"
proof -
  let ?ids = "claimed_ids locked limit now t"
  let ?u = "update_where (\<lambda>r. we_id r \<in> set ?ids) (take_row now) t"
  let ?f = "filter (\<lambda>r. we_id r \<in> set ?ids) ?u"
  show thesis
  proof (cases "limit \<le> 0 \<or> ?ids = []")
    case True
    then have none: "?ids = []" by (auto simp: claimed_ids_def due_rows_def)
    then have "claim locked limit now t = Inr ([], ?u)"
      by (auto simp: claim_def claimed_ids_def update_where_def)
    then show thesis using that none by simp
  next
    case False
    have keep: "map we_id ?f = map we_id (filter (\<lambda>r. we_id r \<in> set ?ids) t)"
      by (rule update_where_filter_keys) (simp add: take_row_def)
    have "readable r" if "r \<in> set ?f" for r
      using that assms by (auto simp: in_update_where queue_ok_def split: if_splits) (metis event_identityD(5) take_row_identity)
    then have "\<exists>w. event_record r = Inr w \<and> wr_id w = we_id r" if "r \<in> set ?f" for r
      using that event_record_readable by metis
    then obtain g where g: "\<And>r. r \<in> set ?f \<Longrightarrow> event_record r = Inr (g r) \<and> wr_id (g r) = we_id r" by metis
    then have rs: "mapE event_record ?f = Inr (map g ?f)" by (intro mapE_all_Inr) simp
    then have "claim locked limit now t = Inr (map g ?f, ?u)"
      using False by (auto simp: claim_def claimed_ids_def Let_def)
    moreover have "map wr_id (map g ?f) = map we_id ?f" using g by simp
    ultimately show thesis using that keep by metis
  qed
qed

lemma claim_ok:
  assumes "claim locked limit now t = Inr (rs, t')" and "queue_ok t"
  shows "queue_ok t'" and "map event_identity t' = map event_identity t"
proof -
  have t': "t' = update_where (\<lambda>r. we_id r \<in> set (claimed_ids locked limit now t)) (take_row now) t"
    by (rule claim_table [OF assms(2), of locked limit now]) (use assms(1) in simp)
  show "queue_ok t'" unfolding t' by (rule update_queue_ok) (use assms(2) in \<open>simp_all add: take_row_check\<close>)
  show "map event_identity t' = map event_identity t" unfolding t' by (rule update_identity) simp
qed

lemma sort_prefix_le:
  assumes "x \<in> set (take n (sort_key f xs))" and "y \<in> set xs" and "y \<notin> set (take n (sort_key f xs))"
  shows "f x \<le> f y"
proof -
  have "y \<in> set (drop n (sort_key f xs))"
    using assms(2,3) by (metis append_take_drop_id in_set_conv_decomp set_append set_sort UnE)
  moreover have "sorted (map f (take n (sort_key f xs) @ drop n (sort_key f xs)))" by simp
  ultimately show ?thesis using assms(1) unfolding map_append sorted_append by auto
qed

lemma due_rows_ids:
  assumes "distinct (map we_id t)"
  shows "distinct (claimed_ids locked limit now t)"
    and "length (claimed_ids locked limit now t) = min (nat limit) (length (filter (claimable locked now) t))"
    and "r \<in> set t \<Longrightarrow> we_id r \<in> set (claimed_ids locked limit now t) \<longleftrightarrow> r \<in> set (due_rows locked (nat limit) now t)"
proof -
  let ?d = "sort_key due_order (filter (claimable locked now) t)"
  have "distinct (map we_id (filter (claimable locked now) t))" using assms by (rule distinct_map_filter)
  then have "distinct (map we_id ?d)" by (metis distinct_map distinct_sort set_sort)
  then show "distinct (claimed_ids locked limit now t)"
    by (simp add: claimed_ids_def due_rows_def take_map [symmetric])
  show "length (claimed_ids locked limit now t) = min (nat limit) (length (filter (claimable locked now) t))"
    by (simp add: claimed_ids_def due_rows_def min.commute)
  have sub: "set (due_rows locked (nat limit) now t) \<subseteq> set t"
    by (auto simp: due_rows_def dest!: in_set_takeD)
  show "r \<in> set t \<Longrightarrow> we_id r \<in> set (claimed_ids locked limit now t) \<longleftrightarrow> r \<in> set (due_rows locked (nat limit) now t)"
    using assms sub by (auto simp: claimed_ids_def distinct_map dest: inj_onD)
qed

lemma due_rows_claimable: "r \<in> set (due_rows locked n now t) \<Longrightarrow> r \<in> set t \<and> claimable locked now r"
  by (auto simp: due_rows_def dest!: in_set_takeD)

lemma claim_takes:
  assumes "queue_ok t" and c: "claim locked limit now t = Inr (rs, t')"
  shows "distinct (map wr_id rs)"
    and "length rs = min (nat limit) (length (filter (claimable locked now) t))"
    and "r \<in> set t \<Longrightarrow> we_id r \<in> set (map wr_id rs) \<Longrightarrow> claimable locked now r \<and> take_row now r \<in> set t'"
    and "r \<in> set t \<Longrightarrow> we_id r \<notin> set (map wr_id rs) \<Longrightarrow> r \<in> set t'"
    and "r \<in> set t \<Longrightarrow> q \<in> set t \<Longrightarrow> we_id r \<in> set (map wr_id rs) \<Longrightarrow> we_id q \<notin> set (map wr_id rs)
       \<Longrightarrow> claimable locked now q \<Longrightarrow> due_order r \<le> due_order q"
    and "set (map wr_id rs) \<subseteq> set (map we_id t)"
    and "row_with we_id i t' = map_option (\<lambda>r. if i \<in> set (map wr_id rs) then take_row now r else r) (row_with we_id i t)"
proof -
  let ?ids = "claimed_ids locked limit now t"
  have d: "distinct (map we_id t)" using assms(1) by (simp add: queue_ok_def)
  note D = due_rows_ids [OF d, where locked = locked and limit = limit and now = now]
  have t': "t' = update_where (\<lambda>r. we_id r \<in> set ?ids) (take_row now) t"
    and w: "map wr_id rs = map we_id (filter (\<lambda>r. we_id r \<in> set ?ids) t)"
    by (rule claim_table [OF assms(1), of locked limit now]; use c in simp)+
  have sub: "set ?ids \<subseteq> we_id ` set t"
    unfolding claimed_ids_def using due_rows_claimable by fastforce
  then have ids: "set (map wr_id rs) = set ?ids" unfolding w by auto
  show dist: "distinct (map wr_id rs)" unfolding w using d by (rule distinct_map_filter)
  show "set (map wr_id rs) \<subseteq> set (map we_id t)" using ids sub by simp
  have "length rs = card (set ?ids)" using dist ids by (metis distinct_card length_map)
  then show "length rs = min (nat limit) (length (filter (claimable locked now) t))"
    using D(1,2) by (simp add: distinct_card)
  show "claimable locked now r \<and> take_row now r \<in> set t'" if "r \<in> set t" "we_id r \<in> set (map wr_id rs)"
    using that due_rows_claimable D(3) [OF that(1)] unfolding ids t' in_update_where by metis
  show "r \<in> set t'" if "r \<in> set t" "we_id r \<notin> set (map wr_id rs)"
    using that unfolding ids t' in_update_where by metis
  show "due_order r \<le> due_order q" if "r \<in> set t" "q \<in> set t" "we_id r \<in> set (map wr_id rs)"
    "we_id q \<notin> set (map wr_id rs)" "claimable locked now q"
    using that(3-5) D(3) [OF that(1)] D(3) [OF that(2)] that(2)
      sort_prefix_le [of r "nat limit" due_order "filter (claimable locked now) t" q]
    unfolding ids due_rows_def by simp
  show "row_with we_id i t' = map_option (\<lambda>r. if i \<in> set (map wr_id rs) then take_row now r else r) (row_with we_id i t)"
    unfolding t' ids
    by (subst row_with_update) (auto simp: take_row_def dest: row_with_Some intro!: option.map_cong)
qed

section \<open>Every reachable state\<close>

lemma step_ok:
  assumes "queue_step stores policy s s'" and "[] \<notin> stores" and "queue_ok (qs_rows s)"
  shows "queue_ok (qs_rows s') \<and> prefix (map event_identity (qs_rows s)) (map event_identity (qs_rows s'))"
  using assms(1,3)
proof (induction rule: queue_step.induct)
  case (step_enqueue e s d t)
  have "prefix (map event_identity (qs_rows s)) (map event_identity t)"
    using step_enqueue(1) by (cases rule: enqueue_cases) simp_all
  then show ?case using enqueue_ok [OF step_enqueue(1,2) assms(2)] by simp
next
  case (step_claim locked limit now s rs t)
  then show ?case using claim_ok [OF step_claim(1,2)] by simp
next
  case (step_processed s i now)
  then show ?case by (simp add: markProcessed_ok)
next
  case (step_skipped s i reason now)
  then show ?case by (simp add: markSkipped_ok)
next
  case (step_write w s)
  then show ?case by (simp add: do_write_ok)
next
  case (step_requeue s i now)
  then show ?case by (simp add: requeue_ok)
qed simp_all

lemma run_ok:
  assumes "queue_run stores policy s s'" and "[] \<notin> stores" and "queue_ok (qs_rows s)"
  shows "queue_ok (qs_rows s') \<and> prefix (map event_identity (qs_rows s)) (map event_identity (qs_rows s'))"
  using assms
proof (induction rule: queue_run.induct)
  case (run_refl s)
  then show ?case by simp
next
  case (run_step s u v)
  then have u: "queue_ok (qs_rows u)" "prefix (map event_identity (qs_rows s)) (map event_identity (qs_rows u))"
    by simp_all
  note v = step_ok [OF run_step.hyps(2) run_step.prems(1) u(1)]
  show ?case using prefix_order.trans [OF u(2)] v by blast
qed

lemma empty_queue_ok: "queue_ok (qs_rows empty_queue)"
  by (simp add: queue_ok_def empty_queue_def)

section \<open>Stale rows\<close>

definition reaped :: "retry_policy \<Rightarrow> int \<Rightarrow> int \<Rightarrow> 'p webhook_event \<Rightarrow> 'p webhook_event" where
  "reaped policy staleAfterMs now r =
     (if \<not> is_stale staleAfterMs now r then r
      else if we_attempts r \<ge> rp_maxAttempts policy
      then release_row True now now ''abandoned by a worker after exhausting its attempts'' r
      else release_row False now (now + backoffMs (we_attempts r) policy) ''reclaimed after a worker stopped reporting'' r)"

lemma release_id [simp]: "we_id (release_row b now u m r) = we_id r"
  by (simp add: release_row_def)

lemma reclaim_fold:
  "distinct (map fst xs) \<Longrightarrow> foldl (reclaim_step policy now) t xs =
     map (\<lambda>r. case map_of xs (we_id r) of None \<Rightarrow> r
       | Some n \<Rightarrow> release_row False now (now + backoffMs n policy) ''reclaimed after a worker stopped reporting'' r) t"
proof (induction xs arbitrary: t)
  case Nil
  then show ?case by simp
next
  case (Cons x xs)
  have "map_of xs (fst x) = None" using Cons.prems by (simp add: map_of_eq_None_iff)
  then show ?case
    using Cons by (cases x) (auto simp: reclaim_step_def update_where_def)
qed

lemma reapStale_rows:
  assumes "distinct (map we_id t)"
  shows "snd (reapStale policy staleAfterMs now t) = map (reaped policy staleAfterMs now) t"
proof -
  let ?s = "stale_read staleAfterMs now t"
  let ?retry = "filter (\<lambda>s. snd s < rp_maxAttempts policy) ?s"
  have ids: "distinct (map fst ?s)"
    using distinct_map_filter [OF assms] by (simp add: stale_read_def comp_def)
  then have dr: "distinct (map fst ?retry)" by (rule distinct_map_filter)
  have of_stale: "(we_id r, n) \<in> set ?s \<longleftrightarrow> is_stale staleAfterMs now r \<and> n = we_attempts r" if "r \<in> set t" for r n
    using that assms by (auto simp: stale_read_def distinct_map dest: inj_onD)
  have retry: "map_of ?retry (we_id r) =
      (if is_stale staleAfterMs now r \<and> we_attempts r < rp_maxAttempts policy then Some (we_attempts r) else None)"
    if r: "r \<in> set t" for r
  proof (cases "is_stale staleAfterMs now r \<and> we_attempts r < rp_maxAttempts policy")
    case True
    then have "(we_id r, we_attempts r) \<in> set ?retry" using of_stale [OF r] by simp
    then show ?thesis using dr True by simp
  next
    case False
    have "(we_id r, n) \<notin> set ?retry" for n using False of_stale [OF r, of n] by auto
    then show ?thesis using False by (metis map_of_SomeD not_None_eq)
  qed
  have dead: "we_id r \<in> set (map fst (filter (\<lambda>s. snd s \<ge> rp_maxAttempts policy) ?s))
      \<longleftrightarrow> is_stale staleAfterMs now r \<and> we_attempts r \<ge> rp_maxAttempts policy" if r: "r \<in> set t" for r
    using of_stale [OF r] by (force simp: image_iff)
  show ?thesis
    unfolding reapStale_def reap_write_def Let_def snd_conv reclaim_fold [OF dr]
    using dead retry by (auto simp: update_where_def reaped_def)
qed

section \<open>How often an event is attempted\<close>

text \<open>Operations that run to their end before the next one starts.\<close>

datatype 'p queue_op =
    OpEnqueue "'p new_webhook_event"
  | OpClaim "string set" int int
  | OpProcessed string int
  | OpSkipped string string int
  | OpFailed string string int
  | OpReap int int
  | OpRequeue string int

fun run_op :: "string set \<Rightarrow> retry_policy \<Rightarrow> 'p webhook_event list \<Rightarrow> 'p queue_op \<Rightarrow> 'p webhook_event list" where
  "run_op stores policy t (OpEnqueue e) = (case enqueue stores e t of Inl _ \<Rightarrow> t | Inr (_, t') \<Rightarrow> t')"
| "run_op stores policy t (OpClaim locked limit now) = (case claim locked limit now t of Inl _ \<Rightarrow> t | Inr (_, t') \<Rightarrow> t')"
| "run_op stores policy t (OpProcessed i now) = markProcessed i now t"
| "run_op stores policy t (OpSkipped i reason now) = markSkipped i reason now t"
| "run_op stores policy t (OpFailed i message now) = snd (markFailed policy i message now t)"
| "run_op stores policy t (OpReap staleAfterMs now) = snd (reapStale policy staleAfterMs now t)"
| "run_op stores policy t (OpRequeue i now) = snd (requeue i now t)"

definition attempts_bounded :: "retry_policy \<Rightarrow> 'p webhook_event list \<Rightarrow> bool" where
  "attempts_bounded policy t \<longleftrightarrow> (\<forall>r \<in> set t. we_attempts r \<le> rp_maxAttempts policy
     \<and> (we_status r = WS_pending \<longrightarrow> we_attempts r < rp_maxAttempts policy))"

lemma attempts_update:
  assumes "attempts_bounded policy t"
    and "\<And>r. r \<in> set t \<Longrightarrow> P r \<Longrightarrow> we_attempts r \<le> rp_maxAttempts policy \<Longrightarrow> we_attempts (f r) \<le> rp_maxAttempts policy
       \<and> (we_status (f r) = WS_pending \<longrightarrow> we_attempts (f r) < rp_maxAttempts policy)"
  shows "attempts_bounded policy (update_where P f t)"
  using assms by (auto simp: attempts_bounded_def in_update_where)

lemma markFailed_row:
  assumes "distinct (map we_id t)" and "r \<in> set t"
  shows "markFailed policy (we_id r) m now t = failed_write policy (we_id r) m now (we_attempts r) t"
  using row_with_distinct [OF assms] by (simp add: markFailed_def failed_read_def)

lemma markFailed_cases:
  assumes "distinct (map we_id t)"
  obtains (absent) "i \<notin> we_id ` set t" and "markFailed policy i m now t = (DeadLettered, t)"
  | (present) r where "r \<in> set t" and "we_id r = i" and "markFailed policy i m now t = failed_write policy i m now (we_attempts r) t"
proof (cases "i \<in> we_id ` set t")
  case True
  then show ?thesis using present markFailed_row [OF assms] by blast
next
  case False
  then have "row_with we_id i t = None" by (simp add: row_with_None)
  then show ?thesis using absent False by (simp add: markFailed_def failed_read_def)
qed

lemma run_op_bounded:
  assumes "queue_ok t" and "attempts_bounded policy t" and "1 \<le> rp_maxAttempts policy"
  shows "attempts_bounded policy (run_op stores policy t op)"
proof (cases op)
  case (OpEnqueue e)
  show ?thesis
  proof (cases "enqueue stores e t")
    case (Inr x)
    obtain d t' where x: "x = (d, t')" by (cases x)
    have "attempts_bounded policy t'"
      using Inr [unfolded x] assms by (cases rule: enqueue_cases) (auto simp: attempts_bounded_def new_row_def)
    then show ?thesis using Inr x OpEnqueue by simp
  qed (use assms OpEnqueue in simp)
next
  case (OpClaim locked limit now)
  obtain rs where c: "claim locked limit now t = Inr (rs, update_where (\<lambda>r. we_id r \<in> set (claimed_ids locked limit now t)) (take_row now) t)"
    by (rule claim_table [OF assms(1)]) blast
  have d: "distinct (map we_id t)" using assms(1) by (simp add: queue_ok_def)
  have "we_attempts r < rp_maxAttempts policy" if "r \<in> set t" "we_id r \<in> set (claimed_ids locked limit now t)" for r
    using that assms(2) due_rows_ids(3) [OF d that(1)] due_rows_claimable [of r locked "nat limit" now t]
    by (simp add: attempts_bounded_def claimable_def)
  then have "attempts_bounded policy (update_where (\<lambda>r. we_id r \<in> set (claimed_ids locked limit now t)) (take_row now) t)"
    by (intro attempts_update [OF assms(2)]) (auto simp: take_row_def less_le_not_le intro: zless_imp_add1_zle)
  then show ?thesis using OpClaim c by simp
next
  case (OpFailed i m now)
  have d: "distinct (map we_id t)" using assms(1) by (simp add: queue_ok_def)
  from d show ?thesis
  proof (cases rule: markFailed_cases [of t i policy m now])
    case absent
    then show ?thesis using OpFailed assms(2) by simp
  next
    case (present r)
    have "x = r" if "x \<in> set t" "we_id x = i" for x
      using that present(1,2) d by (auto simp: distinct_map dest: inj_onD)
    then have "attempts_bounded policy (snd (failed_write policy i m now (we_attempts r) t))"
      unfolding failed_write_def Let_def snd_conv
      by (intro attempts_update [OF assms(2)]) (auto simp: release_row_def)
    then show ?thesis using OpFailed present(3) by simp
  qed
next
  case (OpReap sa now)
  have d: "distinct (map we_id t)" using assms(1) by (simp add: queue_ok_def)
  show ?thesis
    using assms(2) OpReap
    by (auto simp: reapStale_rows [OF d] attempts_bounded_def reaped_def release_row_def)
qed (use assms(2,3) in \<open>auto simp: markProcessed_def markSkipped_def requeue_def Let_def intro!: attempts_update\<close>)

lemma run_op_ok:
  assumes "queue_ok t" and "[] \<notin> stores"
  shows "queue_ok (run_op stores policy t op)"
proof (cases op)
  case (OpEnqueue e)
  then show ?thesis using assms enqueue_ok [of stores e t] by (auto split: sum.splits)
next
  case (OpClaim locked limit now)
  then show ?thesis using assms claim_ok [of locked limit now t] by (auto split: sum.splits)
next
  case (OpFailed i m now)
  have d: "distinct (map we_id t)" using assms(1) by (simp add: queue_ok_def)
  from d show ?thesis
    by (cases rule: markFailed_cases [of t i policy m now]) (use assms(1) OpFailed failed_write_ok(2) in simp_all)
qed (use assms(1) in \<open>simp_all add: markProcessed_ok markSkipped_ok requeue_ok reapStale_def Let_def reap_write_ok\<close>)

definition run_ops :: "string set \<Rightarrow> retry_policy \<Rightarrow> 'p webhook_event list \<Rightarrow> 'p queue_op list \<Rightarrow> 'p webhook_event list" where
  "run_ops stores policy t ops = foldl (run_op stores policy) t ops"

lemma run_ops_bounded:
  assumes "queue_ok t" and "attempts_bounded policy t" and "1 \<le> rp_maxAttempts policy" and "[] \<notin> stores"
  shows "queue_ok (run_ops stores policy t ops) \<and> attempts_bounded policy (run_ops stores policy t ops)"
  using assms(1,2)
  by (induction ops arbitrary: t) (simp_all add: run_ops_def run_op_ok run_op_bounded assms(3,4))

section \<open>Every failing event ends as a dead letter\<close>

text \<open>
  One attempt at an event: it is claimed the moment it is due, together with whatever else is due,
  and then the attempt fails, or the worker dies and the reaper finds the row.
\<close>

datatype attempt_end = Fails string | Crashes

definition next_due :: "string \<Rightarrow> 'p webhook_event list \<Rightarrow> int" where
  "next_due i t = (case row_with we_id i t of None \<Rightarrow> 0 | Some r \<Rightarrow> we_nextAttemptAt r)"

definition attempt_round ::
  "retry_policy \<Rightarrow> int \<Rightarrow> string \<Rightarrow> 'p webhook_event list \<Rightarrow> attempt_end \<Rightarrow> 'p webhook_event list" where
  "attempt_round policy staleAfterMs i t fate =
     (let now = next_due i t
      in case claim {} (int (length t)) now t of
           Inl _ \<Rightarrow> t
         | Inr (_, u) \<Rightarrow> (case fate of
             Fails m \<Rightarrow> snd (markFailed policy i m now u)
           | Crashes \<Rightarrow> snd (reapStale policy staleAfterMs (now + staleAfterMs + 1) u)))"

lemma row_with_map:
  "(\<And>r. we_id (f r) = we_id r) \<Longrightarrow> row_with we_id i (map f t) = map_option f (row_with we_id i t)"
  by (induction t) (auto simp: row_with_def)

lemma claim_when_due:
  assumes "queue_ok t" and r: "row_with we_id i t = Some r" and "we_status r = WS_pending"
  obtains rs u where "claim {} (int (length t)) (next_due i t) t = Inr (rs, u)" and "queue_ok u"
    and "row_with we_id i u = Some (take_row (we_nextAttemptAt r) r)"
proof -
  let ?now = "next_due i t"
  have now: "?now = we_nextAttemptAt r" by (simp add: next_due_def r)
  have rt: "r \<in> set t" "we_id r = i" using row_with_Some [OF r] by simp_all
  obtain rs u where c: "claim {} (int (length t)) ?now t = Inr (rs, u)"
    by (rule claim_table [OF assms(1), of "{}" "int (length t)" ?now]) blast
  have d: "distinct (map we_id t)" using assms(1) by (simp add: queue_ok_def)
  have "claimable {} ?now r" using assms(3) by (simp add: claimable_def now)
  then have "r \<in> set (due_rows {} (length t) ?now t)"
    using rt(1) by (simp add: due_rows_def)
  then have "i \<in> set (claimed_ids {} (int (length t)) ?now t)"
    using rt(2) by (auto simp: claimed_ids_def)
  moreover have "map wr_id rs = map we_id (filter (\<lambda>r. we_id r \<in> set (claimed_ids {} (int (length t)) ?now t)) t)"
    by (rule claim_table [OF assms(1), of "{}" "int (length t)" ?now]) (use c in simp)
  ultimately have "i \<in> set (map wr_id rs)" using rt by auto
  then have "row_with we_id i u = Some (take_row (we_nextAttemptAt r) r)"
    using claim_takes(7) [OF assms(1) c, of i] r now by simp
  then show thesis using that c claim_ok(1) [OF c assms(1)] by blast
qed

lemma attempt_round_row:
  assumes "queue_ok t" and r: "row_with we_id i t = Some r" and "we_status r = WS_pending" and "0 \<le> staleAfterMs"
  obtains q where "row_with we_id i (attempt_round policy staleAfterMs i t fate) = Some q"
    and "we_attempts q = we_attempts r + 1"
    and "we_status q = (if rp_maxAttempts policy \<le> we_attempts r + 1 then WS_failed else WS_pending)"
    and "fate = Fails m \<Longrightarrow> we_attempts r + 1 < rp_maxAttempts policy \<Longrightarrow>
       we_nextAttemptAt q = we_nextAttemptAt r + backoffMs (we_attempts r + 1) policy"
    and "queue_ok (attempt_round policy staleAfterMs i t fate)"
proof -
  obtain rs u where c: "claim {} (int (length t)) (next_due i t) t = Inr (rs, u)" and u: "queue_ok u"
    and ru: "row_with we_id i u = Some (take_row (we_nextAttemptAt r) r)"
    by (rule claim_when_due [OF assms(1-3)])
  have d: "distinct (map we_id u)" using u by (simp add: queue_ok_def)
  have now: "next_due i t = we_nextAttemptAt r" by (simp add: next_due_def r)
  let ?r = "take_row (we_nextAttemptAt r) r"
  have id: "we_id ?r = i" "?r \<in> set u" using row_with_Some [OF ru] by simp_all
  have round: "attempt_round policy staleAfterMs i t fate = (case fate of
       Fails m \<Rightarrow> snd (markFailed policy i m (next_due i t) u)
     | Crashes \<Rightarrow> snd (reapStale policy staleAfterMs (next_due i t + staleAfterMs + 1) u))"
    by (simp add: attempt_round_def c Let_def)
  have ok: "queue_ok (attempt_round policy staleAfterMs i t fate)"
    using run_op_ok [OF u, of "{}" policy "case fate of Fails m \<Rightarrow> OpFailed i m (next_due i t)
      | Crashes \<Rightarrow> OpReap staleAfterMs (next_due i t + staleAfterMs + 1)"]
    by (simp add: round split: attempt_end.splits)
  show thesis
  proof (cases fate)
    case (Fails m')
    have "row_with we_id i (attempt_round policy staleAfterMs i t fate) =
        Some (release_row (rp_maxAttempts policy \<le> we_attempts ?r) (next_due i t)
          (next_due i t + backoffMs (we_attempts ?r) policy) m' ?r)"
      unfolding Fails round [unfolded Fails attempt_end.case] markFailed_row [OF d id(2), unfolded id(1)]
      by (simp add: failed_write_def Let_def row_with_update [where key = we_id] ru id(1))
    then show thesis by (rule that) (use ok in \<open>simp_all add: release_row_def take_row_def now\<close>)
  next
    case Crashes
    have stale: "is_stale staleAfterMs (next_due i t + staleAfterMs + 1) ?r"
      by (simp add: is_stale_def take_row_def now)
    have reaped_id: "we_id (reaped policy s n x) = we_id x" for s n x by (simp add: reaped_def)
    have "row_with we_id i (attempt_round policy staleAfterMs i t fate) =
        Some (reaped policy staleAfterMs (next_due i t + staleAfterMs + 1) ?r)"
      unfolding Crashes round [unfolded Crashes attempt_end.case] reapStale_rows [OF d]
      by (simp add: row_with_map [of "reaped policy _ _"] reaped_id ru)
    then show thesis
      by (rule that) (use ok stale in \<open>simp_all add: reaped_def release_row_def take_row_def Crashes\<close>)
  qed
qed

lemma attempts_end_in_dead_letter:
  assumes "queue_ok t" and "row_with we_id i t = Some r" and "we_status r = WS_pending" and "0 \<le> staleAfterMs"
    and "we_attempts r + int (length fates) \<le> rp_maxAttempts policy" and "fates \<noteq> []"
  obtains q where "row_with we_id i (foldl (attempt_round policy staleAfterMs i) t fates) = Some q"
    and "we_attempts q = we_attempts r + int (length fates)"
    and "we_status q = (if we_attempts r + int (length fates) = rp_maxAttempts policy then WS_failed else WS_pending)"
  using assms
proof (induction fates arbitrary: t r thesis)
  case Nil
  then show ?case by simp
next
  case (Cons fate fates)
  obtain q where q: "row_with we_id i (attempt_round policy staleAfterMs i t fate) = Some q"
    "we_attempts q = we_attempts r + 1"
    "we_status q = (if rp_maxAttempts policy \<le> we_attempts r + 1 then WS_failed else WS_pending)"
    "queue_ok (attempt_round policy staleAfterMs i t fate)"
    by (rule attempt_round_row [OF Cons.prems(2-5), of policy fate]) blast
  show ?case
  proof (cases "fates = []")
    case True
    then show ?thesis using q Cons.prems(1,6) by auto
  next
    case False
    then have pending: "we_status q = WS_pending" using q(3) Cons.prems(6) by (cases fates) auto
    have "we_attempts q + int (length fates) \<le> rp_maxAttempts policy" using q(2) Cons.prems(6) by simp
    from Cons.IH [OF _ q(4) q(1) pending Cons.prems(5) this False] obtain p where
      "row_with we_id i (foldl (attempt_round policy staleAfterMs i) (attempt_round policy staleAfterMs i t fate) fates) = Some p"
      "we_attempts p = we_attempts q + int (length fates)"
      "we_status p = (if we_attempts q + int (length fates) = rp_maxAttempts policy then WS_failed else WS_pending)"
      by blast
    then show ?thesis using Cons.prems(1) [of p] q(2) by (simp add: add.assoc add.commute)
  qed
qed

section \<open>The delays\<close>

lemma backoff_bounds:
  assumes "0 \<le> rp_baseDelayMs policy" and "rp_baseDelayMs policy \<le> rp_maxDelayMs policy"
  shows "rp_baseDelayMs policy \<le> backoffMs n policy" and "backoffMs n policy \<le> rp_maxDelayMs policy"
proof -
  have "rp_baseDelayMs policy * 1 \<le> rp_baseDelayMs policy * 2 ^ nat (min (max 0 (n - 1)) 40)"
    using assms(1) by (intro mult_left_mono) auto
  then show "rp_baseDelayMs policy \<le> backoffMs n policy" and "backoffMs n policy \<le> rp_maxDelayMs policy"
    using assms(2) by (simp_all add: backoffMs_def Let_def)
qed

lemma backoff_mono:
  assumes "0 \<le> rp_baseDelayMs policy" and "m \<le> n"
  shows "backoffMs m policy \<le> backoffMs n policy"
proof -
  have "(2::int) ^ nat (min (max 0 (m - 1)) 40) \<le> 2 ^ nat (min (max 0 (n - 1)) 40)"
    using assms(2) by (intro power_increasing nat_mono) auto
  then show ?thesis
    using assms(1) unfolding backoffMs_def Let_def by (intro min.mono mult_left_mono) simp_all
qed

end
