(* ===== verification/CostHistory.thy ===== *)
theory CostHistory
  imports Columns Tables
begin

text \<open>
  Cost history: \<open>packages/persistence/src/repositories/cost-history.repository.ts\<close> over the table
  \<open>cost_history\<close> of \<open>packages/persistence/src/db/schema.ts\<close>. A row is in force in a half-open window;
  \<open>record\<close> closes the open window of a product key and opens the next one, and \<open>resolveAsOf\<close> finds
  the row in force at a moment.

  The abstract specification is a list of entries per product key, in which the cost at a moment is
  that of the last entry that started by then. The results are that the table refines it, and that
  recording a cost changes no answer about an earlier moment.
\<close>

section \<open>The table\<close>

record cost_row =
  ch_id :: string
  ch_storeId :: string
  ch_platformProductId :: string
  ch_platformVariantId :: "string option"
  ch_sku :: "string option"
  ch_unitCost :: string
  ch_source :: string
  ch_effectiveFrom :: int
  ch_effectiveTo :: "int option"
  ch_supersedesId :: "string option"
  ch_note :: "string option"

record product_key_ref =
  pk_platformProductId :: string
  pk_platformVariantId :: "string option"
  pk_sku :: "string option"

record cost_entry =
  cn_id :: string
  cn_storeId :: string
  cn_platformProductId :: string
  cn_platformVariantId :: "string option"
  cn_sku :: "string option"
  cn_unitCostMinor :: int
  cn_source :: cost_source
  cn_effectiveFrom :: int
  cn_note :: "string option"

definition window_ordered :: "cost_row \<Rightarrow> bool" where
  "window_ordered r = (case ch_effectiveTo r of None \<Rightarrow> True | Some e \<Rightarrow> ch_effectiveFrom r < e)"

definition cost_positive :: "string \<Rightarrow> bool" where
  "cost_positive s = (case numericToMinor s of Inl _ \<Rightarrow> False | Inr m \<Rightarrow> 0 \<le> m)"

section \<open>The as-of query\<close>

definition product_key :: "string \<Rightarrow> string option \<Rightarrow> string" where
  "product_key p v = p @ ''|'' @ (case v of None \<Rightarrow> [] | Some x \<Rightarrow> x)"

definition in_force :: "int \<Rightarrow> cost_row \<Rightarrow> bool" where
  "in_force asOf r \<longleftrightarrow>
     ch_effectiveFrom r \<le> asOf \<and> (case ch_effectiveTo r of None \<Rightarrow> True | Some e \<Rightarrow> asOf < e)"

definition as_of_rows :: "string \<Rightarrow> int \<Rightarrow> cost_row list \<Rightarrow> cost_row list" where
  "as_of_rows store asOf t =
     sort_key (\<lambda>r. - ch_effectiveFrom r) (filter (\<lambda>r. ch_storeId r = store \<and> in_force asOf r) t)"

type_synonym as_of_index = "(string \<Rightarrow> cost_row option) \<times> (string \<Rightarrow> cost_row option)"

definition index_step :: "as_of_index \<Rightarrow> cost_row \<Rightarrow> as_of_index" where
  "index_step ix r =
     (let k = product_key (ch_platformProductId r) (ch_platformVariantId r)
      in (if fst ix k = None then (fst ix)(k \<mapsto> r) else fst ix,
          case ch_sku r of
            None \<Rightarrow> snd ix
          | Some s \<Rightarrow> if s \<noteq> [] \<and> snd ix s = None then (snd ix)(s \<mapsto> r) else snd ix))"

definition as_of_index_of :: "cost_row list \<Rightarrow> as_of_index" where
  "as_of_index_of rows = foldl index_step (Map.empty, Map.empty) rows"

definition matching_row :: "as_of_index \<Rightarrow> product_key_ref \<Rightarrow> cost_row option" where
  "matching_row ix w =
     (case fst ix (product_key (pk_platformProductId w) (pk_platformVariantId w)) of
        Some r \<Rightarrow> Some r
      | None \<Rightarrow> (case fst ix (pk_platformProductId w @ ''|'') of
          Some r \<Rightarrow> Some r
        | None \<Rightarrow> (case pk_sku w of None \<Rightarrow> None | Some s \<Rightarrow> snd ix s)))"

definition resolved_from :: "product_key_ref \<Rightarrow> cost_row \<Rightarrow> int resolved_cost outcome" where
  "resolved_from w r =
     bindE (numericToMinor (ch_unitCost r)) (\<lambda>unitCost.
     bindE (toEnumFromColumn (ch_source r) COST_SOURCES) (\<lambda>source.
     bindE (toIdFromColumn (ch_id r)) (\<lambda>i. Inr \<lparr>
       cost_platformProductId = pk_platformProductId w, cost_platformVariantId = pk_platformVariantId w,
       cost_sku = pk_sku w, cost_unitCostMinor = unitCost, cost_source = source, cost_costHistoryId = i \<rparr>)))"

fun resolve_keys :: "as_of_index \<Rightarrow> product_key_ref list \<Rightarrow> int resolved_cost list outcome" where
  "resolve_keys ix [] = Inr []"
| "resolve_keys ix (w # ws) =
     (case matching_row ix w of
        None \<Rightarrow> resolve_keys ix ws
      | Some r \<Rightarrow> bindE (resolved_from w r) (\<lambda>c. bindE (resolve_keys ix ws) (\<lambda>cs. Inr (c # cs))))"

definition resolveAsOf ::
  "string \<Rightarrow> product_key_ref list \<Rightarrow> int \<Rightarrow> cost_row list \<Rightarrow> int resolved_cost list outcome" where
  "resolveAsOf store keys asOf t =
     (if keys = [] then Inr [] else resolve_keys (as_of_index_of (as_of_rows store asOf t)) keys)"

section \<open>Recording a cost\<close>

definition chain_key :: "cost_row \<Rightarrow> string \<times> string \<times> string option" where
  "chain_key r = (ch_storeId r, ch_platformProductId r, ch_platformVariantId r)"

definition entry_key :: "cost_entry \<Rightarrow> string \<times> string \<times> string option" where
  "entry_key e = (cn_storeId e, cn_platformProductId e, cn_platformVariantId e)"

definition is_open :: "cost_entry \<Rightarrow> cost_row \<Rightarrow> bool" where
  "is_open e r \<longleftrightarrow> chain_key r = entry_key e \<and> ch_effectiveTo r = None"

text \<open>
  \<open>String(n / 100)\<close>. A quotient of at most fifteen significant digits is printed as itself, because no
  shorter decimal is read as the same double. For larger \<open>n\<close> the printed number is another one, but
  it is out of range for \<open>numericToMinor\<close> either way.
\<close>

definition cents_string :: "int \<Rightarrow> string" where
  "cents_string n =
     (let a = \<bar>n\<bar>; whole = show_nat (nat (a div 100)); f = a mod 100
      in (if n < 0 then ''-'' else []) @ whole
         @ (if f = 0 then [] else if f mod 10 = 0 then [CHR ''.'', digit_char (f div 10)] else CHR ''.'' # two_digits f))"

definition cost_column :: "int \<Rightarrow> string outcome" where
  "cost_column n = bindE (numericToMinor (cents_string n)) (\<lambda>m. Inr (minorToNumeric m))"

definition entry_row :: "cost_entry \<Rightarrow> string \<Rightarrow> cost_row" where
  "entry_row e unitCost = \<lparr>
     ch_id = cn_id e, ch_storeId = cn_storeId e, ch_platformProductId = cn_platformProductId e,
     ch_platformVariantId = cn_platformVariantId e, ch_sku = cn_sku e, ch_unitCost = unitCost,
     ch_source = literal_of COST_SOURCES (cn_source e), ch_effectiveFrom = cn_effectiveFrom e,
     ch_effectiveTo = None, ch_supersedesId = None, ch_note = cn_note e \<rparr>"

definition close_window :: "cost_entry \<Rightarrow> cost_row \<Rightarrow> cost_row" where
  "close_window e r = r\<lparr> ch_effectiveTo := Some (cn_effectiveFrom e) \<rparr>"

definition record_cost :: "string set \<Rightarrow> cost_entry \<Rightarrow> cost_row list \<Rightarrow> cost_row list outcome" where
  "record_cost stores e t =
     (let backdated = (case find (is_open e) t of
            None \<Rightarrow> Inr ()
          | Some r \<Rightarrow> if ch_effectiveFrom r \<ge> cn_effectiveFrom e
                     then bindE (toInstantFromDate (ch_effectiveFrom r)) (\<lambda>_. Inl BackdatedCorrectionError)
                     else Inr ());
          closed = update_where (is_open e) (close_window e) t
      in bindE backdated (\<lambda>_.
         if \<not> list_all window_ordered closed then Inl (ConstraintViolation ''cost_history_window_ordered'')
         else bindE (cost_column (cn_unitCostMinor e)) (\<lambda>unitCost.
           if cn_id e \<in> ch_id ` set t then Inl (ConstraintViolation ''cost_history_pkey'')
           else if \<not> cost_positive unitCost then Inl (ConstraintViolation ''cost_history_cost_positive'')
           else if cn_storeId e \<notin> stores then Inl (ConstraintViolation ''cost_history_store_id_stores_id_fk'')
           else Inr (closed @ [entry_row e unitCost]))))"

definition countKeysWithCost :: "string \<Rightarrow> cost_row list \<Rightarrow> nat" where
  "countKeysWithCost store t =
     length (remdups (map (\<lambda>r. (ch_platformProductId r, ch_platformVariantId r))
       (filter (\<lambda>r. ch_storeId r = store \<and> ch_effectiveTo r = None) t)))"

section \<open>The cost that is stored\<close>

lemma one_digit [simp]: "digits_val [c] = digit_val c"
  by (simp add: digits_val_Cons)

lemma cents_read: "numericToMinor (cents_string n) = (if in_range n then Inr n else Inl PrecisionError)"
proof -
  define a f where "a = \<bar>n\<bar> div 100" and "f = \<bar>n\<bar> mod 100"
  have n: "a * 100 + f = \<bar>n\<bar>" and f: "0 \<le> f" "f < 100" "0 \<le> a"
    unfolding a_def f_def using div_mult_mod_eq [of "\<bar>n\<bar>" 100] by simp_all
  let ?sign = "if n < 0 then ''-'' else []" and ?w = "show_nat (nat a)"
  have sign: "is_sign ?sign" "(?sign = ''-'') = (n < 0)" by (simp_all add: is_sign_def)
  have w: "?w \<noteq> []" "list_all is_digit ?w" "digits_val ?w = a"
    using show_nat_digits [of "nat a"] show_nat_val [of "nat a"] f(3) by simp_all
  have big: "(MAX_MINOR < \<bar>n\<bar>) = (\<not> in_range n)" by (auto simp: in_range_def abs_if)
  have parts: "cents_string n = ?sign @ ?w @ (if f = 0 then []
      else if f mod 10 = 0 then ''.'' @ [digit_char (f div 10)] else ''.'' @ two_digits f)"
    by (simp add: cents_string_def a_def f_def Let_def)
  have sgn: "(if n < 0 then - \<bar>n\<bar> else \<bar>n\<bar>) = n" by simp
  consider (whole) "f = 0" | (tenth) "f \<noteq> 0" "f mod 10 = 0" | (both) "f mod 10 \<noteq> 0" by fastforce
  then show ?thesis
  proof cases
    case whole
    then show ?thesis
      using decimal_read_whole [OF sign(1) w(1,2), of 2] n big sgn
      by (simp add: numericToMinor_def MONEY_SCALE_def parts w(3) sign(2))
  next
    case tenth
    have d: "list_all is_digit [digit_char (f div 10)]" by simp
    have "\<bar>n\<bar> = digits_val ?w * 10 ^ 2 + digits_val (take 2 [digit_char (f div 10)]) * 10 ^ (2 - length [digit_char (f div 10)])"
      using n f tenth div_mult_mod_eq [of f 10] by (simp add: w(3))
    from decimal_read_exactly [OF sign(1) w(1,2) d _ this] show ?thesis
      using tenth big sgn by (simp add: numericToMinor_def MONEY_SCALE_def parts sign(2))
  next
    case both
    have d: "list_all is_digit (two_digits f)" and len: "length (two_digits f) = 2" by (simp_all add: two_digits_def)
    have "\<bar>n\<bar> = digits_val ?w * 10 ^ 2 + digits_val (take 2 (two_digits f)) * 10 ^ (2 - length (two_digits f))"
      using n two_digits_val [OF f(1,2)] len by (simp add: w(3))
    from decimal_read_exactly [OF sign(1) w(1,2) d _ this] show ?thesis
      using both big sgn len by (auto simp: numericToMinor_def MONEY_SCALE_def parts sign(2))
  qed
qed

lemma cost_column_Inr: "cost_column n = Inr s \<longleftrightarrow> in_range n \<and> s = minorToNumeric n"
  by (auto simp: cost_column_def cents_read)

lemma cost_column_positive: "in_range n \<Longrightarrow> cost_positive (minorToNumeric n) \<longleftrightarrow> 0 \<le> n"
  by (simp add: cost_positive_def minorToNumeric_read)

section \<open>The past does not change\<close>

lemma record_cost_Inr:
  assumes "record_cost stores e t = Inr t'"
  shows "t' = update_where (is_open e) (close_window e) t @ [entry_row e (minorToNumeric (cn_unitCostMinor e))]"
    and "\<And>r. r \<in> set t \<Longrightarrow> is_open e r \<Longrightarrow> ch_effectiveFrom r < cn_effectiveFrom e"
    and "in_range (cn_unitCostMinor e)" and "0 \<le> cn_unitCostMinor e" and "cn_id e \<notin> ch_id ` set t"
    and "cn_storeId e \<in> stores"
proof -
  let ?closed = "update_where (is_open e) (close_window e) t"
  have w: "list_all window_ordered ?closed"
    and u: "bindE (cost_column (cn_unitCostMinor e)) (\<lambda>unitCost.
           if cn_id e \<in> ch_id ` set t then Inl (ConstraintViolation ''cost_history_pkey'')
           else if \<not> cost_positive unitCost then Inl (ConstraintViolation ''cost_history_cost_positive'')
           else if cn_storeId e \<notin> stores then Inl (ConstraintViolation ''cost_history_store_id_stores_id_fk'')
           else Inr (?closed @ [entry_row e unitCost])) = Inr t'"
    using assms by (auto simp: record_cost_def Let_def bindE_eq_Inr split: if_splits)
  from u show "t' = ?closed @ [entry_row e (minorToNumeric (cn_unitCostMinor e))]"
    and "in_range (cn_unitCostMinor e)" and "0 \<le> cn_unitCostMinor e" and "cn_id e \<notin> ch_id ` set t" and "cn_storeId e \<in> stores"
    by (auto simp: bindE_eq_Inr cost_column_Inr cost_column_positive split: if_splits)
  show "ch_effectiveFrom r < cn_effectiveFrom e" if "r \<in> set t" "is_open e r" for r
  proof -
    have "close_window e r \<in> set ?closed" using that by (auto simp: in_update_where)
    then have "window_ordered (close_window e r)" using w by (simp add: list_all_iff)
    then show ?thesis by (simp add: window_ordered_def close_window_def)
  qed
qed

lemma record_cost_total:
  assumes "in_range (cn_unitCostMinor e)" and "0 \<le> cn_unitCostMinor e" and "cn_id e \<notin> ch_id ` set t"
    and "cn_storeId e \<in> stores" and "\<And>r. r \<in> set t \<Longrightarrow> window_ordered r"
    and "\<And>r. r \<in> set t \<Longrightarrow> is_open e r \<Longrightarrow> ch_effectiveFrom r < cn_effectiveFrom e"
  shows "record_cost stores e t
    = Inr (update_where (is_open e) (close_window e) t @ [entry_row e (minorToNumeric (cn_unitCostMinor e))])"
proof -
  have f: "(case find (is_open e) t of None \<Rightarrow> Inr ()
      | Some r \<Rightarrow> if ch_effectiveFrom r \<ge> cn_effectiveFrom e
                 then bindE (toInstantFromDate (ch_effectiveFrom r)) (\<lambda>_. Inl BackdatedCorrectionError)
                 else Inr ()) = Inr ()"
  proof (cases "find (is_open e) t")
    case (Some r)
    then have "r \<in> set t" and "is_open e r" by (auto simp: find_Some_iff)
    then show ?thesis using Some assms(6) by fastforce
  qed simp
  have w: "list_all window_ordered (update_where (is_open e) (close_window e) t)"
    unfolding list_all_iff using assms(5,6) by (auto simp: in_update_where window_ordered_def close_window_def)
  have "cost_column (cn_unitCostMinor e) = Inr (minorToNumeric (cn_unitCostMinor e))"
    using assms(1) by (simp add: cost_column_Inr)
  then show ?thesis using f w assms(1-4) by (simp add: record_cost_def Let_def cost_column_positive)
qed

lemma sort_key_map: "sort_key k (map f xs) = map f (sort_key (k \<circ> f) xs)"
proof -
  have "insort_key k (f x) (map f ys) = map f (insort_key (k \<circ> f) x ys)" for x ys
    by (induction ys) auto
  then show ?thesis by (induction xs) (simp_all add: sort_key_def)
qed

text \<open>Rows that differ only in the end of their window answer a query alike.\<close>

lemma resolved_from_close [simp]: "resolved_from w (close_window e r) = resolved_from w r"
  by (simp add: resolved_from_def close_window_def)

definition closed_by :: "cost_entry \<Rightarrow> cost_row \<Rightarrow> cost_row" where
  "closed_by e r = (if is_open e r then close_window e r else r)"

lemma closed_by_fields [simp]:
  "ch_storeId (closed_by e r) = ch_storeId r" "ch_platformProductId (closed_by e r) = ch_platformProductId r"
  "ch_platformVariantId (closed_by e r) = ch_platformVariantId r" "ch_sku (closed_by e r) = ch_sku r"
  "ch_effectiveFrom (closed_by e r) = ch_effectiveFrom r" "ch_id (closed_by e r) = ch_id r"
  "chain_key (closed_by e r) = chain_key r" "resolved_from w (closed_by e r) = resolved_from w r"
  by (simp_all add: closed_by_def close_window_def chain_key_def resolved_from_def)

lemma update_closed_by: "update_where (is_open e) (close_window e) t = map (closed_by e) t"
  by (simp add: update_where_def closed_by_def)

definition map_index :: "(cost_row \<Rightarrow> cost_row) \<Rightarrow> as_of_index \<Rightarrow> as_of_index" where
  "map_index f ix = (map_option f \<circ> fst ix, map_option f \<circ> snd ix)"

lemma index_fold_map:
  "foldl index_step (map_index (closed_by e) ix) (map (closed_by e) rows)
     = map_index (closed_by e) (foldl index_step ix rows)"
proof (induction rows arbitrary: ix)
  case Nil
  then show ?case by simp
next
  case (Cons r rows)
  have "index_step (map_index (closed_by e) ix) (closed_by e r) = map_index (closed_by e) (index_step ix r)"
    by (auto simp: index_step_def map_index_def Let_def fun_eq_iff split: option.splits)
  then show ?case using Cons by simp
qed

lemma as_of_index_map: "as_of_index_of (map (closed_by e) rows) = map_index (closed_by e) (as_of_index_of rows)"
proof -
  have "map_index (closed_by e) (Map.empty, Map.empty) = (Map.empty, Map.empty)" by (simp add: map_index_def fun_eq_iff)
  then show ?thesis using index_fold_map [of e "(Map.empty, Map.empty)" rows] by (simp add: as_of_index_of_def)
qed

lemma resolve_keys_map: "resolve_keys (map_index (closed_by e) ix) ks = resolve_keys ix ks"
proof (induction ks)
  case Nil
  then show ?case by simp
next
  case (Cons w ks)
  have "matching_row (map_index (closed_by e) ix) w = map_option (closed_by e) (matching_row ix w)"
    by (simp add: matching_row_def map_index_def split: option.split)
  then show ?case using Cons by (cases "matching_row ix w") simp_all
qed

lemma as_of_rows_before:
  assumes "asOf < cn_effectiveFrom e"
  shows "as_of_rows store asOf (map (closed_by e) t @ [entry_row e u]) = map (closed_by e) (as_of_rows store asOf t)"
proof -
  have live: "in_force asOf (closed_by e r) = in_force asOf r" for r
    using assms by (auto simp: in_force_def closed_by_def close_window_def is_open_def split: option.splits)
  have new: "\<not> in_force asOf (entry_row e u)" using assms by (simp add: in_force_def entry_row_def)
  have "filter (\<lambda>r. ch_storeId r = store \<and> in_force asOf r) (map (closed_by e) t @ [entry_row e u])
      = map (closed_by e) (filter (\<lambda>r. ch_storeId r = store \<and> in_force asOf r) t)"
    using new by (simp add: filter_map comp_def live)
  then show ?thesis by (simp add: as_of_rows_def sort_key_map comp_def)
qed

lemma record_keeps_past:
  assumes "record_cost stores e t = Inr t'" and "asOf < cn_effectiveFrom e"
  shows "resolveAsOf store ks asOf t' = resolveAsOf store ks asOf t"
  using record_cost_Inr(1) [OF assms(1)] assms(2)
  by (simp add: resolveAsOf_def update_closed_by as_of_rows_before as_of_index_map resolve_keys_map)

section \<open>Refinement of a list of entries\<close>

text \<open>The specification: the entries of one product key in the order in which they were recorded.\<close>

type_synonym cost_log = "(int \<times> string) list"

definition log_as_of :: "int \<Rightarrow> cost_log \<Rightarrow> string option" where
  "log_as_of asOf es = (case filter (\<lambda>e. fst e \<le> asOf) es of [] \<Rightarrow> None | xs \<Rightarrow> Some (snd (last xs)))"

text \<open>The abstraction of the table at a key, and the shape of its windows.\<close>

definition rows_of :: "string \<times> string \<times> string option \<Rightarrow> cost_row list \<Rightarrow> cost_row list" where
  "rows_of k t = filter (\<lambda>r. chain_key r = k) t"

definition log_of :: "string \<times> string \<times> string option \<Rightarrow> cost_row list \<Rightarrow> cost_log" where
  "log_of k t = map (\<lambda>r. (ch_effectiveFrom r, ch_id r)) (rows_of k t)"

fun chained :: "cost_row list \<Rightarrow> bool" where
  "chained [] \<longleftrightarrow> True"
| "chained [r] \<longleftrightarrow> ch_effectiveTo r = None"
| "chained (r # s # rs) \<longleftrightarrow> ch_effectiveTo r = Some (ch_effectiveFrom s) \<and> ch_effectiveFrom r < ch_effectiveFrom s
     \<and> chained (s # rs)"

lemma chained_later: "chained (r # rs) \<Longrightarrow> s \<in> set rs \<Longrightarrow> ch_effectiveFrom r < ch_effectiveFrom s"
  by (induction rs arbitrary: r) fastforce+

lemma chained_in_force:
  assumes "chained rs"
  shows "map ch_id (filter (in_force asOf) rs)
    = (case log_as_of asOf (map (\<lambda>r. (ch_effectiveFrom r, ch_id r)) rs) of None \<Rightarrow> [] | Some i \<Rightarrow> [i])"
  using assms
proof (induction rs rule: chained.induct)
  case 1
  then show ?case by (simp add: log_as_of_def)
next
  case (2 r)
  then show ?case by (simp add: log_as_of_def in_force_def)
next
  case (3 r s rs)
  have IH: "map ch_id (filter (in_force asOf) (s # rs))
      = (case log_as_of asOf (map (\<lambda>r. (ch_effectiveFrom r, ch_id r)) (s # rs)) of None \<Rightarrow> [] | Some i \<Rightarrow> [i])"
    using 3 by simp
  show ?case
  proof (cases "ch_effectiveFrom s \<le> asOf")
    case True
    then have "\<not> in_force asOf r" "ch_effectiveFrom r \<le> asOf" using 3(2) by (simp_all add: in_force_def)
    then show ?thesis using IH True by (simp add: log_as_of_def split: list.splits)
  next
    case False
    then have late: "\<not> ch_effectiveFrom x \<le> asOf" if "x \<in> set (s # rs)" for x
      using that 3(2) chained_later [of s rs x] by auto
    then have "filter (in_force asOf) (s # rs) = []" "filter (\<lambda>e. fst e \<le> asOf) (map (\<lambda>r. (ch_effectiveFrom r, ch_id r)) (s # rs)) = []"
      by (auto simp: in_force_def filter_empty_conv)
    moreover have "in_force asOf r = (ch_effectiveFrom r \<le> asOf)" using False 3(2) by (simp add: in_force_def)
    ultimately show ?thesis using False by (simp add: log_as_of_def)
  qed
qed

lemma chained_snoc:
  assumes "chained rs" and "\<And>r. r \<in> set rs \<Longrightarrow> ch_effectiveTo r = None \<Longrightarrow> ch_effectiveFrom r < f"
    and "\<And>r. r \<in> set rs \<Longrightarrow> c r = (if ch_effectiveTo r = None then r\<lparr> ch_effectiveTo := Some f \<rparr> else r)"
    and "ch_effectiveFrom n = f" and "ch_effectiveTo n = None"
  shows "chained (map c rs @ [n])"
  using assms
proof (induction rs rule: chained.induct)
  case 1
  then show ?case by simp
next
  case (2 r)
  then show ?case by simp
next
  case (3 r s rs)
  have "chained (map c (s # rs) @ [n])" using 3 by (intro 3(1)) auto
  moreover have "c r = r" using 3 by simp
  moreover have "ch_effectiveFrom (c s) = ch_effectiveFrom s" using 3(4) [of s] by simp
  ultimately show ?case using 3(2) by (cases rs) auto
qed

definition logs_ok :: "cost_row list \<Rightarrow> bool" where
  "logs_ok t \<longleftrightarrow> (\<forall>k. chained (rows_of k t))"

lemma record_refines:
  assumes "record_cost stores e t = Inr t'"
  shows "log_of k t' = log_of k t @ (if k = entry_key e then [(cn_effectiveFrom e, cn_id e)] else [])"
    and "logs_ok t \<Longrightarrow> logs_ok t'"
proof -
  note R = record_cost_Inr [OF assms]
  let ?n = "entry_row e (minorToNumeric (cn_unitCostMinor e))"
  have n: "chain_key ?n = entry_key e" "ch_effectiveFrom ?n = cn_effectiveFrom e" "ch_effectiveTo ?n = None" "ch_id ?n = cn_id e"
    by (simp_all add: entry_row_def chain_key_def entry_key_def)
  have rows: "rows_of k t' = map (closed_by e) (rows_of k t) @ (if k = entry_key e then [?n] else [])" for k
    unfolding R(1) update_closed_by by (simp add: rows_of_def filter_map comp_def n)
  show "log_of k t' = log_of k t @ (if k = entry_key e then [(cn_effectiveFrom e, cn_id e)] else [])"
    by (simp add: log_of_def rows comp_def n)
  assume ok: "logs_ok t"
  have "chained (rows_of k t')" for k
  proof (cases "k = entry_key e")
    case True
    have "closed_by e r = (if ch_effectiveTo r = None then r\<lparr> ch_effectiveTo := Some (cn_effectiveFrom e) \<rparr> else r)"
      if "r \<in> set (rows_of k t)" for r
      using that True by (auto simp: rows_of_def closed_by_def is_open_def close_window_def)
    moreover have "ch_effectiveFrom r < cn_effectiveFrom e" if "r \<in> set (rows_of k t)" "ch_effectiveTo r = None" for r
      using that True R(2) [of r] by (auto simp: rows_of_def is_open_def)
    moreover have "chained (rows_of k t)" using ok unfolding logs_ok_def by blast
    ultimately have "chained (map (closed_by e) (rows_of k t) @ [?n])"
      using chained_snoc [of "rows_of k t" "cn_effectiveFrom e" "closed_by e" ?n] n(2,3) by blast
    then show ?thesis using True by (simp add: rows)
  next
    case False
    then have "closed_by e r = r" if "r \<in> set (rows_of k t)" for r
      using that by (auto simp: rows_of_def closed_by_def is_open_def)
    then have "map (closed_by e) (rows_of k t) = rows_of k t" by (simp add: map_idI)
    moreover have "chained (rows_of k t)" using ok unfolding logs_ok_def by blast
    ultimately show ?thesis using False by (simp add: rows)
  qed
  then show "logs_ok t'" by (simp add: logs_ok_def)
qed

section \<open>The query answers with the entry in force\<close>

text \<open>
  The index is keyed by the product and the variant joined with a bar. Where the identifiers carry
  none, as platform identifiers do, the joined key determines the pair.
\<close>

definition plain_key :: "string \<Rightarrow> string option \<Rightarrow> bool" where
  "plain_key p v \<longleftrightarrow> CHR ''|'' \<notin> set p \<and> v \<noteq> Some []"

lemma product_key_inject:
  assumes "product_key p v = product_key q w" and "plain_key p v" and "plain_key q w"
  shows "p = q \<and> v = w"
proof -
  have split: "takeWhile (\<lambda>c. c \<noteq> CHR ''|'') (product_key p v) = p
      \<and> dropWhile (\<lambda>c. c \<noteq> CHR ''|'') (product_key p v) = CHR ''|'' # (case v of None \<Rightarrow> [] | Some x \<Rightarrow> x)"
    if "plain_key p v" for p v
  proof -
    have "\<And>c. c \<in> set p \<Longrightarrow> c \<noteq> CHR ''|''" using that by (auto simp: plain_key_def)
    then show ?thesis by (simp add: product_key_def takeWhile_append2 [of p] dropWhile_append2 [of p])
  qed
  have "p = q" and "(case v of None \<Rightarrow> [] | Some x \<Rightarrow> x) = (case w of None \<Rightarrow> [] | Some x \<Rightarrow> x)"
    using split [OF assms(2)] split [OF assms(3)] unfolding assms(1) by simp_all
  then show ?thesis using assms(2,3) by (auto simp: plain_key_def split: option.splits)
qed

definition row_product_key :: "cost_row \<Rightarrow> string" where
  "row_product_key r = product_key (ch_platformProductId r) (ch_platformVariantId r)"

lemma as_of_index_find: "fst (as_of_index_of rows) k = find (\<lambda>r. row_product_key r = k) rows"
proof -
  have "fst (foldl index_step ix rows) k = (case fst ix k of Some r \<Rightarrow> Some r | None \<Rightarrow> find (\<lambda>r. row_product_key r = k) rows)" for ix
    by (induction rows arbitrary: ix)
      (auto simp: index_step_def Let_def row_product_key_def split: option.split if_splits)
  then show ?thesis by (simp add: as_of_index_of_def)
qed

lemma query_exact:
  assumes "logs_ok t" and plain: "\<And>r. r \<in> set t \<Longrightarrow> plain_key (ch_platformProductId r) (ch_platformVariantId r)"
    and "plain_key p v" and some: "log_as_of asOf (log_of (store, p, v) t) = Some i"
  obtains r where "r \<in> set t" and "ch_id r = i" and "chain_key r = (store, p, v)" and "in_force asOf r"
    and "matching_row (as_of_index_of (as_of_rows store asOf t))
      \<lparr> pk_platformProductId = p, pk_platformVariantId = v, pk_sku = sku \<rparr> = Some r"
proof -
  let ?k = "(store, p, v)"
  have ch: "chained (rows_of ?k t)" using assms(1) unfolding logs_ok_def by blast
  have "map ch_id (filter (in_force asOf) (rows_of ?k t)) = [i]"
    using chained_in_force [OF ch, of asOf] some by (simp add: log_of_def)
  then obtain r where r: "filter (in_force asOf) (rows_of ?k t) = [r]" "ch_id r = i" by auto
  have "x \<in> set (filter (in_force asOf) (rows_of ?k t)) \<longleftrightarrow> x \<in> set t \<and> chain_key x = ?k \<and> in_force asOf x" for x
    by (auto simp: rows_of_def)
  then have only: "x \<in> set t \<and> chain_key x = ?k \<and> in_force asOf x \<longleftrightarrow> x = r" for x
    unfolding r(1) by simp
  then have rin: "r \<in> set t" "chain_key r = ?k" "in_force asOf r" by blast+
  have mem: "x \<in> set (as_of_rows store asOf t) \<longleftrightarrow> x \<in> set t \<and> ch_storeId x = store \<and> in_force asOf x" for x
    by (simp add: as_of_rows_def)
  have "find (\<lambda>x. row_product_key x = product_key p v) (as_of_rows store asOf t) = Some r"
  proof (cases "find (\<lambda>x. row_product_key x = product_key p v) (as_of_rows store asOf t)")
    case None
    then have "row_product_key r \<noteq> product_key p v" using rin mem [of r] by (auto simp: find_None_iff chain_key_def)
    then show ?thesis using rin(2) by (simp add: row_product_key_def chain_key_def)
  next
    case (Some x)
    then have x: "x \<in> set (as_of_rows store asOf t)" "row_product_key x = product_key p v"
      by (auto simp: find_Some_iff)
    then have "chain_key x = ?k"
      using product_key_inject [of "ch_platformProductId x" "ch_platformVariantId x" p v] plain [of x] assms(3) mem [of x]
      by (simp add: row_product_key_def chain_key_def)
    then show ?thesis using only [of x] x(1) mem [of x] Some by simp
  qed
  then show thesis using that rin r(2) by (simp add: matching_row_def as_of_index_find)
qed

fun record_all :: "string set \<Rightarrow> cost_entry list \<Rightarrow> cost_row list \<Rightarrow> cost_row list outcome" where
  "record_all stores [] t = Inr t"
| "record_all stores (e # es) t = bindE (record_cost stores e t) (record_all stores es)"

lemma record_all_refines:
  assumes "record_all stores es t = Inr t'" and "logs_ok t"
  shows "logs_ok t'"
    and "log_of k t' = log_of k t @ map (\<lambda>e. (cn_effectiveFrom e, cn_id e)) (filter (\<lambda>e. entry_key e = k) es)"
  using assms
proof (induction es arbitrary: t)
  case Nil
  { case 1 then show ?case by simp next case 2 then show ?case by simp }
next
  case (Cons e es)
  {
    case 1
    then obtain u where "record_cost stores e t = Inr u" "record_all stores es u = Inr t'" by (auto simp: bindE_eq_Inr)
    then show ?case using Cons.IH(1) [of u] record_refines(2) [of stores e t u] 1(2) by blast
  next
    case 2
    then obtain u where u: "record_cost stores e t = Inr u" "record_all stores es u = Inr t'" by (auto simp: bindE_eq_Inr)
    then show ?case using Cons.IH(2) [of u] record_refines [OF u(1)] 2(2) by auto
  }
qed

lemma empty_logs_ok: "logs_ok []"
  by (simp add: logs_ok_def rows_of_def)

lemma record_all_rows:
  assumes "record_all stores es [] = Inr t" and "\<And>e. e \<in> set es \<Longrightarrow> plain_key (cn_platformProductId e) (cn_platformVariantId e)"
  shows "r \<in> set t \<Longrightarrow> plain_key (ch_platformProductId r) (ch_platformVariantId r)
    \<and> (\<exists>e \<in> set es. ch_id r = cn_id e \<and> ch_unitCost r = minorToNumeric (cn_unitCostMinor e) \<and> in_range (cn_unitCostMinor e)
        \<and> ch_source r = literal_of COST_SOURCES (cn_source e))"
proof -
  have gen: "record_all stores es t = Inr t' \<Longrightarrow> r \<in> set t' \<Longrightarrow>
    (\<exists>q \<in> set t. ch_platformProductId r = ch_platformProductId q \<and> ch_platformVariantId r = ch_platformVariantId q \<and>
        ch_id r = ch_id q \<and> ch_unitCost r = ch_unitCost q \<and> ch_source r = ch_source q)
    \<or> (\<exists>e \<in> set es. ch_platformProductId r = cn_platformProductId e \<and> ch_platformVariantId r = cn_platformVariantId e \<and>
        ch_id r = cn_id e \<and> ch_unitCost r = minorToNumeric (cn_unitCostMinor e) \<and> in_range (cn_unitCostMinor e)
        \<and> ch_source r = literal_of COST_SOURCES (cn_source e))" for es t t' r
  proof (induction es arbitrary: t)
    case Nil
    then show ?case by auto
  next
    case (Cons e es)
    then obtain u where u: "record_cost stores e t = Inr u" "record_all stores es u = Inr t'" by (auto simp: bindE_eq_Inr)
    note R = record_cost_Inr [OF u(1)]
    have new: "q \<in> set u \<Longrightarrow> q = entry_row e (minorToNumeric (cn_unitCostMinor e)) \<or>
      (\<exists>p \<in> set t. q = closed_by e p)" for q
      unfolding R(1) update_closed_by by auto
    from Cons.IH [OF u(2) Cons.prems(2)] show ?case
    proof (elim disjE bexE)
      fix q
      assume q: "q \<in> set u" "ch_platformProductId r = ch_platformProductId q \<and> ch_platformVariantId r = ch_platformVariantId q \<and>
        ch_id r = ch_id q \<and> ch_unitCost r = ch_unitCost q \<and> ch_source r = ch_source q"
      from new [OF q(1)] show ?thesis
        using q(2) R(3) by (auto simp: entry_row_def closed_by_def close_window_def split: if_splits)
    qed auto
  qed
  assume "r \<in> set t"
  from gen [OF assms(1) this] assms(2) show ?thesis by auto
qed

end
