(* ===== verification/ProfitStore.thy ===== *)
theory ProfitStore
  imports Profit Columns Tables "HOL-Library.AList"
begin

text \<open>
  Storing a result: \<open>packages/persistence/src/repositories/order-profit.repository.ts\<close> over the tables
  \<open>order_profit\<close>, \<open>order_profit_lines\<close>, \<open>daily_store_rollup\<close> and \<open>daily_variant_rollup\<close> of
  \<open>packages/persistence/src/db/schema.ts\<close>.

  The CHECK constraints, the column types that can overflow, the primary key of the lines and the
  foreign keys are conditions of the writes: one that fails is a \<open>ConstraintViolation\<close> and rolls the
  transaction back, so the caller keeps the database it had. Money is in the columns as the string
  \<open>minorToNumeric\<close> writes. The JSON columns hold the values themselves, and a date column its text.
\<close>

section \<open>The tables\<close>

record profit_row =
  pr_orderId :: string
  pr_storeId :: string
  pr_calcVersion :: int
  pr_feeRuleSetId :: "string option"
  pr_currency :: "string option"
  pr_businessDate :: "string option"
  pr_status :: string
  pr_recognitionKind :: string
  pr_recognitionReason :: "string option"
  pr_itemsRevenueExVatMinor :: "string option"
  pr_shippingRevenueExVatMinor :: "string option"
  pr_codFeeRevenueExVatMinor :: "string option"
  pr_orderDiscountExVatMinor :: "string option"
  pr_revenueExVatMinor :: "string option"
  pr_vatCollectedMinor :: "string option"
  pr_cogsMinor :: "string option"
  pr_outboundShippingCostMinor :: "string option"
  pr_returnShippingCostMinor :: "string option"
  pr_gatewayFeeExVatMinor :: "string option"
  pr_gatewayFeeVatMinor :: "string option"
  pr_gatewayFeeCostMinor :: "string option"
  pr_codCostExVatMinor :: "string option"
  pr_codCostVatMinor :: "string option"
  pr_codCostMinor :: "string option"
  pr_reversedRevenueExVatMinor :: "string option"
  pr_restockedCogsMinor :: "string option"
  pr_reversalImpactMinor :: "string option"
  pr_contributionMarginMinor :: "string option"
  pr_marginBps :: "int option"
  pr_costCoveredRevenueExVatMinor :: "string option"
  pr_confidence :: "profit_confidence option"
  pr_diagnostics :: "diagnostic list"
  pr_computedAt :: int

record profit_line_row =
  plr_orderId :: string
  plr_orderItemId :: string
  plr_storeId :: string
  plr_businessDate :: string
  plr_platformProductId :: string
  plr_platformVariantId :: "string option"
  plr_sku :: "string option"
  plr_quantity :: int
  plr_allocatedOrderDiscountExVatMinor :: string
  plr_netRevenueExVatMinor :: string
  plr_allocatedShippingRevenueExVatMinor :: string
  plr_allocatedCodFeeRevenueExVatMinor :: string
  plr_unitCostMinor :: string
  plr_cogsMinor :: string
  plr_costSource :: string
  plr_costHistoryId :: "string option"
  plr_allocatedOutboundShippingMinor :: string
  plr_allocatedReturnShippingMinor :: string
  plr_allocatedGatewayFeeMinor :: string
  plr_allocatedCodCostMinor :: string
  plr_reversedQuantity :: int
  plr_reversedRevenueExVatMinor :: string
  plr_restockedCogsMinor :: string
  plr_reversalImpactMinor :: string
  plr_contributionMarginMinor :: string
  plr_costCoveredRevenueExVatMinor :: string
  plr_calcVersion :: int

record store_rollup_row =
  sr_storeId :: string
  sr_businessDate :: string
  sr_ordersCount :: int
  sr_costOnlyCount :: int
  sr_incompleteCount :: int
  sr_revenueExVatMinor :: string
  sr_cogsMinor :: string
  sr_outboundShippingCostMinor :: string
  sr_returnShippingCostMinor :: string
  sr_gatewayFeeCostMinor :: string
  sr_codCostMinor :: string
  sr_reversalImpactMinor :: string
  sr_contributionMarginMinor :: string
  sr_costCoveredRevenueExVatMinor :: string
  sr_dirty :: bool
  sr_dirtiedAt :: int
  sr_computedAt :: "int option"
  sr_calcVersion :: "int option"

record variant_rollup_row =
  vr_storeId :: string
  vr_businessDate :: string
  vr_platformProductId :: string
  vr_platformVariantId :: string
  vr_sku :: "string option"
  vr_unitsSold :: int
  vr_unitsReversed :: int
  vr_netRevenueExVatMinor :: string
  vr_cogsMinor :: string
  vr_allocatedShippingMinor :: string
  vr_allocatedGatewayFeeMinor :: string
  vr_allocatedCodCostMinor :: string
  vr_reversalImpactMinor :: string
  vr_contributionMarginMinor :: string
  vr_costCoveredRevenueExVatMinor :: string
  vr_incompleteLines :: int
  vr_dirty :: bool
  vr_dirtiedAt :: int
  vr_computedAt :: "int option"
  vr_calcVersion :: "int option"

text \<open>The first three are the keys of the tables the rows refer to.\<close>

record profit_db =
  pd_orders :: "string set"
  pd_stores :: "string set"
  pd_feeRuleSets :: "string set"
  pd_profits :: "profit_row list"
  pd_lines :: "profit_line_row list"
  pd_storeRollups :: "store_rollup_row list"
  pd_variantRollups :: "variant_rollup_row list"

section \<open>Constraints\<close>

definition enforce :: "(string \<times> bool) list \<Rightarrow> unit outcome" where
  "enforce cs = (case find (\<lambda>c. \<not> snd c) cs of None \<Rightarrow> Inr () | Some c \<Rightarrow> Inl (ConstraintViolation (fst c)))"

text \<open>The value of a \<open>numeric(14, 2)\<close> in minor units.\<close>

definition column_minor :: "string \<Rightarrow> int" where
  "column_minor s = (case match_decimal s of
     None \<Rightarrow> 0
   | Some (negative, whole, fraction) \<Rightarrow>
       (if negative then -1 else 1)
       * (digits_val whole * 10 ^ MONEY_SCALE + digits_val fraction * 10 ^ (MONEY_SCALE - length fraction)))"

definition fits_int4 :: "int \<Rightarrow> bool" where
  "fits_int4 n \<longleftrightarrow> - (2 ^ 31) \<le> n \<and> n < 2 ^ 31"

text \<open>A comparison with NULL is NULL, and a CHECK that is NULL passes.\<close>

definition money_le :: "string option \<Rightarrow> string option \<Rightarrow> bool" where
  "money_le a b = (case (a, b) of (Some x, Some y) \<Rightarrow> column_minor x \<le> column_minor y | _ \<Rightarrow> True)"

definition profit_row_money :: "profit_row \<Rightarrow> string option list" where
  "profit_row_money r =
     [pr_itemsRevenueExVatMinor r, pr_shippingRevenueExVatMinor r, pr_codFeeRevenueExVatMinor r,
      pr_orderDiscountExVatMinor r, pr_revenueExVatMinor r, pr_vatCollectedMinor r, pr_cogsMinor r,
      pr_outboundShippingCostMinor r, pr_returnShippingCostMinor r, pr_gatewayFeeExVatMinor r,
      pr_gatewayFeeVatMinor r, pr_gatewayFeeCostMinor r, pr_codCostExVatMinor r, pr_codCostVatMinor r,
      pr_codCostMinor r, pr_reversedRevenueExVatMinor r, pr_restockedCogsMinor r, pr_reversalImpactMinor r,
      pr_contributionMarginMinor r, pr_costCoveredRevenueExVatMinor r]"

definition profit_row_checks :: "profit_row \<Rightarrow> (string \<times> bool) list" where
  "profit_row_checks r =
     [(''numeric_overflow'', \<forall>m \<in> set (profit_row_money r). case m of None \<Rightarrow> True | Some s \<Rightarrow> fits_money_column s),
      (''integer_overflow'', fits_int4 (pr_calcVersion r)
         \<and> (case pr_marginBps r of None \<Rightarrow> True | Some b \<Rightarrow> fits_int4 b)),
      (''order_profit_currency_iff_computed'',
         (pr_status r = ''computed'') = (pr_currency r \<noteq> None \<and> pr_businessDate r \<noteq> None)),
      (''order_profit_recognition_valid'',
         pr_recognitionKind r \<in> {''recognized'', ''cost_only'', ''excluded''}),
      (''order_profit_restock_bounded'', money_le (pr_restockedCogsMinor r) (pr_cogsMinor r)),
      (''order_profit_status_valid'', pr_status r \<in> {''computed'', ''rejected''}),
      (''order_profit_totals_iff_computed'',
         (pr_status r = ''computed'') = (pr_contributionMarginMinor r \<noteq> None))]"

definition profit_row_refs :: "profit_db \<Rightarrow> profit_row \<Rightarrow> (string \<times> bool) list" where
  "profit_row_refs db r =
     [(''order_profit_order_id_orders_id_fk'', pr_orderId r \<in> pd_orders db),
      (''order_profit_store_id_stores_id_fk'', pr_storeId r \<in> pd_stores db),
      (''order_profit_fee_rule_set_id_fee_rule_sets_id_fk'',
         case pr_feeRuleSetId r of None \<Rightarrow> True | Some i \<Rightarrow> i \<in> pd_feeRuleSets db)]"

definition line_row_money :: "profit_line_row \<Rightarrow> string list" where
  "line_row_money l =
     [plr_allocatedOrderDiscountExVatMinor l, plr_netRevenueExVatMinor l,
      plr_allocatedShippingRevenueExVatMinor l, plr_allocatedCodFeeRevenueExVatMinor l, plr_unitCostMinor l,
      plr_cogsMinor l, plr_allocatedOutboundShippingMinor l, plr_allocatedReturnShippingMinor l,
      plr_allocatedGatewayFeeMinor l, plr_allocatedCodCostMinor l, plr_reversedRevenueExVatMinor l,
      plr_restockedCogsMinor l, plr_reversalImpactMinor l, plr_contributionMarginMinor l,
      plr_costCoveredRevenueExVatMinor l]"

definition line_row_checks :: "profit_line_row \<Rightarrow> (string \<times> bool) list" where
  "line_row_checks l =
     [(''numeric_overflow'', \<forall>s \<in> set (line_row_money l). fits_money_column s),
      (''integer_overflow'', fits_int4 (plr_quantity l) \<and> fits_int4 (plr_reversedQuantity l)
         \<and> fits_int4 (plr_calcVersion l)),
      (''order_profit_lines_cost_source_valid'', plr_costSource l \<in> set (map fst COST_SOURCES)),
      (''order_profit_lines_margin_consistent'',
         column_minor (plr_contributionMarginMinor l) =
           column_minor (plr_netRevenueExVatMinor l) + column_minor (plr_allocatedShippingRevenueExVatMinor l)
           + column_minor (plr_allocatedCodFeeRevenueExVatMinor l) - column_minor (plr_cogsMinor l)
           - column_minor (plr_allocatedOutboundShippingMinor l) - column_minor (plr_allocatedReturnShippingMinor l)
           - column_minor (plr_allocatedGatewayFeeMinor l) - column_minor (plr_allocatedCodCostMinor l)
           + column_minor (plr_reversalImpactMinor l)),
      (''order_profit_lines_quantity_positive'', 0 \<le> plr_quantity l),
      (''order_profit_lines_restock_bounded'',
         column_minor (plr_restockedCogsMinor l) \<le> column_minor (plr_cogsMinor l))]"

definition line_key :: "profit_line_row \<Rightarrow> string \<times> string" where
  "line_key l = (plr_orderId l, plr_orderItemId l)"

definition line_row_refs :: "profit_db \<Rightarrow> profit_line_row \<Rightarrow> (string \<times> bool) list" where
  "line_row_refs db l =
     [(''order_profit_lines_pkey'', line_key l \<notin> line_key ` set (pd_lines db)),
      (''order_profit_lines_order_id_fk'', plr_orderId l \<in> pr_orderId ` set (pd_profits db)),
      (''order_profit_lines_store_id_fk'', plr_storeId l \<in> pd_stores db)]"

section \<open>The rows of a result\<close>

fun recognition_kind :: "profit_recognition \<Rightarrow> string" where
  "recognition_kind Recognized = ''recognized''"
| "recognition_kind (CostOnly _) = ''cost_only''"
| "recognition_kind (Excluded _) = ''excluded''"

fun recognition_reason :: "profit_recognition \<Rightarrow> string option" where
  "recognition_reason Recognized = None"
| "recognition_reason (CostOnly CO_rto_uncollected) = Some ''rto_uncollected''"
| "recognition_reason (CostOnly CO_cancelled_after_dispatch) = Some ''cancelled_after_dispatch''"
| "recognition_reason (CostOnly CO_cancelled_after_capture) = Some ''cancelled_after_capture''"
| "recognition_reason (CostOnly CO_payment_not_settled) = Some ''payment_not_settled''"
| "recognition_reason (CostOnly CO_goods_lost) = Some ''goods_lost''"
| "recognition_reason (Excluded EX_test_order) = Some ''test_order''"
| "recognition_reason (Excluded EX_draft) = Some ''draft''"
| "recognition_reason (Excluded EX_cancelled_before_economic_effect) = Some ''cancelled_before_economic_effect''"

definition computed_row :: "int \<Rightarrow> order_profit_computed \<Rightarrow> profit_row" where
  "computed_row now c =
     (let t = opc_totals c in \<lparr>
       pr_orderId = opc_orderId c, pr_storeId = opc_storeId c, pr_calcVersion = opc_calcVersion c,
       pr_feeRuleSetId = Some (opc_feeRuleSetId c), pr_currency = Some (opc_currency c),
       pr_businessDate = Some (opc_businessDate c), pr_status = ''computed'',
       pr_recognitionKind = recognition_kind (opc_recognition c),
       pr_recognitionReason = recognition_reason (opc_recognition c),
       pr_itemsRevenueExVatMinor = Some (minorToNumeric (opt_itemsRevenueExVatMinor t)),
       pr_shippingRevenueExVatMinor = Some (minorToNumeric (opt_shippingRevenueExVatMinor t)),
       pr_codFeeRevenueExVatMinor = Some (minorToNumeric (opt_codFeeRevenueExVatMinor t)),
       pr_orderDiscountExVatMinor = Some (minorToNumeric (opt_orderDiscountExVatMinor t)),
       pr_revenueExVatMinor = Some (minorToNumeric (opt_revenueExVatMinor t)),
       pr_vatCollectedMinor = Some (minorToNumeric (opt_vatCollectedMinor t)),
       pr_cogsMinor = Some (minorToNumeric (opt_cogsMinor t)),
       pr_outboundShippingCostMinor = Some (minorToNumeric (opt_outboundShippingCostMinor t)),
       pr_returnShippingCostMinor = Some (minorToNumeric (opt_returnShippingCostMinor t)),
       pr_gatewayFeeExVatMinor = Some (minorToNumeric (opt_gatewayFeeExVatMinor t)),
       pr_gatewayFeeVatMinor = Some (minorToNumeric (opt_gatewayFeeVatMinor t)),
       pr_gatewayFeeCostMinor = Some (minorToNumeric (opt_gatewayFeeCostMinor t)),
       pr_codCostExVatMinor = Some (minorToNumeric (opt_codCostExVatMinor t)),
       pr_codCostVatMinor = Some (minorToNumeric (opt_codCostVatMinor t)),
       pr_codCostMinor = Some (minorToNumeric (opt_codCostMinor t)),
       pr_reversedRevenueExVatMinor = Some (minorToNumeric (opt_reversedRevenueExVatMinor t)),
       pr_restockedCogsMinor = Some (minorToNumeric (opt_restockedCogsMinor t)),
       pr_reversalImpactMinor = Some (minorToNumeric (opt_reversalImpactMinor t)),
       pr_contributionMarginMinor = Some (minorToNumeric (opt_contributionMarginMinor t)),
       pr_marginBps = opt_marginBps t,
       pr_costCoveredRevenueExVatMinor = Some (minorToNumeric (opt_costCoveredRevenueExVatMinor t)),
       pr_confidence = Some (opc_confidence c), pr_diagnostics = opc_diagnostics c, pr_computedAt = now \<rparr>)"

definition line_row :: "order_profit_computed \<Rightarrow> order_profit_line \<Rightarrow> profit_line_row" where
  "line_row c l = \<lparr>
     plr_orderId = opc_orderId c, plr_orderItemId = pl_orderItemId l, plr_storeId = opc_storeId c,
     plr_businessDate = opc_businessDate c, plr_platformProductId = pl_platformProductId l,
     plr_platformVariantId = pl_platformVariantId l, plr_sku = pl_sku l, plr_quantity = pl_quantity l,
     plr_allocatedOrderDiscountExVatMinor = minorToNumeric (pl_allocatedOrderDiscountExVatMinor l),
     plr_netRevenueExVatMinor = minorToNumeric (pl_netRevenueExVatMinor l),
     plr_allocatedShippingRevenueExVatMinor = minorToNumeric (pl_allocatedShippingRevenueExVatMinor l),
     plr_allocatedCodFeeRevenueExVatMinor = minorToNumeric (pl_allocatedCodFeeRevenueExVatMinor l),
     plr_unitCostMinor = minorToNumeric (pl_unitCostMinor l),
     plr_cogsMinor = minorToNumeric (pl_cogsMinor l),
     plr_costSource = literal_of COST_SOURCES (pl_costSource l), plr_costHistoryId = pl_costHistoryId l,
     plr_allocatedOutboundShippingMinor = minorToNumeric (pl_allocatedOutboundShippingMinor l),
     plr_allocatedReturnShippingMinor = minorToNumeric (pl_allocatedReturnShippingMinor l),
     plr_allocatedGatewayFeeMinor = minorToNumeric (pl_allocatedGatewayFeeMinor l),
     plr_allocatedCodCostMinor = minorToNumeric (pl_allocatedCodCostMinor l),
     plr_reversedQuantity = pl_reversedQuantity l,
     plr_reversedRevenueExVatMinor = minorToNumeric (pl_reversedRevenueExVatMinor l),
     plr_restockedCogsMinor = minorToNumeric (pl_restockedCogsMinor l),
     plr_reversalImpactMinor = minorToNumeric (pl_reversalImpactMinor l),
     plr_contributionMarginMinor = minorToNumeric (pl_contributionMarginMinor l),
     plr_costCoveredRevenueExVatMinor = minorToNumeric (pl_costCoveredRevenueExVatMinor l),
     plr_calcVersion = opc_calcVersion c \<rparr>"

text \<open>Every column the engine fills is cleared on a rejected row.\<close>

definition rejected_row :: "int \<Rightarrow> order_profit_rejected \<Rightarrow> profit_row" where
  "rejected_row now r = \<lparr>
     pr_orderId = opr_orderId r, pr_storeId = opr_storeId r, pr_calcVersion = opr_calcVersion r,
     pr_feeRuleSetId = None, pr_currency = None, pr_businessDate = None, pr_status = ''rejected'',
     pr_recognitionKind = ''excluded'', pr_recognitionReason = None,
     pr_itemsRevenueExVatMinor = None, pr_shippingRevenueExVatMinor = None, pr_codFeeRevenueExVatMinor = None,
     pr_orderDiscountExVatMinor = None, pr_revenueExVatMinor = None, pr_vatCollectedMinor = None,
     pr_cogsMinor = None, pr_outboundShippingCostMinor = None, pr_returnShippingCostMinor = None,
     pr_gatewayFeeExVatMinor = None, pr_gatewayFeeVatMinor = None, pr_gatewayFeeCostMinor = None,
     pr_codCostExVatMinor = None, pr_codCostVatMinor = None, pr_codCostMinor = None,
     pr_reversedRevenueExVatMinor = None, pr_restockedCogsMinor = None, pr_reversalImpactMinor = None,
     pr_contributionMarginMinor = None,
     pr_marginBps = None, pr_costCoveredRevenueExVatMinor = None, pr_confidence = None,
     pr_diagnostics = opr_diagnostics r, pr_computedAt = now \<rparr>"

text \<open>The SET of the conflict clause: everything but the order and, on a rejected row, its store.\<close>

definition rejected_update :: "int \<Rightarrow> order_profit_rejected \<Rightarrow> profit_row \<Rightarrow> profit_row" where
  "rejected_update now r old = (rejected_row now r)\<lparr> pr_orderId := pr_orderId old, pr_storeId := pr_storeId old \<rparr>"

definition computed_update :: "int \<Rightarrow> order_profit_computed \<Rightarrow> profit_row \<Rightarrow> profit_row" where
  "computed_update now c old = (computed_row now c)\<lparr> pr_orderId := pr_orderId old \<rparr>"

section \<open>The writes\<close>

definition upsert_profit :: "profit_row \<Rightarrow> (profit_row \<Rightarrow> profit_row) \<Rightarrow> profit_db \<Rightarrow> profit_db outcome" where
  "upsert_profit r f db =
     bindE (enforce (profit_row_checks r)) (\<lambda>_.
     let stored = (case row_with pr_orderId (pr_orderId r) (pd_profits db) of None \<Rightarrow> r | Some old \<Rightarrow> f old)
     in bindE (enforce (profit_row_checks stored @ profit_row_refs db stored)) (\<lambda>_.
        Inr (db\<lparr> pd_profits := upsert pr_orderId r f (pd_profits db) \<rparr>)))"

definition delete_lines :: "string \<Rightarrow> profit_db \<Rightarrow> profit_db" where
  "delete_lines orderId db = db\<lparr> pd_lines := delete_where (\<lambda>l. plr_orderId l = orderId) (pd_lines db) \<rparr>"

definition insert_line :: "profit_db \<Rightarrow> profit_line_row \<Rightarrow> profit_db outcome" where
  "insert_line db l =
     bindE (enforce (line_row_checks l @ line_row_refs db l)) (\<lambda>_.
     Inr (db\<lparr> pd_lines := pd_lines db @ [l] \<rparr>))"

definition store_bucket :: "store_rollup_row \<Rightarrow> string \<times> string" where
  "store_bucket r = (sr_storeId r, sr_businessDate r)"

definition new_store_bucket :: "string \<Rightarrow> string \<Rightarrow> int \<Rightarrow> store_rollup_row" where
  "new_store_bucket store day now = \<lparr>
     sr_storeId = store, sr_businessDate = day,
     sr_ordersCount = 0, sr_costOnlyCount = 0, sr_incompleteCount = 0, sr_revenueExVatMinor = ''0'',
     sr_cogsMinor = ''0'', sr_outboundShippingCostMinor = ''0'', sr_returnShippingCostMinor = ''0'',
     sr_gatewayFeeCostMinor = ''0'', sr_codCostMinor = ''0'', sr_reversalImpactMinor = ''0'',
     sr_contributionMarginMinor = ''0'', sr_costCoveredRevenueExVatMinor = ''0'',
     sr_dirty = True, sr_dirtiedAt = now, sr_computedAt = None, sr_calcVersion = None \<rparr>"

definition mark_store_dirty :: "string \<Rightarrow> string \<Rightarrow> int \<Rightarrow> profit_db \<Rightarrow> profit_db outcome" where
  "mark_store_dirty store day now db =
     (if (store, day) \<notin> store_bucket ` set (pd_storeRollups db) \<and> store \<notin> pd_stores db
      then Inl (ConstraintViolation ''daily_store_rollup_store_id_stores_id_fk'')
      else Inr (db\<lparr> pd_storeRollups := upsert store_bucket (new_store_bucket store day now)
                     (\<lambda>r. r\<lparr> sr_dirty := True, sr_dirtiedAt := now \<rparr>) (pd_storeRollups db) \<rparr>))"

definition variant_bucket :: "variant_rollup_row \<Rightarrow> string \<times> string \<times> string \<times> string" where
  "variant_bucket r = (vr_storeId r, vr_businessDate r, vr_platformProductId r, vr_platformVariantId r)"

definition new_variant_bucket :: "string \<Rightarrow> string \<Rightarrow> int \<Rightarrow> string \<times> string \<Rightarrow> variant_rollup_row" where
  "new_variant_bucket store day now key = \<lparr>
     vr_storeId = store, vr_businessDate = day, vr_platformProductId = fst key, vr_platformVariantId = snd key,
     vr_sku = None, vr_unitsSold = 0, vr_unitsReversed = 0,
     vr_netRevenueExVatMinor = ''0'', vr_cogsMinor = ''0'', vr_allocatedShippingMinor = ''0'',
     vr_allocatedGatewayFeeMinor = ''0'', vr_allocatedCodCostMinor = ''0'', vr_reversalImpactMinor = ''0'',
     vr_contributionMarginMinor = ''0'', vr_costCoveredRevenueExVatMinor = ''0'',
     vr_incompleteLines = 0, vr_dirty = True, vr_dirtiedAt = now, vr_computedAt = None, vr_calcVersion = None \<rparr>"

definition mark_variant_dirty ::
  "string \<Rightarrow> string \<Rightarrow> int \<Rightarrow> profit_db \<Rightarrow> string \<times> string \<Rightarrow> profit_db outcome" where
  "mark_variant_dirty store day now db key =
     (if (store, day, key) \<notin> variant_bucket ` set (pd_variantRollups db) \<and> store \<notin> pd_stores db
      then Inl (ConstraintViolation ''daily_variant_rollup_store_id_stores_id_fk'')
      else Inr (db\<lparr> pd_variantRollups := upsert variant_bucket (new_variant_bucket store day now key)
                     (\<lambda>r. r\<lparr> vr_dirty := True, vr_dirtiedAt := now \<rparr>) (pd_variantRollups db) \<rparr>))"

text \<open>The values of the map the code keys by \<open>product|variant\<close>.\<close>

definition variant_keys :: "order_profit_line list \<Rightarrow> (string \<times> string) list" where
  "variant_keys lines = map snd (foldl (\<lambda>keys l.
     let variant = or_empty (pl_platformVariantId l)
     in AList.update (pl_platformProductId l @ ''|'' @ variant) (pl_platformProductId l, variant) keys) [] lines)"

definition markDirty ::
  "string \<Rightarrow> string \<Rightarrow> order_profit_line list \<Rightarrow> int \<Rightarrow> profit_db \<Rightarrow> profit_db outcome" where
  "markDirty store day lines now db =
     bindE (mark_store_dirty store day now db) (\<lambda>db'.
     let keys = variant_keys lines
     in if length keys = 0 then Inr db' else foldE (mark_variant_dirty store day now) db' keys)"

text \<open>
  The times one call reads: the transaction's own, which \<open>defaultNow()\<close> gives a new row, the one of
  the row, and the one of the flags.
\<close>

record save_clock =
  ck_default :: int
  ck_row :: int
  ck_dirty :: int

definition save_rejected :: "save_clock \<Rightarrow> order_profit_rejected \<Rightarrow> profit_db \<Rightarrow> profit_db outcome" where
  "save_rejected ck r db =
     (let previous = row_with pr_orderId (opr_orderId r) (pd_profits db)
      in bindE (upsert_profit (rejected_row (ck_default ck) r) (rejected_update (ck_row ck) r) db) (\<lambda>db1.
         let db2 = delete_lines (opr_orderId r) db1
         in case Option.bind previous pr_businessDate of
              None \<Rightarrow> Inr db2
            | Some day \<Rightarrow> mark_store_dirty (opr_storeId r) day (ck_dirty ck) db2))"

definition save_computed :: "save_clock \<Rightarrow> order_profit_computed \<Rightarrow> profit_db \<Rightarrow> profit_db outcome" where
  "save_computed ck c db =
     bindE (upsert_profit (computed_row (ck_row ck) c) (computed_update (ck_row ck) c) db) (\<lambda>db1.
     bindE (foldE insert_line (delete_lines (opc_orderId c) db1) (map (line_row c) (opc_lines c))) (\<lambda>db2.
     markDirty (opc_storeId c) (opc_businessDate c) (opc_lines c) (ck_dirty ck) db2))"

fun save :: "save_clock \<Rightarrow> order_profit_result \<Rightarrow> profit_db \<Rightarrow> profit_db outcome" where
  "save ck (Rejected r) db = save_rejected ck r db"
| "save ck (Computed c) db = save_computed ck c db"

section \<open>The queries\<close>

definition findStaleOrderIds :: "string \<Rightarrow> int \<Rightarrow> nat \<Rightarrow> profit_db \<Rightarrow> string list" where
  "findStaleOrderIds store calcVersion limit db =
     map pr_orderId (take limit (sort_key pr_computedAt
       (filter (\<lambda>r. pr_storeId r = store \<and> pr_calcVersion r < calcVersion) (pd_profits db))))"

text \<open>The number of buckets is returned with the database.\<close>

definition markDirtyByFeeRuleSet :: "string \<Rightarrow> string \<Rightarrow> int \<Rightarrow> profit_db \<Rightarrow> (nat \<times> profit_db) outcome" where
  "markDirtyByFeeRuleSet store feeRuleSetId now db =
     (let rows = filter (\<lambda>r. pr_storeId r = store \<and> pr_feeRuleSetId r = Some feeRuleSetId) (pd_profits db);
          dates = List.map_filter id (remdups (map pr_businessDate rows))
      in if length dates = 0 then Inr (0, db)
         else bindE (foldE (\<lambda>d day. mark_store_dirty store day now d) db dates) (\<lambda>db'. Inr (length dates, db')))"

end
