(* ===== verification/LineBounds.thy ===== *)
theory LineBounds
  imports ProfitBounds
begin

text \<open>
  Bounds of the lines of a computed result: every amount on a line is a safe amount, quantities are
  not negative and returned pieces are not more than ordered. Each is bounded where it is computed;
  this is what the columns of \<open>order_profit_lines\<close> rely on.
\<close>

section \<open>Shares\<close>

lemma allocate_range:
  assumes "allocateMinor t bs = Inr m"
  shows "in_range (shareOf m k)"
proof (cases "bs = []")
  case True
  then show ?thesis using assms by (auto simp: allocateMinor_def shareOf_def split: if_splits)
next
  case False
  then have m: "m = map (\<lambda>b. (bucket_key b, signed_share t bs b)) bs"
    and small: "\<forall>b \<in> set bs. alloc_share \<bar>t\<bar> bs b \<le> MAX_MINOR"
    using assms by (auto simp: allocateMinor_nonempty not_less split: if_splits)
  have "in_range (signed_share t bs b)" if "b \<in> set bs" for b
    using small that alloc_share_nonneg [OF False, of "\<bar>t\<bar>" b]
    by (auto simp: signed_share_def in_range_def)
  then show ?thesis by (auto simp: shareOf_def m dest!: map_of_SomeD split: option.splits)
qed

lemma spread_all_range: "spread_all items revenue tot = Inr m \<Longrightarrow> in_range (tally m k)"
  by (auto simp: spread_all_def bindE_eq_Inr tally_map_of intro: allocate_range)

definition tallies_in_range :: "tally_map \<Rightarrow> bool" where
  "tallies_in_range m \<longleftrightarrow> (\<forall>k. in_range (tally m k))"

lemma tally_upd_if: "tally (m(i \<mapsto> v)) k = (if k = i then v else tally m k)"
  by simp

lemma add_checked_range:
  "add_checked out s = Inr out' \<Longrightarrow> tallies_in_range out \<Longrightarrow> tallies_in_range out'"
  by (auto simp: add_checked_def bindE_eq_Inr to_minor_eq_Inr tallies_in_range_def tally_upd_if)

lemma parcels_loop_range:
  "parcels_loop items revenue tot out parcels = Inr m \<Longrightarrow> tallies_in_range out \<Longrightarrow> tallies_in_range m"
proof (induction parcels arbitrary: out)
  case Nil
  then show ?case by simp
next
  case (Cons p parcels)
  show ?case
  proof (cases "filter (\<lambda>l. lrev_orderItemId l \<in> set (sc_lineIds p)) revenue = []")
    case True
    then show ?thesis
      using Cons.prems(1) by (auto simp: Let_def tallies_in_range_def intro: spread_all_range)
  next
    case False
    then obtain share o1 where f: "foldE add_checked out share = Inr o1"
      and r: "parcels_loop items revenue tot o1 parcels = Inr m"
      using Cons.prems(1) by (auto simp: Let_def bindE_eq_Inr)
    have "tallies_in_range o1"
      by (rule foldE_invariant [OF f]) (use Cons.prems(2) add_checked_range in blast)+
    then show ?thesis by (rule Cons.IH [OF r])
  qed
qed

lemma zero_tally_range: "tallies_in_range (zero_tally revenue)"
  by (auto simp: tallies_in_range_def tally_def zero_tally_def split: option.split dest!: js_map_Some)

lemma spreadParcels_range: "spreadParcels items revenue parcels tot = Inr m \<Longrightarrow> tallies_in_range m"
  using parcels_loop_range [OF _ zero_tally_range]
  by (auto simp: spreadParcels_def Let_def tallies_in_range_def split: if_splits intro: spread_all_range)

section \<open>The parts of a line\<close>

lemma computeLineRevenue_range:
  assumes "computeLineRevenue items d = Inr lines" and "l \<in> set lines"
  shows "in_range (lrev_netExVatMinor l) \<and> in_range (lrev_allocatedOrderDiscountExVatMinor l)"
proof (cases "items = []")
  case True
  then show ?thesis using assms by (auto simp: computeLineRevenue_def)
next
  case False
  define row where "row al item = bindE (subMinor (item_lineTotalExVatMinor item) (shareOf al (item_id item))) (\<lambda>net. Inr
      \<lparr> lrev_orderItemId = item_id item, lrev_grossExVatMinor = item_lineTotalExVatMinor item,
        lrev_allocatedOrderDiscountExVatMinor = shareOf al (item_id item), lrev_netExVatMinor = net \<rparr>)"
    for al and item :: "int canonical_order_item"
  obtain al where al: "allocateMinor d (map item_bucket items) = Inr al" and m: "mapE (row al) items = Inr lines"
    using assms(1) False by (auto simp: computeLineRevenue_def bindE_eq_Inr Let_def row_def [abs_def])
  obtain i where "row al i = Inr l" by (rule mapE_in_set [OF m assms(2)])
  then show ?thesis using allocate_range [OF al] by (auto simp: row_def bindE_eq_Inr subMinor_eq_Inr)
qed

lemma revenue_lines_range:
  assumes "computeRevenue order items recog = Inr (rv, ds)" and "l \<in> set (orev_lines rv)"
  shows "in_range (lrev_netExVatMinor l) \<and> in_range (lrev_allocatedOrderDiscountExVatMinor l)"
  using assms computeLineRevenue_range
  by (auto simp: computeRevenue_def bindE_eq_Inr Let_def zero_line_revenue_def split: if_splits)

definition costs_in_range :: "cost_index \<Rightarrow> bool" where
  "costs_in_range costs \<longleftrightarrow>
     (\<forall>k c. byProductKey costs k = Some c \<longrightarrow> in_range (cost_unitCostMinor c))
     \<and> (\<forall>k c. bySku costs k = Some c \<longrightarrow> in_range (cost_unitCostMinor c))"

lemma cogs_lines_range:
  assumes "computeCogs items costs = Inr (cg, ds)" and "costs_in_range costs" and "l \<in> set (ocogs_lines cg)"
  shows "in_range (lcogs_unitCostMinor l) \<and> in_range (lcogs_cogsMinor l)"
proof -
  have res: "resolve_cost costs i = Some c \<Longrightarrow> in_range (cost_unitCostMinor c)" for i c
    using assms(2) by (auto simp: resolve_cost_def Let_def costs_in_range_def split: option.splits if_splits)
  obtain rows where rows: "mapE (cogs_line costs) items = Inr rows" "ocogs_lines cg = map fst rows"
    using assms(1) by (auto simp: computeCogs_def bindE_eq_Inr)
  then obtain r where r: "r \<in> set rows" "l = fst r" using assms(3) by auto
  then obtain i where "cogs_line costs i = Inr r" using mapE_in_set [OF rows(1)] by blast
  then show ?thesis
    using res unfolding r(2) by (auto simp: cogs_line_def missing_cost_line_def Let_def bindE_eq_Inr
        assertInRange_eq_Inr split: option.splits)
qed

lemma costOf_range:
  "(\<And>l. l \<in> set cls \<Longrightarrow> in_range (lcogs_unitCostMinor l) \<and> in_range (lcogs_cogsMinor l)) \<Longrightarrow>
     in_range (costOf (cogs_map cls) i) \<and> in_range (unitCostOf (cogs_map cls) i)"
  by (auto simp: costOf_def unitCostOf_def cogs_map_def split: option.split dest!: js_map_Some)

definition reversal_line_money :: "line_reversal \<Rightarrow> int list" where
  "reversal_line_money l = [lvr_reversedRevenueExVatMinor l, lvr_restockedCogsMinor l, lvr_impactMinor l]"

lemma reversal_lines_range:
  assumes "computeReversalImpact rs rls cls q w recog ss dispatched = Inr (ri, ds)"
    and costs: "\<And>l. l \<in> set cls \<Longrightarrow> in_range (lcogs_unitCostMinor l) \<and> in_range (lcogs_cogsMinor l)"
    and "l \<in> set (ri_lines ri)"
  shows "list_all in_range (reversal_line_money l)"
  using assms(1)
proof (cases rule: computeReversalImpact_cases)
  case none
  then show ?thesis using assms(3) by (auto simp: empty_impact_def reversal_line_money_def)
next
  case credited
  then show ?thesis
    using assms(3) costOf_range [OF costs]
    by (auto simp: creditWholeOrder_def Let_def bindE_eq_Inr reversal_line_money_def)
next
  case (booked st)
  obtain x where x: "reversal_line_result (reversal_context_of rls cls q w) recog st x = Inr l"
    using mapE_in_set [OF booked(2) assms(3)] by blast
  then show ?thesis
    by (auto simp: reversal_line_result_def Let_def bindE_eq_Inr assertInRange_eq_Inr negateMinor_eq_Inr
        reversal_line_money_def split: if_splits dest!: addMinor_range)
qed

section \<open>A line\<close>

definition line_money :: "order_profit_line \<Rightarrow> int list" where
  "line_money l =
     [pl_allocatedOrderDiscountExVatMinor l, pl_netRevenueExVatMinor l, pl_allocatedShippingRevenueExVatMinor l,
      pl_allocatedCodFeeRevenueExVatMinor l, pl_unitCostMinor l, pl_cogsMinor l,
      pl_allocatedOutboundShippingMinor l, pl_allocatedReturnShippingMinor l, pl_allocatedGatewayFeeMinor l,
      pl_allocatedCodCostMinor l, pl_reversedRevenueExVatMinor l, pl_restockedCogsMinor l,
      pl_reversalImpactMinor l, pl_contributionMarginMinor l, pl_costCoveredRevenueExVatMinor l]"

definition allocations_in_range :: "line_allocations \<Rightarrow> bool" where
  "allocations_in_range al \<longleftrightarrow> list_all tallies_in_range
     [la_shippingRevenue al, la_codFeeRevenue al, la_outbound al, la_returned al, la_gateway al, la_cod al]"

lemma order_line_range:
  assumes "order_line ibi cbi rbi al x = Inr l" and "allocations_in_range al"
    and "in_range (lrev_netExVatMinor x) \<and> in_range (lrev_allocatedOrderDiscountExVatMinor x)"
    and "\<And>i. in_range (costOf cbi i) \<and> in_range (unitCostOf cbi i)"
    and "\<And>i r. rbi i = Some r \<Longrightarrow> list_all in_range (reversal_line_money r)"
  shows "list_all in_range (line_money l)"
proof -
  let ?i = "lrev_orderItemId x"
  obtain plus minus where m: "in_range (pl_contributionMarginMinor l)"
    using assms(1) by (auto simp: order_line_def Let_def bindE_eq_Inr subMinor_eq_Inr)
  have "in_range (case rbi ?i of None \<Rightarrow> 0 | Some r \<Rightarrow> lvr_reversedRevenueExVatMinor r)"
    "in_range (case rbi ?i of None \<Rightarrow> 0 | Some r \<Rightarrow> lvr_restockedCogsMinor r)"
    "in_range (case rbi ?i of None \<Rightarrow> 0 | Some r \<Rightarrow> lvr_impactMinor r)"
    using assms(5) [of ?i] by (auto simp: reversal_line_money_def split: option.split)
  moreover have "pl_reversedRevenueExVatMinor l = (case rbi ?i of None \<Rightarrow> 0 | Some r \<Rightarrow> lvr_reversedRevenueExVatMinor r)"
    "pl_unitCostMinor l = unitCostOf cbi ?i"
    "pl_allocatedOrderDiscountExVatMinor l = lrev_allocatedOrderDiscountExVatMinor x"
    "pl_costCoveredRevenueExVatMinor l \<in> {0, lrev_netExVatMinor x}"
    using assms(1) by (auto simp: order_line_def Let_def bindE_eq_Inr split: option.splits if_splits)
  moreover have "in_range (tally (la_shippingRevenue al) k)" "in_range (tally (la_codFeeRevenue al) k)"
    "in_range (tally (la_outbound al) k)" "in_range (tally (la_returned al) k)"
    "in_range (tally (la_gateway al) k)" "in_range (tally (la_cod al) k)" for k
    using assms(2) by (simp_all add: allocations_in_range_def tallies_in_range_def)
  ultimately show ?thesis
    using m assms(3,4) order_line_facts(2,3,5-12) [OF assms(1)] by (auto simp: line_money_def)
qed

lemma allocated_line:
  assumes "allocateOrderCostsToLines items revenue cogs reversals amounts = Inr lines" and "l \<in> set lines"
  obtains al x where "x \<in> set revenue" and "allocations_in_range al"
    and "order_line (js_map (map (\<lambda>x. (item_id x, x)) items)) (cogs_map cogs)
           (js_map (map (\<lambda>r. (lvr_orderItemId r, r)) reversals)) al x = Inr l"
proof -
  let ?weights = "returnedWeights revenue reversals"
  have ne: "revenue \<noteq> []" using assms by (auto simp: allocateOrderCostsToLines_def)
  then obtain sr cf ob rt gw cd where
    sr: "spread_all items revenue (ola_shippingRevenueExVatMinor amounts) = Inr sr"
    and cf: "spread_all items revenue (ola_codFeeRevenueExVatMinor amounts) = Inr cf"
    and ob: "spreadParcels items revenue (ola_outboundParcels amounts) (ola_outboundShippingCostMinor amounts) = Inr ob"
    and rt: "(if list_ex (\<lambda>w. bucket_weight w > 0) ?weights
              then bindE (allocateMinor (ola_returnShippingCostMinor amounts) ?weights) (\<lambda>m. Inr (map_of m))
              else spreadParcels items revenue (ola_returnParcels amounts) (ola_returnShippingCostMinor amounts)) = Inr rt"
    and gw: "spread_all items revenue (ola_gatewayFeeCostMinor amounts) = Inr gw"
    and cd: "spread_all items revenue (ola_codCostMinor amounts) = Inr cd"
    and m: "mapE (order_line (js_map (map (\<lambda>x. (item_id x, x)) items)) (cogs_map cogs)
              (js_map (map (\<lambda>r. (lvr_orderItemId r, r)) reversals))
              \<lparr> la_shippingRevenue = sr, la_codFeeRevenue = cf, la_outbound = ob, la_returned = rt,
                la_gateway = gw, la_cod = cd \<rparr>) revenue = Inr lines"
    using assms(1)
    by (auto simp: allocateOrderCostsToLines_def Let_def bindE_eq_Inr cogs_map_def simp del: if_split)
  have "tallies_in_range rt"
  proof (cases "list_ex (\<lambda>w. bucket_weight w > 0) ?weights")
    case True
    then show ?thesis
      using rt by (auto simp: bindE_eq_Inr tallies_in_range_def tally_map_of intro: allocate_range)
  next
    case False
    then show ?thesis using rt spreadParcels_range by simp
  qed
  then have "allocations_in_range \<lparr> la_shippingRevenue = sr, la_codFeeRevenue = cf, la_outbound = ob,
      la_returned = rt, la_gateway = gw, la_cod = cd \<rparr>"
    using sr cf gw cd spreadParcels_range [OF ob]
    by (auto simp: allocations_in_range_def tallies_in_range_def intro: spread_all_range)
  moreover obtain x where "x \<in> set revenue"
    and "order_line (js_map (map (\<lambda>x. (item_id x, x)) items)) (cogs_map cogs)
           (js_map (map (\<lambda>r. (lvr_orderItemId r, r)) reversals))
           \<lparr> la_shippingRevenue = sr, la_codFeeRevenue = cf, la_outbound = ob, la_returned = rt,
             la_gateway = gw, la_cod = cd \<rparr> x = Inr l"
    by (rule mapE_in_set [OF m assms(2)])
  ultimately show thesis using that by blast
qed

section \<open>The lines of a result\<close>

lemma accepted_costs_range:
  assumes "well_formed inp" and "in_order inp = Some order"
  shows "costs_in_range (norm_costs (normalized_of inp order))"
proof -
  have "in_range (cost_unitCostMinor c)" if "c \<in> int_cost ` set (or_nil (in_costs inp))" for c
    using assms that by (auto simp: well_formed_def parts_ok_def int_cost_def valid_in_range split: option.splits)
  then show ?thesis
    using index_costs_values [of empty_index "or_nil (in_costs inp)"]
    by (auto simp: costs_in_range_def normalized_of_def empty_index_def)
qed

text \<open>Every line of a result comes from an item and the three parts that \<open>compute\<close> keys by it.\<close>

lemma result_line:
  assumes "order_lines n recog t = Inr lines" and "compute_terms n store frs recog = Inr (t, ds)"
    and "l \<in> set lines"
  obtains al x where "x \<in> set (orev_lines (ot_revenue t))" and "allocations_in_range al"
    and "order_line (js_map (map (\<lambda>x. (item_id x, x)) (norm_items n))) (cogs_map (ocogs_lines (ot_cogs t)))
           (js_map (map (\<lambda>r. (lvr_orderItemId r, r)) (ri_lines (ot_reversal t)))) al x = Inr l"
    and "lrev_orderItemId x \<in> item_id ` set (norm_items n)"
proof -
  obtain amounts where a: "allocateOrderCostsToLines (norm_items n) (orev_lines (ot_revenue t))
      (ocogs_lines (ot_cogs t)) (ri_lines (ot_reversal t)) amounts = Inr lines"
    using assms(1,3) by (auto simp: order_lines_def bindE_eq_Inr split: if_splits)
  have "lrev_orderItemId x \<in> item_id ` set (norm_items n)" if "x \<in> set (orev_lines (ot_revenue t))" for x
    using terms_ids(1) [OF assms(2)] that by (metis image_eqI list.set_map)
  moreover obtain al x where "x \<in> set (orev_lines (ot_revenue t))" and "allocations_in_range al"
    and "order_line (js_map (map (\<lambda>x. (item_id x, x)) (norm_items n))) (cogs_map (ocogs_lines (ot_cogs t)))
           (js_map (map (\<lambda>r. (lvr_orderItemId r, r)) (ri_lines (ot_reversal t)))) al x = Inr l"
    by (rule allocated_line [OF a assms(3)])
  ultimately show thesis using that by blast
qed

lemma result_line_money:
  assumes l: "order_lines n recog t = Inr lines" and t: "compute_terms n store frs recog = Inr (t, ds)"
    and c: "costs_in_range (norm_costs n)" and mem: "l \<in> set lines"
  shows "list_all in_range (line_money l)"
proof -
  obtain d1 d2 d7 where rv: "computeRevenue (norm_order n) (norm_items n) recog = Inr (ot_revenue t, d1)"
    and cg: "computeCogs (norm_items n) (norm_costs n) = Inr (ot_cogs t, d2)"
    and ri: "computeReversalImpact (norm_reversals n) (orev_lines (ot_revenue t)) (ocogs_lines (ot_cogs t))
         (item_quantities (norm_items n)) (item_weights (norm_items n)) recog (norm_shipments n)
         (order_fulfillmentState (norm_order n) \<in> DISPATCHED) = Inr (ot_reversal t, d7)"
    using t by (cases rule: compute_terms_cases) blast
  obtain al x where x: "x \<in> set (orev_lines (ot_revenue t))" "allocations_in_range al"
    "order_line (js_map (map (\<lambda>x. (item_id x, x)) (norm_items n))) (cogs_map (ocogs_lines (ot_cogs t)))
       (js_map (map (\<lambda>r. (lvr_orderItemId r, r)) (ri_lines (ot_reversal t)))) al x = Inr l"
    by (rule result_line [OF l t mem])
  note costs = cogs_lines_range [OF cg c]
  show ?thesis
    by (rule order_line_range [OF x(3,2) revenue_lines_range [OF rv x(1)] costOf_range [OF costs]])
      (auto dest!: js_map_Some intro: reversal_lines_range [OF ri costs])
qed

lemma result_line_counts:
  assumes l: "order_lines n recog t = Inr lines" and t: "compute_terms n store frs recog = Inr (t, ds)"
    and d: "distinct (map item_id (norm_items n))" and q: "\<And>i. i \<in> set (norm_items n) \<Longrightarrow> 0 \<le> item_quantity i"
    and mem: "l \<in> set lines"
  shows "\<exists>i \<in> set (norm_items n). pl_quantity l = item_quantity i"
    and "0 \<le> pl_reversedQuantity l \<and> pl_reversedQuantity l \<le> pl_quantity l"
    and "nonneg_costs (norm_costs n) \<Longrightarrow> pl_restockedCogsMinor l \<le> pl_cogsMinor l"
    and "pl_contributionMarginMinor l =
      pl_netRevenueExVatMinor l + pl_allocatedShippingRevenueExVatMinor l + pl_allocatedCodFeeRevenueExVatMinor l
      - pl_cogsMinor l - pl_allocatedOutboundShippingMinor l - pl_allocatedReturnShippingMinor l
      - pl_allocatedGatewayFeeMinor l - pl_allocatedCodCostMinor l + pl_reversalImpactMinor l"
proof -
  let ?items = "js_map (map (\<lambda>x. (item_id x, x)) (norm_items n))"
  let ?reversals = "js_map (map (\<lambda>r. (lvr_orderItemId r, r)) (ri_lines (ot_reversal t)))"
  obtain d2 d7 where cg: "computeCogs (norm_items n) (norm_costs n) = Inr (ot_cogs t, d2)"
    and ri: "computeReversalImpact (norm_reversals n) (orev_lines (ot_revenue t)) (ocogs_lines (ot_cogs t))
         (item_quantities (norm_items n)) (item_weights (norm_items n)) recog (norm_shipments n)
         (order_fulfillmentState (norm_order n) \<in> DISPATCHED) = Inr (ot_reversal t, d7)"
    using t by (cases rule: compute_terms_cases) blast
  obtain al x where x: "order_line ?items (cogs_map (ocogs_lines (ot_cogs t))) ?reversals al x = Inr l"
    and "lrev_orderItemId x \<in> item_id ` set (norm_items n)"
    by (rule result_line [OF l t mem])
  then obtain i where i: "i \<in> set (norm_items n)" "lrev_orderItemId x = item_id i" by blast
  have item: "?items (item_id i) = Some i" by (rule js_map_keyed [OF d i(1), where v = "\<lambda>x. x"])
  have quantity: "pl_quantity l = item_quantity i"
    using x i(2) item by (auto simp: order_line_def Let_def bindE_eq_Inr)
  then show "\<exists>i \<in> set (norm_items n). pl_quantity l = item_quantity i" using i(1) by blast
  have ordered: "or_zero (item_quantities (norm_items n) (item_id i)) = item_quantity i"
    using js_map_keyed [OF d i(1), where v = item_quantity] by (simp add: item_quantities_def or_zero_def)
  have ids: "distinct (map lrev_orderItemId (orev_lines (ot_revenue t)))" using terms_ids(1) [OF t] d by simp
  have returned: "0 \<le> lvr_reversedQuantity r \<and> lvr_reversedQuantity r \<le> item_quantity i"
    if "?reversals (item_id i) = Some r" for r
  proof -
    have r: "r \<in> set (ri_lines (ot_reversal t))" "lvr_orderItemId r = item_id i"
      using that by (auto dest!: js_map_Some)
    show ?thesis using computeReversalImpact_quantity [OF ri ids r(1)] ordered q [OF i(1)] r(2) by simp
  qed
  have "pl_reversedQuantity l = (case ?reversals (item_id i) of None \<Rightarrow> 0 | Some r \<Rightarrow> lvr_reversedQuantity r)"
    using x i(2) by (auto simp: order_line_def Let_def bindE_eq_Inr)
  then show "0 \<le> pl_reversedQuantity l \<and> pl_reversedQuantity l \<le> pl_quantity l"
    unfolding quantity using returned q [OF i(1)] by (simp split: option.split)
  show "pl_restockedCogsMinor l \<le> pl_cogsMinor l" if nn: "nonneg_costs (norm_costs n)"
  proof -
    have cost: "0 \<le> costOf (cogs_map (ocogs_lines (ot_cogs t))) k" for k
      using computeCogs_nonneg [OF cg nn q]
      by (auto simp: costOf_def cogs_map_def split: option.split dest!: js_map_Some)
    have "lvr_restockedCogsMinor r \<le> costOf (cogs_map (ocogs_lines (ot_cogs t))) (item_id i)"
      if "?reversals (item_id i) = Some r" for r
      using that terms_ids(4) [OF t] cost by (auto simp: impact_ok_def dest!: js_map_Some)
    then show ?thesis
      unfolding order_line_facts(2,12) [OF x] i(2) using cost by (simp split: option.split)
  qed
  show "pl_contributionMarginMinor l =
      pl_netRevenueExVatMinor l + pl_allocatedShippingRevenueExVatMinor l + pl_allocatedCodFeeRevenueExVatMinor l
      - pl_cogsMinor l - pl_allocatedOutboundShippingMinor l - pl_allocatedReturnShippingMinor l
      - pl_allocatedGatewayFeeMinor l - pl_allocatedCodCostMinor l + pl_reversalImpactMinor l"
    by (rule order_line_facts(4) [OF x])
qed

text \<open>All of it for the lines of a computed result whose input costs are not negative.\<close>

lemma computed_line:
  assumes "computeOrderProfit intl (Some inp) = Computed c" and "costs_nonneg inp" and "l \<in> set (opc_lines c)"
  shows "list_all in_range (line_money l)" and "pl_restockedCogsMinor l \<le> pl_cogsMinor l"
    and "0 \<le> pl_reversedQuantity l" and "pl_reversedQuantity l \<le> pl_quantity l"
    and "\<exists>i \<in> set (or_nil (in_items inp)). pl_quantity l = js_int (item_quantity i)"
    and "pl_contributionMarginMinor l =
      pl_netRevenueExVatMinor l + pl_allocatedShippingRevenueExVatMinor l + pl_allocatedCodFeeRevenueExVatMinor l
      - pl_cogsMinor l - pl_allocatedOutboundShippingMinor l - pl_allocatedReturnShippingMinor l
      - pl_allocatedGatewayFeeMinor l - pl_allocatedCodCostMinor l + pl_reversalImpactMinor l"
proof -
  obtain inp' order store frs where i: "Some inp = Some inp'" "well_formed inp'" "in_order inp' = Some order"
    "in_store inp' = Some store" "in_feeRuleSet inp' = Some frs"
    and n: "compute_normalized intl (normalized_of inp' order) store (int_fee_rule_set frs) = Inr c"
    using computeOrderProfit_Computed [OF assms(1)] .
  let ?n = "normalized_of inp' order"
  obtain t ds where t: "compute_terms ?n store (int_fee_rule_set frs) (recognition_of ?n) = Inr (t, ds)"
    and l: "order_lines ?n (recognition_of ?n) t = Inr (opc_lines c)"
    using n by (cases rule: compute_normalized_cases) blast
  note nn = normalized_costs_nonneg [of inp' order]
  have costs: "nonneg_costs (norm_costs ?n)" using nn assms(2) i(1) by simp
  note counts = result_line_counts [OF l t normalized_items(1,2) [OF i(2,3)] assms(3)]
  show "list_all in_range (line_money l)"
    by (rule result_line_money [OF l t accepted_costs_range [OF i(2,3)] assms(3)])
  show "pl_restockedCogsMinor l \<le> pl_cogsMinor l" by (rule counts(3) [OF _ costs])
  show "0 \<le> pl_reversedQuantity l" "pl_reversedQuantity l \<le> pl_quantity l" using counts(2) by simp_all
  show "\<exists>i \<in> set (or_nil (in_items inp)). pl_quantity l = js_int (item_quantity i)"
    using counts(1) normalized_items(3) [OF i(2,3)] i(1) by (auto simp: int_item_def)
  show "pl_contributionMarginMinor l =
      pl_netRevenueExVatMinor l + pl_allocatedShippingRevenueExVatMinor l + pl_allocatedCodFeeRevenueExVatMinor l
      - pl_cogsMinor l - pl_allocatedOutboundShippingMinor l - pl_allocatedReturnShippingMinor l
      - pl_allocatedGatewayFeeMinor l - pl_allocatedCodCostMinor l + pl_reversalImpactMinor l"
    by (rule counts(4))
qed

end
