(* ===== verification/ProfitStoreFacts.thy ===== *)
theory ProfitStoreFacts
  imports ProfitStore LineBounds
begin

text \<open>
  What the repository of \<open>ProfitStore\<close> guarantees: the rows of every result the engine computes pass
  the constraints of their tables, a save replaces the order's rows and marks its buckets, and the
  tables stay consistent with each other.
\<close>

section \<open>Constraints\<close>

lemma enforce_Inr [outcome_simps]: "enforce cs = Inr u \<longleftrightarrow> list_all snd cs"
proof (cases "find (\<lambda>c. \<not> snd c) cs")
  case None
  then have "\<forall>c \<in> set cs. snd c" unfolding find_None_iff by blast
  then have "list_all snd cs" by (simp add: list_all_iff)
  then show ?thesis by (simp add: enforce_def None)
next
  case (Some c)
  then have "\<not> list_all snd cs" by (auto simp: find_Some_iff list_all_iff intro: nth_mem)
  then show ?thesis by (simp add: enforce_def Some)
qed

lemma enforce_passes: "list_all snd cs \<Longrightarrow> enforce cs = Inr ()"
  by (simp add: enforce_Inr)

lemma column_minor_written: "column_minor (minorToNumeric v) = v"
proof -
  obtain w f where m: "minorToNumeric v = (if v < 0 then ''-'' else []) @ w @ ''.'' @ f"
    and p: "w \<noteq> []" "list_all is_digit w" "list_all is_digit f" and len: "length f = 2"
    and worth: "digits_val w * 100 + digits_val f = \<bar>v\<bar>" by (rule minorToNumeric_parts)
  have sign: "is_sign (if v < 0 then ''-'' else [])" by (simp add: is_sign_def)
  show ?thesis
    unfolding column_minor_def m match_decimal_point [OF sign p]
    using len worth by (auto simp: MONEY_SCALE_def)
qed

lemma source_literal: "literal_of COST_SOURCES s \<in> set (map fst COST_SOURCES)"
  by (cases s) (simp_all add: literal_of_def COST_SOURCES_def)

text \<open>A result whose amounts the columns can hold and whose goods do not come back twice.\<close>

lemma computed_row_passes:
  assumes "list_all in_range (totals_money (opc_totals c))"
    and "opt_restockedCogsMinor (opc_totals c) \<le> opt_cogsMinor (opc_totals c)"
    and "fits_int4 (opc_calcVersion c)" and "\<And>b. opt_marginBps (opc_totals c) = Some b \<Longrightarrow> fits_int4 b"
  shows "list_all snd (profit_row_checks (computed_row now c))"
proof -
  have money: "profit_row_money (computed_row now c) = map (\<lambda>v. Some (minorToNumeric v)) (totals_money (opc_totals c))"
    by (simp add: profit_row_money_def computed_row_def Let_def totals_money_def)
  have "\<forall>m \<in> set (profit_row_money (computed_row now c)). case m of None \<Rightarrow> True | Some s \<Rightarrow> fits_money_column s"
    unfolding money using assms(1) by (auto simp: list_all_iff minorToNumeric_fits)
  moreover have "recognition_kind r \<in> {''recognized'', ''cost_only'', ''excluded''}" for r by (cases r) auto
  ultimately show ?thesis
    using assms(2-4) unfolding profit_row_checks_def list.pred_inject
    by (auto simp: computed_row_def Let_def money_le_def column_minor_written split: option.split)
qed

lemma rejected_row_passes:
  assumes "fits_int4 (opr_calcVersion r)"
  shows "list_all snd (profit_row_checks (rejected_row now r))"
  using assms unfolding profit_row_checks_def list.pred_inject
  by (simp add: rejected_row_def money_le_def profit_row_money_def)

lemma checks_ignore_keys:
  "profit_row_checks (r\<lparr> pr_orderId := i, pr_storeId := s \<rparr>) = profit_row_checks r"
  by (simp add: profit_row_checks_def profit_row_money_def)

lemma line_row_passes:
  assumes "list_all in_range (line_money l)" and "pl_restockedCogsMinor l \<le> pl_cogsMinor l"
    and "0 \<le> pl_quantity l" and "fits_int4 (pl_quantity l)" and "fits_int4 (pl_reversedQuantity l)"
    and "fits_int4 (opc_calcVersion c)"
    and "pl_contributionMarginMinor l =
      pl_netRevenueExVatMinor l + pl_allocatedShippingRevenueExVatMinor l + pl_allocatedCodFeeRevenueExVatMinor l
      - pl_cogsMinor l - pl_allocatedOutboundShippingMinor l - pl_allocatedReturnShippingMinor l
      - pl_allocatedGatewayFeeMinor l - pl_allocatedCodCostMinor l + pl_reversalImpactMinor l"
  shows "list_all snd (line_row_checks (line_row c l))"
proof -
  have money: "line_row_money (line_row c l) = map minorToNumeric (line_money l)"
    by (simp add: line_row_money_def line_row_def line_money_def)
  have "\<forall>s \<in> set (line_row_money (line_row c l)). fits_money_column s"
    unfolding money using assms(1) by (auto simp: list_all_iff minorToNumeric_fits)
  then show ?thesis
    using assms(2-7) source_literal unfolding line_row_checks_def list.pred_inject
    by (simp add: line_row_def column_minor_written)
qed

section \<open>Marking buckets\<close>

definition store_dirty :: "profit_db \<Rightarrow> string \<Rightarrow> string \<Rightarrow> bool" where
  "store_dirty db store day \<longleftrightarrow> (\<exists>r \<in> set (pd_storeRollups db). store_bucket r = (store, day) \<and> sr_dirty r)"

definition variant_dirty :: "profit_db \<Rightarrow> string \<Rightarrow> string \<Rightarrow> string \<times> string \<Rightarrow> bool" where
  "variant_dirty db store day key \<longleftrightarrow>
     (\<exists>r \<in> set (pd_variantRollups db). variant_bucket r = (store, day, key) \<and> vr_dirty r)"

lemma upsert_has:
  assumes "key r = k" and "Q r" and "\<And>x. key x = k \<Longrightarrow> key (f x) = k \<and> Q (f x)"
  shows "\<exists>x \<in> set (upsert key r f t). key x = k \<and> Q x"
proof (cases "k \<in> key ` set t")
  case True
  then obtain y where y: "y \<in> set t" "key y = k" by blast
  then have "f y \<in> set (upsert key r f t)" using assms(1) True by (auto simp: upsert_def in_update_where)
  then show ?thesis using assms(3) y(2) by blast
next
  case False
  then show ?thesis using assms(1,2) by (auto simp: upsert_def)
qed

lemma upsert_keeps:
  assumes "x \<in> set t" and "key x = k" and "Q x" and "\<And>y. key y = key r \<Longrightarrow> key (f y) = key y \<and> Q (f y)"
  shows "\<exists>y \<in> set (upsert key r f t). key y = k \<and> Q y"
proof (cases "key r \<in> key ` set t")
  case True
  then have u: "upsert key r f t = update_where (\<lambda>x. key x = key r) f t" by (simp add: upsert_def)
  have "(if key x = key r then f x else x) \<in> set (upsert key r f t)"
    unfolding u in_update_where using assms(1) by blast
  moreover have "key (if key x = key r then f x else x) = k \<and> Q (if key x = key r then f x else x)"
    using assms(2-4) by auto
  ultimately show ?thesis by blast
next
  case False
  then show ?thesis using assms(1-3) by (auto simp: upsert_def)
qed

lemma store_bucket_new [simp]: "store_bucket (new_store_bucket s d now) = (s, d)" "sr_dirty (new_store_bucket s d now)"
  by (simp_all add: store_bucket_def new_store_bucket_def)

lemma variant_bucket_new [simp]:
  "variant_bucket (new_variant_bucket s d now k) = (s, d, k)" "vr_dirty (new_variant_bucket s d now k)"
  by (simp_all add: variant_bucket_def new_variant_bucket_def)

lemma bucket_flagged [simp]:
  "store_bucket (r\<lparr> sr_dirty := x, sr_dirtiedAt := y \<rparr>) = store_bucket r"
  "variant_bucket (v\<lparr> vr_dirty := x, vr_dirtiedAt := y \<rparr>) = variant_bucket v"
  by (simp_all add: store_bucket_def variant_bucket_def)

lemma mark_store_dirty_total:
  assumes "store \<in> pd_stores db"
  obtains t where "mark_store_dirty store day now db = Inr (db\<lparr> pd_storeRollups := t \<rparr>)"
  using that assms by (simp add: mark_store_dirty_def)

lemma mark_store_dirty_facts:
  assumes "mark_store_dirty store day now db = Inr db'"
  shows "db' = db\<lparr> pd_storeRollups := pd_storeRollups db' \<rparr>" and "store_dirty db' store day"
    and "store_dirty db s d \<Longrightarrow> store_dirty db' s d"
    and "store_bucket ` set (pd_storeRollups db') = insert (store, day) (store_bucket ` set (pd_storeRollups db))"
proof -
  let ?f = "\<lambda>r. r\<lparr> sr_dirty := True, sr_dirtiedAt := now \<rparr>"
  have db': "db' = db\<lparr> pd_storeRollups := upsert store_bucket (new_store_bucket store day now) ?f (pd_storeRollups db) \<rparr>"
    using assms by (auto simp: mark_store_dirty_def split: if_splits)
  then show "db' = db\<lparr> pd_storeRollups := pd_storeRollups db' \<rparr>" by simp
  show "store_dirty db' store day"
    unfolding store_dirty_def db' by simp (rule upsert_has; simp)
  show "store_bucket ` set (pd_storeRollups db') = insert (store, day) (store_bucket ` set (pd_storeRollups db))"
    unfolding db' by (simp add: upsert_keys)
  assume "store_dirty db s d"
  then obtain r where "r \<in> set (pd_storeRollups db)" "store_bucket r = (s, d)" "sr_dirty r"
    by (auto simp: store_dirty_def)
  then show "store_dirty db' s d"
    unfolding store_dirty_def db' by simp (rule upsert_keeps; simp)
qed

lemma mark_variant_dirty_facts:
  assumes "mark_variant_dirty store day now db key = Inr db'"
  shows "db' = db\<lparr> pd_variantRollups := pd_variantRollups db' \<rparr>" and "variant_dirty db' store day key"
    and "variant_dirty db s d k \<Longrightarrow> variant_dirty db' s d k"
proof -
  let ?f = "\<lambda>r. r\<lparr> vr_dirty := True, vr_dirtiedAt := now \<rparr>"
  have db': "db' = db\<lparr> pd_variantRollups := upsert variant_bucket (new_variant_bucket store day now key) ?f (pd_variantRollups db) \<rparr>"
    using assms by (auto simp: mark_variant_dirty_def split: if_splits)
  then show "db' = db\<lparr> pd_variantRollups := pd_variantRollups db' \<rparr>" by simp
  show "variant_dirty db' store day key"
    unfolding variant_dirty_def db' by simp (rule upsert_has; simp)
  assume "variant_dirty db s d k"
  then obtain r where "r \<in> set (pd_variantRollups db)" "variant_bucket r = (s, d, k)" "vr_dirty r"
    by (auto simp: variant_dirty_def)
  then show "variant_dirty db' s d k"
    unfolding variant_dirty_def db' by simp (rule upsert_keeps; simp)
qed

lemma mark_variants:
  "foldE (mark_variant_dirty store day now) db keys = Inr db' \<Longrightarrow>
     db' = db\<lparr> pd_variantRollups := pd_variantRollups db' \<rparr>
     \<and> (variant_dirty db s d k \<longrightarrow> variant_dirty db' s d k)
     \<and> (\<forall>k \<in> set keys. variant_dirty db' store day k)"
proof (induction keys arbitrary: db s d k)
  case Nil
  then show ?case by simp
next
  case (Cons key keys)
  then obtain d1 where d1: "mark_variant_dirty store day now db key = Inr d1"
    and r: "foldE (mark_variant_dirty store day now) d1 keys = Inr db'"
    by (auto simp: bindE_eq_Inr)
  note one = mark_variant_dirty_facts [OF d1]
  note rest = Cons.IH [OF r]
  have "db' = db\<lparr> pd_variantRollups := pd_variantRollups db' \<rparr>"
    using arg_cong [OF one(1), of "\<lambda>x. x\<lparr> pd_variantRollups := pd_variantRollups db' \<rparr>"] rest by simp
  then show ?case using one rest by simp
qed

lemma mark_variants_total:
  "store \<in> pd_stores db \<Longrightarrow> \<exists>db'. foldE (mark_variant_dirty store day now) db keys = Inr db'"
proof (induction keys arbitrary: db)
  case Nil
  then show ?case by simp
next
  case (Cons key keys)
  then show ?case by (simp add: mark_variant_dirty_def)
qed

text \<open>Every line has a bucket under its own key, up to a separator inside a product's identifier.\<close>

definition line_variant :: "order_profit_line \<Rightarrow> string \<times> string" where
  "line_variant l = (pl_platformProductId l, or_empty (pl_platformVariantId l))"

lemma joined_inject:
  assumes "p @ z # v = q @ z # w" and "z \<notin> set p" and "z \<notin> set q"
  shows "p = q \<and> v = w"
proof -
  have "takeWhile (\<lambda>c. c \<noteq> z) (p @ z # v) = p" and "takeWhile (\<lambda>c. c \<noteq> z) (q @ z # w) = q"
    using assms(2,3) by (subst takeWhile_append2; fastforce)+
  then show ?thesis using assms(1) by simp
qed

lemma update_all:
  "map_of (foldl (\<lambda>m x. AList.update (key x) (val x) m) [] xs) k
     = (case find (\<lambda>x. key x = k) (rev xs) of None \<Rightarrow> None | Some x \<Rightarrow> Some (val x))"
  by (induction xs rule: rev_induct) (auto simp: update_conv')

lemma find_SomeD: "find P xs = Some x \<Longrightarrow> x \<in> set xs \<and> P x"
  by (induction xs) (auto split: if_splits)

lemma variant_keys_cover:
  assumes "\<And>l. l \<in> set lines \<Longrightarrow> CHR ''|'' \<notin> set (pl_platformProductId l)" and "l \<in> set lines"
  shows "line_variant l \<in> set (variant_keys lines)"
proof -
  define key where "key x = fst (line_variant x) @ CHR ''|'' # snd (line_variant x)" for x
  let ?m = "foldl (\<lambda>m x. AList.update (key x) (line_variant x) m) [] lines"
  have keys: "variant_keys lines = map snd ?m"
    by (simp add: variant_keys_def line_variant_def key_def Let_def)
  have "find (\<lambda>x. key x = key l) (rev lines) \<noteq> None" using assms(2) by (auto simp: find_None_iff)
  then obtain x where f: "find (\<lambda>x. key x = key l) (rev lines) = Some x" by blast
  then have x: "x \<in> set lines" "key x = key l" using find_SomeD [OF f] by simp_all
  have "line_variant x = line_variant l"
    by (rule prod_eqI; use joined_inject [OF x(2) [unfolded key_def]] assms(1) [OF assms(2)] assms(1) [OF x(1)]
        in \<open>simp add: line_variant_def\<close>)
  moreover have "map_of ?m (key l) = Some (line_variant x)" by (simp add: update_all f)
  ultimately have "(key l, line_variant l) \<in> set ?m" by (intro map_of_SomeD) simp
  then have "snd (key l, line_variant l) \<in> snd ` set ?m" by (rule imageI)
  then show ?thesis unfolding keys by simp
qed

section \<open>A save\<close>

text \<open>The table of results keeps one row per order: a computed row replaces the one before.\<close>

definition put_profit :: "profit_row \<Rightarrow> profit_row list \<Rightarrow> profit_row list" where
  "put_profit r t = upsert pr_orderId r (\<lambda>_. r) t"

interpretation profit_table: keyed_store "\<lambda>t k. row_with pr_orderId k t" put_profit pr_orderId
  by unfold_locales (auto simp: put_profit_def row_with_upsert split: option.split)

lemma computed_keys [simp]:
  "pr_orderId (computed_row now c) = opc_orderId c" "pr_storeId (computed_row now c) = opc_storeId c"
  "pr_feeRuleSetId (computed_row now c) = Some (opc_feeRuleSetId c)"
  "pr_businessDate (computed_row now c) = Some (opc_businessDate c)" "pr_status (computed_row now c) = ''computed''"
  "pr_calcVersion (computed_row now c) = opc_calcVersion c"
  "pr_orderId (computed_update now c old) = pr_orderId old"
  by (simp_all add: computed_row_def computed_update_def Let_def)

lemma rejected_keys [simp]:
  "pr_orderId (rejected_row now r) = opr_orderId r" "pr_storeId (rejected_row now r) = opr_storeId r"
  "pr_feeRuleSetId (rejected_row now r) = None" "pr_businessDate (rejected_row now r) = None"
  "pr_contributionMarginMinor (rejected_row now r) = None" "pr_status (rejected_row now r) = ''rejected''"
  "pr_orderId (rejected_update now r old) = pr_orderId old" "pr_storeId (rejected_update now r old) = pr_storeId old"
  "pr_feeRuleSetId (rejected_update now r old) = None" "pr_businessDate (rejected_update now r old) = None"
  "pr_contributionMarginMinor (rejected_update now r old) = None" "pr_status (rejected_update now r old) = ''rejected''"
  by (simp_all add: rejected_row_def rejected_update_def)

lemma computed_update_same:
  "pr_orderId old = opc_orderId c \<Longrightarrow> computed_update now c old = computed_row now c"
  by (simp add: computed_update_def computed_row_def Let_def)

lemma upsert_computed:
  "upsert pr_orderId (computed_row now c) (computed_update now c) t = put_profit (computed_row now c) t"
  by (auto simp: upsert_def put_profit_def update_where_def computed_update_same)

lemma upsert_profit_Inr:
  "upsert_profit r f db = Inr db' \<longleftrightarrow>
     (let stored = (case row_with pr_orderId (pr_orderId r) (pd_profits db) of None \<Rightarrow> r | Some old \<Rightarrow> f old)
      in list_all snd (profit_row_checks r) \<and> list_all snd (profit_row_checks stored)
         \<and> list_all snd (profit_row_refs db stored)
         \<and> db' = db\<lparr> pd_profits := upsert pr_orderId r f (pd_profits db) \<rparr>)"
  by (auto simp: upsert_profit_def Let_def bindE_eq_Inr enforce_Inr)

lemma insert_line_Inr:
  "insert_line db l = Inr db' \<longleftrightarrow> list_all snd (line_row_checks l) \<and> list_all snd (line_row_refs db l)
     \<and> db' = db\<lparr> pd_lines := pd_lines db @ [l] \<rparr>"
  by (auto simp: insert_line_def bindE_eq_Inr enforce_Inr)

lemma insert_lines_facts:
  "foldE insert_line db rows = Inr db' \<Longrightarrow>
     db' = db\<lparr> pd_lines := pd_lines db @ rows \<rparr>
     \<and> list_all (\<lambda>l. list_all snd (line_row_checks l) \<and> plr_orderId l \<in> pr_orderId ` set (pd_profits db)) rows
     \<and> (distinct (map line_key (pd_lines db)) \<longrightarrow> distinct (map line_key (pd_lines db @ rows)))"
proof (induction rows arbitrary: db)
  case Nil
  then show ?case by simp
next
  case (Cons l rows)
  let ?d = "db\<lparr> pd_lines := pd_lines db @ [l] \<rparr>"
  have l: "list_all snd (line_row_checks l)" "list_all snd (line_row_refs db l)" "foldE insert_line ?d rows = Inr db'"
    using Cons.prems by (auto simp: insert_line_Inr bindE_eq_Inr)
  show ?case using Cons.IH [OF l(3)] l(1,2) by (simp add: line_row_refs_def)
qed

lemma insert_lines_total:
  assumes "list_all (\<lambda>l. list_all snd (line_row_checks l) \<and> plr_orderId l \<in> pr_orderId ` set (pd_profits db)
       \<and> plr_storeId l \<in> pd_stores db) rows"
    and "distinct (map line_key rows)" and "line_key ` set (pd_lines db) \<inter> line_key ` set rows = {}"
  shows "foldE insert_line db rows = Inr (db\<lparr> pd_lines := pd_lines db @ rows \<rparr>)"
  using assms
proof (induction rows arbitrary: db)
  case Nil
  then show ?case by simp
next
  case (Cons l rows)
  let ?d = "db\<lparr> pd_lines := pd_lines db @ [l] \<rparr>"
  have "insert_line db l = Inr ?d"
    using Cons.prems by (auto simp: insert_line_Inr line_row_refs_def)
  moreover have "foldE insert_line ?d rows = Inr (?d\<lparr> pd_lines := pd_lines ?d @ rows \<rparr>)"
    by (rule Cons.IH) (use Cons.prems in auto)
  ultimately show ?case by simp
qed

lemma markDirty_facts:
  assumes "markDirty store day lines now db = Inr db'"
  shows "db' = db\<lparr> pd_storeRollups := pd_storeRollups db', pd_variantRollups := pd_variantRollups db' \<rparr>"
    and "store_dirty db' store day" and "k \<in> set (variant_keys lines) \<Longrightarrow> variant_dirty db' store day k"
    and "store_bucket ` set (pd_storeRollups db') = insert (store, day) (store_bucket ` set (pd_storeRollups db))"
proof -
  obtain d1 where d1: "mark_store_dirty store day now db = Inr d1"
    and r: "(if length (variant_keys lines) = 0 then Inr d1
             else foldE (mark_variant_dirty store day now) d1 (variant_keys lines)) = Inr db'"
    using assms by (auto simp: markDirty_def bindE_eq_Inr Let_def simp del: length_0_conv)
  then have f: "foldE (mark_variant_dirty store day now) d1 (variant_keys lines) = Inr db'"
    by (cases "variant_keys lines") auto
  note one = mark_store_dirty_facts [OF d1] and rest = mark_variants [OF f]
  have eq: "pd_storeRollups db' = pd_storeRollups d1"
    using rest by (metis profit_db.ext_inject profit_db.surjective profit_db.update_convs(7))
  show "db' = db\<lparr> pd_storeRollups := pd_storeRollups db', pd_variantRollups := pd_variantRollups db' \<rparr>"
    using arg_cong [OF one(1), of "\<lambda>x. x\<lparr> pd_variantRollups := pd_variantRollups db' \<rparr>"] rest eq by simp
  show "store_dirty db' store day" using one(2) eq by (simp add: store_dirty_def)
  show "k \<in> set (variant_keys lines) \<Longrightarrow> variant_dirty db' store day k" using rest by blast
  show "store_bucket ` set (pd_storeRollups db') = insert (store, day) (store_bucket ` set (pd_storeRollups db))"
    unfolding eq by (rule one(4))
qed

lemma markDirty_total:
  assumes "store \<in> pd_stores db"
  shows "\<exists>db'. markDirty store day lines now db = Inr db'"
proof -
  obtain t where t: "mark_store_dirty store day now db = Inr (db\<lparr> pd_storeRollups := t \<rparr>)"
    by (rule mark_store_dirty_total [OF assms])
  obtain db' where "foldE (mark_variant_dirty store day now) (db\<lparr> pd_storeRollups := t \<rparr>) (variant_keys lines) = Inr db'"
    using mark_variants_total [of store "db\<lparr> pd_storeRollups := t \<rparr>" day now "variant_keys lines"] assms by auto
  then show ?thesis by (simp add: markDirty_def t Let_def)
qed

definition lines_of :: "string \<Rightarrow> profit_db \<Rightarrow> profit_line_row list" where
  "lines_of orderId db = filter (\<lambda>l. plr_orderId l = orderId) (pd_lines db)"

lemma line_row_ids [simp]:
  "plr_orderId (line_row c l) = opc_orderId c" "plr_storeId (line_row c l) = opc_storeId c"
  "plr_orderItemId (line_row c l) = pl_orderItemId l" "plr_businessDate (line_row c l) = opc_businessDate c"
  "plr_calcVersion (line_row c l) = opc_calcVersion c"
  by (simp_all add: line_row_def)

text \<open>What a successful save of a computed result leaves behind.\<close>

lemma save_computed_Inr:
  assumes "save_computed ck c db = Inr db'"
  shows "pd_profits db' = put_profit (computed_row (ck_row ck) c) (pd_profits db)"
    and "pd_lines db' = filter (\<lambda>l. plr_orderId l \<noteq> opc_orderId c) (pd_lines db) @ map (line_row c) (opc_lines c)"
    and "pd_orders db' = pd_orders db" "pd_stores db' = pd_stores db" "pd_feeRuleSets db' = pd_feeRuleSets db"
    and "store_dirty db' (opc_storeId c) (opc_businessDate c)"
    and "k \<in> set (variant_keys (opc_lines c)) \<Longrightarrow> variant_dirty db' (opc_storeId c) (opc_businessDate c) k"
    and "store_bucket ` set (pd_storeRollups db')
         = insert (opc_storeId c, opc_businessDate c) (store_bucket ` set (pd_storeRollups db))"
    and "list_all snd (profit_row_checks (computed_row (ck_row ck) c))"
    and "list_all (\<lambda>l. list_all snd (line_row_checks (line_row c l))) (opc_lines c)"
    and "distinct (map line_key (pd_lines db)) \<Longrightarrow> distinct (map line_key (pd_lines db'))"
proof -
  let ?r = "computed_row (ck_row ck) c"
  let ?d1 = "db\<lparr> pd_profits := put_profit ?r (pd_profits db) \<rparr>"
  let ?d2 = "delete_lines (opc_orderId c) ?d1"
  let ?rows = "map (line_row c) (opc_lines c)"
  obtain d1 d3 where d1: "upsert_profit ?r (computed_update (ck_row ck) c) db = Inr d1"
    and l: "foldE insert_line (delete_lines (opc_orderId c) d1) ?rows = Inr d3"
    and m: "markDirty (opc_storeId c) (opc_businessDate c) (opc_lines c) (ck_dirty ck) d3 = Inr db'"
    using assms by (auto simp: save_computed_def bindE_eq_Inr)
  have checks: "list_all snd (profit_row_checks ?r)" and d1': "d1 = ?d1"
    using d1 by (auto simp: upsert_profit_Inr upsert_computed Let_def)
  show "list_all snd (profit_row_checks ?r)" by (rule checks)
  note ins = insert_lines_facts [OF l [unfolded d1']]
  then have d3: "d3 = ?d2\<lparr> pd_lines := pd_lines ?d2 @ ?rows \<rparr>"
    and lc: "list_all (\<lambda>l. list_all snd (line_row_checks (line_row c l))) (opc_lines c)"
    by (auto simp: list_all_iff)
  show "list_all (\<lambda>l. list_all snd (line_row_checks (line_row c l))) (opc_lines c)" by (rule lc)
  note dirty = markDirty_facts [OF m]
  have db': "db' = d3\<lparr> pd_storeRollups := pd_storeRollups db', pd_variantRollups := pd_variantRollups db' \<rparr>"
    by (rule dirty(1))
  have same: "pd_profits db' = pd_profits d3" "pd_lines db' = pd_lines d3" "pd_orders db' = pd_orders d3"
    "pd_stores db' = pd_stores d3" "pd_feeRuleSets db' = pd_feeRuleSets d3"
    by (subst db', simp)+
  show "pd_profits db' = put_profit ?r (pd_profits db)" "pd_orders db' = pd_orders db"
    "pd_stores db' = pd_stores db" "pd_feeRuleSets db' = pd_feeRuleSets db"
    using same d3 by (simp_all add: delete_lines_def)
  show lines: "pd_lines db' = filter (\<lambda>l. plr_orderId l \<noteq> opc_orderId c) (pd_lines db) @ ?rows"
    using same d3 by (simp add: delete_lines_def delete_where_def)
  show "store_dirty db' (opc_storeId c) (opc_businessDate c)" by (rule dirty(2))
  show "k \<in> set (variant_keys (opc_lines c)) \<Longrightarrow> variant_dirty db' (opc_storeId c) (opc_businessDate c) k"
    by (rule dirty(3))
  show "store_bucket ` set (pd_storeRollups db')
      = insert (opc_storeId c, opc_businessDate c) (store_bucket ` set (pd_storeRollups db))"
    using dirty(4) d3 by (simp add: delete_lines_def)
  assume "distinct (map line_key (pd_lines db))"
  then have "distinct (map line_key (pd_lines ?d2))"
    by (simp add: delete_lines_def delete_where_def distinct_map_filter)
  then show "distinct (map line_key (pd_lines db'))"
    using ins lines by (simp add: delete_lines_def delete_where_def)
qed

lemma save_computed_total:
  assumes row: "list_all snd (profit_row_checks (computed_row (ck_row ck) c))"
    and refs: "opc_orderId c \<in> pd_orders db" "opc_storeId c \<in> pd_stores db" "opc_feeRuleSetId c \<in> pd_feeRuleSets db"
    and lines: "list_all (\<lambda>l. list_all snd (line_row_checks (line_row c l))) (opc_lines c)"
    and d: "distinct (map pl_orderItemId (opc_lines c))"
  shows "\<exists>db'. save_computed ck c db = Inr db'"
proof -
  let ?r = "computed_row (ck_row ck) c"
  let ?d1 = "db\<lparr> pd_profits := put_profit ?r (pd_profits db) \<rparr>"
  let ?d2 = "delete_lines (opc_orderId c) ?d1"
  let ?rows = "map (line_row c) (opc_lines c)"
  have stored: "(case row_with pr_orderId (opc_orderId c) (pd_profits db) of None \<Rightarrow> ?r
      | Some old \<Rightarrow> computed_update (ck_row ck) c old) = ?r"
    by (auto split: option.split dest!: row_with_Some intro: computed_update_same)
  have "upsert_profit ?r (computed_update (ck_row ck) c) db = Inr ?d1"
    using row refs by (simp add: upsert_profit_Inr upsert_computed stored Let_def profit_row_refs_def)
  moreover have "foldE insert_line ?d2 ?rows = Inr (?d2\<lparr> pd_lines := pd_lines ?d2 @ ?rows \<rparr>)"
  proof (rule insert_lines_total)
    have "opc_orderId c \<in> pr_orderId ` set (put_profit ?r (pd_profits db))"
      by (simp add: put_profit_def upsert_keys)
    then show "list_all (\<lambda>l. list_all snd (line_row_checks l) \<and> plr_orderId l \<in> pr_orderId ` set (pd_profits ?d2)
        \<and> plr_storeId l \<in> pd_stores ?d2) ?rows"
      using lines refs by (auto simp: list_all_iff delete_lines_def)
    show "distinct (map line_key ?rows)"
      using d by (auto simp: distinct_map line_key_def inj_on_def comp_def)
    show "line_key ` set (pd_lines ?d2) \<inter> line_key ` set ?rows = {}"
      by (auto simp: delete_lines_def delete_where_def line_key_def)
  qed
  moreover obtain db' where "markDirty (opc_storeId c) (opc_businessDate c) (opc_lines c) (ck_dirty ck)
      (?d2\<lparr> pd_lines := pd_lines ?d2 @ ?rows \<rparr>) = Inr db'"
    using markDirty_total [of "opc_storeId c" "?d2\<lparr> pd_lines := pd_lines ?d2 @ ?rows \<rparr>" "opc_businessDate c"
        "opc_lines c" "ck_dirty ck"] refs by (auto simp: delete_lines_def)
  ultimately show ?thesis by (simp add: save_computed_def)
qed

text \<open>The same of a rejected result.\<close>

lemma rejected_update_passes:
  "fits_int4 (opr_calcVersion r) \<Longrightarrow> list_all snd (profit_row_checks (rejected_update now r old))"
  using rejected_row_passes [of r now] by (simp add: rejected_update_def checks_ignore_keys)

definition stored_rejected :: "save_clock \<Rightarrow> order_profit_rejected \<Rightarrow> profit_db \<Rightarrow> profit_row" where
  "stored_rejected ck r db =
     (case row_with pr_orderId (opr_orderId r) (pd_profits db) of
        None \<Rightarrow> rejected_row (ck_default ck) r | Some old \<Rightarrow> rejected_update (ck_row ck) r old)"

lemma stored_rejected_sel [simp]:
  "pr_orderId (stored_rejected ck r db) = opr_orderId r" "pr_status (stored_rejected ck r db) = ''rejected''"
  "pr_businessDate (stored_rejected ck r db) = None" "pr_contributionMarginMinor (stored_rejected ck r db) = None"
  "pr_feeRuleSetId (stored_rejected ck r db) = None"
  by (auto simp: stored_rejected_def split: option.split dest: row_with_Some)

lemma rejected_upsert_keys:
  "pr_orderId (rejected_update now r x) = pr_orderId x" by simp

lemma save_rejected_Inr:
  assumes "save_rejected ck r db = Inr db'"
  shows "pd_profits db' = upsert pr_orderId (rejected_row (ck_default ck) r) (rejected_update (ck_row ck) r) (pd_profits db)"
    and "pd_lines db' = filter (\<lambda>l. plr_orderId l \<noteq> opr_orderId r) (pd_lines db)"
    and "pd_orders db' = pd_orders db" "pd_stores db' = pd_stores db" "pd_feeRuleSets db' = pd_feeRuleSets db"
    and "pd_variantRollups db' = pd_variantRollups db"
    and "row_with pr_orderId (opr_orderId r) (pd_profits db) = Some old \<Longrightarrow> pr_businessDate old = Some day \<Longrightarrow>
         store_dirty db' (opr_storeId r) day"
    and "store_bucket ` set (pd_storeRollups db) \<subseteq> store_bucket ` set (pd_storeRollups db')"
    and "list_all snd (profit_row_checks (stored_rejected ck r db))"
proof -
  let ?t = "upsert pr_orderId (rejected_row (ck_default ck) r) (rejected_update (ck_row ck) r) (pd_profits db)"
  let ?d2 = "delete_lines (opr_orderId r) (db\<lparr> pd_profits := ?t \<rparr>)"
  obtain d1 where d1: "upsert_profit (rejected_row (ck_default ck) r) (rejected_update (ck_row ck) r) db = Inr d1"
    and m: "(case Option.bind (row_with pr_orderId (opr_orderId r) (pd_profits db)) pr_businessDate of
        None \<Rightarrow> Inr (delete_lines (opr_orderId r) d1)
      | Some day \<Rightarrow> mark_store_dirty (opr_storeId r) day (ck_dirty ck) (delete_lines (opr_orderId r) d1)) = Inr db'"
    using assms by (auto simp: save_rejected_def bindE_eq_Inr Let_def)
  have d1': "d1 = db\<lparr> pd_profits := ?t \<rparr>" and checks: "list_all snd (profit_row_checks (stored_rejected ck r db))"
    using d1 by (auto simp: upsert_profit_Inr stored_rejected_def Let_def)
  show "list_all snd (profit_row_checks (stored_rejected ck r db))" by (rule checks)
  have "db' = ?d2\<lparr> pd_storeRollups := pd_storeRollups db' \<rparr>
      \<and> store_bucket ` set (pd_storeRollups db) \<subseteq> store_bucket ` set (pd_storeRollups db')"
    using m mark_store_dirty_facts [of "opr_storeId r" _ "ck_dirty ck" ?d2 db']
    unfolding d1' by (auto simp: delete_lines_def split: option.splits)
  then have eq: "db' = ?d2\<lparr> pd_storeRollups := pd_storeRollups db' \<rparr>"
    and "store_bucket ` set (pd_storeRollups db) \<subseteq> store_bucket ` set (pd_storeRollups db')" by blast+
  then show "store_bucket ` set (pd_storeRollups db) \<subseteq> store_bucket ` set (pd_storeRollups db')" by blast
  show "pd_profits db' = ?t" "pd_orders db' = pd_orders db" "pd_stores db' = pd_stores db"
    "pd_feeRuleSets db' = pd_feeRuleSets db" "pd_variantRollups db' = pd_variantRollups db"
    "pd_lines db' = filter (\<lambda>l. plr_orderId l \<noteq> opr_orderId r) (pd_lines db)"
    by (subst eq, simp add: delete_lines_def delete_where_def)+
  show "store_dirty db' (opr_storeId r) day"
    if "row_with pr_orderId (opr_orderId r) (pd_profits db) = Some old" "pr_businessDate old = Some day"
    using m that mark_store_dirty_facts(2) by simp
qed

lemma save_rejected_total:
  assumes "fits_int4 (opr_calcVersion r)" and "opr_orderId r \<in> pd_orders db" and "opr_storeId r \<in> pd_stores db"
    and "\<And>old. old \<in> set (pd_profits db) \<Longrightarrow> pr_storeId old \<in> pd_stores db"
  shows "\<exists>db'. save_rejected ck r db = Inr db'"
proof -
  let ?t = "upsert pr_orderId (rejected_row (ck_default ck) r) (rejected_update (ck_row ck) r) (pd_profits db)"
  let ?d2 = "delete_lines (opr_orderId r) (db\<lparr> pd_profits := ?t \<rparr>)"
  have "list_all snd (profit_row_refs db (stored_rejected ck r db))"
    using assms(2-4) by (auto simp: profit_row_refs_def stored_rejected_def split: option.split dest: row_with_Some)
  moreover have "list_all snd (profit_row_checks (stored_rejected ck r db))"
    using rejected_row_passes [OF assms(1)] rejected_update_passes [OF assms(1)]
    by (simp add: stored_rejected_def split: option.split)
  ultimately have "upsert_profit (rejected_row (ck_default ck) r) (rejected_update (ck_row ck) r) db
      = Inr (db\<lparr> pd_profits := ?t \<rparr>)"
    using rejected_row_passes [OF assms(1)] by (simp add: upsert_profit_Inr stored_rejected_def Let_def)
  moreover have "\<exists>db'. mark_store_dirty (opr_storeId r) day (ck_dirty ck) ?d2 = Inr db'" for day
    using mark_store_dirty_total [of "opr_storeId r" ?d2 day "ck_dirty ck"] assms(3)
    by (auto simp: delete_lines_def)
  ultimately show ?thesis by (auto simp: save_rejected_def Let_def split: option.split)
qed

section \<open>The tables stay consistent\<close>

text \<open>
  One row per order and one per order and item; every row passes its constraints; every line belongs
  to a computed row of the same store, day and version, so a rejected order has none; and every
  day a row counts towards has a bucket.
\<close>

definition line_belongs :: "profit_line_row \<Rightarrow> profit_row \<Rightarrow> bool" where
  "line_belongs l r \<longleftrightarrow> pr_orderId r = plr_orderId l \<and> pr_status r = ''computed'' \<and> pr_storeId r = plr_storeId l
     \<and> pr_businessDate r = Some (plr_businessDate l) \<and> pr_calcVersion r = plr_calcVersion l"

definition profit_db_ok :: "profit_db \<Rightarrow> bool" where
  "profit_db_ok db \<longleftrightarrow>
     distinct (map pr_orderId (pd_profits db)) \<and> distinct (map line_key (pd_lines db))
     \<and> (\<forall>r \<in> set (pd_profits db). list_all snd (profit_row_checks r))
     \<and> (\<forall>l \<in> set (pd_lines db). list_all snd (line_row_checks l) \<and> (\<exists>r \<in> set (pd_profits db). line_belongs l r))
     \<and> (\<forall>r \<in> set (pd_profits db). \<forall>day. pr_businessDate r = Some day \<longrightarrow>
          (pr_storeId r, day) \<in> store_bucket ` set (pd_storeRollups db))"

lemma in_put_profit:
  assumes "distinct (map pr_orderId t)"
  shows "x \<in> set (put_profit r t) \<longleftrightarrow> (x \<in> set t \<and> pr_orderId x \<noteq> pr_orderId r) \<or> x = r"
  unfolding put_profit_def in_upsert [OF assms] by (auto split: option.split)

lemma save_computed_ok:
  assumes s: "save_computed ck c db = Inr db'" and ok: "profit_db_ok db"
  shows "profit_db_ok db'"
proof -
  let ?r = "computed_row (ck_row ck) c"
  note f = save_computed_Inr [OF s]
  have d: "distinct (map pr_orderId (pd_profits db))" using ok by (simp add: profit_db_ok_def)
  have rows: "x \<in> set (pd_profits db') \<longleftrightarrow> (x \<in> set (pd_profits db) \<and> pr_orderId x \<noteq> opc_orderId c) \<or> x = ?r" for x
    unfolding f(1) by (simp add: in_put_profit [OF d])
  have "distinct (map pr_orderId (pd_profits db'))"
    unfolding f(1) put_profit_def by (rule upsert_distinct) (use d in auto)
  moreover have "distinct (map line_key (pd_lines db'))" using f(11) ok by (simp add: profit_db_ok_def)
  moreover have "\<exists>r \<in> set (pd_profits db'). line_belongs l r" if "l \<in> set (pd_lines db')" for l
  proof (cases "plr_orderId l = opc_orderId c")
    case True
    then have "line_belongs l ?r" using that f(2) by (auto simp: line_belongs_def)
    then show ?thesis using rows by blast
  next
    case False
    then have "l \<in> set (pd_lines db)" using that f(2) by auto
    then obtain r where "r \<in> set (pd_profits db)" "line_belongs l r" using ok by (auto simp: profit_db_ok_def)
    then show ?thesis using rows [of r] False by (auto simp: line_belongs_def)
  qed
  moreover have "list_all snd (line_row_checks l)" if "l \<in> set (pd_lines db')" for l
    using that f(2,10) ok by (auto simp: profit_db_ok_def list_all_iff [of _ "opc_lines c"])
  moreover have "list_all snd (profit_row_checks x)" if "x \<in> set (pd_profits db')" for x
    using that [unfolded rows] ok f(9) by (auto simp: profit_db_ok_def)
  moreover have "(pr_storeId x, day) \<in> store_bucket ` set (pd_storeRollups db')"
    if "x \<in> set (pd_profits db')" "pr_businessDate x = Some day" for x day
    using that(1) [unfolded rows] that(2) ok f(8) by (auto simp: profit_db_ok_def)
  ultimately show ?thesis unfolding profit_db_ok_def by blast
qed

lemma save_rejected_ok:
  assumes s: "save_rejected ck r db = Inr db'" and ok: "profit_db_ok db"
  shows "profit_db_ok db'"
proof -
  let ?r = "stored_rejected ck r db"
  note f = save_rejected_Inr [OF s]
  have d: "distinct (map pr_orderId (pd_profits db))" using ok by (simp add: profit_db_ok_def)
  have rows: "x \<in> set (pd_profits db') \<longleftrightarrow> (x \<in> set (pd_profits db) \<and> pr_orderId x \<noteq> opr_orderId r) \<or> x = ?r" for x
    unfolding f(1) in_upsert [OF d] stored_rejected_def by simp
  have "distinct (map pr_orderId (pd_profits db'))"
    unfolding f(1) by (rule upsert_distinct) (use d in auto)
  moreover have "distinct (map line_key (pd_lines db'))"
    unfolding f(2) using ok by (simp add: profit_db_ok_def distinct_map_filter)
  moreover have "\<exists>q \<in> set (pd_profits db'). line_belongs l q" if l: "l \<in> set (pd_lines db')" for l
  proof -
    have "l \<in> set (pd_lines db)" "plr_orderId l \<noteq> opr_orderId r" using l f(2) by auto
    moreover then obtain q where "q \<in> set (pd_profits db)" "line_belongs l q" using ok by (auto simp: profit_db_ok_def)
    ultimately show ?thesis using rows [of q] by (auto simp: line_belongs_def)
  qed
  moreover have "list_all snd (line_row_checks l)" if "l \<in> set (pd_lines db')" for l
    using that f(2) ok by (auto simp: profit_db_ok_def)
  moreover have "list_all snd (profit_row_checks x)" if "x \<in> set (pd_profits db')" for x
    using that [unfolded rows] ok f(9) by (auto simp: profit_db_ok_def)
  moreover have "(pr_storeId x, day) \<in> store_bucket ` set (pd_storeRollups db')"
    if "x \<in> set (pd_profits db')" "pr_businessDate x = Some day" for x day
    using that(1) [unfolded rows] that(2) ok f(8) by (auto simp: profit_db_ok_def)
  ultimately show ?thesis unfolding profit_db_ok_def by blast
qed

lemma save_ok: "save ck result db = Inr db' \<Longrightarrow> profit_db_ok db \<Longrightarrow> profit_db_ok db'"
  by (cases result) (auto intro: save_computed_ok save_rejected_ok)

fun save_all :: "(save_clock \<times> order_profit_result) list \<Rightarrow> profit_db \<Rightarrow> profit_db" where
  "save_all [] db = db"
| "save_all ((ck, result) # rest) db = save_all rest (case save ck result db of Inl _ \<Rightarrow> db | Inr db' \<Rightarrow> db')"

lemma save_all_ok: "profit_db_ok db \<Longrightarrow> profit_db_ok (save_all saves db)"
proof (induction saves db rule: save_all.induct)
  case (1 db)
  then show ?case by simp
next
  case (2 ck result rest db)
  show ?case
  proof (cases "save ck result db")
    case (Inl e)
    then show ?thesis using 2 by simp
  next
    case (Inr db')
    then show ?thesis using 2(1) save_ok [OF Inr 2(2)] by simp
  qed
qed

section \<open>Computed results are storable\<close>

lemma computed_restock_bounded:
  assumes "computeOrderProfit intl (Some inp) = Computed c" and "costs_nonneg inp"
  shows "opt_restockedCogsMinor (opc_totals c) \<le> opt_cogsMinor (opc_totals c)"
proof -
  obtain inp' order n store frs t ds margin bps covered where c: "Some inp = Some inp'" "well_formed inp'"
    "in_order inp' = Some order" "n = normalized_of inp' order"
    "compute_terms n store (int_fee_rule_set frs) (opc_recognition c) = Inr (t, ds)"
    "opc_totals c = order_totals (opc_recognition c) t margin bps covered"
    by (rule computed_terms [OF assms(1)]) blast
  have nn: "nonneg_costs (norm_costs n)"
    using normalized_costs_nonneg [OF assms(2), of order] c(1,4) by simp
  have "ri_restockedCogsMinor (ot_reversal t) \<le> ocogs_cogsMinor (ot_cogs t)"
    by (rule restocked_bounds(2) [OF c(5) _ _ nn])
      (use normalized_items(1,2) [OF c(2,3)] c(4) in auto)
  then show ?thesis unfolding c(6) by (simp add: unless_excluded_def)
qed

lemma computed_version:
  assumes "computeOrderProfit intl (Some inp) = Computed c"
  shows "opc_calcVersion c = CALC_VERSION"
proof -
  obtain n store frs where "compute_normalized intl n store frs = Inr c"
    using assms by (rule computeOrderProfit_Computed)
  then show ?thesis by (auto simp: compute_normalized_def Let_def bindE_eq_Inr)
qed

lemma computed_lines_distinct:
  assumes "computeOrderProfit intl (Some inp) = Computed c"
  shows "distinct (map pl_orderItemId (opc_lines c))"
proof (cases "isExcluded (opc_recognition c)")
  case True
  then show ?thesis using computed_excluded [OF assms] by simp
next
  case False
  obtain inp' order where i: "Some inp = Some inp'" "well_formed inp'" "in_order inp' = Some order"
    using assms by (rule computeOrderProfit_Computed)
  have "distinct (map item_id (or_nil (in_items inp)))"
    using i by (auto simp: well_formed_def parts_ok_def split: option.splits)
  then show ?thesis
    unfolding computed_line_ids [OF assms False] by (metis mset_eq_imp_distinct_iff mset_map mset_sort)
qed

definition columns_wide_enough :: "order_profit_input \<Rightarrow> order_profit_computed \<Rightarrow> bool" where
  "columns_wide_enough inp c \<longleftrightarrow>
     list_all (\<lambda>i. fits_int4 (js_int (item_quantity i))) (or_nil (in_items inp))
     \<and> (case opt_marginBps (opc_totals c) of None \<Rightarrow> True | Some b \<Rightarrow> fits_int4 b)"

lemma computed_passes:
  assumes c: "computeOrderProfit intl (Some inp) = Computed c" and nn: "costs_nonneg inp"
    and wide: "columns_wide_enough inp c"
  shows "list_all snd (profit_row_checks (computed_row now c))"
    and "list_all (\<lambda>l. list_all snd (line_row_checks (line_row c l))) (opc_lines c)"
proof -
  have version: "fits_int4 (opc_calcVersion c)"
    using computed_version [OF c] by (simp add: CALC_VERSION_def fits_int4_def)
  show "list_all snd (profit_row_checks (computed_row now c))"
    by (rule computed_row_passes [OF computed_money_range [OF c] computed_restock_bounded [OF c nn] version])
      (use wide in \<open>auto simp: columns_wide_enough_def\<close>)
  have "list_all snd (line_row_checks (line_row c l))" if l: "l \<in> set (opc_lines c)" for l
  proof -
    note facts = computed_line [OF c nn l]
    have "fits_int4 (pl_quantity l)"
      using facts(5) wide by (auto simp: columns_wide_enough_def list_all_iff)
    moreover then have "fits_int4 (pl_reversedQuantity l)" using facts(3,4) by (simp add: fits_int4_def)
    ultimately show ?thesis
      using line_row_passes [OF facts(1,2) _ _ _ version facts(6)] facts(3,4) by simp
  qed
  then show "list_all (\<lambda>l. list_all snd (line_row_checks (line_row c l))) (opc_lines c)"
    by (simp add: list_all_iff)
qed

end
