(* ===== verification/StorageProperties.thy ===== *)
theory StorageProperties
  imports QueueFacts CostHistory ProfitStoreFacts Sample
begin

text \<open>
  Properties of the tables: the columns an amount and an instant are stored in
  (\<open>packages/persistence/src/db/money.ts\<close>, \<open>codec.ts\<close>), the saved results of the engine
  (\<open>order-profit.repository.ts\<close>), the webhook queue (\<open>webhook-event.repository.ts\<close>) and the history
  of costs (\<open>cost-history.repository.ts\<close>).
\<close>

section \<open>Columns\<close>

text \<open>
  An amount in the money range, written to a \<open>numeric(14, 2)\<close> column, fits the column, is read
  back unchanged, and is the only amount written that way.
\<close>

theorem money_column_roundtrip:
  assumes "in_range v"
  shows "numericToMinor (minorToNumeric v) = Inr v \<and> fits_money_column (minorToNumeric v)
    \<and> (in_range w \<and> minorToNumeric w = minorToNumeric v \<longrightarrow> w = v)"
  using assms minorToNumeric_read minorToNumeric_fits minorToNumeric_inject [of w v] by blast

theorem money_column_roundtrip_witness:
  "numericToMinor (minorToNumeric (- 5)) = Inr (- 5) \<and> minorToNumeric (- 5) = ''-0.05''
   \<and> numericToMinor (minorToNumeric 99999999999) = Inr 99999999999"
proof -
  have "in_range (- 5)" and "in_range 99999999999" by code_simp+
  moreover have "minorToNumeric (- 5) = ''-0.05''" by code_simp
  ultimately show ?thesis using money_column_roundtrip [of "- 5" 0] money_column_roundtrip [of 99999999999 0] by simp
qed

text \<open>
  A timestamp column holds milliseconds and the domain an ISO string: every instant is stored
  and read back as the same string, and every timestamp that reads as an instant is stored from that
  instant as the same millisecond.
\<close>

theorem instant_column_roundtrip:
  "(isInstant s \<longrightarrow> (\<exists>ms. toDateFromInstant s = Some ms \<and> toInstantFromDate ms = Inr s))
   \<and> (toInstantFromDate ms = Inr i \<longrightarrow> isInstant i \<and> toDateFromInstant i = Some ms)"
  using instant_date_roundtrip [of s] date_instant_roundtrip [of ms i] by blast

theorem instant_column_roundtrip_witness:
  "toDateFromInstant ''2024-02-29T23:59:59.999Z'' = Some 1709251199999
   \<and> toInstantFromDate 1709251199999 = Inr ''2024-02-29T23:59:59.999Z''"
proof -
  have "isInstant ''2024-02-29T23:59:59.999Z''"
    and "toDateFromInstant ''2024-02-29T23:59:59.999Z'' = Some 1709251199999" by code_simp+
  then show ?thesis using instant_column_roundtrip [of "''2024-02-29T23:59:59.999Z''" 0 "[]"] by auto
qed

section \<open>Saved results\<close>

text \<open>
  C7. What the engine computes can be stored: for an order, store and rate card that exist, with no
  negative cost, and whose quantities and margin ratio fit their 32-bit columns, saving the computed
  result meets every CHECK, NOT NULL, key and reference of the two tables, and leaves exactly the
  result's lines for the order.
\<close>

theorem computed_result_is_storable:
  assumes c: "computeOrderProfit zones (Some inp) = Computed c"
    and "costs_nonneg inp" and "columns_wide_enough inp c"
    and "opc_orderId c \<in> pd_orders db" and "opc_storeId c \<in> pd_stores db"
    and "opc_feeRuleSetId c \<in> pd_feeRuleSets db"
  shows "\<exists>db'. save ck (computeOrderProfit zones (Some inp)) db = Inr db'
    \<and> lines_of (opc_orderId c) db' = map (line_row c) (opc_lines c)
    \<and> row_with pr_orderId (opc_orderId c) (pd_profits db') = Some (computed_row (ck_row ck) c)"
proof -
  have rows: "list_all snd (profit_row_checks (computed_row (ck_row ck) c))"
    "list_all (\<lambda>l. list_all snd (line_row_checks (line_row c l))) (opc_lines c)"
    using computed_passes assms by blast+
  obtain db' where db': "save_computed ck c db = Inr db'"
    using save_computed_total [OF rows(1) assms(4-6) rows(2)] computed_lines_distinct c by blast
  have "lines_of (opc_orderId c) db' = map (line_row c) (opc_lines c)"
    unfolding lines_of_def save_computed_Inr(2) [OF db'] by (simp add: filter_map o_def)
  moreover have "row_with pr_orderId (opc_orderId c) (pd_profits db') = Some (computed_row (ck_row ck) c)"
    unfolding save_computed_Inr(1) [OF db'] using profit_table.look_put_same [of "computed_row (ck_row ck) c"] by simp
  ultimately show ?thesis using db' c by auto
qed

definition sample_db :: profit_db where
  "sample_db = \<lparr> pd_orders = {''salla:1:9''}, pd_stores = {''salla:1''}, pd_feeRuleSets = {''f1''},
     pd_profits = [], pd_lines = [], pd_storeRollups = [], pd_variantRollups = [] \<rparr>"

definition sample_clock :: save_clock where
  "sample_clock = \<lparr> ck_default = 1, ck_row = 2, ck_dirty = 3 \<rparr>"

lemma sample_saved:
  obtains db where "save_computed sample_clock (computed_of sample_input) sample_db = Inr db"
    and "opc_orderId (computed_of sample_input) = ''salla:1:9''" and "opc_storeId (computed_of sample_input) = ''salla:1''"
    and "opc_businessDate (computed_of sample_input) = ''2025-03-02''"
    and "map pl_orderItemId (opc_lines (computed_of sample_input)) = [''salla:1:9:a'', ''salla:1:9:b'']"
    and "opc_feeRuleSetId (computed_of sample_input) = ''f1''" and "costs_nonneg sample_input"
    and "columns_wide_enough sample_input (computed_of sample_input)"
proof -
  have nn: "costs_nonneg sample_input" by code_simp
  have "case computeOrderProfit riyadh (Some sample_input) of
      Computed c \<Rightarrow> columns_wide_enough sample_input c \<and> opc_orderId c = ''salla:1:9''
        \<and> opc_storeId c = ''salla:1'' \<and> opc_feeRuleSetId c = ''f1''
    | Rejected _ \<Rightarrow> False" by code_simp
  note k = computed_of_result(2) [OF this]
  show ?thesis
    using that save_computed_total [of sample_clock "computed_of sample_input" sample_db]
      computed_passes [OF sample_computed nn] computed_lines_distinct [OF sample_computed] k nn sample_facts
    by (auto simp: sample_db_def)
qed

theorem computed_result_is_storable_witness:
  "\<exists>db'. save sample_clock (computeOrderProfit riyadh (Some sample_input)) sample_db = Inr db'
    \<and> map plr_orderItemId (lines_of ''salla:1:9'' db') = [''salla:1:9:a'', ''salla:1:9:b'']"
proof -
  have "opc_orderId (computed_of sample_input) \<in> pd_orders sample_db
    \<and> opc_storeId (computed_of sample_input) \<in> pd_stores sample_db
    \<and> opc_feeRuleSetId (computed_of sample_input) \<in> pd_feeRuleSets sample_db
    \<and> opc_orderId (computed_of sample_input) = ''salla:1:9'' \<and> costs_nonneg sample_input
    \<and> columns_wide_enough sample_input (computed_of sample_input)"
    by (rule sample_saved) (simp add: sample_db_def)
  then show ?thesis
    using computed_result_is_storable [OF sample_computed, of sample_db sample_clock] sample_facts by (auto simp: comp_def)
qed

text \<open>
  C22. However results are saved, computed or rejected, first times and recomputations, in any order
  and with some saves refused, the tables stay consistent: one row per order, every CHECK holds,
  every line belongs to a computed row of its order with the same store, date and engine version,
  and every dated row's day has a bucket in the store's roll-up.
\<close>

theorem profit_tables_consistent:
  "profit_db_ok (save_all saves \<lparr> pd_orders = orders, pd_stores = stores, pd_feeRuleSets = rules,
     pd_profits = [], pd_lines = [], pd_storeRollups = [], pd_variantRollups = [] \<rparr>)"
  by (rule save_all_ok) (simp add: profit_db_ok_def)

lemma update_where_keeps_others:
  "(\<And>x. key (f x) = key x) \<Longrightarrow>
     filter (\<lambda>x. key x \<noteq> k) (update_where (\<lambda>x. key x = k) f t) = filter (\<lambda>x. key x \<noteq> k) t"
  by (induction t) (auto simp: update_where_def)

lemma upsert_keeps_others:
  assumes "\<And>x. key (f x) = key x"
  shows "filter (\<lambda>x. key x \<noteq> key r) (upsert key r f t) = filter (\<lambda>x. key x \<noteq> key r) t"
  using update_where_keeps_others [of key f, OF assms] by (simp add: upsert_def)

lemma stored_rejected_cleared:
  "pr_recognitionKind (stored_rejected ck r db) = ''excluded''" "pr_recognitionReason (stored_rejected ck r db) = None"
  "pr_diagnostics (stored_rejected ck r db) = opr_diagnostics r" "pr_calcVersion (stored_rejected ck r db) = opr_calcVersion r"
  "pr_currency (stored_rejected ck r db) = None" "pr_marginBps (stored_rejected ck r db) = None"
  "pr_confidence (stored_rejected ck r db) = None"
  "list_all (\<lambda>amount. amount (stored_rejected ck r db) = None)
     [pr_itemsRevenueExVatMinor, pr_shippingRevenueExVatMinor, pr_codFeeRevenueExVatMinor, pr_orderDiscountExVatMinor,
      pr_revenueExVatMinor, pr_vatCollectedMinor, pr_cogsMinor, pr_outboundShippingCostMinor,
      pr_returnShippingCostMinor, pr_gatewayFeeExVatMinor, pr_gatewayFeeVatMinor, pr_gatewayFeeCostMinor,
      pr_codCostExVatMinor, pr_codCostVatMinor, pr_codCostMinor, pr_reversedRevenueExVatMinor,
      pr_restockedCogsMinor, pr_reversalImpactMinor, pr_contributionMarginMinor, pr_costCoveredRevenueExVatMinor]"
  by (simp_all add: stored_rejected_def rejected_row_def rejected_update_def split: option.split)


definition sample_rejection :: order_profit_rejected where
  "sample_rejection = \<lparr> opr_orderId = ''salla:1:9'', opr_storeId = ''salla:1'', opr_calcVersion = CALC_VERSION,
     opr_diagnostics = [] \<rparr>"


section \<open>The webhook queue\<close>

text \<open>
  C9. Whatever workers, the reaper and an operator do to the queue, in any interleaving of their
  reads and writes: identifiers and delivery keys stay unique, a row is locked exactly while it is
  in flight, attempts are never negative, every row can be read back as an event, and no event that
  was received is ever lost or altered.
\<close>

theorem queue_invariant:
  assumes "queue_run stores policy empty_queue s" and "queue_run stores policy s s'" and "[] \<notin> stores"
  shows "queue_ok (qs_rows s') \<and> prefix (map event_identity (qs_rows s)) (map event_identity (qs_rows s'))"
  using run_ok [OF assms(1,3) empty_queue_ok] run_ok [OF assms(2,3)] by blast

definition sample_event :: "string \<Rightarrow> string \<Rightarrow> string \<Rightarrow> unit new_webhook_event" where
  "sample_event i key received = \<lparr> nw_id = i, nw_storeId = ''salla:1'', nw_platformEventId = key,
     nw_eventType = ''order.updated'', nw_rawEventType = ''order.updated'', nw_receivedAt = received,
     nw_rawPayload = () \<rparr>"

definition sample_queue :: "unit webhook_event list" where
  "sample_queue = run_ops {''salla:1''} DEFAULT_RETRY_POLICY []
     [OpEnqueue (sample_event ''a'' ''k1'' ''2025-03-01T10:00:05.000Z''),
      OpEnqueue (sample_event ''b'' ''k2'' ''2025-03-01T10:00:01.000Z''),
      OpEnqueue (sample_event ''c'' ''k1'' ''2025-03-01T10:00:09.000Z'')]"

lemma sample_queue_rows:
  "map (\<lambda>r. (we_id r, we_status r, we_attempts r)) sample_queue = [(''a'', WS_pending, 0), (''b'', WS_pending, 0)]"
  by code_simp

lemma sample_queue_ok: "queue_ok sample_queue \<and> attempts_bounded DEFAULT_RETRY_POLICY sample_queue"
  unfolding sample_queue_def
  by (rule run_ops_bounded) (simp_all add: queue_ok_def attempts_bounded_def DEFAULT_RETRY_POLICY_def)

theorem queue_invariant_witness:
  "\<exists>s s' t. enqueue {''salla:1''} (sample_event ''a'' ''k1'' ''2025-03-01T10:00:05.000Z'') [] = Inr (False, t)
    \<and> s = empty_queue\<lparr> qs_rows := t \<rparr> \<and> s' = s\<lparr> qs_rows := markProcessed ''a'' 7 t \<rparr>
    \<and> queue_ok (qs_rows s') \<and> map we_status (qs_rows s') = [WS_processed]"
proof -
  let ?e = "sample_event ''a'' ''k1'' ''2025-03-01T10:00:05.000Z''"
  have e: "enqueue {''salla:1''} ?e [] = Inr (False, [new_row ?e 1740823205000])" by code_simp
  let ?s = "empty_queue\<lparr> qs_rows := [new_row ?e 1740823205000] \<rparr>"
  let ?s' = "?s\<lparr> qs_rows := markProcessed ''a'' 7 [new_row ?e 1740823205000] \<rparr>"
  have "queue_step {''salla:1''} DEFAULT_RETRY_POLICY empty_queue ?s"
    using step_enqueue [of _ ?e empty_queue] e by (simp add: empty_queue_def)
  then have "queue_run {''salla:1''} DEFAULT_RETRY_POLICY empty_queue ?s" by (blast intro: run_refl run_step)
  moreover have "queue_step {''salla:1''} DEFAULT_RETRY_POLICY ?s ?s'"
    using step_processed [of _ _ ?s "''a''" 7] by simp
  then have "queue_run {''salla:1''} DEFAULT_RETRY_POLICY ?s ?s'" by (blast intro: run_refl run_step)
  ultimately have "queue_ok (qs_rows ?s')" using queue_invariant [of "{''salla:1''}" DEFAULT_RETRY_POLICY ?s ?s'] by simp
  then show ?thesis using e by (simp add: markProcessed_def update_where_def new_row_def sample_event_def)
qed

text \<open>
  Claiming hands out the oldest due work once: as many rows as are due up to the limit, each of
  them due and not held by another worker, none of them later than a due row left behind; the rows
  handed out, and only those, are marked in flight with one more attempt.
\<close>

theorem claim_takes_oldest_due:
  assumes "queue_ok t" and "claim locked limit now t = Inr (rs, t')"
  shows "distinct (map wr_id rs) \<and> length rs = min (nat limit) (length (filter (claimable locked now) t))
    \<and> (r \<in> set t \<and> we_id r \<in> set (map wr_id rs) \<longrightarrow> claimable locked now r \<and> take_row now r \<in> set t')
    \<and> (r \<in> set t \<and> we_id r \<notin> set (map wr_id rs) \<longrightarrow> r \<in> set t')
    \<and> (r \<in> set t \<and> q \<in> set t \<and> we_id r \<in> set (map wr_id rs) \<and> we_id q \<notin> set (map wr_id rs)
         \<and> claimable locked now q \<longrightarrow> due_order r \<le> due_order q)
    \<and> queue_ok t' \<and> map event_identity t' = map event_identity t"
  using claim_takes(1,2) [OF assms] claim_takes(3-5) [OF assms] claim_ok [OF assms(2,1)] by blast

theorem claim_takes_oldest_due_witness:
  "\<exists>rs t'. claim {} 1 1740823209000 sample_queue = Inr (rs, t') \<and> map wr_id rs = [''b'']
    \<and> map we_status t' = [WS_pending, WS_processing] \<and> queue_ok t'"
proof -
  have "case claim {} 1 1740823209000 sample_queue of
      Inr (rs, t') \<Rightarrow> map wr_id rs = [''b''] \<and> map we_status t' = [WS_pending, WS_processing] | Inl _ \<Rightarrow> False"
    by code_simp
  then obtain rs t' where c: "claim {} 1 1740823209000 sample_queue = Inr (rs, t')"
    and "map wr_id rs = [''b'']" and "map we_status t' = [WS_pending, WS_processing]"
    by (auto split: sum.splits)
  moreover have "queue_ok t'" using claim_takes_oldest_due [OF _ c] sample_queue_ok by simp
  ultimately show ?thesis by (intro exI conjI)
qed

text \<open>
  Attempts stay within the policy: however the operations are used, no event is attempted more
  often than \<open>maxAttempts\<close>, and one that waits for another attempt has one left. (Each operation is
  taken whole; interleaved reads and writes can exceed the bound.)
\<close>

theorem attempts_within_policy:
  assumes "1 \<le> rp_maxAttempts policy" and "[] \<notin> stores" and "r \<in> set (run_ops stores policy [] ops)"
  shows "0 \<le> we_attempts r \<and> we_attempts r \<le> rp_maxAttempts policy
    \<and> (we_status r = WS_pending \<longrightarrow> we_attempts r < rp_maxAttempts policy)"
proof -
  have "queue_ok [] \<and> attempts_bounded policy []" by (simp add: queue_ok_def attempts_bounded_def)
  then have "queue_ok (run_ops stores policy [] ops) \<and> attempts_bounded policy (run_ops stores policy [] ops)"
    using run_ops_bounded assms(1,2) by blast
  then show ?thesis using assms(3)
    by (auto simp: queue_ok_def attempts_bounded_def webhook_events_check_def)
qed

theorem attempts_within_policy_witness:
  "run_ops {''salla:1''} DEFAULT_RETRY_POLICY [] [OpEnqueue (sample_event ''a'' ''k1'' ''2025-03-01T10:00:05.000Z''),
     OpClaim {} 5 1740823209000] \<noteq> []
   \<and> we_attempts (hd (run_ops {''salla:1''} DEFAULT_RETRY_POLICY []
       [OpEnqueue (sample_event ''a'' ''k1'' ''2025-03-01T10:00:05.000Z''), OpClaim {} 5 1740823209000])) = 1
   \<and> (1 :: int) \<le> 8"
proof -
  let ?t = "run_ops {''salla:1''} DEFAULT_RETRY_POLICY [] [OpEnqueue (sample_event ''a'' ''k1'' ''2025-03-01T10:00:05.000Z''),
     OpClaim {} 5 1740823209000]"
  have t: "map we_attempts ?t = [1]" by code_simp
  then have "hd ?t \<in> set ?t" by (cases ?t) auto
  then have "we_attempts (hd ?t) \<le> rp_maxAttempts DEFAULT_RETRY_POLICY"
    using attempts_within_policy [of DEFAULT_RETRY_POLICY "{''salla:1''}" "hd ?t" _]
    by (simp add: DEFAULT_RETRY_POLICY_def)
  then show ?thesis using t by (cases ?t) (auto simp: DEFAULT_RETRY_POLICY_def)
qed

text \<open>
  C20. Retries end: an event that waits is claimed when its time comes and, whether the attempt fails
  or its worker dies without reporting and the reaper returns it, it waits again, one attempt older,
  until it has used all its attempts; then it is in the dead letter state.
\<close>

theorem failing_event_reaches_dead_letter:
  assumes "queue_ok t" and "row_with we_id i t = Some r" and "we_status r = WS_pending" and "0 \<le> staleAfterMs"
    and "we_attempts r + int (length fates) \<le> rp_maxAttempts policy" and "fates \<noteq> []"
  shows "\<exists>q. row_with we_id i (foldl (attempt_round policy staleAfterMs i) t fates) = Some q
    \<and> we_attempts q = we_attempts r + int (length fates)
    \<and> we_status q = (if we_attempts r + int (length fates) = rp_maxAttempts policy then WS_failed else WS_pending)"
  by (rule attempts_end_in_dead_letter [OF assms]) blast

theorem failing_event_reaches_dead_letter_witness:
  "\<exists>q. row_with we_id ''a'' (foldl (attempt_round DEFAULT_RETRY_POLICY 300000 ''a'') sample_queue
       [Fails ''x'', Crashes, Fails ''y'', Crashes, Crashes, Fails ''x'', Fails ''x'', Crashes]) = Some q
    \<and> we_attempts q = 8 \<and> we_status q = WS_failed"
proof -
  obtain r q where q: "sample_queue = [r, q]" and r: "we_id r = ''a''" "we_status r = WS_pending" "we_attempts r = 0"
    using sample_queue_rows by (auto simp: map_eq_Cons_conv)
  then have "row_with we_id ''a'' sample_queue = Some r" unfolding q row_with_def by simp
  then show ?thesis
    using failing_event_reaches_dead_letter [of sample_queue "''a''" r 300000
        "[Fails ''x'', Crashes, Fails ''y'', Crashes, Crashes, Fails ''x'', Fails ''x'', Crashes]" DEFAULT_RETRY_POLICY]
      sample_queue_ok r by (simp add: DEFAULT_RETRY_POLICY_def)
qed

text \<open>
  The waits between attempts stay between the base delay and the longest delay, and never get
  shorter as attempts are used up.
\<close>

theorem backoff_within_bounds:
  assumes "0 \<le> rp_baseDelayMs policy" and "rp_baseDelayMs policy \<le> rp_maxDelayMs policy"
  shows "rp_baseDelayMs policy \<le> backoffMs n policy \<and> backoffMs n policy \<le> rp_maxDelayMs policy
    \<and> backoffMs n policy \<le> backoffMs (n + 1) policy"
  using backoff_bounds [OF assms] backoff_mono [OF assms(1), of n "n + 1"] by simp

theorem backoff_within_bounds_witness:
  "map (\<lambda>n. backoffMs n DEFAULT_RETRY_POLICY) [1, 2, 8, 100] = [10000, 20000, 1280000, 3600000]
   \<and> backoffMs 100 DEFAULT_RETRY_POLICY \<le> 3600000"
proof -
  have "map (\<lambda>n. backoffMs n DEFAULT_RETRY_POLICY) [1, 2, 8, 100] = [10000, 20000, 1280000, 3600000]" by code_simp
  then show ?thesis using backoff_within_bounds [of DEFAULT_RETRY_POLICY 100] by (simp add: DEFAULT_RETRY_POLICY_def)
qed

section \<open>The history of costs\<close>

text \<open>
  C19. Abstractly the history of a product is a log of dated costs that only grows. Recording costs
  into an empty table appends exactly the accepted entries of that product to its log, and asking
  for the cost in force at a moment finds the row of the last entry of the log not after it, with
  the amount that was recorded.
\<close>

theorem cost_history_refines_log:
  assumes "record_all stores es [] = Inr t"
    and "list_all (\<lambda>e. plain_key (cn_platformProductId e) (cn_platformVariantId e)) es" and "plain_key p v"
  shows "log_of (store, p, v) t
      = map (\<lambda>e. (cn_effectiveFrom e, cn_id e)) (filter (\<lambda>e. entry_key e = (store, p, v)) es)
    \<and> (log_as_of asOf (log_of (store, p, v) t) = Some i \<longrightarrow>
        (\<exists>r e. matching_row (as_of_index_of (as_of_rows store asOf t))
             \<lparr> pk_platformProductId = p, pk_platformVariantId = v, pk_sku = sku \<rparr> = Some r
           \<and> ch_id r = i \<and> e \<in> set es \<and> cn_id e = i \<and> numericToMinor (ch_unitCost r) = Inr (cn_unitCostMinor e)))"
proof (intro conjI impI)
  have "log_of (store, p, v) [] = []" by (simp add: log_of_def rows_of_def)
  then show "log_of (store, p, v) t
      = map (\<lambda>e. (cn_effectiveFrom e, cn_id e)) (filter (\<lambda>e. entry_key e = (store, p, v)) es)"
    using record_all_refines(2) [OF assms(1) empty_logs_ok] by simp
next
  assume some: "log_as_of asOf (log_of (store, p, v) t) = Some i"
  have plain: "\<And>e. e \<in> set es \<Longrightarrow> plain_key (cn_platformProductId e) (cn_platformVariantId e)"
    using assms(2) by (simp add: list_all_iff)
  note rows = record_all_rows [OF assms(1) plain]
  show "\<exists>r e. matching_row (as_of_index_of (as_of_rows store asOf t))
             \<lparr> pk_platformProductId = p, pk_platformVariantId = v, pk_sku = sku \<rparr> = Some r
           \<and> ch_id r = i \<and> e \<in> set es \<and> cn_id e = i \<and> numericToMinor (ch_unitCost r) = Inr (cn_unitCostMinor e)"
  proof (rule query_exact [OF record_all_refines(1) [OF assms(1) empty_logs_ok] _ assms(3) some])
    fix r assume "r \<in> set t" and "ch_id r = i"
      and m: "matching_row (as_of_index_of (as_of_rows store asOf t))
        \<lparr> pk_platformProductId = p, pk_platformVariantId = v, pk_sku = sku \<rparr> = Some r"
    then obtain e where "e \<in> set es" "ch_id r = cn_id e" "ch_unitCost r = minorToNumeric (cn_unitCostMinor e)"
      "in_range (cn_unitCostMinor e)" using rows by blast
    then show ?thesis using m \<open>ch_id r = i\<close> minorToNumeric_read by auto
  qed (use rows in blast)
qed

definition sample_entry :: "string \<Rightarrow> int \<Rightarrow> int \<Rightarrow> cost_entry" where
  "sample_entry i cents from_time = \<lparr> cn_id = i, cn_storeId = ''salla:1'', cn_platformProductId = ''p1'',
     cn_platformVariantId = None, cn_sku = None, cn_unitCostMinor = cents, cn_source = CO_merchant_manual,
     cn_effectiveFrom = from_time, cn_note = None \<rparr>"

definition sample_history :: "cost_row list" where
  "sample_history =
     [close_window (sample_entry ''y'' 2550 200) (entry_row (sample_entry ''x'' 2000 100) (minorToNumeric 2000)),
      entry_row (sample_entry ''y'' 2550 200) (minorToNumeric 2550)]"

lemmas sample_history_simps =
  sample_history_def sample_entry_def entry_row_def close_window_def is_open_def chain_key_def entry_key_def
  window_ordered_def update_where_def

lemma sample_costs_in_range: "in_range 2000" "in_range 2550" "in_range 9900"
  by code_simp+

lemma sample_history_recorded:
  "record_all {''salla:1''} [sample_entry ''x'' 2000 100, sample_entry ''y'' 2550 200] [] = Inr sample_history"
proof -
  have "record_cost {''salla:1''} (sample_entry ''x'' 2000 100) []
      = Inr [entry_row (sample_entry ''x'' 2000 100) (minorToNumeric 2000)]"
    by (subst record_cost_total) (simp_all add: sample_history_simps sample_costs_in_range)
  moreover have "record_cost {''salla:1''} (sample_entry ''y'' 2550 200)
      [entry_row (sample_entry ''x'' 2000 100) (minorToNumeric 2000)] = Inr sample_history"
    by (subst record_cost_total) (simp_all add: sample_history_simps sample_costs_in_range)
  ultimately show ?thesis by simp
qed

theorem cost_history_refines_log_witness:
  "\<exists>r. matching_row (as_of_index_of (as_of_rows ''salla:1'' 150 sample_history))
       \<lparr> pk_platformProductId = ''p1'', pk_platformVariantId = None, pk_sku = None \<rparr> = Some r
     \<and> ch_id r = ''x'' \<and> numericToMinor (ch_unitCost r) = Inr 2000"
proof -
  have "list_all (\<lambda>e. plain_key (cn_platformProductId e) (cn_platformVariantId e))
      [sample_entry ''x'' 2000 100, sample_entry ''y'' 2550 200]" and p: "plain_key ''p1'' None" by code_simp+
  note c = cost_history_refines_log [OF sample_history_recorded this, of "''salla:1''" 150 "''x''" None]
  have "log_of (''salla:1'', ''p1'', None) sample_history = [(100, ''x''), (200, ''y'')]"
    using c by (simp add: sample_entry_def entry_key_def)
  then show ?thesis using c by (auto simp: log_as_of_def sample_entry_def)
qed

text \<open>
  The past does not move: recording a cost that starts at a moment changes no answer about any
  earlier one, for any store and any products, so a profit computed for an earlier date is computed
  from the same costs again.
\<close>

theorem past_costs_immutable:
  assumes "record_cost stores e t = Inr t'" and "asOf < cn_effectiveFrom e"
  shows "resolveAsOf store ks asOf t' = resolveAsOf store ks asOf t"
  by (rule record_keeps_past [OF assms])

theorem past_costs_immutable_witness:
  "\<exists>t'. record_cost {''salla:1''} (sample_entry ''z'' 9900 300) sample_history = Inr t'
     \<and> resolveAsOf ''salla:1'' [\<lparr> pk_platformProductId = ''p1'', pk_platformVariantId = None, pk_sku = None \<rparr>] 299 t'
       = resolveAsOf ''salla:1'' [\<lparr> pk_platformProductId = ''p1'', pk_platformVariantId = None, pk_sku = None \<rparr>] 299 sample_history"
proof -
  obtain t' where "record_cost {''salla:1''} (sample_entry ''z'' 9900 300) sample_history = Inr t'"
    using record_cost_total [of "sample_entry ''z'' 9900 300" sample_history "{''salla:1''}"]
    by (force simp: sample_history_simps sample_costs_in_range)
  moreover from this have "resolveAsOf ''salla:1'' ks 299 t' = resolveAsOf ''salla:1'' ks 299 sample_history" for ks
    by (rule past_costs_immutable) (simp add: sample_entry_def)
  ultimately show ?thesis by blast
qed

end
