(* ===== verification/SubscriptionStore.thy ===== *)
theory SubscriptionStore
  imports Subscriptions Usage Columns Tables
begin

text \<open>
  The subscription row in the database:
  \<open>packages/persistence/src/repositories/subscription.repository.ts\<close> over the table
  \<open>store_subscription\<close> of \<open>packages/persistence/src/db/schema.ts\<close>, and the count of the orders of a
  window.

  The main result is that reading back a saved subscription gives the subscription: the domain's
  strings go through milliseconds and come back as they were.
\<close>

section \<open>The table\<close>

record subscription_row =
  ss_storeId :: string
  ss_planCode :: string
  ss_platformPlanId :: "string option"
  ss_status :: string
  ss_trialEndsAt :: "int option"
  ss_currentPeriodStart :: int
  ss_currentPeriodEnd :: int
  ss_lastEventAt :: "int option"
  ss_lastReconciledAt :: "int option"
  ss_pendingPlanCode :: "string option"
  ss_pendingPlanEffectiveAt :: "int option"
  ss_createdAt :: int
  ss_updatedAt :: int

definition subscription_violation :: "subscription_row \<Rightarrow> string option" where
  "subscription_violation r =
     (if (ss_pendingPlanCode r = None) \<noteq> (ss_pendingPlanEffectiveAt r = None)
      then Some ''store_subscription_pending_plan_complete''
      else if \<not> ss_currentPeriodEnd r > ss_currentPeriodStart r then Some ''store_subscription_period_ordered''
      else if ss_status r \<notin> set (map fst SUBSCRIPTION_STATUSES) then Some ''store_subscription_status_valid''
      else None)"

text \<open>The columns of \<open>orders\<close> that the usage count reads.\<close>

record order_row =
  or_storeId :: string
  or_placedAt :: int
  or_ingestionSource :: string

section \<open>Between the row and the domain\<close>

text \<open>An instant as a parameter of a statement; the driver refuses an invalid date.\<close>

definition instant_column :: "string \<Rightarrow> int outcome" where
  "instant_column i = (case toDateFromInstant i of None \<Rightarrow> Inl RangeError | Some d \<Rightarrow> Inr d)"

definition instant_column_or_null :: "string option \<Rightarrow> int option outcome" where
  "instant_column_or_null i = (case i of None \<Rightarrow> Inr None | Some s \<Rightarrow> bindE (instant_column s) (\<lambda>d. Inr (Some d)))"

definition toDomain :: "subscription_row \<Rightarrow> subscription outcome" where
  "toDomain r =
     bindE (toIdFromColumn (ss_storeId r)) (\<lambda>store.
     bindE (toEnumFromColumn (ss_status r) SUBSCRIPTION_STATUSES) (\<lambda>status.
     bindE (toInstantFromDateOrNull (ss_trialEndsAt r)) (\<lambda>trialEndsAt.
     bindE (toInstantFromDate (ss_currentPeriodStart r)) (\<lambda>currentPeriodStart.
     bindE (toInstantFromDate (ss_currentPeriodEnd r)) (\<lambda>currentPeriodEnd.
     bindE (toInstantFromDateOrNull (ss_lastEventAt r)) (\<lambda>lastEventAt.
     bindE (toInstantFromDateOrNull (ss_lastReconciledAt r)) (\<lambda>lastReconciledAt.
     bindE (toInstantFromDateOrNull (ss_pendingPlanEffectiveAt r)) (\<lambda>pendingPlanEffectiveAt.
     Inr \<lparr> sub_storeId = store, sub_planCode = ss_planCode r, sub_platformPlanId = ss_platformPlanId r,
           sub_status = status, sub_trialEndsAt = trialEndsAt, sub_currentPeriodStart = currentPeriodStart,
           sub_currentPeriodEnd = currentPeriodEnd, sub_lastEventAt = lastEventAt,
           sub_lastReconciledAt = lastReconciledAt, sub_pendingPlanCode = ss_pendingPlanCode r,
           sub_pendingPlanEffectiveAt = pendingPlanEffectiveAt \<rparr>))))))))"

definition subscription_values :: "subscription \<Rightarrow> string \<Rightarrow> int \<Rightarrow> subscription_row outcome" where
  "subscription_values s now created =
     bindE (instant_column_or_null (sub_trialEndsAt s)) (\<lambda>trialEndsAt.
     bindE (instant_column (sub_currentPeriodStart s)) (\<lambda>currentPeriodStart.
     bindE (instant_column (sub_currentPeriodEnd s)) (\<lambda>currentPeriodEnd.
     bindE (instant_column_or_null (sub_lastEventAt s)) (\<lambda>lastEventAt.
     bindE (instant_column_or_null (sub_lastReconciledAt s)) (\<lambda>lastReconciledAt.
     bindE (instant_column_or_null (sub_pendingPlanEffectiveAt s)) (\<lambda>pendingPlanEffectiveAt.
     bindE (instant_column now) (\<lambda>updatedAt.
     Inr \<lparr> ss_storeId = sub_storeId s, ss_planCode = sub_planCode s, ss_platformPlanId = sub_platformPlanId s,
           ss_status = literal_of SUBSCRIPTION_STATUSES (sub_status s), ss_trialEndsAt = trialEndsAt,
           ss_currentPeriodStart = currentPeriodStart, ss_currentPeriodEnd = currentPeriodEnd,
           ss_lastEventAt = lastEventAt, ss_lastReconciledAt = lastReconciledAt,
           ss_pendingPlanCode = sub_pendingPlanCode s, ss_pendingPlanEffectiveAt = pendingPlanEffectiveAt,
           ss_createdAt = created, ss_updatedAt = updatedAt \<rparr>)))))))"

section \<open>The operations\<close>

definition find_subscription :: "string \<Rightarrow> subscription_row list \<Rightarrow> subscription option outcome" where
  "find_subscription storeId t =
     (case row_with ss_storeId storeId t of
        None \<Rightarrow> Inr None | Some r \<Rightarrow> bindE (toDomain r) (\<lambda>s. Inr (Some s)))"

text \<open>
  \<open>created\<close> is the clock of the database, which a new row gets; an update keeps the old value.
  \<open>stores\<close> are the keys the row may refer to.
\<close>

definition put_subscription :: "subscription_row \<Rightarrow> subscription_row list \<Rightarrow> subscription_row list" where
  "put_subscription r t = upsert ss_storeId r (\<lambda>old. r\<lparr> ss_createdAt := ss_createdAt old \<rparr>) t"

definition save_subscription ::
  "string set \<Rightarrow> int \<Rightarrow> subscription \<Rightarrow> string \<Rightarrow> subscription_row list \<Rightarrow> subscription_row list outcome" where
  "save_subscription stores created s now t =
     bindE (subscription_values s now created) (\<lambda>r.
     case subscription_violation r of
       Some name \<Rightarrow> Inl (ConstraintViolation name)
     | None \<Rightarrow> if ss_storeId r \<notin> ss_storeId ` set t \<and> ss_storeId r \<notin> stores
               then Inl (ConstraintViolation ''store_subscription_store_id_stores_id_fk'')
               else Inr (put_subscription r t))"

definition countLiveOrders :: "string \<Rightarrow> usage_window \<Rightarrow> order_row list \<Rightarrow> int outcome" where
  "countLiveOrders storeId window orders =
     bindE (instant_column (win_from window)) (\<lambda>from_ms.
     bindE (instant_column (win_to window)) (\<lambda>to_ms.
     Inr (int (length (filter (\<lambda>x. or_storeId x = storeId \<and> or_placedAt x \<ge> from_ms \<and> or_placedAt x < to_ms
                                 \<and> or_ingestionSource x = ''live'') orders)))))"

text \<open>\<open>last_reconciled_at ASC NULLS FIRST, store_id\<close>.\<close>

definition due_key :: "subscription_row \<Rightarrow> (bool \<times> int) \<times> string" where
  "due_key r = ((case ss_lastReconciledAt r of None \<Rightarrow> (False, 0) | Some t \<Rightarrow> (True, t)), ss_storeId r)"

definition dueForReconciliation :: "nat \<Rightarrow> subscription_row list \<Rightarrow> subscription list outcome" where
  "dueForReconciliation limit t = mapE toDomain (take limit (sort_key due_key t))"

definition markReconciled :: "string \<Rightarrow> string \<Rightarrow> subscription_row list \<Rightarrow> subscription_row list outcome" where
  "markReconciled storeId at_time t =
     bindE (instant_column at_time) (\<lambda>ms. Inr (update_where (\<lambda>r. ss_storeId r = storeId)
       (\<lambda>r. r\<lparr> ss_lastReconciledAt := Some ms, ss_updatedAt := ms \<rparr>) t))"

definition markDueForReconciliation :: "string \<Rightarrow> subscription_row list \<Rightarrow> subscription_row list" where
  "markDueForReconciliation storeId t =
     update_where (\<lambda>r. ss_storeId r = storeId) (\<lambda>r. r\<lparr> ss_lastReconciledAt := None \<rparr>) t"

definition count_by_status :: "subscription_row list \<Rightarrow> (string \<times> int) list" where
  "count_by_status t =
     map (\<lambda>p. (fst p, int (length (filter (\<lambda>r. ss_status r = fst p) t)))) SUBSCRIPTION_STATUSES"

section \<open>Saving and finding\<close>

lemma instant_column_read:
  assumes "isInstant i"
  obtains ms where "instant_column i = Inr ms" and "toInstantFromDate ms = Inr i"
proof -
  obtain ms where "toDateFromInstant i = Some ms" "toInstantFromDate ms = Inr i"
    by (rule instant_date_roundtrip [OF assms])
  then show thesis using that [of ms] by (simp add: instant_column_def)
qed

lemma instant_column_or_null_read:
  assumes "\<And>v. i = Some v \<Longrightarrow> isInstant v"
  obtains ms where "instant_column_or_null i = Inr ms" and "toInstantFromDateOrNull ms = Inr i"
proof (cases i)
  case None
  then show thesis using that [of None] by (simp add: instant_column_or_null_def toInstantFromDateOrNull_def)
next
  case (Some v)
  obtain ms where "instant_column v = Inr ms" "toInstantFromDate ms = Inr v"
    by (rule instant_column_read) (use assms Some in simp)
  then show thesis
    using that [of "Some ms"] Some by (simp add: instant_column_or_null_def toInstantFromDateOrNull_def)
qed

text \<open>What the types of the source say of a subscription.\<close>

definition instants_of :: "subscription \<Rightarrow> string option list" where
  "instants_of s =
     [sub_trialEndsAt s, Some (sub_currentPeriodStart s), Some (sub_currentPeriodEnd s), sub_lastEventAt s,
      sub_lastReconciledAt s, sub_pendingPlanEffectiveAt s]"

definition subscription_typed :: "subscription \<Rightarrow> bool" where
  "subscription_typed s \<longleftrightarrow> sub_storeId s \<noteq> []
     \<and> list_all (\<lambda>i. case i of None \<Rightarrow> True | Some v \<Rightarrow> isInstant v) (instants_of s)"

lemma subscription_typed_simps:
  "subscription_typed s \<longleftrightarrow> sub_storeId s \<noteq> [] \<and> isInstant (sub_currentPeriodStart s)
     \<and> isInstant (sub_currentPeriodEnd s) \<and> (\<forall>v. sub_trialEndsAt s = Some v \<longrightarrow> isInstant v)
     \<and> (\<forall>v. sub_lastEventAt s = Some v \<longrightarrow> isInstant v) \<and> (\<forall>v. sub_lastReconciledAt s = Some v \<longrightarrow> isInstant v)
     \<and> (\<forall>v. sub_pendingPlanEffectiveAt s = Some v \<longrightarrow> isInstant v)"
  by (auto simp: subscription_typed_def instants_of_def split: option.splits)

lemma subscription_values_read:
  assumes "subscription_typed s" and "isInstant now"
  obtains r where "subscription_values s now created = Inr r" and "ss_storeId r = sub_storeId s"
    and "\<forall>c. toDomain (r\<lparr> ss_createdAt := c \<rparr>) = Inr s" and "toDomain r = Inr s"
    and "ss_pendingPlanCode r = sub_pendingPlanCode s"
    and "ss_pendingPlanEffectiveAt r = None \<longleftrightarrow> sub_pendingPlanEffectiveAt s = None"
    and "ss_currentPeriodStart r < ss_currentPeriodEnd r \<longleftrightarrow> sub_currentPeriodStart s < sub_currentPeriodEnd s"
    and "ss_status r \<in> set (map fst SUBSCRIPTION_STATUSES)"
    and "instant_column_or_null (sub_lastReconciledAt s) = Inr (ss_lastReconciledAt r)"
proof -
  note typed = assms(1) [unfolded subscription_typed_simps]
  obtain te where te: "instant_column_or_null (sub_trialEndsAt s) = Inr te" "toInstantFromDateOrNull te = Inr (sub_trialEndsAt s)"
    by (rule instant_column_or_null_read [of "sub_trialEndsAt s"]) (use typed in blast)
  obtain le where le: "instant_column_or_null (sub_lastEventAt s) = Inr le" "toInstantFromDateOrNull le = Inr (sub_lastEventAt s)"
    by (rule instant_column_or_null_read [of "sub_lastEventAt s"]) (use typed in blast)
  obtain lr where lr: "instant_column_or_null (sub_lastReconciledAt s) = Inr lr"
    "toInstantFromDateOrNull lr = Inr (sub_lastReconciledAt s)"
    by (rule instant_column_or_null_read [of "sub_lastReconciledAt s"]) (use typed in blast)
  obtain pe where pe: "instant_column_or_null (sub_pendingPlanEffectiveAt s) = Inr pe"
    "toInstantFromDateOrNull pe = Inr (sub_pendingPlanEffectiveAt s)"
    by (rule instant_column_or_null_read [of "sub_pendingPlanEffectiveAt s"]) (use typed in blast)
  obtain ps where ps: "instant_column (sub_currentPeriodStart s) = Inr ps" "toInstantFromDate ps = Inr (sub_currentPeriodStart s)"
    by (rule instant_column_read [of "sub_currentPeriodStart s"]) (use typed in blast)
  obtain en where en: "instant_column (sub_currentPeriodEnd s) = Inr en" "toInstantFromDate en = Inr (sub_currentPeriodEnd s)"
    by (rule instant_column_read [of "sub_currentPeriodEnd s"]) (use typed in blast)
  obtain up where up: "instant_column now = Inr up" by (rule instant_column_read [OF assms(2)])
  have order: "ps < en \<longleftrightarrow> sub_currentPeriodStart s < sub_currentPeriodEnd s"
    using instant_order [of "sub_currentPeriodStart s" "sub_currentPeriodEnd s"] typed ps(1) en(1)
    by (auto simp: instant_column_def toDateFromInstant_def split: sum.splits option.splits)
  have null: "pe = None \<longleftrightarrow> sub_pendingPlanEffectiveAt s = None"
    using pe(1) by (auto simp: instant_column_or_null_def bindE_eq_Inr split: option.splits)
  have "sub_storeId s \<noteq> []" using typed by blast
  moreover have "literal_of SUBSCRIPTION_STATUSES (sub_status s) \<in> set (map fst SUBSCRIPTION_STATUSES)"
    by (cases "sub_status s") (simp_all add: literal_of_def SUBSCRIPTION_STATUSES_def)
  ultimately show thesis
    using order null te le lr pe ps en up
    by (intro that [of "\<lparr> ss_storeId = sub_storeId s, ss_planCode = sub_planCode s,
        ss_platformPlanId = sub_platformPlanId s, ss_status = literal_of SUBSCRIPTION_STATUSES (sub_status s),
        ss_trialEndsAt = te, ss_currentPeriodStart = ps, ss_currentPeriodEnd = en, ss_lastEventAt = le,
        ss_lastReconciledAt = lr, ss_pendingPlanCode = sub_pendingPlanCode s, ss_pendingPlanEffectiveAt = pe,
        ss_createdAt = created, ss_updatedAt = up \<rparr>"])
      (simp_all add: subscription_values_def toDomain_def toIdFromColumn_def idFromString_def
        subscription_status_roundtrip)
qed

text \<open>The table with one row per store, whatever row was there before.\<close>

lemma row_put_subscription:
  "row_with ss_storeId k (put_subscription r t) =
     (if k = ss_storeId r
      then Some (case row_with ss_storeId k t of None \<Rightarrow> r | Some old \<Rightarrow> r\<lparr> ss_createdAt := ss_createdAt old \<rparr>)
      else row_with ss_storeId k t)"
  unfolding put_subscription_def by (auto simp: row_with_upsert)

lemma save_subscription_Inr:
  assumes "save_subscription stores created s now t = Inr t'"
  obtains r where "subscription_values s now created = Inr r" and "subscription_violation r = None"
    and "t' = put_subscription r t" and "ss_storeId r \<in> ss_storeId ` set t \<or> ss_storeId r \<in> stores"
  using assms by (auto simp: save_subscription_def bindE_eq_Inr split: option.splits if_splits)

lemma save_subscription_instants:
  assumes "save_subscription stores created s now t = Inr t'"
  shows "isInstant now"
proof (rule ccontr)
  assume "\<not> isInstant now"
  then have "instant_column now = Inl RangeError"
    by (simp add: instant_column_def toDateFromInstant_def epochMillis_error)
  then show False using assms by (auto simp: save_subscription_def subscription_values_def bindE_eq_Inr)
qed

lemma find_after_save:
  assumes "save_subscription stores created s now t = Inr t'" and "subscription_typed s"
  shows "find_subscription (sub_storeId s) t' = Inr (Some s)"
    and "k \<noteq> sub_storeId s \<Longrightarrow> find_subscription k t' = find_subscription k t"
proof -
  obtain r where r: "subscription_values s now created = Inr r" "t' = put_subscription r t"
    by (rule save_subscription_Inr [OF assms(1)])
  obtain r' where r': "subscription_values s now created = Inr r'" "ss_storeId r' = sub_storeId s"
    "\<forall>c. toDomain (r'\<lparr> ss_createdAt := c \<rparr>) = Inr s" "toDomain r' = Inr s"
    by (rule subscription_values_read [OF assms(2) save_subscription_instants [OF assms(1)], where created = created])
  have eq: "r' = r" using r(1) r'(1) by simp
  show "find_subscription (sub_storeId s) t' = Inr (Some s)"
    unfolding find_subscription_def r(2) row_put_subscription
    using r'(2-4) [unfolded eq] by (simp split: option.split)
  show "find_subscription k t' = find_subscription k t" if "k \<noteq> sub_storeId s"
    unfolding find_subscription_def r(2) row_put_subscription using r'(2) [unfolded eq] that by simp
qed

lemma save_subscription_total:
  assumes "subscription_typed s" and "isInstant now" and "sub_storeId s \<in> stores"
    and "sub_currentPeriodStart s < sub_currentPeriodEnd s"
    and "sub_pendingPlanCode s = None \<longleftrightarrow> sub_pendingPlanEffectiveAt s = None"
  shows "\<exists>t'. save_subscription stores created s now t = Inr t'"
proof -
  obtain r where "subscription_values s now created = Inr r" "ss_storeId r = sub_storeId s"
    "ss_pendingPlanCode r = sub_pendingPlanCode s"
    "ss_pendingPlanEffectiveAt r = None \<longleftrightarrow> sub_pendingPlanEffectiveAt s = None"
    "ss_currentPeriodStart r < ss_currentPeriodEnd r \<longleftrightarrow> sub_currentPeriodStart s < sub_currentPeriodEnd s"
    "ss_status r \<in> set (map fst SUBSCRIPTION_STATUSES)"
    by (rule subscription_values_read [OF assms(1,2), where created = created])
  then show ?thesis
    using assms(3-5) by (simp add: save_subscription_def subscription_violation_def)
qed

text \<open>The two marks change the moment of the last check and nothing else.\<close>

lemma toDomain_checked:
  assumes "toDomain r = Inr s" and "toInstantFromDateOrNull m = Inr i"
  shows "toDomain (r\<lparr> ss_lastReconciledAt := m \<rparr>) = Inr (s\<lparr> sub_lastReconciledAt := i \<rparr>)"
    and "toDomain (r\<lparr> ss_lastReconciledAt := m, ss_updatedAt := u \<rparr>) = Inr (s\<lparr> sub_lastReconciledAt := i \<rparr>)"
  using assms by (auto simp: toDomain_def bindE_eq_Inr)

lemma find_after_update:
  assumes "find_subscription k t = Inr f"
    and "row_with ss_storeId k t' = map_option (\<lambda>r. if ss_storeId r = storeId then g r else r) (row_with ss_storeId k t)"
    and "\<And>r s. toDomain r = Inr s \<Longrightarrow> toDomain (g r) = Inr (h s)"
  shows "find_subscription k t' = Inr (if k = storeId then map_option h f else f)"
proof (cases "row_with ss_storeId k t")
  case None
  then show ?thesis using assms(1,2) by (auto simp: find_subscription_def)
next
  case (Some r)
  have key: "ss_storeId r = k" using row_with_Some [OF Some] by simp
  obtain s where s: "toDomain r = Inr s" "f = Some s"
    using assms(1) Some by (auto simp: find_subscription_def bindE_eq_Inr)
  show ?thesis using assms(2) assms(3) [OF s(1)] Some key s by (simp add: find_subscription_def)
qed

lemma find_after_markDue:
  assumes "find_subscription k t = Inr f"
  shows "find_subscription k (markDueForReconciliation storeId t) =
     Inr (if k = storeId then map_option (\<lambda>s. s\<lparr> sub_lastReconciledAt := None \<rparr>) f else f)"
proof -
  have n: "toInstantFromDateOrNull None = Inr None" by (simp add: toInstantFromDateOrNull_def)
  have "row_with ss_storeId k (markDueForReconciliation storeId t) =
      map_option (\<lambda>r. if ss_storeId r = storeId then r\<lparr> ss_lastReconciledAt := None \<rparr> else r) (row_with ss_storeId k t)"
    unfolding markDueForReconciliation_def by (rule row_with_update) simp
  moreover have "toDomain (r\<lparr> ss_lastReconciledAt := None \<rparr>) = Inr (s\<lparr> sub_lastReconciledAt := None \<rparr>)"
    if "toDomain r = Inr s" for r s by (rule toDomain_checked(1) [OF that n])
  ultimately show ?thesis by (rule find_after_update [OF assms])
qed

lemma find_after_markReconciled:
  assumes "find_subscription k t = Inr f" and "isInstant now"
  obtains t' where "markReconciled storeId now t = Inr t'"
    and "find_subscription k t' = Inr (if k = storeId then map_option (\<lambda>s. s\<lparr> sub_lastReconciledAt := Some now \<rparr>) f else f)"
proof -
  obtain ms where ms: "instant_column now = Inr ms" "toInstantFromDate ms = Inr now"
    by (rule instant_column_read [OF assms(2)])
  then have n: "toInstantFromDateOrNull (Some ms) = Inr (Some now)" by (simp add: toInstantFromDateOrNull_def)
  let ?f = "\<lambda>r. r\<lparr> ss_lastReconciledAt := Some ms, ss_updatedAt := ms \<rparr>"
  let ?t = "update_where (\<lambda>r. ss_storeId r = storeId) ?f t"
  have "row_with ss_storeId k ?t = map_option (\<lambda>r. if ss_storeId r = storeId then ?f r else r) (row_with ss_storeId k t)"
    by (rule row_with_update) simp
  moreover have "toDomain (?f r) = Inr (s\<lparr> sub_lastReconciledAt := Some now \<rparr>)"
    if "toDomain r = Inr s" for r s by (rule toDomain_checked(2) [OF that n])
  ultimately have "find_subscription k ?t = Inr (if k = storeId then map_option (\<lambda>s. s\<lparr> sub_lastReconciledAt := Some now \<rparr>) f else f)"
    by (rule find_after_update [OF assms(1)])
  then show thesis using that [of ?t] ms(1) by (simp add: markReconciled_def)
qed

text \<open>A store that was never checked, or that asked for a refresh, is due before every other.\<close>

lemma unchecked_due_first:
  assumes "ss_lastReconciledAt r = None" and "ss_lastReconciledAt q \<noteq> None"
  shows "due_key r < due_key q"
  using assms by (auto simp: due_key_def less_prod_def)

end
