(* ===== verification/BillingService.thy ===== *)
theory BillingService
  imports SubscriptionStore Access
begin

text \<open>
  Billing in the Salla application, over the repository of \<open>SubscriptionStore\<close>:
  \<open>apps/ghalla-salla/src/billing/billing-event.handler.ts\<close> (a webhook),
  \<open>subscription-refresh.service.ts\<close> (the platform's answer for one store),
  \<open>reconciliation.service.ts\<close> (the nightly sweep) and \<open>entitlements.service.ts\<close> (what a request
  reads). The event and facts are those of \<open>packages/ports/src/billing.ts\<close>.

  The platform is the argument \<open>source\<close>: nothing when no source is wired, otherwise a function that
  fails, does not know the store, or answers. Counters and log lines are left out.
\<close>

datatype billing_event_type =
    BE_trial_started | BE_trial_ended | BE_subscription_started | BE_subscription_renewed
  | BE_subscription_updated | BE_subscription_past_due | BE_subscription_cancelled
  | BE_subscription_expired | BE_app_uninstalled | BE_unknown

record subscription_facts =
  fct_status :: subscription_status
  fct_planCode :: "string option"
  fct_platformPlanId :: "string option"
  fct_trialEndsAt :: "string option"
  fct_currentPeriodStart :: "string option"
  fct_currentPeriodEnd :: "string option"

record billing_event =
  be_type :: billing_event_type
  be_rawType :: string
  be_dedupeKey :: string
  be_platformStoreId :: string
  be_occurredAt :: string
  be_receivedAt :: string
  be_facts :: subscription_facts

record platform_subscription =
  psub_facts :: subscription_facts
  psub_isDevelopmentStore :: bool
  psub_observedAt :: string

section \<open>Webhooks\<close>

datatype handle_result = HR_applied subscription | HR_dropped_stale | HR_ignored

text \<open>A plan code that no build knows counts as not said.\<close>

definition facts_change :: "subscription_facts \<Rightarrow> string \<Rightarrow> subscription_change" where
  "facts_change facts occurredAt = \<lparr>
     chg_status = fct_status facts,
     chg_planCode = (case fct_planCode facts of
        None \<Rightarrow> None | Some code \<Rightarrow> if isPlanCode code then Some code else None),
     chg_platformPlanId = fct_platformPlanId facts,
     chg_trialEndsAt = fct_trialEndsAt facts,
     chg_currentPeriodStart = fct_currentPeriodStart facts,
     chg_currentPeriodEnd = fct_currentPeriodEnd facts,
     chg_occurredAt = occurredAt \<rparr>"

text \<open>
  The handler reads the row, decides, and writes. The decision is the result and the row to save, if
  any; \<open>handle\<close> puts the three together as one delivery does when no other runs between them.
\<close>

definition handle_decision ::
  "string \<Rightarrow> billing_event \<Rightarrow> subscription option \<Rightarrow> (handle_result \<times> subscription option) outcome" where
  "handle_decision storeId event current =
     (let change = facts_change (be_facts event) (be_occurredAt event)
      in case current of
           None \<Rightarrow> bindE (seedSubscription storeId change) (\<lambda>seeded. Inr (HR_applied seeded, Some seeded))
         | Some row \<Rightarrow>
             (case applyChange row change of
                Stale \<Rightarrow> Inr (HR_dropped_stale, None)
              | Applied next \<Rightarrow> Inr (HR_applied next, Some next)))"

definition handle_write ::
  "string set \<Rightarrow> int \<Rightarrow> billing_event \<Rightarrow> handle_result \<times> subscription option \<Rightarrow> subscription_row list
   \<Rightarrow> (handle_result \<times> subscription_row list) outcome" where
  "handle_write stores created event decision t =
     (case snd decision of
        None \<Rightarrow> Inr (fst decision, t)
      | Some next \<Rightarrow> bindE (save_subscription stores created next (be_receivedAt event) t) (\<lambda>t'.
                     Inr (fst decision, t')))"

definition handle ::
  "string set \<Rightarrow> int \<Rightarrow> string \<Rightarrow> billing_event \<Rightarrow> subscription_row list
   \<Rightarrow> (handle_result \<times> subscription_row list) outcome" where
  "handle stores created storeId event t =
     (if be_type event = BE_unknown then Inr (HR_ignored, t)
      else bindE (find_subscription storeId t) (\<lambda>current.
           bindE (handle_decision storeId event current) (\<lambda>decision.
           handle_write stores created event decision t)))"

section \<open>Asking the platform\<close>

datatype refresh_result =
    RR_created | RR_corrected subscription_status subscription_status | RR_unchanged
  | RR_unrecognised | RR_unavailable | RR_failed

datatype refresh_request = RQ_started | RQ_throttled string | RQ_unavailable

definition REFRESH_THROTTLE_MS :: int where
  "REFRESH_THROTTLE_MS = 60000"

type_synonym subscription_source = "string \<Rightarrow> string + platform_subscription option"

definition perform_refresh_steps ::
  "subscription_source \<Rightarrow> string set \<Rightarrow> int \<Rightarrow> string \<Rightarrow> string \<Rightarrow> subscription_row list
   \<Rightarrow> (refresh_result \<times> subscription_row list) outcome" where
  "perform_refresh_steps fetch stores created now storeId t =
     (case fetch storeId of
        Inl _ \<Rightarrow> Inr (RR_failed, t)
      | Inr truth \<Rightarrow>
          bindE (find_subscription storeId t) (\<lambda>current.
          case truth of
            None \<Rightarrow>
              (case current of
                 None \<Rightarrow> Inr (RR_unrecognised, t)
               | Some _ \<Rightarrow> bindE (markReconciled storeId now t) (\<lambda>t'. Inr (RR_unrecognised, t')))
          | Some told \<Rightarrow>
              (let change = facts_change (psub_facts told) (psub_observedAt told)
               in case current of
                    None \<Rightarrow>
                      bindE (seedSubscription storeId change) (\<lambda>seeded.
                      bindE (save_subscription stores created (seeded\<lparr> sub_lastReconciledAt := Some now \<rparr>) now t) (\<lambda>t'.
                      Inr (RR_created, t')))
                  | Some row \<Rightarrow>
                      (case reconcile row change now of
                         Unchanged \<Rightarrow> bindE (markReconciled storeId now t) (\<lambda>t'. Inr (RR_unchanged, t'))
                       | Corrected next \<Rightarrow>
                           bindE (save_subscription stores created next now t) (\<lambda>t'.
                           Inr (RR_corrected (sub_status row) (sub_status next), t'))))))"

text \<open>Every exception becomes the result \<open>failed\<close>: the refresh is total.\<close>

definition performRefresh ::
  "subscription_source option \<Rightarrow> string set \<Rightarrow> int \<Rightarrow> string \<Rightarrow> string \<Rightarrow> subscription_row list
   \<Rightarrow> refresh_result \<times> subscription_row list" where
  "performRefresh source stores created now storeId t =
     (case source of
        None \<Rightarrow> (RR_unavailable, t)
      | Some fetch \<Rightarrow>
          (case perform_refresh_steps fetch stores created now storeId t of
             Inl _ \<Rightarrow> (RR_failed, t)
           | Inr r \<Rightarrow> r))"

text \<open>
  The service keeps the stores with a refresh under way. A second \<open>refreshNow\<close> of one of them joins
  the first; the refresh ends by its own step, which removes the store whatever the result.
\<close>

record refresh_state =
  rf_rows :: "subscription_row list"
  rf_inFlight :: "string list"

definition refreshNow :: "string \<Rightarrow> refresh_state \<Rightarrow> refresh_state" where
  "refreshNow storeId st =
     (if storeId \<in> set (rf_inFlight st) then st else st\<lparr> rf_inFlight := rf_inFlight st @ [storeId] \<rparr>)"

definition finish_refresh ::
  "subscription_source option \<Rightarrow> string set \<Rightarrow> int \<Rightarrow> string \<Rightarrow> string \<Rightarrow> refresh_state
   \<Rightarrow> refresh_result \<times> refresh_state" where
  "finish_refresh source stores created now storeId st =
     (let done_run = performRefresh source stores created now storeId (rf_rows st)
      in (fst done_run, \<lparr> rf_rows = snd done_run, rf_inFlight = removeAll storeId (rf_inFlight st) \<rparr>))"

definition requestRefresh ::
  "subscription_source option \<Rightarrow> string \<Rightarrow> string \<Rightarrow> refresh_state \<Rightarrow> (refresh_request \<times> refresh_state) outcome" where
  "requestRefresh source now storeId st =
     (case source of
        None \<Rightarrow> Inr (RQ_unavailable, st)
      | Some _ \<Rightarrow>
          bindE (find_subscription storeId (rf_rows st)) (\<lambda>current.
          let start = (if current = None then st
                       else st\<lparr> rf_rows := markDueForReconciliation storeId (rf_rows st) \<rparr>)
          in case Option.bind current sub_lastReconciledAt of
               None \<Rightarrow> Inr (RQ_started, refreshNow storeId start)
             | Some lastChecked \<Rightarrow>
                 bindE (epochMillis now) (\<lambda>now_ms.
                 bindE (epochMillis lastChecked) (\<lambda>last_ms.
                 if now_ms - last_ms < REFRESH_THROTTLE_MS then Inr (RQ_throttled lastChecked, st)
                 else Inr (RQ_started, refreshNow storeId start)))))"

section \<open>The nightly sweep\<close>

record reconciliation_summary =
  rsum_checked :: nat
  rsum_created :: nat
  rsum_corrected :: nat
  rsum_failed :: nat
  rsum_skipped :: nat

text \<open>One store after the other; \<open>clock\<close> is the moment of each store's refresh.\<close>

fun sweep ::
  "subscription_source option \<Rightarrow> string set \<Rightarrow> int \<Rightarrow> (string \<Rightarrow> string) \<Rightarrow> string list \<Rightarrow> subscription_row list
   \<Rightarrow> refresh_result list \<times> subscription_row list" where
  "sweep source stores created clock [] t = ([], t)"
| "sweep source stores created clock (i # is) t =
     (let one = performRefresh source stores created (clock i) i t;
          rest = sweep source stores created clock is (snd one)
      in (fst one # fst rest, snd rest))"

fun is_corrected :: "refresh_result \<Rightarrow> bool" where
  "is_corrected (RR_corrected _ _) = True"
| "is_corrected _ = False"

definition runOnce ::
  "subscription_source option \<Rightarrow> string set \<Rightarrow> int \<Rightarrow> (string \<Rightarrow> string) \<Rightarrow> nat \<Rightarrow> subscription_row list
   \<Rightarrow> (reconciliation_summary \<times> subscription_row list) outcome" where
  "runOnce source stores created clock limit t =
     bindE (dueForReconciliation limit t) (\<lambda>due.
     let swept = sweep source stores created clock (map sub_storeId due) t;
         results = fst swept
     in Inr (\<lparr> rsum_checked = length due,
               rsum_created = length (filter (\<lambda>r. r = RR_created) results),
               rsum_corrected = length (filter is_corrected results),
               rsum_failed = length (filter (\<lambda>r. r = RR_failed) results),
               rsum_skipped = length (filter (\<lambda>r. r = RR_unavailable) results)
                 + length (filter (\<lambda>r. r = RR_unrecognised) results) \<rparr>, snd swept))"

section \<open>What a request reads\<close>

definition provisionalTrial :: "string \<Rightarrow> string \<Rightarrow> subscription outcome" where
  "provisionalTrial storeId now =
     bindE (epochMillis now) (\<lambda>start.
     bindE (toISOString (start + 14 * 86400000)) (\<lambda>end_text.
     bindE (toInstant end_text) (\<lambda>end_at.
     Inr \<lparr> sub_storeId = storeId, sub_planCode = TRIAL_PLAN, sub_platformPlanId = None,
           sub_status = ST_trialing, sub_trialEndsAt = Some end_at, sub_currentPeriodStart = now,
           sub_currentPeriodEnd = end_at, sub_lastEventAt = None, sub_lastReconciledAt = None,
           sub_pendingPlanCode = None, sub_pendingPlanEffectiveAt = None \<rparr>)))"

record store_billing =
  sb_subscription :: subscription
  sb_entitlements :: entitlements
  sb_usage :: usage_status

definition describe ::
  "string \<Rightarrow> string \<Rightarrow> subscription_row list \<Rightarrow> order_row list \<Rightarrow> usage_cache \<Rightarrow> (store_billing \<times> usage_cache) outcome" where
  "describe storeId now t orders cache =
     bindE (find_subscription storeId t) (\<lambda>found.
     bindE (case found of Some s \<Rightarrow> Inr s | None \<Rightarrow> provisionalTrial storeId now) (\<lambda>subscription.
     bindE (epochMillis now) (\<lambda>millis.
     let window = usageWindow subscription;
         key = usageCacheKey storeId window;
         looked = cache_get cache key millis
     in bindE (case fst looked of
                 Some n \<Rightarrow> Inr (n, snd looked)
               | None \<Rightarrow> bindE (countLiveOrders storeId window orders) (\<lambda>n.
                         Inr (n, cache_set (snd looked) key n millis))) (\<lambda>counted.
        let provisional = resolveEntitlements subscription now False;
            usage = usageStatus (fst counted) (ent_orderCap provisional);
            granted = resolveEntitlements subscription now (us_overCap usage)
        in Inr (\<lparr> sb_subscription = subscription, sb_entitlements = granted, sb_usage = usage \<rparr>,
                snd counted)))))"

definition forStore ::
  "string \<Rightarrow> string \<Rightarrow> subscription_row list \<Rightarrow> order_row list \<Rightarrow> usage_cache \<Rightarrow> (entitlements \<times> usage_cache) outcome" where
  "forStore storeId now t orders cache =
     bindE (describe storeId now t orders cache) (\<lambda>r. Inr (sb_entitlements (fst r), snd r))"

end
