(* ===== verification/BillingServiceFacts.thy ===== *)
theory BillingServiceFacts
  imports BillingService
begin

text \<open>
  Facts the services of \<open>BillingService\<close> rest on: what is read from the table is well typed and meets
  its constraints, a change that names a whole period keeps it ordered, a refresh of one store does not
  reach another, and the counts of a sweep add up. What the services do is specified in \<open>BillingSpec\<close>.
\<close>

section \<open>Rows are well typed\<close>

lemma toInstantFromDate_instant: "toInstantFromDate d = Inr i \<Longrightarrow> isInstant i"
  by (auto simp: toInstantFromDate_def bindE_eq_Inr toInstant_iff split: if_splits)

lemma toInstantFromDateOrNull_instant: "toInstantFromDateOrNull d = Inr (Some i) \<Longrightarrow> isInstant i"
  by (auto simp: toInstantFromDateOrNull_def bindE_eq_Inr toInstantFromDate_instant split: option.splits)

lemma toDomain_typed:
  assumes "toDomain r = Inr s"
  shows "subscription_typed s" and "sub_storeId s = ss_storeId r"
  using assms toInstantFromDate_instant toInstantFromDateOrNull_instant
  by (auto simp: toDomain_def bindE_eq_Inr subscription_typed_simps toIdFromColumn_def idFromString_def
      split: if_splits)

lemma find_typed:
  assumes "find_subscription k t = Inr (Some s)"
  shows "subscription_typed s" and "sub_storeId s = k" and "k \<in> ss_storeId ` set t"
proof -
  obtain r where r: "row_with ss_storeId k t = Some r" "toDomain r = Inr s"
    using assms by (auto simp: find_subscription_def bindE_eq_Inr split: option.splits)
  show "subscription_typed s" by (rule toDomain_typed(1) [OF r(2)])
  have "ss_storeId r = k" "r \<in> set t" using row_with_Some [OF r(1)] by auto
  then show "sub_storeId s = k" "k \<in> ss_storeId ` set t" using toDomain_typed(2) [OF r(2)] by (simp, blast)
qed

text \<open>What the types of the source say of a change, and a change that moves the period as a whole.\<close>

definition change_typed :: "subscription_change \<Rightarrow> bool" where
  "change_typed c \<longleftrightarrow> isInstant (chg_occurredAt c)
     \<and> (\<forall>v. chg_trialEndsAt c = Some v \<longrightarrow> isInstant v)
     \<and> (\<forall>v. chg_currentPeriodStart c = Some v \<longrightarrow> isInstant v)
     \<and> (\<forall>v. chg_currentPeriodEnd c = Some v \<longrightarrow> isInstant v)"

definition whole_period :: "subscription_change \<Rightarrow> bool" where
  "whole_period c \<longleftrightarrow> (case (chg_currentPeriodStart c, chg_currentPeriodEnd c) of
     (None, None) \<Rightarrow> True | (Some a, Some b) \<Rightarrow> a < b | _ \<Rightarrow> False)"

definition period_ordered :: "subscription \<Rightarrow> bool" where
  "period_ordered s \<longleftrightarrow> sub_currentPeriodStart s < sub_currentPeriodEnd s"

definition pending_complete :: "subscription \<Rightarrow> bool" where
  "pending_complete s \<longleftrightarrow> (sub_pendingPlanCode s = None \<longleftrightarrow> sub_pendingPlanEffectiveAt s = None)"

lemma applied_row_sound:
  assumes "subscription_typed s" and "change_typed c"
  shows "subscription_typed (applied_row s c)" and "pending_complete (applied_row s c)"
    and "sub_storeId (applied_row s c) = sub_storeId s"
    and "whole_period c \<Longrightarrow> period_ordered s \<Longrightarrow> period_ordered (applied_row s c)"
proof -
  obtain later t where d: "deferUntilPeriodEnd s c = (later, t)" by (cases "deferUntilPeriodEnd s c")
  have t: "t = sub_currentPeriodEnd s" using deferUntilPeriodEnd_at [of s c] d by simp
  have said: "later \<Longrightarrow> chg_planCode c \<noteq> None" using deferUntilPeriodEnd_True [of s c] d by auto
  show "subscription_typed (applied_row s c)"
    using assms t by (auto simp: subscription_typed_simps change_typed_def applied_row_def d or_else_def or_opt_def
        split: option.splits)
  show "pending_complete (applied_row s c)"
    using said by (simp add: pending_complete_def applied_row_def d)
  show "sub_storeId (applied_row s c) = sub_storeId s" by (simp add: applied_row_def d)
  show "whole_period c \<Longrightarrow> period_ordered s \<Longrightarrow> period_ordered (applied_row s c)"
    by (auto simp: whole_period_def period_ordered_def applied_row_def d or_else_def split: option.splits)
qed

lemma seedSubscription_sound:
  assumes "seedSubscription k c = Inr s" and "change_typed c" and "k \<noteq> []"
    and "chg_currentPeriodStart c = Some a" and "chg_currentPeriodEnd c = Some b" and "a < b"
  shows "subscription_typed s" and "pending_complete s" and "period_ordered s" and "sub_storeId s = k"
  using assms
  by (auto simp: seedSubscription_def Let_def bindE_eq_Inr subscription_typed_simps change_typed_def
      pending_complete_def period_ordered_def or_else_def)

text \<open>What the CHECK constraints say of the subscription that is read.\<close>

lemma stored_sound:
  assumes "find_subscription k t = Inr (Some s)" and "\<And>r. r \<in> set t \<Longrightarrow> subscription_violation r = None"
  shows "period_ordered s" and "pending_complete s"
proof -
  obtain r where r: "row_with ss_storeId k t = Some r" "toDomain r = Inr s"
    using assms(1) by (auto simp: find_subscription_def bindE_eq_Inr split: option.splits)
  have ok: "subscription_violation r = None" using assms(2) row_with_Some [OF r(1)] by blast
  have read: "toInstantFromDate (ss_currentPeriodStart r) = Inr (sub_currentPeriodStart s)"
    "toInstantFromDate (ss_currentPeriodEnd r) = Inr (sub_currentPeriodEnd s)"
    "toInstantFromDateOrNull (ss_pendingPlanEffectiveAt r) = Inr (sub_pendingPlanEffectiveAt s)"
    "ss_pendingPlanCode r = sub_pendingPlanCode s"
    using r(2) by (auto simp: toDomain_def bindE_eq_Inr)
  have "ss_pendingPlanEffectiveAt r = None \<longleftrightarrow> sub_pendingPlanEffectiveAt s = None"
    using read(3) by (cases "ss_pendingPlanEffectiveAt r"; cases "sub_pendingPlanEffectiveAt s")
      (auto simp: toInstantFromDateOrNull_def bindE_eq_Inr)
  then show "pending_complete s"
    using ok read(4) by (auto simp: subscription_violation_def pending_complete_def split: if_splits)
  have "epochMillis (sub_currentPeriodStart s) = Inr (ss_currentPeriodStart r)"
    "epochMillis (sub_currentPeriodEnd s) = Inr (ss_currentPeriodEnd r)"
    using date_instant_roundtrip [OF read(1)] date_instant_roundtrip [OF read(2)]
    by (auto simp: toDateFromInstant_def split: sum.splits)
  then show "period_ordered s"
    using instant_order(1) date_instant_roundtrip(1) [OF read(1)] date_instant_roundtrip(1) [OF read(2)] ok
    by (auto simp: period_ordered_def subscription_violation_def split: if_splits)
qed

section \<open>Events and answers as changes\<close>

definition event_change :: "billing_event \<Rightarrow> subscription_change" where
  "event_change e = facts_change (be_facts e) (be_occurredAt e)"

definition told_change :: "platform_subscription \<Rightarrow> subscription_change" where
  "told_change p = facts_change (psub_facts p) (psub_observedAt p)"

definition event_typed :: "billing_event \<Rightarrow> bool" where
  "event_typed e \<longleftrightarrow> change_typed (event_change e) \<and> isInstant (be_receivedAt e)"

lemma save_sound:
  assumes "subscription_typed s" and "pending_complete s" and "period_ordered s" and "isInstant now"
    and "sub_storeId s \<in> stores"
  obtains t' where "save_subscription stores created s now t = Inr t'"
    and "find_subscription (sub_storeId s) t' = Inr (Some s)"
    and "\<forall>k. k \<noteq> sub_storeId s \<longrightarrow> find_subscription k t' = find_subscription k t"
proof -
  obtain t' where t': "save_subscription stores created s now t = Inr t'"
    using save_subscription_total [OF assms(1,4,5), of created t] assms(2,3)
    by (auto simp: pending_complete_def period_ordered_def)
  then show thesis using that find_after_save [OF t' assms(1)] by blast
qed

section \<open>One store at a time\<close>

lemma save_other:
  assumes "save_subscription stores created s now t = Inr t'" and "k \<noteq> sub_storeId s"
  shows "find_subscription k t' = find_subscription k t"
proof -
  obtain r where r: "subscription_values s now created = Inr r" "t' = put_subscription r t"
    by (rule save_subscription_Inr [OF assms(1)])
  have "ss_storeId r = sub_storeId s" using r(1) by (auto simp: subscription_values_def bindE_eq_Inr)
  then show ?thesis
    using assms(2) unfolding find_subscription_def r(2) row_put_subscription by simp
qed

lemma markReconciled_other:
  assumes "markReconciled j now t = Inr t'" and "k \<noteq> j"
  shows "find_subscription k t' = find_subscription k t"
proof -
  obtain ms where "t' = update_where (\<lambda>r. ss_storeId r = j) (\<lambda>r. r\<lparr> ss_lastReconciledAt := Some ms, ss_updatedAt := ms \<rparr>) t"
    using assms(1) by (auto simp: markReconciled_def bindE_eq_Inr)
  then have "row_with ss_storeId k t' = map_option (\<lambda>r. if ss_storeId r = j
      then r\<lparr> ss_lastReconciledAt := Some ms, ss_updatedAt := ms \<rparr> else r) (row_with ss_storeId k t)"
    by (simp add: row_with_update)
  then have "row_with ss_storeId k t' = row_with ss_storeId k t"
    using assms(2) by (cases "row_with ss_storeId k t") (auto dest: row_with_Some)
  then show ?thesis by (simp add: find_subscription_def)
qed

lemma refresh_steps_other:
  assumes "perform_refresh_steps fetch stores created now j t = Inr (r, t')" and "k \<noteq> j"
  shows "find_subscription k t' = find_subscription k t"
proof (cases "fetch j")
  case (Inl m)
  then show ?thesis using assms(1) by (simp add: perform_refresh_steps_def)
next
  case (Inr truth)
  obtain current where c: "find_subscription j t = Inr current"
    using assms(1) Inr by (auto simp: perform_refresh_steps_def bindE_eq_Inr)
  show ?thesis
  proof (cases truth)
    case None
    then show ?thesis
      using assms Inr c markReconciled_other
      by (auto simp: perform_refresh_steps_def bindE_eq_Inr split: option.splits)
  next
    case (Some told)
    show ?thesis
    proof (cases current)
      case None
      then obtain s where "save_subscription stores created s now t = Inr t'" "sub_storeId s = j"
        using assms(1) Inr c Some
        by (auto simp: perform_refresh_steps_def bindE_eq_Inr Let_def seedSubscription_def)
      then show ?thesis using save_other assms(2) by simp
    next
      case row: (Some row)
      show ?thesis
      proof (cases "reconcile row (facts_change (psub_facts told) (psub_observedAt told)) now")
        case Unchanged
        then have "markReconciled j now t = Inr t'"
          using assms(1) Inr c Some row by (auto simp: perform_refresh_steps_def bindE_eq_Inr Let_def)
        then show ?thesis using markReconciled_other assms(2) by simp
      next
        case (Corrected u)
        then have "save_subscription stores created u now t = Inr t'"
          using assms(1) Inr c Some row by (auto simp: perform_refresh_steps_def bindE_eq_Inr Let_def)
        moreover have "sub_storeId u = j"
          using Corrected find_typed(2) [OF c [unfolded row]] by (auto simp: reconcile_def split: if_splits)
        ultimately show ?thesis using save_other assms(2) by simp
      qed
    qed
  qed
qed

lemma performRefresh_other:
  "k \<noteq> j \<Longrightarrow> find_subscription k (snd (performRefresh source stores created now j t)) = find_subscription k t"
  using refresh_steps_other
  by (fastforce simp: performRefresh_def split: option.split sum.split)

lemma sweep_other:
  "k \<notin> set ids \<Longrightarrow> find_subscription k (snd (sweep source stores created clock ids t)) = find_subscription k t"
  by (induction ids arbitrary: t) (simp_all add: Let_def performRefresh_other)

lemma sweep_length: "length (fst (sweep source stores created clock ids t)) = length ids"
  by (induction ids arbitrary: t) (simp_all add: Let_def)

lemma runOnce_adds_up:
  assumes "runOnce source stores created clock limit t = Inr (summary, t')"
  shows "rsum_checked summary = rsum_created summary + rsum_corrected summary + rsum_failed summary + rsum_skipped summary
      + length (filter (\<lambda>r. r = RR_unchanged) (fst (sweep source stores created clock
          (map sub_storeId (projr (dueForReconciliation limit t))) t)))"
    and "rsum_checked summary \<le> limit"
proof -
  have split: "length rs = length (filter (\<lambda>r. r = RR_created) rs) + length (filter is_corrected rs)
      + length (filter (\<lambda>r. r = RR_failed) rs) + (length (filter (\<lambda>r. r = RR_unavailable) rs)
      + length (filter (\<lambda>r. r = RR_unrecognised) rs)) + length (filter (\<lambda>r. r = RR_unchanged) rs)" for rs
  proof (induction rs)
    case Nil
    then show ?case by simp
  next
    case (Cons r rs)
    then show ?case by (cases r) simp_all
  qed
  obtain due where d: "dueForReconciliation limit t = Inr due"
    using assms by (auto simp: runOnce_def bindE_eq_Inr)
  show "rsum_checked summary = rsum_created summary + rsum_corrected summary + rsum_failed summary + rsum_skipped summary
      + length (filter (\<lambda>r. r = RR_unchanged) (fst (sweep source stores created clock
          (map sub_storeId (projr (dueForReconciliation limit t))) t)))"
    using assms d split [of "fst (sweep source stores created clock (map sub_storeId due) t)"]
    by (auto simp: runOnce_def Let_def sweep_length)
  have "length due \<le> limit" using d by (auto simp: dueForReconciliation_def dest!: mapE_length)
  then show "rsum_checked summary \<le> limit" using assms d by (auto simp: runOnce_def Let_def)
qed

section \<open>The throttle\<close>

lemma requestRefresh_throttled:
  assumes "find_subscription k (rf_rows st) = Inr (Some s)" and "sub_lastReconciledAt s = Some l"
    and "epochMillis now = Inr m" and "epochMillis l = Inr n"
  shows "requestRefresh (Some fetch) now k st =
    (if m - n < REFRESH_THROTTLE_MS then Inr (RQ_throttled l, st)
     else Inr (RQ_started, refreshNow k (st\<lparr> rf_rows := markDueForReconciliation k (rf_rows st) \<rparr>)))"
  using assms by (simp add: requestRefresh_def Let_def)

section \<open>What a request reads\<close>

lemma describe_Inr:
  assumes "describe k now t orders cache = Inr (b, cache')"
  obtains found ms where "find_subscription k t = Inr found" and "epochMillis now = Inr ms"
    and "(case found of Some s \<Rightarrow> Inr s | None \<Rightarrow> provisionalTrial k now) = Inr (sb_subscription b)"
    and "sb_entitlements b = resolveEntitlements (sb_subscription b) now (us_overCap (sb_usage b))"
    and "sb_usage b = usageStatus (us_count (sb_usage b)) (ent_orderCap (sb_entitlements b))"
    and "fst (cache_get cache (usageCacheKey k (usageWindow (sb_subscription b))) ms) = Some (us_count (sb_usage b))
       \<and> cache' = snd (cache_get cache (usageCacheKey k (usageWindow (sb_subscription b))) ms)
     \<or> fst (cache_get cache (usageCacheKey k (usageWindow (sb_subscription b))) ms) = None
       \<and> countLiveOrders k (usageWindow (sb_subscription b)) orders = Inr (us_count (sb_usage b))
       \<and> cache' = cache_set (snd (cache_get cache (usageCacheKey k (usageWindow (sb_subscription b))) ms))
           (usageCacheKey k (usageWindow (sb_subscription b))) (us_count (sb_usage b)) ms"
proof -
  obtain found s ms counted where f: "find_subscription k t = Inr found"
    and s: "(case found of Some s \<Rightarrow> Inr s | None \<Rightarrow> provisionalTrial k now) = Inr s"
    and ms: "epochMillis now = Inr ms"
    and n: "(case fst (cache_get cache (usageCacheKey k (usageWindow s)) ms) of
        Some n \<Rightarrow> Inr (n, snd (cache_get cache (usageCacheKey k (usageWindow s)) ms))
      | None \<Rightarrow> bindE (countLiveOrders k (usageWindow s) orders) (\<lambda>n.
          Inr (n, cache_set (snd (cache_get cache (usageCacheKey k (usageWindow s)) ms))
            (usageCacheKey k (usageWindow s)) n ms))) = Inr counted"
    and b: "b = \<lparr> sb_subscription = s, sb_entitlements = resolveEntitlements s now
          (us_overCap (usageStatus (fst counted) (ent_orderCap (resolveEntitlements s now False)))),
        sb_usage = usageStatus (fst counted) (ent_orderCap (resolveEntitlements s now False)) \<rparr>"
    and c: "cache' = snd counted"
    using assms by (auto simp: describe_def bindE_eq_Inr Let_def)
  have cap: "ent_orderCap (resolveEntitlements s now x) = ent_orderCap (resolveEntitlements s now False)" for x
    by (simp add: resolveEntitlements_def Let_def)
  have used: "us_count (usageStatus n c) = n" for n c by (simp add: usageStatus_def split: option.split)
  show thesis
    by (rule that [OF f ms]; use s n b c in
        \<open>auto simp: bindE_eq_Inr used cap [of "us_overCap _"] split: option.splits\<close>)
qed

text \<open>A store without a row reads as a trial that starts now.\<close>

lemma provisionalTrial_access:
  assumes "provisionalTrial k now = Inr s"
  shows "sub_planCode s = TRIAL_PLAN" and "effectivePlanCode s now = TRIAL_PLAN"
    and "now < sub_currentPeriodEnd s" and "\<not> isTrialExpired s now"
    and "acc_dashboard (decideAccess s now over) = DA_full"
proof -
  obtain ms e where ms: "epochMillis now = Inr ms" and e: "toISOString (ms + 14 * 86400000) = Inr e" "isInstant e"
    and s: "s = \<lparr> sub_storeId = k, sub_planCode = TRIAL_PLAN, sub_platformPlanId = None,
        sub_status = ST_trialing, sub_trialEndsAt = Some e, sub_currentPeriodStart = now,
        sub_currentPeriodEnd = e, sub_lastEventAt = None, sub_lastReconciledAt = None,
        sub_pendingPlanCode = None, sub_pendingPlanEffectiveAt = None \<rparr>"
    using assms by (auto simp: provisionalTrial_def bindE_eq_Inr toInstant_iff split: if_splits)
  have now: "isInstant now" using ms epochMillis_error [of now] by (cases "isInstant now") auto
  have later: "now < e" using instant_order(1) [OF now e(2) ms toISOString_read [OF e]] by simp
  show "sub_planCode s = TRIAL_PLAN" "effectivePlanCode s now = TRIAL_PLAN" "now < sub_currentPeriodEnd s"
    using later by (simp_all add: s effectivePlanCode_def)
  show expired: "\<not> isTrialExpired s now" using later by (simp add: s isTrialExpired_def)
  show "acc_dashboard (decideAccess s now over) = DA_full"
    using expired by (simp add: decideAccess_dashboard isPaying_def) (simp add: s)
qed

end
