(* ===== verification/BillingSpec.thy ===== *)
theory BillingSpec
  imports BillingServiceFacts
begin

text \<open>
  What a delivery and a reconciliation are to do, written over the platform's own facts and the table of
  plans, without the functions the services are built from: the result of every delivery, errors
  included, and the subscription after it; and the subscription the platform's answer stands for. The
  services of \<open>BillingService\<close> do exactly that.
\<close>

section \<open>The specification\<close>

text \<open>A field the platform did not mention keeps its value.\<close>

definition kept :: "'a option \<Rightarrow> 'a \<Rightarrow> 'a" where
  "kept told old = (case told of None \<Rightarrow> old | Some v \<Rightarrow> v)"

definition kept_opt :: "'a option \<Rightarrow> 'a option \<Rightarrow> 'a option" where
  "kept_opt told old = (if told = None then old else told)"

text \<open>A code that is no key of the table of plans was not said.\<close>

definition named_plan :: "subscription_facts \<Rightarrow> string option" where
  "named_plan f = (case fct_planCode f of None \<Rightarrow> None
     | Some code \<Rightarrow> if code \<in> set (map fst PLANS) then Some code else None)"

text \<open>A plan is lower when it lacks a feature or admits fewer orders a month.\<close>

definition months :: "plan \<Rightarrow> int" where
  "months p = (if plan_interval p = BI_year then 12 else 1)"

definition fewer_orders :: "plan \<Rightarrow> plan \<Rightarrow> bool" where
  "fewer_orders a b = (case plan_orderCap b of
     None \<Rightarrow> False
   | Some n \<Rightarrow> (case plan_orderCap a of None \<Rightarrow> True | Some m \<Rightarrow> n * months a < m * months b))"

definition lower_plan :: "plan \<Rightarrow> plan \<Rightarrow> bool" where
  "lower_plan a b \<longleftrightarrow> \<not> set (plan_features a) \<subseteq> set (plan_features b) \<or> fewer_orders a b"

definition put_off :: "subscription \<Rightarrow> string \<Rightarrow> string \<Rightarrow> bool" where
  "put_off s code occurred \<longleftrightarrow> code \<noteq> sub_planCode s \<and> occurred < sub_currentPeriodEnd s
     \<and> (case (map_of PLANS (sub_planCode s), map_of PLANS code) of
          (Some a, Some b) \<Rightarrow> lower_plan a b | _ \<Rightarrow> False)"

definition after_event :: "subscription \<Rightarrow> billing_event \<Rightarrow> subscription" where
  "after_event s e =
     (let f = be_facts e; plan = named_plan f;
          later = (case plan of None \<Rightarrow> False | Some code \<Rightarrow> put_off s code (be_occurredAt e))
      in s\<lparr> sub_status := fct_status f,
            sub_planCode := (if later then sub_planCode s else kept plan (sub_planCode s)),
            sub_pendingPlanCode := (if later then plan else None),
            sub_pendingPlanEffectiveAt := (if later then Some (sub_currentPeriodEnd s) else None),
            sub_platformPlanId := kept_opt (fct_platformPlanId f) (sub_platformPlanId s),
            sub_trialEndsAt := kept_opt (fct_trialEndsAt f) (sub_trialEndsAt s),
            sub_currentPeriodStart := kept (fct_currentPeriodStart f) (sub_currentPeriodStart s),
            sub_currentPeriodEnd := kept (fct_currentPeriodEnd f) (sub_currentPeriodEnd s),
            sub_lastEventAt := Some (be_occurredAt e) \<rparr>)"

text \<open>The first subscription of a store; without an end of the period it lasts thirty days.\<close>

definition month_after :: "string \<Rightarrow> string" where
  "month_after s = (case instant_plus_days 30 s of Inl _ \<Rightarrow> [] | Inr r \<Rightarrow> r)"

definition event_start :: "billing_event \<Rightarrow> string" where
  "event_start e = kept (fct_currentPeriodStart (be_facts e)) (be_occurredAt e)"

definition first_subscription :: "string \<Rightarrow> billing_event \<Rightarrow> subscription" where
  "first_subscription k e =
     (let f = be_facts e
      in \<lparr> sub_storeId = k, sub_planCode = kept (named_plan f) ''growth'', sub_platformPlanId = fct_platformPlanId f,
           sub_status = fct_status f, sub_trialEndsAt = fct_trialEndsAt f, sub_currentPeriodStart = event_start e,
           sub_currentPeriodEnd = kept (fct_currentPeriodEnd f) (month_after (event_start e)),
           sub_lastEventAt = Some (be_occurredAt e), sub_lastReconciledAt = None,
           sub_pendingPlanCode = None, sub_pendingPlanEffectiveAt = None \<rparr>)"

definition wanted :: "string \<Rightarrow> subscription option \<Rightarrow> billing_event \<Rightarrow> subscription" where
  "wanted k current e = (case current of None \<Rightarrow> first_subscription k e | Some s \<Rightarrow> after_event s e)"

definition comes_late :: "subscription option \<Rightarrow> billing_event \<Rightarrow> bool" where
  "comes_late current e = (case Option.bind current sub_lastEventAt of None \<Rightarrow> False | Some t \<Rightarrow> be_occurredAt e \<le> t)"

text \<open>The result of one delivery; only a delivery that is applied changes the subscription.\<close>

definition expected :: "string set \<Rightarrow> string \<Rightarrow> subscription option \<Rightarrow> billing_event \<Rightarrow> handle_result outcome" where
  "expected stores k current e =
     (let u = wanted k current e
      in if be_type e = BE_unknown then Inr HR_ignored
         else if comes_late current e then Inr HR_dropped_stale
         else if \<not> sub_currentPeriodStart u < sub_currentPeriodEnd u
         then Inl (ConstraintViolation ''store_subscription_period_ordered'')
         else if current = None \<and> k \<notin> stores
         then Inl (ConstraintViolation ''store_subscription_store_id_stores_id_fk'')
         else Inr (HR_applied u))"

definition carried :: "handle_result outcome \<Rightarrow> subscription option \<Rightarrow> subscription option" where
  "carried r current = (case r of Inr (HR_applied u) \<Rightarrow> Some u | _ \<Rightarrow> current)"

fun expected_all :: "string set \<Rightarrow> string \<Rightarrow> subscription option \<Rightarrow> billing_event list
    \<Rightarrow> handle_result outcome list \<times> subscription option" where
  "expected_all stores k current [] = ([], current)"
| "expected_all stores k current (e # es) =
     (let r = expected stores k current e; rest = expected_all stores k (carried r current) es
      in (r # fst rest, snd rest))"

text \<open>The deliveries of one store, each on what the one before left; one that throws leaves the table.\<close>

fun deliver_all :: "string set \<Rightarrow> int \<Rightarrow> string \<Rightarrow> billing_event list \<Rightarrow> subscription_row list
    \<Rightarrow> handle_result outcome list \<times> subscription_row list" where
  "deliver_all stores created k [] t = ([], t)"
| "deliver_all stores created k (e # es) t =
     (case handle stores created k e t of
        Inl err \<Rightarrow> (let rest = deliver_all stores created k es t in (Inl err # fst rest, snd rest))
      | Inr (r, t') \<Rightarrow> (let rest = deliver_all stores created k es t' in (Inr r # fst rest, snd rest)))"

text \<open>What the platform's answer stands for: what it mentions is written down, the rest stays.\<close>

definition as_told :: "subscription \<Rightarrow> platform_subscription \<Rightarrow> string \<Rightarrow> subscription" where
  "as_told s p now =
     (let f = psub_facts p
      in s\<lparr> sub_status := fct_status f, sub_planCode := kept (named_plan f) (sub_planCode s),
            sub_platformPlanId := kept_opt (fct_platformPlanId f) (sub_platformPlanId s),
            sub_trialEndsAt := kept_opt (fct_trialEndsAt f) (sub_trialEndsAt s),
            sub_currentPeriodStart := kept (fct_currentPeriodStart f) (sub_currentPeriodStart s),
            sub_currentPeriodEnd := kept (fct_currentPeriodEnd f) (sub_currentPeriodEnd s),
            sub_lastReconciledAt := Some now \<rparr>)"

text \<open>Instants are instants, and a month after the start is one too.\<close>

definition facts_typed :: "subscription_facts \<Rightarrow> bool" where
  "facts_typed f \<longleftrightarrow> list_all (\<lambda>i. case i of None \<Rightarrow> True | Some v \<Rightarrow> isInstant v)
     [fct_trialEndsAt f, fct_currentPeriodStart f, fct_currentPeriodEnd f]"

definition well_formed_event :: "billing_event \<Rightarrow> bool" where
  "well_formed_event e \<longleftrightarrow> facts_typed (be_facts e) \<and> isInstant (be_occurredAt e) \<and> isInstant (be_receivedAt e)
     \<and> isInstant (month_after (event_start e))"

text \<open>What the CHECK constraints of the table grant for the row that is read.\<close>

definition admitted :: "subscription option \<Rightarrow> bool" where
  "admitted current = (case current of None \<Rightarrow> True | Some s \<Rightarrow> pending_complete s \<and> period_ordered s)"

section \<open>The services do it\<close>

lemma kept_or_else: "kept = or_else" "kept_opt = or_opt"
  by (auto simp: fun_eq_iff kept_def kept_opt_def or_else_def or_opt_def split: option.splits)

lemma twelfths:
  "(of_int n :: rat) / 12 < of_int m \<longleftrightarrow> n < m * 12" "(of_int n :: rat) < of_int m / 12 \<longleftrightarrow> n * 12 < m"
  "(of_int n :: rat) < of_int m * 12 \<longleftrightarrow> n < m * 12" "(of_int n :: rat) * 12 < of_int m \<longleftrightarrow> n * 12 < m"
proof -
  have "(of_int n :: rat) / 12 < of_int m \<longleftrightarrow> (of_int n :: rat) < of_int (m * 12)" by (simp add: field_simps)
  then show "(of_int n :: rat) / 12 < of_int m \<longleftrightarrow> n < m * 12" by (simp only: of_int_less_iff)
  have "(of_int n :: rat) < of_int m / 12 \<longleftrightarrow> of_int (n * 12) < (of_int m :: rat)" by (simp add: field_simps)
  then show "(of_int n :: rat) < of_int m / 12 \<longleftrightarrow> n * 12 < m" by (simp only: of_int_less_iff)
  show "(of_int n :: rat) < of_int m * 12 \<longleftrightarrow> n < m * 12" "(of_int n :: rat) * 12 < of_int m \<longleftrightarrow> n * 12 < m"
    using of_int_less_iff [of n "m * 12", where ?'a = rat] of_int_less_iff [of "n * 12" m, where ?'a = rat] by simp_all
qed

lemma fewer_orders_cap: "fewer_orders a b \<longleftrightarrow> (case monthlyCapOf a of
    None \<Rightarrow> monthlyCapOf b \<noteq> None
  | Some fromCap \<Rightarrow> (case monthlyCapOf b of None \<Rightarrow> False | Some toCap \<Rightarrow> toCap < fromCap))"
  by (cases "plan_orderCap a"; cases "plan_orderCap b")
    (simp_all add: fewer_orders_def monthlyCapOf_def months_def twelfths)

lemma isDowngrade_lower: "isDowngrade a b \<longleftrightarrow> lower_plan a b"
  unfolding isDowngrade_def lower_plan_def fewer_orders_cap [symmetric] by (auto simp: list_ex_iff)

lemma event_change_plan: "chg_planCode (event_change e) = named_plan (be_facts e)"
  by (simp add: event_change_def facts_change_def named_plan_def isPlanCode_def split: option.split)

lemma defer_put_off: "fst (deferUntilPeriodEnd s (event_change e))
    = (case named_plan (be_facts e) of None \<Rightarrow> False | Some code \<Rightarrow> put_off s code (be_occurredAt e))"
proof -
  have occurred: "chg_occurredAt (event_change e) = be_occurredAt e" by (simp add: event_change_def facts_change_def)
  show ?thesis
    unfolding deferUntilPeriodEnd_def event_change_plan occurred
    by (auto simp: put_off_def planOf_def isDowngrade_lower Let_def split: option.splits)
qed

lemma applied_after_event: "applied_row s (event_change e) = after_event s e"
proof -
  have d: "deferUntilPeriodEnd s (event_change e)
      = (case named_plan (be_facts e) of None \<Rightarrow> False | Some code \<Rightarrow> put_off s code (be_occurredAt e), sub_currentPeriodEnd s)"
    by (rule prod_eqI) (simp_all add: defer_put_off)
  show ?thesis
    unfolding applied_row_def d after_event_def kept_or_else event_change_plan
    by (simp add: Let_def event_change_def facts_change_def)
qed

lemma typed_change:
  assumes "facts_typed f" and "isInstant occurred"
  shows "change_typed (facts_change f occurred)"
  using assms by (auto simp: facts_typed_def change_typed_def facts_change_def split: option.splits)

text \<open>The three ends a save can have.\<close>

lemma save_decided:
  assumes "subscription_typed s" and "pending_complete s" and "isInstant now"
  shows "\<not> period_ordered s \<Longrightarrow>
      save_subscription stores created s now t = Inl (ConstraintViolation ''store_subscription_period_ordered'')"
    and "period_ordered s \<Longrightarrow> sub_storeId s \<notin> ss_storeId ` set t \<Longrightarrow> sub_storeId s \<notin> stores \<Longrightarrow>
      save_subscription stores created s now t = Inl (ConstraintViolation ''store_subscription_store_id_stores_id_fk'')"
    and "period_ordered s \<Longrightarrow> sub_storeId s \<in> ss_storeId ` set t \<or> sub_storeId s \<in> stores \<Longrightarrow>
      \<exists>t'. save_subscription stores created s now t = Inr t' \<and> find_subscription (sub_storeId s) t' = Inr (Some s)"
proof -
  obtain r where r: "subscription_values s now created = Inr r" "ss_storeId r = sub_storeId s"
    "ss_pendingPlanCode r = sub_pendingPlanCode s"
    "ss_pendingPlanEffectiveAt r = None \<longleftrightarrow> sub_pendingPlanEffectiveAt s = None"
    "ss_currentPeriodStart r < ss_currentPeriodEnd r \<longleftrightarrow> sub_currentPeriodStart s < sub_currentPeriodEnd s"
    "ss_status r \<in> set (map fst SUBSCRIPTION_STATUSES)"
    by (rule subscription_values_read [OF assms(1,3), where created = created])
  note save = r assms(2) save_subscription_def subscription_violation_def period_ordered_def pending_complete_def
  show "\<not> period_ordered s \<Longrightarrow>
      save_subscription stores created s now t = Inl (ConstraintViolation ''store_subscription_period_ordered'')"
    using save by simp
  show "period_ordered s \<Longrightarrow> sub_storeId s \<notin> ss_storeId ` set t \<Longrightarrow> sub_storeId s \<notin> stores \<Longrightarrow>
      save_subscription stores created s now t = Inl (ConstraintViolation ''store_subscription_store_id_stores_id_fk'')"
    using save by simp
  show "\<exists>t'. save_subscription stores created s now t = Inr t' \<and> find_subscription (sub_storeId s) t' = Inr (Some s)"
    if "period_ordered s" "sub_storeId s \<in> ss_storeId ` set t \<or> sub_storeId s \<in> stores"
  proof -
    have "\<exists>t'. save_subscription stores created s now t = Inr t'" using save that by simp
    then show ?thesis using find_after_save(1) [OF _ assms(1)] by blast
  qed
qed

lemma find_None: "find_subscription k t = Inr None \<Longrightarrow> k \<notin> ss_storeId ` set t"
  by (auto simp: find_subscription_def row_with_def find_None_iff bindE_eq_Inr split: option.splits)

text \<open>The row to be written, and that it can be.\<close>

lemma wanted_sound:
  assumes "find_subscription k t = Inr current" and "admitted current" and "k \<noteq> []" and "well_formed_event e"
  shows "subscription_typed (wanted k current e)" and "pending_complete (wanted k current e)"
    and "sub_storeId (wanted k current e) = k"
proof -
  have c: "change_typed (event_change e)"
    unfolding event_change_def by (rule typed_change) (use assms(4) in \<open>simp_all add: well_formed_event_def\<close>)
  have "subscription_typed (wanted k current e) \<and> pending_complete (wanted k current e) \<and> sub_storeId (wanted k current e) = k"
  proof (cases current)
    case None
    have "isInstant (event_start e)"
      using assms(4) by (auto simp: well_formed_event_def facts_typed_def event_start_def kept_def split: option.splits)
    then show ?thesis
      using None assms(3,4)
      by (auto simp: wanted_def first_subscription_def Let_def subscription_typed_simps pending_complete_def
          well_formed_event_def facts_typed_def kept_def split: option.splits)
  next
    case (Some s)
    note typed = find_typed [OF assms(1) [unfolded Some]]
    show ?thesis
      using applied_row_sound(1-3) [OF typed(1) c] typed(2) by (simp add: wanted_def Some applied_after_event)
  qed
  then show "subscription_typed (wanted k current e)" and "pending_complete (wanted k current e)"
    and "sub_storeId (wanted k current e) = k" by simp_all
qed

lemma seed_first:
  assumes "well_formed_event e"
  shows "seedSubscription k (event_change e) = Inr (first_subscription k e)"
proof -
  have "isInstant (month_after (event_start e))" using assms by (simp add: well_formed_event_def)
  then have m: "instant_plus_days 30 (event_start e) = Inr (month_after (event_start e))"
    by (auto simp: month_after_def isInstant_def match_instant_def split: sum.splits)
  have "or_else (chg_currentPeriodStart (event_change e)) (chg_occurredAt (event_change e)) = event_start e"
    by (simp add: event_start_def kept_or_else event_change_def facts_change_def)
  then show ?thesis
    by (simp add: seedSubscription_def Let_def m first_subscription_def event_change_plan kept_or_else TRIAL_PLAN_def)
      (simp add: event_change_def facts_change_def)
qed

lemma delivery_expected:
  assumes f: "find_subscription k t = Inr current" and ok: "admitted current" and k: "k \<noteq> []" and e: "well_formed_event e"
  shows "case handle stores created k e t of
      Inl err \<Rightarrow> expected stores k current e = Inl err
    | Inr (r, t') \<Rightarrow> expected stores k current e = Inr r
        \<and> find_subscription k t' = Inr (carried (Inr r) current) \<and> admitted (carried (Inr r) current)"
proof (cases "be_type e = BE_unknown \<or> comes_late current e")
  case True
  then show ?thesis
  proof (cases "be_type e = BE_unknown")
    case True
    then show ?thesis using f ok by (simp add: handle_def expected_def carried_def)
  next
    case False
    then obtain s where s: "current = Some s" "isStale s (be_occurredAt e)"
      using True by (cases current) (auto simp: comes_late_def isStale_def)
    then show ?thesis
      using False True f ok
      by (simp add: handle_def handle_decision_def handle_write_def expected_def carried_def applyChange_def Let_def
          facts_change_def)
  qed
next
  case False
  let ?u = "wanted k current e"
  note u = wanted_sound [OF f ok k e]
  have received: "isInstant (be_receivedAt e)" using e by (simp add: well_formed_event_def)
  have "handle_decision k e current = Inr (HR_applied ?u, Some ?u)"
  proof (cases current)
    case None
    then show ?thesis
      using seed_first [OF e] by (simp add: handle_decision_def wanted_def event_change_def Let_def)
  next
    case (Some s)
    then have "\<not> isStale s (be_occurredAt e)" using False by (simp add: comes_late_def isStale_def)
    then show ?thesis
      using applied_after_event [of s e] Some
      by (simp add: handle_decision_def wanted_def event_change_def applyChange_def Let_def facts_change_def)
  qed
  then have h: "handle stores created k e t
      = bindE (save_subscription stores created ?u (be_receivedAt e) t) (\<lambda>t'. Inr (HR_applied ?u, t'))"
    using f False by (simp add: handle_def handle_write_def)
  have known: "k \<in> ss_storeId ` set t \<longleftrightarrow> current \<noteq> None"
    using find_None find_typed(3) f by (cases current) auto
  note saves = save_decided [OF u(1,2) received, where stores = stores and created = created and t = t, unfolded u(3)]
  show ?thesis
  proof (cases "period_ordered ?u \<and> (current \<noteq> None \<or> k \<in> stores)")
    case True
    then obtain t' where "save_subscription stores created ?u (be_receivedAt e) t = Inr t'"
      "find_subscription k t' = Inr (Some ?u)" using saves(3) known by blast
    then show ?thesis
      using True False u(2) by (auto simp: h expected_def carried_def admitted_def period_ordered_def Let_def)
  next
    case failing: False
    show ?thesis
    proof (cases "period_ordered ?u")
      case True
      then have none: "current = None" "k \<notin> stores" "k \<notin> ss_storeId ` set t" using failing known by auto
      have "save_subscription stores created ?u (be_receivedAt e) t
          = Inl (ConstraintViolation ''store_subscription_store_id_stores_id_fk'')" by (rule saves(2) [OF True none(3,2)])
      then show ?thesis using none True False by (auto simp: h expected_def Let_def period_ordered_def)
    next
      case unordered: False
      then have "save_subscription stores created ?u (be_receivedAt e) t
          = Inl (ConstraintViolation ''store_subscription_period_ordered'')" by (rule saves(1))
      then show ?thesis using False unordered by (auto simp: h expected_def Let_def period_ordered_def)
    qed
  qed
qed

lemma deliver_all_expected:
  assumes "find_subscription k t = Inr current" and "admitted current" and "k \<noteq> []" and "list_all well_formed_event es"
  shows "fst (deliver_all stores created k es t) = fst (expected_all stores k current es)
    \<and> find_subscription k (snd (deliver_all stores created k es t)) = Inr (snd (expected_all stores k current es))"
  using assms
proof (induction es arbitrary: t current)
  case Nil
  then show ?case by simp
next
  case (Cons e es)
  have one: "case handle stores created k e t of
      Inl err \<Rightarrow> expected stores k current e = Inl err
    | Inr (r, t') \<Rightarrow> expected stores k current e = Inr r
        \<and> find_subscription k t' = Inr (carried (Inr r) current) \<and> admitted (carried (Inr r) current)"
    by (rule delivery_expected [OF Cons.prems(1-3)]) (use Cons.prems(4) in simp)
  show ?case
  proof (cases "handle stores created k e t")
    case (Inl err)
    then show ?thesis
      using one Cons.IH [OF Cons.prems(1-3)] Cons.prems(4) by (simp add: Let_def carried_def)
  next
    case (Inr rt)
    obtain r t' where rt: "rt = (r, t')" by (cases rt)
    then show ?thesis
      using one Inr Cons.IH [of t' "carried (Inr r) current"] Cons.prems(3,4) by (simp add: Let_def)
  qed
qed

section \<open>Reconciliation does it\<close>

lemma told_plan: "chg_planCode (told_change p) = named_plan (psub_facts p)"
  by (simp add: told_change_def facts_change_def named_plan_def isPlanCode_def split: option.split)

lemma reconcile_told:
  "case reconcile s (told_change p) now of
     Unchanged \<Rightarrow> s\<lparr> sub_lastReconciledAt := Some now \<rparr> = as_told s p now
   | Corrected u \<Rightarrow> u = as_told s p now"
proof (cases "differsFrom s (told_change p)")
  case True
  have "s\<lparr> sub_pendingPlanCode := sub_pendingPlanCode s, sub_pendingPlanEffectiveAt := sub_pendingPlanEffectiveAt s \<rparr> = s"
    by simp
  then show ?thesis
    using True by (simp add: reconcile_def as_told_def told_plan kept_or_else Let_def)
      (simp add: told_change_def facts_change_def)
next
  case False
  have keep: "or_else x v = v" "or_opt y w = w" if "\<not> says_other x (Some v)" "\<not> says_other y w" for x v and y w :: "string option"
    using that by (auto simp: says_other_def or_else_def or_opt_def split: option.splits)
  have same: "sub_status s = chg_status (told_change p)" "\<not> says_other (chg_planCode (told_change p)) (Some (sub_planCode s))"
    "\<not> says_other (chg_platformPlanId (told_change p)) (sub_platformPlanId s)"
    "\<not> says_other (chg_currentPeriodStart (told_change p)) (Some (sub_currentPeriodStart s))"
    "\<not> says_other (chg_currentPeriodEnd (told_change p)) (Some (sub_currentPeriodEnd s))"
    "\<not> says_other (chg_trialEndsAt (told_change p)) (sub_trialEndsAt s)"
    using False by (auto simp: differsFrom_def)
  have fields: "fct_status (psub_facts p) = sub_status s" "or_else (named_plan (psub_facts p)) (sub_planCode s) = sub_planCode s"
    "or_opt (fct_platformPlanId (psub_facts p)) (sub_platformPlanId s) = sub_platformPlanId s"
    "or_opt (fct_trialEndsAt (psub_facts p)) (sub_trialEndsAt s) = sub_trialEndsAt s"
    "or_else (fct_currentPeriodStart (psub_facts p)) (sub_currentPeriodStart s) = sub_currentPeriodStart s"
    "or_else (fct_currentPeriodEnd (psub_facts p)) (sub_currentPeriodEnd s) = sub_currentPeriodEnd s"
    using same unfolding told_plan [symmetric]
    by (auto simp: says_other_def or_else_def or_opt_def told_change_def facts_change_def split: option.splits)
  show ?thesis
    using False fields by (simp add: reconcile_def as_told_def kept_or_else Let_def)
qed

lemma refresh_as_told:
  assumes f: "find_subscription k t = Inr (Some s)" and ok: "pending_complete s" "period_ordered s"
    and told: "fetch k = Inr (Some p)" and p: "facts_typed (psub_facts p)" "isInstant (psub_observedAt p)" and now: "isInstant now"
  shows "find_subscription k (snd (performRefresh (Some fetch) stores created now k t))
    = Inr (Some (if period_ordered (as_told s p now) then as_told s p now else s))"
proof -
  note typed = find_typed [OF f]
  have u: "subscription_typed (as_told s p now)" "pending_complete (as_told s p now)" "sub_storeId (as_told s p now) = k"
    using typed(1,2) p ok(1) now
    by (auto simp: as_told_def Let_def subscription_typed_simps pending_complete_def facts_typed_def kept_def kept_opt_def
        split: option.splits)
  have run: "performRefresh (Some fetch) stores created now k t =
      (case (case reconcile s (told_change p) now of
          Unchanged \<Rightarrow> bindE (markReconciled k now t) (\<lambda>t'. Inr (RR_unchanged, t'))
        | Corrected next \<Rightarrow> bindE (save_subscription stores created next now t)
            (\<lambda>t'. Inr (RR_corrected (sub_status s) (sub_status next), t'))) of
        Inl _ \<Rightarrow> (RR_failed, t) | Inr r \<Rightarrow> r)"
    using f told by (simp add: performRefresh_def perform_refresh_steps_def told_change_def Let_def)
  show ?thesis
  proof (cases "reconcile s (told_change p) now")
    case Unchanged
    then have same: "s\<lparr> sub_lastReconciledAt := Some now \<rparr> = as_told s p now" using reconcile_told [of s p now] by simp
    then have "period_ordered (as_told s p now)" using ok(2) by (simp add: period_ordered_def flip: same)
    moreover obtain t' where "markReconciled k now t = Inr t'"
      "find_subscription k t' = Inr (if k = k then map_option (\<lambda>s. s\<lparr> sub_lastReconciledAt := Some now \<rparr>) (Some s) else Some s)"
      by (rule find_after_markReconciled [OF f now, where storeId = k])
    ultimately show ?thesis using Unchanged same by (simp add: run)
  next
    case (Corrected u)
    then have "u = as_told s p now" using reconcile_told [of s p now] by simp
    then show ?thesis
      using save_decided(1,3) [OF u(1,2) now, where stores = stores and created = created and t = t, unfolded u(3)]
        typed(3) f by (auto simp: run Corrected)
  qed
qed

lemma sweep_as_told:
  assumes "distinct ids" and "k \<in> set ids" and "find_subscription k t = Inr (Some s)"
    and ok: "pending_complete s" "period_ordered s" and told: "fetch k = Inr (Some p)"
    and p: "facts_typed (psub_facts p)" "isInstant (psub_observedAt p)" and now: "isInstant (clock k)"
  shows "find_subscription k (snd (sweep (Some fetch) stores created clock ids t))
    = Inr (Some (if period_ordered (as_told s p (clock k)) then as_told s p (clock k) else s))"
  using assms(1-3)
proof (induction ids arbitrary: t)
  case Nil
  then show ?case by simp
next
  case (Cons i ids)
  let ?t = "snd (performRefresh (Some fetch) stores created (clock i) i t)"
  show ?case
  proof (cases "i = k")
    case True
    then have "k \<notin> set ids" using Cons.prems(1) by simp
    from sweep_other [OF this, of "Some fetch" stores created clock ?t] show ?thesis
      using refresh_as_told [where fetch = fetch, OF Cons.prems(3) ok told p now] True by (simp add: Let_def)
  next
    case False
    then have "find_subscription k ?t = Inr (Some s)" using performRefresh_other Cons.prems(3) by metis
    then show ?thesis using Cons.IH [of ?t] Cons.prems(1,2) False by (simp add: Let_def)
  qed
qed

end
