(* ===== verification/TextCodec.thy ===== *)
theory TextCodec
  imports Prelude "HOL-Library.Sublist"
begin

text \<open>
  The text functions of the language the operator portal uses: splitting, UTF-8, percent encoding and
  Base64. A character has eight bits here, and a string is also the rendering of a byte array or of
  the binary string \<open>btoa\<close> takes: one character per byte.
\<close>

section \<open>Splitting and percent encoding\<close>

fun js_split :: "char \<Rightarrow> string \<Rightarrow> string list" where
  "js_split c [] = [[]]"
| "js_split c (x # xs) =
     (if x = c then [] # js_split c xs
      else case js_split c xs of [] \<Rightarrow> [[x]] | p # ps \<Rightarrow> (x # p) # ps)"

text \<open>\<open>TextEncoder\<close>: a character above 127 becomes two bytes.\<close>

definition utf8_encode :: "string \<Rightarrow> string" where
  "utf8_encode s = concat (map (\<lambda>c. let n = of_char c :: nat in
     if n < 128 then [c] else [char_of (192 + n div 64), char_of (128 + n mod 64)]) s)"

definition hex_digit :: "nat \<Rightarrow> char" where
  "hex_digit n = ''0123456789ABCDEF'' ! n"

definition uri_unreserved :: string where
  "uri_unreserved = ''ABCDEFGHIJKLMNOPQRSTUVWXYZabcdefghijklmnopqrstuvwxyz0123456789-_.!~*'' @ [CHR 0x27] @ ''()''"

definition encodeURIComponent :: "string \<Rightarrow> string" where
  "encodeURIComponent s = concat (map (\<lambda>c.
     if c \<in> set uri_unreserved then [c]
     else concat (map (\<lambda>b. [CHR ''%'', hex_digit (of_char b div 16), hex_digit (of_char b mod 16)])
       (utf8_encode [c]))) s)"

section \<open>Base64\<close>

definition B64 :: string where
  "B64 = ''ABCDEFGHIJKLMNOPQRSTUVWXYZabcdefghijklmnopqrstuvwxyz0123456789+/''"

fun bits_of :: "char \<Rightarrow> bool list" where
  "bits_of (Char b0 b1 b2 b3 b4 b5 b6 b7) = [b7, b6, b5, b4, b3, b2, b1, b0]"

definition bits_val :: "bool list \<Rightarrow> nat" where
  "bits_val bs = foldl (\<lambda>n b. 2 * n + (if b then 1 else 0)) 0 bs"

definition six_bits :: "nat \<Rightarrow> bool list" where
  "six_bits n = map (\<lambda>i. odd (n div i)) [32, 16, 8, 4, 2, 1]"

fun sextets :: "bool list \<Rightarrow> bool list list" where
  "sextets (a # b # c # d # e # f # r) = [a, b, c, d, e, f] # sextets r"
| "sextets [] = []"
| "sextets bs = [take 6 (bs @ replicate 5 False)]"

fun octets :: "bool list \<Rightarrow> string" where
  "octets (a # b # c # d # e # f # g # h # r) = Char h g f e d c b a # octets r"
| "octets bs = []"

definition btoa :: "string \<Rightarrow> string" where
  "btoa binary =
     (let body = map (\<lambda>bs. B64 ! bits_val bs) (sextets (concat (map bits_of binary)))
      in body @ replicate ((4 - length body mod 4) mod 4) (CHR ''=''))"

definition b64_bits :: "char \<Rightarrow> bool list option" where
  "b64_bits c = map_option six_bits (map_of (zip B64 [0..<64]) c)"

definition is_ascii_space :: "char \<Rightarrow> bool" where
  "is_ascii_space c \<longleftrightarrow> c \<in> set [CHR 0x09, CHR 0x0A, CHR 0x0C, CHR 0x0D, CHR '' '']"

definition strip_padding :: "string \<Rightarrow> string" where
  "strip_padding s =
     (if length s mod 4 \<noteq> 0 then s
      else if suffix ''=='' s then take (length s - 2) s
      else if suffix ''='' s then take (length s - 1) s else s)"

text \<open>\<open>atob\<close> throws on a character outside the alphabet and on an impossible length.\<close>

definition atob :: "string \<Rightarrow> string option" where
  "atob value =
     (let s = strip_padding (filter (\<lambda>c. \<not> is_ascii_space c) value)
      in if length s mod 4 = 1 \<or> \<not> list_all (\<lambda>c. b64_bits c \<noteq> None) s then None
         else Some (octets (concat (map (\<lambda>c. case b64_bits c of None \<Rightarrow> [] | Some bs \<Rightarrow> bs) s))))"

subsection \<open>Decoding undoes encoding\<close>

lemma bits_val_six: "bits_val [a, b, c, d, e, f] < 64 \<and> six_bits (bits_val [a, b, c, d, e, f]) = [a, b, c, d, e, f]"
  by (cases a; cases b; cases c; cases d; cases e; cases f; simp add: bits_val_def six_bits_def)

lemma B64_facts: "length B64 = 64" "distinct B64"
  by code_simp+

lemma b64_bits_nth:
  assumes "length bs = 6"
  shows "b64_bits (B64 ! bits_val bs) = Some bs" and "B64 ! bits_val bs \<in> set B64"
proof -
  obtain a b c d e f where bs: "bs = [a, b, c, d, e, f]"
    using assms by (auto simp: eval_nat_numeral length_Suc_conv)
  have n: "bits_val bs < 64" "six_bits (bits_val bs) = bs" using bits_val_six by (simp_all add: bs)
  have "map_of (zip B64 [0..<64]) (B64 ! bits_val bs) = Some ([0..<64] ! bits_val bs)"
    by (rule map_of_zip_nth) (use n B64_facts in simp_all)
  then show "b64_bits (B64 ! bits_val bs) = Some bs" using n by (simp add: b64_bits_def)
  show "B64 ! bits_val bs \<in> set B64" using n B64_facts by simp
qed

lemma sextets_lengths: "bs \<in> set (sextets xs) \<Longrightarrow> length bs = 6"
  by (induction xs rule: sextets.induct) auto

lemma sextets_concat:
  obtains k where "k < 6" and "concat (sextets xs) = xs @ replicate k False" and "length xs + k = 6 * length (sextets xs)"
proof -
  have "\<exists>k < 6. concat (sextets xs) = xs @ replicate k False \<and> length xs + k = 6 * length (sextets xs)"
  proof (induction xs rule: sextets.induct)
    case (1 a b c d e f r)
    then show ?case by auto
  next
    case 2
    then show ?case by auto
  next
    case "3_1" then show ?case by (intro exI [of _ 5]) (simp add: eval_nat_numeral)
  next
    case "3_2" then show ?case by (intro exI [of _ 4]) (simp add: eval_nat_numeral)
  next
    case "3_3" then show ?case by (intro exI [of _ 3]) (simp add: eval_nat_numeral)
  next
    case "3_4" then show ?case by (intro exI [of _ 2]) (simp add: eval_nat_numeral)
  next
    case "3_5" then show ?case by (intro exI [of _ 1]) (simp add: eval_nat_numeral)
  qed
  then show thesis using that by blast
qed

lemma bits_of_length [simp]: "length (bits_of c) = 8"
  by (cases c) simp

lemma bits_length [simp]: "length (concat (map bits_of s)) = 8 * length s"
  by (induction s) auto

lemma octets_bits:
  assumes "length pad < 8"
  shows "octets (concat (map bits_of s) @ pad) = s"
proof (induction s)
  case Nil
  then show ?case using assms by (auto simp: less_Suc_eq eval_nat_numeral length_Suc_conv)
next
  case (Cons c s)
  then show ?case by (cases c) simp
qed

definition b64_body :: "string \<Rightarrow> string" where
  "b64_body binary = map (\<lambda>bs. B64 ! bits_val bs) (sextets (concat (map bits_of binary)))"

lemma btoa_body: "btoa binary = b64_body binary @ replicate ((4 - length (b64_body binary) mod 4) mod 4) (CHR ''='')"
  by (simp add: btoa_def b64_body_def Let_def)

lemma b64_body_set: "c \<in> set (b64_body binary) \<Longrightarrow> c \<in> set B64"
  using b64_bits_nth(2) by (auto simp: b64_body_def sextets_lengths)

lemma b64_body_length: "length (b64_body binary) mod 4 \<noteq> 1"
proof -
  obtain k where "k < 6" "length (concat (map bits_of binary)) + k = 6 * length (sextets (concat (map bits_of binary)))"
    by (rule sextets_concat)
  then have k: "8 * length binary + k = 6 * length (b64_body binary)" "k < 6" by (simp_all add: b64_body_def)
  show ?thesis
  proof
    assume "length (b64_body binary) mod 4 = 1"
    then obtain q where "length (b64_body binary) = 4 * q + 1" by (metis mult_div_mod_eq)
    then have "8 * length binary + k = 8 * (3 * q) + 6" using k(1) by simp
    then have "(8 * length binary + k) mod 8 = (8 * (3 * q) + 6) mod 8" by (rule arg_cong)
    then have "k mod 8 = 6" unfolding mod_mult_self4 by simp
    then show False using k(2) by simp
  qed
qed

lemma b64_body_bits:
  "list_all (\<lambda>c. b64_bits c \<noteq> None) (b64_body binary)"
  "octets (concat (map (\<lambda>c. case b64_bits c of None \<Rightarrow> [] | Some bs \<Rightarrow> bs) (b64_body binary))) = binary"
proof -
  let ?ss = "sextets (concat (map bits_of binary))"
  have e: "b64_bits (B64 ! bits_val bs) = Some bs" if "bs \<in> set ?ss" for bs
    using b64_bits_nth(1) sextets_lengths [OF that] by blast
  then show "list_all (\<lambda>c. b64_bits c \<noteq> None) (b64_body binary)"
    unfolding b64_body_def list_all_iff set_map by simp
  have "map (\<lambda>c. case b64_bits c of None \<Rightarrow> [] | Some bs \<Rightarrow> bs) (b64_body binary) = ?ss"
    unfolding b64_body_def map_map by (rule map_idI) (simp add: e)
  moreover obtain k where "k < 6"
    and "concat (sextets (concat (map bits_of binary))) = concat (map bits_of binary) @ replicate k False"
    by (rule sextets_concat)
  ultimately show "octets (concat (map (\<lambda>c. case b64_bits c of None \<Rightarrow> [] | Some bs \<Rightarrow> bs) (b64_body binary))) = binary"
    using octets_bits [of "replicate k False" binary] by simp
qed

lemma B64_plain: "c \<in> set B64 \<Longrightarrow> \<not> is_ascii_space c \<and> c \<noteq> CHR ''='' \<and> c \<noteq> CHR ''-'' \<and> c \<noteq> CHR ''_'' \<and> c \<noteq> CHR ''.''"
proof -
  have "list_all (\<lambda>c. \<not> is_ascii_space c \<and> c \<noteq> CHR ''='' \<and> c \<noteq> CHR ''-'' \<and> c \<noteq> CHR ''_'' \<and> c \<noteq> CHR ''.'') B64"
    by code_simp
  then show "c \<in> set B64 \<Longrightarrow> ?thesis" by (simp add: list_all_iff)
qed

lemma atob_body: "atob (b64_body binary) = Some binary"
proof -
  have c: "c \<in> set (b64_body binary) \<Longrightarrow> \<not> is_ascii_space c \<and> c \<noteq> CHR ''=''" for c
    using b64_body_set B64_plain by blast
  then have "filter (\<lambda>c. \<not> is_ascii_space c) (b64_body binary) = b64_body binary" by (simp add: filter_id_conv)
  moreover have "CHR ''='' \<notin> set (b64_body binary)" using c by blast
  then have "\<not> suffix ''=='' (b64_body binary)" "\<not> suffix ''='' (b64_body binary)"
    by (auto dest: set_mono_suffix)
  then have "strip_padding (b64_body binary) = b64_body binary" by (simp add: strip_padding_def)
  ultimately show ?thesis using b64_body_bits [of binary] b64_body_length [of binary] by (simp add: atob_def Let_def)
qed

section \<open>Base64 for URLs, as the session token uses it\<close>

definition to_url_char :: "char \<Rightarrow> char" where
  "to_url_char c = (if c = CHR ''+'' then CHR ''-'' else if c = CHR ''/'' then CHR ''_'' else c)"

definition from_url_char :: "char \<Rightarrow> char" where
  "from_url_char c = (if c = CHR ''-'' then CHR ''+'' else if c = CHR ''_'' then CHR ''/'' else c)"

definition toBase64Url :: "string \<Rightarrow> string" where
  "toBase64Url bytes =
     (let s = map to_url_char (btoa bytes) in rev (dropWhile (\<lambda>c. c = CHR ''='') (rev s)))"

definition fromBase64Url :: "string \<Rightarrow> string option" where
  "fromBase64Url value = atob (map from_url_char value)"

lemma toBase64Url_body: "toBase64Url bytes = map to_url_char (b64_body bytes)"
proof -
  have c: "c \<in> set (map to_url_char (b64_body bytes)) \<Longrightarrow> c \<noteq> CHR ''=''" for c
    using b64_body_set B64_plain by (fastforce simp: to_url_char_def)
  have "dropWhile (\<lambda>c. c = CHR ''='') (rev (map to_url_char (b64_body bytes))) = rev (map to_url_char (b64_body bytes))"
    unfolding dropWhile_eq_self_iff using c hd_in_set by (metis set_rev)
  moreover have "dropWhile (\<lambda>c. c = CHR ''='') (replicate n (CHR ''='') @ xs) = dropWhile (\<lambda>c. c = CHR ''='') xs" for n xs
    by (induction n) auto
  ultimately show ?thesis by (simp add: toBase64Url_def btoa_body to_url_char_def rev_map)
qed

theorem base64url_roundtrip: "fromBase64Url (toBase64Url bytes) = Some bytes"
proof -
  have "map from_url_char (toBase64Url bytes) = b64_body bytes"
    unfolding toBase64Url_body map_map
    by (rule map_idI) (use b64_body_set B64_plain in \<open>fastforce simp: from_url_char_def to_url_char_def\<close>)
  then show ?thesis by (simp add: fromBase64Url_def atob_body)
qed

lemma toBase64Url_no_dot: "CHR ''.'' \<notin> set (toBase64Url bytes)"
  using b64_body_set B64_plain by (fastforce simp: toBase64Url_body to_url_char_def)

lemma toBase64Url_nonempty: "bytes \<noteq> [] \<Longrightarrow> toBase64Url bytes \<noteq> []"
  using base64url_roundtrip [of bytes] by (auto simp: fromBase64Url_def atob_def strip_padding_def Let_def)

end
