(* ===== verification/OpsConfig.thy ===== *)
theory OpsConfig
  imports Money Ids TextCodec
begin

text \<open>
  Which integrations exist, read from the environment: \<open>lib/platforms/config.ts\<close> of the operator
  portal. The environment is a function of the variable's name.
\<close>

type_synonym env = "string \<Rightarrow> string option"

record admin_api_config =
  aa_baseUrl :: string
  aa_token :: string

record platform_config =
  pc_platform :: string
  pc_databaseUrl :: string
  pc_adminApi :: "admin_api_config option"

text \<open>The test of \<open>ENV_SAFE_SLUG\<close>.\<close>

definition env_safe_slug :: "string \<Rightarrow> bool" where
  "env_safe_slug slug \<longleftrightarrow>
     (case slug of [] \<Rightarrow> False | c # cs \<Rightarrow> slug_first c \<and> list_all (\<lambda>d. slug_first d \<or> d = CHR ''_'') cs)"

text \<open>\<open>toUpperCase\<close> on the ASCII letters, which are all the letters a usable slug has.\<close>

definition to_upper :: "char \<Rightarrow> char" where
  "to_upper c = (let n = of_char c :: nat in if 97 \<le> n \<and> n \<le> 122 then char_of (n - 32) else c)"

definition envSuffixFor :: "string \<Rightarrow> string" where
  "envSuffixFor platform = map to_upper platform"

definition read_env :: "env \<Rightarrow> string \<Rightarrow> string option" where
  "read_env env name =
     (case env name of None \<Rightarrow> None | Some v \<Rightarrow> if js_trim v = [] then None else Some (js_trim v))"

definition loadAdminApi :: "env \<Rightarrow> string \<Rightarrow> admin_api_config option outcome" where
  "loadAdminApi env platform =
     (let suffix = envSuffixFor platform
      in case (read_env env (''ADMIN_API_URL_'' @ suffix), read_env env (''ADMIN_API_TOKEN_'' @ suffix)) of
           (None, None) \<Rightarrow> Inr None
         | (Some baseUrl, Some token) \<Rightarrow> Inr (Some \<lparr> aa_baseUrl = baseUrl, aa_token = token \<rparr>)
         | _ \<Rightarrow> Inl PlatformConfigError)"

fun load_slugs :: "env \<Rightarrow> string set \<Rightarrow> string list \<Rightarrow> platform_config list outcome" where
  "load_slugs env seen [] = Inr []"
| "load_slugs env seen (slug # slugs) =
     (if \<not> env_safe_slug slug \<or> \<not> isPlatformId slug then Inl PlatformConfigError
      else if slug \<in> seen then Inl PlatformConfigError
      else case read_env env (''DATABASE_URL_'' @ envSuffixFor slug) of
             None \<Rightarrow> Inl PlatformConfigError
           | Some databaseUrl \<Rightarrow>
               bindE (loadAdminApi env slug) (\<lambda>adminApi.
               bindE (load_slugs env (insert slug seen) slugs) (\<lambda>configs.
               Inr (\<lparr> pc_platform = slug, pc_databaseUrl = databaseUrl, pc_adminApi = adminApi \<rparr> # configs))))"

definition listed_slugs :: "string \<Rightarrow> string list" where
  "listed_slugs raw = filter (\<lambda>slug. slug \<noteq> []) (map js_trim (js_split (CHR '','') raw))"

definition loadPlatformConfigs :: "env \<Rightarrow> platform_config list outcome" where
  "loadPlatformConfigs env =
     (case read_env env ''GHALLA_PLATFORMS'' of
        None \<Rightarrow> Inl PlatformConfigError
      | Some raw \<Rightarrow> if listed_slugs raw = [] then Inl PlatformConfigError else load_slugs env {} (listed_slugs raw))"

definition loadPortalConfig :: "env \<Rightarrow> string outcome" where
  "loadPortalConfig env =
     (case read_env env ''PORTAL_DATABASE_URL'' of None \<Rightarrow> Inl PlatformConfigError | Some databaseUrl \<Rightarrow> Inr databaseUrl)"

section \<open>One platform, one variable\<close>

definition to_lower :: "char \<Rightarrow> char" where
  "to_lower c = (let n = of_char c :: nat in if 65 \<le> n \<and> n \<le> 90 then char_of (n + 32) else c)"

lemma to_lower_upper:
  assumes "slug_first c \<or> c = CHR ''_''"
  shows "to_lower (to_upper c) = c"
proof -
  define S where "S = CHR ''_'' # ''abcdefghijklmnopqrstuvwxyz0123456789''"
  have l: "list_all (\<lambda>c. to_lower (to_upper c) = c) S" by (simp add: S_def to_lower_def to_upper_def char_of_def bit_0)
  have "c \<in> set S"
    using assms unfolding S_def slug_first_def by (elim disjE) (simp_all only: list.set_intros)
  then show ?thesis using l by (simp add: list_all_iff)
qed

lemma to_upper_slug:
  assumes "slug_first c \<or> c = CHR ''_''" and "slug_first d \<or> d = CHR ''_''" and "to_upper c = to_upper d"
  shows "c = d"
  by (rule box_equals [OF arg_cong [OF assms(3), of to_lower] to_lower_upper [OF assms(1)] to_lower_upper [OF assms(2)]])

lemma env_safe_chars: "env_safe_slug s \<Longrightarrow> c \<in> set s \<Longrightarrow> slug_first c \<or> c = CHR ''_''"
  by (auto simp: env_safe_slug_def list_all_iff split: list.splits)

lemma envSuffixFor_inject:
  assumes "env_safe_slug s" and "env_safe_slug t" and "envSuffixFor s = envSuffixFor t"
  shows "s = t"
proof -
  have "length s = length t" using assms(3) by (metis envSuffixFor_def length_map)
  moreover have "s ! i = t ! i" if "i < length s" for i
  proof -
    have "to_upper (s ! i) = to_upper (t ! i)"
      using assms(3) that calculation by (metis envSuffixFor_def nth_map)
    then show ?thesis using to_upper_slug env_safe_chars assms(1,2) that calculation by (metis nth_mem)
  qed
  ultimately show ?thesis by (rule nth_equalityI)
qed

section \<open>What is accepted\<close>

definition admin_of :: "env \<Rightarrow> string \<Rightarrow> admin_api_config option" where
  "admin_of env slug =
     (case (read_env env (''ADMIN_API_URL_'' @ envSuffixFor slug), read_env env (''ADMIN_API_TOKEN_'' @ envSuffixFor slug)) of
        (Some u, Some t) \<Rightarrow> Some \<lparr> aa_baseUrl = u, aa_token = t \<rparr> | _ \<Rightarrow> None)"

definition usable_slug :: "env \<Rightarrow> string \<Rightarrow> bool" where
  "usable_slug env slug \<longleftrightarrow> env_safe_slug slug \<and> isPlatformId slug
     \<and> read_env env (''DATABASE_URL_'' @ envSuffixFor slug) \<noteq> None
     \<and> (read_env env (''ADMIN_API_URL_'' @ envSuffixFor slug) = None
        \<longleftrightarrow> read_env env (''ADMIN_API_TOKEN_'' @ envSuffixFor slug) = None)"

definition config_of :: "env \<Rightarrow> string \<Rightarrow> platform_config" where
  "config_of env slug = \<lparr> pc_platform = slug,
     pc_databaseUrl = the (read_env env (''DATABASE_URL_'' @ envSuffixFor slug)), pc_adminApi = admin_of env slug \<rparr>"

lemma loadAdminApi_iff:
  "loadAdminApi env slug = (if (read_env env (''ADMIN_API_URL_'' @ envSuffixFor slug) = None)
      = (read_env env (''ADMIN_API_TOKEN_'' @ envSuffixFor slug) = None)
    then Inr (admin_of env slug) else Inl PlatformConfigError)"
  by (auto simp: loadAdminApi_def admin_of_def Let_def split: option.splits)

lemma load_slugs_iff:
  "load_slugs env seen slugs =
    (if (\<forall>s \<in> set slugs. usable_slug env s \<and> s \<notin> seen) \<and> distinct slugs
     then Inr (map (config_of env) slugs) else Inl PlatformConfigError)"
proof (induction slugs arbitrary: seen)
  case (Cons s slugs)
  show ?case
    by (auto simp: Cons.IH loadAdminApi_iff usable_slug_def config_of_def split: option.splits)
qed simp

end
