(* ===== verification/Platforms.thy ===== *)
theory Platforms
  imports OpsConfig PlanCatalog "HOL-Library.AList" "HOL-Library.Multiset"
begin

text \<open>
  Reading every integration's database at once: \<open>lib/errors.ts\<close>, \<open>lib/platforms/fanout.ts\<close>,
  \<open>lib/platforms/registry.ts\<close> and \<open>lib/health.ts\<close> of the operator portal.

  A database handle has an unspecified type. What a probe, a ping or a query gives is a parameter: a
  value, or what it throws. The readings of the clock during one call are one value \<open>now\<close> of the model;
  its reads overlap, and share no state but the map of verified platforms, which each writes under its
  own key.
\<close>

section \<open>Errors in words\<close>

text \<open>What is thrown: an \<open>Error\<close> with its name, message and cause, or anything else as \<open>String\<close> shows it.\<close>

datatype thrown = Thrown_error string string "thrown option" | Thrown_other string

type_synonym 'a attempt = "thrown + 'a"

definition MAX_DEPTH :: nat where
  "MAX_DEPTH = 4"

definition drop_tail :: "string \<Rightarrow> string" where
  "drop_tail s = rev (dropWhile (\<lambda>c. is_js_space c \<or> c = CHR '':'') (rev s))"

fun describe_chain :: "nat \<Rightarrow> string list \<Rightarrow> thrown option \<Rightarrow> string list" where
  "describe_chain (Suc n) parts (Some (Thrown_error name text cause)) =
     (let message = drop_tail (js_trim text)
      in describe_chain n (if message \<noteq> [] \<and> message \<notin> set parts then parts @ [message] else parts) cause)"
| "describe_chain _ parts _ = parts"

fun describeError :: "thrown \<Rightarrow> string" where
  "describeError (Thrown_other shown) = shown"
| "describeError (Thrown_error name text cause) =
     (let parts = describe_chain MAX_DEPTH [] (Some (Thrown_error name text cause))
      in if parts = [] then name else join '': '' parts)"

section \<open>The fan-out\<close>

record 'a platform_result =
  pr_platform :: string
  pr_value :: 'a

record platform_failure =
  pf_platform :: string
  pf_reason :: string

record 'a fan_out =
  fo_ok :: "'a platform_result list"
  fo_failed :: "platform_failure list"
  fo_partial :: bool
  fo_capturedAt :: string

text \<open>\<open>name\<close> reads the platform of a target.\<close>

definition fan_collect ::
  "('t \<Rightarrow> string) \<Rightarrow> ('t \<Rightarrow> 'a attempt) \<Rightarrow> 'a platform_result list \<times> platform_failure list \<Rightarrow> 't
   \<Rightarrow> 'a platform_result list \<times> platform_failure list" where
  "fan_collect name run acc target =
     (case run target of
        Inr v \<Rightarrow> (fst acc @ [\<lparr> pr_platform = name target, pr_value = v \<rparr>], snd acc)
      | Inl e \<Rightarrow> (fst acc, snd acc @ [\<lparr> pf_platform = name target, pf_reason = describeError e \<rparr>]))"

definition fanOut :: "('t \<Rightarrow> string) \<Rightarrow> ('t \<Rightarrow> 'a attempt) \<Rightarrow> string \<Rightarrow> 't list \<Rightarrow> 'a fan_out" where
  "fanOut name run now targets =
     (case foldl (fan_collect name run) ([], []) targets of
        (succeeded, failed) \<Rightarrow>
          \<lparr> fo_ok = succeeded, fo_failed = failed, fo_partial = (failed \<noteq> []), fo_capturedAt = now \<rparr>)"

section \<open>The registry\<close>

record 'd platform_handle =
  ph_platform :: string
  ph_db :: 'd
  ph_adminApi :: "admin_api_config option"

datatype connection_problem =
  CP_writable string | CP_credentials_readable | CP_wrong_platform "string list"

record connection_check =
  ck_platform :: string
  ck_reachable :: bool
  ck_error :: "string option"
  ck_problems :: "connection_problem list"
  ck_checkedAt :: string

record platform_probe =
  pb_defaultTransactionReadOnly :: bool
  pb_canInsertOrders :: bool
  pb_canReadCredentials :: bool
  pb_platforms :: "string list"

definition evaluateProbe :: "string \<Rightarrow> platform_probe \<Rightarrow> connection_problem list" where
  "evaluateProbe platform probe =
     (if pb_canInsertOrders probe
      then [CP_writable ''the connected role holds INSERT on orders; the portal must connect as a read-only role'']
      else if \<not> pb_defaultTransactionReadOnly probe
      then [CP_writable ''the connected role has default_transaction_read_only off; set it with ALTER ROLE'']
      else [])
     @ (if pb_canReadCredentials probe then [CP_credentials_readable] else [])
     @ (let foreign = filter (\<lambda>found. found \<noteq> platform) (pb_platforms probe)
        in if foreign \<noteq> [] then [CP_wrong_platform foreign] else [])"

text \<open>The row of the probe statement; a column is null where the driver could not read it.\<close>

record probe_row =
  pw_read_only :: "bool option"
  pw_can_insert_orders :: "bool option"
  pw_can_read_credentials :: "bool option"
  pw_platforms :: "string list option"

definition toProbe :: "probe_row \<Rightarrow> platform_probe" where
  "toProbe row =
     \<lparr> pb_defaultTransactionReadOnly = (pw_read_only row = Some True),
       pb_canInsertOrders = (pw_can_insert_orders row = Some True),
       pb_canReadCredentials = (pw_can_read_credentials row = Some True),
       pb_platforms = (case pw_platforms row of None \<Rightarrow> [] | Some ps \<Rightarrow> ps) \<rparr>"

record 'd platform_registry =
  rg_configs :: "platform_config list"
  rg_connections :: "(string \<times> 'd) list"
  rg_handles :: "(string \<times> 'd platform_handle) list"
  rg_verified :: "string \<Rightarrow> connection_check option"

definition register :: "(platform_config \<Rightarrow> 'd) \<Rightarrow> 'd platform_registry \<Rightarrow> platform_config \<Rightarrow> 'd platform_registry" where
  "register connect registry config =
     registry\<lparr> rg_connections := AList.update (pc_platform config) (connect config) (rg_connections registry),
       rg_handles := AList.update (pc_platform config)
         \<lparr> ph_platform = pc_platform config, ph_db = connect config, ph_adminApi = pc_adminApi config \<rparr>
         (rg_handles registry) \<rparr>"

definition createPlatformRegistry :: "platform_config list \<Rightarrow> (platform_config \<Rightarrow> 'd) \<Rightarrow> 'd platform_registry" where
  "createPlatformRegistry configs connect =
     foldl (register connect)
       \<lparr> rg_configs = configs, rg_connections = [], rg_handles = [], rg_verified = (\<lambda>_. None) \<rparr> configs"

definition verify ::
  "('d \<Rightarrow> platform_probe attempt) \<Rightarrow> string \<Rightarrow> 'd platform_registry \<Rightarrow> string \<Rightarrow> connection_check \<times> 'd platform_registry" where
  "verify probe now registry platform =
     (case rg_verified registry platform of
        Some cached \<Rightarrow> (cached, registry)
      | None \<Rightarrow>
          (case map_of (rg_connections registry) platform of
             None \<Rightarrow> (\<lparr> ck_platform = platform, ck_reachable = False,
                ck_error = Some (CHR 0x22 # platform @ [CHR 0x22] @ '' is not registered''),
                ck_problems = [], ck_checkedAt = now \<rparr>, registry)
           | Some connection \<Rightarrow>
               (case probe connection of
                  Inl e \<Rightarrow> (\<lparr> ck_platform = platform, ck_reachable = False, ck_error = Some (describeError e),
                     ck_problems = [], ck_checkedAt = now \<rparr>, registry)
                | Inr answer \<Rightarrow>
                    let check = \<lparr> ck_platform = platform, ck_reachable = True, ck_error = None,
                          ck_problems = evaluateProbe platform answer, ck_checkedAt = now \<rparr>
                    in (check, registry\<lparr> rg_verified := (rg_verified registry)(platform \<mapsto> check) \<rparr>))))"

fun verify_each ::
  "('d \<Rightarrow> platform_probe attempt) \<Rightarrow> string \<Rightarrow> 'd platform_registry \<Rightarrow> string list
   \<Rightarrow> connection_check list \<times> 'd platform_registry" where
  "verify_each probe now registry [] = ([], registry)"
| "verify_each probe now registry (p # ps) =
     (let (check, after) = verify probe now registry p;
          (checks, final) = verify_each probe now after ps
      in (check # checks, final))"

definition verifyAll ::
  "('d \<Rightarrow> platform_probe attempt) \<Rightarrow> string \<Rightarrow> 'd platform_registry \<Rightarrow> connection_check list \<times> 'd platform_registry" where
  "verifyAll probe now registry = verify_each probe now registry (map pc_platform (rg_configs registry))"

fun describeProblem :: "connection_problem \<Rightarrow> string" where
  "describeProblem (CP_writable detail) = detail"
| "describeProblem CP_credentials_readable = ''the connected role can read platform_credentials; revoke it''"
| "describeProblem (CP_wrong_platform found) = ''this database holds stores for '' @ join '', '' found"

definition describeCheck :: "connection_check \<Rightarrow> string" where
  "describeCheck check =
     (if \<not> ck_reachable check then (case ck_error check of None \<Rightarrow> ''unreachable'' | Some e \<Rightarrow> e)
      else join ''; '' (map describeProblem (ck_problems check)))"

text \<open>The loop over the checks: the handles to read, and the platforms left out.\<close>

definition sort_check ::
  "'d platform_registry \<Rightarrow> 'd platform_handle list \<times> platform_failure list \<Rightarrow> connection_check
   \<Rightarrow> 'd platform_handle list \<times> platform_failure list" where
  "sort_check registry acc check =
     (case map_of (rg_handles registry) (ck_platform check) of
        Some handle \<Rightarrow>
          if ck_reachable check \<and> ck_problems check = [] then (fst acc @ [handle], snd acc)
          else (fst acc, snd acc @ [\<lparr> pf_platform = ck_platform check, pf_reason = describeCheck check \<rparr>])
      | None \<Rightarrow> (fst acc, snd acc @ [\<lparr> pf_platform = ck_platform check, pf_reason = describeCheck check \<rparr>]))"

definition queryPlatforms ::
  "('d \<Rightarrow> platform_probe attempt) \<Rightarrow> string \<Rightarrow> 'd platform_registry \<Rightarrow> ('d platform_handle \<Rightarrow> 'a attempt)
   \<Rightarrow> 'a fan_out \<times> 'd platform_registry" where
  "queryPlatforms probe now registry run =
     (let (checks, after) = verifyAll probe now registry;
          (usable, blocked) = foldl (sort_check after) ([], []) checks;
          result = fanOut ph_platform run now usable
      in (\<lparr> fo_ok = fo_ok result, fo_failed = blocked @ fo_failed result,
            fo_partial = (blocked \<noteq> [] \<or> fo_partial result), fo_capturedAt = fo_capturedAt result \<rparr>, after))"

section \<open>Health\<close>

datatype health_status = HS_ok | HS_degraded | HS_error

record platform_health =
  hp_platform :: string
  hp_reachable :: bool
  hp_usable :: bool
  hp_detail :: "string option"

record health_report =
  hr_status :: health_status
  hr_portalDatabaseOk :: bool
  hr_portalDatabaseError :: "string option"
  hr_platforms :: "platform_health list"
  hr_partial :: bool
  hr_checkedAt :: string

text \<open>The status word of \<open>/api/live\<close>, and the line for the log.\<close>

definition liveness :: "unit attempt \<Rightarrow> bool \<times> string option" where
  "liveness ping =
     (case ping of Inr _ \<Rightarrow> (True, None)
      | Inl e \<Rightarrow> (False, Some (''liveness: portal database unreachable: '' @ describeError e)))"

definition toPlatformHealth :: "connection_check \<Rightarrow> platform_health" where
  "toPlatformHealth check =
     (let usable = ck_reachable check \<and> ck_problems check = []
      in \<lparr> hp_platform = ck_platform check, hp_reachable = ck_reachable check, hp_usable = usable,
           hp_detail = (if usable then None else Some (describeCheck check)) \<rparr>)"

text \<open>\<open>verifyAll\<close> is an operation of the interface, so it may itself throw.\<close>

definition checkHealth :: "unit attempt \<Rightarrow> connection_check list attempt \<Rightarrow> string \<Rightarrow> health_report" where
  "checkHealth ping verified now =
     (let pingError = (case ping of Inr _ \<Rightarrow> None | Inl e \<Rightarrow> Some (describeError e));
          checks = (case verified of Inr cs \<Rightarrow> cs | Inl _ \<Rightarrow> []);
          portalError = (case pingError of Some e \<Rightarrow> Some e
            | None \<Rightarrow> (case verified of Inl e \<Rightarrow> Some (describeError e) | Inr _ \<Rightarrow> None));
          platforms = map toPlatformHealth checks;
          partial = (\<exists>p \<in> set platforms. \<not> hp_usable p)
      in \<lparr> hr_status = (if portalError \<noteq> None then HS_error else if partial then HS_degraded else HS_ok),
           hr_portalDatabaseOk = (portalError = None), hr_portalDatabaseError = portalError, hr_platforms = platforms, hr_partial = partial, hr_checkedAt = now \<rparr>)"

end
