(* ===== verification/SallaRequests.thy ===== *)
theory SallaRequests
  imports BillingService Platforms
begin

text \<open>
  What stands between a request and the Salla application, and between a deploy and traffic, under
  \<open>apps/ghalla-salla/src\<close>: the entitlements guard with its two refusals
  (\<open>billing/entitlements.guard.ts\<close>, \<open>billing/entitlement-denied.exception.ts\<close>), the plan catalogue
  service (\<open>billing/plan-catalog.service.ts\<close>), the health service and its route (\<open>health/\<close>) with
  the migration state it reads (\<open>packages/persistence/src/db/migration-state.ts\<close>), and the choices
  of the log (\<open>logging/redaction.ts\<close>, \<open>logging/log-config.ts\<close>).
\<close>

section \<open>The guard\<close>

fun feature_name :: "feature \<Rightarrow> string" where
  "feature_name FT_core = ''core''"
| "feature_name FT_attribution = ''attribution''"
| "feature_name FT_ltv = ''ltv''"
| "feature_name FT_reports = ''reports''"

fun notice_name :: "access_notice \<Rightarrow> string" where
  "notice_name AN_none = ''none''"
| "notice_name AN_over_order_cap = ''over_order_cap''"
| "notice_name AN_payment_past_due = ''payment_past_due''"
| "notice_name AN_trial_expired = ''trial_expired''"
| "notice_name AN_subscription_canceled = ''subscription_canceled''"

record entitlement_denied_body =
  ed_feature :: feature
  ed_currentPlan :: string
  ed_requiredPlan :: "string option"
  ed_message :: string

record subscription_inactive_body =
  si_status :: string
  si_message :: string

text \<open>Both are answered with status 402.\<close>

datatype http_refusal =
    Entitlement_denied entitlement_denied_body
  | Subscription_inactive subscription_inactive_body

definition entitlementDenied :: "feature \<Rightarrow> string \<Rightarrow> string option \<Rightarrow> http_refusal" where
  "entitlementDenied f currentPlan requiredPlan =
     Entitlement_denied \<lparr> ed_feature = f, ed_currentPlan = currentPlan, ed_requiredPlan = requiredPlan,
       ed_message = (case requiredPlan of
           None \<Rightarrow> feature_name f @ '' is not available on any current plan.''
         | Some p \<Rightarrow> feature_name f @ '' requires the '' @ p @ '' plan; this store is on '' @ currentPlan @ ''.'') \<rparr>"

definition subscriptionInactive :: "string \<Rightarrow> http_refusal" where
  "subscriptionInactive status =
     Subscription_inactive \<lparr> si_status = status,
       si_message = ''This store''  @ [CHR 0x27] @ ''s subscription is '' @ status @ ''. Data export remains available.'' \<rparr>"

text \<open>
  \<open>canActivate\<close>: what the guard puts on the request, and the refusal it throws. \<open>required\<close> is the
  feature the route declares, on its handler or its class.
\<close>

record guard_result =
  gu_entitlements :: "entitlements option"
  gu_refusal :: "http_refusal option"

definition refusal_of :: "entitlements \<Rightarrow> feature option \<Rightarrow> http_refusal option" where
  "refusal_of resolved required =
     (if acc_dashboard (ent_access resolved) = DA_locked
      then Some (subscriptionInactive (notice_name (acc_notice (ent_access resolved))))
      else case required of
             None \<Rightarrow> None
           | Some f \<Rightarrow> if \<not> hasFeature resolved f
                       then Some (entitlementDenied f (ent_planCode resolved) (cheapestPlanWith f)) else None)"

definition canActivate ::
  "string option \<Rightarrow> feature option \<Rightarrow> string \<Rightarrow> subscription_row list \<Rightarrow> order_row list \<Rightarrow> usage_cache
   \<Rightarrow> (guard_result \<times> usage_cache) outcome" where
  "canActivate storeId required now t orders cache =
     (case storeId of
        None \<Rightarrow> Inr (\<lparr> gu_entitlements = None, gu_refusal = None \<rparr>, cache)
      | Some s \<Rightarrow> bindE (forStore s now t orders cache) (\<lambda>(resolved, cache').
          Inr (\<lparr> gu_entitlements = Some resolved, gu_refusal = refusal_of resolved required \<rparr>, cache')))"

section \<open>The plan catalogue service\<close>

record platform_plan =
  pp_platformPlanId :: string
  pp_planCode :: "string option"
  pp_priceMinor :: int
  pp_currency :: string
  pp_interval :: billing_interval

definition toListing :: "platform_plan \<Rightarrow> plan_listing" where
  "toListing p = \<lparr> pls_platformPlanId = pp_platformPlanId p, pls_planCode = pp_planCode p,
     pls_priceMinor = pp_priceMinor p, pls_interval = pp_interval p \<rparr>"

datatype catalog_status =
    CS_ok nat string
  | CS_mismatch "string list" string
  | CS_unverified string "string option"
  | CS_pending

definition CATALOG_TIMEOUT_MS :: nat where
  "CATALOG_TIMEOUT_MS = 10000"

text \<open>The race of the fetch against the timer: \<open>None\<close> is a platform that does not answer in time.\<close>

definition withTimeout :: "'a attempt option \<Rightarrow> 'a attempt" where
  "withTimeout work =
     (case work of
        Some a \<Rightarrow> a
      | None \<Rightarrow> Inl (Thrown_error ''Error''
          (''the platform did not answer within '' @ show_nat CATALOG_TIMEOUT_MS @ ''ms'') None))"

fun thrown_message :: "thrown \<Rightarrow> string" where
  "thrown_message (Thrown_error name text cause) = text"
| "thrown_message (Thrown_other shown) = shown"

text \<open>\<open>performCheck\<close>; the outer \<open>None\<close> is a service without a source. The result is the new status.\<close>

definition performCheck :: "platform_plan list attempt option option \<Rightarrow> string \<Rightarrow> catalog_status" where
  "performCheck source now =
     (case source of
        None \<Rightarrow> CS_unverified ''no plan catalog source is wired; the local plan table is unchecked'' None
      | Some fetched \<Rightarrow>
          (case withTimeout fetched of
             Inl e \<Rightarrow> CS_unverified (thrown_message e) (Some now)
           | Inr plans \<Rightarrow>
               (case comparePlanCatalog (map toListing plans) of
                  CatalogOk n \<Rightarrow> CS_ok n now
                | CatalogMismatch ms \<Rightarrow> CS_mismatch (map describeMismatch ms) now)))"

text \<open>The service: its status, and whether a check is in flight. A second check joins the one in flight.\<close>

record catalog_service =
  cat_status :: catalog_status
  cat_inFlight :: bool

definition new_PlanCatalogService :: catalog_service where
  "new_PlanCatalogService = \<lparr> cat_status = CS_pending, cat_inFlight = False \<rparr>"

definition check_begin :: "catalog_service \<Rightarrow> catalog_service" where
  "check_begin s = (if cat_inFlight s then s else s\<lparr> cat_inFlight := True \<rparr>)"

definition check_settle :: "platform_plan list attempt option option \<Rightarrow> string \<Rightarrow> catalog_service \<Rightarrow> catalog_service" where
  "check_settle source now s =
     (if cat_inFlight s then s\<lparr> cat_status := performCheck source now, cat_inFlight := False \<rparr> else s)"

section \<open>The state of the migrations\<close>

datatype migration_status = MS_current | MS_behind | MS_ahead | MS_unknown

record migration_state =
  mi_expected :: int
  mi_applied :: int
  mi_latest :: "string option"
  mi_status :: migration_status

text \<open>
  The journal: unreadable or not JSON, JSON of another shape, or entries, each with its tag where it
  is an object that has one.
\<close>

datatype journal = Journal_unreadable | Journal_other | Journal_entries "string option list"

definition readJournalTags :: "journal \<Rightarrow> string list" where
  "readJournalTags j =
     (case j of Journal_entries es \<Rightarrow> map the (filter (\<lambda>e. e \<noteq> None) es) | _ \<Rightarrow> [])"

text \<open>What the driver hands back: the rows themselves, an object with rows, or else; \<open>n\<close> where it is a number.\<close>

datatype driver_result = DR_array "int option list" | DR_rows "int option list" | DR_other

definition extractCount :: "driver_result \<Rightarrow> int" where
  "extractCount result =
     (let rows = (case result of DR_array rs \<Rightarrow> rs | DR_rows rs \<Rightarrow> rs | DR_other \<Rightarrow> [])
      in case rows of Some n # _ \<Rightarrow> n | _ \<Rightarrow> 0)"

definition countAppliedMigrations :: "driver_result attempt \<Rightarrow> int" where
  "countAppliedMigrations answer = (case answer of Inl _ \<Rightarrow> -1 | Inr result \<Rightarrow> extractCount result)"

definition compareMigrations :: "string list \<Rightarrow> int \<Rightarrow> migration_state" where
  "compareMigrations tags applied =
     (let expected = int (length tags); latest = (if tags = [] then None else Some (last tags))
      in if applied < 0 then \<lparr> mi_expected = expected, mi_applied = 0, mi_latest = latest, mi_status = MS_unknown \<rparr>
         else if applied = expected
         then \<lparr> mi_expected = expected, mi_applied = applied, mi_latest = latest, mi_status = MS_current \<rparr>
         else \<lparr> mi_expected = expected, mi_applied = applied, mi_latest = latest,
                mi_status = (if applied > expected then MS_ahead else MS_behind) \<rparr>)"

definition readMigrationState :: "driver_result attempt \<Rightarrow> journal \<Rightarrow> migration_state" where
  "readMigrationState answer j = compareMigrations (readJournalTags j) (countAppliedMigrations answer)"

section \<open>Health\<close>

record service_health =
  sv_ok :: bool
  sv_databaseReachable :: bool
  sv_schema :: migration_status
  sv_applied :: int
  sv_expected :: int
  sv_plans :: catalog_status
  sv_environment :: "string option"
  sv_commit :: "string option"

definition isPlanCatalogAcceptable :: "catalog_status \<Rightarrow> bool" where
  "isPlanCatalogAcceptable status = (case status of CS_ok _ _ \<Rightarrow> True | CS_unverified _ _ \<Rightarrow> True | _ \<Rightarrow> False)"

definition health_check ::
  "unit attempt \<Rightarrow> driver_result attempt \<Rightarrow> journal \<Rightarrow> catalog_service \<Rightarrow> string option \<Rightarrow> string option \<Rightarrow> service_health" where
  "health_check ping answer j service environment commit =
     (let reachable = \<not> isl ping;
          migrations = (if reachable then readMigrationState answer j
            else \<lparr> mi_expected = 0, mi_applied = 0, mi_latest = None, mi_status = MS_unknown \<rparr>);
          plans = cat_status service
      in \<lparr> sv_ok = (reachable \<and> mi_status migrations = MS_current \<and> isPlanCatalogAcceptable plans),
           sv_databaseReachable = reachable, sv_schema = mi_status migrations, sv_applied = mi_applied migrations,
           sv_expected = mi_expected migrations, sv_plans = plans, sv_environment = environment, sv_commit = commit \<rparr>)"

text \<open>The health route of \<open>health/health.controller.ts\<close>: the status the platform reads, and the body.\<close>

definition healthcheck ::
  "unit attempt \<Rightarrow> driver_result attempt \<Rightarrow> journal \<Rightarrow> catalog_service \<Rightarrow> string option \<Rightarrow> string option
   \<Rightarrow> nat \<times> service_health" where
  "healthcheck ping answer j service environment commit =
     (let report = health_check ping answer j service environment commit
      in (if \<not> sv_ok report then 503 else 200, report))"

section \<open>The log\<close>

definition SILENT_PATHS :: "string list" where
  "SILENT_PATHS = [''/api/v1/health'', ''/api/v1/ping'']"

definition shouldLogRequest :: "string option \<Rightarrow> bool" where
  "shouldLogRequest url =
     (case url of
        None \<Rightarrow> True
      | Some u \<Rightarrow> if u = [] then True else takeWhile (\<lambda>c. c \<noteq> CHR ''?'') u \<notin> set SILENT_PATHS)"

datatype log_severity = LS_info | LS_warn | LS_error

definition levelForStatus :: "int option \<Rightarrow> log_severity" where
  "levelForStatus status =
     (case status of
        None \<Rightarrow> LS_info
      | Some s \<Rightarrow> if s \<ge> 500 then LS_error else if s \<ge> 400 then LS_warn else LS_info)"

definition LOG_LEVELS :: "string list" where
  "LOG_LEVELS = [''fatal'', ''error'', ''warn'', ''info'', ''debug'', ''trace'', ''silent'']"

definition resolveLevel :: "string option \<Rightarrow> string \<Rightarrow> string" where
  "resolveLevel raw nodeEnv =
     (case map_option (\<lambda>r. js_trim (map to_lower r)) raw of
        Some candidate \<Rightarrow>
          if candidate \<in> set LOG_LEVELS then candidate
          else if nodeEnv = ''test'' then ''silent'' else if nodeEnv = ''development'' then ''debug'' else ''info''
      | None \<Rightarrow> if nodeEnv = ''test'' then ''silent'' else if nodeEnv = ''development'' then ''debug'' else ''info'')"

text \<open>A header is absent, a string, or a list of strings; \<open>fresh\<close> is the identifier drawn otherwise.\<close>

datatype header_value = HV_absent | HV_one string | HV_many "string list"

fun single_header :: "header_value \<Rightarrow> string option" where
  "single_header HV_absent = None"
| "single_header (HV_one s) = Some s"
| "single_header (HV_many xs) = (case xs of [] \<Rightarrow> None | x # _ \<Rightarrow> Some x)"

definition resolveRequestId :: "(string \<Rightarrow> header_value) \<Rightarrow> string \<Rightarrow> string" where
  "resolveRequestId h fresh =
     (case filter (\<lambda>v. v \<noteq> None \<and> v \<noteq> Some [])
             (map (\<lambda>name. single_header (h name)) [''x-request-id'', ''x-correlation-id'']) of
        Some s # _ \<Rightarrow> s
      | _ \<Rightarrow> fresh)"

section \<open>The life of the catalogue check\<close>

text \<open>
  From start-up on, a check begins (at boot, then every hour) and at some later moment settles.
  \<open>settled\<close> lists what the finished checks were given and when; a service without a source never
  gets an answer. A service without a source settles within the call that begins the check.
\<close>

inductive catalog_run ::
  "bool \<Rightarrow> (platform_plan list attempt option option \<times> string) list \<Rightarrow> catalog_service \<Rightarrow> bool" for wired where
  boot: "catalog_run wired [] new_PlanCatalogService"
| begins: "catalog_run wired settled s \<Longrightarrow> catalog_run wired settled (check_begin s)"
| settles: "catalog_run wired settled s \<Longrightarrow> cat_inFlight s \<Longrightarrow> (source \<noteq> None) = wired
    \<Longrightarrow> catalog_run wired (settled @ [(source, now)]) (check_settle source now s)"

lemma catalog_run_status:
  "catalog_run wired settled s \<Longrightarrow>
     cat_status s = (if settled = [] then CS_pending else performCheck (fst (last settled)) (snd (last settled)))"
  by (induction rule: catalog_run.induct) (simp_all add: new_PlanCatalogService_def check_begin_def check_settle_def)

lemma comparePlanCatalog_problems: "comparePlanCatalog listings = CatalogMismatch ms \<Longrightarrow> ms \<noteq> []"
  by (cases ms) (auto simp: comparePlanCatalog_def Let_def simp del: concat_eq_Nil_conv set_concat split: if_split_asm prod.split_asm)

lemma performCheck_acceptable:
  "isPlanCatalogAcceptable (performCheck source now) \<longleftrightarrow>
     (\<forall>plans. source = Some (Some (Inr plans)) \<longrightarrow> catalog_in_order (map toListing plans))"
  unfolding performCheck_def withTimeout_def isPlanCatalogAcceptable_def comparePlanCatalog_ok [symmetric]
  by (auto split: option.splits sum.splits catalog_verdict.splits)

lemma performCheck_names_problems: "performCheck source now = CS_mismatch problems checkedAt \<Longrightarrow> problems \<noteq> []"
  by (auto simp: performCheck_def dest: comparePlanCatalog_problems split: option.splits sum.splits catalog_verdict.splits)

text \<open>The database is at the level of the build exactly when it answers with the journal's count.\<close>

lemma readMigrationState_current:
  "mi_status (readMigrationState answer j) = MS_current \<longleftrightarrow>
     (\<exists>r. answer = Inr r \<and> extractCount r = int (length (readJournalTags j)))"
  by (auto simp: readMigrationState_def compareMigrations_def countAppliedMigrations_def Let_def split: sum.splits)

section \<open>What the guard lets through\<close>

lemma every_plan_has_core: "planOf code = Some p \<Longrightarrow> FT_core \<in> set (plan_features p)"
  by (auto simp: planOf_def PLANS_def split: if_splits)

text \<open>No plan that is for sale has a feature beyond the core.\<close>

lemma cheapestPlanWith_extra: "f \<noteq> FT_core \<Longrightarrow> cheapestPlanWith f = None"
  by (cases f) (simp_all add: cheapestPlanWith_def PLANS_def)

lemma hasFeature_effective:
  "hasFeature (resolveEntitlements s now over) f \<longleftrightarrow>
     f = FT_core \<or> (\<exists>p. planOf (effectivePlanCode s now) = Some p \<and> f \<in> set (plan_features p))"
  using every_plan_has_core
  by (cases "planOf (effectivePlanCode s now)")
     (auto simp: resolveEntitlements_unknown, auto simp: resolveEntitlements_def hasFeature_def or_else_def Let_def)

lemma canceled_locked: "acc_dashboard (decideAccess s now over) = DA_locked \<longleftrightarrow> sub_status s = ST_canceled"
  by (simp add: decideAccess_dashboard)

lemma provisionalTrial_trialing: "provisionalTrial k now = Inr s \<Longrightarrow> sub_status s = ST_trialing"
  by (auto simp: provisionalTrial_def bindE_eq_Inr)

lemma canceled_notice: "sub_status s = ST_canceled \<Longrightarrow> acc_notice (decideAccess s now over) = AN_subscription_canceled"
  by (simp add: decideAccess_def)

lemma refusal_of_effective:
  "refusal_of (resolveEntitlements s now over) required =
     (if sub_status s = ST_canceled then Some (subscriptionInactive ''subscription_canceled'')
      else case required of
             None \<Rightarrow> None
           | Some f \<Rightarrow> if f = FT_core \<or> (\<exists>p. planOf (effectivePlanCode s now) = Some p \<and> f \<in> set (plan_features p))
                       then None else Some (entitlementDenied f (effectivePlanCode s now) None))"
proof -
  have "ent_access (resolveEntitlements s now over) = decideAccess s now over"
    "ent_planCode (resolveEntitlements s now over) = effectivePlanCode s now"
    by (simp_all add: resolveEntitlements_def Let_def)
  then show ?thesis
    by (cases required)
       (auto simp: refusal_of_def canceled_locked canceled_notice hasFeature_effective cheapestPlanWith_extra)
qed

end
