(* ===== verification/ServiceProperties.thy ===== *)
theory ServiceProperties
  imports BillingSpec BillingProperties SallaRequests
begin

text \<open>
  Properties of the stored subscriptions (\<open>packages/persistence/src/repositories/subscription.repository.ts\<close>)
  and of the services that write and read them (\<open>apps/ghalla-salla/src/billing\<close>).
  The second chapter is about requests and deploys (\<open>SallaRequests\<close>).
\<close>

section \<open>Stored subscriptions\<close>

text \<open>
  C36. A subscription that is saved is what the next read of its store returns, every instant, plan
  and state of it, and no other store's subscription changes; and saving succeeds for every
  subscription of a known store whose period is ordered and whose pending plan is complete.
\<close>

theorem subscription_roundtrip:
  assumes "subscription_typed s"
  shows "(save_subscription stores created s now t = Inr t' \<longrightarrow>
      find_subscription (sub_storeId s) t' = Inr (Some s)
      \<and> (k \<noteq> sub_storeId s \<longrightarrow> find_subscription k t' = find_subscription k t))
    \<and> (isInstant now \<and> sub_storeId s \<in> stores \<and> period_ordered s \<and> pending_complete s \<longrightarrow>
      (\<exists>u. save_subscription stores created s now t = Inr u))"
proof (intro conjI impI)
  assume "save_subscription stores created s now t = Inr t'"
  note saved = find_after_save [OF this assms]
  show "find_subscription (sub_storeId s) t' = Inr (Some s)" by (rule saved(1))
  show "k \<noteq> sub_storeId s \<Longrightarrow> find_subscription k t' = find_subscription k t" by (rule saved(2))
next
  assume "isInstant now \<and> sub_storeId s \<in> stores \<and> period_ordered s \<and> pending_complete s"
  then show "\<exists>u. save_subscription stores created s now t = Inr u"
    unfolding period_ordered_def pending_complete_def by (intro save_subscription_total [OF assms]) simp_all
qed

definition stored_growth :: "subscription_row list" where
  "stored_growth = (case save_subscription {sub_storeId growth_row} 0 growth_row ''2025-03-01T00:00:00.000Z'' [] of
     Inl _ \<Rightarrow> [] | Inr t \<Rightarrow> t)"

lemma growth_sound: "subscription_typed growth_row \<and> period_ordered growth_row \<and> pending_complete growth_row"
  by code_simp

lemma growth_saved:
  "save_subscription {sub_storeId growth_row} 0 growth_row ''2025-03-01T00:00:00.000Z'' [] = Inr stored_growth"
  "find_subscription (sub_storeId growth_row) stored_growth = Inr (Some growth_row)"
proof -
  have "isInstant ''2025-03-01T00:00:00.000Z''" by code_simp
  then obtain u where "save_subscription {sub_storeId growth_row} 0 growth_row ''2025-03-01T00:00:00.000Z'' [] = Inr u"
    using save_subscription_total [of growth_row "''2025-03-01T00:00:00.000Z''" "{sub_storeId growth_row}" 0 "[]"] growth_sound
    unfolding period_ordered_def pending_complete_def by auto
  then show s: "save_subscription {sub_storeId growth_row} 0 growth_row ''2025-03-01T00:00:00.000Z'' [] = Inr stored_growth"
    by (simp add: stored_growth_def)
  show "find_subscription (sub_storeId growth_row) stored_growth = Inr (Some growth_row)"
    using find_after_save(1) [OF s] growth_sound by blast
qed

theorem subscription_roundtrip_witness:
  "find_subscription (sub_storeId growth_row) stored_growth = Inr (Some growth_row)
   \<and> find_subscription ''other'' stored_growth = find_subscription ''other'' []"
proof -
  have "sub_storeId growth_row \<noteq> ''other''" by code_simp
  then show ?thesis
    using subscription_roundtrip [of growth_row "{sub_storeId growth_row}" 0 "''2025-03-01T00:00:00.000Z''" "[]" stored_growth
        "''other''"] growth_saved(1) growth_sound by simp
qed

section \<open>Webhooks and reconciliation\<close>


definition upgrade_event :: "string \<Rightarrow> billing_event" where
  "upgrade_event occurred = \<lparr> be_type = BE_subscription_updated, be_rawType = ''app.subscription.renewed'',
     be_dedupeKey = occurred, be_platformStoreId = ''1'', be_occurredAt = occurred, be_receivedAt = occurred,
     be_facts = \<lparr> fct_status = ST_past_due, fct_planCode = Some ''growth'', fct_platformPlanId = None,
       fct_trialEndsAt = None, fct_currentPeriodStart = None, fct_currentPeriodEnd = None \<rparr> \<rparr>"

definition odd_events :: "billing_event list" where
  "odd_events =
    [upgrade_event ''2025-06-02T00:00:00.000Z'',
     upgrade_event ''2025-06-01T00:00:00.000Z'',
     (upgrade_event ''2025-06-03T00:00:00.000Z'')\<lparr> be_type := BE_unknown \<rparr>,
     (upgrade_event ''2025-06-04T00:00:00.000Z'')\<lparr> be_facts := (be_facts (upgrade_event []))
        \<lparr> fct_status := ST_active, fct_planCode := Some ''platinum'' \<rparr> \<rparr>,
     (upgrade_event ''2025-06-05T00:00:00.000Z'')\<lparr> be_facts := (be_facts (upgrade_event []))
        \<lparr> fct_currentPeriodEnd := Some ''2020-01-01T00:00:00.000Z'' \<rparr> \<rparr>]"

lemma odd_results:
  "case expected_all {} ''salla:1'' (Some growth_row) odd_events of (rs, u) \<Rightarrow>
     map isl rs = [False, False, False, False, True] \<and> rs ! 1 = Inr HR_dropped_stale \<and> rs ! 2 = Inr HR_ignored
     \<and> map_option sub_status u = Some ST_active \<and> map_option sub_planCode u = Some ''growth''"
  by code_simp


text \<open>
  C35. The nightly sweep repairs what webhooks lost: a stored subscription among those swept, for which
  the platform answers, is afterwards marked as checked and holds, field by field, what the platform
  said (status, plan where its code is known, platform plan, trial end, period), and its own values
  where the platform said nothing, whatever happened to the other stores of the sweep, failures included.
  The one exception: an answer whose period would not end after it starts is refused by the table, and
  the row stays as it was. A pending downgrade stays pending; until it is cleared it still decides the
  plan in force once its day has come.
\<close>

theorem sweep_repairs_every_store:
  assumes "distinct ids" and "k \<in> set ids" and "find_subscription k t = Inr (Some s)"
    and "admitted (Some s)" and "fetch k = Inr (Some p)"
    and "facts_typed (psub_facts p)" and "isInstant (psub_observedAt p)" and "isInstant (clock k)"
    and "f = psub_facts p"
    and "u = s\<lparr>
      sub_status := fct_status f,
      sub_planCode := (case fct_planCode f of
          Some code \<Rightarrow> if code \<in> set (map fst PLANS) then code else sub_planCode s | None \<Rightarrow> sub_planCode s),
      sub_platformPlanId := (case fct_platformPlanId f of Some v \<Rightarrow> Some v | None \<Rightarrow> sub_platformPlanId s),
      sub_trialEndsAt := (case fct_trialEndsAt f of Some v \<Rightarrow> Some v | None \<Rightarrow> sub_trialEndsAt s),
      sub_currentPeriodStart := (case fct_currentPeriodStart f of Some v \<Rightarrow> v | None \<Rightarrow> sub_currentPeriodStart s),
      sub_currentPeriodEnd := (case fct_currentPeriodEnd f of Some v \<Rightarrow> v | None \<Rightarrow> sub_currentPeriodEnd s),
      sub_lastReconciledAt := Some (clock k) \<rparr>"
  shows "find_subscription k (snd (sweep (Some fetch) stores created clock ids t))
    = Inr (Some (if sub_currentPeriodStart u < sub_currentPeriodEnd u then u else s))"
proof -
  have "u = as_told s p (clock k)"
    unfolding assms(9,10)
    by (simp add: as_told_def named_plan_def kept_def kept_opt_def Let_def split: option.split)
  then show ?thesis
    using sweep_as_told [where fetch = fetch and clock = clock, OF assms(1-3) _ _ assms(5-8), of stores created] assms(4)
    by (simp add: admitted_def period_ordered_def)
qed

definition cancelled_at_platform :: platform_subscription where
  "cancelled_at_platform = \<lparr> psub_facts = \<lparr> fct_status = ST_canceled, fct_planCode = Some ''starter'', fct_platformPlanId = None,
     fct_trialEndsAt = None, fct_currentPeriodStart = None, fct_currentPeriodEnd = None \<rparr>,
     psub_isDevelopmentStore = False, psub_observedAt = ''2025-06-01T00:00:00.000Z'' \<rparr>"

theorem sweep_repairs_every_store_witness:
  "\<exists>u. find_subscription ''salla:1'' (snd (sweep
       (Some (\<lambda>i. if i = ''salla:1'' then Inr (Some cancelled_at_platform) else Inl ''no answer''))
       {''salla:1''} 0 (\<lambda>_. ''2025-06-01T02:00:00.000Z'') [''salla:7'', ''salla:1''] stored_growth)) = Inr (Some u)
     \<and> sub_status u = ST_canceled \<and> sub_planCode u = ''starter'' \<and> sub_lastReconciledAt u = Some ''2025-06-01T02:00:00.000Z''"
proof -
  have i: "isInstant ''2025-06-01T02:00:00.000Z''" "isInstant ''2025-06-01T00:00:00.000Z''" by code_simp+
  have f: "find_subscription ''salla:1'' stored_growth = Inr (Some growth_row)"
    using growth_saved(2) by (simp add: growth_row_def)
  have p: "facts_typed (psub_facts cancelled_at_platform)" "isInstant (psub_observedAt cancelled_at_platform)"
    using i by (simp_all add: facts_typed_def cancelled_at_platform_def)
  have a: "admitted (Some growth_row)" using growth_sound by (simp add: admitted_def)
  let ?fetch = "\<lambda>i. if i = ''salla:1'' then Inr (Some cancelled_at_platform) else Inl ''no answer''"
  show ?thesis
    using sweep_repairs_every_store [of "[''salla:7'', ''salla:1'']" "''salla:1''" stored_growth growth_row ?fetch
        cancelled_at_platform "\<lambda>_. ''2025-06-01T02:00:00.000Z''", OF _ _ f a _ p i(1) refl refl, of "{''salla:1''}" 0] a
    by (auto simp: cancelled_at_platform_def PLANS_def admitted_def period_ordered_def)
qed

text \<open>
  Opening the app asks the platform at most once a minute: a request within sixty seconds of the
  last check changes nothing and starts nothing; one after it marks the store due and starts one
  refresh, joining the one already under way.
\<close>

theorem refresh_throttled:
  assumes "find_subscription k (rf_rows st) = Inr (Some s)" and "sub_lastReconciledAt s = Some l"
    and "epochMillis now = Inr m" and "epochMillis l = Inr n"
  shows "requestRefresh (Some fetch) now k st =
      (if m - n < 60000 then Inr (RQ_throttled l, st)
       else Inr (RQ_started, refreshNow k (st\<lparr> rf_rows := markDueForReconciliation k (rf_rows st) \<rparr>)))
    \<and> (k \<in> set (rf_inFlight st) \<longrightarrow> rf_inFlight (refreshNow k st) = rf_inFlight st)"
  using requestRefresh_throttled [OF assms] by (simp add: REFRESH_THROTTLE_MS_def refreshNow_def)

definition checked_growth :: subscription where
  "checked_growth = growth_row\<lparr> sub_lastReconciledAt := Some ''2025-03-05T12:00:00.000Z'' \<rparr>"

theorem refresh_throttled_witness:
  "\<exists>t. save_subscription {''salla:1''} 0 checked_growth ''2025-03-05T12:00:00.000Z'' [] = Inr t
    \<and> requestRefresh (Some (\<lambda>_. Inl ''down'')) ''2025-03-05T12:00:59.999Z'' ''salla:1'' \<lparr> rf_rows = t, rf_inFlight = [] \<rparr>
      = Inr (RQ_throttled ''2025-03-05T12:00:00.000Z'', \<lparr> rf_rows = t, rf_inFlight = [] \<rparr>)
    \<and> epochMillis ''2025-03-05T12:00:59.999Z'' = Inr 1741176059999"
proof -
  have s: "subscription_typed checked_growth \<and> period_ordered checked_growth \<and> pending_complete checked_growth"
    and i: "isInstant ''2025-03-05T12:00:00.000Z''"
    and e: "epochMillis ''2025-03-05T12:00:59.999Z'' = Inr 1741176059999"
      "epochMillis ''2025-03-05T12:00:00.000Z'' = Inr 1741176000000" by code_simp+
  have k: "sub_storeId checked_growth = ''salla:1''" by (simp add: checked_growth_def growth_row_def)
  obtain t where t: "save_subscription {''salla:1''} 0 checked_growth ''2025-03-05T12:00:00.000Z'' [] = Inr t"
    and f: "find_subscription ''salla:1'' t = Inr (Some checked_growth)"
    using save_sound [of checked_growth "''2025-03-05T12:00:00.000Z''" "{''salla:1''}" 0 "[]"] s i k by auto
  show ?thesis
    using refresh_throttled [of "''salla:1''" "\<lparr> rf_rows = t, rf_inFlight = [] \<rparr>" checked_growth _ _ _ _ "\<lambda>_. Inl ''down''",
        OF _ _ e] t f e by (auto simp: checked_growth_def)
qed

section \<open>What a request is told\<close>

text \<open>
  The answer to a request is built from the stored subscription, or from a fresh trial when the
  store has none, and its parts agree: the entitlements are those of that subscription at that moment
  with the cap state reported beside them, and the count is the cached one or the number of live
  orders counted now; a store without a row is never locked out.
\<close>

theorem billing_answer_consistent:
  assumes "describe k now t orders cache = Inr (b, cache')"
  shows "(\<exists>found. find_subscription k t = Inr found
      \<and> (case found of Some s \<Rightarrow> sb_subscription b = s
         | None \<Rightarrow> provisionalTrial k now = Inr (sb_subscription b)
             \<and> effectivePlanCode (sb_subscription b) now = TRIAL_PLAN
             \<and> acc_dashboard (decideAccess (sb_subscription b) now (us_overCap (sb_usage b))) = DA_full))
    \<and> sb_entitlements b = resolveEntitlements (sb_subscription b) now (us_overCap (sb_usage b))
    \<and> sb_usage b = usageStatus (us_count (sb_usage b)) (ent_orderCap (sb_entitlements b))
    \<and> (countLiveOrders k (usageWindow (sb_subscription b)) orders = Inr (us_count (sb_usage b))
       \<or> (\<exists>ms. epochMillis now = Inr ms \<and> fst (cache_get cache
             (usageCacheKey k (usageWindow (sb_subscription b))) ms) = Some (us_count (sb_usage b))))
    \<and> forStore k now t orders cache = Inr (sb_entitlements b, cache')"
proof -
  obtain found ms where f: "find_subscription k t = Inr found" and ms: "epochMillis now = Inr ms"
    and s: "(case found of Some s \<Rightarrow> Inr s | None \<Rightarrow> provisionalTrial k now) = Inr (sb_subscription b)"
    and e: "sb_entitlements b = resolveEntitlements (sb_subscription b) now (us_overCap (sb_usage b))"
    and u: "sb_usage b = usageStatus (us_count (sb_usage b)) (ent_orderCap (sb_entitlements b))"
    and n: "fst (cache_get cache (usageCacheKey k (usageWindow (sb_subscription b))) ms) = Some (us_count (sb_usage b))
       \<or> countLiveOrders k (usageWindow (sb_subscription b)) orders = Inr (us_count (sb_usage b))"
    by (rule describe_Inr [OF assms]) auto
  have "case found of Some s \<Rightarrow> sb_subscription b = s
      | None \<Rightarrow> provisionalTrial k now = Inr (sb_subscription b)
          \<and> effectivePlanCode (sb_subscription b) now = TRIAL_PLAN
          \<and> acc_dashboard (decideAccess (sb_subscription b) now (us_overCap (sb_usage b))) = DA_full"
    using s provisionalTrial_access [of k now "sb_subscription b"] by (cases found) auto
  then show ?thesis using f ms e u n assms by (auto simp: forStore_def)
qed

theorem billing_answer_consistent_witness:
  "\<exists>b cache'. describe ''salla:1'' ''2025-03-05T12:00:00.000Z'' []
       [\<lparr> or_storeId = ''salla:1'', or_placedAt = 1741262400000, or_ingestionSource = ''live'' \<rparr>] (new_UsageCache 60000)
       = Inr (b, cache')
     \<and> us_count (sb_usage b) = 1 \<and> sub_planCode (sb_subscription b) = TRIAL_PLAN
     \<and> acc_dashboard (decideAccess (sb_subscription b) ''2025-03-05T12:00:00.000Z'' (us_overCap (sb_usage b))) = DA_full"
proof -
  have "case describe ''salla:1'' ''2025-03-05T12:00:00.000Z'' []
       [\<lparr> or_storeId = ''salla:1'', or_placedAt = 1741262400000, or_ingestionSource = ''live'' \<rparr>] (new_UsageCache 60000) of
      Inr (b, _) \<Rightarrow> us_count (sb_usage b) = 1 \<and> sub_planCode (sb_subscription b) = TRIAL_PLAN | Inl _ \<Rightarrow> False"
    by code_simp
  then obtain b cache' where b: "describe ''salla:1'' ''2025-03-05T12:00:00.000Z'' []
       [\<lparr> or_storeId = ''salla:1'', or_placedAt = 1741262400000, or_ingestionSource = ''live'' \<rparr>] (new_UsageCache 60000)
       = Inr (b, cache')" and n: "us_count (sb_usage b) = 1" "sub_planCode (sb_subscription b) = TRIAL_PLAN"
    by (auto split: sum.splits)
  have "acc_dashboard (decideAccess (sb_subscription b) ''2025-03-05T12:00:00.000Z'' (us_overCap (sb_usage b))) = DA_full"
    using billing_answer_consistent [OF b] by (simp add: find_subscription_def row_with_def)
  then show ?thesis using b n by (intro exI conjI)
qed

chapter \<open>Requests and deploys\<close>

text \<open>
  Properties of what stands between a request and the Salla application and between a deploy and
  traffic (\<open>apps/ghalla-salla/src\<close>): the entitlements guard and the health check.
\<close>

section \<open>The guard\<close>

text \<open>
  C30. A request for a store is refused for its cancelled subscription, whatever the route needs, or
  else for a feature the plan in effect lacks, and for nothing else: the core is refused to no store
  that is not cancelled, neither its orders nor a cached count of them can refuse a request, and a
  store without a stored subscription is judged on a fresh trial. What the request carries on are
  the entitlements of that subscription.
\<close>

theorem requests_refused_for_two_reasons:
  assumes "canActivate (Some k) required now t orders cache = Inr (g, cache')"
  shows "\<exists>s over. (find_subscription k t = Inr (Some s)
        \<or> find_subscription k t = Inr None \<and> provisionalTrial k now = Inr s \<and> sub_status s = ST_trialing)
      \<and> gu_entitlements g = Some (resolveEntitlements s now over)
      \<and> gu_refusal g =
          (if sub_status s = ST_canceled then Some (subscriptionInactive ''subscription_canceled'')
           else case required of
                  None \<Rightarrow> None
                | Some f \<Rightarrow> if f = FT_core \<or> (\<exists>p. planOf (effectivePlanCode s now) = Some p \<and> f \<in> set (plan_features p))
                            then None else Some (entitlementDenied f (effectivePlanCode s now) None))"
proof -
  obtain b where b: "describe k now t orders cache = Inr (b, cache')"
    and g: "g = \<lparr> gu_entitlements = Some (sb_entitlements b), gu_refusal = refusal_of (sb_entitlements b) required \<rparr>"
    using assms by (auto simp: canActivate_def forStore_def bindE_eq_Inr)
  obtain found where f: "find_subscription k t = Inr found"
    and s: "(case found of Some s \<Rightarrow> Inr s | None \<Rightarrow> provisionalTrial k now) = Inr (sb_subscription b)"
    and e: "sb_entitlements b = resolveEntitlements (sb_subscription b) now (us_overCap (sb_usage b))"
    by (rule describe_Inr [OF b])
  have "find_subscription k t = Inr (Some (sb_subscription b))
      \<or> find_subscription k t = Inr None \<and> provisionalTrial k now = Inr (sb_subscription b)
        \<and> sub_status (sb_subscription b) = ST_trialing"
    using f s by (cases found) (auto dest: provisionalTrial_trialing)
  then show ?thesis
    using g e refusal_of_effective [of "sb_subscription b" now "us_overCap (sb_usage b)" required]
    by (intro exI [of _ "sb_subscription b"] exI [of _ "us_overCap (sb_usage b)"]) simp
qed

theorem requests_refused_for_two_reasons_witness:
  "\<exists>g cache' s over. canActivate (Some ''salla:1'') (Some FT_ltv) ''2025-03-05T12:00:00.000Z'' [] [] (new_UsageCache 60000) = Inr (g, cache')
     \<and> provisionalTrial ''salla:1'' ''2025-03-05T12:00:00.000Z'' = Inr s
     \<and> gu_entitlements g = Some (resolveEntitlements s ''2025-03-05T12:00:00.000Z'' over)
     \<and> gu_refusal g = Some (entitlementDenied FT_ltv ''growth'' None)"
proof -
  have "\<not> isl (canActivate (Some ''salla:1'') (Some FT_ltv) ''2025-03-05T12:00:00.000Z'' [] [] (new_UsageCache 60000))"
    by code_simp
  then obtain g cache' where run:
    "canActivate (Some ''salla:1'') (Some FT_ltv) ''2025-03-05T12:00:00.000Z'' [] [] (new_UsageCache 60000) = Inr (g, cache')"
    by (cases "canActivate (Some ''salla:1'') (Some FT_ltv) ''2025-03-05T12:00:00.000Z'' [] [] (new_UsageCache 60000)") auto
  have none: "find_subscription ''salla:1'' [] = Inr None" by code_simp
  have trial: "case provisionalTrial ''salla:1'' ''2025-03-05T12:00:00.000Z'' of
      Inr s \<Rightarrow> effectivePlanCode s ''2025-03-05T12:00:00.000Z'' = ''growth'' | Inl _ \<Rightarrow> False" by code_simp
  have growth: "\<not> (\<exists>p. planOf ''growth'' = Some p \<and> FT_ltv \<in> set (plan_features p))"
    by (simp add: planOf_def PLANS_def)
  show ?thesis
    using requests_refused_for_two_reasons [OF run] run none trial growth by fastforce
qed

section \<open>The deploy gate\<close>


text \<open>The catalogue as this build sells it, and a database at the level of a journal of two.\<close>

definition sold_plans :: "platform_plan list" where
  "sold_plans = map (\<lambda>(code, p). \<lparr> pp_platformPlanId = code, pp_planCode = Some code, pp_priceMinor = plan_priceMinor p,
     pp_currency = ''SAR'', pp_interval = plan_interval p \<rparr>) (filter (\<lambda>(code, p). plan_purchasable p) PLANS)"

definition two_migrations :: journal where
  "two_migrations = Journal_entries [Some ''0000_init'', Some ''0001_orders'']"

definition after_one_check :: catalog_service where
  "after_one_check = check_settle (Some (Some (Inr sold_plans))) ''2025-03-05T12:00:00.000Z'' (check_begin new_PlanCatalogService)"


end
