(* ===== verification/LoginLimiter.thy ===== *)
theory LoginLimiter
  imports Prelude "HOL-Library.AList"
begin

text \<open>
  The limiter of failed logins of the operator portal: \<open>apps/ghalla-ops/src/lib/auth/rate-limit.ts\<close>
  and the order in which \<open>app/api/auth/login/route.ts\<close> calls it. Times are milliseconds. The buckets
  are the entries of the \<open>Map\<close>; the objects in them are never shared, so updating one in place is
  storing a new value.
\<close>

record limit_decision =
  ld_allowed :: bool
  ld_retryAfterMs :: int

record bucket =
  bk_failures :: int
  bk_windowStartedAt :: int
  bk_blockedUntil :: int

record limiter_options =
  lo_maxFailures :: int
  lo_windowMs :: int
  lo_blockMs :: int

definition PER_SOURCE_LIMIT :: limiter_options where
  "PER_SOURCE_LIMIT = \<lparr> lo_maxFailures = 5, lo_windowMs = 15 * 60 * 1000, lo_blockMs = 60 * 1000 \<rparr>"

definition GLOBAL_LIMIT :: limiter_options where
  "GLOBAL_LIMIT = \<lparr> lo_maxFailures = 20, lo_windowMs = 15 * 60 * 1000, lo_blockMs = 60 * 1000 \<rparr>"

section \<open>One limiter\<close>

record failure_limiter =
  fl_buckets :: "(string \<times> bucket) list"
  fl_options :: limiter_options

definition new_FailureLimiter :: "limiter_options \<Rightarrow> failure_limiter" where
  "new_FailureLimiter options = \<lparr> fl_buckets = [], fl_options = options \<rparr>"

definition allow_now :: limit_decision where
  "allow_now = \<lparr> ld_allowed = True, ld_retryAfterMs = 0 \<rparr>"

definition refuse_for :: "int \<Rightarrow> limit_decision" where
  "refuse_for ms = \<lparr> ld_allowed = False, ld_retryAfterMs = ms \<rparr>"

definition limiter_check :: "failure_limiter \<Rightarrow> string \<Rightarrow> int \<Rightarrow> limit_decision" where
  "limiter_check limiter k now =
     (case map_of (fl_buckets limiter) k of
        None \<Rightarrow> allow_now
      | Some b \<Rightarrow> if bk_blockedUntil b \<le> now then allow_now else refuse_for (bk_blockedUntil b - now))"

definition current_bucket :: "limiter_options \<Rightarrow> bucket option \<Rightarrow> int \<Rightarrow> bucket" where
  "current_bucket options existing now =
     (let fresh = \<lparr> bk_failures = 0, bk_windowStartedAt = now, bk_blockedUntil = 0 \<rparr>
      in case existing of
           None \<Rightarrow> fresh
         | Some b \<Rightarrow> if now - bk_windowStartedAt b \<ge> lo_windowMs options then fresh else b)"

definition count_failure :: "limiter_options \<Rightarrow> bucket option \<Rightarrow> int \<Rightarrow> bucket" where
  "count_failure options existing now =
     (let b = current_bucket options existing now;
          failures = bk_failures b + 1
      in if failures \<ge> lo_maxFailures options
         then \<lparr> bk_failures = 0, bk_windowStartedAt = now, bk_blockedUntil = now + lo_blockMs options \<rparr>
         else b\<lparr> bk_failures := failures \<rparr>)"

definition recordFailure :: "failure_limiter \<Rightarrow> string \<Rightarrow> int \<Rightarrow> limit_decision \<times> failure_limiter" where
  "recordFailure limiter k now =
     (let b = count_failure (fl_options limiter) (map_of (fl_buckets limiter) k) now
      in (if bk_blockedUntil b > now then refuse_for (bk_blockedUntil b - now) else allow_now,
          limiter\<lparr> fl_buckets := AList.update k b (fl_buckets limiter) \<rparr>))"

definition limiter_clear :: "failure_limiter \<Rightarrow> string \<Rightarrow> failure_limiter" where
  "limiter_clear limiter k = limiter\<lparr> fl_buckets := AList.delete k (fl_buckets limiter) \<rparr>"

definition prunable :: "limiter_options \<Rightarrow> int \<Rightarrow> bucket \<Rightarrow> bool" where
  "prunable options now b \<longleftrightarrow>
     now - bk_windowStartedAt b \<ge> lo_windowMs options \<and> bk_blockedUntil b \<le> now"

definition prune :: "failure_limiter \<Rightarrow> int \<Rightarrow> failure_limiter" where
  "prune limiter now =
     limiter\<lparr> fl_buckets := filter (\<lambda>e. \<not> prunable (fl_options limiter) now (snd e)) (fl_buckets limiter) \<rparr>"

definition limiter_size :: "failure_limiter \<Rightarrow> nat" where
  "limiter_size limiter = length (fl_buckets limiter)"

section \<open>The two tiers of the login\<close>

definition GLOBAL_KEY :: string where
  "GLOBAL_KEY = ''global''"

record login_limiter =
  ll_perSource :: failure_limiter
  ll_global :: failure_limiter

definition createLoginLimiter :: login_limiter where
  "createLoginLimiter = \<lparr> ll_perSource = new_FailureLimiter PER_SOURCE_LIMIT, ll_global = new_FailureLimiter GLOBAL_LIMIT \<rparr>"

definition checkLogin :: "login_limiter \<Rightarrow> string \<Rightarrow> int \<Rightarrow> limit_decision \<times> login_limiter" where
  "checkLogin limiter source now =
     (let pruned = limiter\<lparr> ll_perSource := prune (ll_perSource limiter) now \<rparr>;
          perSource = limiter_check (ll_perSource pruned) source now;
          everyone = limiter_check (ll_global pruned) GLOBAL_KEY now
      in (if ld_allowed perSource \<and> ld_allowed everyone then allow_now
          else refuse_for (max (ld_retryAfterMs perSource) (ld_retryAfterMs everyone)), pruned))"

definition recordLoginFailure :: "login_limiter \<Rightarrow> string \<Rightarrow> int \<Rightarrow> login_limiter" where
  "recordLoginFailure limiter source now =
     \<lparr> ll_perSource = snd (recordFailure (ll_perSource limiter) source now),
       ll_global = snd (recordFailure (ll_global limiter) GLOBAL_KEY now) \<rparr>"

definition recordLoginSuccess :: "login_limiter \<Rightarrow> string \<Rightarrow> login_limiter" where
  "recordLoginSuccess limiter source = limiter\<lparr> ll_perSource := limiter_clear (ll_perSource limiter) source \<rparr>"

text \<open>
  One login after the other: the limiter first, then the key, then the record. A request is its
  time, its source and whether the key it presents is the right one.
\<close>

datatype login_result = Throttled | Wrong_key | Admitted

definition login_attempt :: "login_limiter \<Rightarrow> int \<times> string \<times> bool \<Rightarrow> login_result \<times> login_limiter" where
  "login_attempt limiter request =
     (case request of (now, source, right) \<Rightarrow>
        let (decision, checked) = checkLogin limiter source now
        in if \<not> ld_allowed decision then (Throttled, checked)
           else if \<not> right then (Wrong_key, recordLoginFailure checked source now)
           else (Admitted, recordLoginSuccess checked source))"

fun login_run :: "login_limiter \<Rightarrow> (int \<times> string \<times> bool) list \<Rightarrow> (int \<times> login_result) list" where
  "login_run limiter [] = []"
| "login_run limiter (r # rs) =
     (let (result, after) = login_attempt limiter r in (fst r, result) # login_run after rs)"

section \<open>Pruning is not observable\<close>

lemma map_of_filter_entries:
  assumes "distinct (map fst xs)"
  shows "map_of (filter (\<lambda>e. P (snd e)) xs) k =
    (case map_of xs k of None \<Rightarrow> None | Some v \<Rightarrow> if P v then Some v else None)"
  using assms
proof (induction xs)
  case (Cons x xs)
  have "map_of xs (fst x) = None" using Cons.prems by (simp add: map_of_eq_None_iff)
  then show ?case using Cons by (cases x) (auto split: option.splits)
qed simp

definition limiter_ok :: "failure_limiter \<Rightarrow> bool" where
  "limiter_ok limiter \<longleftrightarrow> distinct (map fst (fl_buckets limiter))"

lemma limiter_ok_kept [simp]:
  "limiter_ok (new_FailureLimiter options)"
  "limiter_ok l \<Longrightarrow> limiter_ok (snd (recordFailure l k now))"
  "limiter_ok l \<Longrightarrow> limiter_ok (limiter_clear l k)"
  "limiter_ok l \<Longrightarrow> limiter_ok (prune l now)"
  by (simp_all add: limiter_ok_def new_FailureLimiter_def recordFailure_def limiter_clear_def prune_def Let_def
      distinct_update distinct_delete distinct_map_filter)

lemma prune_options [simp]: "fl_options (prune l now) = fl_options l"
  by (simp add: prune_def)

lemma prune_bucket:
  assumes "limiter_ok l"
  shows "map_of (fl_buckets (prune l now)) k = (case map_of (fl_buckets l) k of
     None \<Rightarrow> None | Some b \<Rightarrow> if prunable (fl_options l) now b then None else Some b)"
  using map_of_filter_entries [of "fl_buckets l" "\<lambda>b. \<not> prunable (fl_options l) now b" k] assms
  by (simp add: prune_def limiter_ok_def if_distrib cong: option.case_cong) (auto split: option.splits)

lemma prune_check:
  assumes "limiter_ok l" and "now \<le> t"
  shows "limiter_check (prune l now) k t = limiter_check l k t"
  using assms(2) by (auto simp: limiter_check_def prune_bucket [OF assms(1)] prunable_def split: option.splits)

lemma prune_count:
  assumes "limiter_ok l" and "now \<le> t"
  shows "count_failure (fl_options l) (map_of (fl_buckets (prune l now)) k) t
    = count_failure (fl_options l) (map_of (fl_buckets l) k) t"
  using assms(2)
  by (auto simp: count_failure_def current_bucket_def prune_bucket [OF assms(1)] prunable_def Let_def split: option.splits)

section \<open>How many wrong keys are tested\<close>

text \<open>
  The bucket of one key under a sequence of failures. Inside a span no longer than the block, a
  window that started in the span has room for what is left of its failures, and an older one may
  expire once: fewer than twice the limit are tested.
\<close>

definition open_at :: "bucket option \<Rightarrow> int \<Rightarrow> bool" where
  "open_at existing t \<longleftrightarrow> (case existing of None \<Rightarrow> True | Some b \<Rightarrow> bk_blockedUntil b \<le> t)"

fun tested :: "limiter_options \<Rightarrow> bucket option \<Rightarrow> int list \<Rightarrow> bool" where
  "tested options existing [] \<longleftrightarrow> True"
| "tested options existing (t # ts) \<longleftrightarrow>
     open_at existing t \<and> tested options (Some (count_failure options existing t)) ts"

definition failures_of :: "bucket option \<Rightarrow> int" where
  "failures_of existing = (case existing of None \<Rightarrow> 0 | Some b \<Rightarrow> bk_failures b)"

definition counting :: "limiter_options \<Rightarrow> bucket option \<Rightarrow> bool" where
  "counting options existing \<longleftrightarrow> 0 \<le> failures_of existing \<and> failures_of existing < lo_maxFailures options"

lemma count_failure_counting:
  "counting options existing \<Longrightarrow> 1 \<le> lo_maxFailures options \<Longrightarrow> counting options (Some (count_failure options existing t))"
  by (auto simp: counting_def failures_of_def count_failure_def current_bucket_def Let_def split: option.splits)

lemma blocked_span:
  assumes "tested options (Some b) ts" and "\<And>t. t \<in> set ts \<Longrightarrow> t < bk_blockedUntil b"
  shows "ts = []"
  using assms by (cases ts) (force simp: open_at_def)+

lemma window_in_span:
  assumes "tested options (Some b) ts" and "\<And>t. t \<in> set ts \<Longrightarrow> s \<le> t \<and> t < s + span"
    and "span \<le> lo_blockMs options" and "span \<le> lo_windowMs options"
    and "counting options (Some b)" and "s \<le> bk_windowStartedAt b"
  shows "int (length ts) \<le> lo_maxFailures options - bk_failures b"
  using assms(1,2,5,6)
proof (induction ts arbitrary: b)
  case Nil
  then show ?case by (simp add: counting_def failures_of_def)
next
  case (Cons t ts)
  let ?b = "count_failure options (Some b) t"
  have t: "s \<le> t" "t < s + span" using Cons.prems(2) by auto
  then have kept: "current_bucket options (Some b) t = b"
    using Cons.prems(4) assms(4) by (simp add: current_bucket_def)
  have f: "bk_failures b < lo_maxFailures options" "0 \<le> bk_failures b"
    using Cons.prems(3) by (simp_all add: counting_def failures_of_def)
  show ?case
  proof (cases "bk_failures b + 1 \<ge> lo_maxFailures options")
    case True
    then have "bk_blockedUntil ?b = t + lo_blockMs options" by (simp add: count_failure_def kept)
    then have "ts = []" using blocked_span [of options ?b ts] Cons.prems(1,2) t assms(3) by fastforce
    then show ?thesis using f by simp
  next
    case False
    then have b: "?b = b\<lparr> bk_failures := bk_failures b + 1 \<rparr>" by (simp add: count_failure_def kept)
    have "int (length ts) \<le> lo_maxFailures options - bk_failures ?b"
      by (rule Cons.IH) (use Cons.prems f False b in \<open>auto simp: counting_def failures_of_def\<close>)
    then show ?thesis by (simp add: b)
  qed
qed

lemma tested_in_span:
  assumes "tested options existing ts" and "\<And>t. t \<in> set ts \<Longrightarrow> s \<le> t \<and> t < s + span"
    and "span \<le> lo_blockMs options" and "span \<le> lo_windowMs options" and "1 \<le> lo_maxFailures options"
    and "counting options existing"
  shows "int (length ts) \<le> 2 * lo_maxFailures options - 1 - failures_of existing"
  using assms(1,2,6)
proof (induction ts arbitrary: existing)
  case Nil
  then show ?case using assms(5) by (simp add: counting_def)
next
  case (Cons t ts)
  let ?b = "count_failure options existing t"
  have f: "0 \<le> failures_of existing" "failures_of existing < lo_maxFailures options"
    using Cons.prems(3) by (simp_all add: counting_def)
  have ok: "counting options (Some ?b)" by (rule count_failure_counting [OF Cons.prems(3) assms(5)])
  have rest: "tested options (Some ?b) ts" "\<And>x. x \<in> set ts \<Longrightarrow> s \<le> x \<and> x < s + span" and t: "s \<le> t" "t < s + span"
    using Cons.prems(1,2) by auto
  show ?case
  proof (cases "bk_failures (current_bucket options existing t) + 1 \<ge> lo_maxFailures options")
    case True
    then have "bk_blockedUntil ?b = t + lo_blockMs options" by (simp add: count_failure_def)
    then have "ts = []" using blocked_span [OF rest(1)] rest(2) t assms(3) by fastforce
    then show ?thesis using f by simp
  next
    case False
    then have b: "?b = (current_bucket options existing t)\<lparr> bk_failures := bk_failures (current_bucket options existing t) + 1 \<rparr>"
      by (simp add: count_failure_def Let_def)
    show ?thesis
    proof (cases "current_bucket options existing t = \<lparr> bk_failures = 0, bk_windowStartedAt = t, bk_blockedUntil = 0 \<rparr>")
      case True
      then have "bk_windowStartedAt ?b = t" "bk_failures ?b = 1" by (simp_all add: b)
      then show ?thesis using window_in_span [OF rest assms(3,4) ok] t f by simp
    next
      case False
      then obtain b0 where "existing = Some b0" "current_bucket options existing t = b0"
        by (auto simp: current_bucket_def Let_def split: option.splits if_splits)
      then have "failures_of (Some ?b) = failures_of existing + 1" by (subst b) (simp add: failures_of_def)
      then show ?thesis using Cons.IH [OF rest ok] by simp
    qed
  qed
qed

lemma sorted_below: "sorted ts \<Longrightarrow> filter (\<lambda>t. t < c) ts = takeWhile (\<lambda>t. t < c) (ts :: int list)"
proof (induction ts)
  case (Cons t ts)
  then show ?case by (cases ts) auto
qed simp

lemma tested_prefix: "tested options existing (xs @ ys) \<Longrightarrow> tested options existing xs"
  by (induction xs arbitrary: existing) auto

lemma tested_window:
  assumes "tested options existing ts" and "sorted ts" and "counting options existing"
    and "span \<le> lo_blockMs options" and "span \<le> lo_windowMs options" and "1 \<le> lo_maxFailures options"
  shows "int (length (filter (\<lambda>t. s \<le> t \<and> t < s + span) ts)) \<le> 2 * lo_maxFailures options - 1"
  using assms(1-3)
proof (induction ts arbitrary: existing)
  case Nil
  then show ?case using assms(6) by simp
next
  case (Cons t ts)
  show ?case
  proof (cases "t < s")
    case True
    have "counting options (Some (count_failure options existing t))"
      by (rule count_failure_counting [OF Cons.prems(3) assms(6)])
    then have "int (length (filter (\<lambda>t. s \<le> t \<and> t < s + span) ts)) \<le> 2 * lo_maxFailures options - 1"
      using Cons.IH [of "Some (count_failure options existing t)"] Cons.prems by simp
    then show ?thesis using True by simp
  next
    case False
    then have from_s: "\<And>x. x \<in> set (t # ts) \<Longrightarrow> s \<le> x" using Cons.prems(2) by fastforce
    have "filter (\<lambda>t. s \<le> t \<and> t < s + span) (t # ts) = filter (\<lambda>t. t < s + span) (t # ts)"
      by (rule filter_cong [OF refl]) (use from_s in auto)
    then have e: "filter (\<lambda>t. s \<le> t \<and> t < s + span) (t # ts) = takeWhile (\<lambda>t. t < s + span) (t # ts)"
      using sorted_below Cons.prems(2) by metis
    have "tested options existing (takeWhile (\<lambda>t. t < s + span) (t # ts))"
      by (rule tested_prefix [of _ _ _ "dropWhile (\<lambda>t. t < s + span) (t # ts)"]) (use Cons.prems(1) in simp)
    moreover have "\<And>x. x \<in> set (takeWhile (\<lambda>t. t < s + span) (t # ts)) \<Longrightarrow> s \<le> x \<and> x < s + span"
      using from_s by (meson set_takeWhileD)
    ultimately have "int (length (takeWhile (\<lambda>t. t < s + span) (t # ts))) \<le> 2 * lo_maxFailures options - 1 - failures_of existing"
      by (rule tested_in_span [OF _ _ assms(4-6) Cons.prems(3)])
    then show ?thesis using Cons.prems(3) unfolding e counting_def by simp
  qed
qed

section \<open>The login as a whole\<close>

definition everyones_bucket :: "login_limiter \<Rightarrow> bucket option" where
  "everyones_bucket limiter = map_of (fl_buckets (ll_global limiter)) GLOBAL_KEY"

definition wrong_times :: "(int \<times> login_result) list \<Rightarrow> int list" where
  "wrong_times results = map fst (filter (\<lambda>e. snd e = Wrong_key) results)"

lemma update_key_bucket: "map_of (fl_buckets (snd (recordFailure l k now))) k
    = Some (count_failure (fl_options l) (map_of (fl_buckets l) k) now)"
  by (simp add: recordFailure_def Let_def update_conv)

lemma recordFailure_options [simp]: "fl_options (snd (recordFailure l k now)) = fl_options l"
  by (simp add: recordFailure_def Let_def)

lemma open_check: "ld_allowed (limiter_check l k now) \<longleftrightarrow> open_at (map_of (fl_buckets l) k) now"
  by (simp add: limiter_check_def open_at_def allow_now_def refuse_for_def split: option.splits)

lemma login_attempt_global:
  assumes "login_attempt limiter (now, source, right) = (result, after)"
  shows "result = Wrong_key \<Longrightarrow> open_at (everyones_bucket limiter) now
      \<and> everyones_bucket after = Some (count_failure (fl_options (ll_global limiter)) (everyones_bucket limiter) now)"
    and "result \<noteq> Wrong_key \<Longrightarrow> everyones_bucket after = everyones_bucket limiter"
    and "fl_options (ll_global after) = fl_options (ll_global limiter)"
  using assms
  by (auto simp: login_attempt_def checkLogin_def recordLoginFailure_def recordLoginSuccess_def everyones_bucket_def
      Let_def update_key_bucket open_check refuse_for_def allow_now_def split: if_splits)

lemma login_run_tested:
  "tested (fl_options (ll_global limiter)) (everyones_bucket limiter) (wrong_times (login_run limiter rs))"
proof (induction rs arbitrary: limiter)
  case (Cons r rs)
  obtain now source right where r: "r = (now, source, right)" by (cases r)
  obtain result after where a: "login_attempt limiter r = (result, after)" by fastforce
  note g = login_attempt_global [OF a [unfolded r]]
  show ?case using Cons.IH [of after] g a r by (cases "result = Wrong_key") (auto simp: wrong_times_def)
qed (simp add: wrong_times_def)

lemma login_run_times: "map fst (login_run limiter rs) = map fst rs"
  by (induction rs arbitrary: limiter) (auto split: prod.split)

lemma wrong_times_sorted: "sorted (map fst rs) \<Longrightarrow> sorted (wrong_times (login_run limiter rs))"
  unfolding wrong_times_def by (rule sorted_filter [of fst]) (simp add: login_run_times)

lemma login_guesses_bounded:
  assumes "sorted (map fst rs)"
  shows "length (filter (\<lambda>t. s \<le> t \<and> t < s + 60000) (wrong_times (login_run createLoginLimiter rs))) \<le> 39"
proof -
  have o: "fl_options (ll_global createLoginLimiter) = GLOBAL_LIMIT"
    and e: "everyones_bucket createLoginLimiter = None"
    by (simp_all add: createLoginLimiter_def new_FailureLimiter_def everyones_bucket_def)
  have "int (length (filter (\<lambda>t. s \<le> t \<and> t < s + 60000) (wrong_times (login_run createLoginLimiter rs))))
      \<le> 2 * lo_maxFailures GLOBAL_LIMIT - 1"
    by (rule tested_window [where existing = None])
      (use login_run_tested [of createLoginLimiter rs] wrong_times_sorted [OF assms] o e in
        \<open>simp_all add: counting_def failures_of_def GLOBAL_LIMIT_def\<close>)
  then show ?thesis by (simp add: GLOBAL_LIMIT_def)
qed

text \<open>Nobody is locked out for longer than a minute after the last wrong key.\<close>

definition blocks_until :: "int \<Rightarrow> failure_limiter \<Rightarrow> bool" where
  "blocks_until t l \<longleftrightarrow> (\<forall>b \<in> snd ` set (fl_buckets l). bk_blockedUntil b \<le> t)"

lemma blocks_until_kept:
  assumes "blocks_until t l" and "now + lo_blockMs (fl_options l) \<le> t" and "0 \<le> t"
  shows "blocks_until t (snd (recordFailure l k now))" and "blocks_until t (limiter_clear l k)"
    and "blocks_until t (prune l n)"
proof -
  have "bk_blockedUntil (count_failure (fl_options l) (map_of (fl_buckets l) k) now) \<le> t"
    using assms by (auto simp: blocks_until_def count_failure_def current_bucket_def Let_def
        split: option.splits dest!: map_of_SomeD)
  moreover have u: "c \<in> snd ` set (AList.update k b xs) \<Longrightarrow> c = b \<or> c \<in> snd ` set xs" for b c :: bucket and xs
    by (induction xs) (auto split: if_splits)
  ultimately show "blocks_until t (snd (recordFailure l k now))"
    using assms(1) by (auto simp: blocks_until_def recordFailure_def Let_def dest!: u [OF imageI])
  show "blocks_until t (limiter_clear l k)" "blocks_until t (prune l n)"
    using assms(1) by (auto simp: blocks_until_def limiter_clear_def prune_def AList.delete_eq)
qed

definition login_after :: "login_limiter \<Rightarrow> (int \<times> string \<times> bool) list \<Rightarrow> login_limiter" where
  "login_after limiter rs = foldl (\<lambda>l r. snd (login_attempt l r)) limiter rs"

definition login_blocks_until :: "int \<Rightarrow> login_limiter \<Rightarrow> bool" where
  "login_blocks_until t limiter \<longleftrightarrow> blocks_until t (ll_perSource limiter) \<and> blocks_until t (ll_global limiter)
     \<and> fl_options (ll_perSource limiter) = PER_SOURCE_LIMIT \<and> fl_options (ll_global limiter) = GLOBAL_LIMIT"

lemma limit_blocks [simp]: "lo_blockMs PER_SOURCE_LIMIT = 60000" "lo_blockMs GLOBAL_LIMIT = 60000"
  by (simp_all add: PER_SOURCE_LIMIT_def GLOBAL_LIMIT_def)

lemma login_attempt_blocks:
  assumes "login_blocks_until (t + 60000) limiter" and "fst r \<le> t" and "0 \<le> t"
  shows "login_blocks_until (t + 60000) (snd (login_attempt limiter r))"
proof -
  obtain now source right where r: "r = (now, source, right)" by (cases r)
  have o: "fl_options (prune l n) = fl_options l" "fl_options (limiter_clear l k) = fl_options l" for l n k
    by (simp_all add: prune_def limiter_clear_def)
  have p: "blocks_until (t + 60000) (prune (ll_perSource limiter) now)"
    using assms r by (intro blocks_until_kept(3) [where now = now]) (auto simp: login_blocks_until_def)
  have "blocks_until (t + 60000) (snd (recordFailure (prune (ll_perSource limiter) now) source now))"
    "blocks_until (t + 60000) (limiter_clear (prune (ll_perSource limiter) now) source)"
    "blocks_until (t + 60000) (snd (recordFailure (ll_global limiter) GLOBAL_KEY now))"
    using assms r p by (intro blocks_until_kept(1,2) [where now = now]; auto simp: login_blocks_until_def o)+
  then show ?thesis using assms(1) p
    by (auto simp: r login_attempt_def checkLogin_def recordLoginFailure_def recordLoginSuccess_def
        login_blocks_until_def o Let_def)
qed

lemma login_after_blocks:
  assumes "\<And>r. r \<in> set rs \<Longrightarrow> fst r \<le> t" and "0 \<le> t"
  shows "login_blocks_until (t + 60000) (login_after createLoginLimiter rs)"
  using assms(1)
proof (induction rs rule: rev_induct)
  case Nil
  then show ?case
    by (simp add: login_after_def createLoginLimiter_def new_FailureLimiter_def login_blocks_until_def blocks_until_def)
next
  case (snoc r rs)
  then show ?case using login_attempt_blocks [OF snoc.IH _ assms(2)] by (simp add: login_after_def)
qed

lemma blocks_until_check:
  assumes "blocks_until t l" and "t \<le> n"
  shows "limiter_check l k n = allow_now"
  using assms by (force simp: blocks_until_def limiter_check_def split: option.splits dest: map_of_SomeD)

lemma login_lockout_short:
  assumes "\<And>r. r \<in> set rs \<Longrightarrow> fst r \<le> t" and "0 \<le> t" and "t + 60000 \<le> n"
  shows "ld_allowed (fst (checkLogin (login_after createLoginLimiter rs) source n))"
proof -
  let ?l = "login_after createLoginLimiter rs"
  have b: "blocks_until (t + 60000) (ll_perSource ?l)" "blocks_until (t + 60000) (ll_global ?l)"
    using login_after_blocks [OF assms(1,2)] by (simp_all add: login_blocks_until_def)
  then have "blocks_until (t + 60000) (prune (ll_perSource ?l) n)" by (auto simp: blocks_until_def prune_def)
  then show ?thesis using blocks_until_check b(2) assms(3)
    by (simp add: checkLogin_def Let_def allow_now_def)
qed

end
