(* ===== verification/OpsAuth.thy ===== *)
theory OpsAuth
  imports LoginLimiter OpsConfig Diagnostics "HOL-Library.Word"
begin

unbundle bit_operations_syntax

text \<open>
  Access to the operator portal: \<open>access-key.ts\<close>, \<open>session.ts\<close>, \<open>guard.ts\<close>, \<open>gate.ts\<close> and
  \<open>session-header.ts\<close> of \<open>apps/ghalla-ops/src/lib/auth\<close>, the middleware, and the login and logout
  routes. A byte array is a string, one character per byte.

  Parameters. Web Crypto's SHA-256 and HMAC are functions on byte arrays; the parser behind
  \<open>new URL\<close>, given the fixed base, returns the origin, the path and the query, or nothing where it
  throws; \<open>stringify\<close> is \<open>JSON.stringify\<close> followed by \<open>TextEncoder\<close>, \<open>parse\<close> is \<open>TextDecoder\<close>
  followed by \<open>JSON.parse\<close>. No property assumes a law of them it does not name.
\<close>

section \<open>The access key\<close>



definition MIN_ACCESS_KEY_LENGTH :: nat where
  "MIN_ACCESS_KEY_LENGTH = 32"

definition DEFAULT_SESSION_TTL_MS :: int where
  "DEFAULT_SESSION_TTL_MS = 8 * 60 * 60 * 1000"

record auth_config =
  ac_accessKey :: string
  ac_sessionTtlMs :: int

definition loadAuthConfig :: "env \<Rightarrow> auth_config outcome" where
  "loadAuthConfig env =
     (case env ''OPS_ACCESS_KEY'' of
        None \<Rightarrow> Inl AuthConfigError
      | Some accessKey \<Rightarrow>
          if js_trim accessKey = [] then Inl AuthConfigError
          else if length accessKey < MIN_ACCESS_KEY_LENGTH then Inl AuthConfigError
          else Inr \<lparr> ac_accessKey = accessKey, ac_sessionTtlMs = DEFAULT_SESSION_TTL_MS \<rparr>)"

text \<open>\<open>(a[index] ?? 0)\<close>, on which the bitwise operators work as 32-bit integers.\<close>

definition byte_at :: "string \<Rightarrow> nat \<Rightarrow> 32 word" where
  "byte_at s i = (if i < length s then word_of_nat (of_char (s ! i)) else 0)"

definition timingSafeEqual :: "string \<Rightarrow> string \<Rightarrow> bool" where
  "timingSafeEqual a b =
     (let start = (word_of_nat (length a) :: 32 word) XOR word_of_nat (length b);
          len = max (length a) (length b)
      in foldl (\<lambda>difference i. difference OR (byte_at a i XOR byte_at b i)) start [0..<len] = 0)"

definition accessKeyMatches :: "(string \<Rightarrow> string) \<Rightarrow> string \<Rightarrow> string \<Rightarrow> bool" where
  "accessKeyMatches sha256 presented configured =
     timingSafeEqual (sha256 (utf8_encode presented)) (sha256 (utf8_encode configured))"

section \<open>The session token\<close>

definition SESSION_COOKIE :: string where
  "SESSION_COOKIE = ''ghalla_ops_session''"

definition SIGNING_PREFIX :: string where
  "SIGNING_PREFIX = ''ghalla-ops/session/v1''"

record ops_session =
  os_sessionId :: string
  os_expiresAt :: int

text \<open>
  What the parse of a signed payload gives: an exception, \<open>null\<close>, or a value with the two properties
  where they are a string and a number (an integer, as every number \<open>mintSession\<close> writes is).
\<close>

datatype parsed_payload = Parse_error | Parsed_null | Parsed_value "string option" "int option"

record session_crypto =
  sc_hmac :: "string \<Rightarrow> string \<Rightarrow> string"
  sc_stringify :: "ops_session \<Rightarrow> string"
  sc_parse :: "string \<Rightarrow> parsed_payload"

definition sign :: "session_crypto \<Rightarrow> string \<Rightarrow> string \<Rightarrow> string" where
  "sign crypto accessKey payload =
     sc_hmac crypto (utf8_encode accessKey) (utf8_encode (SIGNING_PREFIX @ ''.'' @ payload))"

definition newSessionId :: "string \<Rightarrow> string" where
  "newSessionId random_bytes = toBase64Url random_bytes"

definition mintSession :: "session_crypto \<Rightarrow> string \<Rightarrow> ops_session \<Rightarrow> string" where
  "mintSession crypto accessKey session =
     (let payload = toBase64Url (sc_stringify crypto session)
      in payload @ ''.'' @ toBase64Url (sign crypto accessKey payload))"

datatype session_rejection = SR_malformed | SR_bad_signature | SR_expired

datatype session_check = SC_ok ops_session | SC_refused session_rejection

definition verify_payload :: "session_crypto \<Rightarrow> string \<Rightarrow> int \<Rightarrow> session_check outcome" where
  "verify_payload crypto payload now =
     (case (case fromBase64Url payload of None \<Rightarrow> Parse_error | Some bytes \<Rightarrow> sc_parse crypto bytes) of
        Parse_error \<Rightarrow> Inr (SC_refused SR_malformed)
      | Parsed_null \<Rightarrow> Inl TypeError
      | Parsed_value (Some sessionId) (Some expiresAt) \<Rightarrow>
          Inr (if expiresAt \<le> now then SC_refused SR_expired
               else SC_ok \<lparr> os_sessionId = sessionId, os_expiresAt = expiresAt \<rparr>)
      | Parsed_value _ _ \<Rightarrow> Inr (SC_refused SR_malformed))"

definition verifySession :: "session_crypto \<Rightarrow> string \<Rightarrow> string option \<Rightarrow> int \<Rightarrow> session_check outcome" where
  "verifySession crypto accessKey token now =
     (case token of
        None \<Rightarrow> Inr (SC_refused SR_malformed)
      | Some t \<Rightarrow>
          let payload = takeWhile (\<lambda>c. c \<noteq> CHR ''.'') t
          in if CHR ''.'' \<notin> set t \<or> payload = [] then Inr (SC_refused SR_malformed)
             else case fromBase64Url (drop (length payload + 1) t) of
                    None \<Rightarrow> Inr (SC_refused SR_malformed)
                  | Some presented \<Rightarrow>
                      if \<not> timingSafeEqual presented (sign crypto accessKey payload)
                      then Inr (SC_refused SR_bad_signature)
                      else verify_payload crypto payload now)"

record cookie_attributes =
  ca_secure :: bool
  ca_path :: string
  ca_maxAge :: int

definition cookieAttributes :: "int \<Rightarrow> bool \<Rightarrow> cookie_attributes" where
  "cookieAttributes ttlMs secure = \<lparr> ca_secure = secure, ca_path = ''/'', ca_maxAge = ttlMs div 1000 \<rparr>"

section \<open>What may be reached\<close>

definition LOGIN_PATH :: string where
  "LOGIN_PATH = ''/login''"

definition PUBLIC_PATHS :: "string list" where
  "PUBLIC_PATHS = [LOGIN_PATH, ''/api/auth/login'', ''/api/live'']"

definition BRAND_FILES_PREFIX :: string where
  "BRAND_FILES_PREFIX = ''/brand/''"

definition isPublicPath :: "string \<Rightarrow> bool" where
  "isPublicPath pathname \<longleftrightarrow> pathname \<in> set PUBLIC_PATHS \<or> prefix BRAND_FILES_PREFIX pathname"

datatype guard_outcome = GO_allow | GO_redirect string | GO_unauthorized

definition RESOLUTION_BASE :: string where
  "RESOLUTION_BASE = ''https://portal.invalid''"

type_synonym url_parser = "string \<Rightarrow> (string \<times> string \<times> string) option"

definition safeNext :: "url_parser \<Rightarrow> string option \<Rightarrow> string option" where
  "safeNext url value =
     (case value of
        None \<Rightarrow> None
      | Some v \<Rightarrow>
          if v = [] then None
          else if \<not> prefix ''/'' v then None
          else case url v of
                 None \<Rightarrow> None
               | Some (origin, pathname, search) \<Rightarrow>
                   if origin \<noteq> RESOLUTION_BASE then None
                   else if prefix LOGIN_PATH (pathname @ search) then None
                   else Some (pathname @ search))"

definition loginRedirect :: "url_parser \<Rightarrow> string \<Rightarrow> string \<Rightarrow> string" where
  "loginRedirect url pathname search =
     (case safeNext url (Some (pathname @ search)) of
        None \<Rightarrow> LOGIN_PATH
      | Some next \<Rightarrow> LOGIN_PATH @ ''?next='' @ encodeURIComponent next)"

definition guard :: "url_parser \<Rightarrow> string \<Rightarrow> string \<Rightarrow> bool \<Rightarrow> guard_outcome" where
  "guard url pathname search authenticated =
     (if isPublicPath pathname \<or> authenticated then GO_allow
      else if prefix ''/api/'' pathname then GO_unauthorized
      else GO_redirect (loginRedirect url pathname search))"

text \<open>Header names are case-insensitive; the key is the name in lower case.\<close>

type_synonym headers = "string \<Rightarrow> string option"

definition clientAddress :: "headers \<Rightarrow> string" where
  "clientAddress h =
     (let fallback = (case h ''x-real-ip'' of None \<Rightarrow> ''unknown'' | Some ip \<Rightarrow> ip)
      in case h ''x-forwarded-for'' of
           None \<Rightarrow> fallback
         | Some forwarded \<Rightarrow>
             let first = js_trim (hd (js_split (CHR '','') forwarded))
             in if first \<noteq> [] then first else fallback)"

definition isSecureRequest :: "headers \<Rightarrow> string \<Rightarrow> bool" where
  "isSecureRequest h url =
     (case h ''x-forwarded-proto'' of
        None \<Rightarrow> prefix ''https:'' url
      | Some forwarded \<Rightarrow>
          let first = js_trim (hd (js_split (CHR '','') forwarded))
          in if first \<noteq> [] then first = ''https'' else prefix ''https:'' url)"

section \<open>The gate\<close>

definition SESSION_HEADER :: string where
  "SESSION_HEADER = ''x-ops-session''"

definition sessionFromHeaders :: "headers \<Rightarrow> string option" where
  "sessionFromHeaders h =
     (case h SESSION_HEADER of None \<Rightarrow> None | Some v \<Rightarrow> if v = [] then None else Some v)"

record gate_result =
  gr_outcome :: guard_outcome
  gr_sessionId :: "string option"

definition gate ::
  "session_crypto \<Rightarrow> url_parser \<Rightarrow> string \<Rightarrow> string \<Rightarrow> string \<Rightarrow> string option \<Rightarrow> int \<Rightarrow> gate_result outcome" where
  "gate crypto url accessKey pathname search token now =
     bindE (verifySession crypto accessKey token now) (\<lambda>check.
     Inr (case check of
            SC_ok session \<Rightarrow> \<lparr> gr_outcome = guard url pathname search True,
              gr_sessionId = Some (os_sessionId session) \<rparr>
          | SC_refused _ \<Rightarrow> \<lparr> gr_outcome = guard url pathname search False, gr_sessionId = None \<rparr>))"

definition forwardedHeaders :: "headers \<Rightarrow> string option \<Rightarrow> headers" where
  "forwardedHeaders original sessionId =
     (let forwarded = original(SESSION_HEADER := None)
      in case sessionId of None \<Rightarrow> forwarded | Some s \<Rightarrow> forwarded(SESSION_HEADER \<mapsto> s))"

datatype middleware_response = MR_next headers | MR_unauthorized | MR_redirect string

definition middleware ::
  "session_crypto \<Rightarrow> url_parser \<Rightarrow> env \<Rightarrow> string \<Rightarrow> string \<Rightarrow> string option \<Rightarrow> headers \<Rightarrow> int
   \<Rightarrow> middleware_response outcome" where
  "middleware crypto url env pathname search cookie h now =
     bindE (loadAuthConfig env) (\<lambda>config.
     bindE (gate crypto url (ac_accessKey config) pathname search cookie now) (\<lambda>r.
     Inr (case gr_outcome r of
            GO_allow \<Rightarrow> MR_next (forwardedHeaders h (gr_sessionId r))
          | GO_unauthorized \<Rightarrow> MR_unauthorized
          | GO_redirect to \<Rightarrow> MR_redirect to)))"

section \<open>Login and logout\<close>

record see_other =
  so_location :: string
  so_cookie :: "string option"

text \<open>One request: its time, headers, URL, the two form fields and the random bytes it would draw.\<close>

record login_request =
  lq_now :: int
  lq_headers :: headers
  lq_url :: string
  lq_next :: "string option"
  lq_key :: "string option"
  lq_random :: string

definition login_next :: "url_parser \<Rightarrow> login_request \<Rightarrow> string" where
  "login_next url q =
     (case safeNext url (Some (case lq_next q of None \<Rightarrow> [] | Some v \<Rightarrow> v)) of None \<Rightarrow> ''/'' | Some v \<Rightarrow> v)"

definition session_cookie :: "string \<Rightarrow> cookie_attributes \<Rightarrow> string" where
  "session_cookie token attributes =
     SESSION_COOKIE @ ''='' @ token @ ''; Path='' @ ca_path attributes
     @ ''; Max-Age='' @ show_nat (nat (ca_maxAge attributes)) @ ''; HttpOnly; SameSite=Lax''
     @ (if ca_secure attributes then ''; Secure'' else [])"

definition post_login ::
  "session_crypto \<Rightarrow> (string \<Rightarrow> string) \<Rightarrow> url_parser \<Rightarrow> env \<Rightarrow> login_request \<Rightarrow> login_limiter
   \<Rightarrow> (see_other \<times> login_limiter) outcome" where
  "post_login crypto sha256 url env q limiter =
     bindE (loadAuthConfig env) (\<lambda>config.
       let source = clientAddress (lq_headers q);
           next = login_next url q;
           secure = isSecureRequest (lq_headers q) (lq_url q);
           (allowed, checked) = checkLogin limiter source (lq_now q);
           presented = (case lq_key q of None \<Rightarrow> [] | Some k \<Rightarrow> k)
       in Inr (if \<not> ld_allowed allowed
               then (\<lparr> so_location = ''/login?error=throttled&next='' @ encodeURIComponent next, so_cookie = None \<rparr>, checked)
               else if \<not> accessKeyMatches sha256 presented (ac_accessKey config)
               then (\<lparr> so_location = ''/login?error=invalid&next='' @ encodeURIComponent next, so_cookie = None \<rparr>,
                     recordLoginFailure checked source (lq_now q))
               else (\<lparr> so_location = next,
                       so_cookie = Some (session_cookie
                         (mintSession crypto (ac_accessKey config) \<lparr> os_sessionId = newSessionId (lq_random q),
                            os_expiresAt = lq_now q + ac_sessionTtlMs config \<rparr>)
                         (cookieAttributes (ac_sessionTtlMs config) secure)) \<rparr>,
                     recordLoginSuccess checked source)))"

text \<open>The answers to one request after another, the limiter kept by the process between them.\<close>

fun post_logins ::
  "session_crypto \<Rightarrow> (string \<Rightarrow> string) \<Rightarrow> url_parser \<Rightarrow> env \<Rightarrow> login_limiter \<Rightarrow> login_request list
   \<Rightarrow> see_other list outcome" where
  "post_logins crypto sha256 url env limiter [] = Inr []"
| "post_logins crypto sha256 url env limiter (q # qs) =
     bindE (post_login crypto sha256 url env q limiter) (\<lambda>(answer, after).
     bindE (post_logins crypto sha256 url env after qs) (\<lambda>answers. Inr (answer # answers)))"

definition post_logout :: "headers \<Rightarrow> string \<Rightarrow> see_other" where
  "post_logout h url = \<lparr> so_location = ''/login'',
     so_cookie = Some (SESSION_COOKIE @ ''=; Path=/; Max-Age=0; HttpOnly; SameSite=Lax''
       @ (if isSecureRequest h url then ''; Secure'' else [])) \<rparr>"

end
