(* ===== verification/OpsAuthFacts.thy ===== *)
theory OpsAuthFacts
  imports OpsAuth
begin

text \<open>
  Facts about access to the operator portal: the comparison is equality, a session token verifies
  until it expires and only under the key that signed it, the gate is closed without one, and the
  login route obeys the limiter.
\<close>

section \<open>The comparison\<close>

lemma or_fold_zero:
  "foldl (\<lambda>d i. d OR f i) d0 is = (0 :: 32 word) \<longleftrightarrow> d0 = 0 \<and> (\<forall>i \<in> set is. f i = 0)"
  by (induction "is" arbitrary: d0) (auto simp: or_eq_0_iff)

lemma xor_zero: "(a XOR b = (0 :: 32 word)) \<longleftrightarrow> a = b"
  by (metis xor.left_commute xor.right_neutral xor_self_eq)

lemma unat_of_nat_32: "m < 2 ^ 32 \<Longrightarrow> unat (word_of_nat m :: 32 word) = m"
  by (rule of_nat_inverse [OF refl]) simp

lemma word_of_nat_inject_32:
  "m < 2 ^ 32 \<Longrightarrow> n < 2 ^ 32 \<Longrightarrow> (word_of_nat m :: 32 word) = word_of_nat n \<longleftrightarrow> m = n"
  using unat_of_nat_32 by metis

lemma byte_at_inject:
  assumes "i < length a" and "i < length b"
  shows "byte_at a i = byte_at b i \<longleftrightarrow> a ! i = b ! i"
proof -
  have n: "unat (word_of_nat (of_char c) :: 32 word) = of_char c" for c
  proof -
    have "(of_char c :: nat) < 256" by simp
    then have "(of_char c :: nat) < 2 ^ 32" by (rule order_less_trans) simp
    then show ?thesis by (rule unat_of_nat_32)
  qed
  show ?thesis
  proof
    assume "byte_at a i = byte_at b i"
    then have "unat (byte_at a i) = unat (byte_at b i)" by simp
    then have "(of_char (a ! i) :: nat) = of_char (b ! i)" using assms n by (simp add: byte_at_def)
    then show "a ! i = b ! i" by simp
  qed (use assms in \<open>simp add: byte_at_def\<close>)
qed

lemma timingSafeEqual_iff:
  assumes "length a < 2 ^ 32" and "length b < 2 ^ 32"
  shows "timingSafeEqual a b \<longleftrightarrow> a = b"
proof -
  have "timingSafeEqual a b \<longleftrightarrow> length a = length b \<and> (\<forall>i < max (length a) (length b). byte_at a i = byte_at b i)"
    using word_of_nat_inject_32 [OF assms] by (auto simp: timingSafeEqual_def Let_def or_fold_zero xor_zero)
  also have "\<dots> \<longleftrightarrow> a = b"
    by (auto simp: byte_at_inject list_eq_iff_nth_eq)
  finally show ?thesis .
qed

section \<open>Encoding\<close>

lemma utf8_encode_Cons: "utf8_encode (c # s) = utf8_encode [c] @ utf8_encode s"
  by (simp add: utf8_encode_def)

lemma utf8_char: "utf8_encode [c] = (if (of_char c :: nat) < 128 then [c]
    else [char_of (192 + (of_char c :: nat) div 64), char_of (128 + (of_char c :: nat) mod 64)])"
  by (simp add: utf8_encode_def Let_def)

lemma utf8_Nil [simp]: "utf8_encode [] = []"
  by (simp add: utf8_encode_def)

lemma utf8_first_byte:
  assumes "\<not> (of_char c :: nat) < 128"
  shows "(of_char (char_of (192 + (of_char c :: nat) div 64) :: char) :: nat) = 192 + of_char c div 64"
    and "(of_char (char_of (128 + (of_char c :: nat) mod 64) :: char) :: nat) = 128 + of_char c mod 64"
proof -
  have "(of_char c :: nat) < 256" by simp
  then have "192 + (of_char c :: nat) div 64 < 256" "128 + (of_char c :: nat) mod 64 < 256" by linarith+
  then show "(of_char (char_of (192 + (of_char c :: nat) div 64) :: char) :: nat) = 192 + of_char c div 64"
    and "(of_char (char_of (128 + (of_char c :: nat) mod 64) :: char) :: nat) = 128 + of_char c mod 64"
    by (simp_all add: of_char_mod_256)
qed

lemma utf8_prefix_free:
  assumes "utf8_encode [c] @ xs = utf8_encode [d] @ ys"
  shows "c = d \<and> xs = ys"
proof (cases "(of_char c :: nat) < 128")
  case True
  then show ?thesis using assms utf8_first_byte(1) [of d] by (auto simp: utf8_char split: if_splits)
next
  case False
  then have d: "\<not> (of_char d :: nat) < 128"
    using assms utf8_first_byte(1) [of c] by (auto simp: utf8_char split: if_splits)
  then have e: "char_of (192 + (of_char c :: nat) div 64) = (char_of (192 + (of_char d :: nat) div 64) :: char)"
    "char_of (128 + (of_char c :: nat) mod 64) = (char_of (128 + (of_char d :: nat) mod 64) :: char)" "xs = ys"
    using assms False by (simp_all add: utf8_char)
  have "(of_char c :: nat) div 64 = of_char d div 64" "(of_char c :: nat) mod 64 = of_char d mod 64"
    using e(1,2) utf8_first_byte [OF False] utf8_first_byte [OF d] by (metis add_left_cancel)+
  then have "(of_char c :: nat) = of_char d" by (metis div_mult_mod_eq)
  then show ?thesis using e(3) by simp
qed

lemma utf8_nonempty: "utf8_encode (c # s) \<noteq> []"
  by (simp add: utf8_encode_Cons [of c s] utf8_char)

lemma utf8_encode_inject: "utf8_encode s = utf8_encode t \<longleftrightarrow> s = t"
proof
  show "utf8_encode s = utf8_encode t \<Longrightarrow> s = t"
  proof (induction s arbitrary: t)
    case Nil
    then show ?case using utf8_nonempty by (cases t) (simp, metis utf8_Nil)
  next
    case (Cons c s)
    then obtain d t' where t: "t = d # t'" using utf8_nonempty by (cases t) auto
    have "utf8_encode [c] @ utf8_encode s = utf8_encode [d] @ utf8_encode t'"
      using Cons.prems unfolding t by (metis utf8_encode_Cons)
    then show ?case using utf8_prefix_free Cons.IH t by blast
  qed
qed simp

section \<open>Session tokens\<close>

lemma takeWhile_prefix: "c \<notin> set xs \<Longrightarrow> takeWhile (\<lambda>d. d \<noteq> c) (xs @ c # ys) = xs"
  by (induction xs) auto

lemma verify_split:
  assumes "CHR ''.'' \<notin> set payload" and "payload \<noteq> []"
  shows "verifySession crypto key (Some (payload @ ''.'' @ rest)) now =
    (case fromBase64Url rest of
       None \<Rightarrow> Inr (SC_refused SR_malformed)
     | Some presented \<Rightarrow> if \<not> timingSafeEqual presented (sign crypto key payload)
         then Inr (SC_refused SR_bad_signature) else verify_payload crypto payload now)"
  using assms by (simp add: verifySession_def takeWhile_prefix Let_def)

definition mac_bytes :: "session_crypto \<Rightarrow> bool" where
  "mac_bytes crypto \<longleftrightarrow> (\<forall>key message. length (sc_hmac crypto key message) = 32)"

lemma sign_length: "mac_bytes crypto \<Longrightarrow> length (sign crypto key payload) < 2 ^ 32"
  by (simp add: mac_bytes_def sign_def)

lemma signs_equal:
  "mac_bytes crypto \<Longrightarrow> timingSafeEqual (sign crypto k p) (sign crypto k' p') \<longleftrightarrow> sign crypto k p = sign crypto k' p'"
  by (rule timingSafeEqual_iff; rule sign_length)

definition session_json :: "session_crypto \<Rightarrow> ops_session \<Rightarrow> bool" where
  "session_json crypto session \<longleftrightarrow> sc_stringify crypto session \<noteq> [] \<and>
     sc_parse crypto (sc_stringify crypto session)
       = Parsed_value (Some (os_sessionId session)) (Some (os_expiresAt session))"

definition session_payload :: "session_crypto \<Rightarrow> ops_session \<Rightarrow> string" where
  "session_payload crypto session = toBase64Url (sc_stringify crypto session)"

lemma verify_minted:
  assumes "mac_bytes crypto" and "session_json crypto session"
  shows "verifySession crypto key (Some (mintSession crypto signing_key session)) now =
    Inr (if sign crypto signing_key (session_payload crypto session) \<noteq> sign crypto key (session_payload crypto session)
         then SC_refused SR_bad_signature
         else if os_expiresAt session \<le> now then SC_refused SR_expired else SC_ok session)"
proof -
  have "session_payload crypto session \<noteq> []"
    using assms(2) toBase64Url_nonempty by (simp add: session_payload_def session_json_def)
  then have "verifySession crypto key (Some (session_payload crypto session @ ''.'' @
        toBase64Url (sign crypto signing_key (session_payload crypto session)))) now =
     (if \<not> timingSafeEqual (sign crypto signing_key (session_payload crypto session))
           (sign crypto key (session_payload crypto session))
      then Inr (SC_refused SR_bad_signature) else verify_payload crypto (session_payload crypto session) now)"
    using verify_split toBase64Url_no_dot by (simp add: session_payload_def base64url_roundtrip)
  moreover have "verify_payload crypto (session_payload crypto session) now =
     Inr (if os_expiresAt session \<le> now then SC_refused SR_expired else SC_ok session)"
    using assms(2) by (simp add: verify_payload_def session_payload_def base64url_roundtrip session_json_def)
  ultimately show ?thesis
    by (simp add: mintSession_def session_payload_def signs_equal [OF assms(1)] Let_def)
qed

lemma verify_payload_ok:
  assumes "verify_payload crypto payload now = Inr (SC_ok session)"
  shows "now < os_expiresAt session" and "\<exists>bytes. fromBase64Url payload = Some bytes \<and>
    sc_parse crypto bytes = Parsed_value (Some (os_sessionId session)) (Some (os_expiresAt session))"
  using assms by (auto simp: verify_payload_def split: parsed_payload.splits option.splits if_splits)

lemma octets_length: "8 * length (octets bs) \<le> length bs"
  by (induction bs rule: octets.induct) simp_all

lemma b64_bits_length: "length (case b64_bits c of None \<Rightarrow> [] | Some bs \<Rightarrow> bs) \<le> 6"
  by (auto simp: b64_bits_def six_bits_def split: option.splits)

lemma fromBase64Url_length:
  assumes "fromBase64Url value = Some bytes"
  shows "length bytes \<le> length value"
proof -
  define s where "s = strip_padding (filter (\<lambda>c. \<not> is_ascii_space c) (map from_url_char value))"
  have "length s \<le> length (filter (\<lambda>c. \<not> is_ascii_space c) (map from_url_char value))"
    by (simp add: s_def strip_padding_def)
  also have "\<dots> \<le> length value" using length_filter_le [of _ "map from_url_char value"] by simp
  finally have v: "length s \<le> length value" .
  have b: "bytes = octets (concat (map (\<lambda>c. case b64_bits c of None \<Rightarrow> [] | Some bs \<Rightarrow> bs) s))"
    using assms by (simp add: fromBase64Url_def atob_def s_def Let_def split: if_splits)
  have "length (concat (map (\<lambda>c. case b64_bits c of None \<Rightarrow> [] | Some bs \<Rightarrow> bs) s)) \<le> 6 * length s"
    by (induction s) (use b64_bits_length in \<open>auto intro: add_mono\<close>)
  then have "8 * length bytes \<le> 6 * length s" using octets_length b by (metis order_trans)
  then show ?thesis using v by linarith
qed

lemma split_at_dot:
  assumes "CHR ''.'' \<in> set t"
  shows "t = takeWhile (\<lambda>c. c \<noteq> CHR ''.'') t @ ''.'' @ drop (length (takeWhile (\<lambda>c. c \<noteq> CHR ''.'') t) + 1) t"
  using assms by (induction t) auto

lemma verify_accepted:
  assumes "mac_bytes crypto" and "verifySession crypto key (Some token) now = Inr (SC_ok session)"
    and "length token < 2 ^ 32"
  obtains payload signature where "token = payload @ ''.'' @ signature" and "CHR ''.'' \<notin> set payload"
    and "fromBase64Url signature = Some (sign crypto key payload)"
    and "verify_payload crypto payload now = Inr (SC_ok session)"
proof -
  define payload where "payload = takeWhile (\<lambda>c. c \<noteq> CHR ''.'') token"
  define signature where "signature = drop (length payload + 1) token"
  obtain presented where a: "CHR ''.'' \<in> set token" "fromBase64Url signature = Some presented"
      "timingSafeEqual presented (sign crypto key payload)"
      "verify_payload crypto payload now = Inr (SC_ok session)"
    using assms(2) by (auto simp: verifySession_def Let_def payload_def signature_def split: if_splits option.splits)
  have t: "token = payload @ ''.'' @ signature"
    using split_at_dot [OF a(1)] by (simp only: payload_def signature_def)
  have "length presented \<le> length signature" by (rule fromBase64Url_length [OF a(2)])
  also have "\<dots> \<le> length token" by (simp add: signature_def)
  finally have "length presented < 2 ^ 32" using assms(3) by linarith
  then have "presented = sign crypto key payload"
    using a(3) timingSafeEqual_iff sign_length [OF assms(1)] by simp
  moreover have "CHR ''.'' \<notin> set payload" unfolding payload_def by (auto dest: set_takeWhileD)
  ultimately show thesis using that t a(2,4) by simp
qed

section \<open>The gate\<close>

lemma middleware_next:
  assumes "middleware crypto url env pathname search cookie h now = Inr (MR_next h')"
  obtains config check where "loadAuthConfig env = Inr config"
    and "verifySession crypto (ac_accessKey config) cookie now = Inr check"
    and "h' = forwardedHeaders h (case check of SC_ok s \<Rightarrow> Some (os_sessionId s) | SC_refused _ \<Rightarrow> None)"
    and "isPublicPath pathname \<or> (\<exists>s. check = SC_ok s)"
  using assms
  by (cases "loadAuthConfig env"; cases "verifySession crypto (ac_accessKey (projr (loadAuthConfig env))) cookie now")
    (auto simp: middleware_def gate_def guard_def split: session_check.splits if_splits)

lemma forwarded_session: "forwardedHeaders h sessionId SESSION_HEADER = sessionId"
  and forwarded_other: "name \<noteq> SESSION_HEADER \<Longrightarrow> forwardedHeaders h sessionId name = h name"
  by (simp_all add: forwardedHeaders_def Let_def split: option.splits)

lemma middleware_verified:
  assumes "loadAuthConfig env = Inr config" and "verifySession crypto (ac_accessKey config) cookie now = Inr check"
  shows "middleware crypto url env pathname search cookie h now = Inr
    (case check of
       SC_ok session \<Rightarrow> MR_next (forwardedHeaders h (Some (os_sessionId session)))
     | SC_refused _ \<Rightarrow> if isPublicPath pathname then MR_next (forwardedHeaders h None)
         else if prefix ''/api/'' pathname then MR_unauthorized else MR_redirect (loginRedirect url pathname search))"
  using assms by (auto simp: middleware_def gate_def guard_def split: session_check.splits)

section \<open>The login route\<close>

text \<open>A redirect that says the key was wrong is told apart from every other one by its location.\<close>

definition told_invalid :: "see_other \<Rightarrow> bool" where
  "told_invalid answer \<longleftrightarrow> prefix ''/login?error=invalid'' (so_location answer)"

definition key_right :: "(string \<Rightarrow> string) \<Rightarrow> auth_config \<Rightarrow> login_request \<Rightarrow> bool" where
  "key_right sha256 config q = accessKeyMatches sha256 (case lq_key q of None \<Rightarrow> [] | Some k \<Rightarrow> k) (ac_accessKey config)"

definition as_attempt :: "(string \<Rightarrow> string) \<Rightarrow> auth_config \<Rightarrow> login_request \<Rightarrow> int \<times> string \<times> bool" where
  "as_attempt sha256 config q = (lq_now q, clientAddress (lq_headers q), key_right sha256 config q)"

lemma login_next_elsewhere: "\<not> prefix LOGIN_PATH (login_next url q)"
  by (auto simp: login_next_def safeNext_def LOGIN_PATH_def split: option.splits if_splits)

lemma login_next_not_invalid: "\<not> prefix ''/login?error=invalid'' (login_next url q)"
proof
  assume "prefix ''/login?error=invalid'' (login_next url q)"
  then have "prefix LOGIN_PATH (login_next url q)"
    by (rule prefix_order.trans [rotated]) (simp add: LOGIN_PATH_def)
  then show False using login_next_elsewhere by blast
qed

lemma post_login_attempt:
  assumes "loadAuthConfig env = Inr config"
  shows "\<exists>answer. post_login crypto sha256 url env q limiter
      = Inr (answer, snd (login_attempt limiter (as_attempt sha256 config q)))
    \<and> (told_invalid answer \<longleftrightarrow> fst (login_attempt limiter (as_attempt sha256 config q)) = Wrong_key)
    \<and> (so_cookie answer \<noteq> None \<longleftrightarrow> fst (login_attempt limiter (as_attempt sha256 config q)) = Admitted)"
  using assms login_next_not_invalid
  by (auto simp: post_login_def login_attempt_def as_attempt_def key_right_def told_invalid_def Let_def
      split: prod.splits)

lemma post_logins_run:
  assumes "loadAuthConfig env = Inr config"
  shows "\<exists>answers. post_logins crypto sha256 url env limiter qs = Inr answers \<and> length answers = length qs
    \<and> map told_invalid answers = map (\<lambda>r. snd r = Wrong_key) (login_run limiter (map (as_attempt sha256 config) qs))"
proof (induction qs arbitrary: limiter)
  case (Cons q qs)
  let ?r = "login_attempt limiter (as_attempt sha256 config q)"
  obtain answer where a: "post_login crypto sha256 url env q limiter = Inr (answer, snd ?r)"
    "told_invalid answer \<longleftrightarrow> fst ?r = Wrong_key" using post_login_attempt [OF assms] by blast
  obtain answers where "post_logins crypto sha256 url env (snd ?r) qs = Inr answers" "length answers = length qs"
    "map told_invalid answers = map (\<lambda>r. snd r = Wrong_key) (login_run (snd ?r) (map (as_attempt sha256 config) qs))"
    using Cons.IH by blast
  then show ?case using a by (auto simp: split_beta)
qed simp

lemma filter_zip_map:
  assumes "map P ys = map Q zs" and "map f xs = map g zs" 
  shows "map f (map fst (filter (\<lambda>(x, y). P y \<and> R (f x)) (zip xs ys))) = map g (filter (\<lambda>z. Q z \<and> R (g z)) zs)"
proof -
  have l: "length ys = length zs" "length xs = length zs"
    using assms by (metis length_map)+
  show ?thesis using l assms
    by (induction zs arbitrary: xs ys) (auto simp: length_Suc_conv)
qed

lemma post_logins_bounded:
  assumes "loadAuthConfig env = Inr config" and "sorted (map lq_now qs)"
    and "post_logins crypto sha256 url env createLoginLimiter qs = Inr answers"
  shows "length (filter (\<lambda>(q, answer). told_invalid answer \<and> s \<le> lq_now q \<and> lq_now q < s + 60000) (zip qs answers)) \<le> 39"
proof -
  let ?as = "map (as_attempt sha256 config) qs"
  let ?run = "login_run createLoginLimiter ?as"
  have t: "map told_invalid answers = map (\<lambda>r. snd r = Wrong_key) ?run"
    using post_logins_run [OF assms(1), of crypto sha256 url createLoginLimiter qs] assms(3) by auto
  have f: "map lq_now qs = map fst ?run"
    by (simp add: login_run_times as_attempt_def comp_def)
  have "length (filter (\<lambda>(q, answer). told_invalid answer \<and> s \<le> lq_now q \<and> lq_now q < s + 60000) (zip qs answers))
    = length (filter (\<lambda>r. snd r = Wrong_key \<and> s \<le> fst r \<and> fst r < s + 60000) ?run)"
    using arg_cong [OF filter_zip_map [OF t f, of "\<lambda>n. s \<le> n \<and> n < s + 60000"], of length] by simp
  also have "\<dots> = length (filter (\<lambda>t. s \<le> t \<and> t < s + 60000) (wrong_times ?run))"
    by (simp add: wrong_times_def filter_map comp_def)
  also have "\<dots> \<le> 39"
    by (rule login_guesses_bounded) (use assms(2) in \<open>simp add: as_attempt_def comp_def\<close>)
  finally show ?thesis .
qed

end
