(* ===== verification/OpsProperties.thy ===== *)
theory OpsProperties
  imports OpsAuthFacts
begin

text \<open>
  Access to the operator portal: what the login route, the session token and the middleware
  guarantee together. The witnesses use a message code of 32 bytes that repeats the key, and one
  session for the JSON codec.
\<close>

definition sample_key :: string where
  "sample_key = ''0123456789abcdef0123456789abcdef''"

definition sample_env :: env where
  "sample_env name = (if name = ''OPS_ACCESS_KEY'' then Some sample_key else None)"

definition sample_session :: ops_session where
  "sample_session = \<lparr> os_sessionId = newSessionId ''r'', os_expiresAt = 8 * 60 * 60 * 1000 + 1000 \<rparr>"

definition sample_crypto :: session_crypto where
  "sample_crypto = \<lparr> sc_hmac = \<lambda>key message. take 32 (key @ replicate 32 (CHR ''.'')), sc_stringify = \<lambda>_. ''{}'',
     sc_parse = \<lambda>bytes. Parsed_value (Some (os_sessionId sample_session)) (Some (os_expiresAt sample_session)) \<rparr>"

definition sample_sha256 :: "string \<Rightarrow> string" where
  "sample_sha256 bytes = take 32 (bytes @ replicate 32 (CHR ''.''))"

definition sample_url :: url_parser where
  "sample_url value = Some (RESOLUTION_BASE, value, [])"

definition no_headers :: headers where
  "no_headers name = None"

definition sample_login :: login_request where
  "sample_login = \<lparr> lq_now = 1000, lq_headers = no_headers, lq_url = ''https://ops'', lq_next = Some ''/stores'',
     lq_key = Some sample_key, lq_random = ''r'' \<rparr>"

definition sample_limiter :: login_limiter where
  "sample_limiter = createLoginLimiter"

lemma sample_mac: "mac_bytes sample_crypto"
  by (auto simp: mac_bytes_def sample_crypto_def)

lemma sample_json: "session_json sample_crypto sample_session"
  by (simp add: session_json_def sample_crypto_def)

lemma sample_config: "loadAuthConfig sample_env = Inr \<lparr> ac_accessKey = sample_key, ac_sessionTtlMs = DEFAULT_SESSION_TTL_MS \<rparr>"
  by code_simp

lemma sample_digest: "length (sample_sha256 bytes) = 32"
  by (simp add: sample_sha256_def)

section \<open>Sessions\<close>

text \<open>
  C32. A token verifies under the key that signed it to exactly the session it was minted for, until
  the moment that session expires, and is refused as expired from then on. Under another key, where
  the message codes differ, it is refused, expired or not: changing the key ends every session.
\<close>

theorem session_token_roundtrip:
  assumes "mac_bytes crypto" and "session_json crypto session"
  shows "verifySession crypto key (Some (mintSession crypto signing_key session)) now =
    Inr (if sign crypto signing_key (toBase64Url (sc_stringify crypto session))
            \<noteq> sign crypto key (toBase64Url (sc_stringify crypto session))
         then SC_refused SR_bad_signature
         else if os_expiresAt session \<le> now then SC_refused SR_expired else SC_ok session)"
  using verify_minted [OF assms] by (simp only: session_payload_def)

theorem session_token_roundtrip_witness:
  "verifySession sample_crypto sample_key (Some (mintSession sample_crypto sample_key sample_session)) 5
     = Inr (SC_ok sample_session)"
  unfolding session_token_roundtrip [OF sample_mac sample_json] by (simp add: sample_session_def)

text \<open>
  C13. Whatever a client sends, a session is accepted only for a token whose second part decodes to
  the message code of its first part under the configured key, and only before its expiry; the
  accepted session is the one written in that signed first part. A token is a JavaScript string, so
  shorter than two to the thirty-two.
\<close>

theorem accepted_session_was_signed:
  assumes "mac_bytes crypto" and "verifySession crypto key (Some token) now = Inr (SC_ok session)"
    and "length token < 2 ^ 32"
  shows "now < os_expiresAt session
    \<and> (\<exists>payload signature bytes. token = payload @ ''.'' @ signature
        \<and> fromBase64Url signature = Some (sign crypto key payload)
        \<and> fromBase64Url payload = Some bytes
        \<and> sc_parse crypto bytes = Parsed_value (Some (os_sessionId session)) (Some (os_expiresAt session)))"
proof -
  obtain payload signature where p: "token = payload @ ''.'' @ signature"
      "fromBase64Url signature = Some (sign crypto key payload)"
      "verify_payload crypto payload now = Inr (SC_ok session)"
    using verify_accepted [OF assms] by metis
  show ?thesis using verify_payload_ok [OF p(3)] p(1,2) by auto
qed

theorem accepted_session_was_signed_witness:
  "\<exists>payload signature. mintSession sample_crypto sample_key sample_session = payload @ ''.'' @ signature
     \<and> fromBase64Url signature = Some (sign sample_crypto sample_key payload)"
proof -
  have "verifySession sample_crypto sample_key (Some (mintSession sample_crypto sample_key sample_session)) 5
      = Inr (SC_ok sample_session)"
    using verify_minted [OF sample_mac sample_json, of sample_key sample_key 5] by (simp add: sample_session_def)
  moreover have "length (mintSession sample_crypto sample_key sample_session) = 47"
    by code_simp
  ultimately show ?thesis
    using accepted_session_was_signed [OF sample_mac, of sample_key "mintSession sample_crypto sample_key sample_session" 5 sample_session]
    by auto
qed

section \<open>The gate\<close>

text \<open>
  C12. A request passes the middleware only on a public path or with a session that verifies. What a
  route then reads as the session is the verified one, or nothing: never what the client put in the
  header. Every other header is handed on as it came.
\<close>

theorem gate_is_closed:
  assumes "middleware crypto url env pathname search cookie h now = Inr (MR_next forwarded)"
  shows "\<exists>config check. loadAuthConfig env = Inr config
    \<and> verifySession crypto (ac_accessKey config) cookie now = Inr check
    \<and> (isPublicPath pathname \<or> (\<exists>session. check = SC_ok session))
    \<and> forwarded SESSION_HEADER = (case check of SC_ok session \<Rightarrow> Some (os_sessionId session) | SC_refused _ \<Rightarrow> None)
    \<and> (\<forall>name. name \<noteq> SESSION_HEADER \<longrightarrow> forwarded name = h name)"
  using middleware_next [OF assms] forwarded_session forwarded_other by metis

theorem gate_is_closed_witness:
  "\<exists>forwarded. middleware sample_crypto sample_url sample_env ''/api/live'' [] None (\<lambda>_. Some ''forged'') 5
      = Inr (MR_next forwarded) \<and> forwarded SESSION_HEADER = None"
proof -
  have m: "middleware sample_crypto sample_url sample_env ''/api/live'' [] None (\<lambda>_. Some ''forged'') 5
      = Inr (MR_next (forwardedHeaders (\<lambda>_. Some ''forged'') None))"
    using sample_config
    by (simp add: middleware_def gate_def verifySession_def guard_def isPublicPath_def PUBLIC_PATHS_def)
  have "verifySession sample_crypto key None 5 = Inr (SC_refused SR_malformed)" for key
    by (simp add: verifySession_def)
  then show ?thesis using m gate_is_closed [OF m] by auto
qed

section \<open>Login\<close>

text \<open>
  A login request is answered with a cookie exactly when the limiter lets it through and the
  digest of the key it presents is the digest of the configured one; otherwise it is sent back to
  the login page.
\<close>

theorem login_needs_the_key:
  assumes "\<And>bytes. length (sha256 bytes) = 32" and "loadAuthConfig env = Inr config"
    and "post_login crypto sha256 url env q limiter = Inr (answer, after)"
  shows "(so_cookie answer \<noteq> None \<longleftrightarrow>
      ld_allowed (fst (checkLogin limiter (clientAddress (lq_headers q)) (lq_now q)))
      \<and> sha256 (utf8_encode (case lq_key q of None \<Rightarrow> [] | Some k \<Rightarrow> k)) = sha256 (utf8_encode (ac_accessKey config)))
    \<and> (so_cookie answer \<noteq> None \<longleftrightarrow> \<not> prefix LOGIN_PATH (so_location answer))"
proof -
  have e: "timingSafeEqual (sha256 x) (sha256 y) \<longleftrightarrow> sha256 x = sha256 y" for x y
    by (rule timingSafeEqual_iff) (simp_all add: assms(1))
  show ?thesis using assms(2,3) login_next_elsewhere [of url q]
    by (auto simp: post_login_def accessKeyMatches_def e Let_def LOGIN_PATH_def split: prod.splits if_splits)
qed

theorem login_needs_the_key_witness:
  "\<exists>answer after. post_login sample_crypto sample_sha256 sample_url sample_env sample_login sample_limiter
     = Inr (answer, after) \<and> so_cookie answer \<noteq> None"
proof -
  obtain answer after where a:
      "post_login sample_crypto sample_sha256 sample_url sample_env sample_login sample_limiter = Inr (answer, after)"
    using post_login_attempt [OF sample_config] by blast
  have "ld_allowed (fst (checkLogin sample_limiter s n))" for s n
    by (simp add: sample_limiter_def checkLogin_def createLoginLimiter_def new_FailureLimiter_def prune_def
        limiter_check_def allow_now_def Let_def)
  then have "so_cookie answer \<noteq> None"
    using login_needs_the_key [OF sample_digest sample_config a] by (simp add: sample_login_def)
  then show ?thesis using a by blast
qed

text \<open>
  C24. The cookie a login is answered with opens every path of the portal, under the id drawn at that
  login, for the eight hours after it, and from then on no path that is not public.
\<close>

theorem login_opens_until_expiry:
  assumes "loadAuthConfig env = Inr config" and "mac_bytes crypto"
    and "session_json crypto \<lparr> os_sessionId = newSessionId (lq_random q), os_expiresAt = lq_now q + 28800000 \<rparr>"
    and "post_login crypto sha256 url env q limiter = Inr (answer, after)" and "so_cookie answer \<noteq> None"
  shows "\<exists>token secure. so_cookie answer = Some (session_cookie token (cookieAttributes 28800000 secure))
    \<and> (\<forall>pathname search h now. middleware crypto url env pathname search (Some token) h now =
        Inr (if now < lq_now q + 28800000 then MR_next (forwardedHeaders h (Some (newSessionId (lq_random q))))
             else if isPublicPath pathname then MR_next (forwardedHeaders h None)
             else if prefix ''/api/'' pathname then MR_unauthorized
             else MR_redirect (loginRedirect url pathname search)))"
proof -
  let ?session = "\<lparr> os_sessionId = newSessionId (lq_random q), os_expiresAt = lq_now q + 28800000 \<rparr>"
  let ?token = "mintSession crypto (ac_accessKey config) ?session"
  have ttl: "ac_sessionTtlMs config = 28800000"
    using assms(1) by (auto simp: loadAuthConfig_def DEFAULT_SESSION_TTL_MS_def split: option.splits if_splits)
  have c: "so_cookie answer
      = Some (session_cookie ?token (cookieAttributes 28800000 (isSecureRequest (lq_headers q) (lq_url q))))"
    using assms(4,5) assms(1) ttl by (auto simp: post_login_def Let_def split: prod.splits if_splits)
  have v: "verifySession crypto (ac_accessKey config) (Some ?token) now =
      Inr (if lq_now q + 28800000 \<le> now then SC_refused SR_expired else SC_ok ?session)" for now
    using verify_minted [OF assms(2,3), of "ac_accessKey config" "ac_accessKey config" now] by simp
  show ?thesis
    by (intro exI conjI allI, rule c) (simp add: middleware_verified [OF assms(1) v])
qed

theorem login_opens_until_expiry_witness:
  "\<exists>token. middleware sample_crypto sample_url sample_env ''/stores'' [] (Some token) no_headers 2000
     = Inr (MR_next (forwardedHeaders no_headers (Some (newSessionId ''r''))))"
proof -
  obtain answer after where a:
      "post_login sample_crypto sample_sha256 sample_url sample_env sample_login sample_limiter = Inr (answer, after)"
      "so_cookie answer \<noteq> None \<longleftrightarrow> fst (login_attempt sample_limiter
         (as_attempt sample_sha256 \<lparr> ac_accessKey = sample_key, ac_sessionTtlMs = DEFAULT_SESSION_TTL_MS \<rparr> sample_login))
         = Admitted"
    using post_login_attempt [OF sample_config] by blast
  have "so_cookie answer \<noteq> None" unfolding a(2)
    by (simp add: sample_limiter_def login_attempt_def as_attempt_def sample_login_def key_right_def accessKeyMatches_def
        timingSafeEqual_iff sample_digest checkLogin_def createLoginLimiter_def new_FailureLimiter_def prune_def
        limiter_check_def allow_now_def Let_def)
  moreover have "session_json sample_crypto
      \<lparr> os_sessionId = newSessionId (lq_random sample_login), os_expiresAt = lq_now sample_login + 28800000 \<rparr>"
    using sample_json by (simp add: sample_session_def sample_login_def)
  ultimately obtain token where t: "middleware sample_crypto sample_url sample_env pathname search (Some token) h now =
        Inr (if now < lq_now sample_login + 28800000
             then MR_next (forwardedHeaders h (Some (newSessionId (lq_random sample_login))))
             else if isPublicPath pathname then MR_next (forwardedHeaders h None)
             else if prefix ''/api/'' pathname then MR_unauthorized
             else MR_redirect (loginRedirect sample_url pathname search))" for pathname search h now
    using login_opens_until_expiry [OF sample_config sample_mac _ a(1)] by metis
  show ?thesis by (rule exI [of _ token]) (simp add: t sample_login_def)
qed

text \<open>
  C10. However many login requests arrive one after the other, from however many addresses, fewer
  than forty in any minute are answered that their key was wrong; the others are turned away
  untested.
\<close>

theorem wrong_keys_per_minute:
  assumes "loadAuthConfig env = Inr config" and "sorted (map lq_now qs)"
    and "post_logins crypto sha256 url env createLoginLimiter qs = Inr answers"
  shows "length (filter (\<lambda>(q, answer). prefix ''/login?error=invalid'' (so_location answer)
      \<and> s \<le> lq_now q \<and> lq_now q < s + 60000) (zip qs answers)) < 40"
proof -
  have "n < 40" if "n \<le> 39" for n :: nat using that by linarith
  then show ?thesis using post_logins_bounded [OF assms, of s] by (simp only: told_invalid_def)
qed

theorem wrong_keys_per_minute_witness:
  "\<exists>answers. post_logins sample_crypto sample_sha256 sample_url sample_env createLoginLimiter [sample_login] = Inr answers
     \<and> length (filter (\<lambda>(q, answer). prefix ''/login?error=invalid'' (so_location answer)
        \<and> 0 \<le> lq_now q \<and> lq_now q < 0 + 60000) (zip [sample_login] answers)) < 40"
proof -
  obtain answers where a:
      "post_logins sample_crypto sample_sha256 sample_url sample_env createLoginLimiter [sample_login] = Inr answers"
    using post_logins_run [OF sample_config] by blast
  show ?thesis by (intro exI conjI, rule a) (rule wrong_keys_per_minute [OF sample_config _ a], simp)
qed

text \<open>
  After any sequence of logins, right or wrong, everybody may try again a minute after the last
  one: the limiter locks nobody out for longer.
\<close>

theorem lockout_lasts_a_minute:
  assumes "\<And>r. r \<in> set rs \<Longrightarrow> fst r \<le> t" and "0 \<le> t" and "t + 60000 \<le> now"
  shows "ld_allowed (fst (checkLogin (login_after createLoginLimiter rs) source now))"
  by (rule login_lockout_short [OF assms])

theorem lockout_lasts_a_minute_witness:
  "ld_allowed (fst (checkLogin (login_after createLoginLimiter (replicate 5 (1000, ''a'', False))) ''a'' 61000))
   \<and> \<not> ld_allowed (fst (checkLogin (login_after createLoginLimiter (replicate 5 (1000, ''a'', False))) ''a'' 60999))"
proof
  show "ld_allowed (fst (checkLogin (login_after createLoginLimiter (replicate 5 (1000, ''a'', False))) ''a'' 61000))"
    by (rule lockout_lasts_a_minute [where t = 1000]) simp_all
  show "\<not> ld_allowed (fst (checkLogin (login_after createLoginLimiter (replicate 5 (1000, ''a'', False))) ''a'' 60999))"
    by code_simp
qed

text \<open>
  The comparison that never stops at a difference, over 32-bit accumulators, decides equality of
  the two byte arrays, whatever their lengths below two to the thirty-two.
\<close>

theorem timing_safe_equal:
  assumes "length a < 2 ^ 32" and "length b < 2 ^ 32"
  shows "timingSafeEqual a b \<longleftrightarrow> a = b"
  by (rule timingSafeEqual_iff [OF assms])

theorem timing_safe_equal_witness: "\<not> timingSafeEqual ''abc'' ''abcd'' \<and> timingSafeEqual ''abc'' ''abc''"
  by (simp add: timing_safe_equal)

end
