(* ===== verification/OpsQueries.thy ===== *)
theory OpsQueries
  imports Plans Access SubscriptionStore WebhookQueue ProfitStore "HOL-Library.AList"
begin

text \<open>
  \<open>Math.round\<close> of a quotient of doubles: exact, ties going up, while the numerator stays below
  \<open>2 ^ 52\<close>. The operator portal rounds every ratio it shows in this way.
  The second chapter holds the queries, the third those about money.
\<close>

text \<open>The double nearest to an integer, which is an integer.\<close>

definition fl_int :: "int \<Rightarrow> int" where
  "fl_int n = (case fl_ratio n 1 of (m, e) \<Rightarrow> if e \<ge> 0 then m * pow2 e else n)"

text \<open>\<open>Math.round((part * 10_000) / whole)\<close>.\<close>

definition basis_points :: "int \<Rightarrow> int \<Rightarrow> int" where
  "basis_points part whole = round_fl (fl_ratio (fl_int (part * 10000)) whole)"

lemma fl_exponent_small:
  assumes "0 < p" and "p < pow2 52" and "0 < q"
  shows "fl_exponent p q < 0"
proof (rule ccontr)
  assume "\<not> fl_exponent p q < 0"
  then have "pow2 52 * (q * pow2 (fl_exponent p q)) \<le> p"
    using fl_exponent_bits [OF assms(1,3)] by (simp add: scaled_num_def scaled_den_def)
  moreover have "1 * 1 \<le> q * pow2 (fl_exponent p q)"
    using assms(3) pow2_pos [of "fl_exponent p q"] by (intro mult_mono) linarith+
  then have "pow2 52 * 1 \<le> pow2 52 * (q * pow2 (fl_exponent p q))"
    by (intro mult_left_mono) (simp_all add: pow2_pos [THEN order_less_imp_le])
  ultimately show False using assms(2) by linarith
qed

theorem round_fl_ratio_exact:
  assumes "0 \<le> p" and "p < pow2 52" and "0 < q"
  shows "round_fl (fl_ratio p q) = (2 * p + q) div (2 * q)"
proof (cases "p = 0")
  case True
  then show ?thesis using assms(3) by (simp add: fl_ratio_def pow2_def)
next
  case False
  then have p: "0 < p" using assms(1) by simp
  define e where "e = fl_exponent p q"
  have e: "e < 0" unfolding e_def by (rule fl_exponent_small [OF p assms(2,3)])
  define h where "h = pow2 (- e - 1)"
  have d: "pow2 (- e) = 2 * h" and h: "0 < h"
    using pow2_add [of 1 "- e - 1"] e by (simp_all add: h_def pow2_def)
  define m where "m = round_half_even (p * (2 * h)) q"
  have m: "fl_ratio p q = (m, e)"
    using p e by (simp add: fl_ratio_def m_def Let_def scaled_num_def scaled_den_def d flip: e_def)
  have "pow2 52 * q \<le> p * (2 * h)"
    using fl_exponent_bits [OF p assms(3)] e by (simp add: scaled_num_def scaled_den_def d flip: e_def)
  also have "\<dots> < pow2 52 * (2 * h)" using assms(2) h by (intro mult_strict_right_mono) simp_all
  finally have q: "q < 2 * h" by simp
  define k where "k = (2 * p + q) div (2 * q)"
  have k: "2 * q * k \<le> 2 * p + q" "2 * p + q < 2 * q * k + 2 * q"
    using div_mult_mod_eq [of "2 * p + q" "2 * q"] pos_mod_bound [of "2 * q" "2 * p + q"]
      pos_mod_sign [of "2 * q" "2 * p + q"] assms(3) mult.commute [of "2 * q" k]
    unfolding k_def [symmetric] by linarith+
  have "(2 * k - 1) * h * q \<le> p * (2 * h)"
  proof -
    have "((2 * k - 1) * q) * h \<le> (2 * p) * h"
      using k(1) h by (intro mult_right_mono) (simp_all add: algebra_simps)
    then show ?thesis by (simp add: algebra_simps)
  qed
  then have lower: "(2 * k - 1) * h \<le> m"
    unfolding m_def by (rule round_half_even_ge [OF assms(3)])
  have "2 * (p * (2 * h)) + q < 2 * ((2 * k + 1) * h * q)"
  proof -
    have "(2 * p + 1) * (2 * h) \<le> ((2 * k + 1) * q) * (2 * h)"
      using k(2) h by (intro mult_right_mono) (simp_all add: algebra_simps)
    then have "2 * (p * (2 * h)) + 2 * h \<le> 2 * ((2 * k + 1) * h * q)" by (simp add: algebra_simps)
    then show ?thesis using q by linarith
  qed
  then have upper: "m < (2 * k + 1) * h"
    unfolding m_def by (rule round_half_even_less [OF assms(3)])
  have "(2 * m + 2 * h) div (2 * (2 * h)) = k"
  proof (rule int_div_pos_eq)
    show "2 * m + 2 * h = 2 * (2 * h) * k + (2 * m + 2 * h - 2 * (2 * h) * k)" by simp
    show "0 \<le> 2 * m + 2 * h - 2 * (2 * h) * k" using lower by (simp add: algebra_simps)
    show "2 * m + 2 * h - 2 * (2 * h) * k < 2 * (2 * h)" using upper by (simp add: algebra_simps)
  qed
  then show ?thesis using e by (simp add: m d k_def)
qed

lemma fl_int_small:
  assumes "0 \<le> n" and "n < pow2 52"
  shows "fl_int n = n"
proof (cases "n = 0")
  case True
  then show ?thesis by (simp add: fl_int_def fl_ratio_def)
next
  case False
  then have "fl_exponent n 1 < 0" using assms by (intro fl_exponent_small) simp_all
  then show ?thesis using False assms by (simp add: fl_int_def fl_ratio_def Let_def)
qed

lemma basis_points_exact:
  assumes "0 \<le> part" and "part * 10000 < pow2 52" and "0 < whole"
  shows "basis_points part whole = (20000 * part + whole) div (2 * whole)"
  using round_fl_ratio_exact [of "part * 10000" whole] fl_int_small [of "part * 10000"] assms
  by (simp add: basis_points_def algebra_simps)

lemma basis_points_range:
  assumes "0 \<le> part" and "part \<le> whole" and "part * 10000 < pow2 52" and "0 < whole"
  shows "0 \<le> basis_points part whole" and "basis_points part whole \<le> 10000"
proof -
  show "0 \<le> basis_points part whole"
    using assms by (simp add: basis_points_exact pos_imp_zdiv_nonneg_iff)
  have "(20000 * part + whole) div (2 * whole) \<le> (10000 * (2 * whole) + whole) div (2 * whole)"
    using assms by (intro zdiv_mono1) simp_all
  also have "\<dots> = 10000" using assms(4) by simp
  finally have "(20000 * part + whole) div (2 * whole) < 10001" by simp
  then show "basis_points part whole \<le> 10000" using assms by (simp add: basis_points_exact)
qed

lemma toMonthlyRate_exact:
  "0 \<le> a \<Longrightarrow> a < pow2 52 \<Longrightarrow> toMonthlyRate a = (2 * a + 12) div 24"
  using round_fl_ratio_exact [of a 12] by (simp add: toMonthlyRate_def)

chapter \<open>Queries\<close>

text \<open>
  What the operator portal asks one integration's database: \<open>lib/queries/window.ts\<close>, \<open>row.ts\<close>,
  \<open>ingestion.ts\<close>, \<open>orders.ts\<close>, \<open>coverage.ts\<close> and \<open>subscriptions.ts\<close>. The tables are lists of rows as
  in the repositories; a \<open>Map\<close> built from rows is an association list. Counts stay below the
  four-byte integers the statements cast them to. Where a statement leaves the order of equal rows
  to the database, the model takes the order of the table.
\<close>

section \<open>Tables\<close>

record portal_order = order_row +
  or_id :: string
  or_isTest :: bool

record payment_row =
  py_orderId :: string
  py_instrument :: string
  py_rawMethodLabel :: string

record backfill_row =
  bf_storeId :: string
  bf_resource :: string
  bf_status :: string
  bf_itemsFetched :: int
  bf_lastAdvancedAt :: "int option"
  bf_createdAt :: int

section \<open>Windows\<close>

record date_window =
  dw_from :: string
  dw_to :: string

datatype range = R_24h | R_7d | R_30d | R_90d

definition RANGES :: "(string \<times> range) list" where
  "RANGES = [(''24h'', R_24h), (''7d'', R_7d), (''30d'', R_30d), (''90d'', R_90d)]"

fun RANGE_DAYS :: "range \<Rightarrow> int" where
  "RANGE_DAYS R_24h = 1"
| "RANGE_DAYS R_7d = 7"
| "RANGE_DAYS R_30d = 30"
| "RANGE_DAYS R_90d = 90"

definition isRange :: "string \<Rightarrow> bool" where
  "isRange v \<longleftrightarrow> v \<in> set (map fst RANGES)"

definition COVERAGE_DAYS :: int where
  "COVERAGE_DAYS = 30"

definition DAY_MS :: int where
  "DAY_MS = 24 * 60 * 60 * 1000"

definition toBusinessDate :: "int \<Rightarrow> string outcome" where
  "toBusinessDate v = bindE (toISOString v) (\<lambda>s. toLocalDateFromColumn (take 10 s))"

text \<open>A day added to the UTC date is a day of milliseconds: UTC has no other days.\<close>

definition trailingDays :: "int \<Rightarrow> int \<Rightarrow> date_window outcome" where
  "trailingDays days now =
     (let end_ms = now + 86400000; start = end_ms - days * 86400000
      in bindE (toBusinessDate start) (\<lambda>f. bindE (toBusinessDate end_ms) (\<lambda>t.
         Inr \<lparr> dw_from = f, dw_to = t \<rparr>)))"

definition trailingHours :: "int \<Rightarrow> int \<Rightarrow> usage_window outcome" where
  "trailingHours hours now =
     bindE (toInstantFromDate (now - hours * 3600000)) (\<lambda>f. bindE (toInstantFromDate now) (\<lambda>t.
     Inr \<lparr> win_from = f, win_to = t \<rparr>))"

definition rangeToDateWindow :: "range \<Rightarrow> int \<Rightarrow> date_window outcome" where
  "rangeToDateWindow r now = trailingDays (RANGE_DAYS r) now"

definition rangeToInstantWindow :: "range \<Rightarrow> int \<Rightarrow> usage_window outcome" where
  "rangeToInstantWindow r now = trailingHours (RANGE_DAYS r * 24) now"

section \<open>Aggregates\<close>

text \<open>What a driver hands back for an aggregate: nothing, a date, a string with the date it parses to, or else.\<close>

datatype aggregate_value = AV_null | AV_date int | AV_string "int option" | AV_other

fun toInstantFromAggregate :: "aggregate_value \<Rightarrow> string option outcome" where
  "toInstantFromAggregate AV_null = Inr None"
| "toInstantFromAggregate (AV_date d) = bindE (toInstantFromDate d) (\<lambda>i. Inr (Some i))"
| "toInstantFromAggregate (AV_string parsed) =
     (case parsed of None \<Rightarrow> Inr None | Some d \<Rightarrow> bindE (toInstantFromDate d) (\<lambda>i. Inr (Some i)))"
| "toInstantFromAggregate AV_other = Inr None"

definition aggregateRow :: "'r list \<Rightarrow> 'r \<Rightarrow> 'r" where
  "aggregateRow rows default_row = (case rows of [] \<Rightarrow> default_row | r # _ \<Rightarrow> r)"

definition date_aggregate :: "int option \<Rightarrow> aggregate_value" where
  "date_aggregate v = (case v of None \<Rightarrow> AV_null | Some d \<Rightarrow> AV_date d)"

definition count_rows :: "('r \<Rightarrow> bool) \<Rightarrow> 'r list \<Rightarrow> int" where
  "count_rows P t = int (length (filter P t))"

definition min_of :: "int list \<Rightarrow> int option" where
  "min_of xs = (case xs of [] \<Rightarrow> None | x # r \<Rightarrow> Some (foldl min x r))"

definition max_of :: "int list \<Rightarrow> int option" where
  "max_of xs = (case xs of [] \<Rightarrow> None | x # r \<Rightarrow> Some (foldl max x r))"

text \<open>\<open>GROUP BY\<close> a key: the keys that occur, each with its rows.\<close>

definition group_rows :: "('r \<Rightarrow> 'k) \<Rightarrow> 'r list \<Rightarrow> ('k \<times> 'r list) list" where
  "group_rows key t = map (\<lambda>k. (k, filter (\<lambda>r. key r = k) t)) (remdups (map key t))"

section \<open>Ingestion\<close>

record ingestion_health =
  ih_processed :: int
  ih_failed :: int
  ih_skipped :: int
  ih_pending :: int
  ih_processing :: int
  ih_stalled :: int
  ih_oldestPendingAt :: "string option"

definition STALL_THRESHOLD_MS :: int where
  "STALL_THRESHOLD_MS = 5 * 60 * 1000"

definition in_window :: "int \<Rightarrow> int \<Rightarrow> int \<Rightarrow> bool" where
  "in_window from_ms to_ms t \<longleftrightarrow> t \<ge> from_ms \<and> t < to_ms"

definition ingestionHealth :: "usage_window \<Rightarrow> int \<Rightarrow> 'p webhook_event list \<Rightarrow> ingestion_health outcome" where
  "ingestionHealth window now events =
     bindE (instant_column (win_from window)) (\<lambda>from_ms.
     bindE (instant_column (win_to window)) (\<lambda>to_ms.
       let windowed = filter (\<lambda>e. in_window from_ms to_ms (we_receivedAt e)) events;
           stalledBefore = now - STALL_THRESHOLD_MS
       in bindE (toInstantFromAggregate (date_aggregate
              (min_of (map we_receivedAt (filter (\<lambda>e. we_status e = WS_pending) events))))) (\<lambda>oldest.
          Inr \<lparr> ih_processed = count_rows (\<lambda>e. we_status e = WS_processed) windowed,
                ih_failed = count_rows (\<lambda>e. we_status e = WS_failed) windowed,
                ih_skipped = count_rows (\<lambda>e. we_status e = WS_skipped) windowed,
                ih_pending = count_rows (\<lambda>e. we_status e = WS_pending) events,
                ih_processing = count_rows (\<lambda>e. we_status e = WS_processing) events,
                ih_stalled = count_rows (\<lambda>e. we_status e = WS_processing
                  \<and> (case we_lockedAt e of None \<Rightarrow> False | Some l \<Rightarrow> l < stalledBefore)) events,
                ih_oldestPendingAt = oldest \<rparr>)))"

definition successRateBps :: "int \<Rightarrow> int \<Rightarrow> int option" where
  "successRateBps processed failed =
     (let total = processed + failed in if total = 0 then None else Some (basis_points processed total))"

definition lastWebhookByStore :: "'p webhook_event list \<Rightarrow> (string \<times> string option) list outcome" where
  "lastWebhookByStore events =
     mapE (\<lambda>g. bindE (toInstantFromAggregate (date_aggregate (max_of (map we_receivedAt (snd g)))))
             (\<lambda>i. Inr (fst g, i))) (group_rows we_storeId events)"

definition failedJobsByStore :: "usage_window \<Rightarrow> 'p webhook_event list \<Rightarrow> (string \<times> int) list outcome" where
  "failedJobsByStore window events =
     bindE (instant_column (win_from window)) (\<lambda>from_ms.
     bindE (instant_column (win_to window)) (\<lambda>to_ms.
     Inr (map (\<lambda>g. (fst g, int (length (snd g)))) (group_rows we_storeId
       (filter (\<lambda>e. we_status e = WS_failed \<and> in_window from_ms to_ms (we_receivedAt e)) events)))))"

record failed_event =
  fe_id :: string
  fe_storeId :: string
  fe_eventType :: string
  fe_rawEventType :: string
  fe_receivedAt :: "string option"
  fe_attempts :: int
  fe_lastError :: "string option"

definition failed_event_of :: "'p webhook_event \<Rightarrow> failed_event outcome" where
  "failed_event_of e = bindE (toInstantFromDateOrNull (Some (we_receivedAt e))) (\<lambda>receivedAt.
     Inr \<lparr> fe_id = we_id e, fe_storeId = we_storeId e, fe_eventType = we_eventType e, fe_rawEventType = we_rawEventType e,
           fe_receivedAt = receivedAt, fe_attempts = we_attempts e, fe_lastError = we_lastError e \<rparr>)"

definition recentFailures :: "nat \<Rightarrow> string option \<Rightarrow> 'p webhook_event list \<Rightarrow> failed_event list outcome" where
  "recentFailures limit storeId events =
     mapE failed_event_of (take limit (sort_key (\<lambda>e. - we_receivedAt e)
       (filter (\<lambda>e. we_status e = WS_failed
          \<and> (case storeId of None \<Rightarrow> True | Some s \<Rightarrow> we_storeId e = s)) events)))"

record backfill_state =
  bs_status :: string
  bs_itemsFetched :: int
  bs_startedAt :: "string option"
  bs_lastAdvancedAt :: "string option"

definition backfill_state_of :: "backfill_row \<Rightarrow> backfill_state outcome" where
  "backfill_state_of r =
     bindE (toInstantFromDateOrNull (Some (bf_createdAt r))) (\<lambda>startedAt.
     bindE (toInstantFromDateOrNull (bf_lastAdvancedAt r)) (\<lambda>lastAdvancedAt.
     Inr \<lparr> bs_status = bf_status r, bs_itemsFetched = bf_itemsFetched r, bs_startedAt = startedAt,
           bs_lastAdvancedAt = lastAdvancedAt \<rparr>))"

definition orderBackfillByStore :: "backfill_row list \<Rightarrow> (string \<times> backfill_state) list outcome" where
  "orderBackfillByStore t =
     mapE (\<lambda>r. bindE (backfill_state_of r) (\<lambda>s. Inr (bf_storeId r, s)))
       (filter (\<lambda>r. bf_resource r = ''orders'') t)"

record unknown_payment_method =
  um_storeId :: string
  um_instrument :: string
  um_rawMethodLabel :: string
  um_orders :: int

text \<open>The join, one pair per leg of an order that exists; its groups count distinct orders.\<close>

definition unmapped_legs :: "payment_row list \<Rightarrow> portal_order list \<Rightarrow> (payment_row \<times> portal_order) list" where
  "unmapped_legs payments orders =
     [(p, x). p \<leftarrow> payments, x \<leftarrow> orders, or_id x = py_orderId p \<and> py_instrument p \<in> {''unknown'', ''other''} \<and> \<not> or_isTest x]"

definition leg_group :: "payment_row \<times> portal_order \<Rightarrow> string \<times> string \<times> string" where
  "leg_group j = (or_storeId (snd j), py_instrument (fst j), py_rawMethodLabel (fst j))"

definition unknownPaymentMethods :: "nat \<Rightarrow> payment_row list \<Rightarrow> portal_order list \<Rightarrow> unknown_payment_method list" where
  "unknownPaymentMethods limit payments orders =
     take limit (sort_key (\<lambda>m. - um_orders m)
       (map (\<lambda>g. \<lparr> um_storeId = fst (fst g), um_instrument = fst (snd (fst g)), um_rawMethodLabel = snd (snd (fst g)),
                   um_orders = int (card (or_id ` snd ` set (snd g))) \<rparr>)
         (group_rows leg_group (unmapped_legs payments orders))))"

section \<open>Orders\<close>

definition live_in :: "string \<Rightarrow> int \<Rightarrow> int \<Rightarrow> 'a order_row_scheme \<Rightarrow> bool" where
  "live_in storeId from_ms to_ms x \<longleftrightarrow>
     or_storeId x = storeId \<and> or_ingestionSource x = ''live'' \<and> in_window from_ms to_ms (or_placedAt x)"

definition ordersInPeriod :: "string \<Rightarrow> subscription \<Rightarrow> portal_order list \<Rightarrow> int outcome" where
  "ordersInPeriod storeId period orders =
     (let window = usageWindow period
      in bindE (instant_column (win_from window)) (\<lambda>from_ms.
         bindE (instant_column (win_to window)) (\<lambda>to_ms.
         Inr (count_rows (live_in storeId from_ms to_ms) orders))))"

text \<open>The left join groups to one entry per subscription; the count is of the orders it matched.\<close>

definition ordersInPeriodByStore :: "subscription_row list \<Rightarrow> portal_order list \<Rightarrow> (string \<times> int) list" where
  "ordersInPeriodByStore subscriptions orders =
     map (\<lambda>g. (fst g, sum_list (map (\<lambda>s.
         count_rows (live_in (ss_storeId s) (ss_currentPeriodStart s) (ss_currentPeriodEnd s)) orders) (snd g))))
       (group_rows ss_storeId subscriptions)"

definition ordersIngested :: "usage_window \<Rightarrow> portal_order list \<Rightarrow> int outcome" where
  "ordersIngested window orders =
     bindE (instant_column (win_from window)) (\<lambda>from_ms.
     bindE (instant_column (win_to window)) (\<lambda>to_ms.
     Inr (count_rows (\<lambda>x. or_ingestionSource x = ''live'' \<and> in_window from_ms to_ms (or_placedAt x)) orders)))"

chapter \<open>Coverage and subscriptions\<close>

text \<open>
  Cost coverage and subscription money in the operator portal: \<open>lib/queries/coverage.ts\<close> and
  \<open>lib/queries/subscriptions.ts\<close>. The plan rules are those of the billing package, on the same
  definitions.
\<close>

section \<open>Coverage\<close>

record coverage =
  cv_revenueExVatMinor :: int
  cv_coveredRevenueExVatMinor :: int
  cv_coverageBps :: "int option"
  cv_ordersCount :: int
  cv_dirtyBuckets :: int

definition toCoverageBps :: "int \<Rightarrow> int \<Rightarrow> int option" where
  "toCoverageBps covered revenue = (if revenue \<le> 0 then None else Some (basis_points covered revenue))"

definition toCoverage :: "string \<Rightarrow> string \<Rightarrow> int \<Rightarrow> int \<Rightarrow> coverage outcome" where
  "toCoverage revenue_text covered_text orders dirty =
     bindE (numericToMinor revenue_text) (\<lambda>revenue.
     bindE (numericToMinor covered_text) (\<lambda>covered.
     Inr \<lparr> cv_revenueExVatMinor = revenue, cv_coveredRevenueExVatMinor = covered,
           cv_coverageBps = toCoverageBps covered revenue, cv_ordersCount = orders, cv_dirtyBuckets = dirty \<rparr>))"

text \<open>The sum of a money column is exact and has its two decimals.\<close>

definition sum_column :: "('r \<Rightarrow> string) \<Rightarrow> 'r list \<Rightarrow> string" where
  "sum_column col rows = minorToNumeric (sum_list (map (\<lambda>r. column_minor (col r)) rows))"

definition coverage_of_rows :: "store_rollup_row list \<Rightarrow> coverage outcome" where
  "coverage_of_rows rows =
     toCoverage (sum_column sr_revenueExVatMinor rows) (sum_column sr_costCoveredRevenueExVatMinor rows)
       (sum_list (map sr_ordersCount rows)) (count_rows sr_dirty rows)"

definition in_dates :: "date_window \<Rightarrow> store_rollup_row \<Rightarrow> bool" where
  "in_dates window r \<longleftrightarrow> sr_businessDate r \<ge> dw_from window \<and> sr_businessDate r < dw_to window"

definition platformCoverage :: "date_window \<Rightarrow> store_rollup_row list \<Rightarrow> coverage outcome" where
  "platformCoverage window t = coverage_of_rows (filter (in_dates window) t)"

definition storeCoverage :: "string \<Rightarrow> date_window \<Rightarrow> store_rollup_row list \<Rightarrow> coverage outcome" where
  "storeCoverage storeId window t = coverage_of_rows (filter (\<lambda>r. sr_storeId r = storeId \<and> in_dates window r) t)"

definition coverageByStore :: "date_window \<Rightarrow> store_rollup_row list \<Rightarrow> (string \<times> coverage) list outcome" where
  "coverageByStore window t =
     mapE (\<lambda>g. bindE (coverage_of_rows (snd g)) (\<lambda>c. Inr (fst g, c)))
       (group_rows sr_storeId (filter (in_dates window) t))"

section \<open>Subscriptions by status\<close>

record status_counts =
  stc_active :: int
  stc_trialing :: int
  stc_pastDue :: int
  stc_canceled :: int
  stc_expired :: int
  stc_subscriptions :: int

definition add_count :: "(string \<times> int) list \<Rightarrow> string \<Rightarrow> (string \<times> int) list" where
  "add_count counts k = AList.update k ((case map_of counts k of None \<Rightarrow> 0 | Some n \<Rightarrow> n) + 1) counts"

definition count_of :: "(string \<times> int) list \<Rightarrow> string \<Rightarrow> int" where
  "count_of counts k = (case map_of counts k of None \<Rightarrow> 0 | Some n \<Rightarrow> n)"

definition statusCounts :: "subscription_row list \<Rightarrow> status_counts" where
  "statusCounts t =
     (let counts = foldl (\<lambda>c r. add_count c (ss_status r)) [] t
      in \<lparr> stc_active = count_of counts ''active'', stc_trialing = count_of counts ''trialing'',
           stc_pastDue = count_of counts ''past_due'', stc_canceled = count_of counts ''canceled'',
           stc_expired = count_of counts ''expired'', stc_subscriptions = int (length t) \<rparr>)"

section \<open>List MRR\<close>

definition BILLED_STATUSES :: "string list" where
  "BILLED_STATUSES = map fst (filter (\<lambda>p. isBilled (snd p)) SUBSCRIPTION_STATUSES)"

text \<open>\<open>effectivePlanCode\<close> on the three fields of a \<open>PlanState\<close>.\<close>

definition plan_in_force :: "string \<Rightarrow> string option \<Rightarrow> string option \<Rightarrow> string \<Rightarrow> string" where
  "plan_in_force planCode pendingPlanCode pendingPlanEffectiveAt now =
     (case (pendingPlanCode, pendingPlanEffectiveAt) of
        (Some code, Some effective_at) \<Rightarrow> if now \<ge> effective_at then code else planCode
      | _ \<Rightarrow> planCode)"

lemma effectivePlanCode_in_force:
  "effectivePlanCode s now = plan_in_force (sub_planCode s) (sub_pendingPlanCode s) (sub_pendingPlanEffectiveAt s) now"
  by (simp add: effectivePlanCode_def plan_in_force_def)

record plan_tally =
  pt_stores :: int
  pt_annualised :: int

record plan_revenue =
  pv_planCode :: string
  pv_stores :: int
  pv_listMrrMinor :: int

record mrr_breakdown =
  mb_listMrrMinor :: int
  mb_listArrMinor :: int
  mb_billedStores :: int
  mb_byPlan :: "plan_revenue list"
  mb_unknownPlans :: "(string \<times> int) list"

type_synonym mrr_tally = "(string \<times> plan_tally) list \<times> (string \<times> int) list"

definition mrr_step :: "string \<Rightarrow> mrr_tally \<Rightarrow> subscription_row \<Rightarrow> mrr_tally outcome" where
  "mrr_step at_time acc r =
     bindE (toInstantFromDateOrNull (ss_pendingPlanEffectiveAt r)) (\<lambda>pendingPlanEffectiveAt.
       let code = plan_in_force (ss_planCode r) (ss_pendingPlanCode r) pendingPlanEffectiveAt at_time
       in case planOf code of
            None \<Rightarrow> Inr (fst acc, add_count (snd acc) code)
          | Some p \<Rightarrow>
              bindE (annualisedPrice p) (\<lambda>annualised.
                let entry = (case map_of (fst acc) code of None \<Rightarrow> \<lparr> pt_stores = 0, pt_annualised = 0 \<rparr> | Some e \<Rightarrow> e)
                in Inr (AList.update code \<lparr> pt_stores = pt_stores entry + 1,
                     pt_annualised = pt_annualised entry + annualised \<rparr> (fst acc), snd acc)))"

definition plan_revenue_of :: "string \<times> plan_tally \<Rightarrow> plan_revenue outcome" where
  "plan_revenue_of e =
     bindE (toMinor (JInt (toMonthlyRate (pt_annualised (snd e))))) (\<lambda>listMrr.
     Inr \<lparr> pv_planCode = fst e, pv_stores = pt_stores (snd e), pv_listMrrMinor = listMrr \<rparr>)"

definition mrr :: "string \<Rightarrow> subscription_row list \<Rightarrow> mrr_breakdown outcome" where
  "mrr at_time t =
     (let rows = filter (\<lambda>r. ss_status r \<in> set BILLED_STATUSES) t
      in bindE (foldE (mrr_step at_time) ([], []) rows) (\<lambda>(byPlanCode, unknownByPlan).
         bindE (mapE plan_revenue_of byPlanCode) (\<lambda>byPlan.
           let totalAnnualised = sum_list (map (\<lambda>e. pt_annualised (snd e)) byPlanCode)
           in bindE (toMinor (JInt (toMonthlyRate totalAnnualised))) (\<lambda>listMrr.
              bindE (toMinor (JInt totalAnnualised)) (\<lambda>listArr.
              Inr \<lparr> mb_listMrrMinor = listMrr, mb_listArrMinor = listArr, mb_billedStores = int (length rows),
                    mb_byPlan = sort_key (\<lambda>p. - pv_listMrrMinor p) byPlan, mb_unknownPlans = unknownByPlan \<rparr>)))))"

section \<open>Every subscription\<close>

record portal_subscription =
  ps_storeId :: string
  ps_planCode :: string
  ps_effectivePlanCode :: string
  ps_status :: string
  ps_currentPeriodStart :: string
  ps_currentPeriodEnd :: string
  ps_trialEndsAt :: "string option"
  ps_lastReconciledAt :: "string option"
  ps_pendingPlanCode :: "string option"

definition portal_subscription_of :: "string \<Rightarrow> subscription_row \<Rightarrow> portal_subscription outcome" where
  "portal_subscription_of at_time r =
     bindE (toInstantFromDateOrNull (ss_pendingPlanEffectiveAt r)) (\<lambda>pendingPlanEffectiveAt.
     bindE (toInstantFromDate (ss_currentPeriodStart r)) (\<lambda>currentPeriodStart.
     bindE (toInstantFromDate (ss_currentPeriodEnd r)) (\<lambda>currentPeriodEnd.
     bindE (toInstantFromDateOrNull (ss_trialEndsAt r)) (\<lambda>trialEndsAt.
     bindE (toInstantFromDateOrNull (ss_lastReconciledAt r)) (\<lambda>lastReconciledAt.
     Inr \<lparr> ps_storeId = ss_storeId r, ps_planCode = ss_planCode r,
           ps_effectivePlanCode = plan_in_force (ss_planCode r) (ss_pendingPlanCode r) pendingPlanEffectiveAt at_time,
           ps_status = ss_status r, ps_currentPeriodStart = currentPeriodStart, ps_currentPeriodEnd = currentPeriodEnd,
           ps_trialEndsAt = trialEndsAt, ps_lastReconciledAt = lastReconciledAt,
           ps_pendingPlanCode = ss_pendingPlanCode r \<rparr>)))))"

definition subscriptionsByStore :: "string \<Rightarrow> subscription_row list \<Rightarrow> (string \<times> portal_subscription) list outcome" where
  "subscriptionsByStore at_time t =
     foldE (\<lambda>byStore r. bindE (portal_subscription_of at_time r) (\<lambda>s. Inr (AList.update (ss_storeId r) s byStore))) [] t"

end
