(* ===== verification/StoreHealth.thy ===== *)
theory StoreHealth
  imports OpsQueries Platforms "HOL-Library.Product_Lexorder" "HOL-Library.List_Lexorder"
begin

text \<open>
  The judgement of a store in the operator portal: \<open>lib/queries/store-health.ts\<close>,
  \<open>lib/queries/stores.ts\<close>, \<open>lib/queries/alerts.ts\<close>, \<open>lib/portal/alert-acks.ts\<close> and
  \<open>lib/queries/alert-feed.ts\<close>. Every \<open>Instant\<close> is well-formed by construction, so it has a moment.
  \<open>localeCompare\<close> compares the collation keys of two strings; the collation is a parameter.
\<close>

section \<open>Health\<close>

definition moment :: "string \<Rightarrow> int" where
  "moment i = (case toDateFromInstant i of None \<Rightarrow> 0 | Some ms \<Rightarrow> ms)"

datatype health_flag = HF_silent | HF_jobs_failing | HF_backfill_stuck | HF_coverage_low | HF_past_due

definition FAILED_JOBS_THRESHOLD :: int where
  "FAILED_JOBS_THRESHOLD = 5"

definition COVERAGE_LOW_BPS :: int where
  "COVERAGE_LOW_BPS = 2000"

definition ACTIVATION_COVERAGE_BPS :: int where
  "ACTIVATION_COVERAGE_BPS = 5000"

record store_facts =
  sf_storeId :: string
  sf_installedAt :: string
  sf_uninstalledAt :: "string option"
  sf_subscription :: "portal_subscription option"
  sf_coverage :: "coverage option"
  sf_lastWebhookAt :: "string option"
  sf_failedJobs :: int
  sf_backfill :: "backfill_state option"
  sf_ordersInPeriod :: int
  sf_dashboardSession :: "bool option"

definition ageMs :: "string option \<Rightarrow> string \<Rightarrow> int option" where
  "ageMs since now = (case since of None \<Rightarrow> None | Some f \<Rightarrow> Some (moment now - moment f))"

text \<open>\<open>isPaying\<close> on a status read from its column.\<close>

definition status_pays :: "string \<Rightarrow> bool" where
  "status_pays status = (case map_of SUBSCRIPTION_STATUSES status of None \<Rightarrow> False | Some s \<Rightarrow> isPaying s)"

definition isLive :: "store_facts \<Rightarrow> bool" where
  "isLive facts \<longleftrightarrow> sf_uninstalledAt facts = None
     \<and> (case sf_subscription facts of None \<Rightarrow> False | Some s \<Rightarrow> status_pays (ps_status s))"

definition isSilent :: "store_facts \<Rightarrow> string \<Rightarrow> bool" where
  "isSilent facts now =
     (if \<not> isLive facts then False
      else case ageMs (Some (sf_installedAt facts)) now of
             None \<Rightarrow> False
           | Some sinceInstall \<Rightarrow>
               if sinceInstall < DAY_MS then False
               else case ageMs (sf_lastWebhookAt facts) now of None \<Rightarrow> True | Some sinceWebhook \<Rightarrow> sinceWebhook \<ge> DAY_MS)"

definition stuckBackfill :: "store_facts \<Rightarrow> string \<Rightarrow> backfill_state option" where
  "stuckBackfill facts now =
     (case sf_backfill facts of
        None \<Rightarrow> None
      | Some backfill \<Rightarrow>
          if bs_status backfill = ''complete'' then None
          else case ageMs (bs_startedAt backfill) now of
                 None \<Rightarrow> None
               | Some age \<Rightarrow> if age \<ge> DAY_MS then Some backfill else None)"

definition isBackfillStuck :: "store_facts \<Rightarrow> string \<Rightarrow> bool" where
  "isBackfillStuck facts now \<longleftrightarrow> stuckBackfill facts now \<noteq> None"

definition coverage_bps :: "store_facts \<Rightarrow> int option" where
  "coverage_bps facts = (case sf_coverage facts of None \<Rightarrow> None | Some c \<Rightarrow> cv_coverageBps c)"

definition isCoverageLow :: "store_facts \<Rightarrow> bool" where
  "isCoverageLow facts = (case coverage_bps facts of None \<Rightarrow> False | Some bps \<Rightarrow> bps < COVERAGE_LOW_BPS)"

definition is_past_due :: "store_facts \<Rightarrow> bool" where
  "is_past_due facts = (case sf_subscription facts of None \<Rightarrow> False | Some s \<Rightarrow> ps_status s = ''past_due'')"

definition healthFlags :: "store_facts \<Rightarrow> string \<Rightarrow> health_flag list" where
  "healthFlags facts now =
     (if isSilent facts now then [HF_silent] else [])
     @ (if sf_failedJobs facts \<ge> FAILED_JOBS_THRESHOLD then [HF_jobs_failing] else [])
     @ (if isBackfillStuck facts now then [HF_backfill_stuck] else [])
     @ (if isCoverageLow facts then [HF_coverage_low] else [])
     @ (if is_past_due facts then [HF_past_due] else [])"

record store_health =
  sh_storeId :: string
  sh_flags :: "health_flag list"
  sh_healthy :: bool

definition storeHealth :: "store_facts \<Rightarrow> string \<Rightarrow> store_health" where
  "storeHealth facts now =
     (let flags = healthFlags facts now
      in \<lparr> sh_storeId = sf_storeId facts, sh_flags = flags, sh_healthy = (flags = []) \<rparr>)"

record activation =
  av_storeId :: string
  av_backfillComplete :: bool
  av_coverageAboveThreshold :: bool
  av_dashboardSession :: "bool option"
  av_activated :: "bool option"

definition activation_of :: "store_facts \<Rightarrow> activation" where
  "activation_of facts =
     (let complete = (case sf_backfill facts of None \<Rightarrow> False | Some b \<Rightarrow> bs_status b = ''complete'');
          above = (case coverage_bps facts of None \<Rightarrow> False | Some bps \<Rightarrow> bps > ACTIVATION_COVERAGE_BPS)
      in \<lparr> av_storeId = sf_storeId facts, av_backfillComplete = complete, av_coverageAboveThreshold = above,
           av_dashboardSession = sf_dashboardSession facts,
           av_activated = (case sf_dashboardSession facts of None \<Rightarrow> None | Some d \<Rightarrow> Some (complete \<and> above \<and> d)) \<rparr>)"

section \<open>Store summaries\<close>

record store_row =
  so_id :: string
  so_platformStoreId :: string
  so_currency :: string
  so_timezone :: string
  so_installedAt :: int
  so_uninstalledAt :: "int option"

record 'p portal_tables =
  ta_stores :: "store_row list"
  ta_subscriptions :: "subscription_row list"
  ta_rollups :: "store_rollup_row list"
  ta_events :: "'p webhook_event list"
  ta_backfills :: "backfill_row list"
  ta_orders :: "portal_order list"
  ta_payments :: "payment_row list"

record store_summary =
  sm_storeId :: string
  sm_platformStoreId :: string
  sm_currency :: string
  sm_timezone :: string
  sm_facts :: store_facts
  sm_health :: store_health
  sm_activation :: activation

definition countStores :: "'p portal_tables \<Rightarrow> int" where
  "countStores t = aggregateRow [int (length (ta_stores t))] 0"

definition get_or :: "('k \<times> 'v) list \<Rightarrow> 'k \<Rightarrow> 'v \<Rightarrow> 'v" where
  "get_or m k d = (case map_of m k of None \<Rightarrow> d | Some v \<Rightarrow> v)"

text \<open>
  The facts of a summary are the fields \<open>installedAt\<close> to \<open>ordersInPeriod\<close> of the code's object, which
  the alert feed collects into a \<open>StoreFacts\<close> again.
\<close>

definition summary_of ::
  "string \<Rightarrow> (string \<times> portal_subscription) list \<Rightarrow> (string \<times> coverage) list \<Rightarrow> (string \<times> string option) list
   \<Rightarrow> (string \<times> int) list \<Rightarrow> (string \<times> backfill_state) list \<Rightarrow> (string \<times> int) list \<Rightarrow> store_row
   \<Rightarrow> store_summary outcome" where
  "summary_of at_time subscriptions covered lastWebhook failedJobs backfill orders row =
     bindE (toInstantFromDate (so_installedAt row)) (\<lambda>installedAt.
     bindE (toInstantFromDateOrNull (so_uninstalledAt row)) (\<lambda>uninstalledAt.
       let facts = \<lparr> sf_storeId = so_id row, sf_installedAt = installedAt, sf_uninstalledAt = uninstalledAt,
             sf_subscription = map_of subscriptions (so_id row), sf_coverage = map_of covered (so_id row),
             sf_lastWebhookAt = get_or lastWebhook (so_id row) None, sf_failedJobs = get_or failedJobs (so_id row) 0,
             sf_backfill = map_of backfill (so_id row), sf_ordersInPeriod = get_or orders (so_id row) 0,
             sf_dashboardSession = None \<rparr>
       in Inr \<lparr> sm_storeId = so_id row, sm_platformStoreId = so_platformStoreId row, sm_currency = so_currency row,
                sm_timezone = so_timezone row, sm_facts = facts, sm_health = storeHealth facts at_time,
                sm_activation = activation_of facts \<rparr>))"

definition storeSummaries :: "'p portal_tables \<Rightarrow> int \<Rightarrow> store_summary list outcome" where
  "storeSummaries t now =
     bindE (toInstantFromDate now) (\<lambda>at_time.
     bindE (trailingDays COVERAGE_DAYS now) (\<lambda>coverageWindow.
     bindE (trailingHours (DAY_MS div 3600000) now) (\<lambda>failureWindow.
     bindE (subscriptionsByStore at_time (ta_subscriptions t)) (\<lambda>subscriptions.
     bindE (coverageByStore coverageWindow (ta_rollups t)) (\<lambda>covered.
     bindE (lastWebhookByStore (ta_events t)) (\<lambda>lastWebhook.
     bindE (failedJobsByStore failureWindow (ta_events t)) (\<lambda>failedJobs.
     bindE (orderBackfillByStore (ta_backfills t)) (\<lambda>backfill.
     mapE (summary_of at_time subscriptions covered lastWebhook failedJobs backfill
       (ordersInPeriodByStore (ta_subscriptions t) (ta_orders t))) (ta_stores t)))))))))"

record platform_store = store_summary +
  sm_platform :: string

record store_filter =
  ft_platform :: "string option"
  ft_status :: "string option"
  ft_plan :: "string option"
  ft_needsAttention :: bool

definition sub_field :: "(portal_subscription \<Rightarrow> string) \<Rightarrow> 'a store_summary_scheme \<Rightarrow> string option" where
  "sub_field f st = map_option f (sf_subscription (sm_facts st))"

definition matchesFilter :: "platform_store \<Rightarrow> store_filter \<Rightarrow> bool" where
  "matchesFilter st f =
     (if ft_platform f \<noteq> None \<and> Some (sm_platform st) \<noteq> ft_platform f then False
      else if ft_status f \<noteq> None \<and> sub_field ps_status st \<noteq> ft_status f then False
      else if ft_plan f \<noteq> None \<and> sub_field ps_effectivePlanCode st \<noteq> ft_plan f then False
      else if ft_needsAttention f \<and> sh_healthy (sm_health st) then False
      else True)"

datatype store_sort = SS_orders | SS_coverage | SS_installed | SS_store

definition STORE_SORTS :: "(string \<times> store_sort) list" where
  "STORE_SORTS = [(''orders'', SS_orders), (''coverage'', SS_coverage), (''installed'', SS_installed), (''store'', SS_store)]"

definition isStoreSort :: "string \<Rightarrow> bool" where
  "isStoreSort v \<longleftrightarrow> v \<in> set (map fst STORE_SORTS)"

text \<open>A stable descending sort is the ascending one between two reversals.\<close>

fun sortStores :: "(string \<Rightarrow> nat list) \<Rightarrow> platform_store list \<Rightarrow> store_sort \<Rightarrow> platform_store list" where
  "sortStores collate xs SS_orders = sort_key (\<lambda>s. - sf_ordersInPeriod (sm_facts s)) xs"
| "sortStores collate xs SS_coverage =
     sort_key (\<lambda>s. case coverage_bps (sm_facts s) of None \<Rightarrow> 10001 | Some bps \<Rightarrow> bps) xs"
| "sortStores collate xs SS_installed = rev (sort_key (\<lambda>s. collate (sf_installedAt (sm_facts s))) (rev xs))"
| "sortStores collate xs SS_store = sort_key (\<lambda>s. collate (sm_storeId s)) xs"

record store_page =
  sp_stores :: "platform_store list"
  sp_total :: nat
  sp_nextCursor :: "int option"

definition paginate :: "platform_store list \<Rightarrow> int \<Rightarrow> nat \<Rightarrow> store_page" where
  "paginate xs cursor limit =
     (let start = max 0 cursor;
          page = take limit (drop (nat start) xs);
          following = start + int limit
      in \<lparr> sp_stores = page, sp_total = length xs,
           sp_nextCursor = (if following < int (length xs) then Some following else None) \<rparr>)"

section \<open>Alerts\<close>

datatype alert_kind =
  AK_silent_store | AK_stuck_backfill | AK_failed_jobs | AK_past_due | AK_platform_unreachable

fun alert_kind_name :: "alert_kind \<Rightarrow> string" where
  "alert_kind_name AK_silent_store = ''silent_store''"
| "alert_kind_name AK_stuck_backfill = ''stuck_backfill''"
| "alert_kind_name AK_failed_jobs = ''failed_jobs''"
| "alert_kind_name AK_past_due = ''past_due''"
| "alert_kind_name AK_platform_unreachable = ''platform_unreachable''"

record alert =
  al_key :: string
  al_kind :: alert_kind
  al_platform :: string
  al_storeId :: "string option"
  al_detail :: string
  al_acknowledgedUntil :: "string option"

definition alertKey :: "alert_kind \<Rightarrow> string \<Rightarrow> string option \<Rightarrow> string" where
  "alertKey kind platform storeId =
     (case storeId of
        None \<Rightarrow> alert_kind_name kind @ '':'' @ platform
      | Some s \<Rightarrow> alert_kind_name kind @ '':'' @ platform @ '':'' @ s)"

definition ACK_TTL_MS :: int where
  "ACK_TTL_MS = DAY_MS"

definition raise_alert :: "alert_kind \<Rightarrow> string \<Rightarrow> string option \<Rightarrow> string \<Rightarrow> alert" where
  "raise_alert kind platform storeId detail =
     \<lparr> al_key = alertKey kind platform storeId, al_kind = kind, al_platform = platform, al_storeId = storeId,
       al_detail = detail, al_acknowledgedUntil = None \<rparr>"

definition storeAlerts :: "string \<Rightarrow> store_facts \<Rightarrow> string \<Rightarrow> alert list" where
  "storeAlerts platform facts now =
     (let raise_it = \<lambda>kind detail. [raise_alert kind platform (Some (sf_storeId facts)) detail]
      in (if isSilent facts now
          then raise_it AK_silent_store (case sf_lastWebhookAt facts of
             None \<Rightarrow> ''no webhook has ever arrived from this store'' | Some i \<Rightarrow> ''no webhook since '' @ i)
          else [])
         @ (case stuckBackfill facts now of None \<Rightarrow> []
            | Some stuck \<Rightarrow> raise_it AK_stuck_backfill
                (''order backfill is '' @ [CHR 0x22] @ bs_status stuck @ [CHR 0x22] @ '' and has not completed''))
         @ (if sf_failedJobs facts > 0
            then raise_it AK_failed_jobs (show_int (sf_failedJobs facts) @ '' failed events in 24h'') else [])
         @ (if is_past_due facts then raise_it AK_past_due ''payment has not been collected'' else []))"

definition platformUnreachableAlert :: "string \<Rightarrow> string \<Rightarrow> alert" where
  "platformUnreachableAlert platform detail = raise_alert AK_platform_unreachable platform None detail"

definition apply_ack :: "(string \<times> string) list \<Rightarrow> int \<Rightarrow> alert \<Rightarrow> alert outcome" where
  "apply_ack acknowledgedAt nowMs alert =
     (case map_of acknowledgedAt (al_key alert) of
        None \<Rightarrow> Inr alert
      | Some acked \<Rightarrow>
          let expiresAtMs = moment acked + ACK_TTL_MS
          in if expiresAtMs \<le> nowMs then Inr alert
             else bindE (toISOString expiresAtMs) (\<lambda>until. Inr (alert\<lparr> al_acknowledgedUntil := Some until \<rparr>)))"

definition applyAcks :: "alert list \<Rightarrow> (string \<times> string) list \<Rightarrow> string \<Rightarrow> alert list outcome" where
  "applyAcks alerts acknowledgedAt now = mapE (apply_ack acknowledgedAt (moment now)) alerts"

definition sortAlerts :: "(string \<Rightarrow> nat list) \<Rightarrow> alert list \<Rightarrow> alert list" where
  "sortAlerts collate alerts =
     sort_key (\<lambda>a. (if al_acknowledgedUntil a = None then 0 else (1 :: nat), collate (al_key a))) alerts"

section \<open>Acknowledgements\<close>

record ack_row =
  ak_alertKey :: string
  ak_acknowledgedAt :: int
  ak_actorSession :: "string option"
  ak_note :: "string option"

record ack_record =
  ar_alertKey :: string
  ar_acknowledgedAt :: string
  ar_note :: "string option"

definition activeAcks :: "ack_row list \<Rightarrow> int \<Rightarrow> (string \<times> string) list outcome" where
  "activeAcks t now =
     mapE (\<lambda>r. bindE (toInstantFromDate (ak_acknowledgedAt r)) (\<lambda>i. Inr (ak_alertKey r, i)))
       (filter (\<lambda>r. ak_acknowledgedAt r \<ge> now - ACK_TTL_MS) t)"

definition acknowledge :: "string \<Rightarrow> string \<Rightarrow> string option \<Rightarrow> int \<Rightarrow> ack_row list \<Rightarrow> (ack_record \<times> ack_row list) outcome" where
  "acknowledge key session note now t =
     bindE (toInstantFromDate now) (\<lambda>i.
     Inr (\<lparr> ar_alertKey = key, ar_acknowledgedAt = i, ar_note = note \<rparr>,
          upsert ak_alertKey \<lparr> ak_alertKey = key, ak_acknowledgedAt = now, ak_actorSession = Some session, ak_note = note \<rparr>
            (\<lambda>r. r\<lparr> ak_acknowledgedAt := now, ak_actorSession := Some session, ak_note := note \<rparr>) t))"

definition recentAcks :: "nat \<Rightarrow> ack_row list \<Rightarrow> ack_record list outcome" where
  "recentAcks limit t =
     mapE (\<lambda>r. bindE (toInstantFromDate (ak_acknowledgedAt r)) (\<lambda>i.
             Inr \<lparr> ar_alertKey = ak_alertKey r, ar_acknowledgedAt = i, ar_note = ak_note r \<rparr>))
       (take limit (sort_key (\<lambda>r. - ak_acknowledgedAt r) t))"

definition forget :: "string \<Rightarrow> ack_row list \<Rightarrow> ack_row list" where
  "forget key t = delete_where (\<lambda>r. ak_alertKey r = key) t"

section \<open>The feed\<close>

record alert_feed =
  fd_alerts :: "alert list"
  fd_acksUnavailable :: "string option"
  fd_partial :: bool
  fd_capturedAt :: string

definition readAcks :: "(string \<times> string) list attempt \<Rightarrow> (string \<times> string) list \<times> string option" where
  "readAcks acks = (case acks of Inr m \<Rightarrow> (m, None) | Inl e \<Rightarrow> ([], Some (describeError e)))"

text \<open>
  A query on a handle: \<open>read_db\<close> is what the handle's database gives for it, its tables or what the
  read throws; \<open>shown\<close> is how an error of the model is thrown.
\<close>

definition on_tables ::
  "('d \<Rightarrow> 'p portal_tables attempt) \<Rightarrow> (js_error \<Rightarrow> thrown) \<Rightarrow> ('p portal_tables \<Rightarrow> 'a outcome) \<Rightarrow> 'd platform_handle \<Rightarrow> 'a attempt" where
  "on_tables read_db shown query handle =
     (case read_db (ph_db handle) of
        Inl e \<Rightarrow> Inl e
      | Inr t \<Rightarrow> (case query t of Inl e \<Rightarrow> Inl (shown e) | Inr v \<Rightarrow> Inr v))"

definition handle_alerts ::
  "('d \<Rightarrow> 'p portal_tables attempt) \<Rightarrow> (js_error \<Rightarrow> thrown) \<Rightarrow> int \<Rightarrow> string \<Rightarrow> 'd platform_handle \<Rightarrow> alert list attempt" where
  "handle_alerts read_db shown now at_time handle =
     (case on_tables read_db shown (\<lambda>t. storeSummaries t now) handle of
        Inl e \<Rightarrow> Inl e
      | Inr ss \<Rightarrow> Inr (concat (map (\<lambda>s. storeAlerts (ph_platform handle) (sm_facts s) at_time) ss)))"

definition alertFeed ::
  "('d \<Rightarrow> platform_probe attempt) \<Rightarrow> ('d \<Rightarrow> 'p portal_tables attempt) \<Rightarrow> (js_error \<Rightarrow> thrown) \<Rightarrow> string
   \<Rightarrow> (string \<Rightarrow> nat list) \<Rightarrow> 'd platform_registry \<Rightarrow> (string \<times> string) list attempt \<Rightarrow> int \<Rightarrow> (alert_feed \<times> 'd platform_registry) outcome" where
  "alertFeed probe read_db shown clock collate registry acks now =
     bindE (toInstantFromDate now) (\<lambda>at_time.
       let (fan, after) = queryPlatforms probe clock registry (handle_alerts read_db shown now at_time);
           (acknowledged, error) = readAcks acks;
           raised = concat (map pr_value (fo_ok fan))
             @ map (\<lambda>f. platformUnreachableAlert (pf_platform f) (pf_reason f)) (fo_failed fan)
       in bindE (applyAcks raised acknowledged at_time) (\<lambda>marked.
          bindE (toInstant (fo_capturedAt fan)) (\<lambda>capturedAt.
          Inr (\<lparr> fd_alerts = sortAlerts collate marked, fd_acksUnavailable = error,
                 fd_partial = (fo_partial fan \<or> error \<noteq> None), fd_capturedAt = capturedAt \<rparr>, after))))"

end
