(* ===== verification/OpsReports.thy ===== *)
theory OpsReports
  imports StoreHealth
begin

text \<open>
  The reports of the operator portal, one query per platform and a merge: \<open>overview.ts\<close>,
  \<open>revenue.ts\<close>, \<open>payment-queue.ts\<close>, \<open>ingestion-report.ts\<close>, \<open>store-list.ts\<close>, \<open>store-detail.ts\<close> and
  \<open>console-summary.ts\<close> of \<open>lib/queries\<close>.
\<close>

definition sum_over :: "('a \<Rightarrow> int) \<Rightarrow> 'a platform_result list \<Rightarrow> int" where
  "sum_over f rs = foldl (\<lambda>s r. s + f (pr_value r)) 0 rs"

section \<open>Revenue\<close>

record revenue_report =
  rv_listMrrMinor :: int
  rv_listArrMinor :: int
  rv_billedStores :: int
  rv_unknownPlanSubscriptions :: int
  rv_byPlatform :: "mrr_breakdown platform_result list"
  rv_missing :: "platform_failure list"
  rv_range :: range
  rv_partial :: bool
  rv_capturedAt :: string

definition unknown_stores :: "mrr_breakdown \<Rightarrow> int" where
  "unknown_stores b = foldl (\<lambda>n p. n + snd p) 0 (mb_unknownPlans b)"

definition revenue_of :: "range \<Rightarrow> mrr_breakdown fan_out \<Rightarrow> revenue_report outcome" where
  "revenue_of r fan =
     (let annualised = sum_over mb_listArrMinor (fo_ok fan)
      in bindE (toMinor (JInt (toMonthlyRate annualised))) (\<lambda>listMrr.
         bindE (toMinor (JInt annualised)) (\<lambda>listArr.
         bindE (toInstant (fo_capturedAt fan)) (\<lambda>capturedAt.
         Inr \<lparr> rv_listMrrMinor = listMrr, rv_listArrMinor = listArr, rv_billedStores = sum_over mb_billedStores (fo_ok fan),
               rv_unknownPlanSubscriptions = sum_over unknown_stores (fo_ok fan), rv_byPlatform = fo_ok fan,
               rv_missing = fo_failed fan, rv_range = r, rv_partial = fo_partial fan, rv_capturedAt = capturedAt \<rparr>))))"

definition revenue ::
  "('d \<Rightarrow> platform_probe attempt) \<Rightarrow> ('d \<Rightarrow> 'p portal_tables attempt) \<Rightarrow> (js_error \<Rightarrow> thrown) \<Rightarrow> string
   \<Rightarrow> 'd platform_registry \<Rightarrow> range \<Rightarrow> int \<Rightarrow> (revenue_report \<times> 'd platform_registry) outcome" where
  "revenue probe read_db shown clock registry r now =
     bindE (toInstantFromDate now) (\<lambda>at_time.
       let (fan, after) = queryPlatforms probe clock registry
             (on_tables read_db shown (\<lambda>t. mrr at_time (ta_subscriptions t)))
       in bindE (revenue_of r fan) (\<lambda>report. Inr (report, after)))"

section \<open>Overview\<close>

record platform_overview =
  po_stores :: int
  po_statuses :: status_counts
  po_mrr :: mrr_breakdown
  po_coverage :: coverage
  po_ingestion :: ingestion_health
  po_ordersIngested24h :: int

definition platformOverview :: "int \<Rightarrow> 'p portal_tables \<Rightarrow> platform_overview outcome" where
  "platformOverview now t =
     bindE (trailingHours 24 now) (\<lambda>day.
     bindE (toInstantFromDate now) (\<lambda>at_time.
     bindE (mrr at_time (ta_subscriptions t)) (\<lambda>breakdown.
     bindE (trailingDays COVERAGE_DAYS now) (\<lambda>window.
     bindE (platformCoverage window (ta_rollups t)) (\<lambda>covered.
     bindE (ingestionHealth day now (ta_events t)) (\<lambda>ingestion.
     bindE (ordersIngested day (ta_orders t)) (\<lambda>ingested.
     Inr \<lparr> po_stores = countStores t, po_statuses = statusCounts (ta_subscriptions t), po_mrr = breakdown,
           po_coverage = covered, po_ingestion = ingestion, po_ordersIngested24h = ingested \<rparr>)))))))"

record overview_totals =
  ot_stores :: int
  ot_active :: int
  ot_trialing :: int
  ot_pastDue :: int
  ot_listMrrMinor :: int
  ot_listArrMinor :: int
  ot_unknownPlanSubscriptions :: int
  ot_ordersIngested24h :: int
  ot_queueDepth :: int
  ot_stalledJobs :: int
  ot_webhookSuccessBps :: "int option"
  ot_coverageBps :: "int option"

record overview_report =
  ov_totals :: overview_totals
  ov_platforms :: "platform_overview platform_result list"
  ov_missing :: "platform_failure list"
  ov_partial :: bool
  ov_capturedAt :: string

text \<open>The loop adds to thirteen counters, each on its own.\<close>

definition overview_of :: "platform_overview fan_out \<Rightarrow> overview_report outcome" where
  "overview_of fan =
     (let total = (\<lambda>f. sum_over f (fo_ok fan));
          annualised = total (\<lambda>v. mb_listArrMinor (po_mrr v));
          revenueMinor = total (\<lambda>v. cv_revenueExVatMinor (po_coverage v));
          coveredMinor = total (\<lambda>v. cv_coveredRevenueExVatMinor (po_coverage v))
      in bindE (toMinor (JInt (toMonthlyRate annualised))) (\<lambda>listMrr.
         bindE (toMinor (JInt annualised)) (\<lambda>listArr.
         bindE (toInstant (fo_capturedAt fan)) (\<lambda>capturedAt.
         Inr \<lparr> ov_totals = \<lparr> ot_stores = total po_stores, ot_active = total (\<lambda>v. stc_active (po_statuses v)),
                 ot_trialing = total (\<lambda>v. stc_trialing (po_statuses v)), ot_pastDue = total (\<lambda>v. stc_pastDue (po_statuses v)),
                 ot_listMrrMinor = listMrr, ot_listArrMinor = listArr,
                 ot_unknownPlanSubscriptions = total (\<lambda>v. unknown_stores (po_mrr v)),
                 ot_ordersIngested24h = total po_ordersIngested24h,
                 ot_queueDepth = total (\<lambda>v. ih_pending (po_ingestion v)),
                 ot_stalledJobs = total (\<lambda>v. ih_stalled (po_ingestion v)),
                 ot_webhookSuccessBps = successRateBps (total (\<lambda>v. ih_processed (po_ingestion v)))
                   (total (\<lambda>v. ih_failed (po_ingestion v))),
                 ot_coverageBps = (if revenueMinor \<le> 0 then None else Some (basis_points coveredMinor revenueMinor)) \<rparr>,
               ov_platforms = fo_ok fan, ov_missing = fo_failed fan, ov_partial = fo_partial fan,
               ov_capturedAt = capturedAt \<rparr>))))"

definition overview ::
  "('d \<Rightarrow> platform_probe attempt) \<Rightarrow> ('d \<Rightarrow> 'p portal_tables attempt) \<Rightarrow> (js_error \<Rightarrow> thrown) \<Rightarrow> string
   \<Rightarrow> 'd platform_registry \<Rightarrow> int \<Rightarrow> (overview_report \<times> 'd platform_registry) outcome" where
  "overview probe read_db shown clock registry now =
     (let (fan, after) = queryPlatforms probe clock registry (on_tables read_db shown (platformOverview now))
      in bindE (overview_of fan) (\<lambda>report. Inr (report, after)))"

section \<open>The queue of unmapped payment methods\<close>

record payment_queue =
  pq_rows :: "(string \<times> unknown_payment_method) list"
  pq_missing :: "platform_failure list"
  pq_partial :: bool
  pq_capturedAt :: string

definition QUEUE_LIMIT :: nat where
  "QUEUE_LIMIT = 100"

definition payment_queue_of :: "unknown_payment_method list fan_out \<Rightarrow> payment_queue outcome" where
  "payment_queue_of fan =
     (let rows = sort_key (\<lambda>r. - um_orders (snd r))
            (concat (map (\<lambda>r. map (\<lambda>row. (pr_platform r, row)) (pr_value r)) (fo_ok fan)))
      in bindE (toInstant (fo_capturedAt fan)) (\<lambda>capturedAt.
         Inr \<lparr> pq_rows = rows, pq_missing = fo_failed fan, pq_partial = fo_partial fan, pq_capturedAt = capturedAt \<rparr>))"

definition unknownPaymentMethodQueue ::
  "('d \<Rightarrow> platform_probe attempt) \<Rightarrow> ('d \<Rightarrow> 'p portal_tables attempt) \<Rightarrow> (js_error \<Rightarrow> thrown) \<Rightarrow> string
   \<Rightarrow> 'd platform_registry \<Rightarrow> (payment_queue \<times> 'd platform_registry) outcome" where
  "unknownPaymentMethodQueue probe read_db shown clock registry =
     (let (fan, after) = queryPlatforms probe clock registry
            (on_tables read_db shown (\<lambda>t. Inr (unknownPaymentMethods QUEUE_LIMIT (ta_payments t) (ta_orders t))))
      in bindE (payment_queue_of fan) (\<lambda>report. Inr (report, after)))"

section \<open>The ingestion report\<close>

record platform_ingestion =
  pi_platform :: string
  pi_health :: ingestion_health
  pi_successBps :: "int option"
  pi_recentFailures :: "failed_event list"

record ingestion_report =
  ir_range :: range
  ir_platforms :: "platform_ingestion list"
  ir_missing :: "platform_failure list"
  ir_processed :: int
  ir_failed :: int
  ir_queueDepth :: int
  ir_stalled :: int
  ir_successBps :: "int option"
  ir_partial :: bool
  ir_capturedAt :: string

definition platform_ingestion_of :: "(ingestion_health \<times> failed_event list) platform_result \<Rightarrow> platform_ingestion" where
  "platform_ingestion_of r =
     \<lparr> pi_platform = pr_platform r, pi_health = fst (pr_value r),
       pi_successBps = successRateBps (ih_processed (fst (pr_value r))) (ih_failed (fst (pr_value r))),
       pi_recentFailures = snd (pr_value r) \<rparr>"

definition ingestion_report_of ::
  "range \<Rightarrow> (ingestion_health \<times> failed_event list) fan_out \<Rightarrow> ingestion_report outcome" where
  "ingestion_report_of r fan =
     (let processed = sum_over (\<lambda>v. ih_processed (fst v)) (fo_ok fan);
          failed = sum_over (\<lambda>v. ih_failed (fst v)) (fo_ok fan)
      in bindE (toInstant (fo_capturedAt fan)) (\<lambda>capturedAt.
         Inr \<lparr> ir_range = r, ir_platforms = map platform_ingestion_of (fo_ok fan), ir_missing = fo_failed fan,
               ir_processed = processed, ir_failed = failed,
               ir_queueDepth = sum_over (\<lambda>v. ih_pending (fst v)) (fo_ok fan),
               ir_stalled = sum_over (\<lambda>v. ih_stalled (fst v)) (fo_ok fan),
               ir_successBps = successRateBps processed failed, ir_partial = fo_partial fan, ir_capturedAt = capturedAt \<rparr>))"

definition ingestionReport ::
  "('d \<Rightarrow> platform_probe attempt) \<Rightarrow> ('d \<Rightarrow> 'p portal_tables attempt) \<Rightarrow> (js_error \<Rightarrow> thrown) \<Rightarrow> string
   \<Rightarrow> 'd platform_registry \<Rightarrow> range \<Rightarrow> int \<Rightarrow> (ingestion_report \<times> 'd platform_registry) outcome" where
  "ingestionReport probe read_db shown clock registry r now =
     bindE (rangeToInstantWindow r now) (\<lambda>window.
       let (fan, after) = queryPlatforms probe clock registry (on_tables read_db shown (\<lambda>t.
             bindE (ingestionHealth window now (ta_events t)) (\<lambda>health.
             bindE (recentFailures 10 None (ta_events t)) (\<lambda>failures. Inr (health, failures)))))
       in bindE (ingestion_report_of r fan) (\<lambda>report. Inr (report, after)))"

section \<open>The store list\<close>

record store_list_query =
  lq_filter :: store_filter
  lq_sort :: store_sort
  lq_cursor :: int
  lq_limit :: nat

record store_list_result =
  sl_page :: store_page
  sl_missing :: "platform_failure list"
  sl_partial :: bool
  sl_capturedAt :: string

definition with_platform :: "string \<Rightarrow> store_summary \<Rightarrow> platform_store" where
  "with_platform platform s = store_summary.extend s \<lparr> sm_platform = platform \<rparr>"

definition store_list_of ::
  "(string \<Rightarrow> nat list) \<Rightarrow> store_list_query \<Rightarrow> platform_store list fan_out \<Rightarrow> store_list_result outcome" where
  "store_list_of collate query fan =
     (let merged = concat (map pr_value (fo_ok fan));
          filtered = filter (\<lambda>s. matchesFilter s (lq_filter query)) merged;
          page = paginate (sortStores collate filtered (lq_sort query)) (lq_cursor query) (lq_limit query)
      in bindE (toInstant (fo_capturedAt fan)) (\<lambda>capturedAt.
         Inr \<lparr> sl_page = page, sl_missing = fo_failed fan, sl_partial = fo_partial fan, sl_capturedAt = capturedAt \<rparr>))"

definition storeList ::
  "('d \<Rightarrow> platform_probe attempt) \<Rightarrow> ('d \<Rightarrow> 'p portal_tables attempt) \<Rightarrow> (js_error \<Rightarrow> thrown) \<Rightarrow> (string \<Rightarrow> nat list)
   \<Rightarrow> string \<Rightarrow> 'd platform_registry \<Rightarrow> store_list_query \<Rightarrow> int \<Rightarrow> (store_list_result \<times> 'd platform_registry) outcome" where
  "storeList probe read_db shown collate clock registry query now =
     (let (fan, after) = queryPlatforms probe clock registry (\<lambda>handle.
            case on_tables read_db shown (\<lambda>t. storeSummaries t now) handle of
              Inl e \<Rightarrow> Inl e | Inr ss \<Rightarrow> Inr (map (with_platform (ph_platform handle)) ss))
      in bindE (store_list_of collate query fan) (\<lambda>report. Inr (report, after)))"

section \<open>One store\<close>

record store_detail =
  de_platform :: string
  de_store :: store_summary
  de_recentFailures :: "failed_event list"
  de_capturedAt :: string

datatype store_detail_result =
  SD_found store_detail | SD_unknown_platform | SD_unavailable string | SD_not_found

definition storeDetail ::
  "('d \<Rightarrow> platform_probe attempt) \<Rightarrow> ('d \<Rightarrow> 'p portal_tables attempt) \<Rightarrow> (js_error \<Rightarrow> thrown) \<Rightarrow> string
   \<Rightarrow> 'd platform_registry \<Rightarrow> string \<Rightarrow> string \<Rightarrow> int \<Rightarrow> (store_detail_result \<times> 'd platform_registry) outcome" where
  "storeDetail probe read_db shown clock registry platform storeId now =
     (case map_of (rg_handles registry) platform of
        None \<Rightarrow> Inr (SD_unknown_platform, registry)
      | Some handle \<Rightarrow>
          let (check, after) = verify probe clock registry (ph_platform handle)
          in if \<not> ck_reachable check \<or> ck_problems check \<noteq> [] then Inr (SD_unavailable (describeCheck check), after)
             else case on_tables read_db shown (\<lambda>t. bindE (storeSummaries t now) (\<lambda>ss.
                      bindE (recentFailures 20 (Some storeId) (ta_events t)) (\<lambda>fs. Inr (ss, fs)))) handle of
                    Inl e \<Rightarrow> Inr (SD_unavailable (describeError e), after)
                  | Inr (summaries, failures) \<Rightarrow>
                      (case find (\<lambda>s. sm_storeId s = storeId) summaries of
                         None \<Rightarrow> Inr (SD_not_found, after)
                       | Some st \<Rightarrow>
                           bindE (toInstantFromDate now) (\<lambda>capturedAt.
                           Inr (SD_found \<lparr> de_platform = ph_platform handle, de_store = st,
                             de_recentFailures = failures, de_capturedAt = capturedAt \<rparr>, after))))"

section \<open>The sidebar\<close>

record console_summary =
  cs_stores :: int
  cs_alerts :: nat
  cs_queue :: nat
  cs_partial :: bool
  cs_capturedAt :: string

definition oldestCapture :: "string \<Rightarrow> string list \<Rightarrow> string" where
  "oldestCapture first others = foldl (\<lambda>oldest following. if following < oldest then following else oldest) first others"

definition consoleSummary :: "overview_report \<Rightarrow> alert_feed \<Rightarrow> payment_queue \<Rightarrow> console_summary" where
  "consoleSummary ov feed queue =
     \<lparr> cs_stores = ot_stores (ov_totals ov),
       cs_alerts = length (filter (\<lambda>a. al_acknowledgedUntil a = None) (fd_alerts feed)),
       cs_queue = length (pq_rows queue), cs_partial = (ov_partial ov \<or> fd_partial feed \<or> pq_partial queue),
       cs_capturedAt = oldestCapture (ov_capturedAt ov) [fd_capturedAt feed, pq_capturedAt queue] \<rparr>"

end
