(* ===== verification/Presentation.thy ===== *)
theory Presentation
  imports OpsReports "HOL-Library.Sublist"
begin

text \<open>
  How a row reads in the operator portal: \<open>lib/ui/presentation.ts\<close>, the elapsed times and shares of
  \<open>lib/ui/format.ts\<close>, \<open>lib/ui/jump.ts\<close> and \<open>lib/ui/login.ts\<close>. A middle dot is one character; the
  dash for "no value", which is not in the model's alphabet, is the value \<open>None\<close>. \<open>toLowerCase\<close> is
  written out on the ASCII letters, which labels and identifiers consist of.
\<close>

section \<open>Severity\<close>

datatype severity_level = SV_ok | SV_warn | SV_bad

definition CRITICAL :: "health_flag list" where
  "CRITICAL = [HF_silent, HF_past_due, HF_jobs_failing]"

definition severityOfFlags :: "health_flag list \<Rightarrow> severity_level" where
  "severityOfFlags flags =
     (if flags = [] then SV_ok else if (\<exists>f \<in> set flags. f \<in> set CRITICAL) then SV_bad else SV_warn)"

fun FLAG_LABELS :: "health_flag \<Rightarrow> string" where
  "FLAG_LABELS HF_silent = ''Silent''"
| "FLAG_LABELS HF_past_due = ''Past due''"
| "FLAG_LABELS HF_jobs_failing = ''Jobs failing''"
| "FLAG_LABELS HF_backfill_stuck = ''Backfill stuck''"
| "FLAG_LABELS HF_coverage_low = ''Low coverage''"

definition lower :: "string \<Rightarrow> string" where
  "lower s = map to_lower s"

definition MIDDLE_DOT :: string where
  "MIDDLE_DOT = '' '' @ [CHR 0xB7] @ '' ''"

text \<open>The first part as it is, the others in lower case.\<close>

fun join_label :: "string list \<Rightarrow> string" where
  "join_label [] = ''Healthy''"
| "join_label [head] = head"
| "join_label (head # rest) = head @ MIDDLE_DOT @ join MIDDLE_DOT (map lower rest)"

definition healthLabel :: "health_flag list \<Rightarrow> string" where
  "healthLabel flags = join_label (map FLAG_LABELS flags)"

section \<open>The order cap\<close>

record cap_usage =
  cu_used :: int
  cu_cap :: "rat option"
  cu_percent :: "int option"
  cu_overCap :: bool

definition no_cap :: "int \<Rightarrow> cap_usage" where
  "no_cap used = \<lparr> cu_used = used, cu_cap = None, cu_percent = None, cu_overCap = False \<rparr>"

text \<open>\<open>Math.round((used / cap) * 100)\<close>; every cap of the table is a whole number.\<close>

definition percent_rounded :: "int \<Rightarrow> int \<Rightarrow> int" where
  "percent_rounded used cap = round_fl (fl_times (fl_ratio used cap) 100)"

definition capUsage :: "'a store_summary_scheme \<Rightarrow> cap_usage" where
  "capUsage st =
     (let used = sf_ordersInPeriod (sm_facts st)
      in case (case sub_field ps_effectivePlanCode st of None \<Rightarrow> None | Some code \<Rightarrow> planOf code) of
           None \<Rightarrow> no_cap used
         | Some plan \<Rightarrow>
             (case monthlyCapOf plan of
                None \<Rightarrow> no_cap used
              | Some cap \<Rightarrow>
                  if cap \<le> 0 then no_cap used
                  else \<lparr> cu_used = used, cu_cap = Some cap, cu_percent = Some (percent_rounded used \<lfloor>cap\<rfloor>),
                         cu_overCap = (of_int used > cap) \<rparr>))"

record store_presentation =
  sn_severity :: severity_level
  sn_label :: string
  sn_cap :: cap_usage

definition store_parts :: "'a store_summary_scheme \<Rightarrow> cap_usage \<Rightarrow> string list" where
  "store_parts st cap =
     (if cu_overCap cap then [''Over cap''] else [])
     @ map (\<lambda>f. if f = HF_coverage_low \<and> coverage_bps (sm_facts st) = Some 0 then ''No coverage'' else FLAG_LABELS f)
         (sh_flags (sm_health st))"

definition storePresentation :: "'a store_summary_scheme \<Rightarrow> store_presentation" where
  "storePresentation st =
     (let cap = capUsage st; fromFlags = severityOfFlags (sh_flags (sm_health st))
      in if sf_uninstalledAt (sm_facts st) \<noteq> None
         then \<lparr> sn_severity = SV_ok, sn_label = ''Churned'', sn_cap = cap \<rparr>
         else \<lparr> sn_severity = (if fromFlags = SV_bad then SV_bad
                  else if cu_overCap cap \<and> fromFlags = SV_warn then SV_bad
                  else if cu_overCap cap then SV_warn else fromFlags),
                sn_label = join_label (store_parts st cap), sn_cap = cap \<rparr>)"

section \<open>Saved views\<close>

datatype store_view = VW_trialing | VW_over_cap | VW_past_due | VW_low_coverage | VW_silent

definition STORE_VIEWS :: "(string \<times> store_view) list" where
  "STORE_VIEWS = [(''trialing'', VW_trialing), (''over_cap'', VW_over_cap), (''past_due'', VW_past_due),
     (''low_coverage'', VW_low_coverage), (''silent'', VW_silent)]"

definition isStoreView :: "string \<Rightarrow> bool" where
  "isStoreView v \<longleftrightarrow> v \<in> set (map fst STORE_VIEWS)"

fun STORE_VIEW_LABELS :: "store_view \<Rightarrow> string" where
  "STORE_VIEW_LABELS VW_trialing = ''Trialing''"
| "STORE_VIEW_LABELS VW_over_cap = ''Over cap''"
| "STORE_VIEW_LABELS VW_past_due = ''Past due''"
| "STORE_VIEW_LABELS VW_low_coverage = ''Low coverage''"
| "STORE_VIEW_LABELS VW_silent = ''Silent''"

fun applyStoreView :: "'a store_summary_scheme list \<Rightarrow> store_view option \<Rightarrow> 'a store_summary_scheme list" where
  "applyStoreView stores None = stores"
| "applyStoreView stores (Some VW_trialing) = filter (\<lambda>s. sub_field ps_status s = Some ''trialing'') stores"
| "applyStoreView stores (Some VW_past_due) = filter (\<lambda>s. sub_field ps_status s = Some ''past_due'') stores"
| "applyStoreView stores (Some VW_over_cap) = filter (\<lambda>s. cu_overCap (capUsage s)) stores"
| "applyStoreView stores (Some VW_low_coverage) = filter (\<lambda>s. HF_coverage_low \<in> set (sh_flags (sm_health s))) stores"
| "applyStoreView stores (Some VW_silent) = filter (\<lambda>s. HF_silent \<in> set (sh_flags (sm_health s))) stores"

record saved_view_counts =
  vc_trialing :: int
  vc_overCap :: int
  vc_pastDue :: int
  vc_lowCoverage :: int
  vc_silent :: int

definition count_store :: "saved_view_counts \<Rightarrow> 'a store_summary_scheme \<Rightarrow> saved_view_counts" where
  "count_store c s =
     \<lparr> vc_trialing = vc_trialing c + (if sub_field ps_status s = Some ''trialing'' then 1 else 0),
       vc_overCap = vc_overCap c + (if cu_overCap (capUsage s) then 1 else 0),
       vc_pastDue = vc_pastDue c + (if sub_field ps_status s = Some ''past_due'' then 1 else 0),
       vc_lowCoverage = vc_lowCoverage c + (if HF_coverage_low \<in> set (sh_flags (sm_health s)) then 1 else 0),
       vc_silent = vc_silent c + (if HF_silent \<in> set (sh_flags (sm_health s)) then 1 else 0) \<rparr>"

definition savedViewCounts :: "'a store_summary_scheme list \<Rightarrow> saved_view_counts" where
  "savedViewCounts stores =
     foldl count_store \<lparr> vc_trialing = 0, vc_overCap = 0, vc_pastDue = 0, vc_lowCoverage = 0, vc_silent = 0 \<rparr> stores"

section \<open>Funnels\<close>

record funnel_step =
  fs_step :: string
  fs_count :: "int option"
  fs_share :: "int option"
  fs_drop :: "int option"

definition funnel_counts :: "'a store_summary_scheme list \<Rightarrow> (string \<times> int option) list" where
  "funnel_counts stores =
     (let many = (\<lambda>P. int (length (filter P stores)))
      in [(''Installed'', Some (int (length stores))),
          (''Backfill complete'', Some (many (\<lambda>s. av_backfillComplete (sm_activation s)))),
          (''Cost data entered'', Some (many (\<lambda>s. av_coverageAboveThreshold (sm_activation s)))),
          (''Activated'', if list_all (\<lambda>s. av_activated (sm_activation s) = None) stores then None
             else Some (many (\<lambda>s. av_activated (sm_activation s) = Some True))),
          (''Paid'', Some (many (\<lambda>s. case sub_field ps_status s of None \<Rightarrow> False | Some st \<Rightarrow> status_pays st)))])"

text \<open>A step's drop is against the last step whose count is known; the first step has none.\<close>

fun funnel_walk :: "int \<Rightarrow> bool \<Rightarrow> int option \<Rightarrow> (string \<times> int option) list \<Rightarrow> funnel_step list" where
  "funnel_walk installed first previous [] = []"
| "funnel_walk installed first previous ((step, many) # rest) =
     \<lparr> fs_step = step, fs_count = many,
       fs_share = (case many of None \<Rightarrow> None
         | Some c \<Rightarrow> if installed = 0 then None else Some (percent_rounded c installed)),
       fs_drop = (if first then None else case (many, previous) of
           (Some c, Some p) \<Rightarrow> if installed = 0 then None else Some (percent_rounded (c - p) installed)
         | _ \<Rightarrow> None) \<rparr>
     # funnel_walk installed False (case many of None \<Rightarrow> previous | Some c \<Rightarrow> Some c) rest"

definition activationFunnel :: "'a store_summary_scheme list \<Rightarrow> funnel_step list" where
  "activationFunnel stores =
     funnel_walk (int (length stores)) True (Some (int (length stores))) (funnel_counts stores)"

definition descending :: "('a \<Rightarrow> nat list) \<Rightarrow> 'a list \<Rightarrow> 'a list" where
  "descending key xs = rev (sort_key key (rev xs))"

definition recentInstalls ::
  "(string \<Rightarrow> nat list) \<Rightarrow> 'a store_summary_scheme list \<Rightarrow> nat \<Rightarrow> 'a store_summary_scheme list" where
  "recentInstalls collate stores limit =
     take limit (descending (\<lambda>s. collate (sf_installedAt (sm_facts s)))
       (filter (\<lambda>s. sf_uninstalledAt (sm_facts s) = None) stores))"

definition recentChurns ::
  "(string \<Rightarrow> nat list) \<Rightarrow> 'a store_summary_scheme list \<Rightarrow> nat \<Rightarrow> 'a store_summary_scheme list" where
  "recentChurns collate stores limit =
     take limit (descending (\<lambda>s. case sf_uninstalledAt (sm_facts s) of None \<Rightarrow> [] | Some i \<Rightarrow> collate i)
       (filter (\<lambda>s. sf_uninstalledAt (sm_facts s) \<noteq> None) stores))"

record funnel_band =
  fb_label :: string
  fb_count :: int
  fb_share :: "int option"

definition webhookFunnel :: "ingestion_health \<Rightarrow> funnel_band list" where
  "webhookFunnel health =
     (let resolved = ih_processed health + ih_failed health + ih_skipped health;
          share = (\<lambda>n. if resolved = 0 then None else Some (round_fl (fl_ratio (n * 100) resolved)))
      in [\<lparr> fb_label = ''Resolved'', fb_count = resolved, fb_share = (if resolved = 0 then None else Some 100) \<rparr>,
          \<lparr> fb_label = ''Processed'', fb_count = ih_processed health, fb_share = share (ih_processed health) \<rparr>,
          \<lparr> fb_label = ''Skipped'', fb_count = ih_skipped health, fb_share = share (ih_skipped health) \<rparr>,
          \<lparr> fb_label = ''Failed'', fb_count = ih_failed health, fb_share = share (ih_failed health) \<rparr>])"

section \<open>Alerts and platforms\<close>

record alert_presentation =
  ap_severity :: severity_level
  ap_badge :: string
  ap_title :: string
  ap_glyph :: string

fun ALERT_PRESENTATION :: "alert_kind \<Rightarrow> alert_presentation" where
  "ALERT_PRESENTATION AK_silent_store =
     \<lparr> ap_severity = SV_bad, ap_badge = ''CRITICAL'', ap_title = ''No webhooks received'', ap_glyph = ''!'' \<rparr>"
| "ALERT_PRESENTATION AK_platform_unreachable =
     \<lparr> ap_severity = SV_bad, ap_badge = ''CRITICAL'', ap_title = ''Platform database unreachable'', ap_glyph = ''!'' \<rparr>"
| "ALERT_PRESENTATION AK_stuck_backfill =
     \<lparr> ap_severity = SV_warn, ap_badge = ''HIGH'', ap_title = ''Backfill stuck'', ap_glyph = ''~'' \<rparr>"
| "ALERT_PRESENTATION AK_failed_jobs =
     \<lparr> ap_severity = SV_warn, ap_badge = ''HIGH'', ap_title = ''Events failing'', ap_glyph = ''~'' \<rparr>"
| "ALERT_PRESENTATION AK_past_due =
     \<lparr> ap_severity = SV_warn, ap_badge = ''BILLING'', ap_title = ''Payment past due'', ap_glyph = ''$'' \<rparr>"

definition alertPresentation :: "alert \<Rightarrow> alert_presentation" where
  "alertPresentation a =
     (let base = ALERT_PRESENTATION (al_kind a)
      in if al_acknowledgedUntil a = None then base else base\<lparr> ap_severity := SV_ok \<rparr>)"

definition DEGRADED_SUCCESS_BPS :: int where
  "DEGRADED_SUCCESS_BPS = 9500"

text \<open>The tone, \<open>None\<close> for neutral, and the word.\<close>

definition platformState :: "ingestion_health \<Rightarrow> int option \<Rightarrow> severity_level option \<times> string" where
  "platformState health successBps =
     (if ih_stalled health > 0 then (Some SV_bad, ''Attention'')
      else case successBps of
             None \<Rightarrow> (None, ''Quiet'')
           | Some bps \<Rightarrow> if bps < DEGRADED_SUCCESS_BPS then (Some SV_warn, ''Degraded'') else (Some SV_ok, ''Live''))"

section \<open>Finding a store\<close>

definition filterByIdentifier :: "platform_store list \<Rightarrow> string \<Rightarrow> platform_store list" where
  "filterByIdentifier stores query =
     (let needle = lower (js_trim query)
      in if needle = [] then stores
         else filter (\<lambda>s. sublist needle (lower (sm_platformStoreId s)) \<or> sublist needle (lower (sm_platform s))
           \<or> sublist needle (lower (sm_storeId s))) stores)"

definition JUMP_LIMIT :: nat where
  "JUMP_LIMIT = 8"

definition tier :: "platform_store \<Rightarrow> string \<Rightarrow> nat" where
  "tier s needle =
     (let ids = [lower (sm_platformStoreId s), lower (sm_storeId s)]
      in if list_ex (\<lambda>i. i = needle) ids then 0 else if list_ex (\<lambda>i. prefix needle i) ids then 1 else 2)"

definition rankJump :: "platform_store list \<Rightarrow> string \<Rightarrow> nat \<Rightarrow> platform_store list" where
  "rankJump stores query limit =
     (let needle = lower (js_trim query); matches = filterByIdentifier stores needle
      in if needle = [] then take limit matches else take limit (sort_key (\<lambda>s. tier s needle) matches))"

definition moveHighlight :: "int \<Rightarrow> int \<Rightarrow> int \<Rightarrow> int" where
  "moveHighlight current delta len = (if len = 0 then -1 else min (len - 1) (max 0 (current + delta)))"

section \<open>Revenue by plan\<close>

definition merge_plan :: "(string \<times> int \<times> int) list \<Rightarrow> plan_revenue \<Rightarrow> (string \<times> int \<times> int) list" where
  "merge_plan byPlan p =
     (let (stores, amount) = (case map_of byPlan (pv_planCode p) of None \<Rightarrow> (0, 0) | Some e \<Rightarrow> e)
      in AList.update (pv_planCode p) (stores + pv_stores p, amount + pv_listMrrMinor p) byPlan)"

definition mergePlanRevenue :: "revenue_report \<Rightarrow> plan_revenue list" where
  "mergePlanRevenue report =
     sort_key (\<lambda>p. - pv_listMrrMinor p)
       (map (\<lambda>e. \<lparr> pv_planCode = fst e, pv_stores = fst (snd e), pv_listMrrMinor = snd (snd e) \<rparr>)
         (foldl (\<lambda>m r. foldl merge_plan m (mb_byPlan (pr_value r))) [] (rv_byPlatform report)))"

section \<open>Times and shares\<close>

definition with_unit :: "int \<Rightarrow> int \<Rightarrow> string \<Rightarrow> string option" where
  "with_unit elapsed len unit_name = Some (show_int (elapsed div len) @ unit_name)"

text \<open>\<open>elapsed\<close> is \<open>None\<close> where the timestamp is no date.\<close>

definition relative_time :: "int option \<Rightarrow> string option" where
  "relative_time elapsed =
     (case elapsed of
        None \<Rightarrow> None
      | Some ms \<Rightarrow>
          if ms \<le> 0 then Some ''now''
          else if ms < 60000 then with_unit ms 1000 ''s''
          else if ms < 3600000 then with_unit ms 60000 ''m''
          else if ms < 2 * DAY_MS then with_unit ms 3600000 ''h''
          else with_unit ms DAY_MS ''d'')"

definition relativeTime :: "string \<Rightarrow> int \<Rightarrow> string option" where
  "relativeTime at_time now = relative_time (case toDateFromInstant at_time of None \<Rightarrow> None | Some ms \<Rightarrow> Some (now - ms))"

definition relativeTimeOrNever :: "string option \<Rightarrow> int \<Rightarrow> string option" where
  "relativeTimeOrNever at_time now = (case at_time of None \<Rightarrow> Some ''never'' | Some i \<Rightarrow> relativeTime i now)"

definition percentOf :: "int \<Rightarrow> int option \<Rightarrow> int option" where
  "percentOf used allowed =
     (case allowed of None \<Rightarrow> None | Some a \<Rightarrow> if a \<le> 0 then None else Some (percent_rounded used a))"

definition clampBarWidth :: "int \<Rightarrow> string" where
  "clampBarWidth percent = show_int (max 0 (min percent 100)) @ ''%''"

definition loginNotice :: "string option \<Rightarrow> (severity_level \<times> string) option" where
  "loginNotice code =
     (case code of None \<Rightarrow> None
      | Some c \<Rightarrow> map_of [(''invalid'', SV_bad, ''That key was not accepted.''),
          (''throttled'', SV_warn, ''Too many failed attempts. Wait a minute and try again.'')] c)"

end
