(* ===== verification/QueryFacts.thy ===== *)
theory QueryFacts
  imports OpsReports
begin

text \<open>
  Facts about the portal's queries: counts by key, list MRR as a sum over the billed rows, the order
  count against the merchant's own, and windows.
\<close>

section \<open>Counting by key\<close>

lemma add_count_get: "count_of (add_count m k) j = count_of m j + (if j = k then 1 else 0)"
  by (simp add: add_count_def count_of_def update_conv split: option.split)

lemma add_counts: "count_of (foldl (\<lambda>c r. add_count c (f r)) m t) j = count_of m j + count_rows (\<lambda>r. f r = j) t"
  by (induction t arbitrary: m) (simp_all add: add_count_get count_rows_def)

lemma statusCounts_by_row:
  "statusCounts t = \<lparr> stc_active = count_rows (\<lambda>r. ss_status r = ''active'') t,
     stc_trialing = count_rows (\<lambda>r. ss_status r = ''trialing'') t,
     stc_pastDue = count_rows (\<lambda>r. ss_status r = ''past_due'') t,
     stc_canceled = count_rows (\<lambda>r. ss_status r = ''canceled'') t,
     stc_expired = count_rows (\<lambda>r. ss_status r = ''expired'') t, stc_subscriptions = int (length t) \<rparr>"
  by (simp add: statusCounts_def add_counts Let_def count_of_def [of "[]"])

text \<open>Updating one entry of an association list with distinct keys.\<close>

lemma sum_update:
  assumes "distinct (map fst xs)"
  shows "sum_list (map (\<lambda>e. g (snd e)) (AList.update k v xs)) =
    sum_list (map (\<lambda>e. g (snd e)) xs) - (case map_of xs k of None \<Rightarrow> 0 | Some w \<Rightarrow> g w) + (g v :: int)"
  using assms
proof (induction xs)
  case (Cons x xs)
  then show ?case by (cases x) (auto simp: map_of_eq_None_iff [THEN iffD2] split: option.split)
qed simp

lemma sum_add_count:
  "distinct (map fst m) \<Longrightarrow> sum_list (map snd (add_count m k)) = sum_list (map snd m) + 1"
  using sum_update [of m "\<lambda>n. n" k] by (simp add: add_count_def split: option.split)

lemma distinct_add_count: "distinct (map fst m) \<Longrightarrow> distinct (map fst (add_count m k))"
  by (simp add: add_count_def distinct_update)

lemma count_rows_append: "count_rows P (a @ b) = count_rows P a + count_rows P b"
  by (simp add: count_rows_def)

lemma count_rows_concat: "count_rows P (concat ts) = sum_list (map (count_rows P) ts)"
  by (induction ts) (simp_all add: count_rows_append count_rows_def [of _ "[]"])

section \<open>Prices\<close>

definition annual_of :: "plan \<Rightarrow> int" where
  "annual_of p = (if plan_interval p = BI_year then plan_priceMinor p else plan_priceMinor p * 12)"

lemma annualisedPrice_known:
  assumes "planOf code = Some p"
  shows "annualisedPrice p = Inr (annual_of p)" and "0 \<le> annual_of p"
proof -
  have "\<forall>e \<in> set PLANS. annualisedPrice (snd e) = Inr (annual_of (snd e)) \<and> 0 \<le> annual_of (snd e)"
    by (simp add: PLANS_def annualisedPrice_def annual_of_def toMinor_def isMinor_def safe_int_iff MAX_MINOR_def)
  then show "annualisedPrice p = Inr (annual_of p)" "0 \<le> annual_of p"
    using planOf_mem [OF assms] by fastforce+
qed

section \<open>List MRR\<close>

definition billed_rows :: "subscription_row list \<Rightarrow> subscription_row list" where
  "billed_rows t = filter (\<lambda>r. ss_status r \<in> set BILLED_STATUSES) t"

definition row_plan :: "string \<Rightarrow> subscription_row \<Rightarrow> plan option" where
  "row_plan at_time r =
     (case toInstantFromDateOrNull (ss_pendingPlanEffectiveAt r) of
        Inl _ \<Rightarrow> None
      | Inr p \<Rightarrow> planOf (plan_in_force (ss_planCode r) (ss_pendingPlanCode r) p at_time))"

definition row_annual :: "string \<Rightarrow> subscription_row \<Rightarrow> int" where
  "row_annual at_time r = (case row_plan at_time r of None \<Rightarrow> 0 | Some p \<Rightarrow> annual_of p)"

definition mrr_tally_ok :: "mrr_tally \<Rightarrow> bool" where
  "mrr_tally_ok acc \<longleftrightarrow> distinct (map fst (fst acc)) \<and> distinct (map fst (snd acc))"

definition tally_annual :: "mrr_tally \<Rightarrow> int" where
  "tally_annual acc = sum_list (map (\<lambda>e. pt_annualised (snd e)) (fst acc))"

definition tally_stores :: "mrr_tally \<Rightarrow> int" where
  "tally_stores acc = sum_list (map (\<lambda>e. pt_stores (snd e)) (fst acc))"

definition tally_unknown :: "mrr_tally \<Rightarrow> int" where
  "tally_unknown acc = sum_list (map snd (snd acc))"

lemma mrr_step_sums:
  assumes "mrr_step at_time acc r = Inr acc'" and "mrr_tally_ok acc"
  shows "mrr_tally_ok acc'" and "tally_annual acc' = tally_annual acc + row_annual at_time r"
    and "tally_unknown acc' = tally_unknown acc + (if row_plan at_time r = None then 1 else 0)"
    and "tally_stores acc' = tally_stores acc + (if row_plan at_time r = None then 0 else 1)"
proof -
  have d: "distinct (map fst (fst acc))" "distinct (map fst (snd acc))"
    using assms(2) by (simp_all add: mrr_tally_ok_def)
  obtain p where p: "toInstantFromDateOrNull (ss_pendingPlanEffectiveAt r) = Inr p"
    using assms(1) by (auto simp: mrr_step_def bindE_eq_Inr)
  show "mrr_tally_ok acc'" and "tally_annual acc' = tally_annual acc + row_annual at_time r"
    and "tally_unknown acc' = tally_unknown acc + (if row_plan at_time r = None then 1 else 0)"
    and "tally_stores acc' = tally_stores acc + (if row_plan at_time r = None then 0 else 1)"
    using assms(1) d sum_update [OF d(1), of pt_annualised] sum_update [OF d(1), of pt_stores] sum_add_count [OF d(2)]
    by (auto simp: mrr_step_def p Let_def row_annual_def row_plan_def annualisedPrice_known mrr_tally_ok_def
        tally_annual_def tally_unknown_def tally_stores_def distinct_update distinct_add_count
        split: option.splits)
qed

lemma mrr_fold_sums:
  assumes "foldE (mrr_step at_time) acc rows = Inr acc'" and "mrr_tally_ok acc"
  shows "tally_annual acc' = tally_annual acc + sum_list (map (row_annual at_time) rows)
    \<and> tally_unknown acc' = tally_unknown acc + count_rows (\<lambda>r. row_plan at_time r = None) rows
    \<and> tally_stores acc' = tally_stores acc + count_rows (\<lambda>r. row_plan at_time r \<noteq> None) rows"
  using assms
proof (induction rows arbitrary: acc)
  case (Cons r rows)
  obtain mid where m: "mrr_step at_time acc r = Inr mid" "foldE (mrr_step at_time) mid rows = Inr acc'"
    using Cons.prems(1) by (auto simp: bindE_eq_Inr)
  note s = mrr_step_sums [OF m(1) Cons.prems(2)]
  show ?case using Cons.IH [OF m(2) s(1)] s(2-4) by (auto simp: count_rows_def)
qed (simp add: count_rows_def)

lemma plan_revenue_stores:
  assumes "mapE plan_revenue_of es = Inr ps"
  shows "map pv_stores ps = map (\<lambda>e. pt_stores (snd e)) es"
  using assms by (induction es arbitrary: ps) (auto simp: bindE_eq_Inr plan_revenue_of_def)

lemma sum_sorted: "sum_list (map f (sort_key k xs)) = (sum_list (map f xs) :: int)"
  by (metis mset_map mset_sort sum_mset_sum_list)

lemma unknown_stores_sum: "unknown_stores b = sum_list (map snd (mb_unknownPlans b))"
proof -
  have "foldl (\<lambda>n p. n + snd p) a xs = a + sum_list (map snd xs)" for a and xs :: "(string \<times> int) list"
    by (induction xs arbitrary: a) simp_all
  then show ?thesis by (simp add: unknown_stores_def)
qed

lemma mrr_totals:
  assumes "mrr at_time t = Inr b"
  shows "mb_listArrMinor b = sum_list (map (row_annual at_time) (billed_rows t))"
    and "mb_listMrrMinor b = toMonthlyRate (mb_listArrMinor b)"
    and "mb_billedStores b = int (length (billed_rows t))"
    and "unknown_stores b = count_rows (\<lambda>r. row_plan at_time r = None) (billed_rows t)"
    and "sum_list (map pv_stores (mb_byPlan b)) = count_rows (\<lambda>r. row_plan at_time r \<noteq> None) (billed_rows t)"
proof -
  obtain known unknown ps where f: "foldE (mrr_step at_time) ([], []) (billed_rows t) = Inr (known, unknown)"
      "mapE plan_revenue_of known = Inr ps"
    and b: "toMinor (JInt (toMonthlyRate (sum_list (map (\<lambda>e. pt_annualised (snd e)) known)))) = Inr (mb_listMrrMinor b)"
      "toMinor (JInt (sum_list (map (\<lambda>e. pt_annualised (snd e)) known))) = Inr (mb_listArrMinor b)"
      "mb_billedStores b = int (length (billed_rows t))" "mb_unknownPlans b = unknown"
      "mb_byPlan b = sort_key (\<lambda>p. - pv_listMrrMinor p) ps"
    using assms by (auto simp: mrr_def billed_rows_def [symmetric] bindE_eq_Inr Let_def)
  have m: "toMinor (JInt n) = Inr v \<Longrightarrow> v = n" for n v by (auto simp: toMinor_def split: if_splits)
  note s = mrr_fold_sums [OF f(1)]
  show "mb_listArrMinor b = sum_list (map (row_annual at_time) (billed_rows t))"
    and "mb_listMrrMinor b = toMonthlyRate (mb_listArrMinor b)"
    and "mb_billedStores b = int (length (billed_rows t))"
    and "unknown_stores b = count_rows (\<lambda>r. row_plan at_time r = None) (billed_rows t)"
    and "sum_list (map pv_stores (mb_byPlan b)) = count_rows (\<lambda>r. row_plan at_time r \<noteq> None) (billed_rows t)"
    using s b(3-5) m [OF b(1)] m [OF b(2)] plan_revenue_stores [OF f(2)]
    by (simp_all add: mrr_tally_ok_def tally_annual_def tally_unknown_def tally_stores_def unknown_stores_sum sum_sorted)
qed

lemma mrr_in_range:
  assumes "mrr at_time t = Inr b"
  shows "toMinor (JInt (mb_listArrMinor b)) = Inr (mb_listArrMinor b)"
    and "toMinor (JInt (mb_listMrrMinor b)) = Inr (mb_listMrrMinor b)"
proof -
  have m: "toMinor (JInt n) = Inr v \<Longrightarrow> toMinor (JInt v) = Inr v" for n v by (auto simp: toMinor_def split: if_splits)
  show "toMinor (JInt (mb_listArrMinor b)) = Inr (mb_listArrMinor b)"
    and "toMinor (JInt (mb_listMrrMinor b)) = Inr (mb_listMrrMinor b)"
    using assms m by (auto simp: mrr_def bindE_eq_Inr Let_def)
qed

section \<open>Coverage\<close>

lemma numeric_text_read:
  assumes "numericToMinor (minorToNumeric v) = Inr w"
  shows "w = v"
proof (cases "in_range v")
  case True
  then show ?thesis using assms minorToNumeric_read by simp
next
  case False
  obtain a f where m: "minorToNumeric v = (if v < 0 then ''-'' else []) @ a @ ''.'' @ f"
    and p: "a \<noteq> []" "list_all is_digit a" "list_all is_digit f" and len: "length f = 2"
    and worth: "digits_val a * 100 + digits_val f = \<bar>v\<bar>" by (rule minorToNumeric_parts)
  let ?s = "if v < 0 then ''-'' else []"
  have sign: "is_sign ?s" by (simp add: is_sign_def)
  have exact: "\<bar>v\<bar> = digits_val a * 10 ^ 2 + digits_val (take 2 f) * 10 ^ (2 - length f)"
    using worth len by simp
  have big: "MAX_MINOR < \<bar>v\<bar>" using False by (auto simp: in_range_def)
  show ?thesis using assms
    unfolding numericToMinor_def MONEY_SCALE_def m decimal_read_exactly [OF sign p insertI2 [OF insertI1] exact]
    using big len by (auto split: if_splits)
qed

lemma coverage_sums:
  assumes "coverage_of_rows rows = Inr c"
  shows "cv_revenueExVatMinor c = sum_list (map (\<lambda>r. column_minor (sr_revenueExVatMinor r)) rows)"
    and "cv_coveredRevenueExVatMinor c = sum_list (map (\<lambda>r. column_minor (sr_costCoveredRevenueExVatMinor r)) rows)"
    and "cv_coverageBps c = toCoverageBps (cv_coveredRevenueExVatMinor c) (cv_revenueExVatMinor c)"
  using assms numeric_text_read
  by (auto simp: coverage_of_rows_def toCoverage_def sum_column_def bindE_eq_Inr)

section \<open>One platform after another\<close>

lemma sum_over_list: "sum_over f rs = sum_list (map (\<lambda>r. f (pr_value r)) rs)"
proof -
  have "foldl (\<lambda>s r. s + f (pr_value r)) a rs = a + sum_list (map (\<lambda>r. f (pr_value r)) rs)" for a
    by (induction rs arbitrary: a) simp_all
  then show ?thesis by (simp add: sum_over_def)
qed

lemma sum_concat: "sum_list (map f (concat xs)) = sum_list (map (\<lambda>x. sum_list (map f x)) xs)"
  by (induction xs) simp_all

lemma billed_concat: "billed_rows (concat ts) = concat (map billed_rows ts)"
  by (induction ts) (simp_all add: billed_rows_def)

lemma int_sum_list: "int (sum_list xs) = sum_list (map int xs)"
  by (induction xs) simp_all

text \<open>The tables of several platforms as those of one.\<close>

definition merged_tables :: "'p portal_tables list \<Rightarrow> 'p portal_tables" where
  "merged_tables ts = \<lparr> ta_stores = concat (map ta_stores ts), ta_subscriptions = concat (map ta_subscriptions ts),
     ta_rollups = concat (map ta_rollups ts), ta_events = concat (map ta_events ts),
     ta_backfills = concat (map ta_backfills ts), ta_orders = concat (map ta_orders ts),
     ta_payments = concat (map ta_payments ts) \<rparr>"

text \<open>What each figure of an overview is, row by row.\<close>

definition overview_figures :: "string \<Rightarrow> int \<Rightarrow> int \<Rightarrow> date_window \<Rightarrow> int \<Rightarrow> 'p portal_tables \<Rightarrow> platform_overview \<Rightarrow> bool" where
  "overview_figures at_time from_ms to_ms window stalledBefore t v \<longleftrightarrow>
     po_stores v = int (length (ta_stores t)) \<and> po_statuses v = statusCounts (ta_subscriptions t)
     \<and> mb_listArrMinor (po_mrr v) = sum_list (map (row_annual at_time) (billed_rows (ta_subscriptions t)))
     \<and> mb_listMrrMinor (po_mrr v) = toMonthlyRate (mb_listArrMinor (po_mrr v))
     \<and> unknown_stores (po_mrr v) = count_rows (\<lambda>r. row_plan at_time r = None) (billed_rows (ta_subscriptions t))
     \<and> cv_revenueExVatMinor (po_coverage v)
         = sum_list (map (\<lambda>r. column_minor (sr_revenueExVatMinor r)) (filter (in_dates window) (ta_rollups t)))
     \<and> cv_coveredRevenueExVatMinor (po_coverage v)
         = sum_list (map (\<lambda>r. column_minor (sr_costCoveredRevenueExVatMinor r)) (filter (in_dates window) (ta_rollups t)))
     \<and> cv_coverageBps (po_coverage v) = toCoverageBps (cv_coveredRevenueExVatMinor (po_coverage v)) (cv_revenueExVatMinor (po_coverage v))
     \<and> ih_processed (po_ingestion v) = count_rows (\<lambda>e. we_status e = WS_processed \<and> in_window from_ms to_ms (we_receivedAt e)) (ta_events t)
     \<and> ih_failed (po_ingestion v) = count_rows (\<lambda>e. we_status e = WS_failed \<and> in_window from_ms to_ms (we_receivedAt e)) (ta_events t)
     \<and> ih_pending (po_ingestion v) = count_rows (\<lambda>e. we_status e = WS_pending) (ta_events t)
     \<and> ih_stalled (po_ingestion v) = count_rows (\<lambda>e. we_status e = WS_processing
           \<and> (case we_lockedAt e of None \<Rightarrow> False | Some l \<Rightarrow> l < stalledBefore)) (ta_events t)
     \<and> po_ordersIngested24h v
         = count_rows (\<lambda>x. or_ingestionSource x = ''live'' \<and> in_window from_ms to_ms (or_placedAt x)) (ta_orders t)"

lemma platformOverview_figures:
  obtains at_time from_ms to_ms window where
    "\<And>t v. platformOverview now t = Inr v \<Longrightarrow> overview_figures at_time from_ms to_ms window (now - STALL_THRESHOLD_MS) t v"
proof -
  let ?day = "projr (trailingHours 24 now)"
  have c: "count_rows P (filter Q xs) = count_rows (\<lambda>x. P x \<and> Q x) xs" for P Q and xs :: "'x list"
    by (simp add: count_rows_def conj_commute)
  show thesis
  proof (rule that [of "projr (toInstantFromDate now)" "projr (instant_column (win_from ?day))"
        "projr (instant_column (win_to ?day))" "projr (trailingDays COVERAGE_DAYS now)"])
    fix t v assume "platformOverview now t = Inr v"
    then show "overview_figures (projr (toInstantFromDate now)) (projr (instant_column (win_from ?day)))
        (projr (instant_column (win_to ?day))) (projr (trailingDays COVERAGE_DAYS now)) (now - STALL_THRESHOLD_MS) t v"
      using mrr_totals coverage_sums
      by (auto simp: platformOverview_def bindE_eq_Inr ingestionHealth_def ordersIngested_def platformCoverage_def
          overview_figures_def countStores_def aggregateRow_def Let_def c)
  qed
qed

lemma figure_sum:
  assumes "list_all2 (\<lambda>t r. P t (pr_value r)) ts rs" and "\<And>t v. P t v \<Longrightarrow> g v = h t"
  shows "sum_over g rs = sum_list (map h ts)"
  using assms(1) by (induction rule: list_all2_induct) (simp_all add: sum_over_list assms(2))

lemmas merge_simps = statusCounts_by_row count_rows_concat sum_concat billed_concat filter_concat comp_def
  length_concat int_sum_list

lemma figures_merge:
  fixes ts :: "'p portal_tables list"
  assumes each: "list_all2 (\<lambda>t r. overview_figures a f u w s t (pr_value r)) ts rs"
    and whole: "overview_figures a f u w s (merged_tables ts) v"
  shows "sum_over po_stores rs = po_stores v"
    and "sum_over (\<lambda>x. stc_active (po_statuses x)) rs = stc_active (po_statuses v)"
    and "sum_over (\<lambda>x. stc_trialing (po_statuses x)) rs = stc_trialing (po_statuses v)"
    and "sum_over (\<lambda>x. stc_pastDue (po_statuses x)) rs = stc_pastDue (po_statuses v)"
    and "sum_over (\<lambda>x. mb_listArrMinor (po_mrr x)) rs = mb_listArrMinor (po_mrr v)"
    and "sum_over (\<lambda>x. unknown_stores (po_mrr x)) rs = unknown_stores (po_mrr v)"
    and "sum_over (\<lambda>x. cv_revenueExVatMinor (po_coverage x)) rs = cv_revenueExVatMinor (po_coverage v)"
    and "sum_over (\<lambda>x. cv_coveredRevenueExVatMinor (po_coverage x)) rs = cv_coveredRevenueExVatMinor (po_coverage v)"
    and "sum_over (\<lambda>x. ih_processed (po_ingestion x)) rs = ih_processed (po_ingestion v)"
    and "sum_over (\<lambda>x. ih_failed (po_ingestion x)) rs = ih_failed (po_ingestion v)"
    and "sum_over (\<lambda>x. ih_pending (po_ingestion x)) rs = ih_pending (po_ingestion v)"
    and "sum_over (\<lambda>x. ih_stalled (po_ingestion x)) rs = ih_stalled (po_ingestion v)"
    and "sum_over po_ordersIngested24h rs = po_ordersIngested24h v"
proof -
  note m = whole [unfolded overview_figures_def merged_tables_def portal_tables.select_convs]
  show "sum_over po_stores rs = po_stores v"
    by (subst figure_sum [OF each, where h = "\<lambda>t. int (length (ta_stores t))"])
      (use m in \<open>simp_all add: overview_figures_def merge_simps\<close>)
  show "sum_over (\<lambda>x. stc_active (po_statuses x)) rs = stc_active (po_statuses v)"
    by (subst figure_sum [OF each, where h = "\<lambda>t. count_rows (\<lambda>r. ss_status r = ''active'') (ta_subscriptions t)"])
      (use m in \<open>simp_all add: overview_figures_def merge_simps\<close>)
  show "sum_over (\<lambda>x. stc_trialing (po_statuses x)) rs = stc_trialing (po_statuses v)"
    by (subst figure_sum [OF each, where h = "\<lambda>t. count_rows (\<lambda>r. ss_status r = ''trialing'') (ta_subscriptions t)"])
      (use m in \<open>simp_all add: overview_figures_def merge_simps\<close>)
  show "sum_over (\<lambda>x. stc_pastDue (po_statuses x)) rs = stc_pastDue (po_statuses v)"
    by (subst figure_sum [OF each, where h = "\<lambda>t. count_rows (\<lambda>r. ss_status r = ''past_due'') (ta_subscriptions t)"])
      (use m in \<open>simp_all add: overview_figures_def merge_simps\<close>)
  show "sum_over (\<lambda>x. mb_listArrMinor (po_mrr x)) rs = mb_listArrMinor (po_mrr v)"
    by (subst figure_sum [OF each, where h = "\<lambda>t. sum_list (map (row_annual a) (billed_rows (ta_subscriptions t)))"])
      (use m in \<open>simp_all add: overview_figures_def merge_simps\<close>)
  show "sum_over (\<lambda>x. unknown_stores (po_mrr x)) rs = unknown_stores (po_mrr v)"
    by (subst figure_sum [OF each, where h = "\<lambda>t. count_rows (\<lambda>r. row_plan a r = None) (billed_rows (ta_subscriptions t))"])
      (use m in \<open>simp_all add: overview_figures_def merge_simps\<close>)
  show "sum_over (\<lambda>x. cv_revenueExVatMinor (po_coverage x)) rs = cv_revenueExVatMinor (po_coverage v)"
    by (subst figure_sum [OF each, where h = "\<lambda>t. sum_list (map (\<lambda>r. column_minor (sr_revenueExVatMinor r)) (filter (in_dates w) (ta_rollups t)))"])
      (use m in \<open>simp_all add: overview_figures_def merge_simps\<close>)
  show "sum_over (\<lambda>x. cv_coveredRevenueExVatMinor (po_coverage x)) rs = cv_coveredRevenueExVatMinor (po_coverage v)"
    by (subst figure_sum [OF each, where h = "\<lambda>t. sum_list (map (\<lambda>r. column_minor (sr_costCoveredRevenueExVatMinor r)) (filter (in_dates w) (ta_rollups t)))"])
      (use m in \<open>simp_all add: overview_figures_def merge_simps\<close>)
  show "sum_over (\<lambda>x. ih_processed (po_ingestion x)) rs = ih_processed (po_ingestion v)"
    by (subst figure_sum [OF each, where h = "\<lambda>t. count_rows (\<lambda>e. we_status e = WS_processed \<and> in_window f u (we_receivedAt e)) (ta_events t)"])
      (use m in \<open>simp_all add: overview_figures_def merge_simps\<close>)
  show "sum_over (\<lambda>x. ih_failed (po_ingestion x)) rs = ih_failed (po_ingestion v)"
    by (subst figure_sum [OF each, where h = "\<lambda>t. count_rows (\<lambda>e. we_status e = WS_failed \<and> in_window f u (we_receivedAt e)) (ta_events t)"])
      (use m in \<open>simp_all add: overview_figures_def merge_simps\<close>)
  show "sum_over (\<lambda>x. ih_pending (po_ingestion x)) rs = ih_pending (po_ingestion v)"
    by (subst figure_sum [OF each, where h = "\<lambda>t. count_rows (\<lambda>e. we_status e = WS_pending) (ta_events t)"])
      (use m in \<open>simp_all add: overview_figures_def merge_simps\<close>)
  show "sum_over (\<lambda>x. ih_stalled (po_ingestion x)) rs = ih_stalled (po_ingestion v)"
    by (subst figure_sum [OF each, where h = "\<lambda>t. count_rows (\<lambda>e. we_status e = WS_processing \<and> (case we_lockedAt e of None \<Rightarrow> False | Some l \<Rightarrow> l < s)) (ta_events t)"])
      (use m in \<open>simp_all add: overview_figures_def merge_simps\<close>)
  show "sum_over po_ordersIngested24h rs = po_ordersIngested24h v"
    by (subst figure_sum [OF each, where h = "\<lambda>t. count_rows (\<lambda>x. or_ingestionSource x = ''live'' \<and> in_window f u (or_placedAt x)) (ta_orders t)"])
      (use m in \<open>simp_all add: overview_figures_def merge_simps\<close>)
qed

lemma overview_merges:
  assumes "list_all2 (\<lambda>t r. platformOverview now t = Inr (pr_value r)) ts (fo_ok fan)"
    and v: "platformOverview now (merged_tables ts) = Inr v" and i: "isInstant (fo_capturedAt fan)"
  shows "overview_of fan = Inr \<lparr> ov_totals =
      \<lparr> ot_stores = po_stores v, ot_active = stc_active (po_statuses v), ot_trialing = stc_trialing (po_statuses v),
        ot_pastDue = stc_pastDue (po_statuses v), ot_listMrrMinor = mb_listMrrMinor (po_mrr v),
        ot_listArrMinor = mb_listArrMinor (po_mrr v), ot_unknownPlanSubscriptions = unknown_stores (po_mrr v),
        ot_ordersIngested24h = po_ordersIngested24h v, ot_queueDepth = ih_pending (po_ingestion v),
        ot_stalledJobs = ih_stalled (po_ingestion v),
        ot_webhookSuccessBps = successRateBps (ih_processed (po_ingestion v)) (ih_failed (po_ingestion v)),
        ot_coverageBps = cv_coverageBps (po_coverage v) \<rparr>,
      ov_platforms = fo_ok fan, ov_missing = fo_failed fan, ov_partial = fo_partial fan,
      ov_capturedAt = fo_capturedAt fan \<rparr>"
proof -
  obtain a f u w where g: "\<And>(t :: 'a portal_tables) v. platformOverview now t = Inr v
      \<Longrightarrow> overview_figures a f u w (now - STALL_THRESHOLD_MS) t v"
    by (rule platformOverview_figures [where now = now]) blast
  have each: "list_all2 (\<lambda>t r. overview_figures a f u w (now - STALL_THRESHOLD_MS) t (pr_value r)) ts (fo_ok fan)"
    using assms(1) by (rule list_all2_mono) (rule g)
  note whole = g [OF v]
  obtain at_time where "mrr at_time (ta_subscriptions (merged_tables ts)) = Inr (po_mrr v)"
    using v by (auto simp: platformOverview_def bindE_eq_Inr)
  note r = mrr_in_range [OF this] mrr_totals(2) [OF this]
  have "cv_coverageBps (po_coverage v)
      = toCoverageBps (cv_coveredRevenueExVatMinor (po_coverage v)) (cv_revenueExVatMinor (po_coverage v))"
    using whole by (simp add: overview_figures_def)
  then show ?thesis using i r
    by (simp add: overview_of_def Let_def figures_merge [OF each whole] toInstant_iff toCoverageBps_def)
qed

section \<open>The merchant's count\<close>

lemma grouped_singletons:
  assumes "distinct (map key t)" and "r \<in> set t"
  shows "map_of (map (\<lambda>g. (fst g, f (snd g))) (group_rows key t)) (key r) = Some (f [r])"
proof -
  have "filter (\<lambda>x. key x = key r) t = [r]"
    using assms by (induction t) (auto simp: filter_empty_conv image_iff)
  moreover have "map_of (map (\<lambda>k. (k, f (filter (\<lambda>x. key x = k) t))) (remdups (map key t))) (key r)
      = Some (f (filter (\<lambda>x. key x = key r) t))"
    using map_of_keyed [of "\<lambda>k. k" "remdups (map key t)" "key r" "\<lambda>k. f (filter (\<lambda>x. key x = k) t)"] assms(2) by simp
  ultimately show ?thesis by (simp add: group_rows_def comp_def)
qed

lemma live_in_fun: "live_in s f u = (\<lambda>x. or_storeId x = s \<and> or_placedAt x \<ge> f \<and> or_placedAt x < u
    \<and> or_ingestionSource x = ''live'')"
  by (auto simp: live_in_def in_window_def)

lemma portal_count:
  assumes "distinct (map ss_storeId t)" and "r \<in> set t" and "toDomain r = Inr s"
  shows "map_of (ordersInPeriodByStore t orders) (sub_storeId s)
      = Some (count_rows (live_in (ss_storeId r) (ss_currentPeriodStart r) (ss_currentPeriodEnd r)) orders)"
    and "countLiveOrders (sub_storeId s) (usageWindow s) (map order_row.truncate orders)
      = Inr (count_rows (live_in (ss_storeId r) (ss_currentPeriodStart r) (ss_currentPeriodEnd r)) orders)"
proof -
  have d: "sub_storeId s = ss_storeId r" "toInstantFromDate (ss_currentPeriodStart r) = Inr (sub_currentPeriodStart s)"
    "toInstantFromDate (ss_currentPeriodEnd r) = Inr (sub_currentPeriodEnd s)"
    using assms(3) by (auto simp: toDomain_def bindE_eq_Inr toIdFromColumn_def idFromString_def split: if_splits)
  show "map_of (ordersInPeriodByStore t orders) (sub_storeId s)
      = Some (count_rows (live_in (ss_storeId r) (ss_currentPeriodStart r) (ss_currentPeriodEnd r)) orders)"
    unfolding d(1) ordersInPeriodByStore_def
    using grouped_singletons [OF assms(1,2), of "\<lambda>g. sum_list (map (\<lambda>s.
         count_rows (live_in (ss_storeId s) (ss_currentPeriodStart s) (ss_currentPeriodEnd s)) orders) g)"] by simp
  show "countLiveOrders (sub_storeId s) (usageWindow s) (map order_row.truncate orders)
      = Inr (count_rows (live_in (ss_storeId r) (ss_currentPeriodStart r) (ss_currentPeriodEnd r)) orders)"
    using date_instant_roundtrip(2) [OF d(2)] date_instant_roundtrip(2) [OF d(3)]
    by (simp add: countLiveOrders_def usageWindow_def instant_column_def d(1) count_rows_def live_in_fun
        filter_map comp_def order_row.defs)
qed

end
