(* ===== verification/PlatformFacts.thy ===== *)
theory PlatformFacts
  imports Platforms
begin

text \<open>
  Facts about the fan-out: what one platform gives depends on that platform alone, and each one is
  either answered or reported missing; only a database whose probe found nothing wrong is read.
\<close>

section \<open>The fan-out\<close>

definition fan_ok :: "('t \<Rightarrow> string) \<Rightarrow> ('t \<Rightarrow> 'a attempt) \<Rightarrow> 't list \<Rightarrow> 'a platform_result list" where
  "fan_ok name run ts =
     map (\<lambda>t. \<lparr> pr_platform = name t, pr_value = projr (run t) \<rparr>) (filter (\<lambda>t. \<not> isl (run t)) ts)"

definition fan_failed :: "('t \<Rightarrow> string) \<Rightarrow> ('t \<Rightarrow> 'a attempt) \<Rightarrow> 't list \<Rightarrow> platform_failure list" where
  "fan_failed name run ts =
     map (\<lambda>t. \<lparr> pf_platform = name t, pf_reason = describeError (projl (run t)) \<rparr>) (filter (\<lambda>t. isl (run t)) ts)"

lemma fan_collect_all:
  "foldl (fan_collect name run) (a, b) ts = (a @ fan_ok name run ts, b @ fan_failed name run ts)"
  by (induction ts arbitrary: a b) (auto simp: fan_ok_def fan_failed_def fan_collect_def split: sum.splits)

lemma fanOut_parts:
  "fanOut name run now ts = \<lparr> fo_ok = fan_ok name run ts, fo_failed = fan_failed name run ts,
     fo_partial = (fan_failed name run ts \<noteq> []), fo_capturedAt = now \<rparr>"
  by (simp add: fanOut_def fan_collect_all)

lemma fan_accounts:
  "mset (map pr_platform (fan_ok name run ts)) + mset (map pf_platform (fan_failed name run ts)) = mset (map name ts)"
  by (induction ts) (auto simp: fan_ok_def fan_failed_def)

section \<open>Checks\<close>

definition clean :: "connection_check \<Rightarrow> bool" where
  "clean check \<longleftrightarrow> ck_reachable check \<and> ck_problems check = []"

definition registry_ok :: "('d \<Rightarrow> platform_probe set) \<Rightarrow> 'd platform_registry \<Rightarrow> bool" where
  "registry_ok given registry \<longleftrightarrow>
     distinct (map pc_platform (rg_configs registry))
     \<and> (\<forall>c \<in> set (rg_configs registry). \<exists>d.
          map_of (rg_connections registry) (pc_platform c) = Some d
          \<and> map_of (rg_handles registry) (pc_platform c)
              = Some \<lparr> ph_platform = pc_platform c, ph_db = d, ph_adminApi = pc_adminApi c \<rparr>)
     \<and> (\<forall>p check. rg_verified registry p = Some check \<longrightarrow> ck_platform check = p
          \<and> (\<exists>d answer. map_of (rg_connections registry) p = Some d \<and> answer \<in> given d
               \<and> ck_problems check = evaluateProbe p answer))"

lemma verify_fixed:
  "rg_configs (snd (verify probe now r p)) = rg_configs r"
  "rg_connections (snd (verify probe now r p)) = rg_connections r"
  "rg_handles (snd (verify probe now r p)) = rg_handles r"
  by (auto simp: verify_def Let_def split: option.splits sum.splits)

lemma verify_others: "q \<noteq> p \<Longrightarrow> rg_verified (snd (verify probe now r p)) q = rg_verified r q"
  by (auto simp: verify_def Let_def split: option.splits sum.splits)

lemma verify_reads:
  assumes "rg_verified r q = rg_verified s q" and "rg_connections r = rg_connections s"
  shows "fst (verify probe now r q) = fst (verify probe now s q)"
  by (simp add: verify_def assms Let_def split: option.split sum.split)

lemma verify_independent:
  "q \<noteq> p \<Longrightarrow> fst (verify probe now (snd (verify probe now r p)) q) = fst (verify probe now r q)"
  by (rule verify_reads [OF verify_others verify_fixed(2)])

lemma verify_each_fixed:
  "rg_configs (snd (verify_each probe now r ps)) = rg_configs r"
  "rg_connections (snd (verify_each probe now r ps)) = rg_connections r"
  "rg_handles (snd (verify_each probe now r ps)) = rg_handles r"
  by (induction ps arbitrary: r) (auto simp: verify_fixed Let_def split_beta)

lemma verify_each_checks:
  assumes "distinct ps"
  shows "fst (verify_each probe now r ps) = map (\<lambda>p. fst (verify probe now r p)) ps"
  using assms
proof (induction ps arbitrary: r)
  case (Cons p ps)
  have "map (\<lambda>q. fst (verify probe now (snd (verify probe now r p)) q)) ps = map (\<lambda>q. fst (verify probe now r q)) ps"
    using Cons.prems by (intro map_cong refl verify_independent) auto
  then show ?case using Cons by (simp add: Let_def split_beta)
qed simp

lemma verify_keeps:
  assumes "registry_ok given r" and "\<And>d a. probe d = Inr a \<Longrightarrow> a \<in> given d"
  shows "registry_ok given (snd (verify probe now r p))"
  using assms by (auto simp: verify_def registry_ok_def Let_def split: option.splits sum.splits)

lemma verify_each_keeps:
  assumes "registry_ok given r" and "\<And>d a. probe d = Inr a \<Longrightarrow> a \<in> given d"
  shows "registry_ok given (snd (verify_each probe now r ps))"
  using assms(1)
  by (induction ps arbitrary: r) (auto simp: Let_def split_beta verify_keeps [OF _ assms(2)])

lemma verify_platform:
  assumes "registry_ok given r"
  shows "ck_platform (fst (verify probe now r p)) = p"
  using assms by (auto simp: verify_def registry_ok_def Let_def split: option.splits sum.splits)

lemma verify_clean:
  assumes "registry_ok given r" and "\<And>d a. probe d = Inr a \<Longrightarrow> a \<in> given d" and "clean (fst (verify probe now r p))"
  shows "\<exists>d answer. map_of (rg_connections r) p = Some d \<and> answer \<in> given d \<and> evaluateProbe p answer = []"
  using assms(1,3) assms(2)
  by (auto simp: verify_def registry_ok_def clean_def Let_def split: option.splits sum.splits) metis

lemma evaluateProbe_clean:
  "evaluateProbe p answer = [] \<longleftrightarrow> \<not> pb_canInsertOrders answer \<and> pb_defaultTransactionReadOnly answer
     \<and> \<not> pb_canReadCredentials answer \<and> set (pb_platforms answer) \<subseteq> {p}"
  by (auto simp: evaluateProbe_def Let_def filter_empty_conv)

section \<open>A new registry\<close>

lemma register_all:
  assumes "\<forall>c \<in> set cs. pc_platform c \<notin> set (map fst (rg_connections r)) \<union> set (map fst (rg_handles r))"
    and "distinct (map pc_platform cs)"
  shows "foldl (register connect) r cs = r\<lparr>
    rg_connections := rg_connections r @ map (\<lambda>c. (pc_platform c, connect c)) cs,
    rg_handles := rg_handles r @ map (\<lambda>c. (pc_platform c,
      \<lparr> ph_platform = pc_platform c, ph_db = connect c, ph_adminApi = pc_adminApi c \<rparr>)) cs \<rparr>"
  using assms
proof (induction cs arbitrary: r)
  case (Cons c cs)
  have u: "AList.update k v xs = xs @ [(k, v)]" if "k \<notin> set (map fst xs)" for k v and xs :: "(string \<times> 'x) list"
    using that by (induction xs) auto
  have "register connect r c = r\<lparr> rg_connections := rg_connections r @ [(pc_platform c, connect c)],
      rg_handles := rg_handles r @ [(pc_platform c,
        \<lparr> ph_platform = pc_platform c, ph_db = connect c, ph_adminApi = pc_adminApi c \<rparr>)] \<rparr>"
    using Cons.prems(1) by (simp add: register_def u)
  then have "foldl (register connect) r (c # cs) = foldl (register connect)
      (r\<lparr> rg_connections := rg_connections r @ [(pc_platform c, connect c)],
        rg_handles := rg_handles r @ [(pc_platform c,
          \<lparr> ph_platform = pc_platform c, ph_db = connect c, ph_adminApi = pc_adminApi c \<rparr>)] \<rparr>) cs"
    by simp
  also have "\<dots> = r\<lparr> rg_connections := rg_connections r @ map (\<lambda>c. (pc_platform c, connect c)) (c # cs),
      rg_handles := rg_handles r @ map (\<lambda>c. (pc_platform c,
        \<lparr> ph_platform = pc_platform c, ph_db = connect c, ph_adminApi = pc_adminApi c \<rparr>)) (c # cs) \<rparr>"
    by (subst Cons.IH) (use Cons.prems in \<open>auto simp: image_iff\<close>)
  finally show ?case .
qed simp

lemma created_ok:
  assumes "distinct (map pc_platform configs)"
  shows "registry_ok given (createPlatformRegistry configs connect)"
proof -
  let ?r = "createPlatformRegistry configs connect"
  have r: "?r = \<lparr> rg_configs = configs, rg_connections = map (\<lambda>c. (pc_platform c, connect c)) configs,
      rg_handles = map (\<lambda>c. (pc_platform c,
        \<lparr> ph_platform = pc_platform c, ph_db = connect c, ph_adminApi = pc_adminApi c \<rparr>)) configs,
      rg_verified = (\<lambda>_. None) \<rparr>"
    using assms by (simp add: createPlatformRegistry_def register_all)
  show ?thesis unfolding registry_ok_def r platform_registry.select_convs
  proof (intro conjI ballI exI)
    fix c assume c: "c \<in> set configs"
    show "map_of (map (\<lambda>c. (pc_platform c, connect c)) configs) (pc_platform c) = Some (connect c)"
      "map_of (map (\<lambda>c. (pc_platform c, \<lparr> ph_platform = pc_platform c, ph_db = connect c, ph_adminApi = pc_adminApi c \<rparr>)) configs)
         (pc_platform c) = Some \<lparr> ph_platform = pc_platform c, ph_db = connect c, ph_adminApi = pc_adminApi c \<rparr>"
      by (rule map_of_keyed [OF assms c])+
  qed (use assms in simp_all)
qed

section \<open>The query\<close>

definition handle_of :: "'d platform_registry \<Rightarrow> string \<Rightarrow> 'd platform_handle" where
  "handle_of registry p = the (map_of (rg_handles registry) p)"

lemma sort_check_all:
  assumes "\<And>c. c \<in> set checks \<Longrightarrow> map_of (rg_handles r) (ck_platform c) \<noteq> None"
  shows "foldl (sort_check r) (a, b) checks =
    (a @ map (\<lambda>c. handle_of r (ck_platform c)) (filter clean checks),
     b @ map (\<lambda>c. \<lparr> pf_platform = ck_platform c, pf_reason = describeCheck c \<rparr>) (filter (\<lambda>c. \<not> clean c) checks))"
  using assms
proof (induction checks arbitrary: a b)
  case (Cons c cs)
  then obtain h where "map_of (rg_handles r) (ck_platform c) = Some h" by fastforce
  then have "sort_check r (a, b) c = (if clean c then (a @ [handle_of r (ck_platform c)], b)
      else (a, b @ [\<lparr> pf_platform = ck_platform c, pf_reason = describeCheck c \<rparr>]))"
    by (simp add: sort_check_def clean_def handle_of_def)
  then show ?case using Cons by simp
qed simp

definition usable_platforms :: "('d \<Rightarrow> platform_probe attempt) \<Rightarrow> string \<Rightarrow> 'd platform_registry \<Rightarrow> string list" where
  "usable_platforms probe now r =
     filter (\<lambda>p. clean (fst (verify probe now r p))) (map pc_platform (rg_configs r))"

lemma handle_known:
  assumes "registry_ok given r" and "p \<in> set (map pc_platform (rg_configs r))"
  shows "map_of (rg_handles r) p \<noteq> None" and "ph_platform (handle_of r p) = p"
    and "map_of (rg_connections r) p = Some (ph_db (handle_of r p))"
  using assms by (auto simp: registry_ok_def handle_of_def)

lemma queryPlatforms_parts:
  fixes probe now r run
  assumes ok: "registry_ok given r"
  defines "usable \<equiv> usable_platforms probe now r" and "attempt \<equiv> \<lambda>p. run (handle_of r p)"
  shows "fst (queryPlatforms probe now r run) = \<lparr> fo_ok = fan_ok id attempt usable,
      fo_failed = map (\<lambda>p. \<lparr> pf_platform = p, pf_reason = describeCheck (fst (verify probe now r p)) \<rparr>)
          (filter (\<lambda>p. \<not> clean (fst (verify probe now r p))) (map pc_platform (rg_configs r)))
        @ fan_failed id attempt usable,
      fo_partial = ((\<exists>p \<in> set (map pc_platform (rg_configs r)). \<not> clean (fst (verify probe now r p)))
        \<or> fan_failed id attempt usable \<noteq> []),
      fo_capturedAt = now \<rparr>"
proof -
  let ?ps = "map pc_platform (rg_configs r)"
  let ?after = "snd (verify_each probe now r ?ps)"
  have d: "distinct ?ps" using ok by (simp add: registry_ok_def)
  have h: "rg_handles ?after = rg_handles r" by (rule verify_each_fixed)
  have v: "ck_platform (fst (verify probe now r p)) = p" for p by (rule verify_platform [OF ok])
  have "foldl (sort_check ?after) ([], []) (map (\<lambda>p. fst (verify probe now r p)) ?ps) =
    (map (handle_of r) usable, map (\<lambda>p. \<lparr> pf_platform = p, pf_reason = describeCheck (fst (verify probe now r p)) \<rparr>)
          (filter (\<lambda>p. \<not> clean (fst (verify probe now r p))) ?ps))"
    by (subst sort_check_all) (use handle_known(1) [OF ok] in
      \<open>auto simp: h v usable_def usable_platforms_def filter_map comp_def handle_of_def\<close>)
  moreover have "fan_ok ph_platform run (map (handle_of r) usable) = fan_ok id attempt usable"
    "fan_failed ph_platform run (map (handle_of r) usable) = fan_failed id attempt usable"
    using handle_known(2) [OF ok]
    by (auto simp: fan_ok_def fan_failed_def attempt_def filter_map comp_def usable_def usable_platforms_def)
  moreover have "filter (\<lambda>p. \<not> clean (fst (verify probe now r p))) ?ps \<noteq> []
      \<longleftrightarrow> (\<exists>p \<in> set ?ps. \<not> clean (fst (verify probe now r p)))"
    by (simp add: filter_empty_conv del: filter_map map_map set_map)
  ultimately show ?thesis
    by (simp add: queryPlatforms_def verifyAll_def verify_each_checks [OF d] split_beta Let_def fanOut_parts
        del: filter_map map_map set_map) blast
qed

section \<open>The registry of a running portal\<close>

text \<open>
  The registries a portal can have: opened on its configuration, then any checks, each with whatever
  the databases answer then. \<open>given d\<close> holds every answer the database \<open>d\<close> has given.
\<close>

inductive portal_registry ::
  "platform_config list \<Rightarrow> (platform_config \<Rightarrow> 'd) \<Rightarrow> ('d \<Rightarrow> platform_probe set) \<Rightarrow> 'd platform_registry \<Rightarrow> bool"
  for configs connect given where
  opened: "portal_registry configs connect given (createPlatformRegistry configs connect)"
| checked: "portal_registry configs connect given r \<Longrightarrow> (\<And>d a. probe d = Inr a \<Longrightarrow> a \<in> given d) \<Longrightarrow>
    portal_registry configs connect given (snd (verify probe now r p))"

lemma register_fixed: "rg_configs (foldl (register connect) r cs) = rg_configs r"
  by (induction cs arbitrary: r) (simp_all add: register_def)

lemma portal_registry_configs: "portal_registry configs connect given r \<Longrightarrow> rg_configs r = configs"
  by (induction rule: portal_registry.induct) (simp_all add: createPlatformRegistry_def register_fixed verify_fixed)

lemma portal_registry_ok:
  assumes "portal_registry configs connect given r" and "distinct (map pc_platform configs)"
  shows "registry_ok given r"
  using assms by (induction rule: portal_registry.induct) (auto intro: created_ok verify_keeps)

lemma portal_registry_connected:
  assumes "portal_registry configs connect given r" and "distinct (map pc_platform configs)" and "c \<in> set configs"
  shows "handle_of r (pc_platform c) = \<lparr> ph_platform = pc_platform c, ph_db = connect c, ph_adminApi = pc_adminApi c \<rparr>"
  using assms
proof (induction rule: portal_registry.induct)
  case opened
  have "map_of (map (\<lambda>c. (pc_platform c, \<lparr> ph_platform = pc_platform c, ph_db = connect c, ph_adminApi = pc_adminApi c \<rparr>)) configs)
       (pc_platform c) = Some \<lparr> ph_platform = pc_platform c, ph_db = connect c, ph_adminApi = pc_adminApi c \<rparr>"
    by (rule map_of_keyed [OF opened])
  then show ?case using opened(1) by (simp add: handle_of_def createPlatformRegistry_def register_all)
qed (simp add: handle_of_def verify_fixed)

lemma portal_registry_each:
  assumes "portal_registry configs connect given r" and "\<And>d a. probe d = Inr a \<Longrightarrow> a \<in> given d"
  shows "portal_registry configs connect given (snd (verify_each probe now r ps))"
  using assms(1) by (induction ps arbitrary: r) (auto simp: Let_def split_beta checked [OF _ assms(2)])

lemma queryPlatforms_registry: "snd (queryPlatforms probe now r run) = snd (verifyAll probe now r)"
  by (simp add: queryPlatforms_def Let_def split_beta)

lemma split_accounts:
  assumes "mset a + mset b = mset (filter c ps)"
  shows "mset a + mset (filter (\<lambda>p. \<not> c p) ps @ b) = mset ps"
  using multiset_partition [of "mset ps" c] assms by (simp add: ac_simps flip: mset_filter)

lemma query_accounts:
  fixes probe now r run
  assumes "registry_ok given r"
  defines "result \<equiv> fst (queryPlatforms probe now r run)"
  shows "mset (map pr_platform (fo_ok result)) + mset (map pf_platform (fo_failed result))
      = mset (map pc_platform (rg_configs r))"
    and "fo_partial result \<longleftrightarrow> fo_failed result \<noteq> []"
proof -
  note q = queryPlatforms_parts [OF assms(1), of probe now run, folded result_def]
  have m: "map pf_platform (map (\<lambda>p. \<lparr> pf_platform = p, pf_reason = describeCheck (fst (verify probe now r p)) \<rparr>) ps) = ps"
    for ps by (simp add: comp_def)
  have "mset (map pr_platform (fan_ok id (\<lambda>p. run (handle_of r p)) (usable_platforms probe now r)))
      + mset (map pf_platform (fan_failed id (\<lambda>p. run (handle_of r p)) (usable_platforms probe now r)))
      = mset (filter (\<lambda>p. clean (fst (verify probe now r p))) (map pc_platform (rg_configs r)))"
    unfolding usable_platforms_def [symmetric] using fan_accounts by (metis list.map_id)
  from split_accounts [OF this]
  show "mset (map pr_platform (fo_ok result)) + mset (map pf_platform (fo_failed result))
      = mset (map pc_platform (rg_configs r))"
    unfolding q fan_out.select_convs map_append [of pf_platform] m .
  show "fo_partial result \<longleftrightarrow> fo_failed result \<noteq> []"
    by (auto simp: q filter_empty_conv)
qed

lemma query_ok:
  assumes "registry_ok given r"
  shows "x \<in> set (fo_ok (fst (queryPlatforms probe now r run))) \<longleftrightarrow>
    pr_platform x \<in> set (map pc_platform (rg_configs r)) \<and> clean (fst (verify probe now r (pr_platform x)))
    \<and> run (handle_of r (pr_platform x)) = Inr (pr_value x)"
  by (cases x) (auto simp: queryPlatforms_parts [OF assms] fan_ok_def usable_platforms_def isl_def image_iff
      intro: projr_def split: sum.splits)

end
