(* ===== verification/OpsActions.thy ===== *)
theory OpsActions
  imports Usage Platforms OpsAuth StoreHealth OpsReports
begin

text \<open>
  The cache of the operator portal's aggregates: \<open>lib/cache.ts\<close>. It meets the same contract as the
  usage cache of the billing package, by never forgetting an entry instead of dropping dead ones.
  A computation that throws leaves the cache as it was.
\<close>

record 'v aggregate_entry =
  ge_value :: 'v
  ge_expiresAt :: int

record 'v aggregate_cache =
  gc_entries :: "string \<Rightarrow> 'v aggregate_entry option"
  gc_ttlMs :: int

definition DEFAULT_TTL_MS :: int where
  "DEFAULT_TTL_MS = 60000"

definition new_AggregateCache :: "int \<Rightarrow> 'v aggregate_cache" where
  "new_AggregateCache ttlMs = \<lparr> gc_entries = (\<lambda>_. None), gc_ttlMs = ttlMs \<rparr>"

definition aggregate_hit :: "'v aggregate_cache \<Rightarrow> string \<Rightarrow> int \<Rightarrow> 'v option" where
  "aggregate_hit cache k now =
     (case gc_entries cache k of None \<Rightarrow> None
      | Some entry \<Rightarrow> if ge_expiresAt entry > now then Some (ge_value entry) else None)"

definition aggregate_put :: "'v aggregate_cache \<Rightarrow> string \<Rightarrow> 'v \<Rightarrow> int \<Rightarrow> 'v aggregate_cache" where
  "aggregate_put cache k v now =
     cache\<lparr> gc_entries := (gc_entries cache)(k \<mapsto> \<lparr> ge_value = v, ge_expiresAt = now + gc_ttlMs cache \<rparr>) \<rparr>"

definition aggregate_read ::
  "'v aggregate_cache \<Rightarrow> string \<Rightarrow> int \<Rightarrow> 'v attempt \<Rightarrow> 'v attempt \<times> 'v aggregate_cache" where
  "aggregate_read cache k now answer =
     (case aggregate_hit cache k now of
        Some v \<Rightarrow> (Inr v, cache)
      | None \<Rightarrow> (case answer of Inl e \<Rightarrow> (Inl e, cache) | Inr v \<Rightarrow> (Inr v, aggregate_put cache k v now)))"

definition aggregate_invalidate :: "'v aggregate_cache \<Rightarrow> string \<Rightarrow> 'v aggregate_cache" where
  "aggregate_invalidate cache k = cache\<lparr> gc_entries := (gc_entries cache)(k := None) \<rparr>"

definition aggregate_clear :: "'v aggregate_cache \<Rightarrow> 'v aggregate_cache" where
  "aggregate_clear cache = cache\<lparr> gc_entries := (\<lambda>_. None) \<rparr>"

interpretation aggregate_cache: ttl_cache aggregate_hit "\<lambda>c k now. (aggregate_hit c k now, c)" aggregate_put
  aggregate_invalidate gc_ttlMs
  by unfold_locales (auto simp: aggregate_hit_def aggregate_put_def aggregate_invalidate_def)

section \<open>How old an answer may be\<close>

text \<open>The cache after requests one after the other, each with what its computation would give.\<close>

definition aggregate_after ::
  "'v aggregate_cache \<Rightarrow> (string \<times> int \<times> 'v attempt) list \<Rightarrow> 'v aggregate_cache" where
  "aggregate_after cache reads =
     foldl (\<lambda>c r. case r of (k, now, answer) \<Rightarrow> snd (aggregate_read c k now answer)) cache reads"

definition backed :: "(string \<times> int \<times> 'v attempt) set \<Rightarrow> 'v aggregate_cache \<Rightarrow> bool" where
  "backed reads cache \<longleftrightarrow> (\<forall>k entry. gc_entries cache k = Some entry \<longrightarrow>
     (\<exists>t. (k, t, Inr (ge_value entry)) \<in> reads \<and> ge_expiresAt entry = t + gc_ttlMs cache))"

lemma aggregate_read_ttl [simp]: "gc_ttlMs (snd (aggregate_read cache k now answer)) = gc_ttlMs cache"
  by (auto simp: aggregate_read_def aggregate_put_def split: option.split sum.split)

lemma backed_read:
  assumes "backed reads cache"
  shows "backed (insert (k, now, answer) reads) (snd (aggregate_read cache k now answer))"
  using assms
  by (auto simp: aggregate_read_def aggregate_put_def backed_def split: option.splits sum.splits)

lemma backed_after: "backed (set reads) (aggregate_after (new_AggregateCache ttlMs) reads)"
proof (induction reads rule: rev_induct)
  case Nil
  then show ?case by (simp add: aggregate_after_def backed_def new_AggregateCache_def)
next
  case (snoc r reads)
  then show ?case using backed_read by (cases r) (auto simp: aggregate_after_def)
qed

lemma aggregate_after_ttl [simp]: "gc_ttlMs (aggregate_after cache reads) = gc_ttlMs cache"
  by (induction reads rule: rev_induct) (auto simp: aggregate_after_def split: prod.split)

lemma read_recent:
  assumes "backed reads cache" and "fst (aggregate_read cache k now answer) = Inr v"
  shows "answer = Inr v \<or> (\<exists>t. (k, t, Inr v) \<in> reads \<and> now < t + gc_ttlMs cache)"
  using assms
  by (fastforce simp: aggregate_read_def aggregate_hit_def backed_def split: option.splits sum.splits if_splits)

text \<open>
  The one action of the operator portal and the cached reports around it: \<open>lib/portal/ack-action.ts\<close>,
  the refresh route, and the accessors of \<open>lib/data/index.ts\<close> on live data. A cached value is the
  report of its key. The per-request memo of an accessor is not state that outlives the request.
\<close>

definition acknowledgeAlert ::
  "string \<Rightarrow> headers \<Rightarrow> string option \<Rightarrow> int \<Rightarrow> ack_row list \<Rightarrow> (ack_record \<times> ack_row list) outcome" where
  "acknowledgeAlert key h note now t =
     (let actorSession = (case sessionFromHeaders h of None \<Rightarrow> ''unattributed'' | Some s \<Rightarrow> s)
      in acknowledge key actorSession note now t)"

datatype console_report =
  CR_overview overview_report | CR_alerts alert_feed | CR_queue payment_queue
  | CR_ingestion ingestion_report | CR_revenue revenue_report

definition range_name :: "range \<Rightarrow> string" where
  "range_name r = literal_of RANGES r"

definition as_report :: "('a \<Rightarrow> console_report) \<Rightarrow> 'a attempt \<Rightarrow> console_report attempt" where
  "as_report f a = (case a of Inl e \<Rightarrow> Inl e | Inr v \<Rightarrow> Inr (f v))"

type_synonym console_cache = "console_report aggregate_cache"

definition getOverview ::
  "console_cache \<Rightarrow> int \<Rightarrow> overview_report attempt \<Rightarrow> console_report attempt \<times> console_cache" where
  "getOverview cache now computed = aggregate_read cache ''overview'' now (as_report CR_overview computed)"

definition getAlertFeed ::
  "console_cache \<Rightarrow> int \<Rightarrow> alert_feed attempt \<Rightarrow> console_report attempt \<times> console_cache" where
  "getAlertFeed cache now computed = aggregate_read cache ''alerts'' now (as_report CR_alerts computed)"

definition getPaymentQueue ::
  "console_cache \<Rightarrow> int \<Rightarrow> payment_queue attempt \<Rightarrow> console_report attempt \<times> console_cache" where
  "getPaymentQueue cache now computed = aggregate_read cache ''payment-queue'' now (as_report CR_queue computed)"

definition getIngestionReport ::
  "console_cache \<Rightarrow> range \<Rightarrow> int \<Rightarrow> ingestion_report attempt \<Rightarrow> console_report attempt \<times> console_cache" where
  "getIngestionReport cache r now computed =
     aggregate_read cache (''health:'' @ range_name r) now (as_report CR_ingestion computed)"

definition getRevenue ::
  "console_cache \<Rightarrow> range \<Rightarrow> int \<Rightarrow> revenue_report attempt \<Rightarrow> console_report attempt \<times> console_cache" where
  "getRevenue cache r now computed =
     aggregate_read cache (''revenue:'' @ range_name r) now (as_report CR_revenue computed)"

definition post_refresh :: "console_cache \<Rightarrow> console_cache" where
  "post_refresh cache = aggregate_clear cache"

end
