(* ===== verification/PortalFacts.thy ===== *)
theory PortalFacts
  imports Presentation QueryFacts PlatformFacts OpsAuthFacts OpsActions
begin

text \<open>
  Facts about the store list, the alerts and their acknowledgements.
\<close>

section \<open>Maps read from rows\<close>

lemma mapE_keyed:
  assumes "mapE (\<lambda>r. bindE (h r) (\<lambda>i. Inr (k r, i))) xs = Inr ys" and "distinct (map k xs)"
  shows "x \<in> set xs \<Longrightarrow> map_of ys (k x) \<noteq> None \<and> h x = Inr (the (map_of ys (k x)))"
    and "j \<notin> k ` set xs \<Longrightarrow> map_of ys j = None"
  using assms
  by (induction xs arbitrary: ys) (auto simp: bindE_eq_Inr split: if_splits, (metis imageI)+)

section \<open>Acknowledgements\<close>

definition ack_row_of :: "string \<Rightarrow> string \<Rightarrow> string option \<Rightarrow> int \<Rightarrow> ack_row" where
  "ack_row_of key session note at_ms =
     \<lparr> ak_alertKey = key, ak_acknowledgedAt = at_ms, ak_actorSession = Some session, ak_note = note \<rparr>"

lemma acknowledged_row:
  assumes "distinct (map ak_alertKey t)" and "acknowledge key session note at_ms t = Inr (ack, after)"
  shows "distinct (map ak_alertKey after)" and "ack_row_of key session note at_ms \<in> set after"
    and "row_with ak_alertKey j after
      = (if j = key then Some (ack_row_of key session note at_ms) else row_with ak_alertKey j t)"
proof -
  let ?r = "ack_row_of key session note at_ms"
  let ?f = "\<lambda>r. r\<lparr> ak_acknowledgedAt := at_ms, ak_actorSession := Some session, ak_note := note \<rparr>"
  have a: "after = upsert ak_alertKey ?r ?f t"
    using assms(2) by (auto simp: acknowledge_def bindE_eq_Inr ack_row_of_def)
  have k: "ak_alertKey x = ak_alertKey ?r \<Longrightarrow> ak_alertKey (?f x) = ak_alertKey x" for x by simp
  show "distinct (map ak_alertKey after)" unfolding a by (rule upsert_distinct [OF k assms(1)])
  have "(case row_with ak_alertKey key t of None \<Rightarrow> ?r | Some x \<Rightarrow> ?f x) = ?r"
    by (auto simp: ack_row_of_def dest: row_with_Some split: option.split)
  then show l: "row_with ak_alertKey j after = (if j = key then Some ?r else row_with ak_alertKey j t)"
    for j unfolding a using row_with_upsert [of ak_alertKey ?r ?f j t, OF k] by (simp add: ack_row_of_def)
  show "?r \<in> set after" using l [of key] by (auto dest: row_with_Some)
qed

lemma active_ack:
  assumes "distinct (map ak_alertKey t)" and "activeAcks t now = Inr acks" and "r \<in> set t"
  shows "if ak_acknowledgedAt r \<ge> now - DAY_MS
    then \<exists>i. map_of acks (ak_alertKey r) = Some i \<and> toInstantFromDate (ak_acknowledgedAt r) = Inr i
    else map_of acks (ak_alertKey r) = None"
proof -
  let ?xs = "filter (\<lambda>r. ak_acknowledgedAt r \<ge> now - ACK_TTL_MS) t"
  have d: "distinct (map ak_alertKey ?xs)" using assms(1) by (rule distinct_map_filter)
  note m = mapE_keyed [OF assms(2) [unfolded activeAcks_def] d]
  show ?thesis
  proof (cases "ak_acknowledgedAt r \<ge> now - DAY_MS")
    case True
    then have "r \<in> set ?xs" using assms(3) by (simp add: ACK_TTL_MS_def)
    then show ?thesis using m(1) [of r] True by auto
  next
    case False
    have "ak_alertKey r \<notin> ak_alertKey ` set ?xs"
    proof
      assume "ak_alertKey r \<in> ak_alertKey ` set ?xs"
      then obtain x where x: "x \<in> set ?xs" "ak_alertKey x = ak_alertKey r" by auto
      then have "x = r" using inj_onD [OF inj_on_of_distinct_map [OF assms(1)], of x r] assms(3) by simp
      then show False using x False by (simp add: ACK_TTL_MS_def)
    qed
    then show ?thesis using m(2) False by simp
  qed
qed

lemma ack_applied:
  assumes "distinct (map ak_alertKey t)" and "acknowledge key session note at_ms t = Inr (ack, after)"
    and "activeAcks after now = Inr acks" and "toInstantFromDate now = Inr at_time" and "al_key a = key"
  shows "applyAcks [a] acks at_time =
    (if now < at_ms + DAY_MS
     then bindE (toISOString (at_ms + DAY_MS)) (\<lambda>until. Inr [a\<lparr> al_acknowledgedUntil := Some until \<rparr>])
     else Inr [a])"
proof -
  note r = acknowledged_row [OF assms(1,2)]
  have n: "moment at_time = now" using date_instant_roundtrip(2) [OF assms(4)] by (simp add: moment_def)
  have i: "moment i = d" if "toInstantFromDate d = Inr i" for i d
    using date_instant_roundtrip(2) [OF that] by (simp add: moment_def)
  show ?thesis
    using active_ack [OF r(1) assms(3) r(2)] i assms(5)
    by (auto simp: applyAcks_def apply_ack_def n ack_row_of_def ACK_TTL_MS_def Let_def bindE_def split: if_splits sum.splits)
qed

section \<open>The feed\<close>

definition without_ack :: "alert \<Rightarrow> alert" where
  "without_ack a = a\<lparr> al_acknowledgedUntil := None \<rparr>"

lemma raised_unacknowledged:
  "a \<in> set (storeAlerts platform facts now) \<Longrightarrow> without_ack a = a"
  "without_ack (platformUnreachableAlert platform detail) = platformUnreachableAlert platform detail"
  by (auto simp: storeAlerts_def raise_alert_def without_ack_def platformUnreachableAlert_def Let_def
      split: if_splits option.splits)

lemma apply_ack_alert: "apply_ack acks now a = Inr b \<Longrightarrow> without_ack b = without_ack a"
  by (auto simp: apply_ack_def without_ack_def Let_def bindE_eq_Inr split: option.splits if_splits)

lemma applyAcks_alerts: "applyAcks as acks now = Inr bs \<Longrightarrow> map without_ack bs = map without_ack as"
  unfolding applyAcks_def by (induction as arbitrary: bs) (auto simp: bindE_eq_Inr apply_ack_alert)

lemma sorted_split:
  assumes "sorted (map f xs)" and "\<And>x. f x = (if P x then 0 else (1 :: nat), g x)"
  shows "\<exists>ys zs. xs = ys @ zs \<and> (\<forall>y \<in> set ys. P y) \<and> (\<forall>z \<in> set zs. \<not> P z)"
  using assms(1)
proof (induction xs)
  case (Cons x xs)
  then obtain ys zs where i: "xs = ys @ zs" "\<forall>y \<in> set ys. P y" "\<forall>z \<in> set zs. \<not> P z" by auto
  show ?case
  proof (cases "P x")
    case True
    then show ?thesis using i by (intro exI [of _ "x # ys"] exI [of _ zs]) simp
  next
    case False
    have "\<not> P y" if "y \<in> set xs" for y
      using Cons.prems that False assms(2) by (fastforce simp: less_eq_prod_def split: if_splits)
    then show ?thesis using False by (intro exI [of _ "[]"] exI [of _ "x # xs"]) auto
  qed
qed simp

lemma sortAlerts_split:
  "\<exists>ys zs. sortAlerts collate as = ys @ zs \<and> (\<forall>a \<in> set ys. al_acknowledgedUntil a = None)
     \<and> (\<forall>a \<in> set zs. al_acknowledgedUntil a \<noteq> None)"
  unfolding sortAlerts_def by (rule sorted_split [OF sorted_sort_key]) simp

lemma sorted_partition:
  assumes "\<exists>ys zs. xs = ys @ zs \<and> (\<forall>y \<in> set ys. f y = None) \<and> (\<forall>z \<in> set zs. f z \<noteq> None)"
  shows "xs = filter (\<lambda>a. f a = None) xs @ filter (\<lambda>a. f a \<noteq> None) xs"
  using assms by (auto simp: filter_id_conv filter_empty_conv)

lemma handle_alerts_raised:
  "\<not> isl (handle_alerts read_db shown now at_time handle) \<Longrightarrow> a \<in> set (projr (handle_alerts read_db shown now at_time handle))
    \<Longrightarrow> without_ack a = a"
  by (auto simp: handle_alerts_def raised_unacknowledged(1) split: sum.splits)

lemma feed_raised:
  fixes probe clock r read_db shown now at_time
  defines "fan \<equiv> fst (queryPlatforms probe clock r (handle_alerts read_db shown now at_time))"
  shows "map without_ack (concat (map pr_value (fo_ok fan))
      @ map (\<lambda>f. platformUnreachableAlert (pf_platform f) (pf_reason f)) (fo_failed fan))
    = concat (map pr_value (fo_ok fan))
      @ map (\<lambda>f. platformUnreachableAlert (pf_platform f) (pf_reason f)) (fo_failed fan)"
proof -
  have "without_ack a = a" if "x \<in> set (fo_ok fan)" and "a \<in> set (pr_value x)" for x a
    using that unfolding fan_def queryPlatforms_def
    by (auto simp: Let_def split_beta fanOut_parts fan_ok_def dest: handle_alerts_raised)
  then have "map without_ack (concat (map pr_value (fo_ok fan))) = concat (map pr_value (fo_ok fan))"
    by (intro map_idI) auto
  then show ?thesis by (simp add: comp_def raised_unacknowledged(2))
qed

lemma unacknowledged_stay:
  assumes "map without_ack as = as" and "applyAcks as [] at_time = Inr bs" and "b \<in> set bs"
  shows "al_acknowledgedUntil b = None"
proof -
  have "applyAcks as [] at_time = Inr as"
    unfolding applyAcks_def by (induction as) (simp_all add: apply_ack_def)
  then have "b \<in> set as" using assms by simp
  then have "without_ack b = b" using assms(1) by (metis in_set_conv_nth nth_map)
  moreover have "al_acknowledgedUntil (without_ack b) = None" by (simp add: without_ack_def)
  ultimately show ?thesis by simp
qed

section \<open>Keys of alerts\<close>

lemma before_mark:
  assumes "c \<notin> set p" and "c \<notin> set q" and "p @ c # s = q @ c # t"
  shows "p = q \<and> s = t"
  using assms
proof (induction p arbitrary: q)
  case Nil
  then show ?case by (cases q) auto
next
  case (Cons x p)
  then show ?case by (cases q) auto
qed

lemma before_optional_mark:
  assumes "c \<notin> set p" and "c \<notin> set q"
    and "(case s of None \<Rightarrow> p | Some i \<Rightarrow> p @ c # i) = (case t of None \<Rightarrow> q | Some i \<Rightarrow> q @ c # i)"
  shows "p = q \<and> s = t"
proof -
  have no: "p \<noteq> q @ c # i" "p @ c # i \<noteq> q" for i using assms(1,2) by auto
  show ?thesis
  proof (cases s)
    case None
    then show ?thesis using assms(3) no(1) by (cases t) (simp_all only: option.case)
  next
    case (Some i)
    then show ?thesis using assms(3) no(2) before_mark [OF assms(1,2)]
      by (cases t) (simp_all only: option.case option.inject option.distinct)
  qed
qed

lemma kind_name_plain: "CHR '':'' \<notin> set (alert_kind_name k)"
  by (cases k) simp_all

lemma kind_name_inject: "alert_kind_name k = alert_kind_name l \<longleftrightarrow> k = l"
  by (cases k; cases l) simp_all

lemma platform_plain:
  assumes "isPlatformId p"
  shows "CHR '':'' \<notin> set p"
proof
  assume c: "CHR '':'' \<in> set p"
  have "slug_char x" if "x \<in> set p" for x
    using assms that unfolding isPlatformId_def by (cases p) (auto simp: list_all_iff slug_char_def)
  then have "slug_char (CHR '':'')" using c by simp
  then show False by (simp add: slug_char_def slug_first_def)
qed

lemma alertKey_parts: "alertKey k p s = alert_kind_name k @ CHR '':'' # (case s of None \<Rightarrow> p | Some i \<Rightarrow> p @ CHR '':'' # i)"
  by (simp add: alertKey_def split: option.split)

lemma alertKey_inject:
  assumes "isPlatformId p" and "isPlatformId q" and "alertKey k p s = alertKey l q t"
  shows "k = l \<and> p = q \<and> s = t"
proof -
  have "alert_kind_name k = alert_kind_name l \<and>
      (case s of None \<Rightarrow> p | Some i \<Rightarrow> p @ CHR '':'' # i) = (case t of None \<Rightarrow> q | Some i \<Rightarrow> q @ CHR '':'' # i)"
    by (rule before_mark [OF kind_name_plain kind_name_plain assms(3) [unfolded alertKey_parts]])
  then show ?thesis
    using before_optional_mark [OF platform_plain [OF assms(1)] platform_plain [OF assms(2)]] kind_name_inject by metis
qed

section \<open>Pages\<close>

text \<open>Following the cursors, with fuel.\<close>

fun follow_pages :: "nat \<Rightarrow> platform_store list \<Rightarrow> int \<Rightarrow> nat \<Rightarrow> platform_store list option" where
  "follow_pages 0 xs cursor limit = None"
| "follow_pages (Suc n) xs cursor limit =
     (let page = paginate xs cursor limit
      in case sp_nextCursor page of
           None \<Rightarrow> Some (sp_stores page)
         | Some following \<Rightarrow> map_option (\<lambda>rest. sp_stores page @ rest) (follow_pages n xs following limit))"

lemma follow_pages_all:
  assumes "0 < limit" and "length xs < k + n"
  shows "follow_pages n xs (int k) limit = Some (drop k xs) \<or> n = 0"
  using assms(2)
proof (induction n arbitrary: k)
  case (Suc n)
  show ?case
  proof (cases "int k + int limit < int (length xs)")
    case True
    have "length xs < (k + limit) + n" using Suc.prems assms(1) by linarith
    moreover have "n \<noteq> 0" using calculation True by (cases n) auto
    ultimately have "follow_pages n xs (int (k + limit)) limit = Some (drop (k + limit) xs)"
      using Suc.IH by blast
    moreover have "take limit (drop k xs) @ drop (k + limit) xs = drop k xs"
      by (metis append_take_drop_id drop_drop add.commute)
    ultimately show ?thesis using True by (simp add: paginate_def)
  next
    case False
    then have "take limit (drop k xs) = drop k xs" by simp
    then show ?thesis using False by (simp add: paginate_def)
  qed
qed simp

lemma sortStores_mset: "mset (sortStores collate xs by_what) = mset xs"
  by (cases by_what) simp_all

section \<open>Saved views\<close>

lemma count_stores:
  "foldl count_store c xs = \<lparr> vc_trialing = vc_trialing c + count_rows (\<lambda>s. sub_field ps_status s = Some ''trialing'') xs,
     vc_overCap = vc_overCap c + count_rows (\<lambda>s. cu_overCap (capUsage s)) xs,
     vc_pastDue = vc_pastDue c + count_rows (\<lambda>s. sub_field ps_status s = Some ''past_due'') xs,
     vc_lowCoverage = vc_lowCoverage c + count_rows (\<lambda>s. HF_coverage_low \<in> set (sh_flags (sm_health s))) xs,
     vc_silent = vc_silent c + count_rows (\<lambda>s. HF_silent \<in> set (sh_flags (sm_health s))) xs \<rparr>"
  by (induction xs arbitrary: c) (simp_all add: count_store_def count_rows_def)

end
