(* ===== verification/PortalProperties.thy ===== *)
theory PortalProperties
  imports PortalFacts OpsProperties
begin

text \<open>
  What the operator portal shows: every platform accounted for, only databases read that passed the
  checks, totals that do not depend on how the stores are spread over databases, alerts that are
  neither lost nor silenced for longer than a day. The witnesses use a portal of two platforms of
  which one cannot be reached; a database is its platform's name.
\<close>

definition sample_configs :: "platform_config list" where
  "sample_configs =
     [\<lparr> pc_platform = ''salla'', pc_databaseUrl = ''postgres://a'', pc_adminApi = None \<rparr>,
      \<lparr> pc_platform = ''zid'', pc_databaseUrl = ''postgres://b'', pc_adminApi = None \<rparr>]"

definition sample_answer :: platform_probe where
  "sample_answer = \<lparr> pb_defaultTransactionReadOnly = True, pb_canInsertOrders = False,
     pb_canReadCredentials = False, pb_platforms = [''salla''] \<rparr>"

definition sample_probe :: "string \<Rightarrow> platform_probe attempt" where
  "sample_probe db = (if db = ''salla'' then Inr sample_answer else Inl (Thrown_other ''refused''))"

definition sample_registry :: "string platform_registry" where
  "sample_registry = createPlatformRegistry sample_configs pc_platform"

lemma sample_registry_open: "portal_registry sample_configs pc_platform (\<lambda>_. {sample_answer}) sample_registry"
  unfolding sample_registry_def by (rule portal_registry.opened)

lemma sample_distinct: "distinct (map pc_platform sample_configs)"
  by (simp add: sample_configs_def)

lemma sample_given: "sample_probe d = Inr a \<Longrightarrow> a \<in> {sample_answer}"
  by (simp add: sample_probe_def split: if_splits)

section \<open>Configuration\<close>

text \<open>
  C33. The portal starts only on a complete configuration: every listed slug is usable, none is
  listed twice, and each has its database and either both variables of its admin interface or
  neither; then exactly the listed platforms are configured, in order, and no two of them read the
  same variable. Anything else is a configuration error.
\<close>

theorem platform_configs_all_or_nothing:
  "loadPlatformConfigs env =
      (case read_env env ''GHALLA_PLATFORMS'' of
         None \<Rightarrow> Inl PlatformConfigError
       | Some raw \<Rightarrow>
           if listed_slugs raw \<noteq> [] \<and> (\<forall>slug \<in> set (listed_slugs raw). usable_slug env slug) \<and> distinct (listed_slugs raw)
           then Inr (map (config_of env) (listed_slugs raw)) else Inl PlatformConfigError)
    \<and> (\<forall>configs. loadPlatformConfigs env = Inr configs \<longrightarrow>
      distinct (map pc_platform configs) \<and> distinct (map (envSuffixFor \<circ> pc_platform) configs)
      \<and> (\<forall>c \<in> set configs. isPlatformId (pc_platform c)))"
proof (intro conjI allI impI)
  show all: "loadPlatformConfigs env =
      (case read_env env ''GHALLA_PLATFORMS'' of
         None \<Rightarrow> Inl PlatformConfigError
       | Some raw \<Rightarrow>
           if listed_slugs raw \<noteq> [] \<and> (\<forall>slug \<in> set (listed_slugs raw). usable_slug env slug) \<and> distinct (listed_slugs raw)
           then Inr (map (config_of env) (listed_slugs raw)) else Inl PlatformConfigError)"
    by (auto simp: loadPlatformConfigs_def load_slugs_iff split: option.split)
  fix configs assume "loadPlatformConfigs env = Inr configs"
  then obtain slugs where s: "configs = map (config_of env) slugs" "distinct slugs" "\<forall>s \<in> set slugs. usable_slug env s"
    unfolding all by (auto split: option.splits if_splits)
  have "inj_on envSuffixFor (set slugs)"
    using s(3) envSuffixFor_inject by (auto simp: inj_on_def usable_slug_def)
  then show "distinct (map pc_platform configs)" "distinct (map (envSuffixFor \<circ> pc_platform) configs)"
      "\<forall>c \<in> set configs. isPlatformId (pc_platform c)"
    using s by (simp_all add: distinct_map comp_def config_of_def usable_slug_def)
qed

definition sample_platform_env :: env where
  "sample_platform_env =
     (\<lambda>_. None)(''GHALLA_PLATFORMS'' \<mapsto> ''salla, zid'', ''DATABASE_URL_SALLA'' \<mapsto> ''postgres://a'',
       ''DATABASE_URL_ZID'' \<mapsto> ''postgres://b'')"

lemma sample_platform_env_loads: "loadPlatformConfigs sample_platform_env = Inr sample_configs"
  by code_simp

theorem platform_configs_all_or_nothing_witness:
  "distinct (map (envSuffixFor \<circ> pc_platform) sample_configs) \<and> loadPlatformConfigs (\<lambda>_. None) = Inl PlatformConfigError"
proof
  show "distinct (map (envSuffixFor \<circ> pc_platform) sample_configs)"
    using platform_configs_all_or_nothing [of sample_platform_env] sample_platform_env_loads by blast
  show "loadPlatformConfigs (\<lambda>_. None) = Inl PlatformConfigError"
    by code_simp
qed

section \<open>Reading every platform\<close>

text \<open>
  C23. Whatever the databases do, each configured platform is in a merged answer exactly once: with
  its value, when its check is clean and its read succeeds, or among the missing ones; the answer is
  marked partial exactly when one is missing. What a platform contributes depends on its own check
  and its own read only.
\<close>

theorem no_platform_missing:
  assumes "portal_registry configs connect given r" and "distinct (map pc_platform configs)"
  shows "mset (map pr_platform (fo_ok (fst (queryPlatforms probe now r run))))
        + mset (map pf_platform (fo_failed (fst (queryPlatforms probe now r run))))
      = mset (map pc_platform configs)
    \<and> (fo_partial (fst (queryPlatforms probe now r run)) \<longleftrightarrow> fo_failed (fst (queryPlatforms probe now r run)) \<noteq> [])
    \<and> (\<forall>c \<in> set configs. \<forall>v. \<lparr> pr_platform = pc_platform c, pr_value = v \<rparr> \<in> set (fo_ok (fst (queryPlatforms probe now r run)))
        \<longleftrightarrow> toPlatformHealth (fst (verify probe now r (pc_platform c)))
              = \<lparr> hp_platform = pc_platform c, hp_reachable = True, hp_usable = True, hp_detail = None \<rparr>
          \<and> run \<lparr> ph_platform = pc_platform c, ph_db = connect c, ph_adminApi = pc_adminApi c \<rparr> = Inr v)"
proof -
  note ok = portal_registry_ok [OF assms] and configs = portal_registry_configs [OF assms(1)]
  have h: "toPlatformHealth (fst (verify probe now r p))
      = \<lparr> hp_platform = p, hp_reachable = True, hp_usable = True, hp_detail = None \<rparr>
      \<longleftrightarrow> clean (fst (verify probe now r p))" for p
    using verify_platform [OF ok] by (auto simp: toPlatformHealth_def clean_def Let_def)
  show ?thesis
    using query_accounts [OF ok, of probe now run] query_ok [OF ok, of _ probe now run]
      portal_registry_connected [OF assms] by (simp add: configs h)
qed

lemma sample_query_ok: "map pr_platform (fo_ok (fst (queryPlatforms sample_probe ''t'' sample_registry (\<lambda>h. Inr (ph_db h))))) = [''salla'']"
  by code_simp

theorem no_platform_missing_witness:
  "mset (map pf_platform (fo_failed (fst (queryPlatforms sample_probe ''t'' sample_registry (\<lambda>h. Inr (ph_db h)))))) = {# ''zid'' #}
   \<and> fo_partial (fst (queryPlatforms sample_probe ''t'' sample_registry (\<lambda>h. Inr (ph_db h))))"
proof -
  let ?result = "fst (queryPlatforms sample_probe ''t'' sample_registry (\<lambda>h. Inr (ph_db h)))"
  note n = no_platform_missing [OF sample_registry_open sample_distinct, of sample_probe "''t''" "\<lambda>h. Inr (ph_db h)"]
  have c: "mset (map pc_platform sample_configs) = {# ''salla'' #} + {# ''zid'' #}"
    by (simp add: sample_configs_def)
  have m: "mset (map pf_platform (fo_failed ?result)) = {# ''zid'' #}"
    using n [THEN conjunct1] unfolding sample_query_ok c by (simp only: mset.simps add_right_cancel add_left_cancel)
  then have "fo_failed ?result \<noteq> []" by auto
  then show ?thesis using m n by blast
qed

text \<open>
  C6. Nothing is read from a database the checks did not clear: a value in a merged answer comes
  from the database configured for its platform, which has answered the probe that the role cannot
  insert orders or read credentials, is read-only by default, and holds no other platform's stores.
\<close>

theorem only_verified_databases_read:
  assumes "portal_registry configs connect given r" and "distinct (map pc_platform configs)"
    and "\<And>d a. probe d = Inr a \<Longrightarrow> a \<in> given d"
    and "x \<in> set (fo_ok (fst (queryPlatforms probe now r run)))"
  shows "\<exists>c \<in> set configs. pr_platform x = pc_platform c
    \<and> run \<lparr> ph_platform = pc_platform c, ph_db = connect c, ph_adminApi = pc_adminApi c \<rparr> = Inr (pr_value x)
    \<and> (\<exists>answer \<in> given (connect c). \<not> pb_canInsertOrders answer \<and> pb_defaultTransactionReadOnly answer
        \<and> \<not> pb_canReadCredentials answer \<and> set (pb_platforms answer) \<subseteq> {pr_platform x})"
proof -
  note ok = portal_registry_ok [OF assms(1,2)]
  have x: "pr_platform x \<in> set (map pc_platform configs)" "clean (fst (verify probe now r (pr_platform x)))"
    "run (handle_of r (pr_platform x)) = Inr (pr_value x)"
    using assms(4) unfolding query_ok [OF ok] portal_registry_configs [OF assms(1)] by auto
  obtain c where c: "c \<in> set configs" "pr_platform x = pc_platform c" using x(1) by auto
  note h = portal_registry_connected [OF assms(1,2) c(1)]
  obtain d answer where a: "map_of (rg_connections r) (pc_platform c) = Some d" "answer \<in> given d"
      "evaluateProbe (pc_platform c) answer = []"
    using verify_clean [OF ok assms(3) x(2)] c(2) by auto
  have "d = connect c"
    using a(1) handle_known(3) [OF ok, of "pc_platform c"] h c(1) portal_registry_configs [OF assms(1)] by simp
  then show ?thesis using a x(3) h c unfolding evaluateProbe_clean by auto
qed

theorem only_verified_databases_read_witness:
  "\<exists>answer \<in> {sample_answer}. \<not> pb_canInsertOrders answer \<and> pb_defaultTransactionReadOnly answer
     \<and> \<not> pb_canReadCredentials answer \<and> set (pb_platforms answer) \<subseteq> {''salla''}"
proof -
  have "\<lparr> pr_platform = ''salla'', pr_value = ''salla'' \<rparr>
      \<in> set (fo_ok (fst (queryPlatforms sample_probe ''t'' sample_registry (\<lambda>h. Inr (ph_db h)))))"
    by code_simp
  note read = only_verified_databases_read [OF sample_registry_open sample_distinct _ this]
  have "\<exists>c \<in> set sample_configs. \<exists>answer \<in> {sample_answer}. \<not> pb_canInsertOrders answer
      \<and> pb_defaultTransactionReadOnly answer \<and> \<not> pb_canReadCredentials answer \<and> set (pb_platforms answer) \<subseteq> {''salla''}"
    using read sample_given unfolding platform_result.select_convs by metis
  then show ?thesis by blast
qed

end
