(* ===== verification/AlertSpec.thy ===== *)
theory AlertSpec
  imports PortalFacts
begin

text \<open>
  Which alerts the stores and platforms call for, written over the facts of each store and the answer
  of each platform's database without the functions of the feed (\<open>StoreHealth\<close>), and the proof that
  the feed raises exactly these. An alert is identified with its acknowledgement left out.
\<close>

section \<open>The alerts that are due\<close>

definition A_DAY :: int where
  "A_DAY = 24 * 60 * 60 * 1000"

text \<open>When a store gives cause for an alert of each kind; \<open>now\<close> is in milliseconds.\<close>

fun cause :: "int \<Rightarrow> store_facts \<Rightarrow> alert_kind \<Rightarrow> bool" where
  "cause now f AK_silent_store \<longleftrightarrow>
     sf_uninstalledAt f = None \<and> (case sf_subscription f of None \<Rightarrow> False | Some s \<Rightarrow> status_pays (ps_status s))
     \<and> moment (sf_installedAt f) + A_DAY \<le> now
     \<and> (case sf_lastWebhookAt f of None \<Rightarrow> True | Some w \<Rightarrow> moment w + A_DAY \<le> now)"
| "cause now f AK_stuck_backfill \<longleftrightarrow>
     (case sf_backfill f of None \<Rightarrow> False | Some b \<Rightarrow> bs_status b \<noteq> ''complete''
        \<and> (case bs_startedAt b of None \<Rightarrow> False | Some i \<Rightarrow> moment i + A_DAY \<le> now))"
| "cause now f AK_failed_jobs \<longleftrightarrow> 1 \<le> sf_failedJobs f"
| "cause now f AK_past_due \<longleftrightarrow> (case sf_subscription f of None \<Rightarrow> False | Some s \<Rightarrow> ps_status s = ''past_due'')"
| "cause now f AK_platform_unreachable \<longleftrightarrow> False"

fun wording :: "store_facts \<Rightarrow> alert_kind \<Rightarrow> string" where
  "wording f AK_silent_store = (case sf_lastWebhookAt f of
     None \<Rightarrow> ''no webhook has ever arrived from this store'' | Some w \<Rightarrow> ''no webhook since '' @ w)"
| "wording f AK_stuck_backfill = (case sf_backfill f of None \<Rightarrow> [] | Some b \<Rightarrow>
     ''order backfill is '' @ CHR 0x22 # bs_status b @ CHR 0x22 # '' and has not completed'')"
| "wording f AK_failed_jobs = show_int (sf_failedJobs f) @ '' failed events in 24h''"
| "wording f AK_past_due = ''payment has not been collected''"
| "wording f AK_platform_unreachable = []"

definition store_alert :: "string \<Rightarrow> store_facts \<Rightarrow> alert_kind \<Rightarrow> alert" where
  "store_alert p f kind = \<lparr> al_key = alert_kind_name kind @ '':'' @ p @ '':'' @ sf_storeId f, al_kind = kind,
     al_platform = p, al_storeId = Some (sf_storeId f), al_detail = wording f kind, al_acknowledgedUntil = None \<rparr>"

definition missing_alert :: "string \<Rightarrow> string \<Rightarrow> alert" where
  "missing_alert p reason = \<lparr> al_key = ''platform_unreachable:'' @ p, al_kind = AK_platform_unreachable,
     al_platform = p, al_storeId = None, al_detail = reason, al_acknowledgedUntil = None \<rparr>"

definition due_alerts :: "int \<Rightarrow> string \<Rightarrow> store_facts \<Rightarrow> alert list" where
  "due_alerts now p f = map (store_alert p f)
     (filter (cause now f) [AK_silent_store, AK_stuck_backfill, AK_failed_jobs, AK_past_due])"

text \<open>
  Why a platform cannot be listed: its check found the database unreachable or unfit, the read failed,
  or the facts could not be computed. Otherwise the summaries of its stores.
\<close>

definition platform_stores ::
  "connection_check \<Rightarrow> 'p portal_tables attempt \<Rightarrow> (js_error \<Rightarrow> thrown) \<Rightarrow> int \<Rightarrow> string + store_summary list" where
  "platform_stores check tables shown now =
     (if \<not> ck_reachable check \<or> ck_problems check \<noteq> [] then Inl (describeCheck check)
      else case tables of
        Inl e \<Rightarrow> Inl (describeError e)
      | Inr t \<Rightarrow> (case storeSummaries t now of Inl e \<Rightarrow> Inl (describeError (shown e)) | Inr ss \<Rightarrow> Inr ss))"

definition platform_alerts :: "int \<Rightarrow> string \<Rightarrow> string + store_summary list \<Rightarrow> alert list" where
  "platform_alerts now p stores =
     (case stores of Inl reason \<Rightarrow> [missing_alert p reason]
      | Inr ss \<Rightarrow> concat (map (\<lambda>s. due_alerts now p (sm_facts s)) ss))"

section \<open>The feed raises them\<close>

lemma storeAlerts_due:
  assumes "moment at_time = now"
  shows "storeAlerts p f at_time = due_alerts now p f"
proof -
  have day: "DAY_MS = A_DAY" by (simp add: DAY_MS_def A_DAY_def)
  have silent: "isSilent f at_time \<longleftrightarrow> cause now f AK_silent_store"
    by (auto simp: isSilent_def isLive_def ageMs_def assms day split: option.split)
  have stuck: "stuckBackfill f at_time = (if cause now f AK_stuck_backfill then sf_backfill f else None)"
    by (auto simp: stuckBackfill_def ageMs_def assms day split: option.split)
  have late: "is_past_due f \<longleftrightarrow> cause now f AK_past_due" by (simp add: is_past_due_def split: option.split)
  show ?thesis
    unfolding storeAlerts_def Let_def silent stuck late
    by (auto simp: due_alerts_def store_alert_def raise_alert_def alertKey_def simp del: cause.simps(1,4) split: option.splits)
qed

lemma storeSummaries_stores:
  assumes "storeSummaries t now = Inr ss"
  shows "map sm_storeId ss = map so_id (ta_stores t)"
proof -
  have named: "sm_storeId s = so_id row" if "summary_of x a b c d e f row = Inr s" for x a b c d e f row s
    using that by (auto simp: summary_of_def bindE_eq_Inr Let_def)
  obtain x a b c d e f where "mapE (summary_of x a b c d e f) (ta_stores t) = Inr ss"
    using assms by (auto simp: storeSummaries_def bindE_eq_Inr)
  then show ?thesis using named by (intro mapE_map_fst)
qed

text \<open>Answers and failures of a fan-out, gathered platform by platform.\<close>

lemma fan_gathered:
  "mset (concat (map pr_value (fan_ok id run ps)) @ map (\<lambda>x. u (pf_platform x) (pf_reason x)) (fan_failed id run ps))
    = mset (concat (map (\<lambda>p. case run p of Inl e \<Rightarrow> [u p (describeError e)] | Inr v \<Rightarrow> v) ps))"
  by (induction ps) (auto simp: fan_ok_def fan_failed_def split: sum.splits)

lemma checked_gathered:
  "mset (map g (filter (\<lambda>p. \<not> c p) ps)) + mset (concat (map f (filter c ps)))
    = mset (concat (map (\<lambda>p. if c p then f p else [g p]) ps))"
  by (induction ps) auto

lemma feed_due:
  fixes probe clock r read_db shown now at_time connect
  defines "fan \<equiv> fst (queryPlatforms probe clock r (handle_alerts read_db shown now at_time))"
    and "stores \<equiv> \<lambda>c. platform_stores (fst (verify probe clock r (pc_platform c))) (read_db (connect c)) shown now"
  assumes reg: "portal_registry configs connect given r" "distinct (map pc_platform configs)"
    and time: "moment at_time = now"
  shows "mset (concat (map pr_value (fo_ok fan))
        @ map (\<lambda>f. platformUnreachableAlert (pf_platform f) (pf_reason f)) (fo_failed fan))
      = mset (concat (map (\<lambda>c. platform_alerts now (pc_platform c) (stores c)) configs))"
    and "fo_partial fan \<longleftrightarrow> (\<exists>c \<in> set configs. isl (stores c))"
proof -
  note ok = portal_registry_ok [OF reg] and configs = portal_registry_configs [OF reg(1)]
  let ?check = "\<lambda>p. fst (verify probe clock r p)"
  let ?run = "\<lambda>p. handle_alerts read_db shown now at_time (handle_of r p)"
  let ?u = "platformUnreachableAlert"
  let ?ps = "map pc_platform configs"
  note parts = queryPlatforms_parts [OF ok, of probe clock "handle_alerts read_db shown now at_time", folded fan_def,
      unfolded configs]
  have missing: "?u p reason = missing_alert p reason" for p reason
    by (simp add: platformUnreachableAlert_def raise_alert_def alertKey_def missing_alert_def)
  have run: "(if clean (?check (pc_platform c)) then (case ?run (pc_platform c) of
        Inl e \<Rightarrow> [?u (pc_platform c) (describeError e)] | Inr v \<Rightarrow> v)
      else [?u (pc_platform c) (describeCheck (?check (pc_platform c)))])
    = platform_alerts now (pc_platform c) (stores c)"
    and lost: "\<not> clean (?check (pc_platform c)) \<or> isl (?run (pc_platform c)) \<longleftrightarrow> isl (stores c)" if "c \<in> set configs" for c
    unfolding missing portal_registry_connected [OF reg that]
    by (auto simp: stores_def platform_stores_def platform_alerts_def handle_alerts_def on_tables_def clean_def
        storeAlerts_due [OF time] split: sum.splits)
  have "mset (concat (map pr_value (fo_ok fan)) @ map (\<lambda>f. ?u (pf_platform f) (pf_reason f)) (fo_failed fan))
      = mset (map (\<lambda>p. ?u p (describeCheck (?check p))) (filter (\<lambda>p. \<not> clean (?check p)) ?ps))
        + mset (concat (map pr_value (fan_ok id ?run (filter (\<lambda>p. clean (?check p)) ?ps)))
          @ map (\<lambda>x. ?u (pf_platform x) (pf_reason x)) (fan_failed id ?run (filter (\<lambda>p. clean (?check p)) ?ps)))"
    by (simp add: parts usable_platforms_def configs comp_def del: filter_map)
  also have "\<dots> = mset (concat (map (\<lambda>p. if clean (?check p) then (case ?run p of
        Inl e \<Rightarrow> [?u p (describeError e)] | Inr v \<Rightarrow> v) else [?u p (describeCheck (?check p))]) ?ps))"
    unfolding fan_gathered by (rule checked_gathered)
  also have "\<dots> = mset (concat (map (\<lambda>c. platform_alerts now (pc_platform c) (stores c)) configs))"
    unfolding map_map comp_def using run by (intro arg_cong [of _ _ mset] arg_cong [of _ _ concat] map_cong) auto
  finally show "mset (concat (map pr_value (fo_ok fan)) @ map (\<lambda>f. ?u (pf_platform f) (pf_reason f)) (fo_failed fan))
      = mset (concat (map (\<lambda>c. platform_alerts now (pc_platform c) (stores c)) configs))" .
  have "fo_partial fan \<longleftrightarrow> (\<exists>p \<in> set ?ps. \<not> clean (?check p) \<or> isl (?run p))"
    by (auto simp: parts fan_failed_def usable_platforms_def configs filter_empty_conv)
  then show "fo_partial fan \<longleftrightarrow> (\<exists>c \<in> set configs. isl (stores c))" using lost by auto
qed

end
