(* ===== verification/ReportProperties.thy ===== *)
theory ReportProperties
  imports PortalProperties AlertSpec
begin

text \<open>
  What the reports of the operator portal say: totals, counts, alerts, pages and cached answers.
\<close>

lemma right_pair: "\<not> isl x \<Longrightarrow> \<exists>a b. x = Inr (a, b)"
  by (cases x) auto

section \<open>Totals\<close>

text \<open>The totals one overview of one database would show.\<close>

definition totals_of :: "platform_overview \<Rightarrow> overview_totals" where
  "totals_of v =
     \<lparr> ot_stores = po_stores v, ot_active = stc_active (po_statuses v), ot_trialing = stc_trialing (po_statuses v),
       ot_pastDue = stc_pastDue (po_statuses v), ot_listMrrMinor = mb_listMrrMinor (po_mrr v),
       ot_listArrMinor = mb_listArrMinor (po_mrr v), ot_unknownPlanSubscriptions = unknown_stores (po_mrr v),
       ot_ordersIngested24h = po_ordersIngested24h v, ot_queueDepth = ih_pending (po_ingestion v),
       ot_stalledJobs = ih_stalled (po_ingestion v),
       ot_webhookSuccessBps = successRateBps (ih_processed (po_ingestion v)) (ih_failed (po_ingestion v)),
       ot_coverageBps = cv_coverageBps (po_coverage v) \<rparr>"

lemma choose_each: "(\<And>x. x \<in> set xs \<Longrightarrow> \<exists>t. P t x) \<Longrightarrow> \<exists>ts. list_all2 P ts xs"
  by (induction xs) (auto simp: list_all2_Cons2)

text \<open>
  C11. The totals of the overview do not depend on how the stores are spread over the platforms'
  databases: they are the figures one database holding the tables of every answering platform would
  give. Rates are rounded once, on the sum, never as a sum of rounded rates.
\<close>

theorem overview_is_one_database:
  assumes "portal_registry configs connect given r" and "distinct (map pc_platform configs)"
    and "overview probe read_db shown clock r now = Inr (report, after)"
  shows "\<exists>ts. list_all2 (\<lambda>t x. \<exists>c \<in> set configs. pr_platform x = pc_platform c \<and> read_db (connect c) = Inr t)
      ts (ov_platforms report)
    \<and> (\<forall>v. platformOverview now (merged_tables ts) = Inr v \<longrightarrow> ov_totals report = totals_of v)"
proof -
  note ok = portal_registry_ok [OF assms(1,2)]
  define fan where "fan = fst (queryPlatforms probe clock r (on_tables read_db shown (platformOverview now)))"
  have o: "overview_of fan = Inr report"
    using assms(3) by (auto simp: overview_def fan_def bindE_eq_Inr split: prod.splits)
  let ?read = "\<lambda>t x. \<exists>c \<in> set configs. pr_platform x = pc_platform c \<and> read_db (connect c) = Inr t"
  let ?each = "\<lambda>t x. ?read t x \<and> platformOverview now t = Inr (pr_value x)"
  have "\<exists>t. ?each t x" if x: "x \<in> set (fo_ok fan)" for x
  proof -
    obtain c where c: "c \<in> set configs" "pr_platform x = pc_platform c"
        "on_tables read_db shown (platformOverview now) (handle_of r (pc_platform c)) = Inr (pr_value x)"
      using x unfolding fan_def query_ok [OF ok] portal_registry_configs [OF assms(1)] by auto
    then obtain t where "read_db (connect c) = Inr t" "platformOverview now t = Inr (pr_value x)"
      using portal_registry_connected [OF assms(1,2) c(1)] by (auto simp: on_tables_def split: sum.splits)
    then show ?thesis using c by (intro exI [of _ t] conjI bexI [of _ c])
  qed
  from choose_each [of "fo_ok fan" ?each, OF this] obtain ts where t: "list_all2 ?each ts (fo_ok fan)" by (rule exE)
  have i: "isInstant (fo_capturedAt fan)" and p: "ov_platforms report = fo_ok fan"
    using o by (auto simp: overview_of_def Let_def bindE_eq_Inr toInstant_iff split: if_splits)
  have "list_all2 (\<lambda>t x. platformOverview now t = Inr (pr_value x)) ts (fo_ok fan)"
    using t by (rule list_all2_mono) simp
  then have "ov_totals report = totals_of v" if "platformOverview now (merged_tables ts) = Inr v" for v
    using overview_merges [OF _ that i] o by (simp add: totals_of_def)
  moreover have "list_all2 ?read ts (ov_platforms report)"
    unfolding p using t by (rule list_all2_mono) simp
  ultimately show ?thesis by (intro exI [of _ ts] conjI allI impI)
qed

definition no_tables :: "nat portal_tables" where
  "no_tables = \<lparr> ta_stores = [], ta_subscriptions = [], ta_rollups = [], ta_events = [], ta_backfills = [],
     ta_orders = [], ta_payments = [] \<rparr>"

definition one_store :: "nat portal_tables" where
  "one_store = no_tables\<lparr> ta_stores := [\<lparr> so_id = ''store:salla:1'', so_platformStoreId = ''1'', so_currency = ''SAR'',
     so_timezone = ''Asia/Riyadh'', so_installedAt = 0, so_uninstalledAt = None \<rparr>] \<rparr>"

lemma sample_overview:
  "\<not> isl (overview sample_probe (\<lambda>_. Inr one_store) (\<lambda>_. Thrown_other ''e'') ''1970-02-01T00:00:00.000Z'' sample_registry 2678400000)"
  by code_simp

theorem overview_is_one_database_witness:
  "\<exists>report after. \<exists>ts :: nat portal_tables list. overview sample_probe (\<lambda>_. Inr one_store) (\<lambda>_. Thrown_other ''e'') ''1970-02-01T00:00:00.000Z'' sample_registry
     2678400000 = Inr (report, after)
   \<and> (\<forall>v. platformOverview 2678400000 (merged_tables ts) = Inr v \<longrightarrow> ov_totals report = totals_of v)"
proof -
  obtain report after where o: "overview sample_probe (\<lambda>_. Inr one_store) (\<lambda>_. Thrown_other ''e'')
      ''1970-02-01T00:00:00.000Z'' sample_registry 2678400000 = Inr (report, after)"
    using right_pair [OF sample_overview] by blast
  have "\<exists>ts :: nat portal_tables list. \<forall>v. platformOverview 2678400000 (merged_tables ts) = Inr v \<longrightarrow> ov_totals report = totals_of v"
    using overview_is_one_database [OF sample_registry_open sample_distinct o] by (elim exE conjE) (rule exI)
  then obtain ts :: "nat portal_tables list" where t: "\<forall>v. platformOverview 2678400000 (merged_tables ts) = Inr v \<longrightarrow> ov_totals report = totals_of v"
    by (rule exE)
  show ?thesis by (intro exI conjI, rule o, rule t)
qed

section \<open>The merchant's count\<close>

text \<open>
  C31. The orders counted against a store's cap in the portal, by a join over all subscriptions, are
  the orders counted for the merchant of that store over the window of its own subscription.
\<close>

theorem portal_count_is_merchants:
  assumes "distinct (map ss_storeId t)" and "row \<in> set t" and "toDomain row = Inr s"
  shows "\<exists>n. map_of (ordersInPeriodByStore t orders) (sub_storeId s) = Some n
    \<and> countLiveOrders (sub_storeId s) (usageWindow s) (map order_row.truncate orders) = Inr n"
  using portal_count [OF assms] by blast

definition sample_row :: subscription_row where
  "sample_row = \<lparr> ss_storeId = ''store:salla:1'', ss_planCode = ''growth'', ss_platformPlanId = None, ss_status = ''active'',
     ss_trialEndsAt = None, ss_currentPeriodStart = 0, ss_currentPeriodEnd = 2592000000, ss_lastEventAt = None,
     ss_lastReconciledAt = None, ss_pendingPlanCode = None, ss_pendingPlanEffectiveAt = None, ss_createdAt = 0, ss_updatedAt = 0 \<rparr>"

definition sample_order :: portal_order where
  "sample_order = \<lparr> or_storeId = ''store:salla:1'', or_placedAt = 5, or_ingestionSource = ''live'', or_id = ''o1'', or_isTest = False \<rparr>"

theorem portal_count_is_merchants_witness:
  "\<exists>s n. toDomain sample_row = Inr s \<and> map_of (ordersInPeriodByStore [sample_row] [sample_order]) (sub_storeId s) = Some n
    \<and> countLiveOrders (sub_storeId s) (usageWindow s) (map order_row.truncate [sample_order]) = Inr n"
proof -
  have "\<not> isl (toDomain sample_row)" by code_simp
  then obtain s where "toDomain sample_row = Inr s" by (cases "toDomain sample_row") simp_all
  then show ?thesis using portal_count_is_merchants [of "[sample_row]" sample_row s "[sample_order]"] by simp
qed

section \<open>Alerts\<close>


lemma sample_moment: "toInstantFromDate 0 = Inr ''1970-01-01T00:00:00.000Z''"
  by code_simp

lemma sample_feed:
  "\<not> isl (alertFeed sample_probe (\<lambda>_. Inr one_store) (\<lambda>_. Thrown_other ''e'') ''1970-01-01T00:00:00.000Z'' (map of_char) sample_registry
     (Inl (Thrown_other ''down'')) 0)"
  by code_simp


text \<open>
  An acknowledgement silences its alert for exactly a day: whatever was acknowledged before, the
  alert is marked until a day after the moment of the acknowledgement, and raised again from then on.
\<close>

theorem acknowledgement_lasts_a_day:
  assumes "distinct (map ak_alertKey t)" and "acknowledge key session note at_ms t = Inr (ack, after)"
    and "activeAcks after now = Inr acks" and "toInstantFromDate now = Inr at_time" and "al_key a = key"
  shows "applyAcks [a] acks at_time =
    (if now < at_ms + 24 * 60 * 60 * 1000
     then bindE (toISOString (at_ms + 24 * 60 * 60 * 1000)) (\<lambda>until. Inr [a\<lparr> al_acknowledgedUntil := Some until \<rparr>])
     else Inr [a])"
  using ack_applied [OF assms] by (simp only: DAY_MS_def)

theorem acknowledgement_lasts_a_day_witness:
  "\<exists>acks. applyAcks [raise_alert AK_past_due ''salla'' (Some ''s'') ''d''] acks ''1970-01-01T00:00:00.000Z''
     = bindE (toISOString 86400000)
         (\<lambda>until. Inr [(raise_alert AK_past_due ''salla'' (Some ''s'') ''d'')\<lparr> al_acknowledgedUntil := Some until \<rparr>])"
proof -
  let ?key = "alertKey AK_past_due ''salla'' (Some ''s'')"
  obtain ack after where a: "acknowledge ?key ''me'' None 0 [] = Inr (ack, after)"
    by (auto simp: acknowledge_def sample_moment)
  have "after = [ack_row_of ?key ''me'' None 0]"
    using a by (simp add: acknowledge_def sample_moment upsert_def ack_row_of_def)
  then obtain acks where "activeAcks after 0 = Inr acks"
    by (simp add: activeAcks_def ack_row_of_def ACK_TTL_MS_def DAY_MS_def sample_moment)
  then show ?thesis
    using acknowledgement_lasts_a_day [OF _ a _ sample_moment, of acks "raise_alert AK_past_due ''salla'' (Some ''s'') ''d''"]
    by (intro exI [of _ acks]) (simp add: raise_alert_def)
qed

text \<open>
  Two alerts share a key, and so an acknowledgement, only when kind, platform and store are the
  same: a platform identifier holds no colon, so an alert of a platform is never one of a store.
\<close>

theorem alert_keys_differ:
  assumes "isPlatformId p" and "isPlatformId q"
  shows "alertKey k p s = alertKey l q t \<longleftrightarrow> k = l \<and> p = q \<and> s = t"
  using alertKey_inject [OF assms] by blast

theorem alert_keys_differ_witness:
  "alertKey AK_past_due ''salla'' (Some ''s'') \<noteq> alertKey AK_past_due ''salla'' None"
  using alert_keys_differ [of "''salla''" "''salla''"] by (simp add: isPlatformId_def slug_char_def slug_first_def)

section \<open>Who acted\<close>

text \<open>
  C26. The session written beside an acknowledgement is the one the middleware verified for that very
  request, whatever header the client sent; and acknowledging one alert touches no other row.
\<close>

theorem audit_names_verified_session:
  assumes "middleware crypto url env pathname search cookie h now = Inr (MR_next forwarded)" and "\<not> isPublicPath pathname"
    and "distinct (map ak_alertKey t)" and "acknowledgeAlert key forwarded note at_ms t = Inr (ack, after)"
  shows "\<exists>config session. loadAuthConfig env = Inr config
    \<and> verifySession crypto (ac_accessKey config) cookie now = Inr (SC_ok session)
    \<and> row_with ak_alertKey j after =
        (if j = key then Some \<lparr> ak_alertKey = key, ak_acknowledgedAt = at_ms,
             ak_actorSession = Some (if os_sessionId session = [] then ''unattributed'' else os_sessionId session), ak_note = note \<rparr>
         else row_with ak_alertKey j t)"
proof -
  obtain config session where c: "loadAuthConfig env = Inr config"
      "verifySession crypto (ac_accessKey config) cookie now = Inr (SC_ok session)"
      "forwarded = forwardedHeaders h (Some (os_sessionId session))"
    using middleware_next [OF assms(1)] assms(2) by (metis session_check.case(1))
  have "sessionFromHeaders forwarded = (if os_sessionId session = [] then None else Some (os_sessionId session))"
    unfolding c(3) sessionFromHeaders_def forwarded_session by simp
  then have "acknowledge key (if os_sessionId session = [] then ''unattributed'' else os_sessionId session) note at_ms t
      = Inr (ack, after)"
    using assms(4) by (simp add: acknowledgeAlert_def split: if_splits)
  note a = acknowledged_row(3) [OF assms(3) this, of j]
  show ?thesis using c(1,2) a unfolding ack_row_of_def by (intro exI conjI)
qed

theorem audit_names_verified_session_witness:
  "\<exists>ack after. acknowledgeAlert ''k'' (forwardedHeaders (\<lambda>_. Some ''forged'') (Some (os_sessionId sample_session))) None 0 []
      = Inr (ack, after)
    \<and> map_option ak_actorSession (row_with ak_alertKey ''k'' after) = Some (Some (newSessionId ''r''))"
proof -
  let ?token = "mintSession sample_crypto sample_key sample_session"
  let ?h = "forwardedHeaders (\<lambda>_. Some ''forged'') (Some (os_sessionId sample_session))"
  have v: "verifySession sample_crypto sample_key (Some ?token) 5 = Inr (SC_ok sample_session)"
    using verify_minted [OF sample_mac sample_json, of sample_key sample_key 5] by (simp add: sample_session_def)
  have m: "middleware sample_crypto sample_url sample_env ''/stores'' [] (Some ?token) (\<lambda>_. Some ''forged'') 5 = Inr (MR_next ?h)"
    using v sample_config by (simp add: middleware_def gate_def guard_def)
  have n: "newSessionId ''r'' \<noteq> []" by code_simp
  obtain ack after where a: "acknowledgeAlert ''k'' ?h None 0 [] = Inr (ack, after)"
    by (auto simp: acknowledgeAlert_def acknowledge_def sample_moment Let_def)
  have "map_option ak_actorSession (row_with ak_alertKey ''k'' after) = Some (Some (newSessionId ''r''))"
    using audit_names_verified_session [OF m _ _ a, of "''k''"] v sample_config n
    by (auto simp: isPublicPath_def PUBLIC_PATHS_def LOGIN_PATH_def BRAND_FILES_PREFIX_def sample_session_def)
  then show ?thesis using a by (intro exI conjI)
qed

section \<open>Pages and cached answers\<close>

text \<open>
  C40. Following the cursors of the store list from the first page ends, and shows every store that
  matches the filter exactly once, in the order asked for, whatever the page size.
\<close>

theorem pages_show_every_store:
  assumes "0 < limit"
  shows "\<exists>listed. follow_pages (Suc (length stores)) (sortStores collate (filter (\<lambda>s. matchesFilter s f) stores) by_what) 0 limit
      = Some listed
    \<and> listed = sortStores collate (filter (\<lambda>s. matchesFilter s f) stores) by_what
    \<and> mset listed = {# s \<in># mset stores. matchesFilter s f #}"
proof -
  let ?xs = "sortStores collate (filter (\<lambda>s. matchesFilter s f) stores) by_what"
  have m: "mset ?xs = {# s \<in># mset stores. matchesFilter s f #}" by (simp add: sortStores_mset)
  have "length ?xs = length (filter (\<lambda>s. matchesFilter s f) stores)" by (metis size_mset sortStores_mset)
  then have "length ?xs < 0 + Suc (length stores)" by (simp add: le_imp_less_Suc)
  from follow_pages_all [OF assms this] show ?thesis using m by simp
qed

definition alarmed :: store_summary where
  "alarmed = \<lparr> sm_storeId = ''store:salla:1'', sm_platformStoreId = ''1'', sm_currency = ''SAR'', sm_timezone = ''Asia/Riyadh'',
     sm_facts = \<lparr> sf_storeId = ''store:salla:1'', sf_installedAt = ''1970-01-01T00:00:00.000Z'', sf_uninstalledAt = None,
       sf_subscription = None, sf_coverage = None, sf_lastWebhookAt = None, sf_failedJobs = 2, sf_backfill = None,
       sf_ordersInPeriod = 0, sf_dashboardSession = None \<rparr>,
     sm_health = \<lparr> sh_storeId = ''store:salla:1'', sh_flags = [], sh_healthy = True \<rparr>,
     sm_activation = \<lparr> av_storeId = ''store:salla:1'', av_backfillComplete = False, av_coverageAboveThreshold = False,
       av_dashboardSession = None, av_activated = None \<rparr> \<rparr>"

theorem pages_show_every_store_witness:
  "follow_pages 3 [with_platform ''salla'' alarmed, with_platform ''zid'' alarmed] 0 1
     = Some [with_platform ''salla'' alarmed, with_platform ''zid'' alarmed]"
proof -
  let ?f = "\<lparr> ft_platform = None, ft_status = None, ft_plan = None, ft_needsAttention = False \<rparr>"
  let ?stores = "[with_platform ''salla'' alarmed, with_platform ''zid'' alarmed]"
  have "sortStores (map of_char) (filter (\<lambda>s. matchesFilter s ?f) ?stores) SS_orders = ?stores"
    by (simp add: matchesFilter_def with_platform_def store_summary.defs)
  then show ?thesis using pages_show_every_store [of 1 ?stores "map of_char" ?f SS_orders] by (simp add: eval_nat_numeral)
qed

text \<open>
  C34. A report shown from the cache is never a minute old or older: after any requests, an answer is
  what its computation gives now, or what the same computation gave less than the cache's time to
  live before. A failed computation is never remembered.
\<close>

theorem cached_answers_are_recent:
  assumes "fst (aggregate_read (aggregate_after (new_AggregateCache DEFAULT_TTL_MS) reads) k now computed) = Inr v"
  shows "computed = Inr v \<or> (\<exists>t. (k, t, Inr v) \<in> set reads \<and> now < t + 60000)"
  using read_recent [OF backed_after assms] by (simp add: new_AggregateCache_def DEFAULT_TTL_MS_def)

theorem cached_answers_are_recent_witness:
  "\<exists>v. fst (aggregate_read (aggregate_after (new_AggregateCache DEFAULT_TTL_MS) [(''overview'', 0, Inr (1 :: nat))]) ''overview'' 60000
     (Inr 2)) = Inr v \<and> v = 2"
proof -
  let ?answer = "fst (aggregate_read (aggregate_after (new_AggregateCache DEFAULT_TTL_MS) [(''overview'', 0, Inr (1 :: nat))])
      ''overview'' 60000 (Inr 2))"
  have "\<not> isl ?answer" by (simp add: aggregate_read_def split: option.split)
  then obtain v where v: "?answer = Inr v" by (cases ?answer) simp_all
  show ?thesis using cached_answers_are_recent [OF v] v by auto
qed

end
