(* ===== verification/Sql.thy ===== *)
theory Sql
  imports Columns
begin

text \<open>
  What the tables of \<open>schema.ts\<close> and \<open>portal-schema.ts\<close> mean to PostgreSQL: column types, CHECK
  expressions over three truth values, keys, references with their actions on delete, and the
  statements the services and scripts run on them. A table definition is data, written as the
  source writes it; a row is the list of its columns with their values.

  A reference points to a table declared before, so the rows a deletion takes along are found in one
  pass over the tables. \<open>doomed\<close> is the declarative reading of the same: the rows from which a chain
  of cascading references leads to a deleted row.
\<close>

section \<open>Values and types\<close>

text \<open>Money is in minor units, an instant in milliseconds since the epoch.\<close>

datatype sql_value =
    V_null
  | V_text string
  | V_int int
  | V_bool bool
  | V_money int
  | V_instant int
  | V_date string
  | V_json string

datatype sql_type =
    Ty_text
  | Ty_integer
  | Ty_boolean
  | Ty_numeric nat nat
  | Ty_timestamptz
  | Ty_date
  | Ty_jsonb

fun value_fits :: "sql_type \<Rightarrow> sql_value \<Rightarrow> bool" where
  "value_fits ty V_null = True"
| "value_fits Ty_text (V_text s) = True"
| "value_fits Ty_integer (V_int n) = (- (2 ^ 31) \<le> n \<and> n < 2 ^ 31)"
| "value_fits Ty_boolean (V_bool b) = True"
| "value_fits (Ty_numeric p s) (V_money m) = (s = MONEY_SCALE \<and> \<bar>m\<bar> < 10 ^ p)"
| "value_fits Ty_timestamptz (V_instant t) = True"
| "value_fits Ty_date (V_date d) = True"
| "value_fits Ty_jsonb (V_json j) = True"
| "value_fits _ _ = False"

section \<open>Rows and expressions\<close>

type_synonym sql_row = "(string \<times> sql_value) list"

definition cell :: "sql_row \<Rightarrow> string \<Rightarrow> sql_value" where
  "cell r c = (case map_of r c of Some v \<Rightarrow> v | None \<Rightarrow> V_null)"

definition set_cell :: "string \<Rightarrow> sql_value \<Rightarrow> sql_row \<Rightarrow> sql_row" where
  "set_cell c v r = map (\<lambda>(d, w). (d, if d = c then v else w)) r"

datatype sql_expr =
    E_col string
  | E_lit sql_value
  | E_is_null sql_expr
  | E_is_not_null sql_expr
  | E_in sql_expr "string list"
  | E_not_like sql_expr string
  | E_eq sql_expr sql_expr
  | E_le sql_expr sql_expr
  | E_lt sql_expr sql_expr
  | E_and sql_expr sql_expr
  | E_or sql_expr sql_expr
  | E_add sql_expr sql_expr
  | E_sub sql_expr sql_expr
  | E_trunc_hour sql_expr

text \<open>A number in hundredths, so that an integer literal compares with an amount.\<close>

fun number_of :: "sql_value \<Rightarrow> int option" where
  "number_of (V_int n) = Some (100 * n)"
| "number_of (V_money m) = Some m"
| "number_of (V_instant t) = Some (100 * t)"
| "number_of _ = None"

definition sql_compare :: "(int \<Rightarrow> int \<Rightarrow> bool) \<Rightarrow> sql_value \<Rightarrow> sql_value \<Rightarrow> sql_value" where
  "sql_compare f v w = (case (number_of v, number_of w) of (Some a, Some b) \<Rightarrow> V_bool (f a b) | _ \<Rightarrow> V_null)"

definition sql_equal :: "sql_value \<Rightarrow> sql_value \<Rightarrow> sql_value" where
  "sql_equal v w =
     (if v = V_null \<or> w = V_null then V_null
      else case (number_of v, number_of w) of (Some a, Some b) \<Rightarrow> V_bool (a = b) | _ \<Rightarrow> V_bool (v = w))"

text \<open>Sums of amounts.\<close>

fun sql_plus :: "sql_value \<Rightarrow> sql_value \<Rightarrow> sql_value" where
  "sql_plus (V_money a) (V_money b) = V_money (a + b)"
| "sql_plus _ _ = V_null"

fun sql_minus :: "sql_value \<Rightarrow> sql_value \<Rightarrow> sql_value" where
  "sql_minus (V_money a) (V_money b) = V_money (a - b)"
| "sql_minus _ _ = V_null"

text \<open>Kleene's connectives.\<close>

definition sql_and :: "sql_value \<Rightarrow> sql_value \<Rightarrow> sql_value" where
  "sql_and v w =
     (if v = V_bool False \<or> w = V_bool False then V_bool False
      else if v = V_bool True \<and> w = V_bool True then V_bool True else V_null)"

definition sql_or :: "sql_value \<Rightarrow> sql_value \<Rightarrow> sql_value" where
  "sql_or v w =
     (if v = V_bool True \<or> w = V_bool True then V_bool True
      else if v = V_bool False \<and> w = V_bool False then V_bool False else V_null)"

text \<open>The pattern of \<open>LIKE\<close>: a per cent sign stands for any text, an underscore for one character.\<close>

fun sql_like :: "string \<Rightarrow> string \<Rightarrow> bool" where
  "sql_like [] s = (s = [])"
| "sql_like (p # ps) [] = (p = CHR ''%'' \<and> sql_like ps [])"
| "sql_like (p # ps) (c # cs) =
     (if p = CHR ''%'' then sql_like ps (c # cs) \<or> sql_like (p # ps) cs
      else (p = CHR ''_'' \<or> p = c) \<and> sql_like ps cs)"

fun eval :: "sql_row \<Rightarrow> sql_expr \<Rightarrow> sql_value" where
  "eval r (E_col c) = cell r c"
| "eval r (E_lit v) = v"
| "eval r (E_is_null e) = V_bool (eval r e = V_null)"
| "eval r (E_is_not_null e) = V_bool (eval r e \<noteq> V_null)"
| "eval r (E_in e values) = (case eval r e of V_text s \<Rightarrow> V_bool (s \<in> set values) | _ \<Rightarrow> V_null)"
| "eval r (E_not_like e pattern) = (case eval r e of V_text s \<Rightarrow> V_bool (\<not> sql_like pattern s) | _ \<Rightarrow> V_null)"
| "eval r (E_eq a b) = sql_equal (eval r a) (eval r b)"
| "eval r (E_le a b) = sql_compare (\<le>) (eval r a) (eval r b)"
| "eval r (E_lt a b) = sql_compare (<) (eval r a) (eval r b)"
| "eval r (E_and a b) = sql_and (eval r a) (eval r b)"
| "eval r (E_or a b) = sql_or (eval r a) (eval r b)"
| "eval r (E_add a b) = sql_plus (eval r a) (eval r b)"
| "eval r (E_sub a b) = sql_minus (eval r a) (eval r b)"
| "eval r (E_trunc_hour e) = (case eval r e of V_instant t \<Rightarrow> V_instant (t div 3600000 * 3600000) | _ \<Rightarrow> V_null)"

text \<open>A CHECK that is NULL passes.\<close>

definition passes :: "sql_row \<Rightarrow> sql_expr \<Rightarrow> bool" where
  "passes r e \<longleftrightarrow> eval r e \<noteq> V_bool False"

section \<open>Tables\<close>

datatype on_delete = Cascade | Set_null

datatype column_default = Default_value sql_value | Default_now

record column =
  col_name :: string
  col_type :: sql_type
  col_notNull :: bool
  col_primary :: bool
  col_default :: "column_default option"
  col_references :: "(string \<times> string \<times> on_delete) option"

text \<open>A unique constraint lists its columns, and whether NULL equals NULL in it.\<close>

record table_def =
  tab_name :: string
  tab_columns :: "column list"
  tab_primaryKey :: "string list"
  tab_uniques :: "(string \<times> string list \<times> bool) list"
  tab_checks :: "(string \<times> sql_expr) list"
  tab_indexes :: "(string \<times> string list \<times> sql_expr option) list"

text \<open>The column builders the schema files use.\<close>

definition plain_column :: "sql_type \<Rightarrow> string \<Rightarrow> column" where
  "plain_column ty name = \<lparr> col_name = name, col_type = ty, col_notNull = False, col_primary = False,
     col_default = None, col_references = None \<rparr>"

definition c_text :: "string \<Rightarrow> column" where "c_text = plain_column Ty_text"
definition c_int :: "string \<Rightarrow> column" where "c_int = plain_column Ty_integer"
definition c_bool :: "string \<Rightarrow> column" where "c_bool = plain_column Ty_boolean"
definition c_date :: "string \<Rightarrow> column" where "c_date = plain_column Ty_date"
definition c_json :: "string \<Rightarrow> column" where "c_json = plain_column Ty_jsonb"

definition c_money :: "string \<Rightarrow> column" where
  "c_money = plain_column (Ty_numeric MONEY_PRECISION MONEY_SCALE)"

definition c_instant :: "string \<Rightarrow> column" where "c_instant = plain_column Ty_timestamptz"

definition not_null :: "column \<Rightarrow> column" where "not_null c = c\<lparr> col_notNull := True \<rparr>"
definition primary :: "column \<Rightarrow> column" where "primary c = c\<lparr> col_primary := True, col_notNull := True \<rparr>"
definition default_to :: "sql_value \<Rightarrow> column \<Rightarrow> column" where "default_to v c = c\<lparr> col_default := Some (Default_value v) \<rparr>"
definition default_now :: "column \<Rightarrow> column" where "default_now c = c\<lparr> col_default := Some Default_now \<rparr>"

definition references_to :: "string \<Rightarrow> string \<Rightarrow> on_delete \<Rightarrow> column \<Rightarrow> column" where
  "references_to table col action c = c\<lparr> col_references := Some (table, col, action) \<rparr>"

lemmas column_defs = plain_column_def c_text_def c_int_def c_bool_def c_date_def c_json_def c_money_def
  c_instant_def not_null_def primary_def default_to_def default_now_def references_to_def

definition primary_key :: "table_def \<Rightarrow> string list" where
  "primary_key d = (if tab_primaryKey d \<noteq> [] then tab_primaryKey d
     else map col_name (filter col_primary (tab_columns d)))"

text \<open>The columns of a key and whether NULL equals NULL in it.\<close>

definition table_keys :: "table_def \<Rightarrow> (string list \<times> bool) list" where
  "table_keys d = (primary_key d, True) # map snd (tab_uniques d)"

definition mandatory :: "table_def \<Rightarrow> column \<Rightarrow> bool" where
  "mandatory d c \<longleftrightarrow> col_notNull c \<or> col_name c \<in> set (tab_primaryKey d)"

section \<open>Constraints\<close>

type_synonym sql_db = "string \<Rightarrow> sql_row list"

datatype sql_error =
    No_such_table string
  | No_such_column string string
  | Does_not_fit string
  | Not_null_violation string
  | Check_violation string
  | Unique_violation "string list"
  | Foreign_key_violation string

definition row_shape :: "table_def \<Rightarrow> sql_row \<Rightarrow> bool" where
  "row_shape d r \<longleftrightarrow> map fst r = map col_name (tab_columns d)"

definition column_ok :: "table_def \<Rightarrow> sql_row \<Rightarrow> column \<Rightarrow> bool" where
  "column_ok d r c \<longleftrightarrow> value_fits (col_type c) (cell r (col_name c))
     \<and> (mandatory d c \<longrightarrow> cell r (col_name c) \<noteq> V_null)"

definition checks_ok :: "table_def \<Rightarrow> sql_row \<Rightarrow> bool" where
  "checks_ok d r \<longleftrightarrow> list_all (\<lambda>(n, e). passes r e) (tab_checks d)"

definition same_key :: "string list \<times> bool \<Rightarrow> sql_row \<Rightarrow> sql_row \<Rightarrow> bool" where
  "same_key k r q \<longleftrightarrow> list_all (\<lambda>c. cell r c = cell q c \<and> (snd k \<or> cell r c \<noteq> V_null)) (fst k)"

definition key_free :: "sql_row list \<Rightarrow> sql_row \<Rightarrow> string list \<times> bool \<Rightarrow> bool" where
  "key_free rows r k \<longleftrightarrow> list_all (\<lambda>q. \<not> same_key k r q) rows"

definition reference_ok :: "sql_db \<Rightarrow> sql_row \<Rightarrow> column \<Rightarrow> bool" where
  "reference_ok db r c \<longleftrightarrow>
     (case col_references c of
        None \<Rightarrow> True
      | Some (t, k, a) \<Rightarrow> cell r (col_name c) = V_null \<or> list_ex (\<lambda>q. cell q k = cell r (col_name c)) (db t))"

section \<open>Statements\<close>

definition default_of :: "int \<Rightarrow> column \<Rightarrow> sql_value" where
  "default_of now c = (case col_default c of
     None \<Rightarrow> V_null | Some (Default_value v) \<Rightarrow> v | Some Default_now \<Rightarrow> V_instant now)"

definition complete_row :: "int \<Rightarrow> table_def \<Rightarrow> sql_row \<Rightarrow> sql_row" where
  "complete_row now d given = map (\<lambda>c. (col_name c,
     case map_of given (col_name c) of Some v \<Rightarrow> v | None \<Rightarrow> default_of now c)) (tab_columns d)"

definition find_table :: "table_def list \<Rightarrow> string \<Rightarrow> table_def option" where
  "find_table s t = find (\<lambda>d. tab_name d = t) s"

text \<open>The first constraint a new row would violate; CHECKs are tried in the order of their names.\<close>

definition violation :: "table_def \<Rightarrow> sql_db \<Rightarrow> sql_row \<Rightarrow> sql_error option" where
  "violation d db r =
     (case find (\<lambda>c. \<not> value_fits (col_type c) (cell r (col_name c))) (tab_columns d) of
        Some c \<Rightarrow> Some (Does_not_fit (col_name c))
      | None \<Rightarrow> (case find (\<lambda>c. mandatory d c \<and> cell r (col_name c) = V_null) (tab_columns d) of
        Some c \<Rightarrow> Some (Not_null_violation (col_name c))
      | None \<Rightarrow> (case find (\<lambda>(n, e). \<not> passes r e) (sort_key fst (tab_checks d)) of
        Some (n, e) \<Rightarrow> Some (Check_violation n)
      | None \<Rightarrow> (case find (\<lambda>k. \<not> key_free (db (tab_name d)) r k) (table_keys d) of
        Some k \<Rightarrow> Some (Unique_violation (fst k))
      | None \<Rightarrow> (case find (\<lambda>c. \<not> reference_ok db r c) (tab_columns d) of
        Some c \<Rightarrow> Some (Foreign_key_violation (col_name c))
      | None \<Rightarrow> None)))))"

definition insert_row :: "table_def list \<Rightarrow> int \<Rightarrow> string \<Rightarrow> sql_row \<Rightarrow> sql_db \<Rightarrow> sql_error + sql_db" where
  "insert_row s now t given db =
     (case find_table s t of
        None \<Rightarrow> Inl (No_such_table t)
      | Some d \<Rightarrow>
          (case find (\<lambda>c. c \<notin> set (map col_name (tab_columns d))) (map fst given) of
             Some c \<Rightarrow> Inl (No_such_column t c)
           | None \<Rightarrow>
               (let r = complete_row now d given
                in case violation d db r of
                     Some e \<Rightarrow> Inl e
                   | None \<Rightarrow> Inr (db(t := db t @ [r])))))"

fun insert_rows :: "table_def list \<Rightarrow> int \<Rightarrow> (string \<times> sql_row) list \<Rightarrow> sql_db \<Rightarrow> sql_error + sql_db" where
  "insert_rows s now [] db = Inr db"
| "insert_rows s now ((t, given) # rest) db =
     (case insert_row s now t given db of Inl e \<Rightarrow> Inl e | Inr db' \<Rightarrow> insert_rows s now rest db')"

text \<open>
  \<open>DELETE\<close> on one table: rows lose their cascading references with them, and a column that only
  notes a reference is set to NULL. The tables are visited in the order of their declaration.
\<close>

definition lost :: "sql_db \<Rightarrow> on_delete \<Rightarrow> sql_row \<Rightarrow> column \<Rightarrow> bool" where
  "lost db action r c \<longleftrightarrow>
     (case col_references c of None \<Rightarrow> False | Some (t, k, a) \<Rightarrow> a = action) \<and> \<not> reference_ok db r c"

definition keep_row :: "table_def \<Rightarrow> sql_db \<Rightarrow> sql_row \<Rightarrow> bool" where
  "keep_row d db r \<longleftrightarrow> \<not> list_ex (lost db Cascade r) (tab_columns d)"

definition null_lost :: "table_def \<Rightarrow> sql_db \<Rightarrow> sql_row \<Rightarrow> sql_row" where
  "null_lost d db r = fold (\<lambda>c q. if lost db Set_null r c then set_cell (col_name c) V_null q else q) (tab_columns d) r"

definition prune_table :: "table_def \<Rightarrow> sql_db \<Rightarrow> sql_db" where
  "prune_table d db = db(tab_name d := map (null_lost d db) (filter (keep_row d db) (db (tab_name d))))"

definition delete_rows :: "table_def list \<Rightarrow> string \<Rightarrow> (sql_row \<Rightarrow> bool) \<Rightarrow> sql_db \<Rightarrow> sql_db" where
  "delete_rows s t P db = fold prune_table s (db(t := filter (\<lambda>r. \<not> P r) (db t)))"

definition truncate_tables :: "string list \<Rightarrow> sql_db \<Rightarrow> sql_db" where
  "truncate_tables ts db = (\<lambda>t. if t \<in> set ts then [] else db t)"

end
