(* ===== verification/Schema.thy ===== *)
theory Schema
  imports Sql Money
begin

text \<open>
  The schema of an integration's database, \<open>packages/persistence/src/db/schema.ts\<close>: every table with
  its columns, keys, references, CHECK constraints and indexes, in the order of the file. A definition
  has the name of the source's constant followed by \<open>_table\<close>.
\<close>

section \<open>The admitted values (\<open>contracts/src/enums.ts\<close>)\<close>

definition ORDER_LIFECYCLES :: "string list" where
  "ORDER_LIFECYCLES = [''draft'', ''open'', ''completed'', ''cancelled'']"

definition PAYMENT_STATES :: "string list" where
  "PAYMENT_STATES = [''unpaid'', ''authorized'', ''paid'', ''partially_refunded'', ''refunded'', ''voided'',
    ''failed'']"

definition FULFILLMENT_STATES :: "string list" where
  "FULFILLMENT_STATES = [''unfulfilled'', ''partially_fulfilled'', ''in_transit'', ''delivered'', ''returned'',
    ''rto'', ''not_applicable'']"

definition FULFILLMENT_METHODS :: "string list" where
  "FULFILLMENT_METHODS = [''carrier'', ''pickup'', ''self_delivery'', ''digital'', ''other'']"

definition PAYMENT_INSTRUMENTS :: "string list" where
  "PAYMENT_INSTRUMENTS = [''card'', ''bnpl'', ''wallet'', ''cod'', ''bank_transfer'', ''free'', ''unknown'',
    ''other'']"

definition CARD_SCHEMES :: "string list" where
  "CARD_SCHEMES = [''mada'', ''visa'', ''mastercard'', ''amex'', ''unionpay'', ''other'', ''unknown'']"

definition PAYMENT_LEG_STATES :: "string list" where
  "PAYMENT_LEG_STATES = [''pending'', ''authorized'', ''captured'', ''failed'', ''refunded'']"

definition SHIPMENT_DIRECTIONS :: "string list" where
  "SHIPMENT_DIRECTIONS = [''outbound'', ''return'']"

definition SHIPMENT_STATUSES :: "string list" where
  "SHIPMENT_STATUSES = [''created'', ''in_transit'', ''out_for_delivery'', ''delivered'', ''failed_attempt'',
    ''returned_to_origin'', ''cancelled'', ''lost'', ''unknown'']"

definition REVERSAL_KINDS :: "string list" where
  "REVERSAL_KINDS = [''refund'', ''void'', ''chargeback'']"

definition REVERSAL_REASONS :: "string list" where
  "REVERSAL_REASONS = [''customer_return'', ''damaged_or_defective'', ''wrong_item'',
    ''cancelled_before_dispatch'', ''goodwill_or_price_adjustment'', ''chargeback'', ''other'', ''unknown'']"

definition RESTOCK_OUTCOMES :: "string list" where
  "RESTOCK_OUTCOMES = [''restocked_sellable'', ''restocked_damaged'', ''not_restocked'', ''pending_receipt'',
    ''not_applicable'', ''unknown'']"

definition DEVICES :: "string list" where
  "DEVICES = [''desktop'', ''mobile'', ''tablet'', ''unknown'']"

definition INGESTION_SOURCES :: "string list" where
  "INGESTION_SOURCES = [''live'', ''backfill'']"

section \<open>Shared parts\<close>

definition oneOf :: "string \<Rightarrow> string list \<Rightarrow> sql_expr" where
  "oneOf column values = E_in (E_col column) values"

definition nonNegative :: "string \<Rightarrow> sql_expr" where
  "nonNegative column = E_le (E_lit (V_int 0)) (E_col column)"

definition feeFormulaColumns :: "column list" where
  "feeFormulaColumns = [not_null (c_int ''percent_bps''), not_null (c_money ''fixed_minor''), c_money ''min_fee_minor'',
     c_money ''max_fee_minor'', not_null (c_int ''fee_vat_bps''),
     default_to (V_bool False) (not_null (c_bool ''rates_include_vat'')), not_null (c_text ''source'')]"

definition FEE_SOURCES :: "string list" where
  "FEE_SOURCES = [''merchant_entered'', ''gateway_statement'', ''default_table'']"

definition feeFormulaChecks :: "string \<Rightarrow> (string \<times> sql_expr) list" where
  "feeFormulaChecks prefix =
     [(prefix @ ''_percent_bps_positive'', nonNegative ''percent_bps''),
      (prefix @ ''_fixed_positive'', nonNegative ''fixed_minor''),
      (prefix @ ''_fee_vat_range'', E_and (E_le (E_lit (V_int 0)) (E_col ''fee_vat_bps''))
         (E_le (E_col ''fee_vat_bps'') (E_lit (V_int 10000)))),
      (prefix @ ''_bounds_ordered'', E_or (E_or (E_is_null (E_col ''min_fee_minor'')) (E_is_null (E_col ''max_fee_minor'')))
         (E_le (E_col ''min_fee_minor'') (E_col ''max_fee_minor''))),
      (prefix @ ''_source_valid'', oneOf ''source'' FEE_SOURCES)]"

section \<open>Tenancy\<close>

definition stores_table :: table_def where
  "stores_table = \<lparr> tab_name = ''stores'', tab_columns =
    [primary (c_text ''id''), not_null (c_text ''platform''), not_null (c_text ''platform_store_id''),
     not_null (c_text ''currency''), not_null (c_text ''timezone''), not_null (c_int ''vat_rate_bps''),
     not_null (c_bool ''vat_registered''), not_null (c_instant ''installed_at''),
     c_instant ''uninstalled_at'', not_null (default_now (c_instant ''created_at'')),
     not_null (default_now (c_instant ''updated_at''))],
    tab_primaryKey = [],
    tab_uniques = [(''stores_platform_store_unique'', [''platform'', ''platform_store_id''], False)],
    tab_checks = [(''stores_currency_valid'', oneOf ''currency'' CURRENCY_CODES),
     (''stores_vat_rate_range'', E_and (E_le (E_lit (V_int 0)) (E_col ''vat_rate_bps'')) (E_le
       (E_col ''vat_rate_bps'') (E_lit (V_int 10000))))],
    tab_indexes = [(''stores_platform_idx'', [''platform''], None)] \<rparr>"

definition platformCredentials_table :: table_def where
  "platformCredentials_table = \<lparr> tab_name = ''platform_credentials'', tab_columns =
    [references_to ''stores'' ''id'' Cascade (primary (c_text ''store_id'')),
     not_null (c_text ''secrets_encrypted''), not_null (c_text ''encryption_key_id''),
     c_instant ''expires_at'', c_instant ''refresh_expires_at'', c_instant ''reauth_required_at'',
     not_null (default_now (c_instant ''created_at'')), not_null (default_now (c_instant ''updated_at''))],
    tab_primaryKey = [],
    tab_uniques = [],
    tab_checks = [],
    tab_indexes = [(''platform_credentials_expires_idx'', [''expires_at''], None)] \<rparr>"

section \<open>Ingestion\<close>

definition webhookEvents_table :: table_def where
  "webhookEvents_table = \<lparr> tab_name = ''webhook_events'', tab_columns =
    [primary (c_text ''id''), references_to ''stores'' ''id'' Cascade (not_null (c_text ''store_id'')),
     not_null (c_text ''platform_event_id''), not_null (c_text ''event_type''),
     not_null (c_text ''raw_event_type''), not_null (c_instant ''received_at''), c_instant ''processed_at'',
     default_to (V_text ''pending'') (not_null (c_text ''status'')),
     default_to (V_int 0) (not_null (c_int ''attempts'')),
     not_null (default_now (c_instant ''next_attempt_at'')), c_instant ''locked_at'', c_text ''last_error'',
     c_json ''raw_payload'', not_null (default_now (c_instant ''created_at''))],
    tab_primaryKey = [],
    tab_uniques = [(''webhook_events_store_event_unique'', [''store_id'', ''platform_event_id''], False)],
    tab_checks = [(''webhook_events_attempts_positive'', nonNegative ''attempts''),
     (''webhook_events_lock_iff_processing'', E_eq (E_eq (E_col ''status'') (E_lit (V_text ''processing'')))
       (E_is_not_null (E_col ''locked_at''))),
     (''webhook_events_status_valid'', oneOf ''status'' (map fst WEBHOOK_EVENT_STATUSES))],
    tab_indexes = [(''webhook_events_status_idx'', [''status'', ''received_at''], None),
     (''webhook_events_store_received_idx'', [''store_id'', ''received_at''], None),
     (''webhook_events_claimable_idx'', [''next_attempt_at''],
       Some (E_eq (E_col ''status'') (E_lit (V_text ''pending'')))),
     (''webhook_events_inflight_idx'', [''locked_at''],
       Some (E_eq (E_col ''status'') (E_lit (V_text ''processing''))))] \<rparr>"

definition backfillCursors_table :: table_def where
  "backfillCursors_table = \<lparr> tab_name = ''backfill_cursors'', tab_columns =
    [references_to ''stores'' ''id'' Cascade (not_null (c_text ''store_id'')), not_null (c_text ''resource''),
     c_text ''cursor'', c_instant ''range_from'', c_instant ''range_to'',
     default_to (V_text ''running'') (not_null (c_text ''status'')),
     default_to (V_int 0) (not_null (c_int ''items_fetched'')), c_instant ''last_advanced_at'',
     not_null (default_now (c_instant ''created_at'')), not_null (default_now (c_instant ''updated_at''))],
    tab_primaryKey = [''store_id'', ''resource''],
    tab_uniques = [],
    tab_checks = [(''backfill_cursors_resource_valid'', oneOf ''resource'' [''orders'', ''products'']),
     (''backfill_cursors_status_valid'', oneOf ''status'' [''running'', ''paused'', ''complete'', ''failed''])],
    tab_indexes = [] \<rparr>"

section \<open>Catalogue\<close>

definition products_table :: table_def where
  "products_table = \<lparr> tab_name = ''products'', tab_columns =
    [references_to ''stores'' ''id'' Cascade (not_null (c_text ''store_id'')),
     not_null (c_text ''platform_product_id''), c_text ''sku'', not_null (c_text ''product_name''),
     c_money ''platform_cost_minor'', c_money ''list_price_ex_vat_minor'',
     default_to (V_bool True) (not_null (c_bool ''active'')), c_instant ''platform_updated_at'',
     not_null (default_now (c_instant ''created_at'')), not_null (default_now (c_instant ''updated_at''))],
    tab_primaryKey = [''store_id'', ''platform_product_id''],
    tab_uniques = [],
    tab_checks = [],
    tab_indexes = [(''products_store_sku_idx'', [''store_id'', ''sku''], None),
     (''products_store_active_idx'', [''store_id'', ''active''], None)] \<rparr>"

definition variants_table :: table_def where
  "variants_table = \<lparr> tab_name = ''variants'', tab_columns =
    [references_to ''stores'' ''id'' Cascade (not_null (c_text ''store_id'')),
     not_null (c_text ''platform_product_id''), not_null (c_text ''platform_variant_id''), c_text ''sku'',
     not_null (c_text ''variant_name''), c_money ''platform_cost_minor'', c_money ''list_price_ex_vat_minor'',
     default_to (V_bool True) (not_null (c_bool ''active'')),
     not_null (default_now (c_instant ''created_at'')), not_null (default_now (c_instant ''updated_at''))],
    tab_primaryKey = [''store_id'', ''platform_product_id'', ''platform_variant_id''],
    tab_uniques = [],
    tab_checks = [],
    tab_indexes = [(''variants_store_sku_idx'', [''store_id'', ''sku''], None)] \<rparr>"

definition costHistory_table :: table_def where
  "costHistory_table = \<lparr> tab_name = ''cost_history'', tab_columns =
    [primary (c_text ''id''), references_to ''stores'' ''id'' Cascade (not_null (c_text ''store_id'')),
     not_null (c_text ''platform_product_id''), c_text ''platform_variant_id'', c_text ''sku'',
     not_null (c_money ''unit_cost_minor''), not_null (c_text ''source''),
     not_null (c_instant ''effective_from''), c_instant ''effective_to'', c_text ''supersedes_id'',
     c_text ''note'', not_null (default_now (c_instant ''created_at''))],
    tab_primaryKey = [],
    tab_uniques = [],
    tab_checks = [(''cost_history_source_valid'', oneOf ''source'' (map fst COST_SOURCES)),
     (''cost_history_cost_positive'', nonNegative ''unit_cost_minor''),
     (''cost_history_window_ordered'', E_or (E_is_null (E_col ''effective_to'')) (E_lt
       (E_col ''effective_from'') (E_col ''effective_to'')))],
    tab_indexes = [(''cost_history_asof_idx'', [''store_id'', ''platform_product_id'', ''platform_variant_id'',
      ''effective_from''], None),
     (''cost_history_open_idx'', [''store_id'', ''platform_product_id'', ''platform_variant_id''],
       Some (E_is_null (E_col ''effective_to''))),
     (''cost_history_sku_idx'', [''store_id'', ''sku''], None)] \<rparr>"

section \<open>Fee rules\<close>

definition feeRuleSets_table :: table_def where
  "feeRuleSets_table = \<lparr> tab_name = ''fee_rule_sets'', tab_columns =
    [primary (c_text ''id''), references_to ''stores'' ''id'' Cascade (not_null (c_text ''store_id'')),
     not_null (c_text ''currency''), not_null (c_instant ''effective_from''), c_instant ''effective_to'',
     c_text ''note'', not_null (default_now (c_instant ''created_at''))],
    tab_primaryKey = [],
    tab_uniques = [],
    tab_checks = [(''fee_rule_sets_currency_valid'', oneOf ''currency'' CURRENCY_CODES),
     (''fee_rule_sets_window_ordered'', E_or (E_is_null (E_col ''effective_to'')) (E_lt
       (E_col ''effective_from'') (E_col ''effective_to'')))],
    tab_indexes = [(''fee_rule_sets_asof_idx'', [''store_id'', ''effective_from''], None)] \<rparr>"

definition gatewayFeeRules_table :: table_def where
  "gatewayFeeRules_table = \<lparr> tab_name = ''gateway_fee_rules'', tab_columns =
    [primary (c_text ''id''),
     references_to ''fee_rule_sets'' ''id'' Cascade (not_null (c_text ''fee_rule_set_id'')),
     c_text ''instrument'', c_text ''scheme'', c_text ''provider''] @ feeFormulaColumns @ [not_null
       (default_now (c_instant ''created_at''))],
    tab_primaryKey = [],
    tab_uniques = [(''gateway_fee_rules_key_unique'', [''fee_rule_set_id'', ''instrument'', ''scheme'',
      ''provider''], True)],
    tab_checks = [(''gateway_fee_rules_instrument_valid'',
      E_or (E_is_null (E_col ''instrument'')) (oneOf ''instrument'' PAYMENT_INSTRUMENTS)),
     (''gateway_fee_rules_scheme_valid'', E_or (E_is_null (E_col ''scheme'')) (oneOf ''scheme'' CARD_SCHEMES))]
       @ feeFormulaChecks ''gateway_fee_rules'',
    tab_indexes = [(''gateway_fee_rules_set_idx'', [''fee_rule_set_id''], None)] \<rparr>"

definition codFeeRules_table :: table_def where
  "codFeeRules_table = \<lparr> tab_name = ''cod_fee_rules'', tab_columns =
    [primary (c_text ''id''),
     references_to ''fee_rule_sets'' ''id'' Cascade (not_null (c_text ''fee_rule_set_id'')),
     c_text ''carrier''] @ feeFormulaColumns @ [not_null (default_now (c_instant ''created_at''))],
    tab_primaryKey = [],
    tab_uniques = [(''cod_fee_rules_key_unique'', [''fee_rule_set_id'', ''carrier''], True)],
    tab_checks = feeFormulaChecks ''cod_fee_rules'',
    tab_indexes = [(''cod_fee_rules_set_idx'', [''fee_rule_set_id''], None)] \<rparr>"

definition shippingFallbackRules_table :: table_def where
  "shippingFallbackRules_table = \<lparr> tab_name = ''shipping_fallback_rules'', tab_columns =
    [primary (c_text ''id''),
     references_to ''fee_rule_sets'' ''id'' Cascade (not_null (c_text ''fee_rule_set_id'')),
     c_text ''country_code'', c_text ''region'', c_text ''carrier'',
     default_to (V_text ''any'') (not_null (c_text ''direction'')), not_null (c_money ''cost_minor''),
     not_null (default_now (c_instant ''created_at''))],
    tab_primaryKey = [],
    tab_uniques = [(''shipping_fallback_rules_key_unique'', [''fee_rule_set_id'', ''country_code'', ''region'',
      ''carrier'', ''direction''], True)],
    tab_checks = [(''shipping_fallback_rules_cost_positive'', nonNegative ''cost_minor''),
     (''shipping_fallback_rules_direction_valid'', oneOf ''direction'' (SHIPMENT_DIRECTIONS @ [''any'']))],
    tab_indexes = [(''shipping_fallback_rules_set_idx'', [''fee_rule_set_id''], None)] \<rparr>"

section \<open>Orders\<close>

definition orders_table :: table_def where
  "orders_table = \<lparr> tab_name = ''orders'', tab_columns =
    [primary (c_text ''id''), references_to ''stores'' ''id'' Cascade (not_null (c_text ''store_id'')),
     not_null (c_text ''platform_order_id''), not_null (c_instant ''placed_at''),
     c_instant ''platform_updated_at'', not_null (c_text ''lifecycle''), not_null (c_text ''payment_state''),
     not_null (c_text ''fulfillment_state''), c_text ''platform_status_id'',
     not_null (c_text ''raw_status_label''), default_to (V_bool False) (not_null (c_bool ''is_test'')),
     default_to (V_text ''live'') (not_null (c_text ''ingestion_source'')),
     not_null (c_text ''fulfillment_method''), c_text ''destination_country_code'',
     c_text ''destination_region'', c_text ''destination_city'', not_null (c_text ''currency''),
     not_null (c_int ''vat_rate_bps''), not_null (c_money ''subtotal_ex_vat_minor''),
     not_null (c_money ''vat_amount_minor''), not_null (c_money ''shipping_charged_ex_vat_minor''),
     not_null (c_money ''cod_fee_charged_ex_vat_minor''), not_null (c_money ''total_inc_vat_minor''),
     c_text ''customer_ref'', c_text ''attribution_device'', c_text ''attribution_referrer_host'',
     not_null (default_now (c_instant ''created_at'')), not_null (default_now (c_instant ''updated_at''))],
    tab_primaryKey = [],
    tab_uniques = [(''orders_store_platform_order_unique'', [''store_id'', ''platform_order_id''], False)],
    tab_checks = [(''orders_currency_valid'', oneOf ''currency'' CURRENCY_CODES),
     (''orders_lifecycle_valid'', oneOf ''lifecycle'' ORDER_LIFECYCLES),
     (''orders_ingestion_source_valid'', oneOf ''ingestion_source'' INGESTION_SOURCES),
     (''orders_payment_state_valid'', oneOf ''payment_state'' PAYMENT_STATES),
     (''orders_fulfillment_state_valid'', oneOf ''fulfillment_state'' FULFILLMENT_STATES),
     (''orders_fulfillment_method_valid'', oneOf ''fulfillment_method'' FULFILLMENT_METHODS),
     (''orders_device_valid'', E_or (E_is_null (E_col ''attribution_device''))
       (oneOf ''attribution_device'' DEVICES)),
     (''orders_vat_rate_range'', E_and (E_le (E_lit (V_int 0)) (E_col ''vat_rate_bps'')) (E_le
       (E_col ''vat_rate_bps'') (E_lit (V_int 10000)))),
     (''orders_referrer_is_host_only'', E_or (E_is_null (E_col ''attribution_referrer_host'')) (E_not_like
       (E_col ''attribution_referrer_host'') ''%/%''))],
    tab_indexes = [(''orders_store_placed_idx'', [''store_id'', ''placed_at''], None),
     (''orders_metering_idx'', [''store_id'', ''placed_at''],
       Some (E_eq (E_col ''ingestion_source'') (E_lit (V_text ''live'')))),
     (''orders_store_updated_idx'', [''store_id'', ''platform_updated_at''], None),
     (''orders_customer_ref_idx'', [''store_id'', ''customer_ref''], None)] \<rparr>"

definition orderItems_table :: table_def where
  "orderItems_table = \<lparr> tab_name = ''order_items'', tab_columns =
    [primary (c_text ''id''), references_to ''orders'' ''id'' Cascade (not_null (c_text ''order_id'')),
     references_to ''stores'' ''id'' Cascade (not_null (c_text ''store_id'')),
     not_null (c_text ''platform_line_id''), not_null (c_text ''platform_product_id''),
     c_text ''platform_variant_id'', c_text ''sku'', not_null (c_text ''product_name''),
     not_null (c_int ''quantity''), not_null (c_money ''unit_price_ex_vat_minor''),
     not_null (c_money ''gross_line_ex_vat_minor''), not_null (c_money ''line_discount_ex_vat_minor''),
     not_null (c_money ''line_total_ex_vat_minor''), c_money ''cost_at_time_minor'',
     default_to (V_text ''none'') (not_null (c_text ''cost_source'')),
     references_to ''cost_history'' ''id'' Set_null (c_text ''cost_history_id''),
     not_null (default_now (c_instant ''created_at'')), not_null (default_now (c_instant ''updated_at''))],
    tab_primaryKey = [],
    tab_uniques = [(''order_items_order_line_unique'', [''order_id'', ''platform_line_id''], False)],
    tab_checks = [(''order_items_quantity_positive'', nonNegative ''quantity''),
     (''order_items_cost_source_valid'', oneOf ''cost_source'' (map fst COST_SOURCES)),
     (''order_items_line_total_consistent'', E_eq (E_col ''line_total_ex_vat_minor'') (E_sub
       (E_col ''gross_line_ex_vat_minor'') (E_col ''line_discount_ex_vat_minor'')))],
    tab_indexes = [(''order_items_order_idx'', [''order_id''], None),
     (''order_items_product_idx'', [''store_id'', ''platform_product_id'', ''platform_variant_id''], None),
     (''order_items_sku_idx'', [''store_id'', ''sku''], None)] \<rparr>"

definition orderPayments_table :: table_def where
  "orderPayments_table = \<lparr> tab_name = ''order_payments'', tab_columns =
    [primary (c_text ''id''), references_to ''orders'' ''id'' Cascade (not_null (c_text ''order_id'')),
     not_null (c_int ''leg_index''), not_null (c_text ''instrument''), c_text ''scheme'', c_text ''wallet'',
     c_text ''provider'', not_null (c_text ''raw_method_label''), not_null (c_text ''state''),
     not_null (c_money ''amount_gross_minor''), c_text ''transaction_ref'',
     not_null (default_now (c_instant ''created_at''))],
    tab_primaryKey = [],
    tab_uniques = [(''order_payments_order_leg_unique'', [''order_id'', ''leg_index''], False)],
    tab_checks = [(''order_payments_instrument_valid'', oneOf ''instrument'' PAYMENT_INSTRUMENTS),
     (''order_payments_state_valid'', oneOf ''state'' PAYMENT_LEG_STATES),
     (''order_payments_scheme_iff_card'', E_eq (E_eq (E_col ''instrument'') (E_lit (V_text ''card'')))
       (E_is_not_null (E_col ''scheme''))),
     (''order_payments_scheme_valid'', E_or (E_is_null (E_col ''scheme'')) (oneOf ''scheme'' CARD_SCHEMES))],
    tab_indexes = [(''order_payments_order_idx'', [''order_id''], None),
     (''order_payments_transaction_ref_idx'', [''transaction_ref''], None)] \<rparr>"

definition orderDiscounts_table :: table_def where
  "orderDiscounts_table = \<lparr> tab_name = ''order_discounts'', tab_columns =
    [primary (c_text ''id''), references_to ''orders'' ''id'' Cascade (not_null (c_text ''order_id'')),
     not_null (c_int ''discount_index''), c_text ''code'', not_null (c_text ''target''),
     not_null (c_bool ''reflected_in_component''), not_null (c_money ''amount_ex_vat_minor''),
     not_null (default_now (c_instant ''created_at''))],
    tab_primaryKey = [],
    tab_uniques = [(''order_discounts_order_index_unique'', [''order_id'', ''discount_index''], False)],
    tab_checks = [(''order_discounts_target_valid'', oneOf ''target'' [''items'', ''shipping'', ''cod_fee'']),
     (''order_discounts_amount_positive'', nonNegative ''amount_ex_vat_minor'')],
    tab_indexes = [(''order_discounts_order_idx'', [''order_id''], None)] \<rparr>"

section \<open>Shipments\<close>

definition shipments_table :: table_def where
  "shipments_table = \<lparr> tab_name = ''shipments'', tab_columns =
    [primary (c_text ''id''), references_to ''orders'' ''id'' Cascade (not_null (c_text ''order_id'')),
     references_to ''stores'' ''id'' Cascade (not_null (c_text ''store_id'')),
     not_null (c_text ''platform_shipment_id''), not_null (c_text ''direction''),
     not_null (c_text ''status''), not_null (c_text ''carrier''), not_null (c_text ''raw_carrier_label''),
     c_money ''carrier_cost_minor'', c_instant ''shipped_at'', c_instant ''delivered_at'',
     c_instant ''platform_updated_at'', not_null (default_now (c_instant ''created_at'')),
     not_null (default_now (c_instant ''updated_at''))],
    tab_primaryKey = [],
    tab_uniques = [(''shipments_store_platform_shipment_unique'', [''store_id'', ''platform_shipment_id''],
      False)],
    tab_checks = [(''shipments_direction_valid'', oneOf ''direction'' SHIPMENT_DIRECTIONS),
     (''shipments_status_valid'', oneOf ''status'' SHIPMENT_STATUSES)],
    tab_indexes = [(''shipments_order_idx'', [''order_id''], None),
     (''shipments_store_status_idx'', [''store_id'', ''status''], None)] \<rparr>"

definition shipmentLines_table :: table_def where
  "shipmentLines_table = \<lparr> tab_name = ''shipment_lines'', tab_columns =
    [references_to ''shipments'' ''id'' Cascade (not_null (c_text ''shipment_id'')),
     references_to ''order_items'' ''id'' Cascade (not_null (c_text ''order_item_id'')),
     not_null (c_int ''quantity'')],
    tab_primaryKey = [''shipment_id'', ''order_item_id''],
    tab_uniques = [],
    tab_checks = [(''shipment_lines_quantity_positive'', nonNegative ''quantity'')],
    tab_indexes = [(''shipment_lines_order_item_idx'', [''order_item_id''], None)] \<rparr>"

section \<open>Reversals\<close>

definition reversals_table :: table_def where
  "reversals_table = \<lparr> tab_name = ''reversals'', tab_columns =
    [primary (c_text ''id''), references_to ''orders'' ''id'' Cascade (not_null (c_text ''order_id'')),
     references_to ''stores'' ''id'' Cascade (not_null (c_text ''store_id'')),
     c_text ''platform_reversal_id'', not_null (c_text ''kind''), not_null (c_text ''reason''),
     c_text ''raw_reason_label'', not_null (c_instant ''occurred_at''),
     not_null (c_money ''amount_ex_vat_minor''), not_null (c_money ''shipping_refund_ex_vat_minor''),
     not_null (c_money ''cod_fee_refund_ex_vat_minor''), not_null (c_money ''adjustment_ex_vat_minor''),
     not_null (c_money ''vat_minor''), not_null (c_money ''total_inc_vat_minor''),
     not_null (c_text ''restock_outcome''), not_null (c_bool ''has_line_detail''),
     c_instant ''platform_updated_at'', not_null (default_now (c_instant ''created_at''))],
    tab_primaryKey = [],
    tab_uniques = [],
    tab_checks = [(''reversals_kind_valid'', oneOf ''kind'' REVERSAL_KINDS),
     (''reversals_reason_valid'', oneOf ''reason'' REVERSAL_REASONS),
     (''reversals_restock_valid'', oneOf ''restock_outcome'' RESTOCK_OUTCOMES),
     (''reversals_total_consistent'', E_eq (E_col ''total_inc_vat_minor'') (E_add (E_add (E_add (E_add
       (E_col ''amount_ex_vat_minor'') (E_col ''shipping_refund_ex_vat_minor''))
       (E_col ''cod_fee_refund_ex_vat_minor'')) (E_col ''adjustment_ex_vat_minor'')) (E_col ''vat_minor'')))],
    tab_indexes = [(''reversals_order_idx'', [''order_id''], None),
     (''reversals_store_occurred_idx'', [''store_id'', ''occurred_at''], None)] \<rparr>"

definition reversalLines_table :: table_def where
  "reversalLines_table = \<lparr> tab_name = ''reversal_lines'', tab_columns =
    [references_to ''reversals'' ''id'' Cascade (not_null (c_text ''reversal_id'')),
     references_to ''order_items'' ''id'' Cascade (not_null (c_text ''order_item_id'')),
     not_null (c_int ''quantity''), not_null (c_money ''amount_ex_vat_minor''),
     not_null (c_text ''restock_outcome'')],
    tab_primaryKey = [''reversal_id'', ''order_item_id''],
    tab_uniques = [],
    tab_checks = [(''reversal_lines_quantity_positive'', nonNegative ''quantity''),
     (''reversal_lines_restock_valid'', oneOf ''restock_outcome'' RESTOCK_OUTCOMES)],
    tab_indexes = [(''reversal_lines_order_item_idx'', [''order_item_id''], None)] \<rparr>"

section \<open>Profit\<close>

definition orderProfit_table :: table_def where
  "orderProfit_table = \<lparr> tab_name = ''order_profit'', tab_columns =
    [references_to ''orders'' ''id'' Cascade (primary (c_text ''order_id'')),
     references_to ''stores'' ''id'' Cascade (not_null (c_text ''store_id'')),
     not_null (c_int ''calc_version''),
     references_to ''fee_rule_sets'' ''id'' Set_null (c_text ''fee_rule_set_id''), c_text ''currency'',
     c_date ''business_date'', not_null (c_text ''status''), not_null (c_text ''recognition_kind''),
     c_text ''recognition_reason'', c_money ''items_revenue_ex_vat_minor'',
     c_money ''shipping_revenue_ex_vat_minor'', c_money ''cod_fee_revenue_ex_vat_minor'',
     c_money ''order_discount_ex_vat_minor'', c_money ''revenue_ex_vat_minor'',
     c_money ''vat_collected_minor'', c_money ''cogs_minor'', c_money ''outbound_shipping_cost_minor'',
     c_money ''return_shipping_cost_minor'', c_money ''gateway_fee_ex_vat_minor'',
     c_money ''gateway_fee_vat_minor'', c_money ''gateway_fee_cost_minor'', c_money ''cod_cost_ex_vat_minor'',
     c_money ''cod_cost_vat_minor'', c_money ''cod_cost_minor'', c_money ''reversed_revenue_ex_vat_minor'',
     c_money ''restocked_cogs_minor'', c_money ''reversal_impact_minor'',
     c_money ''contribution_margin_minor'', c_int ''margin_bps'',
     c_money ''cost_covered_revenue_ex_vat_minor'', c_json ''confidence'', not_null (c_json ''diagnostics''),
     not_null (default_now (c_instant ''computed_at''))],
    tab_primaryKey = [],
    tab_uniques = [],
    tab_checks = [(''order_profit_status_valid'', oneOf ''status'' [''computed'', ''rejected'']),
     (''order_profit_recognition_valid'', oneOf ''recognition_kind'' [''recognized'', ''cost_only'',
       ''excluded'']),
     (''order_profit_totals_iff_computed'', E_eq (E_eq (E_col ''status'') (E_lit (V_text ''computed'')))
       (E_is_not_null (E_col ''contribution_margin_minor''))),
     (''order_profit_currency_iff_computed'', E_eq (E_eq (E_col ''status'') (E_lit (V_text ''computed'')))
       (E_and (E_is_not_null (E_col ''currency'')) (E_is_not_null (E_col ''business_date'')))),
     (''order_profit_restock_bounded'', E_or (E_is_null (E_col ''restocked_cogs_minor'')) (E_le
       (E_col ''restocked_cogs_minor'') (E_col ''cogs_minor'')))],
    tab_indexes = [(''order_profit_store_date_idx'', [''store_id'', ''business_date''], None),
     (''order_profit_calc_version_idx'', [''store_id'', ''calc_version''], None),
     (''order_profit_fee_rule_set_idx'', [''fee_rule_set_id''], None),
     (''order_profit_margin_idx'', [''store_id'', ''contribution_margin_minor''], None)] \<rparr>"

definition orderProfitLines_table :: table_def where
  "orderProfitLines_table = \<lparr> tab_name = ''order_profit_lines'', tab_columns =
    [references_to ''order_profit'' ''order_id'' Cascade (not_null (c_text ''order_id'')),
     not_null (c_text ''order_item_id''),
     references_to ''stores'' ''id'' Cascade (not_null (c_text ''store_id'')),
     not_null (c_date ''business_date''), not_null (c_text ''platform_product_id''),
     c_text ''platform_variant_id'', c_text ''sku'', not_null (c_int ''quantity''),
     not_null (c_money ''allocated_order_discount_ex_vat_minor''),
     not_null (c_money ''net_revenue_ex_vat_minor''),
     not_null (c_money ''allocated_shipping_revenue_ex_vat_minor''),
     not_null (c_money ''allocated_cod_fee_revenue_ex_vat_minor''), not_null (c_money ''unit_cost_minor''),
     not_null (c_money ''cogs_minor''), not_null (c_text ''cost_source''), c_text ''cost_history_id'',
     not_null (c_money ''allocated_outbound_shipping_minor''),
     not_null (c_money ''allocated_return_shipping_minor''),
     not_null (c_money ''allocated_gateway_fee_minor''), not_null (c_money ''allocated_cod_cost_minor''),
     not_null (c_int ''reversed_quantity''), not_null (c_money ''reversed_revenue_ex_vat_minor''),
     not_null (c_money ''restocked_cogs_minor''), not_null (c_money ''reversal_impact_minor''),
     not_null (c_money ''contribution_margin_minor''),
     not_null (c_money ''cost_covered_revenue_ex_vat_minor''), not_null (c_int ''calc_version'')],
    tab_primaryKey = [''order_id'', ''order_item_id''],
    tab_uniques = [],
    tab_checks = [(''order_profit_lines_cost_source_valid'', oneOf ''cost_source'' (map fst COST_SOURCES)),
     (''order_profit_lines_quantity_positive'', nonNegative ''quantity''),
     (''order_profit_lines_restock_bounded'', E_le (E_col ''restocked_cogs_minor'') (E_col ''cogs_minor'')),
     (''order_profit_lines_margin_consistent'', E_eq (E_col ''contribution_margin_minor'') (E_add (E_sub (E_sub
       (E_sub (E_sub (E_sub (E_add (E_add (E_col ''net_revenue_ex_vat_minor'')
       (E_col ''allocated_shipping_revenue_ex_vat_minor'')) (E_col ''allocated_cod_fee_revenue_ex_vat_minor''))
       (E_col ''cogs_minor'')) (E_col ''allocated_outbound_shipping_minor''))
       (E_col ''allocated_return_shipping_minor'')) (E_col ''allocated_gateway_fee_minor''))
       (E_col ''allocated_cod_cost_minor'')) (E_col ''reversal_impact_minor'')))],
    tab_indexes = [(''order_profit_lines_product_date_idx'', [''store_id'', ''platform_product_id'',
      ''platform_variant_id'', ''business_date''], None),
     (''order_profit_lines_store_date_idx'', [''store_id'', ''business_date''], None)] \<rparr>"

section \<open>Roll-ups\<close>

definition dailyStoreRollup_table :: table_def where
  "dailyStoreRollup_table = \<lparr> tab_name = ''daily_store_rollup'', tab_columns =
    [references_to ''stores'' ''id'' Cascade (not_null (c_text ''store_id'')),
     not_null (c_date ''business_date''), default_to (V_int 0) (not_null (c_int ''orders_count'')),
     default_to (V_int 0) (not_null (c_int ''cost_only_count'')),
     default_to (V_int 0) (not_null (c_int ''incomplete_count'')),
     default_to (V_money 0) (not_null (c_money ''revenue_ex_vat_minor'')),
     default_to (V_money 0) (not_null (c_money ''cogs_minor'')),
     default_to (V_money 0) (not_null (c_money ''outbound_shipping_cost_minor'')),
     default_to (V_money 0) (not_null (c_money ''return_shipping_cost_minor'')),
     default_to (V_money 0) (not_null (c_money ''gateway_fee_cost_minor'')),
     default_to (V_money 0) (not_null (c_money ''cod_cost_minor'')),
     default_to (V_money 0) (not_null (c_money ''reversal_impact_minor'')),
     default_to (V_money 0) (not_null (c_money ''contribution_margin_minor'')),
     default_to (V_money 0) (not_null (c_money ''cost_covered_revenue_ex_vat_minor'')),
     default_to (V_bool True) (not_null (c_bool ''dirty'')),
     not_null (default_now (c_instant ''dirtied_at'')), c_instant ''computed_at'', c_int ''calc_version''],
    tab_primaryKey = [''store_id'', ''business_date''],
    tab_uniques = [],
    tab_checks = [],
    tab_indexes = [(''daily_store_rollup_dirty_idx'', [''dirtied_at''], Some (E_col ''dirty''))] \<rparr>"

definition dailyVariantRollup_table :: table_def where
  "dailyVariantRollup_table = \<lparr> tab_name = ''daily_variant_rollup'', tab_columns =
    [references_to ''stores'' ''id'' Cascade (not_null (c_text ''store_id'')),
     not_null (c_date ''business_date''), not_null (c_text ''platform_product_id''),
     default_to (V_text '''') (not_null (c_text ''platform_variant_id'')), c_text ''sku'',
     default_to (V_int 0) (not_null (c_int ''units_sold'')),
     default_to (V_int 0) (not_null (c_int ''units_reversed'')),
     default_to (V_money 0) (not_null (c_money ''net_revenue_ex_vat_minor'')),
     default_to (V_money 0) (not_null (c_money ''cogs_minor'')),
     default_to (V_money 0) (not_null (c_money ''allocated_shipping_minor'')),
     default_to (V_money 0) (not_null (c_money ''allocated_gateway_fee_minor'')),
     default_to (V_money 0) (not_null (c_money ''allocated_cod_cost_minor'')),
     default_to (V_money 0) (not_null (c_money ''reversal_impact_minor'')),
     default_to (V_money 0) (not_null (c_money ''contribution_margin_minor'')),
     default_to (V_money 0) (not_null (c_money ''cost_covered_revenue_ex_vat_minor'')),
     default_to (V_int 0) (not_null (c_int ''incomplete_lines'')),
     default_to (V_bool True) (not_null (c_bool ''dirty'')),
     not_null (default_now (c_instant ''dirtied_at'')), c_instant ''computed_at'', c_int ''calc_version''],
    tab_primaryKey = [''store_id'', ''business_date'', ''platform_product_id'', ''platform_variant_id''],
    tab_uniques = [],
    tab_checks = [],
    tab_indexes = [(''daily_variant_rollup_dirty_idx'', [''dirtied_at''], Some (E_col ''dirty'')),
     (''daily_variant_rollup_margin_idx'', [''store_id'', ''business_date'', ''contribution_margin_minor''],
       None)] \<rparr>"

section \<open>Billing\<close>

definition storeSubscription_table :: table_def where
  "storeSubscription_table = \<lparr> tab_name = ''store_subscription'', tab_columns =
    [references_to ''stores'' ''id'' Cascade (primary (c_text ''store_id'')), not_null (c_text ''plan_code''),
     c_text ''platform_plan_id'', not_null (c_text ''status''), c_instant ''trial_ends_at'',
     not_null (c_instant ''current_period_start''), not_null (c_instant ''current_period_end''),
     c_instant ''last_event_at'', c_instant ''last_reconciled_at'', c_text ''pending_plan_code'',
     c_instant ''pending_plan_effective_at'', not_null (default_now (c_instant ''created_at'')),
     not_null (default_now (c_instant ''updated_at''))],
    tab_primaryKey = [],
    tab_uniques = [],
    tab_checks = [(''store_subscription_status_valid'', oneOf ''status'' (map fst SUBSCRIPTION_STATUSES)),
     (''store_subscription_period_ordered'', E_lt (E_col ''current_period_start'')
       (E_col ''current_period_end'')),
     (''store_subscription_pending_plan_complete'',
       E_eq (E_is_null (E_col ''pending_plan_code'')) (E_is_null (E_col ''pending_plan_effective_at'')))],
    tab_indexes = [(''store_subscription_reconcile_idx'', [''last_reconciled_at''], None),
     (''store_subscription_status_idx'', [''status''], None)] \<rparr>"

section \<open>The schema\<close>

definition integration_schema :: "table_def list" where
  "integration_schema =
     [stores_table, platformCredentials_table, webhookEvents_table, backfillCursors_table, products_table,
      variants_table, costHistory_table, feeRuleSets_table, gatewayFeeRules_table, codFeeRules_table,
      shippingFallbackRules_table, orders_table, orderItems_table, orderPayments_table, orderDiscounts_table,
      shipments_table, shipmentLines_table, reversals_table, reversalLines_table, orderProfit_table,
      orderProfitLines_table, dailyStoreRollup_table, dailyVariantRollup_table, storeSubscription_table]"

lemmas integration_tables =
  stores_table_def platformCredentials_table_def webhookEvents_table_def backfillCursors_table_def
  products_table_def variants_table_def costHistory_table_def feeRuleSets_table_def
  gatewayFeeRules_table_def codFeeRules_table_def shippingFallbackRules_table_def orders_table_def
  orderItems_table_def orderPayments_table_def orderDiscounts_table_def shipments_table_def
  shipmentLines_table_def reversals_table_def reversalLines_table_def orderProfit_table_def
  orderProfitLines_table_def dailyStoreRollup_table_def dailyVariantRollup_table_def
  storeSubscription_table_def

text \<open>
  The schema of the operator portal's own database, \<open>apps/ghalla-ops/src/lib/db/portal-schema.ts\<close>:
  hourly and daily snapshots, acknowledged alerts and the log of dispatched actions. No table refers
  to another; the stores live elsewhere.
\<close>

definition portal_nonNegative :: "string \<Rightarrow> sql_expr" where
  "portal_nonNegative column = E_or (E_is_null (E_col column)) (E_le (E_lit (V_int 0)) (E_col column))"

text \<open>The terms joined by AND, in the order of the columns.\<close>

fun allNonNegative :: "string list \<Rightarrow> sql_expr" where
  "allNonNegative [] = E_lit (V_bool True)"
| "allNonNegative [c] = portal_nonNegative c"
| "allNonNegative (c # cs) = E_and (portal_nonNegative c) (allNonNegative cs)"

definition truncatedToHour :: "string \<Rightarrow> sql_expr" where
  "truncatedToHour column = E_eq (E_col column) (E_trunc_hour (E_col column))"

definition SNAPSHOT_STATUSES :: "string list" where
  "SNAPSHOT_STATUSES = [''ok'', ''unreachable'']"

definition ADMIN_ACTION_STATUSES :: "string list" where
  "ADMIN_ACTION_STATUSES = [''dispatched'', ''succeeded'', ''failed'']"

definition platformSnapshot_table :: table_def where
  "platformSnapshot_table = \<lparr> tab_name = ''platform_snapshot'', tab_columns =
    [not_null (c_text ''platform''), not_null (c_instant ''captured_hour''), not_null (c_text ''status''),
     c_int ''active_stores'', c_int ''trialing_stores'', c_int ''past_due_stores'', c_int ''canceled_stores'',
     c_int ''expired_stores'', c_money ''list_mrr_minor'', c_int ''unknown_plan_subscriptions'',
     c_int ''orders_ingested_live_24h'', c_int ''webhooks_processed_24h'', c_int ''webhooks_failed_24h'',
     c_int ''queue_depth'', c_int ''queue_stalled'', c_text ''error'',
     not_null (default_now (c_instant ''created_at''))],
    tab_primaryKey = [''platform'', ''captured_hour''],
    tab_uniques = [],
    tab_checks = [(''platform_snapshot_status_valid'', oneOf ''status'' SNAPSHOT_STATUSES),
     (''platform_snapshot_hour_aligned'', truncatedToHour ''captured_hour''),
     (''platform_snapshot_metrics_iff_ok'', E_eq (E_eq (E_col ''status'') (E_lit (V_text ''ok'')))
       (E_is_not_null (E_col ''active_stores''))),
     (''platform_snapshot_error_iff_unreachable'',
       E_eq (E_eq (E_col ''status'') (E_lit (V_text ''unreachable''))) (E_is_not_null (E_col ''error''))),
     (''platform_snapshot_counts_positive'', allNonNegative [''active_stores'', ''trialing_stores'',
       ''past_due_stores'', ''canceled_stores'', ''expired_stores'', ''unknown_plan_subscriptions'',
       ''orders_ingested_live_24h'', ''webhooks_processed_24h'', ''webhooks_failed_24h'', ''queue_depth'',
       ''queue_stalled''])],
    tab_indexes = [(''platform_snapshot_recent_idx'', [''captured_hour''], None)] \<rparr>"

definition storeSnapshot_table :: table_def where
  "storeSnapshot_table = \<lparr> tab_name = ''store_snapshot'', tab_columns =
    [not_null (c_text ''platform''), not_null (c_text ''store_id''), not_null (c_date ''captured_date''),
     not_null (c_text ''plan_code''), not_null (c_text ''status''), c_instant ''period_start'',
     c_instant ''period_end'', c_int ''orders_in_period'', c_money ''coverage_revenue_ex_vat_minor'',
     c_money ''coverage_covered_revenue_ex_vat_minor'', c_instant ''last_webhook_at'',
     c_text ''backfill_orders_status'', c_instant ''backfill_orders_started_at'',
     not_null (default_now (c_instant ''created_at''))],
    tab_primaryKey = [''platform'', ''store_id'', ''captured_date''],
    tab_uniques = [],
    tab_checks = [(''store_snapshot_orders_positive'', portal_nonNegative ''orders_in_period''),
     (''store_snapshot_coverage_bounded'', E_or (E_or (E_is_null
       (E_col ''coverage_covered_revenue_ex_vat_minor'')) (E_is_null
       (E_col ''coverage_revenue_ex_vat_minor''))) (E_le (E_col ''coverage_covered_revenue_ex_vat_minor'')
       (E_col ''coverage_revenue_ex_vat_minor'')))],
    tab_indexes = [(''store_snapshot_date_idx'', [''captured_date''], None),
     (''store_snapshot_store_idx'', [''platform'', ''store_id'', ''captured_date''], None)] \<rparr>"

definition alertAck_table :: table_def where
  "alertAck_table = \<lparr> tab_name = ''alert_ack'', tab_columns =
    [primary (c_text ''alert_key''), not_null (default_now (c_instant ''acknowledged_at'')),
     c_text ''actor_session'', c_text ''note''],
    tab_primaryKey = [],
    tab_uniques = [],
    tab_checks = [],
    tab_indexes = [(''alert_ack_acknowledged_idx'', [''acknowledged_at''], None)] \<rparr>"

definition adminActionLog_table :: table_def where
  "adminActionLog_table = \<lparr> tab_name = ''admin_action_log'', tab_columns =
    [primary (c_text ''id''), not_null (c_text ''actor_session''), not_null (c_text ''platform''),
     c_text ''store_id'', not_null (c_text ''action''), not_null (c_json ''params''),
     default_to (V_text ''dispatched'') (not_null (c_text ''status'')), c_json ''result'', c_text ''error'',
     not_null (default_now (c_instant ''created_at'')), c_instant ''completed_at''],
    tab_primaryKey = [],
    tab_uniques = [],
    tab_checks = [(''admin_action_log_status_valid'', oneOf ''status'' ADMIN_ACTION_STATUSES),
     (''admin_action_log_completed_iff_settled'', E_eq (E_eq (E_col ''status'') (E_lit
       (V_text ''dispatched''))) (E_is_null (E_col ''completed_at'')))],
    tab_indexes = [(''admin_action_log_created_idx'', [''created_at''], None),
     (''admin_action_log_store_idx'', [''platform'', ''store_id'', ''created_at''], None),
     (''admin_action_log_open_idx'', [''created_at''],
       Some (E_eq (E_col ''status'') (E_lit (V_text ''dispatched''))))] \<rparr>"

definition portal_schema :: "table_def list" where
  "portal_schema = [platformSnapshot_table, storeSnapshot_table, alertAck_table, adminActionLog_table]"

lemmas portal_tables_defs = platformSnapshot_table_def storeSnapshot_table_def alertAck_table_def adminActionLog_table_def

end
