(* ===== verification/SqlFacts.thy ===== *)
theory SqlFacts
  imports Sql
begin

text \<open>
  What statements keep: a database whose rows satisfy every constraint stays so under inserts,
  deletions and truncation, for every schema whose references point backwards; and a deletion takes
  exactly the rows from which a chain of cascading references leads to a deleted row.
\<close>

section \<open>Expressions look at their columns only\<close>

fun expr_columns :: "sql_expr \<Rightarrow> string list" where
  "expr_columns (E_col c) = [c]"
| "expr_columns (E_lit v) = []"
| "expr_columns (E_is_null e) = expr_columns e"
| "expr_columns (E_is_not_null e) = expr_columns e"
| "expr_columns (E_in e vs) = expr_columns e"
| "expr_columns (E_not_like e p) = expr_columns e"
| "expr_columns (E_eq a b) = expr_columns a @ expr_columns b"
| "expr_columns (E_le a b) = expr_columns a @ expr_columns b"
| "expr_columns (E_lt a b) = expr_columns a @ expr_columns b"
| "expr_columns (E_and a b) = expr_columns a @ expr_columns b"
| "expr_columns (E_or a b) = expr_columns a @ expr_columns b"
| "expr_columns (E_add a b) = expr_columns a @ expr_columns b"
| "expr_columns (E_sub a b) = expr_columns a @ expr_columns b"
| "expr_columns (E_trunc_hour e) = expr_columns e"

lemma eval_cong: "(\<And>c. c \<in> set (expr_columns e) \<Longrightarrow> cell r c = cell q c) \<Longrightarrow> eval r e = eval q e"
  by (induction e) simp_all

lemma passes_cong: "(\<And>c. c \<in> set (expr_columns e) \<Longrightarrow> cell r c = cell q c) \<Longrightarrow> passes r e = passes q e"
  using eval_cong [of e r q] by (simp add: passes_def)

section \<open>Sound schemas\<close>

text \<open>
  The columns a table's keys, checks and indexes name exist, a reference goes to the primary key of a
  table declared before and has its type, and a column that a deletion sets to NULL may be NULL and
  is in no key and no check.
\<close>

definition is_set_null :: "column \<Rightarrow> bool" where
  "is_set_null c = (case col_references c of Some (t, k, Set_null) \<Rightarrow> True | _ \<Rightarrow> False)"

definition reference_sound :: "table_def list \<Rightarrow> column \<Rightarrow> bool" where
  "reference_sound earlier c = (case col_references c of
     None \<Rightarrow> True
   | Some (t, k, a) \<Rightarrow> (case find_table earlier t of
       None \<Rightarrow> False
     | Some d \<Rightarrow> primary_key d = [k] \<and> list_ex (\<lambda>q. col_name q = k \<and> col_type q = col_type c) (tab_columns d)))"

definition table_sound :: "table_def list \<Rightarrow> table_def \<Rightarrow> bool" where
  "table_sound earlier d \<longleftrightarrow>
     (let names = map col_name (tab_columns d);
          noted = map col_name (filter is_set_null (tab_columns d))
      in distinct names \<and> primary_key d \<noteq> []
         \<and> list_all (\<lambda>k. list_all (\<lambda>c. c \<in> set names \<and> c \<notin> set noted) (fst k)) (table_keys d)
         \<and> list_all (\<lambda>k. list_all (\<lambda>c. c \<in> set names \<and> c \<notin> set noted) (expr_columns (snd k))) (tab_checks d)
         \<and> list_all (\<lambda>(n, cs, w). list_all (\<lambda>c. c \<in> set names)
              (cs @ (case w of None \<Rightarrow> [] | Some e \<Rightarrow> expr_columns e))) (tab_indexes d)
         \<and> distinct (map fst (tab_checks d)) \<and> distinct (map fst (tab_indexes d))
         \<and> list_all (\<lambda>c. is_set_null c \<longrightarrow> \<not> mandatory d c) (tab_columns d)
         \<and> list_all (reference_sound earlier) (tab_columns d))"

fun tables_sound :: "table_def list \<Rightarrow> table_def list \<Rightarrow> bool" where
  "tables_sound earlier [] = True"
| "tables_sound earlier (d # ds) =
     (find_table earlier (tab_name d) = None \<and> table_sound earlier d \<and> tables_sound (earlier @ [d]) ds)"

definition schema_sound :: "table_def list \<Rightarrow> bool" where
  "schema_sound s \<longleftrightarrow> tables_sound [] s"

section \<open>Consistent databases\<close>

definition keys_ok :: "table_def \<Rightarrow> sql_row list \<Rightarrow> bool" where
  "keys_ok d rows \<longleftrightarrow> (\<forall>k \<in> set (table_keys d). sorted_wrt (\<lambda>q r. \<not> same_key k r q) rows)"

definition row_ok :: "table_def \<Rightarrow> sql_row \<Rightarrow> bool" where
  "row_ok d r \<longleftrightarrow> row_shape d r \<and> list_all (column_ok d r) (tab_columns d) \<and> checks_ok d r"

definition references_ok :: "table_def \<Rightarrow> sql_db \<Rightarrow> bool" where
  "references_ok d db \<longleftrightarrow> (\<forall>r \<in> set (db (tab_name d)). \<forall>c \<in> set (tab_columns d). reference_ok db r c)"

definition rows_ok :: "table_def \<Rightarrow> sql_row list \<Rightarrow> bool" where
  "rows_ok d rows \<longleftrightarrow> (\<forall>r \<in> set rows. row_ok d r) \<and> keys_ok d rows"

definition consistent :: "table_def list \<Rightarrow> sql_db \<Rightarrow> bool" where
  "consistent s db \<longleftrightarrow> (\<forall>d \<in> set s. rows_ok d (db (tab_name d)) \<and> references_ok d db)"

lemma consistentI: "(\<And>d. d \<in> set s \<Longrightarrow> rows_ok d (db (tab_name d)) \<and> references_ok d db) \<Longrightarrow> consistent s db"
  by (simp add: consistent_def)

lemma empty_consistent: "consistent s (\<lambda>t. [])"
  by (simp add: consistent_def rows_ok_def keys_ok_def references_ok_def)

subsection \<open>Tables of a sound schema\<close>

lemma find_table_Some: "find_table s t = Some d \<Longrightarrow> d \<in> set s \<and> tab_name d = t"
  by (auto simp: find_table_def find_Some_iff)

lemma find_table_None: "find_table s t = None \<longleftrightarrow> (\<forall>d \<in> set s. tab_name d \<noteq> t)"
  by (auto simp: find_table_def find_None_iff)

lemma tables_sound_append:
  "tables_sound earlier (xs @ ys) \<longleftrightarrow> tables_sound earlier xs \<and> tables_sound (earlier @ xs) ys"
  by (induction xs arbitrary: earlier) auto

lemma tables_sound_table:
  "tables_sound earlier ds \<Longrightarrow> d \<in> set ds \<Longrightarrow> \<exists>before after. ds = before @ d # after \<and> table_sound (earlier @ before) d"
proof -
  assume s: "tables_sound earlier ds" and "d \<in> set ds"
  then obtain before after where ds: "ds = before @ d # after" by (meson split_list)
  show ?thesis using s unfolding ds tables_sound_append by auto
qed

lemma tables_sound_names:
  "tables_sound earlier ds \<Longrightarrow> distinct (map tab_name ds) \<and> set (map tab_name earlier) \<inter> set (map tab_name ds) = {}"
  by (induction ds arbitrary: earlier) (fastforce simp: find_table_None)+

lemma sound_names: "schema_sound s \<Longrightarrow> distinct (map tab_name s)"
  using tables_sound_names [of "[]" s] by (simp add: schema_sound_def)

lemma sound_table_unique:
  "schema_sound s \<Longrightarrow> d \<in> set s \<Longrightarrow> e \<in> set s \<Longrightarrow> tab_name d = tab_name e \<Longrightarrow> d = e"
  using sound_names by (metis distinct_map inj_onD)

lemma sound_split:
  assumes "schema_sound (before @ d # after)"
  shows "table_sound before d" "tab_name d \<notin> tab_name ` set before"
    and "tab_name d \<notin> tab_name ` set after"
  using assms sound_names [OF assms] by (auto simp: schema_sound_def tables_sound_append)

lemma table_sound_reference:
  assumes "table_sound earlier d" "c \<in> set (tab_columns d)" "col_references c = Some (t, k, a)"
  shows "\<exists>e \<in> set earlier. tab_name e = t \<and> primary_key e = [k]"
proof -
  have "reference_sound earlier c" using assms(1,2) by (simp add: table_sound_def Let_def list_all_iff)
  then obtain e where "find_table earlier t = Some e" "primary_key e = [k]"
    using assms(3) by (auto simp: reference_sound_def split: option.splits)
  then show ?thesis using find_table_Some by blast
qed

lemma table_sound_distinct: "table_sound earlier d \<Longrightarrow> distinct (map col_name (tab_columns d))"
  by (simp add: table_sound_def Let_def)

lemma table_sound_noted:
  assumes "table_sound earlier d" "c \<in> set (tab_columns d)" "is_set_null c"
  shows "\<not> mandatory d c"
    and "\<forall>k \<in> set (tab_checks d). col_name c \<notin> set (expr_columns (snd k))"
    and "\<forall>k \<in> set (table_keys d). col_name c \<notin> set (fst k)"
proof -
  have noted: "col_name c \<in> set (map col_name (filter is_set_null (tab_columns d)))" using assms(2,3) by simp
  have "\<And>k. k \<in> set (tab_checks d) \<Longrightarrow> \<forall>x \<in> set (expr_columns (snd k)). x \<notin> set (map col_name (filter is_set_null (tab_columns d)))"
    using assms(1) unfolding table_sound_def Let_def list_all_iff by blast
  then show "\<forall>k \<in> set (tab_checks d). col_name c \<notin> set (expr_columns (snd k))" using noted by blast
  have "\<And>k. k \<in> set (table_keys d) \<Longrightarrow> \<forall>x \<in> set (fst k). x \<notin> set (map col_name (filter is_set_null (tab_columns d)))"
    using assms(1) unfolding table_sound_def Let_def list_all_iff by blast
  then show "\<forall>k \<in> set (table_keys d). col_name c \<notin> set (fst k)" using noted by blast
qed (use assms in \<open>simp add: table_sound_def Let_def list_all_iff\<close>)

section \<open>Inserting\<close>

lemma find_None_all: "find P xs = None \<longleftrightarrow> (\<forall>x \<in> set xs. \<not> P x)"
  by (auto simp: find_None_iff)

lemma violation_None:
  "violation d db r = None \<longleftrightarrow>
     list_all (column_ok d r) (tab_columns d) \<and> checks_ok d r
     \<and> (\<forall>k \<in> set (table_keys d). key_free (db (tab_name d)) r k)
     \<and> (\<forall>c \<in> set (tab_columns d). reference_ok db r c)"
proof -
  have columns: "list_all (column_ok d r) (tab_columns d) \<longleftrightarrow>
      find (\<lambda>c. \<not> value_fits (col_type c) (cell r (col_name c))) (tab_columns d) = None
      \<and> find (\<lambda>c. mandatory d c \<and> cell r (col_name c) = V_null) (tab_columns d) = None"
    by (auto simp: find_None_all list_all_iff column_ok_def)
  have checks: "checks_ok d r \<longleftrightarrow> find (\<lambda>(n, e). \<not> passes r e) (sort_key fst (tab_checks d)) = None"
    by (auto simp: find_None_all list_all_iff checks_ok_def)
  have rest: "(\<forall>k \<in> set (table_keys d). key_free (db (tab_name d)) r k) \<longleftrightarrow>
      find (\<lambda>k. \<not> key_free (db (tab_name d)) r k) (table_keys d) = None"
    "(\<forall>c \<in> set (tab_columns d). reference_ok db r c) \<longleftrightarrow> find (\<lambda>c. \<not> reference_ok db r c) (tab_columns d) = None"
    by (auto simp: find_None_all)
  show ?thesis unfolding columns checks rest violation_def by (auto split: option.split)
qed

lemma complete_row_shape: "row_shape d (complete_row now d given)"
  by (simp add: row_shape_def complete_row_def comp_def)

text \<open>A new row only adds targets for references.\<close>

lemma reference_ok_append: "reference_ok db r c \<Longrightarrow> reference_ok (db(t := db t @ rows)) r c"
  by (auto simp: reference_ok_def list_ex_iff split: option.splits)

lemma insert_row_Inr:
  assumes "insert_row s now t given db = Inr db'"
  shows "\<exists>d r. d \<in> set s \<and> tab_name d = t \<and> r = complete_row now d given \<and> violation d db r = None
    \<and> db' = db(t := db t @ [r])"
  using assms by (auto simp: insert_row_def Let_def dest!: find_table_Some split: option.splits)

lemma insert_keeps_consistent:
  assumes "schema_sound s" "consistent s db" "insert_row s now t given db = Inr db'"
  shows "consistent s db'"
proof (rule consistentI)
  obtain d r where d: "d \<in> set s" "tab_name d = t" and r: "r = complete_row now d given"
    and v: "violation d db r = None" and db': "db' = db(t := db t @ [r])"
    using insert_row_Inr [OF assms(3)] by blast
  fix e assume e: "e \<in> set s"
  have old: "rows_ok e (db (tab_name e))" "references_ok e db" using assms(2) e by (auto simp: consistent_def)
  have kept: "\<forall>q \<in> set (db (tab_name e)). \<forall>c \<in> set (tab_columns e). reference_ok db' q c"
    using old(2) by (auto simp: references_ok_def db' intro: reference_ok_append)
  show "rows_ok e (db' (tab_name e)) \<and> references_ok e db'"
  proof (cases "tab_name e = t")
    case True
    then have "e = d" using d e sound_table_unique [OF assms(1)] by simp
    then have "row_ok e r" "\<forall>c \<in> set (tab_columns e). reference_ok db' r c"
      "\<forall>k \<in> set (table_keys e). key_free (db (tab_name e)) r k"
      using v r d by (auto simp: violation_None row_ok_def complete_row_shape db' intro: reference_ok_append)
    then show ?thesis using old(1) kept True
      by (auto simp: rows_ok_def keys_ok_def references_ok_def db' sorted_wrt_append key_free_def list_all_iff)
  next
    case False
    then show ?thesis using old(1) kept by (simp add: db' references_ok_def)
  qed
qed

chapter \<open>Deletions\<close>

text \<open>
  Deleting rows: the single pass over the tables leaves a consistent database, and what it removes is
  the least set of rows that contains the deleted ones and every row with a cascading reference into
  the set.
\<close>

section \<open>Setting lost references to NULL\<close>

lemma map_of_set_cell:
  "map_of (set_cell c v r) x = (if x = c then map_option (\<lambda>w. v) (map_of r x) else map_of r x)"
  by (induction r) (auto simp: set_cell_def)

lemma cell_set_null: "cell (set_cell c V_null r) x = (if x = c then V_null else cell r x)"
  by (auto simp: cell_def map_of_set_cell split: option.split)

lemma set_cell_names: "map fst (set_cell c v r) = map fst r"
  by (induction r) (auto simp: set_cell_def)

lemma lost_iff: "lost db a r c \<longleftrightarrow> (\<exists>t k. col_references c = Some (t, k, a)) \<and> \<not> reference_ok db r c"
  by (auto simp: lost_def split: option.splits)

lemma lost_set_null: "lost db Set_null r c \<Longrightarrow> is_set_null c"
  by (auto simp: lost_iff is_set_null_def)

lemma fold_set_null_cell:
  "cell (fold (\<lambda>c q. if L c then set_cell (col_name c) V_null q else q) cs r) x
     = (if \<exists>c \<in> set cs. L c \<and> col_name c = x then V_null else cell r x)"
  by (induction cs arbitrary: r) (auto simp: cell_set_null)

lemma null_lost_cell:
  "cell (null_lost d db r) x =
     (if \<exists>c \<in> set (tab_columns d). lost db Set_null r c \<and> col_name c = x then V_null else cell r x)"
  unfolding null_lost_def by (rule fold_set_null_cell)

lemma null_lost_names: "map fst (null_lost d db r) = map fst r"
proof -
  have "map fst (fold (\<lambda>c q. if L c then set_cell (col_name c) V_null q else q) cs r) = map fst r" for L cs
    by (induction cs arbitrary: r) (auto simp: set_cell_names)
  then show ?thesis by (simp add: null_lost_def)
qed

text \<open>Rows that agree except where a deletion may write NULL.\<close>

definition agree :: "table_def \<Rightarrow> sql_row \<Rightarrow> sql_row \<Rightarrow> bool" where
  "agree d q r \<longleftrightarrow> (\<forall>x. (\<forall>c \<in> set (tab_columns d). is_set_null c \<longrightarrow> col_name c \<noteq> x) \<longrightarrow> cell q x = cell r x)"

lemma null_lost_agree: "agree d (null_lost d db r) r"
  by (auto simp: agree_def null_lost_cell dest: lost_set_null)

lemma agree_passes: "agree d q r \<Longrightarrow> table_sound earlier d \<Longrightarrow> k \<in> set (tab_checks d) \<Longrightarrow> passes q (snd k) = passes r (snd k)"
  by (rule passes_cong) (use table_sound_noted(2) in \<open>force simp: agree_def\<close>)

lemma agree_key:
  assumes "agree d q r" "table_sound earlier d" "k \<in> set (table_keys d)" "x \<in> set (fst k)"
  shows "cell q x = cell r x"
proof -
  have "\<forall>c \<in> set (tab_columns d). is_set_null c \<longrightarrow> col_name c \<noteq> x"
    using table_sound_noted(3) [OF assms(2)] assms(3,4) by blast
  then show ?thesis using assms(1) by (simp add: agree_def)
qed

lemma agree_same_key:
  assumes "agree d q r" "agree d q' r'" "table_sound earlier d" "k \<in> set (table_keys d)"
  shows "same_key k q q' = same_key k r r'"
  using agree_key [OF assms(1,3,4)] agree_key [OF assms(2,3,4)] by (simp add: same_key_def list_all_iff)

lemma null_lost_row_ok:
  assumes "table_sound earlier d" "row_ok d r"
  shows "row_ok d (null_lost d db r)"
proof -
  have "column_ok d (null_lost d db r) c" if c: "c \<in> set (tab_columns d)" for c
  proof (cases "\<exists>e \<in> set (tab_columns d). lost db Set_null r e \<and> col_name e = col_name c")
    case True
    then obtain e where e: "e \<in> set (tab_columns d)" "lost db Set_null r e" "col_name e = col_name c" by blast
    then have "e = c" using c table_sound_distinct [OF assms(1)] by (auto simp: distinct_map inj_on_def)
    then show ?thesis using True table_sound_noted(1) [OF assms(1) c] lost_set_null e(2)
      by (auto simp: column_ok_def null_lost_cell)
  next
    case False
    then show ?thesis using assms(2) c by (auto simp: row_ok_def list_all_iff column_ok_def null_lost_cell)
  qed
  moreover have "checks_ok d (null_lost d db r)"
    using assms agree_passes [OF null_lost_agree assms(1)] by (auto simp: row_ok_def checks_ok_def list_all_iff)
  ultimately show ?thesis using assms(2) by (simp add: row_ok_def list_all_iff row_shape_def null_lost_names)
qed

lemma null_lost_reference:
  assumes "table_sound earlier d" "keep_row d db r" "c \<in> set (tab_columns d)"
  shows "reference_ok db (null_lost d db r) c"
proof (cases "\<exists>e \<in> set (tab_columns d). lost db Set_null r e \<and> col_name e = col_name c")
  case True
  then show ?thesis by (auto simp: reference_ok_def null_lost_cell split: option.split)
next
  case False
  have "reference_ok db r c"
  proof (rule ccontr)
    assume broken: "\<not> reference_ok db r c"
    then obtain t k a where "col_references c = Some (t, k, a)" by (auto simp: reference_ok_def split: option.splits)
    then have "lost db a r c" using broken by (auto simp: lost_iff)
    then show False using assms(2,3) False by (cases a) (auto simp: keep_row_def list_ex_iff)
  qed
  then show ?thesis using False by (auto simp: reference_ok_def null_lost_cell split: option.splits)
qed

section \<open>One pass\<close>

text \<open>Between two tables: those behind are consistent, those ahead may have lost references.\<close>

definition halfway :: "table_def list \<Rightarrow> table_def list \<Rightarrow> sql_db \<Rightarrow> bool" where
  "halfway before after db \<longleftrightarrow>
     (\<forall>d \<in> set before. rows_ok d (db (tab_name d)) \<and> references_ok d db)
     \<and> (\<forall>d \<in> set after. rows_ok d (db (tab_name d)))"

lemma reference_ok_cong:
  "(\<And>t k a. col_references c = Some (t, k, a) \<Longrightarrow> db t = db' t) \<Longrightarrow> reference_ok db r c = reference_ok db' r c"
  by (auto simp: reference_ok_def split: option.split)

lemma rows_ok_filter: "rows_ok d rows \<Longrightarrow> rows_ok d (filter P rows)"
  by (auto simp: rows_ok_def keys_ok_def intro: sorted_wrt_filter)

lemma rows_ok_null_lost: "table_sound earlier d \<Longrightarrow> rows_ok d rows \<Longrightarrow> rows_ok d (map (null_lost d db) rows)"
  using agree_same_key [OF null_lost_agree null_lost_agree, of earlier d]
  by (auto simp: rows_ok_def keys_ok_def sorted_wrt_map null_lost_row_ok)

text \<open>References of a table declared before go to tables declared still earlier.\<close>

lemma references_unaffected:
  assumes "schema_sound (before @ d # after)" "e \<in> set before" "references_ok e db"
  shows "references_ok e (db(tab_name d := rows))"
proof -
  obtain b1 b2 where b: "before = b1 @ e # b2" using assms(2) by (meson split_list)
  have sound: "schema_sound (b1 @ e # (b2 @ d # after))" using assms(1) by (simp add: b)
  have other: "tab_name d \<noteq> tab_name x" if "x \<in> set before" for x
    using sound_split(2) [OF assms(1)] that by force
  have "reference_ok (db(tab_name d := rows)) r c = reference_ok db r c" if "c \<in> set (tab_columns e)" for r c
    by (rule reference_ok_cong)
       (use table_sound_reference [OF sound_split(1) [OF sound] that] other in \<open>force simp: b\<close>)
  then show ?thesis using assms(3) other [OF assms(2)] by (simp add: references_ok_def)
qed

lemma prune_step:
  assumes sound: "schema_sound (before @ d # after)" and h: "halfway before (d # after) db"
  shows "halfway (before @ [d]) after (prune_table d db)"
proof -
  note own = sound_split [OF sound]
  have behind: "rows_ok e (prune_table d db (tab_name e)) \<and> references_ok e (prune_table d db)" if "e \<in> set before" for e
    using h that own(2) references_unaffected [OF sound that]
    by (auto simp: halfway_def prune_table_def image_iff)
  have "\<forall>r \<in> set (prune_table d db (tab_name d)). \<forall>c \<in> set (tab_columns d). reference_ok (prune_table d db) r c"
  proof (intro ballI)
    fix r c assume r: "r \<in> set (prune_table d db (tab_name d))" and c: "c \<in> set (tab_columns d)"
    then have "reference_ok db r c" using null_lost_reference [OF own(1) _ c] by (auto simp: prune_table_def)
    moreover have "prune_table d db t = db t" if "col_references c = Some (t, k, a)" for t k a
    proof -
      have "t \<noteq> tab_name d" using table_sound_reference [OF own(1) c that] own(2) by (metis imageI)
      then show ?thesis by (simp add: prune_table_def)
    qed
    then have "reference_ok (prune_table d db) r c = reference_ok db r c" by (rule reference_ok_cong)
    ultimately show "reference_ok (prune_table d db) r c" by simp
  qed
  moreover have "rows_ok d (prune_table d db (tab_name d))"
    using h rows_ok_null_lost [OF own(1)] rows_ok_filter by (simp add: halfway_def prune_table_def)
  moreover have "rows_ok e (prune_table d db (tab_name e))" if "e \<in> set after" for e
    using h that own(3) by (auto simp: halfway_def prune_table_def image_iff)
  ultimately show ?thesis using behind by (auto simp: halfway_def references_ok_def)
qed

lemma prune_all:
  "schema_sound (before @ after) \<Longrightarrow> halfway before after db \<Longrightarrow> halfway (before @ after) [] (fold prune_table after db)"
proof (induction after arbitrary: before db)
  case (Cons d after)
  have "halfway ((before @ [d]) @ after) [] (fold prune_table after (prune_table d db))"
    by (rule Cons.IH) (use Cons.prems prune_step in auto)
  then show ?case by simp
qed simp

lemma delete_keeps_consistent:
  assumes "schema_sound s" "consistent s db"
  shows "consistent s (delete_rows s t P db)"
proof -
  have "halfway [] s (db(t := filter (\<lambda>r. \<not> P r) (db t)))"
    using assms(2) rows_ok_filter by (auto simp: halfway_def consistent_def)
  from prune_all [OF _ this] show ?thesis using assms(1) by (auto simp: delete_rows_def consistent_def halfway_def)
qed

text \<open>\<open>TRUNCATE\<close> of every table.\<close>

lemma truncate_keeps_consistent: "(\<And>d. d \<in> set s \<Longrightarrow> tab_name d \<in> set ts) \<Longrightarrow> consistent s (truncate_tables ts db)"
  by (simp add: consistent_def truncate_tables_def rows_ok_def keys_ok_def references_ok_def)

section \<open>What a deletion takes along\<close>

inductive doomed :: "table_def list \<Rightarrow> string \<Rightarrow> (sql_row \<Rightarrow> bool) \<Rightarrow> sql_db \<Rightarrow> string \<Rightarrow> sql_row \<Rightarrow> bool"
  for s t P db where
  hit: "r \<in> set (db t) \<Longrightarrow> P r \<Longrightarrow> doomed s t P db t r"
| taken_along: "d \<in> set s \<Longrightarrow> r \<in> set (db (tab_name d)) \<Longrightarrow> c \<in> set (tab_columns d)
    \<Longrightarrow> col_references c = Some (u, k, Cascade) \<Longrightarrow> doomed s t P db u q \<Longrightarrow> cell q k = cell r (col_name c)
    \<Longrightarrow> cell r (col_name c) \<noteq> V_null \<Longrightarrow> doomed s t P db (tab_name d) r"

lemma doomed_row: "doomed s t P db u r \<Longrightarrow> r \<in> set (db u)"
  by (induction rule: doomed.induct) auto

lemma list_all2_memL: "list_all2 Q xs ys \<Longrightarrow> x \<in> set xs \<Longrightarrow> \<exists>y \<in> set ys. Q x y"
  by (induction rule: list_all2_induct) auto

lemma list_all2_memR: "list_all2 Q xs ys \<Longrightarrow> y \<in> set ys \<Longrightarrow> \<exists>x \<in> set xs. Q x y"
  by (induction rule: list_all2_induct) auto

text \<open>The rows of a table that survive, up to what is set to NULL.\<close>

definition survivors :: "table_def list \<Rightarrow> string \<Rightarrow> (sql_row \<Rightarrow> bool) \<Rightarrow> sql_db \<Rightarrow> table_def \<Rightarrow> sql_row list" where
  "survivors s t P db d = filter (\<lambda>r. \<not> doomed s t P db (tab_name d) r) (db (tab_name d))"

definition pruned :: "table_def list \<Rightarrow> string \<Rightarrow> (sql_row \<Rightarrow> bool) \<Rightarrow> sql_db \<Rightarrow> sql_db \<Rightarrow> table_def \<Rightarrow> bool" where
  "pruned s t P db0 db d \<longleftrightarrow> list_all2 (agree d) (db (tab_name d)) (survivors s t P db0 d)"

definition untouched :: "string \<Rightarrow> (sql_row \<Rightarrow> bool) \<Rightarrow> sql_db \<Rightarrow> sql_db \<Rightarrow> table_def \<Rightarrow> bool" where
  "untouched t P db0 db d \<longleftrightarrow>
     db (tab_name d) = (if tab_name d = t then filter (\<lambda>r. \<not> P r) (db0 (tab_name d)) else db0 (tab_name d))"

text \<open>Two rows of a consistent table with the same single-column primary key are one row.\<close>

lemma primary_key_unique:
  assumes "rows_ok d rows" "primary_key d = [k]" "q \<in> set rows" "r \<in> set rows" "cell q k = cell r k"
  shows "q = r"
proof (rule ccontr)
  assume "q \<noteq> r"
  have "sorted_wrt (\<lambda>q r. \<not> same_key ([k], True) r q) rows"
    using assms(1,2) by (auto simp: rows_ok_def keys_ok_def table_keys_def)
  then have apart: "\<And>i j. i < j \<Longrightarrow> j < length rows \<Longrightarrow> cell (rows ! j) k \<noteq> cell (rows ! i) k"
    by (simp add: sorted_wrt_iff_nth_less same_key_def)
  obtain i j where i: "i < length rows" "rows ! i = q" and j: "j < length rows" "rows ! j = r"
    using assms(3,4) by (auto simp: in_set_conv_nth)
  show False using apart [of i j] apart [of j i] i j assms(5) \<open>q \<noteq> r\<close> by (cases i j rule: linorder_cases) auto
qed

text \<open>A row loses a cascading reference exactly when the row it refers to is doomed.\<close>

lemma lost_iff_doomed:
  assumes sound: "table_sound earlier u" "primary_key u = [k]" and rows: "rows_ok u (db0 (tab_name u))"
    and pruned: "pruned s t P db0 db u"
    and ref: "col_references c = Some (tab_name u, k, Cascade)" and ok: "reference_ok db0 r c"
  shows "lost db Cascade r c \<longleftrightarrow>
    cell r (col_name c) \<noteq> V_null \<and> (\<exists>q. doomed s t P db0 (tab_name u) q \<and> cell q k = cell r (col_name c))"
proof (cases "cell r (col_name c) = V_null")
  case True
  then show ?thesis by (simp add: lost_iff reference_ok_def ref)
next
  case False
  then obtain p where p: "p \<in> set (db0 (tab_name u))" "cell p k = cell r (col_name c)"
    using ok ref by (auto simp: reference_ok_def list_ex_iff)
  have only: "q = p" if "q \<in> set (db0 (tab_name u))" "cell q k = cell r (col_name c)" for q
    using primary_key_unique [OF rows sound(2)] p that by simp
  have key: "([k], True) \<in> set (table_keys u)" by (simp add: table_keys_def sound(2))
  have same: "cell x k = cell y k" if "agree u x y" for x y
    using agree_key [OF that sound(1) key] by simp
  have kept: "(\<exists>q \<in> set (db (tab_name u)). cell q k = cell r (col_name c)) \<longleftrightarrow> \<not> doomed s t P db0 (tab_name u) p"
  proof
    assume "\<exists>q \<in> set (db (tab_name u)). cell q k = cell r (col_name c)"
    then obtain q where q: "q \<in> set (db (tab_name u))" "cell q k = cell r (col_name c)" by blast
    then obtain y where y: "y \<in> set (survivors s t P db0 u)" "agree u q y"
      using list_all2_memL [OF pruned [unfolded pruned_def]] by blast
    then have "y = p" using only [of y] same [of q y] q(2) by (simp add: survivors_def)
    then show "\<not> doomed s t P db0 (tab_name u) p" using y(1) by (simp add: survivors_def)
  next
    assume "\<not> doomed s t P db0 (tab_name u) p"
    then have "p \<in> set (survivors s t P db0 u)" using p(1) by (simp add: survivors_def)
    then obtain q where "q \<in> set (db (tab_name u))" "agree u q p"
      using list_all2_memR [OF pruned [unfolded pruned_def]] by blast
    then show "\<exists>q \<in> set (db (tab_name u)). cell q k = cell r (col_name c)" using same p(2) by force
  qed
  have "(\<exists>q. doomed s t P db0 (tab_name u) q \<and> cell q k = cell r (col_name c)) \<longleftrightarrow> doomed s t P db0 (tab_name u) p"
    using only p(2) doomed_row [of s t P db0 "tab_name u"] by blast
  then show ?thesis using False kept by (simp add: lost_iff ref reference_ok_def list_ex_iff)
qed

lemma keep_row_iff:
  assumes s: "s = before @ d # after" and sound: "schema_sound s" and consistent: "consistent s db0"
    and pruned: "\<And>e. e \<in> set before \<Longrightarrow> pruned s t P db0 db e"
    and r: "r \<in> set (db0 (tab_name d))" "tab_name d = t \<longrightarrow> \<not> P r"
  shows "keep_row d db r \<longleftrightarrow> \<not> doomed s t P db0 (tab_name d) r"
proof -
  note own = sound_split [OF sound [unfolded s]]
  have refs: "\<forall>c \<in> set (tab_columns d). reference_ok db0 r c"
    using consistent r(1) s by (auto simp: consistent_def references_ok_def)
  have lost: "lost db Cascade r c \<longleftrightarrow> (\<exists>u k. col_references c = Some (u, k, Cascade) \<and> cell r (col_name c) \<noteq> V_null
      \<and> (\<exists>q. doomed s t P db0 u q \<and> cell q k = cell r (col_name c)))" if c: "c \<in> set (tab_columns d)" for c
  proof (cases "\<exists>u k. col_references c = Some (u, k, Cascade)")
    case True
    then obtain u k where u: "col_references c = Some (u, k, Cascade)" by blast
    obtain e where e: "e \<in> set before" "tab_name e = u" "primary_key e = [k]"
      using table_sound_reference [OF own(1) c u] by blast
    obtain b1 b2 where b: "before = b1 @ e # b2" using e(1) by (meson split_list)
    have "table_sound b1 e" using sound_split(1) [of b1 e "b2 @ d # after"] sound by (simp add: s b)
    moreover have "rows_ok e (db0 (tab_name e))" using consistent e(1) s by (auto simp: consistent_def)
    ultimately show ?thesis
      using lost_iff_doomed [of b1 e k db0 s t P db c r] pruned [OF e(1)] refs c u e by auto
  qed (auto simp: lost_iff)
  have mine: "e = d" if "e \<in> set s" "tab_name e = tab_name d" for e
    using that sound_table_unique [OF sound, of e d] s by simp
  have "doomed s t P db0 (tab_name d) r \<longleftrightarrow> (\<exists>c \<in> set (tab_columns d). lost db Cascade r c)"
  proof
    assume "doomed s t P db0 (tab_name d) r"
    then show "\<exists>c \<in> set (tab_columns d). lost db Cascade r c"
    proof (cases rule: doomed.cases)
      case hit
      then show ?thesis using r(2) by simp
    next
      case (taken_along e c u k q)
      then have "e = d" using mine by simp
      then show ?thesis using taken_along lost [of c] by blast
    qed
  next
    assume "\<exists>c \<in> set (tab_columns d). lost db Cascade r c"
    then obtain c where c: "c \<in> set (tab_columns d)" "lost db Cascade r c" by blast
    then obtain u k q where "col_references c = Some (u, k, Cascade)"
      "cell r (col_name c) \<noteq> V_null" "doomed s t P db0 u q" "cell q k = cell r (col_name c)"
      using lost [OF c(1)] by blast
    then show "doomed s t P db0 (tab_name d) r"
      using doomed.taken_along [of d s r db0 c u k t P q] c(1) r(1) s by simp
  qed
  then show ?thesis by (auto simp: keep_row_def list_ex_iff)
qed

lemma prune_pruned:
  assumes s: "s = before @ d # after" and sound: "schema_sound s" and consistent: "consistent s db0"
    and pruned: "\<And>e. e \<in> set before \<Longrightarrow> pruned s t P db0 db e" and rest: "untouched t P db0 db d"
  shows "pruned s t P db0 (prune_table d db) d"
proof -
  have here: "filter (keep_row d db) (db (tab_name d)) = survivors s t P db0 d"
  proof -
    have "(\<not> doomed s t P db0 (tab_name d) r) = ((tab_name d = t \<longrightarrow> \<not> P r) \<and> keep_row d db r)"
      if "r \<in> set (db0 (tab_name d))" for r
      using keep_row_iff [OF s sound consistent pruned that] doomed.hit [of r db0 t P s] that by blast
    then have "survivors s t P db0 d = filter (\<lambda>r. (tab_name d = t \<longrightarrow> \<not> P r) \<and> keep_row d db r) (db0 (tab_name d))"
      unfolding survivors_def by (rule filter_cong [OF refl])
    then show ?thesis using rest by (auto simp: untouched_def conj_commute)
  qed
  show ?thesis
    unfolding pruned_def prune_table_def here [symmetric]
    by (simp add: list_all2_map1 list_all2_same null_lost_agree)
qed

lemma prune_all_pruned:
  "s = before @ after \<Longrightarrow> schema_sound s \<Longrightarrow> consistent s db0
   \<Longrightarrow> \<forall>e \<in> set before. pruned s t P db0 db e \<Longrightarrow> \<forall>e \<in> set after. untouched t P db0 db e
   \<Longrightarrow> \<forall>e \<in> set s. pruned s t P db0 (fold prune_table after db) e"
proof (induction after arbitrary: before db)
  case (Cons d after)
  note own = sound_split [OF Cons.prems(2) [unfolded Cons.prems(1)]]
  have elsewhere: "prune_table d db (tab_name e) = db (tab_name e)" if "e \<in> set before \<union> set after" for e
    using that own(2,3) by (auto simp: prune_table_def image_iff)
  have "\<forall>e \<in> set s. pruned s t P db0 (fold prune_table after (prune_table d db)) e"
  proof (rule Cons.IH [of "before @ [d]"])
    have "pruned s t P db0 (prune_table d db) d"
      by (rule prune_pruned [OF Cons.prems(1-3)]) (use Cons.prems(4,5) in auto)
    then show "\<forall>e \<in> set (before @ [d]). pruned s t P db0 (prune_table d db) e"
      using Cons.prems(4) elsewhere by (auto simp: pruned_def)
    show "\<forall>e \<in> set after. untouched t P db0 (prune_table d db) e"
      using Cons.prems(5) elsewhere by (auto simp: untouched_def)
  qed (use Cons.prems in auto)
  then show ?case by simp
qed simp

lemma delete_takes_doomed:
  assumes "schema_sound s" "consistent s db" "d \<in> set s"
  shows "list_all2 (agree d) (delete_rows s t P db (tab_name d)) (survivors s t P db d)"
  using prune_all_pruned [of s "[]" s db t P "db(t := filter (\<lambda>r. \<not> P r) (db t))"] assms
  by (simp add: delete_rows_def pruned_def untouched_def)

end
