(* ===== verification/SchemaFacts.thy ===== *)
theory SchemaFacts
  imports Schema SqlFacts
begin

text \<open>
  Both schemas are sound, so the results about statements hold for them. The second section says which rows
  belong to a store, by the meaning of the tables and without their foreign keys, and that the foreign
  keys take exactly these along when the row of the store is deleted.
\<close>

lemma integration_schema_sound: "schema_sound integration_schema"
  by code_simp

lemma portal_schema_sound: "schema_sound portal_schema"
  by code_simp

section \<open>What belongs to a store\<close>

text \<open>
  Parts and their wholes: the rules of a rate card, the items, payments, discounts, parcels, reversals and
  result of an order, the lines of a parcel or reversal (each also of an item), the lines of a result.
\<close>

definition parts :: "(string \<times> string \<times> string \<times> string) list" where
  "parts =
    [(''gateway_fee_rules'', ''fee_rule_set_id'', ''fee_rule_sets'', ''id''),
     (''cod_fee_rules'', ''fee_rule_set_id'', ''fee_rule_sets'', ''id''),
     (''shipping_fallback_rules'', ''fee_rule_set_id'', ''fee_rule_sets'', ''id''),
     (''order_items'', ''order_id'', ''orders'', ''id''), (''order_payments'', ''order_id'', ''orders'', ''id''),
     (''order_discounts'', ''order_id'', ''orders'', ''id''), (''shipments'', ''order_id'', ''orders'', ''id''),
     (''shipment_lines'', ''shipment_id'', ''shipments'', ''id''), (''shipment_lines'', ''order_item_id'', ''order_items'', ''id''),
     (''reversals'', ''order_id'', ''orders'', ''id''),
     (''reversal_lines'', ''reversal_id'', ''reversals'', ''id''), (''reversal_lines'', ''order_item_id'', ''order_items'', ''id''),
     (''order_profit'', ''order_id'', ''orders'', ''id''), (''order_profit_lines'', ''order_id'', ''order_profit'', ''order_id'')]"

text \<open>A row belongs to a store that is it, that it names, or that its whole belongs to.\<close>

inductive belongs :: "string \<Rightarrow> sql_db \<Rightarrow> string \<Rightarrow> sql_row \<Rightarrow> bool" for k db where
  the_store: "r \<in> set (db ''stores'') \<Longrightarrow> cell r ''id'' = V_text k \<Longrightarrow> belongs k db ''stores'' r"
| naming: "r \<in> set (db t) \<Longrightarrow> cell r ''store_id'' = V_text k \<Longrightarrow> belongs k db t r"
| part: "(t, c, u, key) \<in> set parts \<Longrightarrow> r \<in> set (db t) \<Longrightarrow> belongs k db u q \<Longrightarrow> cell r c = cell q key
    \<Longrightarrow> cell r c \<noteq> V_null \<Longrightarrow> belongs k db t r"

definition is_store :: "string \<Rightarrow> sql_row \<Rightarrow> bool" where
  "is_store k r \<longleftrightarrow> cell r ''id'' = V_text k"

section \<open>The foreign keys take it along\<close>

lemma store_columns:
  "list_all (\<lambda>d. list_all (\<lambda>c. col_name c = ''store_id'' \<longrightarrow> col_references c = Some (''stores'', ''id'', Cascade))
     (tab_columns d)) integration_schema"
  by code_simp

lemma cascades_are_parts:
  "list_all (\<lambda>d. list_all (\<lambda>c. case col_references c of
      Some (u, key, Cascade) \<Rightarrow> col_name c = ''store_id'' \<and> u = ''stores'' \<and> key = ''id''
        \<or> (tab_name d, col_name c, u, key) \<in> set parts
    | _ \<Rightarrow> True) (tab_columns d)) integration_schema"
  by code_simp

lemma parts_cascade:
  "list_all (\<lambda>(t, c, u, key). u \<in> set (map tab_name integration_schema) \<and> list_ex (\<lambda>d. tab_name d = t \<and> list_ex (\<lambda>x. col_name x = c
     \<and> col_references x = Some (u, key, Cascade)) (tab_columns d)) integration_schema) parts"
  by code_simp

lemma stores_mem: "stores_table \<in> set integration_schema" "tab_name stores_table = ''stores''"
  by (simp_all add: integration_schema_def stores_table_def)

lemma absent_cell: "row_shape d r \<Longrightarrow> x \<notin> col_name ` set (tab_columns d) \<Longrightarrow> cell r x = V_null"
proof -
  assume "row_shape d r" "x \<notin> col_name ` set (tab_columns d)"
  then have "x \<notin> set (map fst r)" by (simp add: row_shape_def)
  then have "map_of r x = None" by (simp add: map_of_eq_None_iff)
  then show ?thesis by (simp add: cell_def)
qed

lemma consistent_shape: "consistent s db \<Longrightarrow> d \<in> set s \<Longrightarrow> r \<in> set (db (tab_name d)) \<Longrightarrow> row_shape d r"
  by (auto simp: consistent_def rows_ok_def row_ok_def)

lemma belongs_row: "belongs k db t r \<Longrightarrow> r \<in> set (db t)"
  by (induction rule: belongs.induct) auto

text \<open>The table of stores has no column that names a store and is no part.\<close>

lemma belongs_store:
  assumes "consistent integration_schema db" "belongs k db ''stores'' q"
  shows "cell q ''id'' = V_text k"
  using assms(2)
proof cases
  case naming
  have "''store_id'' \<notin> col_name ` set (tab_columns stores_table)" by code_simp
  then have "cell q ''store_id'' = V_null"
    using absent_cell consistent_shape [OF assms(1) stores_mem(1)] naming(1) stores_mem(2) by metis
  then show ?thesis using naming(2) by simp
next
  case (part c u key q')
  have "list_all (\<lambda>(t, c, u, key). t \<noteq> ''stores'') parts" by code_simp
  then show ?thesis using part(1) by (auto simp: list_all_iff)
qed

lemma doomed_belongs:
  assumes "consistent integration_schema db"
  shows "doomed integration_schema ''stores'' (is_store k) db t r \<Longrightarrow> belongs k db t r"
proof (induction rule: doomed.induct)
  case (hit r)
  then show ?case by (simp add: is_store_def the_store)
next
  case (taken_along d r c u key q)
  have "col_name c = ''store_id'' \<and> u = ''stores'' \<and> key = ''id'' \<or> (tab_name d, col_name c, u, key) \<in> set parts"
    using cascades_are_parts taken_along(1,3,4) by (fastforce simp: list_all_iff)
  then show ?case
  proof
    assume c: "col_name c = ''store_id'' \<and> u = ''stores'' \<and> key = ''id''"
    then have "cell q ''id'' = V_text k" using belongs_store [OF assms] taken_along.IH by simp
    then show ?thesis using c taken_along(2,6) by (metis naming)
  next
    assume "(tab_name d, col_name c, u, key) \<in> set parts"
    then show ?thesis using taken_along.IH taken_along(2,6,7) by (metis part)
  qed
qed

lemma belongs_doomed:
  assumes db: "consistent integration_schema db"
  shows "belongs k db t r \<Longrightarrow> t \<in> set (map tab_name integration_schema)
    \<Longrightarrow> doomed integration_schema ''stores'' (is_store k) db t r"
proof (induction rule: belongs.induct)
  case (the_store r)
  then show ?case by (simp add: doomed.hit is_store_def)
next
  case (naming r t)
  then obtain d where d: "d \<in> set integration_schema" "t = tab_name d" by auto
  have shape: "row_shape d r" using consistent_shape [OF db d(1)] naming(1) d(2) by simp
  then have "''store_id'' \<in> col_name ` set (tab_columns d)" using absent_cell naming(2) by force
  then obtain c where c: "c \<in> set (tab_columns d)" "col_name c = ''store_id''" by auto
  then have ref: "col_references c = Some (''stores'', ''id'', Cascade)"
    using store_columns d(1) by (simp add: list_all_iff)
  have "reference_ok db r c" using db d naming(1) c(1) by (auto simp: consistent_def references_ok_def)
  then obtain q where "q \<in> set (db ''stores'')" "cell q ''id'' = V_text k"
    using ref naming(2) c(2) by (auto simp: reference_ok_def list_ex_iff)
  then have "doomed integration_schema ''stores'' (is_store k) db ''stores'' q" by (simp add: doomed.hit is_store_def)
  then show ?case
    using doomed.taken_along [OF d(1) _ c(1) ref] naming(1,2) d(2) c(2) \<open>cell q ''id'' = V_text k\<close> by simp
next
  case (part t c u key r q)
  obtain d x where "u \<in> set (map tab_name integration_schema)" and d: "d \<in> set integration_schema" "tab_name d = t"
    and x: "x \<in> set (tab_columns d)" "col_name x = c" "col_references x = Some (u, key, Cascade)"
    using parts_cascade part.hyps(1) by (fastforce simp: list_all_iff list_ex_iff simp del: set_map)
  then have "doomed integration_schema ''stores'' (is_store k) db u q" using part.IH by blast
  then show ?case
    using doomed.taken_along [OF d(1) _ x(1,3)] part.hyps(2,4,5) d(2) x(2) by metis
qed

lemma deletion_takes_belongings:
  assumes db: "consistent integration_schema db" and d: "d \<in> set integration_schema"
  shows "list_all2 (agree d) (delete_rows integration_schema ''stores'' (is_store k) db (tab_name d))
    (filter (\<lambda>r. \<not> belongs k db (tab_name d) r) (db (tab_name d)))"
proof -
  have "tab_name d \<in> set (map tab_name integration_schema)" using d by simp
  then have "doomed integration_schema ''stores'' (is_store k) db (tab_name d) = belongs k db (tab_name d)"
    using doomed_belongs [OF db] belongs_doomed [OF db] by blast
  then show ?thesis
    using delete_takes_doomed [OF integration_schema_sound db d, of "''stores''" "is_store k"] by (simp add: survivors_def)
qed

end
