(* ===== verification/ReleaseCycle.thy ===== *)
theory ReleaseCycle
  imports Schema ProfitStore SchemaFacts OpsConfig
begin

text \<open>
  The store a release is verified against, \<open>packages/persistence/src/db/seeds/demo-store.ts\<close>: the rows
  of each insert with the column names the source's keys stand for, and the inserts in their order.
  The orders are read back as \<open>computeSeededOrder\<close> of \<open>persistence/test/seed-and-clear.test.ts\<close> does.
  The second chapter is about the scripts.
\<close>

section \<open>The rows\<close>

definition SEED_STORE_ID :: string where
  "SEED_STORE_ID = ''demo:1''"

definition SEED_FEE_RULE_SET_ID :: string where
  "SEED_FEE_RULE_SET_ID = ''demo:frs:1''"

definition seed_at :: "string \<Rightarrow> sql_value" where
  "seed_at s = (case toDateFromInstant s of Some ms \<Rightarrow> V_instant ms | None \<Rightarrow> V_null)"

text \<open>A decimal string as PostgreSQL reads it into an amount.\<close>

definition amount :: "string \<Rightarrow> sql_value" where
  "amount s = V_money (column_minor s)"

text \<open>The names of the products, in UTF-8.\<close>

definition ABAYA :: string where
  "ABAYA = [CHR 0xD8, CHR 0xB9, CHR 0xD8, CHR 0xA8, CHR 0xD8, CHR 0xA7, CHR 0xD9, CHR 0x8A, CHR 0xD8, CHR 0xA9,
    CHR 0x20, CHR 0xD9, CHR 0x83, CHR 0xD9, CHR 0x84, CHR 0xD8, CHR 0xA7, CHR 0xD8, CHR 0xB3, CHR 0xD9,
    CHR 0x8A, CHR 0xD9, CHR 0x83, CHR 0xD9, CHR 0x8A, CHR 0xD8, CHR 0xA9]"

definition SHEMAGH :: string where
  "SHEMAGH = [CHR 0xD8, CHR 0xB4, CHR 0xD9, CHR 0x85, CHR 0xD8, CHR 0xA7, CHR 0xD8, CHR 0xBA, CHR 0x20, CHR 0xD9,
    CHR 0x82, CHR 0xD8, CHR 0xB7, CHR 0xD9, CHR 0x86, CHR 0xD9, CHR 0x8A]"

definition seed_stores :: "sql_row list" where
  "seed_stores =
    [[(''id'', V_text SEED_STORE_ID), (''platform'', V_text ''demo''), (''platform_store_id'', V_text ''1''),
      (''currency'', V_text ''SAR''), (''timezone'', V_text ''Asia/Riyadh''), (''vat_rate_bps'', V_int 1500),
      (''vat_registered'', V_bool True), (''installed_at'', seed_at ''2026-01-01T00:00:00.000Z'')]]"

definition seed_feeRuleSets :: "sql_row list" where
  "seed_feeRuleSets =
    [[(''id'', V_text SEED_FEE_RULE_SET_ID), (''store_id'', V_text SEED_STORE_ID),
      (''currency'', V_text ''SAR''), (''effective_from'', seed_at ''2026-01-01T00:00:00.000Z''),
      (''note'', V_text ''Seeded demo rates'')]]"

definition seed_gatewayFeeRules :: "sql_row list" where
  "seed_gatewayFeeRules =
    [[(''id'', V_text ''demo:gfr:mada''), (''fee_rule_set_id'', V_text SEED_FEE_RULE_SET_ID),
      (''instrument'', V_text ''card''), (''scheme'', V_text ''mada''), (''provider'', V_null),
      (''percent_bps'', V_int 100), (''fixed_minor'', amount ''0.00''), (''min_fee_minor'', V_null),
      (''max_fee_minor'', amount ''200.00''), (''fee_vat_bps'', V_int 1500),
      (''source'', V_text ''default_table'')],
     [(''id'', V_text ''demo:gfr:visa''), (''fee_rule_set_id'', V_text SEED_FEE_RULE_SET_ID),
      (''instrument'', V_text ''card''), (''scheme'', V_text ''visa''), (''provider'', V_null),
      (''percent_bps'', V_int 275), (''fixed_minor'', amount ''1.00''), (''min_fee_minor'', V_null),
      (''max_fee_minor'', V_null), (''fee_vat_bps'', V_int 1500), (''source'', V_text ''default_table'')]]"

definition seed_codFeeRules :: "sql_row list" where
  "seed_codFeeRules =
    [[(''id'', V_text ''demo:cfr:any''), (''fee_rule_set_id'', V_text SEED_FEE_RULE_SET_ID),
      (''carrier'', V_null), (''percent_bps'', V_int 200), (''fixed_minor'', amount ''8.00''),
      (''min_fee_minor'', V_null), (''max_fee_minor'', V_null), (''fee_vat_bps'', V_int 1500),
      (''source'', V_text ''default_table'')]]"

definition seed_shippingFallbackRules :: "sql_row list" where
  "seed_shippingFallbackRules =
    [[(''id'', V_text ''demo:sfr:any''), (''fee_rule_set_id'', V_text SEED_FEE_RULE_SET_ID),
      (''country_code'', V_null), (''region'', V_null), (''carrier'', V_null),
      (''direction'', V_text ''any''), (''cost_minor'', amount ''22.00'')]]"

definition seed_products :: "sql_row list" where
  "seed_products =
    [[(''store_id'', V_text SEED_STORE_ID), (''platform_product_id'', V_text ''P1''),
      (''sku'', V_text ''SKU-1''), (''product_name'', V_text ABAYA),
      (''platform_cost_minor'', amount ''240.00''), (''list_price_ex_vat_minor'', amount ''400.00''),
      (''active'', V_bool True)],
     [(''store_id'', V_text SEED_STORE_ID), (''platform_product_id'', V_text ''P2''),
      (''sku'', V_text ''SKU-2''), (''product_name'', V_text SHEMAGH), (''platform_cost_minor'', V_null),
      (''list_price_ex_vat_minor'', amount ''300.00''), (''active'', V_bool True)]]"

definition seed_costHistory :: "sql_row list" where
  "seed_costHistory =
    [[(''id'', V_text ''demo:ch:P1''), (''store_id'', V_text SEED_STORE_ID),
      (''platform_product_id'', V_text ''P1''), (''platform_variant_id'', V_null),
      (''sku'', V_text ''SKU-1''), (''unit_cost_minor'', amount ''240.00''),
      (''source'', V_text ''merchant_manual''),
      (''effective_from'', seed_at ''2026-01-01T00:00:00.000Z''), (''effective_to'', V_null),
      (''supersedes_id'', V_null), (''note'', V_text ''Seeded'')]]"

text \<open>The last part of an identifier, and an object spread over another.\<close>

definition last_segment :: "string \<Rightarrow> string" where
  "last_segment i = rev (takeWhile (\<lambda>c. c \<noteq> CHR '':'') (rev i))"

definition spread_row :: "sql_row \<Rightarrow> sql_row \<Rightarrow> sql_row" where
  "spread_row base over =
     map (\<lambda>(c, v). (c, case map_of over c of Some w \<Rightarrow> w | None \<Rightarrow> v)) base
     @ filter (\<lambda>(c, v). map_of base c = None) over"

definition seed_order :: "string \<Rightarrow> sql_row \<Rightarrow> sql_row" where
  "seed_order i over = spread_row
     [(''id'', V_text i), (''store_id'', V_text SEED_STORE_ID), (''platform_order_id'', V_text (last_segment i)),
      (''placed_at'', seed_at ''2026-03-01T18:30:00.000Z''),
      (''lifecycle'', V_text ''open''), (''payment_state'', V_text ''paid''),
      (''fulfillment_state'', V_text ''delivered''), (''raw_status_label'', V_text ''delivered''),
      (''is_test'', V_bool False), (''fulfillment_method'', V_text ''carrier''),
      (''destination_country_code'', V_text ''SA''), (''destination_region'', V_text ''riyadh''),
      (''destination_city'', V_text ''riyadh''), (''currency'', V_text ''SAR''),
      (''vat_rate_bps'', V_int 1500), (''subtotal_ex_vat_minor'', amount ''0.00''),
      (''vat_amount_minor'', amount ''0.00''), (''shipping_charged_ex_vat_minor'', amount ''0.00''),
      (''cod_fee_charged_ex_vat_minor'', amount ''0.00''), (''total_inc_vat_minor'', amount ''0.00'')] over"

definition seed_orders :: "sql_row list" where
  "seed_orders =
    [seed_order ''demo:1:1001''
       [(''subtotal_ex_vat_minor'', amount ''600.00''), (''vat_amount_minor'', amount ''90.00''),
        (''total_inc_vat_minor'', amount ''690.00'')],
     seed_order ''demo:1:1002''
       [(''payment_state'', V_text ''unpaid''), (''fulfillment_state'', V_text ''rto''),
        (''raw_status_label'', V_text ''returned''), (''subtotal_ex_vat_minor'', amount ''300.00''),
        (''vat_amount_minor'', amount ''45.00''), (''total_inc_vat_minor'', amount ''345.00'')],
     seed_order ''demo:1:1003''
       [(''subtotal_ex_vat_minor'', amount ''300.00''), (''vat_amount_minor'', amount ''45.00''),
        (''total_inc_vat_minor'', amount ''345.00'')]]"

definition seed_orderItems :: "sql_row list" where
  "seed_orderItems =
    [[(''id'', V_text ''demo:1:1001#L1''), (''order_id'', V_text ''demo:1:1001''),
      (''store_id'', V_text SEED_STORE_ID), (''platform_line_id'', V_text ''L1''),
      (''platform_product_id'', V_text ''P1''), (''platform_variant_id'', V_null),
      (''sku'', V_text ''SKU-1''), (''product_name'', V_text ABAYA), (''quantity'', V_int 2),
      (''unit_price_ex_vat_minor'', amount ''300.00''), (''gross_line_ex_vat_minor'', amount ''600.00''),
      (''line_discount_ex_vat_minor'', amount ''0.00''), (''line_total_ex_vat_minor'', amount ''600.00''),
      (''cost_at_time_minor'', amount ''240.00''), (''cost_source'', V_text ''merchant_manual''),
      (''cost_history_id'', V_text ''demo:ch:P1'')],
     [(''id'', V_text ''demo:1:1002#L1''), (''order_id'', V_text ''demo:1:1002''),
      (''store_id'', V_text SEED_STORE_ID), (''platform_line_id'', V_text ''L1''),
      (''platform_product_id'', V_text ''P1''), (''platform_variant_id'', V_null),
      (''sku'', V_text ''SKU-1''), (''product_name'', V_text ABAYA), (''quantity'', V_int 1),
      (''unit_price_ex_vat_minor'', amount ''300.00''), (''gross_line_ex_vat_minor'', amount ''300.00''),
      (''line_discount_ex_vat_minor'', amount ''0.00''), (''line_total_ex_vat_minor'', amount ''300.00''),
      (''cost_at_time_minor'', amount ''240.00''), (''cost_source'', V_text ''merchant_manual''),
      (''cost_history_id'', V_text ''demo:ch:P1'')],
     [(''id'', V_text ''demo:1:1003#L1''), (''order_id'', V_text ''demo:1:1003''),
      (''store_id'', V_text SEED_STORE_ID), (''platform_line_id'', V_text ''L1''),
      (''platform_product_id'', V_text ''P2''), (''platform_variant_id'', V_null),
      (''sku'', V_text ''SKU-2''), (''product_name'', V_text SHEMAGH), (''quantity'', V_int 1),
      (''unit_price_ex_vat_minor'', amount ''300.00''), (''gross_line_ex_vat_minor'', amount ''300.00''),
      (''line_discount_ex_vat_minor'', amount ''0.00''), (''line_total_ex_vat_minor'', amount ''300.00''),
      (''cost_at_time_minor'', V_null), (''cost_source'', V_text ''none''), (''cost_history_id'', V_null)]]"

definition seed_orderPayments :: "sql_row list" where
  "seed_orderPayments =
    [[(''id'', V_text ''demo:1:1001#pay0''), (''order_id'', V_text ''demo:1:1001''), (''leg_index'', V_int 0),
      (''instrument'', V_text ''card''), (''scheme'', V_text ''mada''), (''wallet'', V_null),
      (''provider'', V_null), (''raw_method_label'', V_text ''mada''), (''state'', V_text ''captured''),
      (''amount_gross_minor'', amount ''690.00''), (''transaction_ref'', V_text ''demo_txn_1001'')],
     [(''id'', V_text ''demo:1:1002#pay0''), (''order_id'', V_text ''demo:1:1002''), (''leg_index'', V_int 0),
      (''instrument'', V_text ''cod''), (''scheme'', V_null), (''wallet'', V_null), (''provider'', V_null),
      (''raw_method_label'', V_text ''cash_on_delivery''), (''state'', V_text ''pending''),
      (''amount_gross_minor'', amount ''345.00''), (''transaction_ref'', V_null)],
     [(''id'', V_text ''demo:1:1003#pay0''), (''order_id'', V_text ''demo:1:1003''), (''leg_index'', V_int 0),
      (''instrument'', V_text ''card''), (''scheme'', V_text ''mada''), (''wallet'', V_null),
      (''provider'', V_null), (''raw_method_label'', V_text ''mada''), (''state'', V_text ''captured''),
      (''amount_gross_minor'', amount ''345.00''), (''transaction_ref'', V_text ''demo_txn_1003'')]]"

definition seed_shipments :: "sql_row list" where
  "seed_shipments =
    [[(''id'', V_text ''demo:1:S1''), (''order_id'', V_text ''demo:1:1001''),
      (''store_id'', V_text SEED_STORE_ID), (''platform_shipment_id'', V_text ''S1''),
      (''direction'', V_text ''outbound''), (''status'', V_text ''delivered''),
      (''carrier'', V_text ''demo_courier''), (''raw_carrier_label'', V_text ''Demo Courier''),
      (''carrier_cost_minor'', amount ''21.00'')],
     [(''id'', V_text ''demo:1:S2''), (''order_id'', V_text ''demo:1:1002''),
      (''store_id'', V_text SEED_STORE_ID), (''platform_shipment_id'', V_text ''S2''),
      (''direction'', V_text ''outbound''), (''status'', V_text ''returned_to_origin''),
      (''carrier'', V_text ''demo_courier''), (''raw_carrier_label'', V_text ''Demo Courier''),
      (''carrier_cost_minor'', amount ''22.00'')],
     [(''id'', V_text ''demo:1:S3''), (''order_id'', V_text ''demo:1:1002''),
      (''store_id'', V_text SEED_STORE_ID), (''platform_shipment_id'', V_text ''S3''),
      (''direction'', V_text ''return''), (''status'', V_text ''returned_to_origin''),
      (''carrier'', V_text ''demo_courier''), (''raw_carrier_label'', V_text ''Demo Courier''),
      (''carrier_cost_minor'', amount ''22.00'')],
     [(''id'', V_text ''demo:1:S4''), (''order_id'', V_text ''demo:1:1003''),
      (''store_id'', V_text SEED_STORE_ID), (''platform_shipment_id'', V_text ''S4''),
      (''direction'', V_text ''outbound''), (''status'', V_text ''delivered''),
      (''carrier'', V_text ''demo_courier''), (''raw_carrier_label'', V_text ''Demo Courier''),
      (''carrier_cost_minor'', amount ''21.00'')]]"

section \<open>The inserts\<close>

text \<open>
  A statement inserts all of its rows or none; one that fails ends the script, and what the ones before
  it wrote stays.
\<close>

fun run_inserts ::
  "table_def list \<Rightarrow> int \<Rightarrow> (string \<times> sql_row list) list \<Rightarrow> sql_db \<Rightarrow> sql_error option \<times> sql_db" where
  "run_inserts s now [] db = (None, db)"
| "run_inserts s now ((t, rows) # rest) db =
     (case insert_rows s now (map (\<lambda>r. (t, r)) rows) db of
        Inl e \<Rightarrow> (Some e, db)
      | Inr db' \<Rightarrow> run_inserts s now rest db')"

definition seed_statements :: "(string \<times> sql_row list) list" where
  "seed_statements =
    [(''stores'', seed_stores), (''fee_rule_sets'', seed_feeRuleSets),
     (''gateway_fee_rules'', seed_gatewayFeeRules), (''cod_fee_rules'', seed_codFeeRules),
     (''shipping_fallback_rules'', seed_shippingFallbackRules), (''products'', seed_products),
     (''cost_history'', seed_costHistory), (''orders'', seed_orders), (''order_items'', seed_orderItems),
     (''order_payments'', seed_orderPayments), (''shipments'', seed_shipments)]"

definition seedDemoStore :: "int \<Rightarrow> sql_db \<Rightarrow> sql_error option \<times> sql_db" where
  "seedDemoStore now db = run_inserts integration_schema now seed_statements db"

section \<open>Reading an order back\<close>

fun text_of :: "sql_value \<Rightarrow> string option" where
  "text_of (V_text s) = Some s"
| "text_of _ = None"

fun number_in :: "sql_value \<Rightarrow> js_number option" where
  "number_in (V_int n) = Some (JInt n)"
| "number_in (V_money m) = Some (JInt m)"
| "number_in _ = None"

definition text_at :: "sql_row \<Rightarrow> string \<Rightarrow> string" where
  "text_at r c = (case text_of (cell r c) of Some s \<Rightarrow> s | None \<Rightarrow> [])"

definition number_at :: "sql_row \<Rightarrow> string \<Rightarrow> js_number" where
  "number_at r c = (case number_in (cell r c) of Some n \<Rightarrow> n | None \<Rightarrow> JInt 0)"

definition instant_at :: "sql_row \<Rightarrow> string \<Rightarrow> string" where
  "instant_at r c = (case cell r c of
     V_instant t \<Rightarrow> (case toInstantFromDate t of Inr s \<Rightarrow> s | Inl e \<Rightarrow> []) | _ \<Rightarrow> [])"

text \<open>A text as the member of an enumeration it names: \<open>as\<close> in the source.\<close>

definition member_of :: "string list \<Rightarrow> 'a list \<Rightarrow> string \<Rightarrow> 'a" where
  "member_of literals members s = the (map_of (zip literals members) s)"

definition instrument_of :: "string \<Rightarrow> payment_instrument" where
  "instrument_of = member_of PAYMENT_INSTRUMENTS
     [PI_card, PI_bnpl, PI_wallet, PI_cod, PI_bank_transfer, PI_free, PI_unknown, PI_other]"

definition scheme_of :: "string \<Rightarrow> card_scheme" where
  "scheme_of = member_of CARD_SCHEMES
     [CS_mada, CS_visa, CS_mastercard, CS_amex, CS_unionpay, CS_other, CS_unknown]"

definition payment_of_row :: "sql_row \<Rightarrow> payment_breakdown" where
  "payment_of_row r =
    \<lparr> pay_instrument = instrument_of (text_at r ''instrument''),
      pay_scheme = map_option scheme_of (text_of (cell r ''scheme'')), pay_wallet = None, pay_provider = None,
      pay_rawMethodLabel = text_at r ''raw_method_label'',
      pay_state = member_of PAYMENT_LEG_STATES [PL_pending, PL_authorized, PL_captured, PL_failed, PL_refunded]
        (text_at r ''state''),
      pay_amountGrossMinor = js_int (number_at r ''amount_gross_minor''),
      pay_transactionRef = text_of (cell r ''transaction_ref'') \<rparr>"

definition order_of_row :: "string \<Rightarrow> sql_row \<Rightarrow> payment_breakdown list \<Rightarrow> js_number canonical_order" where
  "order_of_row i r payments =
    \<lparr> order_id = i, order_storeId = SEED_STORE_ID, order_platformOrderId = text_at r ''platform_order_id'',
      order_placedAt = instant_at r ''placed_at'', order_platformUpdatedAt = None,
      order_lifecycle = member_of ORDER_LIFECYCLES [OL_draft, OL_open, OL_completed, OL_cancelled]
        (text_at r ''lifecycle''),
      order_paymentState = member_of PAYMENT_STATES [PS_unpaid, PS_authorized, PS_paid, PS_partially_refunded,
        PS_refunded, PS_voided, PS_failed] (text_at r ''payment_state''),
      order_fulfillmentState = member_of FULFILLMENT_STATES [FS_unfulfilled, FS_partially_fulfilled,
        FS_in_transit, FS_delivered, FS_returned, FS_rto, FS_not_applicable] (text_at r ''fulfillment_state''),
      order_platformStatusId = None, order_rawStatusLabel = text_at r ''raw_status_label'',
      order_isTest = (cell r ''is_test'' = V_bool True),
      order_fulfillmentMethod = member_of FULFILLMENT_METHODS [FM_carrier, FM_pickup, FM_self_delivery,
        FM_digital, FM_other] (text_at r ''fulfillment_method''),
      order_destination = map_option (\<lambda>c. \<lparr> dest_countryCode = c,
          dest_region = text_of (cell r ''destination_region''), dest_city = text_of (cell r ''destination_city'') \<rparr>)
        (text_of (cell r ''destination_country_code'')),
      order_currency = ''SAR'', order_vatRateBps = js_int (number_at r ''vat_rate_bps''),
      order_subtotalExVatMinor = number_at r ''subtotal_ex_vat_minor'',
      order_vatAmountMinor = number_at r ''vat_amount_minor'',
      order_shippingChargedExVatMinor = number_at r ''shipping_charged_ex_vat_minor'',
      order_codFeeChargedExVatMinor = number_at r ''cod_fee_charged_ex_vat_minor'',
      order_totalIncVatMinor = number_at r ''total_inc_vat_minor'', order_discounts = [],
      order_payments = payments, order_customerRef = None, order_attribution = None \<rparr>"

definition item_of_row :: "string \<Rightarrow> sql_row \<Rightarrow> js_number canonical_order_item" where
  "item_of_row i r =
    \<lparr> item_id = text_at r ''id'', item_orderId = i, item_platformLineId = text_at r ''platform_line_id'',
      item_platformProductId = text_at r ''platform_product_id'',
      item_platformVariantId = text_of (cell r ''platform_variant_id''), item_sku = text_of (cell r ''sku''),
      item_productName = text_at r ''product_name'', item_quantity = number_at r ''quantity'',
      item_unitPriceExVatMinor = number_at r ''unit_price_ex_vat_minor'',
      item_grossLineExVatMinor = number_at r ''gross_line_ex_vat_minor'',
      item_lineDiscountExVatMinor = number_at r ''line_discount_ex_vat_minor'',
      item_lineTotalExVatMinor = number_at r ''line_total_ex_vat_minor'' \<rparr>"

definition shipment_of_row :: "string \<Rightarrow> sql_row \<Rightarrow> js_number canonical_shipment" where
  "shipment_of_row i r =
    \<lparr> ship_id = text_at r ''id'', ship_orderId = i, ship_platformShipmentId = text_at r ''platform_shipment_id'',
      ship_direction = member_of SHIPMENT_DIRECTIONS [SD_outbound, SD_return] (text_at r ''direction''),
      ship_status = member_of SHIPMENT_STATUSES [SS_created, SS_in_transit, SS_out_for_delivery, SS_delivered,
        SS_failed_attempt, SS_returned_to_origin, SS_cancelled, SS_lost, SS_unknown] (text_at r ''status''),
      ship_carrier = text_at r ''carrier'', ship_rawCarrierLabel = text_at r ''raw_carrier_label'',
      ship_carrierCostMinor = number_in (cell r ''carrier_cost_minor''), ship_lines = [],
      ship_shippedAt = None, ship_deliveredAt = None, ship_platformUpdatedAt = None \<rparr>"

definition cost_of_row :: "sql_row \<Rightarrow> js_number resolved_cost" where
  "cost_of_row r =
    \<lparr> cost_platformProductId = text_at r ''platform_product_id'',
      cost_platformVariantId = text_of (cell r ''platform_variant_id''), cost_sku = text_of (cell r ''sku''),
      cost_unitCostMinor = number_at r ''unit_cost_minor'',
      cost_source = the (map_of COST_SOURCES (text_at r ''source'')), cost_costHistoryId = text_at r ''id'' \<rparr>"

definition fee_source_of :: "string \<Rightarrow> fee_source" where
  "fee_source_of = member_of FEE_SOURCES [FE_merchant_entered, FE_gateway_statement, FE_default_table]"

definition gateway_rule_of_row :: "sql_row \<Rightarrow> js_number gateway_fee_rule" where
  "gateway_rule_of_row r =
    \<lparr> fee_percentBps = number_at r ''percent_bps'', fee_fixedMinor = number_at r ''fixed_minor'',
      fee_minFeeMinor = number_in (cell r ''min_fee_minor''), fee_maxFeeMinor = number_in (cell r ''max_fee_minor''),
      fee_feeVatBps = number_at r ''fee_vat_bps'', fee_ratesIncludeVat = (cell r ''rates_include_vat'' = V_bool True),
      fee_source = fee_source_of (text_at r ''source''),
      gw_instrument = map_option instrument_of (text_of (cell r ''instrument'')),
      gw_scheme = map_option scheme_of (text_of (cell r ''scheme'')), gw_provider = text_of (cell r ''provider'') \<rparr>"

definition cod_rule_of_row :: "sql_row \<Rightarrow> js_number cod_fee_rule" where
  "cod_rule_of_row r =
    \<lparr> fee_percentBps = number_at r ''percent_bps'', fee_fixedMinor = number_at r ''fixed_minor'',
      fee_minFeeMinor = number_in (cell r ''min_fee_minor''), fee_maxFeeMinor = number_in (cell r ''max_fee_minor''),
      fee_feeVatBps = number_at r ''fee_vat_bps'', fee_ratesIncludeVat = (cell r ''rates_include_vat'' = V_bool True),
      fee_source = fee_source_of (text_at r ''source''), cod_carrier = text_of (cell r ''carrier'') \<rparr>"

definition shipping_rule_of_row :: "sql_row \<Rightarrow> js_number shipping_fallback_rule" where
  "shipping_rule_of_row r =
    \<lparr> sf_countryCode = text_of (cell r ''country_code''), sf_region = text_of (cell r ''region''),
      sf_carrier = text_of (cell r ''carrier''),
      sf_direction = member_of (SHIPMENT_DIRECTIONS @ [''any'']) [RD_outbound, RD_return, RD_any] (text_at r ''direction''),
      sf_costMinor = number_at r ''cost_minor'' \<rparr>"

text \<open>The rows of a table whose column has a value.\<close>

definition rows_with :: "sql_db \<Rightarrow> string \<Rightarrow> string \<Rightarrow> string \<Rightarrow> sql_row list" where
  "rows_with db t c v = filter (\<lambda>r. cell r c = V_text v) (db t)"

definition leg_index :: "sql_row \<Rightarrow> int" where
  "leg_index r = js_int (number_at r ''leg_index'')"

definition seeded_input :: "sql_db \<Rightarrow> string \<Rightarrow> order_profit_input option" where
  "seeded_input db i =
     (case (rows_with db ''stores'' ''id'' SEED_STORE_ID, rows_with db ''orders'' ''id'' i) of
        (store # stores, row # rows) \<Rightarrow> Some
          \<lparr> in_store = Some \<lparr> store_storeId = SEED_STORE_ID, store_currency = ''SAR'',
              store_timezone = text_at store ''timezone'', store_vatRegistered = (cell store ''vat_registered'' = V_bool True) \<rparr>,
            in_order = Some (order_of_row i row
              (map payment_of_row (sort_key leg_index (rows_with db ''order_payments'' ''order_id'' i)))),
            in_items = Some (map (item_of_row i) (rows_with db ''order_items'' ''order_id'' i)),
            in_shipments = Some (map (shipment_of_row i) (rows_with db ''shipments'' ''order_id'' i)),
            in_reversals = Some [],
            in_costs = Some (map cost_of_row (rows_with db ''cost_history'' ''store_id'' SEED_STORE_ID)),
            in_feeRuleSet = Some \<lparr> frs_id = SEED_FEE_RULE_SET_ID, frs_currency = ''SAR'',
              frs_gateway = map gateway_rule_of_row (rows_with db ''gateway_fee_rules'' ''fee_rule_set_id'' SEED_FEE_RULE_SET_ID),
              frs_cod = map cod_rule_of_row (rows_with db ''cod_fee_rules'' ''fee_rule_set_id'' SEED_FEE_RULE_SET_ID),
              frs_shippingFallback = map shipping_rule_of_row
                (rows_with db ''shipping_fallback_rules'' ''fee_rule_set_id'' SEED_FEE_RULE_SET_ID) \<rparr> \<rparr>
      | _ \<Rightarrow> None)"

text \<open>\<open>None\<close> is the error that the seed did not write the order.\<close>

definition computeSeededOrder :: "intl \<Rightarrow> sql_db \<Rightarrow> string \<Rightarrow> order_profit_result option" where
  "computeSeededOrder intl db i = map_option (\<lambda>inp. computeOrderProfit intl (Some inp)) (seeded_input db i)"

section \<open>What the release expects (\<open>SEED_EXPECTATIONS\<close>)\<close>

definition expects_margin :: "int \<Rightarrow> order_profit_result \<Rightarrow> bool" where
  "expects_margin m r = (case r of
     Computed c \<Rightarrow> opt_contributionMarginMinor (opc_totals c) = m | Rejected _ \<Rightarrow> False)"

definition expects_confidence :: "confidence_level \<Rightarrow> order_profit_result \<Rightarrow> bool" where
  "expects_confidence l r = (case r of
     Computed c \<Rightarrow> conf_level (opc_confidence c) = l | Rejected _ \<Rightarrow> False)"

definition meets_expectations :: "intl \<Rightarrow> sql_db \<Rightarrow> bool" where
  "meets_expectations intl db \<longleftrightarrow>
     length (rows_with db ''orders'' ''store_id'' SEED_STORE_ID) = 3
     \<and> map_option (expects_margin 9210) (computeSeededOrder intl db ''demo:1:1001'') = Some True
     \<and> map_option (expects_margin (- 4400)) (computeSeededOrder intl db ''demo:1:1002'') = Some True
     \<and> map_option (expects_confidence CL_incomplete) (computeSeededOrder intl db ''demo:1:1003'') = Some True"

chapter \<open>Clearing and seeding\<close>

text \<open>
  The cycle a release runs before it meets a merchant: empty the database
  (\<open>packages/persistence/src/db/clear.ts\<close>), seed the demo store, read the orders back.
\<close>

section \<open>Clearing\<close>

datatype clear_refusal = Protected_environment | Not_confirmed

definition PROTECTED_ENVIRONMENTS :: "string list" where
  "PROTECTED_ENVIRONMENTS = [''production'', ''prod'']"

definition assertClearIsAllowed :: "string option \<Rightarrow> bool \<Rightarrow> clear_refusal option" where
  "assertClearIsAllowed environmentName confirmed =
     (let environment = (case environmentName of None \<Rightarrow> [] | Some e \<Rightarrow> map to_lower e)
      in if environment \<in> set PROTECTED_ENVIRONMENTS then Some Protected_environment
         else if \<not> confirmed then Some Not_confirmed else None)"

text \<open>The catalogue \<open>pg_tables\<close>: schema and name of each table.\<close>

definition listTables :: "(string \<times> string) list \<Rightarrow> string list" where
  "listTables catalogue =
     sort (map snd (filter (\<lambda>(s, t). s = ''public'' \<and> \<not> sql_like ''__drizzle%'' t) catalogue))"

text \<open>\<open>CASCADE\<close> empties the tables that refer to an emptied one too.\<close>

definition refers_into :: "string list \<Rightarrow> table_def \<Rightarrow> bool" where
  "refers_into ts d \<longleftrightarrow>
     list_ex (\<lambda>c. case col_references c of None \<Rightarrow> False | Some (t, k, a) \<Rightarrow> t \<in> set ts) (tab_columns d)"

definition cascade_tables :: "table_def list \<Rightarrow> string list \<Rightarrow> string list" where
  "cascade_tables s ts = fold (\<lambda>d acc. if refers_into acc d then acc @ [tab_name d] else acc) s ts"

definition clearAll :: "(string \<times> string) list \<Rightarrow> sql_db \<Rightarrow> string list \<times> sql_db" where
  "clearAll catalogue db =
     (let tables = listTables catalogue
      in if tables = [] then ([], db)
         else (tables, truncate_tables (cascade_tables integration_schema tables) db))"

datatype script_error = No_database_url | Clear_refused clear_refusal | Statement_failed sql_error

definition database_url :: "env \<Rightarrow> string option" where
  "database_url env = (case env ''DATABASE_URL'' of None \<Rightarrow> None | Some url \<Rightarrow> if url = [] then None else Some url)"

text \<open>The scripts: the error that ends the process with status 1, or what they report.\<close>

definition clear_script :: "env \<Rightarrow> (string \<times> string) list \<Rightarrow> sql_db \<Rightarrow> (script_error + string list) \<times> sql_db" where
  "clear_script env catalogue db =
     (if database_url env = None then (Inl No_database_url, db)
      else case assertClearIsAllowed
             (case env ''RAILWAY_ENVIRONMENT_NAME'' of Some e \<Rightarrow> Some e | None \<Rightarrow> env ''NODE_ENV'')
             (env ''GHALLA_ALLOW_DESTRUCTIVE'' = Some ''1'') of
        Some e \<Rightarrow> (Inl (Clear_refused e), db)
      | None \<Rightarrow> (case clearAll catalogue db of (cleared, db') \<Rightarrow> (Inr cleared, db')))"

definition seed_script :: "env \<Rightarrow> int \<Rightarrow> sql_db \<Rightarrow> script_error option \<times> sql_db" where
  "seed_script env now db =
     (if database_url env = None then (Some No_database_url, db)
      else case seedDemoStore now db of (e, db') \<Rightarrow> (map_option Statement_failed e, db'))"

section \<open>Inserting into an empty table\<close>

definition named_columns :: "table_def \<Rightarrow> sql_row \<Rightarrow> bool" where
  "named_columns d given \<longleftrightarrow> list_all (\<lambda>c. c \<in> set (map col_name (tab_columns d))) (map fst given)"

text \<open>The references of rows: table, key and value.\<close>

definition column_reference :: "sql_row \<Rightarrow> column \<Rightarrow> (string \<times> string \<times> sql_value) list" where
  "column_reference r c = (case col_references c of
     None \<Rightarrow> []
   | Some (t, k, a) \<Rightarrow> if cell r (col_name c) = V_null then [] else [(t, k, cell r (col_name c))])"

definition row_references :: "table_def \<Rightarrow> sql_row \<Rightarrow> (string \<times> string \<times> sql_value) list" where
  "row_references d r = concat (map (column_reference r) (tab_columns d))"

definition targets :: "sql_db \<Rightarrow> string \<Rightarrow> string \<Rightarrow> sql_value set" where
  "targets db t k = (\<lambda>q. cell q k) ` set (db t)"

lemma reference_met: "reference_ok db r c \<longleftrightarrow> (\<forall>(t, k, v) \<in> set (column_reference r c). v \<in> targets db t k)"
  by (auto simp: reference_ok_def column_reference_def targets_def list_ex_iff image_iff split: option.split, metis)

lemma references_met:
  "(\<forall>c \<in> set (tab_columns d). reference_ok db r c) \<longleftrightarrow> (\<forall>(t, k, v) \<in> set (row_references d r). v \<in> targets db t k)"
  by (simp add: reference_met row_references_def)

lemma insert_rows_fresh:
  assumes "find_table s t = Some d" "tab_name d = t" "list_all (named_columns d) rows"
    and "rows_ok d (db t @ map (complete_row now d) rows)"
    and "\<forall>r \<in> set rows. \<forall>(u, k, v) \<in> set (row_references d (complete_row now d r)). v \<in> targets db u k"
  shows "insert_rows s now (map (\<lambda>r. (t, r)) rows) db = Inr (db(t := db t @ map (complete_row now d) rows))"
  using assms(3-5)
proof (induction rows arbitrary: db)
  case Nil
  then show ?case by simp
next
  case (Cons r rows)
  let ?q = "complete_row now d r"
  have cols: "find (\<lambda>c. c \<notin> set (map col_name (tab_columns d))) (map fst r) = None"
    using Cons.prems(1) by (simp add: find_None_all named_columns_def list_all_iff)
  have "\<forall>k \<in> set (table_keys d). key_free (db t) ?q k" "row_ok d ?q"
    using Cons.prems(2) by (auto simp: rows_ok_def keys_ok_def sorted_wrt_append key_free_def list_all_iff)
  moreover have "\<forall>c \<in> set (tab_columns d). reference_ok db ?q c"
    unfolding references_met using Cons.prems(3) by simp
  ultimately have "violation d db ?q = None"
    using assms(2) by (simp add: violation_None row_ok_def)
  then have one: "insert_row s now t r db = Inr (db(t := db t @ [?q]))"
    using cols by (simp add: insert_row_def assms(1) Let_def del: set_map)
  have kept: "targets db u k \<subseteq> targets (db(t := db t @ [?q])) u k" for u k
    by (auto simp: targets_def)
  have "insert_rows s now (map (\<lambda>r. (t, r)) rows) (db(t := db t @ [?q]))
      = Inr ((db(t := db t @ [?q]))(t := (db(t := db t @ [?q])) t @ map (complete_row now d) rows))"
    using Cons.prems by (intro Cons.IH) (use kept in \<open>fastforce+\<close>)
  then show ?case by (simp add: one) (simp add: fun_eq_iff)
qed

section \<open>The seed\<close>

text \<open>Rows that a statement may insert into an empty table when the references in \<open>keys\<close> have targets.\<close>

definition batch_fits :: "int \<Rightarrow> table_def \<Rightarrow> (string \<times> string \<times> sql_value) list \<Rightarrow> sql_row list \<Rightarrow> bool" where
  "batch_fits now d keys rows \<longleftrightarrow> list_all (named_columns d) rows \<and> rows_ok d (map (complete_row now d) rows)
     \<and> list_all (\<lambda>r. list_all (\<lambda>x. x \<in> set keys) (row_references d (complete_row now d r))) rows"

definition store_key :: "string \<times> string \<times> sql_value" where
  "store_key = (''stores'', ''id'', V_text ''demo:1'')"

definition rule_set_key :: "string \<times> string \<times> sql_value" where
  "rule_set_key = (''fee_rule_sets'', ''id'', V_text ''demo:frs:1'')"

definition cost_key :: "string \<times> string \<times> sql_value" where
  "cost_key = (''cost_history'', ''id'', V_text ''demo:ch:P1'')"

definition order_keys :: "(string \<times> string \<times> sql_value) list" where
  "order_keys = map (\<lambda>i. (''orders'', ''id'', V_text i)) [''demo:1:1001'', ''demo:1:1002'', ''demo:1:1003'']"

lemma seed_stores_fits: "batch_fits now stores_table [] seed_stores"
  by code_simp

lemma seed_feeRuleSets_fits: "batch_fits now feeRuleSets_table [store_key] seed_feeRuleSets"
  by code_simp

lemma seed_gatewayFeeRules_fits: "batch_fits now gatewayFeeRules_table [rule_set_key] seed_gatewayFeeRules"
  by code_simp

lemma seed_codFeeRules_fits: "batch_fits now codFeeRules_table [rule_set_key] seed_codFeeRules"
  by code_simp

lemma seed_shippingFallbackRules_fits: "batch_fits now shippingFallbackRules_table [rule_set_key] seed_shippingFallbackRules"
  by code_simp

lemma seed_products_fits: "batch_fits now products_table [store_key] seed_products"
  by code_simp

lemma seed_costHistory_fits: "batch_fits now costHistory_table [store_key] seed_costHistory"
  by code_simp

lemma seed_orders_fits: "batch_fits now orders_table [store_key] seed_orders"
  by code_simp

lemma seed_orderItems_fits: "batch_fits now orderItems_table (store_key # cost_key # order_keys) seed_orderItems"
  by code_simp

lemma seed_orderPayments_fits: "batch_fits now orderPayments_table order_keys seed_orderPayments"
  by code_simp

lemma seed_shipments_fits: "batch_fits now shipments_table (store_key # order_keys) seed_shipments"
  by code_simp

lemma run_inserts_batch:
  assumes "find_table s (tab_name d) = Some d" "batch_fits now d keys rows" "db (tab_name d) = []"
    and "\<forall>(u, k, v) \<in> set keys. v \<in> targets db u k"
  shows "run_inserts s now ((tab_name d, rows) # rest) db
    = run_inserts s now rest (db(tab_name d := map (complete_row now d) rows))"
proof -
  have "\<forall>r \<in> set rows. \<forall>(u, k, v) \<in> set (row_references d (complete_row now d r)). v \<in> targets db u k"
    using assms(2,4) by (fastforce simp: batch_fits_def list_all_iff)
  then have "insert_rows s now (map (\<lambda>r. (tab_name d, r)) rows) db
      = Inr (db(tab_name d := db (tab_name d) @ map (complete_row now d) rows))"
    using assms(1-3) by (intro insert_rows_fresh) (simp_all add: batch_fits_def)
  then show ?thesis by (simp add: assms(3))
qed

lemma seed_tables_found:
  assumes "d \<in> set integration_schema"
  shows "find_table integration_schema (tab_name d) = Some d"
proof -
  obtain e where e: "find_table integration_schema (tab_name d) = Some e"
    using assms find_table_None [of integration_schema "tab_name d"] by fastforce
  show ?thesis using find_table_Some [OF e] sound_table_unique [OF integration_schema_sound _ assms] e by auto
qed

text \<open>The tables after the seed.\<close>

definition demo_db :: "int \<Rightarrow> sql_db \<Rightarrow> sql_db" where
  "demo_db now db = fold (\<lambda>(d, rows) db. db(tab_name d := map (complete_row now d) rows))
    [(stores_table, seed_stores), (feeRuleSets_table, seed_feeRuleSets),
     (gatewayFeeRules_table, seed_gatewayFeeRules), (codFeeRules_table, seed_codFeeRules),
     (shippingFallbackRules_table, seed_shippingFallbackRules), (products_table, seed_products),
     (costHistory_table, seed_costHistory), (orders_table, seed_orders), (orderItems_table, seed_orderItems),
     (orderPayments_table, seed_orderPayments), (shipments_table, seed_shipments)] db"

text \<open>A zone database that knows Riyadh, three hours ahead of UTC all year.\<close>

definition riyadh_clock :: intl where
  "riyadh_clock zone millis =
     (if zone = ''Asia/Riyadh''
      then case civil_of_day ((millis + 10800000) div 86400000) of (y, m, d) \<Rightarrow> Some (four_digits y, two_digits m, two_digits d)
      else None)"

lemma seed_names:
  "tab_name stores_table = ''stores''"
  "tab_name feeRuleSets_table = ''fee_rule_sets''"
  "tab_name gatewayFeeRules_table = ''gateway_fee_rules''"
  "tab_name codFeeRules_table = ''cod_fee_rules''"
  "tab_name shippingFallbackRules_table = ''shipping_fallback_rules''"
  "tab_name products_table = ''products''"
  "tab_name costHistory_table = ''cost_history''"
  "tab_name orders_table = ''orders''"
  "tab_name orderItems_table = ''order_items''"
  "tab_name orderPayments_table = ''order_payments''"
  "tab_name shipments_table = ''shipments''"
  by (simp_all add: stores_table_def feeRuleSets_table_def gatewayFeeRules_table_def codFeeRules_table_def shippingFallbackRules_table_def products_table_def costHistory_table_def orders_table_def orderItems_table_def orderPayments_table_def shipments_table_def)

lemma seed_mem:
  "stores_table \<in> set integration_schema"
  "feeRuleSets_table \<in> set integration_schema"
  "gatewayFeeRules_table \<in> set integration_schema"
  "codFeeRules_table \<in> set integration_schema"
  "shippingFallbackRules_table \<in> set integration_schema"
  "products_table \<in> set integration_schema"
  "costHistory_table \<in> set integration_schema"
  "orders_table \<in> set integration_schema"
  "orderItems_table \<in> set integration_schema"
  "orderPayments_table \<in> set integration_schema"
  "shipments_table \<in> set integration_schema"
  by (simp_all add: integration_schema_def)

text \<open>The targets the later rows refer to.\<close>

lemma seed_ids:
  "map (\<lambda>r. cell (complete_row now stores_table r) ''id'') seed_stores = [V_text ''demo:1'']"
  "map (\<lambda>r. cell (complete_row now feeRuleSets_table r) ''id'') seed_feeRuleSets = [V_text ''demo:frs:1'']"
  "map (\<lambda>r. cell (complete_row now costHistory_table r) ''id'') seed_costHistory = [V_text ''demo:ch:P1'']"
  "map (\<lambda>r. cell (complete_row now orders_table r) ''id'') seed_orders =
     [V_text ''demo:1:1001'', V_text ''demo:1:1002'', V_text ''demo:1:1003'']"
  by code_simp+

lemmas seed_id_sets = seed_ids [THEN arg_cong [where f = set], unfolded list.set_map list.set]

lemma targets_of_batch:
  "targets (db(t := map (complete_row now d) rows)) u k =
     (if u = t then (\<lambda>r. cell (complete_row now d r) k) ` set rows else targets db u k)"
  by (simp add: targets_def image_image)

lemmas seed_keys = store_key_def rule_set_key_def cost_key_def order_keys_def
lemmas seed_steps =
  run_inserts_batch [OF seed_tables_found [OF seed_mem(1)] seed_stores_fits, unfolded seed_names]
  run_inserts_batch [OF seed_tables_found [OF seed_mem(2)] seed_feeRuleSets_fits, unfolded seed_names]
  run_inserts_batch [OF seed_tables_found [OF seed_mem(3)] seed_gatewayFeeRules_fits, unfolded seed_names]
  run_inserts_batch [OF seed_tables_found [OF seed_mem(4)] seed_codFeeRules_fits, unfolded seed_names]
  run_inserts_batch [OF seed_tables_found [OF seed_mem(5)] seed_shippingFallbackRules_fits, unfolded seed_names]
  run_inserts_batch [OF seed_tables_found [OF seed_mem(6)] seed_products_fits, unfolded seed_names]
  run_inserts_batch [OF seed_tables_found [OF seed_mem(7)] seed_costHistory_fits, unfolded seed_names]
  run_inserts_batch [OF seed_tables_found [OF seed_mem(8)] seed_orders_fits, unfolded seed_names]
  run_inserts_batch [OF seed_tables_found [OF seed_mem(9)] seed_orderItems_fits, unfolded seed_names]
  run_inserts_batch [OF seed_tables_found [OF seed_mem(10)] seed_orderPayments_fits, unfolded seed_names]
  run_inserts_batch [OF seed_tables_found [OF seed_mem(11)] seed_shipments_fits, unfolded seed_names]

lemma seed_from_empty:
  assumes "\<And>d. d \<in> set integration_schema \<Longrightarrow> db (tab_name d) = []"
  shows "seedDemoStore now db = (None, demo_db now db)"
proof -
  have empty: "db ''stores'' = []" "db ''fee_rule_sets'' = []" "db ''gateway_fee_rules'' = []" "db ''cod_fee_rules'' = []" "db ''shipping_fallback_rules'' = []" "db ''products'' = []" "db ''cost_history'' = []" "db ''orders'' = []" "db ''order_items'' = []" "db ''order_payments'' = []" "db ''shipments'' = []"
    using seed_mem [THEN assms] by (simp_all add: seed_names)
  show ?thesis
    by (simp add: seedDemoStore_def demo_db_def seed_statements_def seed_steps empty seed_names targets_of_batch
        seed_id_sets seed_keys del: run_inserts.simps(2))
qed

lemma reseed_refused:
  "seedDemoStore now' (demo_db now db) = (Some (Unique_violation [''id'']), demo_db now db)"
proof -
  have "case insert_rows integration_schema now' (map (\<lambda>r. (''stores'', r)) seed_stores) (demo_db now db) of
      Inl e \<Rightarrow> e = Unique_violation [''id''] | Inr _ \<Rightarrow> False"
    by code_simp
  then show ?thesis by (simp add: seedDemoStore_def seed_statements_def split: sum.splits)
qed

text \<open>Inserts keep the constraints.\<close>

lemma insert_rows_keeps_consistent:
  "schema_sound s \<Longrightarrow> consistent s db \<Longrightarrow> insert_rows s now rows db = Inr db' \<Longrightarrow> consistent s db'"
proof (induction rows arbitrary: db)
  case (Cons r rows)
  obtain t given where r: "r = (t, given)" by force
  then obtain db1 where "insert_row s now t given db = Inr db1" "insert_rows s now rows db1 = Inr db'"
    using Cons.prems(3) by (auto split: sum.splits)
  then show ?case using Cons.IH Cons.prems(1,2) insert_keeps_consistent by blast
qed simp

lemma run_inserts_keeps_consistent:
  "schema_sound s \<Longrightarrow> consistent s db \<Longrightarrow> consistent s (snd (run_inserts s now statements db))"
proof (induction statements arbitrary: db)
  case (Cons x rest)
  obtain t rows where x: "x = (t, rows)" by force
  show ?case using Cons insert_rows_keeps_consistent [of s db now "map (\<lambda>r. (t, r)) rows"]
    by (auto simp: x split: sum.split)
qed simp

section \<open>The margins\<close>

lemma seeded_prepaid:
  "map_option (expects_margin 9210) (computeSeededOrder riyadh_clock (demo_db now db) ''demo:1:1001'') = Some True"
  by code_simp

lemma seeded_refused:
  "map_option (expects_margin (- 4400)) (computeSeededOrder riyadh_clock (demo_db now db) ''demo:1:1002'') = Some True"
  by code_simp

lemma seeded_uncosted:
  "map_option (expects_confidence CL_incomplete) (computeSeededOrder riyadh_clock (demo_db now db) ''demo:1:1003'') = Some True"
  by code_simp

lemma seeded_orders: "length (rows_with (demo_db now db) ''orders'' ''store_id'' SEED_STORE_ID) = 3"
  by code_simp

lemma seed_meets_expectations: "meets_expectations riyadh_clock (demo_db now db)"
  by (simp add: meets_expectations_def seeded_prepaid seeded_refused seeded_uncosted seeded_orders)

section \<open>An emptied database\<close>

text \<open>Every table of the schema is in the catalogue.\<close>

definition migrated :: "(string \<times> string) list \<Rightarrow> bool" where
  "migrated catalogue \<longleftrightarrow> list_all (\<lambda>d. (''public'', tab_name d) \<in> set catalogue) integration_schema"

lemma schema_not_bookkeeping: "list_all (\<lambda>d. \<not> sql_like ''__drizzle%'' (tab_name d)) integration_schema"
  by code_simp

text \<open>A truncation leaves no reference to an emptied table.\<close>

definition close_step :: "table_def \<Rightarrow> string list \<Rightarrow> string list" where
  "close_step d acc = (if refers_into acc d then acc @ [tab_name d] else acc)"

lemma cascade_fold: "cascade_tables s ts = fold close_step s ts"
  unfolding cascade_tables_def close_step_def [abs_def] by simp

lemma close_names: "set acc \<subseteq> set (fold close_step s acc) \<and> set (fold close_step s acc) \<subseteq> set acc \<union> tab_name ` set s"
proof (induction s arbitrary: acc)
  case (Cons d s)
  have "set acc \<subseteq> set (close_step d acc)" "set (close_step d acc) \<subseteq> insert (tab_name d) (set acc)"
    by (auto simp: close_step_def)
  then show ?case using Cons.IH [of "close_step d acc"] by auto
qed simp

lemma cascade_closed:
  assumes sound: "schema_sound s" and d: "d \<in> set s" and c: "c \<in> set (tab_columns d)"
    and ref: "col_references c = Some (t, k, a)" and t: "t \<in> set (cascade_tables s ts)"
  shows "tab_name d \<in> set (cascade_tables s ts)"
proof -
  obtain before after where s: "s = before @ d # after" using d by (meson split_list)
  obtain e where e: "e \<in> set before" "tab_name e = t"
    using table_sound_reference [OF sound_split(1) [OF sound [unfolded s]] c ref] by blast
  define acc where "acc = fold close_step before ts"
  have all: "cascade_tables s ts = fold close_step after (close_step d acc)"
    by (simp add: cascade_fold s acc_def)
  have "tab_name ` set before \<inter> tab_name ` set (d # after) = {}"
    using sound_names [OF sound] unfolding s map_append distinct_append set_map by (elim conjE)
  then have "t \<notin> tab_name ` set (d # after)" using e by blast
  then have "t \<in> set acc"
    using t close_names [where s = after and acc = "close_step d acc"] unfolding all by (auto simp: close_step_def split: if_splits)
  then have "refers_into acc d" using c ref by (force simp: refers_into_def list_ex_iff)
  then show ?thesis using close_names [where s = after and acc = "close_step d acc"] unfolding all by (auto simp: close_step_def)
qed

lemma truncate_cascade_consistent:
  assumes "schema_sound s" "consistent s db"
  shows "consistent s (truncate_tables (cascade_tables s ts) db)"
proof (rule consistentI)
  fix d assume d: "d \<in> set s"
  let ?db = "truncate_tables (cascade_tables s ts) db"
  have old: "rows_ok d (db (tab_name d))" "references_ok d db" using assms(2) d by (auto simp: consistent_def)
  show "rows_ok d (?db (tab_name d)) \<and> references_ok d ?db"
  proof (cases "tab_name d \<in> set (cascade_tables s ts)")
    case True
    then show ?thesis by (simp add: truncate_tables_def rows_ok_def keys_ok_def references_ok_def)
  next
    case False
    have "reference_ok ?db r c" if "r \<in> set (db (tab_name d))" "c \<in> set (tab_columns d)" for r c
    proof -
      have "reference_ok db r c" using old(2) that by (auto simp: references_ok_def)
      moreover have "db t = ?db t" if "col_references c = Some (t, k, a)" for t k a
        using cascade_closed [OF assms(1) d \<open>c \<in> set (tab_columns d)\<close> that] False by (auto simp: truncate_tables_def)
      ultimately show ?thesis using reference_ok_cong by blast
    qed
    then show ?thesis using old(1) False by (simp add: truncate_tables_def references_ok_def)
  qed
qed

lemma listed_tables: "migrated catalogue \<Longrightarrow> d \<in> set integration_schema \<Longrightarrow> tab_name d \<in> set (listTables catalogue)"
  using schema_not_bookkeeping by (force simp: migrated_def listTables_def list_all_iff)

lemma cleared_empty:
  assumes "migrated catalogue" "d \<in> set integration_schema"
  shows "snd (clearAll catalogue db) (tab_name d) = []"
proof -
  have "tab_name d \<in> set (listTables catalogue)" using listed_tables assms by blast
  then have "tab_name d \<in> set (cascade_tables integration_schema (listTables catalogue))" "listTables catalogue \<noteq> []"
    using close_names [of "listTables catalogue" integration_schema] by (auto simp: cascade_fold)
  then show ?thesis by (simp add: clearAll_def truncate_tables_def Let_def)
qed

lemma cleared_consistent: "migrated catalogue \<Longrightarrow> consistent integration_schema (snd (clearAll catalogue db))"
  using cleared_empty [of catalogue] by (simp add: consistent_def rows_ok_def keys_ok_def references_ok_def)

text \<open>What the two guards let through.\<close>

definition may_clear :: "env \<Rightarrow> bool" where
  "may_clear env \<longleftrightarrow> database_url env \<noteq> None \<and> env ''GHALLA_ALLOW_DESTRUCTIVE'' = Some ''1''
     \<and> (\<forall>name \<in> set_option (case env ''RAILWAY_ENVIRONMENT_NAME'' of Some e \<Rightarrow> Some e | None \<Rightarrow> env ''NODE_ENV'').
          map to_lower name \<noteq> ''production'' \<and> map to_lower name \<noteq> ''prod'')"

lemma clear_guarded:
  "clear_script env catalogue db =
     (if may_clear env then (Inr (listTables catalogue), snd (clearAll catalogue db))
      else (fst (clear_script env catalogue db), db))"
  "\<not> may_clear env \<Longrightarrow> isl (fst (clear_script env catalogue db))"
  by (auto simp: clear_script_def may_clear_def assertClearIsAllowed_def PROTECTED_ENVIRONMENTS_def clearAll_def Let_def
      split: option.splits)

end
