(* ===== verification/SchemaChecks.thy ===== *)
theory SchemaChecks
  imports Schema WebhookQueue CostHistory ProfitStore SubscriptionStore SqlFacts Normalize
begin

text \<open>
  The rows of the repositories as rows of the declared tables, column by column, and the proof that the
  conditions the repositories' theories write as formulas are the CHECK constraints of \<open>schema.ts\<close>
  under SQL's three truth values, with the same names. The second chapter is about rate cards.
\<close>

definition opt :: "('a \<Rightarrow> sql_value) \<Rightarrow> 'a option \<Rightarrow> sql_value" where
  "opt f x = (case x of None \<Rightarrow> V_null | Some v \<Rightarrow> f v)"

lemma opt_simps [simp]: "opt f None = V_null" "opt f (Some v) = f v"
  by (simp_all add: opt_def)

text \<open>The truth of each CHECK of a table on a row.\<close>

definition check_values :: "table_def \<Rightarrow> sql_row \<Rightarrow> (string \<times> bool) list" where
  "check_values d r = map (\<lambda>(n, e). (n, passes r e)) (tab_checks d)"

lemma checks_ok_values: "checks_ok d r \<longleftrightarrow> list_all snd (check_values d r)"
  by (simp add: checks_ok_def check_values_def list_all_iff split_beta)

lemmas value_simps = passes_def nonNegative_def oneOf_def sql_compare_def sql_equal_def sql_and_def sql_or_def
lemmas check_simps = value_simps cell_def

section \<open>Rows as cells\<close>

definition webhook_cells :: "('p \<Rightarrow> string) \<Rightarrow> 'p webhook_event \<Rightarrow> sql_row" where
  "webhook_cells json r =
    [(''id'', V_text (we_id r)), (''store_id'', V_text (we_storeId r)),
     (''platform_event_id'', V_text (we_platformEventId r)), (''event_type'', V_text (we_eventType r)),
     (''raw_event_type'', V_text (we_rawEventType r)), (''received_at'', V_instant (we_receivedAt r)),
     (''processed_at'', opt V_instant (we_processedAt r)),
     (''status'', V_text (literal_of WEBHOOK_EVENT_STATUSES (we_status r))),
     (''attempts'', V_int (we_attempts r)), (''next_attempt_at'', V_instant (we_nextAttemptAt r)),
     (''locked_at'', opt V_instant (we_lockedAt r)), (''last_error'', opt V_text (we_lastError r)),
     (''raw_payload'', V_json (json (we_rawPayload r)))]"

definition subscription_cells :: "subscription_row \<Rightarrow> sql_row" where
  "subscription_cells r =
    [(''store_id'', V_text (ss_storeId r)), (''plan_code'', V_text (ss_planCode r)),
     (''platform_plan_id'', opt V_text (ss_platformPlanId r)), (''status'', V_text (ss_status r)),
     (''trial_ends_at'', opt V_instant (ss_trialEndsAt r)),
     (''current_period_start'', V_instant (ss_currentPeriodStart r)),
     (''current_period_end'', V_instant (ss_currentPeriodEnd r)),
     (''last_event_at'', opt V_instant (ss_lastEventAt r)),
     (''last_reconciled_at'', opt V_instant (ss_lastReconciledAt r)),
     (''pending_plan_code'', opt V_text (ss_pendingPlanCode r)),
     (''pending_plan_effective_at'', opt V_instant (ss_pendingPlanEffectiveAt r)),
     (''created_at'', V_instant (ss_createdAt r)), (''updated_at'', V_instant (ss_updatedAt r))]"

definition cost_cells :: "cost_row \<Rightarrow> sql_row" where
  "cost_cells r =
    [(''id'', V_text (ch_id r)), (''store_id'', V_text (ch_storeId r)),
     (''platform_product_id'', V_text (ch_platformProductId r)),
     (''platform_variant_id'', opt V_text (ch_platformVariantId r)), (''sku'', opt V_text (ch_sku r)),
     (''unit_cost_minor'', V_money (column_minor (ch_unitCost r))), (''source'', V_text (ch_source r)),
     (''effective_from'', V_instant (ch_effectiveFrom r)), (''effective_to'', opt V_instant (ch_effectiveTo r)),
     (''supersedes_id'', opt V_text (ch_supersedesId r)), (''note'', opt V_text (ch_note r))]"

definition profit_cells ::
  "(profit_confidence \<Rightarrow> string) \<Rightarrow> (diagnostic list \<Rightarrow> string) \<Rightarrow> profit_row \<Rightarrow> sql_row" where
  "profit_cells show_confidence show_diagnostics r =
    [(''order_id'', V_text (pr_orderId r)), (''store_id'', V_text (pr_storeId r)),
     (''calc_version'', V_int (pr_calcVersion r)), (''fee_rule_set_id'', opt V_text (pr_feeRuleSetId r)),
     (''currency'', opt V_text (pr_currency r)), (''business_date'', opt V_date (pr_businessDate r)),
     (''status'', V_text (pr_status r)), (''recognition_kind'', V_text (pr_recognitionKind r)),
     (''recognition_reason'', opt V_text (pr_recognitionReason r)),
     (''items_revenue_ex_vat_minor'', opt (\<lambda>s. V_money (column_minor s)) (pr_itemsRevenueExVatMinor r)),
     (''shipping_revenue_ex_vat_minor'', opt (\<lambda>s. V_money (column_minor s)) (pr_shippingRevenueExVatMinor r)),
     (''cod_fee_revenue_ex_vat_minor'', opt (\<lambda>s. V_money (column_minor s)) (pr_codFeeRevenueExVatMinor r)),
     (''order_discount_ex_vat_minor'', opt (\<lambda>s. V_money (column_minor s)) (pr_orderDiscountExVatMinor r)),
     (''revenue_ex_vat_minor'', opt (\<lambda>s. V_money (column_minor s)) (pr_revenueExVatMinor r)),
     (''vat_collected_minor'', opt (\<lambda>s. V_money (column_minor s)) (pr_vatCollectedMinor r)),
     (''cogs_minor'', opt (\<lambda>s. V_money (column_minor s)) (pr_cogsMinor r)),
     (''outbound_shipping_cost_minor'', opt (\<lambda>s. V_money (column_minor s)) (pr_outboundShippingCostMinor r)),
     (''return_shipping_cost_minor'', opt (\<lambda>s. V_money (column_minor s)) (pr_returnShippingCostMinor r)),
     (''gateway_fee_ex_vat_minor'', opt (\<lambda>s. V_money (column_minor s)) (pr_gatewayFeeExVatMinor r)),
     (''gateway_fee_vat_minor'', opt (\<lambda>s. V_money (column_minor s)) (pr_gatewayFeeVatMinor r)),
     (''gateway_fee_cost_minor'', opt (\<lambda>s. V_money (column_minor s)) (pr_gatewayFeeCostMinor r)),
     (''cod_cost_ex_vat_minor'', opt (\<lambda>s. V_money (column_minor s)) (pr_codCostExVatMinor r)),
     (''cod_cost_vat_minor'', opt (\<lambda>s. V_money (column_minor s)) (pr_codCostVatMinor r)),
     (''cod_cost_minor'', opt (\<lambda>s. V_money (column_minor s)) (pr_codCostMinor r)),
     (''reversed_revenue_ex_vat_minor'', opt (\<lambda>s. V_money (column_minor s)) (pr_reversedRevenueExVatMinor r)),
     (''restocked_cogs_minor'', opt (\<lambda>s. V_money (column_minor s)) (pr_restockedCogsMinor r)),
     (''reversal_impact_minor'', opt (\<lambda>s. V_money (column_minor s)) (pr_reversalImpactMinor r)),
     (''contribution_margin_minor'', opt (\<lambda>s. V_money (column_minor s)) (pr_contributionMarginMinor r)),
     (''margin_bps'', opt V_int (pr_marginBps r)),
     (''cost_covered_revenue_ex_vat_minor'', opt (\<lambda>s. V_money (column_minor s)) (pr_costCoveredRevenueExVatMinor r)),
     (''confidence'', opt (\<lambda>c. V_json (show_confidence c)) (pr_confidence r)),
     (''diagnostics'', V_json (show_diagnostics (pr_diagnostics r))),
     (''computed_at'', V_instant (pr_computedAt r))]"

definition profit_line_cells :: "profit_line_row \<Rightarrow> sql_row" where
  "profit_line_cells r =
    [(''order_id'', V_text (plr_orderId r)), (''order_item_id'', V_text (plr_orderItemId r)),
     (''store_id'', V_text (plr_storeId r)), (''business_date'', V_date (plr_businessDate r)),
     (''platform_product_id'', V_text (plr_platformProductId r)),
     (''platform_variant_id'', opt V_text (plr_platformVariantId r)), (''sku'', opt V_text (plr_sku r)),
     (''quantity'', V_int (plr_quantity r)),
     (''allocated_order_discount_ex_vat_minor'', V_money (column_minor (plr_allocatedOrderDiscountExVatMinor r))),
     (''net_revenue_ex_vat_minor'', V_money (column_minor (plr_netRevenueExVatMinor r))),
     (''allocated_shipping_revenue_ex_vat_minor'', V_money (column_minor (plr_allocatedShippingRevenueExVatMinor r))),
     (''allocated_cod_fee_revenue_ex_vat_minor'', V_money (column_minor (plr_allocatedCodFeeRevenueExVatMinor r))),
     (''unit_cost_minor'', V_money (column_minor (plr_unitCostMinor r))),
     (''cogs_minor'', V_money (column_minor (plr_cogsMinor r))), (''cost_source'', V_text (plr_costSource r)),
     (''cost_history_id'', opt V_text (plr_costHistoryId r)),
     (''allocated_outbound_shipping_minor'', V_money (column_minor (plr_allocatedOutboundShippingMinor r))),
     (''allocated_return_shipping_minor'', V_money (column_minor (plr_allocatedReturnShippingMinor r))),
     (''allocated_gateway_fee_minor'', V_money (column_minor (plr_allocatedGatewayFeeMinor r))),
     (''allocated_cod_cost_minor'', V_money (column_minor (plr_allocatedCodCostMinor r))),
     (''reversed_quantity'', V_int (plr_reversedQuantity r)),
     (''reversed_revenue_ex_vat_minor'', V_money (column_minor (plr_reversedRevenueExVatMinor r))),
     (''restocked_cogs_minor'', V_money (column_minor (plr_restockedCogsMinor r))),
     (''reversal_impact_minor'', V_money (column_minor (plr_reversalImpactMinor r))),
     (''contribution_margin_minor'', V_money (column_minor (plr_contributionMarginMinor r))),
     (''cost_covered_revenue_ex_vat_minor'', V_money (column_minor (plr_costCoveredRevenueExVatMinor r))),
     (''calc_version'', V_int (plr_calcVersion r))]"

section \<open>The checks agree\<close>

lemma webhook_checks_agree: "checks_ok webhookEvents_table (webhook_cells json r) \<longleftrightarrow> webhook_events_check r"
proof -
  have "checks_ok webhookEvents_table (webhook_cells json r) \<longleftrightarrow>
      0 \<le> we_attempts r \<and> ((we_status r = WS_processing) = (we_lockedAt r \<noteq> None))"
    by (cases "we_status r"; cases "we_lockedAt r")
       (simp_all add: checks_ok_def webhookEvents_table_def webhook_cells_def check_simps WEBHOOK_EVENT_STATUSES_def
         literal_of_def)
  then show ?thesis by (simp add: webhook_events_check_def)
qed

lemma subscription_checks_agree:
  "check_values storeSubscription_table (subscription_cells r) =
     [(''store_subscription_status_valid'', ss_status r \<in> set (map fst SUBSCRIPTION_STATUSES)),
      (''store_subscription_period_ordered'', ss_currentPeriodEnd r > ss_currentPeriodStart r),
      (''store_subscription_pending_plan_complete'', (ss_pendingPlanCode r = None) = (ss_pendingPlanEffectiveAt r = None))]"
  by (cases "ss_pendingPlanCode r"; cases "ss_pendingPlanEffectiveAt r")
     (simp_all add: check_values_def storeSubscription_table_def subscription_cells_def check_simps)

lemma cost_checks_agree:
  "check_values costHistory_table (cost_cells r) =
     [(''cost_history_source_valid'', ch_source r \<in> set (map fst COST_SOURCES)),
      (''cost_history_cost_positive'', 0 \<le> column_minor (ch_unitCost r)),
      (''cost_history_window_ordered'', window_ordered r)]"
  by (cases "ch_effectiveTo r")
     (simp_all add: check_values_def costHistory_table_def cost_cells_def check_simps window_ordered_def)

lemma profit_cell:
  "cell (profit_cells jc jd r) ''status'' = V_text (pr_status r)"
  "cell (profit_cells jc jd r) ''recognition_kind'' = V_text (pr_recognitionKind r)"
  "cell (profit_cells jc jd r) ''currency'' = opt V_text (pr_currency r)"
  "cell (profit_cells jc jd r) ''business_date'' = opt V_date (pr_businessDate r)"
  "cell (profit_cells jc jd r) ''restocked_cogs_minor'' = opt (\<lambda>s. V_money (column_minor s)) (pr_restockedCogsMinor r)"
  "cell (profit_cells jc jd r) ''cogs_minor'' = opt (\<lambda>s. V_money (column_minor s)) (pr_cogsMinor r)"
  "cell (profit_cells jc jd r) ''contribution_margin_minor'' = opt (\<lambda>s. V_money (column_minor s)) (pr_contributionMarginMinor r)"
  by (simp_all add: cell_def profit_cells_def)

lemma profit_checks_agree:
  "set (check_values orderProfit_table (profit_cells jc jd r)) = set (drop 2 (profit_row_checks r))"
proof -
  have "check_values orderProfit_table (profit_cells jc jd r) =
     [(''order_profit_status_valid'', pr_status r \<in> {''computed'', ''rejected''}),
      (''order_profit_recognition_valid'', pr_recognitionKind r \<in> {''recognized'', ''cost_only'', ''excluded''}),
      (''order_profit_totals_iff_computed'', (pr_status r = ''computed'') = (pr_contributionMarginMinor r \<noteq> None)),
      (''order_profit_currency_iff_computed'',
        (pr_status r = ''computed'') = (pr_currency r \<noteq> None \<and> pr_businessDate r \<noteq> None)),
      (''order_profit_restock_bounded'', money_le (pr_restockedCogsMinor r) (pr_cogsMinor r))]"
    by (cases "pr_contributionMarginMinor r"; cases "pr_currency r"; cases "pr_businessDate r";
        cases "pr_restockedCogsMinor r"; cases "pr_cogsMinor r")
       (simp_all add: check_values_def orderProfit_table_def profit_cell value_simps money_le_def)
  then show ?thesis by (auto simp: profit_row_checks_def)
qed

lemma line_checks_agree:
  "set (check_values orderProfitLines_table (profit_line_cells l)) = set (drop 2 (line_row_checks l))"
proof -
  have "check_values orderProfitLines_table (profit_line_cells l) =
     [(''order_profit_lines_cost_source_valid'', plr_costSource l \<in> set (map fst COST_SOURCES)),
      (''order_profit_lines_quantity_positive'', 0 \<le> plr_quantity l),
      (''order_profit_lines_restock_bounded'',
         column_minor (plr_restockedCogsMinor l) \<le> column_minor (plr_cogsMinor l)),
      (''order_profit_lines_margin_consistent'',
         column_minor (plr_contributionMarginMinor l) =
           column_minor (plr_netRevenueExVatMinor l) + column_minor (plr_allocatedShippingRevenueExVatMinor l)
           + column_minor (plr_allocatedCodFeeRevenueExVatMinor l) - column_minor (plr_cogsMinor l)
           - column_minor (plr_allocatedOutboundShippingMinor l) - column_minor (plr_allocatedReturnShippingMinor l)
           - column_minor (plr_allocatedGatewayFeeMinor l) - column_minor (plr_allocatedCodCostMinor l)
           + column_minor (plr_reversalImpactMinor l))]"
    by (simp add: check_values_def orderProfitLines_table_def profit_line_cells_def check_simps)
  then show ?thesis by (auto simp: line_row_checks_def)
qed

chapter \<open>Rate cards\<close>

text \<open>
  A merchant's rate card as rows of \<open>gateway_fee_rules\<close>, \<open>cod_fee_rules\<close> and
  \<open>shipping_fallback_rules\<close>, and when the constraints of the schema and the engine's validator agree
  about it. A rule and its row have the same fields under the same names.
\<close>

section \<open>Rules as rows\<close>

fun fee_source_name :: "fee_source \<Rightarrow> string" where
  "fee_source_name FE_merchant_entered = ''merchant_entered''"
| "fee_source_name FE_gateway_statement = ''gateway_statement''"
| "fee_source_name FE_default_table = ''default_table''"

definition formula_cells :: "(js_number, 'z) fee_formula_scheme \<Rightarrow> sql_row" where
  "formula_cells f =
    [(''percent_bps'', V_int (js_int (fee_percentBps f))), (''fixed_minor'', V_money (js_int (fee_fixedMinor f))),
     (''min_fee_minor'', opt (\<lambda>m. V_money (js_int m)) (fee_minFeeMinor f)),
     (''max_fee_minor'', opt (\<lambda>m. V_money (js_int m)) (fee_maxFeeMinor f)),
     (''fee_vat_bps'', V_int (js_int (fee_feeVatBps f))), (''rates_include_vat'', V_bool (fee_ratesIncludeVat f)),
     (''source'', V_text (fee_source_name (fee_source f)))]"

definition gateway_row :: "string \<Rightarrow> int \<Rightarrow> string \<Rightarrow> js_number gateway_fee_rule \<Rightarrow> sql_row" where
  "gateway_row rs now i r =
    [(''id'', V_text i), (''fee_rule_set_id'', V_text rs),
     (''instrument'', opt (\<lambda>x. V_text (instrument_name x)) (gw_instrument r)),
     (''scheme'', opt (\<lambda>x. V_text (scheme_name x)) (gw_scheme r)), (''provider'', opt V_text (gw_provider r))]
    @ formula_cells r @ [(''created_at'', V_instant now)]"

definition cod_row :: "string \<Rightarrow> int \<Rightarrow> string \<Rightarrow> js_number cod_fee_rule \<Rightarrow> sql_row" where
  "cod_row rs now i r =
    [(''id'', V_text i), (''fee_rule_set_id'', V_text rs), (''carrier'', opt V_text (cod_carrier r))]
    @ formula_cells r @ [(''created_at'', V_instant now)]"

definition shipping_row :: "string \<Rightarrow> int \<Rightarrow> string \<Rightarrow> js_number shipping_fallback_rule \<Rightarrow> sql_row" where
  "shipping_row rs now i r =
    [(''id'', V_text i), (''fee_rule_set_id'', V_text rs), (''country_code'', opt V_text (sf_countryCode r)),
     (''region'', opt V_text (sf_region r)), (''carrier'', opt V_text (sf_carrier r)),
     (''direction'', V_text (direction_name (sf_direction r))), (''cost_minor'', V_money (js_int (sf_costMinor r))),
     (''created_at'', V_instant now)]"

text \<open>The rows of a card; \<open>gi\<close>, \<open>ci\<close> and \<open>si\<close> are the identifiers of the rules.\<close>

definition card_admitted ::
  "int \<Rightarrow> string list \<Rightarrow> string list \<Rightarrow> string list \<Rightarrow> js_number fee_rule_set \<Rightarrow> bool" where
  "card_admitted now gi ci si frs \<longleftrightarrow>
     rows_ok gatewayFeeRules_table (map2 (gateway_row (frs_id frs) now) gi (frs_gateway frs))
     \<and> rows_ok codFeeRules_table (map2 (cod_row (frs_id frs) now) ci (frs_cod frs))
     \<and> rows_ok shippingFallbackRules_table (map2 (shipping_row (frs_id frs) now) si (frs_shippingFallback frs))"

text \<open>One identifier per rule.\<close>

definition identified :: "string list \<Rightarrow> 'a list \<Rightarrow> bool" where
  "identified ids rules \<longleftrightarrow> distinct ids \<and> length ids = length rules"

section \<open>Single rows\<close>

text \<open>A number read from the database.\<close>

definition whole :: "js_number \<Rightarrow> bool" where
  "whole v \<longleftrightarrow> (\<exists>n. v = JInt n)"

definition formula_whole :: "(js_number, 'z) fee_formula_scheme \<Rightarrow> bool" where
  "formula_whole f \<longleftrightarrow> whole (fee_percentBps f) \<and> whole (fee_fixedMinor f) \<and> whole (fee_feeVatBps f)
     \<and> (\<forall>m \<in> set_option (fee_minFeeMinor f). whole m) \<and> (\<forall>m \<in> set_option (fee_maxFeeMinor f). whole m)"

definition formula_columns_fit :: "(js_number, 'z) fee_formula_scheme \<Rightarrow> bool" where
  "formula_columns_fit f \<longleftrightarrow> value_fits Ty_integer (V_int (js_int (fee_percentBps f)))
     \<and> value_fits Ty_integer (V_int (js_int (fee_feeVatBps f)))
     \<and> \<bar>js_int (fee_fixedMinor f)\<bar> < 10 ^ 14
     \<and> (\<forall>m \<in> set_option (fee_minFeeMinor f). \<bar>js_int m\<bar> < 10 ^ 14)
     \<and> (\<forall>m \<in> set_option (fee_maxFeeMinor f). \<bar>js_int m\<bar> < 10 ^ 14)"

text \<open>What the CHECKs of a fee formula say.\<close>

definition formula_checked :: "(js_number, 'z) fee_formula_scheme \<Rightarrow> bool" where
  "formula_checked f \<longleftrightarrow> 0 \<le> js_int (fee_percentBps f) \<and> 0 \<le> js_int (fee_fixedMinor f)
     \<and> 0 \<le> js_int (fee_feeVatBps f) \<and> js_int (fee_feeVatBps f) \<le> 10000
     \<and> (case (fee_minFeeMinor f, fee_maxFeeMinor f) of (Some lo, Some hi) \<Rightarrow> js_int lo \<le> js_int hi | _ \<Rightarrow> True)"

lemma source_admitted: "fee_source_name s \<in> set FEE_SOURCES"
  by (cases s) (simp_all add: FEE_SOURCES_def)

lemma instrument_admitted: "instrument_name i \<in> set PAYMENT_INSTRUMENTS"
  by (cases i) (simp_all add: PAYMENT_INSTRUMENTS_def)

lemma scheme_admitted: "scheme_name c \<in> set CARD_SCHEMES"
  by (cases c) (simp_all add: CARD_SCHEMES_def)

lemma direction_admitted: "direction_name x \<in> set (SHIPMENT_DIRECTIONS @ [''any''])"
  by (cases x) (simp_all add: SHIPMENT_DIRECTIONS_def)

lemmas fee_row_simps = row_ok_def row_shape_def checks_ok_def column_ok_def mandatory_def column_defs
  feeFormulaColumns_def feeFormulaChecks_def MONEY_PRECISION_def MONEY_SCALE_def formula_cells_def check_simps

lemma opt_text_column: "value_fits Ty_text (opt (\<lambda>x. V_text (g x)) y)"
  by (cases y) simp_all

lemma opt_text_listed:
  "(\<And>x. g x \<in> set values) \<Longrightarrow> cell r c = opt (\<lambda>x. V_text (g x)) y
     \<Longrightarrow> passes r (E_or (E_is_null (E_col c)) (E_in (E_col c) values))"
  by (cases y) (simp_all add: passes_def sql_or_def)

lemma gateway_row_ok: "row_ok gatewayFeeRules_table (gateway_row rs now i r) \<longleftrightarrow> formula_columns_fit r \<and> formula_checked r"
proof -
  let ?q = "gateway_row rs now i r"
  have "passes ?q (E_or (E_is_null (E_col ''instrument'')) (oneOf ''instrument'' PAYMENT_INSTRUMENTS))"
    "passes ?q (E_or (E_is_null (E_col ''scheme'')) (oneOf ''scheme'' CARD_SCHEMES))"
    unfolding oneOf_def
    by (rule opt_text_listed [OF instrument_admitted] opt_text_listed [OF scheme_admitted], simp add: cell_def gateway_row_def)+
  then have "checks_ok gatewayFeeRules_table ?q \<longleftrightarrow> list_all (\<lambda>(n, e). passes ?q e) (feeFormulaChecks ''gateway_fee_rules'')"
    by (simp add: checks_ok_def gatewayFeeRules_table_def)
  also have "\<dots> \<longleftrightarrow> formula_checked r"
    using source_admitted [of "fee_source r"]
    by (cases "fee_minFeeMinor r"; cases "fee_maxFeeMinor r")
       (simp_all add: gateway_row_def feeFormulaChecks_def formula_cells_def check_simps formula_checked_def)
  finally have checks: "checks_ok gatewayFeeRules_table ?q \<longleftrightarrow> formula_checked r" .
  have columns: "list_all (column_ok gatewayFeeRules_table ?q) (tab_columns gatewayFeeRules_table) \<longleftrightarrow> formula_columns_fit r"
    by (cases "fee_minFeeMinor r"; cases "fee_maxFeeMinor r")
       (simp_all add: gatewayFeeRules_table_def gateway_row_def column_ok_def mandatory_def column_defs feeFormulaColumns_def
         MONEY_PRECISION_def MONEY_SCALE_def formula_cells_def cell_def opt_text_column opt_text_column [of "\<lambda>x. x"] formula_columns_fit_def, auto)
  have "row_shape gatewayFeeRules_table ?q"
    by (simp add: row_shape_def gatewayFeeRules_table_def gateway_row_def column_defs feeFormulaColumns_def formula_cells_def)
  then show ?thesis using checks columns by (auto simp: row_ok_def)
qed

lemma cod_row_ok: "row_ok codFeeRules_table (cod_row rs now i r) \<longleftrightarrow> formula_columns_fit r \<and> formula_checked r"
  using source_admitted [of "fee_source r"]
  by (cases "cod_carrier r"; cases "fee_minFeeMinor r"; cases "fee_maxFeeMinor r")
     (simp_all add: codFeeRules_table_def cod_row_def fee_row_simps formula_columns_fit_def formula_checked_def)

lemma shipping_row_ok:
  "row_ok shippingFallbackRules_table (shipping_row rs now i r) \<longleftrightarrow>
     \<bar>js_int (sf_costMinor r)\<bar> < 10 ^ 14 \<and> 0 \<le> js_int (sf_costMinor r)"
  using direction_admitted [of "sf_direction r"]
  by (cases "sf_countryCode r"; cases "sf_region r"; cases "sf_carrier r")
     (simp_all add: shippingFallbackRules_table_def shipping_row_def fee_row_simps)

section \<open>Keys\<close>

text \<open>Both sides read a key off a rule: the schema the values, the engine a text made of them.\<close>

definition gateway_key :: "'n gateway_fee_rule \<Rightarrow> payment_instrument option \<times> card_scheme option \<times> string option" where
  "gateway_key r = (gw_instrument r, gw_scheme r, gw_provider r)"

definition shipping_key :: "'n shipping_fallback_rule \<Rightarrow> string option \<times> string option \<times> string option \<times> rule_direction" where
  "shipping_key r = (sf_countryCode r, sf_region r, sf_carrier r, sf_direction r)"

lemma instrument_name_inject [simp]: "instrument_name i = instrument_name j \<longleftrightarrow> i = j"
  by (cases i; cases j) simp_all

lemma scheme_name_inject [simp]: "scheme_name c = scheme_name e \<longleftrightarrow> c = e"
  by (cases c; cases e) simp_all

lemma direction_name_inject [simp]: "direction_name x = direction_name y \<longleftrightarrow> x = y"
  by (cases x; cases y) simp_all

lemma opt_inject: "(\<And>v w. f v = f w \<longleftrightarrow> v = w) \<Longrightarrow> (\<And>v. f v \<noteq> V_null) \<Longrightarrow> opt f x = opt f y \<longleftrightarrow> x = y"
  by (cases x; cases y) (simp_all, metis)

lemma gateway_same_key:
  "same_key ([''fee_rule_set_id'', ''instrument'', ''scheme'', ''provider''], True) (gateway_row rs now i r) (gateway_row rs now j q)
     \<longleftrightarrow> gateway_key r = gateway_key q"
  by (simp add: same_key_def gateway_row_def cell_def gateway_key_def opt_inject)

lemma cod_same_key:
  "same_key ([''fee_rule_set_id'', ''carrier''], True) (cod_row rs now i r) (cod_row rs now j q)
     \<longleftrightarrow> cod_carrier r = cod_carrier q"
  by (simp add: same_key_def cod_row_def cell_def opt_inject)

lemma shipping_same_key:
  "same_key ([''fee_rule_set_id'', ''country_code'', ''region'', ''carrier'', ''direction''], True)
     (shipping_row rs now i r) (shipping_row rs now j q) \<longleftrightarrow> shipping_key r = shipping_key q"
  by (simp add: same_key_def shipping_row_def cell_def shipping_key_def opt_inject)

lemma id_same_key:
  "same_key ([''id''], True) (gateway_row rs now i r) (gateway_row rs now j q) \<longleftrightarrow> i = j"
  "same_key ([''id''], True) (cod_row rs now i c) (cod_row rs now j e) \<longleftrightarrow> i = j"
  "same_key ([''id''], True) (shipping_row rs now i x) (shipping_row rs now j y) \<longleftrightarrow> i = j"
  by (simp_all add: same_key_def gateway_row_def cod_row_def shipping_row_def cell_def)

lemma distinct_sorted_wrt: "distinct (map f xs) \<longleftrightarrow> sorted_wrt (\<lambda>x y. f x \<noteq> f y) xs"
  by (induction xs) auto

lemma keys_of_rows:
  assumes "\<And>i r j q. same_key k (F i r) (F j q) \<longleftrightarrow> g i r = g j q"
  shows "sorted_wrt (\<lambda>q r. \<not> same_key k r q) (map2 F ids rules) \<longleftrightarrow> distinct (map2 g ids rules)"
  by (simp add: distinct_sorted_wrt sorted_wrt_map split_beta assms eq_commute)

lemma keys_of_identified:
  assumes "identified ids rules"
    and id: "\<And>i r j q. same_key kid (F i r) (F j q) \<longleftrightarrow> i = j"
    and key: "\<And>i r j q. same_key k (F i r) (F j q) \<longleftrightarrow> g r = g q"
  shows "sorted_wrt (\<lambda>q r. \<not> same_key kid r q) (map2 F ids rules)"
    and "sorted_wrt (\<lambda>q r. \<not> same_key k r q) (map2 F ids rules) \<longleftrightarrow> distinct (map g rules)"
proof -
  have "map2 (\<lambda>i r. i) ids rules = ids" "map2 (\<lambda>i r. g r) ids rules = map g rules"
    using assms(1) by (auto simp: identified_def split_beta map_fst_zip intro: nth_equalityI)
  then show "sorted_wrt (\<lambda>q r. \<not> same_key kid r q) (map2 F ids rules)"
    "sorted_wrt (\<lambda>q r. \<not> same_key k r q) (map2 F ids rules) \<longleftrightarrow> distinct (map g rules)"
    using keys_of_rows [of kid F "\<lambda>i r. i", OF id] keys_of_rows [of k F "\<lambda>i r. g r", OF key] assms(1)
    by (auto simp: identified_def)
qed

lemma fee_table_keys:
  "table_keys gatewayFeeRules_table = [([''id''], True), ([''fee_rule_set_id'', ''instrument'', ''scheme'', ''provider''], True)]"
  "table_keys codFeeRules_table = [([''id''], True), ([''fee_rule_set_id'', ''carrier''], True)]"
  "table_keys shippingFallbackRules_table =
     [([''id''], True), ([''fee_rule_set_id'', ''country_code'', ''region'', ''carrier'', ''direction''], True)]"
  by (simp_all add: table_keys_def primary_key_def gatewayFeeRules_table_def codFeeRules_table_def
      shippingFallbackRules_table_def column_defs feeFormulaColumns_def)

lemma rows_of_map2:
  assumes "\<And>i r. Q (F i r) \<longleftrightarrow> R r" and "length ids = length rules"
  shows "(\<forall>x \<in> set (zip ids rules). Q (case x of (i, r) \<Rightarrow> F i r)) \<longleftrightarrow> (\<forall>r \<in> set rules. R r)"
  using assms(2) by (induction ids rules rule: list_induct2) (auto simp: assms(1))

lemma gateway_rows_ok:
  "identified ids rules \<Longrightarrow> rows_ok gatewayFeeRules_table (map2 (gateway_row rs now) ids rules) \<longleftrightarrow>
     (\<forall>r \<in> set rules. formula_columns_fit r \<and> formula_checked r) \<and> distinct (map gateway_key rules)"
  using keys_of_identified [of ids rules "([''id''], True)" "gateway_row rs now", OF _ id_same_key(1) gateway_same_key]
  by (simp add: rows_ok_def keys_ok_def fee_table_keys
      rows_of_map2 [where F = "gateway_row rs now" and Q = "row_ok gatewayFeeRules_table", OF gateway_row_ok] identified_def)

lemma cod_rows_ok:
  "identified ids rules \<Longrightarrow> rows_ok codFeeRules_table (map2 (cod_row rs now) ids rules) \<longleftrightarrow>
     (\<forall>r \<in> set rules. formula_columns_fit r \<and> formula_checked r) \<and> distinct (map cod_carrier rules)"
  using keys_of_identified [of ids rules "([''id''], True)" "cod_row rs now", OF _ id_same_key(2) cod_same_key]
  by (simp add: rows_ok_def keys_ok_def fee_table_keys
      rows_of_map2 [where F = "cod_row rs now" and Q = "row_ok codFeeRules_table", OF cod_row_ok] identified_def)

lemma shipping_rows_ok:
  "identified ids rules \<Longrightarrow> rows_ok shippingFallbackRules_table (map2 (shipping_row rs now) ids rules) \<longleftrightarrow>
     (\<forall>r \<in> set rules. \<bar>js_int (sf_costMinor r)\<bar> < 10 ^ 14 \<and> 0 \<le> js_int (sf_costMinor r))
     \<and> distinct (map shipping_key rules)"
  using keys_of_identified [of ids rules "([''id''], True)" "shipping_row rs now", OF _ id_same_key(3) shipping_same_key]
  by (simp add: rows_ok_def keys_ok_def fee_table_keys
      rows_of_map2 [where F = "shipping_row rs now" and Q = "row_ok shippingFallbackRules_table", OF shipping_row_ok] identified_def)

section \<open>The engine's keys\<close>

lemma split_at_bar:
  "CHR ''|'' \<notin> set a \<Longrightarrow> CHR ''|'' \<notin> set b \<Longrightarrow> a @ CHR ''|'' # x = b @ CHR ''|'' # y \<longleftrightarrow> a = b \<and> x = y"
proof (induction a arbitrary: b)
  case Nil
  then show ?case by (cases b) auto
next
  case (Cons c a)
  then show ?case by (cases b) auto
qed

lemma split_at_last_bar:
  assumes "CHR ''|'' \<notin> set x" "CHR ''|'' \<notin> set y"
  shows "a @ CHR ''|'' # x = b @ CHR ''|'' # y \<longleftrightarrow> a = b \<and> x = y"
proof -
  have "a @ CHR ''|'' # x = b @ CHR ''|'' # y \<longleftrightarrow> rev x @ CHR ''|'' # rev a = rev y @ CHR ''|'' # rev b"
    by (metis append.assoc append_Cons append_Nil rev.simps(2) rev_append rev_rev_ident)
  then show ?thesis using split_at_bar [of "rev x" "rev y"] assms by auto
qed

lemma or_empty_inject: "x \<noteq> Some [] \<Longrightarrow> y \<noteq> Some [] \<Longrightarrow> or_empty x = or_empty y \<longleftrightarrow> x = y"
  by (auto simp: or_empty_def split: option.splits)

lemma name_plain: "instrument_name i \<noteq> []" "scheme_name c \<noteq> []" "CHR ''|'' \<notin> set (instrument_name i)"
  "CHR ''|'' \<notin> set (scheme_name c)" "CHR ''|'' \<notin> set (direction_name x)"
proof -
  show "instrument_name i \<noteq> []" "CHR ''|'' \<notin> set (instrument_name i)" by (cases i; simp)+
  show "scheme_name c \<noteq> []" "CHR ''|'' \<notin> set (scheme_name c)" by (cases c; simp)+
  show "CHR ''|'' \<notin> set (direction_name x)" by (cases x; simp)
qed

lemma named_inject:
  "or_empty (map_option instrument_name i) = or_empty (map_option instrument_name j) \<longleftrightarrow> i = j"
  "or_empty (map_option scheme_name c) = or_empty (map_option scheme_name e) \<longleftrightarrow> c = e"
  "CHR ''|'' \<notin> set (or_empty (map_option instrument_name i))"
  "CHR ''|'' \<notin> set (or_empty (map_option scheme_name c))"
  using name_plain name_plain(1,2) [symmetric] by (auto simp: or_empty_def split: option.splits)

text \<open>Texts a merchant enters: not empty where present, and without the separator where one follows.\<close>

definition gateway_plain :: "'n gateway_fee_rule \<Rightarrow> bool" where
  "gateway_plain r \<longleftrightarrow> gw_provider r \<noteq> Some []"

definition cod_plain :: "'n cod_fee_rule \<Rightarrow> bool" where
  "cod_plain r \<longleftrightarrow> cod_carrier r \<noteq> Some []"

definition shipping_plain :: "'n shipping_fallback_rule \<Rightarrow> bool" where
  "shipping_plain r \<longleftrightarrow> sf_countryCode r \<noteq> Some [] \<and> sf_region r \<noteq> Some [] \<and> sf_carrier r \<noteq> Some []
     \<and> CHR ''|'' \<notin> set (or_empty (sf_countryCode r)) \<and> CHR ''|'' \<notin> set (or_empty (sf_region r))"

text \<open>What the engine's texts tell apart: nothing and an empty text are the same to it.\<close>

definition gateway_seen :: "'n gateway_fee_rule \<Rightarrow> payment_instrument option \<times> card_scheme option \<times> string" where
  "gateway_seen r = (gw_instrument r, gw_scheme r, or_empty (gw_provider r))"

definition shipping_seen :: "'n shipping_fallback_rule \<Rightarrow> string \<times> rule_direction" where
  "shipping_seen r =
     (or_empty (sf_countryCode r) @ ''|'' @ or_empty (sf_region r) @ ''|'' @ or_empty (sf_carrier r), sf_direction r)"

lemma gateway_keys_seen: "gateway_rule_key r = gateway_rule_key q \<longleftrightarrow> gateway_seen r = gateway_seen q"
  by (simp add: gateway_rule_key_def gateway_seen_def split_at_bar named_inject)

lemma shipping_keys_seen: "shipping_rule_key r = shipping_rule_key q \<longleftrightarrow> shipping_seen r = shipping_seen q"
proof -
  have "shipping_rule_key r = shipping_rule_key q \<longleftrightarrow>
      fst (shipping_seen r) @ CHR ''|'' # direction_name (sf_direction r)
        = fst (shipping_seen q) @ CHR ''|'' # direction_name (sf_direction q)"
    by (simp add: shipping_rule_key_def shipping_seen_def)
  also have "\<dots> \<longleftrightarrow> fst (shipping_seen r) = fst (shipping_seen q) \<and> sf_direction r = sf_direction q"
    using split_at_last_bar [OF name_plain(5) name_plain(5)] by simp
  finally show ?thesis by (simp add: shipping_seen_def)
qed

lemma gateway_keys_agree: "gateway_plain r \<Longrightarrow> gateway_plain q \<Longrightarrow> gateway_seen r = gateway_seen q \<longleftrightarrow> gateway_key r = gateway_key q"
  by (simp add: gateway_key_def gateway_seen_def gateway_plain_def or_empty_inject)

lemma cod_keys_agree: "cod_plain r \<Longrightarrow> cod_plain q \<Longrightarrow> cod_rule_key r = cod_rule_key q \<longleftrightarrow> cod_carrier r = cod_carrier q"
  by (simp add: cod_rule_key_def cod_plain_def or_empty_inject)

lemma shipping_keys_agree:
  "shipping_plain r \<Longrightarrow> shipping_plain q \<Longrightarrow> shipping_seen r = shipping_seen q \<longleftrightarrow> shipping_key r = shipping_key q"
  by (auto simp: shipping_seen_def shipping_key_def shipping_plain_def split_at_bar or_empty_inject)

lemma seen_keys_differ:
  "distinct (map gateway_seen gs) \<Longrightarrow> distinct (map gateway_key gs)"
  "distinct (map cod_rule_key cs) \<Longrightarrow> distinct (map cod_carrier cs)"
  "distinct (map shipping_seen ss) \<Longrightarrow> distinct (map shipping_key ss)"
  by (auto simp: distinct_map inj_on_def gateway_seen_def gateway_key_def cod_rule_key_def shipping_seen_def shipping_key_def)

lemma distinct_agree:
  "(\<And>x y. x \<in> set xs \<Longrightarrow> y \<in> set xs \<Longrightarrow> f x = f y \<longleftrightarrow> g x = g y) \<Longrightarrow> distinct (map f xs) \<longleftrightarrow> distinct (map g xs)"
  by (simp add: distinct_map inj_on_def)

section \<open>The engine's bounds\<close>

definition formula_in_engine :: "(js_number, 'z) fee_formula_scheme \<Rightarrow> bool" where
  "formula_in_engine f \<longleftrightarrow> js_int (fee_fixedMinor f) \<le> MAX_MINOR
     \<and> (\<forall>m \<in> set_option (fee_minFeeMinor f). 0 \<le> js_int m \<and> js_int m \<le> MAX_MINOR)
     \<and> (\<forall>m \<in> set_option (fee_maxFeeMinor f). 0 \<le> js_int m \<and> js_int m \<le> MAX_MINOR)"

lemma validMinor_whole: "whole v \<Longrightarrow> validMinor v \<longleftrightarrow> \<bar>js_int v\<bar> \<le> MAX_MINOR"
  by (auto simp: whole_def validMinor_def is_safe_integer.simps(1) MAX_MINOR_def MAX_SAFE_INTEGER_def)

lemma whole_safe: "whole v \<Longrightarrow> is_safe_integer v \<longleftrightarrow> \<bar>js_int v\<bar> \<le> MAX_SAFE_INTEGER"
  by (auto simp: whole_def is_safe_integer.simps(1))

lemma formula_valid_whole:
  assumes "formula_whole f"
  shows "feeFormulaIsValid f \<longleftrightarrow> js_int (fee_percentBps f) \<le> MAX_SAFE_INTEGER \<and> formula_checked f \<and> formula_in_engine f"
proof -
  have w: "whole (fee_percentBps f)" "whole (fee_fixedMinor f)" "whole (fee_feeVatBps f)"
    "\<And>m. fee_minFeeMinor f = Some m \<Longrightarrow> whole m" "\<And>m. fee_maxFeeMinor f = Some m \<Longrightarrow> whole m"
    using assms by (auto simp: formula_whole_def)
  have "10000 < MAX_SAFE_INTEGER" by (simp add: MAX_SAFE_INTEGER_def)
  then show ?thesis
    by (cases "fee_minFeeMinor f"; cases "fee_maxFeeMinor f")
       (auto simp: feeFormulaIsValid_def formula_checked_def formula_in_engine_def validMinor_whole w whole_safe)
qed

lemma formula_valid_iff:
  assumes "formula_whole f" "js_int (fee_percentBps f) < 2 ^ 31"
  shows "feeFormulaIsValid f \<longleftrightarrow> formula_columns_fit f \<and> formula_checked f \<and> formula_in_engine f"
proof -
  have bounds: "MAX_MINOR < 10 ^ 14" "(2::int) ^ 31 < MAX_SAFE_INTEGER" by (simp_all add: MAX_MINOR_def MAX_SAFE_INTEGER_def)
  have "formula_columns_fit f" if "formula_checked f" "formula_in_engine f"
    using that assms(2) bounds(1) unfolding formula_columns_fit_def formula_checked_def formula_in_engine_def
    by (auto simp: abs_less_iff)
  then show ?thesis using formula_valid_whole [OF assms(1)] assms(2) bounds(2) by auto
qed

end
