(* ===== verification/Provisioning.thy ===== *)
theory Provisioning
  imports SchemaFacts OpsConfig
begin

text \<open>
  What the operator portal may read. The first chapter is the read-only role of
  \<open>apps/ghalla-ops/sql/ghalla_ops_ro.sql\<close>: its statements on the privileges of one integration's tables,
  the assertions it ends with, and the columns the portal's queries name. The second is
  \<open>apps/ghalla-ops/scripts/provision.mjs\<close>, which runs that file and gives the portal a database of its
  own. Roles inherit nothing and superusers are out of scope: both roles are created by the scripts.
\<close>

chapter \<open>The read-only role\<close>

section \<open>Privileges\<close>

datatype acl_privilege = P_select | P_insert | P_update | P_delete | P_truncate | P_references | P_trigger

text \<open>Who holds what on a table, or on one of its columns.\<close>

type_synonym acl = "string \<Rightarrow> string \<Rightarrow> string option \<Rightarrow> acl_privilege \<Rightarrow> bool"

definition OPS_RO :: string where
  "OPS_RO = ''ghalla_ops_ro''"

definition PUBLIC :: string where
  "PUBLIC = ''PUBLIC''"

datatype acl_statement =
    Revoke_all_on_tables string
  | Revoke_all_on_table string string
  | Grant_select "string list option" string string

fun covers :: "string list option \<Rightarrow> string option \<Rightarrow> bool" where
  "covers None c = (c = None)"
| "covers (Some columns) c = (case c of None \<Rightarrow> False | Some x \<Rightarrow> x \<in> set columns)"

text \<open>A statement that names what does not exist fails; \<open>s\<close> are the tables the database has in the schema.\<close>

fun names_exist :: "table_def list \<Rightarrow> acl_statement \<Rightarrow> bool" where
  "names_exist s (Revoke_all_on_tables role) = True"
| "names_exist s (Revoke_all_on_table t role) = (find_table s t \<noteq> None)"
| "names_exist s (Grant_select columns t role) =
     (case find_table s t of
        None \<Rightarrow> False
      | Some d \<Rightarrow> (case columns of None \<Rightarrow> True
          | Some cs \<Rightarrow> list_all (\<lambda>c. c \<in> set (map col_name (tab_columns d))) cs))"

fun run_statement :: "table_def list \<Rightarrow> acl_statement \<Rightarrow> acl \<Rightarrow> acl" where
  "run_statement s (Revoke_all_on_tables role) acl =
     (\<lambda>r t c p. acl r t c p \<and> \<not> (r = role \<and> t \<in> set (map tab_name s)))"
| "run_statement s (Revoke_all_on_table u role) acl = (\<lambda>r t c p. acl r t c p \<and> \<not> (r = role \<and> t = u))"
| "run_statement s (Grant_select columns u role) acl =
     (\<lambda>r t c p. acl r t c p \<or> r = role \<and> t = u \<and> covers columns c \<and> p = P_select)"

definition has_table_privilege :: "acl \<Rightarrow> string \<Rightarrow> string \<Rightarrow> acl_privilege \<Rightarrow> bool" where
  "has_table_privilege acl role t p \<longleftrightarrow> acl role t None p \<or> acl PUBLIC t None p"

definition has_column_privilege :: "acl \<Rightarrow> string \<Rightarrow> string \<Rightarrow> string \<Rightarrow> acl_privilege \<Rightarrow> bool" where
  "has_column_privilege acl role t c p \<longleftrightarrow>
     has_table_privilege acl role t p \<or> acl role t (Some c) p \<or> acl PUBLIC t (Some c) p"

section \<open>The file\<close>

definition RO_GRANTS :: "(string \<times> string list option) list" where
  "RO_GRANTS =
    [(''stores'', Some [''id'', ''platform'', ''platform_store_id'', ''currency'', ''timezone'', ''vat_rate_bps'',
       ''vat_registered'', ''installed_at'', ''uninstalled_at'', ''created_at'', ''updated_at'']),
     (''store_subscription'', Some [''store_id'', ''plan_code'', ''platform_plan_id'', ''status'', ''trial_ends_at'',
       ''current_period_start'', ''current_period_end'', ''last_event_at'', ''last_reconciled_at'',
       ''pending_plan_code'', ''pending_plan_effective_at'', ''created_at'', ''updated_at'']),
     (''orders'', Some [''id'', ''store_id'', ''placed_at'', ''platform_updated_at'', ''lifecycle'', ''payment_state'',
       ''fulfillment_state'', ''is_test'', ''ingestion_source'', ''fulfillment_method'', ''currency'',
       ''created_at'', ''updated_at'']),
     (''order_payments'', Some [''order_id'', ''instrument'', ''scheme'', ''wallet'', ''provider'',
       ''raw_method_label'', ''state'']),
     (''order_profit'', Some [''store_id'', ''business_date'', ''status'', ''recognition_kind'', ''recognition_reason'',
       ''currency'', ''calc_version'', ''revenue_ex_vat_minor'', ''cost_covered_revenue_ex_vat_minor'',
       ''contribution_margin_minor'', ''margin_bps'', ''diagnostics'', ''computed_at'']),
     (''daily_store_rollup'', None),
     (''webhook_events'', Some [''id'', ''store_id'', ''platform_event_id'', ''event_type'', ''raw_event_type'',
       ''received_at'', ''processed_at'', ''status'', ''attempts'', ''next_attempt_at'', ''locked_at'',
       ''last_error'', ''created_at'']),
     (''backfill_cursors'', Some [''store_id'', ''resource'', ''status'', ''items_fetched'', ''range_from'', ''range_to'',
       ''last_advanced_at'', ''created_at'', ''updated_at'']),
     (''cost_history'', Some [''store_id'', ''source'', ''effective_from'', ''effective_to'', ''created_at''])]"

definition ops_ro_statements :: "acl_statement list" where
  "ops_ro_statements =
    [Revoke_all_on_tables OPS_RO, Revoke_all_on_tables PUBLIC]
    @ map (\<lambda>(t, columns). Grant_select columns t OPS_RO) RO_GRANTS
    @ [Revoke_all_on_table ''platform_credentials'' OPS_RO]"

text \<open>
  The block that proves the grants took hold: the columns it asks about must exist, and its exceptions.
\<close>

definition asserted_exist :: "table_def list \<Rightarrow> bool" where
  "asserted_exist s \<longleftrightarrow> list_all (\<lambda>(t, c). case find_table s t of
       None \<Rightarrow> False | Some d \<Rightarrow> c \<in> set (map col_name (tab_columns d)))
     [(''webhook_events'', ''raw_payload''), (''orders'', ''customer_ref'')]"

definition ops_ro_raises :: "acl \<Rightarrow> bool" where
  "ops_ro_raises acl \<longleftrightarrow>
     has_table_privilege acl OPS_RO ''orders'' P_insert
     \<or> has_table_privilege acl OPS_RO ''orders'' P_update \<or> has_table_privilege acl OPS_RO ''orders'' P_delete
     \<or> has_table_privilege acl OPS_RO ''platform_credentials'' P_select
     \<or> has_column_privilege acl OPS_RO ''webhook_events'' ''raw_payload'' P_select
     \<or> has_column_privilege acl OPS_RO ''orders'' ''customer_ref'' P_select"

text \<open>One transaction: \<open>None\<close> is an error, which leaves the privileges as they were.\<close>

definition apply_ops_ro :: "table_def list \<Rightarrow> acl \<Rightarrow> acl option" where
  "apply_ops_ro s acl =
     (if \<not> list_all (names_exist s) ops_ro_statements \<or> \<not> asserted_exist s then None
      else let acl' = fold (run_statement s) ops_ro_statements acl
           in if ops_ro_raises acl' then None else Some acl')"

section \<open>What the portal's queries name\<close>

definition coverage_reads :: "(string \<times> string list) list" where
  "coverage_reads = [(''daily_store_rollup'', [''revenue_ex_vat_minor'', ''cost_covered_revenue_ex_vat_minor'',
     ''orders_count'', ''dirty'', ''business_date'', ''store_id''])]"

definition webhook_reads :: "(string \<times> string list) list" where
  "webhook_reads = [(''webhook_events'', [''status'', ''received_at'', ''locked_at'', ''store_id'', ''id'', ''event_type'',
     ''raw_event_type'', ''attempts'', ''last_error''])]"

definition backfill_reads :: "(string \<times> string list) list" where
  "backfill_reads =
    [(''backfill_cursors'', [''store_id'', ''status'', ''items_fetched'', ''created_at'', ''last_advanced_at'', ''resource''])]"

definition payment_reads :: "(string \<times> string list) list" where
  "payment_reads =
    [(''orders'', [''id'', ''store_id'', ''is_test'']),
     (''order_payments'', [''order_id'', ''instrument'', ''raw_method_label''])]"

definition order_reads :: "(string \<times> string list) list" where
  "order_reads =
    [(''orders'', [''id'', ''store_id'', ''ingestion_source'', ''placed_at'']),
     (''store_subscription'', [''store_id'', ''current_period_start'', ''current_period_end''])]"

definition store_reads :: "(string \<times> string list) list" where
  "store_reads = [(''stores'', [''id'', ''platform_store_id'', ''currency'', ''timezone'', ''installed_at'', ''uninstalled_at''])]"

definition mrr_reads :: "(string \<times> string list) list" where
  "mrr_reads = [(''store_subscription'', [''plan_code'', ''pending_plan_code'', ''pending_plan_effective_at'', ''status''])]"

definition subscription_reads :: "(string \<times> string list) list" where
  "subscription_reads = [(''store_subscription'', [''store_id'', ''plan_code'', ''status'', ''current_period_start'',
     ''current_period_end'', ''trial_ends_at'', ''last_reconciled_at'', ''pending_plan_code'', ''pending_plan_effective_at''])]"

definition portal_reads :: "(string \<times> string) list" where
  "portal_reads = concat (map (\<lambda>(t, cs). map (\<lambda>c. (t, c)) cs)
     (coverage_reads @ webhook_reads @ backfill_reads @ payment_reads @ order_reads @ store_reads @ mrr_reads @ subscription_reads))"

section \<open>The privileges after the file has run\<close>

definition granted :: "string \<Rightarrow> string option \<Rightarrow> bool" where
  "granted t c \<longleftrightarrow> list_ex (\<lambda>(u, columns). u = t \<and> covers columns c) RO_GRANTS"

definition readable :: "string \<Rightarrow> string \<Rightarrow> bool" where
  "readable t c \<longleftrightarrow> granted t None \<or> granted t (Some c)"

definition ro_acl :: "table_def list \<Rightarrow> acl \<Rightarrow> acl" where
  "ro_acl s acl = (\<lambda>r t c p.
     if t \<in> set (map tab_name s) \<and> (r = OPS_RO \<or> r = PUBLIC) then r = OPS_RO \<and> p = P_select \<and> granted t c
     else acl r t c p)"

lemma roles_differ [simp]: "OPS_RO \<noteq> PUBLIC" "PUBLIC \<noteq> OPS_RO"
  by (simp_all add: OPS_RO_def PUBLIC_def)

lemma run_grants:
  "fold (run_statement s) (map (\<lambda>(t, columns). Grant_select columns t role) gs) acl =
     (\<lambda>r t c p. acl r t c p \<or> r = role \<and> p = P_select \<and> list_ex (\<lambda>(u, columns). u = t \<and> covers columns c) gs)"
  by (induction gs arbitrary: acl) (auto simp: fun_eq_iff)

lemma no_grant_on_credentials: "\<not> granted ''platform_credentials'' c"
  by (simp add: granted_def RO_GRANTS_def)

text \<open>
  What the file needs of the tables it meets: those it grants on, with the columns it lists, the one it
  shuts, and the two columns it asks about. A migrated database has them.
\<close>

definition needed :: "(string \<times> string list) list" where
  "needed = map (\<lambda>(t, columns). (t, case columns of None \<Rightarrow> [] | Some cs \<Rightarrow> cs)) RO_GRANTS
     @ [(''platform_credentials'', []), (''webhook_events'', [''raw_payload'']), (''orders'', [''customer_ref''])]"

definition has_columns :: "table_def list \<Rightarrow> string \<Rightarrow> string list \<Rightarrow> bool" where
  "has_columns s t cs \<longleftrightarrow>
     (case find_table s t of None \<Rightarrow> False | Some d \<Rightarrow> set cs \<subseteq> set (map col_name (tab_columns d)))"

definition grantable :: "table_def list \<Rightarrow> bool" where
  "grantable s \<longleftrightarrow> list_all (\<lambda>(t, columns). has_columns s t columns) needed"

lemma grant_exists:
  "names_exist s (Grant_select columns t role) \<longleftrightarrow> has_columns s t (case columns of None \<Rightarrow> [] | Some cs \<Rightarrow> cs)"
  by (auto simp: has_columns_def list_all_iff split: option.splits)

lemma grantable_exist: "grantable s \<longleftrightarrow> list_all (names_exist s) ops_ro_statements \<and> asserted_exist s"
proof -
  have shut: "has_columns s t [] \<longleftrightarrow> names_exist s (Revoke_all_on_table t r)" for t r
    by (simp add: has_columns_def split: option.split)
  have asked: "(case find_table s t of None \<Rightarrow> False | Some d \<Rightarrow> c \<in> set (map col_name (tab_columns d))) \<longleftrightarrow> has_columns s t [c]" for t c
    by (simp add: has_columns_def split: option.split)
  show ?thesis
    unfolding grantable_def needed_def ops_ro_statements_def asserted_exist_def
    by (simp add: list.pred_map comp_def case_prod_unfold grant_exists asked shut [of _ OPS_RO] del: names_exist.simps(2,3) set_map)
qed

lemma integration_grantable: "grantable integration_schema"
  by code_simp

lemma found_named: "find_table s t = Some d \<Longrightarrow> t \<in> set (map tab_name s)"
  by (auto simp: find_table_def find_Some_iff)

lemma needed_named: "grantable s \<Longrightarrow> (t, columns) \<in> set needed \<Longrightarrow> t \<in> set (map tab_name s)"
  using found_named by (fastforce simp: grantable_def has_columns_def list_all_iff simp del: set_map split: option.splits)

lemma granted_needed: "granted t c \<Longrightarrow> \<exists>columns. (t, columns) \<in> set needed"
  by (force simp: granted_def list_ex_iff needed_def)

lemma asserted_tables:
  assumes "grantable s"
  shows "''orders'' \<in> set (map tab_name s)" "''platform_credentials'' \<in> set (map tab_name s)"
    "''webhook_events'' \<in> set (map tab_name s)" "''stores'' \<in> set (map tab_name s)"
proof -
  have "(''orders'', [''customer_ref'']) \<in> set needed" "(''platform_credentials'', []) \<in> set needed"
    "(''webhook_events'', [''raw_payload'']) \<in> set needed" "granted ''stores'' (Some ''id'')"
    by code_simp+
  then show "''orders'' \<in> set (map tab_name s)" "''platform_credentials'' \<in> set (map tab_name s)"
    "''webhook_events'' \<in> set (map tab_name s)" "''stores'' \<in> set (map tab_name s)"
    using needed_named [OF assms] granted_needed by metis+
qed

lemma run_ops_ro: "grantable s \<Longrightarrow> fold (run_statement s) ops_ro_statements acl = ro_acl s acl"
  using granted_needed needed_named no_grant_on_credentials asserted_tables(2)
  unfolding ops_ro_statements_def fold_append comp_apply run_grants
  by (auto simp: ro_acl_def granted_def [symmetric] fun_eq_iff simp del: set_map) blast+

lemma ro_acl_columns:
  "t \<in> set (map tab_name s) \<Longrightarrow> has_column_privilege (ro_acl s acl) OPS_RO t c p \<longleftrightarrow> p = P_select \<and> readable t c"
  by (auto simp: has_column_privilege_def has_table_privilege_def ro_acl_def readable_def)

lemma ro_acl_tables:
  "t \<in> set (map tab_name s) \<Longrightarrow> has_table_privilege (ro_acl s acl) OPS_RO t p \<longleftrightarrow> p = P_select \<and> granted t None"
  by (auto simp: has_table_privilege_def ro_acl_def)

lemma asserted_columns: "\<not> readable ''webhook_events'' ''raw_payload'' \<and> \<not> readable ''orders'' ''customer_ref''"
  by code_simp

lemma apply_ops_ro_iff: "apply_ops_ro s acl = (if grantable s then Some (ro_acl s acl) else None)"
proof (cases "grantable s")
  case True
  have "\<not> ops_ro_raises (ro_acl s acl)"
    using asserted_tables [OF True] asserted_columns no_grant_on_credentials
    by (simp add: ops_ro_raises_def ro_acl_columns ro_acl_tables del: set_map)
  then show ?thesis using True by (simp add: apply_ops_ro_def run_ops_ro flip: grantable_exist)
next
  case False
  then show ?thesis by (auto simp: apply_ops_ro_def grantable_exist)
qed

lemma apply_ops_ro_Some: "apply_ops_ro integration_schema acl = Some (ro_acl integration_schema acl)"
  by (simp add: apply_ops_ro_iff integration_grantable)

lemma ro_acl_again: "ro_acl s (ro_acl s acl) = ro_acl s acl"
  by (auto simp: ro_acl_def fun_eq_iff)

lemma portal_reads_readable: "list_all (\<lambda>(t, c). t \<in> set (map tab_name integration_schema) \<and> readable t c) portal_reads"
  by code_simp

chapter \<open>The script\<close>

section \<open>What it checks\<close>

datatype provision_error =
    Not_set string
  | Not_url_safe string
  | Not_an_identifier
  | Query_failed
  | Boundary_missing

definition char_between :: "char \<Rightarrow> char \<Rightarrow> char \<Rightarrow> bool" where
  "char_between a b c \<longleftrightarrow> (of_char a :: nat) \<le> of_char c \<and> (of_char c :: nat) \<le> of_char b"

text \<open>The test \<open>/^[A-Za-z0-9_-]{24,}$/\<close>.\<close>

definition url_safe_secret :: "string \<Rightarrow> bool" where
  "url_safe_secret pw \<longleftrightarrow> 24 \<le> length pw \<and> list_all (\<lambda>c. char_between CHR ''A'' CHR ''Z'' c \<or> char_between CHR ''a'' CHR ''z'' c
     \<or> char_between CHR ''0'' CHR ''9'' c \<or> c = CHR ''_'' \<or> c = CHR ''-'') pw"

text \<open>The test \<open>/^[a-z_][a-z0-9_]{0,62}$/\<close>.\<close>

definition plain_identifier :: "string \<Rightarrow> bool" where
  "plain_identifier name \<longleftrightarrow> (case name of [] \<Rightarrow> False
     | c # cs \<Rightarrow> (char_between CHR ''a'' CHR ''z'' c \<or> c = CHR ''_'') \<and> length cs \<le> 62
         \<and> list_all (\<lambda>d. char_between CHR ''a'' CHR ''z'' d \<or> char_between CHR ''0'' CHR ''9'' d \<or> d = CHR ''_'') cs)"

text \<open>A variable that is absent or empty is falsy.\<close>

definition env_text :: "env \<Rightarrow> string \<Rightarrow> string" where
  "env_text env name = (case env name of None \<Rightarrow> [] | Some v \<Rightarrow> v)"

definition portal_db_name :: "env \<Rightarrow> string" where
  "portal_db_name env = (case env ''PORTAL_DATABASE_NAME'' of None \<Rightarrow> ''ghalla_ops'' | Some v \<Rightarrow> v)"

section \<open>The cluster\<close>

text \<open>
  Databases with their owners, who may connect to them or make temporary tables, roles with password
  and connection limit, the schemas and the tables of each database with their owners (a table with its
  schema and the columns it has), and the privileges and rows in the integration's database.
\<close>

record cluster =
  cl_databases :: "string list"
  cl_dbOwner :: "string \<Rightarrow> string"
  cl_dbAccess :: "string \<Rightarrow> string \<Rightarrow> bool"
  cl_roles :: "string list"
  cl_login :: "string \<Rightarrow> (string \<times> int) option"
  cl_schemas :: "string \<Rightarrow> (string \<times> string) list"
  cl_tables :: "string \<Rightarrow> (string \<times> table_def \<times> string) list"
  cl_acl :: acl
  cl_rows :: sql_db

definition public_tables :: "cluster \<Rightarrow> string \<Rightarrow> table_def list" where
  "public_tables c name = map (\<lambda>(s, t, w). t) (filter (\<lambda>(s, t, w). s = ''public'') (cl_tables c name))"

definition OWNER_ROLE :: string where
  "OWNER_ROLE = ''ghalla_ops_app''"

definition create_database :: "string \<Rightarrow> string \<Rightarrow> cluster \<Rightarrow> cluster" where
  "create_database admin name c =
     (if name \<in> set (cl_databases c) then c
      else c\<lparr> cl_databases := cl_databases c @ [name], cl_dbOwner := (cl_dbOwner c)(name := admin),
             cl_dbAccess := (\<lambda>r d. if d = name then r = PUBLIC else cl_dbAccess c r d),
             cl_schemas := (cl_schemas c)(name := [(''public'', admin)]), cl_tables := (cl_tables c)(name := []) \<rparr>)"

definition ensure_role :: "string \<Rightarrow> string \<Rightarrow> int \<Rightarrow> cluster \<Rightarrow> cluster" where
  "ensure_role role pw limit c =
     c\<lparr> cl_roles := (if role \<in> set (cl_roles c) then cl_roles c else cl_roles c @ [role]),
        cl_login := (cl_login c)(role \<mapsto> (pw, limit)) \<rparr>"

definition own_database :: "string \<Rightarrow> string \<Rightarrow> cluster \<Rightarrow> cluster" where
  "own_database name pw c =
     (let c = ensure_role OWNER_ROLE pw 10 c
      in c\<lparr> cl_dbOwner := (cl_dbOwner c)(name := OWNER_ROLE),
            cl_dbAccess := (\<lambda>r d. if d = name \<and> r = PUBLIC then False else if d = name \<and> r = OWNER_ROLE then True
                                else cl_dbAccess c r d) \<rparr>)"

definition reassign_schema :: "string \<Rightarrow> string \<Rightarrow> cluster \<Rightarrow> cluster" where
  "reassign_schema name sch c =
     c\<lparr> cl_schemas := (cl_schemas c)(name := map (\<lambda>(s, w). (s, if s = sch then OWNER_ROLE else w)) (cl_schemas c name)),
        cl_tables := (cl_tables c)(name := map (\<lambda>(s, t, w). (s, t, if s = sch then OWNER_ROLE else w)) (cl_tables c name)) \<rparr>"

definition has_schema :: "string \<Rightarrow> string \<Rightarrow> cluster \<Rightarrow> bool" where
  "has_schema name sch c \<longleftrightarrow> sch \<in> fst ` set (cl_schemas c name)"

definition reassign_tables :: "string \<Rightarrow> cluster \<Rightarrow> cluster option" where
  "reassign_tables name c =
     (if \<not> has_schema name ''public'' c then None
      else let c = reassign_schema name ''public'' c
           in Some (if has_schema name ''drizzle'' c then reassign_schema name ''drizzle'' c else c))"

definition read_only_role :: "string \<Rightarrow> string \<Rightarrow> cluster \<Rightarrow> cluster option" where
  "read_only_role integration pw c =
     (if integration \<notin> set (cl_databases c) then None
      else case apply_ops_ro (public_tables c integration) (cl_acl c) of
        None \<Rightarrow> None
      | Some acl \<Rightarrow>
          (let c = ensure_role OPS_RO pw 5 c
           in Some (c\<lparr> cl_acl := acl,
                cl_dbAccess := (\<lambda>r d. if d = integration \<and> r = OPS_RO then True else cl_dbAccess c r d) \<rparr>)))"

section \<open>Proof from the outside\<close>

text \<open>\<open>count(*)\<close> needs the privilege to read the table or a column of it.\<close>

definition countable :: "table_def list \<Rightarrow> acl \<Rightarrow> string \<Rightarrow> bool" where
  "countable s acl t \<longleftrightarrow> (case find_table s t of
     None \<Rightarrow> False
   | Some d \<Rightarrow> has_table_privilege acl OPS_RO t P_select
       \<or> list_ex (\<lambda>c. has_column_privilege acl OPS_RO t (col_name c) P_select) (tab_columns d))"

text \<open>The insert of the probe: without the privilege it is refused, with it PostgreSQL runs it.\<close>

definition probe_insert :: "table_def list \<Rightarrow> acl \<Rightarrow> int \<Rightarrow> sql_db \<Rightarrow> sql_db option" where
  "probe_insert s acl now db =
     (if \<not> has_table_privilege acl OPS_RO ''stores'' P_insert \<and> \<not> has_column_privilege acl OPS_RO ''stores'' ''id'' P_insert
      then None
      else case insert_row s now ''stores'' [(''id'', V_text ''provision-probe'')] db of
             Inl _ \<Rightarrow> None | Inr db' \<Rightarrow> Some db')"

definition prove_outside :: "string \<Rightarrow> int \<Rightarrow> cluster \<Rightarrow> provision_error option \<times> cluster" where
  "prove_outside integration now c =
     (let s = public_tables c integration
      in if find_table s ''orders'' = None \<or> find_table s ''platform_credentials'' = None then (Some Query_failed, c)
         else if \<not> list_all (countable s (cl_acl c)) [''stores'', ''orders'', ''webhook_events'', ''daily_store_rollup'']
         then (Some Query_failed, c)
         else case probe_insert s (cl_acl c) now (cl_rows c) of
                Some db \<Rightarrow> (Some Boundary_missing, c\<lparr> cl_rows := db \<rparr>)
              | None \<Rightarrow> (None, c))"

text \<open>
  The whole script; an error ends it where it stands. \<open>integration\<close> is the database of the URL; the
  script also connects to the database \<open>postgres\<close>.
\<close>

definition provision ::
  "env \<Rightarrow> string \<Rightarrow> string \<Rightarrow> int \<Rightarrow> cluster \<Rightarrow> provision_error option \<times> cluster" where
  "provision env admin integration now c =
     (let pw = env_text env ''OPS_RO_PASSWORD''; name = portal_db_name env; ownerPw = env_text env ''PORTAL_OWNER_PASSWORD''
      in if env_text env ''ADMIN_DATABASE_URL'' = [] then (Some (Not_set ''ADMIN_DATABASE_URL''), c)
         else if pw = [] then (Some (Not_set ''OPS_RO_PASSWORD''), c)
         else if \<not> url_safe_secret pw then (Some (Not_url_safe ''OPS_RO_PASSWORD''), c)
         else if \<not> plain_identifier name then (Some Not_an_identifier, c)
         else if ''postgres'' \<notin> set (cl_databases c) then (Some Query_failed, c)
         else let c = create_database admin name c
         in if ownerPw = [] then (Some (Not_set ''PORTAL_OWNER_PASSWORD''), c)
         else if \<not> url_safe_secret ownerPw then (Some (Not_url_safe ''PORTAL_OWNER_PASSWORD''), c)
         else let c = own_database name ownerPw c
         in case reassign_tables name c of
              None \<Rightarrow> (Some Query_failed, c)
            | Some c \<Rightarrow> (case read_only_role integration pw c of
                None \<Rightarrow> (Some Query_failed, c)
              | Some c \<Rightarrow> prove_outside integration now c))"

section \<open>Facts\<close>

definition provisionable :: "env \<Rightarrow> bool" where
  "provisionable env \<longleftrightarrow> env_text env ''ADMIN_DATABASE_URL'' \<noteq> [] \<and> url_safe_secret (env_text env ''OPS_RO_PASSWORD'')
     \<and> plain_identifier (portal_db_name env) \<and> url_safe_secret (env_text env ''PORTAL_OWNER_PASSWORD'')"

lemma url_safe_not_empty: "url_safe_secret pw \<Longrightarrow> pw \<noteq> []"
  by (auto simp: url_safe_secret_def)

lemma role_counts:
  assumes "grantable s"
  shows "list_all (countable s (ro_acl s acl)) [''stores'', ''orders'', ''webhook_events'', ''daily_store_rollup'']"
proof -
  have wanted: "list_all (\<lambda>t. granted t None \<or> list_ex (\<lambda>(u, columns). u = t \<and> ''id'' \<in> set columns \<and> readable t ''id'') needed)
      [''stores'', ''orders'', ''webhook_events'', ''daily_store_rollup'']" by code_simp
  have "countable s (ro_acl s acl) t"
    if t: "granted t None \<or> list_ex (\<lambda>(u, columns). u = t \<and> ''id'' \<in> set columns \<and> readable t ''id'') needed" for t
  proof -
    obtain columns where n: "(t, columns) \<in> set needed" "granted t None \<or> ''id'' \<in> set columns \<and> readable t ''id''"
      using t granted_needed by (auto simp: list_ex_iff)
    obtain d where d: "find_table s t = Some d" "set columns \<subseteq> set (map col_name (tab_columns d))"
      using assms n(1) by (auto simp: grantable_def has_columns_def list_all_iff split: option.splits)
    show ?thesis
    proof (cases "granted t None")
      case True
      then show ?thesis using d(1) ro_acl_tables [OF found_named [OF d(1)]] by (simp add: countable_def)
    next
      case False
      then obtain c where c: "c \<in> set (tab_columns d)" "readable t (col_name c)" using n(2) d(2) by fastforce
      then show ?thesis
        using d(1) ro_acl_columns [OF found_named [OF d(1)]] by (auto simp: countable_def list_ex_iff)
    qed
  qed
  then show ?thesis using wanted by (simp only: list_all_iff) blast
qed

lemma role_cannot_insert: "grantable s \<Longrightarrow> probe_insert s (ro_acl s acl) now db = None"
  using asserted_tables(4) by (simp add: probe_insert_def ro_acl_columns ro_acl_tables del: set_map)

lemma outside_proved:
  assumes "grantable (public_tables c integration)" and "cl_acl c = ro_acl (public_tables c integration) acl"
  shows "prove_outside integration now c = (None, c)"
proof -
  have "(''orders'', [''customer_ref'']) \<in> set needed" "(''platform_credentials'', []) \<in> set needed" by code_simp+
  then have "find_table (public_tables c integration) ''orders'' \<noteq> None"
    "find_table (public_tables c integration) ''platform_credentials'' \<noteq> None"
    using assms(1) by (auto simp: grantable_def has_columns_def list_all_iff split: option.splits)
  then show ?thesis
    using role_counts [OF assms(1), of acl] role_cannot_insert [OF assms(1), of acl]
    by (simp add: prove_outside_def assms(2) Let_def)
qed

text \<open>The schemas whose objects change hands, and a database whose tables lie in schemas it has.\<close>

definition handed_over :: "string \<Rightarrow> bool" where
  "handed_over sch \<longleftrightarrow> sch = ''public'' \<or> sch = ''drizzle''"

definition well_formed_db :: "string \<Rightarrow> cluster \<Rightarrow> bool" where
  "well_formed_db name c \<longleftrightarrow> has_schema name ''public'' c \<and> list_all (\<lambda>(s, t, w). has_schema name s c) (cl_tables c name)"

definition hand_over :: "string \<Rightarrow> cluster \<Rightarrow> cluster" where
  "hand_over name c =
     c\<lparr> cl_schemas := (cl_schemas c)(name := map (\<lambda>(s, w). (s, if handed_over s then OWNER_ROLE else w)) (cl_schemas c name)),
        cl_tables := (cl_tables c)(name := map (\<lambda>(s, t, w). (s, t, if handed_over s then OWNER_ROLE else w)) (cl_tables c name)) \<rparr>"

lemma hand_over_both: "reassign_schema name ''drizzle'' (reassign_schema name ''public'' c) = hand_over name c"
  by (auto simp: reassign_schema_def hand_over_def handed_over_def split_beta intro!: cluster.equality)

lemma reassign_absent:
  assumes "well_formed_db name c" "\<not> has_schema name sch c"
  shows "reassign_schema name sch c = c"
proof -
  have "map (\<lambda>(s, w). (s, if s = sch then OWNER_ROLE else w)) (cl_schemas c name) = cl_schemas c name"
    using assms(2) by (intro map_idI) (force simp: has_schema_def)
  moreover have "map (\<lambda>(s, t, w). (s, t, if s = sch then OWNER_ROLE else w)) (cl_tables c name) = cl_tables c name"
    using assms by (intro map_idI) (force simp: well_formed_db_def list_all_iff)
  ultimately show ?thesis by (simp add: reassign_schema_def)
qed

lemma reassign_keeps: "has_schema name s (reassign_schema name sch c) = has_schema name s c"
  by (force simp: has_schema_def reassign_schema_def)

lemma reassign_well_formed: "well_formed_db name c \<Longrightarrow> well_formed_db name (reassign_schema name sch c)"
  unfolding well_formed_db_def reassign_keeps by (auto simp: reassign_schema_def list_all_iff)

lemma reassigned: "well_formed_db name c \<Longrightarrow> reassign_tables name c = Some (hand_over name c)"
  using reassign_absent [OF reassign_well_formed, of name c "''drizzle''" "''public''"]
  by (auto simp: reassign_tables_def Let_def well_formed_db_def reassign_keeps hand_over_both [symmetric])

text \<open>What the script leaves behind: the portal's own database, and the read-only role on the integration's.\<close>

definition separated :: "env \<Rightarrow> string \<Rightarrow> cluster \<Rightarrow> cluster" where
  "separated env admin c =
     (let name = portal_db_name env
      in hand_over name (own_database name (env_text env ''PORTAL_OWNER_PASSWORD'') (create_database admin name c)))"

definition provisioned :: "env \<Rightarrow> string \<Rightarrow> string \<Rightarrow> cluster \<Rightarrow> cluster" where
  "provisioned env admin integration c =
     (let c' = ensure_role OPS_RO (env_text env ''OPS_RO_PASSWORD'') 5 (separated env admin c)
      in c'\<lparr> cl_acl := ro_acl (public_tables c integration) (cl_acl c),
             cl_dbAccess := (\<lambda>r d. if d = integration \<and> r = OPS_RO then True else cl_dbAccess c' r d) \<rparr>)"

lemma create_well_formed:
  "(name \<in> set (cl_databases c) \<Longrightarrow> well_formed_db name c) \<Longrightarrow> well_formed_db name (create_database admin name c)"
  by (auto simp: create_database_def well_formed_db_def has_schema_def)

lemma own_well_formed: "well_formed_db name c \<Longrightarrow> well_formed_db name (own_database name pw c)"
  by (simp add: well_formed_db_def has_schema_def own_database_def ensure_role_def Let_def)

text \<open>The tables a database has do not depend on their owners.\<close>

lemma relabelled: "map (\<lambda>(s, t, w). t) (filter (\<lambda>(s, t, w). s = k) (map (\<lambda>(s, t, w). (s, t, g s w)) xs))
    = map (\<lambda>(s, t, w). t) (filter (\<lambda>(s, t, w). s = k) xs)"
  by (induction xs) auto

lemma public_tables_kept:
  "public_tables (hand_over name c) db = public_tables c db"
  "public_tables (own_database name pw c) db = public_tables c db"
  "db \<in> set (cl_databases c) \<Longrightarrow> public_tables (create_database admin name c) db = public_tables c db"
  "public_tables (ensure_role r pw n c) db = public_tables c db"
  by (auto simp: public_tables_def hand_over_def own_database_def ensure_role_def create_database_def Let_def
      relabelled [of "''public''" "\<lambda>s w. if handed_over s then OWNER_ROLE else w"])

lemma separated_tables: "db \<in> set (cl_databases c) \<Longrightarrow> public_tables (separated env admin c) db = public_tables c db"
  by (simp add: separated_def Let_def public_tables_kept)

lemma separated_acl: "cl_acl (separated env admin c) = cl_acl c"
  "set (cl_databases (separated env admin c)) = insert (portal_db_name env) (set (cl_databases c))"
  by (auto simp: separated_def Let_def hand_over_def own_database_def ensure_role_def create_database_def)

text \<open>Both ends of the script: with the tables the file needs it succeeds, without one it stops at the file.\<close>

lemma provision_ends:
  assumes "provisionable env" "portal_db_name env \<in> set (cl_databases c) \<longrightarrow> well_formed_db (portal_db_name env) c"
    and "''postgres'' \<in> set (cl_databases c)" "integration \<in> set (cl_databases c)"
  shows "provision env admin integration now c =
    (if grantable (public_tables c integration) then (None, provisioned env admin integration c)
     else (Some Query_failed, separated env admin c))"
proof -
  have handed: "reassign_tables (portal_db_name env) (own_database (portal_db_name env) pw (create_database admin (portal_db_name env) c))
      = Some (hand_over (portal_db_name env) (own_database (portal_db_name env) pw (create_database admin (portal_db_name env) c)))" for pw
    using assms(2) by (intro reassigned own_well_formed create_well_formed) simp
  have role: "read_only_role integration pw (separated env admin c) =
      (if grantable (public_tables c integration)
       then Some ((ensure_role OPS_RO pw 5 (separated env admin c))\<lparr> cl_acl := ro_acl (public_tables c integration) (cl_acl c),
         cl_dbAccess := (\<lambda>r d. if d = integration \<and> r = OPS_RO then True
           else cl_dbAccess (ensure_role OPS_RO pw 5 (separated env admin c)) r d) \<rparr>)
       else None)" for pw
    using assms(4) by (simp add: read_only_role_def apply_ops_ro_iff separated_tables separated_acl Let_def)
  have "public_tables (provisioned env admin integration c) integration = public_tables c integration"
    using separated_tables [OF assms(4)] by (simp add: provisioned_def Let_def public_tables_def ensure_role_def)
  then have proved: "grantable (public_tables c integration) \<Longrightarrow>
      prove_outside integration now (provisioned env admin integration c) = (None, provisioned env admin integration c)"
    using outside_proved [of "provisioned env admin integration c" integration "cl_acl c" now]
    by (simp add: provisioned_def Let_def)
  have "provision env admin integration now c =
      (case read_only_role integration (env_text env ''OPS_RO_PASSWORD'') (separated env admin c) of
         None \<Rightarrow> (Some Query_failed, separated env admin c) | Some c \<Rightarrow> prove_outside integration now c)"
    using assms(1,3) url_safe_not_empty
    by (auto simp: provision_def provisionable_def Let_def handed separated_def split: option.split)
  then show ?thesis using proved by (auto simp: role provisioned_def Let_def)
qed

definition add_role :: "string \<Rightarrow> string list \<Rightarrow> string list" where
  "add_role r rs = (if r \<in> set rs then rs else rs @ [r])"

definition taken_schemas :: "string \<Rightarrow> string \<Rightarrow> cluster \<Rightarrow> (string \<times> string) list" where
  "taken_schemas admin name c = map (\<lambda>(s, w). (s, if handed_over s then OWNER_ROLE else w))
     (if name \<in> set (cl_databases c) then cl_schemas c name else [(''public'', admin)])"

definition taken_tables :: "string \<Rightarrow> cluster \<Rightarrow> (string \<times> table_def \<times> string) list" where
  "taken_tables name c = map (\<lambda>(s, t, w). (s, t, if handed_over s then OWNER_ROLE else w))
     (if name \<in> set (cl_databases c) then cl_tables c name else [])"

lemma roles_distinct: "OWNER_ROLE \<noteq> PUBLIC" "OWNER_ROLE \<noteq> OPS_RO"
  by (simp_all add: OWNER_ROLE_def PUBLIC_def OPS_RO_def)

lemma create_fields [simp]:
  "cl_databases (create_database admin name c) = add_role name (cl_databases c)"
  "cl_dbOwner (create_database admin name c) =
     (if name \<in> set (cl_databases c) then cl_dbOwner c else (cl_dbOwner c)(name := admin))"
  "cl_dbAccess (create_database admin name c) =
     (if name \<in> set (cl_databases c) then cl_dbAccess c else (\<lambda>r d. if d = name then r = PUBLIC else cl_dbAccess c r d))"
  "cl_roles (create_database admin name c) = cl_roles c"
  "cl_login (create_database admin name c) = cl_login c"
  "cl_schemas (create_database admin name c) =
     (if name \<in> set (cl_databases c) then cl_schemas c else (cl_schemas c)(name := [(''public'', admin)]))"
  "cl_tables (create_database admin name c) =
     (if name \<in> set (cl_databases c) then cl_tables c else (cl_tables c)(name := []))"
  "cl_acl (create_database admin name c) = cl_acl c"
  "cl_rows (create_database admin name c) = cl_rows c"
  by (simp_all add: create_database_def add_role_def)

lemma role_fields [simp]:
  "ensure_role r pw n c = c\<lparr> cl_roles := add_role r (cl_roles c), cl_login := (cl_login c)(r \<mapsto> (pw, n)) \<rparr>"
  by (simp add: ensure_role_def add_role_def)

lemma separated_fields:
  "cl_databases (separated env admin c) = add_role (portal_db_name env) (cl_databases c)"
  "cl_dbOwner (separated env admin c) = (cl_dbOwner c)(portal_db_name env := OWNER_ROLE)"
  "cl_dbAccess (separated env admin c) = (\<lambda>r d.
     r \<noteq> PUBLIC \<and> d = portal_db_name env \<and> r = OWNER_ROLE
     \<or> d = portal_db_name env \<and> r \<noteq> PUBLIC \<and> d \<in> set (cl_databases c) \<and> cl_dbAccess c r d
     \<or> d \<noteq> portal_db_name env \<and> cl_dbAccess c r d)"
  "cl_roles (separated env admin c) = add_role OWNER_ROLE (cl_roles c)"
  "cl_login (separated env admin c) = (cl_login c)(OWNER_ROLE \<mapsto> (env_text env ''PORTAL_OWNER_PASSWORD'', 10))"
  "cl_schemas (separated env admin c) =
     (cl_schemas c)(portal_db_name env := taken_schemas admin (portal_db_name env) c)"
  "cl_tables (separated env admin c) = (cl_tables c)(portal_db_name env := taken_tables (portal_db_name env) c)"
  "cl_acl (separated env admin c) = cl_acl c" "cl_rows (separated env admin c) = cl_rows c"
  by (simp_all add: separated_def Let_def hand_over_def own_database_def taken_schemas_def taken_tables_def)
    (auto simp: fun_eq_iff roles_distinct)

lemma provisioned_fields:
  "cl_databases (provisioned env admin integration c) = cl_databases (separated env admin c)"
  "cl_dbOwner (provisioned env admin integration c) = cl_dbOwner (separated env admin c)"
  "cl_dbAccess (provisioned env admin integration c) = (\<lambda>r d.
     d = integration \<and> r = OPS_RO \<or> cl_dbAccess (separated env admin c) r d)"
  "cl_roles (provisioned env admin integration c) = add_role OPS_RO (cl_roles (separated env admin c))"
  "cl_login (provisioned env admin integration c) =
     (cl_login (separated env admin c))(OPS_RO \<mapsto> (env_text env ''OPS_RO_PASSWORD'', 5))"
  "cl_schemas (provisioned env admin integration c) = cl_schemas (separated env admin c)"
  "cl_tables (provisioned env admin integration c) = cl_tables (separated env admin c)"
  "cl_acl (provisioned env admin integration c) = ro_acl (public_tables c integration) (cl_acl c)"
  "cl_rows (provisioned env admin integration c) = cl_rows c"
  by (auto simp: provisioned_def Let_def separated_fields(9) fun_eq_iff)

lemma taken_again:
  "portal_db_name env \<in> set (cl_databases d) \<Longrightarrow> cl_schemas d (portal_db_name env) = taken_schemas admin (portal_db_name env) c
     \<Longrightarrow> taken_schemas admin (portal_db_name env) d = taken_schemas admin (portal_db_name env) c"
  "portal_db_name env \<in> set (cl_databases d) \<Longrightarrow> cl_tables d (portal_db_name env) = taken_tables (portal_db_name env) c
     \<Longrightarrow> taken_tables (portal_db_name env) d = taken_tables (portal_db_name env) c"
  by (simp_all add: taken_schemas_def taken_tables_def split_beta)

lemma add_role_mem: "r \<in> set (add_role r rs)" "add_role r (add_role r rs) = add_role r rs" "x \<in> set rs \<Longrightarrow> x \<in> set (add_role r rs)"
  by (simp_all add: add_role_def)

lemma provisioned_tables:
  "db \<in> set (cl_databases c) \<Longrightarrow> public_tables (provisioned env admin integration c) db = public_tables c db"
  using separated_tables [of db c env admin] by (simp add: public_tables_def provisioned_fields)

lemma provisioned_again:
  assumes "integration \<in> set (cl_databases c)"
  shows "provisioned env admin integration (provisioned env admin integration c) = provisioned env admin integration c"
proof (rule cluster.equality)
  let ?c = "provisioned env admin integration c"
  have portal: "portal_db_name env \<in> set (cl_databases ?c)" by (simp add: provisioned_fields separated_fields add_role_mem)
  show "cl_schemas (provisioned env admin integration ?c) = cl_schemas ?c"
    using taken_again(1) [OF portal] by (simp add: provisioned_fields(6) separated_fields(6))
  show "cl_tables (provisioned env admin integration ?c) = cl_tables ?c"
    using taken_again(2) [OF portal] by (simp add: provisioned_fields(7) separated_fields(7))
  show "cl_dbAccess (provisioned env admin integration ?c) = cl_dbAccess ?c"
    by (auto simp: provisioned_fields(1,3) separated_fields(1,3) add_role_def fun_eq_iff)
  show "cl_roles (provisioned env admin integration ?c) = cl_roles ?c"
    by (simp add: provisioned_fields(4) separated_fields(4) add_role_def)
  show "cl_acl (provisioned env admin integration ?c) = cl_acl ?c"
    by (simp add: provisioned_fields(8) provisioned_tables [OF assms] ro_acl_again)
qed (auto simp: provisioned_fields(1,2,5,9) separated_fields(1,2,5) add_role_mem fun_eq_iff)

lemma provisioned_well_formed:
  assumes "portal_db_name env \<in> set (cl_databases c) \<longrightarrow> well_formed_db (portal_db_name env) c"
  shows "well_formed_db (portal_db_name env) (provisioned env admin integration c)"
  using assms by (force simp: well_formed_db_def has_schema_def provisioned_fields separated_fields taken_schemas_def
      taken_tables_def list_all_iff split_beta image_iff)

end
