(* ===== verification/SchemaProperties.thy ===== *)
theory SchemaProperties
  imports ReleaseCycle SchemaChecks Sample Provisioning
begin

text \<open>
  Properties of the integration schema: what its foreign keys take along when a store is deleted, which rate cards schema and
  engine accept, the cycle a release runs before it meets a merchant, and what the operator portal may
  read.
\<close>

section \<open>Deleting a store\<close>

text \<open>The databases inserts, deletions and truncations lead to.\<close>

inductive reached :: "table_def list \<Rightarrow> sql_db \<Rightarrow> bool" for s where
  created: "reached s (\<lambda>t. [])"
| inserted: "reached s db \<Longrightarrow> insert_row s now t given db = Inr db' \<Longrightarrow> reached s db'"
| deleted: "reached s db \<Longrightarrow> reached s (delete_rows s t P db)"
| truncated: "reached s db \<Longrightarrow> reached s (truncate_tables (cascade_tables s ts) db)"

lemma reached_consistent: "reached s db \<Longrightarrow> schema_sound s \<Longrightarrow> consistent s db"
proof (induction rule: reached.induct)
  case created
  show ?case by (rule empty_consistent)
next
  case (inserted db now t given db')
  show ?case by (rule insert_keeps_consistent [OF inserted.prems inserted.IH [OF inserted.prems] inserted.hyps(2)])
next
  case (deleted db t P)
  show ?case by (rule delete_keeps_consistent [OF deleted.prems deleted.IH [OF deleted.prems]])
next
  case (truncated db ts)
  show ?case by (rule truncate_cascade_consistent [OF truncated.prems truncated.IH [OF truncated.prems]])
qed

lemma insert_rows_reached: "reached s db \<Longrightarrow> insert_rows s now rows db = Inr db' \<Longrightarrow> reached s db'"
  by (induction s now rows db rule: insert_rows.induct) (auto split: sum.splits intro: inserted)

lemma run_inserts_reached: "reached s db \<Longrightarrow> reached s (snd (run_inserts s now statements db))"
  by (induction s now statements db rule: run_inserts.induct) (auto split: sum.split dest: insert_rows_reached)

text \<open>
  C14. The foreign keys of the schema take along all that belongs to a store and nothing else: on every
  database that insertions, deletions and truncations lead to, a \<open>DELETE\<close> of the row of a store leaves in
  each table, in order and unchanged but for noted references set to NULL, exactly the rows that do not
  belong to it: that are not it, do not name it, and are part of nothing of it (items, payments, discounts,
  parcels, reversals and results of its orders, their lines, the rules of its rate cards); and all
  constraints hold before and after. No command of the repository deletes a store; this is what the
  declared references would do.
\<close>

theorem erasure_is_complete:
  assumes "reached integration_schema db" and "d \<in> set integration_schema"
    and "after = delete_rows integration_schema ''stores'' (\<lambda>r. cell r ''id'' = V_text k) db"
  shows "consistent integration_schema db \<and> consistent integration_schema after
    \<and> list_all2 (agree d) (after (tab_name d)) (filter (\<lambda>r. \<not> belongs k db (tab_name d) r) (db (tab_name d)))"
proof -
  have db: "consistent integration_schema db"
    using reached_consistent [OF assms(1) integration_schema_sound] .
  have "(\<lambda>r. cell r ''id'' = V_text k) = is_store k" by (simp add: fun_eq_iff is_store_def)
  then show ?thesis
    using db delete_keeps_consistent [OF integration_schema_sound db] deletion_takes_belongings [OF db assms(2)] assms(3)
    by simp
qed

lemma demo_reached: "reached integration_schema (demo_db now (\<lambda>t. []))"
  using run_inserts_reached [OF created, of integration_schema now seed_statements] seed_from_empty [of "\<lambda>t. []" now]
  by (simp add: seedDemoStore_def)

lemma demo_payments:
  "demo_db 0 (\<lambda>t. []) ''order_payments'' = map (complete_row 0 orderPayments_table) seed_orderPayments"
  "demo_db 0 (\<lambda>t. []) ''orders'' = map (complete_row 0 orders_table) seed_orders"
  by (simp_all add: demo_db_def seed_names)

lemma demo_payments_of_orders:
  "map (complete_row 0 orderPayments_table) seed_orderPayments \<noteq> []
   \<and> list_all (\<lambda>r. cell r ''order_id'' \<noteq> V_null \<and> list_ex (\<lambda>q. cell r ''order_id'' = cell q ''id'' \<and> cell q ''store_id'' = V_text ''demo:1'')
        (map (complete_row 0 orders_table) seed_orders)) (map (complete_row 0 orderPayments_table) seed_orderPayments)"
  by code_simp

lemma demo_payments_belong:
  "list_all (\<lambda>r. belongs ''demo:1'' (demo_db 0 (\<lambda>t. [])) ''order_payments'' r) (demo_db 0 (\<lambda>t. []) ''order_payments'')"
proof -
  let ?db = "demo_db 0 (\<lambda>t. [])"
  have p: "(''order_payments'', ''order_id'', ''orders'', ''id'') \<in> set parts" by (simp add: parts_def)
  have "belongs ''demo:1'' ?db ''order_payments'' r" if r: "r \<in> set (?db ''order_payments'')" for r
  proof -
    obtain q where q: "q \<in> set (?db ''orders'')" "cell r ''order_id'' = cell q ''id''" "cell q ''store_id'' = V_text ''demo:1''"
      and null: "cell r ''order_id'' \<noteq> V_null"
      using demo_payments_of_orders r unfolding demo_payments list_all_iff list_ex_iff by blast
    have order: "belongs ''demo:1'' ?db ''orders'' q" using q(1,3) by (rule belongs.naming)
    show ?thesis by (rule belongs.part [where t = "''order_payments''" and db = ?db, OF p r order q(2) null])
  qed
  then show ?thesis by (simp add: list_all_iff)
qed

theorem erasure_is_complete_witness:
  "demo_db 0 (\<lambda>t. []) ''order_payments'' \<noteq> []
    \<and> delete_rows integration_schema ''stores'' (\<lambda>r. cell r ''id'' = V_text ''demo:1'') (demo_db 0 (\<lambda>t. [])) ''order_payments'' = []"
proof -
  have d: "orderPayments_table \<in> set integration_schema" "tab_name orderPayments_table = ''order_payments''"
    by (simp_all add: integration_schema_def orderPayments_table_def)
  have none: "filter (\<lambda>r. \<not> belongs ''demo:1'' (demo_db 0 (\<lambda>t. [])) ''order_payments'' r) (demo_db 0 (\<lambda>t. []) ''order_payments'') = []"
    using demo_payments_belong unfolding filter_empty_conv list_all_iff by blast
  have "demo_db 0 (\<lambda>t. []) ''order_payments'' \<noteq> []"
    using demo_payments_of_orders unfolding demo_payments by blast
  then show ?thesis
    using erasure_is_complete [OF demo_reached d(1) refl, of 0 "''demo:1''", unfolded d(2) none] by simp
qed

section \<open>Rate cards\<close>

text \<open>Numbers as the columns give them, percentages an integer column holds, and an identifier for every rule.\<close>

definition storable_card :: "string list \<Rightarrow> string list \<Rightarrow> string list \<Rightarrow> js_number fee_rule_set \<Rightarrow> bool" where
  "storable_card gi ci si frs \<longleftrightarrow>
     (\<forall>r \<in> set (frs_gateway frs). formula_whole r \<and> js_int (fee_percentBps r) < 2 ^ 31)
     \<and> (\<forall>r \<in> set (frs_cod frs). formula_whole r \<and> js_int (fee_percentBps r) < 2 ^ 31)
     \<and> (\<forall>r \<in> set (frs_shippingFallback frs). whole (sf_costMinor r))
     \<and> identified gi (frs_gateway frs) \<and> identified ci (frs_cod frs) \<and> identified si (frs_shippingFallback frs)"

text \<open>Amounts in the engine's range, floors and caps not below zero.\<close>

definition card_in_engine :: "js_number fee_rule_set \<Rightarrow> bool" where
  "card_in_engine frs \<longleftrightarrow> (\<forall>r \<in> set (frs_gateway frs). formula_in_engine r) \<and> (\<forall>r \<in> set (frs_cod frs). formula_in_engine r)
     \<and> (\<forall>r \<in> set (frs_shippingFallback frs). js_int (sf_costMinor r) \<le> MAX_MINOR)"


definition two_providers :: "js_number fee_rule_set" where
  "two_providers = sample_rules\<lparr> frs_gateway := [mada_rule, mada_rule\<lparr> gw_provider := Some [] \<rparr>] \<rparr>"

lemma two_providers_collide:
  "\<not> distinct (map (\<lambda>r. (gw_instrument r, gw_scheme r, or_empty (gw_provider r))) (frs_gateway two_providers))"
  "storable_card [''g1'', ''g2''] [] [] two_providers" "storable_card [''g1''] [] [] sample_rules"
  by (simp_all add: two_providers_def storable_card_def sample_rules_def mada_rule_def formula_whole_def whole_def
      identified_def or_empty_def)


section \<open>The release cycle\<close>

text \<open>
  C18. The clear script changes nothing unless a database is named, destruction is confirmed and the
  environment is not production. Where it runs, on a migrated database with whatever content, the seed
  after it ends without an error and with all constraints met, and the engine computes from the
  seeded rows exactly the margins and the confidence the release expects; seeding a second time stops
  at the store that is there and changes nothing.
\<close>

theorem release_cycle:
  assumes "migrated catalogue"
  shows "if may_clear env
    then let db1 = snd (clear_script env catalogue db); db2 = snd (seed_script env now db1)
         in \<not> isl (fst (clear_script env catalogue db)) \<and> fst (seed_script env now db1) = None
            \<and> consistent integration_schema db2 \<and> meets_expectations riyadh_clock db2
            \<and> seed_script env later db2 = (Some (Statement_failed (Unique_violation [''id''])), db2)
    else isl (fst (clear_script env catalogue db)) \<and> snd (clear_script env catalogue db) = db"
proof (cases "may_clear env")
  case False
  then show ?thesis
    using clear_guarded(1) [of env catalogue db] clear_guarded(2) [OF False] by (metis snd_conv)
next
  case True
  define db1 where "db1 = snd (clearAll catalogue db)"
  have cleared: "clear_script env catalogue db = (Inr (listTables catalogue), db1)"
    using clear_guarded(1) [of env catalogue db] True by (simp add: db1_def)
  have seeded: "seedDemoStore now db1 = (None, demo_db now db1)"
    unfolding db1_def by (rule seed_from_empty) (rule cleared_empty [OF assms])
  have url: "database_url env \<noteq> None" using True by (simp add: may_clear_def)
  have "consistent integration_schema (demo_db now db1)"
    using run_inserts_keeps_consistent [OF integration_schema_sound cleared_consistent [OF assms]] seeded
    unfolding seedDemoStore_def db1_def by (metis snd_conv)
  then show ?thesis
    using True url by (simp add: cleared seed_script_def seeded Let_def reseed_refused seed_meets_expectations)
qed

definition staging :: env where
  "staging name = (if name = ''DATABASE_URL'' then Some ''postgres://db/ghalla''
     else if name = ''GHALLA_ALLOW_DESTRUCTIVE'' then Some ''1''
     else if name = ''NODE_ENV'' then Some ''staging'' else None)"

definition schema_catalogue :: "(string \<times> string) list" where
  "schema_catalogue = (''drizzle'', ''__drizzle_migrations'') # map (\<lambda>d. (''public'', tab_name d)) integration_schema"

theorem release_cycle_witness:
  "meets_expectations riyadh_clock (snd (seed_script staging 0 (snd (clear_script staging schema_catalogue (\<lambda>t. [])))))"
proof -
  have "migrated schema_catalogue" by (auto simp: migrated_def schema_catalogue_def list_all_iff)
  moreover have "may_clear staging" by (simp add: may_clear_def staging_def database_url_def to_lower_def)
  ultimately show ?thesis using release_cycle [of schema_catalogue staging "\<lambda>t. []" 0] by (simp add: Let_def)
qed

section \<open>The portal's role\<close>

text \<open>Columns about customers, raw payloads, costs and tables the portal has no business with.\<close>

definition withheld :: "(string \<times> string) list" where
  "withheld = [(''orders'', ''customer_ref''), (''orders'', ''destination_country_code''), (''orders'', ''destination_region''),
     (''orders'', ''destination_city''), (''orders'', ''attribution_device''), (''orders'', ''attribution_referrer_host''),
     (''orders'', ''total_inc_vat_minor''), (''order_payments'', ''amount_gross_minor''), (''order_payments'', ''transaction_ref''),
     (''webhook_events'', ''raw_payload''), (''backfill_cursors'', ''cursor''), (''cost_history'', ''unit_cost_minor''),
     (''cost_history'', ''sku'')]
     @ concat (map (\<lambda>d. map (\<lambda>c. (tab_name d, col_name c)) (tab_columns d))
         [platformCredentials_table, orderItems_table, shipments_table, reversals_table, gatewayFeeRules_table])"


section \<open>Provisioning\<close>

text \<open>
  C17. With its variables set, on a cluster with the databases \<open>postgres\<close> and the integration's, and a
  portal database other than the integration's, well formed where it exists, the provisioning script
  gives the portal a database of its own: it and everything in its two schemas belong to the portal's
  own role, and the public cannot connect to it; owner, schemas, tables and rows of the integration are
  untouched. Where the integration's database has the tables and columns the read-only file names, as
  every migrated one has, the script succeeds, the read-only role may read the listed columns of
  its tables and do nothing else, and running the script again changes nothing. Where one of them is
  missing, the file's transaction is rolled back: the script fails, and neither privileges nor the
  read-only role's login or access change.
\<close>

theorem provisioning_separates:
  assumes "provisionable env" and "portal_db_name env \<noteq> integration"
    and "portal_db_name env \<in> set (cl_databases c) \<longrightarrow> well_formed_db (portal_db_name env) c"
    and "''postgres'' \<in> set (cl_databases c)" and "integration \<in> set (cl_databases c)"
  shows "case provision env admin integration now c of (e, c') \<Rightarrow>
    portal_db_name env \<in> set (cl_databases c') \<and> cl_dbOwner c' (portal_db_name env) = OWNER_ROLE
    \<and> \<not> cl_dbAccess c' PUBLIC (portal_db_name env)
    \<and> list_all (\<lambda>(s, t, w). handed_over s \<longrightarrow> w = OWNER_ROLE) (cl_tables c' (portal_db_name env))
    \<and> cl_dbOwner c' integration = cl_dbOwner c integration \<and> cl_schemas c' integration = cl_schemas c integration
    \<and> cl_tables c' integration = cl_tables c integration \<and> cl_rows c' = cl_rows c
    \<and> (if list_all (\<lambda>(t, columns). case find_table (public_tables c integration) t of
             None \<Rightarrow> False | Some d \<Rightarrow> set columns \<subseteq> set (map col_name (tab_columns d))) needed
       then e = None
         \<and> list_all (\<lambda>d. \<forall>x p. has_column_privilege (cl_acl c') OPS_RO (tab_name d) x p = (p = P_select \<and> readable (tab_name d) x))
             (public_tables c integration)
         \<and> provision env admin integration later c' = (None, c')
       else e = Some Query_failed \<and> cl_acl c' = cl_acl c \<and> cl_login c' OPS_RO = cl_login c OPS_RO
         \<and> cl_dbAccess c' OPS_RO integration = cl_dbAccess c OPS_RO integration
         \<and> (OPS_RO \<in> set (cl_roles c') \<longleftrightarrow> OPS_RO \<in> set (cl_roles c)))"
proof -
  let ?s = "separated env admin c" and ?c = "provisioned env admin integration c" and ?t = "public_tables c integration"
  note ends = provision_ends [OF assms(1,3-5), of admin now]
  have grants: "grantable ?t \<longleftrightarrow> list_all (\<lambda>(t, columns). case find_table ?t t of
      None \<Rightarrow> False | Some d \<Rightarrow> set columns \<subseteq> set (map col_name (tab_columns d))) needed"
    by (simp add: grantable_def has_columns_def)
  have again: "provision env admin integration later ?c = (None, ?c)" if "grantable ?t"
    using provision_ends [OF assms(1), of ?c integration admin later] provisioned_well_formed [OF assms(3)] that assms(4,5)
      provisioned_again [OF assms(5)] provisioned_tables [OF assms(5)]
    by (simp add: provisioned_fields(1) separated_acl)
  have owned: "list_all (\<lambda>(s, t, w). handed_over s \<longrightarrow> w = OWNER_ROLE) (cl_tables ?s (portal_db_name env))"
    by (auto simp: separated_fields(7) taken_tables_def list_all_iff)
  have privileges: "list_all (\<lambda>d. \<forall>x p. has_column_privilege (cl_acl ?c) OPS_RO (tab_name d) x p = (p = P_select \<and> readable (tab_name d) x)) ?t"
    using ro_acl_columns [of _ ?t "cl_acl c"] by (simp add: provisioned_fields(8) list_all_iff)
  have "OPS_RO \<noteq> OWNER_ROLE" using roles_distinct by metis
  then show ?thesis
    using assms(2) again owned privileges roles_distinct
    by (auto simp: ends grants [symmetric] provisioned_fields separated_fields add_role_mem add_role_def split: if_splits)
qed

definition deploy_env :: env where
  "deploy_env name = (if name = ''ADMIN_DATABASE_URL'' then Some ''postgres://postgres@db/railway''
     else if name = ''OPS_RO_PASSWORD'' then Some ''0123456789abcdef01234567''
     else if name = ''PORTAL_OWNER_PASSWORD'' then Some ''abcdef0123456789abcdef01'' else None)"

definition fresh_cluster :: "table_def list \<Rightarrow> cluster" where
  "fresh_cluster tables = \<lparr> cl_databases = [''postgres'', ''railway''], cl_dbOwner = (\<lambda>d. ''postgres''),
     cl_dbAccess = (\<lambda>r d. r = PUBLIC), cl_roles = [''postgres''], cl_login = (\<lambda>r. None),
     cl_schemas = (\<lambda>d. [(''public'', ''postgres'')]),
     cl_tables = (\<lambda>d. if d = ''railway'' then map (\<lambda>t. (''public'', t, ''postgres'')) tables else []),
     cl_acl = (\<lambda>r t c p. False), cl_rows = (\<lambda>t. []) \<rparr>"

lemma fresh_tables: "public_tables (fresh_cluster tables) ''railway'' = tables"
  by (induction tables) (simp_all add: public_tables_def fresh_cluster_def)

lemma fresh_needed:
  "list_all (\<lambda>(t, columns). case find_table integration_schema t of
      None \<Rightarrow> False | Some d \<Rightarrow> set columns \<subseteq> set (map col_name (tab_columns d))) needed"
  "\<not> list_all (\<lambda>(t, columns). case find_table [orders_table] t of
      None \<Rightarrow> False | Some d \<Rightarrow> set columns \<subseteq> set (map col_name (tab_columns d))) needed"
  by code_simp+

theorem provisioning_separates_witness:
  "fst (provision deploy_env ''postgres'' ''railway'' 0 (fresh_cluster integration_schema)) = None
    \<and> fst (provision deploy_env ''postgres'' ''railway'' 0 (fresh_cluster [orders_table])) = Some Query_failed"
proof -
  have env: "provisionable deploy_env" by code_simp
  have name: "portal_db_name deploy_env \<noteq> ''railway''" "portal_db_name deploy_env \<noteq> ''postgres''" by code_simp+
  have dbs: "portal_db_name deploy_env \<notin> set (cl_databases (fresh_cluster ts))" "''postgres'' \<in> set (cl_databases (fresh_cluster ts))"
    "''railway'' \<in> set (cl_databases (fresh_cluster ts))" for ts
    using name by (simp_all add: fresh_cluster_def)
  note run = provisioning_separates [OF env name(1) _ dbs(2,3), of _ "''postgres''" 0 0, unfolded fresh_tables]
  show ?thesis
    using run [of integration_schema] run [of "[orders_table]"] dbs(1) fresh_needed by (auto split: prod.splits)
qed

end
