(* ===== verification/Divergences.thy ===== *)
theory Divergences
  imports ProfitBounds Sample EngineProperties BillingProperties
begin

text \<open>
  Concrete inputs on which the code does not do what its own comments say. Each lemma evaluates the
  model; the header of the root theory lists them.
\<close>

section \<open>Rate cards\<close>

text \<open>
  \<open>schemeCandidates\<close> compares only the most specific rules. A merchant with a row for mada and a
  blended row for every other card has the unknown network priced by the cheap mada row, although a
  visa would have been priced by the dear one: the dearest plausible rule is not taken.
\<close>

definition mada_and_blended :: "int gateway_fee_rule list" where
  "mada_and_blended = [int_gateway_rule mada_rule,
     int_gateway_rule (mada_rule\<lparr> gw_scheme := None, fee_percentBps := JInt 275 \<rparr>)]"

lemma unknown_scheme_underpriced:
  "leg_rule mada_and_blended True unknown_card = Inr (Some (hd mada_and_blended))"
  "leg_rule mada_and_blended True (unknown_card\<lparr> pay_scheme := Some CS_visa \<rparr>) = Inr (Some (hd (tl mada_and_blended)))"
  "applyFeeFormula 10000 (hd mada_and_blended) True = Inr \<lparr> fee_exVatMinor = 200, fee_vatMinor = 30, fee_costMinor = 200 \<rparr>"
  "applyFeeFormula 10000 (hd (tl mada_and_blended)) True = Inr \<lparr> fee_exVatMinor = 375, fee_vatMinor = 56, fee_costMinor = 375 \<rparr>"
  by code_simp+

section \<open>Restocking\<close>

definition cost_of_100 :: "string \<Rightarrow> line_cogs" where
  "cost_of_100 i = \<lparr> lcogs_orderItemId = i, lcogs_unitCostMinor = 100, lcogs_cogsMinor = 100,
     lcogs_source = CO_merchant_manual, lcogs_costHistoryId = None, lcogs_covered = True \<rparr>"

text \<open>
  The first round of the capped spread still contains lines that are already full. When they take
  every share, nothing is absorbed, the loop stops, and the credit is lost although another line has
  room for all of it; the comment says this happens only when every share rounded to zero.
\<close>

lemma restock_credit_lost:
  "case spreadCappedByCogs [\<lparr> bucket_key = ''a'', bucket_weight = 9900 \<rparr>, \<lparr> bucket_key = ''b'', bucket_weight = 100 \<rparr>]
       50 (Map.empty(''a'' \<mapsto> 100)) (cogs_map [cost_of_100 ''a'', cost_of_100 ''b'']) of
     Inl _ \<Rightarrow> False | Inr m \<Rightarrow> tally m ''a'' = 100 \<and> tally m ''b'' = 0"
  "costOf (cogs_map [cost_of_100 ''a'', cost_of_100 ''b'']) ''b'' = 100"
  by code_simp+

text \<open>
  The validator refuses a negative rate but accepts a negative unit cost. The order below is
  computed with more restocked than shipped, against the documented invariant.
\<close>

definition negative_cost_input :: order_profit_input where
  "negative_cost_input = sample_input\<lparr> in_costs := Some [sample_cost ''a'' (- 2000), sample_cost ''b'' 3000] \<rparr>"

lemma restocked_exceeds_shipped:
  "case computeOrderProfit riyadh (Some negative_cost_input) of
     Computed c \<Rightarrow> opt_restockedCogsMinor (opc_totals c) > opt_cogsMinor (opc_totals c) | Rejected _ \<Rightarrow> False"
  by code_simp

section \<open>Refunds\<close>

text \<open>
  A reversal whose lines add up to more than its own amount is booked at the sum of the lines, while
  the comment calls the reversal's own amount the figure that ties to the cash.
\<close>

definition overclaimed_refund :: "int canonical_reversal" where
  "overclaimed_refund = int_reversal (sample_reversal\<lparr> rev_amountExVatMinor := 3000 \<rparr>)"

lemma overclaimed_refund_booked:
  "case computeReversalImpact [overclaimed_refund] two_revenue_lines two_cost_lines ordered_quantities
       line_weights Recognized [] True of
     Inl _ \<Rightarrow> False | Inr r \<Rightarrow> ri_reversedRevenueExVatMinor (fst r) = 5000 \<and> rev_amountExVatMinor overclaimed_refund = 3000"
  by code_simp

text \<open>
  An order whose items are missing keeps its other order-level amounts in the totals, but a refund
  of it disappears: there is no line to spread it on.
\<close>

definition itemless_input :: order_profit_input where
  "itemless_input = sample_input\<lparr> in_items := Some [] \<rparr>"

lemma itemless_refund_dropped:
  "case computeOrderProfit riyadh (Some itemless_input) of
     Computed c \<Rightarrow> opt_reversedRevenueExVatMinor (opc_totals c) = 0
       \<and> opt_shippingRevenueExVatMinor (opc_totals c) = 2000 \<and> opt_outboundShippingCostMinor (opc_totals c) = 1800
   | Rejected _ \<Rightarrow> False"
  by code_simp

section \<open>Subscriptions\<close>

text \<open>
  A notice that does not mention the plan, such as a failed payment, deletes a pending downgrade,
  although a field the event does not mention is documented not to be cleared: the merchant keeps
  the higher plan after the period ends.
\<close>

definition past_due_notice :: "string \<Rightarrow> subscription_change" where
  "past_due_notice t = (starter_change t)\<lparr> chg_status := ST_past_due, chg_planCode := None \<rparr>"

lemma silent_notice_cancels_downgrade:
  "effectivePlanCode (receive growth_row (starter_change ''2025-03-09T00:00:00.000Z'')) ''2025-04-01T00:00:00.000Z'' = ''starter''"
  "effectivePlanCode (receive (receive growth_row (starter_change ''2025-03-09T00:00:00.000Z''))
     (past_due_notice ''2025-03-10T00:00:00.000Z'')) ''2025-04-01T00:00:00.000Z'' = ''growth''"
  by code_simp+

text \<open>
  The nightly pull keeps a pending downgrade even when the period it waited for is over: the plan
  the platform reports today is written to the row and stays masked by the old pending one.
\<close>

lemma reconciled_plan_masked:
  "case reconcile (receive growth_row (starter_change ''2025-03-09T00:00:00.000Z''))
       ((starter_change ''2025-04-05T00:00:00.000Z'')\<lparr> chg_planCode := Some ''scale'' \<rparr>) ''2025-04-05T00:00:00.000Z'' of
     Corrected t \<Rightarrow> sub_planCode t = ''scale'' \<and> effectivePlanCode t ''2025-04-06T00:00:00.000Z'' = ''starter''
   | Unchanged \<Rightarrow> False"
  by code_simp

end
