(* ===== verification/StorageDivergences.thy ===== *)
theory StorageDivergences
  imports StorageProperties ServiceProperties SchemaChecks Sample
begin

text \<open>
  Behaviour of the stored side that the comments beside it deny: the webhook queue, the saved
  results and the subscription services.
  The other chapters are about rate cards, requests and deploys.
\<close>

section \<open>The webhook queue\<close>

text \<open>
  The comment on the default policy says eight attempts span a little over two hours; the seven waits
  between them add up to twenty-one minutes and ten seconds.
\<close>

lemma retry_span: "sum_list (map (\<lambda>n. backoffMs n DEFAULT_RETRY_POLICY) [1, 2, 3, 4, 5, 6, 7]) = 1270000"
  by code_simp

text \<open>
  The reaper selects stale rows first and updates them by identifier afterwards. A worker that was
  slow, not dead, and finishes in between has its processed event put back in the queue.
\<close>

definition slow_row :: "unit webhook_event" where
  "slow_row = take_row 0 (new_row (sample_event ''a'' ''k1'' ''2025-03-01T10:00:05.000Z'') 0)"

lemma processed_event_requeued:
  "map we_status (markProcessed ''a'' 400000 [slow_row]) = [WS_processed]"
  "map we_status (reap_write DEFAULT_RETRY_POLICY 400000 (stale_read 300000 400000 [slow_row])
     (markProcessed ''a'' 400000 [slow_row])) = [WS_pending]"
  by code_simp+

text \<open>
  \<open>markFailed\<close> reads the attempts and writes the state in two statements. With a claim in between, an
  event whose attempts are used up goes back to waiting and is attempted once more.
\<close>

lemma stale_failure_exceeds_policy:
  "map (\<lambda>r. (we_status r, we_attempts r)) (snd (failed_write DEFAULT_RETRY_POLICY ''a'' ''late report'' 500000
     7 [slow_row\<lparr> we_attempts := 8 \<rparr>])) = [(WS_pending, 8)]"
  "claimable {} 2000000 (hd (snd (failed_write DEFAULT_RETRY_POLICY ''a'' ''late report'' 500000
     7 [slow_row\<lparr> we_attempts := 8 \<rparr>])))"
  by code_simp+

section \<open>Saved results\<close>

text \<open>
  The roll-up per variant is keyed by a joined string. A product whose identifier contains the
  separator shares its key with another product, and only one of the two buckets is marked.
\<close>

lemma joined_variant_keys_collide:
  "variant_keys [l\<lparr> pl_platformProductId := ''a|b'', pl_platformVariantId := None \<rparr>,
     l\<lparr> pl_platformProductId := ''a'', pl_platformVariantId := Some ''b|'' \<rparr>] = [(''a'', ''b|'')]"
  by (simp add: variant_keys_def or_empty_def Let_def)

text \<open>
  Only the buckets of the new result are marked. After a rejection no bucket of a variant is, so the
  units and margins of the order stay in the roll-ups of its products.
\<close>

lemma rejection_leaves_variant_buckets:
  assumes "save ck (Rejected r) db = Inr db'"
  shows "pd_variantRollups db' = pd_variantRollups db" and "lines_of (opr_orderId r) db' = []"
  using save_rejected_Inr(2,6) [of ck r db db'] assms by (simp_all add: lines_of_def)

text \<open>
  The ratio of a large loss to a revenue of one minor unit does not fit the 32-bit column, so a result
  the engine computes cannot be saved.
\<close>

lemma margin_ratio_overflows: "marginBpsOf (- 300000) 1 = Inr (Some (- 3000000000)) \<and> \<not> fits_int4 (- 3000000000)"
  by code_simp

text \<open>
  A rejected result of an input without order or store has empty identifiers, which no row of the
  tables referred to has, so the rejection cannot be recorded.
\<close>

lemma anonymous_rejection_refused:
  assumes "opr_orderId r = []" and "[] \<notin> pd_orders db" and "row_with pr_orderId [] (pd_profits db) = None"
  shows "save ck (Rejected r) db \<noteq> Inr db'"
proof
  assume s: "save ck (Rejected r) db = Inr db'"
  show False
    using s assms
    by (auto simp: save_rejected_def bindE_eq_Inr upsert_profit_Inr Let_def profit_row_refs_def)
qed

section \<open>Subscriptions\<close>

text \<open>
  A request for a refresh clears the moment of the last check, and a refresh that fails does not set
  it: while the platform is down, every click starts another call, whatever the throttle says.
\<close>

lemma failed_refresh_lifts_throttle:
  assumes "find_subscription k (rf_rows st) = Inr (Some s)" and "fetch k = Inl err"
    and "st' = snd (finish_refresh (Some fetch) stores created now k
           (st\<lparr> rf_rows := markDueForReconciliation k (rf_rows st) \<rparr>))"
  shows "\<exists>st''. requestRefresh (Some fetch) now k st' = Inr (RQ_started, st'')"
proof -
  have "rf_rows st' = markDueForReconciliation k (rf_rows st)"
    using assms(2,3) by (simp add: finish_refresh_def performRefresh_def perform_refresh_steps_def Let_def)
  moreover have "find_subscription k (markDueForReconciliation k (rf_rows st)) = Inr (Some (s\<lparr> sub_lastReconciledAt := None \<rparr>))"
    using find_after_markDue [OF assms(1)] by simp
  ultimately show ?thesis by (simp add: requestRefresh_def Let_def)
qed

text \<open>
  The handler reads the row, decides and writes. Two events of one store handled at the same time both
  decide on the row they read, and when the older one writes last the newer one is lost.
\<close>

lemma concurrent_events_lose_newer:
  assumes "subscription_typed s" "pending_complete s" "period_ordered s" "sub_storeId s \<in> stores"
    and n: "event_typed newer" "whole_period (event_change newer)" "applyChange s (event_change newer) = Applied n"
    and o: "event_typed older" "whole_period (event_change older)" "applyChange s (event_change older) = Applied m"
    and "be_occurredAt older < be_occurredAt newer"
  shows "\<exists>t1 t2. handle_write stores created newer (HR_applied n, Some n) t = Inr (HR_applied n, t1)
    \<and> handle_write stores created older (HR_applied m, Some m) t1 = Inr (HR_applied m, t2)
    \<and> find_subscription (sub_storeId s) t2 = Inr (Some m) \<and> sub_lastEventAt m = Some (be_occurredAt older)"
proof -
  have a: "n = applied_row s (event_change newer)" "m = applied_row s (event_change older)"
    using n(3) o(3) by (auto simp: applyChange_def split: if_splits)
  have c: "change_typed (event_change newer)" "change_typed (event_change older)"
    "isInstant (be_receivedAt newer)" "isInstant (be_receivedAt older)"
    using n(1) o(1) by (simp_all add: event_typed_def)
  note fn = applied_row_sound [OF assms(1) c(1), folded a] and fm = applied_row_sound [OF assms(1) c(2), folded a]
  obtain t1 where t1: "save_subscription stores created n (be_receivedAt newer) t = Inr t1"
    using save_sound [OF fn(1,2) fn(4) [OF n(2) assms(3)] c(3), of stores created t] fn(3) assms(4) by auto
  obtain t2 where t2: "save_subscription stores created m (be_receivedAt older) t1 = Inr t2"
    and f: "find_subscription (sub_storeId m) t2 = Inr (Some m)"
    using save_sound [OF fm(1,2) fm(4) [OF o(2) assms(3)] c(4), of stores created t1] fm(3) assms(4) by auto
  show ?thesis using t1 t2 f fm(3) a by (simp add: handle_write_def event_change_def facts_change_def)
qed

chapter \<open>Rate cards\<close>

text \<open>
  Rate cards the constraints of the schema admit and the engine refuses, against the comment on the
  shared constraints in \<open>schema.ts\<close>.
\<close>

text \<open>A floor below zero: no CHECK speaks of the sign of a floor or a cap.\<close>

definition negative_floor :: "js_number fee_rule_set" where
  "negative_floor = sample_rules\<lparr> frs_gateway := [mada_rule\<lparr> fee_minFeeMinor := Some (JInt (- 500)) \<rparr>] \<rparr>"

lemma negative_floor_admitted:
  "card_admitted 0 [''g1''] [] [] negative_floor \<and> validateFeeRuleSet negative_floor = [onOrder FEE_RULE_INVALID]"
  by code_simp

text \<open>An amount the column holds and the engine's range does not.\<close>

definition large_fee :: "js_number fee_rule_set" where
  "large_fee = sample_rules\<lparr> frs_gateway := [mada_rule\<lparr> fee_fixedMinor := JInt 99999999999999 \<rparr>] \<rparr>"

lemma large_fee_admitted:
  "card_admitted 0 [''g1''] [] [] large_fee \<and> validateFeeRuleSet large_fee = [onOrder FEE_RULE_INVALID]"
  by code_simp

text \<open>NULL and the empty text are two keys of the schema and one of the engine.\<close>

definition empty_provider :: "js_number fee_rule_set" where
  "empty_provider = sample_rules\<lparr> frs_gateway := [mada_rule, mada_rule\<lparr> gw_provider := Some [] \<rparr>] \<rparr>"

lemma empty_provider_admitted:
  "card_admitted 0 [''g1'', ''g2''] [] [] empty_provider \<and> validateFeeRuleSet empty_provider = [onOrder DUPLICATE_RULE_KEY]"
  by code_simp

chapter \<open>Requests and deploys\<close>

text \<open>
  Where the guard and the migration check of \<open>apps/ghalla-salla\<close> do not do
  what their comments say, on concrete inputs.
\<close>

section \<open>Refusals\<close>

text \<open>
  The guard passes the notice where the refusal expects a status, so a cancelled merchant reads that
  the subscription "is subscription_canceled".
\<close>

lemma refusal_shows_a_code:
  "refusal_of (resolveEntitlements (growth_row\<lparr> sub_status := ST_canceled \<rparr>) ''2025-03-09T00:00:00.000Z'' False) (Some FT_core)
     = Some (Subscription_inactive \<lparr> si_status = ''subscription_canceled'',
         si_message = ''This store'' @ [CHR 0x27]
           @ ''s subscription is subscription_canceled. Data export remains available.'' \<rparr>)"
  by code_simp

text \<open>
  The refusal's body documents its plan as absent only if no plan includes the feature. The plan
  \<open>ads\<close> includes attribution, and the refusal still names none, because \<open>ads\<close> is not for sale.
\<close>

lemma refusal_names_no_plan:
  "list_ex (\<lambda>(code, p). code = ''ads'' \<and> FT_attribution \<in> set (plan_features p)) PLANS"
  "refusal_of (resolveEntitlements growth_row ''2025-03-09T00:00:00.000Z'' False) (Some FT_attribution)
     = Some (Entitlement_denied \<lparr> ed_feature = FT_attribution, ed_currentPlan = ''growth'', ed_requiredPlan = None,
         ed_message = ''attribution is not available on any current plan.'' \<rparr>)"
  by code_simp+

section \<open>The deploy gate\<close>

text \<open>
  A journal that cannot be read counts as no migrations. The check then does not say that it does not
  know: a migrated database is reported ahead of the build, and one whose table of migrations is empty
  is green.
\<close>

lemma unreadable_journal_is_compared:
  "mi_status (readMigrationState (Inr (DR_rows [Some 12])) Journal_unreadable) = MS_ahead"
  "fst (healthcheck (Inr ()) (Inr (DR_rows [Some 0])) Journal_unreadable after_one_check None None) = 200"
  by code_simp+

end
