(* ===== verification/PortalDivergences.thy ===== *)
theory PortalDivergences
  imports Presentation OpsActions Provisioning
begin

text \<open>
  Where the operator portal's login does not do what its comments say.
  The other chapters are about the reports and the provisioning of the portal's role.
\<close>

text \<open>
  \<open>guard.ts\<close> rebuilds a candidate from the parsed result so that the guard and the consumer cannot
  read it differently. The URL standard drops the single-dot segment of \<open>/.//host\<close> and leaves the
  path \<open>//host\<close> on the base origin. It is returned as it stands, and the next parse reads it as
  another origin.
\<close>

lemma safeNext_may_leave_site:
  assumes "url ''/.//evil.example'' = Some (RESOLUTION_BASE, ''//evil.example'', [])"
    and "url ''//evil.example'' = Some (''https://evil.example'', ''/'', [])"
  shows "safeNext url (Some ''/.//evil.example'') = Some ''//evil.example''
    \<and> safeNext url (safeNext url (Some ''/.//evil.example'')) = None"
  using assms by (simp add: safeNext_def LOGIN_PATH_def RESOLUTION_BASE_def)

text \<open>
  The login route awaits the digest between the limiter's check and its record. The requests in
  flight are a list: a request joins it when the check lets it through, and leaves it, its key
  tested and found wrong, when its failure is recorded.
\<close>

record login_server =
  ls_limiter :: login_limiter
  ls_inFlight :: "string list"
  ls_tested :: nat

inductive login_step :: "int \<Rightarrow> login_server \<Rightarrow> login_server \<Rightarrow> bool" for now where
  check_passed: "checkLogin (ls_limiter st) source now = (decision, limiter) \<Longrightarrow> ld_allowed decision \<Longrightarrow>
    login_step now st (st\<lparr> ls_limiter := limiter, ls_inFlight := source # ls_inFlight st \<rparr>)"
| failure_recorded: "ls_inFlight st = source # rest \<Longrightarrow>
    login_step now st (st\<lparr> ls_limiter := recordLoginFailure (ls_limiter st) source now, ls_inFlight := rest,
      ls_tested := ls_tested st + 1 \<rparr>)"

lemma checks_pile_up:
  "(login_step now)\<^sup>*\<^sup>* \<lparr> ls_limiter = createLoginLimiter, ls_inFlight = [], ls_tested = 0 \<rparr>
     \<lparr> ls_limiter = createLoginLimiter, ls_inFlight = replicate n source, ls_tested = 0 \<rparr>"
proof (induction n)
  case (Suc n)
  have "checkLogin createLoginLimiter source now = (allow_now, createLoginLimiter)"
    by (simp add: checkLogin_def createLoginLimiter_def new_FailureLimiter_def prune_def limiter_check_def allow_now_def Let_def)
  then have "login_step now \<lparr> ls_limiter = createLoginLimiter, ls_inFlight = replicate n source, ls_tested = 0 \<rparr>
     \<lparr> ls_limiter = createLoginLimiter, ls_inFlight = replicate (Suc n) source, ls_tested = 0 \<rparr>"
    using check_passed [of "\<lparr> ls_limiter = createLoginLimiter, ls_inFlight = replicate n source, ls_tested = 0 \<rparr>" source now
        allow_now createLoginLimiter] by (simp add: allow_now_def)
  then show ?case using Suc.IH by (rule rtranclp.rtrancl_into_rtrancl [rotated])
qed simp

lemma failures_drain:
  "\<exists>after. (login_step now)\<^sup>*\<^sup>* \<lparr> ls_limiter = limiter, ls_inFlight = sources, ls_tested = k \<rparr>
     \<lparr> ls_limiter = after, ls_inFlight = [], ls_tested = k + length sources \<rparr>"
proof (induction sources arbitrary: limiter k)
  case (Cons source rest)
  have "login_step now \<lparr> ls_limiter = limiter, ls_inFlight = source # rest, ls_tested = k \<rparr>
     \<lparr> ls_limiter = recordLoginFailure limiter source now, ls_inFlight = rest, ls_tested = k + 1 \<rparr>"
    using failure_recorded [of "\<lparr> ls_limiter = limiter, ls_inFlight = source # rest, ls_tested = k \<rparr>" source rest now]
    by simp
  then show ?case
    using Cons.IH [of "recordLoginFailure limiter source now" "k + 1"]
    by (auto intro: converse_rtranclp_into_rtranclp)
qed (auto intro: exI [of _ limiter])

lemma concurrent_logins_unlimited:
  "\<exists>after. (login_step now)\<^sup>*\<^sup>* \<lparr> ls_limiter = createLoginLimiter, ls_inFlight = [], ls_tested = 0 \<rparr>
     \<lparr> ls_limiter = after, ls_inFlight = [], ls_tested = n \<rparr>"
proof -
  obtain after where "(login_step now)\<^sup>*\<^sup>* \<lparr> ls_limiter = createLoginLimiter, ls_inFlight = replicate n ''a'', ls_tested = 0 \<rparr>
     \<lparr> ls_limiter = after, ls_inFlight = [], ls_tested = n \<rparr>"
    using failures_drain [of now createLoginLimiter "replicate n ''a''" 0] by auto
  then show ?thesis using checks_pile_up rtranclp_trans by metis
qed

chapter \<open>Reports\<close>

text \<open>
  Where the reports of the operator portal do not do what their comments say, on concrete inputs.
\<close>

section \<open>The probe\<close>

text \<open>
  \<open>toProbe\<close> of \<open>registry.ts\<close> says a column the driver could not read must not round off to "no
  problem". A null privilege compares unequal to \<open>true\<close>, so it reads as a privilege not held, and
  the database is cleared for reading.
\<close>

lemma unread_privileges_are_no_problem:
  "evaluateProbe ''salla'' (toProbe \<lparr> pw_read_only = Some True, pw_can_insert_orders = None,
     pw_can_read_credentials = None, pw_platforms = None \<rparr>) = []"
  by code_simp

section \<open>Stores that left\<close>

text \<open>
  \<open>store-health.ts\<close> says a store that has uninstalled is not unhealthy, so that the alert list does
  not fill with stores that are gone. Only the silence check asks whether the store is live: failed
  events, an unfinished backfill, low coverage and a failed payment still flag it and raise alerts.
\<close>

definition departed :: store_facts where
  "departed = \<lparr> sf_storeId = ''store:salla:1'', sf_installedAt = ''2025-01-01T00:00:00.000Z'',
     sf_uninstalledAt = Some ''2025-02-01T00:00:00.000Z'', sf_subscription = None, sf_coverage = None,
     sf_lastWebhookAt = None, sf_failedJobs = 5, sf_backfill = None, sf_ordersInPeriod = 0, sf_dashboardSession = None \<rparr>"

lemma departed_store_still_flagged:
  "healthFlags departed ''2025-03-01T00:00:00.000Z'' = [HF_jobs_failing]"
  "map al_kind (storeAlerts ''salla'' departed ''2025-03-01T00:00:00.000Z'') = [AK_failed_jobs]"
  by code_simp+

section \<open>The cap of an annual plan\<close>

text \<open>
  \<open>capUsage\<close> of \<open>presentation.ts\<close> says it cannot disagree with the merchant's usage banner. It
  divides a yearly cap by twelve and compares it with the orders of the whole period, which for an
  annual plan is a year: the portal calls a store over its cap that the merchant's banner, which
  compares with the yearly cap, shows at a ninth of it.
\<close>

definition annual_store :: store_summary where
  "annual_store = \<lparr> sm_storeId = ''store:salla:1'', sm_platformStoreId = ''1'', sm_currency = ''SAR'',
     sm_timezone = ''Asia/Riyadh'',
     sm_facts = departed\<lparr> sf_uninstalledAt := None, sf_failedJobs := 0, sf_ordersInPeriod := 400,
       sf_subscription := Some \<lparr> ps_storeId = ''store:salla:1'', ps_planCode = ''starter_annual'',
         ps_effectivePlanCode = ''starter_annual'', ps_status = ''active'',
         ps_currentPeriodStart = ''2025-01-01T00:00:00.000Z'', ps_currentPeriodEnd = ''2026-01-01T00:00:00.000Z'',
         ps_trialEndsAt = None, ps_lastReconciledAt = None, ps_pendingPlanCode = None \<rparr> \<rparr>,
     sm_health = \<lparr> sh_storeId = ''store:salla:1'', sh_flags = [], sh_healthy = True \<rparr>,
     sm_activation = activation_of departed \<rparr>"

lemma annual_store_shown_over_cap:
  "cu_overCap (capUsage annual_store)"
  "us_overCap (usageStatus 400 (case planOf ''starter_annual'' of None \<Rightarrow> None | Some p \<Rightarrow> plan_orderCap p)) = False"
  by code_simp+

section \<open>Today\<close>

text \<open>
  \<open>trailingDays\<close> of \<open>window.ts\<close> says the window includes today. Its days are UTC days and the
  business dates it selects are local: from nine in the evening, UTC, a store in Riyadh is in its
  next day already, which is the window's exclusive end. On 10 March 2025, 22:00 UTC:
\<close>

lemma evening_in_riyadh_left_out:
  "trailingDays COVERAGE_DAYS (moment ''2025-03-10T22:00:00.000Z'')
     = Inr \<lparr> dw_from = ''2025-02-09'', dw_to = ''2025-03-11'' \<rparr>
   \<and> toISOString (moment ''2025-03-10T22:00:00.000Z'' + 3 * 3600000) = Inr ''2025-03-11T01:00:00.000Z''"
  by code_simp

section \<open>An acknowledgement that does not show\<close>

text \<open>
  The acknowledge button refreshes the page once its request has been answered, but nothing drops the
  cached feed: for up to a minute the page is built from the feed of before the acknowledgement, in
  which the alert is not acknowledged, whatever the tables hold by then.
\<close>

lemma acknowledged_alert_still_shown:
  assumes "gc_ttlMs cache = DEFAULT_TTL_MS" and "getAlertFeed cache t (Inr before) = (Inr (CR_alerts before), cache')"
    and "gc_entries cache ''alerts'' = None" and "acknowledgeAlert key h note s acks = Inr (ack, acks')"
    and "now < t + 60000"
  shows "getAlertFeed cache' now computed = (Inr (CR_alerts before), cache')"
  using assms by (auto simp: getAlertFeed_def aggregate_read_def aggregate_hit_def aggregate_put_def as_report_def
      DEFAULT_TTL_MS_def)

chapter \<open>Provisioning\<close>

text \<open>
  The script ends with an insert as the read-only role, and is to fail when the insert goes through.
  The insert names the identifier of a store only, and other columns of \<open>stores\<close> are not null without a
  default. So it fails whatever the role may do, and the check never finds anything.
\<close>

lemma probe_insert_always_fails:
  "insert_row integration_schema now ''stores'' [(''id'', V_text ''provision-probe'')] db = Inl (Not_null_violation ''platform'')"
proof -
  have "case insert_row integration_schema now ''stores'' [(''id'', V_text ''provision-probe'')] db of
      Inl e \<Rightarrow> e = Not_null_violation ''platform'' | Inr _ \<Rightarrow> False"
    by code_simp
  then show ?thesis by (simp split: sum.splits)
qed

lemma boundary_never_missing:
  assumes "find_table (public_tables c integration) ''stores'' = Some stores_table"
  shows "fst (prove_outside integration now c) \<noteq> Some Boundary_missing"
proof -
  have "insert_row (public_tables c integration) now ''stores'' given db = insert_row integration_schema now ''stores'' given db"
    for given db
  proof -
    have "find_table integration_schema ''stores'' = Some stores_table"
      by (simp add: find_table_def integration_schema_def stores_table_def)
    then show ?thesis using assms by (simp add: insert_row_def)
  qed
  then show ?thesis by (simp add: prove_outside_def probe_insert_def probe_insert_always_fails Let_def)
qed

text \<open>
  The portal's database must be another than the integration's, the script says, and does not check it:
  given the integration's own name it hands the integration's tables to the role the portal writes with.
\<close>

definition one_database_env :: env where
  "one_database_env name = (if name = ''ADMIN_DATABASE_URL'' then Some ''postgres://postgres@db/railway''
     else if name = ''PORTAL_DATABASE_NAME'' then Some ''railway''
     else if name = ''OPS_RO_PASSWORD'' then Some ''0123456789abcdef01234567''
     else if name = ''PORTAL_OWNER_PASSWORD'' then Some ''abcdef0123456789abcdef01'' else None)"

definition one_database :: cluster where
  "one_database = \<lparr> cl_databases = [''postgres'', ''railway''], cl_dbOwner = (\<lambda>d. ''postgres''),
     cl_dbAccess = (\<lambda>r d. r = PUBLIC), cl_roles = [''postgres''], cl_login = (\<lambda>r. None),
     cl_schemas = (\<lambda>d. [(''public'', ''postgres'')]),
     cl_tables = (\<lambda>d. if d = ''railway'' then map (\<lambda>t. (''public'', t, ''postgres'')) integration_schema else []),
     cl_acl = (\<lambda>r t c p. False), cl_rows = (\<lambda>t. []) \<rparr>"

lemma integration_handed_over:
  "fst (provision one_database_env ''postgres'' ''railway'' 0 one_database) = None
   \<and> cl_tables (snd (provision one_database_env ''postgres'' ''railway'' 0 one_database)) ''railway''
       = map (\<lambda>t. (''public'', t, OWNER_ROLE)) integration_schema"
proof -
  have env: "provisionable one_database_env" by code_simp
  have db: "portal_db_name one_database_env = ''railway''" by code_simp
  have wf: "well_formed_db ''railway'' one_database"
    by (auto simp: well_formed_db_def has_schema_def one_database_def list_all_iff)
  have "public_tables one_database ''railway'' = integration_schema"
    by (simp add: public_tables_def one_database_def filter_map comp_def)
  then have "provision one_database_env ''postgres'' ''railway'' 0 one_database
      = (None, provisioned one_database_env ''postgres'' ''railway'' one_database)"
    using provision_ends [OF env, of one_database "''railway''" "''postgres''" 0] wf integration_grantable
    by (simp add: db) (simp add: one_database_def)
  then show ?thesis
    by (simp add: provisioned_fields separated_fields db taken_tables_def one_database_def handed_over_def comp_def)
qed

end
