(* ===== verification/Spec2Isabelle.thy ===== *)
theory Spec2Isabelle
  imports MoneyProperties EngineProperties BillingProperties StorageProperties ServiceProperties OpsProperties ReportProperties SchemaProperties SchemaChecks Divergences StorageDivergences PortalDivergences
begin

text \<open>
  A model of ghalla: the profit engine that turns one order into a contribution margin per order and
  per SKU, the money and time types it rests on, the billing rules that decide what a store may see,
  the tables and services that keep both, and the operator portal that reads them. Every definition
  follows the TypeScript source under \<open>packages/\<close> (\<open>contracts\<close>, \<open>core\<close>, \<open>billing\<close>, \<open>persistence\<close>,
  \<open>ports\<close>), \<open>apps/ghalla-salla\<close> and \<open>apps/ghalla-ops\<close>.

  The program. A platform adapter reports orders, shipments, payments and refunds as canonical
  objects. \<open>computeOrderProfit\<close> is a pure function of these, the merchant's costs and rate card:
  \<open>normalizeAndValidate\<close> is the gate, then recognition, revenue, cost of goods, outbound and
  return shipping, gateway fees, cash on delivery and reversals are computed as terms, the
  order-level amounts are pushed down onto the lines by one allocator, and every number carries the
  basis it rests on. The result is saved to an order row, line rows and dirty marks on daily
  roll-ups. All tables are declared in one schema, which the constraints of the repositories come from.
  Webhooks wait in a table that concurrent workers claim from. Billing keeps one row per
  store, moved by webhooks that arrive in any order and by a nightly pull, and derives the plan in
  effect, the access and the usage from it. The operator portal reads the databases of all
  integrations behind one access key: it checks each connection before reading, merges the answers
  and raises alerts that an operator can acknowledge. A script creates its database and the role it
  reads with.

  The engine, in the order of the calls.
  \<^item> \<open>Prelude\<close>: results of a computation that may throw (\<open>js_error + 'a\<close>), maps and loops over
    them, sums over keyed lists, the rewrite collection \<open>outcome_simps\<close>.
  \<^item> \<open>Doubles\<close>: the JavaScript numbers the code inspects, safe integers, and the rounding of a
    quotient to a double, written out; \<open>floor_fl_ratio_exact\<close> shows when the floor of a rounded
    quotient is the integer quotient.
  \<^item> \<open>Money\<close>, \<open>Decimals\<close>: \<open>contracts/money.ts\<close>, \<open>core/money.ts\<close> and decimal texts.
    \<open>Allocation\<close>: \<open>allocateMinor\<close>, and the locale \<open>allocator\<close>, the contract the lines rely on,
    interpreted as \<open>largest_remainder\<close>.
  \<^item> \<open>Time\<close>: instants, dates and the business date (\<open>contracts/time.ts\<close>,
    \<open>engine/business-date.ts\<close>). \<open>Ids\<close>: \<open>contracts/ids.ts\<close>.
  \<^item> \<open>Domain\<close>: the enumerations and records of \<open>contracts\<close> and the inputs of \<open>core\<close>; numbers the
    validator checks are over a type parameter, \<open>js_number\<close> before and \<open>int\<close> after validation.
  \<^item> \<open>Diagnostics\<close>, \<open>Normalize\<close>, \<open>Confidence\<close> (with \<open>recognition.ts\<close>), \<open>Revenue\<close>, \<open>Cogs\<close>, \<open>Fees\<close>,
    \<open>Gateway\<close>, \<open>Cod\<close>, \<open>Shipping\<close>, \<open>Reversal\<close>, \<open>Lines\<close>: one per file of \<open>core/src/engine\<close>.
    \<open>RuleSearch\<close> is the search the three rate cards share, with the locale
    \<open>specificity_search\<close>, interpreted for each of them. \<open>ReversalBooks\<close> shows that a reversal's
    money reaches the lines.
  \<^item> \<open>Profit\<close>: \<open>compute-order-profit.ts\<close> and \<open>result.ts\<close>. \<open>ProfitFacts\<close>, \<open>ProfitBounds\<close> and
    \<open>LineBounds\<close> put the lemmas of the terms together.

  Billing and storage.
  \<^item> \<open>Plans\<close>, \<open>Subscriptions\<close>, \<open>Access\<close>, \<open>Usage\<close>, \<open>PlanCatalog\<close>: the files of
    \<open>billing/src\<close>. \<open>Subscriptions\<close> has the locale \<open>event_log\<close>, the contract of a row that ignores late
    events, and interprets it for the subscription row; \<open>Usage\<close> has the locale \<open>ttl_cache\<close> of a cache with a time to live;
    \<open>IsoDates\<close> is the date arithmetic of \<open>seedSubscription\<close>.
  \<^item> \<open>DateCodec\<close>, \<open>Columns\<close>: what goes into a column and comes back (\<open>persistence/src/db\<close>).
    \<open>Tables\<close>: rows with a key as lists, inserting, updating and upserting; its locale
    \<open>keyed_store\<close> is interpreted for the results table.
  \<^item> \<open>WebhookQueue\<close> is the queue of webhooks, each statement of the repository one step, and a
    relation of concurrent workers; \<open>QueueFacts\<close> proves its invariant by rule induction.
    \<open>CostHistory\<close>, \<open>ProfitStore\<close> with \<open>ProfitStoreFacts\<close>, \<open>SubscriptionStore\<close>: the other
    repositories, with the constraints of \<open>schema.ts\<close> they rely on.
  \<^item> \<open>Sql\<close>, \<open>SqlFacts\<close>: tables as data, with column types, CHECK expressions over three truth values,
    keys and references, and inserts, deletions with their cascades and truncations. A deletion is one
    pass over the tables, which suffices because a reference goes to a table declared before;
    \<open>delete_takes_doomed\<close> relates it to the inductive reading. \<open>Schema\<close> is \<open>db/schema.ts\<close> and the
    portal's \<open>lib/db/portal-schema.ts\<close>, table by table; \<open>SchemaFacts\<close> shows both sound, says what
    belongs to a store (\<open>belongs\<close>) without the foreign keys, and shows that their cascades take
    exactly that. No command of the repository deletes a store.
  \<^item> \<open>SchemaChecks\<close>: the conditions the repositories' theories write as formulas are the declared
    CHECKs, and rate cards as rows beside the engine's validator, with the keys as each of the two
    tells them apart.
  \<^item> \<open>ReleaseCycle\<close>: the scripts \<open>db/clear.ts\<close> and \<open>db/seeds/demo-store.ts\<close>, and the reading of the
    seeded orders in \<open>persistence/test/seed-and-clear.test.ts\<close>.
  \<^item> \<open>BillingService\<close>, \<open>BillingServiceFacts\<close>: the services of \<open>ghalla-salla/src/billing\<close>.
    \<open>BillingSpec\<close> says what a subscription is after a stream of events and after a sweep (\<open>expected_all\<close>,
    \<open>as_told\<close>) without the functions of the code, and shows that the services do this.
  \<^item> \<open>SallaRequests\<close>: the entitlements guard, the check of the plan catalogue from start-up on
    (\<open>catalog_run\<close>), the migration state, the health route a deploy waits for and the log's choices.

  The operator portal.
  \<^item> \<open>LoginLimiter\<close>: the failure limiter (\<open>lib/auth/rate-limit.ts\<close>). \<open>TextCodec\<close>: UTF-8,
    \<open>encodeURIComponent\<close> and base64. \<open>OpsAuth\<close>, \<open>OpsAuthFacts\<close>: access key, signed sessions,
    guard, middleware and the login and logout routes.
  \<^item> \<open>OpsConfig\<close>: the platforms in the environment. \<open>Platforms\<close>, \<open>PlatformFacts\<close>: error texts, the
    fan-out, the registry with its checks, health; \<open>portal_registry\<close> are the registries reachable
    by any checks. \<open>OpsActions\<close>: \<open>lib/cache.ts\<close>, a second interpretation of \<open>ttl_cache\<close>, the acknowledge action and the
    cached accessors.
  \<^item> \<open>OpsQueries\<close> (with \<open>Math.round\<close> of a quotient), \<open>StoreHealth\<close>, \<open>OpsReports\<close>: \<open>lib/queries\<close> and the
    acknowledgements; a query is a function of the tables of one platform, a report merges the
    answers of all. \<open>QueryFacts\<close> and \<open>PortalFacts\<close> hold their lemmas; \<open>AlertSpec\<close> says which alerts are due
    (\<open>platform_alerts\<close>) without the functions of the feed.
  \<^item> \<open>Presentation\<close>: how rows read (\<open>lib/ui\<close>).
  \<^item> \<open>Provisioning\<close>: \<open>scripts/provision.mjs\<close> over a cluster of databases, roles and owners, the role
    file \<open>sql/ghalla_ops_ro.sql\<close> over table and column privileges, and the columns the queries name.
    What the file names is looked up among the tables the integration's database holds, so that
    an unmigrated one fails the script; \<open>provision_ends\<close> gives both ends.

  The properties are in \<open>MoneyProperties\<close>, \<open>EngineProperties\<close>, \<open>BillingProperties\<close>,
  \<open>StorageProperties\<close>, \<open>ServiceProperties\<close>, \<open>SchemaProperties\<close>, \<open>OpsProperties\<close>,
  \<open>PortalProperties\<close>, \<open>ReportProperties\<close> and this theory; \<open>Sample\<close> holds the orders they are evaluated on.
  \<open>Divergences\<close>, \<open>StorageDivergences\<close> and \<open>PortalDivergences\<close> hold the inputs
  on which the code departs from its comments.

  How the code is rendered. A union of literals is a datatype, an interface a record, \<open>null\<close> is
  \<open>None\<close>. Exceptions are the left summand of an \<open>outcome\<close>, and the handler of \<open>computeOrderProfit\<close>
  maps them to codes as the code does. A loop that pushes onto arrays is a fold over a record of
  those arrays. A JavaScript \<open>Map\<close> is a function to options, or a list of pairs where its order is
  observed. A table is a list of rows; a statement that fails a constraint is an error and changes
  nothing. Money is an integer: it is bounded by \<open>MAX_MINOR\<close>, far inside the safe range, and sums,
  products and quotients of it are guarded by the kernel, so the doubles are exact; where they are
  not (a proration product, a percentage, an annual price by month) the rounding of doubles is
  modelled. The constant-time comparison runs on 32-bit words. Strings are lists of 8-bit
  characters, compared lexicographically as JavaScript compares code units; where bytes matter they
  are encoded as UTF-8.

  Loops and bounds. The restock loop is a function with a measure, so it ends. Following the pages
  of the store list takes fuel, and one more than the number of stores is enough
  (\<open>pages_show_every_store\<close>). A ratio of counts rounds exactly below two to the fifty-two. Byte
  arrays are shorter than two to the thirty-two, as the platform bounds them.

  Parameters. The zone database behind \<open>Intl.DateTimeFormat\<close> (\<open>intl\<close>); HMAC and SHA-256, of which
  only the length of their result is used; the JSON codec, which must read back the session it wrote;
  the URL parser; the environment; what a database answers to a probe, a ping or a query; the
  collation behind \<open>localeCompare\<close>; random bytes.

  Not modelled. The validation schemas (\<open>packages/schemas\<close>) and the request parameters of the portal,
  over a library that is not in the repository; connection pools, the migrator and fixtures; UPDATE
  statements over the declared tables beyond those of the repositories; the preparation of the text of
  the role file; reading of the environment of the Salla process; pages and components; formatting
  through \<open>Intl\<close>; metrics, log lines and the logging library; compile-time privacy checks; most error
  texts; \<open>toMinorFromFloat\<close>, whose argument is an arbitrary double. A report that fails keeps none of
  the checks it has made; in the code they stay cached, which only saves probes.

  Departures found, each a lemma on a concrete input.
  \<^item> Engine and billing (\<open>Divergences\<close>, \<open>Usage\<close>): \<open>unknown_scheme_underpriced\<close>, \<open>restock_credit_lost\<close>,
    \<open>restocked_exceeds_shipped\<close>, \<open>overclaimed_refund_booked\<close>, \<open>itemless_refund_dropped\<close>,
    \<open>silent_notice_cancels_downgrade\<close>, \<open>reconciled_plan_masked\<close>, \<open>percent_used_low\<close>.
  \<^item> Storage and services (\<open>StorageDivergences\<close>): \<open>retry_span\<close>, \<open>processed_event_requeued\<close>, a stale
    failure after another claim, joined variant keys, roll-ups a rejection leaves behind, a margin
    ratio wider than its column, a rejection without an order, the lifted refresh throttle and
    concurrent events; rate cards the schema admits and the engine refuses (\<open>negative_floor_admitted\<close>,
    \<open>large_fee_admitted\<close>, \<open>empty_provider_admitted\<close>).
  \<^item> Requests and deploys (\<open>StorageDivergences\<close>): \<open>refusal_shows_a_code\<close>, \<open>refusal_names_no_plan\<close>,
    \<open>unreadable_journal_is_compared\<close>.
  \<^item> Portal (\<open>PortalDivergences\<close>): \<open>safeNext_may_leave_site\<close>,
    \<open>concurrent_logins_unlimited\<close>, \<open>unread_privileges_are_no_problem\<close>,
    \<open>departed_store_still_flagged\<close>, \<open>annual_store_shown_over_cap\<close>, \<open>evening_in_riyadh_left_out\<close>,
    \<open>acknowledged_alert_still_shown\<close>, \<open>probe_insert_always_fails\<close> and \<open>boundary_never_missing\<close>,
    \<open>integration_handed_over\<close>.
\<close>

section \<open>The order as a whole\<close>

text \<open>
  C1. The lines of a computed order tie to its totals exactly, column by column: the margins of the
  SKUs add up to the margin of the order, and so do the cost of goods, both freights, the gateway
  fee, the cash handling charge and the reversal impact. There is no rounding residue anywhere.
\<close>

theorem lines_tie_to_totals:
  assumes "computeOrderProfit intl input = Computed c" and "opc_lines c \<noteq> []"
  shows "(\<Sum>l\<leftarrow>opc_lines c. pl_contributionMarginMinor l) = opt_contributionMarginMinor (opc_totals c)
    \<and> (\<Sum>l\<leftarrow>opc_lines c. pl_cogsMinor l) = opt_cogsMinor (opc_totals c)
    \<and> (\<Sum>l\<leftarrow>opc_lines c. pl_allocatedOutboundShippingMinor l) = opt_outboundShippingCostMinor (opc_totals c)
    \<and> (\<Sum>l\<leftarrow>opc_lines c. pl_allocatedReturnShippingMinor l) = opt_returnShippingCostMinor (opc_totals c)
    \<and> (\<Sum>l\<leftarrow>opc_lines c. pl_allocatedGatewayFeeMinor l) = opt_gatewayFeeCostMinor (opc_totals c)
    \<and> (\<Sum>l\<leftarrow>opc_lines c. pl_allocatedCodCostMinor l) = opt_codCostMinor (opc_totals c)
    \<and> (\<Sum>l\<leftarrow>opc_lines c. pl_reversalImpactMinor l) = opt_reversalImpactMinor (opc_totals c)"
proof -
  obtain inp order store frs where w: "well_formed inp" "in_order inp = Some order"
    and n: "compute_normalized intl (normalized_of inp order) store (int_fee_rule_set frs) = Inr c"
    using computeOrderProfit_Computed [OF assms(1)] by metis
  note tie = compute_normalized_tie [OF n normalized_items(1) [OF w] assms(2)]
  show ?thesis by (intro conjI) (fact tie)+
qed

theorem lines_tie_to_totals_witness:
  "(\<Sum>l\<leftarrow>opc_lines (computed_of sample_input). pl_contributionMarginMinor l) = 4904"
proof -
  have "opc_lines (computed_of sample_input) \<noteq> []" using sample_facts by auto
  then show ?thesis using lines_tie_to_totals [OF sample_computed] sample_facts by (simp add: sample_totals_def)
qed

text \<open>
  C2. The formula: revenue is items plus shipping plus cash-on-delivery fee minus discounts, the
  reversal impact is restocked cost minus reversed revenue, and the margin is revenue minus every
  cost plus the reversal impact.
\<close>

theorem margin_formula:
  assumes "computeOrderProfit intl input = Computed c" and "t = opc_totals c"
  shows "opt_revenueExVatMinor t = opt_itemsRevenueExVatMinor t + opt_shippingRevenueExVatMinor t
      + opt_codFeeRevenueExVatMinor t - opt_orderDiscountExVatMinor t
    \<and> opt_reversalImpactMinor t = opt_restockedCogsMinor t - opt_reversedRevenueExVatMinor t
    \<and> opt_contributionMarginMinor t = opt_revenueExVatMinor t - opt_cogsMinor t
      - opt_outboundShippingCostMinor t - opt_returnShippingCostMinor t - opt_gatewayFeeCostMinor t
      - opt_codCostMinor t + opt_reversalImpactMinor t"
proof -
  obtain inp order n store frs u ds margin bps covered where
    u: "compute_terms n store (int_fee_rule_set frs) (opc_recognition c) = Inr (u, ds)"
    and m: "contribution_margin (opc_recognition c) u = Inr margin"
    and tot: "t = order_totals (opc_recognition c) u margin bps covered"
    unfolding assms(2) by (rule computed_terms [OF assms(1)]) blast
  obtain d1 where r: "computeRevenue (norm_order n) (norm_items n) (opc_recognition c) = Inr (ot_revenue u, d1)"
    by (rule compute_terms_cases [OF u]) blast
  have impact: "ri_impactMinor (ot_reversal u) = ri_restockedCogsMinor (ot_reversal u)
      - ri_reversedRevenueExVatMinor (ot_reversal u)"
    by (rule impact_ok_split [OF terms_ids(4) [OF u]])
  show ?thesis
    using computeRevenue_identity(1) [OF r] contribution_margin_Inr(1) [OF m] impact
    by (simp add: tot unless_excluded_def)
qed

theorem margin_formula_witness:
  "opc_totals (computed_of sample_input) = sample_totals
   \<and> opt_contributionMarginMinor sample_totals = 17000 - 7000 - 1800 - 0 - 296 - 0 + (- 3000)"
  using margin_formula [OF sample_computed refl] sample_facts by (simp add: sample_totals_def)

text \<open>
  C3. A result is either computed, and then all its diagnostics are warnings, or rejected, and then
  it says why: at least one diagnostic, all of them fatal. Every input gets one of the two, an
  exception of any step included.
\<close>

theorem diagnostics_match_status:
  "case computeOrderProfit intl input of
     Computed c \<Rightarrow> \<forall>s \<in> set (map diag_severity (opc_diagnostics c)). s = Warning
   | Rejected r \<Rightarrow> opr_diagnostics r \<noteq> [] \<and> (\<forall>s \<in> set (map diag_severity (opr_diagnostics r)). s = Fatal)"
  using computed_warnings [of intl input] rejected_fatal [of intl input]
  by (auto simp: all_warnings_def all_fatal_def split: order_profit_result.split)

theorem diagnostics_match_status_witness:
  "\<exists>r. computeOrderProfit riyadh (Some foreign_input) = Rejected r
     \<and> opr_diagnostics r \<noteq> [] \<and> diag_severity (hd (opr_diagnostics r)) = Fatal"
proof -
  have "case computeOrderProfit riyadh (Some foreign_input) of Computed c \<Rightarrow> False | Rejected r \<Rightarrow> True"
    by code_simp
  then show ?thesis
    using diagnostics_match_status [of riyadh "Some foreign_input"]
    by (auto split: order_profit_result.splits)
qed

text \<open>
  C4. The result does not depend on the order in which the items, shipments and reversals of an
  accepted input arrive: two inputs with the same parts get the same result, every line and
  diagnostic included.
\<close>

theorem arrival_order_irrelevant:
  assumes "same_parts a b" and "well_formed a"
  shows "computeOrderProfit intl (Some a) = computeOrderProfit intl (Some b)"
  by (rule computeOrderProfit_same_parts [OF assms])

theorem arrival_order_irrelevant_witness:
  "computeOrderProfit riyadh (Some sample_input) = computeOrderProfit riyadh (Some reordered_input)
   \<and> in_items sample_input \<noteq> in_items reordered_input"
proof -
  have "same_parts sample_input reordered_input"
    by (simp add: same_parts_def sample_input_def reordered_input_def or_nil_def)
  moreover have "well_formed sample_input" by code_simp
  ultimately have "computeOrderProfit riyadh (Some sample_input) = computeOrderProfit riyadh (Some reordered_input)"
    by (rule arrival_order_irrelevant)
  moreover have "in_items sample_input \<noteq> in_items reordered_input" by code_simp
  ultimately show ?thesis by simp
qed

text \<open>
  C5. The validator accepts exactly the well-formed inputs: store, order and rule set present with
  one known currency, a real timestamp, safe integer amounts, quantities that are not negative,
  every part belonging to the order, no identifier, cost key or rule key twice. What it accepts it
  passes on unchanged, sorted by line, shipment and reversal identifier; what it refuses is
  rejected.
\<close>

theorem validator_accepts_well_formed:
  "(fst (normalizeAndValidate input) \<noteq> None \<longleftrightarrow> (\<exists>inp. input = Some inp \<and> well_formed inp))
   \<and> (\<forall>n. fst (normalizeAndValidate input) = Some n \<longrightarrow>
        (\<exists>inp order. input = Some inp \<and> in_order inp = Some order \<and> n = normalized_of inp order))
   \<and> ((\<exists>c. computeOrderProfit intl input = Computed c) \<longrightarrow> (\<exists>inp. input = Some inp \<and> well_formed inp))"
proof (intro conjI allI impI)
  show iff: "fst (normalizeAndValidate input) \<noteq> None \<longleftrightarrow> (\<exists>inp. input = Some inp \<and> well_formed inp)"
    by (rule normalizeAndValidate_iff)
  fix n
  assume n: "fst (normalizeAndValidate input) = Some n"
  then obtain inp where i: "input = Some inp" "well_formed inp" using iff by auto
  then obtain order where o: "in_order inp = Some order" by (auto simp: well_formed_def split: option.splits)
  then show "\<exists>inp order. input = Some inp \<and> in_order inp = Some order \<and> n = normalized_of inp order"
    using normalizeAndValidate_accepts [OF o i(2)] i(1) n by auto
next
  assume "\<exists>c. computeOrderProfit intl input = Computed c"
  then show "\<exists>inp. input = Some inp \<and> well_formed inp" by (metis computeOrderProfit_Computed)
qed

theorem validator_accepts_well_formed_witness:
  "fst (normalizeAndValidate (Some sample_input)) \<noteq> None \<and> fst (normalizeAndValidate (Some foreign_input)) = None"
proof -
  have "well_formed sample_input" and "\<not> well_formed foreign_input" by code_simp+
  then show ?thesis
    using validator_accepts_well_formed [of "Some sample_input" riyadh]
      validator_accepts_well_formed [of "Some foreign_input" riyadh] by auto
qed

text \<open>
  C21. No order gets back more goods than it shipped: when no unit cost is negative, the restocked
  cost of goods is between zero and the cost of goods.
\<close>

theorem restocked_at_most_shipped:
  assumes "computeOrderProfit intl (Some inp) = Computed c" and "costs_nonneg inp"
  shows "0 \<le> opt_restockedCogsMinor (opc_totals c)
    \<and> opt_restockedCogsMinor (opc_totals c) \<le> opt_cogsMinor (opc_totals c)"
proof -
  obtain inp' order n store frs u ds margin bps covered where
    i: "Some inp = Some inp'" "well_formed inp'" "in_order inp' = Some order" "n = normalized_of inp' order"
    and u: "compute_terms n store (int_fee_rule_set frs) (opc_recognition c) = Inr (u, ds)"
    and tot: "opc_totals c = order_totals (opc_recognition c) u margin bps covered"
    by (rule computed_terms [OF assms(1)]) blast
  have "0 \<le> ri_restockedCogsMinor (ot_reversal u) \<and> ri_restockedCogsMinor (ot_reversal u) \<le> ocogs_cogsMinor (ot_cogs u)"
    using restocked_bounds [OF u] normalized_items [OF i(2,3)] normalized_costs_nonneg [of inp] assms(2) i(1,4)
    by simp
  then show ?thesis by (simp add: tot unless_excluded_def)
qed

theorem restocked_at_most_shipped_witness:
  "0 \<le> opt_restockedCogsMinor (opc_totals (computed_of sample_input))
   \<and> opt_restockedCogsMinor (opc_totals (computed_of sample_input)) \<le> opt_cogsMinor (opc_totals (computed_of sample_input))"
proof -
  have "costs_nonneg sample_input" by code_simp
  then show ?thesis by (rule restocked_at_most_shipped [OF sample_computed])
qed

text \<open>
  An excluded order contributes nothing: no lines, no revenue, no cost of goods, no margin and
  no ratio, whatever it carries. An order that is costed but not recognised has no revenue.
\<close>

theorem unrecognized_earns_nothing:
  assumes "computeOrderProfit intl input = Computed c" and "opc_recognition c \<noteq> Recognized"
  shows "opt_revenueExVatMinor (opc_totals c) = 0 \<and> opt_marginBps (opc_totals c) = None
    \<and> (isExcluded (opc_recognition c) \<longrightarrow> opc_lines c = [] \<and> opt_cogsMinor (opc_totals c) = 0
        \<and> opt_reversalImpactMinor (opc_totals c) = 0 \<and> opt_contributionMarginMinor (opc_totals c) = 0)"
proof -
  obtain n store frs u ds margin bps covered where
    u: "compute_terms n store (int_fee_rule_set frs) (opc_recognition c) = Inr (u, ds)"
    and b: "marginBpsOf margin (orev_revenueExVatMinor (ot_revenue u)) = Inr bps"
    and tot: "opc_totals c = order_totals (opc_recognition c) u margin bps covered"
    by (rule computed_terms [OF assms(1)]) blast
  obtain d1 where r: "computeRevenue (norm_order n) (norm_items n) (opc_recognition c) = Inr (ot_revenue u, d1)"
    by (rule compute_terms_cases [OF u]) blast
  have "orev_revenueExVatMinor (ot_revenue u) = 0" using computeRevenue_zero [OF r assms(2)] by simp
  then show ?thesis using b computed_excluded [OF assms(1)] by (simp add: tot marginBpsOf_def)
qed

theorem unrecognized_earns_nothing_witness:
  "opc_lines (computed_of test_input) = [] \<and> opt_contributionMarginMinor (opc_totals (computed_of test_input)) = 0"
  using unrecognized_earns_nothing [OF test_computed] test_recognition by simp

text \<open>
  An order that is not excluded has one line for every item, in the order of the platform's line
  identifiers.
\<close>

theorem one_line_per_item:
  assumes "computeOrderProfit intl (Some inp) = Computed c" and "\<not> isExcluded (opc_recognition c)"
  shows "map pl_orderItemId (opc_lines c) = map item_id (sort_key item_platformLineId (or_nil (in_items inp)))"
  by (rule computed_line_ids [OF assms])

theorem one_line_per_item_witness:
  "map item_id (sort_key item_platformLineId (or_nil (in_items sample_input))) = [''salla:1:9:a'', ''salla:1:9:b'']"
  using one_line_per_item [OF sample_computed] sample_facts by simp

text \<open>
  An item that no cost row answers for keeps the order out of the ranking of loss-makers: the
  cost term is published as missing and the whole result as incomplete.
\<close>

theorem uncosted_never_ranked:
  assumes "computeOrderProfit intl (Some inp) = Computed c" and "i \<in> set (or_nil (in_items inp))"
    and "uncosted (or_nil (in_costs inp)) i"
  shows "\<not> isRankableForLossMaker (Computed c)
    \<and> (\<not> isExcluded (opc_recognition c) \<longrightarrow> conf_cogs (opc_confidence c) = TB_missing)"
  using computed_uncosted [OF assms] by (auto simp: isRankableForLossMaker_def)

theorem uncosted_never_ranked_witness:
  "\<not> isRankableForLossMaker (Computed (computed_of uncosted_input))
   \<and> conf_cogs (opc_confidence (computed_of uncosted_input)) = TB_missing"
proof -
  have "sample_item ''a'' 2 5000 \<in> set (or_nil (in_items uncosted_input))"
    by (simp add: uncosted_input_def sample_input_def or_nil_def)
  moreover have "uncosted (or_nil (in_costs uncosted_input)) (sample_item ''a'' 2 5000)" by code_simp
  ultimately show ?thesis using uncosted_never_ranked [OF uncosted_computed] uncosted_recognition by simp
qed

text \<open>
  Every money field of the totals of a computed result is an amount within the kernel's range,
  hence a safe integer.
\<close>

theorem totals_in_money_range:
  assumes "computeOrderProfit intl input = Computed c"
  shows "\<forall>v \<in> set (totals_money (opc_totals c)). - MAX_MINOR \<le> v \<and> v \<le> MAX_MINOR \<and> safe_int v"
  using computed_money_range [OF assms] by (auto simp: list_all_iff in_range_iff MAX_MINOR_def safe_int_iff)

theorem totals_in_money_range_witness:
  "safe_int (opt_contributionMarginMinor (opc_totals (computed_of sample_input)))
   \<and> opt_contributionMarginMinor (opc_totals (computed_of sample_input)) \<le> MAX_MINOR"
proof -
  have "opt_contributionMarginMinor (opc_totals (computed_of sample_input))
      \<in> set (totals_money (opc_totals (computed_of sample_input)))" by (simp add: totals_money_def)
  then show ?thesis using totals_in_money_range [OF sample_computed] by blast
qed

end
